(* ===== verification/Mepa_Prelude.thy ===== *)
theory Mepa_Prelude
  imports "HOL-Library.Word" "HOL-Library.State_Monad"
begin

text \<open>
  The prelude of the development: the state monad in which the C functions are
  written, a weakest-precondition calculus for it, the rules that show that an
  operation keeps an invariant, and the lemmas on machine words that the
  components share.

  A C function is a value of the type \<open>('s, 'a) state\<close> of the library: it maps
  the state of the program to a result and the next state.  Out-parameters are
  part of the result.  The model of a C function is total and deterministic:
  everything that the C code does not determine (what a callout answers, what
  a clock reads) comes out of the state.
\<close>

unbundle bit_operations_syntax

named_theorems wp_simps \<open>equations that push \<open>wp\<close> through the monad\<close>
named_theorems wp_rules \<open>introduction rules for \<open>wp\<close> of a component's operations\<close>
named_theorems keeps_rules \<open>operations that keep an invariant\<close>

section \<open>Reading and updating the state\<close>

definition gets :: "('s \<Rightarrow> 'a) \<Rightarrow> ('s, 'a) state" where
  "gets f = State (\<lambda>s. (f s, s))"

definition change :: "('s \<Rightarrow> 's) \<Rightarrow> ('s, unit) state" where
  "change f = State (\<lambda>s. ((), f s))"

definition exec :: "('s, 'a) state \<Rightarrow> 's \<Rightarrow> 's" where
  "exec m s = snd (run_state m s)"

definition val :: "('s, 'a) state \<Rightarrow> 's \<Rightarrow> 'a" where
  "val m s = fst (run_state m s)"

lemma run_state_gets [simp]: "run_state (gets f) s = (f s, s)"
  by (simp add: gets_def)

lemma run_state_change [simp]: "run_state (change f) s = ((), f s)"
  by (simp add: change_def)

lemma run_state_eq: "run_state m s = (val m s, exec m s)"
  by (simp add: val_def exec_def)

lemma exec_bind [simp]: "exec (State_Monad.bind m f) s = exec (f (val m s)) (exec m s)"
  by (simp add: exec_def val_def State_Monad.bind_def split: prod.split)

lemma val_bind [simp]: "val (State_Monad.bind m f) s = val (f (val m s)) (exec m s)"
  by (simp add: exec_def val_def State_Monad.bind_def split: prod.split)

lemma exec_simps [simp]:
  "exec (State_Monad.return x) s = s"
  "exec (gets f) s = s"
  "exec (change g) s = g s"
  by (simp_all add: exec_def)

lemma val_simps [simp]:
  "val (State_Monad.return x) s = x"
  "val (gets f) s = f s"
  "val (change g) s = ()"
  by (simp_all add: val_def)

section \<open>Weakest preconditions\<close>

text \<open>
  \<open>wp m Q s\<close> holds when \<open>m\<close>, run in \<open>s\<close>, ends with a result and a state
  that satisfy \<open>Q\<close>.  The monad is total and deterministic, so this is both the
  weakest precondition and the weakest liberal precondition.
\<close>

definition wp :: "('s, 'a) state \<Rightarrow> ('a \<Rightarrow> 's \<Rightarrow> bool) \<Rightarrow> 's \<Rightarrow> bool" where
  "wp m Q s = Q (val m s) (exec m s)"

lemma wp_return [wp_simps]: "wp (State_Monad.return x) Q s = Q x s"
  by (simp add: wp_def)

lemma wp_bind [wp_simps]: "wp (State_Monad.bind m f) Q s = wp m (\<lambda>x. wp (f x) Q) s"
  by (simp add: wp_def)

lemma wp_gets [wp_simps]: "wp (gets f) Q s = Q (f s) s"
  by (simp add: wp_def)

lemma wp_change [wp_simps]: "wp (change f) Q s = Q () (f s)"
  by (simp add: wp_def)

lemma wp_if [wp_simps]:
  "wp (if b then m else n) Q s = (if b then wp m Q s else wp n Q s)"
  by simp

lemma wp_mono: "wp m Q s \<Longrightarrow> (\<And>x t. Q x t \<Longrightarrow> R x t) \<Longrightarrow> wp m R s"
  by (simp add: wp_def)

lemma wp_run: "wp m Q s \<Longrightarrow> run_state m s = (x, t) \<Longrightarrow> Q x t"
  by (simp add: wp_def val_def exec_def)

lemma wpI_run: "(\<And>x t. run_state m s = (x, t) \<Longrightarrow> Q x t) \<Longrightarrow> wp m Q s"
  by (simp add: wp_def val_def exec_def)

lemma wp_conj: "wp m (\<lambda>x t. P x t \<and> Q x t) s = (wp m P s \<and> wp m Q s)"
  by (simp add: wp_def)

section \<open>Keeping an invariant\<close>

text \<open>
  \<open>keeps I m\<close>: run in a state where \<open>I\<close> holds, \<open>m\<close> ends in one where \<open>I\<close>
  holds, whatever its result.  \<open>moves P m Q\<close> is the same with two predicates;
  the lock protocol needs it.
\<close>

definition moves :: "('s \<Rightarrow> bool) \<Rightarrow> ('s, 'a) state \<Rightarrow> ('s \<Rightarrow> bool) \<Rightarrow> bool" where
  "moves P m Q = (\<forall>s. P s \<longrightarrow> Q (exec m s))"

abbreviation keeps :: "('s \<Rightarrow> bool) \<Rightarrow> ('s, 'a) state \<Rightarrow> bool" where
  "keeps I m \<equiv> moves I m I"

lemma movesI: "(\<And>s. P s \<Longrightarrow> Q (exec m s)) \<Longrightarrow> moves P m Q"
  by (simp add: moves_def)

lemma movesD: "moves P m Q \<Longrightarrow> P s \<Longrightarrow> Q (exec m s)"
  by (simp add: moves_def)

lemma moves_bind: "moves P m Q \<Longrightarrow> (\<And>x. moves Q (f x) R) \<Longrightarrow> moves P (State_Monad.bind m f) R"
  by (simp add: moves_def)

lemma keeps_bind [keeps_rules]:
  "keeps I m \<Longrightarrow> (\<And>x. keeps I (f x)) \<Longrightarrow> keeps I (State_Monad.bind m f)"
  by (rule moves_bind)

lemma keeps_return [keeps_rules]: "keeps I (State_Monad.return x)"
  by (simp add: moves_def)

lemma keeps_gets [keeps_rules]: "keeps I (gets f)"
  by (simp add: moves_def)

lemma moves_if: "(b \<Longrightarrow> moves P m Q) \<Longrightarrow> (\<not> b \<Longrightarrow> moves P n Q) \<Longrightarrow> moves P (if b then m else n) Q"
  by simp

lemma keeps_if [keeps_rules]:
  "(b \<Longrightarrow> keeps I m) \<Longrightarrow> (\<not> b \<Longrightarrow> keeps I n) \<Longrightarrow> keeps I (if b then m else n)"
  by simp

lemma keeps_let [keeps_rules]: "(\<And>x. keeps I (f x)) \<Longrightarrow> keeps I (Let v f)"
  by simp

lemma keeps_case_prod [keeps_rules]:
  "(\<And>x y. keeps I (f x y)) \<Longrightarrow> keeps I (case p of (x, y) \<Rightarrow> f x y)"
  by (cases p) simp

lemma keeps_case_option [keeps_rules]:
  "keeps I m \<Longrightarrow> (\<And>x. keeps I (f x)) \<Longrightarrow> keeps I (case v of None \<Rightarrow> m | Some x \<Rightarrow> f x)"
  by (cases v) simp_all

lemma moves_return: "moves P (State_Monad.return x) P"
  by (simp add: moves_def)

lemma moves_let: "(\<And>x. moves P (f x) Q) \<Longrightarrow> moves P (Let v f) Q"
  by simp

lemma moves_case_option:
  "moves P m Q \<Longrightarrow> (\<And>x. moves P (f x) Q) \<Longrightarrow> moves P (case v of None \<Rightarrow> m | Some x \<Rightarrow> f x) Q"
  by (cases v) simp_all

lemma moves_case_prod: "(\<And>x y. moves P (f x y) Q) \<Longrightarrow> moves P (case v of (x, y) \<Rightarrow> f x y) Q"
  by (cases v) simp

text \<open>A loop over a list whose body keeps the invariant.\<close>

fun for_each :: "('a \<Rightarrow> ('s, unit) state) \<Rightarrow> 'a list \<Rightarrow> ('s, unit) state" where
  "for_each f [] = State_Monad.return ()"
| "for_each f (x # xs) = State_Monad.bind (f x) (\<lambda>_. for_each f xs)"

lemma keeps_for_each [keeps_rules]: "(\<And>x. keeps I (f x)) \<Longrightarrow> keeps I (for_each f xs)"
  by (induction xs) (auto intro: keeps_rules)

lemma exec_for_each_append: "exec (for_each f (xs @ ys)) s = exec (for_each f ys) (exec (for_each f xs) s)"
  by (induction xs arbitrary: s) simp_all

text \<open>\<open>if (b) { ... }\<close> without an else branch.\<close>

definition only_if :: "bool \<Rightarrow> ('s, 'a) state \<Rightarrow> ('s, unit) state" where
  "only_if b m = (if b then State_Monad.bind m (\<lambda>_. State_Monad.return ()) else State_Monad.return ())"

lemma keeps_only_if [keeps_rules]: "(b \<Longrightarrow> keeps I m) \<Longrightarrow> keeps I (only_if b m)"
  unfolding only_if_def by (intro keeps_rules)

lemma exec_only_if [simp]: "exec (only_if b m) s = (if b then exec m s else s)"
  by (simp add: only_if_def)

end
