(* ===== verification/Mepa_Types.thy ===== *)
theory Mepa_Types
  imports Mepa_Prelude
begin

text \<open>
  The data types of the MEPA interface: \<open>me/include/microchip/ethernet/common.h\<close>
  and \<open>mepa/include/microchip/ethernet/phy/api/types.h\<close>.  A C enum is a datatype
  with the constructors of the source, a C struct a record whose fields carry a
  prefix for their struct (record selectors are global in HOL), a C array of fixed
  length a list, \<open>mepa_bool_t\<close> a \<open>bool\<close>.  \<open>mepa_event_t\<close> stays a 32-bit word,
  because it is a set of bits.
\<close>

section \<open>Return codes\<close>

type_synonym mepa_rc = int

abbreviation (input) MEPA_RC_OK :: mepa_rc where "MEPA_RC_OK \<equiv> 0"
abbreviation (input) MEPA_RC_ERROR :: mepa_rc where "MEPA_RC_ERROR \<equiv> -1"
abbreviation (input) MEPA_RC_INV_STATE :: mepa_rc where "MEPA_RC_INV_STATE \<equiv> -2"
abbreviation (input) MEPA_RC_INCOMPLETE :: mepa_rc where "MEPA_RC_INCOMPLETE \<equiv> -3"
abbreviation (input) MEPA_RC_NOT_IMPLEMENTED :: mepa_rc where "MEPA_RC_NOT_IMPLEMENTED \<equiv> -4"
abbreviation (input) MEPA_RC_ERR_PARM :: mepa_rc where "MEPA_RC_ERR_PARM \<equiv> -5"
abbreviation (input) MEPA_RC_ERR_NO_RES :: mepa_rc where "MEPA_RC_ERR_NO_RES \<equiv> -6"
abbreviation (input) MEPA_RC_ERR_KR_CONF_NOT_SUPPORTED :: mepa_rc where "MEPA_RC_ERR_KR_CONF_NOT_SUPPORTED \<equiv> -7"

section \<open>Enumerations\<close>

datatype mepa_port_speed =
    MEPA_SPEED_UNDEFINED | MEPA_SPEED_10M | MEPA_SPEED_100M | MEPA_SPEED_1G | MEPA_SPEED_2500M
  | MEPA_SPEED_5G | MEPA_SPEED_10G | MEPA_SPEED_12G | MEPA_SPEED_25G | MEPA_SPEED_AUTO

datatype mepa_port_interface =
    MESA_PORT_INTERFACE_NO_CONNECTION | MESA_PORT_INTERFACE_LOOPBACK
  | MESA_PORT_INTERFACE_INTERNAL | MESA_PORT_INTERFACE_MII | MESA_PORT_INTERFACE_GMII
  | MESA_PORT_INTERFACE_RGMII | MESA_PORT_INTERFACE_RGMII_ID | MESA_PORT_INTERFACE_RGMII_RXID
  | MESA_PORT_INTERFACE_RGMII_TXID | MESA_PORT_INTERFACE_TBI | MESA_PORT_INTERFACE_RTBI
  | MESA_PORT_INTERFACE_SGMII | MESA_PORT_INTERFACE_SGMII_2G5 | MESA_PORT_INTERFACE_SGMII_CISCO
  | MESA_PORT_INTERFACE_SERDES | MESA_PORT_INTERFACE_VAUI | MESA_PORT_INTERFACE_100FX
  | MESA_PORT_INTERFACE_XAUI | MESA_PORT_INTERFACE_RXAUI | MESA_PORT_INTERFACE_XGMII
  | MESA_PORT_INTERFACE_SPI4 | MESA_PORT_INTERFACE_QSGMII | MESA_PORT_INTERFACE_SFI
  | MESA_PORT_INTERFACE_USXGMII | MESA_PORT_INTERFACE_USGMII | MESA_PORT_INTERFACE_QXGMII
  | MESA_PORT_INTERFACE_DXGMII_5G | MESA_PORT_INTERFACE_DXGMII_10G | MESA_PORT_INTERFACE_CPU
  | MESA_PORT_INTERFACE_MASQUERADING | MESA_PORT_INTERFACE_RMII

datatype mepa_media_interface =
    MESA_PHY_MEDIA_IF_CU | MESA_PHY_MEDIA_IF_SFP_PASSTHRU | MESA_PHY_MEDIA_IF_FI_1000BX
  | MESA_PHY_MEDIA_IF_FI_100FX | MESA_PHY_MEDIA_IF_AMS_CU_PASSTHRU
  | MESA_PHY_MEDIA_IF_AMS_FI_PASSTHRU | MESA_PHY_MEDIA_IF_AMS_CU_1000BX
  | MESA_PHY_MEDIA_IF_AMS_FI_1000BX | MESA_PHY_MEDIA_IF_AMS_CU_100FX
  | MESA_PHY_MEDIA_IF_AMS_FI_100FX | MESA_PHY_MEDIA_IF_T1S_10FX | MESA_PHY_MEDIA_IF_T1_100FX
  | MESA_PHY_MEDIA_IF_T1_1000FX | MESA_PHY_MEDIA_IF_FI_10G_1G_LAN
  | MESA_PHY_MEDIA_IF_FI_10G_LAN | MESA_PHY_MEDIA_IF_FI_10G_WAN

datatype mepa_cable_diag_status =
    MEPA_CABLE_DIAG_STATUS_OK | MEPA_CABLE_DIAG_STATUS_OPEN | MEPA_CABLE_DIAG_STATUS_SHORT
  | MEPA_CABLE_DIAG_STATUS_ABNORM | MEPA_CABLE_DIAG_STATUS_SHORT_A
  | MEPA_CABLE_DIAG_STATUS_SHORT_B | MEPA_CABLE_DIAG_STATUS_SHORT_C
  | MEPA_CABLE_DIAG_STATUS_SHORT_D | MEPA_CABLE_DIAG_STATUS_COUPL_A
  | MEPA_CABLE_DIAG_STATUS_COUPL_B | MEPA_CABLE_DIAG_STATUS_COUPL_C
  | MEPA_CABLE_DIAG_STATUS_COUPL_D | MEPA_CABLE_DIAG_STATUS_UNKNOWN
  | MEPA_CABLE_DIAG_STATUS_RUNNING

datatype mepa_adv_side =
  MEPA_ADV_SIDE_NONE | MEPA_ADV_SIDE_HOST | MEPA_ADV_SIDE_LINE | MEPA_ADV_SIDE_HOST_LINE

datatype mepa_reset_point =
    MEPA_RESET_POINT_DEFAULT | MEPA_RESET_POINT_PRE | MEPA_RESET_POINT_POST
  | MEPA_RESET_POINT_POST_MAC

datatype mepa_manual_neg =
  MEPA_MANUAL_NEG_DISABLED | MEPA_MANUAL_NEG_REF | MEPA_MANUAL_NEG_CLIENT

datatype mepa_media_mode = MEPA_MEDIA_MODE_AUTO | MEPA_MEDIA_MODE_MDI | MEPA_MEDIA_MODE_MDIX

datatype mepa_phy_media_force_ams_sel =
    MEPA_PHY_MEDIA_FORCE_AMS_SEL_NORMAL | MEPA_PHY_MEDIA_FORCE_AMS_SEL_SERDES
  | MEPA_PHY_MEDIA_FORCE_AMS_SEL_COPPER

datatype mepa_eee_mode = MEPA_EEE_DISABLE | MEPA_EEE_ENABLE | MEPA_EEE_REG_UPDATE

datatype mepa_i2c_clk_select =
  MEPA_I2C_CLK_SEL_0 | MEPA_I2C_CLK_SEL_1 | MEPA_I2C_CLK_SEL_2 | MEPA_I2C_CLK_SEL_3

datatype mepa_fefi_mode =
  MEPA_100FX_FEFI_NORMAL | MEPA_100FX_FEFI_FORCE_SUPPRESS | MEPA_100FX_FEFI_FORCE_ENABLE

datatype mepa_gpio_mode =
    MEPA_GPIO_MODE_NONE | MEPA_GPIO_MODE_IN | MEPA_GPIO_MODE_OUT | MEPA_GPIO_MODE_ALT
  | MEPA_GPIO_MODE_LED_LINK_ACTIVITY | MEPA_GPIO_MODE_LED_LINK1000_ACTIVITY
  | MEPA_GPIO_MODE_LED_LINK100_ACTIVITY | MEPA_GPIO_MODE_LED_LINK10_ACTIVITY
  | MEPA_GPIO_MODE_LED_LINK100_1000_ACTIVITY | MEPA_GPIO_MODE_LED_LINK10_1000_ACTIVITY
  | MEPA_GPIO_MODE_LED_LINK10_100_ACTIVITY
  | MEPA_GPIO_MODE_LED_LINK100BASE_FX_1000BASE_X_ACTIVITY
  | MEPA_GPIO_MODE_LED_DUPLEX_COLLISION | MEPA_GPIO_MODE_LED_COLLISION
  | MEPA_GPIO_MODE_LED_ACTIVITY | MEPA_GPIO_MODE_LED_BASE100_FX_1000BASE_X_FIBER_ACTIVITY
  | MEPA_GPIO_MODE_LED_AUTONEGOTIATION_FAULT | MEPA_GPIO_MODE_LED_LINK1000BASE_X_ACTIVITY
  | MEPA_GPIO_MODE_LED_LINK100BASE_FX_ACTIVITY | MEPA_GPIO_MODE_LED_BASE1000_ACTIVITY
  | MEPA_GPIO_MODE_LED_BASE100_FX_ACTIVITY | MEPA_GPIO_MODE_LED_FORCE_LED_OFF
  | MEPA_GPIO_MODE_LED_FORCE_LED_ON | MEPA_GPIO_MODE_LED_FAST_LINK_FAIL
  | MEPA_GPIO_MODE_LED_LINK_TX | MEPA_GPIO_MODE_LED_LINK_RX | MEPA_GPIO_MODE_LED_LINK_FAULT
  | MEPA_GPIO_MODE_LED_LINK_NO_ACT_ANY_SPEED | MEPA_GPIO_MODE_LED_LOCAL_RXER_STATUS
  | MEPA_GPIO_MODE_LED_REMOTE_RXER_STATUS | MEPA_GPIO_MODE_LED_NEGOTIATED_SPEED
  | MEPA_GPIO_MODE_LED_MASTER_SLAVE_MODE | MEPA_GPIO_MODE_LED_PCS_TX_ERR_STATUS
  | MEPA_GPIO_MODE_LED_PCS_RX_ERR_STATUS | MEPA_GPIO_MODE_LED_PCS_TX_ACTIVITY
  | MEPA_GPIO_MODE_LED_PCS_RX_ACTIVITY | MEPA_GPIO_MODE_LED_WAKE_ON_LAN
  | MEPA_GPIO_MODE_LED_DISABLE_EXTENDED | MEPA_GPIO_MODE_RCVRD_CLK_OUT1
  | MEPA_GPIO_MODE_RCVRD_CLK_OUT2 | MEPA_GPIO_MODE_PTP_REF_CLK | MEPA_GPIO_MODE_PTP_REF_ADJ
  | MEPA_GPIO_MODE_PUSH_PULL | MEPA_GPIO_MODE_OPEN_SOURCE | MEPA_GPIO_MODE_OPEN_DRAIN
  | MEPA_GPIO_MODE_ACTIVE_LOW | MEPA_GPIO_MODE_ACTIVE_HIGH

datatype mepa_led_num = MEPA_LED0 | MEPA_LED1 | MEPA_LED2 | MEPA_LED3

datatype mepa_gpio_intrpt = MEPA_GPIO_INTR_NONE | MEPA_GPIO_INTR_0 | MEPA_GPIO_INTR_1

datatype mepa_preemption_mode =
    MEPA_PREEMPTION_NORMAL_SFD | MEPA_PREEMPTION_SMD_E
  | MEPA_PREEMPTION_SMD_EXCEPT_CONTINUOUS | MEPA_PREEMPTION_SMD_ALL

datatype mepa_synce_clock_src =
    MEPA_SYNCE_CLOCK_SRC_DISABLED | MEPA_SYNCE_CLOCK_SRC_SERDES_MEDIA
  | MEPA_SYNCE_CLOCK_SRC_COPPER_MEDIA | MEPA_SYNCE_CLOCK_SRC_CLOCK_IN_1
  | MEPA_SYNCE_CLOCK_SRC_CLOCK_IN_2 | MEPA_SYNCE_CLOCK_SRC_LINE0 | MEPA_SYNCE_CLOCK_SRC_LINE1
  | MEPA_SYNCE_CLOCK_SRC_LINE2 | MEPA_SYNCE_CLOCK_SRC_LINE3 | MEPA_SYNCE_CLOCK_SRC_HOST0
  | MEPA_SYNCE_CLOCK_SRC_HOST1 | MEPA_SYNCE_CLOCK_SRC_HOST2 | MEPA_SYNCE_CLOCK_SRC_HOST3
  | MEPA_SYNCE_CLOCK_SRC_SREFCLK | MEPA_SYNCE_CLOCK_SRC_PTP_LTC

datatype mepa_synce_clock_dst =
    MEPA_SYNCE_CLOCK_DST_1 | MEPA_SYNCE_CLOCK_DST_2 | MEPA_SYNCE_CLOCK_DST_3
  | MEPA_SYNCE_CLOCK_DST_4 | MEPA_SYNCE_CLOCK_DST_SCKOUT | MEPA_SYNCE_CLOCK_DST_NONE
  | MEPA_SYNCE_CLOCK_DST_MAX

datatype mepa_freq =
    MEPA_FREQ_25M | MEPA_FREQ_31_25M | MEPA_FREQ_62_5M | MEPA_FREQ_125M | MEPA_FREQ_155_52M
  | MEPA_FREQ_156_25M | MEPA_FREQ_161_13M | MEPA_FREQ_311_04M | MEPA_FREQ_322_27M
  | MEPA_FREQ_75M | MEPA_FREQ_37_50M | MEPA_FREQ_79_58M | MEPA_FREQ_39_79M | MEPA_FREQ_15_62M
  | MEPA_FREQ_128_90M | MEPA_FREQ_64_45M | MEPA_FREQ_32_22M | MEPA_FREQ_80_56M

datatype mepa_phy_prbs_direction =
  MEPA_PHY_DIRECTION_HOST | MEPA_PHY_DIRECTION_LINE | MEPA_PHY_DIRECTION_CNT

datatype mepa_phy_prbs_type =
  MEPA_PHY_PRBS_TYPE_SERDES | MEPA_PHY_PRBS_TYPE_PCS | MEPA_PHY_PRBS_TYPE_CNT

datatype mepa_prbs_pattern =
    MEPA_PRBS7 | MEPA_PRBS9 | MEPA_PRBS11 | MEPA_PRBS15 | MEPA_PRBS23 | MEPA_PRBS31
  | MEPA_CLOCK_PATTERN | MEPA_USER_DEFINED_PATTERN | MEPA_PCS_SQAURE_PATTERN
  | MEPA_PCS_LOCAL_FAULT_SEQ | MEPA_PCS_ZERO_SEQ | MEPA_PCS_SCRAMBLED_TEST_PATTERN

datatype mepa_prbs_clock = MEPA_PRBS_CLK25_MHZ | MEPA_PRBS_CLK125_MHZ

datatype mepa_prbs_loopback = MEPA_PRBS_INTERNAL_LOOPBACK | MEPA_PRBS_EXTERNAL_LOOPBACK

datatype mepa_debug_layer = MEPA_DEBUG_LAYER_ALL | MEPA_DEBUG_LAYER_AIL | MEPA_DEBUG_LAYER_CIL

datatype mepa_debug_group =
    MEPA_DEBUG_GROUP_ALL | MEPA_DEBUG_GROUP_PHY | MEPA_DEBUG_GROUP_PHY_TS
  | MEPA_DEBUG_GROUP_MACSEC | MEPA_DEBUG_GROUP_COUNT

datatype mepa_cl37_remote_fault =
    MEPA_CLAUSE_37_RF_LINK_OK | MEPA_CLAUSE_37_RF_OFFLINE | MEPA_CLAUSE_37_RF_LINK_FAILURE
  | MEPA_CLAUSE_37_RF_AUTONEG_ERROR

datatype phy10g_oper_mode =
    MEPA_PHY_LAN_MODE | MEPA_PHY_WAN_MODE | MEPA_PHY_1G_MODE | MEPA_PHY_LAN_SYNCE_MODE
  | MEPA_PHY_WAN_SYNCE_MODE | MEPA_PHY_LAN_MIXED_SYNCE_MODE | MEPA_PHY_WAN_MIXED_SYNCE_MODE
  | MEPA_PHY_REPEATER_MODE

datatype phy10g_interface_mode =
    MEPA_PHY_XAUI_XFI | MEPA_PHY_XGMII_XFI | MEPA_PHY_RXAUI_XFI | MEPA_PHY_SGMII_LANE_0_XFI
  | MEPA_PHY_SGMII_LANE_3_XFI | MEPA_PHY_SFI_XFI

datatype phy_media =
    MEPA_MEDIA_TYPE_SR | MEPA_MEDIA_TYPE_SR2 | MEPA_MEDIA_TYPE_DAC | MEPA_MEDIA_TYPE_ZR
  | MEPA_MEDIA_TYPE_KR | MEPA_MEDIA_TYPE_SR_SC | MEPA_MEDIA_TYPE_SR2_SC
  | MEPA_MEDIA_TYPE_DAC_SC | MEPA_MEDIA_TYPE_ZR_SC | MEPA_MEDIA_TYPE_ZR2_SC
  | MEPA_MEDIA_TYPE_KR_SC | MEPA_MEDIA_TYPE_LR | MEPA_MEDIA_TYPE_ER
  | MEPA_MEDIA_TYPE_SFP28_25G_SR | MEPA_MEDIA_TYPE_SFP28_25G_LR | MEPA_MEDIA_TYPE_SFP28_25G_ER
  | MEPA_MEDIA_TYPE_SFP28_25G_DAC1M | MEPA_MEDIA_TYPE_SFP28_25G_DAC2M
  | MEPA_MEDIA_TYPE_1000BASE_T | MEPA_MEDIA_TYPE_NONE

datatype mepa_phy_channel_id =
    MEPA_CHANNELID_NONE | MEPA_CHANNELID_0 | MEPA_CHANNELID_1 | MEPA_CHANNELID_2
  | MEPA_CHANNELID_3

section \<open>Structures\<close>

record mepa_aneg_t =
  aneg_obey_pause :: bool
  aneg_generate_pause :: bool

record mepa_status =
  st_link :: bool
  st_speed :: mepa_port_speed
  st_master :: bool
  st_fdx :: bool
  st_aneg :: mepa_aneg_t
  st_copper :: bool
  st_fiber :: bool

record mepa_aneg_adv =
  adv_speed_10m_hdx :: bool
  adv_speed_10m_fdx :: bool
  adv_speed_100m_hdx :: bool
  adv_speed_100m_fdx :: bool
  adv_speed_1g_fdx :: bool
  adv_speed_1g_hdx :: bool
  adv_tx_remote_fault :: bool
  adv_speed_2g5_fdx :: bool
  adv_speed_5g_fdx :: bool
  adv_speed_10g_fdx :: bool
  adv_speed_25g_fdx :: bool
  adv_speed_25g_kr_s_fdx :: bool
  adv_next_page_enable :: bool
  adv_no_restart_aneg :: bool
  adv_advertise_dir :: mepa_adv_side

record mepa_cl37_conf =
  cl37_enable :: bool
  cl37_advertise_dir :: mepa_adv_side
  cl37_symmetric_pause :: bool
  cl37_asymmetric_pause :: bool
  cl37_remote_fault :: mepa_cl37_remote_fault
  cl37_acknowledge :: bool
  cl37_next_page :: bool
  cl37_next_page_abilities :: "16 word"

record phy_polarity_inv =
  pol_line_rx :: bool
  pol_line_tx :: bool
  pol_host_rx :: bool
  pol_host_tx :: bool

record phy10g_conf =
  p10g_oper_mode :: phy10g_oper_mode
  p10g_interface_mode :: phy10g_interface_mode
  p10g_channel_id :: mepa_phy_channel_id
  p10g_h_media :: phy_media
  p10g_l_media :: phy_media
  p10g_channel_high_to_low :: bool
  p10g_xfi_pol_invert :: bool
  p10g_xaui_lane_flip :: bool
  p10g_polarity :: phy_polarity_inv
  p10g_hl_clk_synth :: bool
  p10g_is_host_wan :: bool
  p10g_lref_for_host :: bool
  p10g_h_clk_src_is_high_amp :: bool
  p10g_l_clk_src_is_high_amp :: bool

record phy25g_conf =
  p25g_channel_id :: mepa_phy_channel_id
  p25g_line_media :: phy_media
  p25g_host_media :: phy_media
  p25g_polarity :: phy_polarity_inv
  p25g_kr_train_enable :: bool
  p25g_base_r_10gfec :: bool
  p25g_base_r_25gfec :: bool
  p25g_rs_fec_25g :: bool
  p25g_np_base_r_fec :: bool
  p25g_np_rs_fec :: bool
  p25g_fw_resolve :: bool

record mepa_conf =
  conf_speed :: mepa_port_speed
  conf_fdx :: bool
  conf_flow_control :: bool
  conf_adv_dis :: "32 word"
  conf_admin_enable :: bool
  conf_aneg :: mepa_aneg_adv
  conf_mac_if_aneg_ena :: bool
  conf_man_neg :: mepa_manual_neg
  conf_mdi_mode :: mepa_media_mode
  conf_force_ams_mode_sel :: mepa_phy_media_force_ams_sel
  conf_cl37 :: mepa_cl37_conf
  conf_10g :: phy10g_conf
  conf_25g :: phy25g_conf

record mepa_reset_param =
  rst_media_intf :: mepa_media_interface
  rst_reset_point :: mepa_reset_point
  rst_framepreempt_en :: bool

record mepa_cable_diag_result =
  cd_link :: bool
  cd_status :: "mepa_cable_diag_status list"
  cd_length :: "8 word list"

record mepa_aneg_status =
  as_master_cfg_fault :: bool
  as_master :: bool

type_synonym mepa_event = "32 word"

abbreviation (input) MEPA_LINK_LOS :: mepa_event where "MEPA_LINK_LOS \<equiv> 0x1"
abbreviation (input) MEPA_FAST_LINK_FAIL :: mepa_event where "MEPA_FAST_LINK_FAIL \<equiv> 0x2"

record mepa_gpio_conf =
  gpio_no :: "8 word"
  gpio_led_num :: mepa_led_num
  gpio_mode :: mepa_gpio_mode
  gpio_pp_enable :: bool
  gpio_intrpt :: mepa_gpio_intrpt

record mepa_phy_eee_conf =
  eee_mode :: mepa_eee_mode
  eee_ena_phy :: bool

record mepa_start_of_frame_conf =
  sof_no :: "8 word"
  sof_ingress :: bool
  sof_preemption_mode :: mepa_preemption_mode

record mepa_loopback =
  lb_far_end_ena :: bool
  lb_near_end_ena :: bool
  lb_connector_ena :: bool
  lb_mac_serdes_input_ena :: bool
  lb_mac_serdes_facility_ena :: bool
  lb_mac_serdes_equip_ena :: bool
  lb_media_serdes_input_ena :: bool
  lb_media_serdes_facility_ena :: bool
  lb_media_serdes_equip_ena :: bool
  lb_qsgmii_pcs_tbi_ena :: bool
  lb_qsgmii_pcs_gmii_ena :: bool
  lb_qsgmii_serdes_ena :: bool

datatype mepa_squelch_src =
    MEPA_SYNCE_NO_SQUELCH | MEPA_SYNCE_SQUELCH_LINK_LINE0 | MEPA_SYNCE_SQUELCH_LINK_LINE1
  | MEPA_SYNCE_SQUELCH_LINK_LINE2 | MEPA_SYNCE_SQUELCH_LINK_LINE3
  | MEPA_SYNCE_SQUELCH_LINK_HOST0 | MEPA_SYNCE_SQUELCH_LINK_HOST1
  | MEPA_SYNCE_SQUELCH_LINK_HOST2 | MEPA_SYNCE_SQUELCH_LINK_HOST3
  | MEPA_SYNCE_SQUELCH_LOS_LINE0 | MEPA_SYNCE_SQUELCH_LOS_LINE1 | MEPA_SYNCE_SQUELCH_LOS_LINE2
  | MEPA_SYNCE_SQUELCH_LOS_LINE3 | MEPA_SYNCE_SQUELCH_LOS_HOST0 | MEPA_SYNCE_SQUELCH_LOS_HOST1
  | MEPA_SYNCE_SQUELCH_LOS_HOST2 | MEPA_SYNCE_SQUELCH_LOS_HOST3

record mepa_synce_clock_conf =
  synce_src :: mepa_synce_clock_src
  synce_dst :: mepa_synce_clock_dst
  synce_freq :: mepa_freq
  synce_squelch_src :: mepa_squelch_src
  synce_squelch_inv :: bool

record mepa_selftest_info =
  sti_speed :: mepa_port_speed
  sti_mdi :: mepa_media_mode
  sti_frames :: "32 word"
  sti_good_cnt :: "32 word"
  sti_err_cnt :: "32 word"

record mepa_phy_prbs_generator_conf =
  prbs_enable :: bool
  prbs_prbsn_sel :: mepa_prbs_pattern
  prbs_clk :: mepa_prbs_clock
  prbs_loopback :: mepa_prbs_loopback
  prbs_user_pattern :: "8 word list"

record mepa_phy_prbs_monitor_conf =
  pmon_prbsn_sel :: mepa_prbs_pattern
  pmon_prbs_type :: mepa_phy_prbs_type
  pmon_prbs_direction :: mepa_phy_prbs_direction
  pmon_no_of_errors :: "32 word"
  pmon_enable :: bool
  pmon_bist_check_zero :: bool
  pmon_bist_error_stop :: bool
  pmon_active :: bool
  pmon_bist_status :: bool
  pmon_error_status :: bool
  pmon_incomplete :: bool
  pmon_bist_error_count :: "32 word"

record mepa_serdes_tx_conf =
  stx_level :: "8 word"
  stx_boost :: "8 word"

record mepa_debug_info =
  dbg_layer :: mepa_debug_layer
  dbg_group :: mepa_debug_group
  dbg_full :: bool
  dbg_clear :: bool
  dbg_vml_format :: bool

text \<open>
  \<open>mepa_phy_info_t\<close>: the strings are character lists, \<open>ts_base\<close> is a device
  pointer, \<open>cap\<close> a set of bits of \<open>mepa_phy_cap_t\<close>.
\<close>

record mepa_phy_info =
  info_part_number :: "16 word"
  info_revision :: "16 word"
  info_cap :: "32 word"
  info_ts_base_port :: "32 word"
  info_ts_base :: "nat option"
  info_manufactor_name :: string
  info_model_name :: string
  info_firmware_rev :: string
  info_serial_number :: string

section \<open>Numbers and zeroed structures\<close>

text \<open>The position of a mode in its enumeration, which the code compares with numbers.\<close>

primrec mepa_gpio_mode_num :: "mepa_gpio_mode \<Rightarrow> nat" where
  "mepa_gpio_mode_num MEPA_GPIO_MODE_NONE = 0"
| "mepa_gpio_mode_num MEPA_GPIO_MODE_IN = 1"
| "mepa_gpio_mode_num MEPA_GPIO_MODE_OUT = 2"
| "mepa_gpio_mode_num MEPA_GPIO_MODE_ALT = 3"
| "mepa_gpio_mode_num MEPA_GPIO_MODE_LED_LINK_ACTIVITY = 4"
| "mepa_gpio_mode_num MEPA_GPIO_MODE_LED_LINK1000_ACTIVITY = 5"
| "mepa_gpio_mode_num MEPA_GPIO_MODE_LED_LINK100_ACTIVITY = 6"
| "mepa_gpio_mode_num MEPA_GPIO_MODE_LED_LINK10_ACTIVITY = 7"
| "mepa_gpio_mode_num MEPA_GPIO_MODE_LED_LINK100_1000_ACTIVITY = 8"
| "mepa_gpio_mode_num MEPA_GPIO_MODE_LED_LINK10_1000_ACTIVITY = 9"
| "mepa_gpio_mode_num MEPA_GPIO_MODE_LED_LINK10_100_ACTIVITY = 10"
| "mepa_gpio_mode_num MEPA_GPIO_MODE_LED_LINK100BASE_FX_1000BASE_X_ACTIVITY = 11"
| "mepa_gpio_mode_num MEPA_GPIO_MODE_LED_DUPLEX_COLLISION = 12"
| "mepa_gpio_mode_num MEPA_GPIO_MODE_LED_COLLISION = 13"
| "mepa_gpio_mode_num MEPA_GPIO_MODE_LED_ACTIVITY = 14"
| "mepa_gpio_mode_num MEPA_GPIO_MODE_LED_BASE100_FX_1000BASE_X_FIBER_ACTIVITY = 15"
| "mepa_gpio_mode_num MEPA_GPIO_MODE_LED_AUTONEGOTIATION_FAULT = 16"
| "mepa_gpio_mode_num MEPA_GPIO_MODE_LED_LINK1000BASE_X_ACTIVITY = 17"
| "mepa_gpio_mode_num MEPA_GPIO_MODE_LED_LINK100BASE_FX_ACTIVITY = 18"
| "mepa_gpio_mode_num MEPA_GPIO_MODE_LED_BASE1000_ACTIVITY = 19"
| "mepa_gpio_mode_num MEPA_GPIO_MODE_LED_BASE100_FX_ACTIVITY = 20"
| "mepa_gpio_mode_num MEPA_GPIO_MODE_LED_FORCE_LED_OFF = 21"
| "mepa_gpio_mode_num MEPA_GPIO_MODE_LED_FORCE_LED_ON = 22"
| "mepa_gpio_mode_num MEPA_GPIO_MODE_LED_FAST_LINK_FAIL = 23"
| "mepa_gpio_mode_num MEPA_GPIO_MODE_LED_LINK_TX = 24"
| "mepa_gpio_mode_num MEPA_GPIO_MODE_LED_LINK_RX = 25"
| "mepa_gpio_mode_num MEPA_GPIO_MODE_LED_LINK_FAULT = 26"
| "mepa_gpio_mode_num MEPA_GPIO_MODE_LED_LINK_NO_ACT_ANY_SPEED = 27"
| "mepa_gpio_mode_num MEPA_GPIO_MODE_LED_LOCAL_RXER_STATUS = 28"
| "mepa_gpio_mode_num MEPA_GPIO_MODE_LED_REMOTE_RXER_STATUS = 29"
| "mepa_gpio_mode_num MEPA_GPIO_MODE_LED_NEGOTIATED_SPEED = 30"
| "mepa_gpio_mode_num MEPA_GPIO_MODE_LED_MASTER_SLAVE_MODE = 31"
| "mepa_gpio_mode_num MEPA_GPIO_MODE_LED_PCS_TX_ERR_STATUS = 32"
| "mepa_gpio_mode_num MEPA_GPIO_MODE_LED_PCS_RX_ERR_STATUS = 33"
| "mepa_gpio_mode_num MEPA_GPIO_MODE_LED_PCS_TX_ACTIVITY = 34"
| "mepa_gpio_mode_num MEPA_GPIO_MODE_LED_PCS_RX_ACTIVITY = 35"
| "mepa_gpio_mode_num MEPA_GPIO_MODE_LED_WAKE_ON_LAN = 36"
| "mepa_gpio_mode_num MEPA_GPIO_MODE_LED_DISABLE_EXTENDED = 37"
| "mepa_gpio_mode_num MEPA_GPIO_MODE_RCVRD_CLK_OUT1 = 38"
| "mepa_gpio_mode_num MEPA_GPIO_MODE_RCVRD_CLK_OUT2 = 39"
| "mepa_gpio_mode_num MEPA_GPIO_MODE_PTP_REF_CLK = 40"
| "mepa_gpio_mode_num MEPA_GPIO_MODE_PTP_REF_ADJ = 41"
| "mepa_gpio_mode_num MEPA_GPIO_MODE_PUSH_PULL = 42"
| "mepa_gpio_mode_num MEPA_GPIO_MODE_OPEN_SOURCE = 43"
| "mepa_gpio_mode_num MEPA_GPIO_MODE_OPEN_DRAIN = 44"
| "mepa_gpio_mode_num MEPA_GPIO_MODE_ACTIVE_LOW = 45"
| "mepa_gpio_mode_num MEPA_GPIO_MODE_ACTIVE_HIGH = 46"

primrec mepa_led_num_num :: "mepa_led_num \<Rightarrow> nat" where
  "mepa_led_num_num MEPA_LED0 = 0"
| "mepa_led_num_num MEPA_LED1 = 1"
| "mepa_led_num_num MEPA_LED2 = 2"
| "mepa_led_num_num MEPA_LED3 = 3"

text \<open>Capabilities (\<open>mepa_phy_cap_t\<close>) and their bits.\<close>

abbreviation (input) MEPA_CAP_SPEED_1G :: "32 word" where "MEPA_CAP_SPEED_1G \<equiv> 100000003"
abbreviation (input) MEPA_CAP_TS_GEN_3 :: "32 word" where "MEPA_CAP_TS_GEN_3 \<equiv> 100000009"
abbreviation (input) MEPA_CAP_TS_NONE :: "32 word" where "MEPA_CAP_TS_NONE \<equiv> 100000010"
abbreviation (input) MEPA_CAP_SPEED_MASK_1G :: "32 word" where "MEPA_CAP_SPEED_MASK_1G \<equiv> 0x1"
abbreviation (input) MEPA_CAP_TS_MASK_GEN_3 :: "32 word" where "MEPA_CAP_TS_MASK_GEN_3 \<equiv> 0x40"
abbreviation (input) MEPA_CAP_TS_MASK_NONE :: "32 word" where "MEPA_CAP_TS_MASK_NONE \<equiv> 0x80"

text \<open>Structures in zeroed memory.\<close>

definition mepa_aneg_adv_0 :: mepa_aneg_adv where
  "mepa_aneg_adv_0 = \<lparr>adv_speed_10m_hdx = False, adv_speed_10m_fdx = False,
     adv_speed_100m_hdx = False, adv_speed_100m_fdx = False, adv_speed_1g_fdx = False,
     adv_speed_1g_hdx = False, adv_tx_remote_fault = False, adv_speed_2g5_fdx = False,
     adv_speed_5g_fdx = False, adv_speed_10g_fdx = False, adv_speed_25g_fdx = False,
     adv_speed_25g_kr_s_fdx = False, adv_next_page_enable = False, adv_no_restart_aneg = False,
     adv_advertise_dir = MEPA_ADV_SIDE_NONE\<rparr>"

definition phy_polarity_inv_0 :: phy_polarity_inv where
  "phy_polarity_inv_0 = \<lparr>pol_line_rx = False, pol_line_tx = False, pol_host_rx = False,
     pol_host_tx = False\<rparr>"

definition mepa_conf_0 :: mepa_conf where
  "mepa_conf_0 = \<lparr>conf_speed = MEPA_SPEED_UNDEFINED, conf_fdx = False, conf_flow_control = False,
     conf_adv_dis = 0, conf_admin_enable = False, conf_aneg = mepa_aneg_adv_0,
     conf_mac_if_aneg_ena = False, conf_man_neg = MEPA_MANUAL_NEG_DISABLED,
     conf_mdi_mode = MEPA_MEDIA_MODE_AUTO,
     conf_force_ams_mode_sel = MEPA_PHY_MEDIA_FORCE_AMS_SEL_NORMAL,
     conf_cl37 = \<lparr>cl37_enable = False, cl37_advertise_dir = MEPA_ADV_SIDE_NONE,
       cl37_symmetric_pause = False, cl37_asymmetric_pause = False,
       cl37_remote_fault = MEPA_CLAUSE_37_RF_LINK_OK, cl37_acknowledge = False,
       cl37_next_page = False, cl37_next_page_abilities = 0\<rparr>,
     conf_10g = \<lparr>p10g_oper_mode = MEPA_PHY_LAN_MODE, p10g_interface_mode = MEPA_PHY_XAUI_XFI,
       p10g_channel_id = MEPA_CHANNELID_NONE, p10g_h_media = MEPA_MEDIA_TYPE_SR,
       p10g_l_media = MEPA_MEDIA_TYPE_SR, p10g_channel_high_to_low = False,
       p10g_xfi_pol_invert = False, p10g_xaui_lane_flip = False,
       p10g_polarity = phy_polarity_inv_0, p10g_hl_clk_synth = False, p10g_is_host_wan = False,
       p10g_lref_for_host = False, p10g_h_clk_src_is_high_amp = False,
       p10g_l_clk_src_is_high_amp = False\<rparr>,
     conf_25g = \<lparr>p25g_channel_id = MEPA_CHANNELID_NONE, p25g_line_media = MEPA_MEDIA_TYPE_SR,
       p25g_host_media = MEPA_MEDIA_TYPE_SR, p25g_polarity = phy_polarity_inv_0,
       p25g_kr_train_enable = False, p25g_base_r_10gfec = False, p25g_base_r_25gfec = False,
       p25g_rs_fec_25g = False, p25g_np_base_r_fec = False, p25g_np_rs_fec = False,
       p25g_fw_resolve = False\<rparr>\<rparr>"

definition mepa_loopback_0 :: mepa_loopback where
  "mepa_loopback_0 = \<lparr>lb_far_end_ena = False, lb_near_end_ena = False, lb_connector_ena = False,
     lb_mac_serdes_input_ena = False, lb_mac_serdes_facility_ena = False,
     lb_mac_serdes_equip_ena = False, lb_media_serdes_input_ena = False,
     lb_media_serdes_facility_ena = False, lb_media_serdes_equip_ena = False,
     lb_qsgmii_pcs_tbi_ena = False, lb_qsgmii_pcs_gmii_ena = False, lb_qsgmii_serdes_ena = False\<rparr>"

definition mepa_status_0 :: mepa_status where
  "mepa_status_0 = \<lparr>st_link = False, st_speed = MEPA_SPEED_UNDEFINED, st_master = False,
     st_fdx = False, st_aneg = \<lparr>aneg_obey_pause = False, aneg_generate_pause = False\<rparr>,
     st_copper = False, st_fiber = False\<rparr>"

section \<open>The board configuration\<close>

text \<open>
  \<open>mepa_board_conf_t\<close> without the three attributes that only the VTSS library
  reads.
\<close>

record mepa_board_conf =
  board_numeric_handle :: "32 word"
  board_dummy_phy_cap :: "32 word"

end
