(* ===== verification/Mepa_Ts_Types.thy ===== *)
theory Mepa_Ts_Types
  imports Mepa_Types
begin

text \<open>
  The data types of the timestamping interface
  (\<open>mepa/include/microchip/ethernet/phy/api/phy_ts.h\<close>).  Time intervals and scaled rates are
  signed 64-bit integers, kept as 64-bit words and read with \<open>sint\<close>.  A union whose two
  members have the same layout (a range and a value with its mask) is one record of the
  two words that they share; the union of an IPv4 and an IPv6 network is the list of its
  eight words, of which an IPv4 network uses the first two.
\<close>

type_synonym mepa_timeinterval = "64 word"
type_synonym mepa_ts_scaled_ppb = "64 word"
type_synonym mepa_ts_event = "32 word"

record mepa_timestamp =
  tm_seconds_high :: "16 word"
  tm_seconds_low :: "32 word"
  tm_nanoseconds :: "32 word"
  tm_picoseconds :: "8 word"

record mepa_ts_pps_conf =
  pps_width_adj :: "32 word"
  pps_offset :: "32 word"
  pps_output_enable :: "32 word"

section \<open>Enumerations\<close>

datatype mepa_ts_clock_freq =
    MEPA_TS_CLOCK_FREQ_25M | MEPA_TS_CLOCK_FREQ_125M | MEPA_TS_CLOCK_FREQ_15625M
  | MEPA_TS_CLOCK_FREQ_200M | MEPA_TS_CLOCK_FREQ_250M | MEPA_TS_CLOCK_FREQ_500M
  | MEPA_TS_CLOCK_FREQ_MAX | MEPA_TS_CLOCK_FREQ_NONE

datatype mepa_ts_rx_timestamp_pos = MEPA_TS_RX_TIMESTAMP_POS_IN_PTP | MEPA_TS_RX_TIMESTAMP_POS_AT_END

datatype mepa_ts_rx_timestamp_len = MEPA_TS_RX_TIMESTAMP_LEN_30BIT | MEPA_TS_RX_TIMESTAMP_LEN_32BIT

datatype mepa_ts_fifo_mode = MEPA_TS_FIFO_MODE_NORMAL | MEPA_TS_FIFO_MODE_SPI

datatype mepa_ts_fifo_timestamp_len =
    MEPA_TS_FIFO_TIMESTAMP_LEN_4BYTE | MEPA_TS_FIFO_TIMESTAMP_LEN_10BYTE

datatype mepa_ts_ptp_clock_mode =
    MEPA_TS_PTP_CLOCK_MODE_NONE | MEPA_TS_PTP_CLOCK_MODE_BC1STEP | MEPA_TS_PTP_CLOCK_MODE_BC2STEP
  | MEPA_TS_PTP_CLOCK_MODE_TC1STEP | MEPA_TS_PTP_CLOCK_MODE_TC2STEP

datatype mepa_ts_ptp_delaym_type = MEPA_TS_PTP_DELAYM_P2P | MEPA_TS_PTP_DELAYM_E2E

datatype mepa_ts_ls_type =
    MEPA_TS_CMD_LOAD | MEPA_TS_CMD_SAVE | MEPA_TS_ADJ_CMD_CLEAR | MEPA_TS_CMD_DELTA | MEPA_TS_CMD_TOD

datatype mepa_ts_clock_src =
    MEPA_TS_CLOCK_SRC_EXTERNAL | MEPA_TS_CLOCK_SRC_CLIENT_RX | MEPA_TS_CLOCK_SRC_CLIENT_TX
  | MEPA_TS_CLOCK_SRC_INTERNAL | MEPA_TS_CLOCK_SRC_125MHZ_INTERNAL_SYS_PLL
  | MEPA_TS_CLOCK_SRC_125MHZ_QSGMII_REC_CLOCK | MEPA_TS_CLOCK_SRC_EXT_1588_REF_CLOCK
  | MEPA_TS_CLOCK_SRC_RESERVED | MEPA_TS_CLOCK_SRC_FROM_RX_PORT0 | MEPA_TS_CLOCK_SRC_FROM_RX_PORT1
  | MEPA_TS_CLOCK_SRC_FROM_RX_PORT2 | MEPA_TS_CLOCK_SRC_FROM_RX_PORT3 | MEPA_TS_CLOCK_SRC_NONE

datatype mepa_ts_tc_op_mode = MEPA_TS_TC_OP_MODE_A | MEPA_TS_TC_OP_MODE_B | MEPA_TS_TC_OP_MODE_C

datatype ing_egr_ts_len =
    MEPA_MCH_TS_32NS_ONS | MEPA_MCH_TS_28NS_4SNS | MEPA_MCH_TS_24NS_8SNS | MEPA_MCH_TS_16NS_16SNS

datatype mepa_ts_pkt_encap =
    MEPA_TS_ENCAP_NONE | MEPA_TS_ENCAP_ETH_PTP | MEPA_TS_ENCAP_ETH_IP_PTP
  | MEPA_TS_ENCAP_ETH_HSR_PTP | MEPA_TS_ENCAP_ETH_IP_IP_PTP | MEPA_TS_ENCAP_ETH_ETH_PTP
  | MEPA_TS_ENCAP_ETH_ETH_IP_PTP | MEPA_TS_ENCAP_ETH_MPLS_IP_PTP
  | MEPA_TS_ENCAP_ETH_MPLS_ETH_PTP | MEPA_TS_ENCAP_ETH_MPLS_ETH_IP_PTP

datatype mepa_ts_mac_match_mode =
    MEPA_TS_ETH_ADDR_MATCH_ANY | MEPA_TS_ETH_ADDR_MATCH_48BIT
  | MEPA_TS_ETH_ADDR_MATCH_ANY_UNICAST | MEPA_TS_ETH_ADDR_MATCH_ANY_MULTICAST

datatype mepa_ts_mac_match_select =
    MEPA_TS_ETH_MATCH_NONE | MEPA_TS_ETH_MATCH_DEST_ADDR | MEPA_TS_ETH_MATCH_SRC_ADDR
  | MEPA_TS_ETH_MATCH_SRC_OR_DEST

fun mepa_ts_mac_match_select_num :: "mepa_ts_mac_match_select \<Rightarrow> 16 word" where
  "mepa_ts_mac_match_select_num MEPA_TS_ETH_MATCH_NONE = 0"
| "mepa_ts_mac_match_select_num MEPA_TS_ETH_MATCH_DEST_ADDR = 1"
| "mepa_ts_mac_match_select_num MEPA_TS_ETH_MATCH_SRC_ADDR = 2"
| "mepa_ts_mac_match_select_num MEPA_TS_ETH_MATCH_SRC_OR_DEST = 3"

datatype mepa_ts_ip_ver = MEPA_TS_IP_VER_4 | MEPA_TS_IP_VER_6

datatype mepa_ts_ip_match_select =
    MEPA_TS_IP_MATCH_NONE | MEPA_TS_IP_MATCH_DEST | MEPA_TS_IP_MATCH_SRC | MEPA_TS_IP_MATCH_SRC_OR_DEST

fun mepa_ts_ip_match_select_num :: "mepa_ts_ip_match_select \<Rightarrow> 16 word" where
  "mepa_ts_ip_match_select_num MEPA_TS_IP_MATCH_NONE = 0"
| "mepa_ts_ip_match_select_num MEPA_TS_IP_MATCH_DEST = 1"
| "mepa_ts_ip_match_select_num MEPA_TS_IP_MATCH_SRC = 2"
| "mepa_ts_ip_match_select_num MEPA_TS_IP_MATCH_SRC_OR_DEST = 3"

datatype mepa_ts_match_mode = MEPA_TS_MATCH_MODE_RANGE | MEPA_TS_MATCH_MODE_VALUE

datatype mepa_ts_mpls_parse = MEPA_PTP_MPLS_PARSE_TOP_TO_BOTTOM | MEPA_PTP_MPLS_PARSE_BOTTOM_TO_TOP

datatype mepa_ts_fifo_status = MEPA_TS_FIFO_SUCCESS | MEPA_TS_FIFO_OVERFLOW

section \<open>Events and statistics\<close>

abbreviation (input) MEPA_TS_EGR_TIMESTAMP_CAPTURED :: mepa_ts_event where
  "MEPA_TS_EGR_TIMESTAMP_CAPTURED \<equiv> 0x20"
abbreviation (input) MEPA_TS_EGR_FIFO_OVERFLOW :: mepa_ts_event where
  "MEPA_TS_EGR_FIFO_OVERFLOW \<equiv> 0x40"

record mepa_ts_stats =
  tss_ingr_pream_shrink_err :: "32 word"
  tss_egr_pream_shrink_err :: "32 word"
  tss_ingr_fcs_err :: "32 word"
  tss_egr_fcs_err :: "32 word"
  tss_ingr_frm_mod_cnt :: "32 word"
  tss_egr_frm_mod_cnt :: "32 word"
  tss_ts_fifo_tx_cnt :: "32 word"
  tss_ts_fifo_drop_cnt :: "32 word"

section \<open>Initialisation\<close>

record mepa_mch_pch =
  mp_pch_en :: bool
  mp_save_ts_with_crc_err :: bool
  mp_mch_en :: bool
  mp_ts_len_ing :: ing_egr_ts_len
  mp_ts_len_egr :: ing_egr_ts_len

record mepa_ts_init_conf =
  tic_clk_freq :: mepa_ts_clock_freq
  tic_clk_src :: mepa_ts_clock_src
  tic_rx_ts_pos :: mepa_ts_rx_timestamp_pos
  tic_rx_ts_len :: mepa_ts_rx_timestamp_len
  tic_tx_fifo_mode :: mepa_ts_fifo_mode
  tic_tx_ts_len :: mepa_ts_fifo_timestamp_len
  tic_tx_fifo_spi_conf :: bool
  tic_auto_clear_ls :: bool
  tic_tc_op_mode :: mepa_ts_tc_op_mode
  tic_dly_req_recv_10byte_ts :: bool
  tic_tx_auto_followup_ts :: bool
  tic_mch_pch_conf :: mepa_mch_pch

record mepa_ts_reset_conf =
  trc_ltc_soft_reset :: bool
  trc_ltc_hard_reset :: bool
  trc_tsu_soft_reset :: bool
  trc_tsu_hard_reset :: bool

section \<open>Classifiers\<close>

record mepa_range_unit8 =
  r8_upper :: "8 word"
  r8_lower :: "8 word"

text \<open>\<open>hi\<close> is \<open>range.upper\<close> or \<open>value.val\<close>, \<open>lo\<close> is \<open>range.lower\<close> or \<open>value.mask\<close>.\<close>

record mepa_ts_match_uint8 =
  m8_mode :: mepa_ts_match_mode
  m8_hi :: "8 word"
  m8_lo :: "8 word"

record mepa_ts_match_uint16 =
  m16_mode :: mepa_ts_match_mode
  m16_hi :: "16 word"
  m16_lo :: "16 word"

type_synonym mepa_ts_ip_network = "32 word list"

abbreviation ipv4_addr :: "mepa_ts_ip_network \<Rightarrow> 32 word" where "ipv4_addr n \<equiv> n ! 0"
abbreviation ipv4_mask :: "mepa_ts_ip_network \<Rightarrow> 32 word" where "ipv4_mask n \<equiv> n ! 1"
abbreviation ipv6_addr :: "mepa_ts_ip_network \<Rightarrow> nat \<Rightarrow> 32 word" where "ipv6_addr n i \<equiv> n ! i"
abbreviation ipv6_mask :: "mepa_ts_ip_network \<Rightarrow> nat \<Rightarrow> 32 word" where "ipv6_mask n i \<equiv> n ! (4 + i)"

record mepa_ts_classifier_ip =
  tci_ip_ver :: mepa_ts_ip_ver
  tci_ip_match_mode :: mepa_ts_ip_match_select
  tci_ip_addr :: mepa_ts_ip_network
  tci_udp_sport_en :: bool
  tci_udp_dport_en :: bool
  tci_udp_sport :: "16 word"
  tci_udp_dport :: "16 word"

record mepa_ts_vlan_conf =
  tvc_pbb_en :: bool
  tvc_tpid :: "16 word"
  tvc_etype :: "16 word"
  tvc_num_tag :: "8 word"
  tvc_outer_tag :: mepa_ts_match_uint16
  tvc_inner_tag :: mepa_ts_match_uint16

record mepa_ts_classifier_eth =
  tce_mac_match_mode :: mepa_ts_mac_match_mode
  tce_mac_match_select :: mepa_ts_mac_match_select
  tce_mac_addr :: "8 word list"
  tce_vlan_check :: bool
  tce_vlan_conf :: mepa_ts_vlan_conf

record mepa_ts_classifier_ptp =
  tcp_version :: mepa_range_unit8
  tcp_minor_version :: mepa_range_unit8
  tcp_domain :: mepa_ts_match_uint8
  tcp_sdoid :: mepa_ts_match_uint8

record mepa_ts_mpls_lvl_rng =
  mlr_lower :: "32 word"
  mlr_upper :: "32 word"
  mlr_match_mode :: "8 word"

record mepa_ts_classifier_mpls =
  tcm_cw_en :: bool
  tcm_flow_en :: bool
  tcm_stack_depth :: "8 word"
  tcm_stack_ref_point :: mepa_ts_mpls_parse
  tcm_first_lvl :: mepa_ts_mpls_lvl_rng
  tcm_second_lvl :: mepa_ts_mpls_lvl_rng
  tcm_third_lvl :: mepa_ts_mpls_lvl_rng
  tcm_fourth_lvl :: mepa_ts_mpls_lvl_rng

record mepa_ts_classifier =
  tcl_enable :: bool
  tcl_pkt_encap_type :: mepa_ts_pkt_encap
  tcl_clock_id :: "16 word"
  tcl_eth_class_conf :: mepa_ts_classifier_eth
  tcl_ip_class_conf :: mepa_ts_classifier_ip
  tcl_eth2_class_conf :: mepa_ts_classifier_eth
  tcl_ip2_class_conf :: mepa_ts_classifier_ip
  tcl_mpls_class_conf :: mepa_ts_classifier_mpls

record mepa_ts_ptp_clock_conf =
  pcc_enable :: bool
  pcc_ptp_class_conf :: mepa_ts_classifier_ptp
  pcc_clk_mode :: mepa_ts_ptp_clock_mode
  pcc_delaym_type :: mepa_ts_ptp_delaym_type
  pcc_cf_update :: bool

section \<open>The timestamp FIFO\<close>

record mepa_ts_fifo_sig =
  sig_msg_type :: "8 word"
  sig_domain_num :: "8 word"
  sig_src_port_identity :: "8 word list"
  sig_sequence_id :: "16 word"
  sig_crc_src_port :: "16 word"
  sig_has_crc_src :: bool
  sig_dmac_addr :: "8 word list"
  sig_dmac_sig_supported :: bool
  sig_dest_ipv4 :: "8 word list"
  sig_ipv4_sig_supported :: bool
  sig_ipv6_dest_addr :: "8 word list"
  sig_ipv6_sig_supported :: bool

abbreviation (input) MEPA_TS_FIFO_MAX_ENTRIES :: nat where "MEPA_TS_FIFO_MAX_ENTRIES \<equiv> 8"

record mepa_fifo_ts_entry =
  fte_sig :: mepa_ts_fifo_sig
  fte_ts :: mepa_timestamp

record mepa_pch_mch_mismatch_info =
  mmi_subportid_mismatch :: bool
  mmi_crc_error :: bool
  mmi_ext_type_mismatch :: bool
  mmi_pkt_type_mismatch :: bool

text \<open>Zeroed structures.\<close>

definition mepa_timestamp_0 :: mepa_timestamp where
  "mepa_timestamp_0 = \<lparr>tm_seconds_high = 0, tm_seconds_low = 0, tm_nanoseconds = 0,
     tm_picoseconds = 0\<rparr>"

definition mepa_ts_fifo_sig_0 :: mepa_ts_fifo_sig where
  "mepa_ts_fifo_sig_0 = \<lparr>sig_msg_type = 0, sig_domain_num = 0,
     sig_src_port_identity = replicate 10 0, sig_sequence_id = 0, sig_crc_src_port = 0,
     sig_has_crc_src = False, sig_dmac_addr = replicate 6 0, sig_dmac_sig_supported = False,
     sig_dest_ipv4 = replicate 4 0, sig_ipv4_sig_supported = False,
     sig_ipv6_dest_addr = replicate 16 0, sig_ipv6_sig_supported = False\<rparr>"

definition mepa_ts_stats_0 :: mepa_ts_stats where
  "mepa_ts_stats_0 = \<lparr>tss_ingr_pream_shrink_err = 0, tss_egr_pream_shrink_err = 0,
     tss_ingr_fcs_err = 0, tss_egr_fcs_err = 0, tss_ingr_frm_mod_cnt = 0,
     tss_egr_frm_mod_cnt = 0, tss_ts_fifo_tx_cnt = 0, tss_ts_fifo_drop_cnt = 0\<rparr>"

definition mepa_ts_classifier_ptp_0 :: mepa_ts_classifier_ptp where
  "mepa_ts_classifier_ptp_0 = \<lparr>tcp_version = \<lparr>r8_upper = 0, r8_lower = 0\<rparr>,
     tcp_minor_version = \<lparr>r8_upper = 0, r8_lower = 0\<rparr>,
     tcp_domain = \<lparr>m8_mode = MEPA_TS_MATCH_MODE_RANGE, m8_hi = 0, m8_lo = 0\<rparr>,
     tcp_sdoid = \<lparr>m8_mode = MEPA_TS_MATCH_MODE_RANGE, m8_hi = 0, m8_lo = 0\<rparr>\<rparr>"

definition mepa_ts_classifier_eth_0 :: mepa_ts_classifier_eth where
  "mepa_ts_classifier_eth_0 = \<lparr>tce_mac_match_mode = MEPA_TS_ETH_ADDR_MATCH_ANY,
     tce_mac_match_select = MEPA_TS_ETH_MATCH_NONE, tce_mac_addr = replicate 6 0,
     tce_vlan_check = False,
     tce_vlan_conf = \<lparr>tvc_pbb_en = False, tvc_tpid = 0, tvc_etype = 0, tvc_num_tag = 0,
       tvc_outer_tag = \<lparr>m16_mode = MEPA_TS_MATCH_MODE_RANGE, m16_hi = 0, m16_lo = 0\<rparr>,
       tvc_inner_tag = \<lparr>m16_mode = MEPA_TS_MATCH_MODE_RANGE, m16_hi = 0, m16_lo = 0\<rparr>\<rparr>\<rparr>"

definition mepa_ts_classifier_ip_0 :: mepa_ts_classifier_ip where
  "mepa_ts_classifier_ip_0 = \<lparr>tci_ip_ver = MEPA_TS_IP_VER_4,
     tci_ip_match_mode = MEPA_TS_IP_MATCH_NONE, tci_ip_addr = replicate 8 0,
     tci_udp_sport_en = False, tci_udp_dport_en = False, tci_udp_sport = 0, tci_udp_dport = 0\<rparr>"

definition mepa_ts_mpls_lvl_rng_0 :: mepa_ts_mpls_lvl_rng where
  "mepa_ts_mpls_lvl_rng_0 = \<lparr>mlr_lower = 0, mlr_upper = 0, mlr_match_mode = 0\<rparr>"

definition mepa_ts_classifier_0 :: mepa_ts_classifier where
  "mepa_ts_classifier_0 = \<lparr>tcl_enable = False, tcl_pkt_encap_type = MEPA_TS_ENCAP_NONE,
     tcl_clock_id = 0, tcl_eth_class_conf = mepa_ts_classifier_eth_0,
     tcl_ip_class_conf = mepa_ts_classifier_ip_0, tcl_eth2_class_conf = mepa_ts_classifier_eth_0,
     tcl_ip2_class_conf = mepa_ts_classifier_ip_0,
     tcl_mpls_class_conf = \<lparr>tcm_cw_en = False, tcm_flow_en = False, tcm_stack_depth = 0,
       tcm_stack_ref_point = MEPA_PTP_MPLS_PARSE_TOP_TO_BOTTOM,
       tcm_first_lvl = mepa_ts_mpls_lvl_rng_0, tcm_second_lvl = mepa_ts_mpls_lvl_rng_0,
       tcm_third_lvl = mepa_ts_mpls_lvl_rng_0, tcm_fourth_lvl = mepa_ts_mpls_lvl_rng_0\<rparr>\<rparr>"

definition mepa_ts_ptp_clock_conf_0 :: mepa_ts_ptp_clock_conf where
  "mepa_ts_ptp_clock_conf_0 = \<lparr>pcc_enable = False, pcc_ptp_class_conf = mepa_ts_classifier_ptp_0,
     pcc_clk_mode = MEPA_TS_PTP_CLOCK_MODE_NONE, pcc_delaym_type = MEPA_TS_PTP_DELAYM_P2P,
     pcc_cf_update = False\<rparr>"

end
