(* ===== verification/Mepa_Callout.thy ===== *)
theory Mepa_Callout
  imports Mepa_Ts_Types
begin

text \<open>
  The world in which the drivers run: the callouts that the application hands to
  \<open>mepa_create\<close> (\<open>mepa_callout_t\<close> of \<open>phy.h\<close>), the device heap
  (\<open>mepa_device_t\<close> of \<open>mepa_driver.h\<close>), the heap of the drivers' private data, and
  the trace of everything the drivers ask of their environment.

  The callouts are code of the application, so they are parameters: arbitrary
  functions on a type \<open>'h\<close> of the caller's choice, which stands for everything
  behind them (the MDIO bus, the chip, the allocator).  A missing callout (a NULL
  function pointer in C) is \<open>None\<close>.  A read callout answers a return code and the
  content of the out-parameter after the call; on an error that content is
  whatever the callout left there.
\<close>

section \<open>Callouts, devices and the world\<close>

record 'h mepa_callout =
  mmd_read :: "(nat \<Rightarrow> 8 word \<Rightarrow> 16 word \<Rightarrow> 'h \<Rightarrow> (mepa_rc \<times> 16 word) \<times> 'h) option"
  mmd_write :: "(nat \<Rightarrow> 8 word \<Rightarrow> 16 word \<Rightarrow> 16 word \<Rightarrow> 'h \<Rightarrow> mepa_rc \<times> 'h) option"
  miim_read :: "(nat \<Rightarrow> 8 word \<Rightarrow> 'h \<Rightarrow> (mepa_rc \<times> 16 word) \<times> 'h) option"
  miim_write :: "(nat \<Rightarrow> 8 word \<Rightarrow> 16 word \<Rightarrow> 'h \<Rightarrow> mepa_rc \<times> 'h) option"
  spi_read :: "(nat \<Rightarrow> 32 word \<Rightarrow> 8 word \<Rightarrow> 16 word \<Rightarrow> 'h \<Rightarrow> (mepa_rc \<times> 32 word) \<times> 'h) option"
  lock_enter :: "('h \<Rightarrow> 'h) option"
  lock_exit :: "('h \<Rightarrow> 'h) option"
  mem_alloc :: "(nat \<Rightarrow> nat \<Rightarrow> 'h \<Rightarrow> nat option \<times> 'h) option"
  mem_free :: "(nat \<Rightarrow> nat \<Rightarrow> 'h \<Rightarrow> 'h) option"

text \<open>
  A driver is one entry of the static table of a PHY family: its address is the
  family and the index.  The private data of a device is kept in the heap
  \<open>priv\<close> at the address of the device.
\<close>

type_synonym drv_ptr = "nat \<times> nat"

record 'h mepa_device =
  drv :: drv_ptr
  numeric_handle :: "32 word"
  callout :: "'h mepa_callout"
  callout_ctx :: nat

datatype io_event =
    MiimRd nat "8 word" mepa_rc "16 word"
  | MiimWr nat "8 word" "16 word" mepa_rc
  | MmdRd nat "8 word" "16 word" mepa_rc "16 word"
  | MmdWr nat "8 word" "16 word" "16 word" mepa_rc
  | SpiRd nat "32 word" "8 word" "16 word" mepa_rc "32 word"
  | LockEnter
  | LockExit
  | MSleep nat
  | NSleep nat
  | MemAlloc nat nat "nat option"
  | MemFree nat nat
  | TsFifoCb nat "32 word" mepa_timestamp mepa_ts_fifo_sig mepa_ts_fifo_status

text \<open>
  \<open>crashed\<close> records a call through a NULL function pointer, an access through a NULL
  pointer, an access outside an array or a conversion out of range, which are undefined
  behaviour in C.  \<open>stuck\<close> records that a loop that waits for the hardware or a deadline has
  used up the number of rounds that the model allows it.  \<open>os_sleep\<close> (nanoseconds) and \<open>os_clock\<close> (the wall clock,
  microseconds) are what \<open>MEPA_MSLEEP\<close>, \<open>MEPA_NSLEEP\<close> and \<open>MEPA_MTIMER_START/TIMEOUT\<close> use; \<open>app_ts_cb\<close>
  is what the application's function at an address does when it is handed a timestamp
  (\<open>mepa_ts_fifo_read_t\<close>).  No operation changes them.
\<close>

record ('h, 'd) world =
  hw :: 'h
  devs :: "nat \<Rightarrow> 'h mepa_device"
  priv :: "nat \<Rightarrow> 'd"
  io :: "io_event list"
  crashed :: bool
  stuck :: bool
  os_sleep :: "nat \<Rightarrow> 'h \<Rightarrow> 'h"
  os_clock :: "'h \<Rightarrow> nat \<times> 'h"
  app_ts_cb :: "nat \<Rightarrow> 32 word \<Rightarrow> mepa_timestamp \<Rightarrow> mepa_ts_fifo_sig \<Rightarrow> mepa_ts_fifo_status \<Rightarrow> 'h \<Rightarrow> 'h"

type_synonym ('h, 'd, 'a) mepa = "(('h, 'd) world, 'a) state"

section \<open>Primitive operations\<close>

definition hw_call :: "('h \<Rightarrow> 'a \<times> 'h) \<Rightarrow> ('a \<Rightarrow> io_event) \<Rightarrow> ('h, 'd, 'a) mepa" where
  "hw_call f ev = State (\<lambda>w. let (x, h) = f (hw w) in (x, w\<lparr>hw := h, io := io w @ [ev x]\<rparr>))"

definition null_call :: "'a \<Rightarrow> ('h, 'd, 'a) mepa" where
  "null_call x = do { change (\<lambda>w. w\<lparr>crashed := True\<rparr>); State_Monad.return x }"

definition co_miim_read :: "'h mepa_callout \<Rightarrow> nat \<Rightarrow> 8 word \<Rightarrow> ('h, 'd, mepa_rc \<times> 16 word) mepa" where
  "co_miim_read co ctx a = (case miim_read co of
      None \<Rightarrow> null_call (MEPA_RC_ERROR, 0)
    | Some f \<Rightarrow> hw_call (f ctx a) (\<lambda>(rc, v). MiimRd ctx a rc v))"

definition co_miim_write ::
  "'h mepa_callout \<Rightarrow> nat \<Rightarrow> 8 word \<Rightarrow> 16 word \<Rightarrow> ('h, 'd, mepa_rc) mepa" where
  "co_miim_write co ctx a v = (case miim_write co of
      None \<Rightarrow> null_call MEPA_RC_ERROR
    | Some f \<Rightarrow> hw_call (f ctx a v) (\<lambda>rc. MiimWr ctx a v rc))"

definition co_mmd_read ::
  "'h mepa_callout \<Rightarrow> nat \<Rightarrow> 8 word \<Rightarrow> 16 word \<Rightarrow> ('h, 'd, mepa_rc \<times> 16 word) mepa" where
  "co_mmd_read co ctx mmd a = (case mmd_read co of
      None \<Rightarrow> null_call (MEPA_RC_ERROR, 0)
    | Some f \<Rightarrow> hw_call (f ctx mmd a) (\<lambda>(rc, v). MmdRd ctx mmd a rc v))"

definition co_mmd_write ::
  "'h mepa_callout \<Rightarrow> nat \<Rightarrow> 8 word \<Rightarrow> 16 word \<Rightarrow> 16 word \<Rightarrow> ('h, 'd, mepa_rc) mepa" where
  "co_mmd_write co ctx mmd a v = (case mmd_write co of
      None \<Rightarrow> null_call MEPA_RC_ERROR
    | Some f \<Rightarrow> hw_call (f ctx mmd a v) (\<lambda>rc. MmdWr ctx mmd a v rc))"

definition co_spi_read ::
  "'h mepa_callout \<Rightarrow> nat \<Rightarrow> 32 word \<Rightarrow> 8 word \<Rightarrow> 16 word \<Rightarrow> ('h, 'd, mepa_rc \<times> 32 word) mepa" where
  "co_spi_read co ctx port mmd a = (case spi_read co of
      None \<Rightarrow> null_call (MEPA_RC_ERROR, 0)
    | Some f \<Rightarrow> hw_call (f ctx port mmd a) (\<lambda>(rc, v). SpiRd ctx port mmd a rc v))"

definition stuck_loop :: "'a \<Rightarrow> ('h, 'd, 'a) mepa" where
  "stuck_loop x = do { change (\<lambda>w. w\<lparr>stuck := True\<rparr>); State_Monad.return x }"

text \<open>Accesses through a device pointer: \<open>dev->callout->miim_read(dev->callout_ctx, ...)\<close>.\<close>

definition dev_of :: "nat \<Rightarrow> ('h, 'd, 'h mepa_device) mepa" where
  "dev_of p = gets (\<lambda>w. devs w p)"

definition dev_miim_read :: "nat \<Rightarrow> 8 word \<Rightarrow> ('h, 'd, mepa_rc \<times> 16 word) mepa" where
  "dev_miim_read p a = do { d \<leftarrow> dev_of p; co_miim_read (callout d) (callout_ctx d) a }"

definition dev_miim_write :: "nat \<Rightarrow> 8 word \<Rightarrow> 16 word \<Rightarrow> ('h, 'd, mepa_rc) mepa" where
  "dev_miim_write p a v = do { d \<leftarrow> dev_of p; co_miim_write (callout d) (callout_ctx d) a v }"

definition data_of :: "nat \<Rightarrow> ('h, 'd, 'd) mepa" where
  "data_of p = gets (\<lambda>w. priv w p)"

definition upd_data :: "nat \<Rightarrow> ('d \<Rightarrow> 'd) \<Rightarrow> ('h, 'd, unit) mepa" where
  "upd_data p f = change (\<lambda>w. w\<lparr>priv := (priv w)(p := f (priv w p))\<rparr>)"

text \<open>
  \<open>MEPA_ENTER\<close> and \<open>MEPA_EXIT\<close>: the lock callouts are called when they are present.
  The function, file and line that the macros pass along only serve diagnostics.
\<close>

definition MEPA_ENTER :: "nat \<Rightarrow> ('h, 'd, unit) mepa" where
  "MEPA_ENTER p = do {
     d \<leftarrow> dev_of p;
     case lock_enter (callout d) of
       None \<Rightarrow> State_Monad.return ()
     | Some f \<Rightarrow> hw_call (\<lambda>h. ((), f h)) (\<lambda>_. LockEnter) }"

definition MEPA_EXIT :: "nat \<Rightarrow> ('h, 'd, unit) mepa" where
  "MEPA_EXIT p = do {
     d \<leftarrow> dev_of p;
     case lock_exit (callout d) of
       None \<Rightarrow> State_Monad.return ()
     | Some f \<Rightarrow> hw_call (\<lambda>h. ((), f h)) (\<lambda>_. LockExit) }"

definition MEPA_MSLEEP :: "nat \<Rightarrow> ('h, 'd, unit) mepa" where
  "MEPA_MSLEEP n = do {
     f \<leftarrow> gets os_sleep;
     hw_call (\<lambda>h. ((), f (n * 1000000) h)) (\<lambda>_. MSleep n) }"

definition MEPA_NSLEEP :: "nat \<Rightarrow> ('h, 'd, unit) mepa" where
  "MEPA_NSLEEP n = do {
     f \<leftarrow> gets os_sleep;
     hw_call (\<lambda>h. ((), f n h)) (\<lambda>_. NSleep n) }"

text \<open>The call of an installed timestamp callback, \<open>rd_cb(port_no, &ts, &sig, status)\<close>.\<close>

definition call_ts_cb :: "nat option \<Rightarrow> 32 word \<Rightarrow> mepa_timestamp \<Rightarrow> mepa_ts_fifo_sig \<Rightarrow>
    mepa_ts_fifo_status \<Rightarrow> ('h, 'd, unit) mepa" where
  "call_ts_cb rd_cb port_no ts sig status = (case rd_cb of
      None \<Rightarrow> null_call ()
    | Some f \<Rightarrow> do {
        cb \<leftarrow> gets app_ts_cb;
        hw_call (\<lambda>h. ((), cb f port_no ts sig status h)) (\<lambda>_. TsFifoCb f port_no ts sig status) })"

text \<open>The macro \<open>MEPA_RC\<close>: an error code of the expression is returned at once.\<close>

definition MEPA_RC :: "('h, 'd, mepa_rc) mepa \<Rightarrow> ('h, 'd, mepa_rc) mepa \<Rightarrow> ('h, 'd, mepa_rc) mepa" where
  "MEPA_RC m k = do { rc \<leftarrow> m; if rc < MEPA_RC_OK then State_Monad.return rc else k }"

lemma exec_hw_call: "exec (hw_call f ev) w =
    w\<lparr>hw := snd (f (hw w)), io := io w @ [ev (fst (f (hw w)))]\<rparr>"
  by (simp add: hw_call_def exec_def Let_def split: prod.split)

lemma val_hw_call: "val (hw_call f ev) w = fst (f (hw w))"
  by (simp add: hw_call_def val_def Let_def split: prod.split)

lemma exec_null_call: "exec (null_call x) w = w\<lparr>crashed := True\<rparr>"
  by (simp add: null_call_def)

lemma val_null_call: "val (null_call x) w = x"
  by (simp add: null_call_def)

lemma exec_stuck_loop: "exec (stuck_loop x) w = w\<lparr>stuck := True\<rparr>"
  by (simp add: stuck_loop_def)

lemma val_stuck_loop: "val (stuck_loop x) w = x"
  by (simp add: stuck_loop_def)

lemmas prim_simps = exec_hw_call val_hw_call exec_null_call val_null_call exec_stuck_loop
  val_stuck_loop

lemma exec_dev_of [simp]: "exec (dev_of p) w = w" "val (dev_of p) w = devs w p"
  by (simp_all add: dev_of_def)

lemma exec_data_of [simp]: "exec (data_of p) w = w" "val (data_of p) w = priv w p"
  by (simp_all add: data_of_def)

lemma exec_upd_data [simp]:
  "exec (upd_data p f) w = w\<lparr>priv := (priv w)(p := f (priv w p))\<rparr>" "val (upd_data p f) w = ()"
  by (simp_all add: upd_data_def)

lemma moves_data_of: "(\<And>x. moves P (f x) Q) \<Longrightarrow> moves P (State_Monad.bind (data_of p) f) Q"
  by (simp add: moves_def)

lemma moves_dev_of: "(\<And>x. moves P (f x) Q) \<Longrightarrow> moves P (State_Monad.bind (dev_of p) f) Q"
  by (simp add: moves_def)

section \<open>Invariants of the drivers' operations\<close>

text \<open>
  Everything that a driver does to the world goes through a few operations: a
  bus access, a sleep and an update of private data.  A predicate that they
  keep is kept by every driver function built from them; a client proves its
  \<open>keeps\<close> lemmas once inside these locales.  Functions that only use the bus are
  treated in \<open>bus_invariant\<close>, the others in \<open>world_invariant\<close>.
\<close>

locale bus_invariant =
  fixes I :: "('h, 'd) world \<Rightarrow> bool"
  assumes keeps_miim_read: "keeps I (dev_miim_read p a)"
    and keeps_miim_write: "keeps I (dev_miim_write p a v)"
    and keeps_sleep: "keeps I (MEPA_MSLEEP n)"
    and keeps_nsleep: "keeps I (MEPA_NSLEEP n)"
begin

lemma keeps_dev_of: "keeps I (dev_of p)"
  by (simp add: moves_def)

lemma keeps_data_of: "keeps I (data_of p)"
  by (simp add: moves_def)

lemma keeps_MEPA_RC: "keeps I m \<Longrightarrow> keeps I k \<Longrightarrow> keeps I (MEPA_RC m k)"
  unfolding MEPA_RC_def by (intro keeps_rules)

lemmas bus_keeps = keeps_miim_read keeps_miim_write keeps_sleep keeps_nsleep keeps_dev_of keeps_data_of
  keeps_MEPA_RC

end

text \<open>An invariant that does not look at the private data is kept by every update of it.\<close>

locale world_invariant = bus_invariant I for I :: "('h, 'd) world \<Rightarrow> bool" +
  assumes keeps_upd_data: "keeps I (upd_data p f)"
begin

lemmas prim_keeps = bus_keeps keeps_upd_data

end

text \<open>
  The lock protocol of an operation that enters on one device and exits on the
  same: \<open>Free\<close> holds outside, \<open>Held\<close> inside.
\<close>

locale lock_protocol = bus_invariant Held
  for Held :: "('h, 'd) world \<Rightarrow> bool" +
  fixes Free :: "('h, 'd) world \<Rightarrow> bool" and p0 :: nat
  assumes enter: "moves Free (MEPA_ENTER p0) Held"
    and exit: "moves Held (MEPA_EXIT p0) Free"
begin

lemma critical:
  assumes "keeps Held m"
  shows "keeps Free (do { MEPA_ENTER p0; x \<leftarrow> m; MEPA_EXIT p0; State_Monad.return (f x) })"
  using enter exit assms by (auto simp: moves_def)

lemma moves_enter: "(\<And>x. moves Held (f x) R) \<Longrightarrow>
    moves Free (State_Monad.bind (MEPA_ENTER p0) f) R"
  by (rule moves_bind [OF enter])

lemma moves_exit: "(\<And>x. moves Free (f x) R) \<Longrightarrow>
    moves Held (State_Monad.bind (MEPA_EXIT p0) f) R"
  by (rule moves_bind [OF exit])

lemma moves_step: "keeps Held m \<Longrightarrow> (\<And>x. moves Held (f x) R) \<Longrightarrow>
    moves Held (State_Monad.bind m f) R"
  by (rule moves_bind)

end

text \<open>
  The lock automaton over the trace.  A bus access outside the lock, a second
  enter, an exit without an enter and a callback under the lock (the application may
  call the API from it) are violations.
\<close>

datatype lock_st = Lock_Free | Lock_Held | Lock_Violated

fun lock_step :: "lock_st \<Rightarrow> io_event \<Rightarrow> lock_st" where
  "lock_step s LockEnter = (if s = Lock_Free then Lock_Held else Lock_Violated)"
| "lock_step s LockExit = (if s = Lock_Held then Lock_Free else Lock_Violated)"
| "lock_step s (MiimRd _ _ _ _) = (if s = Lock_Held then Lock_Held else Lock_Violated)"
| "lock_step s (MiimWr _ _ _ _) = (if s = Lock_Held then Lock_Held else Lock_Violated)"
| "lock_step s (MmdRd _ _ _ _ _) = (if s = Lock_Held then Lock_Held else Lock_Violated)"
| "lock_step s (MmdWr _ _ _ _ _) = (if s = Lock_Held then Lock_Held else Lock_Violated)"
| "lock_step s (SpiRd _ _ _ _ _ _) = (if s = Lock_Held then Lock_Held else Lock_Violated)"
| "lock_step s (TsFifoCb _ _ _ _ _) = (if s = Lock_Free then Lock_Free else Lock_Violated)"
| "lock_step s _ = s"

definition lock_state :: "io_event list \<Rightarrow> lock_st" where
  "lock_state = foldl lock_step Lock_Free"

lemma lock_state_append [simp]: "lock_state (xs @ [e]) = lock_step (lock_state xs) e"
  by (simp add: lock_state_def)

lemma lock_step_violated: "lock_step Lock_Violated e = Lock_Violated"
  by (cases e) simp_all

lemma lock_violated_append: "lock_state xs = Lock_Violated \<Longrightarrow> lock_state (xs @ ys) = Lock_Violated"
  by (induction ys rule: rev_induct) (simp_all add: lock_step_violated flip: append_assoc)

text \<open>
  The lock is held (free), the device heap is the given one and the lock callouts
  of the device \<open>p\<close> are there.
\<close>

definition has_locks :: "'h mepa_device \<Rightarrow> bool" where
  "has_locks d = (lock_enter (callout d) \<noteq> None \<and> lock_exit (callout d) \<noteq> None)"

definition lock_held :: "(nat \<Rightarrow> 'h mepa_device) \<Rightarrow> nat \<Rightarrow> ('h, 'd) world \<Rightarrow> bool" where
  "lock_held dv p w = (lock_state (io w) = Lock_Held \<and> devs w = dv \<and> has_locks (dv p))"

definition lock_free :: "(nat \<Rightarrow> 'h mepa_device) \<Rightarrow> nat \<Rightarrow> ('h, 'd) world \<Rightarrow> bool" where
  "lock_free dv p w = (lock_state (io w) = Lock_Free \<and> devs w = dv \<and> has_locks (dv p))"

lemmas prim_defs = dev_miim_read_def dev_miim_write_def co_miim_read_def co_miim_write_def
  MEPA_MSLEEP_def MEPA_NSLEEP_def

interpretation held: world_invariant "lock_held dv p" for dv :: "nat \<Rightarrow> 'h mepa_device" and p :: nat
  by unfold_locales
    (auto simp: moves_def lock_held_def prim_defs prim_simps split: option.splits prod.splits)

interpretation lock: lock_protocol "lock_held dv p" "lock_free dv p" p
  for dv :: "nat \<Rightarrow> 'h mepa_device" and p :: nat
proof (intro lock_protocol.intro lock_protocol_axioms.intro held.bus_invariant_axioms)
  show "moves (lock_free dv p) (MEPA_ENTER p) (lock_held dv p)"
    by (auto simp: moves_def lock_held_def lock_free_def has_locks_def MEPA_ENTER_def prim_simps
        split: option.splits)
  show "moves (lock_held dv p) (MEPA_EXIT p) (lock_free dv p)"
    by (auto simp: moves_def lock_held_def lock_free_def has_locks_def MEPA_EXIT_def prim_simps
        split: option.splits)
qed

text \<open>The same when every device has the lock callouts: the histories of calls need this.\<close>

definition all_free :: "(nat \<Rightarrow> 'h mepa_device) \<Rightarrow> ('h, 'd) world \<Rightarrow> bool" where
  "all_free dv w = (lock_state (io w) = Lock_Free \<and> devs w = dv \<and> (\<forall>p. has_locks (dv p)))"

definition all_held :: "(nat \<Rightarrow> 'h mepa_device) \<Rightarrow> ('h, 'd) world \<Rightarrow> bool" where
  "all_held dv w = (lock_state (io w) = Lock_Held \<and> devs w = dv \<and> (\<forall>p. has_locks (dv p)))"

interpretation all_held: world_invariant "all_held dv" for dv :: "nat \<Rightarrow> 'h mepa_device"
  by unfold_locales
    (auto simp: moves_def all_held_def prim_defs prim_simps split: option.splits prod.splits)

interpretation all_locks: lock_protocol "all_held dv" "all_free dv" p
  for dv :: "nat \<Rightarrow> 'h mepa_device" and p :: nat
proof (intro lock_protocol.intro lock_protocol_axioms.intro all_held.bus_invariant_axioms)
  show "moves (all_free dv) (MEPA_ENTER p) (all_held dv)" "moves (all_held dv) (MEPA_EXIT p) (all_free dv)"
    using lock.enter [of dv p] lock.exit [of dv p]
    by (auto simp: moves_def all_held_def all_free_def lock_held_def lock_free_def)
qed

text \<open>The device heap is the one of before, and no NULL callout has been called.\<close>

definition bus_present :: "'h mepa_device \<Rightarrow> bool" where
  "bus_present d = (miim_read (callout d) \<noteq> None \<and> miim_write (callout d) \<noteq> None)"

definition no_crash :: "(nat \<Rightarrow> 'h mepa_device) \<Rightarrow> ('h, 'd) world \<Rightarrow> bool" where
  "no_crash dv w = ((\<forall>p. bus_present (dv p)) \<and> devs w = dv \<and> \<not> crashed w)"

interpretation safe_bus: world_invariant "no_crash dv" for dv :: "nat \<Rightarrow> 'h mepa_device"
  by unfold_locales
    (auto simp: moves_def no_crash_def bus_present_def prim_defs prim_simps
      split: option.splits prod.splits)

lemma no_crash_locks:
  "keeps (no_crash dv) (MEPA_ENTER p)" "keeps (no_crash dv) (MEPA_EXIT p)"
  by (auto simp: moves_def no_crash_def MEPA_ENTER_def MEPA_EXIT_def prim_simps
      split: option.splits)

interpretation safe: lock_protocol "no_crash dv" "no_crash dv" p
  for dv :: "nat \<Rightarrow> 'h mepa_device" and p :: nat
  by (intro lock_protocol.intro lock_protocol_axioms.intro no_crash_locks
      safe_bus.bus_invariant_axioms)

end
