(* ===== verification/Mdio.thy ===== *)
theory Mdio
  imports Mepa_Callout
begin

text \<open>
  The registers behind the MDIO bus, and what a trace of bus accesses means for
  them.

  Two pairs of registers are windows to other register files: 13/14 to the MMD
  devices (IEEE 802.3, Annex 22D) and 22/23 to the extended pages of the LAN8814
  family.  The control register of a window holds a function in bits 15:14 (0:
  the data register is the address, 1: data, 2: data with increment on read and
  write, 3: data with increment on write) and a device or page in bits 4:0.
  \<open>lops\<close> decodes the trace of the world into reads and writes of the logical
  registers, per MDIO context, and the timestamps handed to the application (\<open>LCb\<close>).  \<open>lspec\<close> states what an operation does to the
  private data and to the logical registers when the callouts report success,
  for any values that the hardware answers.
\<close>

section \<open>Logical registers and the decoder\<close>

datatype lreg = Dir "8 word" | Mmd "16 word" "16 word" | Ext "16 word" "16 word"

datatype lop = LRd nat lreg "16 word" | LWr nat lreg "16 word"
  | LCb nat "32 word" mepa_timestamp mepa_ts_fifo_sig mepa_ts_fifo_status

record window =
  win_ctl :: "16 word"
  win_adr :: "16 word"

record decoder =
  dec_mmd :: "nat \<Rightarrow> window"
  dec_ext :: "nat \<Rightarrow> window"
  dec_ops :: "lop list"

definition win_func :: "window \<Rightarrow> 16 word" where
  "win_func w = drop_bit 14 (win_ctl w)"

definition win_reg :: "(16 word \<Rightarrow> 16 word \<Rightarrow> lreg) \<Rightarrow> window \<Rightarrow> lreg" where
  "win_reg mk w = mk (win_ctl w AND 0x1F) (win_adr w)"

definition win_after_read :: "window \<Rightarrow> window" where
  "win_after_read w = (if win_func w = 2 then w\<lparr>win_adr := win_adr w + 1\<rparr> else w)"

definition win_after_write :: "16 word \<Rightarrow> window \<Rightarrow> window" where
  "win_after_write v w = (if win_func w = 0 then w\<lparr>win_adr := v\<rparr>
     else if win_func w = 1 then w else w\<lparr>win_adr := win_adr w + 1\<rparr>)"

definition dec_read :: "nat \<Rightarrow> 8 word \<Rightarrow> 16 word \<Rightarrow> decoder \<Rightarrow> decoder" where
  "dec_read c a v s =
    (if a = 13 \<or> a = 22 then s
     else if a = 14 then
       (if win_func (dec_mmd s c) = 0 then s
        else s\<lparr>dec_mmd := (dec_mmd s)(c := win_after_read (dec_mmd s c)),
               dec_ops := dec_ops s @ [LRd c (win_reg Mmd (dec_mmd s c)) v]\<rparr>)
     else if a = 23 then
       (if win_func (dec_ext s c) = 0 then s
        else s\<lparr>dec_ext := (dec_ext s)(c := win_after_read (dec_ext s c)),
               dec_ops := dec_ops s @ [LRd c (win_reg Ext (dec_ext s c)) v]\<rparr>)
     else s\<lparr>dec_ops := dec_ops s @ [LRd c (Dir a) v]\<rparr>)"

definition dec_write :: "nat \<Rightarrow> 8 word \<Rightarrow> 16 word \<Rightarrow> decoder \<Rightarrow> decoder" where
  "dec_write c a v s =
    (if a = 13 then s\<lparr>dec_mmd := (dec_mmd s)(c := (dec_mmd s c)\<lparr>win_ctl := v\<rparr>)\<rparr>
     else if a = 22 then s\<lparr>dec_ext := (dec_ext s)(c := (dec_ext s c)\<lparr>win_ctl := v\<rparr>)\<rparr>
     else if a = 14 then
       s\<lparr>dec_mmd := (dec_mmd s)(c := win_after_write v (dec_mmd s c)),
         dec_ops := (if win_func (dec_mmd s c) = 0 then dec_ops s
                     else dec_ops s @ [LWr c (win_reg Mmd (dec_mmd s c)) v])\<rparr>
     else if a = 23 then
       s\<lparr>dec_ext := (dec_ext s)(c := win_after_write v (dec_ext s c)),
         dec_ops := (if win_func (dec_ext s c) = 0 then dec_ops s
                     else dec_ops s @ [LWr c (win_reg Ext (dec_ext s c)) v])\<rparr>
     else s\<lparr>dec_ops := dec_ops s @ [LWr c (Dir a) v]\<rparr>)"

text \<open>An access that the callout reported as failed is not counted.\<close>

fun dec_step :: "decoder \<Rightarrow> io_event \<Rightarrow> decoder" where
  "dec_step s (MiimRd c a rc v) = (if rc = MEPA_RC_OK then dec_read c a v s else s)"
| "dec_step s (MiimWr c a v rc) = (if rc = MEPA_RC_OK then dec_write c a v s else s)"
| "dec_step s (TsFifoCb f n ts sig st) = s\<lparr>dec_ops := dec_ops s @ [LCb f n ts sig st]\<rparr>"
| "dec_step s _ = s"

definition dec_init :: decoder where
  "dec_init = \<lparr>dec_mmd = (\<lambda>_. \<lparr>win_ctl = 0, win_adr = 0\<rparr>),
               dec_ext = (\<lambda>_. \<lparr>win_ctl = 0, win_adr = 0\<rparr>), dec_ops = []\<rparr>"

definition decode :: "io_event list \<Rightarrow> decoder" where
  "decode = foldl dec_step dec_init"

definition lops :: "('h, 'd) world \<Rightarrow> lop list" where
  "lops w = dec_ops (decode (io w))"

lemma decode_snoc [simp]: "decode (xs @ [e]) = dec_step (decode xs) e"
  by (simp add: decode_def)

text \<open>A five-bit device or page number selects itself, with any function.\<close>

definition five_bit :: "16 word \<Rightarrow> bool" where
  "five_bit n = (n AND 0x1F = n)"

lemma five_bit_bits: "five_bit n \<Longrightarrow> 5 \<le> i \<Longrightarrow> \<not> bit n i"
proof -
  assume "five_bit n" and i: "5 \<le> i"
  then have "bit n i = (bit n i \<and> bit (0x1F :: 16 word) i)"
    unfolding five_bit_def by (metis bit_and_iff)
  moreover have "(0x1F :: 16 word) = mask 5"
    by (simp add: mask_eq_exp_minus_1)
  ultimately show ?thesis
    using i by (simp add: bit_mask_iff)
qed

lemma win_func_select:
  assumes "five_bit n"
  shows "drop_bit 14 n = 0" "drop_bit 14 (0x4000 OR n) = 1" "drop_bit 14 (0x8000 OR n) = 2"
proof -
  show a: "drop_bit 14 n = 0"
    by (rule bit_eqI) (use five_bit_bits [OF assms] in \<open>simp add: bit_drop_bit_eq\<close>)
  show "drop_bit 14 (0x4000 OR n) = 1" "drop_bit 14 (0x8000 OR n) = 2"
    by (simp_all add: drop_bit_or a)
qed

lemma win_dev_select:
  assumes "five_bit n"
  shows "n AND 0x1F = n" "(0x4000 OR n) AND 0x1F = n" "(0x8000 OR n) AND 0x1F = n"
  using assms by (simp_all add: five_bit_def bit.conj_disj_distrib2)

section \<open>Devices whose bus accesses succeed\<close>

definition bus_ok :: "'h mepa_device \<Rightarrow> bool" where
  "bus_ok d = (case (miim_read (callout d), miim_write (callout d)) of
      (Some rd, Some wr) \<Rightarrow>
        (\<forall>a h. fst (fst (rd (callout_ctx d) a h)) = MEPA_RC_OK) \<and>
        (\<forall>a v h. fst (wr (callout_ctx d) a v h) = MEPA_RC_OK)
    | _ \<Rightarrow> False)"

definition bus_at :: "(nat \<Rightarrow> 'h mepa_device) \<Rightarrow> nat \<Rightarrow> bool" where
  "bus_at dv p = bus_ok (dv p)"

lemma bus_okE:
  assumes "bus_ok d"
  obtains rd wr where "miim_read (callout d) = Some rd" "miim_write (callout d) = Some wr"
    "\<And>a h. fst (fst (rd (callout_ctx d) a h)) = 0" "\<And>a v h. fst (wr (callout_ctx d) a v h) = 0"
  using assms unfolding bus_ok_def by (auto split: option.splits)

lemma bus_ok_present: "bus_at dv p \<Longrightarrow> bus_present (dv p)"
  by (auto simp: bus_at_def bus_ok_def bus_present_def split: option.splits)

lemma miim_read_ok:
  assumes "bus_at (devs w) p"
  obtains v h where "run_state (dev_miim_read p a) w =
    ((0, v), w\<lparr>hw := h, io := io w @ [MiimRd (callout_ctx (devs w p)) a 0 v]\<rparr>)"
proof -
  from assms obtain rd wr where rd: "miim_read (callout (devs w p)) = Some rd"
    and ok: "\<And>a h. fst (fst (rd (callout_ctx (devs w p)) a h)) = 0"
    unfolding bus_at_def by (elim bus_okE) blast
  obtain rc v h where r: "rd (callout_ctx (devs w p)) a (hw w) = ((rc, v), h)"
    by (metis prod.exhaust)
  with ok [of a "hw w"] have "rc = 0" by simp
  with rd r have "run_state (dev_miim_read p a) w =
    ((0, v), w\<lparr>hw := h, io := io w @ [MiimRd (callout_ctx (devs w p)) a 0 v]\<rparr>)"
    by (simp add: run_state_eq prim_defs prim_simps)
  then show thesis by (rule that)
qed

lemma miim_write_ok:
  assumes "bus_at (devs w) p"
  obtains h where "run_state (dev_miim_write p a v) w =
    (0, w\<lparr>hw := h, io := io w @ [MiimWr (callout_ctx (devs w p)) a v 0]\<rparr>)"
proof -
  from assms obtain rd wr where wr: "miim_write (callout (devs w p)) = Some wr"
    and ok: "\<And>a v h. fst (wr (callout_ctx (devs w p)) a v h) = 0"
    unfolding bus_at_def by (elim bus_okE) blast
  obtain rc h where r: "wr (callout_ctx (devs w p)) a v (hw w) = (rc, h)"
    by (metis prod.exhaust)
  with ok [of a v "hw w"] have "rc = 0" by simp
  with wr r have "run_state (dev_miim_write p a v) w =
    (0, w\<lparr>hw := h, io := io w @ [MiimWr (callout_ctx (devs w p)) a v 0]\<rparr>)"
    by (simp add: run_state_eq prim_defs prim_simps)
  then show thesis by (rule that)
qed

section \<open>What an operation does to the decoder\<close>

text \<open>
  \<open>dspec dv m D s Q\<close>: run with device heap \<open>dv\<close>, private data \<open>D\<close> and a trace
  that decodes to \<open>s\<close>, \<open>m\<close> leaves the device heap and the crash flag alone, and
  its result, the new private data and the new decoder satisfy \<open>Q\<close>.
\<close>

definition dspec :: "(nat \<Rightarrow> 'h mepa_device) \<Rightarrow> ('h, 'd, 'a) mepa \<Rightarrow> (nat \<Rightarrow> 'd) \<Rightarrow> decoder \<Rightarrow>
    ('a \<Rightarrow> (nat \<Rightarrow> 'd) \<Rightarrow> decoder \<Rightarrow> bool) \<Rightarrow> bool" where
  "dspec dv m D s Q = (\<forall>w. devs w = dv \<and> priv w = D \<and> decode (io w) = s \<longrightarrow>
     devs (exec m w) = dv \<and> crashed (exec m w) = crashed w \<and>
     Q (val m w) (priv (exec m w)) (decode (io (exec m w))))"

lemma dspec_return: "Q x D s \<Longrightarrow> dspec dv (State_Monad.return x) D s Q"
  by (simp add: dspec_def)

lemma dspec_bind:
  "dspec dv m D s (\<lambda>x D' s'. dspec dv (f x) D' s' Q) \<Longrightarrow> dspec dv (State_Monad.bind m f) D s Q"
  by (simp add: dspec_def)

lemma dspec_if: "(b \<Longrightarrow> dspec dv m D s Q) \<Longrightarrow> (\<not> b \<Longrightarrow> dspec dv n D s Q) \<Longrightarrow>
    dspec dv (if b then m else n) D s Q"
  by simp

lemma dspec_mono: "dspec dv m D s Q \<Longrightarrow> (\<And>x D' s'. Q x D' s' \<Longrightarrow> R x D' s') \<Longrightarrow> dspec dv m D s R"
  by (simp add: dspec_def)

lemma dspec_miim_read:
  assumes "bus_at dv p" "\<And>v. Q (0, v) D (dec_read (callout_ctx (dv p)) a v s)"
  shows "dspec dv (dev_miim_read p a) D s Q"
  unfolding dspec_def
proof (intro allI impI)
  fix w :: "('a, 'b) world"
  assume w: "devs w = dv \<and> priv w = D \<and> decode (io w) = s"
  with assms(1) have "bus_at (devs w) p" by simp
  then obtain v h where "run_state (dev_miim_read p a) w =
      ((0, v), w\<lparr>hw := h, io := io w @ [MiimRd (callout_ctx (devs w p)) a 0 v]\<rparr>)"
    by (rule miim_read_ok)
  with w assms(2) show "devs (exec (dev_miim_read p a) w) = dv \<and>
      crashed (exec (dev_miim_read p a) w) = crashed w \<and>
      Q (val (dev_miim_read p a) w) (priv (exec (dev_miim_read p a) w))
        (decode (io (exec (dev_miim_read p a) w)))"
    by (simp add: run_state_eq)
qed

lemma dspec_miim_write:
  assumes "bus_at dv p" "Q 0 D (dec_write (callout_ctx (dv p)) a v s)"
  shows "dspec dv (dev_miim_write p a v) D s Q"
  unfolding dspec_def
proof (intro allI impI)
  fix w :: "('a, 'b) world"
  assume w: "devs w = dv \<and> priv w = D \<and> decode (io w) = s"
  with assms(1) have "bus_at (devs w) p" by simp
  then obtain h where "run_state (dev_miim_write p a v) w =
      (0, w\<lparr>hw := h, io := io w @ [MiimWr (callout_ctx (devs w p)) a v 0]\<rparr>)"
    by (rule miim_write_ok)
  with w assms(2) show "devs (exec (dev_miim_write p a v) w) = dv \<and>
      crashed (exec (dev_miim_write p a v) w) = crashed w \<and>
      Q (val (dev_miim_write p a v) w) (priv (exec (dev_miim_write p a v) w))
        (decode (io (exec (dev_miim_write p a v) w)))"
    by (simp add: run_state_eq)
qed

section \<open>What an operation does to the logical registers\<close>

text \<open>
  \<open>lspec dv m D Q\<close>: run with device heap \<open>dv\<close> and private data \<open>D\<close>, \<open>m\<close> adds some
  logical register accesses to the trace, and its result, the new private data
  and the list of these accesses satisfy \<open>Q\<close>.
\<close>

definition lspec :: "(nat \<Rightarrow> 'h mepa_device) \<Rightarrow> ('h, 'd, 'a) mepa \<Rightarrow> (nat \<Rightarrow> 'd) \<Rightarrow>
    ('a \<Rightarrow> (nat \<Rightarrow> 'd) \<Rightarrow> lop list \<Rightarrow> bool) \<Rightarrow> bool" where
  "lspec dv m D Q = (\<forall>s. dspec dv m D s
     (\<lambda>x D' s'. \<exists>ops. dec_ops s' = dec_ops s @ ops \<and> Q x D' ops))"

lemma lspecI:
  "(\<And>s. dspec dv m D s (\<lambda>x D' s'. \<exists>ops. dec_ops s' = dec_ops s @ ops \<and> Q x D' ops)) \<Longrightarrow>
    lspec dv m D Q"
  by (simp add: lspec_def)

text \<open>The meaning of \<open>lspec\<close> on worlds.\<close>

lemma lspec_world:
  assumes "lspec (devs w) m (priv w) Q"
  shows "devs (exec m w) = devs w \<and> crashed (exec m w) = crashed w \<and>
    (\<exists>ops. lops (exec m w) = lops w @ ops \<and> Q (val m w) (priv (exec m w)) ops)"
  using assms unfolding lspec_def dspec_def lops_def by blast

lemma dspec_run:
  assumes "dspec (devs w) m (priv w) (decode (io w)) Q" "run_state m w = (x, w')"
  shows "devs w' = devs w \<and> crashed w' = crashed w \<and> Q x (priv w') (decode (io w'))"
proof -
  from assms(2) have "x = val m w" "w' = exec m w" by (simp_all add: val_def exec_def)
  with assms(1) show ?thesis by (auto simp: dspec_def)
qed

lemma lspec_run:
  assumes "lspec (devs w) m (priv w) Q" "run_state m w = (x, w')"
  shows "devs w' = devs w \<and> crashed w' = crashed w \<and>
    (\<exists>ops. lops w' = lops w @ ops \<and> Q x (priv w') ops)"
proof -
  from assms(2) have "x = val m w" "w' = exec m w" by (simp_all add: val_def exec_def)
  with lspec_world [OF assms(1)] show ?thesis by simp
qed

lemma lspec_return: "Q x D [] \<Longrightarrow> lspec dv (State_Monad.return x) D Q"
  by (simp add: lspec_def dspec_return)

lemma lspec_bind:
  assumes "lspec dv m D (\<lambda>x D' o1. lspec dv (f x) D' (\<lambda>y D'' o2. Q y D'' (o1 @ o2)))"
  shows "lspec dv (State_Monad.bind m f) D Q"
proof (rule lspecI, rule dspec_bind)
  fix s :: decoder
  from assms have "dspec dv m D s (\<lambda>x D' s'. \<exists>o1. dec_ops s' = dec_ops s @ o1 \<and>
      lspec dv (f x) D' (\<lambda>y D'' o2. Q y D'' (o1 @ o2)))"
    by (simp add: lspec_def)
  then show "dspec dv m D s (\<lambda>x D' s'. dspec dv (f x) D' s'
      (\<lambda>y D'' s''. \<exists>ops. dec_ops s'' = dec_ops s @ ops \<and> Q y D'' ops))"
  proof (rule dspec_mono)
    fix x D' and s' :: decoder
    assume "\<exists>o1. dec_ops s' = dec_ops s @ o1 \<and>
      lspec dv (f x) D' (\<lambda>y D'' o2. Q y D'' (o1 @ o2))"
    then obtain o1 where o1: "dec_ops s' = dec_ops s @ o1"
      and l: "lspec dv (f x) D' (\<lambda>y D'' o2. Q y D'' (o1 @ o2))"
      by blast
    from l have "dspec dv (f x) D' s' (\<lambda>y D'' s''. \<exists>o2. dec_ops s'' = dec_ops s' @ o2 \<and>
        Q y D'' (o1 @ o2))"
      by (simp add: lspec_def)
    then show "dspec dv (f x) D' s'
        (\<lambda>y D'' s''. \<exists>ops. dec_ops s'' = dec_ops s @ ops \<and> Q y D'' ops)"
      by (rule dspec_mono) (use o1 in auto)
  qed
qed

lemma lspec_mono: "lspec dv m D Q \<Longrightarrow> (\<And>x D' ops. Q x D' ops \<Longrightarrow> R x D' ops) \<Longrightarrow> lspec dv m D R"
  unfolding lspec_def by (blast intro: dspec_mono)

lemma lspec_if: "(b \<Longrightarrow> lspec dv m D Q) \<Longrightarrow> (\<not> b \<Longrightarrow> lspec dv n D Q) \<Longrightarrow>
    lspec dv (if b then m else n) D Q"
  by simp

lemma lspec_only_if: "(b \<Longrightarrow> lspec dv m D (\<lambda>_. Q ())) \<Longrightarrow> (\<not> b \<Longrightarrow> Q () D []) \<Longrightarrow> lspec dv (only_if b m) D Q"
  unfolding only_if_def
  by (auto intro!: lspec_bind lspec_return elim!: lspec_mono)

lemma lspec_case_prod: "(\<And>x y. v = (x, y) \<Longrightarrow> lspec dv (f x y) D Q) \<Longrightarrow>
    lspec dv (case v of (x, y) \<Rightarrow> f x y) D Q"
  by (cases v) simp

lemma lspec_let: "lspec dv (f v) D Q \<Longrightarrow> lspec dv (Let v f) D Q"
  by simp

text \<open>Operations that do not touch the bus.\<close>

lemma lspec_data_of: "Q (D p) D [] \<Longrightarrow> lspec dv (data_of p) D Q"
  by (simp add: lspec_def dspec_def)

lemma lspec_dev_of: "Q (dv p) D [] \<Longrightarrow> lspec dv (dev_of p) D Q"
  by (simp add: lspec_def dspec_def)

lemma lspec_upd_data: "Q () (D(p := f (D p))) [] \<Longrightarrow> lspec dv (upd_data p f) D Q"
  by (simp add: lspec_def dspec_def)

lemma lspec_sleep: "Q () D [] \<Longrightarrow> lspec dv (MEPA_MSLEEP n) D Q"
  by (simp add: lspec_def dspec_def MEPA_MSLEEP_def prim_simps)

lemma lspec_nsleep: "Q () D [] \<Longrightarrow> lspec dv (MEPA_NSLEEP n) D Q"
  by (simp add: lspec_def dspec_def MEPA_NSLEEP_def prim_simps)

lemma lspec_enter: "Q () D [] \<Longrightarrow> lspec dv (MEPA_ENTER p) D Q"
  by (auto simp: lspec_def dspec_def MEPA_ENTER_def prim_simps split: option.split)

lemma lspec_exit: "Q () D [] \<Longrightarrow> lspec dv (MEPA_EXIT p) D Q"
  by (auto simp: lspec_def dspec_def MEPA_EXIT_def prim_simps split: option.split)

lemma lspec_call_ts_cb:
  "Q () D [LCb f n ts sig st] \<Longrightarrow> lspec dv (call_ts_cb (Some f) n ts sig st) D Q"
  by (simp add: lspec_def dspec_def call_ts_cb_def prim_simps)

lemma lspec_MEPA_RC:
  assumes "lspec dv m D (\<lambda>rc D' o1. if rc < 0 then Q rc D' o1
             else lspec dv k D' (\<lambda>y D'' o2. Q y D'' (o1 @ o2)))"
  shows "lspec dv (MEPA_RC m k) D Q"
  unfolding MEPA_RC_def
  by (rule lspec_bind, rule lspec_mono [OF assms])
    (auto intro: lspec_return split: if_splits)

text \<open>Direct accesses to the registers that are not part of a window.\<close>

definition plain :: "8 word \<Rightarrow> bool" where
  "plain a = (a \<noteq> 13 \<and> a \<noteq> 14 \<and> a \<noteq> 22 \<and> a \<noteq> 23)"

lemma dec_plain:
  assumes "plain a"
  shows "dec_ops (dec_read c a v s) = dec_ops s @ [LRd c (Dir a) v]"
    "dec_ops (dec_write c a v s) = dec_ops s @ [LWr c (Dir a) v]"
  using assms by (simp_all add: plain_def dec_read_def dec_write_def)

lemma lspec_miim_read:
  assumes "bus_at dv p" "plain a" "\<And>v. Q (0, v) D [LRd (callout_ctx (dv p)) (Dir a) v]"
  shows "lspec dv (dev_miim_read p a) D Q"
  using assms by (intro lspecI dspec_miim_read) (auto simp: dec_plain)

lemma lspec_miim_write:
  assumes "bus_at dv p" "plain a" "Q 0 D [LWr (callout_ctx (dv p)) (Dir a) v]"
  shows "lspec dv (dev_miim_write p a v) D Q"
  using assms by (intro lspecI dspec_miim_write) (auto simp: dec_plain)

lemmas lspec_basic = lspec_return lspec_bind lspec_if lspec_only_if lspec_case_prod lspec_let lspec_data_of lspec_dev_of
  lspec_upd_data lspec_sleep lspec_enter lspec_exit lspec_MEPA_RC

section \<open>Accesses that may fail\<close>

lemma dspec_miim_read_any:
  assumes "bus_present (dv p)"
    "\<And>rc v. Q (rc, v) D (if rc = 0 then dec_read (callout_ctx (dv p)) a v s else s)"
  shows "dspec dv (dev_miim_read p a) D s Q"
  using assms by (auto simp: dspec_def bus_present_def prim_defs prim_simps split: prod.splits)

lemma dspec_miim_write_any:
  assumes "bus_present (dv p)"
    "\<And>rc. Q rc D (if rc = 0 then dec_write (callout_ctx (dv p)) a v s else s)"
  shows "dspec dv (dev_miim_write p a v) D s Q"
  using assms by (auto simp: dspec_def bus_present_def prim_defs prim_simps split: prod.splits)

lemma dspec_dev_of: "Q (dv p) D s \<Longrightarrow> dspec dv (dev_of p) D s Q"
  by (simp add: dspec_def)

section \<open>Register accesses as an interface\<close>

text \<open>
  What a driver relies on when it uses a pair of accessors: a read is one logical
  read, a masked write one logical read followed by one logical write of the
  merged value.  \<open>loc\<close> says which logical register an argument names.
\<close>

definition merge :: "16 word \<Rightarrow> 16 word \<Rightarrow> 16 word \<Rightarrow> 16 word" where
  "merge old new msk = (if msk = 0xFFFF then new else (old AND NOT msk) OR (new AND msk))"

lemma merge_full [simp]: "merge old new 0xFFFF = new"
  by (simp add: merge_def)

lemma merge_eq: "merge old new msk = (old AND NOT msk) OR (new AND msk)"
proof -
  have e: "(0xFFFF :: 16 word) = -1" by simp
  show ?thesis unfolding merge_def e by (cases "msk = -1") simp_all
qed

lemma bit_merge: "i < 16 \<Longrightarrow> bit (merge old new msk) i = (if bit msk i then bit new i else bit old i)"
  by (auto simp: merge_eq bit_or_iff bit_and_iff bit_not_iff)

lemma bit_merge_single:
  "n < 16 \<Longrightarrow> bit (merge x v (2 ^ n)) k = (if k = n then bit v n else bit (x :: 16 word) k)"
  by (cases "k < 16") (auto simp: bit_merge bit_exp_iff dest: bit_imp_le_length)

lemma merge_set: "merge old b b = old OR b"
  by (rule bit_eqI) (auto simp: merge_eq bit_or_iff bit_and_iff bit_not_iff)

lemma merge_clear: "merge old 0 b = old AND NOT b"
  by (simp add: merge_eq)

locale register_access =
  fixes rd :: "nat \<Rightarrow> 'r \<Rightarrow> ('h, 'd, mepa_rc \<times> 16 word) mepa"
    and wrm :: "nat \<Rightarrow> 'r \<Rightarrow> 16 word \<Rightarrow> 16 word \<Rightarrow> ('h, 'd, mepa_rc) mepa"
    and loc :: "'r \<Rightarrow> lreg"
    and valid :: "'r \<Rightarrow> bool"
  assumes rd_law: "bus_at dv p \<Longrightarrow> valid r \<Longrightarrow>
      (\<And>v. Q (0, v) D [LRd (callout_ctx (dv p)) (loc r) v]) \<Longrightarrow> lspec dv (rd p r) D Q"
    and wrm_law: "bus_at dv p \<Longrightarrow> valid r \<Longrightarrow>
      (\<And>x. R 0 D [LRd (callout_ctx (dv p)) (loc r) x,
                  LWr (callout_ctx (dv p)) (loc r) (merge x v msk)]) \<Longrightarrow>
      lspec dv (wrm p r v msk) D R"
begin

lemma wr_law: "bus_at dv p \<Longrightarrow> valid r \<Longrightarrow>
    (\<And>x. R 0 D [LRd (callout_ctx (dv p)) (loc r) x, LWr (callout_ctx (dv p)) (loc r) v]) \<Longrightarrow>
    lspec dv (wrm p r v 0xFFFF) D R"
  by (rule wrm_law) simp_all

lemma set_law: "bus_at dv p \<Longrightarrow> valid r \<Longrightarrow>
    (\<And>x. R 0 D [LRd (callout_ctx (dv p)) (loc r) x,
                LWr (callout_ctx (dv p)) (loc r) (x OR b)]) \<Longrightarrow>
    lspec dv (wrm p r b b) D R"
  by (rule wrm_law) (simp_all add: merge_set)

lemma clear_law: "bus_at dv p \<Longrightarrow> valid r \<Longrightarrow>
    (\<And>x. R 0 D [LRd (callout_ctx (dv p)) (loc r) x,
                LWr (callout_ctx (dv p)) (loc r) (x AND NOT b)]) \<Longrightarrow>
    lspec dv (wrm p r 0 b) D R"
  by (rule wrm_law) (simp_all add: merge_clear)

end

section \<open>Hardware that answers like a memory\<close>

text \<open>
  \<open>reads_back m ops\<close>: in the trace \<open>ops\<close>, started with register contents \<open>m\<close>, every
  read answers the value written last.  It is the behaviour that the data sheet
  documents for ordinary read/write registers, and a hypothesis where a property
  needs it.
\<close>

fun reads_back :: "(nat \<times> lreg \<Rightarrow> 16 word) \<Rightarrow> lop list \<Rightarrow> bool" where
  "reads_back m [] = True"
| "reads_back m (LRd c r v # ops) = (v = m (c, r) \<and> reads_back m ops)"
| "reads_back m (LWr c r v # ops) = reads_back (m((c, r) := v)) ops"
| "reads_back m (LCb f n ts sig st # ops) = reads_back m ops"

fun after_ops :: "(nat \<times> lreg \<Rightarrow> 16 word) \<Rightarrow> lop list \<Rightarrow> nat \<times> lreg \<Rightarrow> 16 word" where
  "after_ops m [] = m"
| "after_ops m (LRd c r v # ops) = after_ops m ops"
| "after_ops m (LWr c r v # ops) = after_ops (m((c, r) := v)) ops"
| "after_ops m (LCb f n ts sig st # ops) = after_ops m ops"

lemma reads_back_append: "reads_back m (xs @ ys) = (reads_back m xs \<and> reads_back (after_ops m xs) ys)"
  by (induction m xs rule: reads_back.induct) (simp_all del: fun_upd_apply)

text \<open>The writes of a list of accesses, in order.\<close>

fun writes :: "lop list \<Rightarrow> (lreg \<times> 16 word) list" where
  "writes [] = []"
| "writes (LRd c r v # ops) = writes ops"
| "writes (LWr c r v # ops) = (r, v) # writes ops"
| "writes (LCb f n ts sig st # ops) = writes ops"

lemma writes_append [simp]: "writes (xs @ ys) = writes xs @ writes ys"
  by (induction xs rule: writes.induct) auto

text \<open>The values written to one register, in order.\<close>

definition writes_to :: "lreg \<Rightarrow> lop list \<Rightarrow> 16 word list" where
  "writes_to r ops = map snd (filter (\<lambda>(r', v). r' = r) (writes ops))"

lemma writes_to_append [simp]: "writes_to r (xs @ ys) = writes_to r xs @ writes_to r ys"
  by (simp add: writes_to_def)

lemma writes_to_simps [simp]:
  "writes_to r [] = []"
  "writes_to r (LRd c r' v # ops) = writes_to r ops"
  "writes_to r (LWr c r' v # ops) = (if r' = r then v # writes_to r ops else writes_to r ops)"
  "writes_to r (LCb f n ts sig st # ops) = writes_to r ops"
  by (simp_all add: writes_to_def)

text \<open>All writes go to registers of a set.\<close>

definition only_writes :: "lreg set \<Rightarrow> lop list \<Rightarrow> bool" where
  "only_writes S ops = (\<forall>(r, v) \<in> set (writes ops). r \<in> S)"

lemma only_writes_append [simp]:
  "only_writes S (xs @ ys) = (only_writes S xs \<and> only_writes S ys)"
  by (auto simp: only_writes_def)

lemma only_writes_simps [simp]:
  "only_writes S []"
  "only_writes S (LRd c r v # ops) = only_writes S ops"
  "only_writes S (LWr c r v # ops) = (r \<in> S \<and> only_writes S ops)"
  "only_writes S (LCb f n ts sig st # ops) = only_writes S ops"
  by (auto simp: only_writes_def)

lemma only_writes_mono: "only_writes S ops \<Longrightarrow> S \<subseteq> T \<Longrightarrow> only_writes T ops"
  by (auto simp: only_writes_def)

lemma only_writes_to: "only_writes S ops \<Longrightarrow> r \<notin> S \<Longrightarrow> writes_to r ops = []"
  by (auto simp: only_writes_def writes_to_def filter_empty_conv)

lemma writes_to_writes: "writes ops = ws \<Longrightarrow> writes_to r ops = map snd (filter (\<lambda>(r', v). r' = r) ws)"
  by (simp add: writes_to_def)

section \<open>What an operation does to the private data on any bus\<close>

text \<open>
  \<open>pspec m D Q\<close>: run with private data \<open>D\<close>, whatever the callouts do, the result
  and the new private data satisfy \<open>Q\<close>.
\<close>

definition pspec :: "('h, 'd, 'a) mepa \<Rightarrow> (nat \<Rightarrow> 'd) \<Rightarrow> ('a \<Rightarrow> (nat \<Rightarrow> 'd) \<Rightarrow> bool) \<Rightarrow> bool" where
  "pspec m D Q = (\<forall>w. priv w = D \<longrightarrow> Q (val m w) (priv (exec m w)))"

lemma pspec_run: "pspec m (priv w) Q \<Longrightarrow> run_state m w = (x, w') \<Longrightarrow> Q x (priv w')"
  by (auto simp: pspec_def val_def exec_def)

lemma pspec_mono: "pspec m D Q \<Longrightarrow> (\<And>x D'. Q x D' \<Longrightarrow> R x D') \<Longrightarrow> pspec m D R"
  by (simp add: pspec_def)

lemma pspec_return: "Q x D \<Longrightarrow> pspec (State_Monad.return x) D Q"
  by (simp add: pspec_def)

lemma pspec_bind: "pspec m D (\<lambda>x D'. pspec (f x) D' Q) \<Longrightarrow> pspec (State_Monad.bind m f) D Q"
  by (simp add: pspec_def)

lemma pspec_if: "(b \<Longrightarrow> pspec m D Q) \<Longrightarrow> (\<not> b \<Longrightarrow> pspec n D Q) \<Longrightarrow> pspec (if b then m else n) D Q"
  by simp

lemma pspec_only_if: "(b \<Longrightarrow> pspec m D (\<lambda>_. Q ())) \<Longrightarrow> (\<not> b \<Longrightarrow> Q () D) \<Longrightarrow> pspec (only_if b m) D Q"
  unfolding only_if_def by (auto intro!: pspec_bind pspec_return elim!: pspec_mono)

lemma pspec_let: "pspec (f v) D Q \<Longrightarrow> pspec (Let v f) D Q"
  by simp

lemma pspec_case_prod: "(\<And>x y. v = (x, y) \<Longrightarrow> pspec (f x y) D Q) \<Longrightarrow>
    pspec (case v of (x, y) \<Rightarrow> f x y) D Q"
  by (cases v) simp

lemma pspec_data_of: "Q (D p) D \<Longrightarrow> pspec (data_of p) D Q"
  by (simp add: pspec_def)

lemma pspec_dev_of: "(\<And>d. Q d D) \<Longrightarrow> pspec (dev_of p) D Q"
  by (simp add: pspec_def)

lemma pspec_upd_data: "Q () (D(p := f (D p))) \<Longrightarrow> pspec (upd_data p f) D Q"
  by (simp add: pspec_def)

lemma pspec_miim_read: "(\<And>r. Q r D) \<Longrightarrow> pspec (dev_miim_read p a) D Q"
  by (auto simp: pspec_def prim_defs prim_simps split: option.split)

lemma pspec_miim_write: "(\<And>r. Q r D) \<Longrightarrow> pspec (dev_miim_write p a v) D Q"
  by (auto simp: pspec_def prim_defs prim_simps split: option.split)

lemma pspec_sleep: "Q () D \<Longrightarrow> pspec (MEPA_MSLEEP n) D Q"
  by (simp add: pspec_def MEPA_MSLEEP_def prim_simps)

lemma pspec_nsleep: "Q () D \<Longrightarrow> pspec (MEPA_NSLEEP n) D Q"
  by (simp add: pspec_def MEPA_NSLEEP_def prim_simps)

lemma pspec_enter: "Q () D \<Longrightarrow> pspec (MEPA_ENTER p) D Q"
  by (auto simp: pspec_def MEPA_ENTER_def prim_simps split: option.split)

lemma pspec_exit: "Q () D \<Longrightarrow> pspec (MEPA_EXIT p) D Q"
  by (auto simp: pspec_def MEPA_EXIT_def prim_simps split: option.split)

lemma pspec_null_call: "Q x D \<Longrightarrow> pspec (null_call x) D Q"
  by (simp add: pspec_def prim_simps)

lemma pspec_call_ts_cb: "Q () D \<Longrightarrow> pspec (call_ts_cb cb n ts sig st) D Q"
  by (auto simp: pspec_def call_ts_cb_def prim_simps split: option.split)

lemma pspec_MEPA_RC:
  assumes "pspec m D (\<lambda>rc D'. if rc < 0 then Q rc D' else pspec k D' Q)"
  shows "pspec (MEPA_RC m k) D Q"
  unfolding MEPA_RC_def
  by (rule pspec_bind, rule pspec_mono [OF assms]) (auto intro: pspec_return split: if_splits)

lemmas pspec_basic = pspec_return pspec_bind pspec_if pspec_only_if pspec_let pspec_case_prod
  pspec_data_of pspec_dev_of pspec_upd_data pspec_sleep pspec_nsleep pspec_enter pspec_exit pspec_MEPA_RC

end
