(* ===== verification/Phy_Sim.thy ===== *)
theory Phy_Sim
  imports Mdio
begin

text \<open>
  A reference PHY for the witnesses: callouts over a memory of logical registers
  with the two windows, a clock that advances with every reading, and an allocator
  that hands out consecutive addresses.  It is documented behaviour of ordinary
  read/write registers (IEEE 802.3, clause 22 and Annex 22D), not code of the
  repository; no theorem assumes it.
\<close>

record sim =
  sim_regs :: "nat \<times> lreg \<Rightarrow> 16 word"
  sim_mmd_win :: "nat \<Rightarrow> window"
  sim_ext_win :: "nat \<Rightarrow> window"
  sim_time :: nat
  sim_next :: nat

definition sim_miim_read :: "nat \<Rightarrow> 8 word \<Rightarrow> sim \<Rightarrow> (mepa_rc \<times> 16 word) \<times> sim" where
  "sim_miim_read c a h =
    (if a = 13 then ((0, win_ctl (sim_mmd_win h c)), h)
     else if a = 22 then ((0, win_ctl (sim_ext_win h c)), h)
     else if a = 14 then
       (if win_func (sim_mmd_win h c) = 0 then ((0, win_adr (sim_mmd_win h c)), h)
        else ((0, sim_regs h (c, win_reg Mmd (sim_mmd_win h c))),
              h\<lparr>sim_mmd_win := (sim_mmd_win h)(c := win_after_read (sim_mmd_win h c))\<rparr>))
     else if a = 23 then
       (if win_func (sim_ext_win h c) = 0 then ((0, win_adr (sim_ext_win h c)), h)
        else ((0, sim_regs h (c, win_reg Ext (sim_ext_win h c))),
              h\<lparr>sim_ext_win := (sim_ext_win h)(c := win_after_read (sim_ext_win h c))\<rparr>))
     else ((0, sim_regs h (c, Dir a)), h))"

definition sim_miim_write :: "nat \<Rightarrow> 8 word \<Rightarrow> 16 word \<Rightarrow> sim \<Rightarrow> mepa_rc \<times> sim" where
  "sim_miim_write c a v h =
    (if a = 13 then (0, h\<lparr>sim_mmd_win := (sim_mmd_win h)(c := (sim_mmd_win h c)\<lparr>win_ctl := v\<rparr>)\<rparr>)
     else if a = 22 then (0, h\<lparr>sim_ext_win := (sim_ext_win h)(c := (sim_ext_win h c)\<lparr>win_ctl := v\<rparr>)\<rparr>)
     else if a = 14 then
       (0, h\<lparr>sim_regs := (if win_func (sim_mmd_win h c) = 0 then sim_regs h
                          else (sim_regs h)((c, win_reg Mmd (sim_mmd_win h c)) := v)),
             sim_mmd_win := (sim_mmd_win h)(c := win_after_write v (sim_mmd_win h c))\<rparr>)
     else if a = 23 then
       (0, h\<lparr>sim_regs := (if win_func (sim_ext_win h c) = 0 then sim_regs h
                          else (sim_regs h)((c, win_reg Ext (sim_ext_win h c)) := v)),
             sim_ext_win := (sim_ext_win h)(c := win_after_write v (sim_ext_win h c))\<rparr>)
     else (0, h\<lparr>sim_regs := (sim_regs h)((c, Dir a) := v)\<rparr>))"

definition sim_callout :: "sim mepa_callout" where
  "sim_callout = \<lparr>
     mmd_read = Some (\<lambda>c m a h. ((0, sim_regs h (c, Mmd (ucast m) a)), h)),
     mmd_write = Some (\<lambda>c m a v h. (0, h\<lparr>sim_regs := (sim_regs h)((c, Mmd (ucast m) a) := v)\<rparr>)),
     miim_read = Some sim_miim_read,
     miim_write = Some sim_miim_write,
     spi_read = None,
     lock_enter = Some (\<lambda>h. h),
     lock_exit = Some (\<lambda>h. h),
     mem_alloc = Some (\<lambda>c n h. (Some (sim_next h), h\<lparr>sim_next := sim_next h + n\<rparr>)),
     mem_free = Some (\<lambda>c a h. h)\<rparr>"

definition sim_dev :: "nat \<Rightarrow> sim mepa_device" where
  "sim_dev p = \<lparr>drv = (0, 0), numeric_handle = of_nat p, callout = sim_callout, callout_ctx = p\<rparr>"

definition sim_init :: "(nat \<times> lreg \<Rightarrow> 16 word) \<Rightarrow> sim" where
  "sim_init m = \<lparr>sim_regs = m, sim_mmd_win = (\<lambda>_. \<lparr>win_ctl = 0, win_adr = 0\<rparr>),
     sim_ext_win = (\<lambda>_. \<lparr>win_ctl = 0, win_adr = 0\<rparr>), sim_time = 0, sim_next = 1\<rparr>"

definition sim_world :: "(nat \<times> lreg \<Rightarrow> 16 word) \<Rightarrow> (nat \<Rightarrow> 'd) \<Rightarrow> (sim, 'd) world" where
  "sim_world m D = \<lparr>hw = sim_init m, devs = sim_dev, priv = D, io = [], crashed = False, stuck = False,
     os_sleep = (\<lambda>n h. h\<lparr>sim_time := sim_time h + n div 1000\<rparr>),
     os_clock = (\<lambda>h. (sim_time h, h\<lparr>sim_time := sim_time h + 1\<rparr>)),
     app_ts_cb = (\<lambda>f port ts sig status h. h)\<rparr>"

lemma sim_bus_ok [simp]: "bus_at sim_dev p"
  by (simp add: bus_at_def bus_ok_def sim_dev_def sim_callout_def sim_miim_read_def sim_miim_write_def)

lemma sim_has_locks [simp]: "has_locks (sim_dev p)"
  by (simp add: has_locks_def sim_dev_def sim_callout_def)

lemma sim_bus_present [simp]: "bus_present (sim_dev p)"
  by (rule bus_ok_present [of sim_dev]) simp

lemma sim_world_simps [simp]:
  "hw (sim_world m D) = sim_init m" "devs (sim_world m D) = sim_dev"
  "priv (sim_world m D) = D" "io (sim_world m D) = []" "crashed (sim_world m D) = False"
  "stuck (sim_world m D) = False"
  "lops (sim_world m D) = []"
  by (simp_all add: sim_world_def lops_def decode_def dec_init_def)

text \<open>Evaluation of an operation on the reference PHY.\<close>

lemmas sim_eval = prim_defs prim_simps sim_dev_def sim_callout_def sim_miim_read_def
  sim_miim_write_def sim_init_def win_after_read_def win_after_write_def win_func_def win_reg_def

end
