(* ===== verification/Lan8814_Regs.thy ===== *)
theory Lan8814_Regs
  imports Mdio Phy_Sim
begin

text \<open>
  The registers of the LAN8814 family
  (\<open>mepa/microchip/common/include/lan8814_registers.h\<close>) and the accessors of
  \<open>mepa/microchip/lan8814/src/lan8814.c\<close>: direct registers, extended pages through
  the window 22/23, MMD registers through the window 13/14.  A macro of the
  header that expands to two arguments (page or MMD, address) is a pair.
\<close>

section \<open>Registers and bits\<close>

type_synonym ereg = "16 word \<times> 16 word"

abbreviation (input) LAN8814_DEF_MASK :: "16 word" where "LAN8814_DEF_MASK \<equiv> 0xffff"
abbreviation (input) LAN8814_EXT_PAGE_0 :: "16 word" where "LAN8814_EXT_PAGE_0 \<equiv> 0"
abbreviation (input) LAN8814_EXT_PAGE_1 :: "16 word" where "LAN8814_EXT_PAGE_1 \<equiv> 1"
abbreviation (input) LAN8814_EXT_PAGE_2 :: "16 word" where "LAN8814_EXT_PAGE_2 \<equiv> 2"
abbreviation (input) LAN8814_EXT_PAGE_3 :: "16 word" where "LAN8814_EXT_PAGE_3 \<equiv> 3"
abbreviation (input) LAN8814_EXT_PAGE_4 :: "16 word" where "LAN8814_EXT_PAGE_4 \<equiv> 4"
abbreviation (input) LAN8814_EXT_PAGE_5 :: "16 word" where "LAN8814_EXT_PAGE_5 \<equiv> 5"
abbreviation (input) LAN8814_EXT_PAGE_28 :: "16 word" where "LAN8814_EXT_PAGE_28 \<equiv> 0x1c"
abbreviation (input) LAN8814_EXT_PAGE_29 :: "16 word" where "LAN8814_EXT_PAGE_29 \<equiv> 0x1d"
abbreviation (input) LAN8814_EXT_PAGE_31 :: "16 word" where "LAN8814_EXT_PAGE_31 \<equiv> 0x1f"
abbreviation (input) LAN8814_MMD_3 :: "16 word" where "LAN8814_MMD_3 \<equiv> 3"
abbreviation (input) LAN8814_MMD_7 :: "16 word" where "LAN8814_MMD_7 \<equiv> 7"
abbreviation (input) LAN8814_DEF_DRV_ID :: "32 word" where "LAN8814_DEF_DRV_ID \<equiv> 0x221660"
abbreviation (input) LAN8814_INT_PHY_DRV_ID :: "32 word" where
  "LAN8814_INT_PHY_DRV_ID \<equiv> 0x221670"
abbreviation (input) LAN8842_DRV_ID :: "32 word" where "LAN8842_DRV_ID \<equiv> 0x2216c0"
abbreviation (input) LAN8814_SKU :: "16 word" where "LAN8814_SKU \<equiv> 0x8814"
abbreviation (input) LAN8804_SKU :: "16 word" where "LAN8804_SKU \<equiv> 0x8804"
abbreviation (input) LAN8832_SKU :: "16 word" where "LAN8832_SKU \<equiv> 0x8832"
abbreviation (input) LAN8814_BASIC_CONTROL :: "16 word" where "LAN8814_BASIC_CONTROL \<equiv> 0"
abbreviation (input) LAN8814_F_BASIC_CTRL_SPEED_SEL_BIT_1 :: "16 word" where
  "LAN8814_F_BASIC_CTRL_SPEED_SEL_BIT_1 \<equiv> 0x40"
abbreviation (input) LAN8814_F_BASIC_CTRL_DUP_MODE :: "16 word" where
  "LAN8814_F_BASIC_CTRL_DUP_MODE \<equiv> 0x100"
abbreviation (input) LAN8814_F_BASIC_CTRL_RESTART_ANEG :: "16 word" where
  "LAN8814_F_BASIC_CTRL_RESTART_ANEG \<equiv> 0x200"
abbreviation (input) LAN8814_F_BASIC_CTRL_ISO_MODE_EN :: "16 word" where
  "LAN8814_F_BASIC_CTRL_ISO_MODE_EN \<equiv> 0x400"
abbreviation (input) LAN8814_F_BASIC_CTRL_SOFT_POW_DOWN :: "16 word" where
  "LAN8814_F_BASIC_CTRL_SOFT_POW_DOWN \<equiv> 0x800"
abbreviation (input) LAN8814_F_BASIC_CTRL_ANEG_ENA :: "16 word" where
  "LAN8814_F_BASIC_CTRL_ANEG_ENA \<equiv> 0x1000"
abbreviation (input) LAN8814_F_BASIC_CTRL_SPEED_SEL_BIT_0 :: "16 word" where
  "LAN8814_F_BASIC_CTRL_SPEED_SEL_BIT_0 \<equiv> 0x2000"
abbreviation (input) LAN8814_F_BASIC_CTRL_LOOPBACK :: "16 word" where
  "LAN8814_F_BASIC_CTRL_LOOPBACK \<equiv> 0x4000"
abbreviation (input) LAN8814_F_BASIC_CTRL_SOFT_RESET :: "16 word" where
  "LAN8814_F_BASIC_CTRL_SOFT_RESET \<equiv> 0x8000"
abbreviation (input) LAN8814_BASIC_STATUS :: "16 word" where "LAN8814_BASIC_STATUS \<equiv> 1"
abbreviation (input) LAN8814_F_BASIC_STATUS_LINK_STATUS :: "16 word" where
  "LAN8814_F_BASIC_STATUS_LINK_STATUS \<equiv> 4"
abbreviation (input) LAN8814_F_BASIC_STATUS_ANEG_COMPLETE :: "16 word" where
  "LAN8814_F_BASIC_STATUS_ANEG_COMPLETE \<equiv> 0x20"
abbreviation (input) LAN8814_F_BASIC_STATUS_EXT_STATUS :: "16 word" where
  "LAN8814_F_BASIC_STATUS_EXT_STATUS \<equiv> 0x100"
abbreviation (input) LAN8814_F_BASIC_STATUS_100_T2_HALF_DUP :: "16 word" where
  "LAN8814_F_BASIC_STATUS_100_T2_HALF_DUP \<equiv> 0x200"
abbreviation (input) LAN8814_F_BASIC_STATUS_100_T2_FULL_DUP :: "16 word" where
  "LAN8814_F_BASIC_STATUS_100_T2_FULL_DUP \<equiv> 0x400"
abbreviation (input) LAN8814_F_BASIC_STATUS_10_T_HALF_DUP :: "16 word" where
  "LAN8814_F_BASIC_STATUS_10_T_HALF_DUP \<equiv> 0x800"
abbreviation (input) LAN8814_F_BASIC_STATUS_10_T_FULL_DUP :: "16 word" where
  "LAN8814_F_BASIC_STATUS_10_T_FULL_DUP \<equiv> 0x1000"
abbreviation (input) LAN8814_DEVICE_ID_2 :: "16 word" where "LAN8814_DEVICE_ID_2 \<equiv> 3"
abbreviation (input) LAN8814_ANEG_ADVERTISEMENT :: "16 word" where
  "LAN8814_ANEG_ADVERTISEMENT \<equiv> 4"
abbreviation (input) LAN8814_ANEG_LP_BASE :: "16 word" where "LAN8814_ANEG_LP_BASE \<equiv> 5"
abbreviation (input) LAN8814_F_ANEG_LP_BASE_10_T_HALF_DUP :: "16 word" where
  "LAN8814_F_ANEG_LP_BASE_10_T_HALF_DUP \<equiv> 0x20"
abbreviation (input) LAN8814_F_ANEG_LP_BASE_10_T_FULL_DUP :: "16 word" where
  "LAN8814_F_ANEG_LP_BASE_10_T_FULL_DUP \<equiv> 0x40"
abbreviation (input) LAN8814_F_ANEG_LP_BASE_100_X_HALF_DUP :: "16 word" where
  "LAN8814_F_ANEG_LP_BASE_100_X_HALF_DUP \<equiv> 0x80"
abbreviation (input) LAN8814_F_ANEG_LP_BASE_100_X_FULL_DUP :: "16 word" where
  "LAN8814_F_ANEG_LP_BASE_100_X_FULL_DUP \<equiv> 0x100"
abbreviation (input) LAN8814_F_ANEG_LP_BASE_SYM_PAUSE :: "16 word" where
  "LAN8814_F_ANEG_LP_BASE_SYM_PAUSE \<equiv> 0x400"
abbreviation (input) LAN8814_F_ANEG_LP_BASE_ASYM_PAUSE :: "16 word" where
  "LAN8814_F_ANEG_LP_BASE_ASYM_PAUSE \<equiv> 0x800"
abbreviation (input) LAN8814_ANEG_MSTR_SLV_CTRL :: "16 word" where
  "LAN8814_ANEG_MSTR_SLV_CTRL \<equiv> 9"
abbreviation (input) LAN8814_F_ANEG_MSTR_SLV_CTRL_1000_T_FULL_DUP :: "16 word" where
  "LAN8814_F_ANEG_MSTR_SLV_CTRL_1000_T_FULL_DUP \<equiv> 0x200"
abbreviation (input) LAN8814_F_ANEG_MSTR_SLV_CTRL_CFG_VAL :: "16 word" where
  "LAN8814_F_ANEG_MSTR_SLV_CTRL_CFG_VAL \<equiv> 0x800"
abbreviation (input) LAN8814_F_ANEG_MSTR_SLV_CTRL_CFG_ENA :: "16 word" where
  "LAN8814_F_ANEG_MSTR_SLV_CTRL_CFG_ENA \<equiv> 0x1000"
abbreviation (input) LAN8814_ANEG_MSTR_SLV_STATUS :: "16 word" where
  "LAN8814_ANEG_MSTR_SLV_STATUS \<equiv> 0xa"
abbreviation (input) LAN8814_F_ANEG_MSTR_SLV_STATUS_CFG_FAULT :: "16 word" where
  "LAN8814_F_ANEG_MSTR_SLV_STATUS_CFG_FAULT \<equiv> 0x8000"
abbreviation (input) LAN8814_F_ANEG_MSTR_SLV_STATUS_CFG_RES :: "16 word" where
  "LAN8814_F_ANEG_MSTR_SLV_STATUS_CFG_RES \<equiv> 0x4000"
abbreviation (input) LAN8814_F_ANEG_MSTR_SLV_LOCAL_RCVR_STATUS :: "16 word" where
  "LAN8814_F_ANEG_MSTR_SLV_LOCAL_RCVR_STATUS \<equiv> 0x2000"
abbreviation (input) LAN8814_F_ANEG_MSTR_SLV_REMOTE_RCVR_STATUS :: "16 word" where
  "LAN8814_F_ANEG_MSTR_SLV_REMOTE_RCVR_STATUS \<equiv> 0x1000"
abbreviation (input) LAN8814_F_ANEG_MSTR_SLV_STATUS_1000_T_FULL_DUP :: "16 word" where
  "LAN8814_F_ANEG_MSTR_SLV_STATUS_1000_T_FULL_DUP \<equiv> 0x800"
abbreviation (input) LAN8814_F_ANEG_MSTR_SLV_STATUS_1000_T_HALF_DUP :: "16 word" where
  "LAN8814_F_ANEG_MSTR_SLV_STATUS_1000_T_HALF_DUP \<equiv> 0x400"
abbreviation (input) LAN8814_MMD_ACCESS_CTRL :: "16 word" where
  "LAN8814_MMD_ACCESS_CTRL \<equiv> 0xd"
abbreviation (input) LAN8814_F_MMD_ACCESS_CTRL_MMD_FUNC :: "16 word" where
  "LAN8814_F_MMD_ACCESS_CTRL_MMD_FUNC \<equiv> 0x4000"
abbreviation (input) LAN8814_MMD_ACCESS_ADDR_DATA :: "16 word" where
  "LAN8814_MMD_ACCESS_ADDR_DATA \<equiv> 0xe"
abbreviation (input) LAN8814_EXTENDED_STATUS :: "16 word" where
  "LAN8814_EXTENDED_STATUS \<equiv> 0xf"
abbreviation (input) LAN8814_F_EXT_STATUS_1000_T_HALF_DUP :: "16 word" where
  "LAN8814_F_EXT_STATUS_1000_T_HALF_DUP \<equiv> 0x1000"
abbreviation (input) LAN8814_F_EXT_STATUS_1000_T_FULL_DUP :: "16 word" where
  "LAN8814_F_EXT_STATUS_1000_T_FULL_DUP \<equiv> 0x2000"
abbreviation (input) LAN8814_F_EXT_STATUS_1000_X_HALF_DUP :: "16 word" where
  "LAN8814_F_EXT_STATUS_1000_X_HALF_DUP \<equiv> 0x4000"
abbreviation (input) LAN8814_F_EXT_STATUS_1000_X_FULL_DUP :: "16 word" where
  "LAN8814_F_EXT_STATUS_1000_X_FULL_DUP \<equiv> 0x8000"
abbreviation (input) LAN8814_PCS_LOOP_POLARITY_CTRL :: "16 word" where
  "LAN8814_PCS_LOOP_POLARITY_CTRL \<equiv> 0x11"
abbreviation (input) LAN8814_F_PCS_LOOP_CTRL_PORT_LOOP :: "16 word" where
  "LAN8814_F_PCS_LOOP_CTRL_PORT_LOOP \<equiv> 0x100"
abbreviation (input) LAN8814_CABLE_DIAG :: "16 word" where "LAN8814_CABLE_DIAG \<equiv> 0x12"
abbreviation (input) LAN8814_F_CABLE_DIAG_TEST_ENA :: "16 word" where
  "LAN8814_F_CABLE_DIAG_TEST_ENA \<equiv> 0x8000"
abbreviation (input) LAN8814_F_CABLE_DIAG_DISABLE_TX :: "16 word" where
  "LAN8814_F_CABLE_DIAG_DISABLE_TX \<equiv> 0x4000"
abbreviation (input) LAN8814_M_CABLE_TEST_PAIR :: "16 word" where
  "LAN8814_M_CABLE_TEST_PAIR \<equiv> 0x3000"
abbreviation (input) LAN8814_DIGITAL_AX_AN_STATUS :: "16 word" where
  "LAN8814_DIGITAL_AX_AN_STATUS \<equiv> 0x14"
abbreviation (input) LAN8814_F_SIG_DET :: "16 word" where "LAN8814_F_SIG_DET \<equiv> 0x2000"
abbreviation (input) LAN8814_F_LINK_DET :: "16 word" where "LAN8814_F_LINK_DET \<equiv> 0x4000"
abbreviation (input) LAN8814_EXT_PAGE_ACCESS_CTRL :: "16 word" where
  "LAN8814_EXT_PAGE_ACCESS_CTRL \<equiv> 0x16"
abbreviation (input) LAN8814_F_EXT_PAGE_ACCESS_CTRL_EP_FUNC :: "16 word" where
  "LAN8814_F_EXT_PAGE_ACCESS_CTRL_EP_FUNC \<equiv> 0x4000"
abbreviation (input) LAN8814_F_EXT_PAGE_ACCESS_CTRL_INCR_RD_WR :: "16 word" where
  "LAN8814_F_EXT_PAGE_ACCESS_CTRL_INCR_RD_WR \<equiv> 0x8000"
abbreviation (input) LAN8814_EXT_PAGE_ACCESS_ADDR_DATA :: "16 word" where
  "LAN8814_EXT_PAGE_ACCESS_ADDR_DATA \<equiv> 0x17"
abbreviation (input) LAN8814_GPHY_INTR_ENA :: "16 word" where
  "LAN8814_GPHY_INTR_ENA \<equiv> 0x18"
abbreviation (input) LAN8814_F_GPHY_INTR_ENA_FLF_INTR :: "16 word" where
  "LAN8814_F_GPHY_INTR_ENA_FLF_INTR \<equiv> 0x1000"
abbreviation (input) LAN8814_F_GPHY_INTR_ENA_LINK_DOWN :: "16 word" where
  "LAN8814_F_GPHY_INTR_ENA_LINK_DOWN \<equiv> 4"
abbreviation (input) LAN8814_UNH_TEST :: "16 word" where "LAN8814_UNH_TEST \<equiv> 0x1a"
abbreviation (input) LAN8814_F_TEST_RX_CLK :: "16 word" where
  "LAN8814_F_TEST_RX_CLK \<equiv> 0x100"
abbreviation (input) LAN8814_GPHY_INTR_STATUS :: "16 word" where
  "LAN8814_GPHY_INTR_STATUS \<equiv> 0x1b"
abbreviation (input) LAN8814_GPHY_DBG_CTL1 :: "16 word" where
  "LAN8814_GPHY_DBG_CTL1 \<equiv> 0x1c"
abbreviation (input) LAN8814_F_MDI_SET :: "16 word" where "LAN8814_F_MDI_SET \<equiv> 0x80"
abbreviation (input) LAN8814_F_SWAPOFF :: "16 word" where "LAN8814_F_SWAPOFF \<equiv> 0x40"
abbreviation (input) LAN8814_RESV_CON_LOOP :: "16 word" where
  "LAN8814_RESV_CON_LOOP \<equiv> 0x1e"
abbreviation (input) LAN8814_F_EXT_LPBK :: "16 word" where "LAN8814_F_EXT_LPBK \<equiv> 8"
abbreviation (input) LAN8814_CONTROL :: "16 word" where "LAN8814_CONTROL \<equiv> 0x1f"
abbreviation (input) LAN8814_F_CONTROL_SOFT_RESET :: "16 word" where
  "LAN8814_F_CONTROL_SOFT_RESET \<equiv> 2"
abbreviation (input) LAN8814_F_1000T_SPEED_STATUS :: "16 word" where
  "LAN8814_F_1000T_SPEED_STATUS \<equiv> 0x40"
abbreviation (input) LAN8814_F_CONTROL_RESERVED :: "16 word" where
  "LAN8814_F_CONTROL_RESERVED \<equiv> 0x4000"
abbreviation (input) LAN8814_FLF_CONFIG_STATUS :: "ereg" where
  "LAN8814_FLF_CONFIG_STATUS \<equiv> (0, 15)"
abbreviation (input) LAN8814_FLF_CFG_STAT_LINK_DOWN :: "16 word" where
  "LAN8814_FLF_CFG_STAT_LINK_DOWN \<equiv> 1"
abbreviation (input) LAN8814_FLF_CFG_STAT_FLF_ENABLE :: "16 word" where
  "LAN8814_FLF_CFG_STAT_FLF_ENABLE \<equiv> 2"
abbreviation (input) LAN8814_FLF_CFG_STAT_FLF_STATUS :: "16 word" where
  "LAN8814_FLF_CFG_STAT_FLF_STATUS \<equiv> 4"
abbreviation (input) LAN8814_DFE_INIT2_100 :: "ereg" where
  "LAN8814_DFE_INIT2_100 \<equiv> (1, 119)"
abbreviation (input) LAN8814_PGA_TABLE_1G_ENTRY_0 :: "ereg" where
  "LAN8814_PGA_TABLE_1G_ENTRY_0 \<equiv> (1, 121)"
abbreviation (input) LAN8814_PGA_TABLE_1G_ENTRY_1 :: "ereg" where
  "LAN8814_PGA_TABLE_1G_ENTRY_1 \<equiv> (1, 122)"
abbreviation (input) LAN8814_PGA_TABLE_1G_ENTRY_2 :: "ereg" where
  "LAN8814_PGA_TABLE_1G_ENTRY_2 \<equiv> (1, 123)"
abbreviation (input) LAN8814_PGA_TABLE_1G_ENTRY_3 :: "ereg" where
  "LAN8814_PGA_TABLE_1G_ENTRY_3 \<equiv> (1, 124)"
abbreviation (input) LAN8814_PGA_TABLE_1G_ENTRY_4 :: "ereg" where
  "LAN8814_PGA_TABLE_1G_ENTRY_4 \<equiv> (1, 125)"
abbreviation (input) LAN8814_PGA_TABLE_1G_ENTRY_5 :: "ereg" where
  "LAN8814_PGA_TABLE_1G_ENTRY_5 \<equiv> (1, 126)"
abbreviation (input) LAN8814_PGA_TABLE_1G_ENTRY_6 :: "ereg" where
  "LAN8814_PGA_TABLE_1G_ENTRY_6 \<equiv> (1, 127)"
abbreviation (input) LAN8814_PGA_TABLE_1G_ENTRY_7 :: "ereg" where
  "LAN8814_PGA_TABLE_1G_ENTRY_7 \<equiv> (1, 128)"
abbreviation (input) LAN8814_PGA_TABLE_1G_ENTRY_8 :: "ereg" where
  "LAN8814_PGA_TABLE_1G_ENTRY_8 \<equiv> (1, 129)"
abbreviation (input) LAN8814_PGA_TABLE_1G_ENTRY_9 :: "ereg" where
  "LAN8814_PGA_TABLE_1G_ENTRY_9 \<equiv> (1, 130)"
abbreviation (input) LAN8814_PGA_TABLE_1G_ENTRY_10 :: "ereg" where
  "LAN8814_PGA_TABLE_1G_ENTRY_10 \<equiv> (1, 131)"
abbreviation (input) LAN8814_PGA_TABLE_1G_ENTRY_11 :: "ereg" where
  "LAN8814_PGA_TABLE_1G_ENTRY_11 \<equiv> (1, 132)"
abbreviation (input) LAN8814_PGA_TABLE_1G_ENTRY_12 :: "ereg" where
  "LAN8814_PGA_TABLE_1G_ENTRY_12 \<equiv> (1, 133)"
abbreviation (input) LAN8814_PGA_TABLE_1G_ENTRY_13 :: "ereg" where
  "LAN8814_PGA_TABLE_1G_ENTRY_13 \<equiv> (1, 134)"
abbreviation (input) LAN8814_PGA_TABLE_1G_ENTRY_14 :: "ereg" where
  "LAN8814_PGA_TABLE_1G_ENTRY_14 \<equiv> (1, 135)"
abbreviation (input) LAN8814_PGA_TABLE_1G_ENTRY_15 :: "ereg" where
  "LAN8814_PGA_TABLE_1G_ENTRY_15 \<equiv> (1, 136)"
abbreviation (input) LAN8814_PGA_TABLE_1G_ENTRY_16 :: "ereg" where
  "LAN8814_PGA_TABLE_1G_ENTRY_16 \<equiv> (1, 137)"
abbreviation (input) LAN8814_PGA_TABLE_1G_ENTRY_17 :: "ereg" where
  "LAN8814_PGA_TABLE_1G_ENTRY_17 \<equiv> (1, 138)"
abbreviation (input) LAN8814_PD_CONTROLS :: "ereg" where "LAN8814_PD_CONTROLS \<equiv> (1, 157)"
abbreviation (input) LAN8814_LINK_QUALITY_MONITOR_SETTING :: "ereg" where
  "LAN8814_LINK_QUALITY_MONITOR_SETTING \<equiv> (1, 142)"
abbreviation (input) LAN8814_DCQ_CTRL :: "ereg" where "LAN8814_DCQ_CTRL \<equiv> (1, 230)"
abbreviation (input) LAN8814_F_DCQ_CTRL_READ_CAPTURE :: "16 word" where
  "LAN8814_F_DCQ_CTRL_READ_CAPTURE \<equiv> 0x8000"
abbreviation (input) LAN8814_M_DCQ_CTRL_CHANNEL_MASK :: "16 word" where
  "LAN8814_M_DCQ_CTRL_CHANNEL_MASK \<equiv> 3"
abbreviation (input) LAN8814_DCQ_SQI :: "ereg" where "LAN8814_DCQ_SQI \<equiv> (1, 228)"
abbreviation (input) LAN8814_OPERATION_MODE_STRAP_LOW :: "ereg" where
  "LAN8814_OPERATION_MODE_STRAP_LOW \<equiv> (2, 2)"
abbreviation (input) LAN8814_SELFTEST_PKT_CNT_LO :: "ereg" where
  "LAN8814_SELFTEST_PKT_CNT_LO \<equiv> (2, 9)"
abbreviation (input) LAN8814_SELFTEST_PKT_CNT_HI :: "ereg" where
  "LAN8814_SELFTEST_PKT_CNT_HI \<equiv> (2, 10)"
abbreviation (input) LAN8814_SELFTEST_STATUS :: "ereg" where
  "LAN8814_SELFTEST_STATUS \<equiv> (2, 11)"
abbreviation (input) LAN8814_F_SELFTEST_DONE :: "16 word" where
  "LAN8814_F_SELFTEST_DONE \<equiv> 1"
abbreviation (input) LAN8814_SELFTEST_FRAME_CNT :: "ereg" where
  "LAN8814_SELFTEST_FRAME_CNT \<equiv> (2, 12)"
abbreviation (input) LAN8814_F_SELFTEST_FRAME_CNT_EN :: "16 word" where
  "LAN8814_F_SELFTEST_FRAME_CNT_EN \<equiv> 1"
abbreviation (input) LAN8814_SELFTEST_PGEN_EN :: "ereg" where
  "LAN8814_SELFTEST_PGEN_EN \<equiv> (2, 13)"
abbreviation (input) LAN8814_F_SELFTEST_PGEN_EN :: "16 word" where
  "LAN8814_F_SELFTEST_PGEN_EN \<equiv> 1"
abbreviation (input) LAN8814_SELFTEST_EN_REG :: "ereg" where
  "LAN8814_SELFTEST_EN_REG \<equiv> (2, 14)"
abbreviation (input) LAN8814_F_SELFTEST_RX_CRC_CHK_EN :: "16 word" where
  "LAN8814_F_SELFTEST_RX_CRC_CHK_EN \<equiv> 0x100"
abbreviation (input) LAN8814_F_SELFTEST_TX_CRC_CHK_EN :: "16 word" where
  "LAN8814_F_SELFTEST_TX_CRC_CHK_EN \<equiv> 0x10"
abbreviation (input) LAN8814_F_SELFTEST_EN :: "16 word" where "LAN8814_F_SELFTEST_EN \<equiv> 1"
abbreviation (input) LAN8814_1000BT_FIX_LATENCY_ENABLE :: "ereg" where
  "LAN8814_1000BT_FIX_LATENCY_ENABLE \<equiv> (2, 15)"
abbreviation (input) LAN8814_SELFTEST_GOOD_CNT_LO :: "ereg" where
  "LAN8814_SELFTEST_GOOD_CNT_LO \<equiv> (2, 60)"
abbreviation (input) LAN8814_SELFTEST_GOOD_CNT_HI :: "ereg" where
  "LAN8814_SELFTEST_GOOD_CNT_HI \<equiv> (2, 61)"
abbreviation (input) LAN8814_SELFTEST_ERR_CNT_LO :: "ereg" where
  "LAN8814_SELFTEST_ERR_CNT_LO \<equiv> (2, 62)"
abbreviation (input) LAN8814_SELFTEST_ERR_CNT_HI :: "ereg" where
  "LAN8814_SELFTEST_ERR_CNT_HI \<equiv> (2, 63)"
abbreviation (input) LAN8814_ALIGN_SWAP :: "ereg" where "LAN8814_ALIGN_SWAP \<equiv> (2, 74)"
abbreviation (input) LAN8814_F_ALIGN_TX_A_B_SWAP :: "16 word" where
  "LAN8814_F_ALIGN_TX_A_B_SWAP \<equiv> 2"
abbreviation (input) LAN8814_M_ALIGN_TX_SWAP :: "16 word" where
  "LAN8814_M_ALIGN_TX_SWAP \<equiv> 3"
abbreviation (input) LAN8814_SOF :: "ereg" where "LAN8814_SOF \<equiv> (2, 75)"
abbreviation (input) LAN8814_M_SOF_PREEMPTION_ENABLE :: "16 word" where
  "LAN8814_M_SOF_PREEMPTION_ENABLE \<equiv> 0x300"
abbreviation (input) LAN8814_OPERATION_MODE_STRAP_HIGH :: "ereg" where
  "LAN8814_OPERATION_MODE_STRAP_HIGH \<equiv> (2, 81)"
abbreviation (input) LAN8814_EEE_WAKE_TX_TIMER :: "ereg" where
  "LAN8814_EEE_WAKE_TX_TIMER \<equiv> (3, 14)"
abbreviation (input) LAN8814_STRAP_STATUS_1 :: "ereg" where
  "LAN8814_STRAP_STATUS_1 \<equiv> (4, 0)"
abbreviation (input) LAN8814_CHIP_HARD_RESET :: "ereg" where
  "LAN8814_CHIP_HARD_RESET \<equiv> (4, 8)"
abbreviation (input) LAN8814_SKU_ID :: "ereg" where "LAN8814_SKU_ID \<equiv> (4, 11)"
abbreviation (input) LAN8814_GPIO_EN1 :: "ereg" where "LAN8814_GPIO_EN1 \<equiv> (4, 32)"
abbreviation (input) LAN8814_GPIO_EN2 :: "ereg" where "LAN8814_GPIO_EN2 \<equiv> (4, 33)"
abbreviation (input) LAN8814_GPIO_DIR1 :: "ereg" where "LAN8814_GPIO_DIR1 \<equiv> (4, 34)"
abbreviation (input) LAN8814_GPIO_DIR2 :: "ereg" where "LAN8814_GPIO_DIR2 \<equiv> (4, 35)"
abbreviation (input) LAN8814_GPIO_DATA1 :: "ereg" where "LAN8814_GPIO_DATA1 \<equiv> (4, 38)"
abbreviation (input) LAN8814_GPIO_DATA2 :: "ereg" where "LAN8814_GPIO_DATA2 \<equiv> (4, 39)"
abbreviation (input) LAN8814_GPIO_SOF_SEL :: "ereg" where "LAN8814_GPIO_SOF_SEL \<equiv> (4, 49)"
abbreviation (input) LAN8814_M_GPIO_SOF_SEL_SOF0 :: "16 word" where
  "LAN8814_M_GPIO_SOF_SEL_SOF0 \<equiv> 7"
abbreviation (input) LAN8814_M_GPIO_SOF_SEL_SOF1 :: "16 word" where
  "LAN8814_M_GPIO_SOF_SEL_SOF1 \<equiv> 0x38"
abbreviation (input) LAN8814_M_GPIO_SOF_SEL_SOF2 :: "16 word" where
  "LAN8814_M_GPIO_SOF_SEL_SOF2 \<equiv> 0x1c0"
abbreviation (input) LAN8814_M_GPIO_SOF_SEL_SOF3 :: "16 word" where
  "LAN8814_M_GPIO_SOF_SEL_SOF3 \<equiv> 0xe00"
abbreviation (input) LAN8814_CHIP_LVL_INTR_STATUS :: "ereg" where
  "LAN8814_CHIP_LVL_INTR_STATUS \<equiv> (4, 51)"
abbreviation (input) LAN8814_INTR_CTRL :: "ereg" where "LAN8814_INTR_CTRL \<equiv> (4, 52)"
abbreviation (input) LAN8814_INTR_CTRL_CHIP_LVL_ENA :: "16 word" where
  "LAN8814_INTR_CTRL_CHIP_LVL_ENA \<equiv> 1"
abbreviation (input) LAN8814_QSGMII_HARD_RESET :: "ereg" where
  "LAN8814_QSGMII_HARD_RESET \<equiv> (4, 66)"
abbreviation (input) LAN8814_QSGMII_SOFT_RESET :: "ereg" where
  "LAN8814_QSGMII_SOFT_RESET \<equiv> (4, 67)"
abbreviation (input) LAN8814_QSGMII_SOFT_RESET_BIT :: "16 word" where
  "LAN8814_QSGMII_SOFT_RESET_BIT \<equiv> 1"
abbreviation (input) LAN8814_QSGMII_AUTO_ANEG :: "ereg" where
  "LAN8814_QSGMII_AUTO_ANEG \<equiv> (4, 69)"
abbreviation (input) LAN8814_F_QSGMII_AUTO_ANEG_AUTO_ANEG_ENA :: "16 word" where
  "LAN8814_F_QSGMII_AUTO_ANEG_AUTO_ANEG_ENA \<equiv> 1"
abbreviation (input) LAN8814_QSGMII_SERDES_TX_CTRL :: "ereg" where
  "LAN8814_QSGMII_SERDES_TX_CTRL \<equiv> (4, 129)"
abbreviation (input) LAN8814_QSGMII_SERDES_MISC_CTRL :: "ereg" where
  "LAN8814_QSGMII_SERDES_MISC_CTRL \<equiv> (4, 137)"
abbreviation (input) LAN8814_F_QSGMII_SERDES_MISC_CTRL_LB_MODE :: "16 word" where
  "LAN8814_F_QSGMII_SERDES_MISC_CTRL_LB_MODE \<equiv> 0x10"
abbreviation (input) LAN8814_RCVRD_CLK_OUT_SEL_1 :: "ereg" where
  "LAN8814_RCVRD_CLK_OUT_SEL_1 \<equiv> (4, 256)"
abbreviation (input) LAN8814_RCVRD_CLK_OUT_DIV_1 :: "ereg" where
  "LAN8814_RCVRD_CLK_OUT_DIV_1 \<equiv> (4, 257)"
abbreviation (input) LAN8814_RCVRD_CLK_OUT_SEL_2 :: "ereg" where
  "LAN8814_RCVRD_CLK_OUT_SEL_2 \<equiv> (4, 258)"
abbreviation (input) LAN8814_RCVRD_CLK_OUT_DIV_2 :: "ereg" where
  "LAN8814_RCVRD_CLK_OUT_DIV_2 \<equiv> (4, 259)"
abbreviation (input) LAN8814_SERDES_CR_CONTROL :: "ereg" where
  "LAN8814_SERDES_CR_CONTROL \<equiv> (4, 139)"
abbreviation (input) LAN8814_F_SERDES_CR_CONTROL_0 :: "16 word" where
  "LAN8814_F_SERDES_CR_CONTROL_0 \<equiv> 1"
abbreviation (input) LAN8814_F_SERDES_CR_CONTROL_1 :: "16 word" where
  "LAN8814_F_SERDES_CR_CONTROL_1 \<equiv> 2"
abbreviation (input) LAN8814_SERDES_CR_ADDR :: "ereg" where
  "LAN8814_SERDES_CR_ADDR \<equiv> (4, 140)"
abbreviation (input) LAN8814_SERDES_CR_DATA :: "ereg" where
  "LAN8814_SERDES_CR_DATA \<equiv> (4, 141)"
abbreviation (input) LAN8814_SERDES_CLOCK_CONF :: "ereg" where
  "LAN8814_SERDES_CLOCK_CONF \<equiv> (4, 142)"
abbreviation (input) LAN8814_LED_CONTROL_REG1 :: "ereg" where
  "LAN8814_LED_CONTROL_REG1 \<equiv> (5, 0)"
abbreviation (input) LAN8814_F_LED_CONTROL_KSZ_LED_MODE :: "16 word" where
  "LAN8814_F_LED_CONTROL_KSZ_LED_MODE \<equiv> 0x40"
abbreviation (input) LAN8814_LED_CONTROL_REG2 :: "ereg" where
  "LAN8814_LED_CONTROL_REG2 \<equiv> (5, 1)"
abbreviation (input) LAN8814_QSGMII_PCS1G_ANEG_CONFIG :: "ereg" where
  "LAN8814_QSGMII_PCS1G_ANEG_CONFIG \<equiv> (5, 19)"
abbreviation (input) LAN8814_F_QSGMII_PCS1G_ANEG_CONFIG_ANEG_ENA :: "16 word" where
  "LAN8814_F_QSGMII_PCS1G_ANEG_CONFIG_ANEG_ENA \<equiv> 8"
abbreviation (input) LAN8814_F_QSGMII_PCS1G_ANEG_CONFIG_ANEG_RESTART :: "16 word" where
  "LAN8814_F_QSGMII_PCS1G_ANEG_CONFIG_ANEG_RESTART \<equiv> 0x10"
abbreviation (input) LAN8814_QSGMII_PCS1G_ANEG_TX_ADVERTISE_CAP :: "ereg" where
  "LAN8814_QSGMII_PCS1G_ANEG_TX_ADVERTISE_CAP \<equiv> (5, 20)"
abbreviation (input) LAN8814_QSGMII_PCS1G_DEBUG :: "ereg" where
  "LAN8814_QSGMII_PCS1G_DEBUG \<equiv> (5, 24)"
abbreviation (input) LAN8814_F_QSGMII_PCS1G_DBG_GMII_LOOPBACK :: "16 word" where
  "LAN8814_F_QSGMII_PCS1G_DBG_GMII_LOOPBACK \<equiv> 1"
abbreviation (input) LAN8814_F_QSGMII_PCS1G_DBG_TBI_HOST_LOOPBACK :: "16 word" where
  "LAN8814_F_QSGMII_PCS1G_DBG_TBI_HOST_LOOPBACK \<equiv> 2"
abbreviation (input) LAN8814_RX_RA_FIFO_THRESHOLDS_1 :: "ereg" where
  "LAN8814_RX_RA_FIFO_THRESHOLDS_1 \<equiv> (5, 32)"
abbreviation (input) LAN8814_RX_RA_FIFO_THRESHOLDS_2 :: "ereg" where
  "LAN8814_RX_RA_FIFO_THRESHOLDS_2 \<equiv> (5, 33)"
abbreviation (input) LAN8814_RX_RA_FIFO_THRESHOLDS_3 :: "ereg" where
  "LAN8814_RX_RA_FIFO_THRESHOLDS_3 \<equiv> (5, 34)"
abbreviation (input) LAN8814_TX_RA_FIFO_THRESHOLDS_1 :: "ereg" where
  "LAN8814_TX_RA_FIFO_THRESHOLDS_1 \<equiv> (5, 38)"
abbreviation (input) LAN8814_TX_RA_FIFO_THRESHOLDS_2 :: "ereg" where
  "LAN8814_TX_RA_FIFO_THRESHOLDS_2 \<equiv> (5, 39)"
abbreviation (input) LAN8814_TX_RA_FIFO_THRESHOLDS_3 :: "ereg" where
  "LAN8814_TX_RA_FIFO_THRESHOLDS_3 \<equiv> (5, 40)"
abbreviation (input) LAN8814_TX_RA_FIFO_RESET :: "ereg" where
  "LAN8814_TX_RA_FIFO_RESET \<equiv> (5, 44)"
abbreviation (input) LAN8814_RX_RA_FIFO_RESET :: "ereg" where
  "LAN8814_RX_RA_FIFO_RESET \<equiv> (5, 45)"
abbreviation (input) LAN8814_POWER_MGMT_MODE_0 :: "ereg" where
  "LAN8814_POWER_MGMT_MODE_0 \<equiv> (28, 16)"
abbreviation (input) LAN8814_POWER_MGMT_MODE_1 :: "ereg" where
  "LAN8814_POWER_MGMT_MODE_1 \<equiv> (28, 17)"
abbreviation (input) LAN8814_POWER_MGMT_MODE_2 :: "ereg" where
  "LAN8814_POWER_MGMT_MODE_2 \<equiv> (28, 18)"
abbreviation (input) LAN8814_POWER_MGMT_MODE_3 :: "ereg" where
  "LAN8814_POWER_MGMT_MODE_3 \<equiv> (28, 19)"
abbreviation (input) LAN8814_POWER_MGMT_MODE_4 :: "ereg" where
  "LAN8814_POWER_MGMT_MODE_4 \<equiv> (28, 20)"
abbreviation (input) LAN8814_POWER_MGMT_MODE_5 :: "ereg" where
  "LAN8814_POWER_MGMT_MODE_5 \<equiv> (28, 21)"
abbreviation (input) LAN8814_POWER_MGMT_MODE_6 :: "ereg" where
  "LAN8814_POWER_MGMT_MODE_6 \<equiv> (28, 22)"
abbreviation (input) LAN8814_POWER_MGMT_MODE_7 :: "ereg" where
  "LAN8814_POWER_MGMT_MODE_7 \<equiv> (28, 23)"
abbreviation (input) LAN8814_POWER_MGMT_MODE_8 :: "ereg" where
  "LAN8814_POWER_MGMT_MODE_8 \<equiv> (28, 24)"
abbreviation (input) LAN8814_POWER_MGMT_MODE_9 :: "ereg" where
  "LAN8814_POWER_MGMT_MODE_9 \<equiv> (28, 25)"
abbreviation (input) LAN8814_POWER_MGMT_MODE_10 :: "ereg" where
  "LAN8814_POWER_MGMT_MODE_10 \<equiv> (28, 26)"
abbreviation (input) LAN8814_POWER_MGMT_MODE_11 :: "ereg" where
  "LAN8814_POWER_MGMT_MODE_11 \<equiv> (28, 27)"
abbreviation (input) LAN8814_POWER_MGMT_MODE_12 :: "ereg" where
  "LAN8814_POWER_MGMT_MODE_12 \<equiv> (28, 28)"
abbreviation (input) LAN8814_POWER_MGMT_MODE_13 :: "ereg" where
  "LAN8814_POWER_MGMT_MODE_13 \<equiv> (28, 29)"
abbreviation (input) LAN8814_POWER_MGMT_MODE_14 :: "ereg" where
  "LAN8814_POWER_MGMT_MODE_14 \<equiv> (28, 30)"
abbreviation (input) LAN8814_POWER_MGMT_MODE_15 :: "ereg" where
  "LAN8814_POWER_MGMT_MODE_15 \<equiv> (28, 31)"
abbreviation (input) LAN8814_ANALOG_CONTROL_4 :: "ereg" where
  "LAN8814_ANALOG_CONTROL_4 \<equiv> (28, 4)"
abbreviation (input) LAN8814_AFED_CONTROL :: "ereg" where "LAN8814_AFED_CONTROL \<equiv> (28, 9)"
abbreviation (input) LAN8814_ANALOG_CONTROL_1 :: "ereg" where
  "LAN8814_ANALOG_CONTROL_1 \<equiv> (29, 1)"
abbreviation (input) LAN8814_ANALOG_CONTROL_10 :: "ereg" where
  "LAN8814_ANALOG_CONTROL_10 \<equiv> (29, 13)"
abbreviation (input) LAN8814_CLOCK_MANAGEMENT_MODE_5 :: "ereg" where
  "LAN8814_CLOCK_MANAGEMENT_MODE_5 \<equiv> (31, 13)"
abbreviation (input) LAN8814_EEE_PCS_STATUS :: "ereg" where
  "LAN8814_EEE_PCS_STATUS \<equiv> (3, 1)"
abbreviation (input) LAN8814_EEE_ADVERTISEMENT :: "ereg" where
  "LAN8814_EEE_ADVERTISEMENT \<equiv> (7, 60)"
abbreviation (input) LAN8814_EEE_100_BT :: "16 word" where "LAN8814_EEE_100_BT \<equiv> 2"
abbreviation (input) LAN8814_EEE_1000_BT :: "16 word" where "LAN8814_EEE_1000_BT \<equiv> 4"
abbreviation (input) LAN8814_LINK_PARTNER_EEE_ABILITY :: "ereg" where
  "LAN8814_LINK_PARTNER_EEE_ABILITY \<equiv> (7, 61)"
abbreviation (input) LAN8814_F_LP_EEE_ABILITY_100_BT :: "16 word" where
  "LAN8814_F_LP_EEE_ABILITY_100_BT \<equiv> 2"
abbreviation (input) LAN8814_F_LP_EEE_ABILITY_1000_BT :: "16 word" where
  "LAN8814_F_LP_EEE_ABILITY_1000_BT \<equiv> 4"

text \<open>The function-like macros of the header, on the widths at which they are used.\<close>

definition LAN8814_BIT_MASK :: "nat \<Rightarrow> 16 word" where
  "LAN8814_BIT_MASK n = mask n"

definition LAN8814_EXTRACT_BITFIELD :: "16 word \<Rightarrow> nat \<Rightarrow> nat \<Rightarrow> 16 word" where
  "LAN8814_EXTRACT_BITFIELD v offset width = drop_bit offset v AND LAN8814_BIT_MASK width"

definition LAN8814_ENCODE_BITFIELD :: "16 word \<Rightarrow> nat \<Rightarrow> nat \<Rightarrow> 16 word" where
  "LAN8814_ENCODE_BITFIELD v offset width = push_bit offset (v AND LAN8814_BIT_MASK width)"

definition LAN8814_ENCODE_BITMASK :: "nat \<Rightarrow> nat \<Rightarrow> 16 word" where
  "LAN8814_ENCODE_BITMASK offset width = push_bit offset (LAN8814_BIT_MASK width)"

definition LAN8814_X_DEV_ID_MODEL :: "16 word \<Rightarrow> 16 word" where
  "LAN8814_X_DEV_ID_MODEL x = LAN8814_EXTRACT_BITFIELD x 4 6"

definition LAN8814_X_DEV_ID_REV :: "16 word \<Rightarrow> 16 word" where
  "LAN8814_X_DEV_ID_REV x = LAN8814_EXTRACT_BITFIELD x 0 4"

definition LAN8814_F_CABLE_TEST_PAIR :: "16 word \<Rightarrow> 16 word" where
  "LAN8814_F_CABLE_TEST_PAIR x = LAN8814_ENCODE_BITFIELD x 12 2"

definition LAN8814_X_CABLE_DIAG_STATUS :: "16 word \<Rightarrow> 16 word" where
  "LAN8814_X_CABLE_DIAG_STATUS x = LAN8814_EXTRACT_BITFIELD x 8 2"

definition LAN8814_X_CABLE_DIAG_DATA :: "16 word \<Rightarrow> 16 word" where
  "LAN8814_X_CABLE_DIAG_DATA x = LAN8814_EXTRACT_BITFIELD x 0 8"

definition LAN8814_X_DCQ_SQI_VALUE :: "16 word \<Rightarrow> 16 word" where
  "LAN8814_X_DCQ_SQI_VALUE x = LAN8814_EXTRACT_BITFIELD x 1 3"

definition LAN8814_X_STRAP_STATUS_STRAP_PHYAD :: "16 word \<Rightarrow> 16 word" where
  "LAN8814_X_STRAP_STATUS_STRAP_PHYAD x = LAN8814_EXTRACT_BITFIELD x 0 5"

definition LAN8814_QSGMII_SERDES_TX_LEVEL :: "16 word \<Rightarrow> 16 word" where
  "LAN8814_QSGMII_SERDES_TX_LEVEL x = LAN8814_ENCODE_BITFIELD x 7 7"

definition LAN8814_QSGMII_SERDES_TX_BOOST :: "16 word \<Rightarrow> 16 word" where
  "LAN8814_QSGMII_SERDES_TX_BOOST x = LAN8814_ENCODE_BITFIELD x 0 7"

definition has_bits :: "16 word \<Rightarrow> 16 word \<Rightarrow> bool" where
  "has_bits v b = (v AND b \<noteq> 0)"

section \<open>The accessors\<close>

text \<open>
  \<open>lan8814_direct_reg_rd\<close> and \<open>lan8814_direct_reg_wr\<close> return \<open>MEPA_RC_OK\<close> whatever the
  callouts return (they only log an error).  A write always reads the register
  first.
\<close>

definition lan8814_direct_reg_rd :: "nat \<Rightarrow> 16 word \<Rightarrow> ('h, 'd, mepa_rc \<times> 16 word) mepa" where
  "lan8814_direct_reg_rd dev addr = do {
     (_, v) \<leftarrow> dev_miim_read dev (ucast addr);
     State_Monad.return (MEPA_RC_OK, v) }"

definition lan8814_direct_reg_wr ::
  "nat \<Rightarrow> 16 word \<Rightarrow> 16 word \<Rightarrow> 16 word \<Rightarrow> ('h, 'd, mepa_rc) mepa" where
  "lan8814_direct_reg_wr dev addr v msk = do {
     (rc, reg_val) \<leftarrow> dev_miim_read dev (ucast addr);
     if rc = MEPA_RC_OK then do {
       let reg_val = (if msk \<noteq> LAN8814_DEF_MASK then (reg_val AND NOT msk) OR (v AND msk) else v);
       dev_miim_write dev (ucast addr) reg_val;
       State_Monad.return MEPA_RC_OK }
     else State_Monad.return MEPA_RC_OK }"

text \<open>
  The extended pages: the window is set up with unmasked writes whose errors are
  returned; \<open>v0\<close> is the content of the out-parameter before the call.
\<close>

definition lan8814_ext_reg_rd ::
  "nat \<Rightarrow> 16 word \<Rightarrow> 16 word \<Rightarrow> 16 word \<Rightarrow> ('h, 'd, mepa_rc \<times> 16 word) mepa" where
  "lan8814_ext_reg_rd dev page addr v0 = do {
     rc \<leftarrow> dev_miim_write dev (ucast LAN8814_EXT_PAGE_ACCESS_CTRL) page;
     if rc < MEPA_RC_OK then State_Monad.return (rc, v0) else do {
     rc \<leftarrow> dev_miim_write dev (ucast LAN8814_EXT_PAGE_ACCESS_ADDR_DATA) addr;
     if rc < MEPA_RC_OK then State_Monad.return (rc, v0) else do {
     rc \<leftarrow> dev_miim_write dev (ucast LAN8814_EXT_PAGE_ACCESS_CTRL)
       (LAN8814_F_EXT_PAGE_ACCESS_CTRL_EP_FUNC OR page);
     if rc < MEPA_RC_OK then State_Monad.return (rc, v0)
     else lan8814_direct_reg_rd dev LAN8814_EXT_PAGE_ACCESS_ADDR_DATA }}}"

definition lan8814_ext_reg_wr ::
  "nat \<Rightarrow> 16 word \<Rightarrow> 16 word \<Rightarrow> 16 word \<Rightarrow> 16 word \<Rightarrow> ('h, 'd, mepa_rc) mepa" where
  "lan8814_ext_reg_wr dev page addr v msk =
     MEPA_RC (dev_miim_write dev (ucast LAN8814_EXT_PAGE_ACCESS_CTRL) page) (
     MEPA_RC (dev_miim_write dev (ucast LAN8814_EXT_PAGE_ACCESS_ADDR_DATA) addr) (
     MEPA_RC (dev_miim_write dev (ucast LAN8814_EXT_PAGE_ACCESS_CTRL)
       (LAN8814_F_EXT_PAGE_ACCESS_CTRL_EP_FUNC OR page)) (
     MEPA_RC (lan8814_direct_reg_wr dev LAN8814_EXT_PAGE_ACCESS_ADDR_DATA v msk) (
     State_Monad.return MEPA_RC_OK))))"

definition lan8814_ext_incr_reg_rd ::
  "nat \<Rightarrow> 16 word \<Rightarrow> 16 word \<Rightarrow> 16 word \<Rightarrow> bool \<Rightarrow> ('h, 'd, mepa_rc \<times> 16 word) mepa" where
  "lan8814_ext_incr_reg_rd dev page addr v0 start_addr = do {
     rc \<leftarrow> (if start_addr then
       MEPA_RC (dev_miim_write dev (ucast LAN8814_EXT_PAGE_ACCESS_CTRL) page) (
       MEPA_RC (dev_miim_write dev (ucast LAN8814_EXT_PAGE_ACCESS_ADDR_DATA) addr) (
       dev_miim_write dev (ucast LAN8814_EXT_PAGE_ACCESS_CTRL)
         (LAN8814_F_EXT_PAGE_ACCESS_CTRL_INCR_RD_WR OR page)))
       else State_Monad.return MEPA_RC_OK);
     if rc < MEPA_RC_OK then State_Monad.return (rc, v0)
     else lan8814_direct_reg_rd dev LAN8814_EXT_PAGE_ACCESS_ADDR_DATA }"

text \<open>The MMD registers: the window is set up with \<open>lan8814_direct_reg_wr\<close>.\<close>

definition lan8814_mmd_reg_rd ::
  "nat \<Rightarrow> 16 word \<Rightarrow> 16 word \<Rightarrow> 16 word \<Rightarrow> ('h, 'd, mepa_rc \<times> 16 word) mepa" where
  "lan8814_mmd_reg_rd dev mmd addr v0 = do {
     rc \<leftarrow> lan8814_direct_reg_wr dev LAN8814_MMD_ACCESS_CTRL mmd LAN8814_DEF_MASK;
     if rc < MEPA_RC_OK then State_Monad.return (rc, v0) else do {
     rc \<leftarrow> lan8814_direct_reg_wr dev LAN8814_MMD_ACCESS_ADDR_DATA addr LAN8814_DEF_MASK;
     if rc < MEPA_RC_OK then State_Monad.return (rc, v0) else do {
     rc \<leftarrow> lan8814_direct_reg_wr dev LAN8814_MMD_ACCESS_CTRL
       (LAN8814_F_MMD_ACCESS_CTRL_MMD_FUNC OR mmd) LAN8814_DEF_MASK;
     if rc < MEPA_RC_OK then State_Monad.return (rc, v0)
     else lan8814_direct_reg_rd dev LAN8814_MMD_ACCESS_ADDR_DATA }}}"

definition lan8814_mmd_reg_wr ::
  "nat \<Rightarrow> 16 word \<Rightarrow> 16 word \<Rightarrow> 16 word \<Rightarrow> 16 word \<Rightarrow> ('h, 'd, mepa_rc) mepa" where
  "lan8814_mmd_reg_wr dev mmd addr v msk =
     MEPA_RC (lan8814_direct_reg_wr dev LAN8814_MMD_ACCESS_CTRL mmd LAN8814_DEF_MASK) (
     MEPA_RC (lan8814_direct_reg_wr dev LAN8814_MMD_ACCESS_ADDR_DATA addr LAN8814_DEF_MASK) (
     MEPA_RC (lan8814_direct_reg_wr dev LAN8814_MMD_ACCESS_CTRL
       (LAN8814_F_MMD_ACCESS_CTRL_MMD_FUNC OR mmd) LAN8814_DEF_MASK) (
     MEPA_RC (lan8814_direct_reg_wr dev LAN8814_MMD_ACCESS_ADDR_DATA v msk) (
     State_Monad.return MEPA_RC_OK))))"

text \<open>
  The access macros of \<open>lan8814_private.h\<close>.  Most uses of the reads are
  statements that keep only the value.
\<close>

definition RD :: "nat \<Rightarrow> 16 word \<Rightarrow> ('h, 'd, 16 word) mepa" where
  "RD dev addr = do { (_, v) \<leftarrow> lan8814_direct_reg_rd dev addr; State_Monad.return v }"

definition WRM :: "nat \<Rightarrow> 16 word \<Rightarrow> 16 word \<Rightarrow> 16 word \<Rightarrow> ('h, 'd, mepa_rc) mepa" where
  "WRM dev addr v msk = lan8814_direct_reg_wr dev addr v msk"

definition WR :: "nat \<Rightarrow> 16 word \<Rightarrow> 16 word \<Rightarrow> ('h, 'd, mepa_rc) mepa" where
  "WR dev addr v = lan8814_direct_reg_wr dev addr v 0xffff"

definition EP_RD :: "nat \<Rightarrow> ereg \<Rightarrow> 16 word \<Rightarrow> ('h, 'd, 16 word) mepa" where
  "EP_RD dev r v0 = do {
     (_, v) \<leftarrow> lan8814_ext_reg_rd dev (fst r) (snd r) v0; State_Monad.return v }"

definition EP_WRM :: "nat \<Rightarrow> ereg \<Rightarrow> 16 word \<Rightarrow> 16 word \<Rightarrow> ('h, 'd, mepa_rc) mepa" where
  "EP_WRM dev r v msk = lan8814_ext_reg_wr dev (fst r) (snd r) v msk"

definition EP_WR :: "nat \<Rightarrow> ereg \<Rightarrow> 16 word \<Rightarrow> ('h, 'd, mepa_rc) mepa" where
  "EP_WR dev r v = lan8814_ext_reg_wr dev (fst r) (snd r) v 0xffff"

definition MMD_RD :: "nat \<Rightarrow> ereg \<Rightarrow> 16 word \<Rightarrow> ('h, 'd, 16 word) mepa" where
  "MMD_RD dev r v0 = do {
     (_, v) \<leftarrow> lan8814_mmd_reg_rd dev (fst r) (snd r) v0; State_Monad.return v }"

definition MMD_WR :: "nat \<Rightarrow> ereg \<Rightarrow> 16 word \<Rightarrow> ('h, 'd, mepa_rc) mepa" where
  "MMD_WR dev r v = lan8814_mmd_reg_wr dev (fst r) (snd r) v 0xffff"

definition MMD_WRM :: "nat \<Rightarrow> ereg \<Rightarrow> 16 word \<Rightarrow> 16 word \<Rightarrow> ('h, 'd, mepa_rc) mepa" where
  "MMD_WRM dev r v msk = lan8814_mmd_reg_wr dev (fst r) (snd r) v msk"

text \<open>Testing a bit.\<close>

lemma has_bits_single: "i < 16 \<Longrightarrow> has_bits v (2 ^ i) = bit v i"
proof -
  assume i: "i < 16"
  have "v AND 2 ^ i = (if bit v i then 2 ^ i else 0)"
    by (rule bit_word_eqI) (auto simp: bit_and_iff bit_exp_iff)
  moreover have "(2 ^ i :: 16 word) \<noteq> 0"
    using i bit_exp_iff [of i i, where ?'a = "16 word"] by auto
  ultimately show "has_bits v (2 ^ i) = bit v i" by (simp add: has_bits_def)
qed

lemma has_bits_pow:
  "has_bits v 0x1 = bit v 0"
  "has_bits v 0x2 = bit v 1"
  "has_bits v 0x4 = bit v 2"
  "has_bits v 0x8 = bit v 3"
  "has_bits v 0x10 = bit v 4"
  "has_bits v 0x20 = bit v 5"
  "has_bits v 0x40 = bit v 6"
  "has_bits v 0x80 = bit v 7"
  "has_bits v 0x100 = bit v 8"
  "has_bits v 0x200 = bit v 9"
  "has_bits v 0x400 = bit v 10"
  "has_bits v 0x800 = bit v 11"
  "has_bits v 0x1000 = bit v 12"
  "has_bits v 0x2000 = bit v 13"
  "has_bits v 0x4000 = bit v 14"
  "has_bits v 0x8000 = bit v 15"
  using has_bits_single [of 0 v] has_bits_single [of 1 v] has_bits_single [of 2 v] has_bits_single [of 3 v] 
    has_bits_single [of 4 v] has_bits_single [of 5 v] has_bits_single [of 6 v] has_bits_single [of 7 v] 
    has_bits_single [of 8 v] has_bits_single [of 9 v] has_bits_single [of 10 v] has_bits_single [of 11 v] 
    has_bits_single [of 12 v] has_bits_single [of 13 v] has_bits_single [of 14 v] has_bits_single [of 15 v]
  by simp_all

section \<open>The accessors keep an invariant of the world\<close>

context bus_invariant
begin

lemma keeps_direct: "keeps I (lan8814_direct_reg_rd p a)" "keeps I (lan8814_direct_reg_wr p a v m)"
  unfolding lan8814_direct_reg_rd_def lan8814_direct_reg_wr_def
  by (intro keeps_rules bus_keeps)+

lemma keeps_ext: "keeps I (lan8814_ext_reg_rd p pg a v0)" "keeps I (lan8814_ext_reg_wr p pg a v m)"
  unfolding lan8814_ext_reg_rd_def lan8814_ext_reg_wr_def
  by (intro keeps_rules bus_keeps keeps_direct)+

lemma keeps_incr: "keeps I (lan8814_ext_incr_reg_rd p pg a v0 b)"
  unfolding lan8814_ext_incr_reg_rd_def
  by (intro keeps_rules bus_keeps keeps_direct)

lemma keeps_mmd: "keeps I (lan8814_mmd_reg_rd p pg a v0)" "keeps I (lan8814_mmd_reg_wr p pg a v m)"
  unfolding lan8814_mmd_reg_rd_def lan8814_mmd_reg_wr_def
  by (intro keeps_rules bus_keeps keeps_direct)+

lemma keeps_RD: "keeps I (RD p a)" "keeps I (WRM p a v m)" "keeps I (WR p a v)"
  unfolding RD_def WRM_def WR_def by (intro keeps_rules keeps_direct)+

lemma keeps_EP: "keeps I (EP_RD p r v0)" "keeps I (EP_WRM p r v m)" "keeps I (EP_WR p r v)"
  unfolding EP_RD_def EP_WRM_def EP_WR_def by (intro keeps_rules keeps_ext)+

lemma keeps_MMD: "keeps I (MMD_RD p r v0)" "keeps I (MMD_WR p r v)" "keeps I (MMD_WRM p r v m)"
  unfolding MMD_RD_def MMD_WR_def MMD_WRM_def by (intro keeps_rules keeps_mmd)+

lemmas bus_reg_keeps = keeps_rules bus_keeps keeps_direct keeps_ext keeps_incr keeps_mmd keeps_RD
  keeps_EP keeps_MMD

end

context world_invariant
begin

lemmas reg_keeps = bus_reg_keeps keeps_upd_data

end

section \<open>What the accessors do to the registers\<close>

lemmas window_simps = dec_write_def dec_read_def win_after_write_def win_after_read_def
  win_func_def win_reg_def win_func_select win_dev_select

lemma dspec_direct_rd:
  assumes "bus_at dv p" "\<And>v. Q (0, v) D (dec_read (callout_ctx (dv p)) (ucast a) v s)"
  shows "dspec dv (lan8814_direct_reg_rd p a) D s Q"
  unfolding lan8814_direct_reg_rd_def using assms
  by (auto intro!: dspec_bind dspec_miim_read dspec_return)

lemma dspec_direct_wr:
  assumes "bus_at dv p"
    "\<And>x. Q 0 D (dec_write (callout_ctx (dv p)) (ucast a) (merge x v msk)
            (dec_read (callout_ctx (dv p)) (ucast a) x s))"
  shows "dspec dv (lan8814_direct_reg_wr p a v msk) D s Q"
  unfolding lan8814_direct_reg_wr_def using assms
  by (auto intro!: dspec_bind dspec_miim_read dspec_miim_write dspec_return
      simp: merge_def Let_def split: if_splits)

lemma dspec_MEPA_RC:
  assumes "dspec dv m D s (\<lambda>rc D' s'. if rc < 0 then Q rc D' s' else dspec dv k D' s' Q)"
  shows "dspec dv (MEPA_RC m k) D s Q"
  unfolding MEPA_RC_def
  by (rule dspec_bind, rule dspec_mono [OF assms]) (auto intro: dspec_return split: if_splits)

lemma lspec_direct_rd:
  assumes "bus_at dv p" "plain (ucast a)"
    "\<And>v. Q (0, v) D [LRd (callout_ctx (dv p)) (Dir (ucast a)) v]"
  shows "lspec dv (lan8814_direct_reg_rd p a) D Q"
  by (rule lspecI, rule dspec_direct_rd) (use assms in \<open>auto simp: dec_plain\<close>)

lemma lspec_direct_wr:
  assumes "bus_at dv p" "plain (ucast a)"
    "\<And>x. Q 0 D [LRd (callout_ctx (dv p)) (Dir (ucast a)) x,
                LWr (callout_ctx (dv p)) (Dir (ucast a)) (merge x v msk)]"
  shows "lspec dv (lan8814_direct_reg_wr p a v msk) D Q"
  by (rule lspecI, rule dspec_direct_wr) (use assms in \<open>auto simp: dec_plain\<close>)

lemma lspec_ext_rd:
  assumes ok: "bus_at dv p" and n: "five_bit pg"
    and Q: "\<And>v. Q (0, v) D [LRd (callout_ctx (dv p)) (Ext pg a) v]"
  shows "lspec dv (lan8814_ext_reg_rd p pg a v0) D Q"
  unfolding lan8814_ext_reg_rd_def
  by (intro lspecI dspec_bind dspec_miim_write ok)
    (auto simp: window_simps n intro!: dspec_bind dspec_miim_write dspec_direct_rd ok Q)

lemma lspec_ext_wr:
  assumes ok: "bus_at dv p" and n: "five_bit pg"
    and Q: "\<And>x. Q 0 D [LRd (callout_ctx (dv p)) (Ext pg a) x,
                         LWr (callout_ctx (dv p)) (Ext pg a) (merge x v msk)]"
  shows "lspec dv (lan8814_ext_reg_wr p pg a v msk) D Q"
  unfolding lan8814_ext_reg_wr_def
  by (intro lspecI dspec_MEPA_RC dspec_miim_write ok)
    (auto simp: window_simps n
      intro!: dspec_MEPA_RC dspec_miim_write dspec_direct_wr dspec_return ok Q)

lemma lspec_mmd_rd:
  assumes ok: "bus_at dv p" and n: "five_bit m"
    and Q: "\<And>v. Q (0, v) D [LRd (callout_ctx (dv p)) (Mmd m a) v]"
  shows "lspec dv (lan8814_mmd_reg_rd p m a v0) D Q"
  unfolding lan8814_mmd_reg_rd_def
  by (intro lspecI dspec_bind dspec_direct_wr ok)
    (auto simp: window_simps n intro!: dspec_bind dspec_direct_wr dspec_direct_rd ok Q)

lemma lspec_mmd_wr:
  assumes ok: "bus_at dv p" and n: "five_bit m"
    and Q: "\<And>x. Q 0 D [LRd (callout_ctx (dv p)) (Mmd m a) x,
                         LWr (callout_ctx (dv p)) (Mmd m a) (merge x v msk)]"
  shows "lspec dv (lan8814_mmd_reg_wr p m a v msk) D Q"
  unfolding lan8814_mmd_reg_wr_def
  by (intro lspecI dspec_MEPA_RC dspec_direct_wr ok)
    (auto simp: window_simps n
      intro!: dspec_MEPA_RC dspec_direct_wr dspec_return ok Q)

text \<open>The three pairs of accessors provide the register interface.\<close>

interpretation dir: register_access
  "lan8814_direct_reg_rd" "lan8814_direct_reg_wr" "\<lambda>a. Dir (ucast a)" "\<lambda>a. plain (ucast a)"
  by unfold_locales (auto intro: lspec_direct_rd lspec_direct_wr)

interpretation ext: register_access
  "\<lambda>p r. lan8814_ext_reg_rd p (fst r) (snd r) v0" "\<lambda>p r. lan8814_ext_reg_wr p (fst r) (snd r)"
  "\<lambda>r. Ext (fst r) (snd r)" "\<lambda>r. five_bit (fst r)"
  for v0 :: "16 word"
  by unfold_locales (auto intro: lspec_ext_rd lspec_ext_wr)

interpretation mmd: register_access
  "\<lambda>p r. lan8814_mmd_reg_rd p (fst r) (snd r) v0" "\<lambda>p r. lan8814_mmd_reg_wr p (fst r) (snd r)"
  "\<lambda>r. Mmd (fst r) (snd r)" "\<lambda>r. five_bit (fst r)"
  for v0 :: "16 word"
  by unfold_locales (auto intro: lspec_mmd_rd lspec_mmd_wr)

text \<open>The rules for the access macros.\<close>

lemma lspec_RD:
  assumes "bus_at dv p" "plain (ucast a)" "\<And>v. Q v D [LRd (callout_ctx (dv p)) (Dir (ucast a)) v]"
  shows "lspec dv (RD p a) D Q"
  unfolding RD_def using assms by (auto intro!: lspec_bind dir.rd_law lspec_return)

lemma lspec_WRM:
  assumes "bus_at dv p" "plain (ucast a)"
    "\<And>x. Q 0 D [LRd (callout_ctx (dv p)) (Dir (ucast a)) x,
                LWr (callout_ctx (dv p)) (Dir (ucast a)) (merge x v msk)]"
  shows "lspec dv (WRM p a v msk) D Q"
  unfolding WRM_def using assms by (auto intro!: dir.wrm_law)

lemma lspec_WR:
  assumes "bus_at dv p" "plain (ucast a)"
    "\<And>x. Q 0 D [LRd (callout_ctx (dv p)) (Dir (ucast a)) x,
                LWr (callout_ctx (dv p)) (Dir (ucast a)) v]"
  shows "lspec dv (WR p a v) D Q"
  unfolding WR_def using assms by (auto intro!: dir.wr_law)

lemma lspec_EP_RD:
  assumes "bus_at dv p" "five_bit (fst r)"
    "\<And>v. Q v D [LRd (callout_ctx (dv p)) (Ext (fst r) (snd r)) v]"
  shows "lspec dv (EP_RD p r v0) D Q"
  unfolding EP_RD_def using assms by (auto intro!: lspec_bind ext.rd_law lspec_return)

lemma lspec_EP_WRM:
  assumes "bus_at dv p" "five_bit (fst r)"
    "\<And>x. Q 0 D [LRd (callout_ctx (dv p)) (Ext (fst r) (snd r)) x,
                LWr (callout_ctx (dv p)) (Ext (fst r) (snd r)) (merge x v msk)]"
  shows "lspec dv (EP_WRM p r v msk) D Q"
  unfolding EP_WRM_def using assms by (auto intro!: ext.wrm_law)

lemma lspec_EP_WR:
  assumes "bus_at dv p" "five_bit (fst r)"
    "\<And>x. Q 0 D [LRd (callout_ctx (dv p)) (Ext (fst r) (snd r)) x,
                LWr (callout_ctx (dv p)) (Ext (fst r) (snd r)) v]"
  shows "lspec dv (EP_WR p r v) D Q"
  unfolding EP_WR_def using assms by (auto intro!: ext.wr_law)

lemma lspec_MMD_RD:
  assumes "bus_at dv p" "five_bit (fst r)"
    "\<And>v. Q v D [LRd (callout_ctx (dv p)) (Mmd (fst r) (snd r)) v]"
  shows "lspec dv (MMD_RD p r v0) D Q"
  unfolding MMD_RD_def using assms by (auto intro!: lspec_bind mmd.rd_law lspec_return)

lemma lspec_MMD_WR:
  assumes "bus_at dv p" "five_bit (fst r)"
    "\<And>x. Q 0 D [LRd (callout_ctx (dv p)) (Mmd (fst r) (snd r)) x,
                LWr (callout_ctx (dv p)) (Mmd (fst r) (snd r)) v]"
  shows "lspec dv (MMD_WR p r v) D Q"
  unfolding MMD_WR_def using assms by (auto intro!: mmd.wr_law)

lemma lspec_MMD_WRM:
  assumes "bus_at dv p" "five_bit (fst r)"
    "\<And>x. Q 0 D [LRd (callout_ctx (dv p)) (Mmd (fst r) (snd r)) x,
                LWr (callout_ctx (dv p)) (Mmd (fst r) (snd r)) (merge x v msk)]"
  shows "lspec dv (MMD_WRM p r v msk) D Q"
  unfolding MMD_WRM_def using assms by (auto intro!: mmd.wrm_law)

lemmas lspec_reg = lspec_RD lspec_WRM lspec_WR lspec_EP_RD lspec_EP_WRM lspec_EP_WR
  lspec_MMD_RD lspec_MMD_WR lspec_MMD_WRM

text \<open>On any bus, the accessors leave the private data alone.\<close>

lemma pspec_direct_rd: "(\<And>v. Q (0, v) D) \<Longrightarrow> pspec (lan8814_direct_reg_rd p a) D Q"
  unfolding lan8814_direct_reg_rd_def by (intro pspec_basic pspec_miim_read)

lemma pspec_direct_wr: "Q 0 D \<Longrightarrow> pspec (lan8814_direct_reg_wr p a v m) D Q"
  unfolding lan8814_direct_reg_wr_def by (intro pspec_basic pspec_miim_read pspec_miim_write)

lemma pspec_ext_rd: "(\<And>r. Q r D) \<Longrightarrow> pspec (lan8814_ext_reg_rd p pg a v0) D Q"
  unfolding lan8814_ext_reg_rd_def by (intro pspec_basic pspec_miim_write pspec_direct_rd)

lemma pspec_ext_wr:
  assumes "\<And>rc. Q rc D"
  shows "pspec (lan8814_ext_reg_wr p pg a v m) D Q"
  unfolding lan8814_ext_reg_wr_def
  using assms by (auto intro!: pspec_basic pspec_miim_write pspec_direct_wr)

lemma pspec_mmd_rd: "(\<And>r. Q r D) \<Longrightarrow> pspec (lan8814_mmd_reg_rd p pg a v0) D Q"
  unfolding lan8814_mmd_reg_rd_def by (intro pspec_basic pspec_direct_wr pspec_direct_rd)

lemma pspec_mmd_wr:
  assumes "\<And>rc. Q rc D"
  shows "pspec (lan8814_mmd_reg_wr p pg a v m) D Q"
  unfolding lan8814_mmd_reg_wr_def
  using assms by (auto intro!: pspec_basic pspec_direct_wr)

lemma pspec_RD: "(\<And>v. Q v D) \<Longrightarrow> pspec (RD p a) D Q"
  unfolding RD_def by (intro pspec_basic pspec_direct_rd)

lemma pspec_WRM: "Q 0 D \<Longrightarrow> pspec (WRM p a v m) D Q"
  unfolding WRM_def by (rule pspec_direct_wr)

lemma pspec_WR: "Q 0 D \<Longrightarrow> pspec (WR p a v) D Q"
  unfolding WR_def by (rule pspec_direct_wr)

lemma pspec_EP_RD: "(\<And>v. Q v D) \<Longrightarrow> pspec (EP_RD p r v0) D Q"
  unfolding EP_RD_def by (intro pspec_basic pspec_ext_rd)

lemma pspec_EP_WRM: "(\<And>rc. Q rc D) \<Longrightarrow> pspec (EP_WRM p r v m) D Q"
  unfolding EP_WRM_def by (rule pspec_ext_wr)

lemma pspec_EP_WR: "(\<And>rc. Q rc D) \<Longrightarrow> pspec (EP_WR p r v) D Q"
  unfolding EP_WR_def by (rule pspec_ext_wr)

lemma pspec_MMD_RD: "(\<And>v. Q v D) \<Longrightarrow> pspec (MMD_RD p r v0) D Q"
  unfolding MMD_RD_def by (intro pspec_basic pspec_mmd_rd)

lemma pspec_MMD_WR: "(\<And>rc. Q rc D) \<Longrightarrow> pspec (MMD_WR p r v) D Q"
  unfolding MMD_WR_def by (rule pspec_mmd_wr)

lemmas pspec_reg = pspec_RD pspec_WRM pspec_WR pspec_EP_RD pspec_EP_WRM pspec_EP_WR
  pspec_MMD_RD pspec_MMD_WR pspec_direct_rd pspec_direct_wr

lemmas reg_side = plain_def five_bit_def

section \<open>Properties\<close>

text \<open>
  C8: the accessors of the extended pages and of the MMD registers reach the
  register they name.  On a bus that works, each of \<open>lan8814_ext_reg_wr\<close> and
  \<open>lan8814_mmd_reg_wr\<close> is one read and one write of that register, with the bits
  outside the mask as they were and the bits inside it from the value, whatever
  the state of the windows was before.
\<close>

theorem lan8814_reg_wr_refines:
  assumes "bus_at (devs w) p" "five_bit n"
    and "acc = lan8814_ext_reg_wr p n a v msk \<and> r = Ext n a \<or>
         acc = lan8814_mmd_reg_wr p n a v msk \<and> r = Mmd n a"
    and "run_state acc w = (rc, w')"
  shows "rc = MEPA_RC_OK \<and> priv w' = priv w \<and> devs w' = devs w \<and>
    (\<exists>x y. lops w' = lops w @ [LRd (callout_ctx (devs w p)) r x, LWr (callout_ctx (devs w p)) r y] \<and>
      (\<forall>i < 16. bit y i = (if bit msk i then bit v i else bit x i)))"
proof -
  have "lspec (devs w) acc (priv w) (\<lambda>rc D' ops. rc = 0 \<and> D' = priv w \<and>
      (\<exists>x. ops = [LRd (callout_ctx (devs w p)) r x, LWr (callout_ctx (devs w p)) r (merge x v msk)]))"
    using assms(3) by (auto intro: lspec_ext_wr lspec_mmd_wr assms(1,2))
  from lspec_run [OF this assms(4)] show ?thesis
    by (auto simp: bit_merge)
qed

theorem lan8814_reg_wr_refines_witness:
  "let w = sim_world (\<lambda>_. 0x00F0) (\<lambda>_. ()); w' = exec (lan8814_ext_reg_wr 1 4 69 0xFFFF 0x0001) w
   in \<exists>x y. lops w' = [LRd 1 (Ext 4 69) x, LWr 1 (Ext 4 69) y] \<and>
      (\<forall>i < 16. bit y i = (if bit (0x0001 :: 16 word) i then bit (0xFFFF :: 16 word) i else bit x i))"
proof -
  let ?w = "sim_world (\<lambda>_. 0x00F0) (\<lambda>_. ())"
  show ?thesis
    using lan8814_reg_wr_refines [OF _ _ _ run_state_eq, where w = ?w and p = 1 and n = 4
        and acc = "lan8814_ext_reg_wr 1 4 69 0xFFFF 0x0001" and a = 69 and v = "0xFFFF"
        and msk = "0x0001" and r = "Ext 4 69"]
    by (simp add: five_bit_def Let_def sim_dev_def)
qed

end
