(* ===== verification/Lan8814_Data.thy ===== *)
theory Lan8814_Data
  imports Lan8814_Regs
begin

text \<open>
  The private data of the LAN8814 driver (\<open>phy_data_t\<close> of \<open>lan8814_private.h\<close>) and
  the functions of \<open>lan8814.c\<close> that only look at it.  The timestamp callback is an address.
  Enumerations stored in zeroed memory start with their first constructor; the
  downshift count, whose enumeration has no zero, is kept as a number.
\<close>

section \<open>Timestamping state\<close>

datatype lan8814_ts_tsu_op_mode =
    LAN8814_TS_MODE_DISABLED | LAN8814_TS_MODE_STANDALONE | LAN8814_TS_MODE_PCH
  | LAN8814_TS_MODE_PCHMCH

record lan8814_ts_port_latencies =
  lat_rx10mbps :: mepa_timeinterval
  lat_rx100mbps :: mepa_timeinterval
  lat_rx1000mbps :: mepa_timeinterval
  lat_tx10mbps :: mepa_timeinterval
  lat_tx100mbps :: mepa_timeinterval
  lat_tx1000mbps :: mepa_timeinterval

record lan8814_ts_port_conf =
  tpc_tsu_en :: bool
  tpc_ingress_latency :: mepa_timeinterval
  tpc_egress_latency :: mepa_timeinterval
  tpc_path_delay :: mepa_timeinterval
  tpc_delay_asym :: mepa_timeinterval
  tpc_rate_adj :: mepa_ts_scaled_ppb
  tpc_event_mask :: mepa_ts_event
  tpc_pps_conf :: mepa_ts_pps_conf
  tpc_rx_pkt_conf :: mepa_ts_classifier
  tpc_tx_pkt_conf :: mepa_ts_classifier
  tpc_rx_clock_conf :: mepa_ts_ptp_clock_conf
  tpc_tx_clock_conf :: mepa_ts_ptp_clock_conf
  tpc_port_latencies :: lan8814_ts_port_latencies

record lan8814_ts_data =
  tsd_ptp_en :: bool
  tsd_tsu_op_mode :: lan8814_ts_tsu_op_mode
  tsd_clk_freq :: mepa_ts_clock_freq
  tsd_clk_src :: mepa_ts_clock_src
  tsd_rx_ts_pos :: mepa_ts_rx_timestamp_pos
  tsd_rx_ts_len :: mepa_ts_rx_timestamp_len
  tsd_tx_fifo_ts_len :: mepa_ts_fifo_timestamp_len
  tsd_tx_fifo_mode :: mepa_ts_fifo_mode
  tsd_port_conf :: lan8814_ts_port_conf
  tsd_tx_spi_en :: bool
  tsd_fifo_cb :: "nat option"
  tsd_default_latencies :: lan8814_ts_port_latencies
  tsd_pps :: mepa_ts_pps_conf
  tsd_tx_auto_followup_ts :: bool
  tsd_ts_init_done :: bool
  tsd_tc_op_mode :: mepa_ts_tc_op_mode
  tsd_mch_pch :: mepa_mch_pch

definition lan8814_ts_port_latencies_0 :: lan8814_ts_port_latencies where
  "lan8814_ts_port_latencies_0 = \<lparr>lat_rx10mbps = 0, lat_rx100mbps = 0, lat_rx1000mbps = 0,
     lat_tx10mbps = 0, lat_tx100mbps = 0, lat_tx1000mbps = 0\<rparr>"

definition mepa_ts_pps_conf_0 :: mepa_ts_pps_conf where
  "mepa_ts_pps_conf_0 = \<lparr>pps_width_adj = 0, pps_offset = 0, pps_output_enable = 0\<rparr>"

definition lan8814_ts_data_0 :: lan8814_ts_data where
  "lan8814_ts_data_0 = \<lparr>tsd_ptp_en = False, tsd_tsu_op_mode = LAN8814_TS_MODE_DISABLED,
     tsd_clk_freq = MEPA_TS_CLOCK_FREQ_25M, tsd_clk_src = MEPA_TS_CLOCK_SRC_EXTERNAL,
     tsd_rx_ts_pos = MEPA_TS_RX_TIMESTAMP_POS_IN_PTP,
     tsd_rx_ts_len = MEPA_TS_RX_TIMESTAMP_LEN_30BIT,
     tsd_tx_fifo_ts_len = MEPA_TS_FIFO_TIMESTAMP_LEN_4BYTE,
     tsd_tx_fifo_mode = MEPA_TS_FIFO_MODE_NORMAL,
     tsd_port_conf = \<lparr>tpc_tsu_en = False, tpc_ingress_latency = 0, tpc_egress_latency = 0,
       tpc_path_delay = 0, tpc_delay_asym = 0, tpc_rate_adj = 0, tpc_event_mask = 0,
       tpc_pps_conf = mepa_ts_pps_conf_0, tpc_rx_pkt_conf = mepa_ts_classifier_0,
       tpc_tx_pkt_conf = mepa_ts_classifier_0, tpc_rx_clock_conf = mepa_ts_ptp_clock_conf_0,
       tpc_tx_clock_conf = mepa_ts_ptp_clock_conf_0,
       tpc_port_latencies = lan8814_ts_port_latencies_0\<rparr>,
     tsd_tx_spi_en = False, tsd_fifo_cb = None,
     tsd_default_latencies = lan8814_ts_port_latencies_0, tsd_pps = mepa_ts_pps_conf_0,
     tsd_tx_auto_followup_ts = False, tsd_ts_init_done = False,
     tsd_tc_op_mode = MEPA_TS_TC_OP_MODE_A,
     tsd_mch_pch = \<lparr>mp_pch_en = False, mp_save_ts_with_crc_err = False, mp_mch_en = False,
       mp_ts_len_ing = MEPA_MCH_TS_32NS_ONS, mp_ts_len_egr = MEPA_MCH_TS_32NS_ONS\<rparr>\<rparr>"

section \<open>Private data\<close>

record phy_dev_info =
  di_model :: "8 word"
  di_rev :: "8 word"
  di_sku :: "16 word"

record lan8814_phy_downshift =
  dsh_enable :: bool
  dsh_thr_cnt :: "32 word"

record phy_data =
  pd_init_done :: bool
  pd_packet_idx :: "8 word"
  pd_port_no :: "32 word"
  pd_conf :: mepa_conf
  pd_events :: mepa_event
  pd_loopback :: mepa_loopback
  pd_qsgmii_phy_aneg_dis :: bool
  pd_dev :: phy_dev_info
  pd_synce_conf :: mepa_synce_clock_conf
  pd_base_dev :: "nat option"
  pd_link_status :: bool
  pd_speed_status :: mepa_port_speed
  pd_fdx_status :: bool
  pd_cable_diag :: mepa_cable_diag_result
  pd_sof_conf :: mepa_start_of_frame_conf
  pd_framepreempt_en :: bool
  pd_mdi_mode :: mepa_media_mode
  pd_post_mac_rst :: bool
  pd_aneg_after_link_up :: bool
  pd_crc_workaround :: bool
  pd_ts_state :: lan8814_ts_data
  pd_prbs_conf :: mepa_phy_prbs_generator_conf
  pd_prbs_init :: bool
  pd_eee_conf :: mepa_phy_eee_conf
  pd_dsh_conf :: lan8814_phy_downshift
  pd_loop_cnt :: "8 word"
  pd_rep_cnt :: "8 word"
  pd_dsh_complete :: bool
  pd_aneg_flag :: bool

type_synonym ('h, 'a) lan = "('h, phy_data, 'a) mepa"

text \<open>Zeroed structures, as \<open>mepa_mem_alloc_int\<close> leaves them.\<close>

definition phy_data_0 :: phy_data where
  "phy_data_0 = \<lparr>pd_init_done = False, pd_packet_idx = 0, pd_port_no = 0, pd_conf = mepa_conf_0,
     pd_events = 0, pd_loopback = mepa_loopback_0, pd_qsgmii_phy_aneg_dis = False,
     pd_dev = \<lparr>di_model = 0, di_rev = 0, di_sku = 0\<rparr>,
     pd_synce_conf = \<lparr>synce_src = MEPA_SYNCE_CLOCK_SRC_DISABLED,
       synce_dst = MEPA_SYNCE_CLOCK_DST_1, synce_freq = MEPA_FREQ_25M,
       synce_squelch_src = MEPA_SYNCE_NO_SQUELCH, synce_squelch_inv = False\<rparr>,
     pd_base_dev = None, pd_link_status = False, pd_speed_status = MEPA_SPEED_UNDEFINED,
     pd_fdx_status = False,
     pd_cable_diag = \<lparr>cd_link = False, cd_status = replicate 4 MEPA_CABLE_DIAG_STATUS_OK,
       cd_length = replicate 4 0\<rparr>,
     pd_sof_conf = \<lparr>sof_no = 0, sof_ingress = False,
       sof_preemption_mode = MEPA_PREEMPTION_NORMAL_SFD\<rparr>,
     pd_framepreempt_en = False, pd_mdi_mode = MEPA_MEDIA_MODE_AUTO, pd_post_mac_rst = False,
     pd_aneg_after_link_up = False, pd_crc_workaround = False,
     pd_ts_state = lan8814_ts_data_0,
     pd_prbs_conf = \<lparr>prbs_enable = False, prbs_prbsn_sel = MEPA_PRBS7,
       prbs_clk = MEPA_PRBS_CLK25_MHZ, prbs_loopback = MEPA_PRBS_INTERNAL_LOOPBACK,
       prbs_user_pattern = replicate 8 0\<rparr>,
     pd_prbs_init = False, pd_eee_conf = \<lparr>eee_mode = MEPA_EEE_DISABLE, eee_ena_phy = False\<rparr>,
     pd_dsh_conf = \<lparr>dsh_enable = False, dsh_thr_cnt = 0\<rparr>, pd_loop_cnt = 0, pd_rep_cnt = 0,
     pd_dsh_complete = False, pd_aneg_flag = False\<rparr>"

lemma mepa_conf_0_simps [simp]:
  "conf_speed mepa_conf_0 = MEPA_SPEED_UNDEFINED" "conf_fdx mepa_conf_0 = False"
  "conf_flow_control mepa_conf_0 = False" "conf_admin_enable mepa_conf_0 = False"
  "conf_aneg mepa_conf_0 = mepa_aneg_adv_0" "conf_mac_if_aneg_ena mepa_conf_0 = False"
  "conf_man_neg mepa_conf_0 = MEPA_MANUAL_NEG_DISABLED"
  "conf_mdi_mode mepa_conf_0 = MEPA_MEDIA_MODE_AUTO"
  "adv_speed_1g_fdx mepa_aneg_adv_0 = False"
  by (simp_all add: mepa_conf_0_def mepa_aneg_adv_0_def)

lemma mepa_conf_0_id: "mepa_conf_0\<lparr>conf_mac_if_aneg_ena := False\<rparr> = mepa_conf_0"
  by (simp add: mepa_conf_0_def)

section \<open>Models\<close>

definition lan8814_is_lan8814 :: "phy_data \<Rightarrow> bool" where
  "lan8814_is_lan8814 data = (di_model (pd_dev data) = 0x26)"

definition lan8814_is_lan8842 :: "phy_data \<Rightarrow> bool" where
  "lan8814_is_lan8842 data = (di_model (pd_dev data) = 0x2c)"

definition lan8814_is_lan966x :: "phy_data \<Rightarrow> bool" where
  "lan8814_is_lan966x data = (di_model (pd_dev data) = 0x27)"

definition lan8814_get_name :: "phy_data \<Rightarrow> string" where
  "lan8814_get_name data =
    (if lan8814_is_lan8814 data then ''lan8814''
     else if lan8814_is_lan8842 data then ''lan8842''
     else if lan8814_is_lan966x data then ''lan966x internal''
     else '''')"

definition lan8814_has_ptp :: "phy_data \<Rightarrow> bool" where
  "lan8814_has_ptp data =
    (if lan8814_is_lan966x data then False
     else if lan8814_is_lan8814 data
     then di_sku (pd_dev data) = 0x8814 \<or> di_sku (pd_dev data) = 0x8818
     else if lan8814_is_lan8842 data then di_sku (pd_dev data) = 0x8842
     else False)"

definition lan8814_get_device_info :: "nat \<Rightarrow> ('h, mepa_rc) lan" where
  "lan8814_get_device_info dev = do {
     id \<leftarrow> RD dev LAN8814_DEVICE_ID_2;
     upd_data dev (\<lambda>d. d\<lparr>pd_dev := (pd_dev d)
       \<lparr>di_model := ucast (LAN8814_X_DEV_ID_MODEL id), di_rev := ucast (LAN8814_X_DEV_ID_REV id)\<rparr>\<rparr>);
     State_Monad.return MEPA_RC_OK }"

end
