(* ===== verification/Lan8814_Conf.thy ===== *)
theory Lan8814_Conf
  imports Lan8814_Data
begin

text \<open>
  Initialisation, workarounds, configuration and reset of the LAN8814 driver
  (\<open>lan8814.c\<close>, \<open>lan8814_init_conf\<close> to \<open>mas_if_get\<close>, and \<open>lan8814_reset\<close>,
  \<open>lan8814_conf_set\<close>, \<open>lan8814_conf_get\<close>, \<open>lan8814_event_enable_set/get\<close>,
  \<open>lan8814_event_status_poll\<close>).  A statement that ignores a return code ignores
  it here too.  The internal function \<open>f_\<close> of the source is \<open>f_int\<close> here.  Where the
  code passes \<open>&data->conf\<close> to a function that takes a configuration, the model
  passes its value: the callee writes \<open>data->conf\<close> only with what it read from the
  argument.
\<close>

text \<open>The two timestamping registers of \<open>lan8814_ts_registers.h\<close> that this file uses.\<close>

abbreviation (input) LAN8814_PTP_TSU_INT_EN :: ereg where "LAN8814_PTP_TSU_INT_EN \<equiv> (5, 512)"
abbreviation (input) LAN8814_PTP_TSU_GEN_CONF :: ereg where "LAN8814_PTP_TSU_GEN_CONF \<equiv> (5, 704)"
abbreviation (input) LAN8814_PTP_TSU_GEN_CONF_PREEMPTION_EN :: "16 word" where
  "LAN8814_PTP_TSU_GEN_CONF_PREEMPTION_EN \<equiv> 0x2"

section \<open>Initialisation and workarounds\<close>

definition lan8814_init_conf :: "nat \<Rightarrow> ('h, mepa_rc) lan" where
  "lan8814_init_conf dev = do {
     lan8814_get_device_info dev;
     data \<leftarrow> data_of dev;
     only_if (lan8814_is_lan8814 data) (
       only_if (pd_packet_idx data mod 4 = 0) (do {
         MEPA_MSLEEP 1;
         only_if (\<not> pd_qsgmii_phy_aneg_dis data) (do {
           EP_WRM dev LAN8814_QSGMII_AUTO_ANEG 0 LAN8814_F_QSGMII_AUTO_ANEG_AUTO_ANEG_ENA;
           upd_data dev (\<lambda>d. d\<lparr>pd_qsgmii_phy_aneg_dis := True\<rparr>) }) }));
     WR dev LAN8814_GPHY_INTR_ENA 0;
     EP_WRM dev LAN8814_PTP_TSU_INT_EN 0 LAN8814_DEF_MASK;
     RD dev LAN8814_GPHY_INTR_STATUS;
     EP_WRM dev LAN8814_INTR_CTRL LAN8814_INTR_CTRL_CHIP_LVL_ENA LAN8814_INTR_CTRL_CHIP_LVL_ENA;
     State_Monad.return MEPA_RC_OK }"

definition lan8814_qsgmii_tx_abilities :: "nat \<Rightarrow> mepa_port_speed \<Rightarrow> bool \<Rightarrow> ('h, unit) lan" where
  "lan8814_qsgmii_tx_abilities dev speed duplex = do {
     eee_val \<leftarrow> MMD_RD dev LAN8814_LINK_PARTNER_EEE_ABILITY 0;
     let v = 0x1;
     let v = (if speed = MEPA_SPEED_1G then
                v OR (if has_bits eee_val LAN8814_F_LP_EEE_ABILITY_1000_BT then 0x180 else 0)
              else if speed = MEPA_SPEED_100M then
                v OR (if has_bits eee_val LAN8814_F_LP_EEE_ABILITY_100_BT then 0x180 else 0)
              else v);
     let v = (if duplex then v OR 0x1000 else v);
     let v = v OR (if speed = MEPA_SPEED_1G then 0x400
                   else if speed = MEPA_SPEED_100M then 0x200 else 0);
     let v = v OR 0x4000;
     EP_WR dev LAN8814_QSGMII_PCS1G_ANEG_TX_ADVERTISE_CAP v;
     EP_WRM dev LAN8814_QSGMII_PCS1G_ANEG_CONFIG
       LAN8814_F_QSGMII_PCS1G_ANEG_CONFIG_ANEG_RESTART
       LAN8814_F_QSGMII_PCS1G_ANEG_CONFIG_ANEG_RESTART;
     State_Monad.return () }"

definition lan8814_qsgmii_aneg :: "nat \<Rightarrow> bool \<Rightarrow> ('h, mepa_rc) lan" where
  "lan8814_qsgmii_aneg dev ena = do {
     data \<leftarrow> data_of dev;
     if lan8814_is_lan966x data then State_Monad.return MEPA_RC_OK else do {
     (if \<not> ena then
       EP_WRM dev LAN8814_QSGMII_PCS1G_ANEG_CONFIG 0
         LAN8814_F_QSGMII_PCS1G_ANEG_CONFIG_ANEG_ENA
     else
       EP_WRM dev LAN8814_QSGMII_PCS1G_ANEG_CONFIG
         LAN8814_F_QSGMII_PCS1G_ANEG_CONFIG_ANEG_ENA
         LAN8814_F_QSGMII_PCS1G_ANEG_CONFIG_ANEG_ENA);
     State_Monad.return MEPA_RC_OK }}"

definition lan8814_rev_workaround :: "nat \<Rightarrow> ('h, mepa_rc) lan" where
  "lan8814_rev_workaround dev = do {
     data \<leftarrow> data_of dev;
     only_if (\<not> 2 \<le> di_rev (pd_dev data)) (
       EP_WRM dev LAN8814_ALIGN_SWAP LAN8814_F_ALIGN_TX_A_B_SWAP LAN8814_M_ALIGN_TX_SWAP);
     only_if (lan8814_is_lan966x data \<and> di_rev (pd_dev data) \<le> 2) (do {
       EP_WR dev LAN8814_1000BT_FIX_LATENCY_ENABLE 1;
       EP_WR dev LAN8814_CLOCK_MANAGEMENT_MODE_5 0x27e;
       EP_RD dev LAN8814_LINK_QUALITY_MONITOR_SETTING 0;
       EP_WRM dev LAN8814_OPERATION_MODE_STRAP_LOW 0x8 0x8 });
     if lan8814_is_lan966x data then State_Monad.return MEPA_RC_OK else do {
     EP_WR dev LAN8814_ANALOG_CONTROL_1 0x40;
     EP_WR dev LAN8814_ANALOG_CONTROL_10 0x1;
     if 2 \<le> di_rev (pd_dev data) then State_Monad.return MEPA_RC_OK else
     if 1 \<le> di_rev (pd_dev data) then State_Monad.return MEPA_RC_OK else do {
     EP_WR dev LAN8814_OPERATION_MODE_STRAP_LOW 0x2;
     EP_WR dev LAN8814_OPERATION_MODE_STRAP_HIGH 0xc001;
     State_Monad.return MEPA_RC_OK }}}"

definition lan8814_workaround_after_reset :: "nat \<Rightarrow> ('h, mepa_rc) lan" where
  "lan8814_workaround_after_reset dev = do {
     EP_WR dev LAN8814_AFED_CONTROL 0xe214;
     EP_WR dev LAN8814_ANALOG_CONTROL_4 0x81e0;
     EP_WR dev LAN8814_EEE_WAKE_TX_TIMER 0x1f;
     EP_WR dev LAN8814_ALIGN_SWAP 0x02;
     EP_WR dev LAN8814_ANALOG_CONTROL_1 0x40;
     EP_WR dev LAN8814_ANALOG_CONTROL_10 0x01;
     EP_WR dev LAN8814_PD_CONTROLS 0x248b;
     EP_WR dev LAN8814_DFE_INIT2_100 0x3c30;
     EP_WR dev LAN8814_PGA_TABLE_1G_ENTRY_0 0x10a;
     EP_WR dev LAN8814_PGA_TABLE_1G_ENTRY_1 0xed;
     EP_WR dev LAN8814_PGA_TABLE_1G_ENTRY_2 0xd3;
     EP_WR dev LAN8814_PGA_TABLE_1G_ENTRY_3 0xbc;
     EP_WR dev LAN8814_PGA_TABLE_1G_ENTRY_4 0xa8;
     EP_WR dev LAN8814_PGA_TABLE_1G_ENTRY_5 0x96;
     EP_WR dev LAN8814_PGA_TABLE_1G_ENTRY_6 0x85;
     EP_WR dev LAN8814_PGA_TABLE_1G_ENTRY_7 0x77;
     EP_WR dev LAN8814_PGA_TABLE_1G_ENTRY_8 0x6a;
     EP_WR dev LAN8814_PGA_TABLE_1G_ENTRY_9 0x5e;
     EP_WR dev LAN8814_PGA_TABLE_1G_ENTRY_10 0x54;
     EP_WR dev LAN8814_PGA_TABLE_1G_ENTRY_11 0x4b;
     EP_WR dev LAN8814_PGA_TABLE_1G_ENTRY_12 0x43;
     EP_WR dev LAN8814_PGA_TABLE_1G_ENTRY_13 0x3c;
     EP_WR dev LAN8814_PGA_TABLE_1G_ENTRY_14 0x35;
     EP_WR dev LAN8814_PGA_TABLE_1G_ENTRY_15 0x2f;
     EP_WR dev LAN8814_PGA_TABLE_1G_ENTRY_16 0x2a;
     EP_WR dev LAN8814_PGA_TABLE_1G_ENTRY_17 0x26;
     EP_WR dev LAN8814_POWER_MGMT_MODE_3 0x6677;
     EP_WR dev LAN8814_POWER_MGMT_MODE_4 0x6677;
     EP_WR dev LAN8814_POWER_MGMT_MODE_5 0x6677;
     EP_WR dev LAN8814_POWER_MGMT_MODE_6 0x6677;
     EP_WR dev LAN8814_POWER_MGMT_MODE_7 0x0077;
     EP_WR dev LAN8814_POWER_MGMT_MODE_8 0x4377;
     EP_WR dev LAN8814_POWER_MGMT_MODE_9 0x4377;
     EP_WR dev LAN8814_POWER_MGMT_MODE_10 0x6677;
     EP_WR dev LAN8814_POWER_MGMT_MODE_11 0x0777;
     EP_WR dev LAN8814_POWER_MGMT_MODE_12 0x0777;
     EP_WR dev LAN8814_POWER_MGMT_MODE_13 0x6677;
     EP_WR dev LAN8814_POWER_MGMT_MODE_14 0x6677;
     WR dev LAN8814_BASIC_CONTROL 0x1340;
     WR dev LAN8814_ANEG_ADVERTISEMENT 0x05e1;
     State_Monad.return MEPA_RC_OK }"

definition lan8814_workaround_half_duplex :: "nat \<Rightarrow> ('h, mepa_rc) lan" where
  "lan8814_workaround_half_duplex dev = do {
     EP_WR dev LAN8814_RX_RA_FIFO_THRESHOLDS_1 0x200;
     EP_WR dev LAN8814_RX_RA_FIFO_THRESHOLDS_2 0x404;
     EP_WR dev LAN8814_RX_RA_FIFO_THRESHOLDS_3 0x608;
     EP_WR dev LAN8814_TX_RA_FIFO_THRESHOLDS_1 0x200;
     EP_WR dev LAN8814_TX_RA_FIFO_THRESHOLDS_2 0x404;
     EP_WR dev LAN8814_TX_RA_FIFO_THRESHOLDS_3 0x608;
     State_Monad.return MEPA_RC_OK }"

definition lan8814_workaround_fifo_reset :: "nat \<Rightarrow> ('h, mepa_rc) lan" where
  "lan8814_workaround_fifo_reset dev = do {
     EP_WR dev LAN8814_TX_RA_FIFO_RESET 1;
     EP_WR dev LAN8814_RX_RA_FIFO_RESET 1;
     State_Monad.return MEPA_RC_OK }"

text \<open>
  Frame preemption.  \<open>base_dev == dev\<close> compares pointers, so the update of the base
  port's data is an update of the device's own data exactly then.
\<close>

definition lan8814_framepreempt_set_int :: "nat \<Rightarrow> bool \<Rightarrow> ('h, mepa_rc) lan" where
  "lan8814_framepreempt_set_int dev enable = do {
     data \<leftarrow> data_of dev;
     case pd_base_dev data of
       None \<Rightarrow> State_Monad.return MEPA_RC_OK
     | Some base_dev \<Rightarrow> do {
         only_if (base_dev = dev) (
           upd_data base_dev (\<lambda>d. d\<lparr>pd_framepreempt_en := enable\<rparr>));
         v \<leftarrow> EP_RD dev LAN8814_PTP_TSU_GEN_CONF 0;
         base_data \<leftarrow> data_of base_dev;
         let v = (if pd_framepreempt_en base_data
                  then v OR LAN8814_PTP_TSU_GEN_CONF_PREEMPTION_EN
                  else v AND NOT LAN8814_PTP_TSU_GEN_CONF_PREEMPTION_EN);
         EP_WRM dev LAN8814_PTP_TSU_GEN_CONF v LAN8814_DEF_MASK;
         State_Monad.return MEPA_RC_OK }}"

definition lan8814_selftest_stop :: "nat \<Rightarrow> ('h, mepa_rc) lan" where
  "lan8814_selftest_stop dev = do {
     v \<leftarrow> EP_RD dev LAN8814_SELFTEST_PGEN_EN 0;
     only_if (has_bits v LAN8814_F_SELFTEST_PGEN_EN) (do {
       EP_WR dev LAN8814_SELFTEST_PGEN_EN 0;
       WR dev LAN8814_RESV_CON_LOOP 0xfc00 });
     State_Monad.return MEPA_RC_OK }"

section \<open>Configuration\<close>

definition lan8814_conf_mdi_mode :: "nat \<Rightarrow> mepa_media_mode \<Rightarrow> ('h, mepa_rc) lan" where
  "lan8814_conf_mdi_mode dev mode = do {
     data \<leftarrow> data_of dev;
     let old_mode = conf_mdi_mode (pd_conf data);
     if old_mode = mode then State_Monad.return MEPA_RC_OK else do {
     v \<leftarrow> RD dev LAN8814_GPHY_DBG_CTL1;
     let v = v AND NOT LAN8814_F_MDI_SET;
     let v = (case mode of
         MEPA_MEDIA_MODE_MDI \<Rightarrow> (v OR LAN8814_F_MDI_SET) OR LAN8814_F_SWAPOFF
       | MEPA_MEDIA_MODE_MDIX \<Rightarrow> v OR LAN8814_F_SWAPOFF
       | _ \<Rightarrow> v AND NOT LAN8814_F_SWAPOFF);
     WRM dev LAN8814_GPHY_DBG_CTL1 v LAN8814_DEF_MASK;
     upd_data dev (\<lambda>d. d\<lparr>pd_conf := (pd_conf d)\<lparr>conf_mdi_mode := mode\<rparr>\<rparr>);
     State_Monad.return MEPA_RC_OK }}"

text \<open>
  The loop over the event bits: \<open>switch (ev_in & (1 << i))\<close>, left early when all
  events have been processed.
\<close>

fun lan8814_event_loop :: "nat \<Rightarrow> bool \<Rightarrow> nat list \<Rightarrow> mepa_event \<Rightarrow> 16 word \<Rightarrow> ('h, 16 word) lan" where
  "lan8814_event_loop dev enable [] ev_in ev_mask = State_Monad.return ev_mask"
| "lan8814_event_loop dev enable (i # is) ev_in ev_mask = do {
     let sel = ev_in AND push_bit i 1;
     (ev_in, ev_mask) \<leftarrow>
       (if sel = MEPA_LINK_LOS then
          State_Monad.return (ev_in AND NOT MEPA_LINK_LOS,
            ev_mask OR LAN8814_F_GPHY_INTR_ENA_LINK_DOWN)
        else if sel = MEPA_FAST_LINK_FAIL then do {
          let v = LAN8814_FLF_CFG_STAT_LINK_DOWN OR LAN8814_FLF_CFG_STAT_FLF_ENABLE;
          EP_WRM dev LAN8814_FLF_CONFIG_STATUS (if enable then v else 0) v;
          State_Monad.return (ev_in AND NOT MEPA_FAST_LINK_FAIL,
            ev_mask OR LAN8814_F_GPHY_INTR_ENA_FLF_INTR) }
        else State_Monad.return (ev_in, ev_mask));
     if ev_in = 0 then State_Monad.return ev_mask
     else lan8814_event_loop dev enable is ev_in ev_mask }"

definition lan8814_event_enable_set_int :: "nat \<Rightarrow> mepa_event \<Rightarrow> bool \<Rightarrow> ('h, mepa_rc) lan" where
  "lan8814_event_enable_set_int dev event enable = do {
     upd_data dev (\<lambda>d. d\<lparr>pd_events := (if enable then pd_events d OR event
                                      else pd_events d AND NOT event)\<rparr>);
     ev_mask \<leftarrow> lan8814_event_loop dev enable [0..<32] event 0;
     WRM dev LAN8814_GPHY_INTR_ENA (if enable then ev_mask else 0) ev_mask;
     State_Monad.return MEPA_RC_OK }"

text \<open>The branches of \<open>lan8814_conf_set_int\<close>; \<open>data\<close> is the private data at that point.\<close>

definition is_10_100 :: "mepa_port_speed \<Rightarrow> bool" where
  "is_10_100 s = (s = MEPA_SPEED_10M \<or> s = MEPA_SPEED_100M)"

definition adv_word :: "mepa_conf \<Rightarrow> 16 word" where
  "adv_word config =
    (if adv_tx_remote_fault (conf_aneg config) then push_bit 13 1 else 0) OR
    (if conf_flow_control config then push_bit 11 1 else 0) OR
    (if conf_flow_control config then push_bit 10 1 else 0) OR
    (if adv_speed_100m_fdx (conf_aneg config) then push_bit 8 1 else 0) OR
    (if adv_speed_100m_hdx (conf_aneg config) then push_bit 7 1 else 0) OR
    (if adv_speed_10m_fdx (conf_aneg config) then push_bit 6 1 else 0) OR
    (if adv_speed_10m_hdx (conf_aneg config) then push_bit 5 1 else 0) OR 1"

definition mstr_slv_word :: "mepa_conf \<Rightarrow> 16 word" where
  "mstr_slv_word config =
    (let new_value = (if adv_speed_1g_fdx (conf_aneg config)
                      then LAN8814_F_ANEG_MSTR_SLV_CTRL_1000_T_FULL_DUP else 0)
     in if conf_man_neg config \<noteq> MEPA_MANUAL_NEG_DISABLED
        then (new_value OR LAN8814_F_ANEG_MSTR_SLV_CTRL_CFG_ENA) OR
          (if conf_man_neg config = MEPA_MANUAL_NEG_REF
           then LAN8814_F_ANEG_MSTR_SLV_CTRL_CFG_VAL else 0)
        else new_value)"

text \<open>The conditions that set \<open>restart_aneg\<close>; \<open>adv\<close> is the old value of register 4.\<close>

definition conf_restarts :: "mepa_conf \<Rightarrow> mepa_conf \<Rightarrow> 16 word \<Rightarrow> bool" where
  "conf_restarts old config adv =
    (conf_admin_enable old \<noteq> conf_admin_enable config \<or>
     adv_speed_1g_fdx (conf_aneg config) \<noteq> adv_speed_1g_fdx (conf_aneg old) \<or>
     (conf_man_neg config \<noteq> MEPA_MANUAL_NEG_DISABLED \<and>
      conf_man_neg config \<noteq> conf_man_neg old) \<or>
     adv \<noteq> adv_word config)"

definition conf_set_auto :: "nat \<Rightarrow> mepa_conf \<Rightarrow> ('h, unit) lan" where
  "conf_set_auto dev config = do {
     data \<leftarrow> data_of dev;
     only_if (is_10_100 (conf_speed (pd_conf data)) \<and> \<not> conf_fdx (pd_conf data)) (
       lan8814_workaround_fifo_reset dev);
     WRM dev LAN8814_ANEG_MSTR_SLV_CTRL (mstr_slv_word config)
       (LAN8814_F_ANEG_MSTR_SLV_CTRL_1000_T_FULL_DUP OR
        (LAN8814_F_ANEG_MSTR_SLV_CTRL_CFG_VAL OR LAN8814_F_ANEG_MSTR_SLV_CTRL_CFG_ENA));
     old_value \<leftarrow> RD dev LAN8814_ANEG_ADVERTISEMENT;
     WR dev LAN8814_ANEG_ADVERTISEMENT (adv_word config);
     WRM dev LAN8814_BASIC_CONTROL LAN8814_F_BASIC_CTRL_ANEG_ENA
       (LAN8814_F_BASIC_CTRL_ANEG_ENA OR LAN8814_F_BASIC_CTRL_SOFT_POW_DOWN);
     only_if (conf_restarts (pd_conf data) config old_value) (
       WRM dev LAN8814_BASIC_CONTROL LAN8814_F_BASIC_CTRL_RESTART_ANEG
         LAN8814_F_BASIC_CTRL_RESTART_ANEG) }"

definition forced_word :: "mepa_conf \<Rightarrow> 16 word" where
  "forced_word config = (if conf_speed config = MEPA_SPEED_100M then push_bit 13 1 else 0) OR
     (if conf_fdx config then push_bit 8 1 else 0) OR
     (if conf_speed config = MEPA_SPEED_1G then push_bit 6 1 else 0)"

definition conf_set_forced :: "nat \<Rightarrow> mepa_conf \<Rightarrow> ('h, unit) lan" where
  "conf_set_forced dev config = do {
     data \<leftarrow> data_of dev;
     only_if (is_10_100 (conf_speed (pd_conf data)) \<and> \<not> conf_fdx (pd_conf data)) (
       lan8814_workaround_fifo_reset dev);
     WRM dev LAN8814_BASIC_CONTROL (forced_word config)
       (push_bit 13 1 OR push_bit 12 1 OR push_bit 8 1 OR push_bit 6 1 OR
        LAN8814_F_BASIC_CTRL_SOFT_POW_DOWN OR LAN8814_F_BASIC_CTRL_ANEG_ENA);
     only_if (\<not> conf_fdx config) (lan8814_workaround_half_duplex dev) }"

definition lan8814_conf_set_int :: "nat \<Rightarrow> mepa_conf \<Rightarrow> ('h, mepa_rc) lan" where
  "lan8814_conf_set_int dev config = do {
     let qsgmii_aneg = (if conf_speed config \<noteq> MEPA_SPEED_AUTO then False
                        else conf_mac_if_aneg_ena config);
     (if conf_admin_enable config then do {
       lan8814_conf_mdi_mode dev (conf_mdi_mode config);
       data \<leftarrow> data_of dev;
       only_if (qsgmii_aneg \<noteq> conf_mac_if_aneg_ena (pd_conf data)) (
         lan8814_qsgmii_aneg dev qsgmii_aneg);
       WRM dev LAN8814_GPHY_INTR_ENA 0 LAN8814_F_GPHY_INTR_ENA_FLF_INTR;
       if conf_speed config = MEPA_SPEED_AUTO \<or> conf_speed config = MEPA_SPEED_1G
       then conf_set_auto dev config
       else only_if (conf_speed config \<noteq> MEPA_SPEED_UNDEFINED) (conf_set_forced dev config) }
     else do {
       WRM dev LAN8814_BASIC_CONTROL LAN8814_F_BASIC_CTRL_SOFT_POW_DOWN
         LAN8814_F_BASIC_CTRL_SOFT_POW_DOWN;
       State_Monad.return () });
     data \<leftarrow> data_of dev;
     only_if (lan8814_is_lan966x data) (
       WRM dev LAN8814_CONTROL LAN8814_F_CONTROL_RESERVED LAN8814_F_CONTROL_RESERVED);
     RD dev LAN8814_GPHY_INTR_STATUS;
     upd_data dev (\<lambda>d. d\<lparr>pd_conf := config\<lparr>conf_mac_if_aneg_ena := qsgmii_aneg\<rparr>\<rparr>);
     data \<leftarrow> data_of dev;
     lan8814_event_enable_set_int dev (pd_events data) True;
     State_Monad.return MEPA_RC_OK }"

definition lan8814_eee_mode_conf_set_int :: "nat \<Rightarrow> mepa_phy_eee_conf \<Rightarrow> ('h, mepa_rc) lan" where
  "lan8814_eee_mode_conf_set_int dev conf = do {
     reconfigure \<leftarrow>
       (if eee_mode conf = MEPA_EEE_REG_UPDATE then do {
          upd_data dev (\<lambda>d. d\<lparr>pd_eee_conf := (pd_eee_conf d)
            \<lparr>eee_mode := (if eee_ena_phy conf then MEPA_EEE_ENABLE else MEPA_EEE_DISABLE),
             eee_ena_phy := eee_ena_phy conf\<rparr>\<rparr>);
          State_Monad.return True }
        else if eee_ena_phy conf \<and> eee_mode conf = MEPA_EEE_DISABLE then do {
          upd_data dev (\<lambda>d. d\<lparr>pd_eee_conf := (pd_eee_conf d)\<lparr>eee_ena_phy := False\<rparr>\<rparr>);
          State_Monad.return True }
        else if \<not> eee_ena_phy conf \<and> eee_mode conf = MEPA_EEE_ENABLE then do {
          upd_data dev (\<lambda>d. d\<lparr>pd_eee_conf := (pd_eee_conf d)\<lparr>eee_ena_phy := True\<rparr>\<rparr>);
          State_Monad.return True }
        else State_Monad.return False);
     only_if (eee_mode conf \<noteq> MEPA_EEE_REG_UPDATE) (
       upd_data dev (\<lambda>d. d\<lparr>pd_eee_conf := (pd_eee_conf d)\<lparr>eee_mode := eee_mode conf\<rparr>\<rparr>));
     only_if reconfigure (do {
       data \<leftarrow> data_of dev;
       (if eee_ena_phy (pd_eee_conf data) then
         MMD_WR dev LAN8814_EEE_ADVERTISEMENT (LAN8814_EEE_100_BT OR LAN8814_EEE_1000_BT)
       else MMD_WR dev LAN8814_EEE_ADVERTISEMENT 0);
       WRM dev LAN8814_BASIC_CONTROL LAN8814_F_BASIC_CTRL_RESTART_ANEG
         LAN8814_F_BASIC_CTRL_RESTART_ANEG });
     State_Monad.return MEPA_RC_OK }"

section \<open>Reset\<close>

text \<open>The first reset of a port, and the case \<open>MEPA_RESET_POINT_DEFAULT\<close>.\<close>

definition reset_first :: "nat \<Rightarrow> ('h, unit) lan" where
  "reset_first dev = do {
     lan8814_init_conf dev;
     lan8814_rev_workaround dev;
     lan8814_qsgmii_aneg dev False;
     upd_data dev (\<lambda>d. d\<lparr>pd_init_done := True\<rparr>);
     upd_data dev (\<lambda>d. d\<lparr>pd_rep_cnt := (if pd_rep_cnt d \<noteq> 0 then pd_rep_cnt d else 1)\<rparr>);
     data \<leftarrow> data_of dev;
     only_if (lan8814_is_lan8814 data) (
       upd_data dev (\<lambda>d. d\<lparr>pd_crc_workaround := True, pd_aneg_after_link_up := False\<rparr>)) }"

definition reset_restore :: "nat \<Rightarrow> ('h, unit) lan" where
  "reset_restore dev = do {
     data \<leftarrow> data_of dev;
     lan8814_conf_set_int dev (pd_conf data);
     upd_data dev (\<lambda>d. d\<lparr>pd_eee_conf := (pd_eee_conf d)\<lparr>eee_mode := MEPA_EEE_REG_UPDATE\<rparr>\<rparr>);
     data \<leftarrow> data_of dev;
     lan8814_eee_mode_conf_set_int dev (pd_eee_conf data);
     data \<leftarrow> data_of dev;
     only_if (pd_events data \<noteq> 0) (lan8814_event_enable_set_int dev (pd_events data) True);
     only_if (lan8814_is_lan8814 data) (do {
       EP_WR dev LAN8814_QSGMII_SOFT_RESET 0x1;
       WRM dev LAN8814_BASIC_CONTROL LAN8814_F_BASIC_CTRL_RESTART_ANEG
         LAN8814_F_BASIC_CTRL_RESTART_ANEG;
       upd_data dev (\<lambda>d. d\<lparr>pd_post_mac_rst := True\<rparr>) }) }"

definition lan8814_reset_int :: "nat \<Rightarrow> mepa_reset_param \<Rightarrow> ('h, mepa_rc) lan" where
  "lan8814_reset_int dev rst_conf = do {
     only_if (rst_reset_point rst_conf = MEPA_RESET_POINT_DEFAULT) (do {
       data \<leftarrow> data_of dev;
       only_if (\<not> pd_init_done data) (reset_first dev);
       lan8814_selftest_stop dev;
       WRM dev LAN8814_BASIC_CONTROL LAN8814_F_BASIC_CTRL_SOFT_RESET
         LAN8814_F_BASIC_CTRL_SOFT_RESET;
       MEPA_MSLEEP 1;
       lan8814_workaround_after_reset dev;
       reset_restore dev });
     lan8814_framepreempt_set_int dev (rst_framepreempt_en rst_conf);
     State_Monad.return MEPA_RC_OK }"

definition lan8814_reset :: "nat \<Rightarrow> mepa_reset_param \<Rightarrow> ('h, mepa_rc) lan" where
  "lan8814_reset dev rst_conf = do {
     MEPA_ENTER dev;
     rc \<leftarrow> lan8814_reset_int dev rst_conf;
     MEPA_EXIT dev;
     State_Monad.return rc }"

definition lan8814_rep_count_set :: "nat \<Rightarrow> 8 word \<Rightarrow> ('h, mepa_rc) lan" where
  "lan8814_rep_count_set dev rep_cnt = do {
     upd_data dev (\<lambda>d. d\<lparr>pd_rep_cnt := rep_cnt\<rparr>);
     State_Monad.return MEPA_RC_OK }"

definition lan8814_downshift_conf_set :: "nat \<Rightarrow> lan8814_phy_downshift \<Rightarrow> ('h, mepa_rc) lan" where
  "lan8814_downshift_conf_set dev dsh = do {
     MEPA_ENTER dev;
     data \<leftarrow> data_of dev;
     only_if (\<not> dsh_enable dsh \<and> dsh_enable (pd_dsh_conf data)) (
       WRM dev LAN8814_BASIC_CONTROL LAN8814_F_BASIC_CTRL_RESTART_ANEG
         LAN8814_F_BASIC_CTRL_RESTART_ANEG);
     upd_data dev (\<lambda>d. d\<lparr>pd_dsh_conf := \<lparr>dsh_enable = dsh_enable dsh,
       dsh_thr_cnt = dsh_thr_cnt dsh\<rparr>\<rparr>);
     MEPA_EXIT dev;
     State_Monad.return MEPA_RC_OK }"

definition lan8814_downshift :: "nat \<Rightarrow> ('h, mepa_rc) lan" where
  "lan8814_downshift dev = do {
     v \<leftarrow> RD dev LAN8814_ANEG_MSTR_SLV_CTRL;
     let v = v AND NOT (LAN8814_F_ANEG_MSTR_SLV_CTRL_CFG_VAL OR
                        LAN8814_F_ANEG_MSTR_SLV_CTRL_1000_T_FULL_DUP);
     WRM dev LAN8814_ANEG_MSTR_SLV_CTRL v
       (LAN8814_F_ANEG_MSTR_SLV_CTRL_1000_T_FULL_DUP OR LAN8814_F_ANEG_MSTR_SLV_CTRL_CFG_VAL);
     WRM dev LAN8814_BASIC_CONTROL LAN8814_F_BASIC_CTRL_ANEG_ENA
       (LAN8814_F_BASIC_CTRL_ANEG_ENA OR LAN8814_F_BASIC_CTRL_SOFT_POW_DOWN);
     WRM dev LAN8814_BASIC_CONTROL LAN8814_F_BASIC_CTRL_RESTART_ANEG
       LAN8814_F_BASIC_CTRL_RESTART_ANEG;
     upd_data dev (\<lambda>d. d\<lparr>pd_dsh_complete := True\<rparr>);
     State_Monad.return MEPA_RC_OK }"

definition mas_if_set :: "nat \<Rightarrow> mepa_port_interface \<Rightarrow> ('h, mepa_rc) lan" where
  "mas_if_set dev mac_if =
    (if mac_if \<noteq> MESA_PORT_INTERFACE_SGMII then State_Monad.return MEPA_RC_ERROR
     else State_Monad.return MEPA_RC_OK)"

definition mas_if_get ::
  "nat \<Rightarrow> mepa_port_speed \<Rightarrow> ('h, mepa_rc \<times> mepa_port_interface) lan" where
  "mas_if_get dev speed = State_Monad.return (MEPA_RC_OK, MESA_PORT_INTERFACE_SGMII)"

section \<open>The configuration and event operations of the driver\<close>

definition lan8814_conf_set :: "nat \<Rightarrow> mepa_conf \<Rightarrow> ('h, mepa_rc) lan" where
  "lan8814_conf_set dev config = do {
     MEPA_ENTER dev;
     rc \<leftarrow> lan8814_conf_set_int dev config;
     MEPA_EXIT dev;
     State_Monad.return rc }"

definition lan8814_conf_get :: "nat \<Rightarrow> ('h, mepa_rc \<times> mepa_conf) lan" where
  "lan8814_conf_get dev = do {
     MEPA_ENTER dev;
     data \<leftarrow> data_of dev;
     MEPA_EXIT dev;
     State_Monad.return (MEPA_RC_OK, pd_conf data) }"

definition lan8814_if_set :: "nat \<Rightarrow> mepa_port_interface \<Rightarrow> ('h, mepa_rc) lan" where
  "lan8814_if_set dev mac_if =
    (if mac_if \<noteq> MESA_PORT_INTERFACE_QSGMII then State_Monad.return MEPA_RC_ERROR
     else State_Monad.return MEPA_RC_OK)"

definition lan8814_if_get ::
  "nat \<Rightarrow> mepa_port_speed \<Rightarrow> ('h, mepa_rc \<times> mepa_port_interface) lan" where
  "lan8814_if_get dev speed = State_Monad.return (MEPA_RC_OK, MESA_PORT_INTERFACE_QSGMII)"

definition lan8814_event_enable_set :: "nat \<Rightarrow> mepa_event \<Rightarrow> bool \<Rightarrow> ('h, mepa_rc) lan" where
  "lan8814_event_enable_set dev event enable = do {
     MEPA_ENTER dev;
     rc \<leftarrow> lan8814_event_enable_set_int dev event enable;
     MEPA_EXIT dev;
     State_Monad.return rc }"

definition lan8814_event_enable_get :: "nat \<Rightarrow> ('h, mepa_rc \<times> mepa_event) lan" where
  "lan8814_event_enable_get dev = do {
     MEPA_ENTER dev;
     data \<leftarrow> data_of dev;
     MEPA_EXIT dev;
     State_Monad.return (MEPA_RC_OK, pd_events data) }"

definition lan8814_event_status_poll :: "nat \<Rightarrow> ('h, mepa_rc \<times> mepa_event) lan" where
  "lan8814_event_status_poll dev = do {
     MEPA_ENTER dev;
     (rc, v) \<leftarrow> lan8814_direct_reg_rd dev LAN8814_GPHY_INTR_STATUS;
     data \<leftarrow> data_of dev;
     let status = 0;
     let status = (if has_bits v LAN8814_F_GPHY_INTR_ENA_LINK_DOWN
                   then status OR (pd_events data AND MEPA_LINK_LOS) else status);
     let status = (if has_bits v LAN8814_F_GPHY_INTR_ENA_FLF_INTR
                   then status OR (pd_events data AND MEPA_FAST_LINK_FAIL) else status);
     MEPA_EXIT dev;
     State_Monad.return (rc, status) }"

section \<open>The functions keep an invariant of the world\<close>

locale lan8814_bus = bus_invariant I for I :: "('h, phy_data) world \<Rightarrow> bool"
begin

lemma keeps_lan8814_qsgmii_tx_abilities: "keeps I (lan8814_qsgmii_tx_abilities p s d)"
  unfolding lan8814_qsgmii_tx_abilities_def by (intro bus_reg_keeps)

lemma keeps_lan8814_qsgmii_aneg: "keeps I (lan8814_qsgmii_aneg p b)"
  unfolding lan8814_qsgmii_aneg_def by (intro bus_reg_keeps)

lemma keeps_lan8814_rev_workaround: "keeps I (lan8814_rev_workaround p)"
  unfolding lan8814_rev_workaround_def by (intro bus_reg_keeps)

lemma keeps_lan8814_workaround_after_reset: "keeps I (lan8814_workaround_after_reset p)"
  unfolding lan8814_workaround_after_reset_def by (intro bus_reg_keeps)

lemma keeps_lan8814_workaround_half_duplex: "keeps I (lan8814_workaround_half_duplex p)"
  unfolding lan8814_workaround_half_duplex_def by (intro bus_reg_keeps)

lemma keeps_lan8814_workaround_fifo_reset: "keeps I (lan8814_workaround_fifo_reset p)"
  unfolding lan8814_workaround_fifo_reset_def by (intro bus_reg_keeps)

lemma keeps_lan8814_selftest_stop: "keeps I (lan8814_selftest_stop p)"
  unfolding lan8814_selftest_stop_def by (intro bus_reg_keeps)

lemma keeps_lan8814_event_loop: "keeps I (lan8814_event_loop p b is ev m)"
  by (induction "is" arbitrary: ev m) (auto intro!: bus_reg_keeps simp: Let_def split: prod.split)

lemmas conf_bus1 = bus_reg_keeps keeps_lan8814_qsgmii_tx_abilities keeps_lan8814_qsgmii_aneg
  keeps_lan8814_rev_workaround keeps_lan8814_workaround_after_reset
  keeps_lan8814_workaround_half_duplex keeps_lan8814_workaround_fifo_reset
  keeps_lan8814_selftest_stop keeps_lan8814_event_loop

lemma keeps_conf_set_auto: "keeps I (conf_set_auto p c)"
  unfolding conf_set_auto_def by (intro conf_bus1)

lemma keeps_conf_set_forced: "keeps I (conf_set_forced p c)"
  unfolding conf_set_forced_def by (intro conf_bus1)

lemmas conf_bus = conf_bus1 keeps_conf_set_auto keeps_conf_set_forced

end

locale lan8814_invariant = world_invariant I + lan8814_bus I for I :: "('h, phy_data) world \<Rightarrow> bool"
begin

lemmas conf_base = conf_bus keeps_upd_data

lemma keeps_lan8814_get_device_info: "keeps I (lan8814_get_device_info p)"
  unfolding lan8814_get_device_info_def by (intro conf_base)

lemma keeps_lan8814_init_conf: "keeps I (lan8814_init_conf p)"
  unfolding lan8814_init_conf_def by (intro conf_base keeps_lan8814_get_device_info)

lemma keeps_lan8814_framepreempt_set_int: "keeps I (lan8814_framepreempt_set_int p b)"
  unfolding lan8814_framepreempt_set_int_def by (intro conf_base)

lemma keeps_lan8814_conf_mdi_mode: "keeps I (lan8814_conf_mdi_mode p m)"
  unfolding lan8814_conf_mdi_mode_def by (intro conf_base)

lemma keeps_lan8814_event_enable_set_int: "keeps I (lan8814_event_enable_set_int p e b)"
  unfolding lan8814_event_enable_set_int_def by (intro conf_base)

lemmas conf_keeps2 = conf_base keeps_lan8814_get_device_info keeps_lan8814_init_conf
  keeps_lan8814_framepreempt_set_int keeps_lan8814_conf_mdi_mode
  keeps_lan8814_event_enable_set_int

lemma keeps_lan8814_conf_set_int: "keeps I (lan8814_conf_set_int p c)"
  unfolding lan8814_conf_set_int_def by (intro conf_keeps2)

lemma keeps_lan8814_eee_mode_conf_set_int: "keeps I (lan8814_eee_mode_conf_set_int p c)"
  unfolding lan8814_eee_mode_conf_set_int_def by (intro conf_keeps2)

lemmas conf_keeps3 = conf_keeps2 keeps_lan8814_conf_set_int keeps_lan8814_eee_mode_conf_set_int

lemma keeps_reset: "keeps I (reset_first p)" "keeps I (reset_restore p)"
  unfolding reset_first_def reset_restore_def by (intro conf_keeps3)+

lemma keeps_lan8814_reset_int: "keeps I (lan8814_reset_int p c)"
  unfolding lan8814_reset_int_def by (intro conf_keeps3 keeps_reset)

lemma keeps_lan8814_downshift: "keeps I (lan8814_downshift p)"
  unfolding lan8814_downshift_def by (intro conf_keeps3)

lemmas conf_keeps = conf_keeps3 keeps_lan8814_reset_int keeps_lan8814_downshift

end

end
