(* ===== verification/Lan8814_Conf_Spec.thy ===== *)
theory Lan8814_Conf_Spec
  imports Lan8814_Conf
begin

text \<open>
  What initialisation, configuration, reset and the event functions of the LAN8814
  driver do: to the registers on a bus that works (\<open>lspec\<close>), and to the private data
  on any bus (\<open>pspec\<close>).
\<close>

section \<open>Bits of masks\<close>

lemma and_exp_eq:
  assumes "i < LENGTH('a)"
  shows "((x :: 'a :: len word) AND 2 ^ i = 2 ^ i) = bit x i"
proof
  assume "x AND 2 ^ i = 2 ^ i"
  then have "bit (x AND 2 ^ i) i = bit (2 ^ i :: 'a word) i" by simp
  then show "bit x i" using assms by (simp add: bit_and_iff bit_exp_iff)
next
  assume "bit x i"
  then show "x AND 2 ^ i = 2 ^ i"
    by (intro bit_word_eqI) (auto simp: bit_and_iff bit_exp_iff)
qed

lemma bit_flag: "n < 16 \<Longrightarrow> bit (if b then push_bit n 1 else 0 :: 16 word) i = (b \<and> i = n)"
  by (auto simp: bit_exp_iff)

lemma bit_0x3940: "bit (0x3940 :: int) i = (i \<in> {13, 12, 11, 8, 6})"
proof -
  have "(0x3940 :: int) = 2 ^ 13 OR 2 ^ 12 OR 2 ^ 11 OR 2 ^ 8 OR 2 ^ 6" by simp
  then show ?thesis by (simp only: bit_or_iff bit_exp_iff) auto
qed

lemma bit_0x1A00: "bit (0x1A00 :: int) i = (i \<in> {12, 11, 9})"
proof -
  have "(0x1A00 :: int) = 2 ^ 12 OR 2 ^ 11 OR 2 ^ 9" by simp
  then show ?thesis by (simp only: bit_or_iff bit_exp_iff) auto
qed

lemma bit_0x1800: "bit (0x1800 :: int) i = (i \<in> {12, 11})"
proof -
  have "(0x1800 :: int) = 2 ^ 12 OR 2 ^ 11" by simp
  then show ?thesis by (simp only: bit_or_iff bit_exp_iff) auto
qed

lemma bit_single: "bit (0x200 :: int) i = (i = 9)" "bit (0x800 :: int) i = (i = 11)"
  "bit (0x1000 :: int) i = (i = 12)"
  using bit_exp_iff [of 9 i, where ?'a = int] bit_exp_iff [of 11 i, where ?'a = int]
    bit_exp_iff [of 12 i, where ?'a = int] by auto

lemma bit_0x4: "bit (4 :: int) i = (i = 2)"
  using bit_exp_iff [of 2 i, where ?'a = int] by auto

section \<open>What the functions do to the registers\<close>

lemma event_sel:
  "(ev AND 1 = (1 :: 32 word)) = bit ev 0" "(ev AND 2 = (2 :: 32 word)) = bit ev 1"
  using and_exp_eq [of 0 ev] and_exp_eq [of 1 ev] by simp_all

lemma event_sel_high:
  assumes "2 \<le> i"
  shows "(ev AND 2 ^ i :: 32 word) \<noteq> 1" "(ev AND 2 ^ i :: 32 word) \<noteq> 2"
proof -
  have "\<not> bit (ev AND 2 ^ i :: 32 word) 0" "\<not> bit (ev AND 2 ^ i :: 32 word) 1"
    using assms by (simp_all add: bit_and_iff bit_exp_iff)
  moreover have "bit (1 :: 32 word) 0" "bit (2 :: 32 word) 1"
    using bit_exp_iff [of 1 1, where ?'a = "32 word"] by (simp_all add: bit_exp_iff)
  ultimately show "(ev AND 2 ^ i :: 32 word) \<noteq> 1" "(ev AND 2 ^ i :: 32 word) \<noteq> 2"
    by metis+
qed

lemma event_loop_high:
  assumes "\<forall>i \<in> set is. 2 \<le> i"
  shows "lan8814_event_loop p en is ev m = State_Monad.return m"
  using assms by (induction "is") (simp_all add: event_sel_high Let_def)

definition event_mask :: "mepa_event \<Rightarrow> 16 word" where
  "event_mask ev = (if bit ev 0 then LAN8814_F_GPHY_INTR_ENA_LINK_DOWN else 0) OR
     (if bit ev 1 then LAN8814_F_GPHY_INTR_ENA_FLF_INTR else 0)"

lemma upt_32: "[0..<32] = 0 # 1 # [2..<32]"
  by (simp add: upt_conv_Cons)

lemma event_sel_ne: "(ev AND 1 = (2 :: 32 word)) = False" "(ev AND 2 = (1 :: 32 word)) = False"
proof -
  have "bit (ev AND 1) 1 \<noteq> bit (2 :: 32 word) 1"
    using bit_exp_iff [of 1 1, where ?'a = "32 word"]
    by (simp add: bit_and_iff bit_1_iff)
  then show "(ev AND 1 = (2 :: 32 word)) = False" by metis
  have "bit (ev AND 2) 0 \<noteq> bit (1 :: 32 word) 0"
    using bit_exp_iff [of 1 0, where ?'a = "32 word"] by (simp add: bit_and_iff)
  then show "(ev AND 2 = (1 :: 32 word)) = False" by metis
qed

lemma event_loop_0:
  "lan8814_event_loop p en (0 # is) ev m =
    (if bit ev 0
     then if ev AND NOT 1 = 0 then State_Monad.return (m OR 4)
          else lan8814_event_loop p en is (ev AND NOT 1) (m OR 4)
     else if ev = 0 then State_Monad.return m else lan8814_event_loop p en is ev m)"
  by (simp only: lan8814_event_loop.simps Let_def push_bit_0_id event_sel event_sel_ne
      id_apply if_False bind_left_identity prod.case if_distrib [where f = "\<lambda>m. State_Monad.bind m _"]
      cong: if_cong)

lemma event_loop_1:
  "lan8814_event_loop p en (1 # is) ev m =
    (if bit ev 1
     then do { EP_WRM p LAN8814_FLF_CONFIG_STATUS (if en then 3 else 0) 3;
       if ev AND NOT 2 = 0 then State_Monad.return (m OR 0x1000)
       else lan8814_event_loop p en is (ev AND NOT 2) (m OR 0x1000) }
     else if ev = 0 then State_Monad.return m else lan8814_event_loop p en is ev m)"
proof -
  have "push_bit 1 1 = (2 :: 32 word)" by simp
  moreover have "(1 :: 16 word) OR 2 = 3" by simp
  ultimately show ?thesis
  by (simp only: lan8814_event_loop.simps Let_def event_sel event_sel_ne
      if_False bind_left_identity prod.case if_distrib [where f = "\<lambda>m. State_Monad.bind m _"] bind_assoc
      cong: if_cong)
qed

text \<open>The loop over the events in closed form.\<close>

lemma event_loop_eq:
  "lan8814_event_loop p en [0..<32] ev 0 = do {
     only_if (bit ev 1) (EP_WRM p LAN8814_FLF_CONFIG_STATUS (if en then 3 else 0) 3);
     State_Monad.return (event_mask ev) }"
proof -
  have h: "lan8814_event_loop p en [2..<32] e m = State_Monad.return m" for e m
    by (rule event_loop_high) simp
  have b: "bit (ev AND NOT 1) 1 = bit ev 1"
    unfolding bit_and_iff bit_not_iff by (auto simp: bit_1_iff)
  then have nz: "ev AND NOT 1 \<noteq> 0" if "bit ev 1" using that by (metis bit_0_eq bot_apply bot_bool_def)
  have z: "ev \<noteq> 0" if "bit ev 0 \<or> bit ev 1" using that by auto
  show ?thesis
  proof (cases "bit ev 0"; cases "bit ev 1")
  qed (simp_all only: upt_32 event_loop_0 event_loop_1 h b nz z if_True if_False if_cancel
      event_mask_def only_if_def bind_left_identity bind_assoc simp_thms or.left_neutral
      or.right_neutral if_bool_eq_conj or.commute)
qed

lemma lspec_event_loop:
  assumes ok: "bus_at dv p"
    and Q: "\<And>ops. (if bit ev 1 then \<exists>x. writes ops = [(Ext 0 15, merge x (if en then 3 else 0) 3)]
                   else writes ops = []) \<Longrightarrow> Q (event_mask ev) D ops"
  shows "lspec dv (lan8814_event_loop p en [0..<32] ev 0) D Q"
  unfolding event_loop_eq
  by (intro lspec_basic lspec_reg ok Q) (auto simp: reg_side)

lemma lspec_event_enable_set_int:
  assumes ok: "bus_at dv p"
    and Q: "\<And>ops. \<exists>x y. LRd (callout_ctx (dv p)) (Dir 24) y \<in> set ops \<and> writes ops =
        (if bit ev 1 then [(Ext 0 15, merge x (if en then 3 else 0) 3)] else []) @
        [(Dir 24, merge y (if en then event_mask ev else 0) (event_mask ev))] \<Longrightarrow>
      Q 0 (D(p := (D p)\<lparr>pd_events := (if en then pd_events (D p) OR ev
                                      else pd_events (D p) AND NOT ev)\<rparr>)) ops"
  shows "lspec dv (lan8814_event_enable_set_int p ev en) D Q"
  unfolding lan8814_event_enable_set_int_def
  apply (intro lspec_bind lspec_upd_data lspec_event_loop ok)
  subgoal for ops
    by (intro lspec_bind lspec_WRM lspec_return ok Q)
      (cases "bit ev 1"; auto simp: reg_side)+
  done

lemma lspec_fifo_reset:
  assumes ok: "bus_at dv p"
    and Q: "\<And>ops. writes ops = [(Ext 5 44, 1), (Ext 5 45, 1)] \<Longrightarrow> Q 0 D ops"
  shows "lspec dv (lan8814_workaround_fifo_reset p) D Q"
  unfolding lan8814_workaround_fifo_reset_def
  by (intro lspec_basic lspec_reg ok Q) (simp_all add: reg_side)

lemma lspec_half_duplex:
  assumes ok: "bus_at dv p"
    and Q: "\<And>ops. writes ops = [(Ext 5 32, 0x200), (Ext 5 33, 0x404), (Ext 5 34, 0x608),
      (Ext 5 38, 0x200), (Ext 5 39, 0x404), (Ext 5 40, 0x608)] \<Longrightarrow> Q 0 D ops"
  shows "lspec dv (lan8814_workaround_half_duplex p) D Q"
  unfolding lan8814_workaround_half_duplex_def
  by (intro lspec_basic lspec_reg ok Q) (simp_all add: reg_side)

lemma lspec_qsgmii_aneg:
  assumes ok: "bus_at dv p" and Q: "\<And>ops. only_writes {Ext 5 19} ops \<Longrightarrow> Q 0 D ops"
  shows "lspec dv (lan8814_qsgmii_aneg p ena) D Q"
  unfolding lan8814_qsgmii_aneg_def
  by (intro lspec_basic lspec_reg ok Q) (simp_all add: reg_side)

lemma lspec_conf_mdi_mode:
  assumes ok: "bus_at dv p"
    and Q: "\<And>ops. only_writes {Dir 28} ops \<Longrightarrow>
      Q 0 (D(p := (D p)\<lparr>pd_conf := (pd_conf (D p))\<lparr>conf_mdi_mode := mode\<rparr>\<rparr>)) ops"
  shows "lspec dv (lan8814_conf_mdi_mode p mode) D Q"
proof (cases "conf_mdi_mode (pd_conf (D p)) = mode")
  case True
  then have "D(p := (D p)\<lparr>pd_conf := (pd_conf (D p))\<lparr>conf_mdi_mode := mode\<rparr>\<rparr>) = D"
    by auto
  with True Q [of "[]"] show ?thesis
    unfolding lan8814_conf_mdi_mode_def
    by (auto intro!: lspec_bind lspec_data_of lspec_return simp: Let_def)
next
  case False
  then show ?thesis
    unfolding lan8814_conf_mdi_mode_def
    by (intro lspec_basic lspec_reg ok Q) (simp_all add: reg_side)
qed



definition conf_auto_ops :: "nat \<Rightarrow> mepa_conf \<Rightarrow> mepa_conf \<Rightarrow> lop list \<Rightarrow> bool" where
  "conf_auto_ops c old config ops = (\<exists>x9 adv x0 x0' ws.
     {LRd c (Dir 4) adv, LRd c (Dir 9) x9, LRd c (Dir 0) x0, LRd c (Dir 0) x0'} \<subseteq> set ops \<and> set (map fst ws) \<subseteq> {Ext 5 44, Ext 5 45} \<and>
     writes ops = ws @ [(Dir 9, merge x9 (mstr_slv_word config) 0x1A00), (Dir 4, adv_word config),
         (Dir 0, merge x0 0x1000 0x1800)] @
       (if conf_restarts old config adv then [(Dir 0, x0' OR 0x200)] else []))"

lemma lspec_conf_set_auto:
  assumes ok: "bus_at dv p"
    and Q: "\<And>ops. conf_auto_ops (callout_ctx (dv p)) (pd_conf (D p)) config ops \<Longrightarrow> Q () D ops"
  shows "lspec dv (conf_set_auto p config) D Q"
proof -
  have fr: "lspec dv (only_if b (lan8814_workaround_fifo_reset p)) D
      (\<lambda>_ D' ops. D' = D \<and> set (map fst (writes ops)) \<subseteq> {Ext 5 44, Ext 5 45})" for b
    by (intro lspec_only_if lspec_fifo_reset ok) auto
  show ?thesis
    unfolding conf_set_auto_def
    by (intro lspec_bind lspec_data_of lspec_mono [OF fr], clarify, intro lspec_basic lspec_reg ok Q)
      (simp_all add: reg_side conf_auto_ops_def, (force simp: merge_set)+)
qed

definition conf_forced_ops :: "nat \<Rightarrow> mepa_conf \<Rightarrow> lop list \<Rightarrow> bool" where
  "conf_forced_ops c config ops = (\<exists>x ws.
     LRd c (Dir 0) x \<in> set ops \<and> set (map fst ws) \<subseteq> {Ext 5 44, Ext 5 45} \<and>
     writes ops = ws @ [(Dir 0, merge x (forced_word config) 0x3940)] @
       (if conf_fdx config then [] else
         [(Ext 5 32, 0x200), (Ext 5 33, 0x404), (Ext 5 34, 0x608),
          (Ext 5 38, 0x200), (Ext 5 39, 0x404), (Ext 5 40, 0x608)]))"

lemma lspec_conf_set_forced:
  assumes ok: "bus_at dv p"
    and Q: "\<And>ops. conf_forced_ops (callout_ctx (dv p)) config ops \<Longrightarrow> Q () D ops"
  shows "lspec dv (conf_set_forced p config) D Q"
proof -
  have fr: "lspec dv (only_if b (lan8814_workaround_fifo_reset p)) D
      (\<lambda>_ D' ops. D' = D \<and> set (map fst (writes ops)) \<subseteq> {Ext 5 44, Ext 5 45})" for b
    by (intro lspec_only_if lspec_fifo_reset ok) auto
  show ?thesis
    unfolding conf_set_forced_def
    by (intro lspec_bind lspec_data_of lspec_mono [OF fr], clarify,
        intro lspec_basic lspec_reg lspec_half_duplex ok Q)
      (simp_all add: reg_side conf_forced_ops_def, force+)
qed

text \<open>The registers that the common parts of \<open>lan8814_conf_set_\<close> write.\<close>

definition conf_common :: "lreg set" where
  "conf_common = {Dir 24, Dir 28, Dir 31, Ext 0 15, Ext 5 19}"

definition conf_stored :: "mepa_conf \<Rightarrow> mepa_conf" where
  "conf_stored config = config\<lparr>conf_mac_if_aneg_ena :=
     (conf_speed config = MEPA_SPEED_AUTO \<and> conf_mac_if_aneg_ena config)\<rparr>"

lemma conf_stored_eq: "conf_stored config = config\<lparr>conf_mac_if_aneg_ena :=
    (if conf_speed config \<noteq> MEPA_SPEED_AUTO then False else conf_mac_if_aneg_ena config)\<rparr>"
  by (simp add: conf_stored_def)

lemma lspec_conf_tail:
  assumes ok: "bus_at dv p"
    and Q: "\<And>ops. only_writes conf_common ops \<Longrightarrow>
      Q 0 (D(p := (D p)\<lparr>pd_conf := config'\<rparr>)) ops"
  shows "lspec dv (do {
     data \<leftarrow> data_of p;
     only_if (lan8814_is_lan966x data) (
       WRM p LAN8814_CONTROL LAN8814_F_CONTROL_RESERVED LAN8814_F_CONTROL_RESERVED);
     RD p LAN8814_GPHY_INTR_STATUS;
     upd_data p (\<lambda>d. d\<lparr>pd_conf := config'\<rparr>);
     data \<leftarrow> data_of p;
     lan8814_event_enable_set_int p (pd_events data) True;
     State_Monad.return MEPA_RC_OK }) D Q"
proof -
  have u: "(D(p := (D p)\<lparr>pd_conf := config'\<rparr>))(p := ((D(p := (D p)\<lparr>pd_conf := config'\<rparr>)) p)
      \<lparr>pd_events := (if True then pd_events (((D(p := (D p)\<lparr>pd_conf := config'\<rparr>)) p)) OR
          pd_events (((D(p := (D p)\<lparr>pd_conf := config'\<rparr>)) p)) else z)\<rparr>) =
    D(p := (D p)\<lparr>pd_conf := config'\<rparr>)" for z
    by simp
  show ?thesis
    apply (intro lspec_basic lspec_reg lspec_event_enable_set_int ok)
    apply (simp_all only: u)
    apply (simp_all add: reg_side)
    apply (auto intro!: Q simp: conf_common_def only_writes_def split: if_splits)
    done
qed

lemma lspec_conf_set_int:
  assumes ok: "bus_at dv p"
    and B: "\<And>D'. conf_admin_enable config \<Longrightarrow>
      pd_conf (D' p) = (pd_conf (D p))\<lparr>conf_mdi_mode := conf_mdi_mode config\<rparr> \<Longrightarrow>
      lspec dv (if conf_speed config = MEPA_SPEED_AUTO \<or> conf_speed config = MEPA_SPEED_1G
       then conf_set_auto p config
       else only_if (conf_speed config \<noteq> MEPA_SPEED_UNDEFINED) (conf_set_forced p config)) D'
      (\<lambda>_ D'' ops. D'' = D' \<and> P ops)"
    and B': "\<And>x. \<not> conf_admin_enable config \<Longrightarrow>
      P [LRd (callout_ctx (dv p)) (Dir 0) x, LWr (callout_ctx (dv p)) (Dir 0) (x OR 0x800)]"
    and Q: "\<And>ops o1 o2 o3. ops = o1 @ o2 @ o3 \<Longrightarrow> only_writes conf_common o1 \<Longrightarrow> P o2 \<Longrightarrow>
      only_writes conf_common o3 \<Longrightarrow>
      Q 0 (D(p := (D p)\<lparr>pd_conf := conf_stored config\<rparr>)) ops"
  shows "lspec dv (lan8814_conf_set_int p config) D Q"
proof (cases "conf_admin_enable config")
  case True
  let ?D = "D(p := (D p)\<lparr>pd_conf := (pd_conf (D p))\<lparr>conf_mdi_mode := conf_mdi_mode config\<rparr>\<rparr>)"
  have q: "lspec dv (only_if b (lan8814_qsgmii_aneg p a)) ?D
      (\<lambda>_ D' ops. D' = ?D \<and> only_writes {Ext 5 19} ops)" for b a
    by (intro lspec_only_if lspec_qsgmii_aneg ok) auto
  show ?thesis
    unfolding lan8814_conf_set_int_def Let_def
    apply (simp only: True if_True conf_stored_eq [symmetric])
    apply (rule lspec_bind, rule lspec_bind, rule lspec_conf_mdi_mode [OF ok])
    apply (rule lspec_bind, rule lspec_data_of, rule lspec_bind, rule lspec_mono [OF q], clarify)
    apply (rule lspec_bind, rule lspec_WRM [OF ok], simp add: reg_side)
    apply (rule lspec_mono [OF B [OF True]], simp, clarify)
    apply (rule lspec_conf_tail [OF ok])
    subgoal for ops x D' opsa xa xb D'a opsb opsc
      using Q [OF refl, of "ops @ opsa @ [LRd (callout_ctx (dv p)) (Dir 24) xa,
          LWr (callout_ctx (dv p)) (Dir 24) (merge xa 0 0x1000)]" opsb opsc]
        only_writes_mono [of "{Dir 28}" ops conf_common]
        only_writes_mono [of "{Ext 5 19}" opsa conf_common]
      by (simp add: conf_common_def)
    done
next
  case False
  show ?thesis
    unfolding lan8814_conf_set_int_def Let_def
    apply (simp only: False if_False conf_stored_eq [symmetric])
    apply (rule lspec_bind, rule lspec_bind, rule lspec_WRM [OF ok], simp add: reg_side)
    apply (rule lspec_return, rule lspec_conf_tail [OF ok])
    subgoal for x ops
      using Q [OF refl, of "[]" "[LRd (callout_ctx (dv p)) (Dir 0) x,
          LWr (callout_ctx (dv p)) (Dir 0) (x OR 0x800)]" ops] B' [OF False, of x]
      by (simp add: merge_set)
    done
qed

lemma lspec_conf_set:
  assumes "lspec dv (lan8814_conf_set_int p config) D Q"
  shows "lspec dv (lan8814_conf_set p config) D Q"
  unfolding lan8814_conf_set_def
  by (intro lspec_bind lspec_enter lspec_mono [OF assms] lspec_exit lspec_return) simp

lemma adv_word_bits:
  "bit (adv_word config) i = (i = 0 \<or>
     (i = 13 \<and> adv_tx_remote_fault (conf_aneg config)) \<or>
     ((i = 10 \<or> i = 11) \<and> conf_flow_control config) \<or>
     (i = 8 \<and> adv_speed_100m_fdx (conf_aneg config)) \<or>
     (i = 7 \<and> adv_speed_100m_hdx (conf_aneg config)) \<or>
     (i = 6 \<and> adv_speed_10m_fdx (conf_aneg config)) \<or>
     (i = 5 \<and> adv_speed_10m_hdx (conf_aneg config)))"
  unfolding adv_word_def bit_or_iff bit_1_iff by (simp add: bit_flag) blast

lemma forced_word_bits:
  "bit (forced_word config) i = ((i = 13 \<and> conf_speed config = MEPA_SPEED_100M) \<or>
     (i = 8 \<and> conf_fdx config) \<or> (i = 6 \<and> conf_speed config = MEPA_SPEED_1G))"
  unfolding forced_word_def bit_or_iff by (simp add: bit_flag) blast

lemma mstr_slv_word_bits:
  "bit (mstr_slv_word config) i = ((i = 9 \<and> adv_speed_1g_fdx (conf_aneg config)) \<or>
     (i = 12 \<and> conf_man_neg config \<noteq> MEPA_MANUAL_NEG_DISABLED) \<or>
     (i = 11 \<and> conf_man_neg config = MEPA_MANUAL_NEG_REF))"
  unfolding mstr_slv_word_def Let_def
  by (simp only: bit_or_iff if_distrib [where f = "\<lambda>x. bit x i"] cong: if_cong)
    (auto simp: bit_single)

lemma event_mask_bits: "bit (event_mask ev) i = ((i = 2 \<and> bit ev 0) \<or> (i = 12 \<and> bit ev 1))"
  unfolding event_mask_def bit_or_iff by (auto simp: bit_0x4 bit_single)


section \<open>The private data on any bus\<close>


lemma pspec_event_loop: "(\<And>m. Q m D) \<Longrightarrow> pspec (lan8814_event_loop p en is ev m) D Q"
  by (induction "is" arbitrary: ev m) (auto intro!: pspec_basic pspec_reg simp: Let_def)

lemma pspec_event_enable_set_int:
  assumes "Q 0 (D(p := (D p)\<lparr>pd_events := (if en then pd_events (D p) OR ev
                                             else pd_events (D p) AND NOT ev)\<rparr>))"
  shows "pspec (lan8814_event_enable_set_int p ev en) D Q"
  unfolding lan8814_event_enable_set_int_def
  by (intro pspec_basic pspec_reg pspec_event_loop assms)

lemma pspec_fifo_reset: "Q 0 D \<Longrightarrow> pspec (lan8814_workaround_fifo_reset p) D Q"
  unfolding lan8814_workaround_fifo_reset_def by (intro pspec_basic pspec_reg)

lemma pspec_half_duplex: "Q 0 D \<Longrightarrow> pspec (lan8814_workaround_half_duplex p) D Q"
  unfolding lan8814_workaround_half_duplex_def by (intro pspec_basic pspec_reg)

lemma pspec_qsgmii_aneg: "Q 0 D \<Longrightarrow> pspec (lan8814_qsgmii_aneg p b) D Q"
  unfolding lan8814_qsgmii_aneg_def by (intro pspec_basic pspec_reg)

lemma pspec_conf_mdi_mode:
  assumes "Q 0 (D(p := (D p)\<lparr>pd_conf := (pd_conf (D p))\<lparr>conf_mdi_mode := mode\<rparr>\<rparr>))"
  shows "pspec (lan8814_conf_mdi_mode p mode) D Q"
proof (cases "conf_mdi_mode (pd_conf (D p)) = mode")
  case True
  then have "D(p := (D p)\<lparr>pd_conf := (pd_conf (D p))\<lparr>conf_mdi_mode := mode\<rparr>\<rparr>) = D"
    by auto
  with True assms show ?thesis
    unfolding lan8814_conf_mdi_mode_def
    by (auto intro!: pspec_bind pspec_data_of pspec_return simp: Let_def)
next
  case False
  then show ?thesis
    unfolding lan8814_conf_mdi_mode_def
    by (intro pspec_basic pspec_reg assms) simp_all
qed

lemma pspec_conf_set_auto: "Q () D \<Longrightarrow> pspec (conf_set_auto p c) D Q"
  unfolding conf_set_auto_def by (intro pspec_basic pspec_reg pspec_fifo_reset)

lemma pspec_conf_set_forced: "Q () D \<Longrightarrow> pspec (conf_set_forced p c) D Q"
  unfolding conf_set_forced_def
  by (intro pspec_basic pspec_reg pspec_fifo_reset pspec_half_duplex)

lemma pspec_conf_set_int:
  assumes "Q 0 (D(p := (D p)\<lparr>pd_conf := conf_stored config\<rparr>))"
  shows "pspec (lan8814_conf_set_int p config) D Q"
  unfolding lan8814_conf_set_int_def Let_def conf_stored_eq [symmetric]
  by (intro pspec_basic pspec_reg pspec_conf_mdi_mode pspec_qsgmii_aneg pspec_conf_set_auto
      pspec_conf_set_forced pspec_event_enable_set_int) (use assms in simp_all)

lemma pspec_conf_set:
  assumes "Q 0 (D(p := (D p)\<lparr>pd_conf := conf_stored config\<rparr>))"
  shows "pspec (lan8814_conf_set p config) D Q"
  unfolding lan8814_conf_set_def by (intro pspec_basic pspec_conf_set_int assms)

lemma pspec_conf_get: "Q (0, pd_conf (D p)) D \<Longrightarrow> pspec (lan8814_conf_get p) D Q"
  unfolding lan8814_conf_get_def by (intro pspec_basic)

lemma pspec_event_enable_set:
  assumes "Q 0 (D(p := (D p)\<lparr>pd_events := (if en then pd_events (D p) OR ev
                                             else pd_events (D p) AND NOT ev)\<rparr>))"
  shows "pspec (lan8814_event_enable_set p ev en) D Q"
  unfolding lan8814_event_enable_set_def
  by (intro pspec_basic pspec_event_enable_set_int assms)







definition eee_reconfigures :: "mepa_phy_eee_conf \<Rightarrow> bool" where
  "eee_reconfigures conf = (eee_mode conf = MEPA_EEE_REG_UPDATE \<or>
     (eee_ena_phy conf \<and> eee_mode conf = MEPA_EEE_DISABLE) \<or>
     (\<not> eee_ena_phy conf \<and> eee_mode conf = MEPA_EEE_ENABLE))"





section \<open>Reset\<close>





























section \<open>Events\<close>

lemma poll_word:
  "bit (if b then (if a then 0 OR (e AND 1) else 0) OR (e AND 2) else if a then 0 OR (e AND 1) else 0) i =
    (bit (e :: 32 word) i \<and> (i = 0 \<and> a \<or> i = 1 \<and> b))"
proof -
  have "bit (1 :: 32 word) i = (i = 0)" "bit (2 :: 32 word) i = (i = 1)"
    using bit_exp_iff [of 1 i, where ?'a = "32 word"] by (auto simp: bit_1_iff)
  then show ?thesis by (auto simp only: bit_or_iff bit_and_iff bit_0_eq bot_apply bot_bool_def split: if_splits)
qed

section \<open>Properties\<close>

text \<open>
  C1: forcing a speed.  On a working bus, \<open>lan8814_conf_set\<close> with an enabled port and
  a speed other than auto and 1G answers OK, stores the configuration, and writes the
  basic control register once: bit 13 (100M) and bit 8 (full duplex) as configured,
  bit 12 (auto-negotiation), bit 11 (power down) and bit 6 (1G) clear, every other bit
  as it was.  The advertisement registers stay untouched, and the FIFO thresholds of
  the half-duplex workaround are written exactly when the port is half duplex.
\<close>

theorem lan8814_conf_set_forced:
  assumes "bus_at (devs w) p" "conf_admin_enable config"
    and "conf_speed config \<notin> {MEPA_SPEED_AUTO, MEPA_SPEED_1G, MEPA_SPEED_UNDEFINED}"
    and "run_state (lan8814_conf_set p config) w = (rc, w')"
  shows "rc = MEPA_RC_OK \<and>
    priv w' = (priv w)(p := (priv w p)\<lparr>pd_conf := conf_stored config\<rparr>) \<and>
    (\<exists>ops x y. lops w' = lops w @ ops \<and> LRd (callout_ctx (devs w p)) (Dir 0) x \<in> set ops \<and>
      writes_to (Dir 0) ops = [y] \<and>
      (\<forall>i < 16. bit y i = (if i = 13 then conf_speed config = MEPA_SPEED_100M
         else if i = 12 \<or> i = 11 \<or> i = 6 then False
         else if i = 8 then conf_fdx config else bit x i)) \<and>
      writes_to (Dir 4) ops = [] \<and> writes_to (Dir 9) ops = [] \<and>
      (\<forall>r \<in> {(Ext 5 32, 0x200), (Ext 5 33, 0x404), (Ext 5 34, 0x608), (Ext 5 38, 0x200),
              (Ext 5 39, 0x404), (Ext 5 40, 0x608)}.
         writes_to (fst r) ops = (if conf_fdx config then [] else [snd r])))"
proof -
  let ?c = "callout_ctx (devs w p)"
  let ?Q = "\<lambda>rc D' ops. rc = 0 \<and>
      D' = (priv w)(p := (priv w p)\<lparr>pd_conf := conf_stored config\<rparr>) \<and>
      (\<exists>o1 o2 o3. ops = o1 @ o2 @ o3 \<and> only_writes conf_common o1 \<and>
         conf_forced_ops ?c config o2 \<and> only_writes conf_common o3)"
  have "lspec (devs w) (lan8814_conf_set p config) (priv w) ?Q"
  proof (rule lspec_conf_set, rule lspec_conf_set_int [where P = "conf_forced_ops ?c config"])
    fix D' :: "nat \<Rightarrow> phy_data"
    show "lspec (devs w)
        (if conf_speed config = MEPA_SPEED_AUTO \<or> conf_speed config = MEPA_SPEED_1G
         then conf_set_auto p config
         else only_if (conf_speed config \<noteq> MEPA_SPEED_UNDEFINED) (conf_set_forced p config)) D'
        (\<lambda>_ D'' ops. D'' = D' \<and> conf_forced_ops ?c config ops)"
      using assms(3) by (auto intro!: lspec_only_if lspec_conf_set_forced assms(1))
  qed (use assms in auto)
  from lspec_run [OF this assms(4)] obtain o1 o2 o3 where
    r: "rc = 0" "priv w' = (priv w)(p := (priv w p)\<lparr>pd_conf := conf_stored config\<rparr>)"
      "lops w' = lops w @ o1 @ o2 @ o3" "only_writes conf_common o1"
      "conf_forced_ops ?c config o2" "only_writes conf_common o3"
    by auto
  from r(5) obtain x ws where f: "LRd ?c (Dir 0) x \<in> set o2"
    "set (map fst ws) \<subseteq> {Ext 5 44, Ext 5 45}"
    "writes o2 = ws @ [(Dir 0, merge x (forced_word config) 0x3940)] @
       (if conf_fdx config then [] else
         [(Ext 5 32, 0x200), (Ext 5 33, 0x404), (Ext 5 34, 0x608),
          (Ext 5 38, 0x200), (Ext 5 39, 0x404), (Ext 5 40, 0x608)])"
    unfolding conf_forced_ops_def by blast
  have no: "writes_to q o1 = []" "writes_to q o3 = []" if "q \<notin> conf_common" for q
    using only_writes_to r(4,6) that by auto
  have ws: "filter (\<lambda>(r', v). r' = q) ws = []" if "q \<noteq> Ext 5 44" "q \<noteq> Ext 5 45" for q
    using f(2) that by (auto simp: filter_empty_conv)
  have b: "\<forall>i < 16. bit (merge x (forced_word config) 0x3940) i =
      (if i = 13 then conf_speed config = MEPA_SPEED_100M
       else if i = 12 \<or> i = 11 \<or> i = 6 then False
       else if i = 8 then conf_fdx config else bit x i)"
    using assms(3) by (auto simp: bit_merge forced_word_bits bit_0x3940)
  show ?thesis
    using r(1-3) f(1) b
    by (intro conjI exI [of _ "o1 @ o2 @ o3"] exI [of _ x]
        exI [of _ "merge x (forced_word config) 0x3940"])
      (auto simp: no conf_common_def writes_to_def [of _ o2] f(3) ws)
qed

theorem lan8814_conf_set_forced_witness:
  "let config = mepa_conf_0\<lparr>conf_admin_enable := True, conf_speed := MEPA_SPEED_100M\<rparr>;
       w = sim_world (\<lambda>_. 0x1140) (\<lambda>_. phy_data_0);
       w' = exec (lan8814_conf_set 3 config) w
   in pd_conf (priv w' 3) = config \<and> (\<exists>y. writes_to (Dir 0) (lops w') = [y] \<and> bit y 13 \<and> \<not> bit y 12)
     \<and> writes_to (Ext 5 33) (lops w') = [0x404]"
proof -
  define config where "config = mepa_conf_0\<lparr>conf_admin_enable := True, conf_speed := MEPA_SPEED_100M\<rparr>"
  have c: "conf_admin_enable config" "conf_speed config = MEPA_SPEED_100M" "\<not> conf_fdx config"
    "conf_stored config = config"
    by (simp_all add: config_def conf_stored_def)
  show ?thesis
    unfolding config_def [symmetric] Let_def
    using lan8814_conf_set_forced [OF _ c(1) _ run_state_eq, of "sim_world (\<lambda>_. 0x1140) (\<lambda>_. phy_data_0)" 3] c
    by auto
qed


text \<open>
  C2: auto-negotiation.  On a working bus, \<open>lan8814_conf_set\<close> with an enabled port
  and speed auto or 1G writes register 4 once: the selector (bit 0) and, as configured, 10M and 100M
  in half and full duplex (bits 5 to 8), pause (bits 10 and 11) and remote fault (bit 13),
  all else clear.  It changes bits 9, 11 and 12 of register 9 only, turns auto-negotiation on and power down off
  in the basic control register, and restarts auto-negotiation exactly when the port was disabled,
  the ability of 1G changed, a manual master or slave role was set that is not the old one, or register 4 held another
  word.
\<close>

theorem lan8814_conf_set_auto:
  assumes "bus_at (devs w) p" "conf_admin_enable config"
    and "conf_speed config \<in> {MEPA_SPEED_AUTO, MEPA_SPEED_1G}"
    and "run_state (lan8814_conf_set p config) w = (rc, w')"
    and "old = pd_conf (priv w p)" "adv = conf_aneg config"
  shows "rc = MEPA_RC_OK \<and>
    priv w' = (priv w)(p := (priv w p)\<lparr>pd_conf := conf_stored config\<rparr>) \<and>
    (\<exists>ops x4 x9 x0 x1 y4 y9 y0. lops w' = lops w @ ops \<and>
      (\<forall>r \<in> {(Dir 4, x4), (Dir 9, x9), (Dir 0, x0), (Dir 0, x1)}.
         LRd (callout_ctx (devs w p)) (fst r) (snd r) \<in> set ops) \<and>
      writes_to (Dir 4) ops = [y4] \<and>
      (\<forall>i < 16. bit y4 i = (if i = 0 then True
         else if i = 5 then adv_speed_10m_hdx adv else if i = 6 then adv_speed_10m_fdx adv
         else if i = 7 then adv_speed_100m_hdx adv else if i = 8 then adv_speed_100m_fdx adv
         else if i = 10 \<or> i = 11 then conf_flow_control config
         else if i = 13 then adv_tx_remote_fault adv else False)) \<and>
      writes_to (Dir 9) ops = [y9] \<and>
      (\<forall>i < 16. bit y9 i = (if i = 9 then adv_speed_1g_fdx adv
         else if i = 12 then conf_man_neg config \<noteq> MEPA_MANUAL_NEG_DISABLED
         else if i = 11 then conf_man_neg config = MEPA_MANUAL_NEG_REF else bit x9 i)) \<and>
      writes_to (Dir 0) ops = y0 #
        (if \<not> conf_admin_enable old \<or> adv_speed_1g_fdx adv \<noteq> adv_speed_1g_fdx (conf_aneg old) \<or>
            conf_man_neg config \<notin> {MEPA_MANUAL_NEG_DISABLED, conf_man_neg old} \<or> x4 \<noteq> y4
         then [x1 OR 0x200] else []) \<and>
      (\<forall>i < 16. bit y0 i = (if i = 12 then True else if i = 11 then False else bit x0 i)))"
proof -
  let ?c = "callout_ctx (devs w p)"
  let ?P = "conf_auto_ops ?c (pd_conf (priv w p)) config"
  let ?Q = "\<lambda>rc D' ops. rc = 0 \<and>
      D' = (priv w)(p := (priv w p)\<lparr>pd_conf := conf_stored config\<rparr>) \<and>
      (\<exists>o1 o2 o3. ops = o1 @ o2 @ o3 \<and> only_writes conf_common o1 \<and>
         ?P o2 \<and> only_writes conf_common o3)"
  have "lspec (devs w) (lan8814_conf_set p config) (priv w) ?Q"
  proof (rule lspec_conf_set, rule lspec_conf_set_int [where P = ?P])
    fix D' :: "nat \<Rightarrow> phy_data"
    assume D': "pd_conf (D' p) = (pd_conf (priv w p))\<lparr>conf_mdi_mode := conf_mdi_mode config\<rparr>"
    have e: "conf_auto_ops c (b\<lparr>conf_mdi_mode := m\<rparr>) config = conf_auto_ops c b config"
      for c m and b :: mepa_conf
      by (rule ext) (simp add: conf_auto_ops_def conf_restarts_def)
    show "lspec (devs w)
        (if conf_speed config = MEPA_SPEED_AUTO \<or> conf_speed config = MEPA_SPEED_1G
         then conf_set_auto p config
         else only_if (conf_speed config \<noteq> MEPA_SPEED_UNDEFINED) (conf_set_forced p config)) D'
        (\<lambda>_ D'' ops. D'' = D' \<and> ?P ops)"
      using assms(3) D' by (auto intro!: lspec_conf_set_auto assms(1) simp: e)
  qed (use assms in auto)
  from lspec_run [OF this assms(4)] obtain o1 o2 o3 where
    r: "rc = 0" "priv w' = (priv w)(p := (priv w p)\<lparr>pd_conf := conf_stored config\<rparr>)"
      "lops w' = lops w @ o1 @ o2 @ o3" "only_writes conf_common o1"
      "?P o2" "only_writes conf_common o3"
    by auto
  from r(5) obtain x9 x4 x0 x1 ws where f:
    "{LRd ?c (Dir 4) x4, LRd ?c (Dir 9) x9, LRd ?c (Dir 0) x0, LRd ?c (Dir 0) x1} \<subseteq> set o2"
    "set (map fst ws) \<subseteq> {Ext 5 44, Ext 5 45}"
    "writes o2 = ws @ [(Dir 9, merge x9 (mstr_slv_word config) 0x1A00), (Dir 4, adv_word config),
         (Dir 0, merge x0 0x1000 0x1800)] @
       (if conf_restarts (pd_conf (priv w p)) config x4 then [(Dir 0, x1 OR 0x200)] else [])"
    unfolding conf_auto_ops_def by (elim exE conjE) (rule that)
  have no: "writes_to q o1 = []" "writes_to q o3 = []" if "q \<notin> conf_common" for q
    using only_writes_to r(4,6) that by auto
  have ws: "filter (\<lambda>(r', v). r' = q) ws = []" if "q \<noteq> Ext 5 44" "q \<noteq> Ext 5 45" for q
    using f(2) that by (auto simp: filter_empty_conv)
  have b9: "\<forall>i < 16. bit (merge x9 (mstr_slv_word config) 0x1A00) i =
      (if i = 9 then adv_speed_1g_fdx adv
       else if i = 12 then conf_man_neg config \<noteq> MEPA_MANUAL_NEG_DISABLED
       else if i = 11 then conf_man_neg config = MEPA_MANUAL_NEG_REF else bit x9 i)"
    by (auto simp: bit_merge mstr_slv_word_bits bit_0x1A00 assms(6))
  have b4: "\<forall>i < 16. bit (adv_word config) i = (if i = 0 then True
         else if i = 5 then adv_speed_10m_hdx adv else if i = 6 then adv_speed_10m_fdx adv
         else if i = 7 then adv_speed_100m_hdx adv else if i = 8 then adv_speed_100m_fdx adv
         else if i = 10 \<or> i = 11 then conf_flow_control config
         else if i = 13 then adv_tx_remote_fault adv else False)"
    by (simp add: adv_word_bits assms(6))
  have b0: "\<forall>i < 16. bit (merge x0 0x1000 0x1800) i =
      (if i = 12 then True else if i = 11 then False else bit x0 i)"
    by (auto simp: bit_merge bit_0x1800 bit_single)
  have rs: "conf_restarts (pd_conf (priv w p)) config x4 = (\<not> conf_admin_enable old \<or>
      adv_speed_1g_fdx adv \<noteq> adv_speed_1g_fdx (conf_aneg old) \<or>
      conf_man_neg config \<notin> {MEPA_MANUAL_NEG_DISABLED, conf_man_neg old} \<or> x4 \<noteq> adv_word config)"
    by (simp add: conf_restarts_def assms(2,5,6))
  have w: "writes_to (Dir 4) (o1 @ o2 @ o3) = [adv_word config]"
    "writes_to (Dir 9) (o1 @ o2 @ o3) = [merge x9 (mstr_slv_word config) 0x1A00]"
    "writes_to (Dir 0) (o1 @ o2 @ o3) = merge x0 0x1000 0x1800 #
       (if conf_restarts (pd_conf (priv w p)) config x4 then [x1 OR 0x200] else [])"
    by (simp_all add: no conf_common_def writes_to_def [of _ o2] f(3) ws)
  have f1: "\<forall>r \<in> {(Dir 4, x4), (Dir 9, x9), (Dir 0, x0), (Dir 0, x1)}.
      LRd ?c (fst r) (snd r) \<in> set (o1 @ o2 @ o3)"
    using f(1) by simp
  show ?thesis
    by (intro conjI r(1,2), rule exI [of _ "o1 @ o2 @ o3"], rule exI [of _ x4], rule exI [of _ x9],
        rule exI [of _ x0], rule exI [of _ x1], rule exI [of _ "adv_word config"],
        rule exI [of _ "merge x9 (mstr_slv_word config) 0x1A00"],
        rule exI [of _ "merge x0 0x1000 0x1800"], intro conjI, rule r(3), rule f1, rule w(1), rule b4,
        rule w(2), rule b9, rule w(3) [unfolded rs], rule b0)
qed

theorem lan8814_conf_set_auto_witness:
  "let config = mepa_conf_0\<lparr>conf_admin_enable := True, conf_speed := MEPA_SPEED_AUTO,
         conf_aneg := mepa_aneg_adv_0\<lparr>adv_speed_1g_fdx := True, adv_speed_100m_fdx := True\<rparr>\<rparr>;
       w = sim_world (\<lambda>_. 0x0800) (\<lambda>_. phy_data_0);
       w' = exec (lan8814_conf_set 3 config) w
   in (\<exists>y. writes_to (Dir 4) (lops w') = [y] \<and> bit y 8 \<and> \<not> bit y 7) \<and>
      (\<exists>y. writes_to (Dir 9) (lops w') = [y] \<and> bit y 9) \<and>
      (\<exists>y0 y1. writes_to (Dir 0) (lops w') = [y0, y1] \<and> bit y0 12 \<and> \<not> bit y0 11 \<and> bit y1 9)"
proof -
  define config where "config = mepa_conf_0\<lparr>conf_admin_enable := True, conf_speed := MEPA_SPEED_AUTO,
     conf_aneg := mepa_aneg_adv_0\<lparr>adv_speed_1g_fdx := True, adv_speed_100m_fdx := True\<rparr>\<rparr>"
  have c: "conf_admin_enable config" "conf_speed config = MEPA_SPEED_AUTO"
    "adv_speed_1g_fdx (conf_aneg config)" "adv_speed_100m_fdx (conf_aneg config)"
    "\<not> adv_speed_100m_hdx (conf_aneg config)" "\<not> conf_admin_enable (pd_conf phy_data_0)"
    by (simp_all add: config_def phy_data_0_def mepa_aneg_adv_0_def)
  have b: "bit (x OR 0x200 :: 16 word) 9" for x by (simp add: bit_or_iff)
  show ?thesis
    unfolding config_def [symmetric] Let_def
    using lan8814_conf_set_auto [OF _ c(1) _ run_state_eq refl refl, of "sim_world (\<lambda>_. 0x0800) (\<lambda>_. phy_data_0)" 3]
    by (simp only: c sim_world_simps) (auto simp: b c)
qed

text \<open>
  C7: the stored configuration.  Whatever the bus answers, \<open>lan8814_conf_set\<close> answers
  OK, a following \<open>lan8814_conf_get\<close> returns the configuration that was set, except
  that MAC-side auto-negotiation is kept only with speed auto, and no other device's
  data changes.
\<close>

theorem lan8814_conf_set_get:
  "val (do { rc1 \<leftarrow> lan8814_conf_set p config; (rc2, c) \<leftarrow> lan8814_conf_get p;
     State_Monad.return (rc1, rc2, c) }) w = (MEPA_RC_OK, MEPA_RC_OK, conf_stored config) \<and>
   priv (exec (lan8814_conf_set p config) w) =
     (priv w)(p := (priv w p)\<lparr>pd_conf := conf_stored config\<rparr>)"
proof
  have "pspec (do { rc1 \<leftarrow> lan8814_conf_set p config; (rc2, c) \<leftarrow> lan8814_conf_get p;
     State_Monad.return (rc1, rc2, c) }) (priv w) (\<lambda>r _. r = (0, 0, conf_stored config))"
    by (intro pspec_basic pspec_conf_set pspec_conf_get) simp
  from pspec_run [OF this run_state_eq]
  show "val (do { rc1 \<leftarrow> lan8814_conf_set p config; (rc2, c) \<leftarrow> lan8814_conf_get p;
     State_Monad.return (rc1, rc2, c) }) w = (MEPA_RC_OK, MEPA_RC_OK, conf_stored config)" .
  have "pspec (lan8814_conf_set p config) (priv w)
      (\<lambda>_ D. D = (priv w)(p := (priv w p)\<lparr>pd_conf := conf_stored config\<rparr>))"
    by (intro pspec_conf_set refl)
  from pspec_run [OF this run_state_eq]
  show "priv (exec (lan8814_conf_set p config) w) =
     (priv w)(p := (priv w p)\<lparr>pd_conf := conf_stored config\<rparr>)" .
qed



text \<open>
  C19: enabling and disabling events.  \<open>lan8814_event_enable_set\<close> switches exactly the
  given events in the stored mask, and in one write of the interrupt enable register
  switches bit 2 for link loss and bit 12 for fast link failure, and no other bit.
\<close>

theorem lan8814_event_enable_set_registers:
  assumes "bus_at (devs w) p" "run_state (lan8814_event_enable_set p ev en) w = (rc, w')"
  shows "rc = MEPA_RC_OK \<and>
    (\<forall>i < 32. bit (pd_events (priv w' p)) i = (if bit ev i then en else bit (pd_events (priv w p)) i)) \<and>
    (\<exists>ops x y. lops w' = lops w @ ops \<and> LRd (callout_ctx (devs w p)) (Dir 24) x \<in> set ops \<and>
      writes_to (Dir 24) ops = [y] \<and>
      (\<forall>i < 16. bit y i = (if i = 2 \<and> bit ev 0 \<or> i = 12 \<and> bit ev 1 then en else bit x i)))"
proof -
  let ?m = "event_mask ev"
  let ?Q = "\<lambda>rc D ops. rc = 0 \<and>
     (\<forall>i < 32. bit (pd_events (D p)) i = (if bit ev i then en else bit (pd_events (priv w p)) i)) \<and>
     (\<exists>x. LRd (callout_ctx (devs w p)) (Dir 24) x \<in> set ops \<and>
        writes_to (Dir 24) ops = [merge x (if en then ?m else 0) ?m])"
  have "lspec (devs w) (lan8814_event_enable_set p ev en) (priv w) ?Q"
    unfolding lan8814_event_enable_set_def
    by (intro lspec_bind lspec_enter lspec_exit lspec_return lspec_event_enable_set_int assms(1))
      (auto simp: bit_or_iff bit_and_iff bit_not_iff writes_to_def)
  moreover have "\<forall>i < 16. bit (merge x (if en then ?m else 0) ?m) i =
      (if i = 2 \<and> bit ev 0 \<or> i = 12 \<and> bit ev 1 then en else bit x i)" for x
    by (auto simp: bit_merge event_mask_bits)
  ultimately show ?thesis
    using lspec_run [OF _ assms(2)] by blast
qed

theorem lan8814_event_enable_set_registers_witness:
  "let w = sim_world (\<lambda>_. 0) (\<lambda>_. phy_data_0); w' = exec (lan8814_event_enable_set 1 MEPA_LINK_LOS True) w
   in \<exists>y. writes_to (Dir 24) (lops w') = [y] \<and> bit y 2"
  using lan8814_event_enable_set_registers [OF _ run_state_eq, of "sim_world (\<lambda>_. 0) (\<lambda>_. phy_data_0)" 1
      MEPA_LINK_LOS True]
  by (auto simp: Let_def)

text \<open>
  \<open>lan8814_event_status_poll\<close> reads the interrupt status register once and reports
  an event exactly when it is enabled and its bit of that register is set.
\<close>

theorem lan8814_event_status_poll_enabled:
  assumes "bus_at (devs w) p" "run_state (lan8814_event_status_poll p) w = ((rc, status), w')"
  shows "rc = MEPA_RC_OK \<and> priv w' = priv w \<and>
    (\<exists>v. lops w' = lops w @ [LRd (callout_ctx (devs w p)) (Dir 27) v] \<and>
      (\<forall>i < 32. bit status i = (bit (pd_events (priv w p)) i \<and>
         (i = 0 \<and> bit v 2 \<or> i = 1 \<and> bit v 12))))"
proof -
  let ?Q = "\<lambda>(rc, status) D ops. rc = 0 \<and> D = priv w \<and>
    (\<exists>v. ops = [LRd (callout_ctx (devs w p)) (Dir 27) v] \<and>
      (\<forall>i < 32. bit status i = (bit (pd_events (priv w p)) i \<and>
         (i = 0 \<and> bit v 2 \<or> i = 1 \<and> bit v 12))))"
  have "lspec (devs w) (lan8814_event_status_poll p) (priv w) ?Q"
    unfolding lan8814_event_status_poll_def Let_def
    by (intro lspec_bind lspec_enter dir.rd_law assms(1), simp add: reg_side,
        simp only: prod.case has_bits_pow, intro lspec_basic)
      (auto simp: poll_word)
  from lspec_run [OF this assms(2)] show ?thesis by auto
qed

theorem lan8814_event_status_poll_enabled_witness:
  "let w = sim_world (\<lambda>_. 0x1004) (\<lambda>_. phy_data_0\<lparr>pd_events := MEPA_LINK_LOS\<rparr>)
   in fst (val (lan8814_event_status_poll 1) w) = MEPA_RC_OK \<and>
      priv (exec (lan8814_event_status_poll 1) w) 1 = phy_data_0\<lparr>pd_events := MEPA_LINK_LOS\<rparr>"
proof -
  let ?w = "sim_world (\<lambda>_. 0x1004) (\<lambda>_. phy_data_0\<lparr>pd_events := MEPA_LINK_LOS\<rparr>)"
  obtain rc st where r: "val (lan8814_event_status_poll 1) ?w = (rc, st)" by fastforce
  show ?thesis
    using lan8814_event_status_poll_enabled [of ?w 1 rc st] r run_state_eq [of "lan8814_event_status_poll 1" ?w]
    by (simp add: Let_def)
qed

end
