(* ===== verification/Lan8814_Misc.thy ===== *)
theory Lan8814_Misc
  imports Lan8814_Conf_Spec
begin

text \<open>
  The smaller operations of the LAN8814 driver (\<open>lan8814.c\<close>): LEDs and GPIOs, register
  access for debugging, base port, capabilities and information, EEE, loopback,
  recovered clock, isolate mode, signal quality, start of frame, frame preemption,
  SerDes drive, and the LAN8842 variants.  An out-parameter that a path does not
  write keeps the caller's value, which is then an argument.  A local variable that C
  leaves uninitialised starts as 0; it only shows when a register read fails.
\<close>

section \<open>LEDs and GPIOs\<close>

definition led_num_to_gpio_mapping :: "phy_data \<Rightarrow> mepa_led_num \<Rightarrow> 8 word" where
  "led_num_to_gpio_mapping data led_num =
    (let i = pd_packet_idx data mod 4; gpio = 11
     in if i = 0 then
          let gpio = (if lan8814_is_lan8814 data \<or> lan8814_is_lan966x data
                      then (if led_num = MEPA_LED0 then 11 else 12) else gpio)
          in if lan8814_is_lan8842 data then (if led_num = MEPA_LED0 then 14 else 15) else gpio
        else if i = 1 then (if led_num = MEPA_LED0 then 17 else 18)
        else if i = 2 then (if led_num = MEPA_LED0 then 19 else 20)
        else if i = 3 then (if led_num = MEPA_LED0 then 13 else 14)
        else gpio)"

definition led_mepa_mode_to_lan8814 :: "mepa_gpio_mode \<Rightarrow> 8 word" where
  "led_mepa_mode_to_lan8814 mode = (case mode of
      MEPA_GPIO_MODE_LED_LINK_ACTIVITY \<Rightarrow> 0
    | MEPA_GPIO_MODE_LED_LINK1000_ACTIVITY \<Rightarrow> 1
    | MEPA_GPIO_MODE_LED_LINK100_ACTIVITY \<Rightarrow> 2
    | MEPA_GPIO_MODE_LED_LINK10_ACTIVITY \<Rightarrow> 3
    | MEPA_GPIO_MODE_LED_LINK100_1000_ACTIVITY \<Rightarrow> 4
    | MEPA_GPIO_MODE_LED_LINK10_1000_ACTIVITY \<Rightarrow> 5
    | MEPA_GPIO_MODE_LED_LINK10_100_ACTIVITY \<Rightarrow> 6
    | MEPA_GPIO_MODE_LED_DUPLEX_COLLISION \<Rightarrow> 8
    | MEPA_GPIO_MODE_LED_COLLISION \<Rightarrow> 9
    | MEPA_GPIO_MODE_LED_ACTIVITY \<Rightarrow> 10
    | MEPA_GPIO_MODE_LED_AUTONEGOTIATION_FAULT \<Rightarrow> 12
    | MEPA_GPIO_MODE_LED_FORCE_LED_OFF \<Rightarrow> 14
    | MEPA_GPIO_MODE_LED_FORCE_LED_ON \<Rightarrow> 15
    | MEPA_GPIO_MODE_LED_DISABLE_EXTENDED \<Rightarrow> 0xf0
    | _ \<Rightarrow> 0xff)"

text \<open>The comparison with \<open>MEPA_GPIO_MODE_LED_DISABLE_EXTENDED\<close> is of the mapped number.\<close>

definition lan8814_led_mode_set ::
  "nat \<Rightarrow> mepa_gpio_mode \<Rightarrow> mepa_led_num \<Rightarrow> ('h, mepa_rc) lan" where
  "lan8814_led_mode_set dev led_mode led_num =
    (if led_num \<noteq> MEPA_LED0 \<and> led_num \<noteq> MEPA_LED1
     then State_Monad.return MEPA_RC_NOT_IMPLEMENTED
     else let mode = ucast (led_mepa_mode_to_lan8814 led_mode) :: 16 word
     in if mode = 0xff then State_Monad.return MEPA_RC_NOT_IMPLEMENTED
     else do {
       (if mode = of_nat (mepa_gpio_mode_num MEPA_GPIO_MODE_LED_DISABLE_EXTENDED) then
         EP_WRM dev LAN8814_LED_CONTROL_REG1 LAN8814_F_LED_CONTROL_KSZ_LED_MODE
           LAN8814_F_LED_CONTROL_KSZ_LED_MODE
       else do {
         EP_WRM dev LAN8814_LED_CONTROL_REG1 0 LAN8814_F_LED_CONTROL_KSZ_LED_MODE;
         EP_WRM dev LAN8814_LED_CONTROL_REG2
           (LAN8814_ENCODE_BITFIELD mode (mepa_led_num_num led_num * 4) 4)
           (LAN8814_ENCODE_BITMASK (mepa_led_num_num led_num * 4) 4) });
       State_Monad.return MEPA_RC_OK })"

text \<open>The pin registers: bit \<open>gpio_no\<close> of the second, or bit \<open>gpio_no - 16\<close> of the first.\<close>

definition gpio_pin_set :: "nat \<Rightarrow> 16 word \<Rightarrow> bool \<Rightarrow> bool \<Rightarrow> ('h, unit) lan" where
  "gpio_pin_set dev no gpio_en dir =
    (if no < 16 then do {
       let v = push_bit (unat no) 1;
       let d = push_bit (unat no) (if dir then 1 else 0);
       EP_WRM dev LAN8814_GPIO_EN2 (if gpio_en then v else 0) v;
       only_if gpio_en (EP_WRM dev LAN8814_GPIO_DIR2 d v) }
     else if no < 24 then do {
       let v = push_bit (unat no - 16) 1;
       let d = push_bit (unat no - 16) (if dir then 1 else 0);
       EP_WRM dev LAN8814_GPIO_EN1 (if gpio_en then v else 0) v;
       only_if gpio_en (EP_WRM dev LAN8814_GPIO_DIR1 d v) }
     else State_Monad.return ())"

definition lan8814_gpio_mode_private :: "nat \<Rightarrow> mepa_gpio_conf \<Rightarrow> ('h, mepa_rc) lan" where
  "lan8814_gpio_mode_private dev conf = do {
     let mode = gpio_mode conf;
     data \<leftarrow> data_of dev;
     if mode = MEPA_GPIO_MODE_OUT \<or> mode = MEPA_GPIO_MODE_IN then do {
       gpio_pin_set dev (ucast (gpio_no conf)) True (mode = MEPA_GPIO_MODE_OUT);
       State_Monad.return MEPA_RC_OK }
     else if mepa_gpio_mode_num mode \<ge> mepa_gpio_mode_num MEPA_GPIO_MODE_LED_LINK_ACTIVITY \<and>
             mepa_gpio_mode_num mode \<le> mepa_gpio_mode_num MEPA_GPIO_MODE_LED_DISABLE_EXTENDED then
       MEPA_RC (lan8814_led_mode_set dev mode (gpio_led_num conf)) (do {
         gpio_pin_set dev (ucast (led_num_to_gpio_mapping data (gpio_led_num conf))) False False;
         State_Monad.return MEPA_RC_OK })
     else do {
       let no = (if mode = MEPA_GPIO_MODE_RCVRD_CLK_OUT1 then 9
                 else if mode = MEPA_GPIO_MODE_RCVRD_CLK_OUT2 then 10
                 else ucast (gpio_no conf));
       gpio_pin_set dev no False False;
       State_Monad.return MEPA_RC_OK }}"

definition gpio_invalid :: "phy_data \<Rightarrow> 8 word \<Rightarrow> bool" where
  "gpio_invalid data no = ((lan8814_is_lan8814 data \<and> no > 23) \<or>
     (lan8814_is_lan966x data \<and> no > 23) \<or> (lan8814_is_lan8842 data \<and> no > 15))"

definition lan8814_gpio_mode_set :: "nat \<Rightarrow> mepa_gpio_conf \<Rightarrow> ('h, mepa_rc) lan" where
  "lan8814_gpio_mode_set dev conf = do {
     data \<leftarrow> data_of dev;
     if gpio_invalid data (gpio_no conf) then State_Monad.return MEPA_RC_NOT_IMPLEMENTED else do {
     MEPA_ENTER dev;
     rc \<leftarrow> lan8814_gpio_mode_private dev conf;
     MEPA_EXIT dev;
     State_Monad.return rc }}"

definition lan8814_gpio_out_set :: "nat \<Rightarrow> 8 word \<Rightarrow> bool \<Rightarrow> ('h, mepa_rc) lan" where
  "lan8814_gpio_out_set dev no value = do {
     data \<leftarrow> data_of dev;
     if gpio_invalid data no then State_Monad.return MEPA_RC_NOT_IMPLEMENTED else do {
     MEPA_ENTER dev;
     (if no < 16 then do {
       let v = push_bit (unat no) 1;
       EP_WRM dev LAN8814_GPIO_DATA2 (if value then v else 0) v }
     else if no < 24 then do {
       let v = push_bit (unat no - 16) 1;
       EP_WRM dev LAN8814_GPIO_DATA1 (if value then v else 0) v }
     else State_Monad.return MEPA_RC_OK);
     MEPA_EXIT dev;
     State_Monad.return MEPA_RC_OK }}"

definition lan8814_gpio_in_get :: "nat \<Rightarrow> 8 word \<Rightarrow> bool \<Rightarrow> ('h, mepa_rc \<times> bool) lan" where
  "lan8814_gpio_in_get dev no value = do {
     data \<leftarrow> data_of dev;
     if gpio_invalid data no then State_Monad.return (MEPA_RC_NOT_IMPLEMENTED, value) else do {
     MEPA_ENTER dev;
     value \<leftarrow> (if no < 16 then do {
         v \<leftarrow> EP_RD dev LAN8814_GPIO_DATA2 0;
         State_Monad.return (drop_bit (unat no) v AND 1 \<noteq> 0) }
       else if no < 24 then do {
         v \<leftarrow> EP_RD dev LAN8814_GPIO_DATA1 0;
         State_Monad.return (drop_bit (unat no - 16) v AND 1 \<noteq> 0) }
       else State_Monad.return value);
     MEPA_EXIT dev;
     State_Monad.return (MEPA_RC_OK, value) }}"

section \<open>Status and register access\<close>

definition lan8814_aneg_status_get :: "nat \<Rightarrow> ('h, mepa_rc \<times> mepa_aneg_status) lan" where
  "lan8814_aneg_status_get dev = do {
     MEPA_ENTER dev;
     v \<leftarrow> RD dev LAN8814_ANEG_MSTR_SLV_STATUS;
     MEPA_EXIT dev;
     State_Monad.return (MEPA_RC_OK,
       \<lparr>as_master_cfg_fault = has_bits v LAN8814_F_ANEG_MSTR_SLV_STATUS_CFG_FAULT,
        as_master = has_bits v LAN8814_F_ANEG_MSTR_SLV_STATUS_CFG_RES\<rparr>) }"

definition lan8814_direct_reg_read :: "nat \<Rightarrow> 32 word \<Rightarrow> ('h, mepa_rc \<times> 16 word) lan" where
  "lan8814_direct_reg_read dev address = do {
     let addr = ucast (address AND 0x1f);
     MEPA_ENTER dev;
     r \<leftarrow> lan8814_direct_reg_rd dev addr;
     MEPA_EXIT dev;
     State_Monad.return r }"

definition lan8814_direct_reg_write :: "nat \<Rightarrow> 32 word \<Rightarrow> 16 word \<Rightarrow> ('h, mepa_rc) lan" where
  "lan8814_direct_reg_write dev address value = do {
     let addr = ucast (address AND 0x1f);
     MEPA_ENTER dev;
     rc \<leftarrow> lan8814_direct_reg_wr dev addr value 0xFFFF;
     MEPA_EXIT dev;
     State_Monad.return rc }"

text \<open>The MMD is in bits 27 to 31 of the address; without one, bits 16 to 26 are the page.\<close>

definition lan8814_ext_mmd_reg_read ::
  "nat \<Rightarrow> 32 word \<Rightarrow> 16 word \<Rightarrow> ('h, mepa_rc \<times> 16 word) lan" where
  "lan8814_ext_mmd_reg_read dev address value = do {
     let page_mmd = (ucast (drop_bit 16 address AND 0xffff) :: 16 word);
     let addr = (ucast (address AND 0xffff) :: 16 word);
     let mmd = drop_bit 11 page_mmd;
     MEPA_ENTER dev;
     r \<leftarrow> (if mmd \<noteq> 0 then lan8814_mmd_reg_rd dev mmd addr value
           else lan8814_ext_reg_rd dev page_mmd addr value);
     MEPA_EXIT dev;
     State_Monad.return r }"

definition lan8814_ext_mmd_reg_write :: "nat \<Rightarrow> 32 word \<Rightarrow> 16 word \<Rightarrow> ('h, mepa_rc) lan" where
  "lan8814_ext_mmd_reg_write dev address value = do {
     let page_mmd = (ucast (drop_bit 16 address AND 0xffff) :: 16 word);
     let addr = (ucast (address AND 0xffff) :: 16 word);
     let mmd = drop_bit 11 page_mmd;
     MEPA_ENTER dev;
     rc \<leftarrow> (if mmd \<noteq> 0 then lan8814_mmd_reg_wr dev mmd addr value 0xFFFF
            else lan8814_ext_reg_wr dev page_mmd addr value 0xFFFF);
     MEPA_EXIT dev;
     State_Monad.return rc }"

section \<open>Base port, capabilities and information\<close>

text \<open>
  \<open>lan8814_link_base_port\<close> reads \<open>base_dev->data\<close> (for a trace message) without a
  test for NULL.
\<close>

definition lan8814_link_base_port :: "nat \<Rightarrow> nat option \<Rightarrow> 8 word \<Rightarrow> ('h, mepa_rc) lan" where
  "lan8814_link_base_port dev base_dev packet_idx =
    (if base_dev = None then null_call MEPA_RC_ERROR else do {
     MEPA_ENTER dev;
     upd_data dev (\<lambda>d. d\<lparr>pd_base_dev := base_dev, pd_packet_idx := packet_idx\<rparr>);
     MEPA_EXIT dev;
     State_Monad.return MEPA_RC_OK })"

definition lan8814_capability_priv :: "phy_data \<Rightarrow> 32 word \<Rightarrow> 32 word" where
  "lan8814_capability_priv data capability =
    (if capability = MEPA_CAP_TS_NONE then (if lan8814_has_ptp data then 0 else 1)
     else if capability = MEPA_CAP_TS_GEN_3 then (if lan8814_has_ptp data then 1 else 0)
     else if capability = MEPA_CAP_SPEED_1G then 1
     else 0)"

definition lan8814_capability :: "nat \<Rightarrow> 32 word \<Rightarrow> ('h, 32 word) lan" where
  "lan8814_capability dev capability = do {
     MEPA_ENTER dev;
     data \<leftarrow> data_of dev;
     let c = lan8814_capability_priv data capability;
     MEPA_EXIT dev;
     State_Monad.return c }"

text \<open>The identifiers of the five drivers of the family, by index in its table.\<close>

abbreviation (input) LAN8814_DEF_DRV_ID :: "32 word" where "LAN8814_DEF_DRV_ID \<equiv> 0x221660"
abbreviation (input) LAN8814_INT_PHY_DRV_ID :: "32 word" where "LAN8814_INT_PHY_DRV_ID \<equiv> 0x221670"
abbreviation (input) LAN8842_DRV_ID :: "32 word" where "LAN8842_DRV_ID \<equiv> 0x2216c0"
abbreviation (input) LAN8804_SKU :: "32 word" where "LAN8804_SKU \<equiv> 0x8804"
abbreviation (input) LAN8832_SKU :: "32 word" where "LAN8832_SKU \<equiv> 0x8832"

definition lan8814_drv_ids :: "(32 word \<times> 32 word) list" where
  "lan8814_drv_ids = [(LAN8814_DEF_DRV_ID, 0xfffff0), (LAN8804_SKU, 0xffff),
     (LAN8814_INT_PHY_DRV_ID, 0xfffff0), (LAN8842_DRV_ID, 0xfffff0), (LAN8832_SKU, 0xffff)]"

definition lan8814_drv_id :: "drv_ptr \<Rightarrow> 32 word" where
  "lan8814_drv_id d = (if snd d < length lan8814_drv_ids then fst (lan8814_drv_ids ! snd d) else 0)"

definition info_caps :: "phy_data \<Rightarrow> 32 word \<Rightarrow> 32 word" where
  "info_caps data cap =
    (let cap = (if lan8814_capability_priv data MEPA_CAP_TS_GEN_3 \<noteq> 0
                then cap OR MEPA_CAP_TS_MASK_GEN_3 else cap);
         cap = (if lan8814_capability_priv data MEPA_CAP_TS_NONE \<noteq> 0
                then cap OR MEPA_CAP_TS_MASK_NONE else cap)
     in if lan8814_capability_priv data MEPA_CAP_SPEED_1G \<noteq> 0
        then cap OR MEPA_CAP_SPEED_MASK_1G else cap)"

definition lan8814_info_get :: "nat \<Rightarrow> mepa_phy_info \<Rightarrow> ('h, mepa_rc \<times> mepa_phy_info) lan" where
  "lan8814_info_get dev info = do {
     data \<leftarrow> data_of dev;
     d \<leftarrow> dev_of dev;
     let id = lan8814_drv_id (drv d);
     base_port \<leftarrow> (case pd_base_dev data of
         None \<Rightarrow> State_Monad.return 0
       | Some b \<Rightarrow> do { base_data \<leftarrow> data_of b; State_Monad.return (pd_port_no base_data) });
     let info = info\<lparr>info_manufactor_name := ''Microchip'', info_cap := 0\<rparr>;
     let info = (if id = LAN8814_DEF_DRV_ID \<or> id = LAN8814_INT_PHY_DRV_ID
                 then info\<lparr>info_part_number := 8814, info_model_name := ''LAN8814''\<rparr>
                 else if id = LAN8804_SKU
                 then info\<lparr>info_part_number := 8804, info_model_name := ''LAN8804''\<rparr>
                 else info);
     let info = info\<lparr>info_revision := ucast (di_rev (pd_dev data)),
       info_cap := info_caps data (info_cap info)\<rparr>;
     let info = (if id = LAN8804_SKU
                 then info\<lparr>info_ts_base_port := 0, info_ts_base := None\<rparr>
                 else info\<lparr>info_ts_base_port := base_port, info_ts_base := pd_base_dev data\<rparr>);
     State_Monad.return (MEPA_RC_OK, info) }"

section \<open>Energy efficient Ethernet\<close>

definition lan8814_eee_mode_conf_set :: "nat \<Rightarrow> mepa_phy_eee_conf \<Rightarrow> ('h, mepa_rc) lan" where
  "lan8814_eee_mode_conf_set dev conf = do {
     MEPA_ENTER dev;
     rc \<leftarrow> lan8814_eee_mode_conf_set_int dev conf;
     MEPA_EXIT dev;
     State_Monad.return rc }"

definition lan8814_eee_mode_conf_get :: "nat \<Rightarrow> ('h, mepa_rc \<times> mepa_phy_eee_conf) lan" where
  "lan8814_eee_mode_conf_get dev = do {
     MEPA_ENTER dev;
     data \<leftarrow> data_of dev;
     MEPA_EXIT dev;
     State_Monad.return (MEPA_RC_OK, pd_eee_conf data) }"

text \<open>The result is the advertisement and the receive and transmit power-save states.\<close>

definition lan8814_eee_status_get :: "nat \<Rightarrow> ('h, mepa_rc \<times> 8 word \<times> bool \<times> bool) lan" where
  "lan8814_eee_status_get dev = do {
     v \<leftarrow> MMD_RD dev LAN8814_LINK_PARTNER_EEE_ABILITY 0;
     let advertisement = ucast (drop_bit 1 v);
     v \<leftarrow> MMD_RD dev LAN8814_EEE_PCS_STATUS v;
     State_Monad.return (MEPA_RC_OK, advertisement, has_bits v 0x0100, has_bits v 0x0200) }"

end
