(* ===== verification/Lan8814_Line.thy ===== *)
theory Lan8814_Line
  imports Lan8814_Misc
begin

text \<open>
  Operations of the LAN8814 driver on the line and MAC sides (\<open>lan8814.c\<close>): loopback,
  recovered clock, isolate mode, signal quality, start of frame, frame preemption,
  SerDes drive strength, and the LAN8842 variants.  \<open>loopback_*\<close> are the parts of
  \<open>lan8814_loopback_set\<close>; \<open>old\<close> is the stored loopback state.
\<close>

section \<open>Loopback\<close>

definition conf_is_aneg :: "mepa_conf \<Rightarrow> bool" where
  "conf_is_aneg c = (conf_speed c = MEPA_SPEED_AUTO \<or> conf_speed c = MEPA_SPEED_1G)"

definition loopback_far :: "nat \<Rightarrow> mepa_loopback \<Rightarrow> mepa_loopback \<Rightarrow> ('h, unit) lan" where
  "loopback_far dev old new =
    (if lb_far_end_ena new then
       only_if True (WRM dev LAN8814_PCS_LOOP_POLARITY_CTRL LAN8814_F_PCS_LOOP_CTRL_PORT_LOOP
         LAN8814_F_PCS_LOOP_CTRL_PORT_LOOP)
     else only_if (lb_far_end_ena old) (
       WRM dev LAN8814_PCS_LOOP_POLARITY_CTRL 0 LAN8814_F_PCS_LOOP_CTRL_PORT_LOOP))"

definition loopback_restore_aneg :: "nat \<Rightarrow> mepa_conf \<Rightarrow> ('h, unit) lan" where
  "loopback_restore_aneg dev conf = only_if (conf_is_aneg conf) (do {
     WRM dev LAN8814_ANEG_MSTR_SLV_CTRL 0
       (LAN8814_F_ANEG_MSTR_SLV_CTRL_CFG_ENA OR LAN8814_F_ANEG_MSTR_SLV_CTRL_CFG_VAL);
     WRM dev LAN8814_BASIC_CONTROL
       (LAN8814_F_BASIC_CTRL_ANEG_ENA OR LAN8814_F_BASIC_CTRL_RESTART_ANEG)
       (LAN8814_F_BASIC_CTRL_ANEG_ENA OR LAN8814_F_BASIC_CTRL_RESTART_ANEG) })"

definition loopback_force_1g :: "nat \<Rightarrow> ('h, mepa_rc) lan" where
  "loopback_force_1g dev = do {
     WRM dev LAN8814_BASIC_CONTROL 0 LAN8814_F_BASIC_CTRL_ANEG_ENA;
     WRM dev LAN8814_BASIC_CONTROL LAN8814_F_BASIC_CTRL_SPEED_SEL_BIT_1
       (LAN8814_F_BASIC_CTRL_SPEED_SEL_BIT_1 OR LAN8814_F_BASIC_CTRL_SPEED_SEL_BIT_0) }"

definition loopback_near ::
  "nat \<Rightarrow> mepa_conf \<Rightarrow> mepa_loopback \<Rightarrow> mepa_loopback \<Rightarrow> ('h, unit) lan" where
  "loopback_near dev conf old new =
    (if lb_near_end_ena new then do {
       WRM dev LAN8814_BASIC_CONTROL LAN8814_F_BASIC_CTRL_LOOPBACK LAN8814_F_BASIC_CTRL_LOOPBACK;
       only_if (conf_is_aneg conf) (loopback_force_1g dev) }
     else only_if (lb_near_end_ena old) (do {
       WRM dev LAN8814_BASIC_CONTROL 0 LAN8814_F_BASIC_CTRL_LOOPBACK;
       loopback_restore_aneg dev conf;
       EP_WR dev LAN8814_POWER_MGMT_MODE_5 0x6677;
       EP_WR dev LAN8814_POWER_MGMT_MODE_6 0x6677;
       EP_WR dev LAN8814_POWER_MGMT_MODE_8 0x4377;
       EP_WR dev LAN8814_POWER_MGMT_MODE_11 0x4377 }))"

definition loopback_connector ::
  "nat \<Rightarrow> mepa_conf \<Rightarrow> mepa_loopback \<Rightarrow> mepa_loopback \<Rightarrow> ('h, unit) lan" where
  "loopback_connector dev conf old new =
    (if lb_connector_ena new then do {
       (if conf_is_aneg conf then do {
          loopback_force_1g dev;
          WRM dev LAN8814_ANEG_MSTR_SLV_CTRL
            (LAN8814_F_ANEG_MSTR_SLV_CTRL_CFG_VAL OR LAN8814_F_ANEG_MSTR_SLV_CTRL_CFG_ENA)
            (LAN8814_F_ANEG_MSTR_SLV_CTRL_CFG_VAL OR LAN8814_F_ANEG_MSTR_SLV_CTRL_CFG_ENA) }
        else if conf_speed conf = MEPA_SPEED_100M then
          WRM dev LAN8814_BASIC_CONTROL LAN8814_F_BASIC_CTRL_SPEED_SEL_BIT_0
            (LAN8814_F_BASIC_CTRL_SPEED_SEL_BIT_1 OR LAN8814_F_BASIC_CTRL_SPEED_SEL_BIT_0)
        else if conf_speed conf = MEPA_SPEED_10M then
          WRM dev LAN8814_BASIC_CONTROL 0
            (LAN8814_F_BASIC_CTRL_SPEED_SEL_BIT_1 OR LAN8814_F_BASIC_CTRL_SPEED_SEL_BIT_0)
        else State_Monad.return MEPA_RC_OK);
       only_if True (WR dev LAN8814_RESV_CON_LOOP 0xfc08) }
     else only_if (lb_connector_ena old) (do {
       loopback_restore_aneg dev conf;
       WR dev LAN8814_RESV_CON_LOOP 0xfc00 }))"

text \<open>One enable bit in a register: set when it is requested, cleared when it was set before.\<close>

definition loopback_bit :: "nat \<Rightarrow> ereg \<Rightarrow> 16 word \<Rightarrow> bool \<Rightarrow> bool \<Rightarrow> ('h, unit) lan" where
  "loopback_bit dev r b old new =
    (if new then only_if True (EP_WRM dev r b b) else only_if old (EP_WRM dev r 0 b))"

definition loopback_unsupported :: "mepa_loopback \<Rightarrow> bool" where
  "loopback_unsupported lb = (lb_mac_serdes_input_ena lb \<or> lb_mac_serdes_facility_ena lb \<or>
     lb_mac_serdes_equip_ena lb \<or> lb_media_serdes_input_ena lb \<or>
     lb_media_serdes_facility_ena lb \<or> lb_media_serdes_equip_ena lb)"

definition lan8814_loopback_set :: "nat \<Rightarrow> mepa_loopback \<Rightarrow> ('h, mepa_rc) lan" where
  "lan8814_loopback_set dev loopback =
    (if loopback_unsupported loopback then State_Monad.return MEPA_RC_NOT_IMPLEMENTED else do {
     MEPA_ENTER dev;
     data \<leftarrow> data_of dev;
     let old = pd_loopback data;
     let conf = pd_conf data;
     loopback_far dev old loopback;
     loopback_near dev conf old loopback;
     loopback_connector dev conf old loopback;
     loopback_bit dev LAN8814_QSGMII_PCS1G_DEBUG LAN8814_F_QSGMII_PCS1G_DBG_TBI_HOST_LOOPBACK
       (lb_qsgmii_pcs_tbi_ena old) (lb_qsgmii_pcs_tbi_ena loopback);
     loopback_bit dev LAN8814_QSGMII_PCS1G_DEBUG LAN8814_F_QSGMII_PCS1G_DBG_GMII_LOOPBACK
       (lb_qsgmii_pcs_gmii_ena old) (lb_qsgmii_pcs_gmii_ena loopback);
     loopback_bit dev LAN8814_QSGMII_SERDES_MISC_CTRL LAN8814_F_QSGMII_SERDES_MISC_CTRL_LB_MODE
       (lb_qsgmii_serdes_ena old) (lb_qsgmii_serdes_ena loopback);
     upd_data dev (\<lambda>d. d\<lparr>pd_loopback := loopback\<rparr>);
     MEPA_EXIT dev;
     State_Monad.return MEPA_RC_OK })"

definition lan8814_loopback_get :: "nat \<Rightarrow> ('h, mepa_rc \<times> mepa_loopback) lan" where
  "lan8814_loopback_get dev = do {
     MEPA_ENTER dev;
     data \<leftarrow> data_of dev;
     MEPA_EXIT dev;
     State_Monad.return (MEPA_RC_OK, pd_loopback data) }"

section \<open>Clocks and modes\<close>

text \<open>The GPIO configuration of the caller is a local structure; only mode and pin are set.\<close>

definition gpio_local :: "mepa_gpio_mode \<Rightarrow> 8 word \<Rightarrow> mepa_gpio_conf" where
  "gpio_local mode no = \<lparr>gpio_no = no, gpio_led_num = MEPA_LED0, gpio_mode = mode,
     gpio_pp_enable = False, gpio_intrpt = MEPA_GPIO_INTR_NONE\<rparr>"

definition rcvrd_divider :: "mepa_freq \<Rightarrow> 16 word" where
  "rcvrd_divider f = (case f of MEPA_FREQ_25M \<Rightarrow> 5 | MEPA_FREQ_31_25M \<Rightarrow> 4 | _ \<Rightarrow> 1)"

definition rcvrd_source :: "phy_data \<Rightarrow> mepa_synce_clock_src \<Rightarrow> 16 word" where
  "rcvrd_source data src = (case src of
      MEPA_SYNCE_CLOCK_SRC_DISABLED \<Rightarrow> 7
    | MEPA_SYNCE_CLOCK_SRC_COPPER_MEDIA \<Rightarrow> ucast (pd_packet_idx data mod 4)
    | MEPA_SYNCE_CLOCK_SRC_CLOCK_IN_1 \<Rightarrow> 4
    | MEPA_SYNCE_CLOCK_SRC_CLOCK_IN_2 \<Rightarrow> 5
    | _ \<Rightarrow> 7)"

definition lan8814_recovered_clk_set :: "nat \<Rightarrow> mepa_synce_clock_conf \<Rightarrow> ('h, mepa_rc) lan" where
  "lan8814_recovered_clk_set dev conf = do {
     MEPA_ENTER dev;
     rc \<leftarrow> lan8814_gpio_mode_private dev (if synce_dst conf = MEPA_SYNCE_CLOCK_DST_1
             then gpio_local MEPA_GPIO_MODE_RCVRD_CLK_OUT1 9
             else gpio_local MEPA_GPIO_MODE_RCVRD_CLK_OUT2 10);
     data \<leftarrow> data_of dev;
     let divider = rcvrd_divider (synce_freq conf);
     let clkout_src = rcvrd_source data (synce_src conf);
     (if synce_dst conf = MEPA_SYNCE_CLOCK_DST_1 then do {
        EP_WR dev LAN8814_RCVRD_CLK_OUT_SEL_1 clkout_src;
        EP_WR dev LAN8814_RCVRD_CLK_OUT_DIV_1 divider }
      else if synce_dst conf = MEPA_SYNCE_CLOCK_DST_2 then do {
        EP_WR dev LAN8814_RCVRD_CLK_OUT_SEL_2 clkout_src;
        EP_WR dev LAN8814_RCVRD_CLK_OUT_DIV_2 divider }
      else State_Monad.return MEPA_RC_OK);
     MEPA_EXIT dev;
     upd_data dev (\<lambda>d. d\<lparr>pd_synce_conf := conf\<rparr>);
     State_Monad.return rc }"

definition lan8814_isolate_mode_conf :: "nat \<Rightarrow> bool \<Rightarrow> ('h, mepa_rc) lan" where
  "lan8814_isolate_mode_conf dev iso_en = do {
     MEPA_ENTER dev;
     (if iso_en then
        WRM dev LAN8814_BASIC_CONTROL LAN8814_F_BASIC_CTRL_ISO_MODE_EN
          LAN8814_F_BASIC_CTRL_ISO_MODE_EN
      else WRM dev LAN8814_BASIC_CONTROL 0 LAN8814_F_BASIC_CTRL_ISO_MODE_EN);
     MEPA_EXIT dev;
     State_Monad.return MEPA_RC_OK }"

definition lan8814_mac_if_to_str :: "mepa_port_interface \<Rightarrow> string" where
  "lan8814_mac_if_to_str mac_if = (case mac_if of
      MESA_PORT_INTERFACE_QSGMII \<Rightarrow> ''QSGMII''
    | MESA_PORT_INTERFACE_SGMII \<Rightarrow> ''SGMII''
    | MESA_PORT_INTERFACE_GMII \<Rightarrow> ''GMII''
    | _ \<Rightarrow> '''')"

definition lan8814_sqi_read :: "nat \<Rightarrow> 32 word \<Rightarrow> ('h, mepa_rc \<times> 32 word) lan" where
  "lan8814_sqi_read dev value = do {
     MEPA_ENTER dev;
     data \<leftarrow> data_of dev;
     (rc, value) \<leftarrow>
       (if conf_speed (pd_conf data) = MEPA_SPEED_10M \<or> \<not> pd_link_status data \<or>
           \<not> conf_admin_enable (pd_conf data)
        then State_Monad.return (MEPA_RC_ERROR, value) else do {
        v \<leftarrow> EP_RD dev LAN8814_DCQ_CTRL 0;
        let v = v AND NOT LAN8814_M_DCQ_CTRL_CHANNEL_MASK;
        let v = v OR LAN8814_F_DCQ_CTRL_READ_CAPTURE;
        EP_WR dev LAN8814_DCQ_CTRL v;
        v \<leftarrow> EP_RD dev LAN8814_DCQ_SQI v;
        State_Monad.return (MEPA_RC_OK, ucast (LAN8814_X_DCQ_SQI_VALUE v)) });
     MEPA_EXIT dev;
     State_Monad.return (rc, value) }"

section \<open>Start of frame\<close>

primrec mepa_preemption_mode_num :: "mepa_preemption_mode \<Rightarrow> nat" where
  "mepa_preemption_mode_num MEPA_PREEMPTION_NORMAL_SFD = 0"
| "mepa_preemption_mode_num MEPA_PREEMPTION_SMD_E = 1"
| "mepa_preemption_mode_num MEPA_PREEMPTION_SMD_EXCEPT_CONTINUOUS = 2"
| "mepa_preemption_mode_num MEPA_PREEMPTION_SMD_ALL = 3"

definition lan8814_port_flow_mapping_get :: "8 word \<Rightarrow> bool \<Rightarrow> mepa_rc \<times> 16 word" where
  "lan8814_port_flow_mapping_get packet_idx ingress =
    (let i = packet_idx mod 4
     in if i = 0 then (MEPA_RC_OK, if ingress then 1 else 0)
        else if i = 1 then (MEPA_RC_OK, if ingress then 3 else 2)
        else if i = 2 then (MEPA_RC_OK, if ingress then 5 else 4)
        else if i = 3 then (MEPA_RC_OK, if ingress then 7 else 6)
        else (MEPA_RC_ERROR, 0))"

text \<open>The selection register with the field of the output replaced, and the pin of the output.\<close>

definition sof_select :: "8 word \<Rightarrow> 16 word \<Rightarrow> 16 word \<Rightarrow> (16 word \<times> 8 word) option" where
  "sof_select no map_val v =
    (if no = 0 then Some ((v AND NOT LAN8814_M_GPIO_SOF_SEL_SOF0) OR map_val, 15)
     else if no = 1 then Some ((v AND NOT LAN8814_M_GPIO_SOF_SEL_SOF1) OR push_bit 3 map_val, 21)
     else if no = 2 then Some ((v AND NOT LAN8814_M_GPIO_SOF_SEL_SOF2) OR push_bit 6 map_val, 16)
     else if no = 3 then Some ((v AND NOT LAN8814_M_GPIO_SOF_SEL_SOF3) OR push_bit 9 map_val, 23)
     else None)"

text \<open>The common end: the selection, the preemption mode, and the pin as an output.\<close>

definition sof_apply ::
  "nat \<Rightarrow> mepa_start_of_frame_conf \<Rightarrow> 16 word \<Rightarrow> 8 word \<Rightarrow> ('h, mepa_rc) lan" where
  "sof_apply dev sof_conf sel pin = do {
     EP_WR dev LAN8814_GPIO_SOF_SEL sel;
     v \<leftarrow> EP_RD dev LAN8814_SOF sel;
     let v = v AND NOT LAN8814_M_SOF_PREEMPTION_ENABLE;
     let v = v OR push_bit 8 (of_nat (mepa_preemption_mode_num (sof_preemption_mode sof_conf)));
     EP_WR dev LAN8814_SOF v;
     rc \<leftarrow> lan8814_gpio_mode_private dev (gpio_local MEPA_GPIO_MODE_OUT pin);
     if rc \<noteq> MEPA_RC_OK then State_Monad.return rc else do {
     upd_data dev (\<lambda>d. d\<lparr>pd_sof_conf := sof_conf\<rparr>);
     State_Monad.return MEPA_RC_OK }}"

definition sof_conf_set_int :: "nat \<Rightarrow> mepa_start_of_frame_conf \<Rightarrow> ('h, mepa_rc) lan" where
  "sof_conf_set_int dev sof_conf = do {
     data \<leftarrow> data_of dev;
     let (rc, map_val) = lan8814_port_flow_mapping_get (pd_packet_idx data) (sof_ingress sof_conf);
     if rc \<noteq> MEPA_RC_OK then State_Monad.return rc else do {
     v \<leftarrow> EP_RD dev LAN8814_GPIO_SOF_SEL 0;
     case sof_select (sof_no sof_conf) map_val v of
       None \<Rightarrow> State_Monad.return MEPA_RC_ERROR
     | Some (sel, pin) \<Rightarrow>
         if mepa_preemption_mode_num (sof_preemption_mode sof_conf) > 3
         then State_Monad.return MEPA_RC_ERROR
         else sof_apply dev sof_conf sel pin }}"

definition lan8814_start_of_frame_conf_set ::
  "nat \<Rightarrow> mepa_start_of_frame_conf \<Rightarrow> ('h, mepa_rc) lan" where
  "lan8814_start_of_frame_conf_set dev sof_conf = do {
     MEPA_ENTER dev;
     rc \<leftarrow> sof_conf_set_int dev sof_conf;
     MEPA_EXIT dev;
     State_Monad.return rc }"

definition lan8814_start_of_frame_conf_get ::
  "nat \<Rightarrow> ('h, mepa_rc \<times> mepa_start_of_frame_conf) lan" where
  "lan8814_start_of_frame_conf_get dev = do {
     MEPA_ENTER dev;
     data \<leftarrow> data_of dev;
     MEPA_EXIT dev;
     State_Monad.return (MEPA_RC_OK, pd_sof_conf data) }"

definition lan8842_start_of_frame_conf_set ::
  "nat \<Rightarrow> mepa_start_of_frame_conf \<Rightarrow> ('h, mepa_rc) lan" where
  "lan8842_start_of_frame_conf_set dev sof_conf = do {
     MEPA_ENTER dev;
     rc \<leftarrow> (if sof_no sof_conf \<noteq> 0 then State_Monad.return MEPA_RC_ERROR
            else if mepa_preemption_mode_num (sof_preemption_mode sof_conf) > 3
            then State_Monad.return MEPA_RC_ERROR
            else do {
              EP_RD dev LAN8814_GPIO_SOF_SEL 0;
              sof_apply dev sof_conf (if sof_ingress sof_conf then 1 else 0) 13 });
     MEPA_EXIT dev;
     State_Monad.return rc }"

section \<open>Frame preemption and SerDes\<close>

text \<open>The out-parameter \<open>value\<close> is a pointer; \<open>None\<close> is NULL.\<close>

definition lan8814_framepreempt_get :: "nat \<Rightarrow> bool option \<Rightarrow> ('h, mepa_rc \<times> bool option) lan" where
  "lan8814_framepreempt_get dev value = do {
     data \<leftarrow> data_of dev;
     if value = None then State_Monad.return (MEPA_RC_ERROR, value) else do {
     MEPA_ENTER dev;
     en \<leftarrow> (case pd_base_dev data of
         None \<Rightarrow> State_Monad.return False
       | Some b \<Rightarrow> do { base_data \<leftarrow> data_of b; State_Monad.return (pd_framepreempt_en base_data) });
     MEPA_EXIT dev;
     State_Monad.return (MEPA_RC_OK, Some en) }}"

definition lan8814_framepreempt_set :: "nat \<Rightarrow> bool \<Rightarrow> ('h, mepa_rc) lan" where
  "lan8814_framepreempt_set dev enable = do {
     MEPA_ENTER dev;
     rc \<leftarrow> lan8814_framepreempt_set_int dev enable;
     MEPA_EXIT dev;
     State_Monad.return rc }"

definition serdes_tx_value :: "mepa_serdes_tx_conf \<Rightarrow> 16 word" where
  "serdes_tx_value c = LAN8814_QSGMII_SERDES_TX_LEVEL (ucast (stx_level c)) OR
     LAN8814_QSGMII_SERDES_TX_BOOST (ucast (stx_boost c))"

definition lan8814_serdes_tx_conf_set :: "nat \<Rightarrow> mepa_serdes_tx_conf \<Rightarrow> ('h, mepa_rc) lan" where
  "lan8814_serdes_tx_conf_set dev tx_conf = do {
     data \<leftarrow> data_of dev;
     case pd_base_dev data of
       None \<Rightarrow> State_Monad.return MEPA_RC_ERROR
     | Some base_dev \<Rightarrow>
         if base_dev \<noteq> dev then State_Monad.return MEPA_RC_ERROR else do {
         MEPA_ENTER dev;
         rc \<leftarrow> (if stx_boost tx_conf > 127 then State_Monad.return MEPA_RC_ERROR
                else if stx_level tx_conf > 127 then State_Monad.return MEPA_RC_ERROR
                else do {
                  EP_WRM base_dev LAN8814_QSGMII_SERDES_TX_CTRL (serdes_tx_value tx_conf) 0x3fff;
                  EP_WRM base_dev LAN8814_QSGMII_SOFT_RESET LAN8814_QSGMII_SOFT_RESET_BIT
                    LAN8814_QSGMII_SOFT_RESET_BIT;
                  State_Monad.return MEPA_RC_OK });
         MEPA_EXIT dev;
         State_Monad.return rc }}"

section \<open>LAN8842\<close>

definition lan8842_if_set :: "nat \<Rightarrow> mepa_port_interface \<Rightarrow> ('h, mepa_rc) lan" where
  "lan8842_if_set dev mac_if =
    (if mac_if \<noteq> MESA_PORT_INTERFACE_SGMII then State_Monad.return MEPA_RC_ERROR
     else State_Monad.return MEPA_RC_OK)"

definition lan8842_if_get ::
  "nat \<Rightarrow> mepa_port_speed \<Rightarrow> ('h, mepa_rc \<times> mepa_port_interface) lan" where
  "lan8842_if_get dev speed = State_Monad.return (MEPA_RC_OK, MESA_PORT_INTERFACE_SGMII)"

definition lan8842_get_device_info :: "nat \<Rightarrow> ('h, mepa_rc) lan" where
  "lan8842_get_device_info dev = do {
     MEPA_ENTER dev;
     rc \<leftarrow> lan8814_get_device_info dev;
     MEPA_EXIT dev;
     State_Monad.return rc }"

definition lan8842_info_get :: "nat \<Rightarrow> mepa_phy_info \<Rightarrow> ('h, mepa_rc \<times> mepa_phy_info) lan" where
  "lan8842_info_get dev info = do {
     rc \<leftarrow> lan8842_get_device_info dev;
     if rc \<noteq> MEPA_RC_OK then State_Monad.return (rc, info) else do {
     data \<leftarrow> data_of dev;
     d \<leftarrow> dev_of dev;
     let info = info\<lparr>info_manufactor_name := ''Microchip''\<rparr>;
     let info = (if lan8814_drv_id (drv d) = LAN8842_DRV_ID
                 then info\<lparr>info_part_number := 8842, info_model_name := ''LAN8842''\<rparr>
                 else info\<lparr>info_part_number := 8832, info_model_name := ''LAN8832''\<rparr>);
     let info = info\<lparr>info_revision := ucast (di_rev (pd_dev data)), info_ts_base_port := 0,
       info_ts_base := None, info_cap := info_caps data (info_cap info)\<rparr>;
     State_Monad.return (MEPA_RC_OK, info) }}"

end
