(* ===== verification/Lan8814_Diag.thy ===== *)
theory Lan8814_Diag
  imports Lan8814_Line
begin

text \<open>
  Diagnostics of the LAN8814 driver (\<open>lan8814.c\<close>): cable diagnostics, self-test and
  the PRBS7 generator of the SerDes.  The loops that wait for the hardware are bounded
  in the code (100 rounds of 10 ms), so they are recursions over the rounds left.
\<close>

section \<open>Cable diagnostics\<close>

fun wait_cable_diag :: "nat \<Rightarrow> nat \<Rightarrow> ('h, bool) lan" where
  "wait_cable_diag dev 0 = State_Monad.return False"
| "wait_cable_diag dev (Suc n) = do {
     value \<leftarrow> RD dev LAN8814_CABLE_DIAG;
     if has_bits value LAN8814_F_CABLE_DIAG_TEST_ENA
     then do { MEPA_MSLEEP 10; wait_cable_diag dev n }
     else State_Monad.return True }"

definition lan8814_wait_for_cable_diagnostics :: "nat \<Rightarrow> ('h, bool) lan" where
  "lan8814_wait_for_cable_diagnostics dev = wait_cable_diag dev 100"

definition lan8814_cab_diag_enter_config :: "nat \<Rightarrow> ('h, mepa_rc) lan" where
  "lan8814_cab_diag_enter_config dev = do {
     WRM dev LAN8814_BASIC_CONTROL LAN8814_F_BASIC_CTRL_SOFT_RESET LAN8814_F_BASIC_CTRL_SOFT_RESET;
     MEPA_MSLEEP 1;
     let value = LAN8814_F_BASIC_CTRL_SPEED_SEL_BIT_1 OR LAN8814_F_BASIC_CTRL_DUP_MODE;
     WR dev LAN8814_BASIC_CONTROL value;
     WRM dev LAN8814_ANEG_MSTR_SLV_CTRL LAN8814_F_ANEG_MSTR_SLV_CTRL_CFG_ENA
       LAN8814_F_ANEG_MSTR_SLV_CTRL_CFG_ENA;
     WRM dev LAN8814_GPHY_DBG_CTL1 LAN8814_F_SWAPOFF LAN8814_F_SWAPOFF;
     MEPA_MSLEEP 50;
     State_Monad.return MEPA_RC_OK }"

definition lan8814_restore_config_int :: "nat \<Rightarrow> ('h, mepa_rc) lan" where
  "lan8814_restore_config_int dev = do {
     let rst_cfg = \<lparr>rst_media_intf = MESA_PHY_MEDIA_IF_CU,
       rst_reset_point = MEPA_RESET_POINT_DEFAULT, rst_framepreempt_en = False\<rparr>;
     lan8814_reset_int dev rst_cfg;
     State_Monad.return MEPA_RC_OK }"

abbreviation (input) LAN8814_CABLE_MODE_POWER_DOWN :: int where "LAN8814_CABLE_MODE_POWER_DOWN \<equiv> 2"
abbreviation (input) LAN8814_CABLE_OPEN :: "16 word" where "LAN8814_CABLE_OPEN \<equiv> 1"
abbreviation (input) LAN8814_CABLE_SHORT :: "16 word" where "LAN8814_CABLE_SHORT \<equiv> 2"
abbreviation (input) LAN8814_CABLE_FAIL :: "16 word" where "LAN8814_CABLE_FAIL \<equiv> 3"

text \<open>
  The length in metres, \<open>0.8 * abs (data - 22)\<close> truncated to 8 bits.  The double
  constant 0.8 lies above the decimal 0.8 by less than \<open>2 ^ -54\<close>, so on these small
  integers the truncated product is \<open>4 * n div 5\<close>.
\<close>

definition cable_length :: "16 word \<Rightarrow> 8 word" where
  "cable_length value = of_nat (4 * nat \<bar>int (unat (LAN8814_X_CABLE_DIAG_DATA value)) - 22\<bar> div 5)"

text \<open>One pair: the test, and the result into the stored structure.\<close>

definition cab_diag_result ::
  "16 word \<Rightarrow> nat \<Rightarrow> mepa_cable_diag_result \<Rightarrow> mepa_cable_diag_result" where
  "cab_diag_result value pair res =
    (let status = LAN8814_X_CABLE_DIAG_STATUS value
     in if status = LAN8814_CABLE_OPEN \<or> status = LAN8814_CABLE_SHORT
        then res\<lparr>cd_status := (cd_status res)[pair := (if status = LAN8814_CABLE_SHORT
                     then MEPA_CABLE_DIAG_STATUS_SHORT else MEPA_CABLE_DIAG_STATUS_OPEN)],
                 cd_length := (cd_length res)[pair := cable_length value]\<rparr>
        else if status = LAN8814_CABLE_FAIL
        then res\<lparr>cd_status := (cd_status res)[pair := MEPA_CABLE_DIAG_STATUS_ABNORM]\<rparr>
        else res)"

definition cab_diag_pair :: "nat \<Rightarrow> nat \<Rightarrow> ('h, unit) lan" where
  "cab_diag_pair dev pair = do {
     WRM dev LAN8814_CABLE_DIAG 0 LAN8814_F_CABLE_DIAG_TEST_ENA;
     let value = LAN8814_F_CABLE_DIAG_TEST_ENA OR LAN8814_F_CABLE_TEST_PAIR (of_nat pair);
     let msk = LAN8814_F_CABLE_DIAG_TEST_ENA OR LAN8814_M_CABLE_TEST_PAIR;
     WRM dev LAN8814_CABLE_DIAG value msk;
     ok \<leftarrow> lan8814_wait_for_cable_diagnostics dev;
     only_if ok (do {
       value \<leftarrow> RD dev LAN8814_CABLE_DIAG;
       upd_data dev (\<lambda>d. d\<lparr>pd_cable_diag := cab_diag_result value pair (pd_cable_diag d)\<rparr>) }) }"

definition cable_diag_init :: mepa_cable_diag_result where
  "cable_diag_init = \<lparr>cd_link = False, cd_status = replicate 4 MEPA_CABLE_DIAG_STATUS_UNKNOWN,
     cd_length = replicate 4 0\<rparr>"

definition lan8814_cab_diag_start_int :: "nat \<Rightarrow> int \<Rightarrow> ('h, mepa_rc) lan" where
  "lan8814_cab_diag_start_int dev mode = do {
     upd_data dev (\<lambda>d. d\<lparr>pd_cable_diag := cable_diag_init\<rparr>);
     if mode = LAN8814_CABLE_MODE_POWER_DOWN then State_Monad.return MEPA_RC_ERROR else do {
     value \<leftarrow> RD dev LAN8814_BASIC_STATUS;
     let link = has_bits value LAN8814_F_BASIC_STATUS_LINK_STATUS;
     upd_data dev (\<lambda>d. d\<lparr>pd_cable_diag := (pd_cable_diag d)\<lparr>cd_link := link\<rparr>\<rparr>);
     if link then State_Monad.return MEPA_RC_OK else do {
     lan8814_cab_diag_enter_config dev;
     for_each (cab_diag_pair dev) [0, 1, 2, 3];
     lan8814_restore_config_int dev;
     State_Monad.return MEPA_RC_OK }}}"

definition lan8814_cab_diag_start :: "nat \<Rightarrow> int \<Rightarrow> ('h, mepa_rc) lan" where
  "lan8814_cab_diag_start dev mode = do {
     MEPA_ENTER dev;
     rc \<leftarrow> lan8814_cab_diag_start_int dev mode;
     MEPA_EXIT dev;
     State_Monad.return rc }"

definition lan8814_cab_diag_get :: "nat \<Rightarrow> ('h, mepa_rc \<times> mepa_cable_diag_result) lan" where
  "lan8814_cab_diag_get dev = do {
     MEPA_ENTER dev;
     data \<leftarrow> data_of dev;
     MEPA_EXIT dev;
     State_Monad.return (MEPA_RC_OK, pd_cable_diag data) }"

section \<open>Self-test\<close>

text \<open>The loop that waits for the link; the result says whether it came up.\<close>

fun selftest_wait_link :: "nat \<Rightarrow> nat \<Rightarrow> ('h, bool) lan" where
  "selftest_wait_link dev 0 = State_Monad.return False"
| "selftest_wait_link dev (Suc n) = do {
     v \<leftarrow> RD dev LAN8814_BASIC_STATUS;
     if has_bits v LAN8814_F_BASIC_STATUS_LINK_STATUS then State_Monad.return True
     else do { MEPA_MSLEEP 10; selftest_wait_link dev n } }"

definition selftest_config :: "nat \<Rightarrow> mepa_selftest_info \<Rightarrow> ('h, unit) lan" where
  "selftest_config dev info = do {
     WRM dev LAN8814_BASIC_CONTROL LAN8814_F_BASIC_CTRL_SOFT_RESET LAN8814_F_BASIC_CTRL_SOFT_RESET;
     MEPA_MSLEEP 1;
     WR dev LAN8814_BASIC_CONTROL (LAN8814_F_BASIC_CTRL_SPEED_SEL_BIT_1 OR
       LAN8814_F_BASIC_CTRL_DUP_MODE OR LAN8814_F_BASIC_CTRL_RESTART_ANEG OR
       LAN8814_F_BASIC_CTRL_ANEG_ENA);
     MEPA_MSLEEP 10;
     (if sti_speed info = MEPA_SPEED_1G then do {
        WR dev LAN8814_RESV_CON_LOOP 0xfc08;
        WR dev LAN8814_ANEG_MSTR_SLV_CTRL (LAN8814_F_ANEG_MSTR_SLV_CTRL_1000_T_FULL_DUP OR
          LAN8814_F_ANEG_MSTR_SLV_CTRL_CFG_VAL OR LAN8814_F_ANEG_MSTR_SLV_CTRL_CFG_ENA) }
      else do {
        v \<leftarrow> RD dev LAN8814_GPHY_DBG_CTL1;
        let v = v AND NOT LAN8814_F_MDI_SET;
        let v = (if sti_mdi info = MEPA_MEDIA_MODE_MDI
                 then (v OR LAN8814_F_MDI_SET) OR LAN8814_F_SWAPOFF else v OR LAN8814_F_SWAPOFF);
        WRM dev LAN8814_GPHY_DBG_CTL1 v LAN8814_DEF_MASK });
     WR dev LAN8814_BASIC_CONTROL
       (if sti_speed info = MEPA_SPEED_1G
        then LAN8814_F_BASIC_CTRL_DUP_MODE OR LAN8814_F_BASIC_CTRL_SPEED_SEL_BIT_1
        else if sti_speed info = MEPA_SPEED_100M
        then LAN8814_F_BASIC_CTRL_DUP_MODE OR LAN8814_F_BASIC_CTRL_SPEED_SEL_BIT_0
        else LAN8814_F_BASIC_CTRL_DUP_MODE);
     State_Monad.return () }"

definition selftest_run :: "nat \<Rightarrow> mepa_selftest_info \<Rightarrow> ('h, mepa_rc) lan" where
  "selftest_run dev info = do {
     MEPA_MSLEEP 500;
     EP_WR dev LAN8814_SELFTEST_FRAME_CNT 0;
     EP_WR dev LAN8814_SELFTEST_PKT_CNT_LO (ucast (sti_frames info AND 0xFFFF));
     EP_WR dev LAN8814_SELFTEST_PKT_CNT_HI (ucast (drop_bit 16 (sti_frames info AND 0xFFFF0000)));
     EP_WR dev LAN8814_SELFTEST_FRAME_CNT LAN8814_F_SELFTEST_FRAME_CNT_EN;
     EP_WR dev LAN8814_SELFTEST_EN_REG 0;
     EP_WR dev LAN8814_SELFTEST_EN_REG (LAN8814_F_SELFTEST_RX_CRC_CHK_EN OR
       LAN8814_F_SELFTEST_TX_CRC_CHK_EN OR LAN8814_F_SELFTEST_EN);
     EP_WR dev LAN8814_SELFTEST_PGEN_EN LAN8814_F_SELFTEST_PGEN_EN;
     State_Monad.return MEPA_RC_OK }"

definition lan8814_selftest_start_int :: "nat \<Rightarrow> mepa_selftest_info option \<Rightarrow> ('h, mepa_rc) lan" where
  "lan8814_selftest_start_int dev info = (case info of
      None \<Rightarrow> State_Monad.return MEPA_RC_ERROR
    | Some info \<Rightarrow>
       if sti_speed info \<noteq> MEPA_SPEED_1G \<and> sti_mdi info = MEPA_MEDIA_MODE_AUTO
       then State_Monad.return MEPA_RC_ERROR else do {
       v \<leftarrow> EP_RD dev LAN8814_SELFTEST_PGEN_EN 0;
       if has_bits v LAN8814_F_SELFTEST_PGEN_EN then State_Monad.return MEPA_RC_ERROR else do {
       selftest_config dev info;
       link_up \<leftarrow> selftest_wait_link dev 100;
       if \<not> link_up then do {
         lan8814_restore_config_int dev;
         State_Monad.return MEPA_RC_ERROR }
       else selftest_run dev info }})"

definition lan8814_selftest_start :: "nat \<Rightarrow> mepa_selftest_info option \<Rightarrow> ('h, mepa_rc) lan" where
  "lan8814_selftest_start dev info = do {
     MEPA_ENTER dev;
     rc \<leftarrow> lan8814_selftest_start_int dev info;
     MEPA_EXIT dev;
     State_Monad.return rc }"

text \<open>A 32-bit counter from two extended registers.\<close>

definition hi_lo :: "16 word \<Rightarrow> 16 word \<Rightarrow> 32 word" where
  "hi_lo hi lo = push_bit 16 (ucast hi) OR ucast lo"

definition selftest_counters ::
  "nat \<Rightarrow> mepa_selftest_info \<Rightarrow> ('h, mepa_selftest_info) lan" where
  "selftest_counters dev info = do {
     v \<leftarrow> RD dev LAN8814_GPHY_DBG_CTL1;
     let info = info\<lparr>sti_mdi := (if has_bits v LAN8814_F_MDI_SET then MEPA_MEDIA_MODE_MDI
       else if has_bits v LAN8814_F_SWAPOFF then MEPA_MEDIA_MODE_MDIX else MEPA_MEDIA_MODE_AUTO)\<rparr>;
     v \<leftarrow> RD dev LAN8814_BASIC_CONTROL;
     let info = info\<lparr>sti_speed := (if has_bits v LAN8814_F_BASIC_CTRL_SPEED_SEL_BIT_0
       then MEPA_SPEED_100M
       else if has_bits v LAN8814_F_BASIC_CTRL_SPEED_SEL_BIT_1 then MEPA_SPEED_1G
       else MEPA_SPEED_10M)\<rparr>;
     hi \<leftarrow> EP_RD dev LAN8814_SELFTEST_PKT_CNT_HI v;
     lo \<leftarrow> EP_RD dev LAN8814_SELFTEST_PKT_CNT_LO hi;
     let info = info\<lparr>sti_frames := hi_lo hi lo\<rparr>;
     lo \<leftarrow> EP_RD dev LAN8814_SELFTEST_GOOD_CNT_LO 0;
     hi \<leftarrow> EP_RD dev LAN8814_SELFTEST_GOOD_CNT_HI 0;
     let info = info\<lparr>sti_good_cnt := hi_lo hi lo\<rparr>;
     lo \<leftarrow> EP_RD dev LAN8814_SELFTEST_ERR_CNT_LO 0;
     hi \<leftarrow> EP_RD dev LAN8814_SELFTEST_ERR_CNT_HI 0;
     State_Monad.return (info\<lparr>sti_err_cnt := hi_lo hi lo\<rparr>) }"

definition selftest_done :: "mepa_selftest_info \<Rightarrow> bool" where
  "selftest_done info = (sti_frames info \<noteq> 0 \<and> sti_frames info = sti_good_cnt info + sti_err_cnt info)"

definition lan8814_selftest_read ::
  "nat \<Rightarrow> mepa_selftest_info option \<Rightarrow> ('h, mepa_rc \<times> mepa_selftest_info option) lan" where
  "lan8814_selftest_read dev info = (case info of
      None \<Rightarrow> State_Monad.return (MEPA_RC_ERROR, None)
    | Some info \<Rightarrow> do {
       let info = info\<lparr>sti_frames := 0, sti_good_cnt := 0, sti_err_cnt := 0\<rparr>;
       MEPA_ENTER dev;
       v \<leftarrow> EP_RD dev LAN8814_SELFTEST_PGEN_EN 0;
       (rc, info) \<leftarrow>
         (if \<not> has_bits v LAN8814_F_SELFTEST_PGEN_EN
          then State_Monad.return (MEPA_RC_ERROR, info) else do {
          info \<leftarrow> selftest_counters dev info;
          only_if (selftest_done info) (lan8814_selftest_stop dev);
          State_Monad.return (MEPA_RC_OK, info) });
       MEPA_EXIT dev;
       State_Monad.return (rc, Some info) })"

section \<open>PRBS7\<close>

definition lan8814_serdes_set :: "nat \<Rightarrow> 16 word \<Rightarrow> 16 word \<Rightarrow> bool \<Rightarrow> ('h, mepa_rc) lan" where
  "lan8814_serdes_set dev addr data op_rd = do {
     EP_WR dev LAN8814_SERDES_CR_ADDR addr;
     (if \<not> op_rd then do {
        EP_WR dev LAN8814_SERDES_CR_DATA data;
        v \<leftarrow> EP_RD dev LAN8814_SERDES_CR_CONTROL 0;
        EP_WR dev LAN8814_SERDES_CR_CONTROL
          (v OR (LAN8814_F_SERDES_CR_CONTROL_1 OR LAN8814_F_SERDES_CR_CONTROL_0));
        State_Monad.return () }
      else do {
        v \<leftarrow> EP_RD dev LAN8814_SERDES_CR_CONTROL 0;
        let v = v AND NOT LAN8814_F_SERDES_CR_CONTROL_1;
        let v = v OR LAN8814_F_SERDES_CR_CONTROL_0;
        EP_WR dev LAN8814_SERDES_CR_CONTROL v;
        EP_RD dev LAN8814_SERDES_CR_DATA v;
        State_Monad.return () });
     State_Monad.return MEPA_RC_OK }"

text \<open>Address, data, and whether the step is a read.\<close>

type_synonym serd_set = "16 word \<times> 16 word \<times> bool"

fun serdes_sets :: "nat \<Rightarrow> serd_set list \<Rightarrow> ('h, mepa_rc) lan" where
  "serdes_sets dev [] = State_Monad.return MEPA_RC_OK"
| "serdes_sets dev ((addr, data, op_rd) # ss) = do {
     rc \<leftarrow> lan8814_serdes_set dev addr data op_rd;
     if rc < 0 then State_Monad.return rc else serdes_sets dev ss }"

definition prbs7_init_settings :: "serd_set list" where
  "prbs7_init_settings = [
    (0x1018, 0x0aa8, False), (0x1018, 0x0550, False), (0x0011, 0x004c, False),
    (0x0011, 0x084c, False), (0x1001, 0x0040, False), (0x1001, 0x00c0, False),
    (0x1006, 0x1000, False), (0x1006, 0x3000, False), (0x0011, 0x084e, False),
    (0x1000, 0x0200, False), (0x1000, 0x0280, False), (0x1005, 0x0008, False),
    (0x1005, 0x0028, False), (0x1000, 0x02a0, False), (0x0015, 0x0000, False),
    (0x0015, 0x1000, False), (0x0012, 0x0000, False), (0x0012, 0x0200, False),
    (0x0013, 0x0000, False), (0x0013, 0x0000, False), (0x0013, 0x2000, False),
    (0x1001, 0x00c0, False), (0x1001, 0x00c4, False), (0x1006, 0x3000, False),
    (0x1006, 0x3004, False), (0x0012, 0x8200, False), (0x0015, 0x5000, False),
    (0x0015, 0x5009, False), (0x0015, 0x5029, False), (0x0015, 0x5429, False),
    (0x1002, 0x007f, False), (0x1002, 0x0c7f, False), (0x1002, 0x4c7f, False),
    (0x1003, 0x0000, False), (0x1003, 0x0020, False), (0x0003, 0x0010, False),
    (0x0003, 0x0012, False), (0x0003, 0x0010, False), (0x1001, 0x01c4, False),
    (0x1001, 0x03c4, False), (0x1006, 0x3004, False), (0x1006, 0x3084, False),
    (0x1006, 0x3284, False), (0x1006, 0x3a84, False), (0x1006, 0x3a9c, False),
    (0x1006, 0x3abc, False), (0x1005, 0x0028, False), (0x1005, 0x0228, False),
    (0x1005, 0x0228, False), (0x1005, 0x022a, False), (0x1005, 0x122a, False),
    (0x1005, 0x322a, False), (0x1005, 0x326a, False), (0x1005, 0x32ea, False),
    (0x1005, 0x36ea, False), (0x1005, 0x3eea, False), (0x0012, 0x8600, False),
    (0x0012, 0x8200, False), (0x1015, 0x03e0, False), (0x1015, 0x03e6, False),
    (0x1001, 0x0384, False), (0x1006, 0x2abc, False), (0x1005, 0x3eee, False),
    (0x1005, 0x3efe, False), (0x101c, 0x0000, True), (0x1005, 0x3ebe, False),
    (0x1015, 0x25c6, False)]"

definition prbs7_clk125_settings :: "serd_set list" where
  "prbs7_clk125_settings = [
    (0x0010, 0x0001, False), (0x0011, 0x08a2, False), (0x0011, 0x0aa2, False),
    (0x0011, 0x0aa3, False)]"

definition prbs7_clk25_settings :: "serd_set list" where
  "prbs7_clk25_settings = [
    (0x0010, 0x0000, False), (0x0011, 0x0992, False), (0x0011, 0x0b92, False),
    (0x0011, 0x0b93, False)]"

definition prbs7_loopback_settings :: "serd_set list" where
  "prbs7_loopback_settings = [
    (0x1000, 0x02a1, False), (0x1000, 0x02a3, False), (0x1000, 0x02a3, False),
    (0x1000, 0x0aa3, False), (0x1000, 0x0aa3, False), (0x1000, 0x2aa3, False),
    (0x1000, 0x2aa3, False), (0x1000, 0x2aab, False), (0x1000, 0x2bab, False),
    (0x1000, 0x2beb, False), (0x1000, 0x2bfb, False)]"

definition prbs7_enable_settings :: "serd_set list" where
  "prbs7_enable_settings = [
    (0x1015, 0x0000, False), (0x1015, 0x25c4, False), (0x1016, 0x0004, False),
    (0x1016, 0x0004, False), (0x1016, 0x0014, False), (0x1016, 0x0004, False),
    (0x1016, 0x0014, False), (0x1016, 0x0004, False)]"

definition lan8814_prbs7_init :: "nat \<Rightarrow> ('h, mepa_rc) lan" where
  "lan8814_prbs7_init dev = serdes_sets dev prbs7_init_settings"

definition lan8814_prbs7_clk :: "nat \<Rightarrow> mepa_prbs_clock \<Rightarrow> ('h, mepa_rc) lan" where
  "lan8814_prbs7_clk dev clk = do {
     v \<leftarrow> EP_RD dev LAN8814_SERDES_CLOCK_CONF 0;
     if clk = MEPA_PRBS_CLK125_MHZ \<and> v = 0x0016 then serdes_sets dev prbs7_clk125_settings
     else if clk = MEPA_PRBS_CLK25_MHZ \<and> v = 0x0006 then serdes_sets dev prbs7_clk25_settings
     else State_Monad.return MEPA_RC_ERROR }"

definition lan8814_prbs7_loopback :: "nat \<Rightarrow> mepa_prbs_loopback \<Rightarrow> ('h, mepa_rc) lan" where
  "lan8814_prbs7_loopback dev loopback =
    (if loopback = MEPA_PRBS_INTERNAL_LOOPBACK then serdes_sets dev prbs7_loopback_settings
     else State_Monad.return MEPA_RC_ERROR)"

definition lan8814_prbs7_enable :: "nat \<Rightarrow> ('h, mepa_rc) lan" where
  "lan8814_prbs7_enable dev = serdes_sets dev prbs7_enable_settings"

definition lan8814_prbs7_set ::
  "nat \<Rightarrow> bool \<Rightarrow> mepa_prbs_clock \<Rightarrow> mepa_prbs_loopback \<Rightarrow> ('h, mepa_rc) lan" where
  "lan8814_prbs7_set dev enable clk loopback =
    (if enable then
       MEPA_RC (lan8814_prbs7_init dev) (
       MEPA_RC (lan8814_prbs7_loopback dev loopback) (
       MEPA_RC (lan8814_prbs7_clk dev clk) (
       MEPA_RC (lan8814_prbs7_enable dev) (State_Monad.return MEPA_RC_OK))))
     else
       MEPA_RC (lan8814_serdes_set dev 0x1015 0x0000 False) (do {
         EP_WR dev LAN8814_QSGMII_HARD_RESET 0x1;
         State_Monad.return MEPA_RC_OK }))"

text \<open>
  The values \<open>CNT\<close> of the two enumerations are their numbers of members, so
  \<open>type >= CNT\<close> is equality with it.
\<close>

definition lan8814_prbs_set ::
  "nat \<Rightarrow> mepa_phy_prbs_type \<Rightarrow> mepa_phy_prbs_direction \<Rightarrow>
    mepa_phy_prbs_generator_conf option \<Rightarrow> ('h, mepa_rc) lan" where
  "lan8814_prbs_set dev type direction prbs_conf = (case prbs_conf of
      None \<Rightarrow> State_Monad.return MEPA_RC_ERROR
    | Some prbs_conf \<Rightarrow>
       if type = MEPA_PHY_PRBS_TYPE_CNT \<or> direction = MEPA_PHY_DIRECTION_CNT
       then State_Monad.return MEPA_RC_ERROR
       else if direction = MEPA_PHY_DIRECTION_HOST \<and> type = MEPA_PHY_PRBS_TYPE_SERDES \<and>
               prbs_prbsn_sel prbs_conf = MEPA_PRBS7 then do {
         MEPA_ENTER dev;
         rc \<leftarrow> lan8814_prbs7_set dev (prbs_enable prbs_conf) (prbs_clk prbs_conf)
           (prbs_loopback prbs_conf);
         MEPA_EXIT dev;
         upd_data dev (\<lambda>d. d\<lparr>pd_prbs_conf := prbs_conf\<rparr>);
         State_Monad.return (if rc < 0 then rc else MEPA_RC_OK) }
       else State_Monad.return MEPA_RC_ERROR)"

definition lan8814_prbs_get ::
  "nat \<Rightarrow> mepa_phy_prbs_type \<Rightarrow> mepa_phy_prbs_direction \<Rightarrow>
    ('h, mepa_rc \<times> mepa_phy_prbs_generator_conf) lan" where
  "lan8814_prbs_get dev type direction = do {
     MEPA_ENTER dev;
     data \<leftarrow> data_of dev;
     MEPA_EXIT dev;
     State_Monad.return (MEPA_RC_OK, pd_prbs_conf data) }"

definition lan8814_prbs_monitor_set ::
  "nat \<Rightarrow> mepa_phy_prbs_monitor_conf \<Rightarrow> ('h, mepa_rc) lan" where
  "lan8814_prbs_monitor_set dev value =
    (if pmon_prbsn_sel value = MEPA_PRBS7 then do {
       MEPA_ENTER dev;
       rc \<leftarrow> lan8814_serdes_set dev 0x1015 0x0014 False;
       MEPA_EXIT dev;
       State_Monad.return rc }
     else State_Monad.return MEPA_RC_ERROR)"

definition lan8814_prbs_monitor_get ::
  "nat \<Rightarrow> mepa_phy_prbs_monitor_conf \<Rightarrow> ('h, mepa_rc \<times> mepa_phy_prbs_monitor_conf) lan" where
  "lan8814_prbs_monitor_get dev value =
    (if pmon_prbsn_sel value = MEPA_PRBS7 then do {
       MEPA_ENTER dev;
       EP_WR dev LAN8814_SERDES_CR_ADDR 0x1017;
       v \<leftarrow> EP_RD dev LAN8814_SERDES_CR_CONTROL 0;
       let v = v AND NOT LAN8814_F_SERDES_CR_CONTROL_1;
       let v = v OR LAN8814_F_SERDES_CR_CONTROL_0;
       EP_WR dev LAN8814_SERDES_CR_CONTROL v;
       v \<leftarrow> EP_RD dev LAN8814_SERDES_CR_DATA v;
       let value = value\<lparr>pmon_no_of_errors := ucast v\<rparr>;
       MEPA_EXIT dev;
       State_Monad.return (MEPA_RC_OK, value) }
     else State_Monad.return (MEPA_RC_ERROR, value))"

end
