(* ===== verification/Lan8814_Poll.thy ===== *)
theory Lan8814_Poll
  imports Lan8814_Conf_Spec
begin

text \<open>
  The status poll of the LAN8814 driver (\<open>lan8814_poll\<close> of \<open>lan8814.c\<close>) with its
  workarounds: downshift, the restart of a stuck auto-negotiation (MEPA-555), the CRC
  workaround at 1G, the DSP soft reset at forced 100M (MEPA-503), and what happens
  when the link changes.  The status structure is an in/out parameter: fields that a
  path does not assign keep the caller's values.  The local variable \<open>val\<close> is live at
  the label \<open>end\<close>, so the helpers return it with the status.
\<close>

section \<open>Parts of the poll\<close>

text \<open>Speed and duplex from the basic control register.\<close>

definition poll_ctrl_speed :: "16 word \<Rightarrow> mepa_port_speed" where
  "poll_ctrl_speed val2 =
    (let speed = (if has_bits val2 LAN8814_F_BASIC_CTRL_SPEED_SEL_BIT_0 then 1 else 0) OR
           push_bit 1 (if has_bits val2 LAN8814_F_BASIC_CTRL_SPEED_SEL_BIT_1 then 1 else 0 :: 8 word)
     in if speed = 0 then MEPA_SPEED_10M
        else if speed = 1 then MEPA_SPEED_100M
        else if speed = 2 then MEPA_SPEED_1G else MEPA_SPEED_UNDEFINED)"

definition poll_ctrl_status :: "16 word \<Rightarrow> mepa_status \<Rightarrow> mepa_status" where
  "poll_ctrl_status val2 status = status\<lparr>st_speed := poll_ctrl_speed val2,
     st_fdx := has_bits val2 LAN8814_F_BASIC_CTRL_DUP_MODE\<rparr>"

text \<open>The port is powered down.\<close>

definition poll_disabled :: "nat \<Rightarrow> ('h, mepa_status) lan" where
  "poll_disabled dev = do {
     let status = mepa_status_0;
     upd_data dev (\<lambda>d. d\<lparr>pd_link_status := st_link status, pd_speed_status := st_speed status,
       pd_fdx_status := st_fdx status, pd_loop_cnt := 0, pd_aneg_flag := False,
       pd_dsh_complete := False\<rparr>);
     State_Monad.return status }"

text \<open>
  Downshift.  The threshold is an enumeration, so the product and the comparison are
  32-bit unsigned.
\<close>

definition poll_downshift :: "nat \<Rightarrow> bool \<Rightarrow> 16 word \<Rightarrow> 16 word \<Rightarrow> ('h, unit) lan" where
  "poll_downshift dev link val2 val3 = do {
     data \<leftarrow> data_of dev;
     only_if (dsh_enable (pd_dsh_conf data) \<and> \<not> link \<and>
         (has_bits val2 LAN8814_F_1000T_SPEED_STATUS \<and> has_bits val3 LAN8814_F_LINK_DET \<and>
          pd_aneg_flag data) \<and> \<not> pd_dsh_complete data) (do {
       upd_data dev (\<lambda>d. d\<lparr>pd_loop_cnt := pd_loop_cnt d + 1\<rparr>);
       data \<leftarrow> data_of dev;
       only_if (ucast (pd_loop_cnt data) >
           dsh_thr_cnt (pd_dsh_conf data) * (ucast (pd_rep_cnt data) :: 32 word)) (do {
         lan8814_downshift dev;
         upd_data dev (\<lambda>d. d\<lparr>pd_loop_cnt := 0, pd_aneg_flag := False\<rparr>) }) }) }"

text \<open>The restart of a stuck auto-negotiation; the counter is 8 bits wide.\<close>

definition poll_aneg_stuck :: "nat \<Rightarrow> bool \<Rightarrow> 16 word \<Rightarrow> 16 word \<Rightarrow> ('h, unit) lan" where
  "poll_aneg_stuck dev link v val3 = do {
     data \<leftarrow> data_of dev;
     only_if (\<not> link \<and> \<not> has_bits v LAN8814_F_BASIC_STATUS_ANEG_COMPLETE \<and>
         has_bits val3 LAN8814_F_SIG_DET \<and> \<not> pd_aneg_flag data) (do {
       upd_data dev (\<lambda>d. d\<lparr>pd_loop_cnt := pd_loop_cnt d + 1\<rparr>);
       data \<leftarrow> data_of dev;
       only_if (unat (pd_loop_cnt data) > 2 * unat (pd_rep_cnt data)) (do {
         upd_data dev (\<lambda>d. d\<lparr>pd_loop_cnt := 0\<rparr>);
         WRM dev LAN8814_BASIC_CONTROL LAN8814_F_BASIC_CTRL_RESTART_ANEG
           LAN8814_F_BASIC_CTRL_RESTART_ANEG;
         upd_data dev (\<lambda>d. d\<lparr>pd_aneg_flag := True\<rparr>) }) }) }"

text \<open>The CRC workaround: the link is only reported after one restart of auto-negotiation.\<close>

definition poll_crc :: "nat \<Rightarrow> mepa_status \<Rightarrow> 16 word \<Rightarrow> ('h, mepa_status) lan" where
  "poll_crc dev status val2 = do {
     data \<leftarrow> data_of dev;
     if \<not> (has_bits val2 LAN8814_F_ANEG_MSTR_SLV_LOCAL_RCVR_STATUS \<and>
          has_bits val2 LAN8814_F_ANEG_MSTR_SLV_REMOTE_RCVR_STATUS) \<or> \<not> pd_post_mac_rst data
     then State_Monad.return (status\<lparr>st_link := False\<rparr>)
     else if \<not> pd_aneg_after_link_up data then do {
       WRM dev LAN8814_BASIC_CONTROL LAN8814_F_BASIC_CTRL_RESTART_ANEG
         LAN8814_F_BASIC_CTRL_RESTART_ANEG;
       upd_data dev (\<lambda>d. d\<lparr>pd_aneg_after_link_up := True, pd_loop_cnt := 0\<rparr>);
       State_Monad.return (status\<lparr>st_link := False\<rparr>) }
     else if pd_aneg_after_link_up data then do {
       upd_data dev (\<lambda>d. d\<lparr>pd_crc_workaround := False, pd_aneg_after_link_up := False\<rparr>);
       State_Monad.return (status\<lparr>st_speed := MEPA_SPEED_1G, st_fdx := True\<rparr>) }
     else State_Monad.return (status\<lparr>st_link := False\<rparr>) }"

text \<open>Speed and duplex from what the link partner advertises.\<close>

definition poll_partner :: "nat \<Rightarrow> mepa_status \<Rightarrow> 16 word \<Rightarrow> 16 word \<Rightarrow> ('h, mepa_status) lan" where
  "poll_partner dev status v val2 = do {
     data \<leftarrow> data_of dev;
     let aneg = conf_aneg (pd_conf data);
     if (has_bits val2 LAN8814_F_ANEG_MSTR_SLV_STATUS_1000_T_FULL_DUP \<and> adv_speed_1g_fdx aneg) \<and>
        \<not> pd_dsh_complete data then
       if pd_crc_workaround data then poll_crc dev status val2
       else State_Monad.return (status\<lparr>st_speed := MEPA_SPEED_1G, st_fdx := True\<rparr>)
     else if has_bits v LAN8814_F_ANEG_LP_BASE_100_X_FULL_DUP \<and> adv_speed_100m_fdx aneg then
       State_Monad.return (status\<lparr>st_speed := MEPA_SPEED_100M, st_fdx := True\<rparr>)
     else if has_bits v LAN8814_F_ANEG_LP_BASE_100_X_HALF_DUP \<and> adv_speed_100m_hdx aneg then
       State_Monad.return (status\<lparr>st_speed := MEPA_SPEED_100M, st_fdx := False\<rparr>)
     else if has_bits v LAN8814_F_ANEG_LP_BASE_10_T_FULL_DUP \<and> adv_speed_10m_fdx aneg then
       State_Monad.return (status\<lparr>st_speed := MEPA_SPEED_10M, st_fdx := True\<rparr>)
     else if has_bits v LAN8814_F_ANEG_LP_BASE_10_T_HALF_DUP \<and> adv_speed_10m_hdx aneg then
       State_Monad.return (status\<lparr>st_speed := MEPA_SPEED_10M, st_fdx := False\<rparr>)
     else State_Monad.return status }"

definition poll_pause :: "bool \<Rightarrow> 16 word \<Rightarrow> mepa_status \<Rightarrow> mepa_status" where
  "poll_pause flow_control v status =
    (let lp_sym_pause = has_bits v LAN8814_F_ANEG_LP_BASE_SYM_PAUSE;
         lp_asym_pause = has_bits v LAN8814_F_ANEG_LP_BASE_ASYM_PAUSE
     in status\<lparr>st_aneg :=
       \<lparr>aneg_obey_pause = flow_control \<and> (lp_sym_pause \<or> lp_asym_pause),
        aneg_generate_pause = flow_control \<and> lp_sym_pause\<rparr>\<rparr>)"

text \<open>Auto-negotiation; \<open>v\<close> is the basic status register.\<close>

definition poll_aneg_link :: "bool \<Rightarrow> 16 word \<Rightarrow> mepa_status \<Rightarrow> mepa_status" where
  "poll_aneg_link near_end v status =
    (let status = status\<lparr>st_speed := MEPA_SPEED_UNDEFINED, st_fdx := True\<rparr>
     in if \<not> near_end \<and> st_link status \<and> \<not> has_bits v LAN8814_F_BASIC_STATUS_ANEG_COMPLETE
        then status\<lparr>st_link := False\<rparr>
        else if near_end then status\<lparr>st_speed := MEPA_SPEED_1G\<rparr> else status)"

definition poll_aneg :: "nat \<Rightarrow> mepa_status \<Rightarrow> 16 word \<Rightarrow> ('h, mepa_status \<times> 16 word) lan" where
  "poll_aneg dev status v = do {
     data \<leftarrow> data_of dev;
     let status = poll_aneg_link (lb_near_end_ena (pd_loopback data)) v status;
     val3 \<leftarrow> RD dev LAN8814_DIGITAL_AX_AN_STATUS;
     val2 \<leftarrow> RD dev LAN8814_CONTROL;
     poll_downshift dev (st_link status) val2 val3;
     poll_aneg_stuck dev (st_link status) v val3;
     if \<not> st_link status \<or> lb_near_end_ena (pd_loopback data) then State_Monad.return (status, v)
     else do {
       v \<leftarrow> RD dev LAN8814_ANEG_LP_BASE;
       val2 \<leftarrow> RD dev LAN8814_ANEG_MSTR_SLV_STATUS;
       status \<leftarrow> poll_partner dev status v val2;
       State_Monad.return (poll_pause (conf_flow_control (pd_conf data)) v status, v) }}"

text \<open>Forced speed.\<close>

definition poll_forced :: "nat \<Rightarrow> mepa_status \<Rightarrow> ('h, mepa_status \<times> 16 word) lan" where
  "poll_forced dev status = do {
     val2 \<leftarrow> RD dev LAN8814_BASIC_CONTROL;
     let status = poll_ctrl_status val2 status;
     val2 \<leftarrow> RD dev LAN8814_DIGITAL_AX_AN_STATUS;
     v \<leftarrow> RD dev LAN8814_CONTROL;
     if st_speed status = MEPA_SPEED_100M \<and> (has_bits val2 LAN8814_F_LINK_DET \<and> \<not> st_link status)
     then do {
       data \<leftarrow> data_of dev;
       let loop_cnt = pd_loop_cnt data;
       upd_data dev (\<lambda>d. d\<lparr>pd_loop_cnt := pd_loop_cnt d + 1\<rparr>);
       if unat loop_cnt > 2 * unat (pd_rep_cnt data) then do {
         let v = v OR LAN8814_F_CONTROL_SOFT_RESET;
         WRM dev LAN8814_CONTROL v LAN8814_F_CONTROL_SOFT_RESET;
         upd_data dev (\<lambda>d. d\<lparr>pd_loop_cnt := 0\<rparr>);
         State_Monad.return (status, v) }
       else State_Monad.return (status, v) }
     else State_Monad.return (status, v) }"

text \<open>The label \<open>end\<close>: what happens when the link changes.\<close>

definition poll_link_up :: "nat \<Rightarrow> mepa_status \<Rightarrow> ('h, unit) lan" where
  "poll_link_up dev status = do {
     data \<leftarrow> data_of dev;
     only_if ((conf_speed (pd_conf data) = MEPA_SPEED_AUTO \<or>
               conf_speed (pd_conf data) = MEPA_SPEED_1G) \<and> conf_mac_if_aneg_ena (pd_conf data)) (
       lan8814_qsgmii_tx_abilities dev (st_speed status) (st_fdx status));
     only_if (is_10_100 (st_speed status) \<and> \<not> st_fdx status) (
       lan8814_workaround_half_duplex dev) }"

definition poll_link_down :: "nat \<Rightarrow> 16 word \<Rightarrow> ('h, unit) lan" where
  "poll_link_down dev v = do {
     lan8814_workaround_fifo_reset dev;
     data \<leftarrow> data_of dev;
     only_if (pd_dsh_complete data) (do {
       let v = v OR (LAN8814_F_ANEG_MSTR_SLV_CTRL_CFG_VAL OR
                     LAN8814_F_ANEG_MSTR_SLV_CTRL_1000_T_FULL_DUP);
       WRM dev LAN8814_ANEG_MSTR_SLV_CTRL v
         (LAN8814_F_ANEG_MSTR_SLV_CTRL_1000_T_FULL_DUP OR LAN8814_F_ANEG_MSTR_SLV_CTRL_CFG_VAL);
       upd_data dev (\<lambda>d. d\<lparr>pd_loop_cnt := 0, pd_dsh_complete := False,
         pd_aneg_after_link_up := False\<rparr>) }) }"

definition poll_end :: "nat \<Rightarrow> mepa_status \<Rightarrow> 16 word \<Rightarrow> ('h, unit) lan" where
  "poll_end dev status v = do {
     data \<leftarrow> data_of dev;
     only_if (lan8814_is_lan8814 data \<and> st_link status \<noteq> pd_link_status data) (do {
       (if st_link status then poll_link_up dev status else poll_link_down dev v);
       upd_data dev (\<lambda>d. d\<lparr>pd_loop_cnt := 0, pd_aneg_flag := False\<rparr>) });
     upd_data dev (\<lambda>d. d\<lparr>pd_link_status := st_link status, pd_speed_status := st_speed status,
       pd_fdx_status := st_fdx status\<rparr>) }"

section \<open>The poll\<close>

definition poll_enabled :: "nat \<Rightarrow> mepa_status \<Rightarrow> ('h, mepa_status) lan" where
  "poll_enabled dev status = do {
     v \<leftarrow> RD dev LAN8814_BASIC_STATUS;
     let status = status\<lparr>st_link := has_bits v LAN8814_F_BASIC_STATUS_LINK_STATUS\<rparr>;
     data \<leftarrow> data_of dev;
     let status = (if lb_near_end_ena (pd_loopback data) then status\<lparr>st_link := True\<rparr> else status);
     (status, v) \<leftarrow>
       (if \<not> lb_near_end_ena (pd_loopback data) \<and> lb_connector_ena (pd_loopback data) then do {
          val2 \<leftarrow> RD dev LAN8814_BASIC_CONTROL;
          State_Monad.return (poll_ctrl_status val2 status, v) }
        else if conf_speed (pd_conf data) = MEPA_SPEED_AUTO \<or>
                conf_speed (pd_conf data) = MEPA_SPEED_1G
        then poll_aneg dev status v
        else poll_forced dev status);
     poll_end dev status v;
     State_Monad.return status }"

definition lan8814_poll :: "nat \<Rightarrow> mepa_status \<Rightarrow> ('h, mepa_rc \<times> mepa_status) lan" where
  "lan8814_poll dev status = do {
     MEPA_ENTER dev;
     data \<leftarrow> data_of dev;
     status \<leftarrow> (if \<not> conf_admin_enable (pd_conf data) then poll_disabled dev
                else poll_enabled dev status);
     MEPA_EXIT dev;
     State_Monad.return (MEPA_RC_OK, status) }"

section \<open>The functions keep an invariant of the world\<close>

context lan8814_invariant
begin

lemma keeps_poll_parts:
  "keeps I (poll_disabled p)" "keeps I (poll_downshift p l v v')" "keeps I (poll_aneg_stuck p l v v')"
  "keeps I (poll_crc p st v)" "keeps I (poll_link_up p st)" "keeps I (poll_link_down p v)"
  "keeps I (poll_forced p st)"
  unfolding poll_disabled_def poll_downshift_def poll_aneg_stuck_def poll_crc_def poll_link_up_def
    poll_link_down_def poll_forced_def
  by (intro conf_keeps)+

lemma keeps_poll_partner: "keeps I (poll_partner p st v v')"
  unfolding poll_partner_def by (intro conf_keeps keeps_poll_parts)

lemma keeps_poll_enabled: "keeps I (poll_enabled p st)"
  unfolding poll_enabled_def poll_aneg_def poll_end_def
  by (intro conf_keeps keeps_poll_parts keeps_poll_partner)

end

end
