(* ===== verification/Lan8814_Lock.thy ===== *)
theory Lan8814_Lock
  imports Lan8814_Diag Lan8814_Poll
begin

text \<open>
  Locking and NULL-safety of the operations of the LAN8814 driver.  Every internal
  function keeps every invariant of the bus accesses (the locale \<open>lan8814_invariant\<close>);
  an operation that wraps them in \<open>MEPA_ENTER\<close> and \<open>MEPA_EXIT\<close> follows the lock
  protocol (the locale \<open>lan8814_locking\<close>).
\<close>

section \<open>Internal functions\<close>

context lan8814_bus
begin

lemma keeps_led: "keeps I (lan8814_led_mode_set p m n)"
  unfolding lan8814_led_mode_set_def by (intro conf_bus)

lemma keeps_gpio_pin_set: "keeps I (gpio_pin_set p n e d)"
  unfolding gpio_pin_set_def by (intro conf_bus)

lemma keeps_gpio_mode_private: "keeps I (lan8814_gpio_mode_private p c)"
  unfolding lan8814_gpio_mode_private_def
  by (intro conf_bus keeps_led keeps_gpio_pin_set)

lemma keeps_loopback:
  "keeps I (loopback_far p old new)" "keeps I (loopback_restore_aneg p c)"
  "keeps I (loopback_force_1g p)" "keeps I (loopback_bit p r b o1 n1)"
  unfolding loopback_far_def loopback_restore_aneg_def loopback_force_1g_def loopback_bit_def
  by (intro conf_bus)+

lemma keeps_loopback_near: "keeps I (loopback_near p c old new)"
  unfolding loopback_near_def by (intro conf_bus keeps_loopback)

lemma keeps_loopback_connector: "keeps I (loopback_connector p c old new)"
  unfolding loopback_connector_def by (intro conf_bus keeps_loopback)

lemma keeps_wait_cable_diag: "keeps I (wait_cable_diag p n)"
  by (induction n) (auto intro!: conf_bus)

lemma keeps_cab_diag_enter: "keeps I (lan8814_cab_diag_enter_config p)"
  unfolding lan8814_cab_diag_enter_config_def by (intro conf_bus)

lemma keeps_selftest_wait_link: "keeps I (selftest_wait_link p n)"
  by (induction n) (auto intro!: conf_bus)

lemma keeps_selftest_config: "keeps I (selftest_config p i)"
  unfolding selftest_config_def by (intro conf_bus)

lemma keeps_selftest_run: "keeps I (selftest_run p i)"
  unfolding selftest_run_def by (intro conf_bus)

lemma keeps_selftest_counters: "keeps I (selftest_counters p i)"
  unfolding selftest_counters_def by (intro conf_bus)

lemma keeps_serdes_set: "keeps I (lan8814_serdes_set p a d r)"
  unfolding lan8814_serdes_set_def by (intro conf_bus)

lemma keeps_serdes_sets: "keeps I (serdes_sets p ss)"
  by (induction p ss rule: serdes_sets.induct) (auto intro!: conf_bus keeps_serdes_set)

lemma keeps_prbs7_set: "keeps I (lan8814_prbs7_set p e c l)"
  unfolding lan8814_prbs7_set_def lan8814_prbs7_init_def lan8814_prbs7_clk_def
    lan8814_prbs7_loopback_def lan8814_prbs7_enable_def
  by (intro conf_bus keeps_serdes_set keeps_serdes_sets)

lemmas all_bus = conf_bus keeps_led keeps_gpio_pin_set keeps_gpio_mode_private keeps_loopback
  keeps_loopback_near keeps_loopback_connector keeps_wait_cable_diag keeps_cab_diag_enter
  keeps_selftest_wait_link keeps_selftest_config keeps_selftest_run keeps_selftest_counters
  keeps_serdes_set keeps_serdes_sets keeps_prbs7_set

end

context lan8814_invariant
begin

lemma keeps_sof_apply: "keeps I (sof_apply p c sel pin)"
  unfolding sof_apply_def by (intro conf_keeps all_bus)

lemma keeps_sof_conf_set_int: "keeps I (sof_conf_set_int p c)"
  unfolding sof_conf_set_int_def by (intro conf_keeps keeps_sof_apply)

lemma keeps_cab_diag_pair: "keeps I (cab_diag_pair p i)"
  unfolding cab_diag_pair_def lan8814_wait_for_cable_diagnostics_def
  by (intro conf_keeps keeps_wait_cable_diag)

lemma keeps_restore_config_int: "keeps I (lan8814_restore_config_int p)"
  unfolding lan8814_restore_config_int_def by (intro conf_keeps)

lemma keeps_cab_diag_start_int: "keeps I (lan8814_cab_diag_start_int p m)"
  unfolding lan8814_cab_diag_start_int_def
  by (intro conf_keeps keeps_cab_diag_pair keeps_restore_config_int keeps_cab_diag_enter)

lemma keeps_selftest_start_int: "keeps I (lan8814_selftest_start_int p i)"
  unfolding lan8814_selftest_start_int_def
  by (intro conf_keeps keeps_selftest_wait_link keeps_selftest_config keeps_selftest_run
      keeps_restore_config_int)

lemmas all_keeps = conf_keeps all_bus keeps_poll_parts keeps_poll_enabled keeps_sof_apply
  keeps_sof_conf_set_int keeps_cab_diag_start_int keeps_selftest_start_int

end

section \<open>Operations\<close>

text \<open>
  What an operation relies on: the lock of its device, and that the update of private
  data needs no lock.
\<close>

locale lan8814_locking = lock_protocol Held Free p0 + lan8814_invariant Held
  for Held :: "('h, phy_data) world \<Rightarrow> bool" and Free and p0 +
  assumes free_upd: "keeps Free (upd_data p f)"
begin

lemma moves_free_upd: "(\<And>x. moves Free (f x) R) \<Longrightarrow>
    moves Free (State_Monad.bind (upd_data p g) f) R"
  by (rule moves_bind [OF free_upd])

lemmas op_moves = moves_return moves_let moves_if moves_case_option moves_case_prod
  moves_data_of moves_dev_of moves_enter moves_exit moves_free_upd moves_step all_keeps

lemma keeps_op_lan8814_reset: "keeps Free (lan8814_reset p0 r)"
  unfolding lan8814_reset_def by (intro op_moves)

lemma keeps_op_lan8814_poll: "keeps Free (lan8814_poll p0 s)"
  unfolding lan8814_poll_def by (intro op_moves)

lemma keeps_op_lan8814_conf_set: "keeps Free (lan8814_conf_set p0 c)"
  unfolding lan8814_conf_set_def by (intro op_moves)

lemma keeps_op_lan8814_conf_get: "keeps Free (lan8814_conf_get p0)"
  unfolding lan8814_conf_get_def by (intro op_moves)

lemma keeps_op_lan8814_if_set: "keeps Free (lan8814_if_set p0 i)"
  unfolding lan8814_if_set_def by (intro op_moves)

lemma keeps_op_lan8814_if_get: "keeps Free (lan8814_if_get p0 sp)"
  unfolding lan8814_if_get_def by (intro op_moves)

lemma keeps_op_mas_if_set: "keeps Free (mas_if_set p0 i)"
  unfolding mas_if_set_def by (intro op_moves)

lemma keeps_op_mas_if_get: "keeps Free (mas_if_get p0 sp)"
  unfolding mas_if_get_def by (intro op_moves)

lemma keeps_op_lan8814_aneg_status_get: "keeps Free (lan8814_aneg_status_get p0)"
  unfolding lan8814_aneg_status_get_def by (intro op_moves)

lemma keeps_op_lan8814_direct_reg_read: "keeps Free (lan8814_direct_reg_read p0 a)"
  unfolding lan8814_direct_reg_read_def by (intro op_moves)

lemma keeps_op_lan8814_direct_reg_write: "keeps Free (lan8814_direct_reg_write p0 a v)"
  unfolding lan8814_direct_reg_write_def by (intro op_moves)

lemma keeps_op_lan8814_ext_mmd_reg_read: "keeps Free (lan8814_ext_mmd_reg_read p0 a v)"
  unfolding lan8814_ext_mmd_reg_read_def by (intro op_moves)

lemma keeps_op_lan8814_ext_mmd_reg_write: "keeps Free (lan8814_ext_mmd_reg_write p0 a v)"
  unfolding lan8814_ext_mmd_reg_write_def by (intro op_moves)

lemma keeps_op_lan8814_event_enable_set: "keeps Free (lan8814_event_enable_set p0 e b)"
  unfolding lan8814_event_enable_set_def by (intro op_moves)

lemma keeps_op_lan8814_event_enable_get: "keeps Free (lan8814_event_enable_get p0)"
  unfolding lan8814_event_enable_get_def by (intro op_moves)

lemma keeps_op_lan8814_event_status_poll: "keeps Free (lan8814_event_status_poll p0)"
  unfolding lan8814_event_status_poll_def by (intro op_moves)

lemma keeps_op_lan8814_gpio_mode_set: "keeps Free (lan8814_gpio_mode_set p0 g)"
  unfolding lan8814_gpio_mode_set_def by (intro op_moves)

lemma keeps_op_lan8814_gpio_out_set: "keeps Free (lan8814_gpio_out_set p0 n b)"
  unfolding lan8814_gpio_out_set_def by (intro op_moves)

lemma keeps_op_lan8814_gpio_in_get: "keeps Free (lan8814_gpio_in_get p0 n b)"
  unfolding lan8814_gpio_in_get_def by (intro op_moves)

lemma keeps_op_lan8814_capability: "keeps Free (lan8814_capability p0 k)"
  unfolding lan8814_capability_def by (intro op_moves)

lemma keeps_op_lan8814_info_get: "keeps Free (lan8814_info_get p0 inf0)"
  unfolding lan8814_info_get_def by (intro op_moves)

lemma keeps_op_lan8814_eee_mode_conf_set: "keeps Free (lan8814_eee_mode_conf_set p0 ec)"
  unfolding lan8814_eee_mode_conf_set_def by (intro op_moves)

lemma keeps_op_lan8814_eee_mode_conf_get: "keeps Free (lan8814_eee_mode_conf_get p0)"
  unfolding lan8814_eee_mode_conf_get_def by (intro op_moves)

lemma keeps_op_lan8814_cab_diag_start: "keeps Free (lan8814_cab_diag_start p0 m)"
  unfolding lan8814_cab_diag_start_def by (intro op_moves)

lemma keeps_op_lan8814_cab_diag_get: "keeps Free (lan8814_cab_diag_get p0)"
  unfolding lan8814_cab_diag_get_def by (intro op_moves)

lemma keeps_op_lan8814_loopback_set: "keeps Free (lan8814_loopback_set p0 lb)"
  unfolding lan8814_loopback_set_def by (intro op_moves)

lemma keeps_op_lan8814_loopback_get: "keeps Free (lan8814_loopback_get p0)"
  unfolding lan8814_loopback_get_def by (intro op_moves)

lemma keeps_op_lan8814_recovered_clk_set: "keeps Free (lan8814_recovered_clk_set p0 sc)"
  unfolding lan8814_recovered_clk_set_def by (intro op_moves)

lemma keeps_op_lan8814_isolate_mode_conf: "keeps Free (lan8814_isolate_mode_conf p0 b)"
  unfolding lan8814_isolate_mode_conf_def by (intro op_moves)

lemma keeps_op_lan8814_sqi_read: "keeps Free (lan8814_sqi_read p0 q)"
  unfolding lan8814_sqi_read_def by (intro op_moves)

lemma keeps_op_lan8814_start_of_frame_conf_set: "keeps Free (lan8814_start_of_frame_conf_set p0 sf)"
  unfolding lan8814_start_of_frame_conf_set_def by (intro op_moves)

lemma keeps_op_lan8814_start_of_frame_conf_get: "keeps Free (lan8814_start_of_frame_conf_get p0)"
  unfolding lan8814_start_of_frame_conf_get_def by (intro op_moves)

lemma keeps_op_lan8842_start_of_frame_conf_set: "keeps Free (lan8842_start_of_frame_conf_set p0 sf)"
  unfolding lan8842_start_of_frame_conf_set_def by (intro op_moves)

lemma keeps_op_lan8814_framepreempt_get: "keeps Free (lan8814_framepreempt_get p0 fv)"
  unfolding lan8814_framepreempt_get_def by (intro op_moves)

lemma keeps_op_lan8814_framepreempt_set: "keeps Free (lan8814_framepreempt_set p0 b)"
  unfolding lan8814_framepreempt_set_def by (intro op_moves)

lemma keeps_op_lan8814_selftest_start: "keeps Free (lan8814_selftest_start p0 si)"
  unfolding lan8814_selftest_start_def by (intro op_moves)

lemma keeps_op_lan8814_selftest_read: "keeps Free (lan8814_selftest_read p0 si)"
  unfolding lan8814_selftest_read_def by (intro op_moves)

lemma keeps_op_lan8814_prbs_set: "keeps Free (lan8814_prbs_set p0 ty di pc)"
  unfolding lan8814_prbs_set_def by (intro op_moves)

lemma keeps_op_lan8814_prbs_get: "keeps Free (lan8814_prbs_get p0 ty di)"
  unfolding lan8814_prbs_get_def by (intro op_moves)

lemma keeps_op_lan8814_prbs_monitor_set: "keeps Free (lan8814_prbs_monitor_set p0 mc)"
  unfolding lan8814_prbs_monitor_set_def by (intro op_moves)

lemma keeps_op_lan8814_prbs_monitor_get: "keeps Free (lan8814_prbs_monitor_get p0 mc)"
  unfolding lan8814_prbs_monitor_get_def by (intro op_moves)

lemma keeps_op_lan8814_serdes_tx_conf_set: "keeps Free (lan8814_serdes_tx_conf_set p0 tx)"
  unfolding lan8814_serdes_tx_conf_set_def by (intro op_moves)

lemma keeps_op_lan8842_if_set: "keeps Free (lan8842_if_set p0 i)"
  unfolding lan8842_if_set_def by (intro op_moves)

lemma keeps_op_lan8842_if_get: "keeps Free (lan8842_if_get p0 sp)"
  unfolding lan8842_if_get_def by (intro op_moves)

lemma keeps_op_lan8814_downshift_conf_set: "keeps Free (lan8814_downshift_conf_set p0 dc)"
  unfolding lan8814_downshift_conf_set_def by (intro op_moves)

lemma keeps_op_lan8842_info_get: "keeps Free (lan8842_info_get p0 inf0)"
  unfolding lan8842_info_get_def lan8842_get_device_info_def by (intro op_moves)

lemma keeps_op_lan8814_link_base_port: "keeps Free (lan8814_link_base_port p0 (Some b) i)"
  unfolding lan8814_link_base_port_def by (simp only: option.distinct if_False, intro op_moves)

lemma keeps_op_lan8814_rep_count_set: "keeps Free (lan8814_rep_count_set p0 n)"
  unfolding lan8814_rep_count_set_def by (intro op_moves)

lemmas ops_keep = keeps_op_lan8814_reset keeps_op_lan8814_poll keeps_op_lan8814_conf_set
  keeps_op_lan8814_conf_get keeps_op_lan8814_if_set keeps_op_lan8814_if_get keeps_op_mas_if_set
  keeps_op_mas_if_get keeps_op_lan8814_aneg_status_get keeps_op_lan8814_direct_reg_read
  keeps_op_lan8814_direct_reg_write keeps_op_lan8814_ext_mmd_reg_read
  keeps_op_lan8814_ext_mmd_reg_write keeps_op_lan8814_event_enable_set
  keeps_op_lan8814_event_enable_get keeps_op_lan8814_event_status_poll
  keeps_op_lan8814_gpio_mode_set keeps_op_lan8814_gpio_out_set keeps_op_lan8814_gpio_in_get
  keeps_op_lan8814_capability keeps_op_lan8814_info_get keeps_op_lan8814_eee_mode_conf_set
  keeps_op_lan8814_eee_mode_conf_get keeps_op_lan8814_cab_diag_start
  keeps_op_lan8814_cab_diag_get keeps_op_lan8814_loopback_set keeps_op_lan8814_loopback_get
  keeps_op_lan8814_recovered_clk_set keeps_op_lan8814_isolate_mode_conf keeps_op_lan8814_sqi_read
  keeps_op_lan8814_start_of_frame_conf_set keeps_op_lan8814_start_of_frame_conf_get
  keeps_op_lan8842_start_of_frame_conf_set keeps_op_lan8814_framepreempt_get
  keeps_op_lan8814_framepreempt_set keeps_op_lan8814_selftest_start
  keeps_op_lan8814_selftest_read keeps_op_lan8814_prbs_set keeps_op_lan8814_prbs_get
  keeps_op_lan8814_prbs_monitor_set keeps_op_lan8814_prbs_monitor_get
  keeps_op_lan8814_serdes_tx_conf_set keeps_op_lan8842_if_set keeps_op_lan8842_if_get
  keeps_op_lan8814_downshift_conf_set keeps_op_lan8842_info_get keeps_op_lan8814_link_base_port
  keeps_op_lan8814_rep_count_set

end

text \<open>The lock automaton and the absence of NULL calls are such protocols.\<close>

interpretation lan_lock: lan8814_locking "lock_held dv p" "lock_free dv p" p
  for dv :: "nat \<Rightarrow> 'h mepa_device" and p :: nat
  by (intro lan8814_locking.intro lan8814_locking_axioms.intro lan8814_invariant.intro lan8814_bus.intro
      lock.lock_protocol_axioms held.world_invariant_axioms held.bus_invariant_axioms)
    (simp add: moves_def lock_free_def)

interpretation lan_safe: lan8814_locking "no_crash dv" "no_crash dv" p
  for dv :: "nat \<Rightarrow> 'h mepa_device" and p :: nat
  by (intro lan8814_locking.intro lan8814_locking_axioms.intro lan8814_invariant.intro lan8814_bus.intro
      safe.lock_protocol_axioms safe_bus.world_invariant_axioms safe_bus.bus_invariant_axioms
      safe_bus.keeps_upd_data)

end
