(* ===== verification/Lan8814_Ts_Regs.thy ===== *)
theory Lan8814_Ts_Regs
  imports Lan8814_Regs
begin

text \<open>
  The timestamping registers of the LAN8814 (\<open>lan8814_ts_registers.h\<close>) that
  \<open>lan8814_ts.c\<close> uses, their bits, and the macros that place a value in a field.
\<close>

section \<open>Registers and bits\<close>

abbreviation (input) LAN8814_1588_PLL_DIVEDER :: ereg where
  "LAN8814_1588_PLL_DIVEDER \<equiv> (4, 323)"
abbreviation (input) LAN8814_PTP_CMD_CTL :: ereg where "LAN8814_PTP_CMD_CTL \<equiv> (4, 512)"
abbreviation (input) LAN8814_PTP_CMD_CTL_LTC_STEP_NANOSECONDS :: "16 word" where
  "LAN8814_PTP_CMD_CTL_LTC_STEP_NANOSECONDS \<equiv> 0x40"
abbreviation (input) LAN8814_PTP_CMD_CTL_LTC_LOAD :: "16 word" where
  "LAN8814_PTP_CMD_CTL_LTC_LOAD \<equiv> 0x10"
abbreviation (input) LAN8814_PTP_CMD_CTL_LTC_READ :: "16 word" where
  "LAN8814_PTP_CMD_CTL_LTC_READ \<equiv> 0x8"
abbreviation (input) LAN8814_PTP_CMD_CTL_LTC_TEMP_RATE_SEL :: "16 word" where
  "LAN8814_PTP_CMD_CTL_LTC_TEMP_RATE_SEL \<equiv> 0x4"
abbreviation (input) LAN8814_PTP_CMD_CTL_ENABLE :: "16 word" where
  "LAN8814_PTP_CMD_CTL_ENABLE \<equiv> 0x2"
abbreviation (input) LAN8814_PTP_GENERAL_CONFIG :: ereg where
  "LAN8814_PTP_GENERAL_CONFIG \<equiv> (4, 513)"
abbreviation (input) LAN8814_PTP_REF_CLK_CFG :: ereg where
  "LAN8814_PTP_REF_CLK_CFG \<equiv> (4, 514)"
abbreviation (input) LAN8814_PTP_REF_CLK_CFG_REF_CLK_PERIOD_OVERRIDE :: "16 word" where
  "LAN8814_PTP_REF_CLK_CFG_REF_CLK_PERIOD_OVERRIDE \<equiv> 0x200"
abbreviation (input) LAN8814_PTP_LTC_SET_SEC_HI :: ereg where
  "LAN8814_PTP_LTC_SET_SEC_HI \<equiv> (4, 517)"
abbreviation (input) LAN8814_PTP_LTC_SET_SEC_MID :: ereg where
  "LAN8814_PTP_LTC_SET_SEC_MID \<equiv> (4, 518)"
abbreviation (input) LAN8814_PTP_LTC_SET_SEC_LO :: ereg where
  "LAN8814_PTP_LTC_SET_SEC_LO \<equiv> (4, 519)"
abbreviation (input) LAN8814_PTP_LTC_SET_NS_HI :: ereg where
  "LAN8814_PTP_LTC_SET_NS_HI \<equiv> (4, 520)"
abbreviation (input) LAN8814_PTP_LTC_SET_NS_LO :: ereg where
  "LAN8814_PTP_LTC_SET_NS_LO \<equiv> (4, 521)"
abbreviation (input) LAN8814_PTP_LTC_RATE_ADJ_HI :: ereg where
  "LAN8814_PTP_LTC_RATE_ADJ_HI \<equiv> (4, 524)"
abbreviation (input) LAN8814_PTP_LTC_RATE_ADJ_HI_DIR :: "16 word" where
  "LAN8814_PTP_LTC_RATE_ADJ_HI_DIR \<equiv> 0x8000"
abbreviation (input) LAN8814_PTP_LTC_RATE_ADJ_LO :: ereg where
  "LAN8814_PTP_LTC_RATE_ADJ_LO \<equiv> (4, 525)"
abbreviation (input) LAN8814_PTP_LTC_STEP_ADJ_HI :: ereg where
  "LAN8814_PTP_LTC_STEP_ADJ_HI \<equiv> (4, 530)"
abbreviation (input) LAN8814_PTP_LTC_STEP_ADJ_DIR :: "16 word" where
  "LAN8814_PTP_LTC_STEP_ADJ_DIR \<equiv> 0x8000"
abbreviation (input) LAN8814_PTP_LTC_STEP_ADJ_LO :: ereg where
  "LAN8814_PTP_LTC_STEP_ADJ_LO \<equiv> (4, 531)"
abbreviation (input) LAN8814_PTP_LTC_EXT_ADJ_CFG :: ereg where
  "LAN8814_PTP_LTC_EXT_ADJ_CFG \<equiv> (4, 532)"
abbreviation (input) LAN8814_PTP_LTC_EXT_ADJ_MODE :: "16 word" where
  "LAN8814_PTP_LTC_EXT_ADJ_MODE \<equiv> 0x10"
abbreviation (input) LAN8814_PTP_LTC_EXT_ADJ_LOAD_EN :: "16 word" where
  "LAN8814_PTP_LTC_EXT_ADJ_LOAD_EN \<equiv> 0x1"
abbreviation (input) LAN8814_PTP_LTC_TARGET_SEC_HI_A :: ereg where
  "LAN8814_PTP_LTC_TARGET_SEC_HI_A \<equiv> (4, 533)"
abbreviation (input) LAN8814_PTP_LTC_TARGET_SEC_LO_A :: ereg where
  "LAN8814_PTP_LTC_TARGET_SEC_LO_A \<equiv> (4, 534)"
abbreviation (input) LAN8814_PTP_LTC_TARGET_NS_HI_A :: ereg where
  "LAN8814_PTP_LTC_TARGET_NS_HI_A \<equiv> (4, 535)"
abbreviation (input) LAN8814_PTP_LTC_TARGET_NS_LO_A :: ereg where
  "LAN8814_PTP_LTC_TARGET_NS_LO_A \<equiv> (4, 536)"
abbreviation (input) LAN8814_PTP_LTC_TARGET_RELOAD_SEC_HI_A :: ereg where
  "LAN8814_PTP_LTC_TARGET_RELOAD_SEC_HI_A \<equiv> (4, 537)"
abbreviation (input) LAN8814_PTP_LTC_TARGET_RELOAD_SEC_LO_A :: ereg where
  "LAN8814_PTP_LTC_TARGET_RELOAD_SEC_LO_A \<equiv> (4, 538)"
abbreviation (input) LAN8814_PTP_LTC_TARGET_RELOAD_NS_HI_A :: ereg where
  "LAN8814_PTP_LTC_TARGET_RELOAD_NS_HI_A \<equiv> (4, 539)"
abbreviation (input) LAN8814_PTP_LTC_TARGET_RELOAD_NS_LO_A :: ereg where
  "LAN8814_PTP_LTC_TARGET_RELOAD_NS_LO_A \<equiv> (4, 540)"
abbreviation (input) LAN8814_PTP_LTC_TARGET_SEC_HI_B :: ereg where
  "LAN8814_PTP_LTC_TARGET_SEC_HI_B \<equiv> (4, 543)"
abbreviation (input) LAN8814_PTP_LTC_TARGET_SEC_LO_B :: ereg where
  "LAN8814_PTP_LTC_TARGET_SEC_LO_B \<equiv> (4, 544)"
abbreviation (input) LAN8814_PTP_LTC_TARGET_NS_HI_B :: ereg where
  "LAN8814_PTP_LTC_TARGET_NS_HI_B \<equiv> (4, 545)"
abbreviation (input) LAN8814_PTP_LTC_TARGET_NS_LO_B :: ereg where
  "LAN8814_PTP_LTC_TARGET_NS_LO_B \<equiv> (4, 546)"
abbreviation (input) LAN8814_PTP_LTC_TARGET_RELOAD_SEC_HI_B :: ereg where
  "LAN8814_PTP_LTC_TARGET_RELOAD_SEC_HI_B \<equiv> (4, 547)"
abbreviation (input) LAN8814_PTP_LTC_TARGET_RELOAD_SEC_LO_B :: ereg where
  "LAN8814_PTP_LTC_TARGET_RELOAD_SEC_LO_B \<equiv> (4, 548)"
abbreviation (input) LAN8814_PTP_LTC_TARGET_RELOAD_NS_HI_B :: ereg where
  "LAN8814_PTP_LTC_TARGET_RELOAD_NS_HI_B \<equiv> (4, 549)"
abbreviation (input) LAN8814_PTP_LTC_TARGET_RELOAD_NS_LO_B :: ereg where
  "LAN8814_PTP_LTC_TARGET_RELOAD_NS_LO_B \<equiv> (4, 550)"
abbreviation (input) LAN8814_PTP_LTC_RD_SEC_HI :: ereg where
  "LAN8814_PTP_LTC_RD_SEC_HI \<equiv> (4, 553)"
abbreviation (input) LAN8814_PTP_LTC_RD_SEC_MID :: ereg where
  "LAN8814_PTP_LTC_RD_SEC_MID \<equiv> (4, 554)"
abbreviation (input) LAN8814_PTP_LTC_RD_SEC_LO :: ereg where
  "LAN8814_PTP_LTC_RD_SEC_LO \<equiv> (4, 555)"
abbreviation (input) LAN8814_PTP_LTC_RD_NS_HI :: ereg where
  "LAN8814_PTP_LTC_RD_NS_HI \<equiv> (4, 556)"
abbreviation (input) LAN8814_PTP_LTC_RD_NS_LO :: ereg where
  "LAN8814_PTP_LTC_RD_NS_LO \<equiv> (4, 557)"
abbreviation (input) LAN8814_PTP_LTC_RD_SUBNS_HI :: ereg where
  "LAN8814_PTP_LTC_RD_SUBNS_HI \<equiv> (4, 558)"
abbreviation (input) LAN8814_PTP_LTC_RD_SUBNS_LO :: ereg where
  "LAN8814_PTP_LTC_RD_SUBNS_LO \<equiv> (4, 559)"
abbreviation (input) LAN8814_PTP_GPIO_CAP_MAP_LO :: ereg where
  "LAN8814_PTP_GPIO_CAP_MAP_LO \<equiv> (4, 562)"
abbreviation (input) LAN8814_PTP_GPIO_CAP_0_MAP :: "16 word" where
  "LAN8814_PTP_GPIO_CAP_0_MAP \<equiv> 0xf"
abbreviation (input) LAN8814_PTP_GPIO_CAP_EN :: ereg where
  "LAN8814_PTP_GPIO_CAP_EN \<equiv> (4, 563)"
abbreviation (input) LAN8814_PTP_GPIO_RE_CAPTURE_EN :: "16 word" where
  "LAN8814_PTP_GPIO_RE_CAPTURE_EN \<equiv> 0xff"
abbreviation (input) LAN8814_PTP_GPIO_CAP_LOCK :: ereg where
  "LAN8814_PTP_GPIO_CAP_LOCK \<equiv> (4, 564)"
abbreviation (input) LAN8814_PTP_GPIO_RE_CLOCK_SEC_HI :: ereg where
  "LAN8814_PTP_GPIO_RE_CLOCK_SEC_HI \<equiv> (4, 565)"
abbreviation (input) LAN8814_PTP_GPIO_RE_CLOCK_SEC_LO :: ereg where
  "LAN8814_PTP_GPIO_RE_CLOCK_SEC_LO \<equiv> (4, 566)"
abbreviation (input) LAN8814_PTP_GPIO_RE_CLOCK_NS_HI :: ereg where
  "LAN8814_PTP_GPIO_RE_CLOCK_NS_HI \<equiv> (4, 567)"
abbreviation (input) LAN8814_PTP_GPIO_RE_CLOCK_NS_LO :: ereg where
  "LAN8814_PTP_GPIO_RE_CLOCK_NS_LO \<equiv> (4, 568)"
abbreviation (input) LAN8814_PTP_LTC_HARD_RESET :: ereg where
  "LAN8814_PTP_LTC_HARD_RESET \<equiv> (4, 575)"
abbreviation (input) LAN8814_PTP_LTC_HARD_RESET_CMD :: "16 word" where
  "LAN8814_PTP_LTC_HARD_RESET_CMD \<equiv> 0x1"
abbreviation (input) LAN8814_PTP_LTC_SOFT_RESET :: ereg where
  "LAN8814_PTP_LTC_SOFT_RESET \<equiv> (4, 576)"
abbreviation (input) LAN8814_PTP_OPERATING_MODE :: ereg where
  "LAN8814_PTP_OPERATING_MODE \<equiv> (4, 577)"
abbreviation (input) LAN8814_PTP_OPERATING_MODE_VAL :: "16 word" where
  "LAN8814_PTP_OPERATING_MODE_VAL \<equiv> 0x3"
abbreviation (input) LAN8814_PTP_TSU_INT_TX_TS_OVRFL_EN :: "16 word" where
  "LAN8814_PTP_TSU_INT_TX_TS_OVRFL_EN \<equiv> 0x8"
abbreviation (input) LAN8814_PTP_TSU_INT_TX_TS_EN :: "16 word" where
  "LAN8814_PTP_TSU_INT_TX_TS_EN \<equiv> 0x4"
abbreviation (input) LAN8814_PTP_TSU_INT_STS :: ereg where
  "LAN8814_PTP_TSU_INT_STS \<equiv> (5, 513)"
abbreviation (input) LAN8814_PTP_TX_TS_OVRFL_INT :: "16 word" where
  "LAN8814_PTP_TX_TS_OVRFL_INT \<equiv> 0x8"
abbreviation (input) LAN8814_PTP_TX_TS_INT :: "16 word" where "LAN8814_PTP_TX_TS_INT \<equiv> 0x4"
abbreviation (input) LAN8814_PTP_RX_USER_MAC_HI :: ereg where
  "LAN8814_PTP_RX_USER_MAC_HI \<equiv> (5, 515)"
abbreviation (input) LAN8814_PTP_RX_USER_MAC_MID :: ereg where
  "LAN8814_PTP_RX_USER_MAC_MID \<equiv> (5, 516)"
abbreviation (input) LAN8814_PTP_RX_USER_MAC_LO :: ereg where
  "LAN8814_PTP_RX_USER_MAC_LO \<equiv> (5, 517)"
abbreviation (input) LAN8814_PTP_RX_USER_IP_ADDR_0 :: ereg where
  "LAN8814_PTP_RX_USER_IP_ADDR_0 \<equiv> (5, 518)"
abbreviation (input) LAN8814_PTP_RX_USER_IP_ADDR_1 :: ereg where
  "LAN8814_PTP_RX_USER_IP_ADDR_1 \<equiv> (5, 519)"
abbreviation (input) LAN8814_PTP_RX_USER_IP_ADDR_2 :: ereg where
  "LAN8814_PTP_RX_USER_IP_ADDR_2 \<equiv> (5, 520)"
abbreviation (input) LAN8814_PTP_RX_USER_IP_ADDR_3 :: ereg where
  "LAN8814_PTP_RX_USER_IP_ADDR_3 \<equiv> (5, 521)"
abbreviation (input) LAN8814_PTP_RX_USER_IP_ADDR_4 :: ereg where
  "LAN8814_PTP_RX_USER_IP_ADDR_4 \<equiv> (5, 522)"
abbreviation (input) LAN8814_PTP_RX_USER_IP_ADDR_5 :: ereg where
  "LAN8814_PTP_RX_USER_IP_ADDR_5 \<equiv> (5, 523)"
abbreviation (input) LAN8814_PTP_RX_USER_IP_ADDR_6 :: ereg where
  "LAN8814_PTP_RX_USER_IP_ADDR_6 \<equiv> (5, 524)"
abbreviation (input) LAN8814_PTP_RX_USER_IP_ADDR_7 :: ereg where
  "LAN8814_PTP_RX_USER_IP_ADDR_7 \<equiv> (5, 525)"
abbreviation (input) LAN8814_PTP_RX_USER_IP_MASK_0 :: ereg where
  "LAN8814_PTP_RX_USER_IP_MASK_0 \<equiv> (5, 526)"
abbreviation (input) LAN8814_PTP_RX_USER_IP_MASK_1 :: ereg where
  "LAN8814_PTP_RX_USER_IP_MASK_1 \<equiv> (5, 527)"
abbreviation (input) LAN8814_PTP_RX_USER_IP_MASK_2 :: ereg where
  "LAN8814_PTP_RX_USER_IP_MASK_2 \<equiv> (5, 528)"
abbreviation (input) LAN8814_PTP_RX_USER_IP_MASK_3 :: ereg where
  "LAN8814_PTP_RX_USER_IP_MASK_3 \<equiv> (5, 529)"
abbreviation (input) LAN8814_PTP_RX_USER_IP_MASK_4 :: ereg where
  "LAN8814_PTP_RX_USER_IP_MASK_4 \<equiv> (5, 530)"
abbreviation (input) LAN8814_PTP_RX_USER_IP_MASK_5 :: ereg where
  "LAN8814_PTP_RX_USER_IP_MASK_5 \<equiv> (5, 531)"
abbreviation (input) LAN8814_PTP_RX_USER_IP_MASK_6 :: ereg where
  "LAN8814_PTP_RX_USER_IP_MASK_6 \<equiv> (5, 532)"
abbreviation (input) LAN8814_PTP_RX_USER_IP_MASK_7 :: ereg where
  "LAN8814_PTP_RX_USER_IP_MASK_7 \<equiv> (5, 533)"
abbreviation (input) LAN8814_VLAN1_TYPE_ID :: ereg where "LAN8814_VLAN1_TYPE_ID \<equiv> (5, 535)"
abbreviation (input) LAN8814_VLAN1_ID_MASK :: ereg where "LAN8814_VLAN1_ID_MASK \<equiv> (5, 536)"
abbreviation (input) LAN8814_VLAN1_VID_RANGE_UP :: ereg where
  "LAN8814_VLAN1_VID_RANGE_UP \<equiv> (5, 537)"
abbreviation (input) LAN8814_VLAN1_VID_RANGE_EN :: "16 word" where
  "LAN8814_VLAN1_VID_RANGE_EN \<equiv> 0x1000"
abbreviation (input) LAN8814_VLAN1_VID_RANGE_LO :: ereg where
  "LAN8814_VLAN1_VID_RANGE_LO \<equiv> (5, 538)"
abbreviation (input) LAN8814_VLAN2_TYPE_ID :: ereg where "LAN8814_VLAN2_TYPE_ID \<equiv> (5, 539)"
abbreviation (input) LAN8814_VLAN2_ID_MASK :: ereg where "LAN8814_VLAN2_ID_MASK \<equiv> (5, 540)"
abbreviation (input) LAN8814_VLAN2_VID_RANGE_UP :: ereg where
  "LAN8814_VLAN2_VID_RANGE_UP \<equiv> (5, 541)"
abbreviation (input) LAN8814_VLAN2_VID_RANGE_EN :: "16 word" where
  "LAN8814_VLAN2_VID_RANGE_EN \<equiv> 0x1000"
abbreviation (input) LAN8814_VLAN2_VID_RANGE_LO :: ereg where
  "LAN8814_VLAN2_VID_RANGE_LO \<equiv> (5, 542)"
abbreviation (input) LAN8814_PTP_RX_LATENCY_10 :: ereg where
  "LAN8814_PTP_RX_LATENCY_10 \<equiv> (5, 544)"
abbreviation (input) LAN8814_PTP_TX_LATENCY_10 :: ereg where
  "LAN8814_PTP_TX_LATENCY_10 \<equiv> (5, 545)"
abbreviation (input) LAN8814_PTP_RX_LATENCY_100 :: ereg where
  "LAN8814_PTP_RX_LATENCY_100 \<equiv> (5, 546)"
abbreviation (input) LAN8814_PTP_TX_LATENCY_100 :: ereg where
  "LAN8814_PTP_TX_LATENCY_100 \<equiv> (5, 547)"
abbreviation (input) LAN8814_PTP_RX_LATENCY_1000 :: ereg where
  "LAN8814_PTP_RX_LATENCY_1000 \<equiv> (5, 548)"
abbreviation (input) LAN8814_PTP_TX_LATENCY_1000 :: ereg where
  "LAN8814_PTP_TX_LATENCY_1000 \<equiv> (5, 549)"
abbreviation (input) LAN8814_PTP_ASYM_DLY_HI :: ereg where
  "LAN8814_PTP_ASYM_DLY_HI \<equiv> (5, 550)"
abbreviation (input) LAN8814_PTP_ASYM_DLY_LO :: ereg where
  "LAN8814_PTP_ASYM_DLY_LO \<equiv> (5, 551)"
abbreviation (input) LAN8814_PTP_PEERDLY_HI :: ereg where
  "LAN8814_PTP_PEERDLY_HI \<equiv> (5, 552)"
abbreviation (input) LAN8814_PTP_PEERDLY_LO :: ereg where
  "LAN8814_PTP_PEERDLY_LO \<equiv> (5, 553)"
abbreviation (input) LAN8814_PTP_TX_USER_MAC_HI :: ereg where
  "LAN8814_PTP_TX_USER_MAC_HI \<equiv> (5, 555)"
abbreviation (input) LAN8814_PTP_TX_USER_MAC_MID :: ereg where
  "LAN8814_PTP_TX_USER_MAC_MID \<equiv> (5, 556)"
abbreviation (input) LAN8814_PTP_TX_USER_MAC_LO :: ereg where
  "LAN8814_PTP_TX_USER_MAC_LO \<equiv> (5, 557)"
abbreviation (input) LAN8814_PTP_TX_USER_IP_ADDR_0 :: ereg where
  "LAN8814_PTP_TX_USER_IP_ADDR_0 \<equiv> (5, 558)"
abbreviation (input) LAN8814_PTP_TX_USER_IP_ADDR_1 :: ereg where
  "LAN8814_PTP_TX_USER_IP_ADDR_1 \<equiv> (5, 559)"
abbreviation (input) LAN8814_PTP_TX_USER_IP_ADDR_2 :: ereg where
  "LAN8814_PTP_TX_USER_IP_ADDR_2 \<equiv> (5, 560)"
abbreviation (input) LAN8814_PTP_TX_USER_IP_ADDR_3 :: ereg where
  "LAN8814_PTP_TX_USER_IP_ADDR_3 \<equiv> (5, 561)"
abbreviation (input) LAN8814_PTP_TX_USER_IP_ADDR_4 :: ereg where
  "LAN8814_PTP_TX_USER_IP_ADDR_4 \<equiv> (5, 562)"
abbreviation (input) LAN8814_PTP_TX_USER_IP_ADDR_5 :: ereg where
  "LAN8814_PTP_TX_USER_IP_ADDR_5 \<equiv> (5, 563)"
abbreviation (input) LAN8814_PTP_TX_USER_IP_ADDR_6 :: ereg where
  "LAN8814_PTP_TX_USER_IP_ADDR_6 \<equiv> (5, 564)"
abbreviation (input) LAN8814_PTP_TX_USER_IP_ADDR_7 :: ereg where
  "LAN8814_PTP_TX_USER_IP_ADDR_7 \<equiv> (5, 565)"
abbreviation (input) LAN8814_PTP_TX_USER_IP_MASK_0 :: ereg where
  "LAN8814_PTP_TX_USER_IP_MASK_0 \<equiv> (5, 566)"
abbreviation (input) LAN8814_PTP_TX_USER_IP_MASK_1 :: ereg where
  "LAN8814_PTP_TX_USER_IP_MASK_1 \<equiv> (5, 567)"
abbreviation (input) LAN8814_PTP_TX_USER_IP_MASK_2 :: ereg where
  "LAN8814_PTP_TX_USER_IP_MASK_2 \<equiv> (5, 568)"
abbreviation (input) LAN8814_PTP_TX_USER_IP_MASK_3 :: ereg where
  "LAN8814_PTP_TX_USER_IP_MASK_3 \<equiv> (5, 569)"
abbreviation (input) LAN8814_PTP_TX_USER_IP_MASK_4 :: ereg where
  "LAN8814_PTP_TX_USER_IP_MASK_4 \<equiv> (5, 570)"
abbreviation (input) LAN8814_PTP_TX_USER_IP_MASK_5 :: ereg where
  "LAN8814_PTP_TX_USER_IP_MASK_5 \<equiv> (5, 571)"
abbreviation (input) LAN8814_PTP_TX_USER_IP_MASK_6 :: ereg where
  "LAN8814_PTP_TX_USER_IP_MASK_6 \<equiv> (5, 572)"
abbreviation (input) LAN8814_PTP_TX_USER_IP_MASK_7 :: ereg where
  "LAN8814_PTP_TX_USER_IP_MASK_7 \<equiv> (5, 573)"
abbreviation (input) LAN8814_PTP_RX_PARSE_CONFIG :: ereg where
  "LAN8814_PTP_RX_PARSE_CONFIG \<equiv> (5, 578)"
abbreviation (input) LAN8814_PTP_RX_PARSE_CONFIG_PEER_NONPEER_MIX :: "16 word" where
  "LAN8814_PTP_RX_PARSE_CONFIG_PEER_NONPEER_MIX \<equiv> 0x4000"
abbreviation (input) LAN8814_PTP_RX_PARSE_CONFIG_MAC_DA_EN :: "16 word" where
  "LAN8814_PTP_RX_PARSE_CONFIG_MAC_DA_EN \<equiv> 0x800"
abbreviation (input) LAN8814_PTP_RX_PARSE_CONFIG_UDP_SPORT_EN :: "16 word" where
  "LAN8814_PTP_RX_PARSE_CONFIG_UDP_SPORT_EN \<equiv> 0x40"
abbreviation (input) LAN8814_PTP_RX_PARSE_CONFIG_UDP_DPORT_EN :: "16 word" where
  "LAN8814_PTP_RX_PARSE_CONFIG_UDP_DPORT_EN \<equiv> 0x20"
abbreviation (input) LAN8814_PTP_RX_PARSE_CONFIG_IPV6_EN :: "16 word" where
  "LAN8814_PTP_RX_PARSE_CONFIG_IPV6_EN \<equiv> 0x4"
abbreviation (input) LAN8814_PTP_RX_PARSE_CONFIG_IPV4_EN :: "16 word" where
  "LAN8814_PTP_RX_PARSE_CONFIG_IPV4_EN \<equiv> 0x2"
abbreviation (input) LAN8814_PTP_RX_PARSE_CONFIG_LAYER2_EN :: "16 word" where
  "LAN8814_PTP_RX_PARSE_CONFIG_LAYER2_EN \<equiv> 0x1"
abbreviation (input) LAN8814_PTP_RX_PARSE_VLAN_CONFIG :: ereg where
  "LAN8814_PTP_RX_PARSE_VLAN_CONFIG \<equiv> (5, 579)"
abbreviation (input) LAN8814_PTP_RX_PARSE_VLAN_VLAN2_CHECK_EN :: "16 word" where
  "LAN8814_PTP_RX_PARSE_VLAN_VLAN2_CHECK_EN \<equiv> 0x2"
abbreviation (input) LAN8814_PTP_RX_PARSE_VLAN_VLAN1_CHECK_EN :: "16 word" where
  "LAN8814_PTP_RX_PARSE_VLAN_VLAN1_CHECK_EN \<equiv> 0x1"
abbreviation (input) LAN8814_PTP_RX_PARSE_L2_ADDR_EN :: ereg where
  "LAN8814_PTP_RX_PARSE_L2_ADDR_EN \<equiv> (5, 580)"
abbreviation (input) LAN8814_PTP_RX_PARSE_IP_ADDR_EN :: ereg where
  "LAN8814_PTP_RX_PARSE_IP_ADDR_EN \<equiv> (5, 581)"
abbreviation (input) LAN8814_PTP_RX_PARSE_IP_DA_EN :: "16 word" where
  "LAN8814_PTP_RX_PARSE_IP_DA_EN \<equiv> 0x2000"
abbreviation (input) LAN8814_PTP_RX_PARSE_UDP_SRC_PORT :: ereg where
  "LAN8814_PTP_RX_PARSE_UDP_SRC_PORT \<equiv> (5, 582)"
abbreviation (input) LAN8814_PTP_RX_PARSE_UDP_DEST_PORT :: ereg where
  "LAN8814_PTP_RX_PARSE_UDP_DEST_PORT \<equiv> (5, 583)"
abbreviation (input) LAN8814_PTP_RX_VERSION :: ereg where
  "LAN8814_PTP_RX_VERSION \<equiv> (5, 584)"
abbreviation (input) LAN8814_PTP_RX_DOMAIN_DOMAIN_LO :: ereg where
  "LAN8814_PTP_RX_DOMAIN_DOMAIN_LO \<equiv> (5, 585)"
abbreviation (input) LAN8814_PTP_RX_DOMAIN_DOMAIN_LO_RANGE_EN :: "16 word" where
  "LAN8814_PTP_RX_DOMAIN_DOMAIN_LO_RANGE_EN \<equiv> 0x8000"
abbreviation (input) LAN8814_PTP_RX_DOMAIN_MASK_DOMAIN_UP :: ereg where
  "LAN8814_PTP_RX_DOMAIN_MASK_DOMAIN_UP \<equiv> (5, 586)"
abbreviation (input) LAN8814_PTP_RX_TIMESTAMP_EN :: ereg where
  "LAN8814_PTP_RX_TIMESTAMP_EN \<equiv> (5, 589)"
abbreviation (input) LAN8814_PTP_RX_TIMESTAMP_CONFIG :: ereg where
  "LAN8814_PTP_RX_TIMESTAMP_CONFIG \<equiv> (5, 590)"
abbreviation (input) LAN8814_PTP_RX_PTP_ALT_MASTER_EN :: "16 word" where
  "LAN8814_PTP_RX_PTP_ALT_MASTER_EN \<equiv> 0x4"
abbreviation (input) LAN8814_PTP_RX_PTP_UDP_CHKSUM_DIS :: "16 word" where
  "LAN8814_PTP_RX_PTP_UDP_CHKSUM_DIS \<equiv> 0x2"
abbreviation (input) LAN8814_PTP_RX_MOD :: ereg where "LAN8814_PTP_RX_MOD \<equiv> (5, 591)"
abbreviation (input) LAN8814_PTP_RX_MOD_PTP_INSERT_TS_32BIT :: "16 word" where
  "LAN8814_PTP_RX_MOD_PTP_INSERT_TS_32BIT \<equiv> 0x2"
abbreviation (input) LAN8814_PTP_RX_MOD_PTP_INSERT_TS_EN :: "16 word" where
  "LAN8814_PTP_RX_MOD_PTP_INSERT_TS_EN \<equiv> 0x1"
abbreviation (input) LAN8814_PTP_RX_RSVD_BYTE_CFG :: ereg where
  "LAN8814_PTP_RX_RSVD_BYTE_CFG \<equiv> (5, 592)"
abbreviation (input) LAN8814_PTP_RX_TAIL_TAG :: ereg where
  "LAN8814_PTP_RX_TAIL_TAG \<equiv> (5, 593)"
abbreviation (input) LAN8814_PTP_RX_TAIL_TAG_ER_FORWARD :: "16 word" where
  "LAN8814_PTP_RX_TAIL_TAG_ER_FORWARD \<equiv> 0x100"
abbreviation (input) LAN8814_PTP_RX_TAIL_TAG_EN :: "16 word" where
  "LAN8814_PTP_RX_TAIL_TAG_EN \<equiv> 0x1"
abbreviation (input) LAN8814_PTP_RX_CF_MOD_EN :: ereg where
  "LAN8814_PTP_RX_CF_MOD_EN \<equiv> (5, 594)"
abbreviation (input) LAN8814_PTP_RX_CF_CFG :: ereg where "LAN8814_PTP_RX_CF_CFG \<equiv> (5, 595)"
abbreviation (input) LAN8814_PTP_RX_PTP_MAX_CF_DIS :: "16 word" where
  "LAN8814_PTP_RX_PTP_MAX_CF_DIS \<equiv> 0x2"
abbreviation (input) LAN8814_PTP_RX_PTP_CF_METHOD :: "16 word" where
  "LAN8814_PTP_RX_PTP_CF_METHOD \<equiv> 0x1"
abbreviation (input) LAN8814_PTP_RX_PDREQ_NS_HI :: ereg where
  "LAN8814_PTP_RX_PDREQ_NS_HI \<equiv> (5, 605)"
abbreviation (input) LAN8814_F_PTP_RX_PDREQ_AUTO_UPDATE :: "16 word" where
  "LAN8814_F_PTP_RX_PDREQ_AUTO_UPDATE \<equiv> 0x8000"
abbreviation (input) LAN8814_PTP_RX_CHKSUM_DROPPED_CNT_HI :: ereg where
  "LAN8814_PTP_RX_CHKSUM_DROPPED_CNT_HI \<equiv> (5, 610)"
abbreviation (input) LAN8814_PTP_RX_CHKSUM_DROPPED_CNT_LO :: ereg where
  "LAN8814_PTP_RX_CHKSUM_DROPPED_CNT_LO \<equiv> (5, 611)"
abbreviation (input) LAN8814_PTP_RX_FRMS_MOD_CNT_HI :: ereg where
  "LAN8814_PTP_RX_FRMS_MOD_CNT_HI \<equiv> (5, 612)"
abbreviation (input) LAN8814_PTP_RX_FRMS_MOD_CNT_LO :: ereg where
  "LAN8814_PTP_RX_FRMS_MOD_CNT_LO \<equiv> (5, 613)"
abbreviation (input) LAN8814_PTP_TX_PARSE_CONFIG :: ereg where
  "LAN8814_PTP_TX_PARSE_CONFIG \<equiv> (5, 642)"
abbreviation (input) LAN8814_PTP_TX_PARSE_CONFIG_PEER_NONPEER_MIX :: "16 word" where
  "LAN8814_PTP_TX_PARSE_CONFIG_PEER_NONPEER_MIX \<equiv> 0x4000"
abbreviation (input) LAN8814_PTP_TX_PARSE_CONFIG_MAC_DA_EN :: "16 word" where
  "LAN8814_PTP_TX_PARSE_CONFIG_MAC_DA_EN \<equiv> 0x800"
abbreviation (input) LAN8814_PTP_TX_PARSE_CONFIG_UDP_SPORT_EN :: "16 word" where
  "LAN8814_PTP_TX_PARSE_CONFIG_UDP_SPORT_EN \<equiv> 0x40"
abbreviation (input) LAN8814_PTP_TX_PARSE_CONFIG_UDP_DPORT_EN :: "16 word" where
  "LAN8814_PTP_TX_PARSE_CONFIG_UDP_DPORT_EN \<equiv> 0x20"
abbreviation (input) LAN8814_PTP_TX_PARSE_CONFIG_IPV6_EN :: "16 word" where
  "LAN8814_PTP_TX_PARSE_CONFIG_IPV6_EN \<equiv> 0x4"
abbreviation (input) LAN8814_PTP_TX_PARSE_CONFIG_IPV4_EN :: "16 word" where
  "LAN8814_PTP_TX_PARSE_CONFIG_IPV4_EN \<equiv> 0x2"
abbreviation (input) LAN8814_PTP_TX_PARSE_CONFIG_LAYER2_EN :: "16 word" where
  "LAN8814_PTP_TX_PARSE_CONFIG_LAYER2_EN \<equiv> 0x1"
abbreviation (input) LAN8814_PTP_TX_PARSE_VLAN_CONFIG :: ereg where
  "LAN8814_PTP_TX_PARSE_VLAN_CONFIG \<equiv> (5, 643)"
abbreviation (input) LAN8814_PTP_TX_PARSE_VLAN_VLAN2_CHECK_EN :: "16 word" where
  "LAN8814_PTP_TX_PARSE_VLAN_VLAN2_CHECK_EN \<equiv> 0x2"
abbreviation (input) LAN8814_PTP_TX_PARSE_VLAN_VLAN1_CHECK_EN :: "16 word" where
  "LAN8814_PTP_TX_PARSE_VLAN_VLAN1_CHECK_EN \<equiv> 0x1"
abbreviation (input) LAN8814_PTP_TX_PARSE_L2_ADDR_EN :: ereg where
  "LAN8814_PTP_TX_PARSE_L2_ADDR_EN \<equiv> (5, 644)"
abbreviation (input) LAN8814_PTP_TX_PARSE_IP_ADDR_EN :: ereg where
  "LAN8814_PTP_TX_PARSE_IP_ADDR_EN \<equiv> (5, 645)"
abbreviation (input) LAN8814_PTP_TX_PARSE_IP_DA_EN :: "16 word" where
  "LAN8814_PTP_TX_PARSE_IP_DA_EN \<equiv> 0x2000"
abbreviation (input) LAN8814_PTP_TX_PARSE_UDP_SRC_PORT :: ereg where
  "LAN8814_PTP_TX_PARSE_UDP_SRC_PORT \<equiv> (5, 646)"
abbreviation (input) LAN8814_PTP_TX_PARSE_UDP_DEST_PORT :: ereg where
  "LAN8814_PTP_TX_PARSE_UDP_DEST_PORT \<equiv> (5, 647)"
abbreviation (input) LAN8814_PTP_TX_VERSION :: ereg where
  "LAN8814_PTP_TX_VERSION \<equiv> (5, 648)"
abbreviation (input) LAN8814_PTP_TX_DOMAIN_DOMAIN_LO :: ereg where
  "LAN8814_PTP_TX_DOMAIN_DOMAIN_LO \<equiv> (5, 649)"
abbreviation (input) LAN8814_PTP_TX_DOMAIN_DOMAIN_LO_RANGE_EN :: "16 word" where
  "LAN8814_PTP_TX_DOMAIN_DOMAIN_LO_RANGE_EN \<equiv> 0x8000"
abbreviation (input) LAN8814_PTP_TX_DOMAIN_MASK_DOMAIN_UP :: ereg where
  "LAN8814_PTP_TX_DOMAIN_MASK_DOMAIN_UP \<equiv> (5, 650)"
abbreviation (input) LAN8814_PTP_TX_TIMESTAMP_EN :: ereg where
  "LAN8814_PTP_TX_TIMESTAMP_EN \<equiv> (5, 653)"
abbreviation (input) LAN8814_PTP_TX_TIMESTAMP_CONFIG :: ereg where
  "LAN8814_PTP_TX_TIMESTAMP_CONFIG \<equiv> (5, 654)"
abbreviation (input) LAN8814_PTP_TX_PTP_ALT_MASTER_EN :: "16 word" where
  "LAN8814_PTP_TX_PTP_ALT_MASTER_EN \<equiv> 0x4"
abbreviation (input) LAN8814_PTP_TX_PTP_UDP_CHKSUM_DIS :: "16 word" where
  "LAN8814_PTP_TX_PTP_UDP_CHKSUM_DIS \<equiv> 0x2"
abbreviation (input) LAN8814_PTP_TX_MOD :: ereg where "LAN8814_PTP_TX_MOD \<equiv> (5, 655)"
abbreviation (input) LAN8814_PTP_TX_MOD_PDRESP_TA_INSERT :: "16 word" where
  "LAN8814_PTP_TX_MOD_PDRESP_TA_INSERT \<equiv> 0x2000"
abbreviation (input) LAN8814_PTP_TX_MOD_SYNC_TS_INSERT :: "16 word" where
  "LAN8814_PTP_TX_MOD_SYNC_TS_INSERT \<equiv> 0x1000"
abbreviation (input) LAN8814_PTP_TX_MOD_FOLLOWUP_TS_INSERT :: "16 word" where
  "LAN8814_PTP_TX_MOD_FOLLOWUP_TS_INSERT \<equiv> 0x800"
abbreviation (input) LAN8814_PTP_TX_MOD_PDRESPFOLLOWUP_TS_INSERT :: "16 word" where
  "LAN8814_PTP_TX_MOD_PDRESPFOLLOWUP_TS_INSERT \<equiv> 0x200"
abbreviation (input) LAN8814_PTP_TX_RSVD_BYTE_CFG :: ereg where
  "LAN8814_PTP_TX_RSVD_BYTE_CFG \<equiv> (5, 656)"
abbreviation (input) LAN8814_PTP_TX_CF_MOD_EN :: ereg where
  "LAN8814_PTP_TX_CF_MOD_EN \<equiv> (5, 658)"
abbreviation (input) LAN8814_PTP_TX_CF_CFG :: ereg where "LAN8814_PTP_TX_CF_CFG \<equiv> (5, 659)"
abbreviation (input) LAN8814_PTP_TX_PTP_MAX_CF_DIS :: "16 word" where
  "LAN8814_PTP_TX_PTP_MAX_CF_DIS \<equiv> 0x2"
abbreviation (input) LAN8814_PTP_TX_PTP_CF_METHOD :: "16 word" where
  "LAN8814_PTP_TX_PTP_CF_METHOD \<equiv> 0x1"
abbreviation (input) LAN8814_PTP_TX_TS_NS_HI :: ereg where
  "LAN8814_PTP_TX_TS_NS_HI \<equiv> (5, 660)"
abbreviation (input) LAN8814_PTP_TX_TS_NS_PTP_TX_TS_VALID :: "16 word" where
  "LAN8814_PTP_TX_TS_NS_PTP_TX_TS_VALID \<equiv> 0x8000"
abbreviation (input) LAN8814_PTP_TX_TS_NS_LO :: ereg where
  "LAN8814_PTP_TX_TS_NS_LO \<equiv> (5, 661)"
abbreviation (input) LAN8814_PTP_TX_TS_SEC_HI :: ereg where
  "LAN8814_PTP_TX_TS_SEC_HI \<equiv> (5, 662)"
abbreviation (input) LAN8814_PTP_TX_TS_SEC_LO :: ereg where
  "LAN8814_PTP_TX_TS_SEC_LO \<equiv> (5, 663)"
abbreviation (input) LAN8814_PTP_TX_MSG_HEADER1 :: ereg where
  "LAN8814_PTP_TX_MSG_HEADER1 \<equiv> (5, 664)"
abbreviation (input) LAN8814_PTP_TX_MSG_HEADER2 :: ereg where
  "LAN8814_PTP_TX_MSG_HEADER2 \<equiv> (5, 665)"
abbreviation (input) LAN8814_PTP_TX_CHKSUM_DROPPED_CNT_HI :: ereg where
  "LAN8814_PTP_TX_CHKSUM_DROPPED_CNT_HI \<equiv> (5, 679)"
abbreviation (input) LAN8814_PTP_TX_CHKSUM_DROPPED_CNT_LO :: ereg where
  "LAN8814_PTP_TX_CHKSUM_DROPPED_CNT_LO \<equiv> (5, 680)"
abbreviation (input) LAN8814_PTP_TX_FRMS_MOD_CNT_HI :: ereg where
  "LAN8814_PTP_TX_FRMS_MOD_CNT_HI \<equiv> (5, 681)"
abbreviation (input) LAN8814_PTP_TX_FRMS_MOD_CNT_LO :: ereg where
  "LAN8814_PTP_TX_FRMS_MOD_CNT_LO \<equiv> (5, 682)"
abbreviation (input) LAN8814_PTP_TSU_GEN_CONF_TS_CRC_PKT :: "16 word" where
  "LAN8814_PTP_TSU_GEN_CONF_TS_CRC_PKT \<equiv> 0x4"
abbreviation (input) LAN8814_PTP_TSU_GEN_CONF_EN :: "16 word" where
  "LAN8814_PTP_TSU_GEN_CONF_EN \<equiv> 0x1"
abbreviation (input) LAN8814_PTP_TSU_HARD_RESET :: ereg where
  "LAN8814_PTP_TSU_HARD_RESET \<equiv> (5, 705)"
abbreviation (input) LAN8814_PTP_PCH_FORMAT_MISMATCH :: ereg where
  "LAN8814_PTP_PCH_FORMAT_MISMATCH \<equiv> (5, 707)"
abbreviation (input) LAN8814_PTP_PCH_FORMAT_MISMATCH_PKT_TYPE :: "16 word" where
  "LAN8814_PTP_PCH_FORMAT_MISMATCH_PKT_TYPE \<equiv> 0x8"
abbreviation (input) LAN8814_PTP_PCH_FORMAT_MISMATCH_EXT_TYPE :: "16 word" where
  "LAN8814_PTP_PCH_FORMAT_MISMATCH_EXT_TYPE \<equiv> 0x4"
abbreviation (input) LAN8814_PTP_PCH_FORMAT_MISMATCH_CRC_ERR :: "16 word" where
  "LAN8814_PTP_PCH_FORMAT_MISMATCH_CRC_ERR \<equiv> 0x2"
abbreviation (input) LAN8814_PTP_PCH_FORMAT_MISMATCH_SUB_PORT_ID :: "16 word" where
  "LAN8814_PTP_PCH_FORMAT_MISMATCH_SUB_PORT_ID \<equiv> 0x1"

section \<open>Fields\<close>

definition LAN8814_1588_PLL_DIVR_F :: "16 word \<Rightarrow> 16 word" where
  "LAN8814_1588_PLL_DIVR_F x = LAN8814_ENCODE_BITFIELD x 10 14"

definition LAN8814_1588_PLL_DIVF_F :: "16 word \<Rightarrow> 16 word" where
  "LAN8814_1588_PLL_DIVF_F x = LAN8814_ENCODE_BITFIELD x 3 9"

definition LAN8814_1588_PLL_DIVQ_F :: "16 word \<Rightarrow> 16 word" where
  "LAN8814_1588_PLL_DIVQ_F x = LAN8814_ENCODE_BITFIELD x 0 2"

definition LAN8814_PTP_REF_CLK_CFG_REF_CLK_SOURCE_F :: "16 word \<Rightarrow> 16 word" where
  "LAN8814_PTP_REF_CLK_CFG_REF_CLK_SOURCE_F x = LAN8814_ENCODE_BITFIELD x 10 3"

definition LAN8814_PTP_REF_CLK_CFG_REF_CLK_PERIOD_F :: "16 word \<Rightarrow> 16 word" where
  "LAN8814_PTP_REF_CLK_CFG_REF_CLK_PERIOD_F x = LAN8814_ENCODE_BITFIELD x 0 9"

definition LAN8814_PTP_GPIO_CAP_0_MAP_F :: "16 word \<Rightarrow> 16 word" where
  "LAN8814_PTP_GPIO_CAP_0_MAP_F x = LAN8814_ENCODE_BITFIELD x 0 4"

definition LAN8814_PTP_GPIO_RE_CAPTURE_EN_F :: "16 word \<Rightarrow> 16 word" where
  "LAN8814_PTP_GPIO_RE_CAPTURE_EN_F x = LAN8814_ENCODE_BITFIELD x 0 8"

definition LAN8814_PTP_OPERATING_MODE_VAL_F :: "16 word \<Rightarrow> 16 word" where
  "LAN8814_PTP_OPERATING_MODE_VAL_F x = LAN8814_ENCODE_BITFIELD x 0 2"

definition LAN8814_VLAN1_TYPE_SELECT_F :: "16 word \<Rightarrow> 16 word" where
  "LAN8814_VLAN1_TYPE_SELECT_F x = LAN8814_ENCODE_BITFIELD x 12 2"

definition LAN8814_VLAN1_TYPE_ID_VAL_F :: "16 word \<Rightarrow> 16 word" where
  "LAN8814_VLAN1_TYPE_ID_VAL_F x = LAN8814_ENCODE_BITFIELD x 0 11"

definition LAN8814_VLAN1_ID_MASK_VAL_F :: "16 word \<Rightarrow> 16 word" where
  "LAN8814_VLAN1_ID_MASK_VAL_F x = LAN8814_ENCODE_BITFIELD x 0 11"

definition LAN8814_VLAN1_VID_RANGE_UP_VAL_F :: "16 word \<Rightarrow> 16 word" where
  "LAN8814_VLAN1_VID_RANGE_UP_VAL_F x = LAN8814_ENCODE_BITFIELD x 0 11"

definition LAN8814_VLAN2_TYPE_SELECT_F :: "16 word \<Rightarrow> 16 word" where
  "LAN8814_VLAN2_TYPE_SELECT_F x = LAN8814_ENCODE_BITFIELD x 12 2"

definition LAN8814_VLAN2_TYPE_ID_VAL_F :: "16 word \<Rightarrow> 16 word" where
  "LAN8814_VLAN2_TYPE_ID_VAL_F x = LAN8814_ENCODE_BITFIELD x 0 11"

definition LAN8814_VLAN2_ID_MASK_VAL_F :: "16 word \<Rightarrow> 16 word" where
  "LAN8814_VLAN2_ID_MASK_VAL_F x = LAN8814_ENCODE_BITFIELD x 0 11"

definition LAN8814_VLAN2_VID_RANGE_UP_VAL_F :: "16 word \<Rightarrow> 16 word" where
  "LAN8814_VLAN2_VID_RANGE_UP_VAL_F x = LAN8814_ENCODE_BITFIELD x 0 11"

definition LAN8814_PTP_RX_PARSE_CONFIG_MAC_DA_MODE_F :: "16 word \<Rightarrow> 16 word" where
  "LAN8814_PTP_RX_PARSE_CONFIG_MAC_DA_MODE_F x = LAN8814_ENCODE_BITFIELD x 8 3"

definition LAN8814_PTP_RX_PARSE_VLAN_TAG_COUNT_F :: "16 word \<Rightarrow> 16 word" where
  "LAN8814_PTP_RX_PARSE_VLAN_TAG_COUNT_F x = LAN8814_ENCODE_BITFIELD x 4 3"

definition LAN8814_PTP_RX_PARSE_L2_MAC_EN_F :: "16 word \<Rightarrow> 16 word" where
  "LAN8814_PTP_RX_PARSE_L2_MAC_EN_F x = LAN8814_ENCODE_BITFIELD x 0 2"

definition LAN8814_PTP_RX_PARSE_IPv6_UMAC_EN_F :: "16 word \<Rightarrow> 16 word" where
  "LAN8814_PTP_RX_PARSE_IPv6_UMAC_EN_F x = LAN8814_ENCODE_BITFIELD x 6 2"

definition LAN8814_PTP_RX_PARSE_IPv6_IP_EN_F :: "16 word \<Rightarrow> 16 word" where
  "LAN8814_PTP_RX_PARSE_IPv6_IP_EN_F x = LAN8814_ENCODE_BITFIELD x 4 2"

definition LAN8814_PTP_RX_PARSE_IPv4_UMAC_EN_F :: "16 word \<Rightarrow> 16 word" where
  "LAN8814_PTP_RX_PARSE_IPv4_UMAC_EN_F x = LAN8814_ENCODE_BITFIELD x 2 2"

definition LAN8814_PTP_RX_PARSE_IPv4_IP_EN_F :: "16 word \<Rightarrow> 16 word" where
  "LAN8814_PTP_RX_PARSE_IPv4_IP_EN_F x = LAN8814_ENCODE_BITFIELD x 0 2"

definition LAN8814_PTP_RX_DOMAIN_DOMAIN_LO_RANGE_LO_F :: "16 word \<Rightarrow> 16 word" where
  "LAN8814_PTP_RX_DOMAIN_DOMAIN_LO_RANGE_LO_F x = LAN8814_ENCODE_BITFIELD x 0 8"

definition LAN8814_PTP_RX_TAIL_TAG_INSERT_IFG_F :: "16 word \<Rightarrow> 16 word" where
  "LAN8814_PTP_RX_TAIL_TAG_INSERT_IFG_F x = LAN8814_ENCODE_BITFIELD x 4 3"

definition LAN8814_PTP_TX_PARSE_CONFIG_MAC_DA_MODE_F :: "16 word \<Rightarrow> 16 word" where
  "LAN8814_PTP_TX_PARSE_CONFIG_MAC_DA_MODE_F x = LAN8814_ENCODE_BITFIELD x 8 3"

definition LAN8814_PTP_TX_PARSE_VLAN_TAG_COUNT_F :: "16 word \<Rightarrow> 16 word" where
  "LAN8814_PTP_TX_PARSE_VLAN_TAG_COUNT_F x = LAN8814_ENCODE_BITFIELD x 4 3"

definition LAN8814_PTP_TX_PARSE_L2_MAC_EN_F :: "16 word \<Rightarrow> 16 word" where
  "LAN8814_PTP_TX_PARSE_L2_MAC_EN_F x = LAN8814_ENCODE_BITFIELD x 0 2"

definition LAN8814_PTP_TX_PARSE_IPv6_UMAC_EN_F :: "16 word \<Rightarrow> 16 word" where
  "LAN8814_PTP_TX_PARSE_IPv6_UMAC_EN_F x = LAN8814_ENCODE_BITFIELD x 6 2"

definition LAN8814_PTP_TX_PARSE_IPv6_IP_EN_F :: "16 word \<Rightarrow> 16 word" where
  "LAN8814_PTP_TX_PARSE_IPv6_IP_EN_F x = LAN8814_ENCODE_BITFIELD x 4 2"

definition LAN8814_PTP_TX_PARSE_IPv4_UMAC_EN_F :: "16 word \<Rightarrow> 16 word" where
  "LAN8814_PTP_TX_PARSE_IPv4_UMAC_EN_F x = LAN8814_ENCODE_BITFIELD x 2 2"

definition LAN8814_PTP_TX_PARSE_IPv4_IP_EN_F :: "16 word \<Rightarrow> 16 word" where
  "LAN8814_PTP_TX_PARSE_IPv4_IP_EN_F x = LAN8814_ENCODE_BITFIELD x 0 2"

definition LAN8814_PTP_TX_DOMAIN_DOMAIN_LO_RANGE_LO_F :: "16 word \<Rightarrow> 16 word" where
  "LAN8814_PTP_TX_DOMAIN_DOMAIN_LO_RANGE_LO_F x = LAN8814_ENCODE_BITFIELD x 0 8"

lemmas ts_fields =
  LAN8814_1588_PLL_DIVR_F_def
  LAN8814_1588_PLL_DIVF_F_def
  LAN8814_1588_PLL_DIVQ_F_def
  LAN8814_PTP_REF_CLK_CFG_REF_CLK_SOURCE_F_def
  LAN8814_PTP_REF_CLK_CFG_REF_CLK_PERIOD_F_def
  LAN8814_PTP_GPIO_CAP_0_MAP_F_def
  LAN8814_PTP_GPIO_RE_CAPTURE_EN_F_def
  LAN8814_PTP_OPERATING_MODE_VAL_F_def
  LAN8814_VLAN1_TYPE_SELECT_F_def
  LAN8814_VLAN1_TYPE_ID_VAL_F_def
  LAN8814_VLAN1_ID_MASK_VAL_F_def
  LAN8814_VLAN1_VID_RANGE_UP_VAL_F_def
  LAN8814_VLAN2_TYPE_SELECT_F_def
  LAN8814_VLAN2_TYPE_ID_VAL_F_def
  LAN8814_VLAN2_ID_MASK_VAL_F_def
  LAN8814_VLAN2_VID_RANGE_UP_VAL_F_def
  LAN8814_PTP_RX_PARSE_CONFIG_MAC_DA_MODE_F_def
  LAN8814_PTP_RX_PARSE_VLAN_TAG_COUNT_F_def
  LAN8814_PTP_RX_PARSE_L2_MAC_EN_F_def
  LAN8814_PTP_RX_PARSE_IPv6_UMAC_EN_F_def
  LAN8814_PTP_RX_PARSE_IPv6_IP_EN_F_def
  LAN8814_PTP_RX_PARSE_IPv4_UMAC_EN_F_def
  LAN8814_PTP_RX_PARSE_IPv4_IP_EN_F_def
  LAN8814_PTP_RX_DOMAIN_DOMAIN_LO_RANGE_LO_F_def
  LAN8814_PTP_RX_TAIL_TAG_INSERT_IFG_F_def
  LAN8814_PTP_TX_PARSE_CONFIG_MAC_DA_MODE_F_def
  LAN8814_PTP_TX_PARSE_VLAN_TAG_COUNT_F_def
  LAN8814_PTP_TX_PARSE_L2_MAC_EN_F_def
  LAN8814_PTP_TX_PARSE_IPv6_UMAC_EN_F_def
  LAN8814_PTP_TX_PARSE_IPv6_IP_EN_F_def
  LAN8814_PTP_TX_PARSE_IPv4_UMAC_EN_F_def
  LAN8814_PTP_TX_PARSE_IPv4_IP_EN_F_def
  LAN8814_PTP_TX_DOMAIN_DOMAIN_LO_RANGE_LO_F_def

section \<open>Reading with the address incremented\<close>

definition EP_RD_INCR :: "nat \<Rightarrow> ereg \<Rightarrow> 16 word \<Rightarrow> bool \<Rightarrow> ('h, 'd, 16 word) mepa" where
  "EP_RD_INCR dev r v0 start = do {
     (_, v) \<leftarrow> lan8814_ext_incr_reg_rd dev (fst r) (snd r) v0 start;
     State_Monad.return v }"

context bus_invariant
begin

lemma keeps_EP_RD_INCR: "keeps I (EP_RD_INCR p r v0 b)"
  unfolding EP_RD_INCR_def by (intro bus_reg_keeps)

end

end
