(* ===== verification/Lan8814_Ts.thy ===== *)
theory Lan8814_Ts
  imports Lan8814_Conf Lan8814_Ts_Regs
begin

text \<open>
  The timestamping unit of the LAN8814 driver, first part (\<open>lan8814_ts.c\<close> up to
  \<open>lan8814_ts_mode_get\<close>): tables, defaults and initialisation.  The clock of the chip belongs to
  the base port: most operations change its registers only on the device that is its own base.

  \<open>base_data_of\<close> is \<open>(phy_data_t *)base_dev->data\<close>; several functions evaluate it before
  they know that \<open>base_dev\<close> is not NULL.
\<close>

section \<open>Private data\<close>

definition base_data_of :: "nat option \<Rightarrow> ('h, phy_data) lan" where
  "base_data_of base_dev = (case base_dev of None \<Rightarrow> null_call phy_data_0 | Some b \<Rightarrow> data_of b)"

definition upd_ts :: "nat \<Rightarrow> (lan8814_ts_data \<Rightarrow> lan8814_ts_data) \<Rightarrow> ('h, unit) lan" where
  "upd_ts dev f = upd_data dev (\<lambda>d. d\<lparr>pd_ts_state := f (pd_ts_state d)\<rparr>)"

definition upd_tpc :: "nat \<Rightarrow> (lan8814_ts_port_conf \<Rightarrow> lan8814_ts_port_conf) \<Rightarrow> ('h, unit) lan" where
  "upd_tpc dev f = upd_ts dev (\<lambda>t. t\<lparr>tsd_port_conf := f (tsd_port_conf t)\<rparr>)"

abbreviation ts_conf :: "phy_data \<Rightarrow> lan8814_ts_port_conf" where
  "ts_conf d \<equiv> tsd_port_conf (pd_ts_state d)"

abbreviation is_base :: "phy_data \<Rightarrow> nat \<Rightarrow> bool" where
  "is_base d dev \<equiv> pd_base_dev d = Some dev"

section \<open>Tables\<close>

text \<open>
  The latency tables have a row per clock frequency (for 1000, 100 and 10 Mbps); the first two have
  \<open>MEPA_TS_CLOCK_FREQ_MAX - 1\<close> rows, the third \<open>MEPA_TS_CLOCK_FREQ_MAX\<close>.  \<open>None\<close> is an index outside the
  array.
\<close>

fun lan8814_ing_latencies :: "mepa_ts_clock_freq \<Rightarrow> 16 word list option" where
  "lan8814_ing_latencies MEPA_TS_CLOCK_FREQ_25M = Some [415, 144, 8377]"
| "lan8814_ing_latencies MEPA_TS_CLOCK_FREQ_125M = Some [0, 0, 0]"
| "lan8814_ing_latencies MEPA_TS_CLOCK_FREQ_15625M = Some [0, 0, 0]"
| "lan8814_ing_latencies MEPA_TS_CLOCK_FREQ_200M = Some [417, 1441, 8380]"
| "lan8814_ing_latencies MEPA_TS_CLOCK_FREQ_250M = Some [415, 627, 8377]"
| "lan8814_ing_latencies _ = None"

fun lan8814_egr_latencies :: "mepa_ts_clock_freq \<Rightarrow> 16 word list option" where
  "lan8814_egr_latencies MEPA_TS_CLOCK_FREQ_25M = Some [196, 296, 11353]"
| "lan8814_egr_latencies MEPA_TS_CLOCK_FREQ_125M = Some [0, 0, 0]"
| "lan8814_egr_latencies MEPA_TS_CLOCK_FREQ_15625M = Some [0, 0, 0]"
| "lan8814_egr_latencies MEPA_TS_CLOCK_FREQ_200M = Some [189, 300, 11355]"
| "lan8814_egr_latencies MEPA_TS_CLOCK_FREQ_250M = Some [186, 296, 11353]"
| "lan8814_egr_latencies _ = None"

fun lan8814_twostep_egr_lat_adj :: "mepa_ts_clock_freq \<Rightarrow> 16 word list option" where
  "lan8814_twostep_egr_lat_adj MEPA_TS_CLOCK_FREQ_25M = Some [0, 11198, 112, 125]"
| "lan8814_twostep_egr_lat_adj MEPA_TS_CLOCK_FREQ_125M = Some [0, 0, 0, 0]"
| "lan8814_twostep_egr_lat_adj MEPA_TS_CLOCK_FREQ_15625M = Some [0, 0, 0, 0]"
| "lan8814_twostep_egr_lat_adj MEPA_TS_CLOCK_FREQ_200M = Some [0, 11197, 1125, 120]"
| "lan8814_twostep_egr_lat_adj MEPA_TS_CLOCK_FREQ_250M = Some [0, 11198, 1120, 115]"
| "lan8814_twostep_egr_lat_adj MEPA_TS_CLOCK_FREQ_500M = Some [0, 0, 0, 0]"
| "lan8814_twostep_egr_lat_adj _ = None"

definition table_at :: "(mepa_ts_clock_freq \<Rightarrow> 16 word list option) \<Rightarrow> mepa_ts_clock_freq \<Rightarrow> nat \<Rightarrow>
    ('h, 16 word) lan" where
  "table_at t freq i = (case t freq of
      None \<Rightarrow> null_call 0
    | Some row \<Rightarrow> State_Monad.return (row ! i))"

text \<open>Nanoseconds as a time interval, \<open>((int64_t)val) << 16\<close>.\<close>

definition ns_interval :: "16 word \<Rightarrow> mepa_timeinterval" where
  "ns_interval v = push_bit 16 (ucast v)"

definition def_mac :: "8 word list" where
  "def_mac = [0x01, 0x1B, 0x19, 0x00, 0x00, 0x00]"

section \<open>Defaults\<close>

definition get_default_ts_eth_class :: "mepa_ts_classifier_eth \<Rightarrow> mepa_ts_classifier_eth" where
  "get_default_ts_eth_class conf = conf\<lparr>tce_mac_match_mode := MEPA_TS_ETH_ADDR_MATCH_ANY,
     tce_mac_match_select := MEPA_TS_ETH_MATCH_DEST_ADDR, tce_mac_addr := def_mac,
     tce_vlan_check := False,
     tce_vlan_conf := (tce_vlan_conf conf)\<lparr>tvc_pbb_en := False, tvc_tpid := 0x88A8,
       tvc_etype := 0x88f7, tvc_num_tag := 0\<rparr>\<rparr>"

definition get_default_ts_ip_class :: "mepa_ts_classifier_ip \<Rightarrow> mepa_ts_classifier_ip" where
  "get_default_ts_ip_class conf = conf\<lparr>tci_ip_ver := MEPA_TS_IP_VER_4,
     tci_ip_match_mode := MEPA_TS_IP_MATCH_DEST, tci_ip_addr := replicate 8 0,
     tci_udp_sport_en := False, tci_udp_dport_en := True, tci_udp_sport := 0,
     tci_udp_dport := 319\<rparr>"

definition get_default_ts_ptp_class :: "mepa_ts_classifier_ptp \<Rightarrow> mepa_ts_classifier_ptp" where
  "get_default_ts_ptp_class conf = conf\<lparr>tcp_version := \<lparr>r8_upper = 2, r8_lower = 2\<rparr>,
     tcp_minor_version := \<lparr>r8_upper = 1, r8_lower = 0\<rparr>,
     tcp_domain := \<lparr>m8_mode = MEPA_TS_MATCH_MODE_VALUE, m8_hi = 0, m8_lo = 0xF\<rparr>,
     tcp_sdoid := \<lparr>m8_mode = MEPA_TS_MATCH_MODE_VALUE, m8_hi = 0, m8_lo = 0\<rparr>\<rparr>"

definition get_default_ts_clock_cfg :: "mepa_ts_ptp_clock_conf \<Rightarrow> mepa_ts_ptp_clock_conf" where
  "get_default_ts_clock_cfg conf = conf\<lparr>pcc_clk_mode := MEPA_TS_PTP_CLOCK_MODE_NONE,
     pcc_delaym_type := MEPA_TS_PTP_DELAYM_E2E, pcc_enable := False,
     pcc_ptp_class_conf := get_default_ts_ptp_class (pcc_ptp_class_conf conf)\<rparr>"

definition get_default_ts_classifier_cfg :: "mepa_ts_classifier \<Rightarrow> mepa_ts_classifier" where
  "get_default_ts_classifier_cfg conf = conf\<lparr>tcl_pkt_encap_type := MEPA_TS_ENCAP_NONE,
     tcl_clock_id := 0,
     tcl_eth_class_conf := get_default_ts_eth_class (tcl_eth_class_conf conf),
     tcl_ip_class_conf := get_default_ts_ip_class (tcl_ip_class_conf conf)\<rparr>"

section \<open>Initialisation\<close>

fun ref_clk_source :: "mepa_ts_clock_src \<Rightarrow> 16 word option" where
  "ref_clk_source MEPA_TS_CLOCK_SRC_125MHZ_INTERNAL_SYS_PLL = Some 0"
| "ref_clk_source MEPA_TS_CLOCK_SRC_125MHZ_QSGMII_REC_CLOCK = Some 1"
| "ref_clk_source MEPA_TS_CLOCK_SRC_EXT_1588_REF_CLOCK = Some 2"
| "ref_clk_source MEPA_TS_CLOCK_SRC_RESERVED = Some 3"
| "ref_clk_source MEPA_TS_CLOCK_SRC_FROM_RX_PORT0 = Some 4"
| "ref_clk_source MEPA_TS_CLOCK_SRC_FROM_RX_PORT1 = Some 5"
| "ref_clk_source MEPA_TS_CLOCK_SRC_FROM_RX_PORT2 = Some 6"
| "ref_clk_source MEPA_TS_CLOCK_SRC_FROM_RX_PORT3 = Some 7"
| "ref_clk_source _ = None"

text \<open>The divider register and the reference period for a clock frequency.\<close>

definition ref_clk_period :: "nat \<Rightarrow> mepa_ts_clock_freq \<Rightarrow> ('h, 16 word option) lan" where
  "ref_clk_period dev freq =
    (if freq = MEPA_TS_CLOCK_FREQ_25M then do {
       EP_WRM dev LAN8814_1588_PLL_DIVEDER
         (LAN8814_1588_PLL_DIVQ_F 2 OR LAN8814_1588_PLL_DIVF_F 0x13 OR LAN8814_1588_PLL_DIVR_F 0)
         LAN8814_DEF_MASK;
       State_Monad.return (Some 4) }
     else if freq = MEPA_TS_CLOCK_FREQ_200M then do {
       EP_WRM dev LAN8814_1588_PLL_DIVEDER
         (LAN8814_1588_PLL_DIVQ_F 3 OR LAN8814_1588_PLL_DIVF_F 0x1F OR LAN8814_1588_PLL_DIVR_F 4)
         LAN8814_DEF_MASK;
       State_Monad.return (Some 5) }
     else if freq = MEPA_TS_CLOCK_FREQ_250M then State_Monad.return (Some 4)
     else State_Monad.return None)"

definition lan8814_tsu_block_init :: "nat \<Rightarrow> mepa_ts_init_conf \<Rightarrow> ('h, mepa_rc) lan" where
  "lan8814_tsu_block_init dev conf =
    (if tic_tx_fifo_mode conf \<noteq> MEPA_TS_FIFO_MODE_NORMAL then State_Monad.return MEPA_RC_ERROR
     else do {
     clock_cfg \<leftarrow> EP_RD dev LAN8814_PTP_REF_CLK_CFG 0;
     case ref_clk_source (tic_clk_src conf) of
       None \<Rightarrow> State_Monad.return MEPA_RC_ERROR
     | Some source \<Rightarrow> do {
     let clock_cfg = clock_cfg OR LAN8814_PTP_REF_CLK_CFG_REF_CLK_SOURCE_F source;
     period \<leftarrow> ref_clk_period dev (tic_clk_freq conf);
     case period of
       None \<Rightarrow> State_Monad.return MEPA_RC_ERROR
     | Some ns \<Rightarrow> do {
     let clock_cfg = clock_cfg OR LAN8814_PTP_REF_CLK_CFG_REF_CLK_PERIOD_F ns;
     let clock_cfg = clock_cfg OR LAN8814_PTP_REF_CLK_CFG_REF_CLK_PERIOD_OVERRIDE;
     EP_WRM dev LAN8814_PTP_REF_CLK_CFG clock_cfg LAN8814_DEF_MASK;
     let v = LAN8814_PTP_OPERATING_MODE_VAL_F
       (if mp_mch_en (tic_mch_pch_conf conf) then 3
        else if mp_pch_en (tic_mch_pch_conf conf) then 2 else 1);
     EP_WRM dev LAN8814_PTP_OPERATING_MODE v LAN8814_PTP_OPERATING_MODE_VAL;
     let v = LAN8814_PTP_CMD_CTL_ENABLE OR LAN8814_PTP_CMD_CTL_LTC_TEMP_RATE_SEL;
     EP_WRM dev LAN8814_PTP_CMD_CTL v v;
     State_Monad.return MEPA_RC_OK }}})"

text \<open>One latency register and the default that is remembered for it.\<close>

definition set_default_latency :: "nat \<Rightarrow> (mepa_ts_clock_freq \<Rightarrow> 16 word list option) \<Rightarrow>
    mepa_ts_clock_freq \<Rightarrow> nat \<Rightarrow> ereg \<Rightarrow>
    (mepa_timeinterval \<Rightarrow> lan8814_ts_port_latencies \<Rightarrow> lan8814_ts_port_latencies) \<Rightarrow>
    ('h, 16 word) lan" where
  "set_default_latency dev t freq i r upd = do {
     v \<leftarrow> table_at t freq i;
     EP_WRM dev r v LAN8814_DEF_MASK;
     upd_ts dev (\<lambda>s. s\<lparr>tsd_default_latencies := upd (ns_interval v) (tsd_default_latencies s)\<rparr>);
     State_Monad.return v }"

definition store_init_conf :: "mepa_ts_init_conf \<Rightarrow> lan8814_ts_data \<Rightarrow> lan8814_ts_data" where
  "store_init_conf conf t = t\<lparr>tsd_clk_src := tic_clk_src conf, tsd_clk_freq := tic_clk_freq conf,
     tsd_tx_fifo_mode := tic_tx_fifo_mode conf, tsd_tx_fifo_ts_len := tic_tx_ts_len conf,
     tsd_tsu_op_mode := LAN8814_TS_MODE_STANDALONE, tsd_rx_ts_len := tic_rx_ts_len conf,
     tsd_rx_ts_pos := tic_rx_ts_pos conf, tsd_tx_auto_followup_ts := tic_tx_auto_followup_ts conf,
     tsd_tc_op_mode := tic_tc_op_mode conf, tsd_mch_pch := tic_mch_pch_conf conf\<rparr>"

definition lan8814_ts_port_init :: "nat \<Rightarrow> mepa_ts_init_conf \<Rightarrow> ('h, mepa_rc) lan" where
  "lan8814_ts_port_init dev conf = do {
     data \<leftarrow> data_of dev;
     only_if (\<not> tsd_ts_init_done (pd_ts_state data)) (do {
       EP_WR dev LAN8814_PTP_TSU_HARD_RESET 0x1;
       MEPA_MSLEEP 2 });
     upd_ts dev (store_init_conf conf);
     only_if (tic_rx_ts_pos conf = MEPA_TS_RX_TIMESTAMP_POS_AT_END) (
       EP_WRM dev LAN8814_PTP_RX_TAIL_TAG
         (LAN8814_PTP_RX_TAIL_TAG_EN OR LAN8814_PTP_RX_TAIL_TAG_INSERT_IFG_F 1 OR
          LAN8814_PTP_RX_TAIL_TAG_ER_FORWARD) LAN8814_DEF_MASK);
     upd_tpc dev (\<lambda>c. c\<lparr>tpc_rx_pkt_conf := get_default_ts_classifier_cfg (tpc_rx_pkt_conf c),
       tpc_tx_pkt_conf := get_default_ts_classifier_cfg (tpc_tx_pkt_conf c),
       tpc_rx_clock_conf := get_default_ts_clock_cfg (tpc_rx_clock_conf c),
       tpc_tx_clock_conf := get_default_ts_clock_cfg (tpc_tx_clock_conf c)\<rparr>);
     let freq = tic_clk_freq conf;
     set_default_latency dev lan8814_ing_latencies freq 2 LAN8814_PTP_RX_LATENCY_10
       (\<lambda>v l. l\<lparr>lat_rx10mbps := v\<rparr>);
     set_default_latency dev lan8814_ing_latencies freq 1 LAN8814_PTP_RX_LATENCY_100
       (\<lambda>v l. l\<lparr>lat_rx100mbps := v\<rparr>);
     set_default_latency dev lan8814_ing_latencies freq 0 LAN8814_PTP_RX_LATENCY_1000
       (\<lambda>v l. l\<lparr>lat_rx1000mbps := v\<rparr>);
     set_default_latency dev lan8814_egr_latencies freq 2 LAN8814_PTP_TX_LATENCY_10
       (\<lambda>v l. l\<lparr>lat_tx10mbps := v\<rparr>);
     set_default_latency dev lan8814_egr_latencies freq 1 LAN8814_PTP_TX_LATENCY_100
       (\<lambda>v l. l\<lparr>lat_tx100mbps := v\<rparr>);
     v \<leftarrow> set_default_latency dev lan8814_egr_latencies freq 0 LAN8814_PTP_TX_LATENCY_1000
       (\<lambda>v l. l\<lparr>lat_tx1000mbps := v\<rparr>);
     v \<leftarrow> EP_RD dev LAN8814_PTP_TSU_GEN_CONF v;
     let v = (if mp_save_ts_with_crc_err (tic_mch_pch_conf conf)
              then v OR LAN8814_PTP_TSU_GEN_CONF_TS_CRC_PKT
              else v AND NOT LAN8814_PTP_TSU_GEN_CONF_TS_CRC_PKT);
     EP_WRM dev LAN8814_PTP_TSU_GEN_CONF v LAN8814_PTP_TSU_GEN_CONF_TS_CRC_PKT;
     upd_ts dev (\<lambda>t. t\<lparr>tsd_ts_init_done := True\<rparr>);
     State_Monad.return MEPA_RC_OK }"

text \<open>The block that the base port initialises for the whole chip.\<close>

definition ts_base_init :: "nat \<Rightarrow> mepa_ts_init_conf \<Rightarrow> ('h, mepa_rc) lan" where
  "ts_base_init dev conf = do {
     data \<leftarrow> data_of dev;
     if is_base data dev then do {
       MEPA_ENTER dev;
       EP_WRM dev LAN8814_PTP_LTC_HARD_RESET LAN8814_PTP_LTC_HARD_RESET_CMD LAN8814_DEF_MASK;
       rc \<leftarrow> lan8814_tsu_block_init dev conf;
       MEPA_EXIT dev;
       State_Monad.return rc }
     else State_Monad.return MEPA_RC_OK }"

definition lan8814_ts_init_conf_set :: "nat \<Rightarrow> mepa_ts_init_conf option \<Rightarrow> ('h, mepa_rc) lan" where
  "lan8814_ts_init_conf_set dev ts_init_conf = (case ts_init_conf of
      None \<Rightarrow> State_Monad.return MEPA_RC_ERROR
    | Some conf \<Rightarrow> do {
        rc \<leftarrow> ts_base_init dev conf;
        if rc \<noteq> MEPA_RC_OK then State_Monad.return rc else do {
        MEPA_ENTER dev;
        rc \<leftarrow> lan8814_ts_port_init dev conf;
        MEPA_EXIT dev;
        State_Monad.return rc }})"

definition lan8814_ts_init_conf_get ::
  "nat \<Rightarrow> mepa_ts_init_conf option \<Rightarrow> ('h, mepa_rc \<times> mepa_ts_init_conf option) lan" where
  "lan8814_ts_init_conf_get dev ts_init_conf = (case ts_init_conf of
      None \<Rightarrow> State_Monad.return (MEPA_RC_ERROR, None)
    | Some conf \<Rightarrow> do {
        MEPA_ENTER dev;
        data \<leftarrow> data_of dev;
        let t = pd_ts_state data;
        MEPA_EXIT dev;
        State_Monad.return (MEPA_RC_OK, Some \<lparr>tic_clk_freq = tsd_clk_freq t,
          tic_clk_src = tsd_clk_src t, tic_rx_ts_pos = tsd_rx_ts_pos t,
          tic_rx_ts_len = tsd_rx_ts_len t, tic_tx_fifo_mode = tsd_tx_fifo_mode t,
          tic_tx_ts_len = tsd_tx_fifo_ts_len t, tic_tx_fifo_spi_conf = tsd_tx_spi_en t,
          tic_auto_clear_ls = False, tic_tc_op_mode = tsd_tc_op_mode t,
          tic_dly_req_recv_10byte_ts = False,
          tic_tx_auto_followup_ts = tsd_tx_auto_followup_ts t,
          tic_mch_pch_conf = tsd_mch_pch t\<rparr>) })"

definition lan8814_ts_mode_set :: "nat \<Rightarrow> bool \<Rightarrow> ('h, mepa_rc) lan" where
  "lan8814_ts_mode_set dev enable = do {
     MEPA_ENTER dev;
     EP_WRM dev LAN8814_PTP_TSU_GEN_CONF (if enable then LAN8814_PTP_TSU_GEN_CONF_EN else 0)
       LAN8814_PTP_TSU_GEN_CONF_EN;
     upd_ts dev (\<lambda>t. t\<lparr>tsd_ptp_en := enable\<rparr>);
     MEPA_EXIT dev;
     State_Monad.return MEPA_RC_OK }"

definition lan8814_ts_reset :: "nat \<Rightarrow> mepa_ts_reset_conf \<Rightarrow> ('h, mepa_rc) lan" where
  "lan8814_ts_reset dev tsreset = do {
     MEPA_ENTER dev;
     MEPA_EXIT dev;
     State_Monad.return MEPA_RC_OK }"

definition lan8814_ts_mode_get :: "nat \<Rightarrow> ('h, mepa_rc \<times> bool) lan" where
  "lan8814_ts_mode_get dev = do {
     MEPA_ENTER dev;
     data \<leftarrow> data_of dev;
     MEPA_EXIT dev;
     State_Monad.return (MEPA_RC_OK, tsd_ptp_en (pd_ts_state data)) }"

end
