(* ===== verification/Lan8814_Ts_Clock.thy ===== *)
theory Lan8814_Ts_Clock
  imports Lan8814_Ts
begin

text \<open>
  The timestamping unit of the LAN8814 driver, second part (\<open>lan8814_ts.c\<close>): the local time
  counter, rate and latency adjustments, pulse per second, statistics, events and the
  timestamp FIFO.  Arguments that the code tests for NULL are options.
\<close>

section \<open>The local time counter\<close>

definition lan8814_ts_ltc_ls_en_set :: "nat \<Rightarrow> mepa_ts_ls_type \<Rightarrow> ('h, mepa_rc) lan" where
  "lan8814_ts_ltc_ls_en_set dev ls_type = do {
     data \<leftarrow> data_of dev;
     let gpio = 3;
     let ls_pps = True;
     if pd_base_dev data = None then State_Monad.return MEPA_RC_ERROR else do {
     MEPA_ENTER dev;
     only_if (is_base data dev) (
       if ls_type = MEPA_TS_CMD_LOAD then do {
         (if ls_pps then EP_WRM dev LAN8814_PTP_LTC_EXT_ADJ_CFG 0 LAN8814_DEF_MASK
          else EP_WRM dev LAN8814_PTP_CMD_CTL LAN8814_PTP_CMD_CTL_LTC_LOAD
            LAN8814_PTP_CMD_CTL_LTC_LOAD) }
       else if ls_type = MEPA_TS_CMD_SAVE then
         (if ls_pps then do {
            EP_WRM dev LAN8814_PTP_GPIO_CAP_MAP_LO (LAN8814_PTP_GPIO_CAP_0_MAP_F gpio)
              LAN8814_PTP_GPIO_CAP_0_MAP;
            EP_WRM dev LAN8814_PTP_GPIO_CAP_EN (LAN8814_PTP_GPIO_RE_CAPTURE_EN_F 1)
              LAN8814_PTP_GPIO_RE_CAPTURE_EN;
            EP_WRM dev LAN8814_PTP_GPIO_CAP_LOCK 0 LAN8814_DEF_MASK }
          else EP_WRM dev LAN8814_PTP_CMD_CTL LAN8814_PTP_CMD_CTL_LTC_READ
            LAN8814_PTP_CMD_CTL_LTC_READ)
       else if ls_type = MEPA_TS_ADJ_CMD_CLEAR then
         EP_WRM dev LAN8814_PTP_LTC_EXT_ADJ_CFG 0 LAN8814_DEF_MASK
       else State_Monad.return MEPA_RC_OK);
     MEPA_EXIT dev;
     State_Monad.return MEPA_RC_OK }}"

text \<open>Two 16-bit registers as one 32-bit number.\<close>

definition join32 :: "16 word \<Rightarrow> 16 word \<Rightarrow> 32 word" where
  "join32 hi lo = push_bit 16 (ucast hi) OR ucast lo"

text \<open>
  The time captured at the last pulse; \<open>ls_pps\<close> is a constant of the function, so the
  branch that reads the counter itself is dead and not translated.
\<close>

definition ltc_read :: "nat \<Rightarrow> mepa_timestamp \<Rightarrow> ('h, mepa_timestamp) lan" where
  "ltc_read dev ts = do {
     sec_hi \<leftarrow> EP_RD_INCR dev LAN8814_PTP_GPIO_RE_CLOCK_SEC_HI 0 True;
     sec_lo \<leftarrow> EP_RD_INCR dev LAN8814_PTP_GPIO_RE_CLOCK_SEC_LO 0 False;
     ns_h \<leftarrow> EP_RD_INCR dev LAN8814_PTP_GPIO_RE_CLOCK_NS_HI 0 False;
     ns_l \<leftarrow> EP_RD_INCR dev LAN8814_PTP_GPIO_RE_CLOCK_NS_LO 0 False;
     State_Monad.return (ts\<lparr>tm_seconds_high := 0, tm_seconds_low := join32 sec_hi sec_lo,
       tm_nanoseconds := join32 (ns_h AND 0x3FFF) ns_l\<rparr>) }"

definition lan8814_ts_ltc_get ::
  "nat \<Rightarrow> mepa_timestamp option \<Rightarrow> ('h, mepa_rc \<times> mepa_timestamp option) lan" where
  "lan8814_ts_ltc_get dev ts = do {
     data \<leftarrow> data_of dev;
     case ts of
       None \<Rightarrow> State_Monad.return (MEPA_RC_ERROR, None)
     | Some t \<Rightarrow>
         if pd_base_dev data = None then State_Monad.return (MEPA_RC_ERROR, Some t) else do {
         MEPA_ENTER dev;
         t \<leftarrow> (if is_base data dev then ltc_read dev t else State_Monad.return t);
         MEPA_EXIT dev;
         State_Monad.return (MEPA_RC_OK, Some t) }}"

definition lan8814_ltc_target_seconds :: "nat \<Rightarrow> 32 word \<Rightarrow> ('h, mepa_rc) lan" where
  "lan8814_ltc_target_seconds dev sec = do {
     data \<leftarrow> data_of dev;
     base_data \<leftarrow> base_data_of (pd_base_dev data);
     let off = pps_offset (tsd_pps (pd_ts_state base_data));
     EP_WR dev LAN8814_PTP_LTC_TARGET_SEC_LO_A (ucast sec);
     EP_WR dev LAN8814_PTP_LTC_TARGET_SEC_HI_A (ucast (drop_bit 16 sec));
     EP_WR dev LAN8814_PTP_LTC_TARGET_NS_LO_A (ucast off);
     EP_WR dev LAN8814_PTP_LTC_TARGET_NS_HI_A (ucast (drop_bit 16 off));
     State_Monad.return MEPA_RC_OK }"

definition ltc_write :: "nat \<Rightarrow> mepa_timestamp \<Rightarrow> ('h, unit) lan" where
  "ltc_write dev ts = do {
     cmd \<leftarrow> EP_RD dev LAN8814_PTP_LTC_EXT_ADJ_CFG 0;
     let cmd = (if has_bits cmd 0x10 then 0 else cmd OR LAN8814_PTP_LTC_EXT_ADJ_MODE);
     EP_WRM dev LAN8814_PTP_LTC_EXT_ADJ_CFG cmd LAN8814_DEF_MASK;
     EP_WRM dev LAN8814_PTP_LTC_SET_SEC_HI (tm_seconds_high ts) LAN8814_DEF_MASK;
     EP_WRM dev LAN8814_PTP_LTC_SET_SEC_MID (ucast (drop_bit 16 (tm_seconds_low ts)))
       LAN8814_DEF_MASK;
     EP_WRM dev LAN8814_PTP_LTC_SET_SEC_LO (ucast (tm_seconds_low ts)) LAN8814_DEF_MASK;
     EP_WRM dev LAN8814_PTP_LTC_SET_NS_HI (ucast (drop_bit 16 (tm_nanoseconds ts))) LAN8814_DEF_MASK;
     EP_WRM dev LAN8814_PTP_LTC_SET_NS_LO (ucast (tm_nanoseconds ts)) LAN8814_DEF_MASK;
     EP_WRM dev LAN8814_PTP_LTC_EXT_ADJ_CFG LAN8814_PTP_LTC_EXT_ADJ_LOAD_EN
       LAN8814_PTP_LTC_EXT_ADJ_LOAD_EN;
     State_Monad.return () }"

definition lan8814_ts_ltc_set :: "nat \<Rightarrow> mepa_timestamp option \<Rightarrow> ('h, mepa_rc) lan" where
  "lan8814_ts_ltc_set dev ts = do {
     data \<leftarrow> data_of dev;
     base_data \<leftarrow> base_data_of (pd_base_dev data);
     case ts of
       None \<Rightarrow> State_Monad.return MEPA_RC_ERROR
     | Some t \<Rightarrow>
         if pd_base_dev data = None then State_Monad.return MEPA_RC_ERROR else do {
         MEPA_ENTER dev;
         only_if (is_base data dev) (do {
           ltc_write dev t;
           only_if (pps_output_enable (tsd_pps (pd_ts_state base_data)) \<noteq> 0) (
             lan8814_ltc_target_seconds dev (tm_seconds_low t + 2)) });
         MEPA_EXIT dev;
         State_Monad.return MEPA_RC_OK }}"

section \<open>Rate adjustment\<close>

definition lan8814_ts_clock_rateadj_get ::
  "nat \<Rightarrow> mepa_ts_scaled_ppb option \<Rightarrow> ('h, mepa_rc \<times> mepa_ts_scaled_ppb option) lan" where
  "lan8814_ts_clock_rateadj_get dev adj = (case adj of
      None \<Rightarrow> State_Monad.return (MEPA_RC_ERROR, None)
    | Some _ \<Rightarrow> do {
        MEPA_ENTER dev;
        data \<leftarrow> data_of dev;
        MEPA_EXIT dev;
        State_Monad.return (MEPA_RC_OK, Some (tpc_rate_adj (ts_conf data))) })"

abbreviation (input) CLK_PERIOD_250_MHZ :: "64 word" where "CLK_PERIOD_250_MHZ \<equiv> 4"
abbreviation (input) CLK_PERIOD_200_MHZ :: "64 word" where "CLK_PERIOD_200_MHZ \<equiv> 5"

definition ltc_period :: "mepa_ts_clock_freq \<Rightarrow> 64 word" where
  "ltc_period freq = (if freq = MEPA_TS_CLOCK_FREQ_200M then CLK_PERIOD_200_MHZ
     else CLK_PERIOD_250_MHZ)"

text \<open>\<open>MEPA_LLABS\<close>, and the number of units of \<open>2\<^sup>-\<^sup>3\<^sup>2\<close> ns per clock cycle, in 64-bit arithmetic.\<close>

definition MEPA_LLABS :: "64 word \<Rightarrow> 64 word" where
  "MEPA_LLABS x = (if sint x < 0 then - x else x)"

definition rate_adj_val :: "mepa_ts_clock_freq \<Rightarrow> mepa_ts_scaled_ppb \<Rightarrow> 64 word" where
  "rate_adj_val freq adj = (0x10000 * ltc_period freq * MEPA_LLABS adj) div 1000000000"

definition lan8814_ts_clock_rateadj_set ::
  "nat \<Rightarrow> mepa_ts_scaled_ppb option \<Rightarrow> ('h, mepa_rc) lan" where
  "lan8814_ts_clock_rateadj_set dev adj = do {
     data \<leftarrow> data_of dev;
     base_data \<leftarrow> base_data_of (pd_base_dev data);
     case adj of
       None \<Rightarrow> State_Monad.return MEPA_RC_ERROR
     | Some a \<Rightarrow> do {
         MEPA_ENTER dev;
         only_if (is_base data dev) (do {
           let adj_val = rate_adj_val (tsd_clk_freq (pd_ts_state base_data)) a;
           only_if (\<not> 0x40000000 \<le> adj_val) (do {
             let v = (if 0 < sint a then LAN8814_PTP_LTC_RATE_ADJ_HI_DIR else 0);
             EP_WRM dev LAN8814_PTP_LTC_RATE_ADJ_HI (v OR (0x3FFF AND ucast (drop_bit 16 adj_val)))
               LAN8814_DEF_MASK;
             EP_WRM dev LAN8814_PTP_LTC_RATE_ADJ_LO (ucast adj_val) LAN8814_DEF_MASK;
             upd_tpc dev (\<lambda>c. c\<lparr>tpc_rate_adj := a\<rparr>) }) });
         MEPA_EXIT dev;
         State_Monad.return MEPA_RC_OK }}"

definition adj1ns_step :: "mepa_ts_clock_freq \<Rightarrow> bool \<Rightarrow> 16 word" where
  "adj1ns_step freq incr =
    (if freq = MEPA_TS_CLOCK_FREQ_25M \<or> freq = MEPA_TS_CLOCK_FREQ_250M
     then (if incr then 4 + 1 else 4 - 1)
     else if freq = MEPA_TS_CLOCK_FREQ_200M then (if incr then 5 + 1 else 5 - 1) else 0)"

definition lan8814_ts_clock_adj1ns :: "nat \<Rightarrow> bool \<Rightarrow> ('h, mepa_rc) lan" where
  "lan8814_ts_clock_adj1ns dev incr = do {
     data \<leftarrow> data_of dev;
     MEPA_ENTER dev;
     only_if (is_base data dev) (do {
       base_data \<leftarrow> data_of dev;
       cmd_org \<leftarrow> EP_RD dev LAN8814_PTP_CMD_CTL 0;
       EP_WRM dev LAN8814_PTP_CMD_CTL (0xFFFB AND cmd_org) LAN8814_DEF_MASK;
       EP_WRM dev LAN8814_PTP_LTC_STEP_ADJ_HI LAN8814_PTP_LTC_STEP_ADJ_DIR LAN8814_DEF_MASK;
       EP_WRM dev LAN8814_PTP_LTC_STEP_ADJ_LO
         (adj1ns_step (tsd_clk_freq (pd_ts_state base_data)) incr) LAN8814_DEF_MASK;
       EP_WRM dev LAN8814_PTP_CMD_CTL LAN8814_PTP_CMD_CTL_LTC_STEP_NANOSECONDS
         LAN8814_PTP_CMD_CTL_LTC_STEP_NANOSECONDS;
       EP_WRM dev LAN8814_PTP_CMD_CTL cmd_org LAN8814_DEF_MASK });
     MEPA_EXIT dev;
     State_Monad.return MEPA_RC_OK }"

section \<open>Delays\<close>

definition lan8814_ts_clock_delay_asymmetry_get :: "nat \<Rightarrow> ('h, mepa_rc \<times> mepa_timeinterval) lan" where
  "lan8814_ts_clock_delay_asymmetry_get dev = do {
     MEPA_ENTER dev;
     data \<leftarrow> data_of dev;
     MEPA_EXIT dev;
     State_Monad.return (MEPA_RC_OK, tpc_delay_asym (ts_conf data)) }"

definition lan8814_ts_clock_delay_asymmetry_set :: "nat \<Rightarrow> mepa_timeinterval \<Rightarrow> ('h, mepa_rc) lan" where
  "lan8814_ts_clock_delay_asymmetry_set dev delay_asym = do {
     MEPA_ENTER dev;
     EP_WRM dev LAN8814_PTP_ASYM_DLY_HI (ucast (drop_bit 32 delay_asym)) LAN8814_DEF_MASK;
     EP_WRM dev LAN8814_PTP_ASYM_DLY_LO (ucast (drop_bit 16 delay_asym)) LAN8814_DEF_MASK;
     upd_tpc dev (\<lambda>c. c\<lparr>tpc_delay_asym := delay_asym\<rparr>);
     MEPA_EXIT dev;
     State_Monad.return MEPA_RC_OK }"

definition lan8814_ts_clock_path_delay_get ::
  "nat \<Rightarrow> mepa_timeinterval option \<Rightarrow> ('h, mepa_rc \<times> mepa_timeinterval option) lan" where
  "lan8814_ts_clock_path_delay_get dev path_delay = (case path_delay of
      None \<Rightarrow> State_Monad.return (MEPA_RC_ERROR, None)
    | Some _ \<Rightarrow> do {
        MEPA_ENTER dev;
        data \<leftarrow> data_of dev;
        MEPA_EXIT dev;
        State_Monad.return (MEPA_RC_OK, Some (tpc_path_delay (ts_conf data))) })"

definition lan8814_ts_clock_path_delay_set ::
  "nat \<Rightarrow> mepa_timeinterval option \<Rightarrow> ('h, mepa_rc) lan" where
  "lan8814_ts_clock_path_delay_set dev path_delay = (case path_delay of
      None \<Rightarrow> State_Monad.return MEPA_RC_ERROR
    | Some d \<Rightarrow> do {
        MEPA_ENTER dev;
        EP_WRM dev LAN8814_PTP_PEERDLY_HI (ucast (drop_bit 32 d)) LAN8814_DEF_MASK;
        EP_WRM dev LAN8814_PTP_PEERDLY_LO (ucast (drop_bit 16 d)) LAN8814_DEF_MASK;
        upd_tpc dev (\<lambda>c. c\<lparr>tpc_path_delay := d\<rparr>);
        MEPA_EXIT dev;
        State_Monad.return MEPA_RC_OK })"

section \<open>Latencies\<close>

text \<open>
  The latency of the configured speed; \<open>None\<close> for a speed that the \<open>switch\<close> does not know.
\<close>

definition speed_latency :: "mepa_port_speed \<Rightarrow> 'a \<Rightarrow> 'a \<Rightarrow> 'a \<Rightarrow> 'a option" where
  "speed_latency speed l10 l100 l1000 =
    (if speed = MEPA_SPEED_10M then Some l10
     else if speed = MEPA_SPEED_100M then Some l100
     else if speed = MEPA_SPEED_1G \<or> speed = MEPA_SPEED_AUTO then Some l1000 else None)"

definition get_latency :: "phy_data \<Rightarrow> (lan8814_ts_port_latencies \<Rightarrow> mepa_timeinterval) \<Rightarrow>
    (lan8814_ts_port_latencies \<Rightarrow> mepa_timeinterval) \<Rightarrow> (lan8814_ts_port_latencies \<Rightarrow> mepa_timeinterval) \<Rightarrow>
    mepa_timeinterval \<Rightarrow> mepa_timeinterval" where
  "get_latency data l10 l100 l1000 old =
    (case speed_latency (conf_speed (pd_conf data)) l10 l100 l1000 of
       None \<Rightarrow> old
     | Some l \<Rightarrow> l (tpc_port_latencies (ts_conf data)))"

definition lan8814_ts_clock_egress_latency_get ::
  "nat \<Rightarrow> mepa_timeinterval option \<Rightarrow> ('h, mepa_rc \<times> mepa_timeinterval option) lan" where
  "lan8814_ts_clock_egress_latency_get dev latency = (case latency of
      None \<Rightarrow> State_Monad.return (MEPA_RC_ERROR, None)
    | Some l \<Rightarrow> do {
        MEPA_ENTER dev;
        data \<leftarrow> data_of dev;
        MEPA_EXIT dev;
        State_Monad.return (MEPA_RC_OK,
          Some (get_latency data lat_tx10mbps lat_tx100mbps lat_tx1000mbps l)) })"

text \<open>
  The latency with the two-step adjustment of row \<open>i\<close> of the table: \<open>def\<close> is the default,
  \<open>user\<close> the configured one.
\<close>

definition egress_latency :: "mepa_ts_clock_freq \<Rightarrow> bool \<Rightarrow> nat \<Rightarrow> mepa_timeinterval \<Rightarrow>
    mepa_timeinterval \<Rightarrow> ('h, mepa_timeinterval) lan" where
  "egress_latency freq two_step i deflt user = do {
     adj \<leftarrow> (if two_step then table_at lan8814_twostep_egr_lat_adj freq i else State_Monad.return 0);
     State_Monad.return (deflt - ns_interval adj + user) }"

text \<open>One case of the \<open>switch\<close>: the register is only written for a latency that is not negative.\<close>

definition egress_latency_set_at :: "nat \<Rightarrow> mepa_ts_clock_freq \<Rightarrow> bool \<Rightarrow> nat \<Rightarrow> mepa_timeinterval \<Rightarrow>
    mepa_timeinterval \<Rightarrow> ereg \<Rightarrow> (lan8814_ts_port_latencies \<Rightarrow> lan8814_ts_port_latencies) \<Rightarrow>
    ('h, unit) lan" where
  "egress_latency_set_at dev freq two_step i deflt user r upd = do {
     latency \<leftarrow> egress_latency freq two_step i deflt user;
     only_if (0 \<le> sint latency) (do {
       EP_WR dev r (ucast (drop_bit 16 latency));
       upd_tpc dev (\<lambda>c. c\<lparr>tpc_port_latencies := upd (tpc_port_latencies c)\<rparr>) }) }"

definition lan8814_ts_clock_egress_latency_set_priv ::
  "nat \<Rightarrow> mepa_timeinterval \<Rightarrow> bool \<Rightarrow> ('h, mepa_rc) lan" where
  "lan8814_ts_clock_egress_latency_set_priv dev input_latency two_step = do {
     data \<leftarrow> data_of dev;
     base_data \<leftarrow> base_data_of (pd_base_dev data);
     let freq = tsd_clk_freq (pd_ts_state base_data);
     let deflt = tsd_default_latencies (pd_ts_state base_data);
     let speed = conf_speed (pd_conf data);
     (if speed = MEPA_SPEED_10M then
       egress_latency_set_at dev freq two_step 1 (lat_tx10mbps deflt) input_latency
         LAN8814_PTP_TX_LATENCY_10 (\<lambda>l. l\<lparr>lat_tx10mbps := input_latency\<rparr>)
      else if speed = MEPA_SPEED_100M then
       egress_latency_set_at dev freq two_step 2 (lat_tx100mbps deflt) input_latency
         LAN8814_PTP_TX_LATENCY_100 (\<lambda>l. l\<lparr>lat_tx100mbps := input_latency\<rparr>)
      else only_if (speed = MEPA_SPEED_1G \<or> speed = MEPA_SPEED_AUTO) (
       egress_latency_set_at dev freq two_step 3 (lat_tx1000mbps deflt) input_latency
         LAN8814_PTP_TX_LATENCY_1000 (\<lambda>l. l\<lparr>lat_tx1000mbps := input_latency\<rparr>)));
     State_Monad.return MEPA_RC_OK }"

definition is_two_step :: "mepa_ts_ptp_clock_conf \<Rightarrow> bool" where
  "is_two_step conf = (pcc_enable conf \<and> (pcc_clk_mode conf = MEPA_TS_PTP_CLOCK_MODE_BC2STEP \<or>
     pcc_clk_mode conf = MEPA_TS_PTP_CLOCK_MODE_TC2STEP))"

definition lan8814_ts_clock_egress_latency_set ::
  "nat \<Rightarrow> mepa_timeinterval option \<Rightarrow> ('h, mepa_rc) lan" where
  "lan8814_ts_clock_egress_latency_set dev latency = (case latency of
      None \<Rightarrow> State_Monad.return MEPA_RC_ERROR
    | Some l \<Rightarrow> do {
        MEPA_ENTER dev;
        data \<leftarrow> data_of dev;
        rc \<leftarrow> lan8814_ts_clock_egress_latency_set_priv dev l
          (is_two_step (tpc_tx_clock_conf (ts_conf data)));
        MEPA_EXIT dev;
        State_Monad.return rc })"

text \<open>\<open>(uint16_t)(latency > 0 ? latency >> 16 : 0)\<close>.\<close>

definition clip_latency :: "mepa_timeinterval \<Rightarrow> 16 word" where
  "clip_latency latency = (if 0 < sint latency then ucast (drop_bit 16 latency) else 0)"

definition lan8814_ts_reload_egress_latency :: "nat \<Rightarrow> bool \<Rightarrow> ('h, mepa_rc) lan" where
  "lan8814_ts_reload_egress_latency dev two_step = do {
     data \<leftarrow> data_of dev;
     base_data \<leftarrow> base_data_of (pd_base_dev data);
     let freq = tsd_clk_freq (pd_ts_state base_data);
     let deflt = tsd_default_latencies (pd_ts_state base_data);
     let user = tpc_port_latencies (ts_conf data);
     l \<leftarrow> egress_latency freq two_step 1 (lat_tx10mbps deflt) (lat_tx10mbps user);
     EP_WR dev LAN8814_PTP_TX_LATENCY_10 (clip_latency l);
     l \<leftarrow> egress_latency freq two_step 2 (lat_tx100mbps deflt) (lat_tx100mbps user);
     EP_WR dev LAN8814_PTP_TX_LATENCY_100 (clip_latency l);
     l \<leftarrow> egress_latency freq two_step 3 (lat_tx1000mbps deflt) (lat_tx1000mbps user);
     EP_WR dev LAN8814_PTP_TX_LATENCY_1000 (clip_latency l);
     State_Monad.return MEPA_RC_OK }"

definition lan8814_ts_clock_ingress_latency_get ::
  "nat \<Rightarrow> mepa_timeinterval option \<Rightarrow> ('h, mepa_rc \<times> mepa_timeinterval option) lan" where
  "lan8814_ts_clock_ingress_latency_get dev latency = (case latency of
      None \<Rightarrow> State_Monad.return (MEPA_RC_ERROR, None)
    | Some l \<Rightarrow> do {
        MEPA_ENTER dev;
        data \<leftarrow> data_of dev;
        MEPA_EXIT dev;
        State_Monad.return (MEPA_RC_OK,
          Some (get_latency data lat_rx10mbps lat_rx100mbps lat_rx1000mbps l)) })"

text \<open>
  The ingress latency is added in 16 bits; a negative adjustment that would leave nothing of
  the default is dropped.  \<open>MEPA_LABS\<close> is \<open>labs\<close>; a \<open>long\<close> has 64 bits here.
\<close>

definition ingress_latency :: "mepa_timeinterval \<Rightarrow> mepa_timeinterval \<Rightarrow> 16 word option" where
  "ingress_latency deflt latency =
    (let v = ucast (drop_bit 16 (MEPA_LLABS latency)) :: 16 word;
         d = ucast (drop_bit 16 deflt) :: 16 word
     in if 0 \<le> sint latency then Some (d + v)
        else if drop_bit 16 (sint deflt) \<le> uint v then None
        else Some (d - v))"

definition ingress_latency_set_at :: "nat \<Rightarrow> mepa_timeinterval \<Rightarrow> mepa_timeinterval \<Rightarrow> ereg \<Rightarrow>
    (lan8814_ts_port_latencies \<Rightarrow> lan8814_ts_port_latencies) \<Rightarrow> ('h, unit) lan" where
  "ingress_latency_set_at dev deflt latency r upd = (case ingress_latency deflt latency of
      None \<Rightarrow> State_Monad.return ()
    | Some v \<Rightarrow> do {
        EP_WRM dev r v LAN8814_DEF_MASK;
        upd_tpc dev (\<lambda>c. c\<lparr>tpc_port_latencies := upd (tpc_port_latencies c)\<rparr>) })"

definition lan8814_ts_clock_ingress_latency_set ::
  "nat \<Rightarrow> mepa_timeinterval option \<Rightarrow> ('h, mepa_rc) lan" where
  "lan8814_ts_clock_ingress_latency_set dev latency = (case latency of
      None \<Rightarrow> State_Monad.return MEPA_RC_ERROR
    | Some l \<Rightarrow> do {
        MEPA_ENTER dev;
        data \<leftarrow> data_of dev;
        base_phy \<leftarrow> base_data_of (pd_base_dev data);
        let deflt = tsd_default_latencies (pd_ts_state base_phy);
        let speed = conf_speed (pd_conf data);
        (if speed = MEPA_SPEED_10M then
          ingress_latency_set_at dev (lat_rx10mbps deflt) l LAN8814_PTP_RX_LATENCY_10
            (\<lambda>p. p\<lparr>lat_rx10mbps := l\<rparr>)
         else if speed = MEPA_SPEED_100M then
          ingress_latency_set_at dev (lat_rx100mbps deflt) l LAN8814_PTP_RX_LATENCY_100
            (\<lambda>p. p\<lparr>lat_rx100mbps := l\<rparr>)
         else only_if (speed = MEPA_SPEED_1G \<or> speed = MEPA_SPEED_AUTO) (
          ingress_latency_set_at dev (lat_rx1000mbps deflt) l LAN8814_PTP_RX_LATENCY_1000
            (\<lambda>p. p\<lparr>lat_rx1000mbps := l\<rparr>)));
        MEPA_EXIT dev;
        State_Monad.return MEPA_RC_OK })"

section \<open>Pulse per second\<close>

definition lan8814_ts_pps_conf_get :: "nat \<Rightarrow> ('h, mepa_rc \<times> mepa_ts_pps_conf) lan" where
  "lan8814_ts_pps_conf_get dev = do {
     MEPA_ENTER dev;
     data \<leftarrow> data_of dev;
     MEPA_EXIT dev;
     State_Monad.return (MEPA_RC_OK, tsd_pps (pd_ts_state data)) }"

definition pps_widths :: "32 word list" where
  "pps_widths = [100, 500, 1000, 5000, 10000, 50000, 100000, 500000, 1000000, 5000000, 10000000,
     50000000, 100000000, 200000000]"

text \<open>The loop that looks for the first width that is not below the requested one.\<close>

fun pps_search :: "32 word \<Rightarrow> 32 word list \<Rightarrow> nat \<Rightarrow> nat" where
  "pps_search width [] i = i"
| "pps_search width (w # ws) i = (if width \<le> w then i else pps_search width ws (i + 1))"

definition pps_index :: "32 word \<Rightarrow> nat" where
  "pps_index width = (let i = pps_search width pps_widths 0; n = length pps_widths
     in if n \<le> i then n - 1 else i)"

text \<open>\<open>data->ts_state.pps = *phy_pps_conf; base_data->ts_state.pps = *phy_pps_conf;\<close>\<close>

definition pps_store :: "nat \<Rightarrow> nat option \<Rightarrow> mepa_ts_pps_conf \<Rightarrow> ('h, unit) lan" where
  "pps_store dev base_dev conf = do {
     upd_ts dev (\<lambda>t. t\<lparr>tsd_pps := conf\<rparr>);
     case base_dev of
       None \<Rightarrow> null_call ()
     | Some b \<Rightarrow> upd_ts b (\<lambda>t. t\<lparr>tsd_pps := conf\<rparr>) }"

definition lan8814_ts_pps_conf_set :: "nat \<Rightarrow> mepa_ts_pps_conf \<Rightarrow> ('h, mepa_rc) lan" where
  "lan8814_ts_pps_conf_set dev conf = do {
     data \<leftarrow> data_of dev;
     let base_dev = pd_base_dev data;
     base_data_of base_dev;
     (_, ts) \<leftarrow> lan8814_ts_ltc_get dev (Some mepa_timestamp_0);
     MEPA_ENTER dev;
     pps_store dev base_dev conf;
     (if pps_output_enable conf \<noteq> 0 then do {
       lan8814_ltc_target_seconds dev (tm_seconds_low (the ts) + 2);
       EP_WRM dev LAN8814_PTP_LTC_TARGET_RELOAD_SEC_HI_A 0 LAN8814_DEF_MASK;
       EP_WRM dev LAN8814_PTP_LTC_TARGET_RELOAD_SEC_LO_A 1 LAN8814_DEF_MASK;
       EP_WRM dev LAN8814_PTP_LTC_TARGET_RELOAD_NS_HI_A 0 LAN8814_DEF_MASK;
       EP_WRM dev LAN8814_PTP_LTC_TARGET_RELOAD_NS_LO_A 0 LAN8814_DEF_MASK;
       EP_WRM dev LAN8814_PTP_GENERAL_CONFIG
         (push_bit 4 (of_nat (pps_index (pps_width_adj conf))) OR 0x2) LAN8814_DEF_MASK }
     else do {
       lan8814_ltc_target_seconds dev 0;
       EP_WR dev LAN8814_PTP_GENERAL_CONFIG 0 });
     pps_store dev base_dev conf;
     MEPA_EXIT dev;
     State_Monad.return MEPA_RC_OK }"

section \<open>Statistics and events\<close>

definition lan8814_ts_stats_get ::
  "nat \<Rightarrow> mepa_ts_stats option \<Rightarrow> ('h, mepa_rc \<times> mepa_ts_stats option) lan" where
  "lan8814_ts_stats_get dev statistics = (case statistics of
      None \<Rightarrow> State_Monad.return (MEPA_RC_ERROR, None)
    | Some _ \<Rightarrow> do {
        MEPA_ENTER dev;
        v \<leftarrow> EP_RD_INCR dev LAN8814_PTP_TX_CHKSUM_DROPPED_CNT_HI 0 True;
        v2 \<leftarrow> EP_RD_INCR dev LAN8814_PTP_TX_CHKSUM_DROPPED_CNT_LO 0 False;
        let st = mepa_ts_stats_0\<lparr>tss_egr_fcs_err := join32 v v2\<rparr>;
        v \<leftarrow> EP_RD_INCR dev LAN8814_PTP_TX_FRMS_MOD_CNT_HI v False;
        v2 \<leftarrow> EP_RD_INCR dev LAN8814_PTP_TX_FRMS_MOD_CNT_LO v2 False;
        let st = st\<lparr>tss_egr_frm_mod_cnt := join32 v v2\<rparr>;
        v \<leftarrow> EP_RD_INCR dev LAN8814_PTP_RX_CHKSUM_DROPPED_CNT_HI v True;
        v2 \<leftarrow> EP_RD_INCR dev LAN8814_PTP_RX_CHKSUM_DROPPED_CNT_LO v2 False;
        let st = st\<lparr>tss_ingr_fcs_err := join32 v v2\<rparr>;
        v \<leftarrow> EP_RD_INCR dev LAN8814_PTP_RX_FRMS_MOD_CNT_HI v False;
        v2 \<leftarrow> EP_RD_INCR dev LAN8814_PTP_RX_FRMS_MOD_CNT_LO v2 False;
        let st = st\<lparr>tss_ingr_frm_mod_cnt := join32 v v2\<rparr>;
        MEPA_EXIT dev;
        State_Monad.return (MEPA_RC_OK, Some st) })"

definition lan8814_ts_event_get ::
  "nat \<Rightarrow> mepa_ts_event option \<Rightarrow> ('h, mepa_rc \<times> mepa_ts_event option) lan" where
  "lan8814_ts_event_get dev ev_mask = (case ev_mask of
      None \<Rightarrow> State_Monad.return (MEPA_RC_ERROR, None)
    | Some _ \<Rightarrow> do {
        MEPA_ENTER dev;
        data \<leftarrow> data_of dev;
        MEPA_EXIT dev;
        State_Monad.return (MEPA_RC_OK, Some (tpc_event_mask (ts_conf data))) })"

text \<open>The two interrupt bits that follow a set of events.\<close>

definition ts_int_word :: "mepa_ts_event \<Rightarrow> 16 word \<Rightarrow> 16 word" where
  "ts_int_word events m =
    (let m = (if events AND MEPA_TS_EGR_FIFO_OVERFLOW \<noteq> 0
              then m OR LAN8814_PTP_TSU_INT_TX_TS_OVRFL_EN
              else m AND NOT LAN8814_PTP_TSU_INT_TX_TS_OVRFL_EN)
     in if events AND MEPA_TS_EGR_TIMESTAMP_CAPTURED \<noteq> 0
        then m OR LAN8814_PTP_TSU_INT_TX_TS_EN
        else m AND NOT LAN8814_PTP_TSU_INT_TX_TS_EN)"

definition lan8814_ts_event_set :: "nat \<Rightarrow> bool \<Rightarrow> mepa_ts_event \<Rightarrow> ('h, mepa_rc) lan" where
  "lan8814_ts_event_set dev enable ev_mask = do {
     MEPA_ENTER dev;
     data \<leftarrow> data_of dev;
     let old = tpc_event_mask (ts_conf data);
     let mask_changed = (if enable then old AND ev_mask = 0 else old AND ev_mask \<noteq> 0);
     upd_tpc dev (\<lambda>c. c\<lparr>tpc_event_mask := (if enable then tpc_event_mask c OR ev_mask
                                         else tpc_event_mask c AND NOT ev_mask)\<rparr>);
     only_if mask_changed (do {
       m \<leftarrow> EP_RD dev LAN8814_PTP_TSU_INT_EN 0;
       data \<leftarrow> data_of dev;
       EP_WRM dev LAN8814_PTP_TSU_INT_EN (ts_int_word (tpc_event_mask (ts_conf data)) m)
         LAN8814_DEF_MASK });
     MEPA_EXIT dev;
     State_Monad.return MEPA_RC_OK }"

definition ts_event_word :: "mepa_ts_event \<Rightarrow> 16 word \<Rightarrow> mepa_ts_event" where
  "ts_event_word events v =
    (if has_bits v LAN8814_PTP_TX_TS_OVRFL_INT then events AND MEPA_TS_EGR_FIFO_OVERFLOW else 0) OR
    (if has_bits v LAN8814_PTP_TX_TS_INT then events AND MEPA_TS_EGR_TIMESTAMP_CAPTURED else 0)"

definition lan8814_ts_event_poll ::
  "nat \<Rightarrow> mepa_ts_event option \<Rightarrow> ('h, mepa_rc \<times> mepa_ts_event option) lan" where
  "lan8814_ts_event_poll dev status = (case status of
      None \<Rightarrow> State_Monad.return (MEPA_RC_ERROR, None)
    | Some st \<Rightarrow> do {
        MEPA_ENTER dev;
        data \<leftarrow> data_of dev;
        let chip_port = unat (pd_packet_idx data) mod 4;
        (rc, v) \<leftarrow> lan8814_ext_reg_rd dev (fst LAN8814_CHIP_LVL_INTR_STATUS)
          (snd LAN8814_CHIP_LVL_INTR_STATUS) 0;
        (rc, st) \<leftarrow> (if has_bits v (push_bit chip_port 1) then do {
            (rc, v) \<leftarrow> lan8814_ext_reg_rd dev (fst LAN8814_PTP_TSU_INT_STS)
              (snd LAN8814_PTP_TSU_INT_STS) v;
            State_Monad.return (rc, st OR ts_event_word (tpc_event_mask (ts_conf data)) v) }
          else State_Monad.return (rc, st));
        MEPA_EXIT dev;
        State_Monad.return (rc, Some st) })"

section \<open>The timestamp FIFO\<close>

definition lan8814_ts_fifo_read_install :: "nat \<Rightarrow> nat option \<Rightarrow> ('h, unit) lan" where
  "lan8814_ts_fifo_read_install dev rd_cb = do {
     MEPA_ENTER dev;
     upd_ts dev (\<lambda>t. t\<lparr>tsd_fifo_cb := rd_cb\<rparr>);
     MEPA_EXIT dev }"

text \<open>The signature of an entry from the two message header registers; the rest of it is kept.\<close>

definition fifo_sig :: "16 word \<Rightarrow> 16 word \<Rightarrow> mepa_ts_fifo_sig \<Rightarrow> mepa_ts_fifo_sig" where
  "fifo_sig head1 head2 sig = sig\<lparr>sig_msg_type := ucast (head1 AND 0xF), sig_sequence_id := head2,
     sig_crc_src_port := drop_bit 4 head1, sig_has_crc_src := True,
     sig_dmac_sig_supported := False, sig_ipv4_sig_supported := False,
     sig_ipv6_sig_supported := False, sig_dest_ipv4 := replicate 4 0,
     sig_dmac_addr := replicate 6 0\<rparr>"

text \<open>
  \<open>do { ... } while (valid_ts)\<close>: the loop ends when the hardware shows no valid timestamp.
  The callback is called outside the lock.  The out-parameter \<open>val\<close> of a failing first read is the last
  value read; \<open>fuel\<close> bounds the number of rounds.
\<close>

fun tx_ts_loop :: "nat \<Rightarrow> nat \<Rightarrow> nat option \<Rightarrow> 32 word \<Rightarrow> 16 word \<Rightarrow> 16 word \<Rightarrow> 16 word \<Rightarrow>
    mepa_timestamp \<Rightarrow> mepa_ts_fifo_sig \<Rightarrow> ('h, bool) lan" where
  "tx_ts_loop 0 dev rd_cb port_no v head1 head2 ts sig = State_Monad.return False"
| "tx_ts_loop (Suc fuel) dev rd_cb port_no v head1 head2 ts sig = do {
     v \<leftarrow> EP_RD dev LAN8814_PTP_TX_TS_NS_HI v;
     if has_bits v LAN8814_PTP_TX_TS_NS_PTP_TX_TS_VALID then do {
       lo \<leftarrow> EP_RD dev LAN8814_PTP_TX_TS_NS_LO 0;
       sec_hi \<leftarrow> EP_RD dev LAN8814_PTP_TX_TS_SEC_HI 0;
       sec_lo \<leftarrow> EP_RD dev LAN8814_PTP_TX_TS_SEC_LO 0;
       head1 \<leftarrow> EP_RD dev LAN8814_PTP_TX_MSG_HEADER1 head1;
       head2 \<leftarrow> EP_RD dev LAN8814_PTP_TX_MSG_HEADER2 head2;
       let ts = ts\<lparr>tm_nanoseconds := join32 (v AND 0x3fff) lo, tm_seconds_low := join32 sec_hi sec_lo\<rparr>;
       let sig = fifo_sig head1 head2 sig;
       MEPA_EXIT dev;
       call_ts_cb rd_cb port_no ts sig MEPA_TS_FIFO_SUCCESS;
       MEPA_ENTER dev;
       tx_ts_loop fuel dev rd_cb port_no sec_lo head1 head2 ts sig }
     else State_Monad.return True }"

definition lan8814_ts_tx_ts_get :: "nat \<Rightarrow> nat \<Rightarrow> ('h, mepa_rc option) lan" where
  "lan8814_ts_tx_ts_get dev fuel = do {
     data \<leftarrow> data_of dev;
     MEPA_ENTER dev;
     ended \<leftarrow> tx_ts_loop fuel dev (tsd_fifo_cb (pd_ts_state data)) (pd_port_no data) 0 0 0
       mepa_timestamp_0 mepa_ts_fifo_sig_0;
     if \<not> ended then State_Monad.return None else do {
     MEPA_EXIT dev;
     State_Monad.return (Some MEPA_RC_OK) }}"

text \<open>
  Up to eight entries into the caller's list.  The automatic variable \<open>val\<close> is not initialised:
  \<open>v\<close> is what it holds, and it is only used when the first register access fails.
\<close>

fun fifo_get_loop :: "nat \<Rightarrow> nat list \<Rightarrow> 16 word \<Rightarrow> mepa_fifo_ts_entry list \<Rightarrow>
    ('h, mepa_fifo_ts_entry list \<times> nat) lan" where
  "fifo_get_loop dev [] v ts_list = State_Monad.return (ts_list, MEPA_TS_FIFO_MAX_ENTRIES)"
| "fifo_get_loop dev (i # is) v ts_list = do {
     v \<leftarrow> EP_RD_INCR dev LAN8814_PTP_TX_TS_NS_HI v True;
     if has_bits v LAN8814_PTP_TX_TS_NS_PTP_TX_TS_VALID then do {
       lo \<leftarrow> EP_RD_INCR dev LAN8814_PTP_TX_TS_NS_LO v False;
       sec_hi \<leftarrow> EP_RD_INCR dev LAN8814_PTP_TX_TS_SEC_HI lo False;
       sec_lo \<leftarrow> EP_RD_INCR dev LAN8814_PTP_TX_TS_SEC_LO sec_hi False;
       head1 \<leftarrow> EP_RD_INCR dev LAN8814_PTP_TX_MSG_HEADER1 sec_lo False;
       head2 \<leftarrow> EP_RD_INCR dev LAN8814_PTP_TX_MSG_HEADER2 head1 False;
       let e = ts_list ! i;
       let e = e\<lparr>fte_ts := (fte_ts e)\<lparr>tm_nanoseconds := join32 (v AND 0x3fff) lo,
                  tm_seconds_low := join32 sec_hi sec_lo, tm_seconds_high := 0\<rparr>,
                fte_sig := fifo_sig head1 head2 (fte_sig e)\<rparr>;
       fifo_get_loop dev is head2 (ts_list[i := e]) }
     else State_Monad.return (ts_list, i) }"

definition lan8814_ts_fifo_get :: "16 word \<Rightarrow> nat \<Rightarrow> nat \<Rightarrow> mepa_fifo_ts_entry list \<times> 32 word \<Rightarrow>
    ('h, mepa_rc \<times> (mepa_fifo_ts_entry list \<times> 32 word)) lan" where
  "lan8814_ts_fifo_get v dev size_of_list out =
    (if size_of_list < MEPA_TS_FIFO_MAX_ENTRIES then State_Monad.return (MEPA_RC_ERROR, out) else do {
     MEPA_ENTER dev;
     (ts_list, i) \<leftarrow> fifo_get_loop dev [0..<MEPA_TS_FIFO_MAX_ENTRIES] v (fst out);
     MEPA_EXIT dev;
     State_Monad.return (MEPA_RC_OK, (ts_list, of_nat i)) })"

definition lan8814_ts_pch_mch_error_get :: "nat \<Rightarrow> ('h, mepa_rc \<times> mepa_pch_mch_mismatch_info) lan" where
  "lan8814_ts_pch_mch_error_get dev = do {
     MEPA_ENTER dev;
     v \<leftarrow> EP_RD dev LAN8814_PTP_PCH_FORMAT_MISMATCH 0;
     MEPA_EXIT dev;
     State_Monad.return (MEPA_RC_OK, \<lparr>
       mmi_subportid_mismatch = has_bits v LAN8814_PTP_PCH_FORMAT_MISMATCH_SUB_PORT_ID,
       mmi_crc_error = has_bits v LAN8814_PTP_PCH_FORMAT_MISMATCH_CRC_ERR,
       mmi_ext_type_mismatch = has_bits v LAN8814_PTP_PCH_FORMAT_MISMATCH_EXT_TYPE,
       mmi_pkt_type_mismatch = has_bits v LAN8814_PTP_PCH_FORMAT_MISMATCH_PKT_TYPE\<rparr>) }"

end
