(* ===== verification/Mepa_Ts_Driver.thy ===== *)
theory Mepa_Ts_Driver
  imports Mepa_Callout
begin

text \<open>
  The timestamping part of the driver interface (\<open>mepa/common/include/mepa_ts_driver.h\<close>).  The
  member \<open>mepa_ts_f\<close> of the source is \<open>ts_drv_f\<close> here, since \<open>mepa_ts_f\<close> is the function of the
  API.  A pointer that a driver tests for NULL is an option.  Emptying the FIFO loops until
  the hardware reports no timestamp: the number of rounds that it may take is an
  argument, and the result is \<open>None\<close> when they do not suffice.
\<close>

record ('h, 'd) mepa_ts_driver =
  ts_drv_mode_set :: "(nat \<Rightarrow> bool \<Rightarrow> ('h, 'd, mepa_rc) mepa) option"
  ts_drv_mode_get :: "(nat \<Rightarrow> bool \<Rightarrow> ('h, 'd, mepa_rc \<times> bool) mepa) option"
  ts_drv_reset :: "(nat \<Rightarrow> mepa_ts_reset_conf \<Rightarrow> ('h, 'd, mepa_rc) mepa) option"
  ts_drv_init_conf_set :: "(nat \<Rightarrow> mepa_ts_init_conf option \<Rightarrow> ('h, 'd, mepa_rc) mepa) option"
  ts_drv_init_conf_get ::
    "(nat \<Rightarrow> mepa_ts_init_conf option \<Rightarrow> ('h, 'd, mepa_rc \<times> (mepa_ts_init_conf option)) mepa) option"
  ts_drv_ltc_ls_en :: "(nat \<Rightarrow> mepa_ts_ls_type \<Rightarrow> ('h, 'd, mepa_rc) mepa) option"
  ts_drv_ltc_get ::
    "(nat \<Rightarrow> mepa_timestamp option \<Rightarrow> ('h, 'd, mepa_rc \<times> (mepa_timestamp option)) mepa) option"
  ts_drv_ltc_set :: "(nat \<Rightarrow> mepa_timestamp option \<Rightarrow> ('h, 'd, mepa_rc) mepa) option"
  ts_drv_delay_asymmetry_get ::
    "(nat \<Rightarrow> mepa_timeinterval \<Rightarrow> ('h, 'd, mepa_rc \<times> mepa_timeinterval) mepa) option"
  ts_drv_delay_asymmetry_set :: "(nat \<Rightarrow> mepa_timeinterval \<Rightarrow> ('h, 'd, mepa_rc) mepa) option"
  ts_drv_path_delay_get ::
    "(nat \<Rightarrow> mepa_timeinterval option \<Rightarrow> ('h, 'd, mepa_rc \<times> (mepa_timeinterval option)) mepa) option"
  ts_drv_path_delay_set :: "(nat \<Rightarrow> mepa_timeinterval option \<Rightarrow> ('h, 'd, mepa_rc) mepa) option"
  ts_drv_egress_latency_get ::
    "(nat \<Rightarrow> mepa_timeinterval option \<Rightarrow> ('h, 'd, mepa_rc \<times> (mepa_timeinterval option)) mepa) option"
  ts_drv_egress_latency_set ::
    "(nat \<Rightarrow> mepa_timeinterval option \<Rightarrow> ('h, 'd, mepa_rc) mepa) option"
  ts_drv_ingress_latency_get ::
    "(nat \<Rightarrow> mepa_timeinterval option \<Rightarrow> ('h, 'd, mepa_rc \<times> (mepa_timeinterval option)) mepa) option"
  ts_drv_ingress_latency_set ::
    "(nat \<Rightarrow> mepa_timeinterval option \<Rightarrow> ('h, 'd, mepa_rc) mepa) option"
  ts_drv_clock_rateadj_get ::
    "(nat \<Rightarrow> mepa_ts_scaled_ppb option \<Rightarrow> ('h, 'd, mepa_rc \<times> (mepa_ts_scaled_ppb option)) mepa) option"
  ts_drv_clock_rateadj_set ::
    "(nat \<Rightarrow> mepa_ts_scaled_ppb option \<Rightarrow> ('h, 'd, mepa_rc) mepa) option"
  ts_drv_clock_adj1ns :: "(nat \<Rightarrow> bool \<Rightarrow> ('h, 'd, mepa_rc) mepa) option"
  ts_drv_pps_conf_get ::
    "(nat \<Rightarrow> mepa_ts_pps_conf \<Rightarrow> ('h, 'd, mepa_rc \<times> mepa_ts_pps_conf) mepa) option"
  ts_drv_pps_conf_set :: "(nat \<Rightarrow> mepa_ts_pps_conf \<Rightarrow> ('h, 'd, mepa_rc) mepa) option"
  ts_drv_rx_classifier_conf_get ::
    "(nat \<Rightarrow> 16 word \<Rightarrow> mepa_ts_classifier option \<Rightarrow> ('h, 'd, mepa_rc \<times> (mepa_ts_classifier option)) mepa) option"
  ts_drv_tx_classifier_conf_get ::
    "(nat \<Rightarrow> 16 word \<Rightarrow> mepa_ts_classifier option \<Rightarrow> ('h, 'd, mepa_rc \<times> (mepa_ts_classifier option)) mepa) option"
  ts_drv_rx_classifier_conf_set ::
    "(nat \<Rightarrow> 16 word \<Rightarrow> mepa_ts_classifier option \<Rightarrow> ('h, 'd, mepa_rc) mepa) option"
  ts_drv_tx_classifier_conf_set ::
    "(nat \<Rightarrow> 16 word \<Rightarrow> mepa_ts_classifier option \<Rightarrow> ('h, 'd, mepa_rc) mepa) option"
  ts_drv_rx_clock_conf_get ::
    "(nat \<Rightarrow> 16 word \<Rightarrow> mepa_ts_ptp_clock_conf option \<Rightarrow> ('h, 'd, mepa_rc \<times> (mepa_ts_ptp_clock_conf option)) mepa) option"
  ts_drv_tx_clock_conf_get ::
    "(nat \<Rightarrow> 16 word \<Rightarrow> mepa_ts_ptp_clock_conf option \<Rightarrow> ('h, 'd, mepa_rc \<times> (mepa_ts_ptp_clock_conf option)) mepa) option"
  ts_drv_rx_clock_conf_set ::
    "(nat \<Rightarrow> 16 word \<Rightarrow> mepa_ts_ptp_clock_conf \<Rightarrow> ('h, 'd, mepa_rc) mepa) option"
  ts_drv_tx_clock_conf_set ::
    "(nat \<Rightarrow> 16 word \<Rightarrow> mepa_ts_ptp_clock_conf \<Rightarrow> ('h, 'd, mepa_rc) mepa) option"
  ts_drv_stats_get ::
    "(nat \<Rightarrow> mepa_ts_stats option \<Rightarrow> ('h, 'd, mepa_rc \<times> (mepa_ts_stats option)) mepa) option"
  ts_drv_event_set :: "(nat \<Rightarrow> bool \<Rightarrow> mepa_ts_event \<Rightarrow> ('h, 'd, mepa_rc) mepa) option"
  ts_drv_event_get ::
    "(nat \<Rightarrow> mepa_ts_event option \<Rightarrow> ('h, 'd, mepa_rc \<times> (mepa_ts_event option)) mepa) option"
  ts_drv_event_poll ::
    "(nat \<Rightarrow> mepa_ts_event option \<Rightarrow> ('h, 'd, mepa_rc \<times> (mepa_ts_event option)) mepa) option"
  ts_drv_fifo_read_install :: "(nat \<Rightarrow> nat option \<Rightarrow> ('h, 'd, unit) mepa) option"
  ts_drv_fifo_empty :: "(nat \<Rightarrow> nat \<Rightarrow> ('h, 'd, mepa_rc option) mepa) option"
  ts_drv_fifo_get ::
    "(nat \<Rightarrow> nat \<Rightarrow> (mepa_fifo_ts_entry list \<times> 32 word) \<Rightarrow> ('h, 'd, mepa_rc \<times> (mepa_fifo_ts_entry list \<times> 32 word)) mepa) option"
  ts_drv_fifo_signature_set :: "(nat \<Rightarrow> 32 word \<Rightarrow> ('h, 'd, mepa_rc) mepa) option"
  ts_drv_fifo_signature_get :: "(nat \<Rightarrow> 32 word \<Rightarrow> ('h, 'd, mepa_rc \<times> 32 word) mepa) option"
  ts_drv_test_config :: "(nat \<Rightarrow> 16 word \<Rightarrow> bool \<Rightarrow> ('h, 'd, mepa_rc) mepa) option"
  ts_drv_pch_mch_error_info_get ::
    "(nat \<Rightarrow> mepa_pch_mch_mismatch_info \<Rightarrow> ('h, 'd, mepa_rc \<times> mepa_pch_mch_mismatch_info) mepa) option"
  ts_drv_csr_reg_read ::
    "(nat \<Rightarrow> 16 word \<Rightarrow> 16 word \<Rightarrow> 32 word \<Rightarrow> ('h, 'd, mepa_rc \<times> 32 word) mepa) option"
  ts_drv_csr_reg_write ::
    "(nat \<Rightarrow> 16 word \<Rightarrow> 16 word \<Rightarrow> 32 word \<Rightarrow> ('h, 'd, mepa_rc) mepa) option"

definition null_ts_driver :: "('h, 'd) mepa_ts_driver" where
  "null_ts_driver = \<lparr>
     ts_drv_mode_set = None,
     ts_drv_mode_get = None,
     ts_drv_reset = None,
     ts_drv_init_conf_set = None,
     ts_drv_init_conf_get = None,
     ts_drv_ltc_ls_en = None,
     ts_drv_ltc_get = None,
     ts_drv_ltc_set = None,
     ts_drv_delay_asymmetry_get = None,
     ts_drv_delay_asymmetry_set = None,
     ts_drv_path_delay_get = None,
     ts_drv_path_delay_set = None,
     ts_drv_egress_latency_get = None,
     ts_drv_egress_latency_set = None,
     ts_drv_ingress_latency_get = None,
     ts_drv_ingress_latency_set = None,
     ts_drv_clock_rateadj_get = None,
     ts_drv_clock_rateadj_set = None,
     ts_drv_clock_adj1ns = None,
     ts_drv_pps_conf_get = None,
     ts_drv_pps_conf_set = None,
     ts_drv_rx_classifier_conf_get = None,
     ts_drv_tx_classifier_conf_get = None,
     ts_drv_rx_classifier_conf_set = None,
     ts_drv_tx_classifier_conf_set = None,
     ts_drv_rx_clock_conf_get = None,
     ts_drv_tx_clock_conf_get = None,
     ts_drv_rx_clock_conf_set = None,
     ts_drv_tx_clock_conf_set = None,
     ts_drv_stats_get = None,
     ts_drv_event_set = None,
     ts_drv_event_get = None,
     ts_drv_event_poll = None,
     ts_drv_fifo_read_install = None,
     ts_drv_fifo_empty = None,
     ts_drv_fifo_get = None,
     ts_drv_fifo_signature_set = None,
     ts_drv_fifo_signature_get = None,
     ts_drv_test_config = None,
     ts_drv_pch_mch_error_info_get = None,
     ts_drv_csr_reg_read = None,
     ts_drv_csr_reg_write = None\<rparr>"

end
