(* ===== verification/Lan8814_Ts_Class.thy ===== *)
theory Lan8814_Ts_Class
  imports Lan8814_Ts_Clock Mepa_Ts_Driver
begin

text \<open>
  The timestamping unit of the LAN8814 driver, third part (\<open>lan8814_ts.c\<close>): the packet classifiers
  and the PTP clock modes.  The source has each function body twice, for ingress and for egress
  registers; here the register is chosen by the direction \<open>ing\<close> where the two bodies are
  otherwise the same (the bits of the ingress and egress registers have the same places).
\<close>

section \<open>Parts of a classifier\<close>

definition ptp_version :: "mepa_ts_classifier_ptp \<Rightarrow> 16 word" where
  "ptp_version conf =
    (let up = push_bit 4 (0xF AND ucast (r8_upper (tcp_version conf))) OR
              (0xF AND ucast (r8_upper (tcp_minor_version conf))) :: 16 word;
         lo = push_bit 4 (0xF AND ucast (r8_lower (tcp_version conf))) OR
              (0xF AND ucast (r8_lower (tcp_minor_version conf))) :: 16 word
     in push_bit 8 up OR (0xFF AND lo))"

definition domain_lo :: "bool \<Rightarrow> mepa_ts_match_uint8 \<Rightarrow> 16 word" where
  "domain_lo ing dm = (if m8_mode dm = MEPA_TS_MATCH_MODE_RANGE
     then (if ing
       then LAN8814_PTP_RX_DOMAIN_DOMAIN_LO_RANGE_EN OR
         LAN8814_PTP_RX_DOMAIN_DOMAIN_LO_RANGE_LO_F (ucast (m8_lo dm))
       else LAN8814_PTP_TX_DOMAIN_DOMAIN_LO_RANGE_EN OR
         LAN8814_PTP_TX_DOMAIN_DOMAIN_LO_RANGE_LO_F (ucast (m8_lo dm)))
     else ucast (m8_hi dm))"

definition domain_up :: "mepa_ts_match_uint8 \<Rightarrow> 16 word" where
  "domain_up dm = (if m8_mode dm = MEPA_TS_MATCH_MODE_RANGE
     then ucast (m8_hi dm) else ucast (m8_lo dm))"

definition lan8814_ts_classifier_ptp_conf_priv ::
  "nat \<Rightarrow> bool \<Rightarrow> mepa_ts_classifier_ptp \<Rightarrow> ('h, mepa_rc) lan" where
  "lan8814_ts_classifier_ptp_conf_priv dev ing conf = do {
     only_if ing (EP_WRM dev LAN8814_PTP_RX_VERSION (ptp_version conf) LAN8814_DEF_MASK);
     EP_WRM dev LAN8814_PTP_TX_VERSION (ptp_version conf) LAN8814_DEF_MASK;
     EP_WRM dev (if ing then LAN8814_PTP_RX_DOMAIN_DOMAIN_LO else LAN8814_PTP_TX_DOMAIN_DOMAIN_LO)
       (domain_lo ing (tcp_domain conf)) LAN8814_DEF_MASK;
     EP_WRM dev
       (if ing then LAN8814_PTP_RX_DOMAIN_MASK_DOMAIN_UP else LAN8814_PTP_TX_DOMAIN_MASK_DOMAIN_UP)
       (domain_up (tcp_domain conf)) LAN8814_DEF_MASK;
     State_Monad.return MEPA_RC_OK }"

text \<open>The halves of a 32-bit word.\<close>

definition hi16 :: "32 word \<Rightarrow> 16 word" where
  "hi16 v = ucast (drop_bit 16 v)"

definition lo16 :: "32 word \<Rightarrow> 16 word" where
  "lo16 v = ucast v"

definition lan8814_ts_classifier_ipv4_addr_conf_priv ::
  "nat \<Rightarrow> bool \<Rightarrow> mepa_ts_ip_network \<Rightarrow> ('h, mepa_rc) lan" where
  "lan8814_ts_classifier_ipv4_addr_conf_priv dev ing ipv4 = do {
     EP_WRM dev (if ing then LAN8814_PTP_RX_USER_IP_ADDR_7 else LAN8814_PTP_TX_USER_IP_ADDR_7)
       (hi16 (ipv4_addr ipv4)) LAN8814_DEF_MASK;
     EP_WRM dev (if ing then LAN8814_PTP_RX_USER_IP_ADDR_6 else LAN8814_PTP_TX_USER_IP_ADDR_6)
       (lo16 (ipv4_addr ipv4)) LAN8814_DEF_MASK;
     EP_WRM dev (if ing then LAN8814_PTP_RX_USER_IP_MASK_7 else LAN8814_PTP_TX_USER_IP_MASK_7)
       (hi16 (ipv4_mask ipv4)) LAN8814_DEF_MASK;
     EP_WRM dev (if ing then LAN8814_PTP_RX_USER_IP_MASK_6 else LAN8814_PTP_TX_USER_IP_MASK_6)
       (lo16 (ipv4_mask ipv4)) LAN8814_DEF_MASK;
     State_Monad.return MEPA_RC_OK }"

definition lan8814_ts_classifier_ipv6_addr_conf_priv ::
  "nat \<Rightarrow> bool \<Rightarrow> mepa_ts_ip_network \<Rightarrow> ('h, mepa_rc) lan" where
  "lan8814_ts_classifier_ipv6_addr_conf_priv dev ing ipv6 = do {
     EP_WRM dev (if ing then LAN8814_PTP_RX_USER_IP_ADDR_0 else LAN8814_PTP_TX_USER_IP_ADDR_0)
       (hi16 (ipv6_addr ipv6 0)) LAN8814_DEF_MASK;
     EP_WRM dev (if ing then LAN8814_PTP_RX_USER_IP_ADDR_1 else LAN8814_PTP_TX_USER_IP_ADDR_1)
       (lo16 (ipv6_addr ipv6 0)) LAN8814_DEF_MASK;
     EP_WRM dev (if ing then LAN8814_PTP_RX_USER_IP_ADDR_2 else LAN8814_PTP_TX_USER_IP_ADDR_2)
       (hi16 (ipv6_addr ipv6 1)) LAN8814_DEF_MASK;
     EP_WRM dev (if ing then LAN8814_PTP_RX_USER_IP_ADDR_3 else LAN8814_PTP_TX_USER_IP_ADDR_3)
       (lo16 (ipv6_addr ipv6 1)) LAN8814_DEF_MASK;
     EP_WRM dev (if ing then LAN8814_PTP_RX_USER_IP_ADDR_4 else LAN8814_PTP_TX_USER_IP_ADDR_4)
       (hi16 (ipv6_addr ipv6 2)) LAN8814_DEF_MASK;
     EP_WRM dev (if ing then LAN8814_PTP_RX_USER_IP_ADDR_5 else LAN8814_PTP_TX_USER_IP_ADDR_5)
       (lo16 (ipv6_addr ipv6 2)) LAN8814_DEF_MASK;
     EP_WRM dev (if ing then LAN8814_PTP_RX_USER_IP_ADDR_6 else LAN8814_PTP_TX_USER_IP_ADDR_6)
       (hi16 (ipv6_addr ipv6 3)) LAN8814_DEF_MASK;
     EP_WRM dev (if ing then LAN8814_PTP_RX_USER_IP_ADDR_7 else LAN8814_PTP_TX_USER_IP_ADDR_7)
       (lo16 (ipv6_addr ipv6 3)) LAN8814_DEF_MASK;
     EP_WRM dev (if ing then LAN8814_PTP_RX_USER_IP_MASK_0 else LAN8814_PTP_TX_USER_IP_MASK_0)
       (hi16 (ipv6_mask ipv6 0)) LAN8814_DEF_MASK;
     EP_WRM dev (if ing then LAN8814_PTP_RX_USER_IP_MASK_1 else LAN8814_PTP_TX_USER_IP_MASK_1)
       (lo16 (ipv6_mask ipv6 0)) LAN8814_DEF_MASK;
     EP_WRM dev (if ing then LAN8814_PTP_RX_USER_IP_MASK_2 else LAN8814_PTP_TX_USER_IP_MASK_2)
       (hi16 (ipv6_mask ipv6 1)) LAN8814_DEF_MASK;
     EP_WRM dev (if ing then LAN8814_PTP_RX_USER_IP_MASK_3 else LAN8814_PTP_TX_USER_IP_MASK_3)
       (lo16 (ipv6_mask ipv6 1)) LAN8814_DEF_MASK;
     EP_WRM dev (if ing then LAN8814_PTP_RX_USER_IP_MASK_4 else LAN8814_PTP_TX_USER_IP_MASK_4)
       (hi16 (ipv6_mask ipv6 2)) LAN8814_DEF_MASK;
     EP_WRM dev (if ing then LAN8814_PTP_RX_USER_IP_MASK_5 else LAN8814_PTP_TX_USER_IP_MASK_5)
       (lo16 (ipv6_mask ipv6 2)) LAN8814_DEF_MASK;
     EP_WRM dev (if ing then LAN8814_PTP_RX_USER_IP_MASK_6 else LAN8814_PTP_TX_USER_IP_MASK_6)
       (hi16 (ipv6_mask ipv6 3)) LAN8814_DEF_MASK;
     EP_WRM dev (if ing then LAN8814_PTP_RX_USER_IP_MASK_7 else LAN8814_PTP_TX_USER_IP_MASK_7)
       (lo16 (ipv6_mask ipv6 3)) LAN8814_DEF_MASK;
     State_Monad.return MEPA_RC_OK }"

text \<open>\<open>mac_addr[i] << 8 | mac_addr[i + 1]\<close>.\<close>

definition mac16 :: "8 word list \<Rightarrow> nat \<Rightarrow> 16 word" where
  "mac16 mac_addr i = push_bit 8 (ucast (mac_addr ! i)) OR ucast (mac_addr ! (i + 1))"

definition lan8814_ts_classifier_mac_conf_set_priv ::
  "nat \<Rightarrow> bool \<Rightarrow> 8 word list \<Rightarrow> ('h, mepa_rc) lan" where
  "lan8814_ts_classifier_mac_conf_set_priv dev ing mac_addr = do {
     EP_WRM dev (if ing then LAN8814_PTP_RX_USER_MAC_HI else LAN8814_PTP_TX_USER_MAC_HI)
       (mac16 mac_addr 0) LAN8814_DEF_MASK;
     EP_WRM dev (if ing then LAN8814_PTP_RX_USER_MAC_MID else LAN8814_PTP_TX_USER_MAC_MID)
       (mac16 mac_addr 2) LAN8814_DEF_MASK;
     EP_WRM dev (if ing then LAN8814_PTP_RX_USER_MAC_LO else LAN8814_PTP_TX_USER_MAC_LO)
       (mac16 mac_addr 4) LAN8814_DEF_MASK;
     State_Monad.return MEPA_RC_OK }"

definition vlan_parse :: "bool \<Rightarrow> 8 word \<Rightarrow> 16 word" where
  "vlan_parse ing num_tag =
    (if ing then
       (if num_tag = 2 then LAN8814_PTP_RX_PARSE_VLAN_VLAN2_CHECK_EN else 0) OR
       LAN8814_PTP_RX_PARSE_VLAN_VLAN1_CHECK_EN OR
       LAN8814_PTP_RX_PARSE_VLAN_TAG_COUNT_F (ucast num_tag)
     else
       (if num_tag = 2 then LAN8814_PTP_TX_PARSE_VLAN_VLAN2_CHECK_EN else 0) OR
       LAN8814_PTP_TX_PARSE_VLAN_VLAN1_CHECK_EN OR
       LAN8814_PTP_TX_PARSE_VLAN_TAG_COUNT_F (ucast num_tag))"

definition vlan_outer :: "nat \<Rightarrow> mepa_ts_match_uint16 \<Rightarrow> ('h, unit) lan" where
  "vlan_outer dev tag = do {
     (if m16_mode tag = MEPA_TS_MATCH_MODE_RANGE then do {
       EP_WRM dev LAN8814_VLAN2_VID_RANGE_UP
         (LAN8814_VLAN2_VID_RANGE_EN OR LAN8814_VLAN2_VID_RANGE_UP_VAL_F (m16_hi tag))
         LAN8814_DEF_MASK;
       EP_WRM dev LAN8814_VLAN2_VID_RANGE_LO (LAN8814_VLAN2_VID_RANGE_UP_VAL_F (m16_lo tag))
         LAN8814_DEF_MASK }
     else do {
       EP_WRM dev LAN8814_VLAN2_TYPE_ID
         (LAN8814_VLAN2_TYPE_SELECT_F 0 OR LAN8814_VLAN2_TYPE_ID_VAL_F (m16_hi tag))
         LAN8814_DEF_MASK;
       EP_WRM dev LAN8814_VLAN2_ID_MASK (LAN8814_VLAN2_ID_MASK_VAL_F (m16_lo tag))
         LAN8814_DEF_MASK });
     State_Monad.return () }"

definition vlan_inner :: "nat \<Rightarrow> mepa_ts_match_uint16 \<Rightarrow> ('h, unit) lan" where
  "vlan_inner dev tag = do {
     (if m16_mode tag = MEPA_TS_MATCH_MODE_RANGE then do {
       EP_WRM dev LAN8814_VLAN1_VID_RANGE_UP
         (LAN8814_VLAN1_VID_RANGE_EN OR LAN8814_VLAN1_VID_RANGE_UP_VAL_F (m16_hi tag))
         LAN8814_DEF_MASK;
       EP_WRM dev LAN8814_VLAN1_VID_RANGE_LO (LAN8814_VLAN1_VID_RANGE_UP_VAL_F (m16_lo tag))
         LAN8814_DEF_MASK }
     else do {
       EP_WRM dev LAN8814_VLAN1_TYPE_ID
         (LAN8814_VLAN1_TYPE_SELECT_F 0 OR LAN8814_VLAN1_TYPE_ID_VAL_F (m16_hi tag))
         LAN8814_DEF_MASK;
       EP_WRM dev LAN8814_VLAN1_ID_MASK (LAN8814_VLAN1_ID_MASK_VAL_F (m16_lo tag))
         LAN8814_DEF_MASK });
     State_Monad.return () }"

definition lan8814_ts_classifier_vlan_conf_set_priv ::
  "nat \<Rightarrow> bool \<Rightarrow> mepa_ts_vlan_conf \<Rightarrow> ('h, mepa_rc) lan" where
  "lan8814_ts_classifier_vlan_conf_set_priv dev ing conf =
    (if tvc_num_tag conf = 2 \<or> tvc_num_tag conf = 1 then do {
       EP_WRM dev
         (if ing then LAN8814_PTP_RX_PARSE_VLAN_CONFIG else LAN8814_PTP_TX_PARSE_VLAN_CONFIG)
         (vlan_parse ing (tvc_num_tag conf)) LAN8814_DEF_MASK;
       only_if (tvc_num_tag conf = 2) (vlan_outer dev (tvc_outer_tag conf));
       vlan_inner dev (tvc_inner_tag conf);
       State_Monad.return MEPA_RC_OK }
     else State_Monad.return MEPA_RC_ERROR)"

section \<open>The classifiers\<close>

text \<open>
  The part that both encapsulations share: MAC addresses and VLAN tags.  The result is the
  return code and the value of \<open>parse_config\<close>, which is only used when the code is OK.
\<close>

definition mac_da_mode :: "mepa_ts_mac_match_mode \<Rightarrow> 16 word" where
  "mac_da_mode mode =
    (if mode = MEPA_TS_ETH_ADDR_MATCH_ANY then LAN8814_PTP_RX_PARSE_CONFIG_MAC_DA_MODE_F 6
     else if mode = MEPA_TS_ETH_ADDR_MATCH_ANY_UNICAST
     then LAN8814_PTP_RX_PARSE_CONFIG_MAC_DA_MODE_F 2
     else if mode = MEPA_TS_ETH_ADDR_MATCH_ANY_MULTICAST
     then LAN8814_PTP_RX_PARSE_CONFIG_MAC_DA_MODE_F 4
     else LAN8814_PTP_RX_PARSE_CONFIG_MAC_DA_MODE_F 1)"

definition class_eth :: "nat \<Rightarrow> bool \<Rightarrow> phy_data \<Rightarrow> mepa_ts_classifier_eth \<Rightarrow> 16 word \<Rightarrow>
    ('h, mepa_rc \<times> 16 word) lan" where
  "class_eth dev ing data eth parse_config = do {
     (rc, parse_config) \<leftarrow>
       (if tce_mac_match_select eth = MEPA_TS_ETH_MATCH_SRC_ADDR then do {
          rc \<leftarrow> lan8814_ts_classifier_mac_conf_set_priv dev ing (tce_mac_addr eth);
          State_Monad.return (rc, parse_config) }
        else do {
          let parse_config =
            (if di_rev (pd_dev data) < 4 \<or> tce_mac_match_select eth \<noteq> MEPA_TS_ETH_MATCH_NONE
             then parse_config OR LAN8814_PTP_RX_PARSE_CONFIG_MAC_DA_EN else parse_config);
          let parse_config = parse_config OR mac_da_mode (tce_mac_match_mode eth);
          rc \<leftarrow> (if tce_mac_match_mode eth = MEPA_TS_ETH_ADDR_MATCH_48BIT
                 then lan8814_ts_classifier_mac_conf_set_priv dev ing (tce_mac_addr eth)
                 else State_Monad.return MEPA_RC_OK);
          State_Monad.return (rc, parse_config) });
     if rc < MEPA_RC_OK then State_Monad.return (rc, parse_config) else do {
     rc \<leftarrow> (if tce_vlan_check eth
            then lan8814_ts_classifier_vlan_conf_set_priv dev ing (tce_vlan_conf eth)
            else do {
              EP_WRM dev
                (if ing then LAN8814_PTP_RX_PARSE_VLAN_CONFIG else LAN8814_PTP_TX_PARSE_VLAN_CONFIG)
                0 LAN8814_DEF_MASK;
              State_Monad.return MEPA_RC_OK });
     State_Monad.return (rc, parse_config) }}"

text \<open>The IP part: addresses, ports, and the register that enables their comparison.\<close>

definition class_ip :: "nat \<Rightarrow> bool \<Rightarrow> mepa_ts_classifier_eth \<Rightarrow> mepa_ts_classifier_ip \<Rightarrow> 16 word \<Rightarrow>
    ('h, mepa_rc \<times> 16 word) lan" where
  "class_ip dev ing eth ip parse_config = do {
     let mac = mepa_ts_mac_match_select_num (tce_mac_match_select eth);
     let sel = mepa_ts_ip_match_select_num (tci_ip_match_mode ip);
     let ip_en = (if tci_ip_match_mode ip = MEPA_TS_IP_MATCH_DEST
                  then LAN8814_PTP_RX_PARSE_IP_DA_EN else 0);
     (rc, parse_config, ip_en) \<leftarrow>
       (if tci_ip_ver ip = MEPA_TS_IP_VER_4 then do {
          rc \<leftarrow> lan8814_ts_classifier_ipv4_addr_conf_priv dev ing (tci_ip_addr ip);
          State_Monad.return (rc, parse_config OR LAN8814_PTP_RX_PARSE_CONFIG_IPV4_EN,
            ip_en OR LAN8814_PTP_RX_PARSE_IPv4_UMAC_EN_F mac OR LAN8814_PTP_RX_PARSE_IPv4_IP_EN_F sel) }
        else do {
          rc \<leftarrow> lan8814_ts_classifier_ipv6_addr_conf_priv dev ing (tci_ip_addr ip);
          State_Monad.return (rc, parse_config OR LAN8814_PTP_RX_PARSE_CONFIG_IPV6_EN,
            ip_en OR LAN8814_PTP_RX_PARSE_IPv6_UMAC_EN_F mac OR LAN8814_PTP_RX_PARSE_IPv6_IP_EN_F sel) });
     if rc < MEPA_RC_OK then State_Monad.return (rc, parse_config) else do {
     only_if (tci_udp_sport_en ip) (
       EP_WRM dev
         (if ing then LAN8814_PTP_RX_PARSE_UDP_SRC_PORT else LAN8814_PTP_TX_PARSE_UDP_SRC_PORT)
         (tci_udp_sport ip) LAN8814_DEF_MASK);
     let parse_config = (if tci_udp_sport_en ip
                         then parse_config OR LAN8814_PTP_RX_PARSE_CONFIG_UDP_SPORT_EN
                         else parse_config);
     only_if (tci_udp_dport_en ip) (
       EP_WRM dev
         (if ing then LAN8814_PTP_RX_PARSE_UDP_DEST_PORT else LAN8814_PTP_TX_PARSE_UDP_DEST_PORT)
         (tci_udp_dport ip) LAN8814_DEF_MASK);
     let parse_config = (if tci_udp_dport_en ip
                         then parse_config OR LAN8814_PTP_RX_PARSE_CONFIG_UDP_DPORT_EN
                         else parse_config);
     EP_WRM dev (if ing then LAN8814_PTP_RX_PARSE_IP_ADDR_EN else LAN8814_PTP_TX_PARSE_IP_ADDR_EN)
       ip_en LAN8814_DEF_MASK;
     State_Monad.return (MEPA_RC_OK, parse_config) }}"

text \<open>The two checks at the start, and the two encapsulations.\<close>

definition class_rejected :: "mepa_ts_classifier \<Rightarrow> bool" where
  "class_rejected conf =
    (let eth = tcl_eth_class_conf conf
     in (tce_vlan_check eth \<and> tvc_pbb_en (tce_vlan_conf eth)) \<or>
        (tce_mac_match_select eth = MEPA_TS_ETH_MATCH_SRC_OR_DEST \<and>
         tce_mac_match_mode eth \<noteq> MEPA_TS_ETH_ADDR_MATCH_48BIT))"

definition class_eth_ptp :: "nat \<Rightarrow> bool \<Rightarrow> phy_data \<Rightarrow> mepa_ts_classifier_eth \<Rightarrow>
    ('h, mepa_rc \<times> 16 word) lan" where
  "class_eth_ptp dev ing data eth = do {
     let parse_config = LAN8814_PTP_RX_PARSE_CONFIG_LAYER2_EN OR
       LAN8814_PTP_RX_PARSE_CONFIG_PEER_NONPEER_MIX;
     let l2_en = LAN8814_PTP_TX_PARSE_L2_MAC_EN_F
       (mepa_ts_mac_match_select_num (tce_mac_match_select eth));
     (rc, parse_config) \<leftarrow> class_eth dev ing data eth parse_config;
     if rc < MEPA_RC_OK then State_Monad.return (rc, parse_config) else do {
     EP_WRM dev (if ing then LAN8814_PTP_RX_PARSE_L2_ADDR_EN else LAN8814_PTP_TX_PARSE_L2_ADDR_EN)
       l2_en LAN8814_DEF_MASK;
     EP_WRM dev (if ing then LAN8814_PTP_RX_PARSE_IP_ADDR_EN else LAN8814_PTP_TX_PARSE_IP_ADDR_EN)
       0 LAN8814_DEF_MASK;
     State_Monad.return (MEPA_RC_OK, parse_config) }}"

definition class_ip_ptp :: "nat \<Rightarrow> bool \<Rightarrow> phy_data \<Rightarrow> mepa_ts_classifier_eth \<Rightarrow>
    mepa_ts_classifier_ip \<Rightarrow> ('h, mepa_rc \<times> 16 word) lan" where
  "class_ip_ptp dev ing data eth ip = do {
     let parse_config = (if ing then 0 else LAN8814_PTP_TX_PARSE_CONFIG_LAYER2_EN) OR
       LAN8814_PTP_RX_PARSE_CONFIG_PEER_NONPEER_MIX;
     let l2_en = LAN8814_PTP_RX_PARSE_L2_MAC_EN_F
       (mepa_ts_mac_match_select_num (tce_mac_match_select eth));
     (rc, parse_config) \<leftarrow> class_eth dev ing data eth parse_config;
     if rc < MEPA_RC_OK then State_Monad.return (rc, parse_config) else do {
     EP_WRM dev (if ing then LAN8814_PTP_RX_PARSE_L2_ADDR_EN else LAN8814_PTP_TX_PARSE_L2_ADDR_EN)
       l2_en LAN8814_DEF_MASK;
     class_ip dev ing eth ip parse_config }}"

definition lan8814_ts_rx_classifier_conf_set_priv ::
  "nat \<Rightarrow> 16 word \<Rightarrow> mepa_ts_classifier \<Rightarrow> ('h, mepa_rc) lan" where
  "lan8814_ts_rx_classifier_conf_set_priv dev flow_index conf = do {
     data \<leftarrow> data_of dev;
     if class_rejected conf then State_Monad.return MEPA_RC_ERROR else do {
     (rc, parse_config) \<leftarrow>
       (if tcl_pkt_encap_type conf = MEPA_TS_ENCAP_ETH_PTP then
          class_eth_ptp dev True data (tcl_eth_class_conf conf)
        else if tcl_pkt_encap_type conf = MEPA_TS_ENCAP_ETH_IP_PTP then
          class_ip_ptp dev True data (tcl_eth_class_conf conf) (tcl_ip_class_conf conf)
        else if tcl_pkt_encap_type conf = MEPA_TS_ENCAP_NONE then State_Monad.return (MEPA_RC_OK, 0)
        else State_Monad.return (MEPA_RC_ERROR, 0));
     if rc < MEPA_RC_OK then State_Monad.return rc else do {
     EP_WRM dev LAN8814_PTP_RX_PARSE_CONFIG parse_config LAN8814_DEF_MASK;
     State_Monad.return MEPA_RC_OK }}}"

text \<open>For egress an unknown encapsulation still writes the register before the error.\<close>

definition lan8814_ts_tx_classifier_conf_set_priv ::
  "nat \<Rightarrow> 16 word \<Rightarrow> mepa_ts_classifier \<Rightarrow> ('h, mepa_rc) lan" where
  "lan8814_ts_tx_classifier_conf_set_priv dev flow_index conf = do {
     data \<leftarrow> data_of dev;
     if class_rejected conf then State_Monad.return MEPA_RC_ERROR else do {
     let known = tcl_pkt_encap_type conf \<in>
       {MEPA_TS_ENCAP_NONE, MEPA_TS_ENCAP_ETH_PTP, MEPA_TS_ENCAP_ETH_IP_PTP};
     (rc, parse_config) \<leftarrow>
       (if tcl_pkt_encap_type conf = MEPA_TS_ENCAP_ETH_PTP then
          class_eth_ptp dev False data (tcl_eth_class_conf conf)
        else if tcl_pkt_encap_type conf = MEPA_TS_ENCAP_ETH_IP_PTP then
          class_ip_ptp dev False data (tcl_eth_class_conf conf) (tcl_ip_class_conf conf)
        else State_Monad.return (MEPA_RC_OK, 0));
     if rc < MEPA_RC_OK then State_Monad.return rc else do {
     EP_WRM dev LAN8814_PTP_TX_PARSE_CONFIG parse_config LAN8814_DEF_MASK;
     State_Monad.return (if known then MEPA_RC_OK else MEPA_RC_ERROR) }}}"

definition lan8814_ts_rx_classifier_conf_get ::
  "nat \<Rightarrow> 16 word \<Rightarrow> mepa_ts_classifier option \<Rightarrow> ('h, mepa_rc \<times> mepa_ts_classifier option) lan" where
  "lan8814_ts_rx_classifier_conf_get dev flow_index conf = (case conf of
      None \<Rightarrow> State_Monad.return (MEPA_RC_ERROR, None)
    | Some _ \<Rightarrow> do {
        MEPA_ENTER dev;
        data \<leftarrow> data_of dev;
        MEPA_EXIT dev;
        State_Monad.return (MEPA_RC_OK, Some (tpc_rx_pkt_conf (ts_conf data))) })"

definition lan8814_ts_rx_classifier_conf_set ::
  "nat \<Rightarrow> 16 word \<Rightarrow> mepa_ts_classifier option \<Rightarrow> ('h, mepa_rc) lan" where
  "lan8814_ts_rx_classifier_conf_set dev flow_index conf = (case conf of
      None \<Rightarrow> State_Monad.return MEPA_RC_ERROR
    | Some c \<Rightarrow> do {
        MEPA_ENTER dev;
        rc \<leftarrow> lan8814_ts_rx_classifier_conf_set_priv dev flow_index c;
        only_if (rc = MEPA_RC_OK) (upd_tpc dev (\<lambda>t. t\<lparr>tpc_rx_pkt_conf := c\<rparr>));
        MEPA_EXIT dev;
        State_Monad.return rc })"

definition lan8814_ts_tx_classifier_conf_get ::
  "nat \<Rightarrow> 16 word \<Rightarrow> mepa_ts_classifier option \<Rightarrow> ('h, mepa_rc \<times> mepa_ts_classifier option) lan" where
  "lan8814_ts_tx_classifier_conf_get dev flow_index conf = (case conf of
      None \<Rightarrow> State_Monad.return (MEPA_RC_ERROR, None)
    | Some _ \<Rightarrow> do {
        MEPA_ENTER dev;
        data \<leftarrow> data_of dev;
        MEPA_EXIT dev;
        State_Monad.return (MEPA_RC_OK, Some (tpc_tx_pkt_conf (ts_conf data))) })"

definition lan8814_ts_tx_classifier_conf_set ::
  "nat \<Rightarrow> 16 word \<Rightarrow> mepa_ts_classifier option \<Rightarrow> ('h, mepa_rc) lan" where
  "lan8814_ts_tx_classifier_conf_set dev flow_index conf = (case conf of
      None \<Rightarrow> State_Monad.return MEPA_RC_ERROR
    | Some c \<Rightarrow> do {
        MEPA_ENTER dev;
        rc \<leftarrow> lan8814_ts_tx_classifier_conf_set_priv dev flow_index c;
        only_if (rc = MEPA_RC_OK) (upd_tpc dev (\<lambda>t. t\<lparr>tpc_tx_pkt_conf := c\<rparr>));
        MEPA_EXIT dev;
        State_Monad.return rc })"

section \<open>PTP clocks\<close>

definition lan8814_ts_rx_ptp_clock_conf_get :: "nat \<Rightarrow> 16 word \<Rightarrow> mepa_ts_ptp_clock_conf option \<Rightarrow>
    ('h, mepa_rc \<times> mepa_ts_ptp_clock_conf option) lan" where
  "lan8814_ts_rx_ptp_clock_conf_get dev clock_id conf = (case conf of
      None \<Rightarrow> State_Monad.return (MEPA_RC_ERROR, None)
    | Some _ \<Rightarrow> do {
        MEPA_ENTER dev;
        data \<leftarrow> data_of dev;
        MEPA_EXIT dev;
        State_Monad.return (MEPA_RC_OK, Some (tpc_rx_clock_conf (ts_conf data))) })"

definition lan8814_ts_tx_ptp_clock_conf_get :: "nat \<Rightarrow> 16 word \<Rightarrow> mepa_ts_ptp_clock_conf option \<Rightarrow>
    ('h, mepa_rc \<times> mepa_ts_ptp_clock_conf option) lan" where
  "lan8814_ts_tx_ptp_clock_conf_get dev clock_id conf = (case conf of
      None \<Rightarrow> State_Monad.return (MEPA_RC_ERROR, None)
    | Some _ \<Rightarrow> do {
        MEPA_ENTER dev;
        data \<leftarrow> data_of dev;
        MEPA_EXIT dev;
        State_Monad.return (MEPA_RC_OK, Some (tpc_tx_clock_conf (ts_conf data))) })"

text \<open>The event messages, as bits of the enable registers.\<close>

abbreviation (input) SYNC_PACKET :: "16 word" where "SYNC_PACKET \<equiv> 0x0001"
abbreviation (input) DELAY_REQ_PACKET :: "16 word" where "DELAY_REQ_PACKET \<equiv> 0x0002"
abbreviation (input) PDELAY_REQ_PACKET :: "16 word" where "PDELAY_REQ_PACKET \<equiv> 0x0004"
abbreviation (input) PDELAY_RESP_PACKET :: "16 word" where "PDELAY_RESP_PACKET \<equiv> 0x0008"

definition all_packets :: "16 word" where
  "all_packets = SYNC_PACKET OR DELAY_REQ_PACKET OR PDELAY_REQ_PACKET OR PDELAY_RESP_PACKET"

text \<open>For ingress: \<open>ts_insert\<close>, \<open>cf_update\<close> and \<open>rx_pdelay_upd\<close> of a clock mode.\<close>

definition rx_clock_actions :: "mepa_ts_ptp_clock_mode \<Rightarrow> mepa_ts_ptp_delaym_type \<Rightarrow>
    16 word \<times> 16 word \<times> 16 word" where
  "rx_clock_actions mode delaym = (case mode of
      MEPA_TS_PTP_CLOCK_MODE_BC1STEP \<Rightarrow>
        if delaym = MEPA_TS_PTP_DELAYM_P2P
        then (all_packets, 0, LAN8814_F_PTP_RX_PDREQ_AUTO_UPDATE)
        else (SYNC_PACKET OR DELAY_REQ_PACKET, 0, 0)
    | MEPA_TS_PTP_CLOCK_MODE_BC2STEP \<Rightarrow>
        if delaym = MEPA_TS_PTP_DELAYM_P2P then (all_packets, 0, 0)
        else (SYNC_PACKET OR DELAY_REQ_PACKET, 0, 0)
    | MEPA_TS_PTP_CLOCK_MODE_TC1STEP \<Rightarrow>
        if delaym = MEPA_TS_PTP_DELAYM_P2P
        then (PDELAY_REQ_PACKET OR PDELAY_RESP_PACKET, SYNC_PACKET OR DELAY_REQ_PACKET,
              LAN8814_F_PTP_RX_PDREQ_AUTO_UPDATE)
        else (0, all_packets, 0)
    | MEPA_TS_PTP_CLOCK_MODE_TC2STEP \<Rightarrow> (all_packets, 0, 0)
    | MEPA_TS_PTP_CLOCK_MODE_NONE \<Rightarrow> (0, 0, 0))"

definition rx_clock_enable :: "nat \<Rightarrow> phy_data \<Rightarrow> mepa_ts_ptp_clock_conf \<Rightarrow> ('h, mepa_rc) lan" where
  "rx_clock_enable dev data conf = do {
     let (ts_insert, cf_update, rx_pdelay_upd) =
       rx_clock_actions (pcc_clk_mode conf) (pcc_delaym_type conf);
     EP_WRM dev LAN8814_PTP_RX_PDREQ_NS_HI rx_pdelay_upd LAN8814_F_PTP_RX_PDREQ_AUTO_UPDATE;
     EP_WRM dev LAN8814_PTP_RX_TIMESTAMP_EN ts_insert LAN8814_DEF_MASK;
     EP_WRM dev LAN8814_PTP_RX_CF_MOD_EN cf_update LAN8814_DEF_MASK;
     let cf_config = (if tsd_tc_op_mode (pd_ts_state data) = MEPA_TS_TC_OP_MODE_C
                      then LAN8814_PTP_RX_PTP_CF_METHOD else 0);
     EP_WRM dev LAN8814_PTP_RX_CF_CFG (cf_config OR LAN8814_PTP_RX_PTP_MAX_CF_DIS) LAN8814_DEF_MASK;
     EP_WRM dev LAN8814_PTP_RX_TIMESTAMP_CONFIG 0 LAN8814_DEF_MASK;
     EP_WRM dev LAN8814_PTP_RX_RSVD_BYTE_CFG 0x0405 LAN8814_DEF_MASK;
     let rx_mod = LAN8814_PTP_RX_MOD_PTP_INSERT_TS_EN OR
       (if tsd_rx_ts_len (pd_ts_state data) = MEPA_TS_RX_TIMESTAMP_LEN_32BIT
        then LAN8814_PTP_RX_MOD_PTP_INSERT_TS_32BIT else 0);
     EP_WRM dev LAN8814_PTP_RX_MOD rx_mod rx_mod }"

definition lan8814_ts_rx_ptp_clock_conf_set ::
  "nat \<Rightarrow> 16 word \<Rightarrow> mepa_ts_ptp_clock_conf \<Rightarrow> ('h, mepa_rc) lan" where
  "lan8814_ts_rx_ptp_clock_conf_set dev clock_id conf = do {
     MEPA_ENTER dev;
     rc \<leftarrow> lan8814_ts_classifier_ptp_conf_priv dev True (pcc_ptp_class_conf conf);
     only_if (rc = MEPA_RC_OK) (upd_tpc dev (\<lambda>t. t\<lparr>tpc_rx_clock_conf :=
       (tpc_rx_clock_conf t)\<lparr>pcc_ptp_class_conf := pcc_ptp_class_conf conf\<rparr>\<rparr>));
     data \<leftarrow> data_of dev;
     (if \<not> pcc_enable conf then EP_WRM dev LAN8814_PTP_RX_TIMESTAMP_EN 0 LAN8814_DEF_MASK
      else rx_clock_enable dev data conf);
     upd_tpc dev (\<lambda>t. t\<lparr>tpc_rx_clock_conf := (tpc_rx_clock_conf t)\<lparr>pcc_enable := pcc_enable conf,
       pcc_clk_mode := pcc_clk_mode conf, pcc_delaym_type := pcc_delaym_type conf\<rparr>\<rparr>);
     MEPA_EXIT dev;
     State_Monad.return MEPA_RC_OK }"

text \<open>For egress: \<open>ts_insert\<close>, \<open>cf_update\<close> and \<open>tx_mod\<close>.\<close>

definition tx_clock_actions :: "bool \<Rightarrow> mepa_ts_ptp_clock_mode \<Rightarrow> mepa_ts_ptp_delaym_type \<Rightarrow>
    16 word \<times> 16 word \<times> 16 word" where
  "tx_clock_actions auto_followup mode delaym = (case mode of
      MEPA_TS_PTP_CLOCK_MODE_BC1STEP \<Rightarrow>
        if delaym = MEPA_TS_PTP_DELAYM_P2P
        then (0, PDELAY_REQ_PACKET,
              LAN8814_PTP_TX_MOD_PDRESP_TA_INSERT OR LAN8814_PTP_TX_MOD_SYNC_TS_INSERT)
        else (0, DELAY_REQ_PACKET, LAN8814_PTP_TX_MOD_SYNC_TS_INSERT)
    | MEPA_TS_PTP_CLOCK_MODE_BC2STEP \<Rightarrow>
        if delaym = MEPA_TS_PTP_DELAYM_P2P then
          (if auto_followup
           then (PDELAY_REQ_PACKET, 0, LAN8814_PTP_TX_MOD_FOLLOWUP_TS_INSERT OR
                 LAN8814_PTP_TX_MOD_PDRESPFOLLOWUP_TS_INSERT)
           else (PDELAY_REQ_PACKET OR SYNC_PACKET OR PDELAY_RESP_PACKET, 0, 0))
        else
          (if auto_followup then (DELAY_REQ_PACKET, 0, LAN8814_PTP_TX_MOD_FOLLOWUP_TS_INSERT)
           else (DELAY_REQ_PACKET OR SYNC_PACKET, 0, 0))
    | MEPA_TS_PTP_CLOCK_MODE_TC1STEP \<Rightarrow>
        if delaym = MEPA_TS_PTP_DELAYM_P2P
        then (0, SYNC_PACKET OR DELAY_REQ_PACKET OR PDELAY_REQ_PACKET,
              LAN8814_PTP_TX_MOD_PDRESP_TA_INSERT)
        else (0, all_packets, 0)
    | MEPA_TS_PTP_CLOCK_MODE_TC2STEP \<Rightarrow> (all_packets, 0, 0)
    | MEPA_TS_PTP_CLOCK_MODE_NONE \<Rightarrow> (0, 0, 0))"

definition tx_clock_enable :: "nat \<Rightarrow> phy_data \<Rightarrow> mepa_ts_ptp_clock_conf \<Rightarrow> ('h, mepa_rc) lan" where
  "tx_clock_enable dev data conf = do {
     let (ts_insert, cf_update, tx_mod) =
       tx_clock_actions (tsd_tx_auto_followup_ts (pd_ts_state data)) (pcc_clk_mode conf)
         (pcc_delaym_type conf);
     EP_WRM dev LAN8814_PTP_TX_TIMESTAMP_EN ts_insert LAN8814_DEF_MASK;
     EP_WRM dev LAN8814_PTP_TX_CF_MOD_EN cf_update LAN8814_DEF_MASK;
     let cf_config = (if tsd_tc_op_mode (pd_ts_state data) = MEPA_TS_TC_OP_MODE_C
                      then LAN8814_PTP_TX_PTP_CF_METHOD else 0);
     EP_WRM dev LAN8814_PTP_TX_CF_CFG (cf_config OR LAN8814_PTP_TX_PTP_MAX_CF_DIS) LAN8814_DEF_MASK;
     EP_WRM dev LAN8814_PTP_TX_TIMESTAMP_CONFIG
       (LAN8814_PTP_TX_PTP_ALT_MASTER_EN OR LAN8814_PTP_TX_PTP_UDP_CHKSUM_DIS) LAN8814_DEF_MASK;
     EP_WRM dev LAN8814_PTP_TX_MOD tx_mod LAN8814_DEF_MASK }"

definition lan8814_ts_tx_ptp_clock_conf_set ::
  "nat \<Rightarrow> 16 word \<Rightarrow> mepa_ts_ptp_clock_conf \<Rightarrow> ('h, mepa_rc) lan" where
  "lan8814_ts_tx_ptp_clock_conf_set dev clock_id conf = do {
     MEPA_ENTER dev;
     lan8814_ts_reload_egress_latency dev (is_two_step conf);
     rc \<leftarrow> lan8814_ts_classifier_ptp_conf_priv dev True (pcc_ptp_class_conf conf);
     only_if (rc = MEPA_RC_OK) (upd_tpc dev (\<lambda>t. t\<lparr>tpc_tx_clock_conf :=
       (tpc_tx_clock_conf t)\<lparr>pcc_ptp_class_conf := pcc_ptp_class_conf conf\<rparr>\<rparr>));
     data \<leftarrow> data_of dev;
     (if \<not> pcc_enable conf then EP_WRM dev LAN8814_PTP_TX_TIMESTAMP_EN 0 LAN8814_DEF_MASK
      else tx_clock_enable dev data conf);
     upd_tpc dev (\<lambda>t. t\<lparr>tpc_tx_clock_conf := (tpc_tx_clock_conf t)\<lparr>pcc_enable := pcc_enable conf,
       pcc_clk_mode := pcc_clk_mode conf, pcc_delaym_type := pcc_delaym_type conf\<rparr>\<rparr>);
     MEPA_EXIT dev;
     State_Monad.return MEPA_RC_OK }"

section \<open>The test configuration\<close>

definition test_pps :: "nat \<Rightarrow> ('h, unit) lan" where
  "test_pps dev = do {
     EP_WRM dev LAN8814_PTP_LTC_TARGET_SEC_HI_A 0 LAN8814_DEF_MASK;
     EP_WRM dev LAN8814_PTP_LTC_TARGET_SEC_LO_A 0x2 LAN8814_DEF_MASK;
     EP_WRM dev LAN8814_PTP_LTC_TARGET_NS_HI_A 0 LAN8814_DEF_MASK;
     EP_WRM dev LAN8814_PTP_LTC_TARGET_NS_LO_A 0 LAN8814_DEF_MASK;
     EP_WRM dev LAN8814_PTP_LTC_TARGET_RELOAD_SEC_HI_A 0 LAN8814_DEF_MASK;
     EP_WRM dev LAN8814_PTP_LTC_TARGET_RELOAD_SEC_LO_A 1 LAN8814_DEF_MASK;
     EP_WRM dev LAN8814_PTP_LTC_TARGET_RELOAD_NS_HI_A 0 LAN8814_DEF_MASK;
     EP_WRM dev LAN8814_PTP_LTC_TARGET_RELOAD_NS_LO_A 0 LAN8814_DEF_MASK;
     EP_WRM dev LAN8814_PTP_LTC_TARGET_SEC_HI_B 0 LAN8814_DEF_MASK;
     EP_WRM dev LAN8814_PTP_LTC_TARGET_SEC_LO_B 0x2 LAN8814_DEF_MASK;
     EP_WRM dev LAN8814_PTP_LTC_TARGET_NS_HI_B 0 LAN8814_DEF_MASK;
     EP_WRM dev LAN8814_PTP_LTC_TARGET_NS_LO_B 0 LAN8814_DEF_MASK;
     EP_WRM dev LAN8814_PTP_LTC_TARGET_RELOAD_SEC_HI_B 0 LAN8814_DEF_MASK;
     EP_WRM dev LAN8814_PTP_LTC_TARGET_RELOAD_SEC_LO_B 0 LAN8814_DEF_MASK;
     EP_WRM dev LAN8814_PTP_LTC_TARGET_RELOAD_NS_HI_B 0x1DCD LAN8814_DEF_MASK;
     EP_WRM dev LAN8814_PTP_LTC_TARGET_RELOAD_NS_LO_B 0x6500 LAN8814_DEF_MASK;
     EP_WRM dev LAN8814_PTP_GENERAL_CONFIG 0xE4A LAN8814_DEF_MASK;
     v \<leftarrow> EP_RD dev LAN8814_PTP_CMD_CTL 0xE4A;
     EP_WRM dev LAN8814_PTP_CMD_CTL (v OR LAN8814_PTP_CMD_CTL_ENABLE) LAN8814_DEF_MASK;
     State_Monad.return () }"

definition test_pkt_conf :: mepa_ts_classifier where
  "test_pkt_conf = mepa_ts_classifier_0\<lparr>tcl_pkt_encap_type := MEPA_TS_ENCAP_ETH_IP_PTP\<rparr>"

definition test_ptp_conf :: mepa_ts_classifier_ptp where
  "test_ptp_conf = mepa_ts_classifier_ptp_0\<lparr>
     tcp_domain := \<lparr>m8_mode = MEPA_TS_MATCH_MODE_RANGE, m8_hi = 0xff, m8_lo = 0x00\<rparr>,
     tcp_version := \<lparr>r8_upper = 0x2, r8_lower = 0x2\<rparr>,
     tcp_minor_version := \<lparr>r8_upper = 0x1, r8_lower = 0x0\<rparr>\<rparr>"

definition test_clocks :: "nat \<Rightarrow> bool \<Rightarrow> ('h, unit) lan" where
  "test_clocks dev base = do {
     EP_WRM dev LAN8814_PTP_RX_TIMESTAMP_EN all_packets LAN8814_DEF_MASK;
     EP_WRM dev LAN8814_PTP_RX_CF_MOD_EN all_packets LAN8814_DEF_MASK;
     EP_WRM dev LAN8814_PTP_RX_CF_CFG 1 LAN8814_DEF_MASK;
     EP_WRM dev LAN8814_PTP_RX_TIMESTAMP_CONFIG 6 LAN8814_DEF_MASK;
     EP_WRM dev LAN8814_PTP_RX_RSVD_BYTE_CFG 0x0405 LAN8814_DEF_MASK;
     EP_WRM dev LAN8814_PTP_RX_MOD LAN8814_PTP_RX_MOD_PTP_INSERT_TS_EN
       LAN8814_PTP_RX_MOD_PTP_INSERT_TS_EN;
     EP_WRM dev LAN8814_PTP_TX_TIMESTAMP_EN all_packets LAN8814_DEF_MASK;
     EP_WRM dev LAN8814_PTP_TX_CF_MOD_EN all_packets LAN8814_DEF_MASK;
     EP_WRM dev LAN8814_PTP_TX_CF_CFG 1 LAN8814_DEF_MASK;
     EP_WRM dev LAN8814_PTP_TX_TIMESTAMP_CONFIG 6 LAN8814_DEF_MASK;
     EP_WRM dev LAN8814_PTP_TX_MOD LAN8814_PTP_TX_MOD_SYNC_TS_INSERT
       LAN8814_PTP_TX_MOD_SYNC_TS_INSERT;
     v \<leftarrow> EP_RD dev LAN8814_PTP_CMD_CTL 6;
     only_if base (EP_RD dev LAN8814_PTP_CMD_CTL v);
     EP_WRM dev LAN8814_PTP_TSU_GEN_CONF LAN8814_PTP_TSU_GEN_CONF_EN LAN8814_DEF_MASK;
     State_Monad.return () }"

text \<open>
  The register dump at the end is called without a print function and does nothing then, so
  \<open>reg_dump\<close> has no effect.
\<close>

definition test_config_body :: "nat \<Rightarrow> ('h, mepa_rc) lan" where
  "test_config_body dev = do {
     data \<leftarrow> data_of dev;
     only_if (is_base data dev) (test_pps dev);
     EP_WRM dev LAN8814_PTP_TSU_GEN_CONF 0 LAN8814_DEF_MASK;
     rc \<leftarrow> lan8814_ts_rx_classifier_conf_set_priv dev 0 test_pkt_conf;
     if rc \<noteq> MEPA_RC_OK then State_Monad.return rc else do {
     rc \<leftarrow> lan8814_ts_tx_classifier_conf_set_priv dev 0 test_pkt_conf;
     if rc \<noteq> MEPA_RC_OK then State_Monad.return rc else do {
     rc \<leftarrow> lan8814_ts_classifier_ptp_conf_priv dev True test_ptp_conf;
     if rc \<noteq> MEPA_RC_OK then State_Monad.return rc else do {
     rc \<leftarrow> lan8814_ts_classifier_ptp_conf_priv dev False test_ptp_conf;
     if rc \<noteq> MEPA_RC_OK then State_Monad.return rc else do {
     test_clocks dev (is_base data dev);
     State_Monad.return MEPA_RC_OK }}}}}"

definition lan8814_ts_test_config :: "nat \<Rightarrow> 16 word \<Rightarrow> bool \<Rightarrow> ('h, mepa_rc) lan" where
  "lan8814_ts_test_config dev test_id reg_dump = do {
     MEPA_ENTER dev;
     rc \<leftarrow> test_config_body dev;
     MEPA_EXIT dev;
     State_Monad.return rc }"

section \<open>The driver table\<close>

definition lan8814_ts_drivers :: "('h, phy_data) mepa_ts_driver" where
  "lan8814_ts_drivers = null_ts_driver\<lparr>
     ts_drv_init_conf_get := Some lan8814_ts_init_conf_get,
     ts_drv_init_conf_set := Some lan8814_ts_init_conf_set,
     ts_drv_mode_get := Some (\<lambda>dev _. lan8814_ts_mode_get dev),
     ts_drv_mode_set := Some lan8814_ts_mode_set,
     ts_drv_reset := Some lan8814_ts_reset,
     ts_drv_ltc_ls_en := Some lan8814_ts_ltc_ls_en_set,
     ts_drv_ltc_get := Some lan8814_ts_ltc_get,
     ts_drv_ltc_set := Some lan8814_ts_ltc_set,
     ts_drv_clock_rateadj_get := Some lan8814_ts_clock_rateadj_get,
     ts_drv_clock_rateadj_set := Some lan8814_ts_clock_rateadj_set,
     ts_drv_clock_adj1ns := Some lan8814_ts_clock_adj1ns,
     ts_drv_delay_asymmetry_get := Some (\<lambda>dev _. lan8814_ts_clock_delay_asymmetry_get dev),
     ts_drv_delay_asymmetry_set := Some lan8814_ts_clock_delay_asymmetry_set,
     ts_drv_path_delay_get := Some lan8814_ts_clock_path_delay_get,
     ts_drv_path_delay_set := Some lan8814_ts_clock_path_delay_set,
     ts_drv_egress_latency_get := Some lan8814_ts_clock_egress_latency_get,
     ts_drv_egress_latency_set := Some lan8814_ts_clock_egress_latency_set,
     ts_drv_ingress_latency_get := Some lan8814_ts_clock_ingress_latency_get,
     ts_drv_ingress_latency_set := Some lan8814_ts_clock_ingress_latency_set,
     ts_drv_rx_classifier_conf_get := Some lan8814_ts_rx_classifier_conf_get,
     ts_drv_rx_classifier_conf_set := Some lan8814_ts_rx_classifier_conf_set,
     ts_drv_tx_classifier_conf_get := Some lan8814_ts_tx_classifier_conf_get,
     ts_drv_tx_classifier_conf_set := Some lan8814_ts_tx_classifier_conf_set,
     ts_drv_rx_clock_conf_get := Some lan8814_ts_rx_ptp_clock_conf_get,
     ts_drv_tx_clock_conf_get := Some lan8814_ts_tx_ptp_clock_conf_get,
     ts_drv_rx_clock_conf_set := Some lan8814_ts_rx_ptp_clock_conf_set,
     ts_drv_tx_clock_conf_set := Some lan8814_ts_tx_ptp_clock_conf_set,
     ts_drv_pps_conf_get := Some (\<lambda>dev _. lan8814_ts_pps_conf_get dev),
     ts_drv_pps_conf_set := Some lan8814_ts_pps_conf_set,
     ts_drv_stats_get := Some lan8814_ts_stats_get,
     ts_drv_event_get := Some lan8814_ts_event_get,
     ts_drv_event_set := Some lan8814_ts_event_set,
     ts_drv_event_poll := Some lan8814_ts_event_poll,
     ts_drv_fifo_read_install := Some lan8814_ts_fifo_read_install,
     ts_drv_fifo_empty := Some lan8814_ts_tx_ts_get,
     ts_drv_test_config := Some lan8814_ts_test_config,
     ts_drv_fifo_get := Some (lan8814_ts_fifo_get 0),
     ts_drv_pch_mch_error_info_get := Some (\<lambda>dev _. lan8814_ts_pch_mch_error_get dev)\<rparr>"

end
