(* ===== verification/Lan8814_Ts_Lock.thy ===== *)
theory Lan8814_Ts_Lock
  imports Lan8814_Lock Lan8814_Ts_Class
begin

text \<open>
  Locking of the timestamping operations, in the same way as that of the others.  Some of them
  access the data of the base port through a pointer that may be NULL, so the invariants
  of this theory do not depend on \<open>crashed\<close>; the callback of the timestamp FIFO is called
  with the lock free.
\<close>

section \<open>Internal functions\<close>

context lan8814_bus
begin

lemma keeps_ref_clk_period: "keeps I (ref_clk_period p f)"
  unfolding ref_clk_period_def by (intro conf_bus)

lemma keeps_tsu_block_init: "keeps I (lan8814_tsu_block_init p c)"
  unfolding lan8814_tsu_block_init_def by (intro conf_bus keeps_ref_clk_period)

lemma keeps_ltc: "keeps I (ltc_read p t)" "keeps I (ltc_write p t)"
  unfolding ltc_read_def ltc_write_def by (intro conf_bus keeps_EP_RD_INCR)+

lemma keeps_fifo_get_loop: "keeps I (fifo_get_loop p is v l)"
  by (induction "is" arbitrary: v l) (auto intro!: conf_bus keeps_EP_RD_INCR simp: Let_def)

lemma keeps_classifier_parts:
  "keeps I (lan8814_ts_classifier_ptp_conf_priv p b c)"
  "keeps I (lan8814_ts_classifier_ipv4_addr_conf_priv p b n)"
  "keeps I (lan8814_ts_classifier_ipv6_addr_conf_priv p b n)"
  "keeps I (lan8814_ts_classifier_mac_conf_set_priv p b m)"
  "keeps I (vlan_outer p t)" "keeps I (vlan_inner p t)"
  unfolding lan8814_ts_classifier_ptp_conf_priv_def lan8814_ts_classifier_ipv4_addr_conf_priv_def
    lan8814_ts_classifier_ipv6_addr_conf_priv_def lan8814_ts_classifier_mac_conf_set_priv_def
    vlan_outer_def vlan_inner_def
  by (intro conf_bus)+

lemma keeps_vlan: "keeps I (lan8814_ts_classifier_vlan_conf_set_priv p b v)"
  unfolding lan8814_ts_classifier_vlan_conf_set_priv_def by (intro conf_bus keeps_classifier_parts)

lemma keeps_class_eth: "keeps I (class_eth p b d e c)"
  unfolding class_eth_def by (intro conf_bus keeps_classifier_parts keeps_vlan)

lemma keeps_class_ip: "keeps I (class_ip p b e n c)"
  unfolding class_ip_def by (intro conf_bus keeps_classifier_parts)

lemma keeps_encaps: "keeps I (class_eth_ptp p b d e)" "keeps I (class_ip_ptp p b d e n)"
  unfolding class_eth_ptp_def class_ip_ptp_def
  by (intro conf_bus keeps_class_eth keeps_class_ip)+

lemma keeps_classifiers:
  "keeps I (lan8814_ts_rx_classifier_conf_set_priv p i c)"
  "keeps I (lan8814_ts_tx_classifier_conf_set_priv p i c)"
  unfolding lan8814_ts_rx_classifier_conf_set_priv_def lan8814_ts_tx_classifier_conf_set_priv_def
  by (intro conf_bus keeps_encaps)+

lemma keeps_clock_enable: "keeps I (rx_clock_enable p d c)" "keeps I (tx_clock_enable p d c)"
  unfolding rx_clock_enable_def tx_clock_enable_def by (intro conf_bus)+

lemma keeps_test_parts: "keeps I (test_pps p)" "keeps I (test_clocks p b)"
  unfolding test_pps_def test_clocks_def by (intro conf_bus)+

lemma keeps_test_config_body: "keeps I (test_config_body p)"
  unfolding test_config_body_def
  by (intro conf_bus keeps_classifiers keeps_classifier_parts keeps_test_parts)

lemmas ts_bus = conf_bus keeps_EP_RD_INCR keeps_ref_clk_period keeps_tsu_block_init keeps_ltc
  keeps_fifo_get_loop keeps_classifier_parts keeps_vlan keeps_class_eth keeps_class_ip keeps_encaps
  keeps_classifiers keeps_clock_enable keeps_test_config_body

end

text \<open>The functions that may touch a NULL base port, for an invariant that ignores \<open>crashed\<close>.\<close>

locale lan8814_ts_invariant = lan8814_invariant I for I :: "('h, phy_data) world \<Rightarrow> bool" +
  assumes keeps_crash: "keeps I (change (\<lambda>w. w\<lparr>crashed := True\<rparr>))"
begin

lemma keeps_null_call: "keeps I (null_call x)"
  unfolding null_call_def by (intro keeps_rules keeps_crash)

lemma keeps_base_data_of: "keeps I (base_data_of b)"
  unfolding base_data_of_def by (intro keeps_rules keeps_null_call keeps_data_of)

lemma keeps_table_at: "keeps I (table_at t f i)"
  unfolding table_at_def by (intro keeps_rules keeps_null_call)

lemma keeps_upd_ts: "keeps I (upd_ts p f)" "keeps I (upd_tpc p g)"
  unfolding upd_ts_def upd_tpc_def by (rule keeps_upd_data)+

lemmas ts_base = ts_bus keeps_null_call keeps_base_data_of keeps_table_at keeps_upd_ts

lemma keeps_set_default_latency: "keeps I (set_default_latency p t f i r u)"
  unfolding set_default_latency_def by (intro ts_base)

lemma keeps_ts_port_init: "keeps I (lan8814_ts_port_init p c)"
  unfolding lan8814_ts_port_init_def by (intro ts_base keeps_set_default_latency)

lemma keeps_ltc_target_seconds: "keeps I (lan8814_ltc_target_seconds p s)"
  unfolding lan8814_ltc_target_seconds_def by (intro ts_base)

lemma keeps_egress_latency: "keeps I (egress_latency f b i d u)"
  unfolding egress_latency_def by (intro ts_base)

lemma keeps_latency_set_at:
  "keeps I (egress_latency_set_at p f b i d u r g)" "keeps I (ingress_latency_set_at p d l r g)"
  unfolding egress_latency_set_at_def ingress_latency_set_at_def
  by (intro ts_base keeps_egress_latency)+

lemma keeps_egress_latency_set_priv: "keeps I (lan8814_ts_clock_egress_latency_set_priv p l b)"
  unfolding lan8814_ts_clock_egress_latency_set_priv_def
  by (intro ts_base keeps_latency_set_at)

lemma keeps_reload_egress_latency: "keeps I (lan8814_ts_reload_egress_latency p b)"
  unfolding lan8814_ts_reload_egress_latency_def by (intro ts_base keeps_egress_latency)

lemma keeps_pps_store: "keeps I (pps_store p b c)"
  unfolding pps_store_def by (intro ts_base)

lemmas ts_keeps = ts_base keeps_set_default_latency keeps_ts_port_init keeps_ltc_target_seconds
  keeps_latency_set_at keeps_egress_latency_set_priv keeps_reload_egress_latency keeps_pps_store

end

section \<open>Operations\<close>

locale lan8814_ts_locking = lan8814_locking Held Free p0 + lan8814_ts_invariant Held
  for Held :: "('h, phy_data) world \<Rightarrow> bool" and Free and p0 +
  assumes free_crash: "keeps Free (change (\<lambda>w. w\<lparr>crashed := True\<rparr>))"
    and free_cb: "keeps Free (call_ts_cb cb n ts sig st)"
begin

lemma moves_free_base: "(\<And>x. moves Free (f x) R) \<Longrightarrow>
    moves Free (State_Monad.bind (base_data_of b) f) R"
  using free_crash
  by (cases b) (auto simp: moves_def base_data_of_def null_call_def data_of_def)

lemmas ts_moves = moves_return moves_let moves_if moves_case_option moves_case_prod
  moves_data_of moves_dev_of moves_enter moves_exit exit moves_free_upd moves_free_base moves_step
  ts_keeps

lemma keeps_ts_base_init: "keeps Free (ts_base_init p0 c)"
  unfolding ts_base_init_def by (intro ts_moves)

lemma ts_op_init_conf_set: "keeps Free (lan8814_ts_init_conf_set p0 c)"
  unfolding lan8814_ts_init_conf_set_def
  by (intro moves_case_option moves_return moves_bind [OF keeps_ts_base_init] ts_moves)

lemma ts_op_init_conf_get: "keeps Free (lan8814_ts_init_conf_get p0 c)"
  unfolding lan8814_ts_init_conf_get_def by (intro ts_moves)

lemma ts_op_mode: "keeps Free (lan8814_ts_mode_set p0 b)" "keeps Free (lan8814_ts_mode_get p0)"
    "keeps Free (lan8814_ts_reset p0 r)"
  unfolding lan8814_ts_mode_set_def lan8814_ts_mode_get_def lan8814_ts_reset_def by (intro ts_moves)+

lemma ts_op_ltc: "keeps Free (lan8814_ts_ltc_ls_en_set p0 t)" "keeps Free (lan8814_ts_ltc_get p0 v)"
    "keeps Free (lan8814_ts_ltc_set p0 v)"
  unfolding lan8814_ts_ltc_ls_en_set_def lan8814_ts_ltc_get_def lan8814_ts_ltc_set_def
  by (intro ts_moves)+

lemma ts_op_rateadj: "keeps Free (lan8814_ts_clock_rateadj_get p0 a)"
    "keeps Free (lan8814_ts_clock_rateadj_set p0 a)" "keeps Free (lan8814_ts_clock_adj1ns p0 b)"
  unfolding lan8814_ts_clock_rateadj_get_def lan8814_ts_clock_rateadj_set_def
    lan8814_ts_clock_adj1ns_def
  by (intro ts_moves)+

lemma ts_op_delay: "keeps Free (lan8814_ts_clock_delay_asymmetry_get p0)"
    "keeps Free (lan8814_ts_clock_delay_asymmetry_set p0 v)"
    "keeps Free (lan8814_ts_clock_path_delay_get p0 d)"
    "keeps Free (lan8814_ts_clock_path_delay_set p0 d)"
  unfolding lan8814_ts_clock_delay_asymmetry_get_def lan8814_ts_clock_delay_asymmetry_set_def
    lan8814_ts_clock_path_delay_get_def lan8814_ts_clock_path_delay_set_def
  by (intro ts_moves)+

lemma ts_op_latency: "keeps Free (lan8814_ts_clock_egress_latency_get p0 l)"
    "keeps Free (lan8814_ts_clock_egress_latency_set p0 l)"
    "keeps Free (lan8814_ts_clock_ingress_latency_get p0 l)"
    "keeps Free (lan8814_ts_clock_ingress_latency_set p0 l)"
  unfolding lan8814_ts_clock_egress_latency_get_def lan8814_ts_clock_egress_latency_set_def
    lan8814_ts_clock_ingress_latency_get_def lan8814_ts_clock_ingress_latency_set_def
  by (intro ts_moves)+

lemma ts_op_classifier: "keeps Free (lan8814_ts_rx_classifier_conf_get p0 i c)"
    "keeps Free (lan8814_ts_rx_classifier_conf_set p0 i c)"
    "keeps Free (lan8814_ts_tx_classifier_conf_get p0 i c)"
    "keeps Free (lan8814_ts_tx_classifier_conf_set p0 i c)"
  unfolding lan8814_ts_rx_classifier_conf_get_def lan8814_ts_rx_classifier_conf_set_def
    lan8814_ts_tx_classifier_conf_get_def lan8814_ts_tx_classifier_conf_set_def
  by (intro ts_moves)+

lemma ts_op_clock: "keeps Free (lan8814_ts_rx_ptp_clock_conf_get p0 i oc)"
    "keeps Free (lan8814_ts_rx_ptp_clock_conf_set p0 i c)"
    "keeps Free (lan8814_ts_tx_ptp_clock_conf_get p0 i oc)"
    "keeps Free (lan8814_ts_tx_ptp_clock_conf_set p0 i c)"
  unfolding lan8814_ts_rx_ptp_clock_conf_get_def lan8814_ts_rx_ptp_clock_conf_set_def
    lan8814_ts_tx_ptp_clock_conf_get_def lan8814_ts_tx_ptp_clock_conf_set_def
  by (intro ts_moves)+

lemma ts_op_pps_get: "keeps Free (lan8814_ts_pps_conf_get p0)"
  unfolding lan8814_ts_pps_conf_get_def by (intro ts_moves)

lemma ts_op_pps_set: "keeps Free (lan8814_ts_pps_conf_set p0 c)"
  unfolding lan8814_ts_pps_conf_set_def
  by (intro moves_data_of moves_let moves_free_base moves_bind [OF ts_op_ltc(2)] ts_moves)

lemma ts_op_events: "keeps Free (lan8814_ts_stats_get p0 s)" "keeps Free (lan8814_ts_event_get p0 e)"
    "keeps Free (lan8814_ts_event_set p0 b ev)" "keeps Free (lan8814_ts_event_poll p0 e)"
  unfolding lan8814_ts_stats_get_def lan8814_ts_event_get_def lan8814_ts_event_set_def
    lan8814_ts_event_poll_def
  by (intro ts_moves)+

lemma ts_op_fifo: "keeps Free (lan8814_ts_fifo_read_install p0 cb)"
    "keeps Free (lan8814_ts_fifo_get v p0 n out)" "keeps Free (lan8814_ts_pch_mch_error_get p0)"
    "keeps Free (lan8814_ts_test_config p0 i b)"
  unfolding lan8814_ts_fifo_read_install_def lan8814_ts_fifo_get_def
    lan8814_ts_pch_mch_error_get_def lan8814_ts_test_config_def
  by (intro ts_moves)+

text \<open>A round of the FIFO loop leaves the lock for the callback and takes it again.\<close>

lemma keeps_tx_ts_loop: "keeps Held (tx_ts_loop n p0 cb pn v h1 h2 ts sig)"
proof (induction n arbitrary: v h1 h2 ts sig)
  case (Suc n)
  show ?case
    unfolding tx_ts_loop.simps
    by (intro moves_step moves_let moves_if moves_return moves_exit moves_bind [OF free_cb]
        moves_enter Suc ts_bus)
qed (simp add: keeps_return)

lemma ts_op_fifo_empty:
  assumes "Free w" "val (lan8814_ts_tx_ts_get p0 n) w = Some rc"
  shows "Free (exec (lan8814_ts_tx_ts_get p0 n) w)"
  using assms movesD [OF enter assms(1)] movesD [OF keeps_tx_ts_loop] movesD [OF exit]
  by (auto simp: lan8814_ts_tx_ts_get_def data_of_def split: if_splits)

lemmas ts_ops_keep = ts_op_init_conf_set ts_op_init_conf_get ts_op_mode ts_op_ltc ts_op_rateadj
  ts_op_delay ts_op_latency ts_op_classifier ts_op_clock ts_op_pps_get ts_op_pps_set ts_op_events
  ts_op_fifo

end

interpretation ts_lock: lan8814_ts_locking "lock_held dv p" "lock_free dv p" p
  for dv :: "nat \<Rightarrow> 'h mepa_device" and p :: nat
  by unfold_locales
    (auto simp: moves_def lock_held_def lock_free_def call_ts_cb_def null_call_def prim_simps
      split: option.splits)

end
