(* ===== verification/Mepa_T1_Driver.thy ===== *)
theory Mepa_T1_Driver
  imports Mepa_Callout
begin

text \<open>
  The two parts of the driver interface for single-pair Ethernet: TC10, the wake-up and
  sleep protocol (\<open>mepa_tc10_driver.h\<close>, \<open>phy_tc10.h\<close>), and T1S, the collision avoidance of
  a multidrop segment (\<open>mepa_t1s_driver.h\<close>, \<open>phy_t1s.h\<close>).  The member \<open>mepa_tc10_f\<close> of
  the source is \<open>tc10_drv_f\<close> here, since \<open>mepa_tc10_f\<close> is the function of the API.
\<close>

section \<open>TC10\<close>

datatype mepa_tc10_pin = MEPA_TC10_WAKE_IN | MEPA_TC10_WAKE_OUT | MEPA_TC10_INH

datatype mepa_tc10_sleep_request =
    MEPA_TC10_LPS | MEPA_TC10_FORCE_SLEEP | MEPA_TC10_SLEEP_ABORT | MEPA_TC10_SLEEP_REJECT
  | MEPA_TC10_ABORT_CLEAR

datatype mepa_tc10_wakeup_mode =
    MEPA_TC10_WAKEUP_DISABLE | MEPA_TC10_WAKEUP_WUP_ENABLE | MEPA_TC10_WAKEUP_WAKEIN_ENABLE
  | MEPA_TC10_WAKEUP_WUP_WAKEIN_ENABLE

datatype mepa_tc10_wakeup_fwd_mode =
    MEPA_TC10_WAKEUP_FWD_DISABLE | MEPA_TC10_WAKEUP_FWD_WUP_ENABLE
  | MEPA_TC10_WAKEUP_FWD_WAKEOUT_ENABLE | MEPA_TC10_WAKEUP_FWD_WUP_WAKEOUT_ENABLE

datatype mepa_tc10_state =
    MEPA_TC10_START | MEPA_TC10_NORMAL | MEPA_TC10_SLEEP_ACK | MEPA_TC10_SLEEP_REQ
  | MEPA_TC10_SLEEP_FAIL | MEPA_TC10_SLEEP_SILENT | MEPA_TC10_SLEEP | MEPA_TC10_WUR_RCVD
  | MEPA_TC10_WAKE

record ('h, 'd) mepa_tc10_driver =
  tc10_drv_set_sleep_support :: "(nat \<Rightarrow> bool \<Rightarrow> ('h, 'd, mepa_rc) mepa) option"
  tc10_drv_get_sleep_support :: "(nat \<Rightarrow> bool \<Rightarrow> ('h, 'd, mepa_rc \<times> bool) mepa) option"
  tc10_drv_set_wakeup_support :: "(nat \<Rightarrow> mepa_tc10_wakeup_mode \<Rightarrow> ('h, 'd, mepa_rc) mepa) option"
  tc10_drv_get_wakeup_support :: "(nat \<Rightarrow> mepa_tc10_wakeup_mode \<Rightarrow> ('h, 'd, mepa_rc \<times> mepa_tc10_wakeup_mode) mepa) option"
  tc10_drv_set_wakeup_fwd_support :: "(nat \<Rightarrow> mepa_tc10_wakeup_fwd_mode \<Rightarrow> ('h, 'd, mepa_rc) mepa) option"
  tc10_drv_get_wakeup_fwd_support :: "(nat \<Rightarrow> mepa_tc10_wakeup_fwd_mode \<Rightarrow> ('h, 'd, mepa_rc \<times> mepa_tc10_wakeup_fwd_mode) mepa) option"
  tc10_drv_set_wake_pin_polarity :: "(nat \<Rightarrow> mepa_tc10_pin \<Rightarrow> mepa_gpio_mode \<Rightarrow> ('h, 'd, mepa_rc) mepa) option"
  tc10_drv_get_wake_pin_polarity :: "(nat \<Rightarrow> mepa_tc10_pin \<Rightarrow> mepa_gpio_mode \<Rightarrow> ('h, 'd, mepa_rc \<times> mepa_gpio_mode) mepa) option"
  tc10_drv_set_pin_mode :: "(nat \<Rightarrow> mepa_tc10_pin \<Rightarrow> mepa_gpio_mode \<Rightarrow> ('h, 'd, mepa_rc) mepa) option"
  tc10_drv_get_pin_mode :: "(nat \<Rightarrow> mepa_tc10_pin \<Rightarrow> mepa_gpio_mode \<Rightarrow> ('h, 'd, mepa_rc \<times> mepa_gpio_mode) mepa) option"
  tc10_drv_send_sleep_request :: "(nat \<Rightarrow> mepa_tc10_sleep_request \<Rightarrow> ('h, 'd, mepa_rc) mepa) option"
  tc10_drv_get_state :: "(nat \<Rightarrow> (mepa_tc10_state \<times> 16 word) \<Rightarrow> ('h, 'd, mepa_rc \<times> (mepa_tc10_state \<times> 16 word)) mepa) option"
  tc10_drv_send_wake_request :: "(nat \<Rightarrow> ('h, 'd, mepa_rc) mepa) option"

section \<open>T1S\<close>

record mepa_t1s_plca_cfg =
  plca_node_count :: "8 word"
  plca_node_id :: "8 word"
  plca_enable :: bool
  plca_tx_oppr_timer :: "8 word"
  plca_max_burst_cnt :: "8 word"
  plca_burst_timer :: "8 word"

record ('h, 'd) mepa_t1s_driver =
  t1s_drv_set_plca_config :: "(nat \<Rightarrow> mepa_t1s_plca_cfg \<Rightarrow> ('h, 'd, mepa_rc) mepa) option"
  t1s_drv_get_plca_config ::
    "(nat \<Rightarrow> mepa_t1s_plca_cfg \<Rightarrow> ('h, 'd, mepa_rc \<times> mepa_t1s_plca_cfg) mepa) option"

end
