(* ===== verification/Mepa_Driver.thy ===== *)
theory Mepa_Driver
  imports Mepa_Ts_Driver Mepa_T1_Driver
begin

text \<open>
  The driver interface (\<open>mepa_driver.h\<close>) and the common layer \<open>phy.c\<close>: identification of
  a PHY, memory, creation and deletion of a device, and the dispatch of the API functions
  to the driver of the device.

  A NULL device is \<open>None\<close>, a NULL function pointer in a driver is \<open>None\<close>.  A function with
  an out-parameter takes the caller's content and returns the new one, so a dispatcher
  that answers "not implemented" returns it unchanged.  \<open>lib\<close> is \<open>MEPA_phy_lib\<close> after its
  initialisation: the tables of the PHY families that are compiled in.  The
  sub-table for MACsec, \<open>next\<close>, and the debug print function are not part of the record.
\<close>

section \<open>Drivers\<close>

datatype mepa_power_mode =
    MESA_PHY_POWER_NOMINAL
  | MESA_PHY_POWER_ACTIPHY
  | MESA_PHY_POWER_DYNAMIC
  | MESA_PHY_POWER_ENABLED

datatype mepa_restart = MEPA_RESTART_COLD | MEPA_RESTART_COOL | MEPA_RESTART_WARM

record ('h, 'd) mepa_driver =
  mepa_driver_delete :: "(nat \<Rightarrow> ('h, 'd, mepa_rc) mepa) option"
  mepa_driver_reset :: "(nat \<Rightarrow> mepa_reset_param \<Rightarrow> ('h, 'd, mepa_rc) mepa) option"
  mepa_driver_poll :: "(nat \<Rightarrow> mepa_status \<Rightarrow> ('h, 'd, mepa_rc \<times> mepa_status) mepa) option"
  mepa_driver_conf_set :: "(nat \<Rightarrow> mepa_conf \<Rightarrow> ('h, 'd, mepa_rc) mepa) option"
  mepa_driver_conf_get :: "(nat \<Rightarrow> mepa_conf \<Rightarrow> ('h, 'd, mepa_rc \<times> mepa_conf) mepa) option"
  mepa_driver_if_set :: "(nat \<Rightarrow> mepa_port_interface \<Rightarrow> ('h, 'd, mepa_rc) mepa) option"
  mepa_driver_if_get :: "(nat \<Rightarrow> mepa_port_speed \<Rightarrow> mepa_port_interface \<Rightarrow> ('h, 'd, mepa_rc \<times> mepa_port_interface) mepa) option"
  mepa_driver_power_set :: "(nat \<Rightarrow> mepa_power_mode \<Rightarrow> ('h, 'd, mepa_rc) mepa) option"
  mepa_driver_cable_diag_start :: "(nat \<Rightarrow> int \<Rightarrow> ('h, 'd, mepa_rc) mepa) option"
  mepa_driver_cable_diag_get :: "(nat \<Rightarrow> mepa_cable_diag_result \<Rightarrow> ('h, 'd, mepa_rc \<times> mepa_cable_diag_result) mepa) option"
  mepa_driver_media_set :: "(nat \<Rightarrow> mepa_media_interface \<Rightarrow> ('h, 'd, mepa_rc) mepa) option"
  mepa_driver_media_get :: "(nat \<Rightarrow> mepa_media_interface \<Rightarrow> ('h, 'd, mepa_rc \<times> mepa_media_interface) mepa) option"
  mepa_driver_aneg_status_get :: "(nat \<Rightarrow> mepa_aneg_status \<Rightarrow> ('h, 'd, mepa_rc \<times> mepa_aneg_status) mepa) option"
  mepa_driver_clause22_read :: "(nat \<Rightarrow> 32 word \<Rightarrow> 16 word \<Rightarrow> ('h, 'd, mepa_rc \<times> 16 word) mepa) option"
  mepa_driver_clause22_write :: "(nat \<Rightarrow> 32 word \<Rightarrow> 16 word \<Rightarrow> ('h, 'd, mepa_rc) mepa) option"
  mepa_driver_clause45_read :: "(nat \<Rightarrow> 32 word \<Rightarrow> 16 word \<Rightarrow> ('h, 'd, mepa_rc \<times> 16 word) mepa) option"
  mepa_driver_clause45_write :: "(nat \<Rightarrow> 32 word \<Rightarrow> 16 word \<Rightarrow> ('h, 'd, mepa_rc) mepa) option"
  mepa_driver_event_enable_set :: "(nat \<Rightarrow> mepa_event \<Rightarrow> bool \<Rightarrow> ('h, 'd, mepa_rc) mepa) option"
  mepa_driver_event_enable_get :: "(nat \<Rightarrow> mepa_event \<Rightarrow> ('h, 'd, mepa_rc \<times> mepa_event) mepa) option"
  mepa_driver_event_poll :: "(nat \<Rightarrow> mepa_event \<Rightarrow> ('h, 'd, mepa_rc \<times> mepa_event) mepa) option"
  mepa_driver_loopback_set :: "(nat \<Rightarrow> mepa_loopback \<Rightarrow> ('h, 'd, mepa_rc) mepa) option"
  mepa_driver_loopback_get :: "(nat \<Rightarrow> mepa_loopback \<Rightarrow> ('h, 'd, mepa_rc \<times> mepa_loopback) mepa) option"
  mepa_driver_gpio_mode_set :: "(nat \<Rightarrow> mepa_gpio_conf \<Rightarrow> ('h, 'd, mepa_rc) mepa) option"
  mepa_driver_gpio_out_set :: "(nat \<Rightarrow> 8 word \<Rightarrow> bool \<Rightarrow> ('h, 'd, mepa_rc) mepa) option"
  mepa_driver_gpio_in_get :: "(nat \<Rightarrow> 8 word \<Rightarrow> bool \<Rightarrow> ('h, 'd, mepa_rc \<times> bool) mepa) option"
  mepa_driver_synce_clock_conf_set :: "(nat \<Rightarrow> mepa_synce_clock_conf \<Rightarrow> ('h, 'd, mepa_rc) mepa) option"
  mepa_driver_link_base_port :: "(nat \<Rightarrow> nat option \<Rightarrow> 8 word \<Rightarrow> ('h, 'd, mepa_rc) mepa) option"
  mepa_driver_phy_info_get :: "(nat \<Rightarrow> mepa_phy_info \<Rightarrow> ('h, 'd, mepa_rc \<times> mepa_phy_info) mepa) option"
  mepa_driver_isolate_mode_conf :: "(nat \<Rightarrow> bool \<Rightarrow> ('h, 'd, mepa_rc) mepa) option"
  mepa_driver_chip_temp_get :: "(nat \<Rightarrow> 16 word \<Rightarrow> ('h, 'd, mepa_rc \<times> 16 word) mepa) option"
  mepa_driver_eee_mode_conf_set :: "(nat \<Rightarrow> mepa_phy_eee_conf \<Rightarrow> ('h, 'd, mepa_rc) mepa) option"
  mepa_driver_eee_mode_conf_get :: "(nat \<Rightarrow> mepa_phy_eee_conf \<Rightarrow> ('h, 'd, mepa_rc \<times> mepa_phy_eee_conf) mepa) option"
  mepa_driver_eee_status_get :: "(nat \<Rightarrow> (8 word \<times> bool \<times> bool) \<Rightarrow> ('h, 'd, mepa_rc \<times> (8 word \<times> bool \<times> bool)) mepa) option"
  mepa_driver_phy_i2c_read :: "(nat \<Rightarrow> 8 word \<Rightarrow> 8 word \<Rightarrow> 8 word \<Rightarrow> bool \<Rightarrow> 8 word \<Rightarrow> 8 word list \<Rightarrow> ('h, 'd, mepa_rc \<times> 8 word list) mepa) option"
  mepa_driver_phy_i2c_write :: "(nat \<Rightarrow> 8 word \<Rightarrow> 8 word \<Rightarrow> 8 word \<Rightarrow> bool \<Rightarrow> 8 word \<Rightarrow> 8 word list \<Rightarrow> ('h, 'd, mepa_rc) mepa) option"
  mepa_driver_phy_i2c_clock_select :: "(nat \<Rightarrow> mepa_i2c_clk_select \<Rightarrow> ('h, 'd, mepa_rc) mepa) option"
  mepa_driver_phy_fefi_set :: "(nat \<Rightarrow> mepa_fefi_mode \<Rightarrow> ('h, 'd, mepa_rc) mepa) option"
  mepa_driver_phy_fefi_get :: "(nat \<Rightarrow> mepa_fefi_mode \<Rightarrow> ('h, 'd, mepa_rc \<times> mepa_fefi_mode) mepa) option"
  mepa_driver_phy_fefi_detect :: "(nat \<Rightarrow> bool \<Rightarrow> ('h, 'd, mepa_rc \<times> bool) mepa) option"
  mepa_driver_sqi_read :: "(nat \<Rightarrow> 32 word \<Rightarrow> ('h, 'd, mepa_rc \<times> 32 word) mepa) option"
  mepa_driver_start_of_frame_conf_set :: "(nat \<Rightarrow> mepa_start_of_frame_conf \<Rightarrow> ('h, 'd, mepa_rc) mepa) option"
  mepa_driver_start_of_frame_conf_get :: "(nat \<Rightarrow> mepa_start_of_frame_conf \<Rightarrow> ('h, 'd, mepa_rc \<times> mepa_start_of_frame_conf) mepa) option"
  mepa_driver_framepreempt_set :: "(nat \<Rightarrow> bool \<Rightarrow> ('h, 'd, mepa_rc) mepa) option"
  mepa_driver_framepreempt_get :: "(nat \<Rightarrow> bool option \<Rightarrow> ('h, 'd, mepa_rc \<times> bool option) mepa) option"
  mepa_driver_selftest_start :: "(nat \<Rightarrow> mepa_selftest_info option \<Rightarrow> ('h, 'd, mepa_rc) mepa) option"
  mepa_driver_selftest_read :: "(nat \<Rightarrow> mepa_selftest_info option \<Rightarrow> ('h, 'd, mepa_rc \<times> mepa_selftest_info option) mepa) option"
  mepa_driver_prbs_set :: "(nat \<Rightarrow> mepa_phy_prbs_type \<Rightarrow> mepa_phy_prbs_direction \<Rightarrow> mepa_phy_prbs_generator_conf option \<Rightarrow> ('h, 'd, mepa_rc) mepa) option"
  mepa_driver_prbs_get :: "(nat \<Rightarrow> mepa_phy_prbs_type \<Rightarrow> mepa_phy_prbs_direction \<Rightarrow> mepa_phy_prbs_generator_conf \<Rightarrow> ('h, 'd, mepa_rc \<times> mepa_phy_prbs_generator_conf) mepa) option"
  mepa_driver_prbs_monitor_set :: "(nat \<Rightarrow> mepa_phy_prbs_monitor_conf \<Rightarrow> ('h, 'd, mepa_rc) mepa) option"
  mepa_driver_prbs_monitor_get :: "(nat \<Rightarrow> mepa_phy_prbs_monitor_conf \<Rightarrow> ('h, 'd, mepa_rc \<times> mepa_phy_prbs_monitor_conf) mepa) option"
  mepa_driver_warmrestart_conf_get :: "(nat \<Rightarrow> mepa_restart \<Rightarrow> ('h, 'd, mepa_rc \<times> mepa_restart) mepa) option"
  mepa_driver_warmrestart_conf_end :: "(nat \<Rightarrow> ('h, 'd, mepa_rc) mepa) option"
  mepa_driver_warmrestart_conf_set :: "(nat \<Rightarrow> mepa_restart \<Rightarrow> ('h, 'd, mepa_rc) mepa) option"
  mepa_driver_serdes_tx_conf_set :: "(nat \<Rightarrow> mepa_serdes_tx_conf \<Rightarrow> ('h, 'd, mepa_rc) mepa) option"
  mepa_driver_phy_qsgmii_sync :: "(nat \<Rightarrow> ('h, 'd, mepa_rc) mepa) option"
  mepa_driver_capability :: "(nat \<Rightarrow> 32 word \<Rightarrow> ('h, 'd, 32 word) mepa) option"
  mepa_driver_probe :: "(drv_ptr \<Rightarrow> 'h mepa_callout \<Rightarrow> nat \<Rightarrow> mepa_board_conf \<Rightarrow>
    ('h, 'd, nat option) mepa) option"
  mepa_ts :: "('h, 'd) mepa_ts_driver option"
  mepa_tc10 :: "('h, 'd) mepa_tc10_driver option"
  mepa_t1s :: "('h, 'd) mepa_t1s_driver option"
  drv_id :: "32 word"
  drv_mask :: "32 word"

text \<open>A zeroed driver; the members that an initialiser does not name stay NULL.\<close>

definition null_driver :: "('h, 'd) mepa_driver" where
  "null_driver = \<lparr>
     mepa_driver_delete = None,
     mepa_driver_reset = None,
     mepa_driver_poll = None,
     mepa_driver_conf_set = None,
     mepa_driver_conf_get = None,
     mepa_driver_if_set = None,
     mepa_driver_if_get = None,
     mepa_driver_power_set = None,
     mepa_driver_cable_diag_start = None,
     mepa_driver_cable_diag_get = None,
     mepa_driver_media_set = None,
     mepa_driver_media_get = None,
     mepa_driver_aneg_status_get = None,
     mepa_driver_clause22_read = None,
     mepa_driver_clause22_write = None,
     mepa_driver_clause45_read = None,
     mepa_driver_clause45_write = None,
     mepa_driver_event_enable_set = None,
     mepa_driver_event_enable_get = None,
     mepa_driver_event_poll = None,
     mepa_driver_loopback_set = None,
     mepa_driver_loopback_get = None,
     mepa_driver_gpio_mode_set = None,
     mepa_driver_gpio_out_set = None,
     mepa_driver_gpio_in_get = None,
     mepa_driver_synce_clock_conf_set = None,
     mepa_driver_link_base_port = None,
     mepa_driver_phy_info_get = None,
     mepa_driver_isolate_mode_conf = None,
     mepa_driver_chip_temp_get = None,
     mepa_driver_eee_mode_conf_set = None,
     mepa_driver_eee_mode_conf_get = None,
     mepa_driver_eee_status_get = None,
     mepa_driver_phy_i2c_read = None,
     mepa_driver_phy_i2c_write = None,
     mepa_driver_phy_i2c_clock_select = None,
     mepa_driver_phy_fefi_set = None,
     mepa_driver_phy_fefi_get = None,
     mepa_driver_phy_fefi_detect = None,
     mepa_driver_sqi_read = None,
     mepa_driver_start_of_frame_conf_set = None,
     mepa_driver_start_of_frame_conf_get = None,
     mepa_driver_framepreempt_set = None,
     mepa_driver_framepreempt_get = None,
     mepa_driver_selftest_start = None,
     mepa_driver_selftest_read = None,
     mepa_driver_prbs_set = None,
     mepa_driver_prbs_get = None,
     mepa_driver_prbs_monitor_set = None,
     mepa_driver_prbs_monitor_get = None,
     mepa_driver_warmrestart_conf_get = None,
     mepa_driver_warmrestart_conf_end = None,
     mepa_driver_warmrestart_conf_set = None,
     mepa_driver_serdes_tx_conf_set = None,
     mepa_driver_phy_qsgmii_sync = None,
     mepa_driver_capability = None,
     mepa_driver_probe = None,
     mepa_ts = None,
     mepa_tc10 = None,
     mepa_t1s = None,
     drv_id = 0,
     drv_mask = 0\<rparr>"

type_synonym ('h, 'd) phy_lib = "('h, 'd) mepa_driver list list"

definition drv_at :: "('h, 'd) phy_lib \<Rightarrow> drv_ptr \<Rightarrow> ('h, 'd) mepa_driver" where
  "drv_at lib d = (if fst d < length lib \<and> snd d < length (lib ! fst d)
     then lib ! fst d ! snd d else null_driver)"

section \<open>Identification\<close>

text \<open>
  \<open>mepa_phy_id_get\<close>.  The code lets \<open>mmd_read\<close> and \<open>miim_read\<close> write 16 bits through the
  address of a 32-bit variable that was 0; the model is that of a little-endian host, where
  these are the low 16 bits.  The return codes are ignored.
\<close>

definition special_ids :: "32 word list" where
  "special_ids = [0x8484, 0x8487, 0x8488, 0x8489, 0x8490, 0x8491,
     0x8254, 0x8256, 0x8257, 0x8258, 0x8044, 0x8043,
     0x8042, 0x8024, 0x8023, 0x8022, 0x8268, 0x8267,
     0x8264, 0x8263, 0x8262]"

definition rd_global ::
  "'h mepa_callout \<Rightarrow> nat \<Rightarrow> 32 word \<Rightarrow> 16 word \<Rightarrow> ('h, 'd, 32 word) mepa" where
  "rd_global co ctx port_no a =
    (if spi_read co \<noteq> None then do {
       (_, v) \<leftarrow> co_spi_read co ctx port_no 0x1E a;
       State_Monad.return (v AND 0xFFFF) }
     else if mmd_read co \<noteq> None then do {
       (_, v) \<leftarrow> co_mmd_read co ctx 0x1E a;
       State_Monad.return (ucast v) }
     else State_Monad.return 0)"

definition mepa_phy_id_get :: "'h mepa_callout \<Rightarrow> nat \<Rightarrow> 32 word \<Rightarrow> ('h, 'd, 32 word) mepa" where
  "mepa_phy_id_get co ctx port_no = do {
     reg3 \<leftarrow> rd_global co ctx port_no 0;
     if reg3 \<in> set special_ids then State_Monad.return reg3 else do {
     reg2 \<leftarrow> rd_global co ctx port_no 2;
     if reg3 = 0 \<and> reg2 = 0xA0 then State_Monad.return 0x8044 else do {
     (reg2, reg3) \<leftarrow>
       (if miim_read co \<noteq> None then do {
          (_, a) \<leftarrow> co_miim_read co ctx 2;
          (_, b) \<leftarrow> co_miim_read co ctx 3;
          State_Monad.return (ucast a, ucast b) }
        else State_Monad.return (0, 0));
     (reg2, reg3) \<leftarrow>
       (if mmd_read co \<noteq> None \<and> reg2 = 0 \<and> reg3 = 0 then do {
          (_, a) \<leftarrow> co_mmd_read co ctx 1 2;
          (_, b) \<leftarrow> co_mmd_read co ctx 1 3;
          State_Monad.return (ucast a, ucast b) }
        else State_Monad.return (reg2, reg3));
     State_Monad.return (push_bit 16 reg2 OR reg3) }}}"

section \<open>Memory\<close>

definition size_align :: "nat \<Rightarrow> nat" where
  "size_align s = (if s mod 8 \<noteq> 0 then (s div 8 + 1) * 8 else s)"

definition co_mem_alloc :: "'h mepa_callout \<Rightarrow> nat \<Rightarrow> nat \<Rightarrow> ('h, 'd, nat option) mepa" where
  "co_mem_alloc co ctx n = (case mem_alloc co of
      None \<Rightarrow> null_call None
    | Some f \<Rightarrow> hw_call (f ctx n) (\<lambda>r. MemAlloc ctx n r))"

definition co_mem_free :: "'h mepa_callout \<Rightarrow> nat \<Rightarrow> nat \<Rightarrow> ('h, 'd, unit) mepa" where
  "co_mem_free co ctx p = (case mem_free co of
      None \<Rightarrow> null_call ()
    | Some f \<Rightarrow> hw_call (\<lambda>h. ((), f ctx p h)) (\<lambda>_. MemFree ctx p))"

text \<open>
  The memory handed out is zeroed.  A device and its private data are one block; \<open>zero\<close>
  is the zeroed private data of the driver.
\<close>

definition mepa_mem_alloc_int ::
  "'h mepa_callout \<Rightarrow> nat \<Rightarrow> nat \<Rightarrow> 'd \<Rightarrow> ('h, 'd, nat option) mepa" where
  "mepa_mem_alloc_int co ctx sz zero =
    (if mem_alloc co = None then State_Monad.return None else do {
     mem \<leftarrow> co_mem_alloc co ctx (size_align sz);
     case mem of
       None \<Rightarrow> State_Monad.return None
     | Some p \<Rightarrow> do { upd_data p (\<lambda>_. zero); State_Monad.return (Some p) }})"

definition mepa_mem_free_int :: "'h mepa_callout \<Rightarrow> nat \<Rightarrow> nat \<Rightarrow> ('h, 'd, unit) mepa" where
  "mepa_mem_free_int co ctx p =
    (if mem_free co = None then State_Monad.return () else co_mem_free co ctx p)"

section \<open>Creation and deletion\<close>

text \<open>\<open>dev_size\<close> is \<open>sizeof(mepa_device_t)\<close>, which depends on the platform.\<close>

definition set_dev :: "nat \<Rightarrow> 'h mepa_device \<Rightarrow> ('h, 'd, unit) mepa" where
  "set_dev p d = change (\<lambda>w. w\<lparr>devs := (devs w)(p := d)\<rparr>)"

definition mepa_create_int ::
  "nat \<Rightarrow> drv_ptr \<Rightarrow> 'h mepa_callout \<Rightarrow> nat \<Rightarrow> mepa_board_conf \<Rightarrow> nat \<Rightarrow> 'd \<Rightarrow>
    ('h, 'd, nat option) mepa" where
  "mepa_create_int dev_size driver co ctx conf size_of_private_data zero = do {
     let dev_aligned = size_align dev_size;
     let priv_aligned = size_align size_of_private_data;
     mem \<leftarrow> mepa_mem_alloc_int co ctx (dev_aligned + priv_aligned) zero;
     case mem of
       None \<Rightarrow> State_Monad.return None
     | Some p \<Rightarrow> do {
         set_dev p \<lparr>drv = driver, numeric_handle = board_numeric_handle conf,
           callout = co, callout_ctx = ctx\<rparr>;
         State_Monad.return (Some p) }}"

definition mepa_delete_int :: "nat \<Rightarrow> ('h, 'd, mepa_rc) mepa" where
  "mepa_delete_int dev = do {
     d \<leftarrow> dev_of dev;
     mepa_mem_free_int (callout d) (callout_ctx d) dev;
     State_Monad.return MEPA_RC_OK }"

text \<open>The two nested loops of \<open>mepa_create\<close>, over the families and over the drivers of one.\<close>

fun probe_drivers ::
  "'h mepa_callout \<Rightarrow> nat \<Rightarrow> mepa_board_conf \<Rightarrow> 32 word \<Rightarrow> nat \<Rightarrow> nat \<Rightarrow>
    ('h, 'd) mepa_driver list \<Rightarrow> ('h, 'd, nat option) mepa" where
  "probe_drivers co ctx conf phy_id i j [] = State_Monad.return None"
| "probe_drivers co ctx conf phy_id i j (driver # ds) =
    (if drv_id driver AND drv_mask driver = phy_id AND drv_mask driver then do {
       dev \<leftarrow> (case mepa_driver_probe driver of
           None \<Rightarrow> null_call None
         | Some f \<Rightarrow> f (i, j) co ctx conf);
       if dev \<noteq> None then State_Monad.return dev
       else probe_drivers co ctx conf phy_id i (j + 1) ds }
     else probe_drivers co ctx conf phy_id i (j + 1) ds)"

fun probe_families ::
  "'h mepa_callout \<Rightarrow> nat \<Rightarrow> mepa_board_conf \<Rightarrow> 32 word \<Rightarrow> nat \<Rightarrow>
    ('h, 'd) phy_lib \<Rightarrow> ('h, 'd, nat option) mepa" where
  "probe_families co ctx conf phy_id i [] = State_Monad.return None"
| "probe_families co ctx conf phy_id i (ds # fams) = do {
     dev \<leftarrow> probe_drivers co ctx conf phy_id i 0 ds;
     if dev \<noteq> None then State_Monad.return dev
     else probe_families co ctx conf phy_id (i + 1) fams }"

definition mepa_create ::
  "('h, 'd) phy_lib \<Rightarrow> 'h mepa_callout \<Rightarrow> nat \<Rightarrow> mepa_board_conf \<Rightarrow>
    ('h, 'd, nat option) mepa" where
  "mepa_create lib co ctx conf = do {
     phy_id \<leftarrow> (if board_dummy_phy_cap conf > 0 then State_Monad.return 0xdeadbeef
                else mepa_phy_id_get co ctx (board_numeric_handle conf));
     probe_families co ctx conf phy_id 0 lib }"

section \<open>Dispatch\<close>

text \<open>\<open>if (!dev || !dev->drv->f) return r; return dev->drv->f(dev, ...);\<close>\<close>

definition drv_call :: "('h, 'd) phy_lib \<Rightarrow> nat option \<Rightarrow> (('h, 'd) mepa_driver \<Rightarrow> 'f option) \<Rightarrow>
    'r \<Rightarrow> ('f \<Rightarrow> nat \<Rightarrow> ('h, 'd, 'r) mepa) \<Rightarrow> ('h, 'd, 'r) mepa" where
  "drv_call lib dev sel r k = (case dev of
      None \<Rightarrow> State_Monad.return r
    | Some p \<Rightarrow> do {
        d \<leftarrow> dev_of p;
        case sel (drv_at lib (drv d)) of
          None \<Rightarrow> State_Monad.return r
        | Some f \<Rightarrow> k f p })"

definition mepa_delete ::
  "('h, 'd) phy_lib \<Rightarrow> nat option \<Rightarrow> ('h, 'd, mepa_rc) mepa" where
  "mepa_delete lib dev = drv_call lib dev mepa_driver_delete MEPA_RC_NOT_IMPLEMENTED
     (\<lambda>f p. f p)"

definition mepa_reset ::
  "('h, 'd) phy_lib \<Rightarrow> nat option \<Rightarrow> mepa_reset_param \<Rightarrow> ('h, 'd, mepa_rc) mepa" where
  "mepa_reset lib dev a1 = drv_call lib dev mepa_driver_reset MEPA_RC_NOT_IMPLEMENTED
     (\<lambda>f p. f p a1)"

definition mepa_poll ::
  "('h, 'd) phy_lib \<Rightarrow> nat option \<Rightarrow> mepa_status \<Rightarrow> ('h, 'd, mepa_rc \<times> mepa_status) mepa" where
  "mepa_poll lib dev out = drv_call lib dev mepa_driver_poll (MEPA_RC_NOT_IMPLEMENTED, out)
     (\<lambda>f p. f p out)"

definition mepa_conf_set ::
  "('h, 'd) phy_lib \<Rightarrow> nat option \<Rightarrow> mepa_conf \<Rightarrow> ('h, 'd, mepa_rc) mepa" where
  "mepa_conf_set lib dev a1 = drv_call lib dev mepa_driver_conf_set MEPA_RC_NOT_IMPLEMENTED
     (\<lambda>f p. f p a1)"

definition mepa_conf_get ::
  "('h, 'd) phy_lib \<Rightarrow> nat option \<Rightarrow> mepa_conf \<Rightarrow> ('h, 'd, mepa_rc \<times> mepa_conf) mepa" where
  "mepa_conf_get lib dev out = drv_call lib dev mepa_driver_conf_get (MEPA_RC_NOT_IMPLEMENTED, out)
     (\<lambda>f p. f p out)"

definition mepa_if_set ::
  "('h, 'd) phy_lib \<Rightarrow> nat option \<Rightarrow> mepa_port_interface \<Rightarrow> ('h, 'd, mepa_rc) mepa" where
  "mepa_if_set lib dev a1 = drv_call lib dev mepa_driver_if_set MEPA_RC_NOT_IMPLEMENTED
     (\<lambda>f p. f p a1)"

definition mepa_if_get ::
  "('h, 'd) phy_lib \<Rightarrow> nat option \<Rightarrow> mepa_port_speed \<Rightarrow> mepa_port_interface \<Rightarrow> ('h, 'd, mepa_rc \<times> mepa_port_interface) mepa" where
  "mepa_if_get lib dev a1 out = drv_call lib dev mepa_driver_if_get (MEPA_RC_NOT_IMPLEMENTED, out)
     (\<lambda>f p. f p a1 out)"

definition mepa_power_set ::
  "('h, 'd) phy_lib \<Rightarrow> nat option \<Rightarrow> mepa_power_mode \<Rightarrow> ('h, 'd, mepa_rc) mepa" where
  "mepa_power_set lib dev a1 = drv_call lib dev mepa_driver_power_set MEPA_RC_NOT_IMPLEMENTED
     (\<lambda>f p. f p a1)"

definition mepa_cable_diag_start ::
  "('h, 'd) phy_lib \<Rightarrow> nat option \<Rightarrow> int \<Rightarrow> ('h, 'd, mepa_rc) mepa" where
  "mepa_cable_diag_start lib dev a1 = drv_call lib dev mepa_driver_cable_diag_start MEPA_RC_NOT_IMPLEMENTED
     (\<lambda>f p. f p a1)"

definition mepa_cable_diag_get ::
  "('h, 'd) phy_lib \<Rightarrow> nat option \<Rightarrow> mepa_cable_diag_result \<Rightarrow> ('h, 'd, mepa_rc \<times> mepa_cable_diag_result) mepa" where
  "mepa_cable_diag_get lib dev out = drv_call lib dev mepa_driver_cable_diag_get (MEPA_RC_NOT_IMPLEMENTED, out)
     (\<lambda>f p. f p out)"

definition mepa_media_set ::
  "('h, 'd) phy_lib \<Rightarrow> nat option \<Rightarrow> mepa_media_interface \<Rightarrow> ('h, 'd, mepa_rc) mepa" where
  "mepa_media_set lib dev a1 = drv_call lib dev mepa_driver_media_set MEPA_RC_NOT_IMPLEMENTED
     (\<lambda>f p. f p a1)"

definition mepa_media_get ::
  "('h, 'd) phy_lib \<Rightarrow> nat option \<Rightarrow> mepa_media_interface \<Rightarrow> ('h, 'd, mepa_rc \<times> mepa_media_interface) mepa" where
  "mepa_media_get lib dev out = drv_call lib dev mepa_driver_media_get (MEPA_RC_NOT_IMPLEMENTED, out)
     (\<lambda>f p. f p out)"

definition mepa_aneg_status_get ::
  "('h, 'd) phy_lib \<Rightarrow> nat option \<Rightarrow> mepa_aneg_status \<Rightarrow> ('h, 'd, mepa_rc \<times> mepa_aneg_status) mepa" where
  "mepa_aneg_status_get lib dev out = drv_call lib dev mepa_driver_aneg_status_get (MEPA_RC_NOT_IMPLEMENTED, out)
     (\<lambda>f p. f p out)"

definition mepa_clause22_read ::
  "('h, 'd) phy_lib \<Rightarrow> nat option \<Rightarrow> 32 word \<Rightarrow> 16 word \<Rightarrow> ('h, 'd, mepa_rc \<times> 16 word) mepa" where
  "mepa_clause22_read lib dev a1 out = drv_call lib dev mepa_driver_clause22_read (MEPA_RC_NOT_IMPLEMENTED, out)
     (\<lambda>f p. f p a1 out)"

definition mepa_clause22_write ::
  "('h, 'd) phy_lib \<Rightarrow> nat option \<Rightarrow> 32 word \<Rightarrow> 16 word \<Rightarrow> ('h, 'd, mepa_rc) mepa" where
  "mepa_clause22_write lib dev a1 a2 = drv_call lib dev mepa_driver_clause22_write MEPA_RC_NOT_IMPLEMENTED
     (\<lambda>f p. f p a1 a2)"

definition mepa_clause45_read ::
  "('h, 'd) phy_lib \<Rightarrow> nat option \<Rightarrow> 32 word \<Rightarrow> 16 word \<Rightarrow> ('h, 'd, mepa_rc \<times> 16 word) mepa" where
  "mepa_clause45_read lib dev a1 out = drv_call lib dev mepa_driver_clause45_read (MEPA_RC_NOT_IMPLEMENTED, out)
     (\<lambda>f p. f p a1 out)"

definition mepa_clause45_write ::
  "('h, 'd) phy_lib \<Rightarrow> nat option \<Rightarrow> 32 word \<Rightarrow> 16 word \<Rightarrow> ('h, 'd, mepa_rc) mepa" where
  "mepa_clause45_write lib dev a1 a2 = drv_call lib dev mepa_driver_clause45_write MEPA_RC_NOT_IMPLEMENTED
     (\<lambda>f p. f p a1 a2)"

definition mepa_event_enable_set ::
  "('h, 'd) phy_lib \<Rightarrow> nat option \<Rightarrow> mepa_event \<Rightarrow> bool \<Rightarrow> ('h, 'd, mepa_rc) mepa" where
  "mepa_event_enable_set lib dev a1 a2 = drv_call lib dev mepa_driver_event_enable_set MEPA_RC_NOT_IMPLEMENTED
     (\<lambda>f p. f p a1 a2)"

definition mepa_event_enable_get ::
  "('h, 'd) phy_lib \<Rightarrow> nat option \<Rightarrow> mepa_event \<Rightarrow> ('h, 'd, mepa_rc \<times> mepa_event) mepa" where
  "mepa_event_enable_get lib dev out = drv_call lib dev mepa_driver_event_enable_get (MEPA_RC_NOT_IMPLEMENTED, out)
     (\<lambda>f p. f p out)"

definition mepa_event_poll ::
  "('h, 'd) phy_lib \<Rightarrow> nat option \<Rightarrow> mepa_event \<Rightarrow> ('h, 'd, mepa_rc \<times> mepa_event) mepa" where
  "mepa_event_poll lib dev out = drv_call lib dev mepa_driver_event_poll (MEPA_RC_NOT_IMPLEMENTED, out)
     (\<lambda>f p. f p out)"

definition mepa_loopback_set ::
  "('h, 'd) phy_lib \<Rightarrow> nat option \<Rightarrow> mepa_loopback \<Rightarrow> ('h, 'd, mepa_rc) mepa" where
  "mepa_loopback_set lib dev a1 = drv_call lib dev mepa_driver_loopback_set MEPA_RC_NOT_IMPLEMENTED
     (\<lambda>f p. f p a1)"

definition mepa_loopback_get ::
  "('h, 'd) phy_lib \<Rightarrow> nat option \<Rightarrow> mepa_loopback \<Rightarrow> ('h, 'd, mepa_rc \<times> mepa_loopback) mepa" where
  "mepa_loopback_get lib dev out = drv_call lib dev mepa_driver_loopback_get (MEPA_RC_NOT_IMPLEMENTED, out)
     (\<lambda>f p. f p out)"

definition mepa_gpio_mode_set ::
  "('h, 'd) phy_lib \<Rightarrow> nat option \<Rightarrow> mepa_gpio_conf \<Rightarrow> ('h, 'd, mepa_rc) mepa" where
  "mepa_gpio_mode_set lib dev a1 = drv_call lib dev mepa_driver_gpio_mode_set MEPA_RC_NOT_IMPLEMENTED
     (\<lambda>f p. f p a1)"

definition mepa_gpio_out_set ::
  "('h, 'd) phy_lib \<Rightarrow> nat option \<Rightarrow> 8 word \<Rightarrow> bool \<Rightarrow> ('h, 'd, mepa_rc) mepa" where
  "mepa_gpio_out_set lib dev a1 a2 = drv_call lib dev mepa_driver_gpio_out_set MEPA_RC_NOT_IMPLEMENTED
     (\<lambda>f p. f p a1 a2)"

definition mepa_gpio_in_get ::
  "('h, 'd) phy_lib \<Rightarrow> nat option \<Rightarrow> 8 word \<Rightarrow> bool \<Rightarrow> ('h, 'd, mepa_rc \<times> bool) mepa" where
  "mepa_gpio_in_get lib dev a1 out = drv_call lib dev mepa_driver_gpio_in_get (MEPA_RC_NOT_IMPLEMENTED, out)
     (\<lambda>f p. f p a1 out)"

definition mepa_synce_clock_conf_set ::
  "('h, 'd) phy_lib \<Rightarrow> nat option \<Rightarrow> mepa_synce_clock_conf \<Rightarrow> ('h, 'd, mepa_rc) mepa" where
  "mepa_synce_clock_conf_set lib dev a1 = drv_call lib dev mepa_driver_synce_clock_conf_set MEPA_RC_NOT_IMPLEMENTED
     (\<lambda>f p. f p a1)"

definition mepa_link_base_port ::
  "('h, 'd) phy_lib \<Rightarrow> nat option \<Rightarrow> nat option \<Rightarrow> 8 word \<Rightarrow> ('h, 'd, mepa_rc) mepa" where
  "mepa_link_base_port lib dev a1 a2 = drv_call lib dev mepa_driver_link_base_port MEPA_RC_NOT_IMPLEMENTED
     (\<lambda>f p. f p a1 a2)"

definition mepa_isolate_mode_conf ::
  "('h, 'd) phy_lib \<Rightarrow> nat option \<Rightarrow> bool \<Rightarrow> ('h, 'd, mepa_rc) mepa" where
  "mepa_isolate_mode_conf lib dev a1 = drv_call lib dev mepa_driver_isolate_mode_conf MEPA_RC_NOT_IMPLEMENTED
     (\<lambda>f p. f p a1)"

definition mepa_chip_temp_get ::
  "('h, 'd) phy_lib \<Rightarrow> nat option \<Rightarrow> 16 word \<Rightarrow> ('h, 'd, mepa_rc \<times> 16 word) mepa" where
  "mepa_chip_temp_get lib dev out = drv_call lib dev mepa_driver_chip_temp_get (MEPA_RC_NOT_IMPLEMENTED, out)
     (\<lambda>f p. f p out)"

definition mepa_eee_mode_conf_set ::
  "('h, 'd) phy_lib \<Rightarrow> nat option \<Rightarrow> mepa_phy_eee_conf \<Rightarrow> ('h, 'd, mepa_rc) mepa" where
  "mepa_eee_mode_conf_set lib dev a1 = drv_call lib dev mepa_driver_eee_mode_conf_set MEPA_RC_NOT_IMPLEMENTED
     (\<lambda>f p. f p a1)"

definition mepa_eee_mode_conf_get ::
  "('h, 'd) phy_lib \<Rightarrow> nat option \<Rightarrow> mepa_phy_eee_conf \<Rightarrow> ('h, 'd, mepa_rc \<times> mepa_phy_eee_conf) mepa" where
  "mepa_eee_mode_conf_get lib dev out = drv_call lib dev mepa_driver_eee_mode_conf_get (MEPA_RC_NOT_IMPLEMENTED, out)
     (\<lambda>f p. f p out)"

definition mepa_eee_status_get ::
  "('h, 'd) phy_lib \<Rightarrow> nat option \<Rightarrow> (8 word \<times> bool \<times> bool) \<Rightarrow> ('h, 'd, mepa_rc \<times> (8 word \<times> bool \<times> bool)) mepa" where
  "mepa_eee_status_get lib dev out = drv_call lib dev mepa_driver_eee_status_get (MEPA_RC_NOT_IMPLEMENTED, out)
     (\<lambda>f p. f p out)"

definition mepa_i2c_read ::
  "('h, 'd) phy_lib \<Rightarrow> nat option \<Rightarrow> 8 word \<Rightarrow> 8 word \<Rightarrow> 8 word \<Rightarrow> bool \<Rightarrow> 8 word \<Rightarrow> 8 word list \<Rightarrow> ('h, 'd, mepa_rc \<times> 8 word list) mepa" where
  "mepa_i2c_read lib dev a1 a2 a3 a4 a5 out = drv_call lib dev mepa_driver_phy_i2c_read (MEPA_RC_NOT_IMPLEMENTED, out)
     (\<lambda>f p. f p a1 a2 a3 a4 a5 out)"

definition mepa_i2c_write ::
  "('h, 'd) phy_lib \<Rightarrow> nat option \<Rightarrow> 8 word \<Rightarrow> 8 word \<Rightarrow> 8 word \<Rightarrow> bool \<Rightarrow> 8 word \<Rightarrow> 8 word list \<Rightarrow> ('h, 'd, mepa_rc) mepa" where
  "mepa_i2c_write lib dev a1 a2 a3 a4 a5 a6 = drv_call lib dev mepa_driver_phy_i2c_write MEPA_RC_NOT_IMPLEMENTED
     (\<lambda>f p. f p a1 a2 a3 a4 a5 a6)"

definition mepa_fefi_get ::
  "('h, 'd) phy_lib \<Rightarrow> nat option \<Rightarrow> mepa_fefi_mode \<Rightarrow> ('h, 'd, mepa_rc \<times> mepa_fefi_mode) mepa" where
  "mepa_fefi_get lib dev out = drv_call lib dev mepa_driver_phy_fefi_get (MEPA_RC_NOT_IMPLEMENTED, out)
     (\<lambda>f p. f p out)"

definition mepa_fefi_detect ::
  "('h, 'd) phy_lib \<Rightarrow> nat option \<Rightarrow> bool \<Rightarrow> ('h, 'd, mepa_rc \<times> bool) mepa" where
  "mepa_fefi_detect lib dev out = drv_call lib dev mepa_driver_phy_fefi_detect (MEPA_RC_NOT_IMPLEMENTED, out)
     (\<lambda>f p. f p out)"

definition mepa_sqi_read ::
  "('h, 'd) phy_lib \<Rightarrow> nat option \<Rightarrow> 32 word \<Rightarrow> ('h, 'd, mepa_rc \<times> 32 word) mepa" where
  "mepa_sqi_read lib dev out = drv_call lib dev mepa_driver_sqi_read (MEPA_RC_NOT_IMPLEMENTED, out)
     (\<lambda>f p. f p out)"

definition mepa_start_of_frame_conf_set ::
  "('h, 'd) phy_lib \<Rightarrow> nat option \<Rightarrow> mepa_start_of_frame_conf \<Rightarrow> ('h, 'd, mepa_rc) mepa" where
  "mepa_start_of_frame_conf_set lib dev a1 = drv_call lib dev mepa_driver_start_of_frame_conf_set MEPA_RC_NOT_IMPLEMENTED
     (\<lambda>f p. f p a1)"

definition mepa_start_of_frame_conf_get ::
  "('h, 'd) phy_lib \<Rightarrow> nat option \<Rightarrow> mepa_start_of_frame_conf \<Rightarrow> ('h, 'd, mepa_rc \<times> mepa_start_of_frame_conf) mepa" where
  "mepa_start_of_frame_conf_get lib dev out = drv_call lib dev mepa_driver_start_of_frame_conf_get (MEPA_RC_NOT_IMPLEMENTED, out)
     (\<lambda>f p. f p out)"

definition mepa_framepreempt_set ::
  "('h, 'd) phy_lib \<Rightarrow> nat option \<Rightarrow> bool \<Rightarrow> ('h, 'd, mepa_rc) mepa" where
  "mepa_framepreempt_set lib dev a1 = drv_call lib dev mepa_driver_framepreempt_set MEPA_RC_NOT_IMPLEMENTED
     (\<lambda>f p. f p a1)"

definition mepa_framepreempt_get ::
  "('h, 'd) phy_lib \<Rightarrow> nat option \<Rightarrow> bool option \<Rightarrow> ('h, 'd, mepa_rc \<times> bool option) mepa" where
  "mepa_framepreempt_get lib dev out = drv_call lib dev mepa_driver_framepreempt_get (MEPA_RC_NOT_IMPLEMENTED, out)
     (\<lambda>f p. f p out)"

definition mepa_selftest_start ::
  "('h, 'd) phy_lib \<Rightarrow> nat option \<Rightarrow> mepa_selftest_info option \<Rightarrow> ('h, 'd, mepa_rc) mepa" where
  "mepa_selftest_start lib dev a1 = drv_call lib dev mepa_driver_selftest_start MEPA_RC_NOT_IMPLEMENTED
     (\<lambda>f p. f p a1)"

definition mepa_selftest_read ::
  "('h, 'd) phy_lib \<Rightarrow> nat option \<Rightarrow> mepa_selftest_info option \<Rightarrow> ('h, 'd, mepa_rc \<times> mepa_selftest_info option) mepa" where
  "mepa_selftest_read lib dev out = drv_call lib dev mepa_driver_selftest_read (MEPA_RC_NOT_IMPLEMENTED, out)
     (\<lambda>f p. f p out)"

definition mepa_prbs_set ::
  "('h, 'd) phy_lib \<Rightarrow> nat option \<Rightarrow> mepa_phy_prbs_type \<Rightarrow> mepa_phy_prbs_direction \<Rightarrow> mepa_phy_prbs_generator_conf option \<Rightarrow> ('h, 'd, mepa_rc) mepa" where
  "mepa_prbs_set lib dev a1 a2 a3 = drv_call lib dev mepa_driver_prbs_set MEPA_RC_NOT_IMPLEMENTED
     (\<lambda>f p. f p a1 a2 a3)"

definition mepa_prbs_get ::
  "('h, 'd) phy_lib \<Rightarrow> nat option \<Rightarrow> mepa_phy_prbs_type \<Rightarrow> mepa_phy_prbs_direction \<Rightarrow> mepa_phy_prbs_generator_conf \<Rightarrow> ('h, 'd, mepa_rc \<times> mepa_phy_prbs_generator_conf) mepa" where
  "mepa_prbs_get lib dev a1 a2 out = drv_call lib dev mepa_driver_prbs_get (MEPA_RC_NOT_IMPLEMENTED, out)
     (\<lambda>f p. f p a1 a2 out)"

definition mepa_prbs_monitor_set ::
  "('h, 'd) phy_lib \<Rightarrow> nat option \<Rightarrow> mepa_phy_prbs_monitor_conf \<Rightarrow> ('h, 'd, mepa_rc) mepa" where
  "mepa_prbs_monitor_set lib dev a1 = drv_call lib dev mepa_driver_prbs_monitor_set MEPA_RC_NOT_IMPLEMENTED
     (\<lambda>f p. f p a1)"

definition mepa_prbs_monitor_get ::
  "('h, 'd) phy_lib \<Rightarrow> nat option \<Rightarrow> mepa_phy_prbs_monitor_conf \<Rightarrow> ('h, 'd, mepa_rc \<times> mepa_phy_prbs_monitor_conf) mepa" where
  "mepa_prbs_monitor_get lib dev out = drv_call lib dev mepa_driver_prbs_monitor_get (MEPA_RC_NOT_IMPLEMENTED, out)
     (\<lambda>f p. f p out)"

definition mepa_warmstart_conf_get ::
  "('h, 'd) phy_lib \<Rightarrow> nat option \<Rightarrow> mepa_restart \<Rightarrow> ('h, 'd, mepa_rc \<times> mepa_restart) mepa" where
  "mepa_warmstart_conf_get lib dev out = drv_call lib dev mepa_driver_warmrestart_conf_get (MEPA_RC_NOT_IMPLEMENTED, out)
     (\<lambda>f p. f p out)"

definition mepa_warmstart_conf_end ::
  "('h, 'd) phy_lib \<Rightarrow> nat option \<Rightarrow> ('h, 'd, mepa_rc) mepa" where
  "mepa_warmstart_conf_end lib dev = drv_call lib dev mepa_driver_warmrestart_conf_end MEPA_RC_NOT_IMPLEMENTED
     (\<lambda>f p. f p)"

definition mepa_warmstart_conf_set ::
  "('h, 'd) phy_lib \<Rightarrow> nat option \<Rightarrow> mepa_restart \<Rightarrow> ('h, 'd, mepa_rc) mepa" where
  "mepa_warmstart_conf_set lib dev a1 = drv_call lib dev mepa_driver_warmrestart_conf_set MEPA_RC_NOT_IMPLEMENTED
     (\<lambda>f p. f p a1)"

definition mepa_serdes_tx_conf_set ::
  "('h, 'd) phy_lib \<Rightarrow> nat option \<Rightarrow> mepa_serdes_tx_conf \<Rightarrow> ('h, 'd, mepa_rc) mepa" where
  "mepa_serdes_tx_conf_set lib dev a1 = drv_call lib dev mepa_driver_serdes_tx_conf_set MEPA_RC_NOT_IMPLEMENTED
     (\<lambda>f p. f p a1)"

definition mepa_phy_qsgmii_sync ::
  "('h, 'd) phy_lib \<Rightarrow> nat option \<Rightarrow> ('h, 'd, mepa_rc) mepa" where
  "mepa_phy_qsgmii_sync lib dev = drv_call lib dev mepa_driver_phy_qsgmii_sync MEPA_RC_NOT_IMPLEMENTED
     (\<lambda>f p. f p)"

text \<open>The information structure is cleared first; the capability query answers 0.\<close>

definition mepa_phy_info_0 :: mepa_phy_info where
  "mepa_phy_info_0 = \<lparr>info_part_number = 0, info_revision = 0, info_cap = 0,
     info_ts_base_port = 0, info_ts_base = None, info_manufactor_name = [],
     info_model_name = [], info_firmware_rev = [], info_serial_number = []\<rparr>"

definition mepa_phy_info_get ::
  "('h, 'd) phy_lib \<Rightarrow> nat option \<Rightarrow> mepa_phy_info \<Rightarrow> ('h, 'd, mepa_rc \<times> mepa_phy_info) mepa" where
  "mepa_phy_info_get lib dev out = drv_call lib dev mepa_driver_phy_info_get
     (MEPA_RC_NOT_IMPLEMENTED, out) (\<lambda>f p. f p mepa_phy_info_0)"

definition mepa_capability ::
  "('h, 'd) phy_lib \<Rightarrow> nat option \<Rightarrow> 32 word \<Rightarrow> ('h, 'd, 32 word) mepa" where
  "mepa_capability lib dev a1 = drv_call lib dev mepa_driver_capability 0 (\<lambda>f p. f p a1)"

text \<open>
  Two dispatchers test another member than the one they call: \<open>mepa_i2c_clock_select\<close>
  tests \<open>i2c_write\<close>, \<open>mepa_fefi_set\<close> tests \<open>fefi_get\<close>.
\<close>

definition mepa_i2c_clock_select ::
  "('h, 'd) phy_lib \<Rightarrow> nat option \<Rightarrow> mepa_i2c_clk_select \<Rightarrow> ('h, 'd, mepa_rc) mepa" where
  "mepa_i2c_clock_select lib dev a1 = drv_call lib dev mepa_driver_phy_i2c_write
     MEPA_RC_NOT_IMPLEMENTED (\<lambda>_ p. do {
       d \<leftarrow> dev_of p;
       case mepa_driver_phy_i2c_clock_select (drv_at lib (drv d)) of
         None \<Rightarrow> null_call MEPA_RC_ERROR
       | Some f \<Rightarrow> f p a1 })"

definition mepa_fefi_set ::
  "('h, 'd) phy_lib \<Rightarrow> nat option \<Rightarrow> mepa_fefi_mode \<Rightarrow> ('h, 'd, mepa_rc) mepa" where
  "mepa_fefi_set lib dev a1 = drv_call lib dev mepa_driver_phy_fefi_get
     MEPA_RC_NOT_IMPLEMENTED (\<lambda>_ p. do {
       d \<leftarrow> dev_of p;
       case mepa_driver_phy_fefi_set (drv_at lib (drv d)) of
         None \<Rightarrow> null_call MEPA_RC_ERROR
       | Some f \<Rightarrow> f p a1 })"

end
