(* ===== verification/Lan8814_Driver.thy ===== *)
theory Lan8814_Driver
  imports Lan8814_Ts_Lock Mepa_Driver
begin

text \<open>
  Probe and deletion of a LAN8814 device and the driver table of the family
  (\<open>lan8814_probe\<close>, \<open>lan8814_delete\<close>, \<open>mepa_lan8814_driver_init\<close> of \<open>lan8814.c\<close>, built without
  \<open>MEPA_LAN8814_LIGHT\<close>).  \<open>dev_size\<close> and \<open>priv_size\<close> are the sizes of \<open>mepa_device_t\<close> and
  \<open>phy_data_t\<close>.  The family is number 5 of \<open>MEPA_phy_lib\<close>.
\<close>

abbreviation (input) LAN8814_FAMILY :: nat where "LAN8814_FAMILY \<equiv> 5"

definition lan8814_delete :: "nat \<Rightarrow> ('h, mepa_rc) lan" where
  "lan8814_delete dev = mepa_delete_int dev"

text \<open>The driver after the remapping by SKU.\<close>

definition sku_driver :: "16 word \<Rightarrow> drv_ptr \<Rightarrow> drv_ptr" where
  "sku_driver sku drv0 =
    (let d = (if ucast sku = LAN8804_SKU then (LAN8814_FAMILY, 1) else drv0)
     in if ucast sku = LAN8832_SKU then (LAN8814_FAMILY, 4) else d)"

definition lan8814_probe ::
  "nat \<Rightarrow> nat \<Rightarrow> drv_ptr \<Rightarrow> 'h mepa_callout \<Rightarrow> nat \<Rightarrow> mepa_board_conf \<Rightarrow> ('h, nat option) lan" where
  "lan8814_probe dev_size priv_size drv0 co ctx board_conf =
    (if miim_read co \<noteq> None \<and> miim_write co \<noteq> None then do {
       co_miim_write co ctx (ucast LAN8814_EXT_PAGE_ACCESS_CTRL) 4;
       co_miim_write co ctx (ucast LAN8814_EXT_PAGE_ACCESS_ADDR_DATA) 11;
       co_miim_write co ctx (ucast LAN8814_EXT_PAGE_ACCESS_CTRL) 0x4004;
       (_, sku) \<leftarrow> co_miim_read co ctx (ucast LAN8814_EXT_PAGE_ACCESS_ADDR_DATA);
       dev \<leftarrow> mepa_create_int dev_size (sku_driver sku drv0) co ctx board_conf priv_size phy_data_0;
       case dev of
         None \<Rightarrow> State_Monad.return None
       | Some p \<Rightarrow> do {
           upd_data p (\<lambda>d. d\<lparr>pd_port_no := board_numeric_handle board_conf\<rparr>);
           upd_data p (\<lambda>d. d\<lparr>pd_events := 0\<rparr>);
           lan8814_get_device_info p;
           upd_data p (\<lambda>d. d\<lparr>pd_dev := (pd_dev d)\<lparr>di_sku := sku\<rparr>\<rparr>);
           State_Monad.return (Some p) }}
     else State_Monad.return None)"

section \<open>The driver table\<close>

definition lan8814_driver :: "nat \<Rightarrow> nat \<Rightarrow> ('h, phy_data) mepa_driver" where
  "lan8814_driver dev_size priv_size = null_driver\<lparr>
     mepa_ts := Some lan8814_ts_drivers,
     drv_id := LAN8814_DEF_DRV_ID,
     drv_mask := 0xfffff0,
     mepa_driver_delete := Some lan8814_delete,
     mepa_driver_reset := Some lan8814_reset,
     mepa_driver_poll := Some lan8814_poll,
     mepa_driver_conf_set := Some lan8814_conf_set,
     mepa_driver_conf_get := Some (\<lambda>p _. lan8814_conf_get p),
     mepa_driver_if_set := Some lan8814_if_set,
     mepa_driver_if_get := Some (\<lambda>p a1 _. lan8814_if_get p a1),
     mepa_driver_probe := Some (lan8814_probe dev_size priv_size),
     mepa_driver_aneg_status_get := Some (\<lambda>p _. lan8814_aneg_status_get p),
     mepa_driver_clause22_read := Some (\<lambda>p a1 _. lan8814_direct_reg_read p a1),
     mepa_driver_clause22_write := Some lan8814_direct_reg_write,
     mepa_driver_clause45_read := Some lan8814_ext_mmd_reg_read,
     mepa_driver_clause45_write := Some lan8814_ext_mmd_reg_write,
     mepa_driver_event_enable_set := Some lan8814_event_enable_set,
     mepa_driver_event_enable_get := Some (\<lambda>p _. lan8814_event_enable_get p),
     mepa_driver_event_poll := Some (\<lambda>p _. lan8814_event_status_poll p),
     mepa_driver_gpio_mode_set := Some lan8814_gpio_mode_set,
     mepa_driver_gpio_out_set := Some lan8814_gpio_out_set,
     mepa_driver_gpio_in_get := Some lan8814_gpio_in_get,
     mepa_driver_link_base_port := Some lan8814_link_base_port,
     mepa_driver_capability := Some lan8814_capability,
     mepa_driver_phy_info_get := Some lan8814_info_get,
     mepa_driver_eee_mode_conf_set := Some lan8814_eee_mode_conf_set,
     mepa_driver_eee_mode_conf_get := Some (\<lambda>p _. lan8814_eee_mode_conf_get p),
     mepa_driver_eee_status_get := Some (\<lambda>p _. lan8814_eee_status_get p),
     mepa_driver_cable_diag_start := Some lan8814_cab_diag_start,
     mepa_driver_cable_diag_get := Some (\<lambda>p _. lan8814_cab_diag_get p),
     mepa_driver_loopback_set := Some lan8814_loopback_set,
     mepa_driver_loopback_get := Some (\<lambda>p _. lan8814_loopback_get p),
     mepa_driver_synce_clock_conf_set := Some lan8814_recovered_clk_set,
     mepa_driver_isolate_mode_conf := Some lan8814_isolate_mode_conf,
     mepa_driver_sqi_read := Some lan8814_sqi_read,
     mepa_driver_start_of_frame_conf_set := Some lan8814_start_of_frame_conf_set,
     mepa_driver_start_of_frame_conf_get := Some (\<lambda>p _. lan8814_start_of_frame_conf_get p),
     mepa_driver_framepreempt_get := Some lan8814_framepreempt_get,
     mepa_driver_framepreempt_set := Some lan8814_framepreempt_set,
     mepa_driver_selftest_start := Some lan8814_selftest_start,
     mepa_driver_selftest_read := Some lan8814_selftest_read,
     mepa_driver_prbs_set := Some lan8814_prbs_set,
     mepa_driver_prbs_get := Some (\<lambda>p a1 a2 _. lan8814_prbs_get p a1 a2),
     mepa_driver_prbs_monitor_set := Some lan8814_prbs_monitor_set,
     mepa_driver_prbs_monitor_get := Some lan8814_prbs_monitor_get,
     mepa_driver_serdes_tx_conf_set := Some lan8814_serdes_tx_conf_set\<rparr>"

definition lan8804_driver :: "nat \<Rightarrow> nat \<Rightarrow> ('h, phy_data) mepa_driver" where
  "lan8804_driver dev_size priv_size = null_driver\<lparr>
     drv_id := LAN8804_SKU,
     drv_mask := 0xffff,
     mepa_driver_delete := Some lan8814_delete,
     mepa_driver_reset := Some lan8814_reset,
     mepa_driver_poll := Some lan8814_poll,
     mepa_driver_conf_set := Some lan8814_conf_set,
     mepa_driver_conf_get := Some (\<lambda>p _. lan8814_conf_get p),
     mepa_driver_if_set := Some lan8814_if_set,
     mepa_driver_if_get := Some (\<lambda>p a1 _. lan8814_if_get p a1),
     mepa_driver_probe := Some (lan8814_probe dev_size priv_size),
     mepa_driver_aneg_status_get := Some (\<lambda>p _. lan8814_aneg_status_get p),
     mepa_driver_clause22_read := Some (\<lambda>p a1 _. lan8814_direct_reg_read p a1),
     mepa_driver_clause22_write := Some lan8814_direct_reg_write,
     mepa_driver_clause45_read := Some lan8814_ext_mmd_reg_read,
     mepa_driver_clause45_write := Some lan8814_ext_mmd_reg_write,
     mepa_driver_event_enable_set := Some lan8814_event_enable_set,
     mepa_driver_event_enable_get := Some (\<lambda>p _. lan8814_event_enable_get p),
     mepa_driver_event_poll := Some (\<lambda>p _. lan8814_event_status_poll p),
     mepa_driver_gpio_mode_set := Some lan8814_gpio_mode_set,
     mepa_driver_gpio_out_set := Some lan8814_gpio_out_set,
     mepa_driver_gpio_in_get := Some lan8814_gpio_in_get,
     mepa_driver_link_base_port := Some lan8814_link_base_port,
     mepa_driver_capability := Some lan8814_capability,
     mepa_driver_phy_info_get := Some lan8814_info_get,
     mepa_driver_eee_mode_conf_set := Some lan8814_eee_mode_conf_set,
     mepa_driver_eee_mode_conf_get := Some (\<lambda>p _. lan8814_eee_mode_conf_get p),
     mepa_driver_eee_status_get := Some (\<lambda>p _. lan8814_eee_status_get p),
     mepa_driver_cable_diag_start := Some lan8814_cab_diag_start,
     mepa_driver_cable_diag_get := Some (\<lambda>p _. lan8814_cab_diag_get p),
     mepa_driver_loopback_set := Some lan8814_loopback_set,
     mepa_driver_loopback_get := Some (\<lambda>p _. lan8814_loopback_get p),
     mepa_driver_synce_clock_conf_set := Some lan8814_recovered_clk_set,
     mepa_driver_isolate_mode_conf := Some lan8814_isolate_mode_conf,
     mepa_driver_sqi_read := Some lan8814_sqi_read,
     mepa_driver_start_of_frame_conf_set := Some lan8814_start_of_frame_conf_set,
     mepa_driver_start_of_frame_conf_get := Some (\<lambda>p _. lan8814_start_of_frame_conf_get p),
     mepa_driver_framepreempt_get := Some lan8814_framepreempt_get,
     mepa_driver_selftest_start := Some lan8814_selftest_start,
     mepa_driver_selftest_read := Some lan8814_selftest_read,
     mepa_driver_prbs_set := Some lan8814_prbs_set,
     mepa_driver_prbs_get := Some (\<lambda>p a1 a2 _. lan8814_prbs_get p a1 a2),
     mepa_driver_prbs_monitor_set := Some lan8814_prbs_monitor_set,
     mepa_driver_prbs_monitor_get := Some lan8814_prbs_monitor_get,
     mepa_driver_serdes_tx_conf_set := Some lan8814_serdes_tx_conf_set\<rparr>"

definition lan8814_int_phy_driver :: "nat \<Rightarrow> nat \<Rightarrow> ('h, phy_data) mepa_driver" where
  "lan8814_int_phy_driver dev_size priv_size = null_driver\<lparr>
     drv_id := LAN8814_INT_PHY_DRV_ID,
     drv_mask := 0xfffff0,
     mepa_driver_delete := Some lan8814_delete,
     mepa_driver_reset := Some lan8814_reset,
     mepa_driver_poll := Some lan8814_poll,
     mepa_driver_conf_set := Some lan8814_conf_set,
     mepa_driver_conf_get := Some (\<lambda>p _. lan8814_conf_get p),
     mepa_driver_if_set := Some mas_if_set,
     mepa_driver_if_get := Some (\<lambda>p a1 _. mas_if_get p a1),
     mepa_driver_probe := Some (lan8814_probe dev_size priv_size),
     mepa_driver_aneg_status_get := Some (\<lambda>p _. lan8814_aneg_status_get p),
     mepa_driver_clause22_read := Some (\<lambda>p a1 _. lan8814_direct_reg_read p a1),
     mepa_driver_clause22_write := Some lan8814_direct_reg_write,
     mepa_driver_clause45_read := Some lan8814_ext_mmd_reg_read,
     mepa_driver_clause45_write := Some lan8814_ext_mmd_reg_write,
     mepa_driver_event_enable_set := Some lan8814_event_enable_set,
     mepa_driver_event_enable_get := Some (\<lambda>p _. lan8814_event_enable_get p),
     mepa_driver_event_poll := Some (\<lambda>p _. lan8814_event_status_poll p),
     mepa_driver_gpio_mode_set := Some lan8814_gpio_mode_set,
     mepa_driver_gpio_out_set := Some lan8814_gpio_out_set,
     mepa_driver_gpio_in_get := Some lan8814_gpio_in_get,
     mepa_driver_capability := Some lan8814_capability,
     mepa_driver_phy_info_get := Some lan8814_info_get,
     mepa_driver_eee_mode_conf_set := Some lan8814_eee_mode_conf_set,
     mepa_driver_eee_mode_conf_get := Some (\<lambda>p _. lan8814_eee_mode_conf_get p),
     mepa_driver_eee_status_get := Some (\<lambda>p _. lan8814_eee_status_get p),
     mepa_driver_synce_clock_conf_set := Some lan8814_recovered_clk_set,
     mepa_driver_cable_diag_start := Some lan8814_cab_diag_start,
     mepa_driver_cable_diag_get := Some (\<lambda>p _. lan8814_cab_diag_get p),
     mepa_driver_loopback_set := Some lan8814_loopback_set,
     mepa_driver_loopback_get := Some (\<lambda>p _. lan8814_loopback_get p),
     mepa_driver_isolate_mode_conf := Some lan8814_isolate_mode_conf,
     mepa_driver_sqi_read := Some lan8814_sqi_read,
     mepa_driver_start_of_frame_conf_set := Some lan8814_start_of_frame_conf_set,
     mepa_driver_start_of_frame_conf_get := Some (\<lambda>p _. lan8814_start_of_frame_conf_get p),
     mepa_driver_framepreempt_set := Some lan8814_framepreempt_set,
     mepa_driver_framepreempt_get := Some lan8814_framepreempt_get,
     mepa_driver_selftest_start := Some lan8814_selftest_start,
     mepa_driver_selftest_read := Some lan8814_selftest_read,
     mepa_driver_prbs_set := Some lan8814_prbs_set,
     mepa_driver_prbs_get := Some (\<lambda>p a1 a2 _. lan8814_prbs_get p a1 a2),
     mepa_driver_prbs_monitor_set := Some lan8814_prbs_monitor_set,
     mepa_driver_prbs_monitor_get := Some lan8814_prbs_monitor_get,
     mepa_driver_serdes_tx_conf_set := Some lan8814_serdes_tx_conf_set\<rparr>"

definition lan8842_driver :: "nat \<Rightarrow> nat \<Rightarrow> ('h, phy_data) mepa_driver" where
  "lan8842_driver dev_size priv_size = null_driver\<lparr>
     mepa_ts := Some lan8814_ts_drivers,
     drv_id := LAN8842_DRV_ID,
     drv_mask := 0xfffff0,
     mepa_driver_delete := Some lan8814_delete,
     mepa_driver_reset := Some lan8814_reset,
     mepa_driver_poll := Some lan8814_poll,
     mepa_driver_conf_set := Some lan8814_conf_set,
     mepa_driver_conf_get := Some (\<lambda>p _. lan8814_conf_get p),
     mepa_driver_if_set := Some lan8842_if_set,
     mepa_driver_if_get := Some (\<lambda>p a1 _. lan8842_if_get p a1),
     mepa_driver_probe := Some (lan8814_probe dev_size priv_size),
     mepa_driver_aneg_status_get := Some (\<lambda>p _. lan8814_aneg_status_get p),
     mepa_driver_clause22_read := Some (\<lambda>p a1 _. lan8814_direct_reg_read p a1),
     mepa_driver_clause22_write := Some lan8814_direct_reg_write,
     mepa_driver_clause45_read := Some lan8814_ext_mmd_reg_read,
     mepa_driver_clause45_write := Some lan8814_ext_mmd_reg_write,
     mepa_driver_event_enable_set := Some lan8814_event_enable_set,
     mepa_driver_event_enable_get := Some (\<lambda>p _. lan8814_event_enable_get p),
     mepa_driver_event_poll := Some (\<lambda>p _. lan8814_event_status_poll p),
     mepa_driver_gpio_mode_set := Some lan8814_gpio_mode_set,
     mepa_driver_gpio_out_set := Some lan8814_gpio_out_set,
     mepa_driver_gpio_in_get := Some lan8814_gpio_in_get,
     mepa_driver_capability := Some lan8814_capability,
     mepa_driver_phy_info_get := Some lan8842_info_get,
     mepa_driver_eee_mode_conf_set := Some lan8814_eee_mode_conf_set,
     mepa_driver_eee_mode_conf_get := Some (\<lambda>p _. lan8814_eee_mode_conf_get p),
     mepa_driver_eee_status_get := Some (\<lambda>p _. lan8814_eee_status_get p),
     mepa_driver_cable_diag_start := Some lan8814_cab_diag_start,
     mepa_driver_cable_diag_get := Some (\<lambda>p _. lan8814_cab_diag_get p),
     mepa_driver_loopback_set := Some lan8814_loopback_set,
     mepa_driver_loopback_get := Some (\<lambda>p _. lan8814_loopback_get p),
     mepa_driver_synce_clock_conf_set := Some lan8814_recovered_clk_set,
     mepa_driver_isolate_mode_conf := Some lan8814_isolate_mode_conf,
     mepa_driver_sqi_read := Some lan8814_sqi_read,
     mepa_driver_start_of_frame_conf_set := Some lan8842_start_of_frame_conf_set,
     mepa_driver_start_of_frame_conf_get := Some (\<lambda>p _. lan8814_start_of_frame_conf_get p),
     mepa_driver_framepreempt_set := Some lan8814_framepreempt_set,
     mepa_driver_framepreempt_get := Some lan8814_framepreempt_get,
     mepa_driver_selftest_start := Some lan8814_selftest_start,
     mepa_driver_selftest_read := Some lan8814_selftest_read,
     mepa_driver_prbs_set := Some lan8814_prbs_set,
     mepa_driver_prbs_get := Some (\<lambda>p a1 a2 _. lan8814_prbs_get p a1 a2),
     mepa_driver_prbs_monitor_set := Some lan8814_prbs_monitor_set,
     mepa_driver_prbs_monitor_get := Some lan8814_prbs_monitor_get,
     mepa_driver_serdes_tx_conf_set := Some lan8814_serdes_tx_conf_set\<rparr>"

definition lan8832_driver :: "nat \<Rightarrow> nat \<Rightarrow> ('h, phy_data) mepa_driver" where
  "lan8832_driver dev_size priv_size = null_driver\<lparr>
     drv_id := LAN8832_SKU,
     drv_mask := 0xffff,
     mepa_driver_delete := Some lan8814_delete,
     mepa_driver_reset := Some lan8814_reset,
     mepa_driver_poll := Some lan8814_poll,
     mepa_driver_conf_set := Some lan8814_conf_set,
     mepa_driver_conf_get := Some (\<lambda>p _. lan8814_conf_get p),
     mepa_driver_if_set := Some lan8842_if_set,
     mepa_driver_if_get := Some (\<lambda>p a1 _. lan8842_if_get p a1),
     mepa_driver_probe := Some (lan8814_probe dev_size priv_size),
     mepa_driver_aneg_status_get := Some (\<lambda>p _. lan8814_aneg_status_get p),
     mepa_driver_clause22_read := Some (\<lambda>p a1 _. lan8814_direct_reg_read p a1),
     mepa_driver_clause22_write := Some lan8814_direct_reg_write,
     mepa_driver_clause45_read := Some lan8814_ext_mmd_reg_read,
     mepa_driver_clause45_write := Some lan8814_ext_mmd_reg_write,
     mepa_driver_event_enable_get := Some (\<lambda>p _. lan8814_event_enable_get p),
     mepa_driver_event_enable_set := Some lan8814_event_enable_set,
     mepa_driver_event_poll := Some (\<lambda>p _. lan8814_event_status_poll p),
     mepa_driver_gpio_mode_set := Some lan8814_gpio_mode_set,
     mepa_driver_gpio_out_set := Some lan8814_gpio_out_set,
     mepa_driver_gpio_in_get := Some lan8814_gpio_in_get,
     mepa_driver_capability := Some lan8814_capability,
     mepa_driver_phy_info_get := Some lan8842_info_get,
     mepa_driver_eee_mode_conf_set := Some lan8814_eee_mode_conf_set,
     mepa_driver_eee_mode_conf_get := Some (\<lambda>p _. lan8814_eee_mode_conf_get p),
     mepa_driver_eee_status_get := Some (\<lambda>p _. lan8814_eee_status_get p),
     mepa_driver_cable_diag_start := Some lan8814_cab_diag_start,
     mepa_driver_cable_diag_get := Some (\<lambda>p _. lan8814_cab_diag_get p),
     mepa_driver_loopback_set := Some lan8814_loopback_set,
     mepa_driver_loopback_get := Some (\<lambda>p _. lan8814_loopback_get p),
     mepa_driver_synce_clock_conf_set := Some lan8814_recovered_clk_set,
     mepa_driver_isolate_mode_conf := Some lan8814_isolate_mode_conf,
     mepa_driver_sqi_read := Some lan8814_sqi_read,
     mepa_driver_start_of_frame_conf_set := Some lan8842_start_of_frame_conf_set,
     mepa_driver_start_of_frame_conf_get := Some (\<lambda>p _. lan8814_start_of_frame_conf_get p),
     mepa_driver_framepreempt_set := Some lan8814_framepreempt_set,
     mepa_driver_framepreempt_get := Some lan8814_framepreempt_get,
     mepa_driver_selftest_start := Some lan8814_selftest_start,
     mepa_driver_selftest_read := Some lan8814_selftest_read,
     mepa_driver_prbs_set := Some lan8814_prbs_set,
     mepa_driver_prbs_get := Some (\<lambda>p a1 a2 _. lan8814_prbs_get p a1 a2),
     mepa_driver_prbs_monitor_set := Some lan8814_prbs_monitor_set,
     mepa_driver_prbs_monitor_get := Some lan8814_prbs_monitor_get,
     mepa_driver_serdes_tx_conf_set := Some lan8814_serdes_tx_conf_set\<rparr>"

definition mepa_lan8814_driver_init :: "nat \<Rightarrow> nat \<Rightarrow> ('h, phy_data) mepa_driver list" where
  "mepa_lan8814_driver_init dev_size priv_size = [
     lan8814_driver dev_size priv_size, lan8804_driver dev_size priv_size,
     lan8814_int_phy_driver dev_size priv_size, lan8842_driver dev_size priv_size,
     lan8832_driver dev_size priv_size]"

end
