(* ===== verification/Mepa_Ts.thy ===== *)
theory Mepa_Ts
  imports Mepa_Driver
begin

text \<open>
  The timestamping functions of \<open>phy.c\<close>: they dispatch to the timestamping table of the driver,
  \<open>if (!dev || !dev->drv->mepa_ts) return r; if (!dev->drv->mepa_ts->f) return r;\<close>.
\<close>

definition ts_call :: "('h, 'd) phy_lib \<Rightarrow> nat option \<Rightarrow> (('h, 'd) mepa_ts_driver \<Rightarrow> 'f option) \<Rightarrow>
    'r \<Rightarrow> ('f \<Rightarrow> nat \<Rightarrow> ('h, 'd, 'r) mepa) \<Rightarrow> ('h, 'd, 'r) mepa" where
  "ts_call lib dev sel r k =
    drv_call lib dev (\<lambda>d. case mepa_ts d of None \<Rightarrow> None | Some t \<Rightarrow> sel t) r k"

definition mepa_ts_mode_set ::
  "('h, 'd) phy_lib \<Rightarrow> nat option \<Rightarrow> bool \<Rightarrow> ('h, 'd, mepa_rc) mepa" where
  "mepa_ts_mode_set lib dev a1 = ts_call lib dev ts_drv_mode_set MEPA_RC_NOT_IMPLEMENTED
     (\<lambda>f p. f p a1)"

definition mepa_ts_mode_get ::
  "('h, 'd) phy_lib \<Rightarrow> nat option \<Rightarrow> bool \<Rightarrow> ('h, 'd, mepa_rc \<times> bool) mepa" where
  "mepa_ts_mode_get lib dev out = ts_call lib dev ts_drv_mode_get (MEPA_RC_NOT_IMPLEMENTED, out)
     (\<lambda>f p. f p out)"

definition mepa_ts_reset ::
  "('h, 'd) phy_lib \<Rightarrow> nat option \<Rightarrow> mepa_ts_reset_conf \<Rightarrow> ('h, 'd, mepa_rc) mepa" where
  "mepa_ts_reset lib dev a1 = ts_call lib dev ts_drv_reset MEPA_RC_NOT_IMPLEMENTED
     (\<lambda>f p. f p a1)"

definition mepa_ts_init_conf_set ::
  "('h, 'd) phy_lib \<Rightarrow> nat option \<Rightarrow> mepa_ts_init_conf option \<Rightarrow> ('h, 'd, mepa_rc) mepa" where
  "mepa_ts_init_conf_set lib dev a1 = ts_call lib dev ts_drv_init_conf_set MEPA_RC_NOT_IMPLEMENTED
     (\<lambda>f p. f p a1)"

definition mepa_ts_init_conf_get ::
  "('h, 'd) phy_lib \<Rightarrow> nat option \<Rightarrow> mepa_ts_init_conf option \<Rightarrow> ('h, 'd, mepa_rc \<times> (mepa_ts_init_conf option)) mepa" where
  "mepa_ts_init_conf_get lib dev out = ts_call lib dev ts_drv_init_conf_get (MEPA_RC_NOT_IMPLEMENTED, out)
     (\<lambda>f p. f p out)"

definition mepa_ts_ltc_ls_en ::
  "('h, 'd) phy_lib \<Rightarrow> nat option \<Rightarrow> mepa_ts_ls_type \<Rightarrow> ('h, 'd, mepa_rc) mepa" where
  "mepa_ts_ltc_ls_en lib dev a1 = ts_call lib dev ts_drv_ltc_ls_en MEPA_RC_NOT_IMPLEMENTED
     (\<lambda>f p. f p a1)"

definition mepa_ts_ltc_get ::
  "('h, 'd) phy_lib \<Rightarrow> nat option \<Rightarrow> mepa_timestamp option \<Rightarrow> ('h, 'd, mepa_rc \<times> (mepa_timestamp option)) mepa" where
  "mepa_ts_ltc_get lib dev out = ts_call lib dev ts_drv_ltc_get (MEPA_RC_NOT_IMPLEMENTED, out)
     (\<lambda>f p. f p out)"

definition mepa_ts_ltc_set ::
  "('h, 'd) phy_lib \<Rightarrow> nat option \<Rightarrow> mepa_timestamp option \<Rightarrow> ('h, 'd, mepa_rc) mepa" where
  "mepa_ts_ltc_set lib dev a1 = ts_call lib dev ts_drv_ltc_set MEPA_RC_NOT_IMPLEMENTED
     (\<lambda>f p. f p a1)"

definition mepa_ts_delay_asymmetry_get ::
  "('h, 'd) phy_lib \<Rightarrow> nat option \<Rightarrow> mepa_timeinterval \<Rightarrow> ('h, 'd, mepa_rc \<times> mepa_timeinterval) mepa" where
  "mepa_ts_delay_asymmetry_get lib dev out = ts_call lib dev ts_drv_delay_asymmetry_get (MEPA_RC_NOT_IMPLEMENTED, out)
     (\<lambda>f p. f p out)"

definition mepa_ts_delay_asymmetry_set ::
  "('h, 'd) phy_lib \<Rightarrow> nat option \<Rightarrow> mepa_timeinterval \<Rightarrow> ('h, 'd, mepa_rc) mepa" where
  "mepa_ts_delay_asymmetry_set lib dev a1 = ts_call lib dev ts_drv_delay_asymmetry_set MEPA_RC_NOT_IMPLEMENTED
     (\<lambda>f p. f p a1)"

definition mepa_ts_path_delay_get ::
  "('h, 'd) phy_lib \<Rightarrow> nat option \<Rightarrow> mepa_timeinterval option \<Rightarrow> ('h, 'd, mepa_rc \<times> (mepa_timeinterval option)) mepa" where
  "mepa_ts_path_delay_get lib dev out = ts_call lib dev ts_drv_path_delay_get (MEPA_RC_NOT_IMPLEMENTED, out)
     (\<lambda>f p. f p out)"

definition mepa_ts_path_delay_set ::
  "('h, 'd) phy_lib \<Rightarrow> nat option \<Rightarrow> mepa_timeinterval option \<Rightarrow> ('h, 'd, mepa_rc) mepa" where
  "mepa_ts_path_delay_set lib dev a1 = ts_call lib dev ts_drv_path_delay_set MEPA_RC_NOT_IMPLEMENTED
     (\<lambda>f p. f p a1)"

definition mepa_ts_egress_latency_get ::
  "('h, 'd) phy_lib \<Rightarrow> nat option \<Rightarrow> mepa_timeinterval option \<Rightarrow> ('h, 'd, mepa_rc \<times> (mepa_timeinterval option)) mepa" where
  "mepa_ts_egress_latency_get lib dev out = ts_call lib dev ts_drv_egress_latency_get (MEPA_RC_NOT_IMPLEMENTED, out)
     (\<lambda>f p. f p out)"

definition mepa_ts_egress_latency_set ::
  "('h, 'd) phy_lib \<Rightarrow> nat option \<Rightarrow> mepa_timeinterval option \<Rightarrow> ('h, 'd, mepa_rc) mepa" where
  "mepa_ts_egress_latency_set lib dev a1 = ts_call lib dev ts_drv_egress_latency_set MEPA_RC_NOT_IMPLEMENTED
     (\<lambda>f p. f p a1)"

definition mepa_ts_ingress_latency_get ::
  "('h, 'd) phy_lib \<Rightarrow> nat option \<Rightarrow> mepa_timeinterval option \<Rightarrow> ('h, 'd, mepa_rc \<times> (mepa_timeinterval option)) mepa" where
  "mepa_ts_ingress_latency_get lib dev out = ts_call lib dev ts_drv_ingress_latency_get (MEPA_RC_NOT_IMPLEMENTED, out)
     (\<lambda>f p. f p out)"

definition mepa_ts_ingress_latency_set ::
  "('h, 'd) phy_lib \<Rightarrow> nat option \<Rightarrow> mepa_timeinterval option \<Rightarrow> ('h, 'd, mepa_rc) mepa" where
  "mepa_ts_ingress_latency_set lib dev a1 = ts_call lib dev ts_drv_ingress_latency_set MEPA_RC_NOT_IMPLEMENTED
     (\<lambda>f p. f p a1)"

definition mepa_ts_clock_rateadj_get ::
  "('h, 'd) phy_lib \<Rightarrow> nat option \<Rightarrow> mepa_ts_scaled_ppb option \<Rightarrow> ('h, 'd, mepa_rc \<times> (mepa_ts_scaled_ppb option)) mepa" where
  "mepa_ts_clock_rateadj_get lib dev out = ts_call lib dev ts_drv_clock_rateadj_get (MEPA_RC_NOT_IMPLEMENTED, out)
     (\<lambda>f p. f p out)"

definition mepa_ts_clock_rateadj_set ::
  "('h, 'd) phy_lib \<Rightarrow> nat option \<Rightarrow> mepa_ts_scaled_ppb option \<Rightarrow> ('h, 'd, mepa_rc) mepa" where
  "mepa_ts_clock_rateadj_set lib dev a1 = ts_call lib dev ts_drv_clock_rateadj_set MEPA_RC_NOT_IMPLEMENTED
     (\<lambda>f p. f p a1)"

definition mepa_ts_clock_adj1ns ::
  "('h, 'd) phy_lib \<Rightarrow> nat option \<Rightarrow> bool \<Rightarrow> ('h, 'd, mepa_rc) mepa" where
  "mepa_ts_clock_adj1ns lib dev a1 = ts_call lib dev ts_drv_clock_adj1ns MEPA_RC_NOT_IMPLEMENTED
     (\<lambda>f p. f p a1)"

definition mepa_ts_pps_conf_get ::
  "('h, 'd) phy_lib \<Rightarrow> nat option \<Rightarrow> mepa_ts_pps_conf \<Rightarrow> ('h, 'd, mepa_rc \<times> mepa_ts_pps_conf) mepa" where
  "mepa_ts_pps_conf_get lib dev out = ts_call lib dev ts_drv_pps_conf_get (MEPA_RC_NOT_IMPLEMENTED, out)
     (\<lambda>f p. f p out)"

definition mepa_ts_pps_conf_set ::
  "('h, 'd) phy_lib \<Rightarrow> nat option \<Rightarrow> mepa_ts_pps_conf \<Rightarrow> ('h, 'd, mepa_rc) mepa" where
  "mepa_ts_pps_conf_set lib dev a1 = ts_call lib dev ts_drv_pps_conf_set MEPA_RC_NOT_IMPLEMENTED
     (\<lambda>f p. f p a1)"

definition mepa_ts_rx_classifier_conf_get ::
  "('h, 'd) phy_lib \<Rightarrow> nat option \<Rightarrow> 16 word \<Rightarrow> mepa_ts_classifier option \<Rightarrow> ('h, 'd, mepa_rc \<times> (mepa_ts_classifier option)) mepa" where
  "mepa_ts_rx_classifier_conf_get lib dev a1 out = ts_call lib dev ts_drv_rx_classifier_conf_get (MEPA_RC_NOT_IMPLEMENTED, out)
     (\<lambda>f p. f p a1 out)"

definition mepa_ts_tx_classifier_conf_get ::
  "('h, 'd) phy_lib \<Rightarrow> nat option \<Rightarrow> 16 word \<Rightarrow> mepa_ts_classifier option \<Rightarrow> ('h, 'd, mepa_rc \<times> (mepa_ts_classifier option)) mepa" where
  "mepa_ts_tx_classifier_conf_get lib dev a1 out = ts_call lib dev ts_drv_tx_classifier_conf_get (MEPA_RC_NOT_IMPLEMENTED, out)
     (\<lambda>f p. f p a1 out)"

definition mepa_ts_rx_classifier_conf_set ::
  "('h, 'd) phy_lib \<Rightarrow> nat option \<Rightarrow> 16 word \<Rightarrow> mepa_ts_classifier option \<Rightarrow> ('h, 'd, mepa_rc) mepa" where
  "mepa_ts_rx_classifier_conf_set lib dev a1 a2 = ts_call lib dev ts_drv_rx_classifier_conf_set MEPA_RC_NOT_IMPLEMENTED
     (\<lambda>f p. f p a1 a2)"

definition mepa_ts_tx_classifier_conf_set ::
  "('h, 'd) phy_lib \<Rightarrow> nat option \<Rightarrow> 16 word \<Rightarrow> mepa_ts_classifier option \<Rightarrow> ('h, 'd, mepa_rc) mepa" where
  "mepa_ts_tx_classifier_conf_set lib dev a1 a2 = ts_call lib dev ts_drv_tx_classifier_conf_set MEPA_RC_NOT_IMPLEMENTED
     (\<lambda>f p. f p a1 a2)"

definition mepa_ts_rx_clock_conf_get ::
  "('h, 'd) phy_lib \<Rightarrow> nat option \<Rightarrow> 16 word \<Rightarrow> mepa_ts_ptp_clock_conf option \<Rightarrow> ('h, 'd, mepa_rc \<times> (mepa_ts_ptp_clock_conf option)) mepa" where
  "mepa_ts_rx_clock_conf_get lib dev a1 out = ts_call lib dev ts_drv_rx_clock_conf_get (MEPA_RC_NOT_IMPLEMENTED, out)
     (\<lambda>f p. f p a1 out)"

definition mepa_ts_tx_clock_conf_get ::
  "('h, 'd) phy_lib \<Rightarrow> nat option \<Rightarrow> 16 word \<Rightarrow> mepa_ts_ptp_clock_conf option \<Rightarrow> ('h, 'd, mepa_rc \<times> (mepa_ts_ptp_clock_conf option)) mepa" where
  "mepa_ts_tx_clock_conf_get lib dev a1 out = ts_call lib dev ts_drv_tx_clock_conf_get (MEPA_RC_NOT_IMPLEMENTED, out)
     (\<lambda>f p. f p a1 out)"

definition mepa_ts_rx_clock_conf_set ::
  "('h, 'd) phy_lib \<Rightarrow> nat option \<Rightarrow> 16 word \<Rightarrow> mepa_ts_ptp_clock_conf \<Rightarrow> ('h, 'd, mepa_rc) mepa" where
  "mepa_ts_rx_clock_conf_set lib dev a1 a2 = ts_call lib dev ts_drv_rx_clock_conf_set MEPA_RC_NOT_IMPLEMENTED
     (\<lambda>f p. f p a1 a2)"

definition mepa_ts_tx_clock_conf_set ::
  "('h, 'd) phy_lib \<Rightarrow> nat option \<Rightarrow> 16 word \<Rightarrow> mepa_ts_ptp_clock_conf \<Rightarrow> ('h, 'd, mepa_rc) mepa" where
  "mepa_ts_tx_clock_conf_set lib dev a1 a2 = ts_call lib dev ts_drv_tx_clock_conf_set MEPA_RC_NOT_IMPLEMENTED
     (\<lambda>f p. f p a1 a2)"

definition mepa_ts_stats_get ::
  "('h, 'd) phy_lib \<Rightarrow> nat option \<Rightarrow> mepa_ts_stats option \<Rightarrow> ('h, 'd, mepa_rc \<times> (mepa_ts_stats option)) mepa" where
  "mepa_ts_stats_get lib dev out = ts_call lib dev ts_drv_stats_get (MEPA_RC_NOT_IMPLEMENTED, out)
     (\<lambda>f p. f p out)"

definition mepa_ts_event_set ::
  "('h, 'd) phy_lib \<Rightarrow> nat option \<Rightarrow> bool \<Rightarrow> mepa_ts_event \<Rightarrow> ('h, 'd, mepa_rc) mepa" where
  "mepa_ts_event_set lib dev a1 a2 = ts_call lib dev ts_drv_event_set MEPA_RC_NOT_IMPLEMENTED
     (\<lambda>f p. f p a1 a2)"

definition mepa_ts_event_get ::
  "('h, 'd) phy_lib \<Rightarrow> nat option \<Rightarrow> mepa_ts_event option \<Rightarrow> ('h, 'd, mepa_rc \<times> (mepa_ts_event option)) mepa" where
  "mepa_ts_event_get lib dev out = ts_call lib dev ts_drv_event_get (MEPA_RC_NOT_IMPLEMENTED, out)
     (\<lambda>f p. f p out)"

definition mepa_ts_event_poll ::
  "('h, 'd) phy_lib \<Rightarrow> nat option \<Rightarrow> mepa_ts_event option \<Rightarrow> ('h, 'd, mepa_rc \<times> (mepa_ts_event option)) mepa" where
  "mepa_ts_event_poll lib dev out = ts_call lib dev ts_drv_event_poll (MEPA_RC_NOT_IMPLEMENTED, out)
     (\<lambda>f p. f p out)"

definition mepa_ts_fifo_read_install ::
  "('h, 'd) phy_lib \<Rightarrow> nat option \<Rightarrow> nat option \<Rightarrow> ('h, 'd, mepa_rc) mepa" where
  "mepa_ts_fifo_read_install lib dev a1 = ts_call lib dev ts_drv_fifo_read_install MEPA_RC_NOT_IMPLEMENTED
     (\<lambda>f p. do { f p a1; State_Monad.return MEPA_RC_OK })"

definition mepa_ts_fifo_empty ::
  "('h, 'd) phy_lib \<Rightarrow> nat option \<Rightarrow> nat \<Rightarrow> ('h, 'd, mepa_rc option) mepa" where
  "mepa_ts_fifo_empty lib dev a1 = ts_call lib dev ts_drv_fifo_empty (Some MEPA_RC_NOT_IMPLEMENTED)
     (\<lambda>f p. f p a1)"

definition mepa_ts_fifo_get ::
  "('h, 'd) phy_lib \<Rightarrow> nat option \<Rightarrow> nat \<Rightarrow> (mepa_fifo_ts_entry list \<times> 32 word) \<Rightarrow> ('h, 'd, mepa_rc \<times> (mepa_fifo_ts_entry list \<times> 32 word)) mepa" where
  "mepa_ts_fifo_get lib dev a1 out = ts_call lib dev ts_drv_fifo_get (MEPA_RC_NOT_IMPLEMENTED, out)
     (\<lambda>f p. f p a1 out)"

definition mepa_ts_fifo_signature_set ::
  "('h, 'd) phy_lib \<Rightarrow> nat option \<Rightarrow> 32 word \<Rightarrow> ('h, 'd, mepa_rc) mepa" where
  "mepa_ts_fifo_signature_set lib dev a1 = ts_call lib dev ts_drv_fifo_signature_set MEPA_RC_NOT_IMPLEMENTED
     (\<lambda>f p. f p a1)"

definition mepa_ts_fifo_signature_get ::
  "('h, 'd) phy_lib \<Rightarrow> nat option \<Rightarrow> 32 word \<Rightarrow> ('h, 'd, mepa_rc \<times> 32 word) mepa" where
  "mepa_ts_fifo_signature_get lib dev out = ts_call lib dev ts_drv_fifo_signature_get (MEPA_RC_NOT_IMPLEMENTED, out)
     (\<lambda>f p. f p out)"

definition mepa_ts_test_config ::
  "('h, 'd) phy_lib \<Rightarrow> nat option \<Rightarrow> 16 word \<Rightarrow> bool \<Rightarrow> ('h, 'd, mepa_rc) mepa" where
  "mepa_ts_test_config lib dev a1 a2 = ts_call lib dev ts_drv_test_config MEPA_RC_NOT_IMPLEMENTED
     (\<lambda>f p. f p a1 a2)"

definition mepa_ts_pch_mch_error_info_get ::
  "('h, 'd) phy_lib \<Rightarrow> nat option \<Rightarrow> mepa_pch_mch_mismatch_info \<Rightarrow> ('h, 'd, mepa_rc \<times> mepa_pch_mch_mismatch_info) mepa" where
  "mepa_ts_pch_mch_error_info_get lib dev out = ts_call lib dev ts_drv_pch_mch_error_info_get (MEPA_RC_NOT_IMPLEMENTED, out)
     (\<lambda>f p. f p out)"

definition mepa_ts_csr_reg_read ::
  "('h, 'd) phy_lib \<Rightarrow> nat option \<Rightarrow> 16 word \<Rightarrow> 16 word \<Rightarrow> 32 word \<Rightarrow> ('h, 'd, mepa_rc \<times> 32 word) mepa" where
  "mepa_ts_csr_reg_read lib dev a1 a2 out = ts_call lib dev ts_drv_csr_reg_read (MEPA_RC_NOT_IMPLEMENTED, out)
     (\<lambda>f p. f p a1 a2 out)"

definition mepa_ts_csr_reg_write ::
  "('h, 'd) phy_lib \<Rightarrow> nat option \<Rightarrow> 16 word \<Rightarrow> 16 word \<Rightarrow> 32 word \<Rightarrow> ('h, 'd, mepa_rc) mepa" where
  "mepa_ts_csr_reg_write lib dev a1 a2 a3 = ts_call lib dev ts_drv_csr_reg_write MEPA_RC_NOT_IMPLEMENTED
     (\<lambda>f p. f p a1 a2 a3)"

end
