(* ===== verification/Mepa_T1.thy ===== *)
theory Mepa_T1
  imports Mepa_Driver
begin

text \<open>
  The TC10 and T1S functions of \<open>phy.c\<close>: they dispatch to the sub-tables of the driver,
  \<open>if (!dev || !dev->drv->mepa_tc10) return r; if (!dev->drv->mepa_tc10->f) return r;\<close>.
\<close>

section \<open>TC10\<close>

definition tc10_call :: "('h, 'd) phy_lib \<Rightarrow> nat option \<Rightarrow> (('h, 'd) mepa_tc10_driver \<Rightarrow> 'f option) \<Rightarrow>
    'r \<Rightarrow> ('f \<Rightarrow> nat \<Rightarrow> ('h, 'd, 'r) mepa) \<Rightarrow> ('h, 'd, 'r) mepa" where
  "tc10_call lib dev sel r k =
    drv_call lib dev (\<lambda>d. case mepa_tc10 d of None \<Rightarrow> None | Some t \<Rightarrow> sel t) r k"

definition mepa_tc10_set_sleep_support ::
  "('h, 'd) phy_lib \<Rightarrow> nat option \<Rightarrow> bool \<Rightarrow> ('h, 'd, mepa_rc) mepa" where
  "mepa_tc10_set_sleep_support lib dev a1 = tc10_call lib dev tc10_drv_set_sleep_support MEPA_RC_NOT_IMPLEMENTED
     (\<lambda>f p. f p a1)"

definition mepa_tc10_get_sleep_support ::
  "('h, 'd) phy_lib \<Rightarrow> nat option \<Rightarrow> bool \<Rightarrow> ('h, 'd, mepa_rc \<times> bool) mepa" where
  "mepa_tc10_get_sleep_support lib dev out = tc10_call lib dev tc10_drv_get_sleep_support (MEPA_RC_NOT_IMPLEMENTED, out)
     (\<lambda>f p. f p out)"

definition mepa_tc10_set_wakeup_support ::
  "('h, 'd) phy_lib \<Rightarrow> nat option \<Rightarrow> mepa_tc10_wakeup_mode \<Rightarrow> ('h, 'd, mepa_rc) mepa" where
  "mepa_tc10_set_wakeup_support lib dev a1 = tc10_call lib dev tc10_drv_set_wakeup_support MEPA_RC_NOT_IMPLEMENTED
     (\<lambda>f p. f p a1)"

definition mepa_tc10_get_wakeup_support ::
  "('h, 'd) phy_lib \<Rightarrow> nat option \<Rightarrow> mepa_tc10_wakeup_mode \<Rightarrow> ('h, 'd, mepa_rc \<times> mepa_tc10_wakeup_mode) mepa" where
  "mepa_tc10_get_wakeup_support lib dev out = tc10_call lib dev tc10_drv_get_wakeup_support (MEPA_RC_NOT_IMPLEMENTED, out)
     (\<lambda>f p. f p out)"

definition mepa_tc10_set_wakeup_fwd_support ::
  "('h, 'd) phy_lib \<Rightarrow> nat option \<Rightarrow> mepa_tc10_wakeup_fwd_mode \<Rightarrow> ('h, 'd, mepa_rc) mepa" where
  "mepa_tc10_set_wakeup_fwd_support lib dev a1 = tc10_call lib dev tc10_drv_set_wakeup_fwd_support MEPA_RC_NOT_IMPLEMENTED
     (\<lambda>f p. f p a1)"

definition mepa_tc10_get_wakeup_fwd_support ::
  "('h, 'd) phy_lib \<Rightarrow> nat option \<Rightarrow> mepa_tc10_wakeup_fwd_mode \<Rightarrow> ('h, 'd, mepa_rc \<times> mepa_tc10_wakeup_fwd_mode) mepa" where
  "mepa_tc10_get_wakeup_fwd_support lib dev out = tc10_call lib dev tc10_drv_get_wakeup_fwd_support (MEPA_RC_NOT_IMPLEMENTED, out)
     (\<lambda>f p. f p out)"

definition mepa_tc10_set_wake_pin_polarity ::
  "('h, 'd) phy_lib \<Rightarrow> nat option \<Rightarrow> mepa_tc10_pin \<Rightarrow> mepa_gpio_mode \<Rightarrow> ('h, 'd, mepa_rc) mepa" where
  "mepa_tc10_set_wake_pin_polarity lib dev a1 a2 = tc10_call lib dev tc10_drv_set_wake_pin_polarity MEPA_RC_NOT_IMPLEMENTED
     (\<lambda>f p. f p a1 a2)"

definition mepa_tc10_get_wake_pin_polarity ::
  "('h, 'd) phy_lib \<Rightarrow> nat option \<Rightarrow> mepa_tc10_pin \<Rightarrow> mepa_gpio_mode \<Rightarrow> ('h, 'd, mepa_rc \<times> mepa_gpio_mode) mepa" where
  "mepa_tc10_get_wake_pin_polarity lib dev a1 out = tc10_call lib dev tc10_drv_get_wake_pin_polarity (MEPA_RC_NOT_IMPLEMENTED, out)
     (\<lambda>f p. f p a1 out)"

definition mepa_tc10_set_pin_mode ::
  "('h, 'd) phy_lib \<Rightarrow> nat option \<Rightarrow> mepa_tc10_pin \<Rightarrow> mepa_gpio_mode \<Rightarrow> ('h, 'd, mepa_rc) mepa" where
  "mepa_tc10_set_pin_mode lib dev a1 a2 = tc10_call lib dev tc10_drv_set_pin_mode MEPA_RC_NOT_IMPLEMENTED
     (\<lambda>f p. f p a1 a2)"

definition mepa_tc10_get_pin_mode ::
  "('h, 'd) phy_lib \<Rightarrow> nat option \<Rightarrow> mepa_tc10_pin \<Rightarrow> mepa_gpio_mode \<Rightarrow> ('h, 'd, mepa_rc \<times> mepa_gpio_mode) mepa" where
  "mepa_tc10_get_pin_mode lib dev a1 out = tc10_call lib dev tc10_drv_get_pin_mode (MEPA_RC_NOT_IMPLEMENTED, out)
     (\<lambda>f p. f p a1 out)"

definition mepa_tc10_send_sleep_request ::
  "('h, 'd) phy_lib \<Rightarrow> nat option \<Rightarrow> mepa_tc10_sleep_request \<Rightarrow> ('h, 'd, mepa_rc) mepa" where
  "mepa_tc10_send_sleep_request lib dev a1 = tc10_call lib dev tc10_drv_send_sleep_request MEPA_RC_NOT_IMPLEMENTED
     (\<lambda>f p. f p a1)"

definition mepa_tc10_get_state ::
  "('h, 'd) phy_lib \<Rightarrow> nat option \<Rightarrow> (mepa_tc10_state \<times> 16 word) \<Rightarrow> ('h, 'd, mepa_rc \<times> (mepa_tc10_state \<times> 16 word)) mepa" where
  "mepa_tc10_get_state lib dev out = tc10_call lib dev tc10_drv_get_state (MEPA_RC_NOT_IMPLEMENTED, out)
     (\<lambda>f p. f p out)"

definition mepa_tc10_send_wake_request ::
  "('h, 'd) phy_lib \<Rightarrow> nat option \<Rightarrow> ('h, 'd, mepa_rc) mepa" where
  "mepa_tc10_send_wake_request lib dev = tc10_call lib dev tc10_drv_send_wake_request MEPA_RC_NOT_IMPLEMENTED
     (\<lambda>f p. f p)"

section \<open>T1S\<close>

definition t1s_call :: "('h, 'd) phy_lib \<Rightarrow> nat option \<Rightarrow> (('h, 'd) mepa_t1s_driver \<Rightarrow> 'f option) \<Rightarrow>
    'r \<Rightarrow> ('f \<Rightarrow> nat \<Rightarrow> ('h, 'd, 'r) mepa) \<Rightarrow> ('h, 'd, 'r) mepa" where
  "t1s_call lib dev sel r k =
    drv_call lib dev (\<lambda>d. case mepa_t1s d of None \<Rightarrow> None | Some t \<Rightarrow> sel t) r k"

definition mepa_t1s_set_plca_config ::
  "('h, 'd) phy_lib \<Rightarrow> nat option \<Rightarrow> mepa_t1s_plca_cfg \<Rightarrow> ('h, 'd, mepa_rc) mepa" where
  "mepa_t1s_set_plca_config lib dev a1 = t1s_call lib dev t1s_drv_set_plca_config MEPA_RC_NOT_IMPLEMENTED
     (\<lambda>f p. f p a1)"

definition mepa_t1s_get_plca_config ::
  "('h, 'd) phy_lib \<Rightarrow> nat option \<Rightarrow> mepa_t1s_plca_cfg \<Rightarrow> ('h, 'd, mepa_rc \<times> mepa_t1s_plca_cfg) mepa" where
  "mepa_t1s_get_plca_config lib dev out = t1s_call lib dev t1s_drv_get_plca_config (MEPA_RC_NOT_IMPLEMENTED, out)
     (\<lambda>f p. f p out)"

section \<open>Steps\<close>

text \<open>One call of any of these functions, with any arguments.\<close>

inductive mepa_t1_step :: "('h, 'd) phy_lib \<Rightarrow> ('h, 'd) world \<Rightarrow> ('h, 'd) world \<Rightarrow> bool"
  for lib :: "('h, 'd) phy_lib" where
  step_tc10_set_sleep_support: "mepa_t1_step lib w (exec (mepa_tc10_set_sleep_support lib dev a1) w)"
| step_tc10_get_sleep_support: "mepa_t1_step lib w (exec (mepa_tc10_get_sleep_support lib dev out) w)"
| step_tc10_set_wakeup_support: "mepa_t1_step lib w (exec (mepa_tc10_set_wakeup_support lib dev a1) w)"
| step_tc10_get_wakeup_support: "mepa_t1_step lib w (exec (mepa_tc10_get_wakeup_support lib dev out) w)"
| step_tc10_set_wakeup_fwd_support: "mepa_t1_step lib w (exec (mepa_tc10_set_wakeup_fwd_support lib dev a1) w)"
| step_tc10_get_wakeup_fwd_support: "mepa_t1_step lib w (exec (mepa_tc10_get_wakeup_fwd_support lib dev out) w)"
| step_tc10_set_wake_pin_polarity: "mepa_t1_step lib w (exec (mepa_tc10_set_wake_pin_polarity lib dev a1 a2) w)"
| step_tc10_get_wake_pin_polarity: "mepa_t1_step lib w (exec (mepa_tc10_get_wake_pin_polarity lib dev a1 out) w)"
| step_tc10_set_pin_mode: "mepa_t1_step lib w (exec (mepa_tc10_set_pin_mode lib dev a1 a2) w)"
| step_tc10_get_pin_mode: "mepa_t1_step lib w (exec (mepa_tc10_get_pin_mode lib dev a1 out) w)"
| step_tc10_send_sleep_request: "mepa_t1_step lib w (exec (mepa_tc10_send_sleep_request lib dev a1) w)"
| step_tc10_get_state: "mepa_t1_step lib w (exec (mepa_tc10_get_state lib dev out) w)"
| step_tc10_send_wake_request: "mepa_t1_step lib w (exec (mepa_tc10_send_wake_request lib dev) w)"
| step_t1s_set_plca_config: "mepa_t1_step lib w (exec (mepa_t1s_set_plca_config lib dev a1) w)"
| step_t1s_get_plca_config: "mepa_t1_step lib w (exec (mepa_t1s_get_plca_config lib dev out) w)"

inductive_cases mepa_t1_stepE: "mepa_t1_step lib w w'"

end
