(* ===== verification/Mepa_Steps.thy ===== *)
theory Mepa_Steps
  imports Mepa_Ts Mepa_T1
begin

text \<open>
  Histories of API calls: any sequence of calls, on any devices, with any arguments and any
  answers of the hardware.  \<open>mepa_step\<close> has one rule per function of the API that \<open>phy.c\<close> dispatches,
  except \<open>mepa_create\<close> and \<open>mepa_delete\<close>, which change the set of devices, the debug dump, and
  \<open>mepa_eee_status_get\<close>, which takes no lock on a LAN8814 and is added to the histories of \<open>Mepa_Api\<close>; a base
  device is not NULL.  The timestamping functions are the steps of \<open>mepa_ts_step\<close>; those of TC10 and T1S are the steps of
  \<open>mepa_t1_step\<close>.  The locale \<open>driver_table\<close> reduces a property of a dispatched call to one of
  the drivers.
\<close>

section \<open>Steps\<close>

inductive mepa_step :: "('h, 'd) phy_lib \<Rightarrow> ('h, 'd) world \<Rightarrow> ('h, 'd) world \<Rightarrow> bool"
  for lib :: "('h, 'd) phy_lib" where
  step_reset: "mepa_step lib w (exec (mepa_reset lib dev a1) w)"
| step_poll: "mepa_step lib w (exec (mepa_poll lib dev out) w)"
| step_conf_set: "mepa_step lib w (exec (mepa_conf_set lib dev a1) w)"
| step_conf_get: "mepa_step lib w (exec (mepa_conf_get lib dev out) w)"
| step_if_set: "mepa_step lib w (exec (mepa_if_set lib dev a1) w)"
| step_if_get: "mepa_step lib w (exec (mepa_if_get lib dev a1 out) w)"
| step_power_set: "mepa_step lib w (exec (mepa_power_set lib dev a1) w)"
| step_cable_diag_start: "mepa_step lib w (exec (mepa_cable_diag_start lib dev a1) w)"
| step_cable_diag_get: "mepa_step lib w (exec (mepa_cable_diag_get lib dev out) w)"
| step_media_set: "mepa_step lib w (exec (mepa_media_set lib dev a1) w)"
| step_media_get: "mepa_step lib w (exec (mepa_media_get lib dev out) w)"
| step_aneg_status_get: "mepa_step lib w (exec (mepa_aneg_status_get lib dev out) w)"
| step_clause22_read: "mepa_step lib w (exec (mepa_clause22_read lib dev a1 out) w)"
| step_clause22_write: "mepa_step lib w (exec (mepa_clause22_write lib dev a1 a2) w)"
| step_clause45_read: "mepa_step lib w (exec (mepa_clause45_read lib dev a1 out) w)"
| step_clause45_write: "mepa_step lib w (exec (mepa_clause45_write lib dev a1 a2) w)"
| step_event_enable_set: "mepa_step lib w (exec (mepa_event_enable_set lib dev a1 a2) w)"
| step_event_enable_get: "mepa_step lib w (exec (mepa_event_enable_get lib dev out) w)"
| step_event_poll: "mepa_step lib w (exec (mepa_event_poll lib dev out) w)"
| step_loopback_set: "mepa_step lib w (exec (mepa_loopback_set lib dev a1) w)"
| step_loopback_get: "mepa_step lib w (exec (mepa_loopback_get lib dev out) w)"
| step_gpio_mode_set: "mepa_step lib w (exec (mepa_gpio_mode_set lib dev a1) w)"
| step_gpio_out_set: "mepa_step lib w (exec (mepa_gpio_out_set lib dev a1 a2) w)"
| step_gpio_in_get: "mepa_step lib w (exec (mepa_gpio_in_get lib dev a1 out) w)"
| step_synce_clock_conf_set: "mepa_step lib w (exec (mepa_synce_clock_conf_set lib dev a1) w)"
| step_isolate_mode_conf: "mepa_step lib w (exec (mepa_isolate_mode_conf lib dev a1) w)"
| step_chip_temp_get: "mepa_step lib w (exec (mepa_chip_temp_get lib dev out) w)"
| step_eee_mode_conf_set: "mepa_step lib w (exec (mepa_eee_mode_conf_set lib dev a1) w)"
| step_eee_mode_conf_get: "mepa_step lib w (exec (mepa_eee_mode_conf_get lib dev out) w)"
| step_i2c_read: "mepa_step lib w (exec (mepa_i2c_read lib dev a1 a2 a3 a4 a5 out) w)"
| step_i2c_write: "mepa_step lib w (exec (mepa_i2c_write lib dev a1 a2 a3 a4 a5 a6) w)"
| step_fefi_get: "mepa_step lib w (exec (mepa_fefi_get lib dev out) w)"
| step_fefi_detect: "mepa_step lib w (exec (mepa_fefi_detect lib dev out) w)"
| step_sqi_read: "mepa_step lib w (exec (mepa_sqi_read lib dev out) w)"
| step_start_of_frame_conf_set: "mepa_step lib w (exec (mepa_start_of_frame_conf_set lib dev a1) w)"
| step_start_of_frame_conf_get: "mepa_step lib w (exec (mepa_start_of_frame_conf_get lib dev out) w)"
| step_framepreempt_set: "mepa_step lib w (exec (mepa_framepreempt_set lib dev a1) w)"
| step_framepreempt_get: "mepa_step lib w (exec (mepa_framepreempt_get lib dev out) w)"
| step_selftest_start: "mepa_step lib w (exec (mepa_selftest_start lib dev a1) w)"
| step_selftest_read: "mepa_step lib w (exec (mepa_selftest_read lib dev out) w)"
| step_prbs_set: "mepa_step lib w (exec (mepa_prbs_set lib dev a1 a2 a3) w)"
| step_prbs_get: "mepa_step lib w (exec (mepa_prbs_get lib dev a1 a2 out) w)"
| step_prbs_monitor_set: "mepa_step lib w (exec (mepa_prbs_monitor_set lib dev a1) w)"
| step_prbs_monitor_get: "mepa_step lib w (exec (mepa_prbs_monitor_get lib dev out) w)"
| step_warmstart_conf_get: "mepa_step lib w (exec (mepa_warmstart_conf_get lib dev out) w)"
| step_warmstart_conf_end: "mepa_step lib w (exec (mepa_warmstart_conf_end lib dev) w)"
| step_warmstart_conf_set: "mepa_step lib w (exec (mepa_warmstart_conf_set lib dev a1) w)"
| step_serdes_tx_conf_set: "mepa_step lib w (exec (mepa_serdes_tx_conf_set lib dev a1) w)"
| step_phy_qsgmii_sync: "mepa_step lib w (exec (mepa_phy_qsgmii_sync lib dev) w)"
| step_link_base_port: "mepa_step lib w (exec (mepa_link_base_port lib dev (Some a1) a2) w)"
| step_phy_info_get: "mepa_step lib w (exec (mepa_phy_info_get lib dev out) w)"
| step_capability: "mepa_step lib w (exec (mepa_capability lib dev a1) w)"
| step_i2c_clock_select: "mepa_step lib w (exec (mepa_i2c_clock_select lib dev a1) w)"
| step_fefi_set: "mepa_step lib w (exec (mepa_fefi_set lib dev a1) w)"

inductive_cases mepa_stepE: "mepa_step lib w w'"

text \<open>
  The timestamping functions, first those that every state of a port allows once it is linked; then all of
  them.  The initialisation depends on the frequency it is given, and \<open>mepa_ts_fifo_empty\<close> on the
  callback; it is a step when it returns, that is when the hardware stops delivering timestamps.
\<close>

inductive mepa_ts_plain_step :: "('h, 'd) phy_lib \<Rightarrow> ('h, 'd) world \<Rightarrow> ('h, 'd) world \<Rightarrow> bool"
  for lib :: "('h, 'd) phy_lib" where
  step_ts_mode_set: "mepa_ts_plain_step lib w (exec (mepa_ts_mode_set lib dev a1) w)"
| step_ts_mode_get: "mepa_ts_plain_step lib w (exec (mepa_ts_mode_get lib dev out) w)"
| step_ts_reset: "mepa_ts_plain_step lib w (exec (mepa_ts_reset lib dev a1) w)"
| step_ts_init_conf_get: "mepa_ts_plain_step lib w (exec (mepa_ts_init_conf_get lib dev out) w)"
| step_ts_ltc_ls_en: "mepa_ts_plain_step lib w (exec (mepa_ts_ltc_ls_en lib dev a1) w)"
| step_ts_ltc_get: "mepa_ts_plain_step lib w (exec (mepa_ts_ltc_get lib dev out) w)"
| step_ts_ltc_set: "mepa_ts_plain_step lib w (exec (mepa_ts_ltc_set lib dev a1) w)"
| step_ts_delay_asymmetry_get: "mepa_ts_plain_step lib w (exec (mepa_ts_delay_asymmetry_get lib dev out) w)"
| step_ts_delay_asymmetry_set: "mepa_ts_plain_step lib w (exec (mepa_ts_delay_asymmetry_set lib dev a1) w)"
| step_ts_path_delay_get: "mepa_ts_plain_step lib w (exec (mepa_ts_path_delay_get lib dev out) w)"
| step_ts_path_delay_set: "mepa_ts_plain_step lib w (exec (mepa_ts_path_delay_set lib dev a1) w)"
| step_ts_egress_latency_get: "mepa_ts_plain_step lib w (exec (mepa_ts_egress_latency_get lib dev out) w)"
| step_ts_egress_latency_set: "mepa_ts_plain_step lib w (exec (mepa_ts_egress_latency_set lib dev a1) w)"
| step_ts_ingress_latency_get: "mepa_ts_plain_step lib w (exec (mepa_ts_ingress_latency_get lib dev out) w)"
| step_ts_ingress_latency_set: "mepa_ts_plain_step lib w (exec (mepa_ts_ingress_latency_set lib dev a1) w)"
| step_ts_clock_rateadj_get: "mepa_ts_plain_step lib w (exec (mepa_ts_clock_rateadj_get lib dev out) w)"
| step_ts_clock_rateadj_set: "mepa_ts_plain_step lib w (exec (mepa_ts_clock_rateadj_set lib dev a1) w)"
| step_ts_clock_adj1ns: "mepa_ts_plain_step lib w (exec (mepa_ts_clock_adj1ns lib dev a1) w)"
| step_ts_pps_conf_get: "mepa_ts_plain_step lib w (exec (mepa_ts_pps_conf_get lib dev out) w)"
| step_ts_pps_conf_set: "mepa_ts_plain_step lib w (exec (mepa_ts_pps_conf_set lib dev a1) w)"
| step_ts_rx_classifier_conf_get: "mepa_ts_plain_step lib w (exec (mepa_ts_rx_classifier_conf_get lib dev a1 out) w)"
| step_ts_tx_classifier_conf_get: "mepa_ts_plain_step lib w (exec (mepa_ts_tx_classifier_conf_get lib dev a1 out) w)"
| step_ts_rx_classifier_conf_set: "mepa_ts_plain_step lib w (exec (mepa_ts_rx_classifier_conf_set lib dev a1 a2) w)"
| step_ts_tx_classifier_conf_set: "mepa_ts_plain_step lib w (exec (mepa_ts_tx_classifier_conf_set lib dev a1 a2) w)"
| step_ts_rx_clock_conf_get: "mepa_ts_plain_step lib w (exec (mepa_ts_rx_clock_conf_get lib dev a1 out) w)"
| step_ts_tx_clock_conf_get: "mepa_ts_plain_step lib w (exec (mepa_ts_tx_clock_conf_get lib dev a1 out) w)"
| step_ts_rx_clock_conf_set: "mepa_ts_plain_step lib w (exec (mepa_ts_rx_clock_conf_set lib dev a1 a2) w)"
| step_ts_tx_clock_conf_set: "mepa_ts_plain_step lib w (exec (mepa_ts_tx_clock_conf_set lib dev a1 a2) w)"
| step_ts_stats_get: "mepa_ts_plain_step lib w (exec (mepa_ts_stats_get lib dev out) w)"
| step_ts_event_set: "mepa_ts_plain_step lib w (exec (mepa_ts_event_set lib dev a1 a2) w)"
| step_ts_event_get: "mepa_ts_plain_step lib w (exec (mepa_ts_event_get lib dev out) w)"
| step_ts_event_poll: "mepa_ts_plain_step lib w (exec (mepa_ts_event_poll lib dev out) w)"
| step_ts_fifo_read_install: "mepa_ts_plain_step lib w (exec (mepa_ts_fifo_read_install lib dev a1) w)"
| step_ts_fifo_get: "mepa_ts_plain_step lib w (exec (mepa_ts_fifo_get lib dev a1 out) w)"
| step_ts_fifo_signature_set: "mepa_ts_plain_step lib w (exec (mepa_ts_fifo_signature_set lib dev a1) w)"
| step_ts_fifo_signature_get: "mepa_ts_plain_step lib w (exec (mepa_ts_fifo_signature_get lib dev out) w)"
| step_ts_test_config: "mepa_ts_plain_step lib w (exec (mepa_ts_test_config lib dev a1 a2) w)"
| step_ts_pch_mch_error_info_get: "mepa_ts_plain_step lib w (exec (mepa_ts_pch_mch_error_info_get lib dev out) w)"
| step_ts_csr_reg_read: "mepa_ts_plain_step lib w (exec (mepa_ts_csr_reg_read lib dev a1 a2 out) w)"
| step_ts_csr_reg_write: "mepa_ts_plain_step lib w (exec (mepa_ts_csr_reg_write lib dev a1 a2 a3) w)"

inductive mepa_ts_step :: "('h, 'd) phy_lib \<Rightarrow> ('h, 'd) world \<Rightarrow> ('h, 'd) world \<Rightarrow> bool"
  for lib :: "('h, 'd) phy_lib" where
  step_ts_plain: "mepa_ts_plain_step lib w w' \<Longrightarrow> mepa_ts_step lib w w'"
| step_ts_init_conf_set: "mepa_ts_step lib w (exec (mepa_ts_init_conf_set lib dev a1) w)"
| step_ts_fifo_empty: "val (mepa_ts_fifo_empty lib dev a1) w = Some rc \<Longrightarrow> mepa_ts_step lib w (exec (mepa_ts_fifo_empty lib dev a1) w)"

text \<open>A step of the API.\<close>

inductive api_step :: "('h, 'd) phy_lib \<Rightarrow> ('h, 'd) world \<Rightarrow> ('h, 'd) world \<Rightarrow> bool"
  for lib :: "('h, 'd) phy_lib" where
  api_base: "mepa_step lib w w' \<Longrightarrow> api_step lib w w'"
| api_ts: "mepa_ts_step lib w w' \<Longrightarrow> api_step lib w w'"
| api_t1: "mepa_t1_step lib w w' \<Longrightarrow> api_step lib w w'"

inductive_simps api_step_iff: "api_step lib w w'"

lemmas mepa_api_defs = mepa_reset_def mepa_poll_def mepa_conf_set_def mepa_conf_get_def mepa_if_set_def
    mepa_if_get_def mepa_power_set_def mepa_cable_diag_start_def mepa_cable_diag_get_def
    mepa_media_set_def mepa_media_get_def mepa_aneg_status_get_def mepa_clause22_read_def
    mepa_clause22_write_def mepa_clause45_read_def mepa_clause45_write_def
    mepa_event_enable_set_def mepa_event_enable_get_def mepa_event_poll_def
    mepa_loopback_set_def mepa_loopback_get_def mepa_gpio_mode_set_def mepa_gpio_out_set_def
    mepa_gpio_in_get_def mepa_synce_clock_conf_set_def mepa_isolate_mode_conf_def
    mepa_chip_temp_get_def mepa_eee_mode_conf_set_def mepa_eee_mode_conf_get_def
    mepa_i2c_read_def mepa_i2c_write_def mepa_fefi_get_def mepa_fefi_detect_def
    mepa_sqi_read_def mepa_start_of_frame_conf_set_def mepa_start_of_frame_conf_get_def
    mepa_framepreempt_set_def mepa_framepreempt_get_def mepa_selftest_start_def
    mepa_selftest_read_def mepa_prbs_set_def mepa_prbs_get_def mepa_prbs_monitor_set_def
    mepa_prbs_monitor_get_def mepa_warmstart_conf_get_def mepa_warmstart_conf_end_def
    mepa_warmstart_conf_set_def mepa_serdes_tx_conf_set_def mepa_phy_qsgmii_sync_def
    mepa_link_base_port_def mepa_phy_info_get_def mepa_capability_def mepa_i2c_clock_select_def
    mepa_fefi_set_def

lemmas ts_api_defs = mepa_ts_mode_set_def mepa_ts_mode_get_def mepa_ts_reset_def mepa_ts_init_conf_set_def
    mepa_ts_init_conf_get_def mepa_ts_ltc_ls_en_def mepa_ts_ltc_get_def mepa_ts_ltc_set_def
    mepa_ts_delay_asymmetry_get_def mepa_ts_delay_asymmetry_set_def mepa_ts_path_delay_get_def
    mepa_ts_path_delay_set_def mepa_ts_egress_latency_get_def mepa_ts_egress_latency_set_def
    mepa_ts_ingress_latency_get_def mepa_ts_ingress_latency_set_def mepa_ts_clock_rateadj_get_def
    mepa_ts_clock_rateadj_set_def mepa_ts_clock_adj1ns_def mepa_ts_pps_conf_get_def
    mepa_ts_pps_conf_set_def mepa_ts_rx_classifier_conf_get_def mepa_ts_tx_classifier_conf_get_def
    mepa_ts_rx_classifier_conf_set_def mepa_ts_tx_classifier_conf_set_def
    mepa_ts_rx_clock_conf_get_def mepa_ts_tx_clock_conf_get_def mepa_ts_rx_clock_conf_set_def
    mepa_ts_tx_clock_conf_set_def mepa_ts_stats_get_def mepa_ts_event_set_def mepa_ts_event_get_def
    mepa_ts_event_poll_def mepa_ts_fifo_read_install_def mepa_ts_fifo_empty_def
    mepa_ts_fifo_get_def mepa_ts_fifo_signature_set_def mepa_ts_fifo_signature_get_def
    mepa_ts_test_config_def mepa_ts_pch_mch_error_info_get_def mepa_ts_csr_reg_read_def
    mepa_ts_csr_reg_write_def

lemmas t1_api_defs = mepa_tc10_set_sleep_support_def mepa_tc10_get_sleep_support_def
    mepa_tc10_set_wakeup_support_def mepa_tc10_get_wakeup_support_def
    mepa_tc10_set_wakeup_fwd_support_def mepa_tc10_get_wakeup_fwd_support_def
    mepa_tc10_set_wake_pin_polarity_def mepa_tc10_get_wake_pin_polarity_def
    mepa_tc10_set_pin_mode_def mepa_tc10_get_pin_mode_def mepa_tc10_send_sleep_request_def
    mepa_tc10_get_state_def mepa_tc10_send_wake_request_def mepa_t1s_set_plca_config_def
    mepa_t1s_get_plca_config_def

section \<open>Calls through driver tables\<close>

text \<open>Every device has a driver of the set \<open>T\<close>.\<close>

locale driver_table =
  fixes Free :: "('h, 'd) world \<Rightarrow> bool"
    and lib :: "('h, 'd) phy_lib" and T :: "('h, 'd) mepa_driver set"
  assumes table: "Free w \<Longrightarrow> drv_at lib (drv (devs w p)) \<in> T"
begin

lemma drv_keeps:
  assumes "\<And>d f p. d \<in> T \<Longrightarrow> sel d = Some f \<Longrightarrow> keeps Free (k f p)"
  shows "keeps Free (drv_call lib dev sel r k)"
proof (rule movesI)
  fix w assume w: "Free w"
  show "Free (exec (drv_call lib dev sel r k) w)"
    using w assms [THEN movesD, OF table [OF w] _ w]
    by (auto simp: drv_call_def split: option.split)
qed

lemma drv_keeps_set:
  assumes "\<And>d. d \<in> T \<Longrightarrow> sel d \<in> S"
    "\<And>f p. Some f \<in> S \<Longrightarrow> keeps Free (k f p)"
  shows "keeps Free (drv_call lib dev sel r k)"
  by (rule drv_keeps) (metis assms)

text \<open>Drivers without a sub-table answer that the function is not implemented.\<close>

lemma none_keeps: "(\<And>d. d \<in> T \<Longrightarrow> sel d = None) \<Longrightarrow> keeps Free (drv_call lib dev sel r k)"
  by (rule drv_keeps) simp

lemma no_ts_call:
  assumes "\<And>d. d \<in> T \<Longrightarrow> mepa_ts d = None"
  shows "keeps Free (ts_call lib dev sel r k)"
  unfolding ts_call_def by (rule none_keeps) (simp add: assms)

lemma no_ts_step:
  assumes "\<And>d. d \<in> T \<Longrightarrow> mepa_ts d = None"
  shows "mepa_ts_step lib w w' \<Longrightarrow> Free w \<Longrightarrow> Free w'"
  by (erule mepa_ts_step.cases, erule mepa_ts_plain_step.cases)
    (simp_all add: ts_api_defs movesD [OF no_ts_call [OF assms]])

lemma no_tc10_call:
  assumes "\<And>d. d \<in> T \<Longrightarrow> mepa_tc10 d = None"
  shows "keeps Free (tc10_call lib dev sel r k)"
  unfolding tc10_call_def by (rule none_keeps) (simp add: assms)

lemma no_t1s_call:
  assumes "\<And>d. d \<in> T \<Longrightarrow> mepa_t1s d = None"
  shows "keeps Free (t1s_call lib dev sel r k)"
  unfolding t1s_call_def by (rule none_keeps) (simp add: assms)

lemma no_t1_step:
  assumes "\<And>d. d \<in> T \<Longrightarrow> mepa_tc10 d = None \<and> mepa_t1s d = None"
  shows "mepa_t1_step lib w w' \<Longrightarrow> Free w \<Longrightarrow> Free w'"
  by (erule mepa_t1_step.cases)
    (simp_all add: t1_api_defs movesD [OF no_tc10_call] movesD [OF no_t1s_call] assms)

end

end
