(* ===== verification/Lan8814_Driver_Spec.thy ===== *)
theory Lan8814_Driver_Spec
  imports Lan8814_Driver Phy_Sim Mepa_Steps
begin

text \<open>
  What the driver tables of the family contain, and the locale \<open>lan8814_table\<close>: a property of
  all entries of the tables is a property of every dispatched call.
\<close>

lemmas driver_defs = null_driver_def lan8814_driver_def lan8804_driver_def
  lan8814_int_phy_driver_def lan8842_driver_def lan8832_driver_def

lemma driver_ids: "map (\<lambda>d. (drv_id d, drv_mask d)) (mepa_lan8814_driver_init ds ps) = lan8814_drv_ids"
  by (simp add: mepa_lan8814_driver_init_def lan8814_drv_ids_def driver_defs)

lemma driver_fields:
  assumes "d \<in> set (mepa_lan8814_driver_init ds ps)"
  shows "mepa_driver_reset d = Some lan8814_reset"
    "mepa_driver_poll d = Some lan8814_poll"
    "mepa_driver_conf_set d = Some lan8814_conf_set"
    "mepa_driver_conf_get d = Some (\<lambda>p _. lan8814_conf_get p)"
    "mepa_driver_power_set d = None"
    "mepa_driver_cable_diag_start d = Some lan8814_cab_diag_start"
    "mepa_driver_cable_diag_get d = Some (\<lambda>p _. lan8814_cab_diag_get p)"
    "mepa_driver_media_set d = None"
    "mepa_driver_media_get d = None"
    "mepa_driver_aneg_status_get d = Some (\<lambda>p _. lan8814_aneg_status_get p)"
    "mepa_driver_clause22_read d = Some (\<lambda>p a1 _. lan8814_direct_reg_read p a1)"
    "mepa_driver_clause22_write d = Some lan8814_direct_reg_write"
    "mepa_driver_clause45_read d = Some lan8814_ext_mmd_reg_read"
    "mepa_driver_clause45_write d = Some lan8814_ext_mmd_reg_write"
    "mepa_driver_event_enable_set d = Some lan8814_event_enable_set"
    "mepa_driver_event_enable_get d = Some (\<lambda>p _. lan8814_event_enable_get p)"
    "mepa_driver_event_poll d = Some (\<lambda>p _. lan8814_event_status_poll p)"
    "mepa_driver_loopback_set d = Some lan8814_loopback_set"
    "mepa_driver_loopback_get d = Some (\<lambda>p _. lan8814_loopback_get p)"
    "mepa_driver_gpio_mode_set d = Some lan8814_gpio_mode_set"
    "mepa_driver_gpio_out_set d = Some lan8814_gpio_out_set"
    "mepa_driver_gpio_in_get d = Some lan8814_gpio_in_get"
    "mepa_driver_synce_clock_conf_set d = Some lan8814_recovered_clk_set"
    "mepa_driver_isolate_mode_conf d = Some lan8814_isolate_mode_conf"
    "mepa_driver_chip_temp_get d = None"
    "mepa_driver_eee_mode_conf_set d = Some lan8814_eee_mode_conf_set"
    "mepa_driver_eee_mode_conf_get d = Some (\<lambda>p _. lan8814_eee_mode_conf_get p)"
    "mepa_driver_eee_status_get d = Some (\<lambda>p _. lan8814_eee_status_get p)"
    "mepa_driver_phy_i2c_read d = None"
    "mepa_driver_phy_i2c_write d = None"
    "mepa_driver_phy_i2c_clock_select d = None"
    "mepa_driver_phy_fefi_set d = None"
    "mepa_driver_phy_fefi_get d = None"
    "mepa_driver_phy_fefi_detect d = None"
    "mepa_driver_sqi_read d = Some lan8814_sqi_read"
    "mepa_driver_start_of_frame_conf_get d = Some (\<lambda>p _. lan8814_start_of_frame_conf_get p)"
    "mepa_driver_framepreempt_get d = Some lan8814_framepreempt_get"
    "mepa_driver_selftest_start d = Some lan8814_selftest_start"
    "mepa_driver_selftest_read d = Some lan8814_selftest_read"
    "mepa_driver_prbs_set d = Some lan8814_prbs_set"
    "mepa_driver_prbs_get d = Some (\<lambda>p a1 a2 _. lan8814_prbs_get p a1 a2)"
    "mepa_driver_prbs_monitor_set d = Some lan8814_prbs_monitor_set"
    "mepa_driver_prbs_monitor_get d = Some lan8814_prbs_monitor_get"
    "mepa_driver_warmrestart_conf_get d = None"
    "mepa_driver_warmrestart_conf_end d = None"
    "mepa_driver_warmrestart_conf_set d = None"
    "mepa_driver_serdes_tx_conf_set d = Some lan8814_serdes_tx_conf_set"
    "mepa_driver_phy_qsgmii_sync d = None"
    "mepa_driver_capability d = Some lan8814_capability"
    "mepa_driver_probe d = Some (lan8814_probe ds ps)"
    "mepa_driver_delete d = Some lan8814_delete"
  using assms by (auto simp: mepa_lan8814_driver_init_def driver_defs)

lemma driver_variants:
  assumes "d \<in> set (mepa_lan8814_driver_init ds ps)"
  shows "mepa_driver_if_set d \<in> {Some lan8814_if_set, Some mas_if_set, Some lan8842_if_set}"
    "mepa_driver_if_get d \<in> {Some (\<lambda>p a1 _. lan8814_if_get p a1), Some (\<lambda>p a1 _. mas_if_get p a1), Some (\<lambda>p a1 _. lan8842_if_get p a1)}"
    "mepa_driver_link_base_port d \<in> {Some lan8814_link_base_port, None}"
    "mepa_driver_phy_info_get d \<in> {Some lan8814_info_get, Some lan8842_info_get}"
    "mepa_driver_start_of_frame_conf_set d \<in> {Some lan8814_start_of_frame_conf_set, Some lan8842_start_of_frame_conf_set}"
    "mepa_driver_framepreempt_set d \<in> {Some lan8814_framepreempt_set, None}"
  using assms by (auto simp: mepa_lan8814_driver_init_def driver_defs)

text \<open>The LAN8814 and the LAN8842 have a timestamping unit.\<close>

lemma driver_ts:
  assumes "d \<in> set (mepa_lan8814_driver_init ds ps)"
  shows "mepa_ts d = Some lan8814_ts_drivers \<or> mepa_ts d = None"
  using assms by (auto simp: mepa_lan8814_driver_init_def driver_defs)

text \<open>No driver of the family has TC10 or T1S.\<close>

lemma driver_t1:
  assumes "d \<in> set (mepa_lan8814_driver_init ds ps)"
  shows "mepa_tc10 d = None \<and> mepa_t1s d = None"
  using assms by (auto simp: mepa_lan8814_driver_init_def driver_defs)

lemmas ts_driver_defs = lan8814_ts_drivers_def null_ts_driver_def

section \<open>Calls through the tables\<close>

locale lan8814_table = driver_table Free lib "set (mepa_lan8814_driver_init ds ps)"
  for Free :: "('h, phy_data) world \<Rightarrow> bool" and lib :: "('h, phy_data) phy_lib" and ds ps :: nat

end
