(* ===== verification/Mepa_Ts_Api.thy ===== *)
theory Mepa_Ts_Api
  imports Lan8814_Driver_Spec
begin

text \<open>
  The timestamping functions of the API on LAN8814 devices: a property of the operations of
  the driver's table is a property of every step of \<open>mepa_ts_step\<close>.
\<close>

text \<open>The contract of the timestamping operations, over all devices.\<close>

locale lan8814_ts_api = lan8814_table Free lib ds ps
  for Held Free :: "('h, phy_data) world \<Rightarrow> bool" and lib ds ps +
  assumes ts_locking: "lan8814_ts_locking Held Free p"
begin

lemma ts_keeps:
  assumes "\<And>f p. sel lan8814_ts_drivers = Some f \<Longrightarrow> keeps Free (k f p)"
  shows "keeps Free (ts_call lib dev sel r k)"
  unfolding ts_call_def
  by (rule drv_keeps) (use assms driver_ts in \<open>fastforce split: option.splits\<close>)

lemmas ts_api_ops = lan8814_ts_locking.ts_ops_keep [OF ts_locking]

lemma ts_api_keeps:
  "keeps Free (mepa_ts_mode_set lib dev a1_0)"
  "keeps Free (mepa_ts_mode_get lib dev out_1)"
  "keeps Free (mepa_ts_reset lib dev a1_2)"
  "keeps Free (mepa_ts_init_conf_set lib dev a1_3)"
  "keeps Free (mepa_ts_init_conf_get lib dev out_4)"
  "keeps Free (mepa_ts_ltc_ls_en lib dev a1_5)"
  "keeps Free (mepa_ts_ltc_get lib dev out_6)"
  "keeps Free (mepa_ts_ltc_set lib dev a1_7)"
  "keeps Free (mepa_ts_delay_asymmetry_get lib dev out_8)"
  "keeps Free (mepa_ts_delay_asymmetry_set lib dev a1_9)"
  "keeps Free (mepa_ts_path_delay_get lib dev out_10)"
  "keeps Free (mepa_ts_path_delay_set lib dev a1_11)"
  "keeps Free (mepa_ts_egress_latency_get lib dev out_12)"
  "keeps Free (mepa_ts_egress_latency_set lib dev a1_13)"
  "keeps Free (mepa_ts_ingress_latency_get lib dev out_14)"
  "keeps Free (mepa_ts_ingress_latency_set lib dev a1_15)"
  "keeps Free (mepa_ts_clock_rateadj_get lib dev out_16)"
  "keeps Free (mepa_ts_clock_rateadj_set lib dev a1_17)"
  "keeps Free (mepa_ts_clock_adj1ns lib dev a1_18)"
  "keeps Free (mepa_ts_pps_conf_get lib dev out_19)"
  "keeps Free (mepa_ts_pps_conf_set lib dev a1_20)"
  "keeps Free (mepa_ts_rx_classifier_conf_get lib dev a1_21 out_21)"
  "keeps Free (mepa_ts_tx_classifier_conf_get lib dev a1_22 out_22)"
  "keeps Free (mepa_ts_rx_classifier_conf_set lib dev a1_23 a2_23)"
  "keeps Free (mepa_ts_tx_classifier_conf_set lib dev a1_24 a2_24)"
  "keeps Free (mepa_ts_rx_clock_conf_get lib dev a1_25 out_25)"
  "keeps Free (mepa_ts_tx_clock_conf_get lib dev a1_26 out_26)"
  "keeps Free (mepa_ts_rx_clock_conf_set lib dev a1_27 a2_27)"
  "keeps Free (mepa_ts_tx_clock_conf_set lib dev a1_28 a2_28)"
  "keeps Free (mepa_ts_stats_get lib dev out_29)"
  "keeps Free (mepa_ts_event_set lib dev a1_30 a2_30)"
  "keeps Free (mepa_ts_event_get lib dev out_31)"
  "keeps Free (mepa_ts_event_poll lib dev out_32)"
  "keeps Free (mepa_ts_fifo_read_install lib dev a1_33)"
  "keeps Free (mepa_ts_fifo_get lib dev a1_34 out_34)"
  "keeps Free (mepa_ts_fifo_signature_set lib dev a1_35)"
  "keeps Free (mepa_ts_fifo_signature_get lib dev out_36)"
  "keeps Free (mepa_ts_test_config lib dev a1_37 a2_37)"
  "keeps Free (mepa_ts_pch_mch_error_info_get lib dev out_38)"
  "keeps Free (mepa_ts_csr_reg_read lib dev a1_39 a2_39 out_39)"
  "keeps Free (mepa_ts_csr_reg_write lib dev a1_40 a2_40 a3_40)"
  unfolding ts_api_defs
  by (rule ts_keeps, clarsimp simp: ts_driver_defs,
      (rule ts_api_ops keeps_bind [OF lan8814_ts_locking.ts_op_fifo(1) [OF ts_locking]])?, (rule keeps_return)?)+

lemma fifo_empty_keeps:
  assumes w: "Free w" and v: "val (mepa_ts_fifo_empty lib dev n) w = Some rc"
  shows "Free (exec (mepa_ts_fifo_empty lib dev n) w)"
proof (cases dev)
  case (Some p)
  consider "mepa_ts (drv_at lib (drv (devs w p))) = Some lan8814_ts_drivers"
    | "mepa_ts (drv_at lib (drv (devs w p))) = None"
    using driver_ts [OF table [OF w, of p]] by (elim disjE) simp_all
  then show ?thesis
    using w v Some lan8814_ts_locking.ts_op_fifo_empty [OF ts_locking w]
    by cases (simp_all add: mepa_ts_fifo_empty_def ts_call_def drv_call_def ts_driver_defs)
qed (use w in \<open>simp add: mepa_ts_fifo_empty_def ts_call_def drv_call_def\<close>)

lemma ts_step_keeps: "mepa_ts_step lib w w' \<Longrightarrow> Free w \<Longrightarrow> Free w'"
  by (erule mepa_ts_step.cases, erule mepa_ts_plain_step.cases)
    (use ts_api_keeps fifo_empty_keeps in \<open>auto simp: moves_def\<close>)

end

end
