(* ===== verification/Lan8814_Ts_Safe.thy ===== *)
theory Lan8814_Ts_Safe
  imports Lan8814_Ts_Lock
begin

text \<open>
  NULL-safety of the timestamping operations.  They reach undefined behaviour through a port that
  is linked to no base port, through a stored frequency or a configured one for which the latency
  tables have no row, and through a FIFO callback that is not installed.  Where the ports are usable
  (\<open>ts_usable\<close>), every operation calls through no NULL pointer and leaves the ports usable, but the
  initialisation with a frequency without latencies, and the emptying of the FIFO of a port
  without a callback.
\<close>

definition ts_usable :: "phy_data \<Rightarrow> bool" where
  "ts_usable d = (pd_base_dev d \<noteq> None \<and>
     tsd_clk_freq (pd_ts_state d) \<notin> {MEPA_TS_CLOCK_FREQ_MAX, MEPA_TS_CLOCK_FREQ_NONE})"

definition ts_safe :: "(nat \<Rightarrow> 'h mepa_device) \<Rightarrow> ('h, phy_data) world \<Rightarrow> bool" where
  "ts_safe dv w = (no_crash dv w \<and> (\<forall>p. ts_usable (priv w p)))"

text \<open>The frequencies with latencies.\<close>

definition has_latencies :: "mepa_ts_clock_freq \<Rightarrow> bool" where
  "has_latencies f = (f \<notin> {MEPA_TS_CLOCK_FREQ_500M, MEPA_TS_CLOCK_FREQ_MAX, MEPA_TS_CLOCK_FREQ_NONE})"

lemma has_rows:
  "has_latencies f \<Longrightarrow> lan8814_ing_latencies f \<noteq> None"
  "has_latencies f \<Longrightarrow> lan8814_egr_latencies f \<noteq> None"
  "f \<notin> {MEPA_TS_CLOCK_FREQ_MAX, MEPA_TS_CLOCK_FREQ_NONE} \<Longrightarrow> lan8814_twostep_egr_lat_adj f \<noteq> None"
  by (cases f; simp add: has_latencies_def)+

interpretation ts_safe: bus_invariant "ts_safe dv" for dv :: "nat \<Rightarrow> 'h mepa_device"
  by unfold_locales
    (auto simp: moves_def ts_safe_def no_crash_def bus_present_def prim_defs prim_simps
      split: option.splits prod.splits)

interpretation ts_safe_bus: lan8814_bus "ts_safe dv" for dv :: "nat \<Rightarrow> 'h mepa_device"
  by (intro lan8814_bus.intro ts_safe.bus_invariant_axioms)

lemma safe_locks: "keeps (ts_safe dv) (MEPA_ENTER p)" "keeps (ts_safe dv) (MEPA_EXIT p)"
  by (auto simp: moves_def ts_safe_def no_crash_def MEPA_ENTER_def MEPA_EXIT_def prim_simps
      split: option.splits)

text \<open>Reading private data gives usable ones; updates of the other fields keep them so.\<close>

lemma safe_data_of: "(\<And>d. ts_usable d \<Longrightarrow> moves (ts_safe dv) (f d) R) \<Longrightarrow>
    moves (ts_safe dv) (State_Monad.bind (data_of p) f) R"
  by (auto simp: moves_def ts_safe_def)

lemma safe_base_data_of: "b \<noteq> None \<Longrightarrow> (\<And>d. ts_usable d \<Longrightarrow> moves (ts_safe dv) (f d) R) \<Longrightarrow>
    moves (ts_safe dv) (State_Monad.bind (base_data_of b) f) R"
  by (cases b) (auto simp: base_data_of_def intro!: safe_data_of)

lemma safe_table_at: "t f \<noteq> None \<Longrightarrow> keeps (ts_safe dv) (table_at t f i)"
  by (auto simp: table_at_def intro: keeps_rules)

lemma safe_upd_ts:
  assumes "\<And>t. tsd_clk_freq (f t) = tsd_clk_freq t"
  shows "keeps (ts_safe dv) (upd_ts p f)"
  using assms by (auto simp: moves_def ts_safe_def no_crash_def ts_usable_def upd_ts_def)

lemma safe_upd_tpc: "keeps (ts_safe dv) (upd_tpc p g)"
  unfolding upd_tpc_def by (rule safe_upd_ts) simp

lemma safe_store_init_conf:
  assumes "has_latencies (tic_clk_freq c)"
  shows "keeps (ts_safe dv) (upd_ts p (store_init_conf c))"
  using assms
  by (auto simp: moves_def ts_safe_def no_crash_def ts_usable_def upd_ts_def store_init_conf_def has_latencies_def)

lemmas safe_prims = safe_locks safe_data_of safe_base_data_of safe_table_at safe_upd_tpc safe_upd_ts

section \<open>Internal functions\<close>

lemma safe_set_default_latency:
  assumes "t f \<noteq> None"
  shows "keeps (ts_safe dv) (set_default_latency p t f i r u)"
  unfolding set_default_latency_def
  by (rule keeps_bind, rule safe_table_at, rule assms) (intro ts_safe_bus.ts_bus safe_upd_ts; simp)

lemma safe_ts_port_init:
  assumes "has_latencies (tic_clk_freq c)"
  shows "keeps (ts_safe dv) (lan8814_ts_port_init p c)"
  unfolding lan8814_ts_port_init_def Let_def
  by (rule safe_data_of, intro ts_safe_bus.ts_bus safe_store_init_conf safe_set_default_latency safe_upd_tpc
      safe_upd_ts has_rows assms) simp_all

lemma safe_ltc_target_seconds: "keeps (ts_safe dv) (lan8814_ltc_target_seconds p s)"
  unfolding lan8814_ltc_target_seconds_def Let_def
  by (rule safe_data_of, rule safe_base_data_of, simp add: ts_usable_def) (intro ts_safe_bus.ts_bus)

lemma safe_egress_latency:
  assumes "f \<notin> {MEPA_TS_CLOCK_FREQ_MAX, MEPA_TS_CLOCK_FREQ_NONE}"
  shows "keeps (ts_safe dv) (egress_latency f b i d u)"
  unfolding egress_latency_def
  by (intro keeps_rules safe_table_at has_rows assms)

lemma safe_latency_set_at:
  "f \<notin> {MEPA_TS_CLOCK_FREQ_MAX, MEPA_TS_CLOCK_FREQ_NONE} \<Longrightarrow>
    keeps (ts_safe dv) (egress_latency_set_at p f b i d u r g)"
  "keeps (ts_safe dv) (ingress_latency_set_at p d l r g)"
  unfolding egress_latency_set_at_def ingress_latency_set_at_def
  by (intro ts_safe_bus.ts_bus safe_egress_latency safe_upd_tpc; assumption)+

lemma safe_egress_latency_set_priv: "keeps (ts_safe dv) (lan8814_ts_clock_egress_latency_set_priv p l b)"
  unfolding lan8814_ts_clock_egress_latency_set_priv_def Let_def
  by (rule safe_data_of, rule safe_base_data_of, simp add: ts_usable_def)
    (intro ts_safe_bus.ts_bus safe_latency_set_at; simp add: ts_usable_def)

lemma safe_reload_egress_latency: "keeps (ts_safe dv) (lan8814_ts_reload_egress_latency p b)"
  unfolding lan8814_ts_reload_egress_latency_def Let_def
  by (rule safe_data_of, rule safe_base_data_of, simp add: ts_usable_def)
    (intro ts_safe_bus.ts_bus safe_egress_latency; simp add: ts_usable_def)

lemma safe_pps_store: "b \<noteq> None \<Longrightarrow> keeps (ts_safe dv) (pps_store p b c)"
  unfolding pps_store_def by (cases b) (auto intro!: keeps_bind safe_upd_ts)

section \<open>Operations\<close>

text \<open>The operations that evaluate no pointer: the accesses and updates keep the ports usable.\<close>

lemmas plain_ops = lan8814_ts_init_conf_get_def lan8814_ts_mode_set_def lan8814_ts_mode_get_def lan8814_ts_reset_def
  lan8814_ts_ltc_ls_en_set_def lan8814_ts_ltc_get_def lan8814_ts_clock_rateadj_get_def lan8814_ts_clock_adj1ns_def

lemma safe_op_mode: "keeps (ts_safe dv) (lan8814_ts_mode_set p b)" "keeps (ts_safe dv) (lan8814_ts_mode_get p)"
    "keeps (ts_safe dv) (lan8814_ts_reset p r)" "keeps (ts_safe dv) (lan8814_ts_init_conf_get p oc)"
    "keeps (ts_safe dv) (lan8814_ts_ltc_ls_en_set p ls)" "keeps (ts_safe dv) (lan8814_ts_ltc_get p v)"
    "keeps (ts_safe dv) (lan8814_ts_clock_rateadj_get p a)" "keeps (ts_safe dv) (lan8814_ts_clock_adj1ns p b)"
  unfolding plain_ops by (intro ts_safe_bus.ts_bus safe_locks safe_upd_ts; simp)+

lemma safe_op_init:
  assumes "\<And>c. oc = Some c \<Longrightarrow> has_latencies (tic_clk_freq c)"
  shows "keeps (ts_safe dv) (lan8814_ts_init_conf_set p oc)"
proof -
  have "keeps (ts_safe dv) (ts_base_init p c)" for c
    unfolding ts_base_init_def by (intro ts_safe_bus.ts_bus safe_locks)
  then show ?thesis
    unfolding lan8814_ts_init_conf_set_def
    by (cases oc) (auto intro!: keeps_rules safe_locks safe_ts_port_init assms)
qed

lemma safe_op_base: "keeps (ts_safe dv) (lan8814_ts_ltc_set p v)"
    "keeps (ts_safe dv) (lan8814_ts_clock_rateadj_set p a)"
  unfolding lan8814_ts_ltc_set_def lan8814_ts_clock_rateadj_set_def
  by (rule safe_data_of, rule safe_base_data_of, simp add: ts_usable_def,
      intro ts_safe_bus.ts_bus safe_locks safe_ltc_target_seconds safe_upd_tpc)+

lemma safe_op_delay: "keeps (ts_safe dv) (lan8814_ts_clock_delay_asymmetry_get p)"
    "keeps (ts_safe dv) (lan8814_ts_clock_delay_asymmetry_set p x)"
    "keeps (ts_safe dv) (lan8814_ts_clock_path_delay_get p y)"
    "keeps (ts_safe dv) (lan8814_ts_clock_path_delay_set p y)"
    "keeps (ts_safe dv) (lan8814_ts_clock_egress_latency_get p l)"
    "keeps (ts_safe dv) (lan8814_ts_clock_egress_latency_set p l)"
    "keeps (ts_safe dv) (lan8814_ts_clock_ingress_latency_get p l)"
  unfolding lan8814_ts_clock_delay_asymmetry_get_def lan8814_ts_clock_delay_asymmetry_set_def
    lan8814_ts_clock_path_delay_get_def lan8814_ts_clock_path_delay_set_def
    lan8814_ts_clock_egress_latency_get_def lan8814_ts_clock_egress_latency_set_def
    lan8814_ts_clock_ingress_latency_get_def
  by (intro ts_safe_bus.ts_bus safe_locks safe_upd_tpc safe_egress_latency_set_priv)+

lemma safe_op_ingress_set: "keeps (ts_safe dv) (lan8814_ts_clock_ingress_latency_set p ol)"
proof (cases ol)
  case (Some l)
  show ?thesis
    unfolding lan8814_ts_clock_ingress_latency_set_def Some option.case
    by (rule keeps_bind [OF safe_locks(1)], rule safe_data_of, rule safe_base_data_of, simp add: ts_usable_def)
      (intro ts_safe_bus.ts_bus safe_locks safe_latency_set_at)
qed (auto simp: lan8814_ts_clock_ingress_latency_set_def intro: keeps_rules)

lemma safe_op_pps: "keeps (ts_safe dv) (lan8814_ts_pps_conf_get p)"
    "keeps (ts_safe dv) (lan8814_ts_pps_conf_set p c)"
proof -
  show "keeps (ts_safe dv) (lan8814_ts_pps_conf_get p)"
    unfolding lan8814_ts_pps_conf_get_def by (intro ts_safe_bus.ts_bus safe_locks)
  show "keeps (ts_safe dv) (lan8814_ts_pps_conf_set p c)"
    unfolding lan8814_ts_pps_conf_set_def Let_def
    by (rule safe_data_of, rule safe_base_data_of, simp add: ts_usable_def)
      (intro ts_safe_bus.ts_bus safe_locks safe_op_mode safe_ltc_target_seconds safe_pps_store; simp add: ts_usable_def)
qed

lemma safe_op_classifier: "keeps (ts_safe dv) (lan8814_ts_rx_classifier_conf_get p i oc)"
    "keeps (ts_safe dv) (lan8814_ts_rx_classifier_conf_set p i oc)"
    "keeps (ts_safe dv) (lan8814_ts_tx_classifier_conf_get p i oc)"
    "keeps (ts_safe dv) (lan8814_ts_tx_classifier_conf_set p i oc)"
    "keeps (ts_safe dv) (lan8814_ts_rx_ptp_clock_conf_get p i ok)"
    "keeps (ts_safe dv) (lan8814_ts_rx_ptp_clock_conf_set p i k)"
    "keeps (ts_safe dv) (lan8814_ts_tx_ptp_clock_conf_get p i ok)"
    "keeps (ts_safe dv) (lan8814_ts_tx_ptp_clock_conf_set p i k)"
  unfolding lan8814_ts_rx_classifier_conf_get_def lan8814_ts_rx_classifier_conf_set_def
    lan8814_ts_tx_classifier_conf_get_def lan8814_ts_tx_classifier_conf_set_def
    lan8814_ts_rx_ptp_clock_conf_get_def lan8814_ts_rx_ptp_clock_conf_set_def
    lan8814_ts_tx_ptp_clock_conf_get_def lan8814_ts_tx_ptp_clock_conf_set_def
  by (intro ts_safe_bus.ts_bus safe_locks safe_upd_tpc safe_reload_egress_latency)+

lemma safe_op_events: "keeps (ts_safe dv) (lan8814_ts_stats_get p st)"
    "keeps (ts_safe dv) (lan8814_ts_event_get p e)"
    "keeps (ts_safe dv) (lan8814_ts_event_set p b ev)" "keeps (ts_safe dv) (lan8814_ts_event_poll p oe)"
  unfolding lan8814_ts_stats_get_def lan8814_ts_event_get_def lan8814_ts_event_set_def lan8814_ts_event_poll_def
  by (intro ts_safe_bus.ts_bus safe_locks safe_upd_tpc)+

lemma safe_op_fifo: "keeps (ts_safe dv) (lan8814_ts_fifo_read_install p cb)"
    "keeps (ts_safe dv) (lan8814_ts_fifo_get v p n out)" "keeps (ts_safe dv) (lan8814_ts_pch_mch_error_get p)"
    "keeps (ts_safe dv) (lan8814_ts_test_config p i b)"
  unfolding lan8814_ts_fifo_read_install_def lan8814_ts_fifo_get_def lan8814_ts_pch_mch_error_get_def
    lan8814_ts_test_config_def
  by (intro ts_safe_bus.ts_bus safe_locks safe_upd_ts; simp)+

lemma safe_call_ts_cb: "keeps (ts_safe dv) (call_ts_cb (Some f) n ts sig st)"
  by (auto simp: moves_def ts_safe_def no_crash_def call_ts_cb_def prim_simps)

lemma safe_tx_ts_loop: "keeps (ts_safe dv) (tx_ts_loop n p (Some f) pn v h1 h2 ts sig)"
proof (induction n arbitrary: v h1 h2 ts sig)
  case (Suc n)
  show ?case
    unfolding tx_ts_loop.simps by (intro ts_safe_bus.ts_bus safe_locks safe_call_ts_cb Suc)
qed (simp add: keeps_return)

text \<open>Emptying the FIFO needs the callback, at the time of the call.\<close>

lemma safe_op_fifo_empty:
  assumes "ts_safe dv w" "tsd_fifo_cb (pd_ts_state (priv w p)) \<noteq> None"
  shows "ts_safe dv (exec (lan8814_ts_tx_ts_get p n) w)"
proof -
  obtain f where f: "tsd_fifo_cb (pd_ts_state (priv w p)) = Some f"
    using assms(2) by blast
  have "keeps (ts_safe dv) (do {
      MEPA_ENTER p;
      ended \<leftarrow> tx_ts_loop n p (Some f) (pd_port_no (priv w p)) 0 0 0 mepa_timestamp_0 mepa_ts_fifo_sig_0;
      if \<not> ended then State_Monad.return None
      else do { MEPA_EXIT p; State_Monad.return (Some MEPA_RC_OK) } })"
    by (intro keeps_rules safe_locks safe_tx_ts_loop)
  from movesD [OF this assms(1)] show ?thesis
    using f by (simp add: lan8814_ts_tx_ts_get_def data_of_def)
qed

lemmas safe_ops = safe_op_mode safe_op_base safe_op_delay safe_op_ingress_set safe_op_pps
  safe_op_classifier safe_op_events safe_op_fifo

end
