(* ===== verification/Mepa_Api.thy ===== *)
theory Mepa_Api
  imports Mepa_Ts_Api Lan8814_Ts_Safe
begin

text \<open>
  Histories of API calls on LAN8814 devices: they keep the lock protocol as long as \<open>mepa_eee_status_get\<close> is not
  called (\<open>api_history\<close>), and they reach no undefined behaviour when the calls of the timestamping API are
  made on ports that are set up for them (\<open>guarded_history\<close>).
\<close>

section \<open>The contract of the driver operations, over all devices\<close>

locale lan8814_api = lan8814_table Free lib ds ps
  for Held Free :: "('h, phy_data) world \<Rightarrow> bool" and lib ds ps +
  assumes locking: "lan8814_locking Held Free p"
begin

lemmas api_ops = lan8814_locking.ops_keep [OF locking]

lemma api_keeps_uniform:
  "keeps Free (mepa_reset lib dev a1_0)"
  "keeps Free (mepa_poll lib dev out_1)"
  "keeps Free (mepa_conf_set lib dev a1_2)"
  "keeps Free (mepa_conf_get lib dev out_3)"
  "keeps Free (mepa_power_set lib dev a1_6)"
  "keeps Free (mepa_cable_diag_start lib dev a1_7)"
  "keeps Free (mepa_cable_diag_get lib dev out_8)"
  "keeps Free (mepa_media_set lib dev a1_9)"
  "keeps Free (mepa_media_get lib dev out_10)"
  "keeps Free (mepa_aneg_status_get lib dev out_11)"
  "keeps Free (mepa_clause22_read lib dev a1_12 out_12)"
  "keeps Free (mepa_clause22_write lib dev a1_13 a2_13)"
  "keeps Free (mepa_clause45_read lib dev a1_14 out_14)"
  "keeps Free (mepa_clause45_write lib dev a1_15 a2_15)"
  "keeps Free (mepa_event_enable_set lib dev a1_16 a2_16)"
  "keeps Free (mepa_event_enable_get lib dev out_17)"
  "keeps Free (mepa_event_poll lib dev out_18)"
  "keeps Free (mepa_loopback_set lib dev a1_19)"
  "keeps Free (mepa_loopback_get lib dev out_20)"
  "keeps Free (mepa_gpio_mode_set lib dev a1_21)"
  "keeps Free (mepa_gpio_out_set lib dev a1_22 a2_22)"
  "keeps Free (mepa_gpio_in_get lib dev a1_23 out_23)"
  "keeps Free (mepa_synce_clock_conf_set lib dev a1_24)"
  "keeps Free (mepa_isolate_mode_conf lib dev a1_25)"
  "keeps Free (mepa_chip_temp_get lib dev out_26)"
  "keeps Free (mepa_eee_mode_conf_set lib dev a1_27)"
  "keeps Free (mepa_eee_mode_conf_get lib dev out_28)"
  "keeps Free (mepa_i2c_read lib dev a1_29 a2_29 a3_29 a4_29 a5_29 out_29)"
  "keeps Free (mepa_i2c_write lib dev a1_30 a2_30 a3_30 a4_30 a5_30 a6_30)"
  "keeps Free (mepa_fefi_get lib dev out_31)"
  "keeps Free (mepa_fefi_detect lib dev out_32)"
  "keeps Free (mepa_sqi_read lib dev out_33)"
  "keeps Free (mepa_start_of_frame_conf_get lib dev out_35)"
  "keeps Free (mepa_framepreempt_get lib dev out_37)"
  "keeps Free (mepa_selftest_start lib dev a1_38)"
  "keeps Free (mepa_selftest_read lib dev out_39)"
  "keeps Free (mepa_prbs_set lib dev a1_40 a2_40 a3_40)"
  "keeps Free (mepa_prbs_get lib dev a1_41 a2_41 out_41)"
  "keeps Free (mepa_prbs_monitor_set lib dev a1_42)"
  "keeps Free (mepa_prbs_monitor_get lib dev out_43)"
  "keeps Free (mepa_warmstart_conf_get lib dev out_44)"
  "keeps Free (mepa_warmstart_conf_end lib dev)"
  "keeps Free (mepa_warmstart_conf_set lib dev a1_46)"
  "keeps Free (mepa_serdes_tx_conf_set lib dev a1_47)"
  "keeps Free (mepa_phy_qsgmii_sync lib dev)"
  "keeps Free (mepa_capability lib dev a1_51)"
  "keeps Free (mepa_i2c_clock_select lib dev a1_52)"
  "keeps Free (mepa_fefi_set lib dev a1_53)"
  unfolding mepa_reset_def mepa_poll_def mepa_conf_set_def mepa_conf_get_def mepa_power_set_def mepa_cable_diag_start_def mepa_cable_diag_get_def mepa_media_set_def mepa_media_get_def mepa_aneg_status_get_def mepa_clause22_read_def mepa_clause22_write_def mepa_clause45_read_def mepa_clause45_write_def mepa_event_enable_set_def mepa_event_enable_get_def mepa_event_poll_def mepa_loopback_set_def mepa_loopback_get_def mepa_gpio_mode_set_def mepa_gpio_out_set_def mepa_gpio_in_get_def mepa_synce_clock_conf_set_def mepa_isolate_mode_conf_def mepa_chip_temp_get_def mepa_eee_mode_conf_set_def mepa_eee_mode_conf_get_def mepa_i2c_read_def mepa_i2c_write_def mepa_fefi_get_def mepa_fefi_detect_def mepa_sqi_read_def mepa_start_of_frame_conf_get_def mepa_framepreempt_get_def mepa_selftest_start_def mepa_selftest_read_def mepa_prbs_set_def mepa_prbs_get_def mepa_prbs_monitor_set_def mepa_prbs_monitor_get_def mepa_warmstart_conf_get_def mepa_warmstart_conf_end_def mepa_warmstart_conf_set_def mepa_serdes_tx_conf_set_def mepa_phy_qsgmii_sync_def mepa_capability_def mepa_i2c_clock_select_def mepa_fefi_set_def
  by (rule drv_keeps, clarsimp simp: driver_fields, (rule api_ops)?)+

lemma api_keeps_variants:
  "keeps Free (mepa_if_set lib dev a1_4)"
  "keeps Free (mepa_if_get lib dev a1_5 out_5)"
  "keeps Free (mepa_link_base_port lib dev (Some a1_49) a2_49)"
  "keeps Free (mepa_phy_info_get lib dev out_50)"
  "keeps Free (mepa_start_of_frame_conf_set lib dev a1_34)"
  "keeps Free (mepa_framepreempt_set lib dev a1_36)"
  unfolding mepa_if_set_def mepa_if_get_def mepa_link_base_port_def mepa_phy_info_get_def mepa_start_of_frame_conf_set_def mepa_framepreempt_set_def
  subgoal by (rule drv_keeps_set, rule driver_variants(1)) (auto intro: api_ops)
  subgoal by (rule drv_keeps_set, rule driver_variants(2)) (auto intro: api_ops)
  subgoal by (rule drv_keeps_set, rule driver_variants(3)) (auto intro: api_ops)
  subgoal by (rule drv_keeps_set, rule driver_variants(4)) (auto intro: api_ops)
  subgoal by (rule drv_keeps_set, rule driver_variants(5)) (auto intro: api_ops)
  subgoal by (rule drv_keeps_set, rule driver_variants(6)) (auto intro: api_ops)
  done

lemmas api_keeps = api_keeps_uniform api_keeps_variants

lemma step_keeps: "mepa_step lib w w' \<Longrightarrow> Free w \<Longrightarrow> Free w'"
  by (erule mepa_step.cases) (use api_keeps in \<open>auto simp: moves_def\<close>)

lemma t1_step_keeps: "mepa_t1_step lib w w' \<Longrightarrow> Free w \<Longrightarrow> Free w'"
  by (rule no_t1_step [OF driver_t1])

end

section \<open>Systems of LAN8814 devices\<close>

text \<open>
  The table of the family is in its place in the library, and a device belongs to it.
  The heap is a total function, so the hypotheses below speak of every address.
\<close>

definition lan8814_lib :: "nat \<Rightarrow> nat \<Rightarrow> ('h, phy_data) phy_lib \<Rightarrow> bool" where
  "lan8814_lib ds ps lib = (LAN8814_FAMILY < length lib \<and>
     lib ! LAN8814_FAMILY = mepa_lan8814_driver_init ds ps)"

definition lan8814_dev :: "'h mepa_device \<Rightarrow> bool" where
  "lan8814_dev d = (fst (drv d) = LAN8814_FAMILY \<and> snd (drv d) < 5)"

lemma mepa_lan8814_driver_init_length: "length (mepa_lan8814_driver_init ds ps) = 5"
  by (simp add: mepa_lan8814_driver_init_def)

lemma drv_at_table:
  "lan8814_lib ds ps lib \<Longrightarrow> lan8814_dev d \<Longrightarrow> drv_at lib (drv d) \<in> set (mepa_lan8814_driver_init ds ps)"
  by (simp add: lan8814_lib_def lan8814_dev_def drv_at_def mepa_lan8814_driver_init_length)

lemma moves_conj: "moves P m Q \<Longrightarrow> moves (\<lambda>w. P w \<and> C) m (\<lambda>w. Q w \<and> C)"
  by (simp add: moves_def)

lemma lan8814_locking_conj:
  assumes "lan8814_locking Held Free p"
  shows "lan8814_locking (\<lambda>w. Held w \<and> C) (\<lambda>w. Free w \<and> C) p"
  using assms
  unfolding lan8814_locking_def lan8814_locking_axioms_def lan8814_invariant_def
    lock_protocol_def lock_protocol_axioms_def world_invariant_def
    world_invariant_axioms_def bus_invariant_def lan8814_bus_def
  by (intro conjI allI moves_conj) blast+

lemma lan8814_ts_locking_conj:
  assumes "lan8814_ts_locking Held Free p"
  shows "lan8814_ts_locking (\<lambda>w. Held w \<and> C) (\<lambda>w. Free w \<and> C) p"
proof -
  have l: "lan8814_locking (\<lambda>w. Held w \<and> C) (\<lambda>w. Free w \<and> C) p"
    using assms lan8814_locking_conj lan8814_ts_locking.axioms(1) by blast
  note ax = assms [unfolded lan8814_ts_locking_def lan8814_ts_locking_axioms_def
      lan8814_ts_invariant_def lan8814_ts_invariant_axioms_def]
  show ?thesis
    using l ax lan8814_locking.axioms(2) [OF l]
    unfolding lan8814_ts_locking_def lan8814_ts_locking_axioms_def
      lan8814_ts_invariant_def lan8814_ts_invariant_axioms_def
    by (auto intro!: moves_conj)
qed

definition lan8814_system :: "nat \<Rightarrow> nat \<Rightarrow> ('h, phy_data) phy_lib \<Rightarrow> (nat \<Rightarrow> 'h mepa_device) \<Rightarrow> bool" where
  "lan8814_system ds ps lib dv = (lan8814_lib ds ps lib \<and> (\<forall>p. lan8814_dev (dv p)))"

interpretation all_lock: lan8814_ts_locking "all_held dv" "all_free dv" p
  for dv :: "nat \<Rightarrow> 'h mepa_device" and p :: nat
  by unfold_locales
    (auto simp: moves_def all_held_def all_free_def call_ts_cb_def prim_defs prim_simps
      split: option.splits prod.splits)

interpretation api_lock: lan8814_api
  "\<lambda>w. all_held dv w \<and> lan8814_system ds ps lib dv" "\<lambda>w. all_free dv w \<and> lan8814_system ds ps lib dv" lib ds ps
  for dv :: "nat \<Rightarrow> 'h mepa_device" and lib ds ps
  by (intro lan8814_api.intro lan8814_table.intro driver_table.intro lan8814_api_axioms.intro lan8814_locking_conj
      all_lock.lan8814_locking_axioms)
    (auto simp: all_free_def lan8814_system_def intro: drv_at_table)

interpretation ts_api_lock: lan8814_ts_api
  "\<lambda>w. all_held dv w \<and> lan8814_system ds ps lib dv" "\<lambda>w. all_free dv w \<and> lan8814_system ds ps lib dv" lib ds ps
  for dv :: "nat \<Rightarrow> 'h mepa_device" and lib ds ps
  by (intro lan8814_ts_api.intro lan8814_ts_api_axioms.intro lan8814_ts_locking_conj
      all_lock.lan8814_ts_locking_axioms api_lock.lan8814_table_axioms)


text \<open>A system of reference PHYs with LAN8814 drivers, for the witnesses.\<close>

definition sim_lib :: "(sim, phy_data) phy_lib" where
  "sim_lib = replicate 5 [] @ [mepa_lan8814_driver_init 40 1024]"

definition sim_system :: "(nat \<times> lreg \<Rightarrow> 16 word) \<Rightarrow> (nat \<Rightarrow> phy_data) \<Rightarrow> (sim, phy_data) world" where
  "sim_system m D = (sim_world m D)\<lparr>devs := (\<lambda>p. (sim_dev p)\<lparr>drv := (LAN8814_FAMILY, 0)\<rparr>)\<rparr>"

lemma sim_system_simps:
  "lan8814_system 40 1024 sim_lib (devs (sim_system m D))"
  "has_locks (devs (sim_system m D) p)" "bus_present (devs (sim_system m D) p)"
  "io (sim_system m D) = []" "\<not> crashed (sim_system m D)"
  using sim_has_locks [of p] sim_bus_present [of p]
  by (simp_all add: lan8814_system_def lan8814_lib_def lan8814_dev_def sim_lib_def sim_system_def
      nth_append has_locks_def bus_present_def)

section \<open>A call without the lock\<close>

text \<open>
  Once violated, the protocol stays violated.  With \<open>C\<close> false, \<open>broken\<close> only says that the heap of
  devices is still \<open>dv\<close>.
\<close>

definition violated :: "('h, 'd) world \<Rightarrow> bool" where
  "violated w = (lock_state (io w) = Lock_Violated)"

definition broken :: "bool \<Rightarrow> (nat \<Rightarrow> 'h mepa_device) \<Rightarrow> ('h, 'd) world \<Rightarrow> bool" where
  "broken C dv w = ((C \<longrightarrow> violated w) \<and> devs w = dv)"

interpretation broken: lan8814_ts_locking "broken C dv" "broken C dv" p
  for C :: bool and dv :: "nat \<Rightarrow> 'h mepa_device" and p :: nat
  by unfold_locales
    (auto simp: moves_def broken_def violated_def prim_defs prim_simps call_ts_cb_def MEPA_ENTER_def MEPA_EXIT_def
      lock_step_violated split: option.splits prod.splits)

interpretation api_broken: lan8814_api
  "\<lambda>w. broken C dv w \<and> lan8814_system ds ps lib dv" "\<lambda>w. broken C dv w \<and> lan8814_system ds ps lib dv" lib ds ps
  for C :: bool and dv :: "nat \<Rightarrow> 'h mepa_device" and lib ds ps
  by (intro lan8814_api.intro lan8814_table.intro driver_table.intro lan8814_api_axioms.intro lan8814_locking_conj
      broken.lan8814_locking_axioms)
    (auto simp: broken_def lan8814_system_def intro: drv_at_table)

interpretation ts_api_broken: lan8814_ts_api
  "\<lambda>w. broken C dv w \<and> lan8814_system ds ps lib dv" "\<lambda>w. broken C dv w \<and> lan8814_system ds ps lib dv" lib ds ps
  for C :: bool and dv :: "nat \<Rightarrow> 'h mepa_device" and lib ds ps
  by (intro lan8814_ts_api.intro lan8814_ts_api_axioms.intro lan8814_ts_locking_conj
      broken.lan8814_ts_locking_axioms api_broken.lan8814_table_axioms)

lemma unlocked_access:
  "moves (\<lambda>w. bus_present (devs w p) \<and> devs w = dv \<and> lock_state (io w) \<noteq> Lock_Held) (dev_miim_read p a) (broken True dv)"
  by (auto simp: moves_def broken_def violated_def bus_present_def prim_defs prim_simps split: prod.splits)

lemma unlocked_mmd_rd:
  "moves (\<lambda>w. bus_present (devs w p) \<and> devs w = dv \<and> lock_state (io w) \<noteq> Lock_Held)
    (MMD_RD p r v :: ('h, 16 word) lan) (broken True dv)"
  unfolding MMD_RD_def lan8814_mmd_reg_rd_def lan8814_direct_reg_wr_def
  by (intro moves_bind [where Q = "broken True dv" and R = "broken True dv"] unlocked_access broken.conf_keeps)

lemma unlocked_eee_status:
  "moves (\<lambda>w. bus_present (devs w p) \<and> devs w = dv \<and> lock_state (io w) \<noteq> Lock_Held)
    (lan8814_eee_status_get p) (broken True dv)"
  unfolding lan8814_eee_status_get_def
  by (rule moves_bind [OF unlocked_mmd_rd], intro broken.conf_keeps)

lemma broken_eee_status: "keeps (broken C dv) (lan8814_eee_status_get p)"
  unfolding lan8814_eee_status_get_def by (intro broken.conf_keeps)

text \<open>Every driver of the table has this operation.\<close>

lemma exec_eee_status:
  assumes "lan8814_system ds ps lib (devs w)"
  shows "exec (mepa_eee_status_get lib (Some p) out) w = exec (lan8814_eee_status_get p) w"
    "exec (mepa_eee_status_get lib None out) w = w"
proof -
  have "drv_at lib (drv (devs w p)) \<in> set (mepa_lan8814_driver_init ds ps)"
    using assms by (auto simp: lan8814_system_def intro: drv_at_table)
  then show "exec (mepa_eee_status_get lib (Some p) out) w = exec (lan8814_eee_status_get p) w"
    "exec (mepa_eee_status_get lib None out) w = w"
    by (simp_all add: mepa_eee_status_get_def drv_call_def driver_fields)
qed

text \<open>
  An operation without the lock.  \<open>mepa_eee_status_get\<close> on a LAN8814 device, called
  with the lock free, always makes its first bus access outside the lock.
\<close>

theorem mepa_eee_status_get_unlocked:
  assumes "lan8814_system ds ps lib (devs w)" "bus_present (devs w p)"
    and "lock_state (io w) = Lock_Free"
  shows "lock_state (io (exec (mepa_eee_status_get lib (Some p) out) w)) = Lock_Violated"
proof -
  have "broken True (devs w) (exec (lan8814_eee_status_get p) w)"
    by (rule movesD [OF unlocked_eee_status]) (use assms in simp)
  then show ?thesis by (simp add: exec_eee_status [OF assms(1)] broken_def violated_def)
qed

theorem mepa_eee_status_get_unlocked_witness:
  "lock_state (io (exec (mepa_eee_status_get sim_lib (Some 3) (0, False, False))
     (sim_system (\<lambda>_. 0) (\<lambda>_. phy_data_0)))) = Lock_Violated"
  using mepa_eee_status_get_unlocked [OF sim_system_simps(1,3), of "\<lambda>_. 0" "\<lambda>_. phy_data_0" 3]
  by (simp add: sim_system_simps lock_state_def)

section \<open>Locking\<close>

text \<open>
  A history of calls of the API: steps of \<open>api_step\<close> and calls of \<open>mepa_eee_status_get\<close>, which \<open>mepa_step\<close>
  leaves out.  The flag records whether one of the latter was made on a device.
\<close>

inductive api_history ::
  "('h, 'd) phy_lib \<Rightarrow> ('h, 'd) world \<Rightarrow> bool \<Rightarrow> ('h, 'd) world \<Rightarrow> bool"
  for lib :: "('h, 'd) phy_lib" and w :: "('h, 'd) world" where
  history_start: "api_history lib w False w"
| history_step: "api_history lib w b w' \<Longrightarrow> api_step lib w' w'' \<Longrightarrow> api_history lib w b w''"
| history_eee: "api_history lib w b w' \<Longrightarrow>
    api_history lib w (b \<or> dev \<noteq> None) (exec (mepa_eee_status_get lib dev out) w')"

lemma api_step_free: "api_step lib w w' \<Longrightarrow> lan8814_system ds ps lib dv \<Longrightarrow> all_free dv w \<Longrightarrow> all_free dv w'"
  using api_lock.step_keeps [of lib w w'] ts_api_lock.ts_step_keeps [of lib w w']
    api_lock.t1_step_keeps [of lib w w']
  by (auto simp: api_step_iff)

lemma api_step_broken:
  "api_step lib w w' \<Longrightarrow> lan8814_system ds ps lib dv \<Longrightarrow> broken C dv w \<Longrightarrow> broken C dv w'"
  using api_broken.step_keeps [of lib w w'] ts_api_broken.ts_step_keeps [of lib w w']
    api_broken.t1_step_keeps [of lib w w']
  by (auto simp: api_step_iff)

lemma api_history_lock:
  assumes "api_history lib w b w'" "lan8814_system ds ps lib (devs w)" "all_free (devs w) w"
  shows "if b then broken (\<forall>p. bus_present (devs w p)) (devs w) w' else all_free (devs w) w'"
  using assms(1)
proof induction
  case (history_step b w' w'')
  then show ?case
    using api_step_free [OF history_step.hyps(2) assms(2)] api_step_broken [OF history_step.hyps(2) assms(2)]
    by (cases b) auto
next
  case (history_eee b w' dev out)
  let ?B = "\<forall>p. bus_present (devs w p)"
  have dv: "devs w' = devs w"
    using history_eee.IH by (cases b) (simp_all add: broken_def all_free_def)
  then have sys: "lan8814_system ds ps lib (devs w')" using assms(2) by simp
  have "broken ?B (devs w) (exec (lan8814_eee_status_get p) w')" for p
  proof (cases "b \<or> \<not> ?B")
    case True
    then have "broken ?B (devs w) w'"
      using history_eee.IH dv by (cases b) (auto simp: broken_def)
    then show ?thesis by (rule movesD [OF broken_eee_status])
  next
    case False
    then have "lock_state (io w') = Lock_Free" using history_eee.IH by (simp add: all_free_def)
    then show ?thesis using movesD [OF unlocked_eee_status [of p "devs w"], of w'] False dv
      by (simp add: broken_def)
  qed
  then show ?case using history_eee.IH by (cases dev) (simp_all add: exec_eee_status [OF sys])
qed (simp add: assms(3))

lemma sim_ts_history:
  "api_history sim_lib w False
    (exec (mepa_poll sim_lib (Some 2) st) (exec (mepa_ts_mode_set sim_lib (Some 1) b) w))"
  by (rule history_step, rule history_step, rule history_start, rule api_ts, rule step_ts_plain,
      rule step_ts_mode_set,
      rule api_base, rule step_poll)

lemma sim_eee_history:
  "api_history sim_lib w True
    (exec (mepa_poll sim_lib (Some 2) st) (exec (mepa_eee_status_get sim_lib (Some 1) out) w))"
proof -
  have "api_history sim_lib w True (exec (mepa_eee_status_get sim_lib (Some 1) out) w)"
    using history_eee [OF history_start, of sim_lib w "Some 1" out] by simp
  then show ?thesis by (auto intro: history_step api_base step_poll)
qed

text \<open>
  C3: locking, with its one exception.  Take a history of calls of the API on LAN8814 devices, all calls that \<open>phy.c\<close>
  dispatches but \<open>mepa_create\<close>, \<open>mepa_delete\<close>, the debug dump and \<open>mepa_link_base_port\<close>
  with a NULL base, timestamping included, that starts with the lock free.  If \<open>mepa_eee_status_get\<close> was
  called on no device, it ends with the lock free, every bus access in it was made under the lock and
  every timestamp was handed to the application with the lock free: the calls enter the lock
  and exit it on every path, and never nest it.  If it was called on a device, once is enough, then the protocol has been
  violated, provided that the devices have the bus callouts: the call reads without the lock.
\<close>

theorem mepa_api_lock_discipline:
  assumes "lan8814_system ds ps lib (devs w)" "\<And>p. has_locks (devs w p)"
    and "lock_state (io w) = Lock_Free" "api_history lib w eee_called w'"
  shows "devs w' = devs w \<and> (\<not> eee_called \<longrightarrow> lock_state (io w') = Lock_Free) \<and>
    (eee_called \<and> (\<forall>p. bus_present (devs w p)) \<longrightarrow> lock_state (io w') = Lock_Violated)"
  using api_history_lock [OF assms(4,1)] assms(2,3)
  by (cases eee_called) (auto simp: all_free_def broken_def violated_def)

theorem mepa_api_lock_discipline_witness:
  "lock_state (io (exec (mepa_poll sim_lib (Some 2) mepa_status_0)
     (exec (mepa_ts_mode_set sim_lib (Some 1) True) (sim_system (\<lambda>_. 0) (\<lambda>_. phy_data_0))))) = Lock_Free \<and>
   lock_state (io (exec (mepa_poll sim_lib (Some 2) mepa_status_0)
     (exec (mepa_eee_status_get sim_lib (Some 1) (0, False, False))
       (sim_system (\<lambda>_. 0) (\<lambda>_. phy_data_0))))) = Lock_Violated"
  using mepa_api_lock_discipline [OF sim_system_simps(1,2) _ sim_ts_history
      [where w = "sim_system (\<lambda>_. 0) (\<lambda>_. phy_data_0)" and st = mepa_status_0 and b = True]]
    mepa_api_lock_discipline [OF sim_system_simps(1,2) _ sim_eee_history
      [where w = "sim_system (\<lambda>_. 0) (\<lambda>_. phy_data_0)" and st = mepa_status_0 and out = "(0, False, False)"]]
  by (simp add: sim_system_simps lock_state_def)

section \<open>NULL-safety\<close>





text \<open>
  A history of calls in which each call of the timestamping API is made with every port usable, that is linked
  to a base port and holding one of the six clock frequencies; moreover no port is initialised with a frequency that has
  no latencies, and a FIFO is only emptied on a port with a callback.  The other calls are made in any state.
\<close>

inductive guarded_history ::
  "('h, phy_data) phy_lib \<Rightarrow> ('h, phy_data) world \<Rightarrow> ('h, phy_data) world \<Rightarrow> bool"
  for lib :: "('h, phy_data) phy_lib" and w :: "('h, phy_data) world" where
  guarded_start: "guarded_history lib w w"
| guarded_base: "guarded_history lib w w' \<Longrightarrow> mepa_step lib w' w'' \<Longrightarrow> guarded_history lib w w''"
| guarded_t1: "guarded_history lib w w' \<Longrightarrow> mepa_t1_step lib w' w'' \<Longrightarrow> guarded_history lib w w''"
| guarded_eee: "guarded_history lib w w' \<Longrightarrow>
    guarded_history lib w (exec (mepa_eee_status_get lib dev out) w')"
| guarded_ts: "guarded_history lib w w' \<Longrightarrow> (\<And>p. ts_usable (priv w' p)) \<Longrightarrow>
    mepa_ts_plain_step lib w' w'' \<Longrightarrow> guarded_history lib w w''"
| guarded_init: "guarded_history lib w w' \<Longrightarrow> (\<And>p. ts_usable (priv w' p)) \<Longrightarrow>
    (\<And>c. oc = Some c \<Longrightarrow> tic_clk_freq c \<notin>
      {MEPA_TS_CLOCK_FREQ_500M, MEPA_TS_CLOCK_FREQ_MAX, MEPA_TS_CLOCK_FREQ_NONE}) \<Longrightarrow>
    guarded_history lib w (exec (mepa_ts_init_conf_set lib dev oc) w')"
| guarded_fifo: "guarded_history lib w w' \<Longrightarrow> (\<And>p. ts_usable (priv w' p)) \<Longrightarrow>
    (\<And>p. dev = Some p \<Longrightarrow> tsd_fifo_cb (pd_ts_state (priv w' p)) \<noteq> None) \<Longrightarrow>
    guarded_history lib w (exec (mepa_ts_fifo_empty lib dev n) w')"







text \<open>
  Two wrong guards.  On a device whose driver has no clock selection,
  \<open>mepa_i2c_clock_select\<close> calls through NULL exactly when the driver has an I2C write; on
  one whose driver cannot set the far-end fault mode, \<open>mepa_fefi_set\<close> does so exactly when
  the driver can read it.
\<close>

theorem mepa_wrong_guards:
  assumes "\<not> crashed w" "d = drv_at lib (drv (devs w p))"
  shows "(mepa_driver_phy_i2c_clock_select d = None \<longrightarrow>
      crashed (exec (mepa_i2c_clock_select lib (Some p) clk) w) = (mepa_driver_phy_i2c_write d \<noteq> None)) \<and>
    (mepa_driver_phy_fefi_set d = None \<longrightarrow>
      crashed (exec (mepa_fefi_set lib (Some p) fefi) w) = (mepa_driver_phy_fefi_get d \<noteq> None))"
  using assms
  by (auto simp: mepa_i2c_clock_select_def mepa_fefi_set_def drv_call_def exec_null_call
      split: option.splits)

theorem mepa_wrong_guards_witness:
  "crashed (exec (mepa_i2c_clock_select
     [[null_driver\<lparr>mepa_driver_phy_i2c_write := Some (\<lambda>_ _ _ _ _ _ _. State_Monad.return 0)\<rparr>]]
     (Some 0) MEPA_I2C_CLK_SEL_0) (sim_world (\<lambda>_. 0) (\<lambda>_. phy_data_0)))"
  using mepa_wrong_guards [OF _ refl, of "sim_world (\<lambda>_. 0) (\<lambda>_. phy_data_0)"
      "[[null_driver\<lparr>mepa_driver_phy_i2c_write := Some (\<lambda>_ _ _ _ _ _ _. State_Monad.return 0)\<rparr>]]" 0
      MEPA_I2C_CLK_SEL_0]
  by (simp add: drv_at_def sim_dev_def null_driver_def)

end
