(* ===== verification/Phy_Lib.thy ===== *)
theory Phy_Lib
  imports Mdio Phy_Sim
begin

text \<open>
  \<open>mepa/microchip/common/src/phy_lib.c\<close>: the register accessors that the newer
  Microchip drivers share.  A clause-22 access goes straight to the callouts, an
  MMD access through the window 13/14.  The out-parameter of a read is part of
  the result; \<open>v0\<close> is its content before the call where a path leaves it alone.
  Every error code of a callout is returned to the caller.
\<close>

section \<open>The accessors\<close>

abbreviation (input) MII_MMD_CTRL :: "8 word" where "MII_MMD_CTRL \<equiv> 0x0d"
abbreviation (input) MII_MMD_DATA :: "8 word" where "MII_MMD_DATA \<equiv> 0x0e"
abbreviation (input) MMDCTRL_NO_POST_INC :: "32 word" where "MMDCTRL_NO_POST_INC \<equiv> 0x4000"

definition phy_reg_rd :: "nat \<Rightarrow> 32 word \<Rightarrow> ('h, 'd, mepa_rc \<times> 16 word) mepa" where
  "phy_reg_rd phydev offset = do {
     d \<leftarrow> dev_of phydev;
     if miim_read (callout d) \<noteq> None then dev_miim_read phydev (ucast offset)
     else State_Monad.return (MEPA_RC_NOT_IMPLEMENTED, 0) }"

definition phy_reg_wr :: "nat \<Rightarrow> 32 word \<Rightarrow> 16 word \<Rightarrow> ('h, 'd, mepa_rc) mepa" where
  "phy_reg_wr phydev offset value = do {
     d \<leftarrow> dev_of phydev;
     if miim_write (callout d) \<noteq> None then dev_miim_write phydev (ucast offset) value
     else State_Monad.return MEPA_RC_NOT_IMPLEMENTED }"

definition phy_reg_modify :: "nat \<Rightarrow> 32 word \<Rightarrow> 16 word \<Rightarrow> 16 word \<Rightarrow> ('h, 'd, mepa_rc) mepa" where
  "phy_reg_modify phydev offset msk value = do {
     (rc, v) \<leftarrow> phy_reg_rd phydev offset;
     if rc \<noteq> MEPA_RC_OK then State_Monad.return rc
     else phy_reg_wr phydev offset ((v AND NOT msk) OR value) }"

definition phy_reg_set_bits :: "nat \<Rightarrow> 32 word \<Rightarrow> 16 word \<Rightarrow> ('h, 'd, mepa_rc) mepa" where
  "phy_reg_set_bits phydev offset value = phy_reg_modify phydev offset 0 value"

definition phy_reg_clear_bits :: "nat \<Rightarrow> 32 word \<Rightarrow> 16 word \<Rightarrow> ('h, 'd, mepa_rc) mepa" where
  "phy_reg_clear_bits phydev offset value = phy_reg_modify phydev offset value 0"

definition phy_mmd_reg_rd ::
  "nat \<Rightarrow> 32 word \<Rightarrow> 32 word \<Rightarrow> 16 word \<Rightarrow> ('h, 'd, mepa_rc \<times> 16 word) mepa" where
  "phy_mmd_reg_rd phydev mmd offset v0 = do {
     d \<leftarrow> dev_of phydev;
     if miim_read (callout d) \<noteq> None \<and> miim_write (callout d) \<noteq> None then do {
       rc \<leftarrow> dev_miim_write phydev MII_MMD_CTRL (ucast mmd);
       if rc \<noteq> MEPA_RC_OK then State_Monad.return (rc, 0) else do {
       rc \<leftarrow> dev_miim_write phydev MII_MMD_DATA (ucast offset);
       if rc \<noteq> MEPA_RC_OK then State_Monad.return (rc, 0) else do {
       rc \<leftarrow> dev_miim_write phydev MII_MMD_CTRL (ucast (MMDCTRL_NO_POST_INC OR mmd));
       if rc \<noteq> MEPA_RC_OK then State_Monad.return (rc, 0) else
       dev_miim_read phydev MII_MMD_DATA }}}
     else State_Monad.return (MEPA_RC_NOT_IMPLEMENTED, v0) }"

definition phy_mmd_reg_wr ::
  "nat \<Rightarrow> 32 word \<Rightarrow> 32 word \<Rightarrow> 16 word \<Rightarrow> ('h, 'd, mepa_rc) mepa" where
  "phy_mmd_reg_wr phydev mmd offset value = do {
     d \<leftarrow> dev_of phydev;
     if miim_read (callout d) \<noteq> None \<and> miim_write (callout d) \<noteq> None then do {
       rc \<leftarrow> dev_miim_write phydev MII_MMD_CTRL (ucast mmd);
       if rc \<noteq> MEPA_RC_OK then State_Monad.return rc else do {
       rc \<leftarrow> dev_miim_write phydev MII_MMD_DATA (ucast offset);
       if rc \<noteq> MEPA_RC_OK then State_Monad.return rc else do {
       rc \<leftarrow> dev_miim_write phydev MII_MMD_CTRL (ucast (MMDCTRL_NO_POST_INC OR mmd));
       if rc \<noteq> MEPA_RC_OK then State_Monad.return rc else
       dev_miim_write phydev MII_MMD_DATA value }}}
     else State_Monad.return MEPA_RC_NOT_IMPLEMENTED }"

definition phy_mmd_reg_modify ::
  "nat \<Rightarrow> 32 word \<Rightarrow> 32 word \<Rightarrow> 16 word \<Rightarrow> 16 word \<Rightarrow> ('h, 'd, mepa_rc) mepa" where
  "phy_mmd_reg_modify phydev mmd offset msk value = do {
     (rc, v) \<leftarrow> phy_mmd_reg_rd phydev mmd offset 0;
     if rc \<noteq> MEPA_RC_OK then State_Monad.return rc
     else (let new_val = (v AND NOT msk) OR value in
       if v \<noteq> new_val then phy_mmd_reg_wr phydev mmd offset new_val
       else State_Monad.return rc) }"

definition phy_mmd_reg_clear_bits ::
  "nat \<Rightarrow> 32 word \<Rightarrow> 32 word \<Rightarrow> 16 word \<Rightarrow> ('h, 'd, mepa_rc) mepa" where
  "phy_mmd_reg_clear_bits phydev mmd offset value = phy_mmd_reg_modify phydev mmd offset value 0"

definition phy_mmd_reg_set_bits ::
  "nat \<Rightarrow> 32 word \<Rightarrow> 32 word \<Rightarrow> 16 word \<Rightarrow> ('h, 'd, mepa_rc) mepa" where
  "phy_mmd_reg_set_bits phydev mmd offset value = phy_mmd_reg_modify phydev mmd offset 0 value"

text \<open>32-bit registers are two 16-bit ones: the low half at \<open>addr\<close>, the high one after it.\<close>

definition phy_mmd_reg_rd32 ::
  "nat \<Rightarrow> 8 word \<Rightarrow> 32 word \<Rightarrow> 32 word \<Rightarrow> ('h, 'd, mepa_rc \<times> 32 word) mepa" where
  "phy_mmd_reg_rd32 phydev devad addr v0 = do {
     (rc, data_l) \<leftarrow> phy_mmd_reg_rd phydev (ucast devad) addr 0;
     if rc \<noteq> MEPA_RC_OK then State_Monad.return (rc, v0) else do {
     (rc, data_h) \<leftarrow> phy_mmd_reg_rd phydev (ucast devad) (addr + 1) 0;
     if rc \<noteq> MEPA_RC_OK then State_Monad.return (rc, v0) else
     State_Monad.return (MEPA_RC_OK, push_bit 16 (ucast data_h) OR ucast data_l) }}"

definition phy_mmd_reg_wr32 ::
  "nat \<Rightarrow> 8 word \<Rightarrow> 32 word \<Rightarrow> 32 word \<Rightarrow> ('h, 'd, mepa_rc) mepa" where
  "phy_mmd_reg_wr32 phydev mmd offset value = do {
     let data_l = ucast (value AND 0xFFFF);
     let data_h = ucast (drop_bit 16 value);
     rc \<leftarrow> phy_mmd_reg_wr phydev (ucast mmd) (offset + 1) data_h;
     if rc \<noteq> MEPA_RC_OK then State_Monad.return rc
     else phy_mmd_reg_wr phydev (ucast mmd) offset data_l }"

definition phy_mmd_reg_mod32 ::
  "nat \<Rightarrow> 8 word \<Rightarrow> 32 word \<Rightarrow> 32 word \<Rightarrow> 32 word \<Rightarrow> ('h, 'd, mepa_rc) mepa" where
  "phy_mmd_reg_mod32 phydev mmd offset msk value = do {
     (rc, v) \<leftarrow> phy_mmd_reg_rd32 phydev mmd offset 0;
     if rc \<noteq> MEPA_RC_OK then State_Monad.return rc
     else (let new_val = (v AND NOT msk) OR value in
       if v \<noteq> new_val then phy_mmd_reg_wr32 phydev mmd offset new_val
       else State_Monad.return rc) }"

section \<open>Polling\<close>

text \<open>
  \<open>MEPA_MTIMER_START\<close> and \<open>MEPA_MTIMER_TIMEOUT\<close> of \<open>mepa_os_linux.h\<close>: the deadline
  is the wall clock plus \<open>msec * 1000\<close> microseconds (a 32-bit product), and the
  timer has run out when the clock reads more than it.  \<open>gettimeofday\<close> is taken
  to succeed.
\<close>

definition clock_read :: "('h, 'd, nat) mepa" where
  "clock_read = State (\<lambda>w. let (t, h) = os_clock w (hw w) in (t, w\<lparr>hw := h\<rparr>))"

definition MEPA_MTIMER_START :: "32 word \<Rightarrow> ('h, 'd, nat) mepa" where
  "MEPA_MTIMER_START msec = do { t \<leftarrow> clock_read; State_Monad.return (t + unat (msec * 1000)) }"

definition MEPA_MTIMER_TIMEOUT :: "nat \<Rightarrow> ('h, 'd, bool) mepa" where
  "MEPA_MTIMER_TIMEOUT timer = do { t \<leftarrow> clock_read; State_Monad.return (timer < t) }"

text \<open>
  The loop of the two poll functions, with the number of iterations bounded by
  \<open>fuel\<close>; \<open>None\<close> is a loop that has not ended.  The timer is sampled before the
  register is read, so a value that arrives by the deadline is always seen.
\<close>

fun poll_loop :: "nat \<Rightarrow> nat \<Rightarrow> ('v \<Rightarrow> ('h, 'd, 'v) mepa) \<Rightarrow> ('v \<Rightarrow> bool) \<Rightarrow> 'v \<Rightarrow>
    ('h, 'd, (mepa_rc \<times> 'v) option) mepa" where
  "poll_loop 0 timer rd hit v = State_Monad.return None"
| "poll_loop (Suc n) timer rd hit v = do {
     timeout \<leftarrow> MEPA_MTIMER_TIMEOUT timer;
     v' \<leftarrow> rd v;
     if hit v' then State_Monad.return (Some (MEPA_RC_OK, v'))
     else if timeout then State_Monad.return (Some (MEPA_RC_INCOMPLETE, v'))
     else poll_loop n timer rd hit v' }"

definition poll_hit :: "('a :: len) word \<Rightarrow> 'a word \<Rightarrow> 8 word \<Rightarrow> 'a word \<Rightarrow> bool" where
  "poll_hit match msk cond v = ((if v AND msk = match then 1 else 0) = cond)"

definition poll_rd :: "nat \<Rightarrow> 8 word \<Rightarrow> 16 word \<Rightarrow> 16 word \<Rightarrow> ('h, 'd, 16 word) mepa" where
  "poll_rd p devad addr v = do {
     (_, v') \<leftarrow> (if devad = 0 then phy_reg_rd p (ucast addr)
                 else phy_mmd_reg_rd p (ucast devad) (ucast addr) v);
     State_Monad.return v' }"

definition phy_mmd_reg_poll :: "nat \<Rightarrow> nat \<Rightarrow> 8 word \<Rightarrow> 16 word \<Rightarrow> 16 word \<Rightarrow> 16 word \<Rightarrow> 8 word \<Rightarrow>
    32 word \<Rightarrow> 16 word \<Rightarrow> ('h, 'd, (mepa_rc \<times> 16 word) option) mepa" where
  "phy_mmd_reg_poll fuel p devad addr match msk cond to v0 = do {
     timer \<leftarrow> MEPA_MTIMER_START to;
     poll_loop fuel timer (poll_rd p devad addr) (poll_hit match msk cond) v0 }"

definition poll_rd32 :: "nat \<Rightarrow> 8 word \<Rightarrow> 16 word \<Rightarrow> 32 word \<Rightarrow> ('h, 'd, 32 word) mepa" where
  "poll_rd32 p devad addr v = do {
     (_, v') \<leftarrow> phy_mmd_reg_rd32 p devad (ucast addr) v;
     State_Monad.return v' }"

definition phy_mmd_reg_poll32 :: "nat \<Rightarrow> nat \<Rightarrow> 8 word \<Rightarrow> 16 word \<Rightarrow> 32 word \<Rightarrow> 32 word \<Rightarrow> 8 word \<Rightarrow>
    32 word \<Rightarrow> 32 word \<Rightarrow> ('h, 'd, (mepa_rc \<times> 32 word) option) mepa" where
  "phy_mmd_reg_poll32 fuel p devad addr match msk cond to v0 = do {
     timer \<leftarrow> MEPA_MTIMER_START to;
     poll_loop fuel timer (poll_rd32 p devad addr) (poll_hit match msk cond) v0 }"

section \<open>The accessors keep an invariant of the world\<close>

lemma keeps_poll_loop:
  assumes "keeps I clock_read" "\<And>v. keeps I (rd v)"
  shows "keeps I (poll_loop n timer rd hit v)"
  by (induction n arbitrary: v)
    (auto simp: MEPA_MTIMER_TIMEOUT_def intro!: keeps_rules assms)

context bus_invariant
begin

lemma keeps_phy_reg_rd: "keeps I (phy_reg_rd p off)"
  unfolding phy_reg_rd_def by (intro keeps_rules bus_keeps)

lemma keeps_phy_reg_wr: "keeps I (phy_reg_wr p off v)"
  unfolding phy_reg_wr_def by (intro keeps_rules bus_keeps)

lemma keeps_phy_mmd_reg_rd: "keeps I (phy_mmd_reg_rd p mmd off v0)"
  unfolding phy_mmd_reg_rd_def by (intro keeps_rules bus_keeps)

lemma keeps_phy_mmd_reg_wr: "keeps I (phy_mmd_reg_wr p mmd off v)"
  unfolding phy_mmd_reg_wr_def by (intro keeps_rules bus_keeps)

lemmas phy_lib_keeps = keeps_phy_reg_rd keeps_phy_reg_wr keeps_phy_mmd_reg_rd keeps_phy_mmd_reg_wr

lemma keeps_phy_mmd_reg_rd32: "keeps I (phy_mmd_reg_rd32 p mmd off v0)"
  unfolding phy_mmd_reg_rd32_def by (intro keeps_rules phy_lib_keeps)

lemma keeps_modify: "keeps I (phy_reg_modify p off m v)" "keeps I (phy_mmd_reg_modify p mmd off m v)"
  unfolding phy_reg_modify_def phy_mmd_reg_modify_def by (intro keeps_rules phy_lib_keeps)+

lemma keeps_bits: "keeps I (phy_reg_set_bits p off v)" "keeps I (phy_reg_clear_bits p off v)"
  "keeps I (phy_mmd_reg_set_bits p mmd off v)" "keeps I (phy_mmd_reg_clear_bits p mmd off v)"
  unfolding phy_reg_set_bits_def phy_reg_clear_bits_def phy_mmd_reg_set_bits_def
    phy_mmd_reg_clear_bits_def
  by (rule keeps_modify)+

lemmas reg_keeps = bus_keeps phy_lib_keeps keeps_modify keeps_bits

lemma keeps_poll_rd: "keeps I (poll_rd p devad addr v)"
  unfolding poll_rd_def by (intro keeps_rules phy_lib_keeps)

lemma keeps_poll_rd32: "keeps I (poll_rd32 p devad addr v)"
  unfolding poll_rd32_def by (intro keeps_rules keeps_phy_mmd_reg_rd32)

end

section \<open>Polling ends\<close>

text \<open>
  A wall clock that advances: every reading is later than the one before, and
  neither a callout nor a sleep turns it back (\<open>tm h\<close> is the time of the
  hardware state \<open>h\<close>).
\<close>

definition clock_advances :: "('h \<Rightarrow> nat \<times> 'h) \<Rightarrow> ('h \<Rightarrow> nat) \<Rightarrow> bool" where
  "clock_advances clk tm = (\<forall>h. fst (clk h) = tm h \<and> tm h < tm (snd (clk h)))"

definition keeps_time :: "('h \<Rightarrow> nat) \<Rightarrow> 'h mepa_device \<Rightarrow> bool" where
  "keeps_time tm d =
    ((case miim_read (callout d) of None \<Rightarrow> True
      | Some f \<Rightarrow> \<forall>a h. tm h \<le> tm (snd (f (callout_ctx d) a h))) \<and>
     (case miim_write (callout d) of None \<Rightarrow> True
      | Some f \<Rightarrow> \<forall>a v h. tm h \<le> tm (snd (f (callout_ctx d) a v h))) \<and>
     (case lock_enter (callout d) of None \<Rightarrow> True | Some f \<Rightarrow> \<forall>h. tm h \<le> tm (f h)) \<and>
     (case lock_exit (callout d) of None \<Rightarrow> True | Some f \<Rightarrow> \<forall>h. tm h \<le> tm (f h)))"

definition time_inv :: "('h \<Rightarrow> nat) \<Rightarrow> ('h \<Rightarrow> nat \<times> 'h) \<Rightarrow> (nat \<Rightarrow> 'h mepa_device) \<Rightarrow> nat \<Rightarrow>
    ('h, 'd) world \<Rightarrow> bool" where
  "time_inv tm clk dv t w = (t \<le> tm (hw w) \<and> os_clock w = clk \<and> devs w = dv \<and>
     (\<forall>p. keeps_time tm (dv p)) \<and> (\<forall>n h. tm h \<le> tm (os_sleep w n h)))"

lemma keeps_timeD:
  assumes "\<forall>p. keeps_time tm (dv p)"
  shows "miim_read (callout (dv p)) = Some f \<Longrightarrow> tm h \<le> tm (snd (f (callout_ctx (dv p)) a h))"
    and "miim_write (callout (dv p)) = Some g \<Longrightarrow> tm h \<le> tm (snd (g (callout_ctx (dv p)) a v h))"
    and "lock_enter (callout (dv p)) = Some e \<Longrightarrow> tm h \<le> tm (e h)"
    and "lock_exit (callout (dv p)) = Some x \<Longrightarrow> tm h \<le> tm (x h)"
  using spec [OF assms, of p] unfolding keeps_time_def by simp_all

interpretation time: world_invariant "time_inv tm clk dv t"
  for tm :: "'h \<Rightarrow> nat" and clk dv t
proof
  show "keeps (time_inv tm clk dv t) (dev_miim_read p a)" for p a
    by (rule movesI) (auto simp: time_inv_def prim_defs prim_simps split: option.split prod.split
        intro: le_trans keeps_timeD)
  show "keeps (time_inv tm clk dv t) (dev_miim_write p a v)" for p a v
    by (rule movesI) (auto simp: time_inv_def prim_defs prim_simps split: option.split
        intro: le_trans keeps_timeD)
  show "keeps (time_inv tm clk dv t) (MEPA_MSLEEP n)" for n
    by (rule movesI) (auto simp: time_inv_def prim_defs prim_simps intro: le_trans)
  show "keeps (time_inv tm clk dv t) (MEPA_NSLEEP n)" for n
    by (rule movesI) (auto simp: time_inv_def prim_defs prim_simps intro: le_trans)
  show "keeps (time_inv tm clk dv t) (upd_data p f)" for p f
    by (rule movesI) (simp add: time_inv_def)
qed

lemma time_lock_call:
  assumes "t \<le> tm h" "\<forall>p. keeps_time tm (dv p)"
  shows "lock_enter (callout (dv p)) = Some f \<Longrightarrow> t \<le> tm (f h)"
    and "lock_exit (callout (dv p)) = Some f \<Longrightarrow> t \<le> tm (f h)"
  using le_trans [OF assms(1) keeps_timeD(3) [of tm dv, OF assms(2)]]
    le_trans [OF assms(1) keeps_timeD(4) [of tm dv, OF assms(2)]] by blast+

lemma time_locks:
  "keeps (time_inv tm clk dv t) (MEPA_ENTER p)" "keeps (time_inv tm clk dv t) (MEPA_EXIT p)"
  by (auto simp: moves_def time_inv_def MEPA_ENTER_def MEPA_EXIT_def prim_simps time_lock_call
      split: option.split)

lemma clock_read_simps [simp]:
  "val clock_read w = fst (os_clock w (hw w))"
  "exec clock_read w = w\<lparr>hw := snd (os_clock w (hw w))\<rparr>"
  by (simp_all add: clock_read_def val_def exec_def Let_def split: prod.split)

lemma poll_loop_sound:
  assumes "val (poll_loop n timer rd hit v) w = Some (rc, v')"
  shows "(rc = MEPA_RC_OK \<and> hit v') \<or> (rc = MEPA_RC_INCOMPLETE \<and> \<not> hit v')"
  using assms
  by (induction n arbitrary: v w) (auto simp: MEPA_MTIMER_TIMEOUT_def split: if_splits)

lemma poll_loop_ends:
  assumes "clock_advances clk tm" "\<And>v t. keeps (time_inv tm clk dv t) (rd v)"
    and "time_inv tm clk dv t w" "timer < t + n"
  shows "val (poll_loop (Suc n) timer rd hit v) w \<noteq> None"
  using assms(3,4)
proof (induction n arbitrary: v w t)
  case 0
  then show ?case
    using assms(1) by (auto simp: MEPA_MTIMER_TIMEOUT_def clock_advances_def time_inv_def)
next
  case (Suc n)
  let ?w1 = "w\<lparr>hw := snd (os_clock w (hw w))\<rparr>"
  let ?w2 = "exec (rd v) ?w1"
  have "time_inv tm clk dv (Suc t) ?w1"
    using Suc.prems(1) assms(1) unfolding time_inv_def clock_advances_def
    by (auto simp: Suc_le_eq intro: le_less_trans)
  then have "time_inv tm clk dv (Suc t) ?w2"
    by (rule movesD [OF assms(2)])
  then have "val (poll_loop (Suc n) timer rd hit (val (rd v) ?w1)) ?w2 \<noteq> None"
    by (rule Suc.IH) (use Suc.prems in simp)
  then show ?case
    by (simp add: MEPA_MTIMER_TIMEOUT_def del: poll_loop.simps
        add: poll_loop.simps(2) [of "Suc n"])
qed

text \<open>The two poll functions share the argument.\<close>

lemma poll_result:
  assumes "clock_advances clk tm" "\<And>v t. keeps (time_inv tm clk dv t) (rd v)"
    and "time_inv tm clk dv 0 w" "unat (to * 1000) < fuel"
  shows "\<exists>rc v'. val (do { timer \<leftarrow> MEPA_MTIMER_START to; poll_loop fuel timer rd hit v0 }) w
      = Some (rc, v') \<and> (rc = MEPA_RC_OK \<and> hit v' \<or> rc = MEPA_RC_INCOMPLETE \<and> \<not> hit v')"
proof -
  obtain n where n: "fuel = Suc n" using assms(4) by (cases fuel) auto
  let ?w1 = "w\<lparr>hw := snd (os_clock w (hw w))\<rparr>"
  have t: "fst (os_clock w (hw w)) = tm (hw w)" "time_inv tm clk dv (Suc (tm (hw w))) ?w1"
    using assms(1,3) by (auto simp: time_inv_def clock_advances_def Suc_le_eq)
  let ?r = "val (poll_loop fuel (tm (hw w) + unat (to * 1000)) rd hit v0) ?w1"
  have "?r \<noteq> None"
    unfolding n by (rule poll_loop_ends [OF assms(1,2) t(2)]) (use assms(4) n in simp)
  then obtain rc v' where r: "?r = Some (rc, v')" by auto
  from poll_loop_sound [OF r] r t(1) show ?thesis
    by (simp add: MEPA_MTIMER_START_def)
qed

section \<open>What the accessors do to the registers\<close>

lemma ucast_ctl: "ucast (0x4000 OR n :: 32 word) = (0x4000 OR ucast n :: 16 word)"
  by (simp add: unsigned_or_eq)

lemmas decoder_simps = dec_write_def dec_read_def win_after_write_def win_after_read_def
  win_func_def win_reg_def win_func_select win_dev_select ucast_ctl

lemma lspec_phy_reg_rd:
  assumes ok: "bus_at dv p" and "plain (ucast off)"
    and "\<And>v. Q (0, v) D [LRd (callout_ctx (dv p)) (Dir (ucast off)) v]"
  shows "lspec dv (phy_reg_rd p off) D Q"
  using assms bus_ok_present [OF ok] unfolding phy_reg_rd_def bus_present_def
  by (intro lspec_bind lspec_dev_of) (simp add: lspec_miim_read)

lemma lspec_phy_reg_wr:
  assumes ok: "bus_at dv p" and "plain (ucast off)"
    and "Q 0 D [LWr (callout_ctx (dv p)) (Dir (ucast off)) v]"
  shows "lspec dv (phy_reg_wr p off v) D Q"
  using assms bus_ok_present [OF ok] unfolding phy_reg_wr_def bus_present_def
  by (intro lspec_bind lspec_dev_of) (simp add: lspec_miim_write)

text \<open>
  An MMD access with any callouts: success is one logical access to the register
  that was asked for, an error none at all.
\<close>

lemma dspec_phy_mmd_reg_rd_any:
  assumes n: "five_bit (ucast mmd)"
    and Q: "\<And>rc v s'. dec_ops s' = dec_ops s @ (if rc = 0
        then [LRd (callout_ctx (dv p)) (Mmd (ucast mmd) (ucast off)) v] else []) \<Longrightarrow> Q (rc, v) D s'"
  shows "dspec dv (phy_mmd_reg_rd p mmd off v0) D s Q"
proof (cases "bus_present (dv p)")
  case True
  have step: "dspec dv (do { rc \<leftarrow> dev_miim_write p a v;
      if rc \<noteq> 0 then State_Monad.return (rc, 0) else k }) D s' Q"
    if "dec_ops s' = dec_ops s" "dec_ops (dec_write (callout_ctx (dv p)) a v s') = dec_ops s"
      "dspec dv k D (dec_write (callout_ctx (dv p)) a v s') Q"
    for a v s' k
    using that
    by (intro dspec_bind dspec_miim_write_any True) (auto intro!: dspec_return Q)
  show ?thesis using True unfolding phy_mmd_reg_rd_def
    by (intro dspec_bind dspec_dev_of)
      (auto simp: bus_present_def decoder_simps n True
        intro!: step dspec_miim_read_any Q)
next
  case False
  then show ?thesis unfolding phy_mmd_reg_rd_def bus_present_def
    by (intro dspec_bind dspec_dev_of) (auto intro!: dspec_return Q)
qed

lemma dspec_phy_mmd_reg_wr_any:
  assumes n: "five_bit (ucast mmd)"
    and Q: "\<And>rc s'. dec_ops s' = dec_ops s @ (if rc = 0
        then [LWr (callout_ctx (dv p)) (Mmd (ucast mmd) (ucast off)) v] else []) \<Longrightarrow> Q rc D s'"
  shows "dspec dv (phy_mmd_reg_wr p mmd off v) D s Q"
proof (cases "bus_present (dv p)")
  case True
  have step: "dspec dv (do { rc \<leftarrow> dev_miim_write p a v;
      if rc \<noteq> 0 then State_Monad.return rc else k }) D s' Q"
    if "dec_ops s' = dec_ops s" "dec_ops (dec_write (callout_ctx (dv p)) a v s') = dec_ops s"
      "dspec dv k D (dec_write (callout_ctx (dv p)) a v s') Q"
    for a v s' k
    using that
    by (intro dspec_bind dspec_miim_write_any True) (auto intro!: dspec_return Q)
  show ?thesis using True unfolding phy_mmd_reg_wr_def
    by (intro dspec_bind dspec_dev_of)
      (auto simp: bus_present_def decoder_simps n True
        intro!: step dspec_miim_write_any Q)
next
  case False
  then show ?thesis unfolding phy_mmd_reg_wr_def bus_present_def
    by (intro dspec_bind dspec_dev_of) (auto intro!: dspec_return Q)
qed

text \<open>With callouts that succeed, the accesses succeed.\<close>

lemma dspec_phy_mmd_reg_rd:
  assumes ok: "bus_at dv p" and n: "five_bit (ucast mmd)"
    and Q: "\<And>v s'. dec_ops s' = dec_ops s @ [LRd (callout_ctx (dv p)) (Mmd (ucast mmd) (ucast off)) v] \<Longrightarrow> Q (0, v) D s'"
  shows "dspec dv (phy_mmd_reg_rd p mmd off v0) D s Q"
  using bus_ok_present [OF ok] unfolding phy_mmd_reg_rd_def bus_present_def
  by (intro dspec_bind dspec_dev_of)
    (auto simp: decoder_simps n intro!: dspec_bind dspec_miim_write dspec_miim_read ok Q)

lemma dspec_phy_mmd_reg_wr:
  assumes ok: "bus_at dv p" and n: "five_bit (ucast mmd)"
    and Q: "\<And>s'. dec_ops s' = dec_ops s @ [LWr (callout_ctx (dv p)) (Mmd (ucast mmd) (ucast off)) v] \<Longrightarrow> Q 0 D s'"
  shows "dspec dv (phy_mmd_reg_wr p mmd off v) D s Q"
  using bus_ok_present [OF ok] unfolding phy_mmd_reg_wr_def bus_present_def
  by (intro dspec_bind dspec_dev_of)
    (auto simp: decoder_simps n intro!: dspec_bind dspec_miim_write dspec_miim_read ok Q)

lemma lspec_phy_mmd_reg_rd:
  assumes "bus_at dv p" "five_bit (ucast mmd)"
    "\<And>v. Q (0, v) D [LRd (callout_ctx (dv p)) (Mmd (ucast mmd) (ucast off)) v]"
  shows "lspec dv (phy_mmd_reg_rd p mmd off v0) D Q"
  by (rule lspecI, rule dspec_phy_mmd_reg_rd) (use assms in auto)

lemma lspec_phy_mmd_reg_wr:
  assumes "bus_at dv p" "five_bit (ucast mmd)"
    "Q 0 D [LWr (callout_ctx (dv p)) (Mmd (ucast mmd) (ucast off)) v]"
  shows "lspec dv (phy_mmd_reg_wr p mmd off v) D Q"
  by (rule lspecI, rule dspec_phy_mmd_reg_wr) (use assms in auto)

lemma ucast_next_neq: "(ucast (off + 1 :: 32 word) :: 16 word) \<noteq> ucast off"
proof
  have e: "even (ucast x :: 16 word) = even x" for x :: "32 word"
    by transfer (simp add: even_take_bit_eq)
  assume "(ucast (off + 1) :: 16 word) = ucast off"
  then have "even (ucast (off + 1) :: 16 word) = even (ucast off :: 16 word)" by simp
  then show False unfolding e by simp
qed

lemma halves: "push_bit 16 (ucast (ucast (drop_bit 16 v) :: 16 word)) OR
    ucast (ucast (v AND 0xFFFF) :: 16 word) = (v :: 32 word)"
proof -
  have m: "(0xFFFF :: 32 word) = mask 16" by (simp add: mask_eq_exp_minus_1)
  show ?thesis unfolding m
    by (rule bit_eqI) (auto simp: bit_simps)
qed

lemma ucast_8_32_16 [simp]: "(ucast (ucast (m :: 8 word) :: 32 word) :: 16 word) = ucast m"
  by (rule bit_eqI) (auto simp: bit_simps)

lemma lspec_phy_mmd_reg_wr32:
  assumes "bus_at dv p" "five_bit (ucast mmd)"
    and "Q 0 D [LWr (callout_ctx (dv p)) (Mmd (ucast mmd) (ucast (off + 1))) (ucast (drop_bit 16 v)),
      LWr (callout_ctx (dv p)) (Mmd (ucast mmd) (ucast off)) (ucast (v AND 0xFFFF))]"
  shows "lspec dv (phy_mmd_reg_wr32 p mmd off v) D Q"
  using assms unfolding phy_mmd_reg_wr32_def Let_def
  by (auto intro!: lspec_bind lspec_phy_mmd_reg_wr)

lemma lspec_phy_mmd_reg_rd32:
  assumes "bus_at dv p" "five_bit (ucast mmd)"
    and "\<And>l h. Q (0, push_bit 16 (ucast h) OR ucast l) D
      [LRd (callout_ctx (dv p)) (Mmd (ucast mmd) (ucast off)) l,
       LRd (callout_ctx (dv p)) (Mmd (ucast mmd) (ucast (off + 1))) h]"
  shows "lspec dv (phy_mmd_reg_rd32 p mmd off v0) D Q"
  using assms unfolding phy_mmd_reg_rd32_def
  by (auto intro!: lspec_bind lspec_phy_mmd_reg_rd lspec_return)

lemma lspec_phy_mmd_reg_modify:
  assumes "bus_at dv p" "five_bit (ucast mmd)"
    and "\<And>x y. y = (x AND NOT msk) OR v \<Longrightarrow> Q 0 D
      (LRd (callout_ctx (dv p)) (Mmd (ucast mmd) (ucast off)) x #
       (if x = y then [] else [LWr (callout_ctx (dv p)) (Mmd (ucast mmd) (ucast off)) y]))"
  shows "lspec dv (phy_mmd_reg_modify p mmd off msk v) D Q"
  unfolding phy_mmd_reg_modify_def
proof (rule lspec_bind, rule lspec_phy_mmd_reg_rd [OF assms(1,2)])
  fix x
  show "lspec dv (case (0, x) of (rc, v') \<Rightarrow>
      if rc \<noteq> MEPA_RC_OK then State_Monad.return rc
      else let new_val = v' AND NOT msk OR v in
        if v' \<noteq> new_val then phy_mmd_reg_wr p mmd off new_val else State_Monad.return rc) D
     (\<lambda>y D'' o2. Q y D'' ([LRd (callout_ctx (dv p)) (Mmd (ucast mmd) (ucast off)) x] @ o2))"
    using assms(3) [OF refl, of x]
    by (auto simp: Let_def intro!: lspec_phy_mmd_reg_wr [OF assms(1,2)] lspec_return split: if_splits)
qed

section \<open>Properties\<close>

text \<open>
  What a sequence of writes that stops at the first failing callout does: an initial
  part of the sequence reaches the callout, all of it but the last write succeeds,
  and the code of the last one is returned.
\<close>

definition write_seq ::
  "nat \<Rightarrow> (8 word \<times> 16 word) list \<Rightarrow> mepa_rc \<Rightarrow> io_event list \<Rightarrow> bool" where
  "write_seq c ws rc es = (\<exists>done a x rest. ws = done @ (a, x) # rest \<and>
     es = map (\<lambda>(a, x). MiimWr c a x MEPA_RC_OK) done @ [MiimWr c a x rc] \<and>
     (rc = MEPA_RC_OK \<longrightarrow> rest = []))"

lemma write_seq_one: "write_seq c [(a, x)] rc [MiimWr c a x rc]"
  unfolding write_seq_def by (rule exI [of _ "[]"]) auto

lemma write_seq_stop: "rc \<noteq> MEPA_RC_OK \<Longrightarrow> write_seq c ((a, x) # ws) rc [MiimWr c a x rc]"
  unfolding write_seq_def by (rule exI [of _ "[]"]) auto

lemma write_seq_step:
  assumes "write_seq c ws rc es"
  shows "write_seq c ((a, x) # ws) rc (MiimWr c a x MEPA_RC_OK # es)"
proof -
  obtain d b y r where "ws = d @ (b, y) # r"
    "es = map (\<lambda>(a, x). MiimWr c a x MEPA_RC_OK) d @ [MiimWr c b y rc]" "rc = MEPA_RC_OK \<longrightarrow> r = []"
    using assms unfolding write_seq_def by blast
  then show ?thesis unfolding write_seq_def
    by (intro exI [of _ "(a, x) # d"] exI [of _ b] exI [of _ y] exI [of _ r]) auto
qed

lemma miim_write_event:
  assumes "bus_present (devs w p)"
  shows "io (exec (dev_miim_write p a v) w) =
      io w @ [MiimWr (callout_ctx (devs w p)) a v (val (dev_miim_write p a v) w)]"
    "devs (exec (dev_miim_write p a v) w) = devs w"
  using assms by (auto simp: bus_present_def prim_defs prim_simps split: prod.splits)

lemma phy_mmd_reg_wr_events:
  assumes "run_state (phy_mmd_reg_wr p mmd off v) w = (rc, w')"
  shows "if bus_present (devs w p)
    then \<exists>es. write_seq (callout_ctx (devs w p))
        [(13, ucast mmd), (14, ucast off), (13, 0x4000 OR ucast mmd), (14, v)] rc es \<and> io w' = io w @ es
    else rc = MEPA_RC_NOT_IMPLEMENTED \<and> io w' = io w"
proof (cases "bus_present (devs w p)")
  case True
  then have "miim_read (callout (devs w p)) \<noteq> None \<and> miim_write (callout (devs w p)) \<noteq> None"
    by (simp add: bus_present_def)
  then show ?thesis using assms True
    by (auto simp: phy_mmd_reg_wr_def run_state_eq miim_write_event unsigned_or_eq
        intro!: write_seq_one write_seq_stop write_seq_step)
next
  case False
  then show ?thesis using assms by (auto simp: phy_mmd_reg_wr_def bus_present_def run_state_eq)
qed

text \<open>
  C18: \<open>phy_mmd_reg_wr\<close> with any callouts, failing ones included.  When it returns
  \<open>MEPA_RC_OK\<close>, exactly one write reached the hardware, of the value that was asked
  for to the MMD register that was asked for; when it returns anything else, no
  MMD or other logical register was touched.  The calls of \<open>miim_write\<close> are an
  initial part of the four writes to the window, MMD number, register number, data
  mode, value; all but the last of them answered \<open>MEPA_RC_OK\<close>, and the code
  returned is what the last one answered.  So an error is the first failing
  callout's, after which nothing is accessed, and \<open>MEPA_RC_OK\<close> means that all four
  succeeded.  Without the callouts the code is \<open>MEPA_RC_NOT_IMPLEMENTED\<close> and nothing
  is called.  The device heap, the private data and the crash flag are unchanged.
\<close>

theorem phy_mmd_reg_wr_outcome:
  assumes "five_bit (ucast mmd)" "run_state (phy_mmd_reg_wr p mmd off v) w = (rc, w')"
  shows "lops w' = lops w @ (if rc = MEPA_RC_OK
           then [LWr (callout_ctx (devs w p)) (Mmd (ucast mmd) (ucast off)) v] else [])
    \<and> devs w' = devs w \<and> priv w' = priv w \<and> crashed w' = crashed w
    \<and> (if miim_read (callout (devs w p)) \<noteq> None \<and> miim_write (callout (devs w p)) \<noteq> None
       then \<exists>done a x rest.
         [(13, ucast mmd), (14, ucast off), (13, 0x4000 OR ucast mmd), (14, v)] = done @ (a, x) # rest
         \<and> io w' = io w @ map (\<lambda>(a, x). MiimWr (callout_ctx (devs w p)) a x MEPA_RC_OK) done @
             [MiimWr (callout_ctx (devs w p)) a x rc]
         \<and> (rc = MEPA_RC_OK \<longrightarrow> rest = [])
       else rc = MEPA_RC_NOT_IMPLEMENTED \<and> io w' = io w)"
proof -
  have "dspec (devs w) (phy_mmd_reg_wr p mmd off v) (priv w) (decode (io w))
      (\<lambda>rc D' s'. D' = priv w \<and> dec_ops s' = dec_ops (decode (io w)) @ (if rc = 0
        then [LWr (callout_ctx (devs w p)) (Mmd (ucast mmd) (ucast off)) v] else []))"
    by (rule dspec_phy_mmd_reg_wr_any) (use assms(1) in auto)
  from dspec_run [OF this assms(2)] phy_mmd_reg_wr_events [OF assms(2)] show ?thesis
    unfolding bus_present_def write_seq_def by (auto simp: lops_def split: if_splits)
qed

theorem phy_mmd_reg_wr_outcome_witness:
  "\<exists>w'. run_state (phy_mmd_reg_wr 1 7 60 6) (sim_world (\<lambda>_. 0) (\<lambda>_. ())) = (0, w')
      \<and> lops w' = [LWr 1 (Mmd 7 60) 6] \<and> devs w' = sim_dev \<and> \<not> crashed w'"
proof -
  let ?w = "sim_world (\<lambda>_. 0) (\<lambda>_. ())" and ?m = "phy_mmd_reg_wr 1 7 60 6"
  have "val ?m ?w = 0"
    by (simp add: phy_mmd_reg_wr_def sim_eval)
  then have r: "run_state ?m ?w = (0, exec ?m ?w)"
    by (simp add: run_state_eq)
  show ?thesis
    using phy_mmd_reg_wr_outcome [OF _ r] r
    by (simp add: five_bit_def sim_dev_def)
qed

text \<open>
  A 32-bit MMD register written with \<open>phy_mmd_reg_wr32\<close> and read with
  \<open>phy_mmd_reg_rd32\<close> gives the value back, on hardware whose two 16-bit registers
  answer the value written last; both calls succeed, and the writes are the high
  half at \<open>off + 1\<close> first and then the low half at \<open>off\<close>.
\<close>

theorem phy_mmd_reg_32_roundtrip:
  assumes "bus_at (devs w) p" "five_bit (ucast mmd)"
    and "run_state (do { rc \<leftarrow> phy_mmd_reg_wr32 p mmd off v;
                         (rc', x) \<leftarrow> phy_mmd_reg_rd32 p mmd off x0;
                         State_Monad.return (rc, rc', x) }) w = ((rc, rc', x), w')"
    and "lops w' = lops w @ ops" "reads_back m ops"
  shows "rc = MEPA_RC_OK \<and> rc' = MEPA_RC_OK \<and> x = v \<and>
    writes ops = [(Mmd (ucast mmd) (ucast (off + 1)), ucast (drop_bit 16 v)),
                  (Mmd (ucast mmd) (ucast off), ucast (v AND 0xFFFF))]"
proof -
  have "lspec (devs w) (do { rc \<leftarrow> phy_mmd_reg_wr32 p mmd off v;
                         (rc', x) \<leftarrow> phy_mmd_reg_rd32 p mmd off x0;
                         State_Monad.return (rc, rc', x) }) (priv w)
    (\<lambda>(rc, rc', x) D' ops. reads_back m ops \<longrightarrow> rc = 0 \<and> rc' = 0 \<and> x = v \<and>
      writes ops = [(Mmd (ucast mmd) (ucast (off + 1)), ucast (drop_bit 16 v)),
                  (Mmd (ucast mmd) (ucast off), ucast (v AND 0xFFFF))])"
    by (intro lspec_bind lspec_phy_mmd_reg_wr32 [OF _ assms(2)] lspec_phy_mmd_reg_rd32 [OF _ assms(2)] assms(1))
      (auto intro!: lspec_bind lspec_phy_mmd_reg_rd32 lspec_return assms simp: halves ucast_next_neq ucast_next_neq[symmetric])
  from lspec_run [OF this assms(3)] assms(4,5) show ?thesis by auto
qed

theorem phy_mmd_reg_32_roundtrip_witness:
  "let w = sim_world (\<lambda>_. 0) (\<lambda>_. ());
       m = do { rc \<leftarrow> phy_mmd_reg_wr32 1 7 60 0x12345678;
                (rc', x) \<leftarrow> phy_mmd_reg_rd32 1 7 60 0;
                State_Monad.return (rc, rc', x) }
   in val m w = (0, 0, 0x12345678) \<and>
      writes (lops (exec m w)) = [(Mmd 7 61, 0x1234), (Mmd 7 60, 0x5678)]"
proof -
  let ?w = "sim_world (\<lambda>_. 0) (\<lambda>_. ())"
  let ?m = "do { rc \<leftarrow> phy_mmd_reg_wr32 1 7 60 0x12345678;
                (rc', x) \<leftarrow> phy_mmd_reg_rd32 1 7 60 0;
                State_Monad.return (rc, rc', x) }"
  obtain rc rc' x where v: "val ?m ?w = (rc, rc', x)" by (metis prod_cases3)
  have rb: "reads_back (\<lambda>_. 0) (lops (exec ?m ?w))"
    by (simp add: phy_mmd_reg_wr32_def phy_mmd_reg_rd32_def phy_mmd_reg_wr_def phy_mmd_reg_rd_def
        sim_eval lops_def decode_def dec_init_def dec_write_def dec_read_def)
  have r: "run_state ?m ?w = ((rc, rc', x), exec ?m ?w)"
    using v by (simp add: run_state_eq)
  show ?thesis
    using phy_mmd_reg_32_roundtrip [OF _ _ r _ rb] v
    by (simp add: five_bit_def Let_def)
qed

text \<open>
  C20: \<open>phy_mmd_reg_poll\<close> returns, and returns the truth.  With a wall clock that
  advances, \<open>to * 1000 + 1\<close> iterations are enough; the code is \<open>MEPA_RC_OK\<close> exactly
  when the last value read satisfies the condition and \<open>MEPA_RC_INCOMPLETE\<close> when it
  does not, for any hardware, failing accesses included.
\<close>

theorem phy_mmd_reg_poll_returns:
  assumes "clock_advances clk tm" "time_inv tm clk dv 0 w" "unat (to * 1000) < fuel"
  shows "\<exists>rc v. val (phy_mmd_reg_poll fuel p devad addr match msk cond to v0) w = Some (rc, v) \<and>
    (rc = MEPA_RC_OK \<and> poll_hit match msk cond v \<or>
     rc = MEPA_RC_INCOMPLETE \<and> \<not> poll_hit match msk cond v)"
  unfolding phy_mmd_reg_poll_def
  by (rule poll_result [OF assms(1) time.keeps_poll_rd assms(2,3)])

lemma sim_clock: "clock_advances (os_clock (sim_world m D)) sim_time"
  by (simp add: clock_advances_def sim_world_def)

lemma sim_time_inv: "time_inv sim_time (os_clock (sim_world m D)) sim_dev 0 (sim_world m D)"
  by (auto simp: time_inv_def keeps_time_def sim_world_def sim_dev_def sim_callout_def
      sim_miim_read_def sim_miim_write_def)

theorem phy_mmd_reg_poll_returns_witness:
  "\<exists>rc v. val (phy_mmd_reg_poll 1001 1 3 1 0x8000 0x8000 0 1 0) (sim_world (\<lambda>_. 0x1) (\<lambda>_. ()))
     = Some (rc, v) \<and> (rc = MEPA_RC_OK \<and> poll_hit 0x8000 0x8000 0 v \<or>
                       rc = MEPA_RC_INCOMPLETE \<and> \<not> poll_hit 0x8000 0x8000 0 v)"
  by (rule phy_mmd_reg_poll_returns [OF sim_clock sim_time_inv]) simp

end
