(* ===== verification/Lan8814_Poll_Spec.thy ===== *)
theory Lan8814_Poll_Spec
  imports Lan8814_Poll
begin

text \<open>
  What \<open>lan8814_poll\<close> does: the private data it may change, the resolution of speed and
  duplex against a specification, the restart of a stuck auto-negotiation, and the
  MAC-side actions when the link changes.
\<close>

section \<open>What a poll does to the private data\<close>

text \<open>The fields that a poll does not change: the other eight record what it saw.\<close>

definition poll_static :: "phy_data \<Rightarrow> phy_data" where
  "poll_static d = d\<lparr>pd_link_status := False, pd_speed_status := MEPA_SPEED_UNDEFINED,
     pd_fdx_status := False, pd_aneg_after_link_up := False, pd_crc_workaround := False,
     pd_loop_cnt := 0, pd_dsh_complete := False, pd_aneg_flag := False\<rparr>"

lemma poll_static_upd [simp]:
  "poll_static (d\<lparr>pd_link_status := a\<rparr>) = poll_static d"
  "poll_static (d\<lparr>pd_speed_status := b\<rparr>) = poll_static d"
  "poll_static (d\<lparr>pd_fdx_status := c\<rparr>) = poll_static d"
  "poll_static (d\<lparr>pd_aneg_after_link_up := e\<rparr>) = poll_static d"
  "poll_static (d\<lparr>pd_crc_workaround := f\<rparr>) = poll_static d"
  "poll_static (d\<lparr>pd_loop_cnt := g\<rparr>) = poll_static d"
  "poll_static (d\<lparr>pd_dsh_complete := h\<rparr>) = poll_static d"
  "poll_static (d\<lparr>pd_aneg_flag := i\<rparr>) = poll_static d"
  by (simp_all add: poll_static_def)

lemma pspec_qsgmii_tx_abilities: "Q () D \<Longrightarrow> pspec (lan8814_qsgmii_tx_abilities p s d) D Q"
  unfolding lan8814_qsgmii_tx_abilities_def by (intro pspec_basic pspec_reg)

lemma pspec_downshift:
  assumes "Q 0 (D(p := (D p)\<lparr>pd_dsh_complete := True\<rparr>))"
  shows "pspec (lan8814_downshift p) D Q"
  unfolding lan8814_downshift_def by (intro pspec_basic pspec_reg assms)

text \<open>A part of the poll changes the data of its own port only, outside the static fields.\<close>

definition dyn :: "nat \<Rightarrow> ('h, 'a) lan \<Rightarrow> bool" where
  "dyn p m = (\<forall>D. pspec m D (\<lambda>_ D'. \<exists>d. D' = D(p := d) \<and> poll_static d = poll_static (D p)))"

lemma dynI: "(\<And>D. pspec m D (\<lambda>_ D'. \<exists>d. D' = D(p := d) \<and> poll_static d = poll_static (D p))) \<Longrightarrow> dyn p m"
  by (simp add: dyn_def)

lemma dyn_bind:
  assumes "dyn p m" "\<And>x. dyn p (f x)"
  shows "dyn p (State_Monad.bind m f)"
proof (intro dynI pspec_bind)
  fix D
  from assms(1) have "pspec m D (\<lambda>_ D'. \<exists>d. D' = D(p := d) \<and> poll_static d = poll_static (D p))"
    by (simp add: dyn_def)
  then show "pspec m D (\<lambda>x D'. pspec (f x) D' (\<lambda>_ D''. \<exists>d. D'' = D(p := d) \<and>
      poll_static d = poll_static (D p)))"
  proof (rule pspec_mono)
    fix x D' assume "\<exists>d. D' = D(p := d) \<and> poll_static d = poll_static (D p)"
    then obtain d where d: "D' = D(p := d)" "poll_static d = poll_static (D p)" by blast
    from assms(2) have "pspec (f x) D' (\<lambda>_ D''. \<exists>e. D'' = D'(p := e) \<and> poll_static e = poll_static (D' p))"
      by (simp add: dyn_def)
    then show "pspec (f x) D' (\<lambda>_ D''. \<exists>d. D'' = D(p := d) \<and> poll_static d = poll_static (D p))"
      by (rule pspec_mono) (use d in auto)
  qed
qed

lemma dyn_same: "(\<And>D. pspec m D (\<lambda>_ D'. D' = D)) \<Longrightarrow> dyn p m"
  by (rule dynI, erule_tac x = D in meta_allE, erule pspec_mono, rule_tac x = "D p" in exI) simp

lemma dyn_upd: "(\<And>d. poll_static (f d) = poll_static d) \<Longrightarrow> dyn p (upd_data p f)"
  by (intro dynI pspec_upd_data) auto

lemma dyn_if: "(b \<Longrightarrow> dyn p m) \<Longrightarrow> (\<not> b \<Longrightarrow> dyn p n) \<Longrightarrow> dyn p (if b then m else n)"
  by simp

lemma dyn_let: "(\<And>x. dyn p (f x)) \<Longrightarrow> dyn p (Let v f)"
  by simp

lemma dyn_case_prod: "(\<And>x y. dyn p (f x y)) \<Longrightarrow> dyn p (case v of (x, y) \<Rightarrow> f x y)"
  by (cases v) simp

lemma dyn_return: "dyn p (State_Monad.return x)"
  by (intro dyn_same pspec_return refl)

lemma dyn_only_if: "(b \<Longrightarrow> dyn p m) \<Longrightarrow> dyn p (only_if b m)"
  unfolding only_if_def by (intro dyn_if dyn_bind dyn_return)

lemma dyn_prims:
  "dyn p (data_of p)" "dyn p (RD p a)" "dyn p (WRM p a v msk)" "dyn p (MEPA_ENTER p)"
  "dyn p (MEPA_EXIT p)" "dyn p (lan8814_workaround_fifo_reset p)"
  "dyn p (lan8814_workaround_half_duplex p)" "dyn p (lan8814_qsgmii_tx_abilities p s b)"
  by (intro dyn_same pspec_basic pspec_reg pspec_fifo_reset pspec_half_duplex
      pspec_qsgmii_tx_abilities refl)+

lemma dyn_downshift: "dyn p (lan8814_downshift p)"
  by (intro dynI pspec_downshift) auto

lemmas dyn_rules = dyn_return dyn_bind dyn_if dyn_only_if dyn_let dyn_case_prod dyn_prims
  dyn_downshift dyn_upd

lemma dyn_poll_enabled: "dyn p (poll_enabled p st)"
  unfolding poll_enabled_def poll_aneg_def poll_end_def poll_forced_def poll_partner_def poll_crc_def
    poll_link_up_def poll_link_down_def poll_downshift_def poll_aneg_stuck_def
  by (intro dyn_rules) simp_all

lemma dyn_poll: "dyn p (lan8814_poll p st)"
  unfolding lan8814_poll_def poll_disabled_def by (intro dyn_rules dyn_poll_enabled) simp_all

lemma pspec_any: "(\<And>x D'. Q x D') \<Longrightarrow> pspec m D Q"
  by (simp add: pspec_def)

section \<open>The resolution of speed and duplex\<close>

text \<open>
  The specification: the modes in the order of preference of IEEE 802.3 Annex 28B that
  the PHY supports, what this side may use, and what the partner's ability registers 5
  and 10 announce.  The resolved mode is the first one that both have.
\<close>

definition link_modes :: "(mepa_port_speed \<times> bool) list" where
  "link_modes = [(MEPA_SPEED_1G, True), (MEPA_SPEED_100M, True), (MEPA_SPEED_100M, False),
     (MEPA_SPEED_10M, True), (MEPA_SPEED_10M, False)]"

definition own_mode :: "phy_data \<Rightarrow> mepa_port_speed \<times> bool \<Rightarrow> bool" where
  "own_mode d m = (let a = conf_aneg (pd_conf d) in
     m = (MEPA_SPEED_1G, True) \<and> adv_speed_1g_fdx a \<and> \<not> pd_dsh_complete d \<or>
     m = (MEPA_SPEED_100M, True) \<and> adv_speed_100m_fdx a \<or>
     m = (MEPA_SPEED_100M, False) \<and> adv_speed_100m_hdx a \<or>
     m = (MEPA_SPEED_10M, True) \<and> adv_speed_10m_fdx a \<or>
     m = (MEPA_SPEED_10M, False) \<and> adv_speed_10m_hdx a)"

definition partner_mode :: "16 word \<Rightarrow> 16 word \<Rightarrow> mepa_port_speed \<times> bool \<Rightarrow> bool" where
  "partner_mode v5 v10 m =
    (m = (MEPA_SPEED_1G, True) \<and> bit v10 11 \<or> m = (MEPA_SPEED_100M, True) \<and> bit v5 8 \<or>
     m = (MEPA_SPEED_100M, False) \<and> bit v5 7 \<or> m = (MEPA_SPEED_10M, True) \<and> bit v5 6 \<or>
     m = (MEPA_SPEED_10M, False) \<and> bit v5 5)"

definition resolve :: "phy_data \<Rightarrow> 16 word \<Rightarrow> 16 word \<Rightarrow> (mepa_port_speed \<times> bool) option" where
  "resolve d v5 v10 = find (\<lambda>m. own_mode d m \<and> partner_mode v5 v10 m) link_modes"

lemma resolve_eq: "resolve d v5 v10 = (let a = conf_aneg (pd_conf d) in
    if bit v10 11 \<and> adv_speed_1g_fdx a \<and> \<not> pd_dsh_complete d then Some (MEPA_SPEED_1G, True)
    else if bit v5 8 \<and> adv_speed_100m_fdx a then Some (MEPA_SPEED_100M, True)
    else if bit v5 7 \<and> adv_speed_100m_hdx a then Some (MEPA_SPEED_100M, False)
    else if bit v5 6 \<and> adv_speed_10m_fdx a then Some (MEPA_SPEED_10M, True)
    else if bit v5 5 \<and> adv_speed_10m_hdx a then Some (MEPA_SPEED_10M, False) else None)"
  by (simp add: resolve_def link_modes_def own_mode_def partner_mode_def Let_def)

lemma lspec_poll_crc:
  assumes ok: "bus_at dv p"
    and Q: "\<And>st' D' ops. st_link st' \<longrightarrow> st' = st\<lparr>st_speed := MEPA_SPEED_1G, st_fdx := True\<rparr> \<Longrightarrow> Q st' D' ops"
  shows "lspec dv (poll_crc p st v) D Q"
  unfolding poll_crc_def by (intro lspec_basic lspec_reg ok Q) (simp_all add: reg_side)

lemma lspec_poll_partner:
  assumes ok: "bus_at dv p"
    and Q: "\<And>st' D' ops. st_link st' \<longrightarrow>
      st' = (case resolve (D p) v5 v10 of None \<Rightarrow> st | Some (s, f) \<Rightarrow> st\<lparr>st_speed := s, st_fdx := f\<rparr>) \<Longrightarrow> Q st' D' ops"
  shows "lspec dv (poll_partner p st v5 v10) D Q"
  unfolding poll_partner_def Let_def has_bits_pow
  by (intro lspec_basic lspec_poll_crc ok Q) (simp_all add: resolve_eq Let_def, auto)

text \<open>The other parts run through on a working bus.\<close>

lemma lspec_poll_downshift:
  assumes ok: "bus_at dv p" and Q: "\<And>D' ops. (link \<longrightarrow> D' = D) \<Longrightarrow> Q () D' ops"
  shows "lspec dv (poll_downshift p link v2 v3) D Q"
  unfolding poll_downshift_def lan8814_downshift_def
  by (intro lspec_basic lspec_reg ok Q) (simp_all add: reg_side)

lemma lspec_poll_stuck:
  assumes ok: "bus_at dv p" and Q: "\<And>D' ops. (link \<longrightarrow> D' = D) \<Longrightarrow> Q () D' ops"
  shows "lspec dv (poll_aneg_stuck p link v v3) D Q"
  unfolding poll_aneg_stuck_def
  by (intro lspec_basic lspec_reg ok Q) (simp_all add: reg_side)

lemma lspec_poll_end:
  assumes ok: "bus_at dv p" and Q: "\<And>D' ops. Q () D' ops"
  shows "lspec dv (poll_end p st v) D Q"
  unfolding poll_end_def poll_link_up_def poll_link_down_def lan8814_qsgmii_tx_abilities_def
  by (intro lspec_basic lspec_reg lspec_fifo_reset lspec_half_duplex ok Q) (simp_all add: reg_side)

definition aneg_result :: "nat \<Rightarrow> phy_data \<Rightarrow> 16 word \<Rightarrow> mepa_status \<Rightarrow> lop list \<Rightarrow> bool" where
  "aneg_result c d v st ops = (bit v 5 \<and> (\<exists>v5 v10. LRd c (Dir 5) v5 \<in> set ops \<and> LRd c (Dir 10) v10 \<in> set ops \<and>
     (st_speed st, st_fdx st) = (case resolve d v5 v10 of None \<Rightarrow> (MEPA_SPEED_UNDEFINED, True) | Some m \<Rightarrow> m) \<and>
     aneg_obey_pause (st_aneg st) = (conf_flow_control (pd_conf d) \<and> (bit v5 10 \<or> bit v5 11)) \<and>
     aneg_generate_pause (st_aneg st) = (conf_flow_control (pd_conf d) \<and> bit v5 10)))"

lemma lspec_poll_aneg:
  assumes ok: "bus_at dv p" and near: "\<not> lb_near_end_ena (pd_loopback (D p))"
  shows "lspec dv (poll_aneg p st v) D (\<lambda>(st', _) _ ops. st_link st' \<longrightarrow>
      st_link st \<and> aneg_result (callout_ctx (dv p)) (D p) v st' ops)"
proof -
  let ?st = "poll_aneg_link False v st"
  have l: "st_link ?st = (st_link st \<and> bit v 5)" and s: "st_speed ?st = MEPA_SPEED_UNDEFINED" "st_fdx ?st"
    by (auto simp: poll_aneg_link_def Let_def has_bits_pow)
  show ?thesis
    unfolding poll_aneg_def
    using near
    apply (intro lspec_bind lspec_data_of lspec_let lspec_RD lspec_poll_downshift lspec_poll_stuck ok)
    apply (simp_all add: reg_side l)
    apply (intro conjI impI)
    subgoal by (rule lspec_return) (auto simp: l)
    subgoal
      apply (intro lspec_bind lspec_RD lspec_poll_partner lspec_return ok)
        apply (simp_all add: reg_side)
      subgoal for v5 v10
        unfolding aneg_result_def poll_pause_def Let_def has_bits_pow
        by (intro impI conjI exI [of _ v5] exI [of _ v10]) (auto simp: s split: option.splits)
      done
    done
qed

section \<open>The restart of a stuck auto-negotiation\<close>

lemma stuck_step:
  assumes "bus_at dv p" "\<not> bit v 5" "bit v3 13" "\<not> pd_aneg_flag (D p)"
    and Q1: "unat (pd_loop_cnt (D p) + 1) \<le> 2 * unat (pd_rep_cnt (D p)) \<Longrightarrow>
      Q () (D(p := (D p)\<lparr>pd_loop_cnt := pd_loop_cnt (D p) + 1\<rparr>)) []"
    and Q2: "\<And>x. unat (pd_loop_cnt (D p) + 1) > 2 * unat (pd_rep_cnt (D p)) \<Longrightarrow>
      Q () (D(p := (D p)\<lparr>pd_loop_cnt := 0, pd_aneg_flag := True\<rparr>))
        [LRd (callout_ctx (dv p)) (Dir 0) x, LWr (callout_ctx (dv p)) (Dir 0) (x OR 0x200)]"
  shows "lspec dv (poll_aneg_stuck p False v v3) D Q"
  unfolding poll_aneg_stuck_def has_bits_pow
  by (intro lspec_basic lspec_reg assms(1)) (use assms in \<open>simp_all add: reg_side merge_set not_less\<close>)

section \<open>What happens when the link changes\<close>

text \<open>
  Up to the label \<open>end\<close>, a poll writes only the control registers 0, 9 and 31, and
  keeps the link status of the previous poll, the device information and the
  configuration.
\<close>

definition link_part :: "phy_data \<Rightarrow> bool \<times> phy_dev_info \<times> mepa_conf" where
  "link_part d = (pd_link_status d, pd_dev d, pd_conf d)"

definition lquiet :: "(nat \<Rightarrow> 'h mepa_device) \<Rightarrow> nat \<Rightarrow> ('h, 'a) lan \<Rightarrow> bool" where
  "lquiet dv p m = (\<forall>D. lspec dv m D (\<lambda>_ D' ops. only_writes {Dir 0, Dir 9, Dir 31} ops \<and>
     link_part (D' p) = link_part (D p)))"

lemma lquietD: "lquiet dv p m \<Longrightarrow> lspec dv m D (\<lambda>_ D' ops. only_writes {Dir 0, Dir 9, Dir 31} ops \<and>
     link_part (D' p) = link_part (D p))"
  by (simp add: lquiet_def)

lemma lquietI: "(\<And>D. lspec dv m D (\<lambda>_ D' ops. only_writes {Dir 0, Dir 9, Dir 31} ops \<and>
     link_part (D' p) = link_part (D p))) \<Longrightarrow> lquiet dv p m"
  by (simp add: lquiet_def)

lemma lquiet_bind:
  assumes "lquiet dv p m" "\<And>x. lquiet dv p (f x)"
  shows "lquiet dv p (State_Monad.bind m f)"
  by (intro lquietI lspec_bind, rule lspec_mono [OF lquietD [OF assms(1)]],
      rule lspec_mono [OF lquietD [OF assms(2)]]) auto

lemma lquiet_return: "lquiet dv p (State_Monad.return x)"
  by (intro lquietI lspec_return) simp

lemma lquiet_if: "(b \<Longrightarrow> lquiet dv p m) \<Longrightarrow> (\<not> b \<Longrightarrow> lquiet dv p n) \<Longrightarrow> lquiet dv p (if b then m else n)"
  by simp

lemma lquiet_let: "(\<And>x. lquiet dv p (f x)) \<Longrightarrow> lquiet dv p (Let v f)"
  by simp

lemma lquiet_only_if: "lquiet dv p m \<Longrightarrow> lquiet dv p (only_if b m)"
  unfolding only_if_def by (intro lquiet_if lquiet_bind lquiet_return)

lemma lquiet_upd: "(\<And>d. link_part (f d) = link_part d) \<Longrightarrow> lquiet dv p (upd_data p f)"
  by (intro lquietI lspec_upd_data) simp

lemma lquiet_data_of: "lquiet dv p (data_of p)"
  by (intro lquietI lspec_data_of) simp

lemma lquiet_RD: "bus_at dv p \<Longrightarrow> plain (ucast a) \<Longrightarrow> lquiet dv p (RD p a)"
  by (intro lquietI lspec_RD) simp_all

lemma lquiet_WRM: "bus_at dv p \<Longrightarrow> plain (ucast a) \<Longrightarrow> a \<in> {0, 9, 31} \<Longrightarrow> lquiet dv p (WRM p a v msk)"
  by (intro lquietI lspec_WRM) auto

lemmas lquiet_rules = lquiet_return lquiet_bind lquiet_if lquiet_let lquiet_only_if lquiet_upd
  lquiet_data_of lquiet_RD lquiet_WRM

lemma lquiet_aneg:
  assumes "bus_at dv p"
  shows "lquiet dv p (poll_aneg p st v)"
  unfolding poll_aneg_def poll_downshift_def poll_aneg_stuck_def poll_partner_def poll_crc_def
    lan8814_downshift_def
  by (intro lquiet_rules assms) (simp_all add: reg_side link_part_def)

lemma lquiet_forced:
  assumes "bus_at dv p"
  shows "lquiet dv p (poll_forced p st)"
  unfolding poll_forced_def
  by (intro lquiet_rules assms) (simp_all add: reg_side link_part_def)

text \<open>
  The registers that matter for the MAC side when the link changes; what the port advertises to the MAC
  side has the duplex mode in bit 12 and the speed in bits 9 (100M) and 10 (1G).
\<close>

definition mac_word :: "mepa_status \<Rightarrow> 16 word \<Rightarrow> bool" where
  "mac_word st y = (bit y 14 \<and> bit y 12 = st_fdx st \<and> bit y 10 = (st_speed st = MEPA_SPEED_1G) \<and>
     bit y 9 = (st_speed st = MEPA_SPEED_100M))"

definition fifo_ops :: "phy_data \<Rightarrow> mepa_status \<Rightarrow> lop list \<Rightarrow> bool" where
  "fifo_ops d st ops = (
     let up = (lan8814_is_lan8814 d \<and> \<not> pd_link_status d \<and> st_link st);
         down = (lan8814_is_lan8814 d \<and> pd_link_status d \<and> \<not> st_link st);
         half = (up \<and> st_speed st \<in> {MEPA_SPEED_10M, MEPA_SPEED_100M} \<and> \<not> st_fdx st);
         tell = (up \<and> (conf_speed (pd_conf d) = MEPA_SPEED_AUTO \<or> conf_speed (pd_conf d) = MEPA_SPEED_1G) \<and>
                 conf_mac_if_aneg_ena (pd_conf d))
     in writes_to (Ext 5 44) ops = (if down then [1] else []) \<and>
        writes_to (Ext 5 45) ops = (if down then [1] else []) \<and>
        (\<forall>r \<in> {(32, 0x200), (33, 0x404), (34, 0x608), (38, 0x200), (39, 0x404), (40, 0x608)}.
           writes_to (Ext 5 (fst r)) ops = (if half then [snd r] else [])) \<and>
        (if tell then \<exists>y. writes_to (Ext 5 20) ops = [y] \<and> mac_word st y else writes_to (Ext 5 20) ops = []))"

lemma lspec_tx_abilities:
  assumes ok: "bus_at dv p"
    and Q: "\<And>ops. \<exists>v w. writes ops = [(Ext 5 20, v), (Ext 5 19, w)] \<and> mac_word st v \<Longrightarrow> Q () D ops"
  shows "lspec dv (lan8814_qsgmii_tx_abilities p (st_speed st) (st_fdx st)) D Q"
  unfolding lan8814_qsgmii_tx_abilities_def Let_def
  apply (intro lspec_bind lspec_reg lspec_return ok)
     apply (simp_all add: reg_side)
  by (auto intro!: Q simp: mac_word_def)

lemma lspec_link_up:
  assumes ok: "bus_at dv p"
    and Q: "\<And>D' ops. fifo_ops (D p) st ops \<Longrightarrow> Q () D' ops"
    and s: "lan8814_is_lan8814 (D p)" "\<not> pd_link_status (D p)" "st_link st"
  shows "lspec dv (poll_link_up p st) D Q"
  unfolding poll_link_up_def
  by (intro lspec_basic lspec_tx_abilities lspec_half_duplex ok Q s)
    (auto simp add: s fifo_ops_def Let_def writes_to_def is_10_100_def)

lemma lspec_link_down:
  assumes ok: "bus_at dv p"
    and Q: "\<And>D' ops. fifo_ops (D p) st ops \<Longrightarrow> \<not> pd_dsh_complete (D' p) \<Longrightarrow> Q () D' ops"
    and s: "lan8814_is_lan8814 (D p)" "pd_link_status (D p)" "\<not> st_link st"
  shows "lspec dv (poll_link_down p v) D Q"
  unfolding poll_link_down_def
  by (intro lspec_basic lspec_reg lspec_fifo_reset ok Q)
    (simp_all add: s fifo_ops_def Let_def writes_to_def reg_side)

text \<open>A change of the link is stored, resets the counters, and ends a downshift when the link went down.\<close>

definition link_stored :: "phy_data \<Rightarrow> mepa_status \<Rightarrow> phy_data \<Rightarrow> bool" where
  "link_stored d st d' = (pd_link_status d' = st_link st \<and>
     (lan8814_is_lan8814 d \<and> st_link st \<noteq> pd_link_status d \<longrightarrow>
       pd_loop_cnt d' = 0 \<and> \<not> pd_aneg_flag d' \<and> (\<not> st_link st \<longrightarrow> \<not> pd_dsh_complete d')))"

lemma lspec_poll_end_ops:
  assumes ok: "bus_at dv p"
    and Q: "\<And>D' ops. fifo_ops (D p) st ops \<Longrightarrow> link_stored (D p) st (D' p) \<Longrightarrow> Q () D' ops"
  shows "lspec dv (poll_end p st v) D Q"
proof (cases "lan8814_is_lan8814 (D p) \<and> st_link st \<noteq> pd_link_status (D p)")
  case False
  then have "fifo_ops (D p) st []" by (auto simp: fifo_ops_def Let_def)
  with False show ?thesis
    unfolding poll_end_def by (intro lspec_bind lspec_data_of lspec_only_if lspec_upd_data Q) (auto simp: link_stored_def)
next
  case True
  then show ?thesis
    unfolding poll_end_def
    by (intro lspec_bind lspec_data_of lspec_only_if lspec_if lspec_upd_data lspec_link_up
        lspec_link_down [where st = st] ok Q) (auto simp: link_stored_def)
qed

lemma fifo_ops_prefix:
  assumes "only_writes {Dir 0, Dir 9, Dir 31} o1" "link_part d' = link_part d" "fifo_ops d' st o2"
  shows "fifo_ops d st (o1 @ o2)"
proof -
  have "writes_to (Ext n a) o1 = []" for n a
    by (rule only_writes_to [OF assms(1)]) simp
  moreover have "pd_link_status d' = pd_link_status d" "lan8814_is_lan8814 d' = lan8814_is_lan8814 d"
    "pd_conf d' = pd_conf d"
    using assms(2) by (simp_all add: link_part_def lan8814_is_lan8814_def)
  ultimately show ?thesis
    using assms(3) by (simp only: fifo_ops_def writes_to_append append_Nil)
qed

lemma link_stored_prefix: "link_part d' = link_part d \<Longrightarrow> link_stored d' st = link_stored d st"
  by (simp add: link_stored_def link_part_def lan8814_is_lan8814_def fun_eq_iff)

section \<open>Polls of a stuck port\<close>

lemma lspec_downshift_idle:
  "\<not> pd_aneg_flag (D p) \<Longrightarrow> Q () D [] \<Longrightarrow> lspec dv (poll_downshift p link v2 v3) D Q"
  unfolding poll_downshift_def by (intro lspec_bind lspec_data_of lspec_only_if) simp_all

text \<open>An enabled port that negotiates, without loopback, with the link down and no restart yet.\<close>

definition negotiates :: "phy_data \<Rightarrow> bool" where
  "negotiates d = (conf_admin_enable (pd_conf d) \<and> conf_speed (pd_conf d) \<in> {MEPA_SPEED_AUTO, MEPA_SPEED_1G} \<and>
     \<not> lb_near_end_ena (pd_loopback d) \<and> \<not> lb_connector_ena (pd_loopback d) \<and>
     \<not> pd_link_status d \<and> \<not> pd_aneg_flag d)"

text \<open>One poll of such a port, when the registers 1 and 20 show that it is stuck.\<close>

definition stuck_words :: "nat \<Rightarrow> lop list \<Rightarrow> bool" where
  "stuck_words c ops = ((\<forall>v. LRd c (Dir 1) v \<in> set ops \<longrightarrow> \<not> bit v 2 \<and> \<not> bit v 5) \<and>
     (\<forall>v. LRd c (Dir 20) v \<in> set ops \<longrightarrow> bit v 13))"

definition stuck_poll :: "nat \<Rightarrow> phy_data \<Rightarrow> phy_data \<Rightarrow> lop list \<Rightarrow> bool" where
  "stuck_poll c d d' ops =
    (if unat (pd_loop_cnt d + 1) \<le> 2 * unat (pd_rep_cnt d)
     then writes ops = [] \<and> negotiates d' \<and> pd_rep_cnt d' = pd_rep_cnt d \<and> pd_loop_cnt d' = pd_loop_cnt d + 1
     else \<exists>x. LRd c (Dir 0) x \<in> set ops \<and> writes ops = [(Dir 0, x OR 0x200)] \<and>
       pd_loop_cnt d' = 0 \<and> pd_aneg_flag d')"

lemma lspec_stuck_mid:
  assumes ok: "bus_at dv p" and n: "negotiates (D p)" and v: "\<not> bit v 5" "bit v3 13"
  shows "lspec dv (poll_aneg_stuck p False v v3) D
    (\<lambda>_ D' ops. stuck_poll (callout_ctx (dv p)) (D p) (D' p) ops \<and> \<not> pd_link_status (D' p))"
proof -
  have "\<not> pd_aneg_flag (D p)" using n by (simp add: negotiates_def)
  then show ?thesis
    by (intro stuck_step ok v) (use n in \<open>auto simp: negotiates_def stuck_poll_def\<close>)
qed

lemma lspec_end_down:
  assumes "\<not> pd_link_status (D p)" "\<not> st_link s"
    and Q: "\<And>d. d = (D p)\<lparr>pd_link_status := False, pd_speed_status := st_speed s, pd_fdx_status := st_fdx s\<rparr> \<Longrightarrow>
      Q () (D(p := d)) []"
  shows "lspec dv (poll_end p s v) D Q"
  unfolding poll_end_def using assms
  by (intro lspec_bind lspec_data_of lspec_only_if lspec_upd_data) simp_all

lemma stuck_poll_end:
  assumes "stuck_poll c d d' ops" "\<not> pd_link_status d'" "writes pre = []"
  shows "stuck_poll c d (d'\<lparr>pd_link_status := False, pd_speed_status := sp, pd_fdx_status := f\<rparr>) (pre @ ops)"
  using assms by (auto simp: stuck_poll_def negotiates_def split: if_splits)

lemma lspec_poll_any:
  assumes ok: "bus_at dv p" and n: "\<not> lb_near_end_ena (pd_loopback (D p))"
  shows "lspec dv (do { (status, v) \<leftarrow> poll_aneg p s v; poll_end p status v; State_Monad.return status }) D (\<lambda>_ _ _. True)"
  by (intro lspec_bind, rule lspec_mono [OF lspec_poll_aneg [where D = D, OF ok n]], rule lspec_case_prod)
    (intro lspec_bind lspec_poll_end ok lspec_return, simp)

lemma lspec_poll_negotiates:
  assumes ok: "bus_at dv p" and n: "negotiates (D p)"
  shows "lspec dv (lan8814_poll p st) D (\<lambda>_ D' ops. stuck_words (callout_ctx (dv p)) ops \<longrightarrow>
      stuck_poll (callout_ctx (dv p)) (D p) (D' p) ops)"
proof -
  let ?c = "callout_ctx (dv p)"
  let ?Q = "\<lambda>_ D' ops. stuck_words ?c ops \<longrightarrow> stuck_poll ?c (D p) (D' p) ops"
  have d: "\<not> lb_near_end_ena (pd_loopback (D p))" "\<not> lb_connector_ena (pd_loopback (D p))" "\<not> pd_aneg_flag (D p)"
    "(conf_speed (pd_conf (D p)) = MEPA_SPEED_AUTO \<or> conf_speed (pd_conf (D p)) = MEPA_SPEED_1G) = True"
    using n by (auto simp: negotiates_def)
  have l: "st_link (poll_aneg_link False v (st\<lparr>st_link := False\<rparr>)) = False" for v
    by (simp add: poll_aneg_link_def)
  have aneg: "lspec dv (do { (status, v) \<leftarrow> poll_aneg p (st\<lparr>st_link := False\<rparr>) v; poll_end p status v; State_Monad.return status }) D
      (\<lambda>_ D' ops. stuck_words ?c (LRd ?c (Dir 1) v # ops) \<longrightarrow> stuck_poll ?c (D p) (D' p) (LRd ?c (Dir 1) v # ops))"
    if v: "\<not> bit v 5" for v
    unfolding poll_aneg_def
    apply (rule lspec_bind, rule lspec_bind, rule lspec_data_of, rule lspec_let)
    apply (rule lspec_bind, rule lspec_RD [OF ok], simp add: reg_side)
    apply (rule lspec_bind, rule lspec_RD [OF ok], simp add: reg_side)
    subgoal for v3 v31
      apply (simp only: d(1) l simp_thms if_True)
      apply (cases "bit v3 13")
      subgoal
        apply (rule lspec_bind, rule lspec_downshift_idle [where D = D, OF d(3)])
        apply (rule lspec_bind, rule lspec_mono [OF lspec_stuck_mid [where D = D, OF ok n v]], assumption)
        apply (rule lspec_return, rule lspec_case_prod, rule lspec_bind)
        apply (rule lspec_end_down, simp, use l in auto)
        apply (rule lspec_return)
        subgoal for D' ops
          using stuck_poll_end [of ?c "D p" "D' p" ops "[LRd ?c (Dir 1) v, LRd ?c (Dir 20) v3, LRd ?c (Dir 31) v31]"]
          by auto
        done
      subgoal
        by (intro lspec_bind lspec_poll_downshift lspec_poll_stuck ok lspec_return lspec_case_prod lspec_poll_end)
          (auto simp: stuck_words_def)
      done
    done
  have "lspec dv (poll_enabled p st) D ?Q"
    unfolding poll_enabled_def
    apply (rule lspec_bind, rule lspec_RD [OF ok], simp add: reg_side)
    apply (rule lspec_let, rule lspec_bind, rule lspec_data_of, rule lspec_let)
    subgoal for v
      apply (simp only: d if_False if_True simp_thms has_bits_pow)
      apply (cases "bit v 2 \<or> bit v 5")
      subgoal by (rule lspec_mono [OF lspec_poll_any [where D = D, OF ok d(1)]]) (auto simp: stuck_words_def)
      subgoal by simp (rule lspec_mono [OF aneg], simp_all)
      done
    done
  then show ?thesis
    unfolding lan8814_poll_def
    by (intro lspec_bind lspec_enter lspec_data_of)
      (use n in \<open>simp add: negotiates_def, auto elim!: lspec_mono intro!: lspec_bind lspec_exit lspec_return\<close>)
qed

lemma lspec_poll_runs:
  assumes "bus_at dv p"
  shows "lspec dv (lan8814_poll p st) D (\<lambda>_ _ _. True)"
proof -
  have q: "lquiet dv p
      (if \<not> near \<and> conn then do { val2 \<leftarrow> RD p LAN8814_BASIC_CONTROL; State_Monad.return (poll_ctrl_status val2 s, v) }
       else if au then poll_aneg p s v else poll_forced p s)" for near conn s v au
    by (intro lquiet_rules lquiet_aneg lquiet_forced assms) (simp add: reg_side)
  have "lspec dv (poll_enabled p st) D (\<lambda>_ _ _. True)"
    unfolding poll_enabled_def
    apply (rule lspec_bind, rule lspec_RD [OF assms], simp add: reg_side)
    apply (rule lspec_let, rule lspec_bind, rule lspec_data_of, rule lspec_let, rule lspec_bind)
    apply (rule lspec_mono [OF lquietD [OF q]], rule lspec_case_prod, rule lspec_bind)
    by (rule lspec_poll_end [OF assms], rule lspec_return, simp)
  then show ?thesis
    unfolding lan8814_poll_def poll_disabled_def
    by (intro lspec_bind lspec_enter lspec_data_of lspec_if)
      (auto elim!: lspec_mono intro!: lspec_let lspec_bind lspec_upd_data lspec_exit lspec_return)
qed

lemma stuck_words_append: "stuck_words c (o1 @ o2) = (stuck_words c o1 \<and> stuck_words c o2)"
  by (auto simp: stuck_words_def)

text \<open>Polls one after the other; a poll returns its status to a caller that does not look at it.\<close>

definition polls :: "nat \<Rightarrow> mepa_status list \<Rightarrow> ('h, unit) lan" where
  "polls p sts = for_each (\<lambda>st. do { lan8814_poll p st; State_Monad.return () }) sts"

lemma polls_Cons: "polls p (st # sts) =
    State_Monad.bind (do { lan8814_poll p st; State_Monad.return () }) (\<lambda>_. polls p sts)"
  by (simp add: polls_def)

lemma lspec_polls_any: "bus_at dv p \<Longrightarrow> lspec dv (polls p sts) D (\<lambda>_ _ _. True)"
proof (induction sts arbitrary: D)
  case (Cons st sts)
  show ?case
    unfolding polls_Cons
    by (rule lspec_bind, rule lspec_bind, rule lspec_mono [OF lspec_poll_runs [OF Cons.prems]],
        rule lspec_return, rule lspec_mono [OF Cons.IH [OF Cons.prems]], simp)
qed (simp add: polls_def lspec_return)

lemma lspec_polls_stuck:
  assumes "bus_at dv p" "negotiates (D p)" "pd_loop_cnt (D p) = of_nat k"
    and "k + length sts \<le> 2 * unat (pd_rep_cnt (D p))" "unat (pd_rep_cnt (D p)) < 128"
  shows "lspec dv (polls p sts) D (\<lambda>_ D' ops. stuck_words (callout_ctx (dv p)) ops \<longrightarrow>
    writes ops = [] \<and> negotiates (D' p) \<and> pd_rep_cnt (D' p) = pd_rep_cnt (D p) \<and>
    pd_loop_cnt (D' p) = of_nat (k + length sts))"
  using assms(2-5)
proof (induction sts arbitrary: D k)
  case Nil
  then show ?case by (auto simp: polls_def intro: lspec_return)
next
  case (Cons st sts)
  let ?c = "callout_ctx (dv p)"
  have inc: "pd_loop_cnt (D p) + 1 = of_nat (Suc k)" "unat (of_nat (Suc k) :: 8 word) = Suc k"
    using Cons.prems unat_of_nat [of "Suc k", where ?'a = 8] by (simp_all add: take_bit_nat_eq_self)
  have c: "unat (pd_loop_cnt (D p) + 1) \<le> 2 * unat (pd_rep_cnt (D p))"
    unfolding inc using Cons.prems by simp
  have rest: "lspec dv (polls p sts) D' (\<lambda>_ D'' ops. stuck_words ?c ops \<longrightarrow>
      writes ops = [] \<and> negotiates (D'' p) \<and> pd_rep_cnt (D'' p) = pd_rep_cnt (D p) \<and>
      pd_loop_cnt (D'' p) = of_nat (Suc k + length sts))"
    if "stuck_poll ?c (D p) (D' p) ops" for D' ops
    using that c Cons.IH [of D' "Suc k"] Cons.prems inc(1) by (auto simp: stuck_poll_def simp del: of_nat_Suc)
  show ?case
    unfolding polls_Cons
    apply (rule lspec_bind, rule lspec_bind, rule lspec_mono [OF lspec_poll_negotiates [where D = D, OF assms(1) Cons.prems(1)]])
    apply (rule lspec_return)
    subgoal for _ D' ops
      apply (cases "stuck_words ?c ops")
      subgoal by (rule lspec_mono [OF rest]) (use c in \<open>auto simp: stuck_words_append stuck_poll_def\<close>)
      subgoal by (rule lspec_mono [OF lspec_polls_any [OF assms(1)]]) (auto simp: stuck_words_append)
      done
    done
qed

section \<open>Properties\<close>

text \<open>
  What a poll reports is what it stores.  On any bus, \<open>lan8814_poll\<close> answers OK,
  stores the link, speed and duplex it reports, changes no other device and no
  configuration, and reports the zero status for a port that is powered down.
\<close>

theorem lan8814_poll_reports:
  assumes "run_state (lan8814_poll p st) w = ((rc, st'), w')"
  shows "rc = MEPA_RC_OK \<and> priv w' = (priv w)(p := priv w' p) \<and>
    poll_static (priv w' p) = poll_static (priv w p) \<and>
    pd_link_status (priv w' p) = st_link st' \<and> pd_speed_status (priv w' p) = st_speed st' \<and>
    pd_fdx_status (priv w' p) = st_fdx st' \<and>
    (if conf_admin_enable (pd_conf (priv w p)) then True else st' = mepa_status_0)"
proof -
  let ?Q = "\<lambda>st D. pd_link_status (D p) = st_link st \<and> pd_speed_status (D p) = st_speed st \<and>
    pd_fdx_status (D p) = st_fdx st"
  have e: "pspec (poll_end p s v) D (\<lambda>_. ?Q s)" for s v D
    unfolding poll_end_def
    by (rule pspec_bind, rule pspec_data_of, rule pspec_bind, rule pspec_any, rule pspec_upd_data) simp
  have en: "pspec (poll_enabled p st) D ?Q" for D
    unfolding poll_enabled_def
    by (rule pspec_bind, rule pspec_any, rule pspec_let, rule pspec_bind, rule pspec_any,
        rule pspec_let, rule pspec_bind, rule pspec_any, rule pspec_case_prod, rule pspec_bind,
        rule pspec_mono [OF e], rule pspec_return)
  have "pspec (lan8814_poll p st) (priv w) (\<lambda>(rc, s) D. rc = 0 \<and> ?Q s D \<and>
      (if conf_admin_enable (pd_conf (priv w p)) then True else s = mepa_status_0))"
    unfolding lan8814_poll_def poll_disabled_def
    by (intro pspec_bind pspec_enter pspec_data_of pspec_if pspec_let pspec_upd_data pspec_return
        pspec_mono [OF en] pspec_exit) simp_all
  moreover have "pspec (lan8814_poll p st) (priv w)
      (\<lambda>_ D'. \<exists>d. D' = (priv w)(p := d) \<and> poll_static d = poll_static (priv w p))"
    using dyn_poll [of p st] unfolding dyn_def by blast
  ultimately show ?thesis
    using pspec_run [OF _ assms] by fastforce
qed

theorem lan8814_poll_reports_witness:
  "snd (val (lan8814_poll 4 (mepa_status_0\<lparr>st_link := True\<rparr>)) (sim_world (\<lambda>_. 0x2C) (\<lambda>_. phy_data_0))) = mepa_status_0"
proof -
  let ?w = "sim_world (\<lambda>_. 0x2C) (\<lambda>_. phy_data_0)"
  obtain rc st' where r: "val (lan8814_poll 4 (mepa_status_0\<lparr>st_link := True\<rparr>)) ?w = (rc, st')" by fastforce
  show ?thesis
    using lan8814_poll_reports [of 4 "mepa_status_0\<lparr>st_link := True\<rparr>" ?w rc st'] r
      run_state_eq [of "lan8814_poll 4 (mepa_status_0\<lparr>st_link := True\<rparr>)" ?w]
    by (simp add: phy_data_0_def)
qed

text \<open>
  C4: the resolved speed.  When a poll with auto-negotiation reports a link (and no
  loopback is on), the basic status register showed link and completed
  auto-negotiation, the reported speed and duplex are the first mode of the list of
  preference that both sides have, without 1G after a downshift, and the pause bits
  follow the partner's pause bits if flow control is on.
\<close>

theorem lan8814_poll_resolves:
  assumes "bus_at (devs w) p" "conf_admin_enable (pd_conf (priv w p))"
    and "conf_speed (pd_conf (priv w p)) \<in> {MEPA_SPEED_AUTO, MEPA_SPEED_1G}"
    and "\<not> lb_near_end_ena (pd_loopback (priv w p))" "\<not> lb_connector_ena (pd_loopback (priv w p))"
    and "run_state (lan8814_poll p st) w = ((rc, st'), w')" "st_link st'"
  shows "\<exists>ops v1 v5 v10. lops w' = lops w @ ops \<and>
    (\<forall>r \<in> {(Dir 1, v1), (Dir 5, v5), (Dir 10, v10)}.
       LRd (callout_ctx (devs w p)) (fst r) (snd r) \<in> set ops) \<and>
    bit v1 2 \<and> bit v1 5 \<and>
    (st_speed st', st_fdx st') = (case resolve (priv w p) v5 v10 of
       None \<Rightarrow> (MEPA_SPEED_UNDEFINED, True) | Some m \<Rightarrow> m) \<and>
    aneg_obey_pause (st_aneg st') =
      (conf_flow_control (pd_conf (priv w p)) \<and> (bit v5 10 \<or> bit v5 11)) \<and>
    aneg_generate_pause (st_aneg st') = (conf_flow_control (pd_conf (priv w p)) \<and> bit v5 10)"
proof -
  let ?c = "callout_ctx (devs w p)"
  let ?Q = "\<lambda>st' ops. st_link st' \<longrightarrow> (\<exists>v1. LRd ?c (Dir 1) v1 \<in> set ops \<and> bit v1 2 \<and>
     aneg_result ?c (priv w p) v1 st' ops)"
  have mono: "aneg_result c d v s ops \<Longrightarrow> aneg_result c d v s (a # ops @ ops')" for c d v s ops a ops'
    unfolding aneg_result_def by auto
  have "lspec (devs w) (poll_enabled p st) (priv w) (\<lambda>st' _. ?Q st')"
    unfolding poll_enabled_def
    apply (rule lspec_bind, rule lspec_RD [OF assms(1)], simp add: reg_side)
    apply (rule lspec_let, rule lspec_bind, rule lspec_data_of, rule lspec_let, rule lspec_bind)
    subgoal for v
      using assms(3-5) lspec_poll_aneg [of "devs w" p "priv w", OF assms(1) assms(4), of "st\<lparr>st_link := has_bits v 4\<rparr>" v]
      by (auto elim!: lspec_mono intro!: lspec_bind lspec_poll_end lspec_return assms(1) mono
          simp: has_bits_pow)
    done
  then have "lspec (devs w) (lan8814_poll p st) (priv w) (\<lambda>(rc, st') _. ?Q st')"
    unfolding lan8814_poll_def
    by (intro lspec_bind lspec_enter lspec_data_of)
      (simp add: assms(2), auto elim!: lspec_mono intro!: lspec_bind lspec_exit lspec_return)
  from lspec_run [OF this assms(6)] assms(7) show ?thesis
    unfolding aneg_result_def by fastforce
qed

theorem lan8814_poll_resolves_witness:
  "let d = phy_data_0\<lparr>pd_conf := mepa_conf_0\<lparr>conf_admin_enable := True, conf_speed := MEPA_SPEED_AUTO,
         conf_aneg := mepa_aneg_adv_0\<lparr>adv_speed_100m_hdx := True, adv_speed_10m_fdx := True\<rparr>\<rparr>\<rparr>;
       st' = snd (val (lan8814_poll 4 mepa_status_0) (sim_world (\<lambda>_. 0xFFFF) (\<lambda>_. d)))
   in st_link st' \<and> st_speed st' \<noteq> MEPA_SPEED_1G \<and> \<not> aneg_obey_pause (st_aneg st')"
proof -
  define d where "d = phy_data_0\<lparr>pd_conf := mepa_conf_0\<lparr>conf_admin_enable := True, conf_speed := MEPA_SPEED_AUTO,
         conf_aneg := mepa_aneg_adv_0\<lparr>adv_speed_100m_hdx := True, adv_speed_10m_fdx := True\<rparr>\<rparr>\<rparr>"
  let ?w = "sim_world (\<lambda>_. 0xFFFF) (\<lambda>_. d)"
  have d: "conf_admin_enable (pd_conf d)" "conf_speed (pd_conf d) = MEPA_SPEED_AUTO"
    "\<not> lb_near_end_ena (pd_loopback d)" "\<not> lb_connector_ena (pd_loopback d)"
    "\<not> adv_speed_1g_fdx (conf_aneg (pd_conf d))" "\<not> conf_flow_control (pd_conf d)"
    "\<not> lan8814_is_lan8814 d" "\<not> dsh_enable (pd_dsh_conf d)"
    "adv_speed_100m_hdx (conf_aneg (pd_conf d))" "\<not> adv_speed_100m_fdx (conf_aneg (pd_conf d))"
    by (simp_all add: d_def phy_data_0_def mepa_loopback_0_def mepa_aneg_adv_0_def lan8814_is_lan8814_def)
  have r: "has_bits 0xFFFF 4" "has_bits 0xFFFF 0x20" "has_bits 0xFFFF 0x80"
    by (simp_all add: has_bits_def)
  have l: "st_link (snd (val (lan8814_poll 4 mepa_status_0) ?w))"
    by (simp add: lan8814_poll_def poll_enabled_def poll_aneg_def poll_aneg_link_def poll_downshift_def
        poll_aneg_stuck_def poll_partner_def poll_pause_def poll_end_def RD_def lan8814_direct_reg_rd_def
        sim_eval MEPA_ENTER_def MEPA_EXIT_def sim_world_def d r Let_def only_if_def split: if_splits)
  obtain rc st' where v: "val (lan8814_poll 4 mepa_status_0) ?w = (rc, st')" by fastforce
  have "\<exists>ops v1 v5 v10. (st_speed st', st_fdx st') = (case resolve d v5 v10 of
       None \<Rightarrow> (MEPA_SPEED_UNDEFINED, True) | Some m \<Rightarrow> m) \<and> \<not> aneg_obey_pause (st_aneg st')"
    using lan8814_poll_resolves [of ?w 4 mepa_status_0 rc st' "exec (lan8814_poll 4 mepa_status_0) ?w"] d l v
      run_state_eq [of "lan8814_poll 4 mepa_status_0" ?w]
    by auto
  then show ?thesis
    using l v d unfolding d_def [symmetric] by (auto simp: Let_def resolve_eq split: if_splits)
qed

text \<open>
  C17: a stuck auto-negotiation is restarted.  An enabled port with speed auto or 1G, without loopback,
  whose link is down and whose counter is 0, has a repeat count \<open>r\<close> below 128.  As long as every
  poll reads that the link is down and auto-negotiation incomplete (bits 2 and 5 of register 1) while a signal is
  there (bit 13 of register 20), the first \<open>2 * r\<close> polls write nothing and count; the next one sets
  the restart bit of the basic control register, once, and clears the count.
\<close>

theorem lan8814_poll_restarts_stuck_aneg:
  assumes "bus_at (devs w) p" "negotiates (priv w p)" "pd_loop_cnt (priv w p) = 0"
    and "unat (pd_rep_cnt (priv w p)) < 128" "length sts = 2 * unat (pd_rep_cnt (priv w p))"
    and "w1 = exec (polls p sts) w" "w2 = exec (lan8814_poll p st) w1"
    and "lops w2 = lops w @ ops" "c = callout_ctx (devs w p)"
    and "\<And>v. LRd c (Dir 1) v \<in> set ops \<Longrightarrow> \<not> bit v 2 \<and> \<not> bit v 5"
    and "\<And>v. LRd c (Dir 20) v \<in> set ops \<Longrightarrow> bit v 13"
  shows "\<exists>ops1 ops2 x. lops w1 = lops w @ ops1 \<and> ops = ops1 @ ops2 \<and> writes ops1 = [] \<and>
    pd_loop_cnt (priv w1 p) = of_nat (length sts) \<and> \<not> pd_aneg_flag (priv w1 p) \<and>
    LRd c (Dir 0) x \<in> set ops2 \<and> writes ops2 = [(Dir 0, x OR 0x200)] \<and>
    pd_loop_cnt (priv w2 p) = 0 \<and> pd_aneg_flag (priv w2 p)"
proof -
  let ?n = "length sts"
  have "lspec (devs w) (polls p sts) (priv w) (\<lambda>_ D' ops. stuck_words c ops \<longrightarrow>
    writes ops = [] \<and> negotiates (D' p) \<and> pd_rep_cnt (D' p) = pd_rep_cnt (priv w p) \<and>
    pd_loop_cnt (D' p) = of_nat (0 + ?n))"
    unfolding assms(9) by (rule lspec_polls_stuck) (use assms(1-5) in simp_all)
  from lspec_world [OF this] obtain ops1 where w1: "devs w1 = devs w" "lops w1 = lops w @ ops1"
    "stuck_words c ops1 \<Longrightarrow> writes ops1 = [] \<and> negotiates (priv w1 p) \<and>
      pd_rep_cnt (priv w1 p) = pd_rep_cnt (priv w p) \<and> pd_loop_cnt (priv w1 p) = of_nat ?n"
    by (auto simp: assms(6))
  from lspec_world [OF lspec_poll_runs, of w1 p st] assms(1) w1 obtain ops2 where
    o: "lops w2 = lops w1 @ ops2" by (auto simp: assms(7))
  then have ops: "ops = ops1 @ ops2" using assms(8) w1(2) by simp
  have s: "stuck_words c ops1" "stuck_words c ops2"
    using assms(10,11) unfolding ops stuck_words_def by auto
  note w1' = w1(3) [OF s(1)]
  have n: "?n < 255" using assms(4,5) by presburger
  then have "unat (of_nat ?n + 1 :: 8 word) = Suc ?n"
    using unat_of_nat [of "Suc ?n", where ?'a = 8] by (simp add: take_bit_nat_eq_self add.commute)
  then have "stuck_poll c (priv w1 p) (priv w2 p) ops2 \<Longrightarrow> \<exists>x. LRd c (Dir 0) x \<in> set ops2 \<and>
      writes ops2 = [(Dir 0, x OR 0x200)] \<and> pd_loop_cnt (priv w2 p) = 0 \<and> pd_aneg_flag (priv w2 p)"
    using w1' assms(5) by (simp add: stuck_poll_def)
  moreover have "stuck_poll c (priv w1 p) (priv w2 p) ops2"
    using lspec_world [OF lspec_poll_negotiates, of w1 p st] assms(1,7,9) w1(1) w1' o s(2) by auto
  ultimately show ?thesis
    using w1(2) w1' ops by (auto simp: negotiates_def)
qed

text \<open>A poll of a stuck port on the reference PHY.\<close>

lemma sim_lock_ops:
  assumes "devs u = sim_dev"
  shows "hw (exec (MEPA_ENTER p) u) = hw u" "devs (exec (MEPA_ENTER p) u) = sim_dev"
    "priv (exec (MEPA_ENTER p) u) = priv u" "lops (exec (MEPA_ENTER p) u) = lops u"
    "hw (exec (MEPA_EXIT p) u) = hw u" "devs (exec (MEPA_EXIT p) u) = sim_dev"
    "priv (exec (MEPA_EXIT p) u) = priv u" "lops (exec (MEPA_EXIT p) u) = lops u"
  using assms by (simp_all add: MEPA_ENTER_def MEPA_EXIT_def sim_eval lops_def decode_def)

lemma sim_read:
  assumes "devs u = sim_dev" "hw u = sim_init m" "plain (ucast a)"
  shows "val (RD p a) u = m (p, Dir (ucast a))" "hw (exec (RD p a) u) = hw u" "devs (exec (RD p a) u) = sim_dev"
    "priv (exec (RD p a) u) = priv u"
    "lops (exec (RD p a) u) = lops u @ [LRd p (Dir (ucast a)) (m (p, Dir (ucast a)))]"
  using assms by (simp_all add: RD_def lan8814_direct_reg_rd_def sim_eval lops_def decode_def plain_def dec_read_def)

lemma sim_upd:
  "hw (exec (upd_data p f) u) = hw u" "devs (exec (upd_data p f) u) = devs u"
  "priv (exec (upd_data p f) u) = (priv u)(p := f (priv u p))" "lops (exec (upd_data p f) u) = lops u"
  "lops (u\<lparr>priv := D\<rparr>) = lops u"
  by (simp_all add: lops_def)

lemma sim_modify:
  assumes "devs u = sim_dev" "hw u = sim_init m"
  shows "priv (exec (WRM p 0 512 512) u) = priv u" "devs (exec (WRM p 0 512 512) u) = sim_dev"
    "lops (exec (WRM p 0 512 512) u) = lops u @ [LRd p (Dir 0) (m (p, Dir 0)), LWr p (Dir 0) (m (p, Dir 0) OR 0x200)]"
proof -
  have "(x AND NOT v) OR v = x OR v" for x v :: "16 word"
    by (rule bit_word_eqI) (auto simp: bit_or_iff bit_and_iff bit_not_iff)
  from this [of _ 512] have "(x AND - 513) OR 512 = x OR 512" for x :: "16 word" by simp
  then show "priv (exec (WRM p 0 512 512) u) = priv u" "devs (exec (WRM p 0 512 512) u) = sim_dev"
    "lops (exec (WRM p 0 512 512) u) = lops u @ [LRd p (Dir 0) (m (p, Dir 0)), LWr p (Dir 0) (m (p, Dir 0) OR 0x200)]"
    using assms by (simp_all add: WRM_def lan8814_direct_reg_wr_def Let_def
        sim_eval lops_def decode_def dec_read_def dec_write_def)
qed

lemma sim_stuck_poll:
  assumes u: "devs u = sim_dev" "hw u = sim_init m" "negotiates (priv u p)" "m (p, Dir 1) = 0" "m (p, Dir 20) = 0x2000"
    and c: "unat (pd_loop_cnt (priv u p) + 1) \<le> 2 * unat (pd_rep_cnt (priv u p))"
    and u': "u' = exec (lan8814_poll p st) u"
  shows "devs u' = sim_dev \<and> hw u' = hw u \<and>
    lops u' = lops u @ [LRd p (Dir 1) 0, LRd p (Dir 20) 0x2000, LRd p (Dir 31) (m (p, Dir 31))] \<and>
    negotiates (priv u' p) \<and> pd_loop_cnt (priv u' p) = pd_loop_cnt (priv u p) + 1 \<and>
    pd_rep_cnt (priv u' p) = pd_rep_cnt (priv u p)"
proof -
  have n: "conf_admin_enable (pd_conf (priv u p))"
    "conf_speed (pd_conf (priv u p)) = MEPA_SPEED_AUTO \<or> conf_speed (pd_conf (priv u p)) = MEPA_SPEED_1G"
    "\<not> lb_near_end_ena (pd_loopback (priv u p))" "\<not> lb_connector_ena (pd_loopback (priv u p))"
    "\<not> pd_link_status (priv u p)" "\<not> pd_aneg_flag (priv u p)"
    using u(3) by (auto simp: negotiates_def)
  show ?thesis
    unfolding u' lan8814_poll_def poll_enabled_def poll_aneg_def poll_downshift_def poll_aneg_stuck_def poll_end_def
    using n c
    by (simp add: sim_lock_ops sim_read sim_upd u plain_def poll_aneg_link_def has_bits_def Let_def negotiates_def)
qed

lemma sim_restart_poll:
  assumes u: "devs u = sim_dev" "hw u = sim_init m" "negotiates (priv u p)" "m (p, Dir 1) = 0" "m (p, Dir 20) = 0x2000"
    and c: "\<not> unat (pd_loop_cnt (priv u p) + 1) \<le> 2 * unat (pd_rep_cnt (priv u p))"
  shows "lops (exec (lan8814_poll p st) u) = lops u @ [LRd p (Dir 1) 0, LRd p (Dir 20) 0x2000,
    LRd p (Dir 31) (m (p, Dir 31)), LRd p (Dir 0) (m (p, Dir 0)), LWr p (Dir 0) (m (p, Dir 0) OR 0x200)]"
proof -
  have n: "conf_admin_enable (pd_conf (priv u p))"
    "conf_speed (pd_conf (priv u p)) = MEPA_SPEED_AUTO \<or> conf_speed (pd_conf (priv u p)) = MEPA_SPEED_1G"
    "\<not> lb_near_end_ena (pd_loopback (priv u p))" "\<not> lb_connector_ena (pd_loopback (priv u p))"
    "\<not> pd_link_status (priv u p)" "\<not> pd_aneg_flag (priv u p)"
    using u(3) by (auto simp: negotiates_def)
  show ?thesis
    unfolding lan8814_poll_def poll_enabled_def poll_aneg_def poll_downshift_def poll_aneg_stuck_def poll_end_def
    using n c
    by (simp add: sim_lock_ops sim_read sim_upd sim_modify u plain_def poll_aneg_link_def has_bits_def Let_def)
qed

theorem lan8814_poll_restarts_stuck_aneg_witness:
  "let d = phy_data_0\<lparr>pd_conf := mepa_conf_0\<lparr>conf_admin_enable := True, conf_speed := MEPA_SPEED_AUTO\<rparr>, pd_rep_cnt := 1\<rparr>;
       w = sim_world (\<lambda>r. if snd r = Dir 20 then 0x2000 else 0) (\<lambda>_. d);
       w2 = exec (lan8814_poll 2 mepa_status_0) (exec (polls 2 [mepa_status_0, mepa_status_0]) w)
   in \<exists>x. writes (lops w2) = [(Dir 0, x OR 0x200)] \<and> pd_aneg_flag (priv w2 2)"
proof -
  define d where "d = phy_data_0\<lparr>pd_conf := mepa_conf_0\<lparr>conf_admin_enable := True, conf_speed := MEPA_SPEED_AUTO\<rparr>, pd_rep_cnt := 1\<rparr>"
  define m :: "nat \<times> lreg \<Rightarrow> 16 word" where "m = (\<lambda>r. if snd r = Dir 20 then 0x2000 else 0)"
  let ?s = mepa_status_0
  define w where "w = sim_world m (\<lambda>_. d)"
  define u where "u = exec (lan8814_poll 2 ?s) w"
  define v where "v = exec (lan8814_poll 2 ?s) u"
  define w2 where "w2 = exec (lan8814_poll 2 ?s) v"
  have m: "m (2, Dir 1) = 0" "m (2, Dir 20) = 0x2000" by (simp_all add: m_def)
  have w: "devs w = sim_dev" "hw w = sim_init m" "negotiates (priv w 2)" "pd_loop_cnt (priv w 2) = 0"
    "pd_rep_cnt (priv w 2) = 1" "lops w = []"
    by (simp_all add: w_def d_def phy_data_0_def negotiates_def mepa_loopback_0_def)
  have u: "devs u = sim_dev" "hw u = sim_init m" "negotiates (priv u 2)" "pd_loop_cnt (priv u 2) = 1"
    "pd_rep_cnt (priv u 2) = 1" "lops u = [LRd 2 (Dir 1) 0, LRd 2 (Dir 20) 0x2000, LRd 2 (Dir 31) (m (2, Dir 31))]"
    using sim_stuck_poll [OF w(1-3) m _ u_def] w by simp_all
  have v: "devs v = sim_dev" "hw v = sim_init m" "negotiates (priv v 2)" "pd_loop_cnt (priv v 2) = 2"
    "pd_rep_cnt (priv v 2) = 1" "lops v = lops u @ lops u"
    using sim_stuck_poll [OF u(1-3) m _ v_def] u by simp_all
  have o: "lops w2 = lops w @ lops u @ lops u @ lops u @ [LRd 2 (Dir 0) (m (2, Dir 0)), LWr 2 (Dir 0) (m (2, Dir 0) OR 0x200)]"
    unfolding w2_def using sim_restart_poll [OF v(1-3) m] v u w by simp
  have p: "v = exec (polls 2 [?s, ?s]) w" by (simp add: u_def v_def polls_def)
  have "callout_ctx (devs w 2) = 2" "bus_at (devs w) 2" by (simp_all add: w(1) sim_dev_def)
  from lan8814_poll_restarts_stuck_aneg [OF this(2) w(3,4) _ _ p w2_def o this(1) [symmetric]] w(5)
  obtain ops1 ops2 x where "lops v = lops w @ ops1"
    "lops u @ lops u @ lops u @ [LRd 2 (Dir 0) (m (2, Dir 0)), LWr 2 (Dir 0) (m (2, Dir 0) OR 0x200)] = ops1 @ ops2"
    "writes ops1 = []" "writes ops2 = [(Dir 0, x OR 0x200)]" "pd_aneg_flag (priv w2 2)"
    by (auto simp: u(6))
  with o w(6) show ?thesis
    unfolding Let_def d_def [symmetric] m_def [symmetric] w_def [symmetric] p [symmetric] w2_def [symmetric]
    by auto
qed

text \<open>
  The limit of the restart.  The count is 8 bits wide and is compared with twice
  the repeat count, so with a repeat count of 128 or more the restart never comes: no
  poll touches the bus for it, whatever the count.
\<close>

theorem lan8814_poll_never_restarts_stuck_aneg:
  assumes "128 \<le> unat (pd_rep_cnt (priv w p))"
  shows "val (poll_aneg_stuck p link v v3) w = () \<and>
    io (exec (poll_aneg_stuck p link v v3) w) = io w \<and>
    pd_aneg_flag (priv (exec (poll_aneg_stuck p link v v3) w) p) = pd_aneg_flag (priv w p) \<and>
    pd_rep_cnt (priv (exec (poll_aneg_stuck p link v v3) w) p) = pd_rep_cnt (priv w p)"
proof -
  have "\<not> 2 * unat (pd_rep_cnt (priv w p)) < unat (x :: 8 word)" for x
    using assms unsigned_less [of x, where ?'a = nat] by simp
  then show ?thesis
    unfolding poll_aneg_stuck_def by simp
qed

theorem lan8814_poll_never_restarts_stuck_aneg_witness:
  "let w = sim_world (\<lambda>_. 0) (\<lambda>_. phy_data_0\<lparr>pd_rep_cnt := 200\<rparr>)
   in io (exec (poll_aneg_stuck 1 False 0 0x2000) w) = []"
  using lan8814_poll_never_restarts_stuck_aneg [of
      "sim_world (\<lambda>_. 0) (\<lambda>_. phy_data_0\<lparr>pd_rep_cnt := 200\<rparr>)" 1 False 0 "0x2000"]
  by (simp add: Let_def phy_data_0_def)

text \<open>
  C16: when the link changes.  A poll of an enabled port on the LAN8814 resets the two
  rate adaptation FIFOs exactly when the link went down since the last poll, sets the
  half-duplex thresholds exactly when it came up in 10M or 100M half duplex, and
  advertises the speed and duplex mode to the MAC side exactly when it came up with MAC-side
  auto-negotiation; without a change of the link it does none of them.  It stores the link it
  reports, and a change sets the counter back to 0, forgets the restart of auto-negotiation, and ends a downshift when the link
  went down.
\<close>

theorem lan8814_poll_link_change:
  assumes "bus_at (devs w) p" "conf_admin_enable (pd_conf (priv w p))"
    and "run_state (lan8814_poll p st) w = ((rc, st'), w')" "d = priv w p" "d' = priv w' p"
  shows "(\<exists>ops. lops w' = lops w @ ops \<and> fifo_ops d st' ops) \<and> pd_link_status d' = st_link st' \<and>
    (lan8814_is_lan8814 d \<and> st_link st' \<noteq> pd_link_status d \<longrightarrow>
       pd_loop_cnt d' = 0 \<and> \<not> pd_aneg_flag d' \<and> (\<not> st_link st' \<longrightarrow> \<not> pd_dsh_complete d'))"
proof -
  let ?Q = "\<lambda>st' D' ops. fifo_ops d st' ops \<and> link_stored d st' (D' p)"
  have q: "lquiet (devs w) p
      (if \<not> near \<and> conn then do { val2 \<leftarrow> RD p LAN8814_BASIC_CONTROL; State_Monad.return (poll_ctrl_status val2 s, v) }
       else if au then poll_aneg p s v else poll_forced p s)" for near conn s v au
    by (intro lquiet_rules lquiet_aneg lquiet_forced assms(1)) (simp add: reg_side)
  have "lspec (devs w) (poll_enabled p st) (priv w) ?Q"
    unfolding poll_enabled_def
    apply (rule lspec_bind, rule lspec_RD [OF assms(1)], simp add: reg_side)
    apply (rule lspec_let, rule lspec_bind, rule lspec_data_of, rule lspec_let, rule lspec_bind)
    apply (rule lspec_mono [OF lquietD [OF q]], rule lspec_case_prod, rule lspec_bind)
    apply (rule lspec_poll_end_ops [OF assms(1)], rule lspec_return)
    subgoal for v x D1 o1 s v' D2 o2
      using fifo_ops_prefix [of "LRd (callout_ctx (devs w p)) (Dir 1) v # o1" "D1 p" "priv w p" s o2]
        link_stored_prefix [of "D1 p" "priv w p" s] by (simp add: assms(4))
    done
  then have "lspec (devs w) (lan8814_poll p st) (priv w) (\<lambda>(rc, st') D' ops. ?Q st' D' ops)"
    unfolding lan8814_poll_def
    by (intro lspec_bind lspec_enter lspec_data_of)
      (simp add: assms(2), auto elim!: lspec_mono intro!: lspec_bind lspec_exit lspec_return)
  from lspec_run [OF this assms(3)] assms(5) show ?thesis by (auto simp: link_stored_def)
qed

theorem lan8814_poll_link_change_witness:
  "let d = phy_data_0\<lparr>pd_conf := mepa_conf_0\<lparr>conf_admin_enable := True\<rparr>\<rparr>;
       w = sim_world (\<lambda>_. 0) (\<lambda>_. d); w' = exec (lan8814_poll 4 mepa_status_0) w
   in \<exists>st'. fifo_ops d st' (lops w') \<and> pd_link_status (priv w' 4) = st_link st'"
proof -
  define d where "d = phy_data_0\<lparr>pd_conf := mepa_conf_0\<lparr>conf_admin_enable := True\<rparr>\<rparr>"
  let ?w = "sim_world (\<lambda>_. 0) (\<lambda>_. d)"
  obtain rc st' where v: "val (lan8814_poll 4 mepa_status_0) ?w = (rc, st')" by fastforce
  show ?thesis
    using lan8814_poll_link_change [OF _ _ _ refl refl, of ?w 4 mepa_status_0 rc st' "exec (lan8814_poll 4 mepa_status_0) ?w"] v
      run_state_eq [of "lan8814_poll 4 mepa_status_0" ?w]
    unfolding d_def [symmetric] Let_def by (auto simp: d_def)
qed

end
