(* ===== verification/Lan8814_Ts_Spec.thy ===== *)
theory Lan8814_Ts_Spec
  imports Lan8814_Ts_Class Lan8814_Conf_Spec Phy_Sim
begin

text \<open>
  What the timestamping operations do: the registers they read and write on a bus that
  works (\<open>lspec\<close>), and what becomes of the private data on any bus (\<open>pspec\<close>).
\<close>

text \<open>The logical register of an extended page address.\<close>

abbreviation (input) ep :: "ereg \<Rightarrow> lreg" where
  "ep r \<equiv> Ext (fst r) (snd r)"

lemma run_state_eq2: "run_state m s = ((fst (val m s), snd (val m s)), exec m s)"
  by (simp add: run_state_eq)

lemma run_state_eq3: "run_state m s = ((fst (val m s), fst (snd (val m s)), snd (snd (val m s))), exec m s)"
  by (simp add: run_state_eq)

text \<open>A port of the reference PHY for the witnesses.\<close>

definition sim_ts_port :: "nat \<Rightarrow> nat option \<Rightarrow> phy_data" where
  "sim_ts_port b cb = phy_data_0\<lparr>pd_base_dev := Some b,
     pd_ts_state := lan8814_ts_data_0\<lparr>tsd_fifo_cb := cb\<rparr>\<rparr>"

lemma sim_ts_port_simps [simp]:
  "pd_base_dev (sim_ts_port b cb) = Some b" "pd_port_no (sim_ts_port b cb) = 0"
  "tsd_fifo_cb (pd_ts_state (sim_ts_port b cb)) = cb" "tsd_tx_spi_en (pd_ts_state (sim_ts_port b cb)) = False"
  "tsd_clk_freq (pd_ts_state (sim_ts_port b cb)) = MEPA_TS_CLOCK_FREQ_25M"
  "tpc_event_mask (ts_conf (sim_ts_port b cb)) = 0" "tsd_pps (pd_ts_state (sim_ts_port b cb)) = mepa_ts_pps_conf_0"
  by (simp_all add: sim_ts_port_def lan8814_ts_data_0_def phy_data_0_def)

section \<open>Rules for the building blocks\<close>

text \<open>
  A burst: the first read sets the window up with increment, the others read the following
  registers, whatever register they name.
\<close>

lemma dspec_EP_RD_INCR_start:
  assumes ok: "bus_at dv p" and n: "five_bit pg"
    and Q: "\<And>v s'. dec_ops s' = dec_ops s @ [LRd (callout_ctx (dv p)) (Ext pg a) v] \<Longrightarrow>
      dec_ext s' (callout_ctx (dv p)) = \<lparr>win_ctl = 0x8000 OR pg, win_adr = a + 1\<rparr> \<Longrightarrow> Q v D s'"
  shows "dspec dv (EP_RD_INCR p (pg, a) v0 True) D s Q"
  unfolding EP_RD_INCR_def lan8814_ext_incr_reg_rd_def
  by (intro dspec_bind dspec_MEPA_RC dspec_miim_write ok)
    (auto simp: n window_simps intro!: dspec_bind dspec_MEPA_RC dspec_miim_write dspec_direct_rd
      dspec_return ok Q)

lemma dspec_EP_RD_INCR_next:
  assumes ok: "bus_at dv p" and n: "five_bit pg"
    and w: "dec_ext s (callout_ctx (dv p)) = \<lparr>win_ctl = 0x8000 OR pg, win_adr = a\<rparr>"
    and Q: "\<And>v s'. dec_ops s' = dec_ops s @ [LRd (callout_ctx (dv p)) (Ext pg a) v] \<Longrightarrow>
      dec_ext s' (callout_ctx (dv p)) = \<lparr>win_ctl = 0x8000 OR pg, win_adr = a + 1\<rparr> \<Longrightarrow> Q v D s'"
  shows "dspec dv (EP_RD_INCR p r v0 False) D s Q"
  unfolding EP_RD_INCR_def lan8814_ext_incr_reg_rd_def
  by (auto simp: n w window_simps intro!: dspec_bind dspec_return dspec_direct_rd ok Q)

lemma lspec_at:
  assumes "lspec dv m D (\<lambda>x D' ops. Q x D' (pre @ ops))" "dec_ops s' = dec_ops s @ pre"
  shows "dspec dv m D s' (\<lambda>x D' s''. \<exists>ops. dec_ops s'' = dec_ops s @ ops \<and> Q x D' ops)"
  using assms(1) [unfolded lspec_def, THEN spec [of _ s']]
  by (rule dspec_mono) (use assms(2) in auto)

lemma burst_bind_start:
  assumes "bus_at dv p" "five_bit pg"
    and "\<And>v s'. dec_ops s' = dec_ops s @ [LRd (callout_ctx (dv p)) (Ext pg a) v] \<Longrightarrow>
      dec_ext s' (callout_ctx (dv p)) = \<lparr>win_ctl = 0x8000 OR pg, win_adr = a + 1\<rparr> \<Longrightarrow>
      dspec dv (f v) D s' Q"
  shows "dspec dv (State_Monad.bind (EP_RD_INCR p (pg, a) v0 True) f) D s Q"
  by (intro dspec_bind dspec_EP_RD_INCR_start assms)

lemma burst_bind_next:
  assumes "dec_ext s (callout_ctx (dv p)) = \<lparr>win_ctl = 0x8000 OR pg, win_adr = a\<rparr>"
    "bus_at dv p" "five_bit pg"
    and "\<And>v s'. dec_ops s' = dec_ops s @ [LRd (callout_ctx (dv p)) (Ext pg a) v] \<Longrightarrow>
      dec_ext s' (callout_ctx (dv p)) = \<lparr>win_ctl = 0x8000 OR pg, win_adr = a + 1\<rparr> \<Longrightarrow>
      dspec dv (f v) D s' Q"
  shows "dspec dv (State_Monad.bind (EP_RD_INCR p r v0 False) f) D s Q"
  by (rule dspec_bind, rule dspec_EP_RD_INCR_next [OF assms(2,3,1)]) (rule assms(4))

text \<open>Two values at consecutive addresses as one 32-bit number.\<close>

lemma lspec_ltc_read:
  assumes ok: "bus_at dv p"
    and Q: "\<And>sh sl nh nl. Q (ts\<lparr>tm_seconds_high := 0, tm_seconds_low := join32 sh sl,
        tm_nanoseconds := join32 (nh AND 0x3FFF) nl\<rparr>) D
      [LRd (callout_ctx (dv p)) (ep LAN8814_PTP_GPIO_RE_CLOCK_SEC_HI) sh, LRd (callout_ctx (dv p)) (ep LAN8814_PTP_GPIO_RE_CLOCK_SEC_LO) sl,
       LRd (callout_ctx (dv p)) (ep LAN8814_PTP_GPIO_RE_CLOCK_NS_HI) nh, LRd (callout_ctx (dv p)) (ep LAN8814_PTP_GPIO_RE_CLOCK_NS_LO) nl]"
  shows "lspec dv (ltc_read p ts) D Q"
  unfolding ltc_read_def
  by (rule lspecI, rule burst_bind_start [OF ok], simp add: five_bit_def,
      (rule burst_bind_next, assumption, rule ok, simp add: five_bit_def)+,
      rule dspec_return) (simp add: Q [simplified])

section \<open>The timestamp FIFO\<close>

text \<open>The registers of an entry: nanoseconds and seconds, high and low, and two header registers.\<close>

type_synonym fifo_regs = "16 word \<times> 16 word \<times> 16 word \<times> 16 word \<times> 16 word \<times> 16 word"

fun fifo_reads :: "nat \<Rightarrow> fifo_regs \<Rightarrow> lop list" where
  "fifo_reads c (nh, nl, sh, sl, h1, h2) = [LRd c (ep LAN8814_PTP_TX_TS_NS_HI) nh, LRd c (ep LAN8814_PTP_TX_TS_NS_LO) nl,
     LRd c (ep LAN8814_PTP_TX_TS_SEC_HI) sh, LRd c (ep LAN8814_PTP_TX_TS_SEC_LO) sl, LRd c (ep LAN8814_PTP_TX_MSG_HEADER1) h1, LRd c (ep LAN8814_PTP_TX_MSG_HEADER2) h2]"

fun fifo_valid :: "fifo_regs \<Rightarrow> bool" where
  "fifo_valid (nh, _) = bit nh 15"

fun fifo_time :: "fifo_regs \<Rightarrow> mepa_timestamp \<Rightarrow> mepa_timestamp" where
  "fifo_time (nh, nl, sh, sl, _) t = t\<lparr>tm_nanoseconds := join32 (nh AND 0x3fff) nl,
     tm_seconds_low := join32 sh sl\<rparr>"

fun fifo_signature :: "fifo_regs \<Rightarrow> mepa_ts_fifo_sig \<Rightarrow> mepa_ts_fifo_sig" where
  "fifo_signature (_, _, _, _, h1, h2) sig = fifo_sig h1 h2 sig"

definition fifo_entry :: "fifo_regs \<Rightarrow> mepa_fifo_ts_entry \<Rightarrow> mepa_fifo_ts_entry" where
  "fifo_entry r e = e\<lparr>fte_ts := (fifo_time r (fte_ts e))\<lparr>tm_seconds_high := 0\<rparr>,
     fte_sig := fifo_signature r (fte_sig e)\<rparr>"

text \<open>
  The accesses of a loop that stops after \<open>k\<close> rounds and does \<open>g\<close> for an entry: the entries
  \<open>es\<close>, all valid, and a read that shows no valid entry unless there were \<open>k\<close>.
\<close>

definition fifo_run :: "nat \<Rightarrow> (fifo_regs \<Rightarrow> lop list) \<Rightarrow> nat \<Rightarrow> fifo_regs list \<Rightarrow> lop list \<Rightarrow> bool" where
  "fifo_run c g k es ops = (list_all fifo_valid es \<and> (\<exists>tl. ops = concat (map g es) @ tl \<and>
     (if length es = k then tl = []
      else length es < k \<and> (\<exists>h. \<not> bit h 15 \<and> tl = [LRd c (ep LAN8814_PTP_TX_TS_NS_HI) h]))))"

fun fifo_store :: "nat \<Rightarrow> fifo_regs list \<Rightarrow> mepa_fifo_ts_entry list \<Rightarrow> mepa_fifo_ts_entry list" where
  "fifo_store i [] l = l"
| "fifo_store i (e # es) l = fifo_store (i + 1) es (l[i := fifo_entry e (l ! i)])"

lemma fifo_store_length [simp]: "length (fifo_store i es l) = length l"
  by (induction i es l rule: fifo_store.induct) simp_all

lemma fifo_store_nth:
  "i + length es \<le> length l \<Longrightarrow> j < length l \<Longrightarrow> fifo_store i es l ! j =
    (if i \<le> j \<and> j < i + length es then fifo_entry (es ! (j - i)) (l ! j) else l ! j)"
  by (induction i es l rule: fifo_store.induct) (auto simp: nth_Cons' Suc_diff_Suc nth_list_update not_less_eq_eq)

text \<open>One round of the loop: six reads in a burst.\<close>

lemma lspec_fifo_round:
  assumes ok: "bus_at dv p"
    and T: "\<And>r. fifo_valid r \<Longrightarrow> lspec dv (k r) D (\<lambda>x D' ops. Q x D' (fifo_reads (callout_ctx (dv p)) r @ ops))"
    and F: "\<And>h. \<not> bit h 15 \<Longrightarrow> lspec dv n D (\<lambda>x D' ops. Q x D' (LRd (callout_ctx (dv p)) (ep LAN8814_PTP_TX_TS_NS_HI) h # ops))"
  shows "lspec dv (do {
     v \<leftarrow> EP_RD_INCR p LAN8814_PTP_TX_TS_NS_HI v0 True;
     if has_bits v LAN8814_PTP_TX_TS_NS_PTP_TX_TS_VALID then do {
       lo \<leftarrow> EP_RD_INCR p LAN8814_PTP_TX_TS_NS_LO (g1 v) False;
       sec_hi \<leftarrow> EP_RD_INCR p LAN8814_PTP_TX_TS_SEC_HI lo False;
       sec_lo \<leftarrow> EP_RD_INCR p LAN8814_PTP_TX_TS_SEC_LO sec_hi False;
       head1 \<leftarrow> EP_RD_INCR p LAN8814_PTP_TX_MSG_HEADER1 sec_lo False;
       head2 \<leftarrow> EP_RD_INCR p LAN8814_PTP_TX_MSG_HEADER2 head1 False;
       k (v, lo, sec_hi, sec_lo, head1, head2) }
     else n }) D Q"
proof (rule lspecI, rule burst_bind_start [OF ok])
  show "five_bit 5" by (simp add: five_bit_def)
  fix v and s s' :: decoder
  let ?c = "callout_ctx (dv p)"
  assume s': "dec_ops s' = dec_ops s @ [LRd ?c (Ext 5 660) v]"
    "dec_ext s' ?c = \<lparr>win_ctl = 0x8000 OR 5, win_adr = 660 + 1\<rparr>"
  let ?Q = "\<lambda>x D' s'. \<exists>ops. dec_ops s' = dec_ops s @ ops \<and> Q x D' ops"
  have n: "dspec dv n D s' ?Q" if "\<not> bit v 15"
    by (rule lspec_at [where pre = "[LRd ?c (ep LAN8814_PTP_TX_TS_NS_HI) v]"]) (use F [OF that] s'(1) in simp_all)
  have t: "dspec dv (k r) D s'' ?Q" if "fifo_valid r" "dec_ops s'' = dec_ops s @ fifo_reads ?c r" for r s''
    by (rule lspec_at [OF T]) (fact that)+
  show "dspec dv (if has_bits v LAN8814_PTP_TX_TS_NS_PTP_TX_TS_VALID then do {
       lo \<leftarrow> EP_RD_INCR p LAN8814_PTP_TX_TS_NS_LO (g1 v) False;
       sec_hi \<leftarrow> EP_RD_INCR p LAN8814_PTP_TX_TS_SEC_HI lo False;
       sec_lo \<leftarrow> EP_RD_INCR p LAN8814_PTP_TX_TS_SEC_LO sec_hi False;
       head1 \<leftarrow> EP_RD_INCR p LAN8814_PTP_TX_MSG_HEADER1 sec_lo False;
       head2 \<leftarrow> EP_RD_INCR p LAN8814_PTP_TX_MSG_HEADER2 head1 False;
       k (v, lo, sec_hi, sec_lo, head1, head2) }
     else n) D s' ?Q"
    by (insert s', rule dspec_if,
        (rule burst_bind_next, assumption, rule ok, simp add: five_bit_def)+)
      (auto simp: has_bits_pow intro!: t n)
qed

lemma fifo_get_loop_Cons:
  "fifo_get_loop dev (i # is) v l = do {
     v \<leftarrow> EP_RD_INCR dev LAN8814_PTP_TX_TS_NS_HI v True;
     if has_bits v LAN8814_PTP_TX_TS_NS_PTP_TX_TS_VALID then do {
       lo \<leftarrow> EP_RD_INCR dev LAN8814_PTP_TX_TS_NS_LO v False;
       sec_hi \<leftarrow> EP_RD_INCR dev LAN8814_PTP_TX_TS_SEC_HI lo False;
       sec_lo \<leftarrow> EP_RD_INCR dev LAN8814_PTP_TX_TS_SEC_LO sec_hi False;
       head1 \<leftarrow> EP_RD_INCR dev LAN8814_PTP_TX_MSG_HEADER1 sec_lo False;
       head2 \<leftarrow> EP_RD_INCR dev LAN8814_PTP_TX_MSG_HEADER2 head1 False;
       (\<lambda>r. fifo_get_loop dev is (snd (snd (snd (snd (snd r))))) (l[i := fifo_entry r (l ! i)]))
         (v, lo, sec_hi, sec_lo, head1, head2) }
     else State_Monad.return (l, i) }"
  by (simp add: fifo_entry_def Let_def cong: if_cong)

lemma fifo_run_Nil: "\<not> bit h 15 \<Longrightarrow> fifo_run c g (Suc k) [] [LRd c (ep LAN8814_PTP_TX_TS_NS_HI) h]"
  by (auto simp: fifo_run_def)

lemma fifo_run_Cons:
  "fifo_valid r \<Longrightarrow> fifo_run c g k es ops \<Longrightarrow> fifo_run c g (Suc k) (r # es) (g r @ ops)"
  by (auto simp: fifo_run_def)

lemma lspec_fifo_get_loop:
  assumes ok: "bus_at dv p"
    and Q: "\<And>es ops. fifo_run (callout_ctx (dv p)) (fifo_reads (callout_ctx (dv p))) k es ops \<Longrightarrow> Q (fifo_store i es l, i + length es) D ops"
    and k: "i + k = 8"
  shows "lspec dv (fifo_get_loop p [i..<8] v l) D Q"
  using Q k
proof (induction k arbitrary: i l v Q)
  case 0
  then show ?case
    using "0.prems"(1) [of "[]" "[]"] by (auto simp: fifo_run_def intro: lspec_return)
next
  case (Suc k)
  have i: "[i..<8] = i # [Suc i..<8]" using Suc.prems(2) by (simp add: upt_conv_Cons)
  show ?case
    unfolding i fifo_get_loop_Cons
  proof (rule lspec_fifo_round [OF ok])
    fix r assume r: "fifo_valid r"
    show "lspec dv (fifo_get_loop p [Suc i..<8] (snd (snd (snd (snd (snd r)))))
        (l[i := fifo_entry r (l ! i)])) D (\<lambda>x D' ops. Q x D' (fifo_reads (callout_ctx (dv p)) r @ ops))"
      by (rule Suc.IH) (use Suc.prems fifo_run_Cons [OF r] in force)+
  qed (auto intro!: lspec_return dest!: fifo_run_Nil [where k = k, THEN Suc.prems(1)])
qed

text \<open>
  C9: reading the FIFO.  On a bus that works, \<open>lan8814_ts_fifo_get\<close> with room for eight entries reads entry after
  entry until one is not valid, at most eight; it returns how many, and the entries in the
  order of the FIFO, each from the six registers of its own round; the rest of the list is unchanged.
\<close>

theorem lan8814_ts_fifo_get_entries:
  assumes "bus_at (devs w) p" "8 \<le> n" "n \<le> length l"
    and "run_state (lan8814_ts_fifo_get v p n (l, num)) w = ((rc, l', num'), w')"
  shows "\<exists>es ops. lops w' = lops w @ ops \<and> fifo_run (callout_ctx (devs w p)) (fifo_reads (callout_ctx (devs w p))) 8 es ops \<and>
    rc = MEPA_RC_OK \<and> num' = of_nat (length es) \<and> length l' = length l \<and>
    (\<forall>i < length l. l' ! i = (if i < length es then fifo_entry (es ! i) (l ! i) else l ! i))"
proof -
  have "lspec (devs w) (lan8814_ts_fifo_get v p n (l, num)) (priv w) (\<lambda>x D' ops. \<exists>es.
      fifo_run (callout_ctx (devs w p)) (fifo_reads (callout_ctx (devs w p))) 8 es ops \<and> x = (0, fifo_store 0 es l, of_nat (length es)))"
    unfolding lan8814_ts_fifo_get_def using assms(2)
    by (auto intro!: lspec_bind lspec_enter lspec_exit lspec_return lspec_fifo_get_loop [where k = 8] assms(1))
  from lspec_run [OF this assms(4)] obtain es ops where
    "lops w' = lops w @ ops" "fifo_run (callout_ctx (devs w p)) (fifo_reads (callout_ctx (devs w p))) 8 es ops"
    and x: "rc = 0" "l' = fifo_store 0 es l" "num' = of_nat (length es)"
    by auto
  moreover from this(2) have "length es \<le> length l"
    using assms(2,3) by (auto simp: fifo_run_def split: if_splits)
  ultimately show ?thesis
    by (intro exI [of _ es] exI [of _ ops]) (simp add: fifo_store_nth)
qed

theorem lan8814_ts_fifo_get_entries_witness:
  "let e = \<lparr>fte_sig = mepa_ts_fifo_sig_0, fte_ts = mepa_timestamp_0\<rparr>;
       w = sim_world (\<lambda>_. 0x8000) (\<lambda>_. phy_data_0); m = lan8814_ts_fifo_get 0 3 8 (replicate 8 e, 0)
   in fst (val m w) = MEPA_RC_OK \<and>
     (\<exists>es. fifo_run 3 (fifo_reads 3) 8 es (lops (exec m w)) \<and> snd (snd (val m w)) = of_nat (length es))"
  using lan8814_ts_fifo_get_entries [OF _ _ _ run_state_eq3, of "sim_world (\<lambda>_. 0x8000) (\<lambda>_. phy_data_0)" 3 8
      "replicate 8 \<lparr>fte_sig = mepa_ts_fifo_sig_0, fte_ts = mepa_timestamp_0\<rparr>" 0 0]
  by (auto simp: Let_def sim_dev_def)

text \<open>One round of \<open>lan8814_ts_tx_ts_get\<close>: the reads of an entry, then its callback.\<close>

definition fifo_deliver :: "nat \<Rightarrow> nat \<Rightarrow> 32 word \<Rightarrow> mepa_timestamp \<Rightarrow> mepa_ts_fifo_sig \<Rightarrow>
    fifo_regs \<Rightarrow> lop list" where
  "fifo_deliver c f port ts sig r = fifo_reads c r @
     [LCb f port (fifo_time r ts) (fifo_signature r sig) MEPA_TS_FIFO_SUCCESS]"

lemma fifo_time_absorb [simp]: "fifo_time r (fifo_time r' t) = fifo_time r t"
  by (cases r; cases r') simp

lemma fifo_signature_absorb [simp]: "fifo_signature r (fifo_signature r' sig) = fifo_signature r sig"
  by (cases r; cases r') (simp add: fifo_sig_def)

lemma fifo_deliver_absorb: "fifo_deliver c f port (fifo_time r ts) (fifo_signature r sig) =
    fifo_deliver c f port ts sig"
  by (rule ext) (simp add: fifo_deliver_def)

lemma tx_ts_loop_Suc:
  "tx_ts_loop (Suc fuel) dev rd_cb port v head1 head2 ts sig = do {
     v \<leftarrow> EP_RD dev LAN8814_PTP_TX_TS_NS_HI v;
     if bit v 15 then do {
       lo \<leftarrow> EP_RD dev LAN8814_PTP_TX_TS_NS_LO 0;
       sec_hi \<leftarrow> EP_RD dev LAN8814_PTP_TX_TS_SEC_HI 0;
       sec_lo \<leftarrow> EP_RD dev LAN8814_PTP_TX_TS_SEC_LO 0;
       head1 \<leftarrow> EP_RD dev LAN8814_PTP_TX_MSG_HEADER1 head1;
       head2 \<leftarrow> EP_RD dev LAN8814_PTP_TX_MSG_HEADER2 head2;
       MEPA_EXIT dev;
       call_ts_cb rd_cb port (fifo_time (v, lo, sec_hi, sec_lo, head1, head2) ts)
         (fifo_signature (v, lo, sec_hi, sec_lo, head1, head2) sig) MEPA_TS_FIFO_SUCCESS;
       MEPA_ENTER dev;
       tx_ts_loop fuel dev rd_cb port sec_lo head1 head2
         (fifo_time (v, lo, sec_hi, sec_lo, head1, head2) ts)
         (fifo_signature (v, lo, sec_hi, sec_lo, head1, head2) sig) }
     else State_Monad.return True }"
  by (simp add: has_bits_pow Let_def cong: if_cong)

lemma lspec_tx_ts_loop:
  assumes ok: "bus_at dv p"
    and Q: "\<And>es ops. fifo_run (callout_ctx (dv p)) (fifo_deliver (callout_ctx (dv p)) f port ts sig) k es ops \<Longrightarrow>
      Q (length es < k) D ops"
  shows "lspec dv (tx_ts_loop k p (Some f) port v h1 h2 ts sig) D Q"
  using Q
proof (induction k arbitrary: v h1 h2 ts sig Q)
  case 0
  then show ?case
    using "0.prems"(1) [of "[]" "[]"] by (auto simp: fifo_run_def intro: lspec_return)
next
  case (Suc k)
  let ?c = "callout_ctx (dv p)"
  have t: "lspec dv (tx_ts_loop k p (Some f) port v' h1' h2' (fifo_time r ts) (fifo_signature r sig)) D
      (\<lambda>x D' ops. Q x D' (fifo_deliver ?c f port ts sig r @ ops))" if r: "fifo_valid r" for r v' h1' h2'
  proof (rule Suc.IH)
    fix es ops assume "fifo_run ?c (fifo_deliver ?c f port (fifo_time r ts) (fifo_signature r sig)) k es ops"
    then have "fifo_run ?c (fifo_deliver ?c f port ts sig) (Suc k) (r # es) (fifo_deliver ?c f port ts sig r @ ops)"
      unfolding fifo_deliver_absorb by (rule fifo_run_Cons [OF r])
    from Suc.prems [OF this] show "Q (length es < k) D (fifo_deliver ?c f port ts sig r @ ops)" by simp
  qed
  show ?case
    unfolding tx_ts_loop_Suc
    apply (intro lspec_bind lspec_EP_RD ok lspec_if lspec_exit lspec_call_ts_cb lspec_enter)
    apply (auto simp: five_bit_def intro!: lspec_return
        dest!: fifo_run_Nil [where k = k, THEN Suc.prems])
    subgoal for v va vb vc vd ve
      using t [of "(v, va, vb, vc, vd, ve)" vc vd ve] by (simp add: fifo_deliver_def)
    done
qed

lemma fifo_run_valid_count:
  assumes "fifo_run c g k es ops" "\<And>r. fifo_valid r \<Longrightarrow> length (filter P (g r)) = 1"
    and "\<And>h. \<not> bit h 15 \<Longrightarrow> \<not> P (LRd c (ep LAN8814_PTP_TX_TS_NS_HI) h)"
  shows "length (filter P ops) = length es"
proof -
  have "length (filter P (concat (map g es))) = length es" if "list_all fifo_valid es" for es
    using that by (induction es) (simp_all add: assms(2))
  with assms(1,3) show ?thesis by (auto simp: fifo_run_def split: if_splits)
qed

text \<open>A read that shows a valid entry.\<close>

fun valid_read :: "lop \<Rightarrow> bool" where
  "valid_read (LRd _ r v) = (r = ep LAN8814_PTP_TX_TS_NS_HI \<and> bit v 15)"
| "valid_read _ = False"

text \<open>
  C10: delivering the FIFO.  On a bus that works and with a callback \<open>f\<close> installed,
  \<open>lan8814_ts_tx_ts_get\<close> hands every valid entry to \<open>f\<close>, once, in order, with the time and the
  signature of its registers; and it returns, with \<open>MEPA_RC_OK\<close>, exactly when the hardware shows fewer valid
  entries than rounds are allowed: the loop ends for every chip that is ever empty.
\<close>

theorem lan8814_ts_tx_ts_get_delivers:
  assumes "bus_at (devs w) p" "tsd_fifo_cb (pd_ts_state (priv w p)) = Some f"
    and "run_state (lan8814_ts_tx_ts_get p fuel) w = (r, w')"
  shows "\<exists>es ops. lops w' = lops w @ ops \<and>
    fifo_run (callout_ctx (devs w p)) (fifo_deliver (callout_ctx (devs w p)) f (pd_port_no (priv w p))
      mepa_timestamp_0 mepa_ts_fifo_sig_0) fuel es ops \<and>
    r = (if length (filter valid_read ops) < fuel then Some MEPA_RC_OK else None) \<and>
    length (filter valid_read ops) = length es"
proof -
  let ?g = "fifo_deliver (callout_ctx (devs w p)) f (pd_port_no (priv w p)) mepa_timestamp_0 mepa_ts_fifo_sig_0"
  have "lspec (devs w) (lan8814_ts_tx_ts_get p fuel) (priv w) (\<lambda>x D' ops. \<exists>es.
      fifo_run (callout_ctx (devs w p)) ?g fuel es ops \<and>
      x = (if length es < fuel then Some MEPA_RC_OK else None))"
    unfolding lan8814_ts_tx_ts_get_def
    by (intro lspec_bind lspec_data_of lspec_enter, simp only: assms(2), rule lspec_tx_ts_loop [OF assms(1)])
      (auto intro!: lspec_bind lspec_exit lspec_return lspec_if)
  from lspec_run [OF this assms(3)] obtain es ops where
    e: "lops w' = lops w @ ops" "fifo_run (callout_ctx (devs w p)) ?g fuel es ops"
      "r = (if length es < fuel then Some MEPA_RC_OK else None)"
    by auto
  moreover have "length (filter valid_read (?g r)) = 1" if "fifo_valid r" for r
    using that by (cases r) (simp add: fifo_deliver_def)
  with e(2) have "length (filter valid_read ops) = length es"
    by (rule fifo_run_valid_count) simp_all
  ultimately show ?thesis by auto
qed

theorem lan8814_ts_tx_ts_get_delivers_witness:
  "let w = sim_world (\<lambda>_. 0) (\<lambda>_. sim_ts_port 0 (Some 7)); m = lan8814_ts_tx_ts_get 3 4
   in \<exists>es. fifo_run 3 (fifo_deliver 3 7 0 mepa_timestamp_0 mepa_ts_fifo_sig_0) 4 es (lops (exec m w)) \<and>
     (val m w = Some MEPA_RC_OK) = (length es < 4)"
proof -
  let ?w = "sim_world (\<lambda>_. 0) (\<lambda>_. sim_ts_port 0 (Some 7))"
  have "bus_at (devs ?w) 3" "tsd_fifo_cb (pd_ts_state (priv ?w 3)) = Some 7"
    by simp_all
  from lan8814_ts_tx_ts_get_delivers [OF this run_state_eq, of 4] show ?thesis
    by (auto simp: Let_def sim_dev_def split: if_splits)
qed

section \<open>The local time counter\<close>

lemma lspec_base_data_of: "b = Some q \<Longrightarrow> Q (D q) D [] \<Longrightarrow> lspec dv (base_data_of b) D Q"
  by (simp add: base_data_of_def lspec_data_of)

lemma join32_split [simp]: "join32 (ucast (drop_bit 16 x)) (ucast x) = x"
  by (rule bit_word_eqI)
    (auto simp: join32_def bit_or_iff bit_push_bit_iff bit_unsigned_iff bit_drop_bit_eq)

lemma lspec_target_seconds:
  assumes ok: "bus_at dv p" and b: "pd_base_dev (D p) = Some q"
    and Q: "\<And>ops. writes ops = [(ep LAN8814_PTP_LTC_TARGET_SEC_LO_A, ucast sec), (ep LAN8814_PTP_LTC_TARGET_SEC_HI_A, ucast (drop_bit 16 sec)),
        (ep LAN8814_PTP_LTC_TARGET_NS_LO_A, ucast (pps_offset (tsd_pps (pd_ts_state (D q))))),
        (ep LAN8814_PTP_LTC_TARGET_NS_HI_A, ucast (drop_bit 16 (pps_offset (tsd_pps (pd_ts_state (D q))))))] \<Longrightarrow> Q 0 D ops"
  shows "lspec dv (lan8814_ltc_target_seconds p sec) D Q"
  unfolding lan8814_ltc_target_seconds_def
  by (intro lspec_basic lspec_reg lspec_base_data_of [OF b] ok Q) (simp_all add: reg_side)

lemma lspec_ltc_write:
  assumes ok: "bus_at dv p"
    and Q: "\<And>ops cmd x. writes ops = [(ep LAN8814_PTP_LTC_EXT_ADJ_CFG, cmd), (ep LAN8814_PTP_LTC_SET_SEC_HI, tm_seconds_high t),
        (ep LAN8814_PTP_LTC_SET_SEC_MID, ucast (drop_bit 16 (tm_seconds_low t))), (ep LAN8814_PTP_LTC_SET_SEC_LO, ucast (tm_seconds_low t)),
        (ep LAN8814_PTP_LTC_SET_NS_HI, ucast (drop_bit 16 (tm_nanoseconds t))), (ep LAN8814_PTP_LTC_SET_NS_LO, ucast (tm_nanoseconds t)),
        (ep LAN8814_PTP_LTC_EXT_ADJ_CFG, x OR 1)] \<Longrightarrow> Q () D ops"
  shows "lspec dv (ltc_write p t) D Q"
  unfolding ltc_write_def
  by (intro lspec_basic lspec_reg ok Q) (simp_all add: reg_side merge_set)

text \<open>The values read from a register, in order.\<close>

fun reads_of :: "lreg \<Rightarrow> lop list \<Rightarrow> 16 word list" where
  "reads_of r [] = []"
| "reads_of r (LRd c r' v # ops) = (if r' = r then v # reads_of r ops else reads_of r ops)"
| "reads_of r (op # ops) = reads_of r ops"

lemma lspec_ltc_set:
  assumes ok: "bus_at dv p" and b: "is_base (D p) p"
    and Q: "\<And>ops cmd x. writes ops = [(ep LAN8814_PTP_LTC_EXT_ADJ_CFG, cmd),
        (ep LAN8814_PTP_LTC_SET_SEC_HI, tm_seconds_high t),
        (ep LAN8814_PTP_LTC_SET_SEC_MID, ucast (drop_bit 16 (tm_seconds_low t))),
        (ep LAN8814_PTP_LTC_SET_SEC_LO, ucast (tm_seconds_low t)),
        (ep LAN8814_PTP_LTC_SET_NS_HI, ucast (drop_bit 16 (tm_nanoseconds t))),
        (ep LAN8814_PTP_LTC_SET_NS_LO, ucast (tm_nanoseconds t)),
        (ep LAN8814_PTP_LTC_EXT_ADJ_CFG, x OR 1)] @
      (let pps = tsd_pps (pd_ts_state (D p)) in if pps_output_enable pps = 0 then [] else
        [(ep LAN8814_PTP_LTC_TARGET_SEC_LO_A, ucast (tm_seconds_low t + 2)),
         (ep LAN8814_PTP_LTC_TARGET_SEC_HI_A, ucast (drop_bit 16 (tm_seconds_low t + 2))),
         (ep LAN8814_PTP_LTC_TARGET_NS_LO_A, ucast (pps_offset pps)),
         (ep LAN8814_PTP_LTC_TARGET_NS_HI_A, ucast (drop_bit 16 (pps_offset pps)))]) \<Longrightarrow>
      Q 0 D ops"
  shows "lspec dv (lan8814_ts_ltc_set p (Some t)) D Q"
proof -
  show ?thesis
    unfolding lan8814_ts_ltc_set_def
    by (simp only: option.case, intro lspec_basic lspec_base_data_of [OF b] lspec_ltc_write
        lspec_target_seconds [where D = D and q = p, OF ok b] ok Q) (simp_all add: b Let_def)
qed

lemma lspec_ltc_get:
  assumes ok: "bus_at dv p" and b: "is_base (D p) p"
    and Q: "\<And>sh sl nh nl. Q (0, Some (u\<lparr>tm_seconds_high := 0, tm_seconds_low := join32 sh sl,
        tm_nanoseconds := join32 (nh AND 0x3FFF) nl\<rparr>)) D
      [LRd (callout_ctx (dv p)) (ep LAN8814_PTP_GPIO_RE_CLOCK_SEC_HI) sh,
       LRd (callout_ctx (dv p)) (ep LAN8814_PTP_GPIO_RE_CLOCK_SEC_LO) sl,
       LRd (callout_ctx (dv p)) (ep LAN8814_PTP_GPIO_RE_CLOCK_NS_HI) nh,
       LRd (callout_ctx (dv p)) (ep LAN8814_PTP_GPIO_RE_CLOCK_NS_LO) nl]"
  shows "lspec dv (lan8814_ts_ltc_get p (Some u)) D Q"
  unfolding lan8814_ts_ltc_get_def
  by (simp only: option.case, intro lspec_basic lspec_ltc_read ok)
    (use b Q in \<open>simp_all\<close>)

lemma uint_join32: "uint (join32 hi lo) = uint hi * 2 ^ 16 + uint lo"
proof -
  have h: "0 \<le> uint hi" "uint hi < 2 ^ 16" "0 \<le> uint lo" "uint lo < 2 ^ 16"
    using uint_bounded [of hi] uint_bounded [of lo] by simp_all
  have "take_bit 32 (uint hi) = uint hi" "take_bit 32 (uint lo) = uint lo"
    using h by (simp_all add: take_bit_int_eq_self_iff)
  then have "uint (join32 hi lo) = take_bit 32 (push_bit 16 (uint hi)) OR uint lo"
    by (simp add: join32_def unsigned_or_eq unsigned_push_bit_eq unsigned_ucast_eq)
  also have "take_bit 32 (push_bit 16 (uint hi)) = push_bit 16 (uint hi)"
    using h by (simp add: take_bit_int_eq_self_iff push_bit_eq_mult)
  also have "push_bit 16 (uint hi) OR uint lo = push_bit 16 (uint hi) OR take_bit 16 (uint lo)"
    using h by (simp add: take_bit_int_eq_self)
  also have "\<dots> = push_bit 16 (uint hi) + take_bit 16 (uint lo)"
    by (rule disjunctive_add_eq_or [symmetric]) (auto simp: bit_eq_iff bit_and_iff bit_push_bit_iff bit_take_bit_iff)
  finally show ?thesis using h by (simp add: push_bit_eq_mult take_bit_int_eq_self)
qed

lemma join32_nanoseconds:
  assumes "x < 0x40000000"
  shows "join32 (ucast (drop_bit 16 x) AND 0x3FFF) (ucast x) = x"
proof -
  have "uint x < 2 ^ 30" using assms by (simp add: word_less_def)
  then have "take_bit 30 x = x"
    by (metis take_bit_int_eq_self uint_ge_0 unsigned_take_bit_eq word_uint_eqI)
  then have b: "i < 30" if "bit x i" for i
    using that by (metis bit_take_bit_iff)
  have m: "(0x3FFF :: 16 word) = mask 14" by (simp add: mask_eq_exp_minus_1)
  show ?thesis
    unfolding m
    by (rule bit_word_eqI) (auto simp: join32_def bit_or_iff bit_and_iff bit_mask_iff
        bit_push_bit_iff bit_unsigned_iff bit_drop_bit_eq dest: b)
qed

text \<open>The time \<open>t\<close> is written before the load command, and only pulse targets after it.\<close>

definition ltc_loads :: "mepa_timestamp \<Rightarrow> lop list \<Rightarrow> bool" where
  "ltc_loads t ops = (\<exists>cmd x post. writes ops = [(ep LAN8814_PTP_LTC_EXT_ADJ_CFG, cmd),
        (ep LAN8814_PTP_LTC_SET_SEC_HI, tm_seconds_high t),
        (ep LAN8814_PTP_LTC_SET_SEC_MID, ucast (drop_bit 16 (tm_seconds_low t))),
        (ep LAN8814_PTP_LTC_SET_SEC_LO, ucast (tm_seconds_low t)),
        (ep LAN8814_PTP_LTC_SET_NS_HI, ucast (drop_bit 16 (tm_nanoseconds t))),
        (ep LAN8814_PTP_LTC_SET_NS_LO, ucast (tm_nanoseconds t)),
        (ep LAN8814_PTP_LTC_EXT_ADJ_CFG, x OR 1)] @ post \<and>
      fst ` set post \<subseteq> ep ` {LAN8814_PTP_LTC_TARGET_SEC_LO_A, LAN8814_PTP_LTC_TARGET_SEC_HI_A,
        LAN8814_PTP_LTC_TARGET_NS_LO_A, LAN8814_PTP_LTC_TARGET_NS_HI_A})"

lemma ltc_loads_writes:
  assumes "ltc_loads t ops"
  shows "writes_to (ep LAN8814_PTP_LTC_SET_SEC_MID) ops = [ucast (drop_bit 16 (tm_seconds_low t))]"
    "writes_to (ep LAN8814_PTP_LTC_SET_SEC_LO) ops = [ucast (tm_seconds_low t)]"
    "writes_to (ep LAN8814_PTP_LTC_SET_NS_HI) ops = [ucast (drop_bit 16 (tm_nanoseconds t))]"
    "writes_to (ep LAN8814_PTP_LTC_SET_NS_LO) ops = [ucast (tm_nanoseconds t)]"
  using assms by (force simp: ltc_loads_def writes_to_def filter_empty_conv)+

lemma lspec_ltc_set_loads:
  assumes "bus_at dv p" "is_base (D p) p"
  shows "lspec dv (lan8814_ts_ltc_set p (Some t)) D (\<lambda>rc D' ops. rc = 0 \<and> D' = D \<and> ltc_loads t ops)"
  by (rule lspec_ltc_set [where D = D, OF assms]) (auto simp: Let_def ltc_loads_def split: if_splits)

definition sim_clock_time :: mepa_timestamp where
  "sim_clock_time = mepa_timestamp_0\<lparr>tm_seconds_low := 0x10002, tm_nanoseconds := 0x30004\<rparr>"

definition sim_capture :: "nat \<times> lreg \<Rightarrow> 16 word" where
  "sim_capture x = (case x of (_, Ext pg a) \<Rightarrow> a - 564 | _ \<Rightarrow> 0)"

lemma sim_ltc_get:
  "lops (exec (lan8814_ts_ltc_get 0 (Some u)) (sim_world sim_capture (\<lambda>_. sim_ts_port 0 None))) =
     [LRd 0 (ep LAN8814_PTP_GPIO_RE_CLOCK_SEC_HI) 1, LRd 0 (ep LAN8814_PTP_GPIO_RE_CLOCK_SEC_LO) 2,
      LRd 0 (ep LAN8814_PTP_GPIO_RE_CLOCK_NS_HI) 3, LRd 0 (ep LAN8814_PTP_GPIO_RE_CLOCK_NS_LO) 4]"
  by (simp add: lan8814_ts_ltc_get_def ltc_read_def EP_RD_INCR_def lan8814_ext_incr_reg_rd_def MEPA_RC_def
      lan8814_direct_reg_rd_def sim_eval MEPA_ENTER_def MEPA_EXIT_def sim_world_def
      sim_capture_def lops_def decode_def dec_init_def dec_read_def dec_write_def)

text \<open>
  C11: setting and reading the time.  On the base port of a chip, \<open>lan8814_ts_ltc_set\<close> writes the
  time into the registers of the local time counter before the command that loads it; when the registers that
  capture the counter show that time, \<open>lan8814_ts_ltc_get\<close> returns it, down to the
  nanosecond; of the seconds it returns the lower 32 bits, with 0 above them.
\<close>

theorem lan8814_ts_ltc_roundtrip:
  assumes "bus_at (devs w) p" "is_base (priv w p) p" "tm_nanoseconds t < 1000000000"
    and "run_state (lan8814_ts_ltc_set p (Some t)) w = (rc, w')" "lops w' = lops w @ so"
    and "bus_at (devs v) q" "is_base (priv v q) q"
    and "run_state (lan8814_ts_ltc_get q (Some u)) v = ((rc', t'), v')" "lops v' = lops v @ go"
    and "reads_of (ep LAN8814_PTP_GPIO_RE_CLOCK_SEC_HI) go = writes_to (ep LAN8814_PTP_LTC_SET_SEC_MID) so"
    and "reads_of (ep LAN8814_PTP_GPIO_RE_CLOCK_SEC_LO) go = writes_to (ep LAN8814_PTP_LTC_SET_SEC_LO) so"
    and "reads_of (ep LAN8814_PTP_GPIO_RE_CLOCK_NS_HI) go = writes_to (ep LAN8814_PTP_LTC_SET_NS_HI) so"
    and "reads_of (ep LAN8814_PTP_GPIO_RE_CLOCK_NS_LO) go = writes_to (ep LAN8814_PTP_LTC_SET_NS_LO) so"
  shows "rc = MEPA_RC_OK \<and> ltc_loads t so \<and> rc' = MEPA_RC_OK \<and> t' = Some (u\<lparr>tm_seconds_high := 0,
      tm_seconds_low := tm_seconds_low t, tm_nanoseconds := tm_nanoseconds t\<rparr>)"
proof -
  from lspec_run [OF lspec_ltc_set_loads [where D = "priv w", OF assms(1,2)] assms(4)] assms(5)
  have so: "rc = 0" "ltc_loads t so" by auto
  have "lspec (devs v) (lan8814_ts_ltc_get q (Some u)) (priv v) (\<lambda>x D ops. \<exists>sh sl nh nl.
      x = (0, Some (u\<lparr>tm_seconds_high := 0, tm_seconds_low := join32 sh sl,
        tm_nanoseconds := join32 (nh AND 0x3FFF) nl\<rparr>)) \<and>
      reads_of (ep LAN8814_PTP_GPIO_RE_CLOCK_SEC_HI) ops = [sh] \<and>
      reads_of (ep LAN8814_PTP_GPIO_RE_CLOCK_SEC_LO) ops = [sl] \<and>
      reads_of (ep LAN8814_PTP_GPIO_RE_CLOCK_NS_HI) ops = [nh] \<and>
      reads_of (ep LAN8814_PTP_GPIO_RE_CLOCK_NS_LO) ops = [nl])"
    by (rule lspec_ltc_get [where D = "priv v", OF assms(6,7)]) simp
  from lspec_run [OF this assms(8)] assms(9-13) ltc_loads_writes [OF so(2)]
  have "rc' = 0" "t' = Some (u\<lparr>tm_seconds_high := 0, tm_seconds_low := tm_seconds_low t,
    tm_nanoseconds := join32 (ucast (drop_bit 16 (tm_nanoseconds t)) AND 0x3FFF) (ucast (tm_nanoseconds t))\<rparr>)"
    by auto
  moreover have "tm_nanoseconds t < 0x40000000"
    using assms(3) by (rule less_trans) simp
  ultimately show ?thesis using so by (simp add: join32_nanoseconds)
qed

theorem lan8814_ts_ltc_roundtrip_witness:
  "snd (val (lan8814_ts_ltc_get 0 (Some mepa_timestamp_0)) (sim_world sim_capture (\<lambda>_. sim_ts_port 0 None))) = Some sim_clock_time"
proof -
  let ?w = "sim_world (\<lambda>_. 0) (\<lambda>_. sim_ts_port 0 None)"
  let ?v = "sim_world sim_capture (\<lambda>_. sim_ts_port 0 None)"
  let ?so = "lops (exec (lan8814_ts_ltc_set 0 (Some sim_clock_time)) ?w)"
  have b: "bus_at (devs ?w) 0" "is_base (priv ?w 0) 0" "tm_nanoseconds sim_clock_time < 1000000000"
    by (simp_all add: sim_clock_time_def)
  have "ltc_loads sim_clock_time ?so"
    using lspec_world [OF lspec_ltc_set_loads [where D = "priv ?w", OF b(1,2)], of sim_clock_time] by auto
  note so = ltc_loads_writes [OF this]
  show ?thesis
    using lan8814_ts_ltc_roundtrip [OF b run_state_eq _ _ _ run_state_eq2 [of _ ?v], of ?so 0 mepa_timestamp_0
        "lops (exec (lan8814_ts_ltc_get 0 (Some mepa_timestamp_0)) ?v)"]
    unfolding sim_ltc_get so
    by (simp add: sim_clock_time_def mepa_timestamp_0_def)
qed

section \<open>Rate adjustment\<close>

lemma uint_MEPA_LLABS: "uint (MEPA_LLABS a) = \<bar>sint a\<bar>"
proof (cases "sint a < 0")
  case True
  have b: "- (2 ^ 63) \<le> sint a" using sint_ge [of a] by simp
  have "uint (- a) = uint (word_of_int (- sint a) :: 64 word)" by simp
  also have "\<dots> = (- sint a) mod 2 ^ LENGTH(64)" by (rule uint_word_of_int)
  also have "\<dots> = - sint a" using True b by simp
  finally show ?thesis using True by (simp add: MEPA_LLABS_def)
next
  case False
  then have "uint a = sint a"
    using sint_lt [of a] by (simp add: uint_sint take_bit_int_eq_self)
  with False show ?thesis by (simp add: MEPA_LLABS_def)
qed

lemma uint_rate_adj_val:
  "uint (rate_adj_val freq a) =
    ((2 ^ 16 * (if freq = MEPA_TS_CLOCK_FREQ_200M then 5 else 4) * \<bar>sint a\<bar>) mod 2 ^ 64) div 10 ^ 9"
proof -
  have "uint (0x10000 * ltc_period freq * MEPA_LLABS a) =
      (2 ^ 16 * (if freq = MEPA_TS_CLOCK_FREQ_200M then 5 else 4) * \<bar>sint a\<bar>) mod 2 ^ 64"
    by (simp add: ltc_period_def uint_word_ariths uint_MEPA_LLABS)
  then show ?thesis by (simp add: rate_adj_val_def uint_div)
qed

lemma lspec_upd_ts: "Q () (D(p := (D p)\<lparr>pd_ts_state := f (pd_ts_state (D p))\<rparr>)) [] \<Longrightarrow>
    lspec dv (upd_ts p f) D Q"
  unfolding upd_ts_def by (rule lspec_upd_data)

lemma lspec_upd_tpc: "Q () (D(p := (D p)\<lparr>pd_ts_state := (pd_ts_state (D p))
      \<lparr>tsd_port_conf := f (ts_conf (D p))\<rparr>\<rparr>)) [] \<Longrightarrow> lspec dv (upd_tpc p f) D Q"
  unfolding upd_tpc_def by (rule lspec_upd_ts)

definition rate_hi :: "64 word \<Rightarrow> 64 word \<Rightarrow> 16 word" where
  "rate_hi a n = (if 0 < sint a then LAN8814_PTP_LTC_RATE_ADJ_HI_DIR else 0) OR
     (0x3FFF AND ucast (drop_bit 16 n))"

lemma rate_hi_bits:
  assumes "n < 0x40000000"
  shows "uint (join32 (rate_hi a n AND 0x3FFF) (ucast n)) = uint n" "bit (rate_hi a n) 15 = (0 < sint a)"
proof -
  have m: "(0x3FFF :: 16 word) = mask 14" by (simp add: mask_eq_exp_minus_1)
  have d: "bit (0x8000 :: int) i = (i = 15)" for i
    using bit_exp_iff [of 15 i, where ?'a = int] by auto
  show "bit (rate_hi a n) 15 = (0 < sint a)"
    unfolding rate_hi_def m by (auto simp: bit_or_iff bit_and_iff bit_mask_iff)
  have u: "uint n < 2 ^ 30" using assms by (simp add: word_less_def)
  then have "take_bit 30 n = n"
    by (metis take_bit_int_eq_self uint_ge_0 unsigned_take_bit_eq word_uint_eqI)
  then have b: "i < 30" if "bit n i" for i
    using that by (metis bit_take_bit_iff)
  have "join32 (rate_hi a n AND 0x3FFF) (ucast n) = ucast n"
    unfolding m rate_hi_def
    by (rule bit_word_eqI) (auto simp: join32_def bit_or_iff bit_and_iff bit_mask_iff
        bit_push_bit_iff bit_unsigned_iff bit_drop_bit_eq d dest: b split: if_splits)
  then show "uint (join32 (rate_hi a n AND 0x3FFF) (ucast n)) = uint n"
    using u by (simp add: unsigned_ucast_eq take_bit_int_eq_self)
qed

lemma lspec_rateadj_set:
  assumes ok: "bus_at dv p" and b: "is_base (D p) p"
    and n: "n = rate_adj_val (tsd_clk_freq (pd_ts_state (D p))) a"
    and T: "\<And>ops. n < 0x40000000 \<Longrightarrow> writes ops = [(ep LAN8814_PTP_LTC_RATE_ADJ_HI, rate_hi a n),
        (ep LAN8814_PTP_LTC_RATE_ADJ_LO, ucast n)] \<Longrightarrow>
      Q 0 (D(p := (D p)\<lparr>pd_ts_state := (pd_ts_state (D p))\<lparr>tsd_port_conf :=
        (ts_conf (D p))\<lparr>tpc_rate_adj := a\<rparr>\<rparr>\<rparr>)) ops"
    and F: "\<not> n < 0x40000000 \<Longrightarrow> Q 0 D []"
  shows "lspec dv (lan8814_ts_clock_rateadj_set p (Some a)) D Q"
  unfolding lan8814_ts_clock_rateadj_set_def
  by (simp only: option.case, intro lspec_basic lspec_base_data_of [OF b] lspec_reg lspec_upd_tpc ok)
    (use b n T F in \<open>auto simp: reg_side rate_hi_def\<close>)

text \<open>
  C12: rate adjustment.  On the base port, \<open>lan8814_ts_clock_rateadj_set\<close> converts a rate given in
  \<open>2\<^sup>-\<^sup>1\<^sup>6\<close> ppb into units of \<open>2\<^sup>-\<^sup>3\<^sup>2\<close> ns per clock period of 5 ns at 200 MHz and of 4 ns else, in a product of 64
  bits, and rounds towards 0; for rates up to \<open>2\<^sup>4\<^sup>5\<close> units in size the product does not wrap.
  When the result fits the 30 bits of the register pair, they hold it
  together with the direction, and the rate is remembered; otherwise nothing is written or
  remembered.
\<close>

theorem lan8814_ts_clock_rateadj_set_rate:
  assumes "bus_at (devs w) p" "is_base (priv w p) p"
    and "run_state (lan8814_ts_clock_rateadj_set p (Some a)) w = (rc, w')"
    and "m = 2 ^ 16 * (if tsd_clk_freq (pd_ts_state (priv w p)) = MEPA_TS_CLOCK_FREQ_200M then 5 else 4) * \<bar>sint a\<bar>"
    and "n = (m mod 2 ^ 64) div 10 ^ 9"
  shows "rc = MEPA_RC_OK \<and> (\<bar>sint a\<bar> \<le> 2 ^ 45 \<longrightarrow> n = m div 10 ^ 9) \<and>
    (\<exists>ops. lops w' = lops w @ ops \<and>
    (if n < 2 ^ 30 then (\<exists>hi lo. writes ops = [(ep LAN8814_PTP_LTC_RATE_ADJ_HI, hi),
         (ep LAN8814_PTP_LTC_RATE_ADJ_LO, lo)] \<and> uint (hi AND 0x3FFF) * 2 ^ 16 + uint lo = n \<and>
         bit hi 15 = (0 < sint a)) \<and> tpc_rate_adj (ts_conf (priv w' p)) = a
     else ops = [] \<and> priv w' = priv w))"
proof -
  let ?n = "rate_adj_val (tsd_clk_freq (pd_ts_state (priv w p))) a"
  have n: "uint ?n = n" by (simp only: uint_rate_adj_val assms(4,5))
  then have lt: "(?n < 0x40000000) = (n < 2 ^ 30)" by (simp add: word_less_def)
  have hb: "uint (rate_hi a v AND 0x3FFF) * 65536 + uint (ucast v :: 16 word) = uint v" if "v < 0x40000000" for v
    using rate_hi_bits(1) [OF that, of a] by (simp add: uint_join32)
  have "m \<le> 2 ^ 16 * 5 * 2 ^ 45" if "\<bar>sint a\<bar> \<le> 2 ^ 45"
    unfolding assms(4) using that by (intro mult_mono) simp_all
  then have ex: "\<bar>sint a\<bar> \<le> 2 ^ 45 \<longrightarrow> n = m div 10 ^ 9"
    unfolding assms(5) using assms(4) by simp
  have "lspec (devs w) (lan8814_ts_clock_rateadj_set p (Some a)) (priv w) (\<lambda>x D ops. x = 0 \<and>
    (if n < 2 ^ 30 then (\<exists>hi lo. writes ops = [(ep LAN8814_PTP_LTC_RATE_ADJ_HI, hi),
         (ep LAN8814_PTP_LTC_RATE_ADJ_LO, lo)] \<and> uint (hi AND 0x3FFF) * 2 ^ 16 + uint lo = n \<and>
         bit hi 15 = (0 < sint a)) \<and> tpc_rate_adj (ts_conf (D p)) = a
     else ops = [] \<and> D = priv w))"
    by (rule lspec_rateadj_set [where D = "priv w", OF assms(1,2) refl])
      (use lt n in \<open>auto simp: hb rate_hi_bits(2)\<close>)
  from lspec_run [OF this assms(3)] ex show ?thesis by auto
qed

theorem lan8814_ts_clock_rateadj_set_rate_witness:
  "let w = sim_world (\<lambda>_. 0) (\<lambda>_. sim_ts_port 0 None); w' = exec (lan8814_ts_clock_rateadj_set 0 (Some 65536000)) w
   in tpc_rate_adj (ts_conf (priv w' 0)) = 65536000 \<and>
     (\<exists>hi lo. writes_to (ep LAN8814_PTP_LTC_RATE_ADJ_HI) (lops w') = [hi] \<and>
       writes_to (ep LAN8814_PTP_LTC_RATE_ADJ_LO) (lops w') = [lo] \<and>
       uint (hi AND 0x3FFF) * 2 ^ 16 + uint lo = 17179 \<and> bit hi 15)"
  using lan8814_ts_clock_rateadj_set_rate [OF _ _ run_state_eq refl refl,
      of "sim_world (\<lambda>_. 0) (\<lambda>_. sim_ts_port 0 None)" 0 65536000]
  by (auto simp: Let_def writes_to_def)

text \<open>Beyond that, the 64-bit product wraps: a rate of \<open>2\<^sup>4\<^sup>6\<close> units is set as no adjustment.\<close>

lemma rate_adj_val_wraps: "rate_adj_val MEPA_TS_CLOCK_FREQ_250M (2 ^ 46) = 0"
  by (simp add: rate_adj_val_def ltc_period_def MEPA_LLABS_def)

section \<open>Pulse per second\<close>

lemma pps_search_least:
  assumes "\<exists>w \<in> set ws. width \<le> w"
  shows "pps_search width ws i = i + (LEAST j. width \<le> ws ! j)"
  using assms
proof (induction ws arbitrary: i)
  case (Cons w ws)
  show ?case
  proof (cases "width \<le> w")
    case True
    then show ?thesis by (simp add: Least_eq_0)
  next
    case False
    with Cons.prems obtain j where "j < length ws" "width \<le> ws ! j" by (auto simp: in_set_conv_nth)
    then have "(LEAST j. width \<le> (w # ws) ! j) = Suc (LEAST j. width \<le> ws ! j)"
      using False by (subst Least_Suc [of _ "Suc j"]) simp_all
    with False Cons show ?thesis by simp
  qed
qed simp

lemma pps_search_none: "\<forall>w \<in> set ws. \<not> width \<le> w \<Longrightarrow> pps_search width ws i = i + length ws"
  by (induction ws arbitrary: i) simp_all

lemma pps_widths_length: "length pps_widths = 14"
  by (simp add: pps_widths_def)

lemma pps_index_least:
  "pps_index width = (LEAST i. width \<le> pps_widths ! i \<or> i = 13)"
proof (cases "\<exists>w \<in> set pps_widths. width \<le> w")
  case True
  then obtain j where j: "j < 14" "width \<le> pps_widths ! j"
    by (auto simp: in_set_conv_nth pps_widths_length)
  let ?l = "LEAST j. width \<le> pps_widths ! j"
  have "?l \<le> j" using j(2) by (rule Least_le)
  with j have l: "?l \<le> 13" by simp
  have w: "width \<le> pps_widths ! ?l" using j(2) by (rule LeastI)
  have "(LEAST i. width \<le> pps_widths ! i \<or> i = 13) = ?l"
    by (rule Least_equality) (use w l in \<open>auto intro: Least_le\<close>)
  with True l show ?thesis
    by (simp add: pps_index_def pps_search_least Let_def) (simp add: pps_widths_def)
next
  case False
  then have n: "\<not> width \<le> pps_widths ! i" if "i < 14" for i
    using that nth_mem [of i pps_widths] by (auto simp: pps_widths_length)
  have "(LEAST i. width \<le> pps_widths ! i \<or> i = 13) = 13"
    by (rule Least_equality) (use n in \<open>auto simp: not_less [symmetric]\<close>)
  with False show ?thesis
    by (simp add: pps_index_def pps_search_none Let_def) (simp add: pps_widths_def)
qed

definition set_pps :: "mepa_ts_pps_conf \<Rightarrow> phy_data \<Rightarrow> phy_data" where
  "set_pps conf d = d\<lparr>pd_ts_state := (pd_ts_state d)\<lparr>tsd_pps := conf\<rparr>\<rparr>"

lemma lspec_pps_store:
  "Q () (D(p := set_pps conf (D p), q := set_pps conf (D q))) [] \<Longrightarrow>
    lspec dv (pps_store p (Some q) conf) D Q"
  unfolding pps_store_def
  by (simp, intro lspec_bind lspec_upd_ts) (cases "q = p"; simp add: set_pps_def)

text \<open>
  The seconds that the function reads: on the base port those captured at the last pulse, from two
  registers; on another port none are read and they are 0.
\<close>

definition seconds_read :: "nat \<Rightarrow> bool \<Rightarrow> lop list \<Rightarrow> int \<Rightarrow> bool" where
  "seconds_read c base ops s = (if base then \<exists>sh sl nh nl. s = uint sh * 2 ^ 16 + uint sl \<and>
       ops = [LRd c (ep LAN8814_PTP_GPIO_RE_CLOCK_SEC_HI) sh, LRd c (ep LAN8814_PTP_GPIO_RE_CLOCK_SEC_LO) sl,
         LRd c (ep LAN8814_PTP_GPIO_RE_CLOCK_NS_HI) nh, LRd c (ep LAN8814_PTP_GPIO_RE_CLOCK_NS_LO) nl]
     else s = 0 \<and> ops = [])"

lemma lspec_ltc_get_any:
  assumes ok: "bus_at dv p" and b: "pd_base_dev (D p) = Some q"
    and Q: "\<And>ops t. seconds_read (callout_ctx (dv p)) (q = p) ops (uint (tm_seconds_low t)) \<Longrightarrow> Q (0, Some t) D ops"
  shows "lspec dv (lan8814_ts_ltc_get p (Some mepa_timestamp_0)) D Q"
  unfolding lan8814_ts_ltc_get_def
  by (simp only: option.case, intro lspec_basic lspec_ltc_read ok)
    (use b in \<open>auto intro!: Q simp: seconds_read_def uint_join32 mepa_timestamp_0_def\<close>)

text \<open>
  C13: the pulse width.  Enabling the pulse per second selects the first of the 14
  widths, from 100 ns to 200 ms, that is not below the requested one, or the last; the pulse starts two seconds
  after the time captured at the last pulse, which is read first on the base port (2 on another port,
  which reads no time), at the configured offset, and repeats every second; the configuration is stored with
  the port and its base port.
\<close>

theorem lan8814_ts_pps_conf_set_selects:
  assumes "bus_at (devs w) p" "pd_base_dev (priv w p) = Some q" "pps_output_enable conf \<noteq> 0"
    and "run_state (lan8814_ts_pps_conf_set p conf) w = (rc, w')"
  shows "rc = MEPA_RC_OK \<and> tsd_pps (pd_ts_state (priv w' p)) = conf \<and>
    tsd_pps (pd_ts_state (priv w' q)) = conf \<and> (\<exists>rd ops s hi lo i. lops w' = lops w @ rd @ ops \<and>
      seconds_read (callout_ctx (devs w p)) (q = p) rd s \<and>
      uint hi * 2 ^ 16 + uint lo = (s + 2) mod 2 ^ 32 \<and>
      i = (LEAST i. pps_width_adj conf \<le> [100, 500, 1000, 5000, 10000, 50000, 100000, 500000, 1000000,
        5000000, 10000000, 50000000, 100000000, 200000000] ! i \<or> i = 13) \<and>
      writes ops = [(ep LAN8814_PTP_LTC_TARGET_SEC_LO_A, lo), (ep LAN8814_PTP_LTC_TARGET_SEC_HI_A, hi),
        (ep LAN8814_PTP_LTC_TARGET_NS_LO_A, ucast (pps_offset conf)),
        (ep LAN8814_PTP_LTC_TARGET_NS_HI_A, ucast (drop_bit 16 (pps_offset conf))),
        (ep LAN8814_PTP_LTC_TARGET_RELOAD_SEC_HI_A, 0), (ep LAN8814_PTP_LTC_TARGET_RELOAD_SEC_LO_A, 1),
        (ep LAN8814_PTP_LTC_TARGET_RELOAD_NS_HI_A, 0), (ep LAN8814_PTP_LTC_TARGET_RELOAD_NS_LO_A, 0),
        (ep LAN8814_PTP_GENERAL_CONFIG, push_bit 4 (of_nat i) OR 0x2)])"
proof -
  let ?D = "(priv w)(p := set_pps conf (priv w p), q := set_pps conf (priv w q))"
  let ?W = "\<lambda>sec. [(ep LAN8814_PTP_LTC_TARGET_SEC_LO_A, ucast sec),
        (ep LAN8814_PTP_LTC_TARGET_SEC_HI_A, ucast (drop_bit 16 (sec :: 32 word))),
        (ep LAN8814_PTP_LTC_TARGET_NS_LO_A, ucast (pps_offset conf)),
        (ep LAN8814_PTP_LTC_TARGET_NS_HI_A, ucast (drop_bit 16 (pps_offset conf))),
        (ep LAN8814_PTP_LTC_TARGET_RELOAD_SEC_HI_A, 0), (ep LAN8814_PTP_LTC_TARGET_RELOAD_SEC_LO_A, 1),
        (ep LAN8814_PTP_LTC_TARGET_RELOAD_NS_HI_A, 0), (ep LAN8814_PTP_LTC_TARGET_RELOAD_NS_LO_A, 0),
        (ep LAN8814_PTP_GENERAL_CONFIG, push_bit 4 (of_nat (pps_index (pps_width_adj conf))) OR 0x2)]"
  have D: "pd_base_dev (?D p) = Some q" "tsd_pps (pd_ts_state (?D p)) = conf"
    "tsd_pps (pd_ts_state (?D q)) = conf"
    using assms(2) by (auto simp: set_pps_def)
  have I: "\<exists>rd' o2'. rd @ o2 = rd' @ o2' \<and> (\<exists>s. seconds_read c b rd' (uint s) \<and> writes o2' = W (s + 2))"
    if "seconds_read c b rd (uint s)" "writes o2 = W (s + 2)" for rd o2 c b s and W :: "32 word \<Rightarrow> (lreg \<times> 16 word) list"
    using that by blast
  have "lspec (devs w) (lan8814_ts_pps_conf_set p conf) (priv w) (\<lambda>x D ops. x = 0 \<and>
     tsd_pps (pd_ts_state (D p)) = conf \<and> tsd_pps (pd_ts_state (D q)) = conf \<and>
     (\<exists>rd o2 s. ops = rd @ o2 \<and> seconds_read (callout_ctx (devs w p)) (q = p) rd (uint s) \<and> writes o2 = ?W (s + 2)))"
    unfolding lan8814_ts_pps_conf_set_def
    apply (intro lspec_bind lspec_data_of lspec_let)
    apply (simp only: assms(2,3) if_True not_False_eq_True simp_thms)
    apply (intro lspec_bind lspec_data_of lspec_let lspec_base_data_of [OF refl]
        lspec_ltc_get_any [where D = "priv w", OF assms(1,2)])
    apply (simp only: prod.case)
    apply (intro lspec_bind lspec_enter lspec_pps_store lspec_if
        lspec_target_seconds [where D = ?D, OF assms(1) D(1)] lspec_reg assms(1) lspec_exit lspec_return)
    using D assms(3) by (simp_all add: reg_side) (auto simp: set_pps_def intro!: I)
  from lspec_run [OF this assms(4)] obtain rd o2 s where
    r: "rc = 0" "tsd_pps (pd_ts_state (priv w' p)) = conf" "tsd_pps (pd_ts_state (priv w' q)) = conf"
      "lops w' = lops w @ rd @ o2" "seconds_read (callout_ctx (devs w p)) (q = p) rd (uint s)"
      "writes o2 = ?W (s + 2)"
    by blast
  have "uint (ucast (drop_bit 16 (s + 2)) :: 16 word) * 2 ^ 16 + uint (ucast (s + 2) :: 16 word) = (uint s + 2) mod 2 ^ 32"
    using uint_join32 [of "ucast (drop_bit 16 (s + 2))" "ucast (s + 2)"] by (simp add: uint_word_ariths)
  with r show ?thesis
    unfolding pps_index_least [unfolded pps_widths_def] by blast
qed

theorem lan8814_ts_pps_conf_set_selects_witness:
  "let c = \<lparr>pps_width_adj = 700, pps_offset = 5, pps_output_enable = 1\<rparr>;
       w = sim_world (\<lambda>_. 0) (\<lambda>_. sim_ts_port 0 None); w' = exec (lan8814_ts_pps_conf_set 2 c) w
   in tsd_pps (pd_ts_state (priv w' 0)) = c \<and>
     writes_to (ep LAN8814_PTP_GENERAL_CONFIG) (lops w') = [0x22]"
proof -
  have "(LEAST i. (700 :: 32 word) \<le> [100, 500, 1000, 5000, 10000, 50000, 100000, 500000, 1000000,
        5000000, 10000000, 50000000, 100000000, 200000000] ! i \<or> i = 13) = 2"
    unfolding pps_index_least [unfolded pps_widths_def, symmetric] by code_simp
  then show ?thesis
    using lan8814_ts_pps_conf_set_selects [OF _ _ _ run_state_eq, of "sim_world (\<lambda>_. 0) (\<lambda>_. sim_ts_port 0 None)" 2 0
        "\<lparr>pps_width_adj = 700, pps_offset = 5, pps_output_enable = 1\<rparr>"]
    by (auto simp: Let_def writes_to_def seconds_read_def)
qed

section \<open>Private data on any bus\<close>

lemma pspec_upd_ts: "Q () (D(p := (D p)\<lparr>pd_ts_state := f (pd_ts_state (D p))\<rparr>)) \<Longrightarrow> pspec (upd_ts p f) D Q"
  unfolding upd_ts_def by (rule pspec_upd_data)

lemma pspec_upd_tpc: "Q () (D(p := (D p)\<lparr>pd_ts_state := (pd_ts_state (D p))
      \<lparr>tsd_port_conf := f (ts_conf (D p))\<rparr>\<rparr>)) \<Longrightarrow> pspec (upd_tpc p f) D Q"
  unfolding upd_tpc_def by (rule pspec_upd_ts)

lemma pspec_base_data_of: "(\<And>x. (\<And>q. b = Some q \<Longrightarrow> x = D q) \<Longrightarrow> Q x D) \<Longrightarrow> pspec (base_data_of b) D Q"
  unfolding base_data_of_def by (cases b) (auto intro: pspec_null_call pspec_data_of)

lemma pspec_table_at: "(\<And>x. Q x D) \<Longrightarrow> pspec (table_at t f i) D Q"
  unfolding table_at_def by (auto intro: pspec_null_call pspec_return split: option.split)

lemma pspec_incr_rd: "(\<And>r. Q r D) \<Longrightarrow> pspec (lan8814_ext_incr_reg_rd p pg a v0 b) D Q"
  unfolding lan8814_ext_incr_reg_rd_def lan8814_direct_reg_rd_def MEPA_RC_def
  by (intro pspec_basic pspec_miim_read pspec_miim_write)

lemma pspec_EP_RD_INCR: "(\<And>v. Q v D) \<Longrightarrow> pspec (EP_RD_INCR p r v0 b) D Q"
  unfolding EP_RD_INCR_def by (intro pspec_bind pspec_incr_rd pspec_case_prod pspec_return)

lemma pspec_case_option: "(v = None \<Longrightarrow> pspec m D Q) \<Longrightarrow> (\<And>x. v = Some x \<Longrightarrow> pspec (f x) D Q) \<Longrightarrow>
    pspec (case v of None \<Rightarrow> m | Some x \<Rightarrow> f x) D Q"
  by (cases v) simp_all

lemmas pspec_ts = pspec_basic pspec_reg pspec_upd_ts pspec_upd_tpc pspec_base_data_of pspec_table_at
  pspec_EP_RD_INCR pspec_case_option

section \<open>Initialisation\<close>

















section \<open>The clock belongs to the base port\<close>

text \<open>
  Isolation of the clock.  On a port that is not its own base port, setting the time, latching it, adjusting
  its rate and stepping it access no register and change no private data,
  on any bus: the clock of the chip is only changed through the base port.
\<close>

theorem lan8814_ts_clock_base_only:
  assumes "pd_base_dev (priv w p) = Some q" "q \<noteq> p"
    and "m \<in> {lan8814_ts_ltc_set p t, lan8814_ts_ltc_ls_en_set p ls,
      lan8814_ts_clock_rateadj_set p a, lan8814_ts_clock_adj1ns p incr}"
  shows "lops (exec m w) = lops w \<and> priv (exec m w) = priv w"
proof -
  have "lspec (devs w) m (priv w) (\<lambda>_ D ops. D = priv w \<and> ops = [])"
    using assms
    by (cases t; cases a; auto simp: lan8814_ts_ltc_set_def lan8814_ts_ltc_ls_en_set_def
        lan8814_ts_clock_rateadj_set_def lan8814_ts_clock_adj1ns_def base_data_of_def
        intro!: lspec_bind lspec_data_of lspec_enter lspec_exit lspec_only_if lspec_return)
  from lspec_world [OF this] show ?thesis by auto
qed

theorem lan8814_ts_clock_base_only_witness:
  "lops (exec (lan8814_ts_ltc_set 2 (Some mepa_timestamp_0)) (sim_world (\<lambda>_. 0) (\<lambda>_. sim_ts_port 0 None))) = []"
  using lan8814_ts_clock_base_only [of "sim_world (\<lambda>_. 0) (\<lambda>_. sim_ts_port 0 None)" 2 0
      "lan8814_ts_ltc_set 2 (Some mepa_timestamp_0)" "Some mepa_timestamp_0" MEPA_TS_CMD_LOAD None True]
  by simp

section \<open>Events\<close>

lemma ts_event_bits:
  "(ev AND MEPA_TS_EGR_FIFO_OVERFLOW \<noteq> 0) = bit ev 6"
  "(ev AND MEPA_TS_EGR_TIMESTAMP_CAPTURED \<noteq> 0) = bit ev 5"
  using and_exp_eq_0_iff_not_bit [of ev 6] and_exp_eq_0_iff_not_bit [of ev 5] by simp_all

lemma bit_8_4: "bit (8 :: int) i = (i = 3)" "bit (4 :: int) i = (i = 2)"
  "bit (-9 :: int) i = (i \<noteq> 3)" "bit (-5 :: int) i = (i \<noteq> 2)"
proof -
  show b: "bit (8 :: int) i = (i = 3)" "bit (4 :: int) i = (i = 2)"
    using bit_exp_iff [of 3 i, where ?'a = int] bit_exp_iff [of 2 i, where ?'a = int] by auto
  show "bit (-9 :: int) i = (i \<noteq> 3)" "bit (-5 :: int) i = (i \<noteq> 2)"
    using bit_not_int_iff [of 8 i] bit_not_int_iff [of 4 i] b by simp_all
qed

lemma ts_int_word_bits:
  assumes "i < 16"
  shows "bit (ts_int_word ev m) i = (if i = 3 then bit ev 6 else if i = 2 then bit ev 5 else bit m i)"
  using assms unfolding ts_int_word_def ts_event_bits Let_def
  by (auto simp: bit_or_iff bit_and_iff bit_not_iff bit_8_4)

lemma lspec_event_set:
  assumes ok: "bus_at dv p"
    and m: "old = tpc_event_mask (ts_conf (D p))" "new = (if enable then old OR ev else old AND NOT ev)"
    and D': "D' = D(p := (D p)\<lparr>pd_ts_state := (pd_ts_state (D p))\<lparr>tsd_port_conf :=
        (ts_conf (D p))\<lparr>tpc_event_mask := new\<rparr>\<rparr>\<rparr>)"
    and T: "\<And>x x'. enable = (old AND ev = 0) \<Longrightarrow> Q 0 D'
        [LRd (callout_ctx (dv p)) (ep LAN8814_PTP_TSU_INT_EN) x,
         LRd (callout_ctx (dv p)) (ep LAN8814_PTP_TSU_INT_EN) x',
         LWr (callout_ctx (dv p)) (ep LAN8814_PTP_TSU_INT_EN) (ts_int_word new x)]"
    and F: "enable \<noteq> (old AND ev = 0) \<Longrightarrow> Q 0 D' []"
  shows "lspec dv (lan8814_ts_event_set p enable ev) D Q"
proof -
  have e: "(if enable then old AND ev = 0 else old AND ev \<noteq> 0) = (enable = (old AND ev = 0))" by simp
  show ?thesis
    unfolding lan8814_ts_event_set_def
    apply (intro lspec_bind lspec_enter lspec_data_of lspec_let lspec_upd_tpc)
    apply (simp only: m(1) [symmetric] m(2) [symmetric] D' [symmetric] e)
    apply (intro lspec_basic lspec_reg ok)
    using T F D' apply (simp_all add: reg_side)
    done
qed

text \<open>
  Enabling events.  On a bus that works, \<open>lan8814_ts_event_set\<close> adds or removes the events of the mask and
  writes the interrupt enable register at most once, with one bit for each of the two egress
  events and the others as read.  The write is left out when none of the events to be
  disabled was enabled, but also when one of the events to be enabled already was: the
  other events of such a call are then remembered without their interrupt.
\<close>

theorem lan8814_ts_event_set_register:
  assumes "bus_at (devs w) p" "run_state (lan8814_ts_event_set p enable ev) w = (rc, w')"
    and "old = tpc_event_mask (ts_conf (priv w p))" "new = tpc_event_mask (ts_conf (priv w' p))"
  shows "rc = MEPA_RC_OK \<and> new = (if enable then old OR ev else old AND NOT ev) \<and>
    (\<exists>ops. lops w' = lops w @ ops \<and>
      (if enable = (old AND ev = 0)
       then \<exists>x x' y. reads_of (ep LAN8814_PTP_TSU_INT_EN) ops = [x, x'] \<and> writes ops = [(ep LAN8814_PTP_TSU_INT_EN, y)] \<and>
         (\<forall>i < 16. bit y i = (if i = 3 then bit new 6 else if i = 2 then bit new 5 else bit x i))
       else ops = []))"
proof -
  define N where N: "N = (if enable then old OR ev else old AND NOT ev)"
  let ?R = "\<lambda>ops. if enable = (old AND ev = 0)
       then \<exists>x x' y. reads_of (ep LAN8814_PTP_TSU_INT_EN) ops = [x, x'] \<and> writes ops = [(ep LAN8814_PTP_TSU_INT_EN, y)] \<and>
         (\<forall>i < 16. bit y i = (if i = 3 then bit N 6 else if i = 2 then bit N 5 else bit x i))
       else ops = []"
  have "lspec (devs w) (lan8814_ts_event_set p enable ev) (priv w) (\<lambda>rc D ops. rc = 0 \<and>
      tpc_event_mask (ts_conf (D p)) = N \<and> ?R ops)"
    by (rule lspec_event_set [where D = "priv w", OF assms(1,3) N refl])
      (simp_all add: ts_int_word_bits)
  from lspec_run [OF this assms(2)] assms(4) have "rc = 0" "new = N"
    "\<exists>ops. lops w' = lops w @ ops \<and> ?R ops" by blast+
  then show ?thesis using N by (simp only:)
qed

theorem lan8814_ts_event_set_register_witness:
  "let w = sim_world (\<lambda>_. 0) (\<lambda>_. sim_ts_port 0 None);
       w' = exec (lan8814_ts_event_set 1 True MEPA_TS_EGR_TIMESTAMP_CAPTURED) w
   in tpc_event_mask (ts_conf (priv w' 1)) = 0x20 \<and>
     (\<exists>y. writes (lops w') = [(ep LAN8814_PTP_TSU_INT_EN, y)] \<and> bit y 2)"
proof -
  let ?w = "sim_world (\<lambda>_. 0) (\<lambda>_. sim_ts_port 0 None)"
  let ?w' = "exec (lan8814_ts_event_set 1 True MEPA_TS_EGR_TIMESTAMP_CAPTURED) ?w"
  have b: "bit (0x20 :: 32 word) 5" by simp
  have o: "0 = tpc_event_mask (ts_conf (priv ?w 1))" "lops ?w = []"
    by simp_all
  note t = lan8814_ts_event_set_register [where enable = True and ev = MEPA_TS_EGR_TIMESTAMP_CAPTURED,
      OF _ run_state_eq o(1) refl]
  have n: "tpc_event_mask (ts_conf (priv ?w' 1)) = 0x20" using t by simp
  have "\<exists>y. writes (lops ?w') = [(ep LAN8814_PTP_TSU_INT_EN, y)] \<and>
      (\<forall>i < 16. i = 2 \<longrightarrow> bit y i = bit (0x20 :: 32 word) 5)"
    using t unfolding n o(2) by auto
  with n b show ?thesis by (auto simp: Let_def)
qed

lemma ts_event_word_bits:
  "bit (ts_event_word ev v) i = (bit ev i \<and> (i = 6 \<and> bit v 3 \<or> i = 5 \<and> bit v 2))"
proof -
  have "bit (0x40 :: int) i = (i = 6)" "bit (0x20 :: int) i = (i = 5)"
    using bit_exp_iff [of 6 i, where ?'a = int] bit_exp_iff [of 5 i, where ?'a = int] by auto
  then show ?thesis
    by (auto simp: ts_event_word_def has_bits_pow bit_or_iff bit_and_iff dest: bit_imp_le_length)
qed

text \<open>
  Polling events.  On a bus that works, \<open>lan8814_ts_event_poll\<close> reads the interrupt status of the
  chip and, when the bit of its port is set, that of the timestamping unit; it adds to the
  status exactly the events that are enabled and pending.
\<close>

theorem lan8814_ts_event_poll_enabled:
  assumes "bus_at (devs w) p" "run_state (lan8814_ts_event_poll p (Some st)) w = ((rc, st'), w')"
    and "port = unat (pd_packet_idx (priv w p)) mod 4" "c = callout_ctx (devs w p)"
  shows "rc = MEPA_RC_OK \<and> priv w' = priv w \<and>
    (\<exists>v s. lops w' = lops w @ [LRd c (ep LAN8814_CHIP_LVL_INTR_STATUS) v] @
        (if bit v port then [LRd c (ep LAN8814_PTP_TSU_INT_STS) s] else []) \<and>
      (\<exists>r. st' = Some r \<and> (\<forall>i. bit r i = (bit st i \<or> bit v port \<and> bit (tpc_event_mask (ts_conf (priv w p))) i \<and>
        (i = 6 \<and> bit s 3 \<or> i = 5 \<and> bit s 2)))))"
proof -
  have port: "has_bits v (push_bit port 1) = bit v port" for v
    using has_bits_single [of port v] assms(3) by (simp add: push_bit_eq_mult)
  have "lspec (devs w) (lan8814_ts_event_poll p (Some st)) (priv w) (\<lambda>x D ops. D = priv w \<and>
    (\<exists>v s. ops = [LRd c (ep LAN8814_CHIP_LVL_INTR_STATUS) v] @
        (if bit v port then [LRd c (ep LAN8814_PTP_TSU_INT_STS) s] else []) \<and>
      x = (0, Some (if bit v port then st OR ts_event_word (tpc_event_mask (ts_conf (priv w p))) s else st))))"
    unfolding lan8814_ts_event_poll_def option.case
    apply (intro lspec_bind lspec_enter lspec_data_of lspec_let lspec_ext_rd assms(1))
     apply (simp add: five_bit_def)
    apply (simp only: prod.case assms(3) [symmetric] port)
    apply (intro lspec_bind lspec_if lspec_ext_rd lspec_exit lspec_return lspec_case_prod assms(1))
    using assms(4) apply (auto simp: five_bit_def)
    done
  from lspec_run [OF this assms(2)] show ?thesis
    by (auto simp: bit_or_iff ts_event_word_bits split: if_splits)
qed

theorem lan8814_ts_event_poll_enabled_witness:
  "let w = sim_world (\<lambda>_. 0) (\<lambda>_. sim_ts_port 0 None)
   in fst (val (lan8814_ts_event_poll 1 (Some 0)) w) = MEPA_RC_OK \<and>
      (\<exists>r. snd (val (lan8814_ts_event_poll 1 (Some 0)) w) = Some r \<and> \<not> bit r 5)"
  using lan8814_ts_event_poll_enabled [OF _ run_state_eq2 refl refl, of "sim_world (\<lambda>_. 0) (\<lambda>_. sim_ts_port 0 None)" 1 0]
  by (auto simp: Let_def)

section \<open>Latencies\<close>

lemma uint_drop16: "uint (drop_bit 16 x) = uint x div 2 ^ 16" for x :: "64 word"
  by (simp add: drop_bit_eq_div uint_div)

lemma ingress_latency_ns:
  assumes "sint d = 2 ^ 16 * n" "0 \<le> n" "n < 2 ^ 16" "\<bar>sint l\<bar> < 2 ^ 32"
    and v: "v = n + sgn (sint l) * (\<bar>sint l\<bar> div 2 ^ 16)"
  shows "ingress_latency d l = (if 0 \<le> sint l \<or> 0 < v then Some (word_of_int v) else None)"
proof -
  have "uint d = 2 ^ 16 * n"
    using assms(1-3) by (simp add: uint_sint take_bit_int_eq_self)
  then have d: "ucast (drop_bit 16 d) = (word_of_int n :: 16 word)"
    by (simp only: ucast_eq uint_drop16) simp
  have u: "uint (MEPA_LLABS l) = \<bar>sint l\<bar>" by (rule uint_MEPA_LLABS)
  then have e: "ucast (drop_bit 16 (MEPA_LLABS l)) = (word_of_int (\<bar>sint l\<bar> div 2 ^ 16) :: 16 word)"
    by (simp only: ucast_eq uint_drop16)
  have "\<bar>sint l\<bar> div 2 ^ 16 < 2 ^ 16" using assms(4) by simp
  then have f: "uint (word_of_int (\<bar>sint l\<bar> div 2 ^ 16) :: 16 word) = \<bar>sint l\<bar> div 2 ^ 16"
    by (simp add: uint_word_of_int)
  have g: "drop_bit 16 (sint d) = n" using assms(1) by (simp add: drop_bit_eq_div)
  show ?thesis
    unfolding ingress_latency_def Let_def d e f g
    using v by (auto simp: sgn_if)
qed

lemma speed_latency_cases:
  assumes "speed_latency speed a b c = Some x"
  obtains "speed = MEPA_SPEED_10M" "x = a" | "speed = MEPA_SPEED_100M" "x = b"
    | "speed = MEPA_SPEED_1G \<or> speed = MEPA_SPEED_AUTO" "x = c"
  using assms by (auto simp: speed_latency_def split: if_splits)

lemma lspec_ingress_latency_set_at:
  assumes "bus_at dv p" "five_bit (fst r)"
    and "\<And>v x. ingress_latency d l = Some v \<Longrightarrow> Q () (D(p := (D p)\<lparr>pd_ts_state := (pd_ts_state (D p))
        \<lparr>tsd_port_conf := (ts_conf (D p))\<lparr>tpc_port_latencies := u (tpc_port_latencies (ts_conf (D p)))\<rparr>\<rparr>\<rparr>))
      [LRd (callout_ctx (dv p)) (ep r) x, LWr (callout_ctx (dv p)) (ep r) v]"
    and "ingress_latency d l = None \<Longrightarrow> Q () D []"
  shows "lspec dv (ingress_latency_set_at p d l r u) D Q"
  unfolding ingress_latency_set_at_def
  using assms by (auto intro!: lspec_return lspec_bind lspec_EP_WRM lspec_upd_tpc split: option.split)

definition sim_latency_port :: phy_data where
  "sim_latency_port = phy_data_0\<lparr>pd_base_dev := Some 0, pd_conf := mepa_conf_0\<lparr>conf_speed := MEPA_SPEED_AUTO\<rparr>,
     pd_ts_state := lan8814_ts_data_0\<lparr>tsd_default_latencies := lan8814_ts_port_latencies_0\<lparr>lat_rx1000mbps := 415 * 0x10000\<rparr>\<rparr>\<rparr>"

text \<open>
  Ingress latency.  With a default of \<open>n\<close> whole nanoseconds below \<open>2\<^sup>1\<^sup>6\<close> and an adjustment below
  \<open>2\<^sup>3\<^sup>2\<close> in units of \<open>2\<^sup>-\<^sup>1\<^sup>6\<close> ns, \<open>lan8814_ts_clock_ingress_latency_set\<close> writes the sum,
  the adjustment rounded towards 0 and the sum modulo \<open>2\<^sup>1\<^sup>6\<close>, to the register of
  the configured speed, and \<open>lan8814_ts_clock_ingress_latency_get\<close> returns the adjustment; a negative adjustment
  that leaves no positive sum is dropped without an error.
\<close>

theorem lan8814_ts_ingress_latency_sum:
  assumes "bus_at (devs w) p" "pd_base_dev (priv w p) = Some q"
    and "speed_latency (conf_speed (pd_conf (priv w p))) (LAN8814_PTP_RX_LATENCY_10, lat_rx10mbps)
      (LAN8814_PTP_RX_LATENCY_100, lat_rx100mbps) (LAN8814_PTP_RX_LATENCY_1000, lat_rx1000mbps) = Some (r, lat)"
    and "sint (lat (tsd_default_latencies (pd_ts_state (priv w q)))) = 2 ^ 16 * n"
      "0 \<le> n" "n < 2 ^ 16" "\<bar>sint l\<bar> < 2 ^ 32"
    and "v = n + sgn (sint l) * (\<bar>sint l\<bar> div 2 ^ 16)"
    and "run_state (lan8814_ts_clock_ingress_latency_set p (Some l)) w = (rc, w')"
    and "run_state (lan8814_ts_clock_ingress_latency_get p (Some x)) w' = ((rc', l'), w'')"
  shows "rc = MEPA_RC_OK \<and> (\<exists>ops. lops w' = lops w @ ops \<and>
    (if 0 \<le> sint l \<or> 0 < v then writes ops = [(ep r, word_of_int v)] \<and> l' = Some l
     else ops = [] \<and> priv w' = priv w))"
proof -
  note i = ingress_latency_ns [OF assms(4-8)]
  let ?P = "\<lambda>x D ops. x = 0 \<and> conf_speed (pd_conf (D p)) = conf_speed (pd_conf (priv w p)) \<and>
    (if 0 \<le> sint l \<or> 0 < v then writes ops = [(ep r, word_of_int v)] \<and>
       lat (tpc_port_latencies (ts_conf (D p))) = l else ops = [] \<and> D = priv w)"
  have "lspec (devs w) (lan8814_ts_clock_ingress_latency_set p (Some l)) (priv w) ?P"
    unfolding lan8814_ts_clock_ingress_latency_set_def option.case
    by (rule speed_latency_cases [OF assms(3)])
      (use i in \<open>auto intro!: lspec_bind lspec_enter lspec_data_of lspec_base_data_of [OF assms(2)]
        lspec_ingress_latency_set_at lspec_only_if lspec_exit lspec_return assms(1)
        simp: five_bit_def split: if_splits\<close>)
  from lspec_run [OF this assms(9)] obtain ops where "lops w' = lops w @ ops" "?P rc (priv w') ops" by blast
  moreover have "pspec (lan8814_ts_clock_ingress_latency_get p (Some x)) (priv w')
      (\<lambda>(rc, y) D. conf_speed (pd_conf (priv w' p)) = conf_speed (pd_conf (priv w p)) \<longrightarrow>
        y = Some (lat (tpc_port_latencies (ts_conf (priv w' p)))))"
    unfolding lan8814_ts_clock_ingress_latency_get_def option.case
    by (rule speed_latency_cases [OF assms(3)])
      (auto intro!: pspec_ts simp: get_latency_def speed_latency_def)
  from pspec_run [OF this assms(10)] have "conf_speed (pd_conf (priv w' p)) = conf_speed (pd_conf (priv w p)) \<longrightarrow>
        l' = Some (lat (tpc_port_latencies (ts_conf (priv w' p))))" by simp
  ultimately show ?thesis by auto
qed

theorem lan8814_ts_ingress_latency_sum_witness:
  "let w = sim_world (\<lambda>_. 0) (\<lambda>_. sim_latency_port);
       w' = exec (lan8814_ts_clock_ingress_latency_set 2 (Some (- (100 * 0x10000)))) w
   in writes (lops w') = [(ep LAN8814_PTP_RX_LATENCY_1000, 315)] \<and>
     snd (val (lan8814_ts_clock_ingress_latency_get 2 (Some 0)) w') = Some (- (100 * 0x10000))"
proof -
  have "sint (- 6553600 :: 64 word) = - 6553600" by simp
  then show ?thesis
    using lan8814_ts_ingress_latency_sum [of "sim_world (\<lambda>_. 0) (\<lambda>_. sim_latency_port)" 2 0
        LAN8814_PTP_RX_LATENCY_1000 lat_rx1000mbps 415 "- (100 * 0x10000)" 315, OF _ _ _ _ _ _ _ _ run_state_eq run_state_eq2, of 0]
    by (simp add: Let_def sim_latency_port_def speed_latency_def)
qed

end
