(* ===== verification/Lan8814_Ts_Class_Spec.thy ===== *)
theory Lan8814_Ts_Class_Spec
  imports Lan8814_Ts_Spec
begin

text \<open>
  What the packet classifiers and the PTP clock configuration do: which configurations are accepted,
  that an accepted one is returned, and two defects of the register settings.
\<close>

section \<open>Parts of a classifier\<close>

lemma pspec_classifier_parts:
  "Q 0 D \<Longrightarrow> pspec (lan8814_ts_classifier_ptp_conf_priv p b c) D Q"
  "Q 0 D \<Longrightarrow> pspec (lan8814_ts_classifier_ipv4_addr_conf_priv p b n) D Q"
  "Q 0 D \<Longrightarrow> pspec (lan8814_ts_classifier_ipv6_addr_conf_priv p b n) D Q"
  "Q 0 D \<Longrightarrow> pspec (lan8814_ts_classifier_mac_conf_set_priv p b m) D Q"
  "R () D \<Longrightarrow> pspec (vlan_outer p t) D R" "R () D \<Longrightarrow> pspec (vlan_inner p t) D R"
  unfolding lan8814_ts_classifier_ptp_conf_priv_def lan8814_ts_classifier_ipv4_addr_conf_priv_def
    lan8814_ts_classifier_ipv6_addr_conf_priv_def lan8814_ts_classifier_mac_conf_set_priv_def
    vlan_outer_def vlan_inner_def
  by (intro pspec_ts; assumption)+

lemma pspec_vlan:
  "Q (if tvc_num_tag v \<in> {1, 2} then MEPA_RC_OK else MEPA_RC_ERROR) D \<Longrightarrow>
    pspec (lan8814_ts_classifier_vlan_conf_set_priv p b v) D Q"
  unfolding lan8814_ts_classifier_vlan_conf_set_priv_def
  by (intro pspec_ts pspec_classifier_parts) (auto split: if_splits)

text \<open>The VLAN part of a classifier is in order.\<close>

definition vlan_ok :: "mepa_ts_classifier_eth \<Rightarrow> bool" where
  "vlan_ok eth = (tce_vlan_check eth \<longrightarrow> tvc_num_tag (tce_vlan_conf eth) \<in> {1, 2})"

lemma pspec_class_eth:
  assumes "\<And>x. Q (if vlan_ok eth then MEPA_RC_OK else MEPA_RC_ERROR, x) D"
  shows "pspec (class_eth p b d eth c) D Q"
  unfolding class_eth_def
  by (intro pspec_ts pspec_classifier_parts pspec_vlan)
    (use assms in \<open>auto simp: vlan_ok_def split: if_splits\<close>)

lemma pspec_class_ip:
  assumes "\<And>x. Q (MEPA_RC_OK, x) D"
  shows "pspec (class_ip p b eth ip c) D Q"
  unfolding class_ip_def
  by (intro pspec_ts pspec_classifier_parts) (use assms in \<open>auto split: if_splits\<close>)

lemma pspec_class_ptp:
  assumes "\<And>x. Q (if vlan_ok eth then MEPA_RC_OK else MEPA_RC_ERROR, x) D"
  shows "pspec (class_eth_ptp p b d eth) D Q" "pspec (class_ip_ptp p b d eth ip) D Q"
  unfolding class_eth_ptp_def class_ip_ptp_def
  by (intro pspec_ts pspec_class_eth pspec_class_ip; use assms in \<open>auto split: if_splits\<close>)+

section \<open>Accepted configurations\<close>

text \<open>
  The reference: the encapsulations are none, PTP over Ethernet and PTP over IP; source and
  destination together can only be compared in full; VLAN tags are one or two, without backbone
  bridging.
\<close>

definition class_accepted :: "mepa_ts_classifier \<Rightarrow> bool" where
  "class_accepted conf = (let eth = tcl_eth_class_conf conf; vlan = tce_vlan_conf eth
    in (tce_mac_match_select eth = MEPA_TS_ETH_MATCH_SRC_OR_DEST \<longrightarrow>
         tce_mac_match_mode eth = MEPA_TS_ETH_ADDR_MATCH_48BIT) \<and>
       (tce_vlan_check eth \<longrightarrow> \<not> tvc_pbb_en vlan) \<and>
       (case tcl_pkt_encap_type conf of
          MEPA_TS_ENCAP_NONE \<Rightarrow> True
        | MEPA_TS_ENCAP_ETH_PTP \<Rightarrow> vlan_ok eth
        | MEPA_TS_ENCAP_ETH_IP_PTP \<Rightarrow> vlan_ok eth
        | _ \<Rightarrow> False))"

lemma class_accepted_iff: "class_accepted conf = (\<not> class_rejected conf \<and>
     (tcl_pkt_encap_type conf = MEPA_TS_ENCAP_NONE \<or>
      tcl_pkt_encap_type conf \<in> {MEPA_TS_ENCAP_ETH_PTP, MEPA_TS_ENCAP_ETH_IP_PTP} \<and>
      vlan_ok (tcl_eth_class_conf conf)))"
  by (cases "tcl_pkt_encap_type conf") (auto simp: class_accepted_def class_rejected_def Let_def)

lemma pspec_classifier_set_priv:
  assumes "Q (if class_accepted conf then MEPA_RC_OK else MEPA_RC_ERROR) D"
  shows "pspec (lan8814_ts_rx_classifier_conf_set_priv p i conf) D Q"
    "pspec (lan8814_ts_tx_classifier_conf_set_priv p i conf) D Q"
  unfolding lan8814_ts_rx_classifier_conf_set_priv_def lan8814_ts_tx_classifier_conf_set_priv_def
  by (intro pspec_ts pspec_class_ptp; use assms in \<open>auto simp: class_accepted_iff split: if_splits\<close>)+

text \<open>
  C15: classifiers.  Whatever the bus does, setting the ingress or egress classifier succeeds exactly for the
  configurations that the unit supports, and then the matching function returns it; the other
  direction, and on an error both, keep what they had.
\<close>

theorem lan8814_ts_classifier_conf_roundtrip:
  assumes "run_state (if ing then lan8814_ts_rx_classifier_conf_set p i (Some conf)
        else lan8814_ts_tx_classifier_conf_set p i (Some conf)) w = (rc, w')"
    and "run_state (lan8814_ts_rx_classifier_conf_get p j (Some x)) w' = ((rc1, rx), w1)"
    and "run_state (lan8814_ts_tx_classifier_conf_get p k (Some y)) w' = ((rc2, tx), w2)"
  shows "rc = (if class_accepted conf then MEPA_RC_OK else MEPA_RC_ERROR) \<and>
    rx = Some (if ing \<and> class_accepted conf then conf else tpc_rx_pkt_conf (ts_conf (priv w p))) \<and>
    tx = Some (if \<not> ing \<and> class_accepted conf then conf else tpc_tx_pkt_conf (ts_conf (priv w p)))"
proof -
  let ?P = "\<lambda>rc D. rc = (if class_accepted conf then MEPA_RC_OK else MEPA_RC_ERROR) \<and>
    tpc_rx_pkt_conf (ts_conf (D p)) = (if ing \<and> class_accepted conf then conf else tpc_rx_pkt_conf (ts_conf (priv w p))) \<and>
    tpc_tx_pkt_conf (ts_conf (D p)) = (if \<not> ing \<and> class_accepted conf then conf else tpc_tx_pkt_conf (ts_conf (priv w p)))"
  have "pspec (if ing then lan8814_ts_rx_classifier_conf_set p i (Some conf)
        else lan8814_ts_tx_classifier_conf_set p i (Some conf)) (priv w) ?P"
    unfolding lan8814_ts_rx_classifier_conf_set_def lan8814_ts_tx_classifier_conf_set_def option.case
    by (intro pspec_classifier_set_priv pspec_ts) (auto split: if_splits)
  from pspec_run [OF this assms(1)] have P: "?P rc (priv w')" .
  have "pspec (lan8814_ts_rx_classifier_conf_get p j (Some x)) (priv w')
      (\<lambda>r D. snd r = Some (tpc_rx_pkt_conf (ts_conf (priv w' p))))"
    "pspec (lan8814_ts_tx_classifier_conf_get p k (Some y)) (priv w')
      (\<lambda>r D. snd r = Some (tpc_tx_pkt_conf (ts_conf (priv w' p))))"
    unfolding lan8814_ts_rx_classifier_conf_get_def lan8814_ts_tx_classifier_conf_get_def option.case
    by (intro pspec_ts; simp)+
  from pspec_run [OF this(1) assms(2)] pspec_run [OF this(2) assms(3)] P show ?thesis by simp
qed

theorem lan8814_ts_classifier_conf_roundtrip_witness:
  "let w = sim_world (\<lambda>_. 0) (\<lambda>_. phy_data_0); c = mepa_ts_classifier_0\<lparr>tcl_clock_id := 3\<rparr>;
       w' = exec (lan8814_ts_tx_classifier_conf_set 1 0 (Some c)) w
   in snd (val (lan8814_ts_tx_classifier_conf_get 1 0 (Some c)) w') = Some c"
  using lan8814_ts_classifier_conf_roundtrip [of False 1 0 "mepa_ts_classifier_0\<lparr>tcl_clock_id := 3\<rparr>"
      "sim_world (\<lambda>_. 0) (\<lambda>_. phy_data_0)", unfolded if_False, OF run_state_eq run_state_eq2 run_state_eq2]
  by (simp add: Let_def class_accepted_def class_rejected_def mepa_ts_classifier_0_def mepa_ts_classifier_eth_0_def)

section \<open>Two defects\<close>

lemma lspec_ptp_conf:
  assumes ok: "bus_at dv p"
    and Q: "\<And>ops. writes ops = (if ing then [(ep LAN8814_PTP_RX_VERSION, ptp_version c)] else []) @
       [(ep LAN8814_PTP_TX_VERSION, ptp_version c),
        (ep (if ing then LAN8814_PTP_RX_DOMAIN_DOMAIN_LO else LAN8814_PTP_TX_DOMAIN_DOMAIN_LO), domain_lo ing (tcp_domain c)),
        (ep (if ing then LAN8814_PTP_RX_DOMAIN_MASK_DOMAIN_UP else LAN8814_PTP_TX_DOMAIN_MASK_DOMAIN_UP),
          domain_up (tcp_domain c))] \<Longrightarrow> Q 0 D ops"
  shows "lspec dv (lan8814_ts_classifier_ptp_conf_priv p ing c) D Q"
  unfolding lan8814_ts_classifier_ptp_conf_priv_def
  by (cases ing; simp only: if_True if_False only_if_def;
      intro lspec_basic lspec_reg ok Q) (simp_all add: reg_side)

lemma lspec_table_at: "t f \<noteq> None \<Longrightarrow> (\<And>v. Q v D []) \<Longrightarrow> lspec dv (table_at t f i) D Q"
  by (auto simp: table_at_def intro!: lspec_return)

lemma lspec_egress_latency:
  assumes "two_step \<Longrightarrow> lan8814_twostep_egr_lat_adj freq \<noteq> None" "\<And>l. Q l D []"
  shows "lspec dv (egress_latency freq two_step i d u) D Q"
  unfolding egress_latency_def
  using assms by (auto intro!: lspec_bind lspec_if lspec_return lspec_table_at)

definition tx_latency_regs :: "lreg set" where
  "tx_latency_regs = ep ` {LAN8814_PTP_TX_LATENCY_10, LAN8814_PTP_TX_LATENCY_100, LAN8814_PTP_TX_LATENCY_1000}"

lemma lspec_reload:
  assumes ok: "bus_at dv p" and b: "pd_base_dev (D p) = Some q"
    and t: "two_step \<Longrightarrow> lan8814_twostep_egr_lat_adj (tsd_clk_freq (pd_ts_state (D q))) \<noteq> None"
    and Q: "\<And>ops. only_writes tx_latency_regs ops \<Longrightarrow> Q 0 D ops"
  shows "lspec dv (lan8814_ts_reload_egress_latency p two_step) D Q"
  unfolding lan8814_ts_reload_egress_latency_def
  by (intro lspec_basic lspec_base_data_of [OF b] lspec_egress_latency t lspec_reg ok Q)
    (simp_all add: reg_side tx_latency_regs_def)

definition tx_clock_regs :: "lreg set" where
  "tx_clock_regs = ep ` {LAN8814_PTP_TX_TIMESTAMP_EN, LAN8814_PTP_TX_CF_MOD_EN, LAN8814_PTP_TX_CF_CFG,
     LAN8814_PTP_TX_TIMESTAMP_CONFIG, LAN8814_PTP_TX_MOD}"

lemma lspec_tx_clock_enable:
  assumes "bus_at dv p" "\<And>ops. only_writes tx_clock_regs ops \<Longrightarrow> Q 0 D ops"
  shows "lspec dv (tx_clock_enable p d c) D Q"
  unfolding tx_clock_enable_def
  by (intro lspec_basic lspec_reg assms) (simp_all add: reg_side tx_clock_regs_def)

lemma clock_conf_eq: "b = pcc_enable conf \<Longrightarrow> c\<lparr>pcc_ptp_class_conf := pcc_ptp_class_conf conf, pcc_enable := b,
    pcc_clk_mode := pcc_clk_mode conf, pcc_delaym_type := pcc_delaym_type conf\<rparr> =
    conf\<lparr>pcc_cf_update := pcc_cf_update c\<rparr>"
  for c conf :: mepa_ts_ptp_clock_conf
  by (cases c; cases conf) simp

text \<open>
  The egress clock sets the ingress domain.  \<open>lan8814_ts_tx_ptp_clock_conf_set\<close> writes the domain of its
  configuration into the two ingress registers and overwrites both versions; it
  never writes the domain registers of the egress direction.
\<close>

theorem lan8814_ts_tx_clock_sets_rx_domain:
  assumes "bus_at (devs w) p" "pd_base_dev (priv w p) = Some q"
    and "is_two_step conf \<Longrightarrow> lan8814_twostep_egr_lat_adj (tsd_clk_freq (pd_ts_state (priv w q))) \<noteq> None"
    and "run_state (lan8814_ts_tx_ptp_clock_conf_set p i conf) w = (rc, w')"
  shows "rc = MEPA_RC_OK \<and> tpc_tx_clock_conf (ts_conf (priv w' p)) =
      conf\<lparr>pcc_cf_update := pcc_cf_update (tpc_tx_clock_conf (ts_conf (priv w p)))\<rparr> \<and>
    (\<exists>ops. lops w' = lops w @ ops \<and>
      writes_to (ep LAN8814_PTP_RX_DOMAIN_DOMAIN_LO) ops = [domain_lo True (tcp_domain (pcc_ptp_class_conf conf))] \<and>
      writes_to (ep LAN8814_PTP_RX_DOMAIN_MASK_DOMAIN_UP) ops = [domain_up (tcp_domain (pcc_ptp_class_conf conf))] \<and>
      writes_to (ep LAN8814_PTP_RX_VERSION) ops = [ptp_version (pcc_ptp_class_conf conf)] \<and>
      writes_to (ep LAN8814_PTP_TX_DOMAIN_DOMAIN_LO) ops = [] \<and>
      writes_to (ep LAN8814_PTP_TX_DOMAIN_MASK_DOMAIN_UP) ops = [])"
proof -
  let ?c = "pcc_ptp_class_conf conf"
  let ?conf = "conf\<lparr>pcc_cf_update := pcc_cf_update (tpc_tx_clock_conf (ts_conf (priv w p)))\<rparr>"
  let ?W = "\<lambda>ops. \<exists>o1 o2 o3. ops = o1 @ o2 @ o3 \<and> only_writes tx_latency_regs o1 \<and> only_writes tx_clock_regs o3 \<and>
     writes o2 = [(ep LAN8814_PTP_RX_VERSION, ptp_version ?c), (ep LAN8814_PTP_TX_VERSION, ptp_version ?c),
        (ep LAN8814_PTP_RX_DOMAIN_DOMAIN_LO, domain_lo True (tcp_domain ?c)),
        (ep LAN8814_PTP_RX_DOMAIN_MASK_DOMAIN_UP, domain_up (tcp_domain ?c))]"
  have "lspec (devs w) (lan8814_ts_tx_ptp_clock_conf_set p i conf) (priv w) (\<lambda>x D ops. x = 0 \<and>
     tpc_tx_clock_conf (ts_conf (D p)) = ?conf \<and> ?W ops)"
    unfolding lan8814_ts_tx_ptp_clock_conf_set_def
    apply (intro lspec_bind lspec_enter lspec_reload [where D = "priv w", OF assms(1,2)] assms(3) lspec_ptp_conf assms(1))
     apply assumption
    apply (simp only: if_True simp_thms only_if_def)
    apply (intro lspec_basic lspec_upd_tpc lspec_tx_clock_enable lspec_reg assms(1))
    apply (simp_all add: reg_side tx_clock_regs_def clock_conf_eq)
     apply (intro exI conjI, rule refl, assumption, simp, assumption)
    apply (intro exI conjI, rule refl, assumption+)
    done
  from lspec_run [OF this assms(4)] obtain o1 o2 o3 where "rc = 0" "tpc_tx_clock_conf (ts_conf (priv w' p)) = ?conf"
    and o: "lops w' = lops w @ o1 @ o2 @ o3" "only_writes tx_latency_regs o1" "only_writes tx_clock_regs o3"
      "writes o2 = [(ep LAN8814_PTP_RX_VERSION, ptp_version ?c), (ep LAN8814_PTP_TX_VERSION, ptp_version ?c),
        (ep LAN8814_PTP_RX_DOMAIN_DOMAIN_LO, domain_lo True (tcp_domain ?c)),
        (ep LAN8814_PTP_RX_DOMAIN_MASK_DOMAIN_UP, domain_up (tcp_domain ?c))]"
    by blast
  have d: "writes_to r o1 = []" "writes_to r o3 = []" if "r \<notin> tx_latency_regs \<union> tx_clock_regs" for r
    using only_writes_to [OF o(2), of r] only_writes_to [OF o(3), of r] that by auto
  show ?thesis
    using \<open>rc = 0\<close> \<open>tpc_tx_clock_conf (ts_conf (priv w' p)) = ?conf\<close> o(1)
    by (auto simp: d writes_to_writes [OF o(4)] tx_latency_regs_def tx_clock_regs_def)
qed

theorem lan8814_ts_tx_clock_sets_rx_domain_witness:
  "let w = sim_world (\<lambda>_. 0) (\<lambda>_. sim_ts_port 0 None);
       w' = exec (lan8814_ts_tx_ptp_clock_conf_set 1 0 mepa_ts_ptp_clock_conf_0) w
   in writes_to (ep LAN8814_PTP_TX_DOMAIN_DOMAIN_LO) (lops w') = [] \<and>
     (\<exists>y. writes_to (ep LAN8814_PTP_RX_DOMAIN_DOMAIN_LO) (lops w') = [y])"
  using lan8814_ts_tx_clock_sets_rx_domain [OF _ _ _ run_state_eq, of "sim_world (\<lambda>_. 0) (\<lambda>_. sim_ts_port 0 None)" 1 0
      mepa_ts_ptp_clock_conf_0]
  by (auto simp: Let_def)

text \<open>
  The VLAN identifier loses its highest bit.  For a single tag that is matched by value, the classifier
  makes the same accesses for an identifier as for the one that differs in bit 11: the
  register fields are 11 bits wide, an identifier has 12.
\<close>

theorem lan8814_ts_vlan_id_truncated:
  assumes "tvc_num_tag v = 1" "m16_mode (tvc_inner_tag v) = MEPA_TS_MATCH_MODE_VALUE"
  shows "lan8814_ts_classifier_vlan_conf_set_priv p ing
      (v\<lparr>tvc_inner_tag := (tvc_inner_tag v)\<lparr>m16_hi := m16_hi (tvc_inner_tag v) XOR 0x800\<rparr>\<rparr>) =
    (lan8814_ts_classifier_vlan_conf_set_priv p ing v :: ('h, mepa_rc) lan)"
proof -
  have "(x XOR 0x800) AND mask 11 = x AND mask 11" for x :: "16 word"
    by (rule bit_word_eqI) (auto simp: bit_and_iff bit_xor_iff bit_mask_iff bit_single)
  then have "LAN8814_VLAN1_TYPE_ID_VAL_F (x XOR 0x800) = LAN8814_VLAN1_TYPE_ID_VAL_F x" for x
    by (simp add: ts_fields LAN8814_ENCODE_BITFIELD_def LAN8814_BIT_MASK_def)
  with assms show ?thesis
    by (simp add: lan8814_ts_classifier_vlan_conf_set_priv_def vlan_inner_def)
qed

theorem lan8814_ts_vlan_id_truncated_witness:
  "let v = (tce_vlan_conf mepa_ts_classifier_eth_0)\<lparr>tvc_num_tag := 1,
       tvc_inner_tag := \<lparr>m16_mode = MEPA_TS_MATCH_MODE_VALUE, m16_hi = 1, m16_lo = 0xFFF\<rparr>\<rparr>
   in exec (lan8814_ts_classifier_vlan_conf_set_priv 0 True (v\<lparr>tvc_inner_tag := (tvc_inner_tag v)\<lparr>m16_hi := 0x801\<rparr>\<rparr>)) =
     exec (lan8814_ts_classifier_vlan_conf_set_priv 0 True v :: (sim, mepa_rc) lan)"
  using lan8814_ts_vlan_id_truncated [where ?'h = sim, of "(tce_vlan_conf mepa_ts_classifier_eth_0)\<lparr>tvc_num_tag := 1,
       tvc_inner_tag := \<lparr>m16_mode = MEPA_TS_MATCH_MODE_VALUE, m16_hi = 1, m16_lo = 0xFFF\<rparr>\<rparr>" 0 True]
  by (simp add: Let_def)

end
