(* ===== verification/Lan887x_Regs.thy ===== *)
theory Lan887x_Regs
  imports Phy_Lib
begin

text \<open>
  The register constants and bit-field macros that the LAN887x driver uses:
  \<open>lan887x/src/lan887x_registers.h\<close>, \<open>lan887x/src/lan887x_private.h\<close> and
  \<open>common/include/phy_defines.h\<close>.  Register offsets and MMD numbers are 32-bit, as the
  parameters of the accessors are, contents and bits 16-bit.
\<close>

section \<open>Bit fields\<close>

definition BIT_MASK :: "nat \<Rightarrow> 16 word" where
  "BIT_MASK x = push_bit x 1 - 1"

definition EXTRACT_BITFIELD :: "('a :: len) word \<Rightarrow> nat \<Rightarrow> nat \<Rightarrow> 'a word" where
  "EXTRACT_BITFIELD v offset width = (drop_bit offset v AND ucast (BIT_MASK width))"

definition ENCODE_BITFIELD :: "16 word \<Rightarrow> nat \<Rightarrow> nat \<Rightarrow> 16 word" where
  "ENCODE_BITFIELD v offset width = push_bit offset (v AND BIT_MASK width)"

definition GET_PHY_ID1 :: "32 word \<Rightarrow> 32 word" where
  "GET_PHY_ID1 x = (push_bit 2 x AND 0x03FFFC)"

definition GET_PHY_ID2 :: "32 word \<Rightarrow> 32 word" where
  "GET_PHY_ID2 x = (push_bit 18 (EXTRACT_BITFIELD x 10 6) AND 0xFFFFFFFF)"

definition GET_PHY_REV :: "32 word \<Rightarrow> 32 word" where
  "GET_PHY_REV x = EXTRACT_BITFIELD x 0 4"

definition GET_PHY_MODEL :: "32 word \<Rightarrow> 32 word" where
  "GET_PHY_MODEL x = EXTRACT_BITFIELD x 4 6"

definition IS_LAN887X_B0_PROTOS :: "32 word \<Rightarrow> bool" where
  "IS_LAN887X_B0_PROTOS i = (i AND 0xFFFFF2 = 0x7C002)"

definition LAN8870_PHY_REG_ADDR :: "32 word \<Rightarrow> 32 word" where
  "LAN8870_PHY_REG_ADDR addr = (addr AND 0x00FF)"

definition PHY_REG_ADDR :: "32 word \<Rightarrow> 32 word" where
  "PHY_REG_ADDR addr = (addr AND 0xFFFF)"

definition PHY_MMD_DEVAD :: "32 word \<Rightarrow> 32 word" where
  "PHY_MMD_DEVAD addr = drop_bit 16 (addr AND 0x00FF0000)"

definition LAN887X_STS_TC10_STATE_GET :: "16 word \<Rightarrow> 16 word" where
  "LAN887X_STS_TC10_STATE_GET x = EXTRACT_BITFIELD x 0 3"

definition WK_OUT_MODE_SET :: "16 word \<Rightarrow> 16 word" where
  "WK_OUT_MODE_SET x = ENCODE_BITFIELD x 9 2"

section \<open>Constants\<close>

abbreviation (input) MDIO_MMD_PMAPMD :: "32 word"
  where "MDIO_MMD_PMAPMD \<equiv> 1"
abbreviation (input) MDIO_MMD_PCS :: "32 word"
  where "MDIO_MMD_PCS \<equiv> 3"
abbreviation (input) MDIO_MMD_AN :: "32 word"
  where "MDIO_MMD_AN \<equiv> 7"
abbreviation (input) MDIO_MMD_VEND1 :: "32 word"
  where "MDIO_MMD_VEND1 \<equiv> 30"
abbreviation (input) MII_BMCR :: "32 word"
  where "MII_BMCR \<equiv> 0"
abbreviation (input) BMCR_ISOLATE :: "16 word"
  where "BMCR_ISOLATE \<equiv> 0x400"
abbreviation (input) BMCR_PDOWN :: "16 word"
  where "BMCR_PDOWN \<equiv> 0x800"
abbreviation (input) BMCR_RESET :: "16 word"
  where "BMCR_RESET \<equiv> 0x8000"
abbreviation (input) MII_PHYSID1 :: "32 word"
  where "MII_PHYSID1 \<equiv> 2"
abbreviation (input) MII_PHYSID2 :: "32 word"
  where "MII_PHYSID2 \<equiv> 3"
abbreviation (input) MDIO_STAT1 :: "32 word"
  where "MDIO_STAT1 \<equiv> 1"
abbreviation (input) MDIO_AN_CTRL1_ENABLE :: "16 word"
  where "MDIO_AN_CTRL1_ENABLE \<equiv> 0x1000"
abbreviation (input) MDIO_AN_CTRL1_RESTART :: "16 word"
  where "MDIO_AN_CTRL1_RESTART \<equiv> 0x200"
abbreviation (input) MDIO_AN_T1_CTRL :: "32 word"
  where "MDIO_AN_T1_CTRL \<equiv> 512"
abbreviation (input) MDIO_AN_T1_STAT :: "32 word"
  where "MDIO_AN_T1_STAT \<equiv> 513"
abbreviation (input) MDIO_AN_T1_ADV_L :: "32 word"
  where "MDIO_AN_T1_ADV_L \<equiv> 0x202"
abbreviation (input) MDIO_AN_T1_ADV_M :: "32 word"
  where "MDIO_AN_T1_ADV_M \<equiv> 0x203"
abbreviation (input) MDIO_AN_T1_LP_L :: "32 word"
  where "MDIO_AN_T1_LP_L \<equiv> 0x205"
abbreviation (input) MDIO_AN_T1_LP_M :: "32 word"
  where "MDIO_AN_T1_LP_M \<equiv> 0x206"
abbreviation (input) MDIO_AN_T1_ADV_M_MST :: "16 word"
  where "MDIO_AN_T1_ADV_M_MST \<equiv> 0x10"
abbreviation (input) MDIO_AN_STAT1_COMPLETE :: "16 word"
  where "MDIO_AN_STAT1_COMPLETE \<equiv> 0x20"
abbreviation (input) LPA_100FULL :: "16 word"
  where "LPA_100FULL \<equiv> 0x20"
abbreviation (input) LPA_1000FULL :: "16 word"
  where "LPA_1000FULL \<equiv> 0x80"
abbreviation (input) MDIO_AN_T1_ADV_M_B1000 :: "16 word"
  where "MDIO_AN_T1_ADV_M_B1000 \<equiv> 0x80"
abbreviation (input) MDIO_AN_T1_ADV_M_B100 :: "16 word"
  where "MDIO_AN_T1_ADV_M_B100 \<equiv> 0x20"
abbreviation (input) MASTER_SLAVE_STATE_UNSUPPORTED :: "8 word"
  where "MASTER_SLAVE_STATE_UNSUPPORTED \<equiv> 0"
abbreviation (input) MASTER_SLAVE_STATE_MASTER :: "8 word"
  where "MASTER_SLAVE_STATE_MASTER \<equiv> 2"
abbreviation (input) MASTER_SLAVE_STATE_SLAVE :: "8 word"
  where "MASTER_SLAVE_STATE_SLAVE \<equiv> 3"
abbreviation (input) MASTER_SLAVE_STATE_ERR :: "8 word"
  where "MASTER_SLAVE_STATE_ERR \<equiv> 4"
abbreviation (input) MDIO_STAT1_LSTATUS :: "16 word"
  where "MDIO_STAT1_LSTATUS \<equiv> 4"
abbreviation (input) MDIO_PMA_PMD_BT1_CTRL :: "32 word"
  where "MDIO_PMA_PMD_BT1_CTRL \<equiv> 0x834"
abbreviation (input) MDIO_PMA_PMD_BT1_CTRL_CFG_MST :: "16 word"
  where "MDIO_PMA_PMD_BT1_CTRL_CFG_MST \<equiv> 0x4000"
abbreviation (input) LAN887X_DEF_MASK :: "16 word"
  where "LAN887X_DEF_MASK \<equiv> 0xFFFF"
abbreviation (input) LAN887X_PMA_COMM_100T1_CTL_T1_TYPE_1000 :: "16 word"
  where "LAN887X_PMA_COMM_100T1_CTL_T1_TYPE_1000 \<equiv> 1"
abbreviation (input) LAN887X_PMA_1000T1_DSP_PMA_CTL_REG :: "32 word"
  where "LAN887X_PMA_1000T1_DSP_PMA_CTL_REG \<equiv> 0x810E"
abbreviation (input) LAN887X_PMA_1000T1_DSP_PMA_LNK_SYNC :: "16 word"
  where "LAN887X_PMA_1000T1_DSP_PMA_LNK_SYNC \<equiv> 0x10"
abbreviation (input) LAN887X_T1_AFE_PORT_TESTBUS_CTRL4_REG :: "32 word"
  where "LAN887X_T1_AFE_PORT_TESTBUS_CTRL4_REG \<equiv> 0x808B"
abbreviation (input) LAN887X_DSP_REGS_COEFF_MOD_CONFIG :: "32 word"
  where "LAN887X_DSP_REGS_COEFF_MOD_CONFIG \<equiv> 0x80D"
abbreviation (input) LAN887X_DSP_REGS_COEFF_MOD_CONFIG_DCQ_COEFF_EN :: "16 word"
  where "LAN887X_DSP_REGS_COEFF_MOD_CONFIG_DCQ_COEFF_EN \<equiv> 0x100"
abbreviation (input) LAN887X_DSP_REGS_DCQ_SQI_STATUS :: "32 word"
  where "LAN887X_DSP_REGS_DCQ_SQI_STATUS \<equiv> 0x8B2"
abbreviation (input) T1_DCQ_SQI_MSK :: "16 word"
  where "T1_DCQ_SQI_MSK \<equiv> 0xE"
abbreviation (input) LAN887X_DSP_CALIB_CONFIG_100 :: "32 word"
  where "LAN887X_DSP_CALIB_CONFIG_100 \<equiv> 0x437"
abbreviation (input) LAN887X_DSP_CALIB_CONFIG_100_VAL :: "16 word"
  where "LAN887X_DSP_CALIB_CONFIG_100_VAL \<equiv> 0x38"
abbreviation (input) LAN887X_DSP_REGS_MAX_PGA_GAIN_100 :: "32 word"
  where "LAN887X_DSP_REGS_MAX_PGA_GAIN_100 \<equiv> 0x44F"
abbreviation (input) LAN887X_DSP_REGS_MIN_PGA_GAIN_100 :: "32 word"
  where "LAN887X_DSP_REGS_MIN_PGA_GAIN_100 \<equiv> 0x450"
abbreviation (input) LAN887X_DSP_REGS_START_CBL_DIAG_100 :: "32 word"
  where "LAN887X_DSP_REGS_START_CBL_DIAG_100 \<equiv> 0x45A"
abbreviation (input) LAN887X_DSP_REGS_START_CBL_DIAG_DONE :: "16 word"
  where "LAN887X_DSP_REGS_START_CBL_DIAG_DONE \<equiv> 2"
abbreviation (input) LAN887X_DSP_REGS_START_CBL_DIAG_EN :: "16 word"
  where "LAN887X_DSP_REGS_START_CBL_DIAG_EN \<equiv> 1"
abbreviation (input) LAN887X_DSP_REGS_CBL_DIAG_TDR_THRESH_100 :: "32 word"
  where "LAN887X_DSP_REGS_CBL_DIAG_TDR_THRESH_100 \<equiv> 0x45B"
abbreviation (input) LAN887X_DSP_REGS_CBL_DIAG_AGC_THRESH_100 :: "32 word"
  where "LAN887X_DSP_REGS_CBL_DIAG_AGC_THRESH_100 \<equiv> 0x45C"
abbreviation (input) LAN887X_DSP_REGS_CBL_DIAG_MIN_WAIT_CONFIG_100 :: "32 word"
  where "LAN887X_DSP_REGS_CBL_DIAG_MIN_WAIT_CONFIG_100 \<equiv> 0x45D"
abbreviation (input) LAN887X_DSP_REGS_CBL_DIAG_MAX_WAIT_CONFIG_100 :: "32 word"
  where "LAN887X_DSP_REGS_CBL_DIAG_MAX_WAIT_CONFIG_100 \<equiv> 0x45E"
abbreviation (input) LAN887X_DSP_REGS_CBL_DIAG_CYC_CONFIG_100 :: "32 word"
  where "LAN887X_DSP_REGS_CBL_DIAG_CYC_CONFIG_100 \<equiv> 0x45F"
abbreviation (input) LAN887X_DSP_REGS_CBL_DIAG_TX_PULSE_CONFIG_100 :: "32 word"
  where "LAN887X_DSP_REGS_CBL_DIAG_TX_PULSE_CONFIG_100 \<equiv> 0x460"
abbreviation (input) LAN887X_DSP_REGS_CBL_DIAG_MIN_PGA_GAIN_100 :: "32 word"
  where "LAN887X_DSP_REGS_CBL_DIAG_MIN_PGA_GAIN_100 \<equiv> 0x462"
abbreviation (input) LAN887X_CHIPTOP_COMM_REG_1 :: "32 word"
  where "LAN887X_CHIPTOP_COMM_REG_1 \<equiv> 0xC00"
abbreviation (input) LAN887X_CHIPTOP_COMM_REG_1_AFE_LPBK_EN :: "16 word"
  where "LAN887X_CHIPTOP_COMM_REG_1_AFE_LPBK_EN \<equiv> 2"
abbreviation (input) LAN887X_CHIPTOP_COMM_LED1_LED0 :: "32 word"
  where "LAN887X_CHIPTOP_COMM_LED1_LED0 \<equiv> 0xC04"
abbreviation (input) LAN887X_CHIPTOP_COMM_LED3_LED2 :: "32 word"
  where "LAN887X_CHIPTOP_COMM_LED3_LED2 \<equiv> 0xC05"
abbreviation (input) LAN887X_CHIPTOP_LED_LINK_ACT_ANY_SPEED :: "16 word"
  where "LAN887X_CHIPTOP_LED_LINK_ACT_ANY_SPEED \<equiv> 0"
abbreviation (input) LAN887X_CHIPTOP_LED_LINK_ACT_1000_SPEED :: "16 word"
  where "LAN887X_CHIPTOP_LED_LINK_ACT_1000_SPEED \<equiv> 1"
abbreviation (input) LAN887X_CHIPTOP_LED_LINK_ACT_100_SPEED :: "16 word"
  where "LAN887X_CHIPTOP_LED_LINK_ACT_100_SPEED \<equiv> 2"
abbreviation (input) LAN887X_CHIPTOP_LED_LINK_NO_ACT_ANY_SPEED :: "16 word"
  where "LAN887X_CHIPTOP_LED_LINK_NO_ACT_ANY_SPEED \<equiv> 3"
abbreviation (input) LAN887X_CHIPTOP_LED_LOCAL_RXER_STATUS :: "16 word"
  where "LAN887X_CHIPTOP_LED_LOCAL_RXER_STATUS \<equiv> 5"
abbreviation (input) LAN887X_CHIPTOP_LED_REMOTE_RXER_STATUS :: "16 word"
  where "LAN887X_CHIPTOP_LED_REMOTE_RXER_STATUS \<equiv> 6"
abbreviation (input) LAN887X_CHIPTOP_LED_NEGOTIATED_SPEED :: "16 word"
  where "LAN887X_CHIPTOP_LED_NEGOTIATED_SPEED \<equiv> 7"
abbreviation (input) LAN887X_CHIPTOP_LED_MASTER_SLAVE_MODE :: "16 word"
  where "LAN887X_CHIPTOP_LED_MASTER_SLAVE_MODE \<equiv> 8"
abbreviation (input) LAN887X_CHIPTOP_LED_PCS_TX_ERR_STATUS :: "16 word"
  where "LAN887X_CHIPTOP_LED_PCS_TX_ERR_STATUS \<equiv> 9"
abbreviation (input) LAN887X_CHIPTOP_LED_PCS_RX_ERR_STATUS :: "16 word"
  where "LAN887X_CHIPTOP_LED_PCS_RX_ERR_STATUS \<equiv> 0xA"
abbreviation (input) LAN887X_CHIPTOP_LED_PCS_TX_ACTIVITY :: "16 word"
  where "LAN887X_CHIPTOP_LED_PCS_TX_ACTIVITY \<equiv> 0xB"
abbreviation (input) LAN887X_CHIPTOP_LED_PCS_RX_ACTIVITY :: "16 word"
  where "LAN887X_CHIPTOP_LED_PCS_RX_ACTIVITY \<equiv> 0xC"
abbreviation (input) LAN887X_CHIPTOP_LED_WAKE_ON_LAN :: "16 word"
  where "LAN887X_CHIPTOP_LED_WAKE_ON_LAN \<equiv> 0xD"
abbreviation (input) LAN887X_CHIPTOP_LED_FORCED_LED_OFF :: "16 word"
  where "LAN887X_CHIPTOP_LED_FORCED_LED_OFF \<equiv> 0xE"
abbreviation (input) LAN887X_CHIPTOP_LED_FORCED_LED_ON :: "16 word"
  where "LAN887X_CHIPTOP_LED_FORCED_LED_ON \<equiv> 0xF"
abbreviation (input) LAN887X_MIS_100T1_SMI_REG26 :: "32 word"
  where "LAN887X_MIS_100T1_SMI_REG26 \<equiv> 0x1A"
abbreviation (input) LAN887X_MIS_100T1_SMI_HW_INIT_SEQ_EN :: "16 word"
  where "LAN887X_MIS_100T1_SMI_HW_INIT_SEQ_EN \<equiv> 0x100"
abbreviation (input) LAN887X_MIS_CFG_REG0 :: "32 word"
  where "LAN887X_MIS_CFG_REG0 \<equiv> 0xA00"
abbreviation (input) LAN887X_MIS_CFG_REG0_RCLKOUT_DIS :: "16 word"
  where "LAN887X_MIS_CFG_REG0_RCLKOUT_DIS \<equiv> 0x20"
abbreviation (input) LAN887X_MIS_CFG_REG0_MAC_MAC_MODE_SEL :: "16 word"
  where "LAN887X_MIS_CFG_REG0_MAC_MAC_MODE_SEL \<equiv> 3"
abbreviation (input) LAN887X_MIS_CFG_REG0_MAC_MODE_RGMII :: "16 word"
  where "LAN887X_MIS_CFG_REG0_MAC_MODE_RGMII \<equiv> 1"
abbreviation (input) LAN887X_MIS_CFG_REG0_MAC_MODE_SGMII :: "16 word"
  where "LAN887X_MIS_CFG_REG0_MAC_MODE_SGMII \<equiv> 3"
abbreviation (input) LAN887X_MIS_TX_DLL_CFG_REG0 :: "32 word"
  where "LAN887X_MIS_TX_DLL_CFG_REG0 \<equiv> 0xA01"
abbreviation (input) LAN887X_MIS_RX_DLL_CFG_REG1 :: "32 word"
  where "LAN887X_MIS_RX_DLL_CFG_REG1 \<equiv> 0xA02"
abbreviation (input) LAN887X_MIS_DLL_EN_BOTH :: "16 word"
  where "LAN887X_MIS_DLL_EN_BOTH \<equiv> 0x8001"
abbreviation (input) LAN887X_MIS_CFG_REG2 :: "32 word"
  where "LAN887X_MIS_CFG_REG2 \<equiv> 0xA03"
abbreviation (input) LAN887X_MIS_CFG_REG2_IO_LPBK_EN :: "16 word"
  where "LAN887X_MIS_CFG_REG2_IO_LPBK_EN \<equiv> 8"
abbreviation (input) LAN887X_MIS_CFG_REG2_FE_LPBK_EN :: "16 word"
  where "LAN887X_MIS_CFG_REG2_FE_LPBK_EN \<equiv> 4"
abbreviation (input) LAN887X_MIS_CFG_REG2_NE_LPBK_EN :: "16 word"
  where "LAN887X_MIS_CFG_REG2_NE_LPBK_EN \<equiv> 2"
abbreviation (input) LAN887X_MX_CHIP_TOP_REG_INT_STS :: "32 word"
  where "LAN887X_MX_CHIP_TOP_REG_INT_STS \<equiv> 0xF000"
abbreviation (input) LAN887X_MX_CHIP_TOP_REG_INT_MSK :: "32 word"
  where "LAN887X_MX_CHIP_TOP_REG_INT_MSK \<equiv> 0xF001"
abbreviation (input) LAN887X_MX_CHIP_TOP_REG_CONTROL1 :: "32 word"
  where "LAN887X_MX_CHIP_TOP_REG_CONTROL1 \<equiv> 0xF002"
abbreviation (input) LAN887X_MX_CHIP_TOP_REG_GPIO_DIR :: "32 word"
  where "LAN887X_MX_CHIP_TOP_REG_GPIO_DIR \<equiv> 0xF00A"
abbreviation (input) LAN887X_MX_CHIP_TOP_REG_GPIO_DATA :: "32 word"
  where "LAN887X_MX_CHIP_TOP_REG_GPIO_DATA \<equiv> 0xF00C"
abbreviation (input) LAN887X_MX_CHIP_TOP_REG_HARD_RST :: "32 word"
  where "LAN887X_MX_CHIP_TOP_REG_HARD_RST \<equiv> 0xF03E"
abbreviation (input) LAN887X_MX_CHIP_TOP_REG_SOFT_RST :: "32 word"
  where "LAN887X_MX_CHIP_TOP_REG_SOFT_RST \<equiv> 0xF03F"
abbreviation (input) LAN887X_MX_CHIP_TOP_RESET :: "16 word"
  where "LAN887X_MX_CHIP_TOP_RESET \<equiv> 1"
abbreviation (input) LAN887X_MX_CHIP_TOP_REG_SGMII_CTL :: "32 word"
  where "LAN887X_MX_CHIP_TOP_REG_SGMII_CTL \<equiv> 0xF01A"
abbreviation (input) LAN887X_MX_CHIP_TOP_REG_SGMII_XAUI_RST :: "16 word"
  where "LAN887X_MX_CHIP_TOP_REG_SGMII_XAUI_RST \<equiv> 4"
abbreviation (input) LAN887X_MX_CHIP_TOP_REG_SGMII_VREG_BYP_CTL :: "16 word"
  where "LAN887X_MX_CHIP_TOP_REG_SGMII_VREG_BYP_CTL \<equiv> 2"
abbreviation (input) LAN887X_MX_CHIP_TOP_REG_SGMII_MUX_EN :: "16 word"
  where "LAN887X_MX_CHIP_TOP_REG_SGMII_MUX_EN \<equiv> 1"
abbreviation (input) LAN887X_MX_CHIP_TOP_SGMII_PCS_CFG :: "32 word"
  where "LAN887X_MX_CHIP_TOP_SGMII_PCS_CFG \<equiv> 0xF034"
abbreviation (input) LAN887X_MX_CHIP_TOP_SGMII_PCS_ENA :: "16 word"
  where "LAN887X_MX_CHIP_TOP_SGMII_PCS_ENA \<equiv> 0x200"
abbreviation (input) LAN887X_MX_CHIP_TOP_SGMII_PCS_ANEG :: "32 word"
  where "LAN887X_MX_CHIP_TOP_SGMII_PCS_ANEG \<equiv> 0xF035"
abbreviation (input) LAN887X_MX_CHIP_TOP_SGMII_PCS_ANEG_RST :: "16 word"
  where "LAN887X_MX_CHIP_TOP_SGMII_PCS_ANEG_RST \<equiv> 0x10"
abbreviation (input) LAN887X_MX_CHIP_TOP_SGMII_PCS_ANEG_EN :: "16 word"
  where "LAN887X_MX_CHIP_TOP_SGMII_PCS_ANEG_EN \<equiv> 8"
abbreviation (input) LAN887X_MX_CHIP_TOP_QSGMII_ANEG_REG :: "32 word"
  where "LAN887X_MX_CHIP_TOP_QSGMII_ANEG_REG \<equiv> 0xF020"
abbreviation (input) LAN887X_MX_CHIP_TOP_QSGMII_ANEG_EN :: "16 word"
  where "LAN887X_MX_CHIP_TOP_QSGMII_ANEG_EN \<equiv> 1"
abbreviation (input) LAN887X_STS_TC10_STATE_START :: "16 word"
  where "LAN887X_STS_TC10_STATE_START \<equiv> 0"
abbreviation (input) LAN887X_STS_TC10_STATE_NORMAL :: "16 word"
  where "LAN887X_STS_TC10_STATE_NORMAL \<equiv> 1"
abbreviation (input) LAN887X_STS_TC10_STATE_SLEEP_ACK :: "16 word"
  where "LAN887X_STS_TC10_STATE_SLEEP_ACK \<equiv> 2"
abbreviation (input) LAN887X_STS_TC10_STATE_SLEEP_REQ :: "16 word"
  where "LAN887X_STS_TC10_STATE_SLEEP_REQ \<equiv> 3"
abbreviation (input) LAN887X_STS_TC10_STATE_SLEEP_FAIL :: "16 word"
  where "LAN887X_STS_TC10_STATE_SLEEP_FAIL \<equiv> 4"
abbreviation (input) LAN887X_STS_TC10_STATE_SLEEP_SILENT :: "16 word"
  where "LAN887X_STS_TC10_STATE_SLEEP_SILENT \<equiv> 5"
abbreviation (input) LAN887X_STS_TC10_STATE_SLEEP :: "16 word"
  where "LAN887X_STS_TC10_STATE_SLEEP \<equiv> 6"
abbreviation (input) LAN887X_TC10_DEV30_COMMON_MISC34 :: "32 word"
  where "LAN887X_TC10_DEV30_COMMON_MISC34 \<equiv> 0xC26"
abbreviation (input) LAN887X_MISC_REGS_REG16 :: "32 word"
  where "LAN887X_MISC_REGS_REG16 \<equiv> 0x10"
abbreviation (input) LAN887X_MISC_REGS_REG16_IGNORE_IDLE_WITH_WUR_LPS :: "16 word"
  where "LAN887X_MISC_REGS_REG16_IGNORE_IDLE_WITH_WUR_LPS \<equiv> 0x20"
abbreviation (input) LAN887X_MISC_REGS_MISC37 :: "32 word"
  where "LAN887X_MISC_REGS_MISC37 \<equiv> 0x125"
abbreviation (input) LAN887X_MISC_REGS_MISC37_EN_TC10_SLEEP_SILENT :: "16 word"
  where "LAN887X_MISC_REGS_MISC37_EN_TC10_SLEEP_SILENT \<equiv> 0x20"
abbreviation (input) LAN887X_DEV30_COMMON_TC10_REG_REG16 :: "32 word"
  where "LAN887X_DEV30_COMMON_TC10_REG_REG16 \<equiv> 0xC21"
abbreviation (input) LAN887X_DEV30_COMMON_TC10_REG_REG16_RW_SEND_LPS :: "16 word"
  where "LAN887X_DEV30_COMMON_TC10_REG_REG16_RW_SEND_LPS \<equiv> 0x1000"
abbreviation (input) LAN887X_DEV30_COMMON_TC10_REG_REG16_RW_SEND_WUR :: "16 word"
  where "LAN887X_DEV30_COMMON_TC10_REG_REG16_RW_SEND_WUR \<equiv> 0x2000"
abbreviation (input) LAN887X_DEV30_COMMON_TC10_REG_REG24 :: "32 word"
  where "LAN887X_DEV30_COMMON_TC10_REG_REG24 \<equiv> 0xC22"
abbreviation (input) LAN887X_DEV30_COMMON_TC10_MISC32 :: "32 word"
  where "LAN887X_DEV30_COMMON_TC10_MISC32 \<equiv> 0xC24"
abbreviation (input) LAN887X_DEV30_COMMON_TC10_MISC32_WK_IN_EN :: "16 word"
  where "LAN887X_DEV30_COMMON_TC10_MISC32_WK_IN_EN \<equiv> 1"
abbreviation (input) LAN887X_DEV30_COMMON_TC10_MISC32_SLEEP_EN :: "16 word"
  where "LAN887X_DEV30_COMMON_TC10_MISC32_SLEEP_EN \<equiv> 4"
abbreviation (input) LAN887X_DEV30_COMMON_TC10_MISC32_WK_OUT_AUTO_FWD_EN :: "16 word"
  where "LAN887X_DEV30_COMMON_TC10_MISC32_WK_OUT_AUTO_FWD_EN \<equiv> 0x80"
abbreviation (input) LAN887X_DEV30_COMMON_TC10_MISC32_INH_MODE_OPEN_DRAIN :: "16 word"
  where "LAN887X_DEV30_COMMON_TC10_MISC32_INH_MODE_OPEN_DRAIN \<equiv> 0x100"
abbreviation (input) LAN887X_DEV30_COMMON_TC10_MISC32_WK_OUT_MODE_PUSH_PULL :: "16 word"
  where "LAN887X_DEV30_COMMON_TC10_MISC32_WK_OUT_MODE_PUSH_PULL \<equiv> 0"
abbreviation (input) LAN887X_DEV30_COMMON_TC10_MISC32_WK_OUT_MODE_OPEN_SOURCE :: "16 word"
  where "LAN887X_DEV30_COMMON_TC10_MISC32_WK_OUT_MODE_OPEN_SOURCE \<equiv> 1"
abbreviation (input) LAN887X_DEV30_COMMON_TC10_MISC32_WK_OUT_MODE_OPEN_DRAIN :: "16 word"
  where "LAN887X_DEV30_COMMON_TC10_MISC32_WK_OUT_MODE_OPEN_DRAIN \<equiv> 2"
abbreviation (input) LAN887X_DEV30_COMMON_TC10_MISC32_WK_OUT_POL :: "16 word"
  where "LAN887X_DEV30_COMMON_TC10_MISC32_WK_OUT_POL \<equiv> 0x800"
abbreviation (input) LAN887X_DEV30_COMMON_TC10_MISC32_WK_IN_POL :: "16 word"
  where "LAN887X_DEV30_COMMON_TC10_MISC32_WK_IN_POL \<equiv> 0x1000"
abbreviation (input) LAN887X_DEV30_COMMON_TC10_MISC32_VBAT_COM_WR :: "16 word"
  where "LAN887X_DEV30_COMMON_TC10_MISC32_VBAT_COM_WR \<equiv> 0x8000"
abbreviation (input) LAN887X_DEV30_COMMON_TC10_MISC32_VAL :: "16 word"
  where "LAN887X_DEV30_COMMON_TC10_MISC32_VAL \<equiv> 0x8062"
abbreviation (input) LAN887X_DEV30_COMMON_TC10_MISC33 :: "32 word"
  where "LAN887X_DEV30_COMMON_TC10_MISC33 \<equiv> 0xC25"
abbreviation (input) LAN887X_DEV30_COMMON_TC10_MISC33_WK_OUT_LEN :: "16 word"
  where "LAN887X_DEV30_COMMON_TC10_MISC33_WK_OUT_LEN \<equiv> 0x4F"
abbreviation (input) LAN887X_DEV30_COMMON_TC10_MISC33_WK_DEB_VAL :: "16 word"
  where "LAN887X_DEV30_COMMON_TC10_MISC33_WK_DEB_VAL \<equiv> 0x27"
abbreviation (input) LAN887X_DEV30_COMMON_TC10_MISC36 :: "32 word"
  where "LAN887X_DEV30_COMMON_TC10_MISC36 \<equiv> 0xC27"
abbreviation (input) LAN887X_DEV30_COMMON_TC10_MISC36_WK_MDI_EN :: "16 word"
  where "LAN887X_DEV30_COMMON_TC10_MISC36_WK_MDI_EN \<equiv> 0x100"
abbreviation (input) LAN887X_DEV30_COMMON_TC10_MISC36_WUP_AUTO_FWD_EN :: "16 word"
  where "LAN887X_DEV30_COMMON_TC10_MISC36_WUP_AUTO_FWD_EN \<equiv> 0x1000"
abbreviation (input) LAN887X_DEV30_COMMON_TC10_MISC36_VBAT_PORT_WR :: "16 word"
  where "LAN887X_DEV30_COMMON_TC10_MISC36_VBAT_PORT_WR \<equiv> 0x8000"
abbreviation (input) LAN887X_DEV30_COMMON_TC10_MISC36_VAL :: "16 word"
  where "LAN887X_DEV30_COMMON_TC10_MISC36_VAL \<equiv> 0xA210"
abbreviation (input) LAN887X_DEV30_COMMON_TC10_MISC46 :: "32 word"
  where "LAN887X_DEV30_COMMON_TC10_MISC46 \<equiv> 0xC29"
abbreviation (input) LAN887X_DEV30_COMMON_TC10_MISC46_WK_PORT_TEST_MASK :: "16 word"
  where "LAN887X_DEV30_COMMON_TC10_MISC46_WK_PORT_TEST_MASK \<equiv> 0"
abbreviation (input) LAN887X_DEV30_COMMON_TC10_MISC46_WK_PORT_TEST_VAL :: "16 word"
  where "LAN887X_DEV30_COMMON_TC10_MISC46_WK_PORT_TEST_VAL \<equiv> 4"
abbreviation (input) LAN887X_DEV30_COMMON_TC10_SLEEP_ABRT :: "32 word"
  where "LAN887X_DEV30_COMMON_TC10_SLEEP_ABRT \<equiv> 0xC2D"
abbreviation (input) LAN887X_DEV30_COMMON_TC10_SLEEP_ABRT_SLEEP_ABORT :: "16 word"
  where "LAN887X_DEV30_COMMON_TC10_SLEEP_ABRT_SLEEP_ABORT \<equiv> 0x20"
abbreviation (input) LAN887X_DEV30_COMMON_TC10_SLEEP_ABRT_SLEEP_RJCT :: "16 word"
  where "LAN887X_DEV30_COMMON_TC10_SLEEP_ABRT_SLEEP_RJCT \<equiv> 0x10"
abbreviation (input) LAN887X_VEND_CTRL_STAT_REG :: "32 word"
  where "LAN887X_VEND_CTRL_STAT_REG \<equiv> 0x8013"
abbreviation (input) LAN887X_AN_LOCAL_CFG_FAULT :: "16 word"
  where "LAN887X_AN_LOCAL_CFG_FAULT \<equiv> 0x400"
abbreviation (input) LAN887X_AN_LOCAL_SLAVE :: "16 word"
  where "LAN887X_AN_LOCAL_SLAVE \<equiv> 0x200"
abbreviation (input) LAN887X_AN_LOCAL_MASTER :: "16 word"
  where "LAN887X_AN_LOCAL_MASTER \<equiv> 0x100"
abbreviation (input) LAN8870_PHY_ID :: "32 word"
  where "LAN8870_PHY_ID \<equiv> 0x7C1F2"
abbreviation (input) LAN887X_PHY_ID_MASK :: "32 word"
  where "LAN887X_PHY_ID_MASK \<equiv> 0xFFFF2"
abbreviation (input) INTR_BIT_LEN :: nat
  where "INTR_BIT_LEN \<equiv> 16"

end
