(* ===== verification/Mepa_Flow.thy ===== *)
theory Mepa_Flow
  imports Mdio
begin

text \<open>
  How the newer Microchip drivers leave a function at the first error
  (\<open>MEPA_RC_GOTO\<close> of \<open>lan887x_private.h\<close>, \<open>MEPA_RC\<close> of \<open>lan867x_private.h\<close>), and the critical
  section of an operation.
\<close>

section \<open>Leaving at the first error\<close>

text \<open>
  \<open>MEPA_RC_GOTO(rc, expr)\<close> leaves with every return code but 0.  In the functions that
  return the code the label \<open>error\<close> stands before \<open>return rc\<close>.
\<close>

definition RC_GOTO :: "('h, 'd, mepa_rc) mepa \<Rightarrow> ('h, 'd, mepa_rc) mepa \<Rightarrow> ('h, 'd, mepa_rc) mepa" where
  "RC_GOTO m k = do { rc \<leftarrow> m; if rc \<noteq> MEPA_RC_OK then State_Monad.return rc else k }"

text \<open>\<open>MEPA_RC_GOTO(rc, phy_mmd_reg_rd(dev, mmd, offset, &v))\<close>: the rest uses the value read.\<close>

definition RC_GOTO_RD ::
  "('h, 'd, mepa_rc \<times> 16 word) mepa \<Rightarrow> (16 word \<Rightarrow> ('h, 'd, mepa_rc) mepa) \<Rightarrow> ('h, 'd, mepa_rc) mepa" where
  "RC_GOTO_RD m k = do {
     (rc, v) \<leftarrow> m;
     if rc \<noteq> MEPA_RC_OK then State_Monad.return rc else k v }"

text \<open>A sequence of calls, each left at the first error.\<close>

fun rc_seq :: "('h, 'd, mepa_rc) mepa list \<Rightarrow> ('h, 'd, mepa_rc) mepa" where
  "rc_seq [] = State_Monad.return MEPA_RC_OK"
| "rc_seq (m # ms) = RC_GOTO m (rc_seq ms)"

section \<open>Running under the lock\<close>

text \<open>\<open>MEPA_ENTER(dev); rc = f(dev); MEPA_EXIT(dev); return rc;\<close>\<close>

definition locked :: "nat \<Rightarrow> ('h, 'd, 'a) mepa \<Rightarrow> ('h, 'd, 'a) mepa" where
  "locked dev m = do { MEPA_ENTER dev; r \<leftarrow> m; MEPA_EXIT dev; State_Monad.return r }"

section \<open>Keeping an invariant\<close>

lemma keeps_RC_GOTO: "keeps I m \<Longrightarrow> keeps I k \<Longrightarrow> keeps I (RC_GOTO m k)"
  unfolding RC_GOTO_def by (intro keeps_rules)

lemma keeps_RC_GOTO_err: "rc \<noteq> MEPA_RC_OK \<Longrightarrow> keeps I (RC_GOTO (State_Monad.return rc) k)"
  by (simp add: RC_GOTO_def moves_def)

lemma keeps_RC_GOTO_RD: "keeps I m \<Longrightarrow> (\<And>v. keeps I (k v)) \<Longrightarrow> keeps I (RC_GOTO_RD m k)"
  unfolding RC_GOTO_RD_def by (intro keeps_rules)

lemma keeps_rc_seq_Nil: "keeps I (rc_seq [])"
  by (simp add: keeps_return)

lemma keeps_rc_seq_Cons: "keeps I m \<Longrightarrow> keeps I (rc_seq ms) \<Longrightarrow> keeps I (rc_seq (m # ms))"
  by (simp add: keeps_RC_GOTO)

lemma exec_rc_seq_append: "exec (rc_seq (xs @ ys)) w =
    (if val (rc_seq xs) w = MEPA_RC_OK then exec (rc_seq ys) (exec (rc_seq xs) w)
     else exec (rc_seq xs) w)"
  by (induction xs arbitrary: w) (simp_all add: RC_GOTO_def)

lemma keeps_rc_seq_append:
  "keeps I (rc_seq xs) \<Longrightarrow> keeps I (rc_seq ys) \<Longrightarrow> keeps I (rc_seq (xs @ ys))"
  by (simp add: moves_def exec_rc_seq_append)

lemma keeps_rc_seq_map: "(\<And>x. keeps I (f x)) \<Longrightarrow> keeps I (rc_seq (map f xs))"
  by (induction xs) (simp_all add: keeps_return keeps_RC_GOTO)

lemma keeps_rc_seq_if:
  "keeps I (rc_seq xs) \<Longrightarrow> keeps I (rc_seq ys) \<Longrightarrow> keeps I (rc_seq (if b then xs else ys))"
  by simp

section \<open>The registers of a sequence\<close>

lemma lspec_locked: "lspec dv m D Q \<Longrightarrow> lspec dv (locked p m) D Q"
  unfolding locked_def
  by (intro lspec_bind lspec_enter)
    (auto elim!: lspec_mono intro!: lspec_bind lspec_exit lspec_return)

lemma lspec_RC_GOTO:
  assumes "lspec dv m D (\<lambda>rc D' o1. if rc \<noteq> MEPA_RC_OK then Q rc D' o1
             else lspec dv k D' (\<lambda>y D'' o2. Q y D'' (o1 @ o2)))"
  shows "lspec dv (RC_GOTO m k) D Q"
  unfolding RC_GOTO_def
  by (rule lspec_bind, rule lspec_mono [OF assms])
    (auto intro: lspec_return split: if_splits)

lemma lspec_RC_GOTO_RD:
  assumes "lspec dv m D (\<lambda>(rc, v) D' o1. if rc \<noteq> MEPA_RC_OK then Q rc D' o1
             else lspec dv (k v) D' (\<lambda>y D'' o2. Q y D'' (o1 @ o2)))"
  shows "lspec dv (RC_GOTO_RD m k) D Q"
  unfolding RC_GOTO_RD_def
  by (rule lspec_bind, rule lspec_mono [OF assms])
    (auto intro: lspec_return split: if_splits prod.splits)

text \<open>Steps that succeed, keep the private data and make accesses with a property \<open>P\<close>.\<close>

definition lsafe :: "(nat \<Rightarrow> 'h mepa_device) \<Rightarrow> (lop \<Rightarrow> bool) \<Rightarrow> ('h, 'd, mepa_rc) mepa \<Rightarrow> bool" where
  "lsafe dv P m = (\<forall>D. lspec dv m D (\<lambda>rc D' ops. rc = MEPA_RC_OK \<and> D' = D \<and> list_all P ops))"

lemma lsafe_RC_GOTO:
  fixes m k :: "('h, 'd, mepa_rc) mepa"
  assumes m: "lsafe dv P m" and k: "lsafe dv P k"
  shows "lsafe dv P (RC_GOTO m k)"
  unfolding lsafe_def
proof (intro allI lspec_RC_GOTO)
  fix D :: "nat \<Rightarrow> 'd"
  let ?Q = "\<lambda>rc D' ops. rc = MEPA_RC_OK \<and> D' = D \<and> list_all P ops"
  have kD: "lspec dv k D (\<lambda>rc D' o2. ?Q rc D' (o1 @ o2))" if "list_all P o1" for o1
    using k [unfolded lsafe_def, rule_format, of D] that by (rule_tac lspec_mono) auto
  show "lspec dv m D (\<lambda>rc D' o1. if rc \<noteq> MEPA_RC_OK then ?Q rc D' o1
      else lspec dv k D' (\<lambda>rc D'' o2. ?Q rc D'' (o1 @ o2)))"
    using m [unfolded lsafe_def, rule_format, of D] by (rule lspec_mono) (use kD in auto)
qed

lemma lsafe_rc_seq: "list_all (lsafe dv P) ms \<Longrightarrow> lsafe dv P (rc_seq ms)"
  by (induction ms) (simp_all add: lsafe_RC_GOTO, simp add: lsafe_def lspec_return)

section \<open>The private data on any bus\<close>

lemma pspec_keeps: "keeps (\<lambda>w. priv w = D) m \<Longrightarrow> (\<And>x. Q x D) \<Longrightarrow> pspec m D Q"
  by (auto simp: moves_def pspec_def)

lemma pspec_RC_GOTO:
  assumes "pspec m D (\<lambda>rc D'. if rc \<noteq> MEPA_RC_OK then Q rc D' else pspec k D' Q)"
  shows "pspec (RC_GOTO m k) D Q"
  unfolding RC_GOTO_def
  by (rule pspec_bind, rule pspec_mono [OF assms]) (auto intro: pspec_return split: if_splits)

lemma pspec_RC_GOTO_RD:
  assumes "pspec m D (\<lambda>(rc, v) D'. if rc \<noteq> MEPA_RC_OK then Q rc D' else pspec (k v) D' Q)"
  shows "pspec (RC_GOTO_RD m k) D Q"
  unfolding RC_GOTO_RD_def
  by (rule pspec_bind, rule pspec_mono [OF assms]) (auto intro: pspec_return split: if_splits)

end
