(* ===== verification/Lan887x_Data.thy ===== *)
theory Lan887x_Data
  imports Lan887x_Regs Mepa_T1_Driver Mepa_Flow
begin

text \<open>
  The private data of the LAN887x driver (\<open>lan887x_private.h\<close>).  The LAN887x is a
  single-port 100/1000BASE-T1 PHY.
\<close>

section \<open>Private data\<close>

record lan887x_dev_info =
  di7_id :: "32 word"
  di7_model :: "16 word"
  di7_rev :: "16 word"
  di7_is_master :: bool
  di7_is_master_fault :: bool

record lan887x_tc10_data =
  tc_sleep_enable :: bool
  tc_wakeup_mode :: mepa_tc10_wakeup_mode
  tc_wakeup_fwd_mode :: mepa_tc10_wakeup_fwd_mode
  tc_wake_in_pol :: mepa_gpio_mode
  tc_wake_out_pol :: mepa_gpio_mode
  tc_wake_out_mode :: mepa_gpio_mode
  tc_inh_mode :: mepa_gpio_mode

record lan887x_data =
  l7_init_done :: bool
  l7_link_status :: bool
  l7_port_no :: "32 word"
  l7_mac_if :: mepa_port_interface
  l7_media_intf :: mepa_media_interface
  l7_conf :: mepa_conf
  l7_events :: mepa_event
  l7_loopback :: mepa_loopback
  l7_dev :: lan887x_dev_info
  l7_ctx_status :: bool
  l7_cd_res :: mepa_cable_diag_result
  l7_tc10_cfg :: lan887x_tc10_data
  l7_led_conf :: "mepa_gpio_conf list"

type_synonym ('h, 'a) lan7 = "('h, lan887x_data, 'a) mepa"

datatype lan887x_reset_typ =
    LAN887X_RST_SOFT | LAN887X_RST_SOFT_MAC | LAN887X_RST_SOFT_EXT | LAN887X_RST_HARD_ONLY
  | LAN887X_RST_HARD | LAN887X_RST_SKIP_TO_CONF | LAN887X_RST_MAX

datatype lan887x_cd_status =
  LAN87XX_CABLE_TEST_OK | LAN87XX_CABLE_TEST_OPEN | LAN87XX_CABLE_TEST_SHORT

text \<open>Zeroed private data, as \<open>mepa_mem_alloc_int\<close> leaves it.\<close>

definition mepa_gpio_conf_0 :: mepa_gpio_conf where
  "mepa_gpio_conf_0 = \<lparr>gpio_no = 0, gpio_led_num = MEPA_LED0, gpio_mode = MEPA_GPIO_MODE_NONE,
     gpio_pp_enable = False, gpio_intrpt = MEPA_GPIO_INTR_NONE\<rparr>"

definition lan887x_data_0 :: lan887x_data where
  "lan887x_data_0 = \<lparr>l7_init_done = False, l7_link_status = False, l7_port_no = 0,
     l7_mac_if = MESA_PORT_INTERFACE_NO_CONNECTION, l7_media_intf = MESA_PHY_MEDIA_IF_CU,
     l7_conf = mepa_conf_0, l7_events = 0, l7_loopback = mepa_loopback_0,
     l7_dev = \<lparr>di7_id = 0, di7_model = 0, di7_rev = 0, di7_is_master = False,
       di7_is_master_fault = False\<rparr>,
     l7_ctx_status = False,
     l7_cd_res = \<lparr>cd_link = False, cd_status = replicate 4 MEPA_CABLE_DIAG_STATUS_OK,
       cd_length = replicate 4 0\<rparr>,
     l7_tc10_cfg = \<lparr>tc_sleep_enable = False, tc_wakeup_mode = MEPA_TC10_WAKEUP_DISABLE,
       tc_wakeup_fwd_mode = MEPA_TC10_WAKEUP_FWD_DISABLE, tc_wake_in_pol = MEPA_GPIO_MODE_NONE,
       tc_wake_out_pol = MEPA_GPIO_MODE_NONE, tc_wake_out_mode = MEPA_GPIO_MODE_NONE,
       tc_inh_mode = MEPA_GPIO_MODE_NONE\<rparr>,
     l7_led_conf = replicate 4 mepa_gpio_conf_0\<rparr>"

text \<open>Updates of members of members, \<open>data->conf.x = ...\<close> and the like.\<close>

definition upd_conf :: "nat \<Rightarrow> (mepa_conf \<Rightarrow> mepa_conf) \<Rightarrow> ('h, unit) lan7" where
  "upd_conf dev f = upd_data dev (\<lambda>d. d\<lparr>l7_conf := f (l7_conf d)\<rparr>)"

definition upd_tc10 :: "nat \<Rightarrow> (lan887x_tc10_data \<Rightarrow> lan887x_tc10_data) \<Rightarrow> ('h, unit) lan7" where
  "upd_tc10 dev f = upd_data dev (\<lambda>d. d\<lparr>l7_tc10_cfg := f (l7_tc10_cfg d)\<rparr>)"

definition upd_dev_info :: "nat \<Rightarrow> (lan887x_dev_info \<Rightarrow> lan887x_dev_info) \<Rightarrow> ('h, unit) lan7" where
  "upd_dev_info dev f = upd_data dev (\<lambda>d. d\<lparr>l7_dev := f (l7_dev d)\<rparr>)"

definition upd_cd_res ::
  "nat \<Rightarrow> (mepa_cable_diag_result \<Rightarrow> mepa_cable_diag_result) \<Rightarrow> ('h, unit) lan7" where
  "upd_cd_res dev f = upd_data dev (\<lambda>d. d\<lparr>l7_cd_res := f (l7_cd_res d)\<rparr>)"

end
