(* ===== verification/Lan887x_Tc10.thy ===== *)
theory Lan887x_Tc10
  imports Lan887x_Data
begin

text \<open>
  TC10 in the LAN887x driver (\<open>lan887x/src/lan887x_tc10.c\<close>): sleep and wake-up support,
  the polarity and the mode of the pins, requests and the state.  The functions
  \<open>lan887x_phy_tc10_*\<close> run under the lock, the functions \<open>lan887x_tc10_*\<close> take it.
\<close>

section \<open>Sleep and wake-up support\<close>

definition tc10_rd :: "nat \<Rightarrow> 32 word \<Rightarrow> ('h, mepa_rc \<times> 16 word) lan7" where
  "tc10_rd dev r = phy_mmd_reg_rd dev MDIO_MMD_VEND1 r 0"

definition tc10_wr :: "nat \<Rightarrow> 32 word \<Rightarrow> 16 word \<Rightarrow> ('h, mepa_rc) lan7" where
  "tc10_wr dev r v = phy_mmd_reg_wr dev MDIO_MMD_VEND1 r v"

definition lan887x_phy_tc10_set_sleep_support :: "nat \<Rightarrow> bool \<Rightarrow> ('h, mepa_rc) lan7" where
  "lan887x_phy_tc10_set_sleep_support dev enable =
     RC_GOTO_RD (tc10_rd dev LAN887X_DEV30_COMMON_TC10_MISC32) (\<lambda>reg_data.
     let reg_data = (if enable then reg_data OR LAN887X_DEV30_COMMON_TC10_MISC32_SLEEP_EN
                     else reg_data AND NOT LAN887X_DEV30_COMMON_TC10_MISC32_SLEEP_EN);
         reg_data = reg_data OR LAN887X_DEV30_COMMON_TC10_MISC32_VBAT_COM_WR
     in RC_GOTO (tc10_wr dev LAN887X_DEV30_COMMON_TC10_MISC32 reg_data) (do {
       upd_tc10 dev (\<lambda>c. c\<lparr>tc_sleep_enable := enable\<rparr>);
       State_Monad.return MEPA_RC_OK }))"

definition lan887x_phy_tc10_get_sleep_support :: "nat \<Rightarrow> ('h, mepa_rc \<times> bool) lan7" where
  "lan887x_phy_tc10_get_sleep_support dev = do {
     data \<leftarrow> data_of dev;
     State_Monad.return (MEPA_RC_OK, tc_sleep_enable (l7_tc10_cfg data)) }"

text \<open>Both setters of wake-up modes change one bit in MISC36 and one in MISC32.\<close>

definition set_bit_if :: "bool \<Rightarrow> 16 word \<Rightarrow> 16 word \<Rightarrow> 16 word" where
  "set_bit_if b m v = (if b then v OR m else v AND NOT m)"

definition lan887x_phy_tc10_set_wakeup_support ::
  "nat \<Rightarrow> mepa_tc10_wakeup_mode \<Rightarrow> ('h, mepa_rc) lan7" where
  "lan887x_phy_tc10_set_wakeup_support dev mode =
     RC_GOTO_RD (tc10_rd dev LAN887X_DEV30_COMMON_TC10_MISC36) (\<lambda>reg_data1.
     RC_GOTO_RD (tc10_rd dev LAN887X_DEV30_COMMON_TC10_MISC32) (\<lambda>reg_data2.
     let (mdi, wk_in) = (case mode of
             MEPA_TC10_WAKEUP_DISABLE \<Rightarrow> (False, False)
           | MEPA_TC10_WAKEUP_WUP_ENABLE \<Rightarrow> (True, False)
           | MEPA_TC10_WAKEUP_WAKEIN_ENABLE \<Rightarrow> (False, True)
           | _ \<Rightarrow> (True, True));
         reg_data1 = set_bit_if mdi LAN887X_DEV30_COMMON_TC10_MISC36_WK_MDI_EN reg_data1
           OR LAN887X_DEV30_COMMON_TC10_MISC36_VBAT_PORT_WR;
         reg_data2 = set_bit_if wk_in LAN887X_DEV30_COMMON_TC10_MISC32_WK_IN_EN reg_data2
           OR LAN887X_DEV30_COMMON_TC10_MISC32_VBAT_COM_WR
     in RC_GOTO (tc10_wr dev LAN887X_DEV30_COMMON_TC10_MISC36 reg_data1) (
        RC_GOTO (tc10_wr dev LAN887X_DEV30_COMMON_TC10_MISC32 reg_data2) (do {
          upd_tc10 dev (\<lambda>c. c\<lparr>tc_wakeup_mode := mode\<rparr>);
          State_Monad.return MEPA_RC_OK }))))"

definition lan887x_phy_tc10_get_wakeup_support ::
  "nat \<Rightarrow> ('h, mepa_rc \<times> mepa_tc10_wakeup_mode) lan7" where
  "lan887x_phy_tc10_get_wakeup_support dev = do {
     data \<leftarrow> data_of dev;
     State_Monad.return (MEPA_RC_OK, tc_wakeup_mode (l7_tc10_cfg data)) }"

definition lan887x_phy_tc10_set_wakeup_fwd_support ::
  "nat \<Rightarrow> mepa_tc10_wakeup_fwd_mode \<Rightarrow> ('h, mepa_rc) lan7" where
  "lan887x_phy_tc10_set_wakeup_fwd_support dev mode =
     RC_GOTO_RD (tc10_rd dev LAN887X_DEV30_COMMON_TC10_MISC36) (\<lambda>reg_data1.
     RC_GOTO_RD (tc10_rd dev LAN887X_DEV30_COMMON_TC10_MISC32) (\<lambda>reg_data2.
     let (wup, wk_out) = (case mode of
             MEPA_TC10_WAKEUP_FWD_DISABLE \<Rightarrow> (False, False)
           | MEPA_TC10_WAKEUP_FWD_WUP_ENABLE \<Rightarrow> (True, False)
           | MEPA_TC10_WAKEUP_FWD_WAKEOUT_ENABLE \<Rightarrow> (False, True)
           | _ \<Rightarrow> (True, True));
         reg_data1 = set_bit_if wup LAN887X_DEV30_COMMON_TC10_MISC36_WUP_AUTO_FWD_EN reg_data1
           OR LAN887X_DEV30_COMMON_TC10_MISC36_VBAT_PORT_WR;
         reg_data2 = set_bit_if wk_out LAN887X_DEV30_COMMON_TC10_MISC32_WK_OUT_AUTO_FWD_EN reg_data2
           OR LAN887X_DEV30_COMMON_TC10_MISC32_VBAT_COM_WR
     in RC_GOTO (tc10_wr dev LAN887X_DEV30_COMMON_TC10_MISC36 reg_data1) (
        RC_GOTO (tc10_wr dev LAN887X_DEV30_COMMON_TC10_MISC32 reg_data2) (do {
          upd_tc10 dev (\<lambda>c. c\<lparr>tc_wakeup_fwd_mode := mode\<rparr>);
          State_Monad.return MEPA_RC_OK }))))"

definition lan887x_phy_tc10_get_wakeup_fwd_support ::
  "nat \<Rightarrow> ('h, mepa_rc \<times> mepa_tc10_wakeup_fwd_mode) lan7" where
  "lan887x_phy_tc10_get_wakeup_fwd_support dev = do {
     data \<leftarrow> data_of dev;
     State_Monad.return (MEPA_RC_OK, tc_wakeup_fwd_mode (l7_tc10_cfg data)) }"

section \<open>Pins\<close>

text \<open>The new content of MISC32, \<open>None\<close> for a pin or an argument that is not supported.\<close>

definition polarity_word ::
  "mepa_tc10_pin \<Rightarrow> mepa_gpio_mode \<Rightarrow> 16 word \<Rightarrow> 16 word option" where
  "polarity_word pin polarity reg_data = (case pin of
      MEPA_TC10_WAKE_IN \<Rightarrow>
        (if polarity = MEPA_GPIO_MODE_ACTIVE_LOW
         then Some (reg_data AND NOT LAN887X_DEV30_COMMON_TC10_MISC32_WK_IN_POL)
         else if polarity = MEPA_GPIO_MODE_ACTIVE_HIGH
         then Some (reg_data OR LAN887X_DEV30_COMMON_TC10_MISC32_WK_IN_POL)
         else None)
    | MEPA_TC10_WAKE_OUT \<Rightarrow>
        (if polarity = MEPA_GPIO_MODE_ACTIVE_LOW
         then Some (reg_data AND NOT LAN887X_DEV30_COMMON_TC10_MISC32_WK_OUT_POL)
         else if polarity = MEPA_GPIO_MODE_ACTIVE_HIGH
         then Some (reg_data OR LAN887X_DEV30_COMMON_TC10_MISC32_WK_OUT_POL)
         else None)
    | MEPA_TC10_INH \<Rightarrow> None)"

definition lan887x_phy_tc10_set_wake_pin_polarity ::
  "nat \<Rightarrow> mepa_tc10_pin \<Rightarrow> mepa_gpio_mode \<Rightarrow> ('h, mepa_rc) lan7" where
  "lan887x_phy_tc10_set_wake_pin_polarity dev pin polarity =
     RC_GOTO_RD (tc10_rd dev LAN887X_DEV30_COMMON_TC10_MISC32) (\<lambda>reg_data.
     case polarity_word pin polarity reg_data of
       None \<Rightarrow> State_Monad.return MEPA_RC_ERR_PARM
     | Some reg_data \<Rightarrow>
         RC_GOTO (tc10_wr dev LAN887X_DEV30_COMMON_TC10_MISC32
           (reg_data OR LAN887X_DEV30_COMMON_TC10_MISC32_VBAT_COM_WR)) (do {
         upd_tc10 dev (\<lambda>c. if pin = MEPA_TC10_WAKE_IN then c\<lparr>tc_wake_in_pol := polarity\<rparr>
                           else c\<lparr>tc_wake_out_pol := polarity\<rparr>);
         State_Monad.return MEPA_RC_OK }))"

definition lan887x_phy_tc10_get_wake_pin_polarity ::
  "nat \<Rightarrow> mepa_tc10_pin \<Rightarrow> mepa_gpio_mode \<Rightarrow> ('h, mepa_rc \<times> mepa_gpio_mode) lan7" where
  "lan887x_phy_tc10_get_wake_pin_polarity dev pin polarity = do {
     data \<leftarrow> data_of dev;
     State_Monad.return
       (if pin = MEPA_TC10_WAKE_IN then (MEPA_RC_OK, tc_wake_in_pol (l7_tc10_cfg data))
        else if pin = MEPA_TC10_WAKE_OUT then (MEPA_RC_OK, tc_wake_out_pol (l7_tc10_cfg data))
        else (MEPA_RC_ERR_PARM, polarity)) }"

definition pin_mode_word :: "mepa_tc10_pin \<Rightarrow> mepa_gpio_mode \<Rightarrow> 16 word \<Rightarrow> 16 word option" where
  "pin_mode_word pin mode reg_data = (case pin of
      MEPA_TC10_WAKE_OUT \<Rightarrow>
        (let reg_data = reg_data AND NOT (WK_OUT_MODE_SET 3)
         in if mode = MEPA_GPIO_MODE_PUSH_PULL
            then Some (reg_data OR WK_OUT_MODE_SET
              LAN887X_DEV30_COMMON_TC10_MISC32_WK_OUT_MODE_PUSH_PULL)
            else if mode = MEPA_GPIO_MODE_OPEN_SOURCE
            then Some (reg_data OR WK_OUT_MODE_SET
              LAN887X_DEV30_COMMON_TC10_MISC32_WK_OUT_MODE_OPEN_SOURCE)
            else if mode = MEPA_GPIO_MODE_OPEN_DRAIN
            then Some (reg_data OR WK_OUT_MODE_SET
              LAN887X_DEV30_COMMON_TC10_MISC32_WK_OUT_MODE_OPEN_DRAIN)
            else None)
    | MEPA_TC10_INH \<Rightarrow>
        (if mode = MEPA_GPIO_MODE_OPEN_SOURCE
         then Some (reg_data AND NOT LAN887X_DEV30_COMMON_TC10_MISC32_INH_MODE_OPEN_DRAIN)
         else if mode = MEPA_GPIO_MODE_OPEN_DRAIN
         then Some (reg_data OR LAN887X_DEV30_COMMON_TC10_MISC32_INH_MODE_OPEN_DRAIN)
         else None)
    | MEPA_TC10_WAKE_IN \<Rightarrow> None)"

definition lan887x_phy_tc10_set_pin_mode ::
  "nat \<Rightarrow> mepa_tc10_pin \<Rightarrow> mepa_gpio_mode \<Rightarrow> ('h, mepa_rc) lan7" where
  "lan887x_phy_tc10_set_pin_mode dev pin mode =
     RC_GOTO_RD (tc10_rd dev LAN887X_DEV30_COMMON_TC10_MISC32) (\<lambda>reg_data.
     case pin_mode_word pin mode reg_data of
       None \<Rightarrow> State_Monad.return MEPA_RC_ERR_PARM
     | Some reg_data \<Rightarrow>
         RC_GOTO (tc10_wr dev LAN887X_DEV30_COMMON_TC10_MISC32
           (reg_data OR LAN887X_DEV30_COMMON_TC10_MISC32_VBAT_COM_WR)) (do {
         upd_tc10 dev (\<lambda>c. if pin = MEPA_TC10_INH then c\<lparr>tc_inh_mode := mode\<rparr>
                           else c\<lparr>tc_wake_out_mode := mode\<rparr>);
         State_Monad.return MEPA_RC_OK }))"

definition lan887x_phy_tc10_get_pin_mode ::
  "nat \<Rightarrow> mepa_tc10_pin \<Rightarrow> mepa_gpio_mode \<Rightarrow> ('h, mepa_rc \<times> mepa_gpio_mode) lan7" where
  "lan887x_phy_tc10_get_pin_mode dev pin mode = do {
     data \<leftarrow> data_of dev;
     State_Monad.return (case pin of
         MEPA_TC10_INH \<Rightarrow> (MEPA_RC_OK, tc_inh_mode (l7_tc10_cfg data))
       | MEPA_TC10_WAKE_OUT \<Rightarrow> (MEPA_RC_OK, tc_wake_out_mode (l7_tc10_cfg data))
       | MEPA_TC10_WAKE_IN \<Rightarrow> (MEPA_RC_ERR_PARM, mode)) }"

section \<open>Requests and state\<close>

definition tc10_rmw :: "nat \<Rightarrow> 32 word \<Rightarrow> (16 word \<Rightarrow> 16 word) \<Rightarrow> ('h, mepa_rc) lan7" where
  "tc10_rmw dev r f = RC_GOTO_RD (tc10_rd dev r) (\<lambda>reg_data. tc10_wr dev r (f reg_data))"

definition lan887x_phy_tc10_send_sleep_request ::
  "nat \<Rightarrow> mepa_tc10_sleep_request \<Rightarrow> ('h, mepa_rc) lan7" where
  "lan887x_phy_tc10_send_sleep_request dev req = do {
     data \<leftarrow> data_of dev;
     if tc_sleep_enable (l7_tc10_cfg data) \<and> conf_admin_enable (l7_conf data) then
       (if req = MEPA_TC10_LPS then
          tc10_rmw dev LAN887X_DEV30_COMMON_TC10_REG_REG16
            (\<lambda>v. v OR LAN887X_DEV30_COMMON_TC10_REG_REG16_RW_SEND_LPS)
        else if req = MEPA_TC10_SLEEP_REJECT then
          tc10_rmw dev LAN887X_DEV30_COMMON_TC10_SLEEP_ABRT
            (\<lambda>v. v OR LAN887X_DEV30_COMMON_TC10_SLEEP_ABRT_SLEEP_ABORT)
        else if req = MEPA_TC10_SLEEP_ABORT then
          tc10_rmw dev LAN887X_DEV30_COMMON_TC10_SLEEP_ABRT
            (\<lambda>v. v OR LAN887X_DEV30_COMMON_TC10_SLEEP_ABRT_SLEEP_RJCT)
        else if req = MEPA_TC10_ABORT_CLEAR then
          tc10_rmw dev LAN887X_DEV30_COMMON_TC10_SLEEP_ABRT
            (\<lambda>v. v AND NOT (LAN887X_DEV30_COMMON_TC10_SLEEP_ABRT_SLEEP_RJCT OR
                             LAN887X_DEV30_COMMON_TC10_SLEEP_ABRT_SLEEP_ABORT))
        else State_Monad.return MEPA_RC_ERR_PARM)
     else State_Monad.return MEPA_RC_ERR_KR_CONF_NOT_SUPPORTED }"

definition tc10_state_of :: "16 word \<Rightarrow> mepa_tc10_state option" where
  "tc10_state_of sts =
    (if sts = LAN887X_STS_TC10_STATE_START then Some MEPA_TC10_START
     else if sts = LAN887X_STS_TC10_STATE_NORMAL then Some MEPA_TC10_NORMAL
     else if sts = LAN887X_STS_TC10_STATE_SLEEP_ACK then Some MEPA_TC10_SLEEP_ACK
     else if sts = LAN887X_STS_TC10_STATE_SLEEP_REQ then Some MEPA_TC10_SLEEP_REQ
     else if sts = LAN887X_STS_TC10_STATE_SLEEP_FAIL then Some MEPA_TC10_SLEEP_FAIL
     else if sts = LAN887X_STS_TC10_STATE_SLEEP_SILENT then Some MEPA_TC10_SLEEP_SILENT
     else if sts = LAN887X_STS_TC10_STATE_SLEEP then Some MEPA_TC10_SLEEP
     else None)"

definition lan887x_phy_tc10_get_state :: "nat \<Rightarrow> mepa_tc10_state \<times> 16 word \<Rightarrow>
    ('h, mepa_rc \<times> mepa_tc10_state \<times> 16 word) lan7" where
  "lan887x_phy_tc10_get_state dev out = do {
     (rc, indication) \<leftarrow> phy_mmd_reg_rd dev MDIO_MMD_VEND1
       LAN887X_DEV30_COMMON_TC10_REG_REG24 (snd out);
     if rc \<noteq> MEPA_RC_OK then State_Monad.return (rc, fst out, indication) else do {
     (rc, reg_data) \<leftarrow> tc10_rd dev LAN887X_TC10_DEV30_COMMON_MISC34;
     if rc \<noteq> MEPA_RC_OK then State_Monad.return (rc, fst out, indication) else
     State_Monad.return (case tc10_state_of (LAN887X_STS_TC10_STATE_GET reg_data) of
         None \<Rightarrow> (MEPA_RC_INV_STATE, fst out, indication)
       | Some st \<Rightarrow> (MEPA_RC_OK, st, indication)) }}"

definition lan887x_phy_tc10_send_wake_request :: "nat \<Rightarrow> ('h, mepa_rc) lan7" where
  "lan887x_phy_tc10_send_wake_request dev = do {
     data \<leftarrow> data_of dev;
     if conf_admin_enable (l7_conf data) \<and>
        (tc_wakeup_mode (l7_tc10_cfg data) = MEPA_TC10_WAKEUP_WUP_ENABLE \<or>
         tc_wakeup_mode (l7_tc10_cfg data) = MEPA_TC10_WAKEUP_WUP_WAKEIN_ENABLE) then
       tc10_rmw dev LAN887X_DEV30_COMMON_TC10_REG_REG16
         (\<lambda>v. v OR LAN887X_DEV30_COMMON_TC10_REG_REG16_RW_SEND_WUR)
     else State_Monad.return MEPA_RC_ERR_KR_CONF_NOT_SUPPORTED }"

text \<open>
  The configuration after power-up and after a reset.  \<open>cfg\<close> points into the private data,
  so its members are read when they are used.
\<close>

definition lan887x_phy_tc10_set_config :: "nat \<Rightarrow> ('h, mepa_rc) lan7" where
  "lan887x_phy_tc10_set_config dev = rc_seq [
     phy_mmd_reg_modify dev MDIO_MMD_VEND1 LAN887X_MISC_REGS_REG16
       LAN887X_MISC_REGS_REG16_IGNORE_IDLE_WITH_WUR_LPS
       LAN887X_MISC_REGS_REG16_IGNORE_IDLE_WITH_WUR_LPS,
     tc10_wr dev LAN887X_DEV30_COMMON_TC10_MISC33
       (push_bit 8 LAN887X_DEV30_COMMON_TC10_MISC33_WK_DEB_VAL OR
        LAN887X_DEV30_COMMON_TC10_MISC33_WK_OUT_LEN),
     phy_mmd_reg_modify dev MDIO_MMD_VEND1 LAN887X_DEV30_COMMON_TC10_MISC46
       LAN887X_DEV30_COMMON_TC10_MISC46_WK_PORT_TEST_MASK
       LAN887X_DEV30_COMMON_TC10_MISC46_WK_PORT_TEST_VAL,
     phy_mmd_reg_modify dev MDIO_MMD_VEND1 LAN887X_MISC_REGS_MISC37
       LAN887X_MISC_REGS_MISC37_EN_TC10_SLEEP_SILENT
       LAN887X_MISC_REGS_MISC37_EN_TC10_SLEEP_SILENT,
     phy_mmd_reg_modify dev MDIO_MMD_VEND1 LAN887X_DEV30_COMMON_TC10_MISC32
       LAN887X_DEV30_COMMON_TC10_MISC32_VAL LAN887X_DEV30_COMMON_TC10_MISC32_VAL,
     phy_mmd_reg_modify dev MDIO_MMD_VEND1 LAN887X_DEV30_COMMON_TC10_MISC36
       LAN887X_DEV30_COMMON_TC10_MISC36_VAL LAN887X_DEV30_COMMON_TC10_MISC36_VAL,
     do { d \<leftarrow> data_of dev;
          lan887x_phy_tc10_set_sleep_support dev (tc_sleep_enable (l7_tc10_cfg d)) },
     do { d \<leftarrow> data_of dev;
          lan887x_phy_tc10_set_wakeup_support dev (tc_wakeup_mode (l7_tc10_cfg d)) },
     do { d \<leftarrow> data_of dev;
          lan887x_phy_tc10_set_wakeup_fwd_support dev (tc_wakeup_fwd_mode (l7_tc10_cfg d)) },
     do { d \<leftarrow> data_of dev; lan887x_phy_tc10_set_wake_pin_polarity dev MEPA_TC10_WAKE_IN
            (tc_wake_in_pol (l7_tc10_cfg d)) },
     do { d \<leftarrow> data_of dev; lan887x_phy_tc10_set_wake_pin_polarity dev MEPA_TC10_WAKE_OUT
            (tc_wake_out_pol (l7_tc10_cfg d)) },
     do { d \<leftarrow> data_of dev; lan887x_phy_tc10_set_pin_mode dev MEPA_TC10_WAKE_OUT
            (tc_wake_out_mode (l7_tc10_cfg d)) },
     do { d \<leftarrow> data_of dev; lan887x_phy_tc10_set_pin_mode dev MEPA_TC10_INH
            (tc_inh_mode (l7_tc10_cfg d)) }]"

section \<open>The driver callbacks\<close>

definition lan887x_tc10_set_sleep_support :: "nat \<Rightarrow> bool \<Rightarrow> ('h, mepa_rc) lan7" where
  "lan887x_tc10_set_sleep_support dev enable = locked dev (lan887x_phy_tc10_set_sleep_support dev enable)"

definition lan887x_tc10_get_sleep_support :: "nat \<Rightarrow> ('h, mepa_rc \<times> bool) lan7" where
  "lan887x_tc10_get_sleep_support dev = locked dev (lan887x_phy_tc10_get_sleep_support dev)"

definition lan887x_tc10_set_wakeup_support :: "nat \<Rightarrow> mepa_tc10_wakeup_mode \<Rightarrow> ('h, mepa_rc) lan7" where
  "lan887x_tc10_set_wakeup_support dev mode = locked dev (lan887x_phy_tc10_set_wakeup_support dev mode)"

definition lan887x_tc10_get_wakeup_support :: "nat \<Rightarrow> ('h, mepa_rc \<times> mepa_tc10_wakeup_mode) lan7" where
  "lan887x_tc10_get_wakeup_support dev = locked dev (lan887x_phy_tc10_get_wakeup_support dev)"

definition lan887x_tc10_set_wakeup_fwd_support :: "nat \<Rightarrow> mepa_tc10_wakeup_fwd_mode \<Rightarrow> ('h, mepa_rc) lan7" where
  "lan887x_tc10_set_wakeup_fwd_support dev mode = locked dev (lan887x_phy_tc10_set_wakeup_fwd_support dev mode)"

definition lan887x_tc10_get_wakeup_fwd_support :: "nat \<Rightarrow> ('h, mepa_rc \<times> mepa_tc10_wakeup_fwd_mode) lan7" where
  "lan887x_tc10_get_wakeup_fwd_support dev = locked dev (lan887x_phy_tc10_get_wakeup_fwd_support dev)"

definition lan887x_tc10_set_wake_pin_polarity :: "nat \<Rightarrow> mepa_tc10_pin \<Rightarrow> mepa_gpio_mode \<Rightarrow> ('h, mepa_rc) lan7" where
  "lan887x_tc10_set_wake_pin_polarity dev pin mode = locked dev (lan887x_phy_tc10_set_wake_pin_polarity dev pin mode)"

definition lan887x_tc10_get_wake_pin_polarity :: "nat \<Rightarrow> mepa_tc10_pin \<Rightarrow> mepa_gpio_mode \<Rightarrow> ('h, mepa_rc \<times> mepa_gpio_mode) lan7" where
  "lan887x_tc10_get_wake_pin_polarity dev pin out = locked dev (lan887x_phy_tc10_get_wake_pin_polarity dev pin out)"

definition lan887x_tc10_set_pin_mode :: "nat \<Rightarrow> mepa_tc10_pin \<Rightarrow> mepa_gpio_mode \<Rightarrow> ('h, mepa_rc) lan7" where
  "lan887x_tc10_set_pin_mode dev pin mode = locked dev (lan887x_phy_tc10_set_pin_mode dev pin mode)"

definition lan887x_tc10_get_pin_mode :: "nat \<Rightarrow> mepa_tc10_pin \<Rightarrow> mepa_gpio_mode \<Rightarrow> ('h, mepa_rc \<times> mepa_gpio_mode) lan7" where
  "lan887x_tc10_get_pin_mode dev pin out = locked dev (lan887x_phy_tc10_get_pin_mode dev pin out)"

definition lan887x_tc10_send_sleep_request :: "nat \<Rightarrow> mepa_tc10_sleep_request \<Rightarrow> ('h, mepa_rc) lan7" where
  "lan887x_tc10_send_sleep_request dev req = locked dev (lan887x_phy_tc10_send_sleep_request dev req)"

definition lan887x_tc10_get_state :: "nat \<Rightarrow> mepa_tc10_state \<times> 16 word \<Rightarrow> ('h, mepa_rc \<times> mepa_tc10_state \<times> 16 word) lan7" where
  "lan887x_tc10_get_state dev out = locked dev (lan887x_phy_tc10_get_state dev out)"

definition lan887x_tc10_send_wake_request :: "nat \<Rightarrow> ('h, mepa_rc) lan7" where
  "lan887x_tc10_send_wake_request dev = locked dev (lan887x_phy_tc10_send_wake_request dev)"

definition lan887x_tc10_drivers :: "('h, lan887x_data) mepa_tc10_driver" where
  "lan887x_tc10_drivers = \<lparr>
     tc10_drv_set_sleep_support = Some lan887x_tc10_set_sleep_support,
     tc10_drv_get_sleep_support = Some (\<lambda>p _. lan887x_tc10_get_sleep_support p),
     tc10_drv_set_wakeup_support = Some lan887x_tc10_set_wakeup_support,
     tc10_drv_get_wakeup_support = Some (\<lambda>p _. lan887x_tc10_get_wakeup_support p),
     tc10_drv_set_wakeup_fwd_support = Some lan887x_tc10_set_wakeup_fwd_support,
     tc10_drv_get_wakeup_fwd_support = Some (\<lambda>p _. lan887x_tc10_get_wakeup_fwd_support p),
     tc10_drv_set_wake_pin_polarity = Some lan887x_tc10_set_wake_pin_polarity,
     tc10_drv_get_wake_pin_polarity = Some lan887x_tc10_get_wake_pin_polarity,
     tc10_drv_set_pin_mode = Some lan887x_tc10_set_pin_mode,
     tc10_drv_get_pin_mode = Some lan887x_tc10_get_pin_mode,
     tc10_drv_send_sleep_request = Some lan887x_tc10_send_sleep_request,
     tc10_drv_get_state = Some lan887x_tc10_get_state,
     tc10_drv_send_wake_request = Some lan887x_tc10_send_wake_request\<rparr>"

end
