(* ===== verification/Lan887x_Conf.thy ===== *)
theory Lan887x_Conf
  imports Lan887x_Tc10
begin

text \<open>
  Identification, LEDs, loopback, the MAC side, events, the link, reset and configuration of
  the LAN887x (\<open>lan887x/src/lan887x.c\<close>).  These functions run under the lock.  The wait for the
  end of a soft reset polls until a deadline; \<open>fuel\<close> bounds its rounds, and a wait that uses
  it up marks the world as stuck (\<open>Lan887x_Api\<close> shows that this does not happen when
  the clock advances).
\<close>

section \<open>Identification and tables\<close>

definition phy_get_device_info :: "nat \<Rightarrow> ('h, mepa_rc) lan7" where
  "phy_get_device_info dev = do {
     upd_dev_info dev (\<lambda>_. \<lparr>di7_id = 0, di7_model = 0, di7_rev = 0, di7_is_master = False,
       di7_is_master_fault = False\<rparr>);
     (_, v) \<leftarrow> phy_reg_rd dev MII_PHYSID1;
     let id1 = ucast v;
     (_, v) \<leftarrow> phy_reg_rd dev MII_PHYSID2;
     let id2 = ucast v;
     upd_dev_info dev (\<lambda>i. i\<lparr>di7_rev := ucast (GET_PHY_REV id2),
       di7_model := ucast (GET_PHY_MODEL id2),
       di7_id := GET_PHY_ID1 id1 OR GET_PHY_ID2 id2\<rparr>);
     State_Monad.return MEPA_RC_OK }"

type_synonym phy_reg_map = "32 word \<times> 32 word \<times> 16 word"

definition lan887x_phy_en :: "phy_reg_map list" where
  "lan887x_phy_en = [(MDIO_MMD_VEND1, 0xF003, 0x0008), (MDIO_MMD_VEND1, 0xF005, 0x0010)]"

definition lan887x_onetime_setup :: "phy_reg_map list" where
  "lan887x_onetime_setup = [
     (MDIO_MMD_PMAPMD, 0x8080, 0x4008), (MDIO_MMD_PMAPMD, 0x8089, 0x0000),
     (MDIO_MMD_PMAPMD, 0x808D, 0x0040), (MDIO_MMD_PCS, 0x8213, 0x0008),
     (MDIO_MMD_PCS, 0x8204, 0x800D), (MDIO_MMD_VEND1, 0x0405, 0x0AB1),
     (MDIO_MMD_VEND1, 0x0411, 0x5274), (MDIO_MMD_VEND1, 0x0417, 0x0D74),
     (MDIO_MMD_VEND1, 0x041C, 0x0AEA), (MDIO_MMD_VEND1, 0x0425, 0x0360),
     (MDIO_MMD_VEND1, 0x0454, 0x0C30), (MDIO_MMD_VEND1, 0x0811, 0x2A78),
     (MDIO_MMD_VEND1, 0x0813, 0x1368), (MDIO_MMD_VEND1, 0x0825, 0x1354),
     (MDIO_MMD_VEND1, 0x0843, 0x3C84), (MDIO_MMD_VEND1, 0x0844, 0x3CA5),
     (MDIO_MMD_VEND1, 0x0845, 0x3CA5), (MDIO_MMD_VEND1, 0x0846, 0x3CA5),
     (MDIO_MMD_VEND1, 0x08EC, 0x0024), (MDIO_MMD_VEND1, 0x08EE, 0x227F),
     (MDIO_MMD_PCS, 0x8043, 0x1E00), (MDIO_MMD_PCS, 0x8048, 0x0FA1)]"

definition phy_cfg_regs :: "nat \<Rightarrow> phy_reg_map list \<Rightarrow> bool \<Rightarrow> ('h, unit) lan7" where
  "phy_cfg_regs dev regs is_rmw = for_each (\<lambda>(mmd, off, v). do {
     (if is_rmw then phy_mmd_reg_modify dev mmd off v v else phy_mmd_reg_wr dev mmd off v);
     State_Monad.return () }) regs"

text \<open>The link status latches low, so it is read twice.\<close>

definition phy_c45_get_link_status :: "nat \<Rightarrow> mepa_status \<Rightarrow> ('h, mepa_rc \<times> mepa_status) lan7" where
  "phy_c45_get_link_status dev status = do {
     (rc, v) \<leftarrow> phy_mmd_reg_rd dev MDIO_MMD_PMAPMD MDIO_STAT1 0;
     if rc \<noteq> MEPA_RC_OK then State_Monad.return (rc, status) else do {
     (rc, v) \<leftarrow> phy_mmd_reg_rd dev MDIO_MMD_PMAPMD MDIO_STAT1 v;
     if rc \<noteq> MEPA_RC_OK then State_Monad.return (rc, status) else do {
     let link = (v AND MDIO_STAT1_LSTATUS \<noteq> 0);
     upd_data dev (\<lambda>d. d\<lparr>l7_link_status := link\<rparr>);
     State_Monad.return (rc, status\<lparr>st_link := link\<rparr>) }}}"

section \<open>LEDs\<close>

definition led_word :: "mepa_gpio_mode \<Rightarrow> 16 word option" where
  "led_word mode = (case mode of
      MEPA_GPIO_MODE_LED_LINK1000_ACTIVITY \<Rightarrow> Some LAN887X_CHIPTOP_LED_LINK_ACT_1000_SPEED
    | MEPA_GPIO_MODE_LED_LINK100_ACTIVITY \<Rightarrow> Some LAN887X_CHIPTOP_LED_LINK_ACT_100_SPEED
    | MEPA_GPIO_MODE_LED_LINK_NO_ACT_ANY_SPEED \<Rightarrow> Some LAN887X_CHIPTOP_LED_LINK_NO_ACT_ANY_SPEED
    | MEPA_GPIO_MODE_LED_LOCAL_RXER_STATUS \<Rightarrow> Some LAN887X_CHIPTOP_LED_LOCAL_RXER_STATUS
    | MEPA_GPIO_MODE_LED_REMOTE_RXER_STATUS \<Rightarrow> Some LAN887X_CHIPTOP_LED_REMOTE_RXER_STATUS
    | MEPA_GPIO_MODE_LED_NEGOTIATED_SPEED \<Rightarrow> Some LAN887X_CHIPTOP_LED_NEGOTIATED_SPEED
    | MEPA_GPIO_MODE_LED_MASTER_SLAVE_MODE \<Rightarrow> Some LAN887X_CHIPTOP_LED_MASTER_SLAVE_MODE
    | MEPA_GPIO_MODE_LED_PCS_TX_ERR_STATUS \<Rightarrow> Some LAN887X_CHIPTOP_LED_PCS_TX_ERR_STATUS
    | MEPA_GPIO_MODE_LED_PCS_RX_ERR_STATUS \<Rightarrow> Some LAN887X_CHIPTOP_LED_PCS_RX_ERR_STATUS
    | MEPA_GPIO_MODE_LED_PCS_TX_ACTIVITY \<Rightarrow> Some LAN887X_CHIPTOP_LED_PCS_TX_ACTIVITY
    | MEPA_GPIO_MODE_LED_PCS_RX_ACTIVITY \<Rightarrow> Some LAN887X_CHIPTOP_LED_PCS_RX_ACTIVITY
    | MEPA_GPIO_MODE_LED_WAKE_ON_LAN \<Rightarrow> Some LAN887X_CHIPTOP_LED_WAKE_ON_LAN
    | MEPA_GPIO_MODE_LED_FORCE_LED_OFF \<Rightarrow> Some LAN887X_CHIPTOP_LED_FORCED_LED_OFF
    | MEPA_GPIO_MODE_LED_FORCE_LED_ON \<Rightarrow> Some LAN887X_CHIPTOP_LED_FORCED_LED_ON
    | MEPA_GPIO_MODE_LED_LINK_ACTIVITY \<Rightarrow> Some LAN887X_CHIPTOP_LED_LINK_ACT_ANY_SPEED
    | _ \<Rightarrow> None)"

definition lan887x_config_led :: "nat \<Rightarrow> mepa_gpio_conf \<Rightarrow> ('h, mepa_rc) lan7" where
  "lan887x_config_led dev conf = (case led_word (gpio_mode conf) of
      None \<Rightarrow> State_Monad.return MEPA_RC_ERR_KR_CONF_NOT_SUPPORTED
    | Some reg_val \<Rightarrow>
        let reg_offset = (if gpio_led_num conf = MEPA_LED0 \<or> gpio_led_num conf = MEPA_LED1
                          then LAN887X_CHIPTOP_COMM_LED1_LED0 else LAN887X_CHIPTOP_COMM_LED3_LED2);
            reg_val = (if gpio_led_num conf = MEPA_LED1 \<or> gpio_led_num conf = MEPA_LED3
                       then push_bit 8 reg_val else reg_val)
        in phy_mmd_reg_wr dev MDIO_MMD_VEND1 reg_offset reg_val)"

definition is_led_mode :: "mepa_gpio_mode \<Rightarrow> bool" where
  "is_led_mode mode =
    (mepa_gpio_mode_num mode \<ge> mepa_gpio_mode_num MEPA_GPIO_MODE_LED_LINK_ACTIVITY \<and>
     mepa_gpio_mode_num mode \<le> mepa_gpio_mode_num MEPA_GPIO_MODE_LED_DISABLE_EXTENDED)"

definition lan887x_config_leds :: "nat \<Rightarrow> bool \<Rightarrow> ('h, mepa_rc) lan7" where
  "lan887x_config_leds dev isolate = rc_seq (map (\<lambda>i. do {
     data \<leftarrow> data_of dev;
     let led = l7_led_conf data ! i;
     if is_led_mode (gpio_mode led) then
       lan887x_config_led dev (if isolate then led\<lparr>gpio_mode := MEPA_GPIO_MODE_LED_FORCE_LED_OFF\<rparr>
                               else led)
     else State_Monad.return MEPA_RC_OK }) [0..<4])"

definition lan887x_isolate_mode_int :: "nat \<Rightarrow> bool \<Rightarrow> ('h, mepa_rc) lan7" where
  "lan887x_isolate_mode_int dev en = rc_seq [
     (if en then phy_reg_set_bits dev MII_BMCR BMCR_ISOLATE
      else phy_reg_clear_bits dev MII_BMCR BMCR_ISOLATE),
     lan887x_config_leds dev en]"

section \<open>Loopback\<close>

definition upd_loopback :: "nat \<Rightarrow> (mepa_loopback \<Rightarrow> mepa_loopback) \<Rightarrow> ('h, unit) lan7" where
  "upd_loopback dev f = upd_data dev (\<lambda>d. d\<lparr>l7_loopback := f (l7_loopback d)\<rparr>)"

definition lan887x_setup_lpbk :: "nat \<Rightarrow> mepa_loopback option \<Rightarrow> ('h, mepa_rc) lan7" where
  "lan887x_setup_lpbk dev loopback = do {
     let msk = LAN887X_MIS_CFG_REG2_FE_LPBK_EN OR LAN887X_MIS_CFG_REG2_NE_LPBK_EN OR
       LAN887X_MIS_CFG_REG2_IO_LPBK_EN;
     let mode = (\<lambda>v. phy_mmd_reg_modify dev MDIO_MMD_VEND1 LAN887X_MIS_CFG_REG2 msk v);
     upd_loopback dev (\<lambda>_. mepa_loopback_0);
     case loopback of
       None \<Rightarrow> mode 0
     | Some lb \<Rightarrow>
         if lb_far_end_ena lb then do {
           upd_loopback dev (\<lambda>l. l\<lparr>lb_far_end_ena := True\<rparr>);
           mode LAN887X_MIS_CFG_REG2_FE_LPBK_EN }
         else if lb_near_end_ena lb then do {
           upd_loopback dev (\<lambda>l. l\<lparr>lb_near_end_ena := True\<rparr>);
           mode LAN887X_MIS_CFG_REG2_NE_LPBK_EN }
         else if lb_connector_ena lb then
           RC_GOTO (phy_mmd_reg_wr dev MDIO_MMD_VEND1 LAN887X_CHIPTOP_COMM_REG_1
             LAN887X_CHIPTOP_COMM_REG_1_AFE_LPBK_EN) (do {
           upd_loopback dev (\<lambda>l. l\<lparr>lb_connector_ena := True\<rparr>);
           mode 0 })
         else RC_GOTO (phy_mmd_reg_wr dev MDIO_MMD_VEND1 LAN887X_CHIPTOP_COMM_REG_1 0) (mode 0) }"

section \<open>The MAC side\<close>

text \<open>The delay bits of the transmit and the receive clock, \<open>None\<close> when it is not RGMII.\<close>

definition rgmii_delays :: "mepa_port_interface \<Rightarrow> (bool \<times> bool) option" where
  "rgmii_delays mac_if = (case mac_if of
      MESA_PORT_INTERFACE_RGMII \<Rightarrow> Some (False, False)
    | MESA_PORT_INTERFACE_RGMII_ID \<Rightarrow> Some (True, True)
    | MESA_PORT_INTERFACE_RGMII_RXID \<Rightarrow> Some (False, True)
    | MESA_PORT_INTERFACE_RGMII_TXID \<Rightarrow> Some (True, False)
    | _ \<Rightarrow> None)"

definition lan887x_rgmii_setup :: "nat \<Rightarrow> mepa_port_interface \<Rightarrow> ('h, mepa_rc) lan7" where
  "lan887x_rgmii_setup dev mac_if = RC_GOTO (rc_seq [
       phy_mmd_reg_clear_bits dev MDIO_MMD_VEND1 LAN887X_MX_CHIP_TOP_REG_SGMII_CTL
         LAN887X_MX_CHIP_TOP_REG_SGMII_MUX_EN,
       phy_mmd_reg_modify dev MDIO_MMD_VEND1 LAN887X_MIS_CFG_REG0
         LAN887X_MIS_CFG_REG0_MAC_MAC_MODE_SEL LAN887X_MIS_CFG_REG0_MAC_MODE_RGMII,
       phy_mmd_reg_clear_bits dev MDIO_MMD_VEND1 LAN887X_MX_CHIP_TOP_SGMII_PCS_CFG
         LAN887X_MX_CHIP_TOP_SGMII_PCS_ENA,
       phy_mmd_reg_clear_bits dev MDIO_MMD_VEND1 LAN887X_MIS_CFG_REG0
         LAN887X_MIS_CFG_REG0_RCLKOUT_DIS]) (
     RC_GOTO_RD (phy_mmd_reg_rd dev MDIO_MMD_VEND1 LAN887X_MIS_TX_DLL_CFG_REG0 0) (\<lambda>txc.
     RC_GOTO_RD (phy_mmd_reg_rd dev MDIO_MMD_VEND1 LAN887X_MIS_RX_DLL_CFG_REG1 0) (\<lambda>rxc.
     case rgmii_delays mac_if of
       None \<Rightarrow> State_Monad.return MEPA_RC_OK
     | Some (tx, rx) \<Rightarrow> rc_seq [
         phy_mmd_reg_modify dev MDIO_MMD_VEND1 LAN887X_MIS_RX_DLL_CFG_REG1
           LAN887X_MIS_DLL_EN_BOTH (set_bit_if rx LAN887X_MIS_DLL_EN_BOTH rxc),
         phy_mmd_reg_modify dev MDIO_MMD_VEND1 LAN887X_MIS_TX_DLL_CFG_REG0
           LAN887X_MIS_DLL_EN_BOTH (set_bit_if tx LAN887X_MIS_DLL_EN_BOTH txc)])))"

definition lan887x_sgmii_setup :: "nat \<Rightarrow> ('h, mepa_rc) lan7" where
  "lan887x_sgmii_setup dev = do {
     data \<leftarrow> data_of dev;
     rc_seq ([
       phy_mmd_reg_set_bits dev MDIO_MMD_VEND1 LAN887X_MX_CHIP_TOP_REG_SGMII_CTL
         LAN887X_MX_CHIP_TOP_REG_SGMII_MUX_EN] @
       (if IS_LAN887X_B0_PROTOS (di7_id (l7_dev data)) then [
          phy_mmd_reg_set_bits dev MDIO_MMD_VEND1 LAN887X_MX_CHIP_TOP_REG_SGMII_CTL
            (LAN887X_MX_CHIP_TOP_REG_SGMII_VREG_BYP_CTL OR
             LAN887X_MX_CHIP_TOP_REG_SGMII_XAUI_RST)]
        else []) @ [
       phy_mmd_reg_modify dev MDIO_MMD_VEND1 LAN887X_MIS_CFG_REG0
         LAN887X_MIS_CFG_REG0_MAC_MAC_MODE_SEL LAN887X_MIS_CFG_REG0_MAC_MODE_SGMII,
       phy_mmd_reg_set_bits dev MDIO_MMD_VEND1 LAN887X_MIS_CFG_REG0
         LAN887X_MIS_CFG_REG0_RCLKOUT_DIS,
       phy_mmd_reg_set_bits dev MDIO_MMD_VEND1 LAN887X_MX_CHIP_TOP_SGMII_PCS_CFG
         LAN887X_MX_CHIP_TOP_SGMII_PCS_ENA] @
       (if conf_mac_if_aneg_ena (l7_conf data) then [
          phy_mmd_reg_set_bits dev MDIO_MMD_VEND1 LAN887X_MX_CHIP_TOP_SGMII_PCS_ANEG
            (LAN887X_MX_CHIP_TOP_SGMII_PCS_ANEG_EN OR LAN887X_MX_CHIP_TOP_SGMII_PCS_ANEG_RST),
          phy_mmd_reg_set_bits dev MDIO_MMD_VEND1 LAN887X_MX_CHIP_TOP_QSGMII_ANEG_REG
            LAN887X_MX_CHIP_TOP_QSGMII_ANEG_EN]
        else [
          phy_mmd_reg_clear_bits dev MDIO_MMD_VEND1 LAN887X_MX_CHIP_TOP_SGMII_PCS_ANEG
            LAN887X_MX_CHIP_TOP_SGMII_PCS_ANEG_EN,
          phy_mmd_reg_clear_bits dev MDIO_MMD_VEND1 LAN887X_MX_CHIP_TOP_QSGMII_ANEG_REG
            LAN887X_MX_CHIP_TOP_QSGMII_ANEG_EN])) }"

text \<open>The interfaces from \<open>RGMII\<close> to \<open>RGMII_TXID\<close> of the enumeration.\<close>

definition is_rgmii :: "mepa_port_interface \<Rightarrow> bool" where
  "is_rgmii mac_if = (mac_if \<in> {MESA_PORT_INTERFACE_RGMII, MESA_PORT_INTERFACE_RGMII_ID,
     MESA_PORT_INTERFACE_RGMII_RXID, MESA_PORT_INTERFACE_RGMII_TXID})"

definition lan887x_config_mac :: "nat \<Rightarrow> ('h, mepa_rc) lan7" where
  "lan887x_config_mac dev = do {
     data \<leftarrow> data_of dev;
     if is_rgmii (l7_mac_if data) then lan887x_rgmii_setup dev (l7_mac_if data)
     else if l7_mac_if data = MESA_PORT_INTERFACE_SGMII then lan887x_sgmii_setup dev
     else phy_mmd_reg_clear_bits dev MDIO_MMD_VEND1 LAN887X_MIS_CFG_REG0
       LAN887X_MIS_CFG_REG0_MAC_MAC_MODE_SEL }"

section \<open>Events and setup\<close>

text \<open>An interrupt is enabled by a 0 in its bit of the mask register.\<close>

definition int_mask_word :: "mepa_event \<Rightarrow> 16 word" where
  "int_mask_word events = fold (\<lambda>i m.
     if events AND push_bit i 1 \<noteq> 0 then m AND NOT (push_bit i 1) else m)
     [0..<INTR_BIT_LEN] LAN887X_DEF_MASK"

definition lan887x_int_events_set :: "nat \<Rightarrow> mepa_event \<Rightarrow> bool \<Rightarrow> ('h, mepa_rc) lan7" where
  "lan887x_int_events_set dev event enable = do {
     let tmp_evt = event AND 0xFFFF;
     upd_data dev (\<lambda>d. d\<lparr>l7_events := (if enable then l7_events d OR tmp_evt
                                      else l7_events d AND NOT tmp_evt)\<rparr>);
     data \<leftarrow> data_of dev;
     phy_mmd_reg_wr dev MDIO_MMD_VEND1 LAN887X_MX_CHIP_TOP_REG_INT_MSK
       (int_mask_word (l7_events data)) }"

definition lan887x_phy_cfg_clr :: "nat \<Rightarrow> ('h, mepa_rc) lan7" where
  "lan887x_phy_cfg_clr dev =
     RC_GOTO_RD (phy_mmd_reg_rd dev MDIO_MMD_VEND1 0xc22 0) (\<lambda>_. rc_seq [
       lan887x_setup_lpbk dev None,
       do { data \<leftarrow> data_of dev; lan887x_int_events_set dev (l7_events data) True },
       lan887x_isolate_mode_int dev False])"

definition lan887x_phy_init :: "nat \<Rightarrow> ('h, mepa_rc) lan7" where
  "lan887x_phy_init dev = rc_seq [lan887x_config_mac dev, lan887x_phy_cfg_clr dev]"

definition lan887x_phy_setup :: "nat \<Rightarrow> ('h, mepa_rc) lan7" where
  "lan887x_phy_setup dev = RC_GOTO (phy_get_device_info dev) (do {
     data \<leftarrow> data_of dev;
     only_if (\<not> l7_init_done data) (do {
       only_if (IS_LAN887X_B0_PROTOS (di7_id (l7_dev data))) (phy_cfg_regs dev lan887x_phy_en True);
       phy_cfg_regs dev lan887x_onetime_setup False });
     upd_data dev (\<lambda>d. d\<lparr>l7_init_done := True\<rparr>);
     rc_seq [lan887x_phy_tc10_set_config dev, lan887x_phy_init dev] })"

section \<open>The link\<close>

text \<open>A negative return code ends the script; other ones are not looked at.\<close>

fun wr_scripts :: "nat \<Rightarrow> phy_reg_map list \<Rightarrow> ('h, mepa_rc) lan7" where
  "wr_scripts dev [] = State_Monad.return MEPA_RC_OK"
| "wr_scripts dev ((mmd, reg, v) # xs) = MEPA_RC (phy_mmd_reg_wr dev mmd reg v) (wr_scripts dev xs)"

definition lan887x_100m_scripts :: "nat \<Rightarrow> ('h, mepa_rc) lan7" where
  "lan887x_100m_scripts dev = do {
     data \<leftarrow> data_of dev;
     MEPA_RC (wr_scripts dev
       (if conf_speed (l7_conf data) \<noteq> MEPA_SPEED_AUTO \<and>
           conf_man_neg (l7_conf data) \<noteq> MEPA_MANUAL_NEG_REF
        then [(MDIO_MMD_PMAPMD, 0x808B, 0x0038), (MDIO_MMD_VEND1, 0x0422, 0x0014)]
        else [(MDIO_MMD_PMAPMD, 0x808B, 0x00B8), (MDIO_MMD_PMAPMD, 0x80B0, 0x0038),
              (MDIO_MMD_VEND1, 0x0422, 0x000F)]))
       (phy_mmd_reg_set_bits dev MDIO_MMD_VEND1 LAN887X_MIS_100T1_SMI_REG26
         LAN887X_MIS_100T1_SMI_HW_INIT_SEQ_EN) }"

definition lan887x_1000m_scripts :: "nat \<Rightarrow> ('h, mepa_rc) lan7" where
  "lan887x_1000m_scripts dev =
     MEPA_RC (wr_scripts dev [(MDIO_MMD_PMAPMD, 0x80B0, 0x003F), (MDIO_MMD_PMAPMD, 0x808B, 0x00B8)])
     (do {
       data \<leftarrow> data_of dev;
       if conf_speed (l7_conf data) = MEPA_SPEED_AUTO then rc_seq [
         phy_mmd_reg_clear_bits dev MDIO_MMD_PMAPMD LAN887X_PMA_1000T1_DSP_PMA_CTL_REG
           LAN887X_PMA_1000T1_DSP_PMA_LNK_SYNC,
         phy_mmd_reg_set_bits dev MDIO_MMD_VEND1 LAN887X_MIS_100T1_SMI_REG26
           LAN887X_MIS_100T1_SMI_HW_INIT_SEQ_EN]
       else phy_mmd_reg_set_bits dev MDIO_MMD_PMAPMD LAN887X_PMA_1000T1_DSP_PMA_CTL_REG
         LAN887X_PMA_1000T1_DSP_PMA_LNK_SYNC })"

definition lan887x_is_1g :: "lan887x_data \<Rightarrow> bool" where
  "lan887x_is_1g data =
    (if conf_speed (l7_conf data) = MEPA_SPEED_AUTO
     then l7_media_intf data \<noteq> MESA_PHY_MEDIA_IF_T1_100FX \<and>
       adv_speed_1g_fdx (conf_aneg (l7_conf data))
     else l7_media_intf data \<noteq> MESA_PHY_MEDIA_IF_T1_100FX \<and>
       conf_speed (l7_conf data) = MEPA_SPEED_1G)"

text \<open>The return code of the scripts is dropped.\<close>

definition lan887x_link_setup :: "nat \<Rightarrow> ('h, unit) lan7" where
  "lan887x_link_setup dev = do {
     data \<leftarrow> data_of dev;
     (if lan887x_is_1g data then lan887x_1000m_scripts dev else lan887x_100m_scripts dev);
     State_Monad.return () }"

definition lan887x_pma_baset1_setup_forced :: "nat \<Rightarrow> ('h, mepa_rc) lan7" where
  "lan887x_pma_baset1_setup_forced dev = do {
     data \<leftarrow> data_of dev;
     let reg_val = (if conf_man_neg (l7_conf data) = MEPA_MANUAL_NEG_REF
                    then MDIO_PMA_PMD_BT1_CTRL_CFG_MST else 0);
     let reg_val = (if lan887x_is_1g data
                    then reg_val OR LAN887X_PMA_COMM_100T1_CTL_T1_TYPE_1000 else reg_val);
     phy_mmd_reg_wr dev MDIO_MMD_PMAPMD MDIO_PMA_PMD_BT1_CTRL reg_val }"

text \<open>What is advertised: the preferred role and exactly one speed.\<close>

definition adv_word7 :: "lan887x_data \<Rightarrow> 16 word" where
  "adv_word7 data =
    ((if conf_man_neg (l7_conf data) \<noteq> MEPA_MANUAL_NEG_CLIENT then MDIO_AN_T1_ADV_M_MST else 0) OR
     (if lan887x_is_1g data then MDIO_AN_T1_ADV_M_B1000 else MDIO_AN_T1_ADV_M_B100))"

definition lan887x_init_conf :: "nat \<Rightarrow> ('h, mepa_rc) lan7" where
  "lan887x_init_conf dev = do {
     data \<leftarrow> data_of dev;
     if conf_admin_enable (l7_conf data) then
       RC_GOTO (phy_reg_clear_bits dev MII_BMCR BMCR_PDOWN) (
       RC_GOTO
         (if conf_speed (l7_conf data) = MEPA_SPEED_AUTO then rc_seq [
            phy_mmd_reg_modify dev MDIO_MMD_AN MDIO_AN_T1_ADV_M
              (MDIO_AN_T1_ADV_M_B1000 OR MDIO_AN_T1_ADV_M_B100 OR MDIO_AN_T1_ADV_M_MST)
              (adv_word7 data),
            phy_mmd_reg_wr dev MDIO_MMD_AN MDIO_AN_T1_ADV_L 0]
          else lan887x_pma_baset1_setup_forced dev) (do {
       lan887x_link_setup dev;
       if conf_speed (l7_conf data) = MEPA_SPEED_AUTO then
         phy_mmd_reg_set_bits dev MDIO_MMD_AN MDIO_AN_T1_CTRL
           (MDIO_AN_CTRL1_ENABLE OR MDIO_AN_CTRL1_RESTART)
       else State_Monad.return MEPA_RC_OK }))
     else State_Monad.return MEPA_RC_OK }"

section \<open>Reset\<close>

text \<open>
  \<open>while (done == PHY_FALSE && timeout == PHY_FALSE)\<close>: read the clock, read the register,
  stop when the hardware is done.  The result is \<open>done\<close>.
\<close>

definition lan887x_wait :: "nat \<Rightarrow> ('h, 16 word) lan7 \<Rightarrow> (16 word \<Rightarrow> bool) \<Rightarrow> ('h, bool) lan7" where
  "lan887x_wait fuel rd hit = do {
     timer \<leftarrow> MEPA_MTIMER_START 4000;
     r \<leftarrow> poll_loop fuel timer (\<lambda>_. rd) hit 0;
     case r of
       None \<Rightarrow> stuck_loop False
     | Some (rc, _) \<Rightarrow> State_Monad.return (rc = MEPA_RC_OK) }"

definition reset_wait :: "nat \<Rightarrow> nat \<Rightarrow> ('h, bool) lan7" where
  "reset_wait fuel dev = lan887x_wait fuel
     (do { (_, tmp) \<leftarrow> phy_reg_rd dev MII_BMCR; State_Monad.return tmp })
     (\<lambda>tmp. tmp AND BMCR_RESET \<noteq> BMCR_RESET)"

definition lan887x_phy_reset :: "nat \<Rightarrow> nat \<Rightarrow> bool \<Rightarrow> ('h, mepa_rc) lan7" where
  "lan887x_phy_reset fuel dev hard_reset =
    (if hard_reset then
       RC_GOTO (phy_mmd_reg_wr dev MDIO_MMD_VEND1 LAN887X_MX_CHIP_TOP_REG_HARD_RST
         LAN887X_MX_CHIP_TOP_RESET) (do {
       MEPA_NSLEEP 5000;
       State_Monad.return MEPA_RC_OK })
     else RC_GOTO (rc_seq [
         phy_mmd_reg_clear_bits dev MDIO_MMD_PMAPMD LAN887X_PMA_1000T1_DSP_PMA_CTL_REG
           LAN887X_PMA_1000T1_DSP_PMA_LNK_SYNC,
         phy_mmd_reg_clear_bits dev MDIO_MMD_VEND1 LAN887X_MIS_100T1_SMI_REG26
           LAN887X_MIS_100T1_SMI_HW_INIT_SEQ_EN,
         phy_mmd_reg_clear_bits dev MDIO_MMD_AN MDIO_AN_T1_CTRL MDIO_AN_CTRL1_ENABLE,
         phy_mmd_reg_wr dev MDIO_MMD_VEND1 LAN887X_MX_CHIP_TOP_REG_SOFT_RST
           LAN887X_MX_CHIP_TOP_RESET,
         phy_reg_set_bits dev MII_BMCR BMCR_RESET]) (do {
       reset_wait fuel dev;
       State_Monad.return MEPA_RC_OK }))"

definition lan887x_int_reset :: "nat \<Rightarrow> nat \<Rightarrow> lan887x_reset_typ \<Rightarrow> ('h, mepa_rc) lan7" where
  "lan887x_int_reset fuel dev typ =
    (let finish = rc_seq (
       (if typ = LAN887X_RST_SOFT_EXT \<or> typ = LAN887X_RST_HARD then [lan887x_phy_setup dev] else []) @
       (if typ = LAN887X_RST_SOFT_MAC \<or> typ = LAN887X_RST_SKIP_TO_CONF
        then [lan887x_config_mac dev] else []) @
       [lan887x_init_conf dev, phy_get_device_info dev])
     in if typ = LAN887X_RST_HARD \<or> typ = LAN887X_RST_HARD_ONLY then
       RC_GOTO (lan887x_phy_reset fuel dev True)
         (if typ = LAN887X_RST_HARD_ONLY then State_Monad.return MEPA_RC_OK else do {
           upd_data dev (\<lambda>d. d\<lparr>l7_init_done := False\<rparr>);
           finish })
     else if typ \<noteq> LAN887X_RST_SKIP_TO_CONF then
       RC_GOTO (lan887x_phy_reset fuel dev False) (
       RC_GOTO (lan887x_isolate_mode_int dev False) finish)
     else finish)"

section \<open>Configuration\<close>

definition lan887x_check_media ::
  "lan887x_data \<Rightarrow> mepa_media_interface \<Rightarrow> mepa_port_speed \<Rightarrow> mepa_rc" where
  "lan887x_check_media data media_if speed =
    (if media_if = MESA_PHY_MEDIA_IF_T1_100FX \<or> media_if = MESA_PHY_MEDIA_IF_T1_1000FX then
       (if media_if = MESA_PHY_MEDIA_IF_T1_100FX \<and>
           (speed = MEPA_SPEED_AUTO \<and> \<not> adv_speed_100m_fdx (conf_aneg (l7_conf data)) \<or>
            speed \<noteq> MEPA_SPEED_AUTO \<and> speed \<noteq> MEPA_SPEED_100M)
        then MEPA_RC_ERR_PARM else MEPA_RC_OK)
     else MEPA_RC_ERR_KR_CONF_NOT_SUPPORTED)"

definition conf_supported :: "mepa_conf \<Rightarrow> bool" where
  "conf_supported config =
    (\<not> (conf_man_neg config \<noteq> MEPA_MANUAL_NEG_CLIENT \<and> conf_man_neg config \<noteq> MEPA_MANUAL_NEG_REF \<or>
        \<not> conf_fdx config \<or>
        conf_speed config \<noteq> MEPA_SPEED_100M \<and> conf_speed config \<noteq> MEPA_SPEED_1G \<and>
        conf_speed config \<noteq> MEPA_SPEED_AUTO))"

text \<open>The speed is stored after the check against the medium.\<close>

definition config_set_speed :: "nat \<Rightarrow> mepa_port_speed \<Rightarrow> ('h, mepa_rc) lan7" where
  "config_set_speed dev speed = do {
     data \<leftarrow> data_of dev;
     if conf_speed (l7_conf data) \<noteq> speed then
       (let rc = lan887x_check_media data (l7_media_intf data) speed
        in if rc \<noteq> MEPA_RC_OK then State_Monad.return rc
        else do { upd_conf dev (\<lambda>c. c\<lparr>conf_speed := speed\<rparr>); State_Monad.return MEPA_RC_OK })
     else State_Monad.return MEPA_RC_OK }"

text \<open>The rest of the members, and the reset that applies them when one has changed.\<close>

definition config_set_apply :: "nat \<Rightarrow> nat \<Rightarrow> mepa_conf \<Rightarrow> mepa_conf \<Rightarrow> ('h, mepa_rc) lan7" where
  "config_set_apply fuel dev old config = do {
     let mac_changed = (conf_mac_if_aneg_ena old \<noteq> conf_mac_if_aneg_ena config);
     let typ = (if mac_changed then LAN887X_RST_SOFT_MAC else LAN887X_RST_SOFT);
     upd_conf dev (\<lambda>c. c\<lparr>conf_man_neg := conf_man_neg config\<rparr>);
     upd_conf dev (\<lambda>c. c\<lparr>conf_admin_enable := conf_admin_enable config\<rparr>);
     let re_config = (mac_changed \<or> conf_speed old \<noteq> conf_speed config \<or>
       conf_man_neg old \<noteq> conf_man_neg config \<or>
       conf_admin_enable old \<noteq> conf_admin_enable config);
     if re_config then
       (if conf_admin_enable config then lan887x_int_reset fuel dev typ
        else phy_reg_set_bits dev MII_BMCR BMCR_PDOWN)
     else State_Monad.return MEPA_RC_OK }"

definition lan887x_config_set :: "nat \<Rightarrow> nat \<Rightarrow> mepa_conf \<Rightarrow> ('h, mepa_rc) lan7" where
  "lan887x_config_set fuel dev config =
    (if \<not> conf_supported config then State_Monad.return MEPA_RC_ERR_PARM else do {
     data \<leftarrow> data_of dev;
     let old = l7_conf data;
     upd_conf dev (\<lambda>c. c\<lparr>conf_fdx := True, conf_flow_control := conf_flow_control config,
       conf_aneg := (conf_aneg c)\<lparr>adv_speed_100m_fdx := adv_speed_100m_fdx (conf_aneg config),
                                adv_speed_1g_fdx := adv_speed_1g_fdx (conf_aneg config)\<rparr>\<rparr>);
     upd_conf dev (\<lambda>c. c\<lparr>conf_mac_if_aneg_ena := conf_mac_if_aneg_ena config\<rparr>);
     RC_GOTO (config_set_speed dev (conf_speed config)) (config_set_apply fuel dev old config) })"

end
