(* ===== verification/Lan887x_Diag.thy ===== *)
theory Lan887x_Diag
  imports Lan887x_Conf
begin

text \<open>
  Resolution of auto-negotiation, signal quality and cable diagnostics of the LAN887x
  (\<open>lan887x/src/lan887x.c\<close>).  A local variable that C leaves uninitialised starts as 0;
  it only shows when a register read fails.
\<close>

section \<open>Auto-negotiation\<close>

definition lan887x_aneg_resolve_master_slave :: "nat \<Rightarrow> 8 word \<Rightarrow> ('h, mepa_rc \<times> 8 word) lan7" where
  "lan887x_aneg_resolve_master_slave dev mode = do {
     (rc, ms_sts) \<leftarrow> phy_mmd_reg_rd dev MDIO_MMD_AN LAN887X_VEND_CTRL_STAT_REG 0;
     if rc \<noteq> MEPA_RC_OK then State_Monad.return (rc, mode)
     else State_Monad.return (rc,
       if ms_sts AND LAN887X_AN_LOCAL_MASTER = LAN887X_AN_LOCAL_MASTER
       then MASTER_SLAVE_STATE_MASTER
       else if ms_sts AND LAN887X_AN_LOCAL_SLAVE = LAN887X_AN_LOCAL_SLAVE
       then MASTER_SLAVE_STATE_SLAVE
       else if ms_sts AND LAN887X_AN_LOCAL_CFG_FAULT = LAN887X_AN_LOCAL_CFG_FAULT
       then MASTER_SLAVE_STATE_ERR
       else MASTER_SLAVE_STATE_UNSUPPORTED) }"

text \<open>The speed that the partner offers and the port is configured for, 1G first.\<close>

definition lp_speed :: "lan887x_data \<Rightarrow> 16 word \<Rightarrow> mepa_port_speed" where
  "lp_speed data lp_m =
    (if lp_m AND LPA_1000FULL = LPA_1000FULL \<and> adv_speed_1g_fdx (conf_aneg (l7_conf data))
     then MEPA_SPEED_1G
     else if lp_m AND LPA_100FULL = LPA_100FULL \<and> adv_speed_100m_fdx (conf_aneg (l7_conf data))
     then MEPA_SPEED_100M
     else MEPA_SPEED_UNDEFINED)"

definition lan887x_aneg_read_status :: "nat \<Rightarrow> mepa_status \<Rightarrow> ('h, mepa_rc \<times> mepa_status) lan7" where
  "lan887x_aneg_read_status dev status0 = do {
     let status = status0\<lparr>st_aneg := \<lparr>aneg_obey_pause = False, aneg_generate_pause = False\<rparr>,
       st_link := False, st_speed := MEPA_SPEED_UNDEFINED\<rparr>;
     (rc, v) \<leftarrow> phy_mmd_reg_rd dev MDIO_MMD_AN MDIO_AN_T1_STAT 0;
     if rc \<noteq> MEPA_RC_OK then State_Monad.return (rc, status)
     else if v AND MDIO_AN_STAT1_COMPLETE = 0 then State_Monad.return (rc, status) else do {
     (rc, lp_l) \<leftarrow> phy_mmd_reg_rd dev MDIO_MMD_AN MDIO_AN_T1_LP_L 0;
     if rc \<noteq> MEPA_RC_OK then State_Monad.return (rc, status) else do {
     (rc, lp_m) \<leftarrow> phy_mmd_reg_rd dev MDIO_MMD_AN MDIO_AN_T1_LP_M 0;
     if rc \<noteq> MEPA_RC_OK then State_Monad.return (rc, status) else do {
     data \<leftarrow> data_of dev;
     State_Monad.return (rc, status\<lparr>st_speed := lp_speed data lp_m\<rparr>) }}}}"

section \<open>Signal quality at 100M\<close>

text \<open>One raw reading and the link status at its time, \<open>n\<close> times.\<close>

fun sqi_samples :: "nat \<Rightarrow> nat \<Rightarrow> 16 word \<Rightarrow> ('h, (16 word \<times> 8 word) list) lan7" where
  "sqi_samples dev 0 temp = State_Monad.return []"
| "sqi_samples dev (Suc n) temp = do {
     phy_mmd_reg_wr dev MDIO_MMD_VEND1 0x40d 0x0001;
     (_, temp) \<leftarrow> phy_mmd_reg_rd dev MDIO_MMD_VEND1 0x483 temp;
     data \<leftarrow> data_of dev;
     rest \<leftarrow> sqi_samples dev n temp;
     State_Monad.return ((temp, if l7_link_status data then 1 else 0) # rest) }"

text \<open>
  The sort exchanges \<open>rawtable[i]\<close> and \<open>rawtable[j]\<close> for every pair of indexes, \<open>i\<close> in the
  outer loop, and the link statuses along with them.
\<close>

definition sqi_swap :: "nat \<Rightarrow> nat \<Rightarrow> 16 word list \<times> 8 word list \<Rightarrow> 16 word list \<times> 8 word list" where
  "sqi_swap i j t = (case t of (raw, link) \<Rightarrow>
     if raw ! j > raw ! i
     then (raw[i := raw ! j, j := raw ! i], link[i := link ! j, j := link ! i])
     else (raw, link))"

definition sqi_sort :: "nat \<Rightarrow> 16 word list \<times> 8 word list \<Rightarrow> 16 word list \<times> 8 word list" where
  "sqi_sort n t = fold (\<lambda>i. fold (\<lambda>j. sqi_swap i j) [0..<n]) [0..<n] t"

definition sqi_sums :: "16 word list \<Rightarrow> 8 word list \<Rightarrow> 32 word \<times> 32 word" where
  "sqi_sums raw link = fold (\<lambda>i (sqiavg, linkavg).
     (if i \<ge> 40 \<and> i < 160 then sqiavg + ucast (raw ! i) else sqiavg, linkavg + ucast (link ! i)))
     [0..<200] (0, 0)"

definition sqi_grade :: "32 word \<Rightarrow> 32 word" where
  "sqi_grade sqiavg =
    (if sqiavg \<ge> 299 then 0
     else if sqiavg \<ge> 237 then 1
     else if sqiavg \<ge> 189 then 2
     else if sqiavg \<ge> 150 then 3
     else if sqiavg \<ge> 119 then 4
     else if sqiavg \<ge> 94 then 5
     else if sqiavg \<ge> 75 then 6
     else if sqiavg > 0 then 7
     else 0)"

definition sqi_num :: "16 word list \<times> 8 word list \<Rightarrow> 32 word" where
  "sqi_num t = (case sqi_sort 200 t of (raw, link) \<Rightarrow>
     case sqi_sums raw link of (sqiavg, linkavg) \<Rightarrow>
       if linkavg div 200 < 1 then 0 else sqi_grade (sqiavg div 120))"

definition lan887x_get_sqi_100m :: "nat \<Rightarrow> ('h, 32 word) lan7" where
  "lan887x_get_sqi_100m dev = do {
     phy_mmd_reg_wr dev MDIO_MMD_VEND1 0x404 0x16D6;
     phy_mmd_reg_wr dev MDIO_MMD_VEND1 0x42E 0x9572;
     (rc, temp) \<leftarrow> phy_mmd_reg_rd dev MDIO_MMD_VEND1 0x042E 0;
     if rc < 0 \<or> temp \<noteq> 0x9572 then State_Monad.return 0 else do {
     phy_mmd_reg_modify dev MDIO_MMD_VEND1 0x40d 0x0001 0x0001;
     MEPA_NSLEEP 50;
     samples \<leftarrow> sqi_samples dev 200 temp;
     State_Monad.return (sqi_num (map fst samples, map snd samples)) }}"

section \<open>Signal quality\<close>

text \<open>The wait for the measurement at 1G: 20 rounds at most; whether it was done and the last value.\<close>

fun sqi_coeff_wait :: "nat \<Rightarrow> nat \<Rightarrow> 16 word \<Rightarrow> ('h, bool \<times> 16 word) lan7" where
  "sqi_coeff_wait dev 0 v = State_Monad.return (False, v)"
| "sqi_coeff_wait dev (Suc n) v = do {
     MEPA_NSLEEP 200;
     (_, v) \<leftarrow> phy_mmd_reg_rd dev MDIO_MMD_VEND1 LAN887X_DSP_REGS_COEFF_MOD_CONFIG v;
     if v AND 0x0100 \<noteq> 0x0100 then State_Monad.return (True, v)
     else sqi_coeff_wait dev n v }"

definition lan887x_get_sqi :: "nat \<Rightarrow> ('h, 32 word) lan7" where
  "lan887x_get_sqi dev = do {
     data \<leftarrow> data_of dev;
     (speed, link_status) \<leftarrow>
       (if conf_speed (l7_conf data) = MEPA_SPEED_AUTO then do {
          (_, st) \<leftarrow> lan887x_aneg_read_status dev mepa_status_0;
          State_Monad.return (st_speed st, st) }
        else State_Monad.return (conf_speed (l7_conf data), mepa_status_0));
     if speed \<noteq> MEPA_SPEED_100M \<and> speed \<noteq> MEPA_SPEED_1G \<and> speed \<noteq> MEPA_SPEED_AUTO
     then State_Monad.return 0 else do {
     phy_c45_get_link_status dev link_status;
     data \<leftarrow> data_of dev;
     if \<not> l7_link_status data then State_Monad.return 0
     else if speed = MEPA_SPEED_100M then lan887x_get_sqi_100m dev else do {
     phy_mmd_reg_set_bits dev MDIO_MMD_VEND1 LAN887X_DSP_REGS_COEFF_MOD_CONFIG
       LAN887X_DSP_REGS_COEFF_MOD_CONFIG_DCQ_COEFF_EN;
     (finished, v) \<leftarrow> sqi_coeff_wait dev 20 0;
     if \<not> finished then State_Monad.return 0 else do {
     (_, v) \<leftarrow> phy_mmd_reg_rd dev MDIO_MMD_VEND1 LAN887X_DSP_REGS_DCQ_SQI_STATUS v;
     State_Monad.return (ucast (drop_bit 1 (T1_DCQ_SQI_MSK AND v))) }}}}"

section \<open>Cable diagnostics\<close>

definition lan887x_cd_reset :: "nat \<Rightarrow> nat \<Rightarrow> bool \<Rightarrow> ('h, mepa_rc) lan7" where
  "lan887x_cd_reset fuel dev cd_done =
     lan887x_int_reset fuel dev (if cd_done then LAN887X_RST_HARD else LAN887X_RST_HARD_ONLY)"

definition cable_test_values :: "(32 word \<times> 16 word) list" where
  "cable_test_values = [
     (LAN887X_DSP_REGS_MAX_PGA_GAIN_100, 0x1F),
     (LAN887X_DSP_REGS_MIN_PGA_GAIN_100, 0x0),
     (LAN887X_DSP_REGS_CBL_DIAG_TDR_THRESH_100, 0x1),
     (LAN887X_DSP_REGS_CBL_DIAG_AGC_THRESH_100, 0x3c),
     (LAN887X_DSP_REGS_CBL_DIAG_MIN_WAIT_CONFIG_100, 0x0),
     (LAN887X_DSP_REGS_CBL_DIAG_MAX_WAIT_CONFIG_100, 0x46),
     (LAN887X_DSP_REGS_CBL_DIAG_CYC_CONFIG_100, 0x5A),
     (LAN887X_DSP_REGS_CBL_DIAG_TX_PULSE_CONFIG_100, 0x44D5),
     (LAN887X_DSP_REGS_CBL_DIAG_MIN_PGA_GAIN_100, 0x0)]"

definition cable_diag_write_values :: "nat \<Rightarrow> bool \<Rightarrow> ('h, unit) lan7" where
  "cable_diag_write_values dev is_hybrid = for_each (\<lambda>(reg, v). do {
     phy_mmd_reg_wr dev MDIO_MMD_VEND1 reg v;
     only_if (is_hybrid \<and> reg = LAN887X_DSP_REGS_CBL_DIAG_MAX_WAIT_CONFIG_100)
       (phy_mmd_reg_wr dev MDIO_MMD_VEND1 reg 0xA) }) cable_test_values"

definition lan887x_phy_cable_diag_common :: "nat \<Rightarrow> nat \<Rightarrow> bool \<Rightarrow> bool \<Rightarrow> ('h, mepa_rc) lan7" where
  "lan887x_phy_cable_diag_common fuel dev is_hybrid ms_mode =
     RC_GOTO (rc_seq [
       lan887x_cd_reset fuel dev False,
       phy_mmd_reg_wr dev MDIO_MMD_PMAPMD MDIO_PMA_PMD_BT1_CTRL
         (if ms_mode then MDIO_PMA_PMD_BT1_CTRL_CFG_MST else 0),
       phy_mmd_reg_modify dev MDIO_MMD_VEND1 LAN887X_DSP_CALIB_CONFIG_100 0
         LAN887X_DSP_CALIB_CONFIG_100_VAL]) (do {
     cable_diag_write_values dev is_hybrid;
     RC_GOTO
       (if is_hybrid then phy_mmd_reg_modify dev MDIO_MMD_PMAPMD
          LAN887X_T1_AFE_PORT_TESTBUS_CTRL4_REG 0x0001 0x0001
        else State_Monad.return MEPA_RC_OK) (
     RC_GOTO (phy_mmd_reg_modify dev MDIO_MMD_VEND1 LAN887X_MIS_100T1_SMI_REG26
       LAN887X_MIS_100T1_SMI_HW_INIT_SEQ_EN LAN887X_MIS_100T1_SMI_HW_INIT_SEQ_EN) (do {
     MEPA_NSLEEP 1;
     State_Monad.return MEPA_RC_OK })) })"

definition diag_wait :: "nat \<Rightarrow> nat \<Rightarrow> ('h, bool) lan7" where
  "diag_wait fuel dev = lan887x_wait fuel
     (do { (_, tmp) \<leftarrow> phy_mmd_reg_rd dev MDIO_MMD_VEND1 LAN887X_DSP_REGS_START_CBL_DIAG_100 0;
           State_Monad.return tmp })
     (\<lambda>tmp. tmp AND LAN887X_DSP_REGS_START_CBL_DIAG_DONE = LAN887X_DSP_REGS_START_CBL_DIAG_DONE)"

definition lan887x_phy_cable_diag_start :: "nat \<Rightarrow> nat \<Rightarrow> bool \<Rightarrow> bool \<Rightarrow> ('h, mepa_rc) lan7" where
  "lan887x_phy_cable_diag_start fuel dev is_hybrid ms_mode = do {
     data \<leftarrow> data_of dev;
     if l7_init_done data \<and> conf_admin_enable (l7_conf data) then
       RC_GOTO (rc_seq [
         lan887x_phy_cable_diag_common fuel dev is_hybrid ms_mode,
         phy_mmd_reg_wr dev MDIO_MMD_VEND1 LAN887X_DSP_REGS_START_CBL_DIAG_100
           LAN887X_DSP_REGS_START_CBL_DIAG_EN]) (do {
       done \<leftarrow> diag_wait fuel dev;
       if \<not> done then do {
         upd_cd_res dev (\<lambda>r. r\<lparr>cd_status := (cd_status r)[0 := MEPA_CABLE_DIAG_STATUS_ABNORM]\<rparr>);
         State_Monad.return MEPA_RC_INCOMPLETE }
       else do {
         phy_mmd_reg_clear_bits dev MDIO_MMD_VEND1 LAN887X_DSP_REGS_START_CBL_DIAG_100
           LAN887X_DSP_REGS_START_CBL_DIAG_EN;
         State_Monad.return MEPA_RC_OK }})
     else State_Monad.return MEPA_RC_INV_STATE }"

text \<open>A time of the hardware counts cycles of 96 phases.\<close>

definition in_phases :: "16 word \<Rightarrow> 16 word" where
  "in_phases t = (drop_bit 7 t AND 0x7F) * 96 + (t AND 0x7F)"

definition cable_detect ::
  "16 word \<Rightarrow> 16 word \<Rightarrow> 16 word \<Rightarrow> 16 word \<Rightarrow> 16 word \<Rightarrow> lan887x_cd_status" where
  "cable_detect gain_idx pos_peak neg_peak pos neg =
    (if pos_peak > 20 \<and> neg_peak > 20 \<and> gain_idx > 0 then
       (if pos > 0 \<and> pos > neg \<and> pos - neg \<ge> 96 \<and> pos - neg < 96 + 89
        then LAN87XX_CABLE_TEST_SHORT
        else if neg > 0 \<and> neg > pos \<and> neg - pos \<ge> 96 \<and> neg - pos < 96 + 89
        then LAN87XX_CABLE_TEST_OPEN
        else LAN87XX_CABLE_TEST_OK)
     else LAN87XX_CABLE_TEST_OK)"

text \<open>
  The distance is computed in single precision and converted to 8 bits.  The conversion is
  undefined when the value is 256 or more; below, its truncation is the exact quotient (the
  two roundings together are smaller than the distance of any \<open>15953 * n\<close> to the next multiple
  of a million).
\<close>

definition cable_distance :: "16 word \<Rightarrow> ('h, 8 word) lan7" where
  "cable_distance diff_dist =
    (let m = unat diff_dist * 15953 div 1000000
     in if m < 256 then State_Monad.return (of_nat m) else null_call 0)"

definition cd_mepa_status :: "lan887x_cd_status \<Rightarrow> mepa_cable_diag_status" where
  "cd_mepa_status detect = (case detect of
      LAN87XX_CABLE_TEST_SHORT \<Rightarrow> MEPA_CABLE_DIAG_STATUS_SHORT
    | LAN87XX_CABLE_TEST_OK \<Rightarrow> MEPA_CABLE_DIAG_STATUS_OK
    | LAN87XX_CABLE_TEST_OPEN \<Rightarrow> MEPA_CABLE_DIAG_STATUS_OPEN)"

definition cd_store :: "nat \<Rightarrow> 8 word \<Rightarrow> lan887x_cd_status \<Rightarrow> ('h, mepa_rc) lan7" where
  "cd_store dev len detect = do {
     upd_cd_res dev (\<lambda>r. r\<lparr>cd_length := (cd_length r)[0 := len]\<rparr>);
     upd_cd_res dev (\<lambda>r. r\<lparr>cd_status := (cd_status r)[0 := cd_mepa_status detect]\<rparr>);
     State_Monad.return MEPA_RC_OK }"

definition lan887x_cable_test_report :: "nat \<Rightarrow> nat \<Rightarrow> bool \<Rightarrow> ('h, mepa_rc) lan7" where
  "lan887x_cable_test_report fuel dev ms_mode = do {
     (_, gain_idx) \<leftarrow> phy_mmd_reg_rd dev MDIO_MMD_VEND1 0x497 0;
     (_, neg_peak) \<leftarrow> phy_mmd_reg_rd dev MDIO_MMD_VEND1 0x49A 0;
     (_, neg_peak_time) \<leftarrow> phy_mmd_reg_rd dev MDIO_MMD_VEND1 0x49D 0;
     (_, pos_peak) \<leftarrow> phy_mmd_reg_rd dev MDIO_MMD_VEND1 0x499 0;
     (_, pos_peak_time) \<leftarrow> phy_mmd_reg_rd dev MDIO_MMD_VEND1 0x49C 0;
     let detect = cable_detect gain_idx pos_peak neg_peak
       (in_phases pos_peak_time) (in_phases neg_peak_time);
     if detect = LAN87XX_CABLE_TEST_OK then
       RC_GOTO (lan887x_cd_reset fuel dev True) (cd_store dev 0 detect)
     else RC_GOTO (lan887x_phy_cable_diag_start fuel dev True ms_mode) (do {
       (_, pos_peak_time_hybrid) \<leftarrow> phy_mmd_reg_rd dev MDIO_MMD_VEND1 0x49C 0;
       lan887x_cd_reset fuel dev True;
       let diff_dist = (if detect = LAN87XX_CABLE_TEST_SHORT then in_phases neg_peak_time
                        else in_phases pos_peak_time) - in_phases pos_peak_time_hybrid;
       len \<leftarrow> cable_distance diff_dist;
       cd_store dev len detect }) }"

end
