(* ===== verification/Lan887x_Ops.thy ===== *)
theory Lan887x_Ops
  imports Lan887x_Diag
begin

text \<open>
  The operations that the LAN887x driver offers to the common layer
  (\<open>lan887x/src/lan887x.c\<close>, "External driver callbacks").  The dispatcher has tested the
  device for NULL, and the other pointers are there by their type.  An out-parameter that a
  path does not write keeps the caller's value.
\<close>

section \<open>Configuration and reset\<close>

definition lan887x_sqi_read :: "nat \<Rightarrow> ('h, mepa_rc \<times> 32 word) lan7" where
  "lan887x_sqi_read dev = do {
     MEPA_ENTER dev;
     value \<leftarrow> lan887x_get_sqi dev;
     MEPA_EXIT dev;
     State_Monad.return (MEPA_RC_OK, value) }"

definition lan887x_conf_get :: "nat \<Rightarrow> ('h, mepa_rc \<times> mepa_conf) lan7" where
  "lan887x_conf_get dev = do {
     MEPA_ENTER dev;
     data \<leftarrow> data_of dev;
     MEPA_EXIT dev;
     State_Monad.return (MEPA_RC_OK, l7_conf data) }"

definition lan887x_conf_set :: "nat \<Rightarrow> nat \<Rightarrow> mepa_conf \<Rightarrow> ('h, mepa_rc) lan7" where
  "lan887x_conf_set fuel dev config = locked dev (lan887x_config_set fuel dev config)"

text \<open>The private data after a reset has asked for a medium.\<close>

definition reset_media :: "mepa_media_interface \<Rightarrow> lan887x_data \<Rightarrow> lan887x_data" where
  "reset_media media d =
    (if media = MESA_PHY_MEDIA_IF_T1_100FX \<or> media = MESA_PHY_MEDIA_IF_T1_1000FX then
       (let d = d\<lparr>l7_media_intf := media\<rparr>
        in if media = MESA_PHY_MEDIA_IF_T1_100FX \<and> conf_speed (l7_conf d) \<noteq> MEPA_SPEED_AUTO
           then d\<lparr>l7_conf := (l7_conf d)\<lparr>conf_speed := MEPA_SPEED_100M\<rparr>\<rparr>
           else d)
     else d)"

definition lan887x_reset :: "nat \<Rightarrow> nat \<Rightarrow> mepa_reset_param \<Rightarrow> ('h, mepa_rc) lan7" where
  "lan887x_reset fuel dev rst_conf = locked dev
    (if rst_reset_point rst_conf \<noteq> MEPA_RESET_POINT_DEFAULT \<and>
        rst_reset_point rst_conf \<noteq> MEPA_RESET_POINT_PRE
     then State_Monad.return MEPA_RC_OK
     else do {
       upd_data dev (reset_media (rst_media_intf rst_conf));
       lan887x_int_reset fuel dev LAN887X_RST_SOFT_EXT })"

section \<open>Status\<close>

definition lan887x_aneg_status_get ::
  "nat \<Rightarrow> mepa_aneg_status \<Rightarrow> ('h, mepa_rc \<times> mepa_aneg_status) lan7" where
  "lan887x_aneg_status_get dev status = do {
     data \<leftarrow> data_of dev;
     if conf_speed (l7_conf data) = MEPA_SPEED_AUTO then do {
       MEPA_ENTER dev;
       (rc, state) \<leftarrow> lan887x_aneg_resolve_master_slave dev 0;
       MEPA_EXIT dev;
       State_Monad.return (rc, if rc = MEPA_RC_OK
         then \<lparr>as_master_cfg_fault = (state = MASTER_SLAVE_STATE_ERR),
               as_master = (state = MASTER_SLAVE_STATE_MASTER)\<rparr>
         else status) }
     else State_Monad.return (MEPA_RC_INV_STATE, status) }"

text \<open>The part of the poll after the role and the speed are known.\<close>

definition lan887x_poll_link :: "nat \<Rightarrow> mepa_status \<Rightarrow> ('h, mepa_rc \<times> mepa_status) lan7" where
  "lan887x_poll_link dev status = do {
     let status = status\<lparr>st_fdx := True\<rparr>;
     upd_dev_info dev (\<lambda>i. i\<lparr>di7_is_master := st_master status\<rparr>);
     phy_c45_get_link_status dev status }"

definition lan887x_poll_private :: "nat \<Rightarrow> mepa_status \<Rightarrow> ('h, mepa_rc \<times> mepa_status) lan7" where
  "lan887x_poll_private dev status = do {
     upd_data dev (\<lambda>d. d\<lparr>l7_link_status := False\<rparr>);
     data \<leftarrow> data_of dev;
     if conf_speed (l7_conf data) = MEPA_SPEED_AUTO then do {
       (rc, status) \<leftarrow> lan887x_aneg_read_status dev status;
       if rc \<noteq> MEPA_RC_OK then State_Monad.return (rc, status) else do {
       (rc, state) \<leftarrow> lan887x_aneg_resolve_master_slave dev 0;
       if rc \<noteq> MEPA_RC_OK then State_Monad.return (rc, status) else
       lan887x_poll_link dev (status\<lparr>st_master := (state = MASTER_SLAVE_STATE_MASTER)\<rparr>) }}
     else lan887x_poll_link dev
       (status\<lparr>st_master := (conf_man_neg (l7_conf data) = MEPA_MANUAL_NEG_REF),
               st_speed := conf_speed (l7_conf data)\<rparr>) }"

definition lan887x_poll :: "nat \<Rightarrow> mepa_status \<Rightarrow> ('h, mepa_rc \<times> mepa_status) lan7" where
  "lan887x_poll dev status = locked dev (lan887x_poll_private dev status)"

section \<open>Interfaces\<close>

definition lan887x_if_set :: "nat \<Rightarrow> nat \<Rightarrow> mepa_port_interface \<Rightarrow> ('h, mepa_rc) lan7" where
  "lan887x_if_set fuel dev mac_if =
    (if is_rgmii mac_if \<or> mac_if = MESA_PORT_INTERFACE_SGMII then do {
       data \<leftarrow> data_of dev;
       if l7_mac_if data \<noteq> mac_if then locked dev (do {
         upd_data dev (\<lambda>d. d\<lparr>l7_mac_if := mac_if\<rparr>);
         lan887x_int_reset fuel dev LAN887X_RST_SOFT_MAC })
       else State_Monad.return MEPA_RC_OK }
     else State_Monad.return MEPA_RC_ERR_KR_CONF_NOT_SUPPORTED)"

definition lan887x_if_get ::
  "nat \<Rightarrow> mepa_port_speed \<Rightarrow> ('h, mepa_rc \<times> mepa_port_interface) lan7" where
  "lan887x_if_get dev speed = do {
     MEPA_ENTER dev;
     data \<leftarrow> data_of dev;
     MEPA_EXIT dev;
     State_Monad.return (MEPA_RC_OK, l7_mac_if data) }"

definition lan887x_media_set :: "nat \<Rightarrow> nat \<Rightarrow> mepa_media_interface \<Rightarrow> ('h, mepa_rc) lan7" where
  "lan887x_media_set fuel dev media_if =
    (if media_if = MESA_PHY_MEDIA_IF_T1_100FX \<or> media_if = MESA_PHY_MEDIA_IF_T1_1000FX then
       locked dev (do {
         data \<leftarrow> data_of dev;
         if l7_media_intf data \<noteq> media_if then
           (let rc = lan887x_check_media data media_if (conf_speed (l7_conf data))
            in if rc \<noteq> MEPA_RC_OK then State_Monad.return rc else do {
              upd_data dev (\<lambda>d. d\<lparr>l7_media_intf := media_if\<rparr>);
              if conf_speed (l7_conf data) \<noteq> MEPA_SPEED_100M \<or>
                 conf_speed (l7_conf data) = MEPA_SPEED_AUTO
              then lan887x_int_reset fuel dev LAN887X_RST_SOFT
              else State_Monad.return MEPA_RC_OK })
         else State_Monad.return MEPA_RC_OK })
     else State_Monad.return MEPA_RC_ERR_KR_CONF_NOT_SUPPORTED)"

definition lan887x_media_get :: "nat \<Rightarrow> ('h, mepa_rc \<times> mepa_media_interface) lan7" where
  "lan887x_media_get dev = do {
     MEPA_ENTER dev;
     data \<leftarrow> data_of dev;
     MEPA_EXIT dev;
     State_Monad.return (MEPA_RC_OK, l7_media_intf data) }"

section \<open>Register access\<close>

definition lan887x_reg_read :: "nat \<Rightarrow> 32 word \<Rightarrow> ('h, mepa_rc \<times> 16 word) lan7" where
  "lan887x_reg_read dev addr = locked dev (phy_reg_rd dev (LAN8870_PHY_REG_ADDR addr))"

definition lan887x_reg_write :: "nat \<Rightarrow> 32 word \<Rightarrow> 16 word \<Rightarrow> ('h, mepa_rc) lan7" where
  "lan887x_reg_write dev addr value = locked dev (phy_reg_wr dev (LAN8870_PHY_REG_ADDR addr) value)"

definition lan887x_mmd_reg_read ::
  "nat \<Rightarrow> 32 word \<Rightarrow> 16 word \<Rightarrow> ('h, mepa_rc \<times> 16 word) lan7" where
  "lan887x_mmd_reg_read dev addr value =
     locked dev (phy_mmd_reg_rd dev (PHY_MMD_DEVAD addr) (PHY_REG_ADDR addr) value)"

definition lan887x_mmd_reg_write :: "nat \<Rightarrow> 32 word \<Rightarrow> 16 word \<Rightarrow> ('h, mepa_rc) lan7" where
  "lan887x_mmd_reg_write dev addr value =
     locked dev (phy_mmd_reg_wr dev (PHY_MMD_DEVAD addr) (PHY_REG_ADDR addr) value)"

section \<open>Events\<close>

definition lan887x_event_enable_set :: "nat \<Rightarrow> mepa_event \<Rightarrow> bool \<Rightarrow> ('h, mepa_rc) lan7" where
  "lan887x_event_enable_set dev event enable = locked dev (lan887x_int_events_set dev event enable)"

definition lan887x_event_enable_get :: "nat \<Rightarrow> ('h, mepa_rc \<times> mepa_event) lan7" where
  "lan887x_event_enable_get dev = do {
     MEPA_ENTER dev;
     data \<leftarrow> data_of dev;
     MEPA_EXIT dev;
     State_Monad.return (MEPA_RC_OK, l7_events data) }"

text \<open>A 0 in the mask register enables the interrupt.\<close>

definition lan887x_event_status_poll :: "nat \<Rightarrow> ('h, mepa_rc \<times> mepa_event) lan7" where
  "lan887x_event_status_poll dev = locked dev (do {
       (rc, int_mask) \<leftarrow> phy_mmd_reg_rd dev MDIO_MMD_VEND1 LAN887X_MX_CHIP_TOP_REG_INT_MSK 0;
       if rc \<noteq> MEPA_RC_OK then State_Monad.return (rc, 0) else do {
       (rc, v) \<leftarrow> phy_mmd_reg_rd dev MDIO_MMD_VEND1 LAN887X_MX_CHIP_TOP_REG_INT_STS 0;
       if rc \<noteq> MEPA_RC_OK then State_Monad.return (rc, 0) else do {
       data \<leftarrow> data_of dev;
       State_Monad.return (rc, ucast (v AND ((NOT int_mask) AND ucast (l7_events data)))) }}})"

section \<open>GPIOs\<close>

definition lan887x_gpio_pin :: "nat \<Rightarrow> 16 word \<Rightarrow> bool \<Rightarrow> bool \<Rightarrow> 16 word \<Rightarrow> ('h, mepa_rc) lan7" where
  "lan887x_gpio_pin dev no gpio_en clk_en dir =
    (if no < 3 then
       (let v = (if gpio_en then push_bit (unat (4 + no)) 1
                 else if clk_en then push_bit (unat (8 + no)) 1 else 0);
            d = push_bit (unat no) dir
        in RC_GOTO
          (if gpio_en then phy_mmd_reg_modify dev MDIO_MMD_VEND1 LAN887X_MX_CHIP_TOP_REG_GPIO_DIR d d
           else State_Monad.return MEPA_RC_OK)
          (phy_mmd_reg_modify dev MDIO_MMD_VEND1 LAN887X_MX_CHIP_TOP_REG_CONTROL1
            (if gpio_en \<or> clk_en then v else 0) v))
     else State_Monad.return MEPA_RC_NOT_IMPLEMENTED)"

definition lan887x_gpio_mode_set_private :: "nat \<Rightarrow> mepa_gpio_conf \<Rightarrow> ('h, mepa_rc) lan7" where
  "lan887x_gpio_mode_set_private dev conf =
    (let mode = gpio_mode conf; no = ucast (gpio_no conf)
     in if mode = MEPA_GPIO_MODE_IN \<or> mode = MEPA_GPIO_MODE_OUT then
       lan887x_gpio_pin dev no True False (if mode = MEPA_GPIO_MODE_OUT then 1 else 0)
     else if is_led_mode mode then
       RC_GOTO (lan887x_config_led dev conf) (do {
         upd_data dev (\<lambda>d. d\<lparr>l7_led_conf :=
           (l7_led_conf d)[mepa_led_num_num (gpio_led_num conf) := conf]\<rparr>);
         lan887x_gpio_pin dev no False False 0 })
     else if mode = MEPA_GPIO_MODE_PTP_REF_CLK then lan887x_gpio_pin dev 1 False True 0
     else if mode = MEPA_GPIO_MODE_PTP_REF_ADJ then lan887x_gpio_pin dev 2 False True 0
     else lan887x_gpio_pin dev no False False 0)"

definition lan887x_gpio_mode_set :: "nat \<Rightarrow> mepa_gpio_conf \<Rightarrow> ('h, mepa_rc) lan7" where
  "lan887x_gpio_mode_set dev conf = locked dev (lan887x_gpio_mode_set_private dev conf)"

definition lan887x_gpio_out_set :: "nat \<Rightarrow> 8 word \<Rightarrow> bool \<Rightarrow> ('h, mepa_rc) lan7" where
  "lan887x_gpio_out_set dev no value = locked dev
    (if no < 3 then
       (let v = push_bit (unat (4 + no)) 1
        in phy_mmd_reg_modify dev MDIO_MMD_VEND1 LAN887X_MX_CHIP_TOP_REG_GPIO_DATA
             (if value then v else 0) v)
     else State_Monad.return MEPA_RC_ERROR)"

definition lan887x_gpio_in_get :: "nat \<Rightarrow> 8 word \<Rightarrow> bool \<Rightarrow> ('h, mepa_rc \<times> bool) lan7" where
  "lan887x_gpio_in_get dev no value = locked dev
    (if no < 3 then do {
       (rc, v) \<leftarrow> phy_mmd_reg_rd dev MDIO_MMD_VEND1 LAN887X_MX_CHIP_TOP_REG_GPIO_DATA 0;
       State_Monad.return (rc, drop_bit (unat (4 + no)) v AND 1 > 0) }
     else State_Monad.return (MEPA_RC_ERROR, value))"

section \<open>Loopback, information and isolation\<close>

definition lan887x_loopback_set :: "nat \<Rightarrow> mepa_loopback \<Rightarrow> ('h, mepa_rc) lan7" where
  "lan887x_loopback_set dev loopback = locked dev (lan887x_setup_lpbk dev (Some loopback))"

definition lan887x_loopback_get :: "nat \<Rightarrow> ('h, mepa_rc \<times> mepa_loopback) lan7" where
  "lan887x_loopback_get dev = do {
     MEPA_ENTER dev;
     data \<leftarrow> data_of dev;
     MEPA_EXIT dev;
     State_Monad.return (MEPA_RC_OK, l7_loopback data) }"

definition lan887x_capability_priv :: "lan887x_data \<Rightarrow> 32 word \<Rightarrow> 32 word" where
  "lan887x_capability_priv data capability =
    (if capability = MEPA_CAP_SPEED_1G
     then (if conf_speed (l7_conf data) = MEPA_SPEED_100M then 1 else 0)
     else if capability = MEPA_CAP_TS_NONE
     then (if conf_speed (l7_conf data) \<noteq> MEPA_SPEED_100M then 1 else 0)
     else 0)"

definition lan887x_capability :: "nat \<Rightarrow> 32 word \<Rightarrow> ('h, 32 word) lan7" where
  "lan887x_capability dev capability = do {
     data \<leftarrow> data_of dev;
     if \<not> l7_init_done data then State_Monad.return 0
     else locked dev (State_Monad.return (lan887x_capability_priv data capability)) }"

definition lan887x_info_caps :: "lan887x_data \<Rightarrow> 32 word" where
  "lan887x_info_caps data =
    ((if lan887x_capability_priv data MEPA_CAP_SPEED_1G \<noteq> 0 then MEPA_CAP_SPEED_MASK_1G else 0) OR
     (if lan887x_capability_priv data MEPA_CAP_TS_NONE \<noteq> 0 then MEPA_CAP_TS_MASK_NONE else 0))"

definition lan887x_info_get :: "nat \<Rightarrow> mepa_phy_info \<Rightarrow> ('h, mepa_rc \<times> mepa_phy_info) lan7" where
  "lan887x_info_get dev info = locked dev (do {
     data \<leftarrow> data_of dev;
     if l7_init_done data then
       State_Monad.return (MEPA_RC_OK, info\<lparr>info_part_number := di7_model (l7_dev data),
         info_revision := di7_rev (l7_dev data), info_cap := lan887x_info_caps data,
         info_manufactor_name := ''Microchip'', info_model_name := ''LAN887X''\<rparr>)
     else State_Monad.return (MEPA_RC_ERROR, info) })"

definition lan887x_isolate_mode_set :: "nat \<Rightarrow> bool \<Rightarrow> ('h, mepa_rc) lan7" where
  "lan887x_isolate_mode_set dev v = locked dev (lan887x_isolate_mode_int dev v)"

section \<open>Cable diagnostics\<close>

definition lan887x_cable_diag_private :: "nat \<Rightarrow> nat \<Rightarrow> ('h, mepa_rc) lan7" where
  "lan887x_cable_diag_private fuel dev = do {
     (_, link_status) \<leftarrow> phy_c45_get_link_status dev mepa_status_0;
     data \<leftarrow> data_of dev;
     upd_cd_res dev (\<lambda>r. r\<lparr>cd_link := l7_link_status data, cd_length := (cd_length r)[0 := 0],
       cd_status := (cd_status r)[0 := MEPA_CABLE_DIAG_STATUS_UNKNOWN]\<rparr>);
     RC_GOTO
      (if l7_link_status data then do {
         upd_cd_res dev (\<lambda>r. r\<lparr>cd_status := (cd_status r)[0 := MEPA_CABLE_DIAG_STATUS_OK]\<rparr>);
         phy_mmd_reg_clear_bits dev MDIO_MMD_VEND1 LAN887X_DSP_REGS_START_CBL_DIAG_100
           LAN887X_DSP_REGS_START_CBL_DIAG_EN;
         lan887x_cd_reset fuel dev True }
       else
         RC_GOTO (lan887x_phy_cable_diag_start fuel dev False True) (do {
         phy_c45_get_link_status dev link_status;
         lan887x_cable_test_report fuel dev True })) (do {
     phy_c45_get_link_status dev link_status;
     State_Monad.return MEPA_RC_OK }) }"

definition lan887x_cable_diag_start :: "nat \<Rightarrow> nat \<Rightarrow> int \<Rightarrow> ('h, mepa_rc) lan7" where
  "lan887x_cable_diag_start fuel dev mode = locked dev (lan887x_cable_diag_private fuel dev)"

definition lan887x_cable_diag_get :: "nat \<Rightarrow> ('h, mepa_rc \<times> mepa_cable_diag_result) lan7" where
  "lan887x_cable_diag_get dev = do {
     MEPA_ENTER dev;
     data \<leftarrow> data_of dev;
     upd_cd_res dev (\<lambda>r. r\<lparr>cd_length := (cd_length r)[0 := 0],
       cd_status := (cd_status r)[0 := MEPA_CABLE_DIAG_STATUS_UNKNOWN]\<rparr>);
     MEPA_EXIT dev;
     State_Monad.return (MEPA_RC_OK, l7_cd_res data) }"

end
