(* ===== verification/Lan887x_Driver.thy ===== *)
theory Lan887x_Driver
  imports Lan887x_Ops Mepa_Driver
begin

text \<open>
  Probe and deletion of a LAN887x device and the driver table of the family
  (\<open>lan887x_probe\<close>, \<open>lan887x_delete\<close>, \<open>mepa_lan887x_driver_init\<close> of \<open>lan887x.c\<close>, built without
  \<open>MEPA_lan887x_static_mem\<close> and with \<open>MEPA_OPT_TC10\<close>).  \<open>fuel\<close> bounds the rounds of a wait,
  \<open>dev_size\<close> and \<open>priv_size\<close> are the sizes of \<open>mepa_device_t\<close> and \<open>phy_data_t\<close>.  The family is
  number 9 of \<open>MEPA_phy_lib\<close>.
\<close>

abbreviation (input) LAN887X_FAMILY :: nat where "LAN887X_FAMILY \<equiv> 9"

definition lan887x_delete :: "nat \<Rightarrow> ('h, mepa_rc) lan7" where
  "lan887x_delete dev = mepa_delete_int dev"

text \<open>The private data as the probe fills them, before the PHY is set up.\<close>

definition lan887x_probe_data :: "32 word \<Rightarrow> lan887x_data \<Rightarrow> lan887x_data" where
  "lan887x_probe_data handle d = d\<lparr>
     l7_ctx_status := True,
     l7_port_no := handle,
     l7_init_done := False,
     l7_events := 0,
     l7_conf := (l7_conf d)\<lparr>conf_man_neg := MEPA_MANUAL_NEG_REF, conf_admin_enable := True,
       conf_fdx := True, conf_mac_if_aneg_ena := True, conf_speed := MEPA_SPEED_AUTO,
       conf_aneg := (conf_aneg (l7_conf d))\<lparr>adv_speed_100m_fdx := True, adv_speed_1g_fdx := True\<rparr>\<rparr>,
     l7_media_intf := MESA_PHY_MEDIA_IF_T1_1000FX,
     l7_mac_if := MESA_PORT_INTERFACE_RGMII_RXID,
     l7_led_conf := (l7_led_conf d)[2 := (l7_led_conf d ! 2)\<lparr>gpio_led_num := MEPA_LED2,
       gpio_mode := MEPA_GPIO_MODE_LED_LINK_ACTIVITY\<rparr>],
     l7_tc10_cfg := \<lparr>tc_sleep_enable = True,
       tc_wakeup_mode = MEPA_TC10_WAKEUP_WUP_WAKEIN_ENABLE,
       tc_wakeup_fwd_mode = MEPA_TC10_WAKEUP_FWD_WUP_WAKEOUT_ENABLE,
       tc_wake_in_pol = MEPA_GPIO_MODE_ACTIVE_LOW, tc_wake_out_pol = MEPA_GPIO_MODE_ACTIVE_LOW,
       tc_wake_out_mode = MEPA_GPIO_MODE_PUSH_PULL, tc_inh_mode = MEPA_GPIO_MODE_OPEN_SOURCE\<rparr>,
     l7_cd_res := (l7_cd_res d)\<lparr>cd_link := False, cd_length := (cd_length (l7_cd_res d))[0 := 0],
       cd_status := (cd_status (l7_cd_res d))[0 := MEPA_CABLE_DIAG_STATUS_UNKNOWN]\<rparr>\<rparr>"

definition lan887x_fill_probe_data :: "drv_ptr \<Rightarrow> nat \<Rightarrow> 'h mepa_callout \<Rightarrow> nat \<Rightarrow> mepa_board_conf \<Rightarrow>
    ('h, unit) lan7" where
  "lan887x_fill_probe_data drv0 dev co ctx conf = do {
     set_dev dev \<lparr>drv = drv0, numeric_handle = board_numeric_handle conf,
       callout = co, callout_ctx = ctx\<rparr>;
     upd_data dev (lan887x_probe_data (board_numeric_handle conf));
     lan887x_phy_setup dev;
     State_Monad.return () }"

definition lan887x_probe ::
  "nat \<Rightarrow> nat \<Rightarrow> drv_ptr \<Rightarrow> 'h mepa_callout \<Rightarrow> nat \<Rightarrow> mepa_board_conf \<Rightarrow> ('h, nat option) lan7" where
  "lan887x_probe dev_size priv_size drv0 co ctx conf = do {
     dev \<leftarrow> mepa_create_int dev_size drv0 co ctx conf priv_size lan887x_data_0;
     case dev of
       None \<Rightarrow> State_Monad.return None
     | Some p \<Rightarrow> do {
         upd_data p (\<lambda>d. d\<lparr>l7_port_no := board_numeric_handle conf\<rparr>);
         lan887x_fill_probe_data drv0 p co ctx conf;
         State_Monad.return (Some p) }}"

section \<open>The driver table\<close>

definition lan887x_driver :: "nat \<Rightarrow> nat \<Rightarrow> nat \<Rightarrow> ('h, lan887x_data) mepa_driver" where
  "lan887x_driver fuel dev_size priv_size = null_driver\<lparr>
     drv_id := LAN8870_PHY_ID,
     drv_mask := LAN887X_PHY_ID_MASK,
     mepa_driver_delete := Some lan887x_delete,
     mepa_driver_reset := Some (lan887x_reset fuel),
     mepa_driver_poll := Some lan887x_poll,
     mepa_driver_probe := Some (lan887x_probe dev_size priv_size),
     mepa_driver_aneg_status_get := Some lan887x_aneg_status_get,
     mepa_driver_conf_set := Some (lan887x_conf_set fuel),
     mepa_driver_conf_get := Some (\<lambda>p _. lan887x_conf_get p),
     mepa_driver_if_set := Some (lan887x_if_set fuel),
     mepa_driver_if_get := Some (\<lambda>p a1 _. lan887x_if_get p a1),
     mepa_driver_media_set := Some (lan887x_media_set fuel),
     mepa_driver_media_get := Some (\<lambda>p _. lan887x_media_get p),
     mepa_driver_event_enable_set := Some lan887x_event_enable_set,
     mepa_driver_event_enable_get := Some (\<lambda>p _. lan887x_event_enable_get p),
     mepa_driver_event_poll := Some (\<lambda>p _. lan887x_event_status_poll p),
     mepa_driver_gpio_mode_set := Some lan887x_gpio_mode_set,
     mepa_driver_gpio_out_set := Some lan887x_gpio_out_set,
     mepa_driver_gpio_in_get := Some lan887x_gpio_in_get,
     mepa_driver_loopback_set := Some lan887x_loopback_set,
     mepa_driver_loopback_get := Some (\<lambda>p _. lan887x_loopback_get p),
     mepa_driver_capability := Some lan887x_capability,
     mepa_driver_phy_info_get := Some lan887x_info_get,
     mepa_driver_clause22_read := Some (\<lambda>p a1 _. lan887x_reg_read p a1),
     mepa_driver_clause22_write := Some lan887x_reg_write,
     mepa_driver_clause45_read := Some lan887x_mmd_reg_read,
     mepa_driver_clause45_write := Some lan887x_mmd_reg_write,
     mepa_driver_sqi_read := Some (\<lambda>p _. lan887x_sqi_read p),
     mepa_driver_isolate_mode_conf := Some lan887x_isolate_mode_set,
     mepa_driver_cable_diag_start := Some (lan887x_cable_diag_start fuel),
     mepa_driver_cable_diag_get := Some (\<lambda>p _. lan887x_cable_diag_get p),
     mepa_tc10 := Some lan887x_tc10_drivers\<rparr>"

definition mepa_lan887x_driver_init :: "nat \<Rightarrow> nat \<Rightarrow> nat \<Rightarrow> ('h, lan887x_data) mepa_driver list" where
  "mepa_lan887x_driver_init fuel dev_size priv_size = [lan887x_driver fuel dev_size priv_size]"

end
