(* ===== verification/Lan887x_Inv.thy ===== *)
theory Lan887x_Inv
  imports Lan887x_Driver
begin

text \<open>
  The private data of a LAN887x are well-formed, and which invariants the driver keeps.
  The locale \<open>lan887x_inv\<close> is the contract: an invariant of the bus accesses that either does not
  look at the private data or asks for no more than their well-formedness.  Every internal function
  keeps it.
\<close>

section \<open>Well-formed private data\<close>

text \<open>
  Only pin settings that the chip has: the setters of TC10 refuse the others, so that the
  configuration after a reset can always be written.
\<close>

definition tc10_wf :: "lan887x_tc10_data \<Rightarrow> bool" where
  "tc10_wf c =
    (tc_wake_in_pol c \<in> {MEPA_GPIO_MODE_ACTIVE_LOW, MEPA_GPIO_MODE_ACTIVE_HIGH} \<and>
     tc_wake_out_pol c \<in> {MEPA_GPIO_MODE_ACTIVE_LOW, MEPA_GPIO_MODE_ACTIVE_HIGH} \<and>
     tc_wake_out_mode c \<in> {MEPA_GPIO_MODE_PUSH_PULL, MEPA_GPIO_MODE_OPEN_SOURCE,
       MEPA_GPIO_MODE_OPEN_DRAIN} \<and>
     tc_inh_mode c \<in> {MEPA_GPIO_MODE_OPEN_SOURCE, MEPA_GPIO_MODE_OPEN_DRAIN})"

text \<open>Four LEDs; an entry with an LED mode has one that the chip knows, and belongs to its LED.\<close>

definition led_wf :: "mepa_gpio_conf list \<Rightarrow> bool" where
  "led_wf ls = (length ls = 4 \<and> (\<forall>i<4. is_led_mode (gpio_mode (ls ! i)) \<longrightarrow>
     mepa_led_num_num (gpio_led_num (ls ! i)) = i \<and> led_word (gpio_mode (ls ! i)) \<noteq> None))"

text \<open>Full duplex, a role, a speed of the chip, and no 1G on a 100BASE-T1 medium.\<close>

definition conf_wf :: "mepa_media_interface \<Rightarrow> mepa_conf \<Rightarrow> bool" where
  "conf_wf media c =
    (conf_fdx c \<and> conf_man_neg c \<in> {MEPA_MANUAL_NEG_CLIENT, MEPA_MANUAL_NEG_REF} \<and>
     conf_speed c \<in> {MEPA_SPEED_100M, MEPA_SPEED_1G, MEPA_SPEED_AUTO} \<and>
     media \<in> {MESA_PHY_MEDIA_IF_T1_100FX, MESA_PHY_MEDIA_IF_T1_1000FX} \<and>
     (media = MESA_PHY_MEDIA_IF_T1_100FX \<longrightarrow> conf_speed c \<noteq> MEPA_SPEED_1G))"

definition lan887x_wf :: "lan887x_data \<Rightarrow> bool" where
  "lan887x_wf d =
    (conf_wf (l7_media_intf d) (l7_conf d) \<and>
     (is_rgmii (l7_mac_if d) \<or> l7_mac_if d = MESA_PORT_INTERFACE_SGMII) \<and>
     l7_events d AND 0xFFFF = l7_events d \<and>
     tc10_wf (l7_tc10_cfg d) \<and> led_wf (l7_led_conf d) \<and>
     length (cd_status (l7_cd_res d)) = 4 \<and> length (cd_length (l7_cd_res d)) = 4)"

lemmas wf_defs = lan887x_wf_def conf_wf_def tc10_wf_def

lemma wf_reset_media: "lan887x_wf d \<Longrightarrow> lan887x_wf (reset_media m d)"
  by (auto simp: wf_defs reset_media_def Let_def)

lemma check_media_ok:
  assumes "lan887x_check_media d m s = MEPA_RC_OK" "s \<in> {MEPA_SPEED_100M, MEPA_SPEED_1G, MEPA_SPEED_AUTO}"
  shows "m \<in> {MESA_PHY_MEDIA_IF_T1_100FX, MESA_PHY_MEDIA_IF_T1_1000FX} \<and>
    (m = MESA_PHY_MEDIA_IF_T1_100FX \<longrightarrow> s \<noteq> MEPA_SPEED_1G)"
  using assms by (auto simp: lan887x_check_media_def split: if_splits)

lemma low_half:
  assumes "x AND 0xFFFF = (x :: 32 word)"
  shows "(x OR (e AND 0xFFFF)) AND 0xFFFF = x OR (e AND 0xFFFF)"
    "(x AND NOT (e AND 0xFFFF)) AND 0xFFFF = x AND NOT (e AND 0xFFFF)"
proof -
  have b: "bit x n \<Longrightarrow> bit (0xFFFF :: 32 word) n" for n
    using assms by (metis bit_and_iff)
  show "(x OR (e AND 0xFFFF)) AND 0xFFFF = x OR (e AND 0xFFFF)"
    "(x AND NOT (e AND 0xFFFF)) AND 0xFFFF = x AND NOT (e AND 0xFFFF)"
    by (rule bit_word_eqI; use b in \<open>simp only: bit_and_iff bit_or_iff bit_not_iff; blast\<close>)+
qed

lemma wf_events:
  assumes "lan887x_wf d"
  shows "lan887x_wf (d\<lparr>l7_events := l7_events d OR (e AND 0xFFFF)\<rparr>)"
    "lan887x_wf (d\<lparr>l7_events := l7_events d AND NOT (e AND 0xFFFF)\<rparr>)"
  using assms low_half [of "l7_events d" e] by (simp_all add: lan887x_wf_def)

lemma led_wf_upd:
  assumes "led_wf ls" "led_word (gpio_mode c) \<noteq> None"
  shows "led_wf (ls[mepa_led_num_num (gpio_led_num c) := c])"
  unfolding led_wf_def
proof (intro conjI allI impI)
  show "length (ls[mepa_led_num_num (gpio_led_num c) := c]) = 4"
    using assms(1) by (simp add: led_wf_def)
  fix i :: nat assume i: "i < 4"
    "is_led_mode (gpio_mode (ls[mepa_led_num_num (gpio_led_num c) := c] ! i))"
  then show "mepa_led_num_num (gpio_led_num (ls[mepa_led_num_num (gpio_led_num c) := c] ! i)) = i"
    "led_word (gpio_mode (ls[mepa_led_num_num (gpio_led_num c) := c] ! i)) \<noteq> None"
    using assms by (cases "i = mepa_led_num_num (gpio_led_num c)"; simp add: led_wf_def)+
qed

lemma wf_led:
  "lan887x_wf d \<Longrightarrow> led_word (gpio_mode c) \<noteq> None \<Longrightarrow>
    lan887x_wf (d\<lparr>l7_led_conf := (l7_led_conf d)[mepa_led_num_num (gpio_led_num c) := c]\<rparr>)"
  by (simp add: lan887x_wf_def led_wf_upd)

lemma polarity_wf:
  assumes "polarity_word pin m v = Some v'" "lan887x_wf d"
  shows "lan887x_wf (d\<lparr>l7_tc10_cfg := (if pin = MEPA_TC10_WAKE_IN
    then (l7_tc10_cfg d)\<lparr>tc_wake_in_pol := m\<rparr> else (l7_tc10_cfg d)\<lparr>tc_wake_out_pol := m\<rparr>)\<rparr>)"
  using assms by (auto simp: wf_defs polarity_word_def split: mepa_tc10_pin.splits if_splits)

lemma pin_mode_wf:
  assumes "pin_mode_word pin m v = Some v'" "lan887x_wf d"
  shows "lan887x_wf (d\<lparr>l7_tc10_cfg := (if pin = MEPA_TC10_INH
    then (l7_tc10_cfg d)\<lparr>tc_inh_mode := m\<rparr> else (l7_tc10_cfg d)\<lparr>tc_wake_out_mode := m\<rparr>)\<rparr>)"
  using assms by (auto simp: wf_defs pin_mode_word_def Let_def split: mepa_tc10_pin.splits if_splits)

lemma led_wf_init: "led_wf ((replicate 4 mepa_gpio_conf_0)[2 := mepa_gpio_conf_0\<lparr>
    gpio_led_num := MEPA_LED2, gpio_mode := MEPA_GPIO_MODE_LED_LINK_ACTIVITY\<rparr>])"
  by (simp add: led_wf_def nth_list_update mepa_gpio_conf_0_def is_led_mode_def led_word_def)

lemma wf_probe: "lan887x_wf (lan887x_probe_data h lan887x_data_0)"
  using led_wf_init
  by (simp add: wf_defs lan887x_probe_data_def lan887x_data_0_def is_rgmii_def)

section \<open>The contract\<close>

lemma keeps_case_option_eq:
  "(v = None \<Longrightarrow> keeps I m) \<Longrightarrow> (\<And>x. v = Some x \<Longrightarrow> keeps I (f x)) \<Longrightarrow>
    keeps I (case v of None \<Rightarrow> m | Some x \<Rightarrow> f x)"
  by (cases v) simp_all

lemmas rc_keeps = keeps_RC_GOTO keeps_RC_GOTO_RD keeps_rc_seq_Nil keeps_rc_seq_Cons
  keeps_rc_seq_map keeps_rc_seq_append keeps_rc_seq_if keeps_bind keeps_return keeps_gets keeps_if
  keeps_let keeps_case_prod keeps_case_option_eq keeps_for_each keeps_only_if

text \<open>
  The configuration, the medium and the MAC interface: only the operations that set them change them.
\<close>

definition same_conf :: "lan887x_data \<Rightarrow> lan887x_data \<Rightarrow> bool" where
  "same_conf x y = (l7_conf y = l7_conf x \<and> l7_media_intf y = l7_media_intf x \<and>
     l7_mac_if y = l7_mac_if x)"

locale lan887x_part = bus_invariant I for I :: "('h, lan887x_data) world \<Rightarrow> bool" +
  fixes ok :: "nat \<Rightarrow> lan887x_data \<Rightarrow> bool" and fuel :: nat
  assumes ok_priv: "I w \<Longrightarrow> ok p (priv w p)"
    and ok_part: "ok p x \<Longrightarrow> same_conf x y \<Longrightarrow> (lan887x_wf x \<Longrightarrow> lan887x_wf y) \<Longrightarrow> ok p y"
    and keeps_store: "I w \<Longrightarrow> ok p x \<Longrightarrow> I (w\<lparr>priv := (priv w)(p := x)\<rparr>)"
    and keeps_null: "keeps I (null_call (0 :: 8 word))"
    and keeps_waits: "keeps I (reset_wait fuel p)" "keeps I (diag_wait fuel p)"
begin

lemma keeps_part: "(\<And>d. same_conf d (f d)) \<Longrightarrow> (\<And>d. lan887x_wf d \<Longrightarrow> lan887x_wf (f d)) \<Longrightarrow>
    keeps I (upd_data p f)"
  unfolding moves_def by (metis exec_upd_data(1) keeps_store ok_part ok_priv)

lemma keeps_upd_dev_info: "keeps I (upd_dev_info p f)"
  unfolding upd_dev_info_def by (rule keeps_part) (simp_all add: same_conf_def wf_defs)

lemma keeps_upd_loopback: "keeps I (upd_loopback p f)"
  unfolding upd_loopback_def by (rule keeps_part) (simp_all add: same_conf_def wf_defs)

lemma keeps_upd_link: "keeps I (upd_data p (l7_link_status_update f))"
  "keeps I (upd_data p (l7_init_done_update g))"
  by (rule keeps_part; simp add: same_conf_def wf_defs)+

lemma keeps_upd_cd_res:
  assumes "\<And>r. length (cd_status (f r)) = length (cd_status r)"
    "\<And>r. length (cd_length (f r)) = length (cd_length r)"
  shows "keeps I (upd_cd_res p f)"
  unfolding upd_cd_res_def by (rule keeps_part) (simp_all add: same_conf_def wf_defs assms)

lemma keeps_upd_tc10:
  assumes "\<And>c. tc10_wf c \<Longrightarrow> tc10_wf (f c)"
  shows "keeps I (upd_tc10 p f)"
  unfolding upd_tc10_def by (rule keeps_part) (simp_all add: same_conf_def lan887x_wf_def assms)

lemmas basic_keeps = rc_keeps reg_keeps keeps_upd_dev_info keeps_upd_loopback keeps_upd_link
  keeps_waits keeps_null

section \<open>TC10\<close>

lemma keeps_tc10_rd_wr: "keeps I (tc10_rd p r)" "keeps I (tc10_wr p r v)" "keeps I (tc10_rmw p r f)"
  unfolding tc10_rmw_def tc10_rd_def tc10_wr_def by (intro basic_keeps)+

lemma keeps_tc10_sets:
  "keeps I (lan887x_phy_tc10_set_sleep_support p b)"
  "keeps I (lan887x_phy_tc10_set_wakeup_support p m)"
  "keeps I (lan887x_phy_tc10_set_wakeup_fwd_support p n)"
  unfolding lan887x_phy_tc10_set_sleep_support_def lan887x_phy_tc10_set_wakeup_support_def
    lan887x_phy_tc10_set_wakeup_fwd_support_def
  by (intro basic_keeps keeps_tc10_rd_wr keeps_upd_tc10; simp add: tc10_wf_def)+

lemma keeps_tc10_pins:
  "keeps I (lan887x_phy_tc10_set_wake_pin_polarity p pin m)"
  "keeps I (lan887x_phy_tc10_set_pin_mode p pin m)"
  unfolding lan887x_phy_tc10_set_wake_pin_polarity_def lan887x_phy_tc10_set_pin_mode_def upd_tc10_def
  by (intro basic_keeps keeps_tc10_rd_wr keeps_part;
      (erule (1) polarity_wf pin_mode_wf | simp add: same_conf_def))+

lemma keeps_tc10_others:
  "keeps I (lan887x_phy_tc10_get_sleep_support p)"
  "keeps I (lan887x_phy_tc10_get_wakeup_support p)"
  "keeps I (lan887x_phy_tc10_get_wakeup_fwd_support p)"
  "keeps I (lan887x_phy_tc10_get_wake_pin_polarity p pin m)"
  "keeps I (lan887x_phy_tc10_get_pin_mode p pin m)"
  "keeps I (lan887x_phy_tc10_send_sleep_request p rq)"
  "keeps I (lan887x_phy_tc10_get_state p out)"
  "keeps I (lan887x_phy_tc10_send_wake_request p)"
  unfolding lan887x_phy_tc10_get_sleep_support_def lan887x_phy_tc10_get_wakeup_support_def
    lan887x_phy_tc10_get_wakeup_fwd_support_def lan887x_phy_tc10_get_wake_pin_polarity_def
    lan887x_phy_tc10_get_pin_mode_def lan887x_phy_tc10_send_sleep_request_def
    lan887x_phy_tc10_get_state_def lan887x_phy_tc10_send_wake_request_def
  by (intro basic_keeps keeps_tc10_rd_wr)+

lemmas tc10_keeps = keeps_tc10_sets keeps_tc10_pins keeps_tc10_others

lemma keeps_tc10_set_config: "keeps I (lan887x_phy_tc10_set_config p)"
  unfolding lan887x_phy_tc10_set_config_def by (intro basic_keeps keeps_tc10_rd_wr tc10_keeps)

section \<open>Configuration and reset\<close>

lemma keeps_get_device_info: "keeps I (phy_get_device_info p)"
  unfolding phy_get_device_info_def by (intro basic_keeps)

lemma keeps_cfg_regs: "keeps I (phy_cfg_regs p rs b)"
  unfolding phy_cfg_regs_def by (intro basic_keeps)

lemma keeps_get_link_status: "keeps I (phy_c45_get_link_status p st)"
  unfolding phy_c45_get_link_status_def by (intro basic_keeps)

lemma keeps_config_led: "keeps I (lan887x_config_led p c)"
  unfolding lan887x_config_led_def by (intro basic_keeps)

lemma keeps_config_leds: "keeps I (lan887x_config_leds p b)"
  unfolding lan887x_config_leds_def by (intro basic_keeps keeps_config_led)

lemma keeps_isolate: "keeps I (lan887x_isolate_mode_int p b)"
  unfolding lan887x_isolate_mode_int_def by (intro basic_keeps keeps_config_leds)

lemma keeps_setup_lpbk: "keeps I (lan887x_setup_lpbk p lb)"
  unfolding lan887x_setup_lpbk_def Let_def by (intro basic_keeps)

lemma keeps_config_mac: "keeps I (lan887x_config_mac p)"
  unfolding lan887x_config_mac_def lan887x_rgmii_setup_def lan887x_sgmii_setup_def
  by (intro basic_keeps)

lemma keeps_int_events_set: "keeps I (lan887x_int_events_set p e b)"
  unfolding lan887x_int_events_set_def Let_def
  by (intro basic_keeps keeps_part, simp add: same_conf_def)
    (cases b; simp only: if_True if_False wf_events)

lemma keeps_phy_init: "keeps I (lan887x_phy_init p)"
  unfolding lan887x_phy_init_def lan887x_phy_cfg_clr_def
  by (intro basic_keeps keeps_config_mac keeps_setup_lpbk keeps_int_events_set keeps_isolate)

lemma keeps_phy_setup: "keeps I (lan887x_phy_setup p)"
  unfolding lan887x_phy_setup_def
  by (intro basic_keeps keeps_get_device_info keeps_cfg_regs keeps_tc10_set_config keeps_phy_init)

lemma keeps_wr_scripts: "keeps I (wr_scripts p rs)"
  by (induction p rs rule: wr_scripts.induct) (auto intro!: basic_keeps)

lemma keeps_init_conf: "keeps I (lan887x_init_conf p)"
  unfolding lan887x_init_conf_def lan887x_link_setup_def lan887x_100m_scripts_def
    lan887x_1000m_scripts_def lan887x_pma_baset1_setup_forced_def
  by (intro basic_keeps keeps_wr_scripts)

lemma keeps_phy_reset: "keeps I (lan887x_phy_reset fuel p b)"
  unfolding lan887x_phy_reset_def by (intro basic_keeps)

lemma keeps_int_reset: "keeps I (lan887x_int_reset fuel p typ)"
  unfolding lan887x_int_reset_def Let_def
  by (intro basic_keeps keeps_phy_reset keeps_phy_setup keeps_config_mac keeps_init_conf
      keeps_get_device_info keeps_isolate)

section \<open>Diagnostics\<close>

lemma keeps_aneg:
  "keeps I (lan887x_aneg_resolve_master_slave p m)" "keeps I (lan887x_aneg_read_status p st)"
  unfolding lan887x_aneg_resolve_master_slave_def lan887x_aneg_read_status_def
  by (intro basic_keeps)+

lemma keeps_sqi_samples: "keeps I (sqi_samples p n t)"
  by (induction n arbitrary: t) (auto intro!: basic_keeps)

lemma keeps_sqi_coeff_wait: "keeps I (sqi_coeff_wait p n v)"
  by (induction n arbitrary: v) (auto intro!: basic_keeps)

lemma keeps_get_sqi: "keeps I (lan887x_get_sqi p)"
  unfolding lan887x_get_sqi_def lan887x_get_sqi_100m_def
  by (intro basic_keeps keeps_aneg keeps_get_link_status keeps_sqi_samples keeps_sqi_coeff_wait)

lemma keeps_cd_reset: "keeps I (lan887x_cd_reset fuel p b)"
  unfolding lan887x_cd_reset_def by (rule keeps_int_reset)

lemma keeps_cable_diag_start: "keeps I (lan887x_phy_cable_diag_start fuel p h m)"
  unfolding lan887x_phy_cable_diag_start_def lan887x_phy_cable_diag_common_def
    cable_diag_write_values_def
  by (intro basic_keeps keeps_cd_reset keeps_upd_cd_res; simp)

lemma keeps_cd_store: "keeps I (cd_store p l d)"
  unfolding cd_store_def by (intro basic_keeps keeps_upd_cd_res; simp)

lemma keeps_cable_test_report: "keeps I (lan887x_cable_test_report fuel p m)"
  unfolding lan887x_cable_test_report_def cable_distance_def
  by (intro basic_keeps keeps_cd_reset keeps_cd_store keeps_cable_diag_start)

lemma keeps_cable_diag_private: "keeps I (lan887x_cable_diag_private fuel p)"
  unfolding lan887x_cable_diag_private_def
  by (intro basic_keeps keeps_cd_reset keeps_cable_test_report keeps_cable_diag_start
      keeps_get_link_status keeps_upd_cd_res; simp)

section \<open>The parts of the operations under the lock\<close>

lemma keeps_poll_private: "keeps I (lan887x_poll_private p st)"
  unfolding lan887x_poll_private_def lan887x_poll_link_def
  by (intro basic_keeps keeps_aneg keeps_get_link_status)

lemma keeps_gpio_pin: "keeps I (lan887x_gpio_pin p n g c d)"
  unfolding lan887x_gpio_pin_def by (intro basic_keeps)

lemma keeps_gpio_mode: "keeps I (lan887x_gpio_mode_set_private p c)"
proof (cases "led_word (gpio_mode c)")
  case None
  then show ?thesis
    unfolding lan887x_gpio_mode_set_private_def
    by (intro keeps_let keeps_if keeps_gpio_pin) (simp add: lan887x_config_led_def keeps_RC_GOTO_err)
next
  case (Some v)
  then show ?thesis
    unfolding lan887x_gpio_mode_set_private_def
    by (intro basic_keeps keeps_gpio_pin keeps_config_led keeps_part wf_led)
      (simp_all add: same_conf_def)
qed

lemmas part_keeps = basic_keeps tc10_keeps keeps_int_reset keeps_aneg keeps_get_link_status
  keeps_get_sqi keeps_poll_private keeps_int_events_set keeps_gpio_mode keeps_setup_lpbk
  keeps_isolate keeps_cable_diag_private

end

section \<open>Setting the configuration\<close>

text \<open>An invariant that asks for no more than well-formed data is kept by the setters, too.\<close>

locale lan887x_inv = lan887x_part I ok fuel
  for I :: "('h, lan887x_data) world \<Rightarrow> bool" and ok fuel +
  assumes ok_step: "ok p x \<Longrightarrow> (lan887x_wf x \<Longrightarrow> lan887x_wf y) \<Longrightarrow> ok p y"
begin

lemma store: "I w \<Longrightarrow> (lan887x_wf (priv w p) \<Longrightarrow> lan887x_wf y) \<Longrightarrow> I (w\<lparr>priv := (priv w)(p := y)\<rparr>)"
  by (metis keeps_store ok_priv ok_step)

lemma keeps_upd: "(\<And>d. lan887x_wf d \<Longrightarrow> lan887x_wf (f d)) \<Longrightarrow> keeps I (upd_data p f)"
  by (simp add: moves_def store)

lemma keeps_upd_conf:
  assumes "\<And>m c. conf_wf m c \<Longrightarrow> conf_wf m (f c)"
  shows "keeps I (upd_conf p f)"
  unfolding upd_conf_def by (rule keeps_upd) (simp add: lan887x_wf_def assms)

lemma keeps_config_set_speed:
  assumes "s \<in> {MEPA_SPEED_100M, MEPA_SPEED_1G, MEPA_SPEED_AUTO}"
  shows "keeps I (config_set_speed p s)"
proof (rule movesI)
  fix w assume w: "I w"
  show "I (exec (config_set_speed p s) w)"
    using w check_media_ok [OF _ assms, of "priv w p" "l7_media_intf (priv w p)"] assms
    by (auto simp: config_set_speed_def upd_conf_def Let_def wf_defs intro!: store)
qed

lemma keeps_config_set: "keeps I (lan887x_config_set fuel p c)"
  unfolding lan887x_config_set_def config_set_apply_def Let_def
  by (intro basic_keeps keeps_upd_conf keeps_config_set_speed keeps_int_reset;
      auto simp: conf_supported_def conf_wf_def)

lemma keeps_reset_media: "keeps I (upd_data p (reset_media m))"
  by (rule keeps_upd) (rule wf_reset_media)

lemmas internal_keeps = part_keeps keeps_config_set keeps_reset_media

end

end
