(* ===== verification/Lan887x_Api.thy ===== *)
theory Lan887x_Api
  imports Lan887x_Inv Mepa_Steps
begin

text \<open>
  The operations of the LAN887x driver keep every invariant of \<open>lan887x_inv\<close> and follow a lock
  protocol (the locale \<open>lan887x_locking\<close>), and so does every API call that reaches them (the
  locale \<open>lan887x_api\<close>).
\<close>

section \<open>Operations\<close>

locale lan887x_locking = lock_protocol Held Free p0 + lan887x_inv Held ok fuel
  for Held Free :: "('h, lan887x_data) world \<Rightarrow> bool" and p0 ok fuel
begin

lemma keeps_locked: "keeps Held m \<Longrightarrow> keeps Free (locked p0 m)"
  unfolding locked_def by (rule critical)

lemmas op_moves = moves_return moves_let moves_if moves_case_option moves_case_prod moves_data_of
  keeps_locked moves_enter moves_exit moves_step internal_keeps

lemma keeps_op_status:
  "keeps Free (lan887x_sqi_read p0)" "keeps Free (lan887x_conf_get p0)"
  "keeps Free (lan887x_aneg_status_get p0 as)" "keeps Free (lan887x_poll p0 st)"
  "keeps Free (lan887x_if_get p0 sp)" "keeps Free (lan887x_media_get p0)"
  "keeps Free (lan887x_loopback_get p0)" "keeps Free (lan887x_capability p0 k)"
  "keeps Free (lan887x_info_get p0 inf0)" "keeps Free (lan887x_event_enable_get p0)"
  unfolding lan887x_sqi_read_def lan887x_conf_get_def lan887x_aneg_status_get_def lan887x_poll_def
    lan887x_if_get_def lan887x_media_get_def lan887x_loopback_get_def lan887x_capability_def
    lan887x_info_get_def lan887x_event_enable_get_def
  by (intro op_moves)+

lemma keeps_op_regs:
  "keeps Free (lan887x_reg_read p0 a)" "keeps Free (lan887x_reg_write p0 a v)"
  "keeps Free (lan887x_mmd_reg_read p0 a v)" "keeps Free (lan887x_mmd_reg_write p0 a v)"
  unfolding lan887x_reg_read_def lan887x_reg_write_def lan887x_mmd_reg_read_def
    lan887x_mmd_reg_write_def
  by (intro op_moves)+

lemma keeps_op_conf:
  "keeps Free (lan887x_conf_set fuel p0 c)" "keeps Free (lan887x_reset fuel p0 r)"
  unfolding lan887x_conf_set_def lan887x_reset_def by (intro op_moves)+

lemma keeps_op_if_set: "keeps Free (lan887x_if_set fuel p0 i)"
  unfolding lan887x_if_set_def by (intro op_moves keeps_upd) (auto simp: lan887x_wf_def)

text \<open>The new medium is stored after the check against the speed.\<close>

lemma keeps_media_change:
  "keeps Held (do {
     data \<leftarrow> data_of p;
     if l7_media_intf data \<noteq> m then
       (let rc = lan887x_check_media data m (conf_speed (l7_conf data))
        in if rc \<noteq> MEPA_RC_OK then State_Monad.return rc else do {
          upd_data p (\<lambda>d. d\<lparr>l7_media_intf := m\<rparr>);
          if conf_speed (l7_conf data) \<noteq> MEPA_SPEED_100M \<or>
             conf_speed (l7_conf data) = MEPA_SPEED_AUTO
          then lan887x_int_reset fuel p LAN887X_RST_SOFT
          else State_Monad.return MEPA_RC_OK })
     else State_Monad.return MEPA_RC_OK })"
proof (rule movesI)
  fix w assume w: "Held w"
  have "lan887x_check_media (priv w p) m (conf_speed (l7_conf (priv w p))) = MEPA_RC_OK \<Longrightarrow>
      Held (w\<lparr>priv := (priv w)(p := (priv w p)\<lparr>l7_media_intf := m\<rparr>)\<rparr>)"
    using check_media_ok by (intro store [OF w]) (auto simp: wf_defs)
  then show "Held (exec (do {
     data \<leftarrow> data_of p;
     if l7_media_intf data \<noteq> m then
       (let rc = lan887x_check_media data m (conf_speed (l7_conf data))
        in if rc \<noteq> MEPA_RC_OK then State_Monad.return rc else do {
          upd_data p (\<lambda>d. d\<lparr>l7_media_intf := m\<rparr>);
          if conf_speed (l7_conf data) \<noteq> MEPA_SPEED_100M \<or>
             conf_speed (l7_conf data) = MEPA_SPEED_AUTO
          then lan887x_int_reset fuel p LAN887X_RST_SOFT
          else State_Monad.return MEPA_RC_OK })
     else State_Monad.return MEPA_RC_OK }) w)"
    using w movesD [OF keeps_int_reset] by (simp add: Let_def)
qed

lemma keeps_op_media_set: "keeps Free (lan887x_media_set fuel p0 m)"
  unfolding lan887x_media_set_def by (intro op_moves keeps_media_change)

lemma keeps_op_events:
  "keeps Free (lan887x_event_enable_set p0 e b)" "keeps Free (lan887x_event_status_poll p0)"
  unfolding lan887x_event_enable_set_def lan887x_event_status_poll_def by (intro op_moves)+

lemma keeps_op_gpio:
  "keeps Free (lan887x_gpio_mode_set p0 g)" "keeps Free (lan887x_gpio_out_set p0 n b)"
  "keeps Free (lan887x_gpio_in_get p0 n b)"
  unfolding lan887x_gpio_mode_set_def lan887x_gpio_out_set_def lan887x_gpio_in_get_def
  by (intro op_moves)+

lemma keeps_op_diag:
  "keeps Free (lan887x_loopback_set p0 lb)" "keeps Free (lan887x_isolate_mode_set p0 b)"
  "keeps Free (lan887x_cable_diag_start fuel p0 n)" "keeps Free (lan887x_cable_diag_get p0)"
  unfolding lan887x_loopback_set_def lan887x_isolate_mode_set_def lan887x_cable_diag_start_def
    lan887x_cable_diag_get_def
  by (intro op_moves keeps_upd_cd_res; simp)+

lemma keeps_op_tc10:
  "keeps Free (lan887x_tc10_set_sleep_support p0 b)" "keeps Free (lan887x_tc10_get_sleep_support p0)"
  "keeps Free (lan887x_tc10_set_wakeup_support p0 wm)" "keeps Free (lan887x_tc10_get_wakeup_support p0)"
  "keeps Free (lan887x_tc10_set_wakeup_fwd_support p0 fm)"
  "keeps Free (lan887x_tc10_get_wakeup_fwd_support p0)"
  "keeps Free (lan887x_tc10_set_wake_pin_polarity p0 pin m)"
  "keeps Free (lan887x_tc10_get_wake_pin_polarity p0 pin m)"
  "keeps Free (lan887x_tc10_set_pin_mode p0 pin m)" "keeps Free (lan887x_tc10_get_pin_mode p0 pin m)"
  "keeps Free (lan887x_tc10_send_sleep_request p0 rq)" "keeps Free (lan887x_tc10_get_state p0 out)"
  "keeps Free (lan887x_tc10_send_wake_request p0)"
  unfolding lan887x_tc10_set_sleep_support_def lan887x_tc10_get_sleep_support_def
    lan887x_tc10_set_wakeup_support_def lan887x_tc10_get_wakeup_support_def
    lan887x_tc10_set_wakeup_fwd_support_def lan887x_tc10_get_wakeup_fwd_support_def
    lan887x_tc10_set_wake_pin_polarity_def lan887x_tc10_get_wake_pin_polarity_def
    lan887x_tc10_set_pin_mode_def lan887x_tc10_get_pin_mode_def
    lan887x_tc10_send_sleep_request_def lan887x_tc10_get_state_def
    lan887x_tc10_send_wake_request_def
  by (intro op_moves)+

lemmas ops_keep = keeps_op_status keeps_op_regs keeps_op_conf keeps_op_if_set keeps_op_media_set
  keeps_op_events keeps_op_gpio keeps_op_diag keeps_op_tc10

end

section \<open>The operations over all devices\<close>

lemmas driver7_defs = mepa_lan887x_driver_init_def lan887x_driver_def null_driver_def

locale lan887x_api = driver_table Free lib "set (mepa_lan887x_driver_init fuel ds ps)"
  for Held Free :: "('h, lan887x_data) world \<Rightarrow> bool" and lib ok fuel ds ps +
  assumes locking: "lan887x_locking Held Free p ok fuel"
begin

lemmas api_ops = lan887x_locking.ops_keep [OF locking]

lemma step_keeps: "mepa_step lib w w' \<Longrightarrow> Free w \<Longrightarrow> Free w'"
  by (erule mepa_step.cases; hypsubst_thin; unfold mepa_api_defs; erule movesD [OF drv_keeps, rotated];
      clarsimp simp: driver7_defs; rule api_ops)

lemma tc10_keeps:
  assumes "\<And>f p. sel lan887x_tc10_drivers = Some f \<Longrightarrow> keeps Free (k f p)"
  shows "keeps Free (tc10_call lib dev sel r k)"
  unfolding tc10_call_def by (rule drv_keeps) (use assms in \<open>simp add: driver7_defs\<close>)

lemma t1_step_keeps: "mepa_t1_step lib w w' \<Longrightarrow> Free w \<Longrightarrow> Free w'"
  by (erule mepa_t1_step.cases; hypsubst_thin; unfold t1_api_defs;
      (erule movesD [OF tc10_keeps, rotated]; clarsimp simp: lan887x_tc10_drivers_def; rule api_ops |
       erule movesD [OF no_t1s_call, rotated]; simp add: driver7_defs))

lemma api_step_keeps: "api_step lib w w' \<Longrightarrow> Free w \<Longrightarrow> Free w'"
  using no_ts_step [of w w'] step_keeps [of w w'] t1_step_keeps [of w w']
  by (auto simp: api_step_iff driver7_defs)

lemma history_keeps: "(api_step lib)\<^sup>*\<^sup>* w w' \<Longrightarrow> Free w \<Longrightarrow> Free w'"
  by (induction rule: rtranclp_induct) (auto intro: api_step_keeps)

end

end
