(* ===== verification/Lan887x_Histories.thy ===== *)
theory Lan887x_Histories
  imports Lan887x_Api
begin

text \<open>
  Histories of API calls on LAN887x devices: they keep the lock protocol, no wait for the hardware
  hangs, and, creation and deletion included, the private data stay well-formed.
\<close>

section \<open>The waits\<close>

lemma keeps_wait:
  assumes "keeps I clock_read" "keeps I (stuck_loop False)" "keeps I rd"
  shows "keeps I (lan887x_wait n rd hit)"
  unfolding lan887x_wait_def MEPA_MTIMER_START_def
  by (intro keeps_rules keeps_poll_loop assms)

lemma keeps_waits_of:
  assumes "bus_invariant I" "keeps I clock_read" "keeps I (stuck_loop False)"
  shows "keeps I (reset_wait n p)" "keeps I (diag_wait n p)"
  unfolding reset_wait_def diag_wait_def
  by (intro keeps_wait assms keeps_rules bus_invariant.reg_keeps [OF assms(1)])+

text \<open>The world with a clock that advances and with no loop that has hung.\<close>

definition not_stuck :: "('h \<Rightarrow> nat) \<Rightarrow> ('h \<Rightarrow> nat \<times> 'h) \<Rightarrow> (nat \<Rightarrow> 'h mepa_device) \<Rightarrow>
    ('h, 'd) world \<Rightarrow> bool" where
  "not_stuck tm clk dv w = (clock_advances clk tm \<and> time_inv tm clk dv 0 w \<and> \<not> stuck w)"

lemma stuck_prims:
  "keeps (\<lambda>w. \<not> stuck w) (dev_miim_read p a)" "keeps (\<lambda>w. \<not> stuck w) (dev_miim_write p a v)"
  "keeps (\<lambda>w. \<not> stuck w) (MEPA_MSLEEP n)" "keeps (\<lambda>w. \<not> stuck w) (MEPA_NSLEEP n)"
  "keeps (\<lambda>w. \<not> stuck w) (upd_data p f)"
  by (auto simp: moves_def prim_defs prim_simps split: option.splits prod.splits)

lemma not_stuckI: "keeps (time_inv tm clk dv 0) m \<Longrightarrow> keeps (\<lambda>w. \<not> stuck w) m \<Longrightarrow>
    keeps (not_stuck tm clk dv) m"
  by (simp add: moves_def not_stuck_def)

interpretation not_stuck: world_invariant "not_stuck tm clk dv"
  for tm :: "'h \<Rightarrow> nat" and clk and dv :: "nat \<Rightarrow> 'h mepa_device"
  by unfold_locales (intro not_stuckI time.prim_keeps stuck_prims)+

lemma keeps_not_stuck_clock: "keeps (not_stuck tm clk dv) clock_read"
  by (auto simp: moves_def not_stuck_def clock_advances_def time_inv_def)

text \<open>A wait of 4000 milliseconds reads the clock at most four million times and once more.\<close>

lemma keeps_not_stuck_wait:
  fixes rd :: "('h, 16 word) lan7"
  assumes f: "4000000 < fuel" and rd: "\<And>t. keeps (time_inv tm clk dv t) rd"
    "keeps (not_stuck tm clk dv) rd"
  shows "keeps (not_stuck tm clk dv) (lan887x_wait fuel rd hit)"
proof (rule movesI)
  fix w :: "('h, lan887x_data) world" assume w: "not_stuck tm clk dv w"
  let ?m = "do { timer \<leftarrow> MEPA_MTIMER_START 4000; poll_loop fuel timer (\<lambda>_. rd) hit 0 }"
  have "keeps (not_stuck tm clk dv) ?m"
    unfolding MEPA_MTIMER_START_def
    by (intro keeps_rules keeps_poll_loop keeps_not_stuck_clock rd(2))
  then have "not_stuck tm clk dv (exec ?m w)"
    using w by (rule movesD)
  moreover have "\<exists>rc v. val ?m w = Some (rc, v)"
    using poll_result [of clk tm dv "\<lambda>_. rd" w 4000 fuel hit 0] w f rd(1)
    by (auto simp: not_stuck_def)
  ultimately show "not_stuck tm clk dv (exec (lan887x_wait fuel rd hit) w)"
    by (auto simp: lan887x_wait_def)
qed

section \<open>Invariants of LAN887x systems\<close>

definition lan887x_system :: "nat \<Rightarrow> nat \<Rightarrow> nat \<Rightarrow> ('h, lan887x_data) phy_lib \<Rightarrow>
    (nat \<Rightarrow> 'h mepa_device) \<Rightarrow> bool" where
  "lan887x_system fuel ds ps lib dv = (LAN887X_FAMILY < length lib \<and>
     lib ! LAN887X_FAMILY = mepa_lan887x_driver_init fuel ds ps \<and>
     (\<forall>p. drv (dv p) = (LAN887X_FAMILY, 0)))"

lemma lan887x_table:
  "lan887x_system fuel ds ps lib dv \<Longrightarrow>
    drv_at lib (drv (dv p)) \<in> set (mepa_lan887x_driver_init fuel ds ps)"
  by (simp add: lan887x_system_def drv_at_def mepa_lan887x_driver_init_def)

definition data_wf :: "(nat \<Rightarrow> 'h mepa_device) \<Rightarrow> ('h, lan887x_data) world \<Rightarrow> bool" where
  "data_wf dv w = (devs w = dv \<and> (\<forall>p. lan887x_wf (priv w p)))"

lemma data_wf_bus: "bus_invariant (data_wf dv)"
  by unfold_locales
    (auto simp: moves_def data_wf_def prim_defs prim_simps split: option.splits prod.splits)

text \<open>An invariant that holds in a system is one of the system.\<close>

lemma bus_invariant_conj: "bus_invariant I \<Longrightarrow> bus_invariant (\<lambda>w. I w \<and> C)"
  by (simp add: bus_invariant_def moves_def)

lemma lan887x_inv_conj:
  assumes "lan887x_inv I ok fuel"
  shows "lan887x_inv (\<lambda>w. I w \<and> C) ok fuel"
proof (cases C)
  case False
  note part = lan887x_inv.axioms(1) [OF assms]
  show ?thesis
  proof (intro lan887x_inv.intro lan887x_part.intro lan887x_part_axioms.intro
      lan887x_inv_axioms.intro bus_invariant.intro)
    show "ok p y" if "ok p x" "same_conf x y" "lan887x_wf x \<Longrightarrow> lan887x_wf y" for p x y
      using lan887x_part.ok_part [OF part that] .
    show "ok p y" if "ok p x" "lan887x_wf x \<Longrightarrow> lan887x_wf y" for p x y
      using lan887x_inv.ok_step [OF assms that] .
  qed (simp_all add: moves_def False)
qed (use assms in simp)

lemma lan887x_locking_conj:
  "lan887x_locking Held Free p ok fuel \<Longrightarrow>
    lan887x_locking (\<lambda>w. Held w \<and> C) (\<lambda>w. Free w \<and> C) p ok fuel"
  by (simp add: lan887x_locking_def lan887x_inv_conj lock_protocol_def lock_protocol_axioms_def
      bus_invariant_conj) (simp add: moves_def)

interpretation lan7_lock: lan887x_locking "all_held dv" "all_free dv" p "\<lambda>_ _. True" fuel
  for dv :: "nat \<Rightarrow> 'h mepa_device" and p fuel
proof (intro lan887x_locking.intro lan887x_inv.intro lan887x_inv_axioms.intro
    lan887x_part.intro lan887x_part_axioms.intro
    all_locks.lock_protocol_axioms all_held.bus_invariant_axioms)
  have c: "keeps (all_held dv) clock_read" "keeps (all_held dv) (stuck_loop False)"
    by (simp_all add: moves_def all_held_def exec_stuck_loop)
  show "keeps (all_held dv) (reset_wait fuel q)" "keeps (all_held dv) (diag_wait fuel q)" for q
    by (rule keeps_waits_of [OF all_held.bus_invariant_axioms c])+
qed (simp_all add: moves_def all_held_def exec_null_call)

interpretation lan7_wf: lan887x_locking "data_wf dv" "data_wf dv" p "\<lambda>_. lan887x_wf" fuel
  for dv :: "nat \<Rightarrow> 'h mepa_device" and p fuel
proof (intro lan887x_locking.intro lan887x_inv.intro lan887x_inv_axioms.intro
    lan887x_part.intro lan887x_part_axioms.intro
    lock_protocol.intro lock_protocol_axioms.intro data_wf_bus)
  have c: "keeps (data_wf dv) clock_read" "keeps (data_wf dv) (stuck_loop False)"
    by (simp_all add: moves_def data_wf_def exec_stuck_loop)
  show "keeps (data_wf dv) (reset_wait fuel q)" "keeps (data_wf dv) (diag_wait fuel q)" for q
    by (rule keeps_waits_of [OF data_wf_bus c])+
  show "keeps (data_wf dv) (MEPA_ENTER p)" "keeps (data_wf dv) (MEPA_EXIT p)"
    by (simp_all add: moves_def data_wf_def MEPA_ENTER_def MEPA_EXIT_def prim_simps
        split: option.split)
qed (auto simp: moves_def data_wf_def exec_null_call)

interpretation lan7_live: lan887x_locking "\<lambda>w. not_stuck tm clk dv w \<and> 4000000 < fuel"
  "\<lambda>w. not_stuck tm clk dv w \<and> 4000000 < fuel" p "\<lambda>_ _. True" fuel
  for tm :: "'h \<Rightarrow> nat" and clk and dv :: "nat \<Rightarrow> 'h mepa_device" and p fuel
proof (cases "4000000 < fuel")
  case True
  have "lan887x_locking (not_stuck tm clk dv) (not_stuck tm clk dv) p (\<lambda>_ _. True) fuel"
  proof (intro lan887x_locking.intro lan887x_inv.intro lan887x_inv_axioms.intro
    lan887x_part.intro lan887x_part_axioms.intro
      lock_protocol.intro lock_protocol_axioms.intro not_stuck.bus_invariant_axioms)
    show "keeps (not_stuck tm clk dv) (reset_wait fuel q)"
      "keeps (not_stuck tm clk dv) (diag_wait fuel q)" for q
      unfolding reset_wait_def diag_wait_def
      by (intro keeps_not_stuck_wait [OF True] keeps_rules time.reg_keeps not_stuck.reg_keeps)+
    show "keeps (not_stuck tm clk dv) (MEPA_ENTER p)" "keeps (not_stuck tm clk dv) (MEPA_EXIT p)"
      by (intro not_stuckI time_locks; simp add: moves_def MEPA_ENTER_def MEPA_EXIT_def prim_simps
          split: option.split)+
  qed (auto simp: moves_def not_stuck_def time_inv_def exec_null_call)
  then show "lan887x_locking (\<lambda>w. not_stuck tm clk dv w \<and> 4000000 < fuel)
      (\<lambda>w. not_stuck tm clk dv w \<and> 4000000 < fuel) p (\<lambda>_ _. True) fuel"
    by (rule lan887x_locking_conj)
next
  case False
  then show "lan887x_locking (\<lambda>w. not_stuck tm clk dv w \<and> 4000000 < fuel)
      (\<lambda>w. not_stuck tm clk dv w \<and> 4000000 < fuel) p (\<lambda>_ _. True) fuel"
    by unfold_locales (simp_all add: moves_def)
qed

interpretation api7_lock: lan887x_api
  "\<lambda>w. all_held dv w \<and> lan887x_system fuel ds ps lib dv"
  "\<lambda>w. all_free dv w \<and> lan887x_system fuel ds ps lib dv" lib "\<lambda>_ _. True" fuel ds ps
  for dv :: "nat \<Rightarrow> 'h mepa_device" and lib fuel ds ps
  by (intro lan887x_api.intro driver_table.intro lan887x_api_axioms.intro lan887x_locking_conj
      lan7_lock.lan887x_locking_axioms)
    (auto simp: all_free_def intro: lan887x_table)

interpretation api7_wf: lan887x_api
  "\<lambda>w. data_wf dv w \<and> lan887x_system fuel ds ps lib dv"
  "\<lambda>w. data_wf dv w \<and> lan887x_system fuel ds ps lib dv" lib "\<lambda>_. lan887x_wf" fuel ds ps
  for dv :: "nat \<Rightarrow> 'h mepa_device" and lib fuel ds ps
  by (intro lan887x_api.intro driver_table.intro lan887x_api_axioms.intro lan887x_locking_conj
      lan7_wf.lan887x_locking_axioms)
    (auto simp: data_wf_def intro: lan887x_table)

interpretation api7_live: lan887x_api
  "\<lambda>w. (not_stuck tm clk dv w \<and> 4000000 < fuel) \<and> lan887x_system fuel ds ps lib dv"
  "\<lambda>w. (not_stuck tm clk dv w \<and> 4000000 < fuel) \<and> lan887x_system fuel ds ps lib dv"
  lib "\<lambda>_ _. True" fuel ds ps
  for tm :: "'h \<Rightarrow> nat" and clk and dv :: "nat \<Rightarrow> 'h mepa_device" and lib fuel ds ps
  by (intro lan887x_api.intro driver_table.intro lan887x_api_axioms.intro lan887x_locking_conj
      lan7_live.lan887x_locking_axioms)
    (auto simp: not_stuck_def time_inv_def intro: lan887x_table)

section \<open>All histories\<close>

text \<open>A system of reference PHYs with the LAN887x driver, for the witnesses.\<close>

definition lan887x_build :: "nat \<Rightarrow> nat \<Rightarrow> nat \<Rightarrow> ('h, lan887x_data) phy_lib" where
  "lan887x_build fuel ds ps = replicate 9 [] @ [mepa_lan887x_driver_init fuel ds ps]"

definition sim7_lib :: "(sim, lan887x_data) phy_lib" where
  "sim7_lib = lan887x_build 4000001 40 1024"

definition sim7_system :: "(nat \<times> lreg \<Rightarrow> 16 word) \<Rightarrow> (nat \<Rightarrow> lan887x_data) \<Rightarrow>
    (sim, lan887x_data) world" where
  "sim7_system m D =
    (sim_world m D)\<lparr>devs := (\<lambda>p. (sim_dev p)\<lparr>drv := (LAN887X_FAMILY, 0)\<rparr>)\<rparr>"

lemma sim7_system_simps:
  "lan887x_system 4000001 40 1024 sim7_lib (devs (sim7_system m D))"
  "has_locks (devs (sim7_system m D) p)" "io (sim7_system m D) = []"
  "priv (sim7_system m D) = D" "\<not> stuck (sim7_system m D)"
  "clock_advances (os_clock (sim7_system m D)) sim_time"
  using sim_has_locks [of p] sim_clock [of m D]
  by (simp_all add: lan887x_system_def sim7_lib_def lan887x_build_def sim7_system_def nth_append
      has_locks_def)

lemma sim7_time:
  "time_inv sim_time (os_clock (sim7_system m D)) (devs (sim7_system m D)) 0 (sim7_system m D)"
  by (auto simp: sim7_system_def time_inv_def keeps_time_def sim_world_def sim_dev_def
      sim_callout_def sim_miim_read_def sim_miim_write_def)

lemma sim7_history:
  "(api_step lib)\<^sup>*\<^sup>* w (exec (mepa_tc10_set_wakeup_support lib (Some 2) m)
    (exec (mepa_reset lib (Some 1) r) w))"
  by (rule rtranclp.rtrancl_into_rtrancl, rule r_into_rtranclp, rule api_base, rule step_reset,
      rule api_t1, rule step_tc10_set_wakeup_support)

abbreviation sim7_reset :: mepa_reset_param where
  "sim7_reset \<equiv> \<lparr>rst_media_intf = MESA_PHY_MEDIA_IF_T1_100FX,
     rst_reset_point = MEPA_RESET_POINT_DEFAULT, rst_framepreempt_en = False\<rparr>"

text \<open>
  C21: locking of the LAN887x.  Every history of API calls on LAN887x devices, TC10 included,
  that starts with the lock free ends with the lock free, with every bus access under the
  lock, for every content of the private data and any answers of the hardware.
\<close>

theorem lan887x_lock_discipline:
  assumes "lan887x_system fuel ds ps lib (devs w)" "\<And>p. has_locks (devs w p)"
    and "lock_state (io w) = Lock_Free" "(api_step lib)\<^sup>*\<^sup>* w w'"
  shows "lock_state (io w') = Lock_Free \<and> devs w' = devs w"
  using api7_lock.history_keeps [OF assms(4), of "devs w" fuel ds ps] assms(1-3)
  by (simp add: all_free_def)

theorem lan887x_lock_discipline_witness:
  "lock_state (io (exec (mepa_tc10_set_wakeup_support sim7_lib (Some 2) MEPA_TC10_WAKEUP_DISABLE)
     (exec (mepa_reset sim7_lib (Some 1) sim7_reset) (sim7_system (\<lambda>_. 0) (\<lambda>_. lan887x_data_0)))))
   = Lock_Free"
  using lan887x_lock_discipline [OF sim7_system_simps(1,2) _ sim7_history
      [where w = "sim7_system (\<lambda>_. 0) (\<lambda>_. lan887x_data_0)" and m = MEPA_TC10_WAKEUP_DISABLE
        and r = sim7_reset]]
  by (simp add: sim7_system_simps lock_state_def)

text \<open>
  C22: the waits end.  With a wall clock that advances, and that no callout turns back, no
  history of API calls on LAN887x devices hangs in a wait for the hardware: 4000001 rounds are
  enough for each, whatever the hardware answers.
\<close>

theorem lan887x_never_stuck:
  assumes "lan887x_system fuel ds ps lib (devs w)" "4000000 < fuel"
    and "clock_advances (os_clock w) tm" "time_inv tm (os_clock w) (devs w) 0 w"
    and "\<not> stuck w" "(api_step lib)\<^sup>*\<^sup>* w w'"
  shows "\<not> stuck w'"
  using api7_live.history_keeps [OF assms(6), of tm "os_clock w" "devs w" fuel ds ps] assms(1-5)
  by (simp add: not_stuck_def)

theorem lan887x_never_stuck_witness:
  "\<not> stuck (exec (mepa_tc10_set_wakeup_support sim7_lib (Some 2) MEPA_TC10_WAKEUP_DISABLE)
     (exec (mepa_reset sim7_lib (Some 1) sim7_reset) (sim7_system (\<lambda>_. 0) (\<lambda>_. lan887x_data_0))))"
  by (rule lan887x_never_stuck [OF sim7_system_simps(1) _ sim7_system_simps(6) sim7_time
      sim7_system_simps(5) sim7_history]) simp

section \<open>Creation, deletion and calls\<close>

lemma wf_probe_port: "lan887x_wf (lan887x_probe_data h (lan887x_data_0\<lparr>l7_port_no := n\<rparr>))"
  using wf_probe [of h] by (simp add: lan887x_probe_data_def)

text \<open>The life of the devices of a build that has only this family.\<close>

inductive lan887x_life :: "nat \<Rightarrow> nat \<Rightarrow> nat \<Rightarrow> ('h, lan887x_data) world \<Rightarrow>
    ('h, lan887x_data) world \<Rightarrow> bool"
  for fuel ds ps :: nat where
  life_call: "api_step (lan887x_build fuel ds ps) w w' \<Longrightarrow> lan887x_life fuel ds ps w w'"
| life_create: "lan887x_life fuel ds ps w (exec (mepa_create (lan887x_build fuel ds ps) co ctx conf) w)"
| life_delete: "lan887x_life fuel ds ps w (exec (mepa_delete (lan887x_build fuel ds ps) dev) w)"

inductive_cases lan887x_lifeE: "lan887x_life fuel ds ps w w'"

definition life_inv :: "('h, lan887x_data) world \<Rightarrow> bool" where
  "life_inv w = (\<forall>p. drv (devs w p) = (LAN887X_FAMILY, 0) \<and> lan887x_wf (priv w p))"

lemma life_data_wf: "life_inv w = (data_wf (devs w) w \<and> (\<forall>p. drv (devs w p) = (LAN887X_FAMILY, 0)))"
  by (auto simp: life_inv_def data_wf_def)

lemma life_callouts: "keeps life_inv (hw_call f ev)" "keeps life_inv (null_call x)"
  by (simp_all add: moves_def life_inv_def prim_simps)

lemma life_phy_id: "keeps life_inv (mepa_phy_id_get co ctx port)"
  unfolding mepa_phy_id_get_def rd_global_def co_miim_read_def co_mmd_read_def co_spi_read_def
  by (intro keeps_rules life_callouts)

lemma life_setup:
  assumes "life_inv w"
  shows "life_inv (exec (lan887x_phy_setup p) w)"
  using movesD [OF lan7_wf.keeps_phy_setup [of "devs w" p], of w] assms
  by (simp add: life_data_wf) (simp add: data_wf_def)

lemma life_alloc:
  assumes "life_inv w"
  shows "life_inv (exec (co_mem_alloc co ctx n :: ('h, lan887x_data, _) mepa) w)"
  using assms unfolding co_mem_alloc_def
  by (cases "mem_alloc co") (simp_all add: movesD [OF life_callouts(1)] movesD [OF life_callouts(2)])

lemma life_probe:
  fixes co :: "'h mepa_callout"
  shows "keeps life_inv (lan887x_probe ds ps (LAN887X_FAMILY, 0) co ctx conf)"
proof (rule movesI)
  fix w :: "('h, lan887x_data) world" assume w: "life_inv w"
  let ?m = "co_mem_alloc co ctx (size_align (size_align ds + size_align ps)) :: ('h, lan887x_data, _) mepa"
  note a = life_alloc [OF w, of co ctx "size_align (size_align ds + size_align ps)"]
  show "life_inv (exec (lan887x_probe ds ps (LAN887X_FAMILY, 0) co ctx conf) w)"
  proof (cases "mem_alloc co = None \<or> val ?m w = None")
    case True
    then show ?thesis
      using w a by (auto simp: lan887x_probe_def mepa_create_int_def mepa_mem_alloc_int_def Let_def)
  next
    case False
    then obtain q where q: "val ?m w = Some q" "mem_alloc co \<noteq> None" by blast
    let ?w2 = "(exec ?m w)\<lparr>
      devs := (devs (exec ?m w))(q := \<lparr>drv = (LAN887X_FAMILY, 0),
        numeric_handle = board_numeric_handle conf, callout = co, callout_ctx = ctx\<rparr>),
      priv := (priv (exec ?m w))(q := lan887x_probe_data (board_numeric_handle conf)
        (lan887x_data_0\<lparr>l7_port_no := board_numeric_handle conf\<rparr>))\<rparr>"
    have "exec (lan887x_probe ds ps (LAN887X_FAMILY, 0) co ctx conf) w =
        exec (lan887x_phy_setup q) ?w2"
      using q by (auto simp: lan887x_probe_def mepa_create_int_def mepa_mem_alloc_int_def
          Let_def set_dev_def lan887x_fill_probe_data_def)
    moreover have "life_inv ?w2"
      using a by (simp add: life_inv_def wf_probe_port)
    ultimately show ?thesis by (simp only: life_setup)
  qed
qed

lemma build_system: "life_inv w \<Longrightarrow> lan887x_system fuel ds ps (lan887x_build fuel ds ps) (devs w)"
  by (simp add: life_inv_def lan887x_system_def lan887x_build_def nth_append)

lemma probe_empty: "exec (probe_families co ctx conf phy_id i (replicate n [] @ fams)) w =
    exec (probe_families co ctx conf phy_id (i + n) fams) w"
  by (induction n arbitrary: i) simp_all

lemma keeps_create:
  "keeps life_inv (mepa_create (lan887x_build fuel ds ps) co ctx conf)"
proof -
  have "keeps life_inv (probe_families co ctx conf phy_id 0 (lan887x_build fuel ds ps))" for phy_id
    using life_probe [of ds ps co ctx conf]
    by (auto simp: moves_def lan887x_build_def probe_empty driver7_defs)
  then show ?thesis
    unfolding mepa_create_def by (intro keeps_rules life_phy_id)
qed

lemma keeps_delete: "keeps life_inv (mepa_delete (lan887x_build fuel ds ps) dev)"
proof (rule movesI)
  fix w :: "('h, lan887x_data) world" assume w: "life_inv w"
  have d: "keeps life_inv (lan887x_delete p :: ('h, mepa_rc) lan7)" for p
    unfolding lan887x_delete_def mepa_delete_int_def mepa_mem_free_int_def co_mem_free_def
    by (intro keeps_rules life_callouts) (simp add: moves_def)
  show "life_inv (exec (mepa_delete (lan887x_build fuel ds ps) dev) w)"
    using w movesD [OF d w] lan887x_table [OF build_system [OF w]]
    by (auto simp: mepa_delete_def drv_call_def driver7_defs split: option.split)
qed

lemma life_api:
  assumes "api_step (lan887x_build fuel ds ps) w w'" "life_inv w"
  shows "life_inv w'"
  using api7_wf.api_step_keeps [OF assms(1), of "devs w" fuel ds ps] assms(2)
    build_system [OF assms(2)]
  by (simp add: life_data_wf) (simp add: data_wf_def)

lemma life_step: "lan887x_life fuel ds ps w w' \<Longrightarrow> life_inv w \<Longrightarrow> life_inv w'"
  by (erule lan887x_lifeE) (auto intro: life_api movesD [OF keeps_create] movesD [OF keeps_delete])

text \<open>
  C23: the private data stay well-formed.  Through any history of creations, deletions and API
  calls, the private data of every device have full duplex, a role and a speed that the chip
  has, no 1G on a 100BASE-T1 medium, an RGMII or SGMII interface, events of 16 bits, pin settings
  of TC10 that can be written back, LED settings that belong to their LED and can be written
  back, and result arrays of four entries.
\<close>

theorem lan887x_histories_wf:
  assumes "(lan887x_life fuel ds ps)\<^sup>*\<^sup>* w w'"
    and "\<forall>p. drv (devs w p) = (LAN887X_FAMILY, 0) \<and> lan887x_wf (priv w p)"
  shows "lan887x_wf (priv w' p)"
proof -
  have "life_inv w'"
    using assms by (induction rule: rtranclp_induct) (auto simp: life_inv_def [symmetric] intro: life_step)
  then show ?thesis by (simp add: life_inv_def)
qed

definition sim7_regs :: "nat \<times> lreg \<Rightarrow> 16 word" where
  "sim7_regs r = (if snd r = Dir 2 then 0x7 else if snd r = Dir 3 then 0xC1F2 else 0)"

lemma sim7_life:
  "(lan887x_life fuel ds ps)\<^sup>*\<^sup>* w (exec (mepa_media_set (lan887x_build fuel ds ps) dev m)
    (exec (mepa_create (lan887x_build fuel ds ps) co ctx conf) w))"
  by (rule rtranclp.rtrancl_into_rtrancl, rule r_into_rtranclp, rule life_create, rule life_call,
      rule api_base, rule step_media_set)

theorem lan887x_histories_wf_witness:
  "lan887x_wf (priv (exec (mepa_media_set (lan887x_build 9 40 1024) (Some 1) MESA_PHY_MEDIA_IF_T1_100FX)
    (exec (mepa_create (lan887x_build 9 40 1024) sim_callout 0
       \<lparr>board_numeric_handle = 0, board_dummy_phy_cap = 0\<rparr>)
     (sim7_system sim7_regs (\<lambda>_. lan887x_probe_data 0 lan887x_data_0)))) 1)"
  by (rule lan887x_histories_wf [OF sim7_life]) (simp add: sim7_system_def wf_probe)

end
