(* ===== verification/Lan887x_Sqi.thy ===== *)
theory Lan887x_Sqi
  imports Lan887x_Diag "HOL-Library.Multiset"
begin

text \<open>
  The signal quality at 100M: the exchange sort of \<open>lan887x_get_sqi_100m\<close> sorts, and its
  result is the grade of the mean of the 120 middle values of the 200 readings.
\<close>

section \<open>The sort\<close>

text \<open>
  The sort compares every pair of indexes in both orders.  In round \<open>i\<close> the first \<open>i\<close> values are
  in order and the value at \<open>i - 1\<close> is the largest of all; the inner loop inserts the value at \<open>i\<close>
  among them and so moves the largest value to \<open>i\<close>.
\<close>

definition swap_max :: "nat \<Rightarrow> nat \<Rightarrow> 'a :: linorder list \<Rightarrow> 'a list" where
  "swap_max i j xs = (if xs ! j > xs ! i then xs[i := xs ! j, j := xs ! i] else xs)"

lemma swap_max_mset [simp]:
  "i < length xs \<Longrightarrow> j < length xs \<Longrightarrow> mset (swap_max i j xs) = mset xs"
  by (simp add: swap_max_def mset_swap)

lemma swap_max_length [simp]: "length (swap_max i j xs) = length xs"
  by (simp add: swap_max_def)

definition inner_inv :: "nat \<Rightarrow> nat \<Rightarrow> 'a :: linorder list \<Rightarrow> bool" where
  "inner_inv i j xs =
    (sorted (take i xs) \<and> (\<forall>k<j. xs ! k \<le> xs ! i) \<and>
     (0 < i \<longrightarrow> (\<forall>k<length xs. xs ! k \<le> xs ! (if j < i then i - 1 else i))))"

lemma sorted_take_iff: "i \<le> length xs \<Longrightarrow>
    sorted (take i xs) = (\<forall>a b. a \<le> b \<longrightarrow> b < i \<longrightarrow> xs ! a \<le> xs ! b)"
  by (auto simp: sorted_iff_nth_mono)

lemma inner_step:
  assumes "inner_inv i j xs" "i < length xs" "j < length xs"
  shows "inner_inv i (Suc j) (swap_max i j xs)"
proof (cases "xs ! j > xs ! i")
  case False
  have "xs ! k \<le> xs ! i" if "k < length xs" "0 < i" "\<not> Suc j < i" for k
  proof (cases "j < i")
    case True
    then have "j = i - 1" using that(3) by simp
    then show ?thesis using that assms(1) False True by (fastforce simp: inner_inv_def)
  qed (use that assms(1) in \<open>simp add: inner_inv_def\<close>)
  moreover have "xs ! k \<le> xs ! (i - 1)" if "k < length xs" "Suc j < i" for k
    using that assms(1) by (simp add: inner_inv_def)
  moreover have "xs ! k \<le> xs ! i" if "k < Suc j" for k
    using that assms(1) False by (auto simp: inner_inv_def less_Suc_eq)
  ultimately show ?thesis
    using assms(1) False by (simp add: inner_inv_def swap_max_def)
next
  case True
  then have ij: "i = 0 \<or> j < i"
    using assms by (auto simp: inner_inv_def not_less split: if_splits)
  let ?ys = "xs[i := xs ! j, j := xs ! i]"
  have s: "\<And>a b. a \<le> b \<Longrightarrow> b < i \<Longrightarrow> xs ! a \<le> xs ! b"
    using assms by (auto simp: inner_inv_def sorted_take_iff)
  have le: "\<And>k. k < j \<Longrightarrow> xs ! k \<le> xs ! i" and ne: "i \<noteq> j"
    using assms(1) True by (auto simp: inner_inv_def)
  have top: "0 < i \<Longrightarrow> k < length xs \<Longrightarrow> xs ! k \<le> xs ! (i - 1)" for k
    using assms(1) ij by (auto simp: inner_inv_def)
  have "?ys ! a \<le> ?ys ! b" if "a \<le> b" "b < i" for a b
    using that True s [of a b] s [of j b] le [of a] ij assms(2,3) ne
    by (auto simp: nth_list_update)
  moreover have "?ys ! k \<le> ?ys ! i" if "k < Suc j" for k
    using that True le [of k] assms(2,3) ne by (auto simp: nth_list_update)
  moreover have "?ys ! k \<le> ?ys ! (if Suc j < i then i - 1 else i)"
    if "0 < i" "k < length xs" for k
  proof (cases "Suc j < i")
    case False
    then have "i - 1 = j" using that ij by simp
    then show ?thesis
      using that False top [of k] top [of i] assms(2,3) ne True by (auto simp: nth_list_update)
  qed (use that top [of k] top [of i] top [of j] assms(2,3) ne True in
      \<open>auto simp: nth_list_update\<close>)
  ultimately show ?thesis
    using True assms(2) by (simp add: inner_inv_def swap_max_def sorted_take_iff)
qed

lemma inner_loop:
  assumes "inner_inv i 0 xs" "i < length xs" "n \<le> length xs"
  defines "ys \<equiv> fold (swap_max i) [0..<n] xs"
  shows "inner_inv i n ys \<and> mset ys = mset xs \<and> length ys = length xs"
  using assms(1-3) unfolding ys_def
  by (induction n) (auto simp: inner_step)

definition exchange_sort :: "nat \<Rightarrow> 'a :: linorder list \<Rightarrow> 'a list" where
  "exchange_sort n xs = fold (\<lambda>i. fold (swap_max i) [0..<n]) [0..<n] xs"

lemma outer_step:
  assumes "inner_inv i (length xs) xs" "i < length xs"
  shows "inner_inv (Suc i) 0 xs"
  using assms by (auto simp: inner_inv_def sorted_take_iff less_Suc_eq split: if_splits)

lemma outer_loop:
  assumes "i \<le> length xs"
  defines "ys \<equiv> fold (\<lambda>i. fold (swap_max i) [0..<length xs]) [0..<i] xs"
  shows "(i < length xs \<longrightarrow> inner_inv i 0 ys) \<and> (0 < i \<longrightarrow> inner_inv (i - 1) (length xs) ys) \<and>
    mset ys = mset xs \<and> length ys = length xs"
  using assms(1) unfolding ys_def
proof (induction i)
  case 0
  then show ?case by (simp add: inner_inv_def)
next
  case (Suc i)
  let ?ys = "fold (\<lambda>i. fold (swap_max i) [0..<length xs]) [0..<i] xs"
  have "inner_inv i 0 ?ys" and l: "length ?ys = length xs" "mset ?ys = mset xs"
    using Suc by auto
  then have "inner_inv i (length xs) (fold (swap_max i) [0..<length xs] ?ys)"
    "mset (fold (swap_max i) [0..<length xs] ?ys) = mset xs"
    "length (fold (swap_max i) [0..<length xs] ?ys) = length xs"
    using inner_loop [of i ?ys "length xs"] Suc.prems by auto
  then show ?case
    using outer_step [of i "fold (swap_max i) [0..<length xs] ?ys"] Suc.prems by simp
qed

lemma exchange_sort_sorts: "exchange_sort (length xs) xs = sort xs"
proof (cases "xs = []")
  case False
  let ?ys = "exchange_sort (length xs) xs"
  have i: "inner_inv (length xs - 1) (length xs) ?ys" and m: "mset ?ys = mset xs"
      and l: "length ?ys = length xs"
    using outer_loop [of "length xs" xs] False by (auto simp: exchange_sort_def)
  have "inner_inv (length xs) 0 ?ys"
    using outer_step [of "length xs - 1" ?ys] i l False by simp
  then have "sorted ?ys" using l by (simp add: inner_inv_def)
  then show ?thesis using m by (simp add: properties_for_sort)
qed (simp add: exchange_sort_def)

section \<open>The result\<close>

lemma replicate_upd [simp]: "(replicate n c)[i := c] = replicate n c"
  by (cases "i < n") (auto intro!: nth_equalityI simp: nth_list_update list_update_beyond)

lemma fold_sqi_swap:
  assumes "i < n"
  shows "m \<le> n \<Longrightarrow> fold (sqi_swap i) [0..<m] (raw, replicate n c) =
    (fold (swap_max i) [0..<m] raw, replicate n c)"
  using assms by (induction m) (simp_all add: sqi_swap_def swap_max_def)

lemma sqi_sort_eq:
  assumes "length raw = n"
  shows "sqi_sort n (raw, replicate n c) = (sort raw, replicate n c)"
proof -
  have "m \<le> n \<Longrightarrow> fold (\<lambda>i. fold (\<lambda>j. sqi_swap i j) [0..<n]) [0..<m] (raw, replicate n c) =
      (fold (\<lambda>i. fold (swap_max i) [0..<n]) [0..<m] raw, replicate n c)" for m
    by (induction m) (simp_all add: fold_sqi_swap)
  from this [of n] exchange_sort_sorts [of raw] assms show ?thesis
    by (simp add: sqi_sort_def exchange_sort_def)
qed

text \<open>
  The reference: the mean of the 120 values in the middle, graded by the number of limits above
  it; a link that is down and a mean of 0 have the grade 0.
\<close>

definition sqi_mean :: "16 word list \<Rightarrow> nat" where
  "sqi_mean raw = sum_list (map unat (drop 40 (take 160 (sort raw)))) div 120"

definition sqi_ref :: "bool \<Rightarrow> 16 word list \<Rightarrow> nat" where
  "sqi_ref up raw = (if up \<and> 0 < sqi_mean raw
     then length (filter (\<lambda>t. sqi_mean raw < t) [299, 237, 189, 150, 119, 94, 75]) else 0)"

lemma sqi_ref_bound: "sqi_ref up raw \<le> 7"
  by (simp add: sqi_ref_def)

lemma sum_list_le: "(\<And>x. x \<in> set xs \<Longrightarrow> x \<le> (k :: nat)) \<Longrightarrow> sum_list xs \<le> length xs * k"
  by (induction xs) (auto simp: add_mono)

lemma sqi_sums_fold:
  "fold (\<lambda>i (sqiavg, linkavg).
     (if i \<ge> 40 \<and> i < 160 then sqiavg + ucast (raw ! i) else sqiavg, linkavg + ucast (link ! i)))
     [0..<n] (0 :: 32 word, 0 :: 32 word) =
   (of_nat (sum_list (map (\<lambda>i. unat (raw ! i :: 16 word)) (filter (\<lambda>i. 40 \<le> i \<and> i < 160) [0..<n]))),
    of_nat (sum_list (map (\<lambda>i. unat (link ! i :: 8 word)) [0..<n])))"
  by (induction n) (auto simp: add.commute)

lemma middle_indexes: "filter (\<lambda>i. 40 \<le> i \<and> i < 160) [0..<200] = [40..<(160 :: nat)]"
proof -
  have "[0..<200] = [0..<40] @ [40..<160] @ [160..<(200 :: nat)]"
    using upt_add_eq_append [of 0 40 160] upt_add_eq_append [of 40 160 40] by simp
  then show ?thesis by simp
qed

lemma div_of_nat_32:
  assumes "s < 2 ^ 32" "k < 2 ^ 32"
  shows "(of_nat s :: 32 word) div of_nat k = of_nat (s div k)"
  using assms by (simp add: word_arith_nat_div unat_of_nat)

lemma sqi_grade_of_nat:
  assumes "m < 2 ^ 32"
  shows "sqi_grade (of_nat m) = of_nat (if 0 < m
    then length (filter (\<lambda>t. m < t) [299, 237, 189, 150, 119, 94, 75]) else 0)"
  using assms by (simp add: sqi_grade_def word_le_nat_alt word_less_nat_alt unat_of_nat)

lemma word_16_le: "unat (x :: 16 word) \<le> 65535"
proof -
  have "unat x < 2 ^ LENGTH(16)" by (rule unsigned_less)
  then show ?thesis by simp
qed

lemma map_upt_nth: "m \<le> n \<Longrightarrow> n \<le> length xs \<Longrightarrow>
    map (\<lambda>i. f (xs ! i)) [m..<n] = map f (drop m (take n xs))"
  by (auto intro!: nth_equalityI)

lemma sum_list_replicate_nth: "sum_list (map (\<lambda>i. f (replicate n c ! i)) [0..<n]) = n * (f c :: nat)"
proof -
  have e: "map (\<lambda>i. f (replicate n c ! i)) [0..<n] = map (\<lambda>_. f c) [0..<n]"
    by (rule map_cong) simp_all
  show ?thesis unfolding e by (simp add: sum_list_triv)
qed

lemma sqi_num_ref:
  assumes "length raw = 200"
  shows "sqi_num (raw, replicate 200 (if up then 1 else 0)) = of_nat (sqi_ref up raw)"
proof -
  let ?s = "sum_list (map unat (drop 40 (take 160 (sort raw))))"
  have "?s \<le> length (map unat (drop 40 (take 160 (sort raw)))) * 65535"
    by (rule sum_list_le) (auto intro: word_16_le)
  then have s: "?s < 2 ^ 32" using assms by simp
  have mid: "map (\<lambda>i. unat (sort raw ! i)) [40..<160] = map unat (drop 40 (take 160 (sort raw)))"
    by (rule map_upt_nth) (simp_all add: assms)
  have link: "sum_list (map (\<lambda>i. unat (replicate 200 (if up then 1 else 0 :: 8 word) ! i)) [0..<200]) =
      200 * unat (if up then 1 else 0 :: 8 word)"
    by (rule sum_list_replicate_nth)
  have "sqi_num (raw, replicate 200 (if up then 1 else 0)) =
      (if (of_nat (200 * unat (if up then 1 else 0 :: 8 word)) :: 32 word) div 200 < 1 then 0
       else sqi_grade (of_nat ?s div 120))"
    unfolding sqi_num_def sqi_sort_eq [OF assms] prod.case sqi_sums_def sqi_sums_fold
      middle_indexes mid link ..
  also have "\<dots> = of_nat (sqi_ref up raw)"
    using div_of_nat_32 [OF s, of 120] sqi_grade_of_nat [of "?s div 120"] s
    by (simp add: sqi_ref_def sqi_mean_def)
  finally show ?thesis .
qed

section \<open>The operation on a working bus\<close>

text \<open>One reading asks for a measurement and reads its result.\<close>

definition sqi_reading :: "nat \<Rightarrow> 16 word \<Rightarrow> lop list" where
  "sqi_reading c v = [LWr c (Mmd 0x1E 0x40d) 1, LRd c (Mmd 0x1E 0x483) v]"

lemma lspec_sqi_samples_raw:
  assumes "bus_at dv p"
  shows "lspec dv (sqi_samples p n t) D (\<lambda>xs D' ops. D' = D \<and> length xs = n \<and>
    map snd xs = replicate n (if l7_link_status (D p) then 1 else 0) \<and>
    ops = concat (map (sqi_reading (callout_ctx (dv p))) (map fst xs)))"
proof (induction n arbitrary: t)
  case 0
  show ?case by (simp add: lspec_return)
next
  case (Suc n)
  show ?case
    unfolding sqi_samples.simps
    by (intro lspec_bind lspec_phy_mmd_reg_wr [OF assms] lspec_phy_mmd_reg_rd [OF assms]
        lspec_case_prod lspec_data_of lspec_mono [OF Suc.IH] lspec_return)
      (auto simp: five_bit_def sqi_reading_def)
qed

lemma map_snd_const: "map snd xs = replicate n b \<Longrightarrow> xs = map (\<lambda>v. (v, b)) (map fst xs)"
  by (induction xs arbitrary: n) (auto simp: Cons_replicate_eq)

lemma lspec_sqi_samples:
  assumes "bus_at dv p"
  shows "lspec dv (sqi_samples p n t) D (\<lambda>xs D' ops. \<exists>raw. D' = D \<and> length raw = n \<and>
    xs = map (\<lambda>v. (v, if l7_link_status (D p) then 1 else 0)) raw \<and>
    ops = concat (map (sqi_reading (callout_ctx (dv p))) raw))"
  by (rule lspec_mono [OF lspec_sqi_samples_raw [OF assms]]) (metis length_map map_snd_const)

text \<open>The enable bit is set when it is not, before the first reading.\<close>

definition sqi_enable :: "nat \<Rightarrow> 16 word \<Rightarrow> lop list" where
  "sqi_enable c x = LRd c (Mmd 0x1E 0x40d) x #
    (if x = x AND NOT 1 OR 1 then [] else [LWr c (Mmd 0x1E 0x40d) (x AND NOT 1 OR 1)])"

lemma sqi_num_map: "length raw = 200 \<Longrightarrow>
    sqi_num (raw, map (\<lambda>_. if up then 1 else 0) raw) = of_nat (sqi_ref up raw)"
  using sqi_num_ref [of raw up] by (simp only: map_replicate_const)

lemma lspec_get_sqi_100m:
  assumes "bus_at dv p" "c = callout_ctx (dv p)"
  shows "lspec dv (lan887x_get_sqi_100m p) D (\<lambda>r D' ops. \<exists>t x raw. D' = D \<and>
    ops = [LWr c (Mmd 0x1E 0x404) 0x16D6, LWr c (Mmd 0x1E 0x42E) 0x9572, LRd c (Mmd 0x1E 0x42E) t] @
      (if t = 0x9572 then sqi_enable c x @ concat (map (sqi_reading c) raw) else []) \<and>
    (if t = 0x9572 then length raw = 200 \<and> r = of_nat (sqi_ref (l7_link_status (D p)) raw) else r = 0))"
  unfolding lan887x_get_sqi_100m_def assms(2) sqi_enable_def
  by (intro lspec_bind lspec_phy_mmd_reg_wr [OF assms(1)] lspec_phy_mmd_reg_rd [OF assms(1)]
      lspec_phy_mmd_reg_modify [OF assms(1)] lspec_case_prod lspec_if lspec_nsleep
      lspec_mono [OF lspec_sqi_samples [OF assms(1)]] lspec_return)
    (auto simp: five_bit_def sqi_num_map comp_def)

text \<open>
  C24: the signal quality at 100M.  On a working bus \<open>lan887x_get_sqi_100m\<close> configures the
  measurement, checks that the configuration reads back and otherwise answers 0, takes 200 readings,
  and answers the grade of the mean of the 120 middle ones by the reference, between 0 and 7; the
  private data stay as they are.
\<close>

theorem lan887x_get_sqi_100m_reference:
  assumes "bus_at (devs w) p" "c = callout_ctx (devs w p)"
    and "run_state (lan887x_get_sqi_100m p) w = (r, w')"
  shows "priv w' = priv w \<and> r \<le> 7 \<and> (\<exists>t x raw. lops w' = lops w @
      [LWr c (Mmd 0x1E 0x404) 0x16D6, LWr c (Mmd 0x1E 0x42E) 0x9572, LRd c (Mmd 0x1E 0x42E) t] @
      (if t = 0x9572 then sqi_enable c x @ concat (map (sqi_reading c) raw) else []) \<and>
    (if t = 0x9572 then length raw = 200 \<and> r = of_nat (sqi_ref (l7_link_status (priv w p)) raw)
     else r = 0))"
proof -
  have "of_nat (sqi_ref up raw) \<le> (7 :: 32 word)" for up raw
    using sqi_ref_bound [of up raw] by (simp add: word_le_nat_alt unat_of_nat)
  then show ?thesis
    using lspec_run [OF lspec_get_sqi_100m [OF assms(1,2)] assms(3)]
    by (fastforce split: if_splits)
qed

theorem lan887x_get_sqi_100m_reference_witness:
  "val (lan887x_get_sqi_100m 1) (sim_world (\<lambda>_. 0x9572) (\<lambda>_. lan887x_data_0)) \<le> 7"
  using lan887x_get_sqi_100m_reference [OF _ refl run_state_eq,
      of "sim_world (\<lambda>_. 0x9572) (\<lambda>_. lan887x_data_0)" 1]
  by simp

text \<open>The reference on 200 equal readings.\<close>

lemma sqi_ref_replicate: "sqi_ref True (replicate 200 100) = 5" "sqi_ref True (replicate 200 300) = 0"
  by (simp_all add: sqi_ref_def sqi_mean_def sort_replicate sum_list_replicate)

end
