(* ===== verification/Lan887x_Spec.thy ===== *)
theory Lan887x_Spec
  imports Lan887x_Histories Lan887x_Sqi
begin

text \<open>
  What operations of the LAN887x driver do: the configuration, the GPIOs and the length of a
  cable.
\<close>

section \<open>The configuration\<close>

interpretation lan7_conf: lan887x_part "\<lambda>w. \<forall>p. same_conf (D p) (priv w p)" "\<lambda>p. same_conf (D p)" fuel
  for D :: "nat \<Rightarrow> lan887x_data" and fuel
proof -
  let ?I = "\<lambda>w :: ('h, lan887x_data) world. \<forall>p. same_conf (D p) (priv w p)"
  have b: "bus_invariant ?I"
    by unfold_locales (auto simp: moves_def prim_defs prim_simps split: option.splits prod.splits)
  have c: "keeps ?I clock_read" "keeps ?I (stuck_loop False)"
    by (simp_all add: moves_def exec_stuck_loop)
  show "lan887x_part ?I (\<lambda>p. same_conf (D p)) fuel"
  proof (intro lan887x_part.intro lan887x_part_axioms.intro b keeps_waits_of [OF b c])
    show "keeps ?I (null_call 0)" by (simp add: moves_def exec_null_call)
  qed (simp_all add: same_conf_def)
qed

text \<open>What is stored before the check of the speed against the medium, and in all.\<close>

definition conf_early :: "mepa_conf \<Rightarrow> mepa_conf \<Rightarrow> mepa_conf" where
  "conf_early old c = old\<lparr>conf_fdx := True, conf_flow_control := conf_flow_control c,
     conf_aneg := (conf_aneg old)\<lparr>adv_speed_100m_fdx := adv_speed_100m_fdx (conf_aneg c),
                                 adv_speed_1g_fdx := adv_speed_1g_fdx (conf_aneg c)\<rparr>,
     conf_mac_if_aneg_ena := conf_mac_if_aneg_ena c\<rparr>"

definition conf_merge :: "mepa_conf \<Rightarrow> mepa_conf \<Rightarrow> mepa_conf" where
  "conf_merge old c = (conf_early old c)\<lparr>conf_speed := conf_speed c,
     conf_man_neg := conf_man_neg c, conf_admin_enable := conf_admin_enable c\<rparr>"

text \<open>A change of speed to one that a 100BASE-T1 medium does not have.\<close>

definition speed_refused :: "lan887x_data \<Rightarrow> mepa_conf \<Rightarrow> bool" where
  "speed_refused d c = (conf_speed c \<noteq> conf_speed (l7_conf d) \<and>
     l7_media_intf d = MESA_PHY_MEDIA_IF_T1_100FX \<and>
     (conf_speed c = MEPA_SPEED_1G \<or>
      conf_speed c = MEPA_SPEED_AUTO \<and> \<not> adv_speed_100m_fdx (conf_aneg c)))"

definition needs_reset :: "mepa_conf \<Rightarrow> mepa_conf \<Rightarrow> bool" where
  "needs_reset old c = (conf_mac_if_aneg_ena old \<noteq> conf_mac_if_aneg_ena c \<or>
     conf_speed old \<noteq> conf_speed c \<or> conf_man_neg old \<noteq> conf_man_neg c \<or>
     conf_admin_enable old \<noteq> conf_admin_enable c)"

lemma check_media_refused:
  assumes "conf_supported c" "lan887x_wf d" "conf_speed c \<noteq> conf_speed (l7_conf d)"
  shows "lan887x_check_media (d\<lparr>l7_conf := conf_early (l7_conf d) c\<rparr>) (l7_media_intf d) (conf_speed c) =
    (if speed_refused d c then MEPA_RC_ERR_PARM else MEPA_RC_OK)"
proof -
  have "conf_speed c = MEPA_SPEED_100M \<or> conf_speed c = MEPA_SPEED_1G \<or> conf_speed c = MEPA_SPEED_AUTO"
    using assms(1) by (auto simp: conf_supported_def)
  moreover have "l7_media_intf d = MESA_PHY_MEDIA_IF_T1_100FX \<or> l7_media_intf d = MESA_PHY_MEDIA_IF_T1_1000FX"
    using assms(2) by (simp add: lan887x_wf_def conf_wf_def)
  ultimately show ?thesis
    using assms(3) by (auto simp: lan887x_check_media_def speed_refused_def conf_early_def)
qed

lemma conf_early_speed [simp]: "conf_speed (conf_early old c) = conf_speed old"
  by (simp add: conf_early_def)

lemma config_set_speed_gen:
  "val (config_set_speed p s) w = (if conf_speed (l7_conf (priv w p)) \<noteq> s
     then lan887x_check_media (priv w p) (l7_media_intf (priv w p)) s else MEPA_RC_OK)"
  "exec (config_set_speed p s) w = (if conf_speed (l7_conf (priv w p)) \<noteq> s \<and>
       lan887x_check_media (priv w p) (l7_media_intf (priv w p)) s = MEPA_RC_OK
     then w\<lparr>priv := (priv w)(p := (priv w p)\<lparr>l7_conf := (l7_conf (priv w p))\<lparr>conf_speed := s\<rparr>\<rparr>)\<rparr>
     else w)"
  by (simp_all add: config_set_speed_def upd_conf_def Let_def)

lemma config_set_speed_run:
  assumes "conf_supported c" "lan887x_wf d"
    and "priv w p = d\<lparr>l7_conf := conf_early (l7_conf d) c\<rparr>"
  shows "val (config_set_speed p (conf_speed c)) w =
      (if speed_refused d c then MEPA_RC_ERR_PARM else MEPA_RC_OK)"
    "exec (config_set_speed p (conf_speed c)) w = (if speed_refused d c then w
      else w\<lparr>priv := (priv w)(p :=
        d\<lparr>l7_conf := (conf_early (l7_conf d) c)\<lparr>conf_speed := conf_speed c\<rparr>\<rparr>)\<rparr>)"
proof -
  have same: "\<not> speed_refused d c \<and>
      w\<lparr>priv := (priv w)(p := d\<lparr>l7_conf := (conf_early (l7_conf d) c)\<lparr>conf_speed := conf_speed c\<rparr>\<rparr>)\<rparr> = w"
    if "conf_speed c = conf_speed (l7_conf d)"
  proof -
    have e: "(conf_early (l7_conf d) c)\<lparr>conf_speed := conf_speed c\<rparr> = conf_early (l7_conf d) c"
      unfolding that by (simp add: conf_early_def)
    have u: "(priv w)(p := d\<lparr>l7_conf := conf_early (l7_conf d) c\<rparr>) = priv w"
      using assms(3) by (metis fun_upd_triv)
    show ?thesis
      unfolding e u using that by (simp add: speed_refused_def)
  qed
  show "val (config_set_speed p (conf_speed c)) w =
      (if speed_refused d c then MEPA_RC_ERR_PARM else MEPA_RC_OK)"
    using same check_media_refused [OF assms(1,2)]
    by (auto simp: config_set_speed_gen assms(3))
  show "exec (config_set_speed p (conf_speed c)) w = (if speed_refused d c then w
      else w\<lparr>priv := (priv w)(p :=
        d\<lparr>l7_conf := (conf_early (l7_conf d) c)\<lparr>conf_speed := conf_speed c\<rparr>\<rparr>)\<rparr>)"
  proof (cases "conf_speed c = conf_speed (l7_conf d)")
    case True
    then have "exec (config_set_speed p (conf_speed c)) w = w"
      by (simp add: config_set_speed_gen assms(3))
    with same [OF True] show ?thesis by simp
  next
    case False
    then show ?thesis
      using check_media_refused [OF assms(1,2)] by (simp add: config_set_speed_gen assms(3))
  qed
qed

text \<open>The locks do not touch the private data.\<close>

lemma priv_locks [simp]: "priv (exec (MEPA_ENTER p) w) = priv w" "priv (exec (MEPA_EXIT p) w) = priv w"
  by (simp_all add: MEPA_ENTER_def MEPA_EXIT_def prim_simps split: option.split)

lemma conf_kept:
  assumes "\<And>D. keeps (\<lambda>w. \<forall>p. same_conf (D p) (priv w p)) m"
  shows "l7_conf (priv (exec m w) p) = l7_conf (priv w p)"
  using movesD [OF assms [of "priv w"], of w] by (simp add: same_conf_def)

lemma config_set_apply_run:
  assumes "l7_conf (priv w p) = (conf_early old c)\<lparr>conf_speed := conf_speed c\<rparr>"
  shows "l7_conf (priv (exec (config_set_apply fuel p old c) w) p) = conf_merge old c"
    and "\<not> needs_reset old c \<Longrightarrow> val (config_set_apply fuel p old c) w = MEPA_RC_OK"
proof -
  have kept: "l7_conf (priv (exec (lan887x_int_reset fuel p t) v) p) = l7_conf (priv v p)"
    "l7_conf (priv (exec (phy_reg_set_bits p r b) v) p) = l7_conf (priv v p)"
    for t r b and v :: "('a, lan887x_data) world"
    by (rule conf_kept, rule lan7_conf.part_keeps)+
  show "l7_conf (priv (exec (config_set_apply fuel p old c) w) p) = conf_merge old c"
    by (simp add: config_set_apply_def upd_conf_def Let_def kept assms conf_merge_def)
  show "\<not> needs_reset old c \<Longrightarrow> val (config_set_apply fuel p old c) w = MEPA_RC_OK"
    by (simp add: config_set_apply_def needs_reset_def Let_def)
qed

lemma config_set_start:
  assumes "conf_supported c"
  shows "run_state (lan887x_config_set fuel p c) w =
    run_state (RC_GOTO (config_set_speed p (conf_speed c)) (config_set_apply fuel p (l7_conf (priv w p)) c))
      (w\<lparr>priv := (priv w)(p := (priv w p)\<lparr>l7_conf := conf_early (l7_conf (priv w p)) c\<rparr>)\<rparr>)"
  using assms by (simp add: run_state_eq lan887x_config_set_def upd_conf_def conf_early_def Let_def)

text \<open>
  C25: setting the configuration.  \<open>lan887x_conf_set\<close> on well-formed data answers an unsupported
  configuration with \<open>MEPA_RC_ERR_PARM\<close> and changes nothing.  A change to a speed that the medium does
  not have has the same answer, but flow control, abilities and the negotiation of the MAC
  side have been stored.  Otherwise the configuration is stored whatever the hardware
  answers, and the result is \<open>MEPA_RC_OK\<close> when nothing has to be reset.
\<close>

theorem lan887x_conf_set_outcome:
  assumes "run_state (lan887x_conf_set fuel p c) w = (rc, w')" "lan887x_wf (priv w p)"
  shows "if \<not> conf_supported c then rc = MEPA_RC_ERR_PARM \<and> priv w' = priv w
    else if speed_refused (priv w p) c
    then rc = MEPA_RC_ERR_PARM \<and> l7_conf (priv w' p) = conf_early (l7_conf (priv w p)) c
    else l7_conf (priv w' p) = conf_merge (l7_conf (priv w p)) c \<and>
      (\<not> needs_reset (l7_conf (priv w p)) c \<longrightarrow> rc = MEPA_RC_OK)"
proof -
  let ?v = "exec (MEPA_ENTER p) w"
  let ?v1 = "?v\<lparr>priv := (priv w)(p := (priv w p)\<lparr>l7_conf := conf_early (l7_conf (priv w p)) c\<rparr>)\<rparr>"
  have r: "rc = val (lan887x_config_set fuel p c) ?v"
    "priv w' = priv (exec (lan887x_config_set fuel p c) ?v)"
    using assms(1) by (auto simp: lan887x_conf_set_def locked_def run_state_eq)
  show ?thesis
  proof (cases "conf_supported c")
    case True
    have s: "val (config_set_speed p (conf_speed c)) ?v1 =
        (if speed_refused (priv w p) c then MEPA_RC_ERR_PARM else MEPA_RC_OK)"
      "speed_refused (priv w p) c \<Longrightarrow> exec (config_set_speed p (conf_speed c)) ?v1 = ?v1"
      "\<not> speed_refused (priv w p) c \<Longrightarrow> l7_conf (priv (exec (config_set_speed p (conf_speed c)) ?v1) p)
        = (conf_early (l7_conf (priv w p)) c)\<lparr>conf_speed := conf_speed c\<rparr>"
      using config_set_speed_run [OF True assms(2), of ?v1 p] by simp_all
    show ?thesis
      using r s config_set_start [OF True, of fuel p ?v] True
        config_set_apply_run [OF s(3), of fuel]
      by (simp add: run_state_eq RC_GOTO_def)
  qed (use r in \<open>simp add: lan887x_config_set_def\<close>)
qed

theorem lan887x_conf_set_outcome_witness:
  "val (lan887x_conf_set 9 1 (mepa_conf_0\<lparr>conf_speed := MEPA_SPEED_1G, conf_fdx := True,
      conf_man_neg := MEPA_MANUAL_NEG_REF\<rparr>))
    (sim7_system (\<lambda>_. 0) (\<lambda>_. reset_media MESA_PHY_MEDIA_IF_T1_100FX
      (lan887x_probe_data 0 lan887x_data_0))) = MEPA_RC_ERR_PARM"
proof -
  let ?c = "mepa_conf_0\<lparr>conf_speed := MEPA_SPEED_1G, conf_fdx := True,
    conf_man_neg := MEPA_MANUAL_NEG_REF\<rparr>"
  let ?d = "reset_media MESA_PHY_MEDIA_IF_T1_100FX (lan887x_probe_data 0 lan887x_data_0)"
  have "conf_supported ?c" "speed_refused ?d ?c"
    by (simp_all add: conf_supported_def speed_refused_def reset_media_def lan887x_probe_data_def Let_def)
  moreover have "lan887x_wf ?d" by (intro wf_reset_media wf_probe)
  ultimately show ?thesis
    using lan887x_conf_set_outcome [OF run_state_eq, of "sim7_system (\<lambda>_. 0) (\<lambda>_. ?d)" 1 ?c 9]
    by (simp add: sim7_system_def)
qed

section \<open>GPIOs\<close>

lemma lspec_set_bit:
  assumes "bus_at dv p" "five_bit (ucast mmd)"
    and "\<And>x. Q 0 D (LRd (callout_ctx (dv p)) (Mmd (ucast mmd) (ucast off)) x #
      (if x = x OR v then [] else [LWr (callout_ctx (dv p)) (Mmd (ucast mmd) (ucast off)) (x OR v)]))"
    and "msk = v \<or> msk = 0"
  shows "lspec dv (phy_mmd_reg_modify p mmd off msk v) D Q"
proof -
  have e: "(x AND NOT msk) OR v = x OR v" for x
    using assms(4) by (auto intro!: bit_word_eqI simp: bit_simps)
  show ?thesis
    by (rule lspec_phy_mmd_reg_modify [OF assms(1,2)]) (simp only: e assms(3))
qed

lemma lspec_gpio_out_set:
  assumes "bus_at dv p" "c = callout_ctx (dv p)" "no < 3"
  shows "lspec dv (lan887x_gpio_out_set p no b) D
    (\<lambda>rc _ ops. rc = MEPA_RC_OK \<and> (\<exists>x. ops = LRd c (Mmd 0x1E 0xF00C) x #
      (let y = x OR push_bit (unat (4 + no)) 1 in if x = y then [] else [LWr c (Mmd 0x1E 0xF00C) y])))"
  unfolding lan887x_gpio_out_set_def locked_def Let_def assms(2)
  by (intro lspec_bind lspec_enter lspec_exit lspec_if lspec_set_bit assms(1) lspec_return)
    (use assms(3) in \<open>auto simp: five_bit_def\<close>)

lemma lspec_gpio_input:
  assumes "bus_at dv p" "gpio_mode g = MEPA_GPIO_MODE_IN"
  shows "lspec dv (lan887x_gpio_mode_set p g) D
    (\<lambda>rc _ ops. \<forall>v. LWr (callout_ctx (dv p)) (Mmd 0x1E 0xF00A) v \<notin> set ops)"
proof -
  have g: "lan887x_gpio_mode_set p g = locked p (lan887x_gpio_pin p (ucast (gpio_no g)) True False 0)"
    by (simp add: lan887x_gpio_mode_set_def lan887x_gpio_mode_set_private_def assms(2))
  show ?thesis
    unfolding g locked_def lan887x_gpio_pin_def RC_GOTO_def Let_def if_True push_bit_of_0
    by (intro lspec_bind lspec_enter lspec_exit lspec_if lspec_set_bit assms(1) lspec_return)
      (auto simp: five_bit_def)
qed

text \<open>
  C26: a GPIO cannot be driven low.  On a working bus \<open>lan887x_gpio_out_set\<close> sets the bit of the pin in
  the data register when it is not set, for either value that the caller asks for, and it
  never clears it; \<open>lan887x_gpio_mode_set\<close> of an input leaves the direction register as
  it is, so that a pin that was an output stays one.
\<close>

theorem lan887x_gpio_never_low:
  assumes "bus_at (devs w) p" "c = callout_ctx (devs w p)" "no < 3"
    and "run_state (lan887x_gpio_out_set p no b) w = (rc, w')"
  shows "rc = MEPA_RC_OK \<and> (\<exists>x. lops w' = lops w @ LRd c (Mmd 0x1E 0xF00C) x #
      (let y = x OR push_bit (unat (4 + no)) 1 in if x = y then [] else [LWr c (Mmd 0x1E 0xF00C) y])) \<and>
    (gpio_mode g = MEPA_GPIO_MODE_IN \<longrightarrow>
      (\<exists>ops. lops (exec (lan887x_gpio_mode_set p g) w) = lops w @ ops \<and>
        (\<forall>v. LWr c (Mmd 0x1E 0xF00A) v \<notin> set ops)))"
  using lspec_run [OF lspec_gpio_out_set [OF assms(1-3)] assms(4)]
    lspec_world [OF lspec_gpio_input [OF assms(1)], of g] assms(2) by auto

theorem lan887x_gpio_never_low_witness:
  "\<exists>x. lops (exec (lan887x_gpio_out_set 1 2 False) (sim_world (\<lambda>_. 0) (\<lambda>_. lan887x_data_0))) =
    LRd 1 (Mmd 0x1E 0xF00C) x #
      (if x = x OR 0x40 then [] else [LWr 1 (Mmd 0x1E 0xF00C) (x OR 0x40)])"
  using lan887x_gpio_never_low [where w = "sim_world (\<lambda>_. 0) (\<lambda>_. lan887x_data_0)" and p = 1
      and c = 1 and no = 2 and b = False and g = mepa_gpio_conf_0, OF _ _ _ run_state_eq]
  by (simp add: Let_def sim_dev_def push_bit_eq_mult)

section \<open>The length of a cable\<close>

lemma and_7f: "unat (x AND 0x7F :: 16 word) \<le> 127"
proof -
  have "x AND 0x7F = take_bit 7 x"
    by (simp add: take_bit_eq_mask Bit_Operations.mask_eq_exp_minus_1)
  then have "unat (x AND 0x7F) = take_bit 7 (unat x)"
    by (simp add: unsigned_take_bit_eq)
  then show ?thesis
    using take_bit_nat_less_exp [of 7 "unat x"] by simp
qed

lemma in_phases_bound: "unat (in_phases t) \<le> 12319"
proof -
  have "unat (drop_bit 7 t AND 0x7F) \<le> 127" "unat (t AND 0x7F) \<le> 127"
    by (rule and_7f)+
  then have "unat ((drop_bit 7 t AND 0x7F) * 96 + (t AND 0x7F)) =
      unat (drop_bit 7 t AND 0x7F) * 96 + unat (t AND 0x7F)"
    by (simp add: unat_word_ariths)
  with \<open>unat (drop_bit 7 t AND 0x7F) \<le> 127\<close> \<open>unat (t AND 0x7F) \<le> 127\<close> show ?thesis
    by (simp add: in_phases_def)
qed

lemma unat_16: "unat (x :: 16 word) < 65536"
  using unsigned_less [of x] by simp

lemma unat_diff_16:
  fixes a b :: "16 word"
  shows "unat (a - b) = (if unat b \<le> unat a then unat a - unat b else 65536 + unat a - unat b)"
proof -
  have "uint (a - b) = (if unat b \<le> unat a then int (unat a) - int (unat b)
      else int (unat a) - int (unat b) + 65536)"
    using uint_sub_if' [of a b] by (simp only: uint_nat zle_int) simp
  then have "int (unat (a - b)) =
      int (if unat b \<le> unat a then unat a - unat b else 65536 + unat a - unat b)"
    using unat_16 [of b] by (simp add: uint_nat of_nat_diff del: of_nat_unat)
  then show ?thesis by linarith
qed

lemma cable_distance_range:
  fixes a b :: "16 word"
  assumes "unat a \<le> 12319" "unat b \<le> 12319"
  shows "unat (a - b) * 15953 div 1000000 < 256 \<longleftrightarrow> unat b \<le> unat a"
  using assms by (cases "unat b \<le> unat a") (simp_all add: unat_diff_16 div_less_iff_less_mult)

text \<open>
  C27: the length of a cable.  The report subtracts the time \<open>h\<close> of a second measurement from
  the time \<open>t\<close> of the first, in 16 bits.  The difference is negative exactly when the
  conversion of the length to 8 bits is undefined (the subtraction has wrapped around);
  otherwise the length is the quotient of the difference, at most 196.
\<close>

theorem lan887x_cable_length:
  "crashed (exec (cable_distance (in_phases t - in_phases h)) w) =
     (crashed w \<or> unat (in_phases t) < unat (in_phases h)) \<and>
   (if unat (in_phases t) < unat (in_phases h)
    then val (cable_distance (in_phases t - in_phases h)) w = 0
    else unat (val (cable_distance (in_phases t - in_phases h)) w) =
        (unat (in_phases t) - unat (in_phases h)) * 15953 div 1000000 \<and>
      unat (val (cable_distance (in_phases t - in_phases h)) w) \<le> 196)"
proof -
  note r = cable_distance_range [OF in_phases_bound in_phases_bound, of t h]
  let ?d = "unat (in_phases t) - unat (in_phases h)"
  have q: "?d * 15953 div 1000000 \<le> 196"
    using in_phases_bound [of t] div_le_mono [of "?d * 15953" "12319 * 15953" 1000000] by simp
  show ?thesis
  proof (cases "unat (in_phases h) \<le> unat (in_phases t)")
    case True
    then have e: "unat (in_phases t - in_phases h) = ?d"
      by (simp add: unat_diff_16)
    from r True have "?d * 15953 div 1000000 < 256" by (simp only: e)
    with True q show ?thesis
      by (simp add: cable_distance_def e Let_def unat_of_nat take_bit_nat_eq_self)
  next
    case False
    with r have "\<not> unat (in_phases t - in_phases h) * 15953 div 1000000 < 256" by simp
    then have "cable_distance (in_phases t - in_phases h) = (null_call 0 :: ('a, 8 word) lan7)"
      by (simp only: cable_distance_def Let_def if_False)
    with False show ?thesis
      by (simp only: exec_null_call val_null_call not_le if_True) simp
  qed
qed

end
