(* ===== verification/Lan867x_Regs.thy ===== *)
theory Lan867x_Regs
  imports Mepa_Flow Mepa_T1_Driver
begin

text \<open>
  Registers (\<open>lan867x_registers.h\<close>), private data (\<open>lan867x_private.h\<close>) and register access
  (\<open>lan867x_private.c\<close>) of the LAN867x driver.  The LAN867x is a single-port 10BASE-T1S PHY with
  PLCA.  It does not use \<open>phy_lib.c\<close>; its accessors test the callouts for NULL and answer
  \<open>MEPA_RC_ERROR\<close> without them.
\<close>

section \<open>Registers\<close>

abbreviation (input) LAN867X_BASIC_CONTROL_REG :: "16 word" where "LAN867X_BASIC_CONTROL_REG \<equiv> 0x00"
abbreviation (input) LAN867X_BASIC_CONTROL_POWER_DOWN :: "16 word"
  where "LAN867X_BASIC_CONTROL_POWER_DOWN \<equiv> 0x0800"
abbreviation (input) LAN867X_BASIC_STATUS_REG :: "16 word" where "LAN867X_BASIC_STATUS_REG \<equiv> 0x01"
abbreviation (input) LAN867X_PHY_ID0_REG :: "16 word" where "LAN867X_PHY_ID0_REG \<equiv> 0x02"
abbreviation (input) LAN867X_PHY_ID1_REG :: "16 word" where "LAN867X_PHY_ID1_REG \<equiv> 0x03"
abbreviation (input) LAN867X_MMDCTRL_REG :: "8 word" where "LAN867X_MMDCTRL_REG \<equiv> 0x0D"
abbreviation (input) LAN867X_MMDAD_REG :: "8 word" where "LAN867X_MMDAD_REG \<equiv> 0x0E"

definition LAN867X_REV :: "16 word \<Rightarrow> 16 word" where
  "LAN867X_REV x = x AND 0xF"

definition LAN867X_MODEL :: "16 word \<Rightarrow> 16 word" where
  "LAN867X_MODEL x = drop_bit 4 (x AND 0x03F0)"

definition LAN867X_OUI :: "32 word \<Rightarrow> 32 word \<Rightarrow> 32 word" where
  "LAN867X_OUI x y = (push_bit 2 x AND 0x0003FFFC) OR push_bit 18 (y AND 0x0000FC00)"

abbreviation (input) LAN867X_REVB :: "8 word" where "LAN867X_REVB \<equiv> 0x02"
abbreviation (input) LAN867X_REVD :: "8 word" where "LAN867X_REVD \<equiv> 0x06"
abbreviation (input) LAN867X_MMDCTRL_ADDRESS :: "16 word" where "LAN867X_MMDCTRL_ADDRESS \<equiv> 0"
abbreviation (input) LAN867X_MMDCTRL_NO_POST_INC :: "16 word"
  where "LAN867X_MMDCTRL_NO_POST_INC \<equiv> 0x4000"
abbreviation (input) MMD_MISC :: "8 word" where "MMD_MISC \<equiv> 0x1F"
abbreviation (input) MISC_PIN_CTRL :: "16 word" where "MISC_PIN_CTRL \<equiv> 0x0011"
abbreviation (input) GPIO0_SIGNAL_SEL_S :: nat where "GPIO0_SIGNAL_SEL_S \<equiv> 14"
abbreviation (input) GPIO0_SIGNAL_PMCH_RX :: "16 word" where "GPIO0_SIGNAL_PMCH_RX \<equiv> 0"
abbreviation (input) MISC_LSCTRL :: "16 word" where "MISC_LSCTRL \<equiv> 0x0012"
abbreviation (input) MISC_LSCTRL_LSCFG_ACTIVITY :: "16 word"
  where "MISC_LSCTRL_LSCFG_ACTIVITY \<equiv> 0x1800"
abbreviation (input) MISC_TX_MATCH_CTRL :: "16 word" where "MISC_TX_MATCH_CTRL \<equiv> 0x0040"
abbreviation (input) TX_MAC_TS_ENABLE :: "16 word" where "TX_MAC_TS_ENABLE \<equiv> 0x0004"
abbreviation (input) MISC_TX_MATCH_MASK_L :: "16 word" where "MISC_TX_MATCH_MASK_L \<equiv> 0x0044"
abbreviation (input) MISC_RX_MATCH_CTRL :: "16 word" where "MISC_RX_MATCH_CTRL \<equiv> 0x0050"
abbreviation (input) RX_MATCH_ENABLE :: "16 word" where "RX_MATCH_ENABLE \<equiv> 0x0002"
abbreviation (input) MISC_RX_MATCH_MASK_L :: "16 word" where "MISC_RX_MATCH_MASK_L \<equiv> 0x0054"
abbreviation (input) PLCA_CTRL_0 :: "16 word" where "PLCA_CTRL_0 \<equiv> 0xCA01"
abbreviation (input) PLCA_ENABLE :: "16 word" where "PLCA_ENABLE \<equiv> 0x8000"
abbreviation (input) PLCA_CTRL_1 :: "16 word" where "PLCA_CTRL_1 \<equiv> 0xCA02"
abbreviation (input) PLCA_TO_TIMER :: "16 word" where "PLCA_TO_TIMER \<equiv> 0xCA04"
abbreviation (input) PLCA_BURST :: "16 word" where "PLCA_BURST \<equiv> 0xCA05"
abbreviation (input) LAN867X_PHY_ID :: "32 word" where "LAN867X_PHY_ID \<equiv> 0x0007c160"
abbreviation (input) LAN867X_PHY_ID_MASK :: "32 word" where "LAN867X_PHY_ID_MASK \<equiv> 0xFFFFFFF0"

definition LAN867X_PHY_MMD_DEVAD :: "32 word \<Rightarrow> 32 word" where
  "LAN867X_PHY_MMD_DEVAD addr = drop_bit 16 addr AND 0x001F"

definition LAN867X_PHY_REG_ADDR :: "32 word \<Rightarrow> 32 word" where
  "LAN867X_PHY_REG_ADDR addr = addr AND 0xFFFF"

section \<open>Private data\<close>

record lan867x_dev_info =
  di67_id :: "32 word"
  di67_model :: "8 word"
  di67_rev :: "8 word"

record lan867x_data =
  l67_init_done :: bool
  l67_phy_aneg_dis :: bool
  l67_link_status :: bool
  l67_port_no :: "32 word"
  l67_mac_if :: mepa_port_interface
  l67_media_intf :: mepa_media_interface
  l67_conf :: mepa_conf
  l67_events :: mepa_event
  l67_loopback :: mepa_loopback
  l67_dev :: lan867x_dev_info
  l67_ctx_status :: bool
  l67_cdiags_start :: bool
  l67_plca_cfg :: mepa_t1s_plca_cfg

type_synonym ('h, 'a) lan67 = "('h, lan867x_data, 'a) mepa"

text \<open>Zeroed private data, as \<open>mepa_mem_alloc_int\<close> leaves it.\<close>

definition lan867x_data_0 :: lan867x_data where
  "lan867x_data_0 = \<lparr>l67_init_done = False, l67_phy_aneg_dis = False, l67_link_status = False,
     l67_port_no = 0, l67_mac_if = MESA_PORT_INTERFACE_NO_CONNECTION,
     l67_media_intf = MESA_PHY_MEDIA_IF_CU, l67_conf = mepa_conf_0, l67_events = 0,
     l67_loopback = mepa_loopback_0, l67_dev = \<lparr>di67_id = 0, di67_model = 0, di67_rev = 0\<rparr>,
     l67_ctx_status = False, l67_cdiags_start = False,
     l67_plca_cfg = \<lparr>plca_node_count = 0, plca_node_id = 0, plca_enable = False,
       plca_tx_oppr_timer = 0, plca_max_burst_cnt = 0, plca_burst_timer = 0\<rparr>\<rparr>"

section \<open>Register access\<close>

definition lan867x_miim_reg_rd :: "nat \<Rightarrow> 16 word \<Rightarrow> ('h, 'd, mepa_rc \<times> 16 word) mepa" where
  "lan867x_miim_reg_rd dev offset = do {
     d \<leftarrow> dev_of dev;
     if miim_read (callout d) \<noteq> None then dev_miim_read dev (ucast offset)
     else State_Monad.return (MEPA_RC_ERROR, 0) }"

definition lan867x_miim_reg_wr :: "nat \<Rightarrow> 16 word \<Rightarrow> 16 word \<Rightarrow> ('h, 'd, mepa_rc) mepa" where
  "lan867x_miim_reg_wr dev offset v = do {
     d \<leftarrow> dev_of dev;
     if miim_write (callout d) \<noteq> None then dev_miim_write dev (ucast offset) v
     else State_Monad.return MEPA_RC_ERROR }"

text \<open>\<open>v0\<close> is the content of the out-parameter before the call.\<close>

definition lan867x_mmd_reg_rd ::
  "nat \<Rightarrow> 8 word \<Rightarrow> 16 word \<Rightarrow> 16 word \<Rightarrow> ('h, 'd, mepa_rc \<times> 16 word) mepa" where
  "lan867x_mmd_reg_rd dev devaddr offset v0 = do {
     d \<leftarrow> dev_of dev;
     if miim_read (callout d) \<noteq> None \<and> miim_write (callout d) \<noteq> None then do {
       rc \<leftarrow> dev_miim_write dev LAN867X_MMDCTRL_REG (LAN867X_MMDCTRL_ADDRESS OR ucast devaddr);
       if rc \<noteq> MEPA_RC_OK then State_Monad.return (rc, 0) else do {
       rc \<leftarrow> dev_miim_write dev LAN867X_MMDAD_REG offset;
       if rc \<noteq> MEPA_RC_OK then State_Monad.return (rc, 0) else do {
       rc \<leftarrow> dev_miim_write dev LAN867X_MMDCTRL_REG (LAN867X_MMDCTRL_NO_POST_INC OR ucast devaddr);
       if rc \<noteq> MEPA_RC_OK then State_Monad.return (rc, 0) else
       dev_miim_read dev LAN867X_MMDAD_REG }}}
     else State_Monad.return (MEPA_RC_ERROR, v0) }"

definition lan867x_mmd_reg_wr ::
  "nat \<Rightarrow> 8 word \<Rightarrow> 16 word \<Rightarrow> 16 word \<Rightarrow> ('h, 'd, mepa_rc) mepa" where
  "lan867x_mmd_reg_wr dev devaddr offset v = do {
     d \<leftarrow> dev_of dev;
     if miim_read (callout d) \<noteq> None \<and> miim_write (callout d) \<noteq> None then
       RC_GOTO (dev_miim_write dev LAN867X_MMDCTRL_REG (LAN867X_MMDCTRL_ADDRESS OR ucast devaddr)) (
       RC_GOTO (dev_miim_write dev LAN867X_MMDAD_REG offset) (
       RC_GOTO (dev_miim_write dev LAN867X_MMDCTRL_REG (LAN867X_MMDCTRL_NO_POST_INC OR ucast devaddr)) (
       dev_miim_write dev LAN867X_MMDAD_REG v)))
     else State_Monad.return MEPA_RC_ERROR }"

definition lan867x_mmd_modify ::
  "nat \<Rightarrow> 8 word \<Rightarrow> 16 word \<Rightarrow> 16 word \<Rightarrow> 16 word \<Rightarrow> ('h, 'd, mepa_rc) mepa" where
  "lan867x_mmd_modify dev devid offset msk v =
     RC_GOTO_RD (lan867x_mmd_reg_rd dev devid offset 0) (\<lambda>data.
       lan867x_mmd_reg_wr dev devid offset ((data AND NOT msk) OR v))"

definition lan867x_indirect_reg_rd ::
  "nat \<Rightarrow> 8 word \<Rightarrow> 16 word \<Rightarrow> ('h, 'd, mepa_rc \<times> 16 word) mepa" where
  "lan867x_indirect_reg_rd dev addr v0 = do {
     rc \<leftarrow> lan867x_mmd_reg_wr dev MMD_MISC 0x00D8 (ucast addr);
     if rc \<noteq> MEPA_RC_OK then State_Monad.return (rc, v0) else do {
     rc \<leftarrow> lan867x_mmd_reg_wr dev MMD_MISC 0x00DA 0x2;
     if rc \<noteq> MEPA_RC_OK then State_Monad.return (rc, v0) else
     lan867x_mmd_reg_rd dev MMD_MISC 0x00D9 v0 }}"

end
