(* ===== verification/Lan867x_Conf.thy ===== *)
theory Lan867x_Conf
  imports Lan867x_Regs
begin

text \<open>
  Initialisation, configuration and link status of the LAN867x (\<open>lan867x_private.c\<close>), built
  without \<open>USE_PMCH_TX\<close>, \<open>USE_PMCH_RX\<close>, \<open>VERIFY_PMCH_TX\<close> and \<open>LINK_STATUS_ENHANCED\<close>.
\<close>

section \<open>Tuning\<close>

text \<open>
  A trim value is read from the indirect registers: five bits in two's complement.  The
  difference is formed in 16 bits and converted to 8 bits.
\<close>

definition trim_offset :: "16 word \<Rightarrow> int" where
  "trim_offset v =
    (if v AND 0x10 \<noteq> 0 then sint (ucast (v - 0x20) :: 8 word) else sint (ucast v :: 8 word))"

definition cfgparam1 :: "int \<Rightarrow> 16 word" where
  "cfgparam1 offset1 = (push_bit 10 (word_of_int (9 + offset1) AND 0x3F) OR
     push_bit 4 (word_of_int (14 + offset1) AND 0x3F)) OR 0x03"

definition cfgparam2 :: "int \<Rightarrow> 16 word" where
  "cfgparam2 offset2 = push_bit 10 (word_of_int (40 + offset2) AND 0x3F)"

definition misc_wr :: "nat \<Rightarrow> (16 word \<times> 16 word) list \<Rightarrow> ('h, 'd, mepa_rc) mepa list" where
  "misc_wr dev xs = map (\<lambda>(r, v). lan867x_mmd_reg_wr dev MMD_MISC r v) xs"

definition misc_modify :: "nat \<Rightarrow> (16 word \<times> 16 word \<times> 16 word) list \<Rightarrow> ('h, 'd, mepa_rc) mepa list" where
  "misc_modify dev xs = map (\<lambda>(r, m, v). lan867x_mmd_modify dev MMD_MISC r m v) xs"

definition tune_revb :: "nat \<Rightarrow> ('h, 'd, mepa_rc) mepa" where
  "tune_revb dev = rc_seq (
     misc_modify dev [(0x00D0, 0x0E03, 0x0002), (0x00D1, 0x0300, 0x0000), (0x0084, 0xFFC0, 0x3380),
       (0x0085, 0x000F, 0x0006), (0x008A, 0xF800, 0xC000), (0x0087, 0x801C, 0x801C),
       (0x0088, 0x1FFF, 0x033F)] @
     misc_wr dev [(0x008B, 0x0404)] @
     misc_modify dev [(0x0080, 0x0600, 0x0600), (0x00F1, 0x7F00, 0x2400), (0x0096, 0x2000, 0x2000)] @
     misc_wr dev [(0x0099, 0x7F80)])"

definition tune_after_revb :: "nat \<Rightarrow> 8 word \<Rightarrow> ('h, 'd, mepa_rc) mepa" where
  "tune_after_revb dev phy_rev =
     RC_GOTO_RD (lan867x_indirect_reg_rd dev 0x04 0) (\<lambda>val1.
     RC_GOTO_RD (lan867x_indirect_reg_rd dev 0x08 0) (\<lambda>val2.
     let offset1 = trim_offset (val1 AND 0x1F);
         offset2 = trim_offset (val2 AND 0x1F)
     in rc_seq (
       misc_wr dev [(0x00D0, 0x3F31), (0x00E0, 0xC000), (0x0084, cfgparam1 offset1),
         (0x008A, cfgparam2 offset2), (0x00E9, 0x9E50), (0x00F5, 0x1CF8), (0x00F4, 0xC020),
         (0x00F8, 0xB900), (0x00F9, 0x4E53), (0x0081, 0x0080), (0x0091, 0x9660)] @
       (if phy_rev \<ge> LAN867X_REVD
        then misc_modify dev [(MISC_LSCTRL, MISC_LSCTRL_LSCFG_ACTIVITY, MISC_LSCTRL_LSCFG_ACTIVITY)]
        else []))))"

section \<open>Initialisation\<close>

text \<open>What \<open>cfg\<close> and the time stamping pins are written as.\<close>

definition plca_regs :: "mepa_t1s_plca_cfg \<Rightarrow> (16 word \<times> 16 word) list" where
  "plca_regs cfg = [
     (PLCA_CTRL_1, push_bit 8 (ucast (plca_node_count cfg)) OR ucast (plca_node_id cfg)),
     (PLCA_BURST, push_bit 8 (ucast (plca_max_burst_cnt cfg)) OR ucast (plca_burst_timer cfg)),
     (PLCA_CTRL_0, if plca_enable cfg then PLCA_ENABLE else 0),
     (PLCA_TO_TIMER, ucast (plca_tx_oppr_timer cfg))]"

definition match_regs :: "(16 word \<times> 16 word) list" where
  "match_regs = [(MISC_RX_MATCH_MASK_L, 0x0003), (MISC_RX_MATCH_CTRL, RX_MATCH_ENABLE),
     (MISC_TX_MATCH_MASK_L, 0x0003), (MISC_TX_MATCH_CTRL, TX_MAC_TS_ENABLE)]"

definition lan867x_tune :: "nat \<Rightarrow> 8 word \<Rightarrow> ('h, 'd, mepa_rc) mepa" where
  "lan867x_tune dev phy_rev =
    (if phy_rev = LAN867X_REVB then tune_revb dev
     else if phy_rev > LAN867X_REVB then tune_after_revb dev phy_rev
     else State_Monad.return MEPA_RC_OK)"

definition lan867x_init_conf :: "nat \<Rightarrow> mepa_t1s_plca_cfg \<Rightarrow> ('h, mepa_rc) lan67" where
  "lan867x_init_conf dev cfg = do {
     data \<leftarrow> data_of dev;
     RC_GOTO (lan867x_tune dev (di67_rev (l67_dev data))) (
     RC_GOTO (rc_seq (misc_wr dev (plca_regs cfg @ match_regs))) (
     RC_GOTO_RD (lan867x_mmd_reg_rd dev MMD_MISC MISC_PIN_CTRL 0) (\<lambda>_. do {
       rc \<leftarrow> lan867x_mmd_reg_wr dev MMD_MISC MISC_PIN_CTRL
         (push_bit GPIO0_SIGNAL_SEL_S GPIO0_SIGNAL_PMCH_RX);
       upd_data dev (\<lambda>d. d\<lparr>l67_init_done := True\<rparr>);
       State_Monad.return rc }))) }"

section \<open>Configuration\<close>

definition conf67_supported :: "mepa_conf \<Rightarrow> bool" where
  "conf67_supported config =
    ((conf_man_neg config = MEPA_MANUAL_NEG_REF \<or> conf_man_neg config = MEPA_MANUAL_NEG_CLIENT) \<and>
     \<not> conf_fdx config \<and> conf_speed config = MEPA_SPEED_10M)"

definition lan867x_phy_conf_set :: "nat \<Rightarrow> mepa_conf \<Rightarrow> ('h, mepa_rc) lan67" where
  "lan867x_phy_conf_set dev config =
    (if \<not> conf67_supported config then State_Monad.return MEPA_RC_ERR_PARM
     else RC_GOTO_RD (lan867x_miim_reg_rd dev LAN867X_BASIC_CONTROL_REG) (\<lambda>bmcr.
       let bmcr = (if conf_admin_enable config then bmcr AND NOT LAN867X_BASIC_CONTROL_POWER_DOWN
                   else bmcr OR LAN867X_BASIC_CONTROL_POWER_DOWN)
       in RC_GOTO (lan867x_miim_reg_wr dev LAN867X_BASIC_CONTROL_REG bmcr) (do {
         upd_data dev (\<lambda>d. d\<lparr>l67_conf := (l67_conf d)\<lparr>conf_admin_enable := conf_admin_enable config\<rparr>\<rparr>);
         State_Monad.return MEPA_RC_OK })))"

section \<open>Link status\<close>

definition lan867x_get_link_status :: "nat \<Rightarrow> mepa_status \<Rightarrow> ('h, mepa_rc \<times> mepa_status) lan67" where
  "lan867x_get_link_status dev status = do {
     (rc, plca) \<leftarrow> lan867x_mmd_reg_rd dev MMD_MISC PLCA_CTRL_0 0;
     if rc \<noteq> MEPA_RC_OK then State_Monad.return (rc, status) else do {
     data \<leftarrow> data_of dev;
     if di67_rev (l67_dev data) \<ge> LAN867X_REVD \<and> plca AND PLCA_ENABLE = 0
     then State_Monad.return (rc, status\<lparr>st_link := conf_admin_enable (l67_conf data),
       st_speed := MEPA_SPEED_10M, st_fdx := False\<rparr>)
     else do {
       (rc, bmsr) \<leftarrow> lan867x_miim_reg_rd dev LAN867X_BASIC_STATUS_REG;
       if rc \<noteq> MEPA_RC_OK then State_Monad.return (rc, status)
       else State_Monad.return (rc, status\<lparr>st_link := (bmsr AND 0x4 \<noteq> 0),
         st_speed := MEPA_SPEED_10M, st_fdx := False\<rparr>) }}}"

end
