(* ===== verification/Lan867x_Driver.thy ===== *)
theory Lan867x_Driver
  imports Lan867x_Conf Mepa_Driver
begin

text \<open>
  The operations of the LAN867x driver, probe and deletion, and its tables (\<open>lan867x.c\<close>,
  \<open>lan867x_t1s.c\<close>), built without \<open>MEPA_LAN867X_STATIC_MEM\<close>.  The family is number 10 of
  \<open>MEPA_phy_lib\<close>.
\<close>

abbreviation (input) LAN867X_FAMILY :: nat where "LAN867X_FAMILY \<equiv> 10"

section \<open>Registers\<close>

definition lan867x_mmd_reg_read :: "nat \<Rightarrow> 32 word \<Rightarrow> 16 word \<Rightarrow> ('h, mepa_rc \<times> 16 word) lan67" where
  "lan867x_mmd_reg_read dev addr v = locked dev (lan867x_mmd_reg_rd dev
     (ucast (LAN867X_PHY_MMD_DEVAD addr)) (ucast (LAN867X_PHY_REG_ADDR addr)) v)"

definition lan867x_mmd_reg_write :: "nat \<Rightarrow> 32 word \<Rightarrow> 16 word \<Rightarrow> ('h, mepa_rc) lan67" where
  "lan867x_mmd_reg_write dev addr v = locked dev (lan867x_mmd_reg_wr dev
     (ucast (LAN867X_PHY_MMD_DEVAD addr)) (ucast (LAN867X_PHY_REG_ADDR addr)) v)"

definition lan867x_reg_read :: "nat \<Rightarrow> 32 word \<Rightarrow> ('h, mepa_rc \<times> 16 word) lan67" where
  "lan867x_reg_read dev addr = locked dev (lan867x_miim_reg_rd dev (ucast addr))"

definition lan867x_reg_write :: "nat \<Rightarrow> 32 word \<Rightarrow> 16 word \<Rightarrow> ('h, mepa_rc) lan67" where
  "lan867x_reg_write dev addr v = locked dev (lan867x_miim_reg_wr dev (ucast addr) v)"

section \<open>Creation and deletion\<close>

text \<open>A device of the model has private data, so \<open>dev->data\<close> is not NULL.\<close>

definition lan867x_delete :: "nat \<Rightarrow> ('h, mepa_rc) lan67" where
  "lan867x_delete dev = mepa_delete_int dev"

definition lan867x_probe_data :: "32 word \<Rightarrow> lan867x_data \<Rightarrow> lan867x_data" where
  "lan867x_probe_data handle d = d\<lparr>
     l67_port_no := handle,
     l67_init_done := False,
     l67_events := 0,
     l67_mac_if := MESA_PORT_INTERFACE_MII,
     l67_media_intf := MESA_PHY_MEDIA_IF_T1S_10FX,
     l67_conf := (l67_conf d)\<lparr>conf_man_neg := MEPA_MANUAL_NEG_REF, conf_admin_enable := True,
       conf_speed := MEPA_SPEED_10M, conf_fdx := False\<rparr>,
     l67_plca_cfg := \<lparr>plca_node_count = 8, plca_node_id = ucast (handle AND 0xFF),
       plca_enable = True, plca_tx_oppr_timer = 32, plca_max_burst_cnt = 0,
       plca_burst_timer = 128\<rparr>\<rparr>"

definition lan867x_dev_ids :: "16 word \<Rightarrow> 16 word \<Rightarrow> lan867x_dev_info" where
  "lan867x_dev_ids val1 val2 = \<lparr>di67_id = LAN867X_OUI (ucast val1) (ucast val2),
     di67_model = ucast (LAN867X_MODEL val2), di67_rev = ucast (LAN867X_REV val2)\<rparr>"

text \<open>When an identifier cannot be read, the probe fails and the memory stays allocated.\<close>

definition lan867x_probe ::
  "nat \<Rightarrow> nat \<Rightarrow> drv_ptr \<Rightarrow> 'h mepa_callout \<Rightarrow> nat \<Rightarrow> mepa_board_conf \<Rightarrow> ('h, nat option) lan67" where
  "lan867x_probe dev_size priv_size drv0 co ctx conf = do {
     pdev \<leftarrow> mepa_create_int dev_size drv0 co ctx conf priv_size lan867x_data_0;
     case pdev of
       None \<Rightarrow> State_Monad.return None
     | Some p \<Rightarrow> do {
         d \<leftarrow> dev_of p;
         set_dev p (d\<lparr>drv := drv0, callout := co, callout_ctx := ctx\<rparr>);
         upd_data p (lan867x_probe_data (board_numeric_handle conf));
         (rc, val1) \<leftarrow> lan867x_miim_reg_rd p LAN867X_PHY_ID0_REG;
         if rc \<noteq> MEPA_RC_OK then State_Monad.return None else do {
         (rc, val2) \<leftarrow> lan867x_miim_reg_rd p LAN867X_PHY_ID1_REG;
         if rc \<noteq> MEPA_RC_OK then State_Monad.return None else do {
         upd_data p (\<lambda>d. d\<lparr>l67_ctx_status := True, l67_dev := lan867x_dev_ids val1 val2\<rparr>);
         State_Monad.return (Some p) }}}}"

section \<open>Operations\<close>

definition lan867x_conf_get :: "nat \<Rightarrow> ('h, mepa_rc \<times> mepa_conf) lan67" where
  "lan867x_conf_get dev = locked dev (do {
     data \<leftarrow> data_of dev; State_Monad.return (MEPA_RC_OK, l67_conf data) })"

definition lan867x_media_get :: "nat \<Rightarrow> ('h, mepa_rc \<times> mepa_media_interface) lan67" where
  "lan867x_media_get dev = locked dev (do {
     data \<leftarrow> data_of dev; State_Monad.return (MEPA_RC_OK, l67_media_intf data) })"

definition lan867x_if_get ::
  "nat \<Rightarrow> mepa_port_speed \<Rightarrow> ('h, mepa_rc \<times> mepa_port_interface) lan67" where
  "lan867x_if_get dev speed = locked dev (do {
     data \<leftarrow> data_of dev; State_Monad.return (MEPA_RC_OK, l67_mac_if data) })"

definition lan867x_conf_set :: "nat \<Rightarrow> mepa_conf \<Rightarrow> ('h, mepa_rc) lan67" where
  "lan867x_conf_set dev config = locked dev (lan867x_phy_conf_set dev config)"

definition lan867x_reset :: "nat \<Rightarrow> mepa_reset_param \<Rightarrow> ('h, mepa_rc) lan67" where
  "lan867x_reset dev rst_conf = locked dev (do {
     data \<leftarrow> data_of dev;
     RC_GOTO (lan867x_init_conf dev (l67_plca_cfg data)) (do {
       data \<leftarrow> data_of dev;
       lan867x_phy_conf_set dev (l67_conf data) }) })"

definition lan867x_poll :: "nat \<Rightarrow> mepa_status \<Rightarrow> ('h, mepa_rc \<times> mepa_status) lan67" where
  "lan867x_poll dev status = locked dev (lan867x_get_link_status dev status)"

definition lan867x_capability :: "nat \<Rightarrow> 32 word \<Rightarrow> ('h, 32 word) lan67" where
  "lan867x_capability dev capability =
     State_Monad.return (if capability = MEPA_CAP_TS_NONE then 1 else 0)"

definition lan867x_info_get :: "nat \<Rightarrow> mepa_phy_info \<Rightarrow> ('h, mepa_rc \<times> mepa_phy_info) lan67" where
  "lan867x_info_get dev phy_info = do {
     data \<leftarrow> data_of dev;
     if l67_init_done data then locked dev (do {
       data \<leftarrow> data_of dev;
       c \<leftarrow> lan867x_capability dev MEPA_CAP_TS_NONE;
       State_Monad.return (MEPA_RC_OK, phy_info\<lparr>
         info_part_number := ucast (di67_model (l67_dev data)),
         info_revision := ucast (di67_rev (l67_dev data)),
         info_manufactor_name := ''Microchip'', info_model_name := ''LAN867x'',
         info_cap := if c \<noteq> 0 then MEPA_CAP_TS_MASK_NONE else info_cap phy_info\<rparr>) })
     else State_Monad.return (MEPA_RC_ERROR, phy_info) }"

section \<open>T1S\<close>

definition lan867x_t1s_set_plca_config :: "nat \<Rightarrow> mepa_t1s_plca_cfg \<Rightarrow> ('h, mepa_rc) lan67" where
  "lan867x_t1s_set_plca_config dev cfg = locked dev (
     RC_GOTO (lan867x_init_conf dev cfg) (do {
       upd_data dev (\<lambda>d. d\<lparr>l67_plca_cfg := cfg\<rparr>);
       State_Monad.return MEPA_RC_OK }))"

definition lan867x_t1s_get_plca_config :: "nat \<Rightarrow> ('h, mepa_rc \<times> mepa_t1s_plca_cfg) lan67" where
  "lan867x_t1s_get_plca_config dev = locked dev (do {
     data \<leftarrow> data_of dev; State_Monad.return (MEPA_RC_OK, l67_plca_cfg data) })"

definition lan867x_t1s_driver :: "('h, lan867x_data) mepa_t1s_driver" where
  "lan867x_t1s_driver = \<lparr>t1s_drv_set_plca_config = Some lan867x_t1s_set_plca_config,
     t1s_drv_get_plca_config = Some (\<lambda>p _. lan867x_t1s_get_plca_config p)\<rparr>"

section \<open>The driver table\<close>

definition lan867x_driver :: "nat \<Rightarrow> nat \<Rightarrow> ('h, lan867x_data) mepa_driver" where
  "lan867x_driver dev_size priv_size = null_driver\<lparr>
     drv_id := LAN867X_PHY_ID,
     drv_mask := LAN867X_PHY_ID_MASK,
     mepa_driver_probe := Some (lan867x_probe dev_size priv_size),
     mepa_driver_delete := Some lan867x_delete,
     mepa_driver_reset := Some lan867x_reset,
     mepa_driver_poll := Some lan867x_poll,
     mepa_driver_conf_set := Some lan867x_conf_set,
     mepa_driver_conf_get := Some (\<lambda>p _. lan867x_conf_get p),
     mepa_driver_if_get := Some (\<lambda>p a1 _. lan867x_if_get p a1),
     mepa_driver_media_get := Some (\<lambda>p _. lan867x_media_get p),
     mepa_driver_clause22_read := Some (\<lambda>p a1 _. lan867x_reg_read p a1),
     mepa_driver_clause22_write := Some lan867x_reg_write,
     mepa_driver_clause45_read := Some lan867x_mmd_reg_read,
     mepa_driver_clause45_write := Some lan867x_mmd_reg_write,
     mepa_driver_capability := Some lan867x_capability,
     mepa_driver_phy_info_get := Some lan867x_info_get,
     mepa_t1s := Some lan867x_t1s_driver\<rparr>"

definition mepa_lan867x_driver_init :: "nat \<Rightarrow> nat \<Rightarrow> ('h, lan867x_data) mepa_driver list" where
  "mepa_lan867x_driver_init dev_size priv_size = [lan867x_driver dev_size priv_size]"

end
