(* ===== verification/Lan867x_Api.thy ===== *)
theory Lan867x_Api
  imports Lan867x_Driver Mepa_Steps
begin

text \<open>
  Histories of API calls on LAN867x devices, T1S included: the operations of the driver keep what
  its four register accessors keep (the locales \<open>lan867x_acc\<close> and \<open>lan867x_bus\<close>), follow a lock protocol
  (\<open>lan867x_locking\<close>), and so does every API call that reaches them (\<open>lan867x_api\<close>).
\<close>

section \<open>What the accessors keep\<close>

locale lan867x_acc =
  fixes I :: "('h, lan867x_data) world \<Rightarrow> bool"
  assumes keeps_miim_rd: "keeps I (lan867x_miim_reg_rd p a)"
    and keeps_miim_wr: "keeps I (lan867x_miim_reg_wr p a v)"
    and keeps_mmd_rd: "keeps I (lan867x_mmd_reg_rd p m a v)"
    and keeps_mmd_wr: "keeps I (lan867x_mmd_reg_wr p m a v)"
begin

lemma keeps_data_of: "keeps I (data_of p)"
  by (simp add: moves_def)

lemmas acc_keeps = keeps_miim_rd keeps_miim_wr keeps_mmd_rd keeps_mmd_wr keeps_data_of
  keeps_RC_GOTO keeps_RC_GOTO_RD keeps_rc_seq_Nil keeps_rc_seq_Cons keeps_rc_seq_map
  keeps_rc_seq_append keeps_rc_seq_if keeps_rules

lemma keeps_modify: "keeps I (lan867x_mmd_modify p m a msk v)"
  unfolding lan867x_mmd_modify_def by (intro acc_keeps)

lemma keeps_misc: "keeps I (rc_seq (misc_wr p xs))" "keeps I (rc_seq (misc_modify p ys))"
  unfolding misc_wr_def misc_modify_def by (intro acc_keeps keeps_modify)+

lemma keeps_tune: "keeps I (lan867x_tune p r)"
  unfolding lan867x_tune_def tune_revb_def tune_after_revb_def lan867x_indirect_reg_rd_def
  by (intro acc_keeps keeps_misc)

lemma keeps_link_status: "keeps I (lan867x_get_link_status p st)"
  unfolding lan867x_get_link_status_def by (intro acc_keeps)

end

locale lan867x_bus = lan867x_acc I for I :: "('h, lan867x_data) world \<Rightarrow> bool" +
  assumes keeps_upd: "keeps I (upd_data p f)"
begin

lemma keeps_init_conf: "keeps I (lan867x_init_conf p cfg)"
  unfolding lan867x_init_conf_def by (intro acc_keeps keeps_misc keeps_tune keeps_upd)

lemma keeps_phy_conf_set: "keeps I (lan867x_phy_conf_set p c)"
  unfolding lan867x_phy_conf_set_def by (intro acc_keeps keeps_upd)

lemma keeps_capability: "keeps I (lan867x_capability p c)"
  unfolding lan867x_capability_def by (intro acc_keeps)

lemmas internal_keeps = acc_keeps keeps_upd keeps_init_conf keeps_phy_conf_set keeps_link_status
  keeps_capability

end

text \<open>Every invariant of the bus is one of the accessors.\<close>

context bus_invariant
begin

lemma accessors_keep:
  "keeps I (lan867x_miim_reg_rd p a)" "keeps I (lan867x_miim_reg_wr p a v)"
  "keeps I (lan867x_mmd_reg_rd p m a v)" "keeps I (lan867x_mmd_reg_wr p m a v)"
  unfolding lan867x_miim_reg_rd_def lan867x_miim_reg_wr_def lan867x_mmd_reg_rd_def
    lan867x_mmd_reg_wr_def
  by (intro keeps_rules keeps_RC_GOTO bus_keeps)+

end

section \<open>Operations\<close>

locale lan867x_locking = lan867x_bus Held
  for Held :: "('h, lan867x_data) world \<Rightarrow> bool" +
  fixes Free :: "('h, lan867x_data) world \<Rightarrow> bool" and p0 :: nat
  assumes enter: "moves Free (MEPA_ENTER p0) Held"
    and exit: "moves Held (MEPA_EXIT p0) Free"
begin

lemma keeps_locked: "keeps Held m \<Longrightarrow> keeps Free (locked p0 m)"
  using enter exit by (auto simp: locked_def moves_def)

lemma keeps_op_regs:
  "keeps Free (lan867x_reg_read p0 a)" "keeps Free (lan867x_reg_write p0 a v)"
  "keeps Free (lan867x_mmd_reg_read p0 a v)" "keeps Free (lan867x_mmd_reg_write p0 a v)"
  unfolding lan867x_reg_read_def lan867x_reg_write_def lan867x_mmd_reg_read_def
    lan867x_mmd_reg_write_def
  by (intro keeps_locked internal_keeps)+

lemma keeps_op_get:
  "keeps Free (lan867x_conf_get p0)" "keeps Free (lan867x_media_get p0)"
  "keeps Free (lan867x_if_get p0 sp)" "keeps Free (lan867x_poll p0 st)"
  "keeps Free (lan867x_t1s_get_plca_config p0)" "keeps Free (lan867x_capability p0 c)"
  unfolding lan867x_conf_get_def lan867x_media_get_def lan867x_if_get_def lan867x_poll_def
    lan867x_t1s_get_plca_config_def
  by (intro keeps_locked internal_keeps)+ (simp add: lan867x_capability_def moves_def)

lemma keeps_op_info: "keeps Free (lan867x_info_get p0 inf0)"
  unfolding lan867x_info_get_def
  by (intro moves_data_of keeps_if keeps_locked internal_keeps)

lemma keeps_op_set:
  "keeps Free (lan867x_conf_set p0 c)" "keeps Free (lan867x_reset p0 r)"
  "keeps Free (lan867x_t1s_set_plca_config p0 cfg)"
  unfolding lan867x_conf_set_def lan867x_reset_def lan867x_t1s_set_plca_config_def
  by (intro keeps_locked internal_keeps)+

lemmas ops_keep = keeps_op_regs keeps_op_get keeps_op_info keeps_op_set

end

section \<open>The operations over all devices\<close>

lemmas driver67_defs = mepa_lan867x_driver_init_def lan867x_driver_def null_driver_def

locale lan867x_api = driver_table Free lib "set (mepa_lan867x_driver_init ds ps)"
  for Held Free :: "('h, lan867x_data) world \<Rightarrow> bool" and lib ds ps +
  assumes locking: "lan867x_locking Held Free p"
begin

lemmas api_ops = lan867x_locking.ops_keep [OF locking]

lemma step_keeps: "mepa_step lib w w' \<Longrightarrow> Free w \<Longrightarrow> Free w'"
  by (erule mepa_step.cases; hypsubst_thin; unfold mepa_api_defs; erule movesD [OF drv_keeps, rotated];
      clarsimp simp: driver67_defs; rule api_ops)

lemma t1s_keeps:
  assumes "\<And>f p. sel lan867x_t1s_driver = Some f \<Longrightarrow> keeps Free (k f p)"
  shows "keeps Free (t1s_call lib dev sel r k)"
  unfolding t1s_call_def by (rule drv_keeps) (use assms in \<open>simp add: driver67_defs\<close>)

lemma t1_step_keeps: "mepa_t1_step lib w w' \<Longrightarrow> Free w \<Longrightarrow> Free w'"
  by (erule mepa_t1_step.cases; hypsubst_thin; unfold t1_api_defs;
      (erule movesD [OF t1s_keeps, rotated]; clarsimp simp: lan867x_t1s_driver_def; rule api_ops |
       erule movesD [OF no_tc10_call, rotated]; simp add: driver67_defs))

lemma api_step_keeps: "api_step lib w w' \<Longrightarrow> Free w \<Longrightarrow> Free w'"
  using no_ts_step [of w w'] step_keeps [of w w'] t1_step_keeps [of w w']
  by (auto simp: api_step_iff driver67_defs)

lemma history_keeps: "(api_step lib)\<^sup>*\<^sup>* w w' \<Longrightarrow> Free w \<Longrightarrow> Free w'"
  by (induction rule: rtranclp_induct) (auto intro: api_step_keeps)

end

section \<open>LAN867x systems\<close>

definition lan867x_system :: "nat \<Rightarrow> nat \<Rightarrow> ('h, lan867x_data) phy_lib \<Rightarrow>
    (nat \<Rightarrow> 'h mepa_device) \<Rightarrow> bool" where
  "lan867x_system ds ps lib dv = (LAN867X_FAMILY < length lib \<and>
     lib ! LAN867X_FAMILY = mepa_lan867x_driver_init ds ps \<and>
     (\<forall>p. drv (dv p) = (LAN867X_FAMILY, 0)))"

lemma lan867x_table:
  "lan867x_system ds ps lib dv \<Longrightarrow> drv_at lib (drv (dv p)) \<in> set (mepa_lan867x_driver_init ds ps)"
  by (simp add: lan867x_system_def drv_at_def mepa_lan867x_driver_init_def)

lemma lan867x_locking_conj:
  "lan867x_locking Held Free p \<Longrightarrow> lan867x_locking (\<lambda>w. Held w \<and> C) (\<lambda>w. Free w \<and> C) p"
  by (simp add: lan867x_locking_def lan867x_locking_axioms_def lan867x_bus_def
      lan867x_acc_def lan867x_bus_axioms_def)
    (simp add: moves_def)

text \<open>Nothing has been called through NULL; nothing is said of the callouts.\<close>

definition no_null :: "(nat \<Rightarrow> 'h mepa_device) \<Rightarrow> ('h, 'd) world \<Rightarrow> bool" where
  "no_null dv w = (devs w = dv \<and> \<not> crashed w)"

lemma guarded_keeps:
  fixes m :: "('h, 'd, 'a) mepa"
  assumes "C (dv p) \<Longrightarrow> keeps (no_null dv) m"
  shows "keeps (no_null dv) (do { d \<leftarrow> dev_of p; if C d then m else State_Monad.return x })"
proof (rule movesI)
  fix w :: "('h, 'd) world" assume w: "no_null dv w"
  then have "devs w p = dv p" by (simp add: no_null_def)
  with w assms show "no_null dv (exec (do { d \<leftarrow> dev_of p; if C d then m else State_Monad.return x }) w)"
    by (auto dest: movesD)
qed

lemma no_null_bus:
  "miim_read (callout (dv p)) \<noteq> None \<Longrightarrow> keeps (no_null dv) (dev_miim_read p a)"
  "miim_write (callout (dv p)) \<noteq> None \<Longrightarrow> keeps (no_null dv) (dev_miim_write p a v)"
  by (auto simp: moves_def no_null_def prim_defs prim_simps)

lemma no_null_accessors:
  "keeps (no_null dv) (lan867x_miim_reg_rd p a)" "keeps (no_null dv) (lan867x_miim_reg_wr p a v)"
  "keeps (no_null dv) (lan867x_mmd_reg_rd p m a v)" "keeps (no_null dv) (lan867x_mmd_reg_wr p m a v)"
  unfolding lan867x_miim_reg_rd_def lan867x_miim_reg_wr_def lan867x_mmd_reg_rd_def
    lan867x_mmd_reg_wr_def
  by (rule guarded_keeps, (intro keeps_rules keeps_RC_GOTO no_null_bus)?; simp)+

interpretation lan67_lock: lan867x_locking "all_held dv" "all_free dv" p
  for dv :: "nat \<Rightarrow> 'h mepa_device" and p
  by unfold_locales
    (rule all_held.accessors_keep all_held.keeps_upd_data all_locks.enter all_locks.exit)+

interpretation lan67_null: lan867x_locking "no_null dv" "no_null dv" p
  for dv :: "nat \<Rightarrow> 'h mepa_device" and p
proof unfold_locales
  show "keeps (no_null dv) (upd_data q f)" for q and f :: "lan867x_data \<Rightarrow> lan867x_data"
    by (simp add: moves_def no_null_def)
  show "keeps (no_null dv) (MEPA_ENTER p)" "keeps (no_null dv) (MEPA_EXIT p)"
    by (auto simp: moves_def no_null_def MEPA_ENTER_def MEPA_EXIT_def prim_simps
        split: option.splits)
qed (rule no_null_accessors)+

interpretation api67_lock: lan867x_api
  "\<lambda>w. all_held dv w \<and> lan867x_system ds ps lib dv"
  "\<lambda>w. all_free dv w \<and> lan867x_system ds ps lib dv" lib ds ps
  for dv :: "nat \<Rightarrow> 'h mepa_device" and lib ds ps
  by (intro lan867x_api.intro driver_table.intro lan867x_api_axioms.intro lan867x_locking_conj
      lan67_lock.lan867x_locking_axioms)
    (auto simp: all_free_def intro: lan867x_table)

interpretation api67_null: lan867x_api
  "\<lambda>w. no_null dv w \<and> lan867x_system ds ps lib dv"
  "\<lambda>w. no_null dv w \<and> lan867x_system ds ps lib dv" lib ds ps
  for dv :: "nat \<Rightarrow> 'h mepa_device" and lib ds ps
  by (intro lan867x_api.intro driver_table.intro lan867x_api_axioms.intro lan867x_locking_conj
      lan67_null.lan867x_locking_axioms)
    (auto simp: no_null_def intro: lan867x_table)

end
