(* ===== verification/Lan867x_Spec.thy ===== *)
theory Lan867x_Spec
  imports Lan867x_Api Phy_Lib
begin

text \<open>
  What the LAN867x driver does: no call through NULL whatever the application provides, the PLCA
  settings, and the tuning by trim values.
\<close>

section \<open>Histories\<close>

text \<open>A LAN867x system without a single callout, for the witness.\<close>

definition no_callouts :: "'h mepa_callout" where
  "no_callouts = \<lparr>mmd_read = None, mmd_write = None, miim_read = None, miim_write = None, spi_read = None,
     lock_enter = None, lock_exit = None, mem_alloc = None, mem_free = None\<rparr>"

definition bare67_lib :: "(sim, lan867x_data) phy_lib" where
  "bare67_lib = replicate 10 [] @ [mepa_lan867x_driver_init 40 256]"

definition bare67 :: "(sim, lan867x_data) world" where
  "bare67 = (sim_world (\<lambda>_. 0) (\<lambda>_. lan867x_data_0))\<lparr>devs := (\<lambda>p. \<lparr>drv = (LAN867X_FAMILY, 0),
     numeric_handle = of_nat p, callout = no_callouts, callout_ctx = p\<rparr>)\<rparr>"

text \<open>
  C28: histories of API calls on LAN867x devices, T1S included.  Whatever callouts the
  application leaves NULL, none is called through NULL; and with lock callouts every history
  keeps the lock protocol and ends with the lock free.
\<close>

theorem lan867x_histories_safe:
  assumes "lan867x_system ds ps lib (devs w)" "\<not> crashed w" "(api_step lib)\<^sup>*\<^sup>* w w'"
  shows "\<not> crashed w' \<and> devs w' = devs w \<and>
    ((\<forall>p. has_locks (devs w p)) \<and> lock_state (io w) = Lock_Free \<longrightarrow> lock_state (io w') = Lock_Free)"
  using api67_null.history_keeps [OF assms(3), of "devs w" ds ps]
    api67_lock.history_keeps [OF assms(3), of "devs w" ds ps] assms(1,2)
  by (simp add: no_null_def all_free_def)

theorem lan867x_histories_safe_witness:
  "\<not> crashed (exec (mepa_t1s_set_plca_config bare67_lib (Some 2) (l67_plca_cfg lan867x_data_0))
     (exec (mepa_poll bare67_lib (Some 1) mepa_status_0) bare67))"
proof -
  have s: "lan867x_system 40 256 bare67_lib (devs bare67)" "\<not> crashed bare67"
    by (simp_all add: lan867x_system_def bare67_lib_def bare67_def nth_append)
  have "(api_step lib)\<^sup>*\<^sup>* w (exec (mepa_t1s_set_plca_config lib (Some 2) c)
      (exec (mepa_poll lib (Some 1) st) w))" for lib c st and w :: "(sim, lan867x_data) world"
    by (rule rtranclp.rtrancl_into_rtrancl, rule r_into_rtranclp, rule api_base, rule step_poll,
        rule api_t1, rule step_t1s_set_plca_config)
  from lan867x_histories_safe [OF s this] show ?thesis by simp
qed

section \<open>The accessors on a working bus\<close>

lemma five_bit_misc: "five_bit (ucast MMD_MISC)"
  by (simp add: five_bit_def)

lemma lspec_misc_wr:
  assumes "bus_at dv p" "Q 0 D [LWr (callout_ctx (dv p)) (Mmd 0x1F r) v]"
  shows "lspec dv (lan867x_mmd_reg_wr p MMD_MISC r v) D Q"
proof (rule lspecI)
  fix s
  show "dspec dv (lan867x_mmd_reg_wr p MMD_MISC r v) D s
      (\<lambda>x D' s'. \<exists>ops. dec_ops s' = dec_ops s @ ops \<and> Q x D' ops)"
    using bus_ok_present [OF assms(1)] assms(2)
    unfolding lan867x_mmd_reg_wr_def RC_GOTO_def bus_present_def
    by (intro dspec_bind dspec_dev_of)
      (auto simp: decoder_simps five_bit_def intro!: dspec_bind dspec_miim_write assms(1))
qed

lemma lspec_misc_rd:
  assumes "bus_at dv p" "\<And>v. Q (0, v) D [LRd (callout_ctx (dv p)) (Mmd 0x1F r) v]"
  shows "lspec dv (lan867x_mmd_reg_rd p MMD_MISC r v0) D Q"
proof (rule lspecI)
  fix s
  show "dspec dv (lan867x_mmd_reg_rd p MMD_MISC r v0) D s
      (\<lambda>x D' s'. \<exists>ops. dec_ops s' = dec_ops s @ ops \<and> Q x D' ops)"
    using bus_ok_present [OF assms(1)] assms(2)
    unfolding lan867x_mmd_reg_rd_def bus_present_def
    by (intro dspec_bind dspec_dev_of)
      (auto simp: decoder_simps five_bit_def intro!: dspec_bind dspec_miim_write dspec_miim_read assms(1))
qed

text \<open>A list of writes is the list of their accesses.\<close>

definition misc_ops :: "nat \<Rightarrow> (16 word \<times> 16 word) list \<Rightarrow> lop list" where
  "misc_ops c xs = map (\<lambda>(r, v). LWr c (Mmd 0x1F r) v) xs"

lemma lspec_misc_wrs:
  assumes "bus_at dv p" "lspec dv (rc_seq ms) D (\<lambda>rc D' ops. Q rc D' (misc_ops (callout_ctx (dv p)) xs @ ops))"
  shows "lspec dv (rc_seq (misc_wr p xs @ ms)) D Q"
  using assms(2)
proof (induction xs arbitrary: Q)
  case (Cons x xs)
  obtain r v where x: "x = (r, v)" by (cases x)
  show ?case
    unfolding x misc_wr_def list.map append_Cons rc_seq.simps split_conv
    by (intro lspec_RC_GOTO lspec_misc_wr assms(1))
      (use Cons in \<open>simp add: x misc_wr_def misc_ops_def\<close>)
qed (simp add: misc_wr_def misc_ops_def)

text \<open>What the tuning does to the bus: accesses of MMD 31 below register 0x100.\<close>

definition tune_op :: "nat \<Rightarrow> lop \<Rightarrow> bool" where
  "tune_op c op = (case op of
      LRd c' (Mmd m r) _ \<Rightarrow> c' = c \<and> m = 0x1F \<and> r < 0x100
    | LWr c' (Mmd m r) _ \<Rightarrow> c' = c \<and> m = 0x1F \<and> r < 0x100
    | _ \<Rightarrow> False)"

lemma lsafe_wr:
  "bus_at dv p \<Longrightarrow> r < 0x100 \<Longrightarrow> lsafe dv (tune_op (callout_ctx (dv p))) (lan867x_mmd_reg_wr p MMD_MISC r v)"
  by (auto simp: lsafe_def tune_op_def intro: lspec_misc_wr)

lemma lsafe_modify:
  "bus_at dv p \<Longrightarrow> r < 0x100 \<Longrightarrow> lsafe dv (tune_op (callout_ctx (dv p))) (lan867x_mmd_modify p MMD_MISC r msk v)"
  unfolding lsafe_def lan867x_mmd_modify_def
  by (auto simp: tune_op_def intro!: lspec_RC_GOTO_RD lspec_misc_rd lspec_misc_wr)

lemma lsafe_misc:
  "bus_at dv p \<Longrightarrow> list_all (\<lambda>(r, v). r < 0x100) xs \<Longrightarrow>
    list_all (lsafe dv (tune_op (callout_ctx (dv p)))) (misc_wr p xs)"
  "bus_at dv p \<Longrightarrow> list_all (\<lambda>(r, m, v). r < 0x100) ys \<Longrightarrow>
    list_all (lsafe dv (tune_op (callout_ctx (dv p)))) (misc_modify p ys)"
  by (auto simp: misc_wr_def misc_modify_def list_all_iff intro: lsafe_wr lsafe_modify)

lemma lspec_indirect:
  assumes "bus_at dv p" "c = callout_ctx (dv p)"
    "\<And>v. Q (0, v) D [LWr c (Mmd 0x1F 0xD8) (ucast a), LWr c (Mmd 0x1F 0xDA) 2, LRd c (Mmd 0x1F 0xD9) v]"
  shows "lspec dv (lan867x_indirect_reg_rd p a v0) D Q"
  unfolding lan867x_indirect_reg_rd_def
  using assms(3) by (auto simp: assms(2) intro!: lspec_bind lspec_misc_wr lspec_misc_rd assms(1))

lemma lsafe_RC_GOTO_RD:
  fixes m :: "('h, 'd, mepa_rc \<times> 16 word) mepa"
  assumes "\<And>D. lspec dv m D (\<lambda>r D' ops. fst r = MEPA_RC_OK \<and> D' = D \<and> list_all P ops)"
    and k: "\<And>v. lsafe dv P (k v)"
  shows "lsafe dv P (RC_GOTO_RD m k)"
  unfolding lsafe_def
proof (intro allI lspec_RC_GOTO_RD)
  fix D :: "nat \<Rightarrow> 'd"
  let ?Q = "\<lambda>rc D' ops. rc = MEPA_RC_OK \<and> D' = D \<and> list_all P ops"
  have kD: "lspec dv (k v) D (\<lambda>rc D' o2. ?Q rc D' (o1 @ o2))" if "list_all P o1" for o1 v
    using k [unfolded lsafe_def, rule_format, of v D] that by (rule_tac lspec_mono) auto
  show "lspec dv m D (\<lambda>(rc, v) D' o1. if rc \<noteq> MEPA_RC_OK then ?Q rc D' o1
      else lspec dv (k v) D' (\<lambda>rc D'' o2. ?Q rc D'' (o1 @ o2)))"
    using assms(1) [of D] by (rule lspec_mono) (use kD in auto)
qed

lemma lsafe_tune:
  assumes "bus_at dv p"
  shows "lsafe dv (tune_op (callout_ctx (dv p))) (lan867x_tune p r)"
  unfolding lan867x_tune_def tune_revb_def tune_after_revb_def Let_def
  by (auto simp: lsafe_misc assms tune_op_def list_all_append lsafe_def [of _ _ "State_Monad.return _"]
      intro!: lsafe_rc_seq lsafe_RC_GOTO_RD lspec_indirect assms lspec_return)

section \<open>The PLCA settings\<close>

lemma byte_pair: "push_bit 8 (ucast x) OR ucast (y :: 8 word) = (256 * ucast (x :: 8 word) + ucast y :: 16 word)"
proof -
  have "push_bit 8 (ucast x :: 16 word) AND ucast y = 0"
    by (rule bit_word_eqI) (auto simp: bit_simps dest: bit_imp_le_length)
  then have "push_bit 8 (ucast x :: 16 word) + ucast y = push_bit 8 (ucast x) OR ucast y"
    by (rule disjunctive_add_eq_or)
  then show ?thesis by (simp add: push_bit_eq_mult mult.commute)
qed

definition init_ops :: "nat \<Rightarrow> mepa_t1s_plca_cfg \<Rightarrow> 16 word \<Rightarrow> lop list" where
  "init_ops c cfg v = misc_ops c [
     (0xCA02, 256 * ucast (plca_node_count cfg) + ucast (plca_node_id cfg)),
     (0xCA05, 256 * ucast (plca_max_burst_cnt cfg) + ucast (plca_burst_timer cfg)),
     (0xCA01, if plca_enable cfg then 0x8000 else 0),
     (0xCA04, ucast (plca_tx_oppr_timer cfg)),
     (0x54, 3), (0x50, 2), (0x44, 3), (0x40, 4)] @
     [LRd c (Mmd 0x1F 0x11) v, LWr c (Mmd 0x1F 0x11) 0]"

lemma lspec_init_conf67:
  assumes "bus_at dv p" "c = callout_ctx (dv p)"
  shows "lspec dv (lan867x_init_conf p cfg) D (\<lambda>rc D' ops. rc = MEPA_RC_OK \<and>
    D' = D(p := (D p)\<lparr>l67_init_done := True\<rparr>) \<and>
    (\<exists>tune v. list_all (tune_op c) tune \<and> ops = tune @ init_ops c cfg v))"
proof -
  let ?k = "RC_GOTO_RD (lan867x_mmd_reg_rd p MMD_MISC MISC_PIN_CTRL 0) (\<lambda>_. do {
       rc \<leftarrow> lan867x_mmd_reg_wr p MMD_MISC MISC_PIN_CTRL
         (push_bit GPIO0_SIGNAL_SEL_S GPIO0_SIGNAL_PMCH_RX);
       upd_data p (\<lambda>d. d\<lparr>l67_init_done := True\<rparr>);
       State_Monad.return rc })"
  have k: "lspec dv (RC_GOTO (rc_seq (misc_wr p (plca_regs cfg @ match_regs))) ?k) D
      (\<lambda>rc D' o2. rc = MEPA_RC_OK \<and> D' = D(p := (D p)\<lparr>l67_init_done := True\<rparr>) \<and>
        (\<exists>v. o2 = init_ops c cfg v))"
    using lspec_misc_wrs [where ms = "[]"]
    by (intro lspec_RC_GOTO lspec_misc_wrs [where ms = "[]", simplified] assms lspec_return)
      (auto simp: plca_regs_def match_regs_def init_ops_def misc_ops_def byte_pair assms(2)
        intro!: lspec_RC_GOTO_RD lspec_misc_rd lspec_misc_wr lspec_bind lspec_upd_data lspec_return assms(1))
  show ?thesis
    unfolding lan867x_init_conf_def
  proof (intro lspec_bind lspec_data_of lspec_RC_GOTO, rule lspec_mono)
    show "lspec dv (lan867x_tune p (di67_rev (l67_dev (D p)))) D
        (\<lambda>rc D' ops. rc = MEPA_RC_OK \<and> D' = D \<and> list_all (tune_op c) ops)"
      unfolding assms(2) by (rule lsafe_tune [OF assms(1), unfolded lsafe_def, rule_format])
  qed (use k in \<open>auto elim!: lspec_mono\<close>)
qed

text \<open>
  C29: on a working bus \<open>mepa_t1s_set_plca_config\<close> of a LAN867x succeeds and stores the settings; after
  the tuning, which leaves the PLCA registers alone, the node count, identifier, burst limits,
  the enable bit and the timer are written once, each to its place, and the pins for time
  stamping are set up; the pin register is read and then overwritten with 0.
\<close>

theorem lan867x_set_plca_config_writes:
  assumes "bus_at (devs w) p" "c = callout_ctx (devs w p)"
    and "run_state (lan867x_t1s_set_plca_config p cfg) w = (rc, w')"
  shows "rc = MEPA_RC_OK \<and> priv w' = (priv w)(p := (priv w p)\<lparr>l67_init_done := True, l67_plca_cfg := cfg\<rparr>) \<and>
    (\<exists>tune v. list_all (tune_op c) tune \<and> lops w' = lops w @ tune @ init_ops c cfg v)"
proof -
  have "lspec (devs w) (lan867x_t1s_set_plca_config p cfg) (priv w) (\<lambda>rc D' ops. rc = MEPA_RC_OK \<and>
      D' = (priv w)(p := (priv w p)\<lparr>l67_init_done := True, l67_plca_cfg := cfg\<rparr>) \<and>
      (\<exists>tune v. list_all (tune_op c) tune \<and> ops = tune @ init_ops c cfg v))"
    unfolding lan867x_t1s_set_plca_config_def locked_def
    by (intro lspec_bind lspec_enter lspec_RC_GOTO lspec_mono [OF lspec_init_conf67 [OF assms(1,2)]])
      (auto intro!: lspec_upd_data lspec_bind lspec_return lspec_exit)
  from lspec_run [OF this assms(3)] show ?thesis by auto
qed

interpretation lan67_priv: lan867x_acc "\<lambda>w. priv w = D" for D
proof -
  have b: "bus_invariant (\<lambda>w :: ('h, lan867x_data) world. priv w = D)"
    by unfold_locales (auto simp: moves_def prim_defs prim_simps split: option.splits prod.splits)
  show "lan867x_acc (\<lambda>w :: ('h, lan867x_data) world. priv w = D)"
    by (intro lan867x_acc.intro bus_invariant.accessors_keep [OF b])
qed

lemma init_done_same: "\<exists>b. D = D(p := (D p)\<lparr>l67_init_done := b\<rparr>)"
  by (rule exI [of _ "l67_init_done (D p)"]) simp

lemma pspec_init_conf67:
  "pspec (lan867x_init_conf p cfg) D
    (\<lambda>rc D'. (rc \<noteq> MEPA_RC_OK \<and> D' = D) \<or> D' = D(p := (D p)\<lparr>l67_init_done := True\<rparr>))"
  unfolding lan867x_init_conf_def
  by (intro pspec_bind pspec_data_of pspec_RC_GOTO pspec_RC_GOTO_RD
      pspec_keeps [OF lan67_priv.keeps_tune] pspec_keeps [OF lan67_priv.keeps_misc(1)]
      pspec_keeps [OF lan67_priv.keeps_mmd_rd])
    (auto intro!: pspec_bind pspec_keeps [OF lan67_priv.keeps_mmd_wr] pspec_upd_data pspec_return
      pspec_RC_GOTO pspec_RC_GOTO_RD pspec_keeps [OF lan67_priv.keeps_misc(1)]
      pspec_keeps [OF lan67_priv.keeps_mmd_rd])

lemma get_plca_config_val:
  "val (lan867x_t1s_get_plca_config p) w = (MEPA_RC_OK, l67_plca_cfg (priv w p))"
  by (simp add: lan867x_t1s_get_plca_config_def locked_def MEPA_ENTER_def prim_simps
      split: option.split)

text \<open>
  C30: the PLCA settings on any bus.  What \<open>get_plca_config\<close> answers after \<open>set_plca_config\<close> are the new
  settings when that succeeded and the old ones when it failed; nothing else of the private
  data changes but the mark that the PHY is initialised, and that of no other device.
\<close>

theorem lan867x_plca_config_roundtrip:
  "val (lan867x_t1s_get_plca_config p) (exec (lan867x_t1s_set_plca_config p cfg) w) =
    (MEPA_RC_OK, if val (lan867x_t1s_set_plca_config p cfg) w = MEPA_RC_OK then cfg
      else l67_plca_cfg (priv w p)) \<and>
   (\<exists>b. priv (exec (lan867x_t1s_set_plca_config p cfg) w) = (priv w)(p := (priv w p)\<lparr>
      l67_init_done := b,
      l67_plca_cfg := snd (val (lan867x_t1s_get_plca_config p)
        (exec (lan867x_t1s_set_plca_config p cfg) w))\<rparr>))"
proof -
  have "pspec (lan867x_t1s_set_plca_config p cfg) (priv w) (\<lambda>rc D'. \<exists>b. D' = (priv w)(p := (priv w p)\<lparr>
      l67_init_done := b,
      l67_plca_cfg := if rc = MEPA_RC_OK then cfg else l67_plca_cfg (priv w p)\<rparr>))"
    unfolding lan867x_t1s_set_plca_config_def locked_def
    by (intro pspec_bind pspec_enter pspec_RC_GOTO pspec_mono [OF pspec_init_conf67])
      (auto intro!: pspec_upd_data pspec_bind pspec_return pspec_exit init_done_same)
  then obtain b where "priv (exec (lan867x_t1s_set_plca_config p cfg) w) = (priv w)(p := (priv w p)\<lparr>
      l67_init_done := b, l67_plca_cfg := if val (lan867x_t1s_set_plca_config p cfg) w = MEPA_RC_OK
        then cfg else l67_plca_cfg (priv w p)\<rparr>)"
    by (auto simp: pspec_def)
  then show ?thesis by (simp add: get_plca_config_val exI [of _ b])
qed

theorem lan867x_set_plca_config_writes_witness:
  "\<exists>tune v. lops (exec (lan867x_t1s_set_plca_config 1 (l67_plca_cfg lan867x_data_0))
    (sim_world (\<lambda>_. 0) (\<lambda>_. lan867x_data_0))) = tune @ init_ops 1 (l67_plca_cfg lan867x_data_0) v"
  using lan867x_set_plca_config_writes [where w = "sim_world (\<lambda>_. 0) (\<lambda>_. lan867x_data_0)" and p = 1
      and c = 1 and cfg = "l67_plca_cfg lan867x_data_0", OF _ _ run_state_eq]
  by (auto simp: sim_dev_def)

section \<open>Trim values\<close>

text \<open>A trim value is five bits in two's complement; the fields made from it are six bits wide.\<close>

lemma all_five_bits:
  assumes "list_all (\<lambda>n. P (word_of_nat n)) [0..<32]"
  shows "P (x :: 5 word)"
proof -
  have "unat x \<in> set [0..<32]" using unsigned_less [of x, where ?'a = nat] by simp
  then have "P (word_of_nat (unat x))" using assms unfolding list_all_iff by blast
  then show ?thesis by simp
qed

lemma five_bit_mask: "(r :: 16 word) AND 0x1F = ucast (ucast r :: 5 word)"
proof -
  have "r AND 0x1F = take_bit 5 r" by (simp add: take_bit_eq_mask mask_eq_exp_minus_1)
  also have "\<dots> = ucast (ucast r :: 5 word)" by (rule bit_word_eqI) (auto simp: bit_simps)
  finally show ?thesis .
qed

lemma trim_offset_sint: "trim_offset (r AND 0x1F) = sint (ucast r :: 5 word)"
proof -
  have "trim_offset (ucast (x :: 5 word)) = sint x" for x
    by (rule all_five_bits) code_simp
  then show ?thesis by (simp add: five_bit_mask)
qed

lemma cfgparams_fields:
  fixes x :: "5 word"
  shows "sint (ucast (drop_bit 10 (cfgparam1 (sint x))) :: 6 word) = 9 + sint x"
    "sint (ucast (drop_bit 4 (cfgparam1 (sint x))) :: 6 word) = 14 + sint x"
    "cfgparam1 (sint x) AND 0xF = 3"
    "cfgparam2 (sint x) = word_of_int (1024 * (40 + sint x))"
  by (rule all_five_bits, code_simp)+

definition trim_ops :: "nat \<Rightarrow> 16 word \<Rightarrow> 16 word \<Rightarrow> 16 word \<Rightarrow> 16 word \<Rightarrow> lop list" where
  "trim_ops c r1 r2 c1 c2 =
     [LWr c (Mmd 0x1F 0xD8) 4, LWr c (Mmd 0x1F 0xDA) 2, LRd c (Mmd 0x1F 0xD9) r1,
      LWr c (Mmd 0x1F 0xD8) 8, LWr c (Mmd 0x1F 0xDA) 2, LRd c (Mmd 0x1F 0xD9) r2] @
     misc_ops c [(0xD0, 0x3F31), (0xE0, 0xC000), (0x84, c1), (0x8A, c2), (0xE9, 0x9E50),
       (0xF5, 0x1CF8), (0xF4, 0xC020), (0xF8, 0xB900), (0xF9, 0x4E53), (0x81, 0x80), (0x91, 0x9660)]"

definition lsctrl_ops :: "nat \<Rightarrow> 16 word \<Rightarrow> lop list" where
  "lsctrl_ops c v = [LRd c (Mmd 0x1F 0x12) v, LWr c (Mmd 0x1F 0x12) (v AND NOT 0x1800 OR 0x1800)]"

lemma lspec_lsctrl:
  assumes "bus_at dv p" "c = callout_ctx (dv p)"
    "\<And>v. Q MEPA_RC_OK D (lsctrl_ops c v)"
  shows "lspec dv (rc_seq (misc_modify p [(MISC_LSCTRL, MISC_LSCTRL_LSCFG_ACTIVITY, MISC_LSCTRL_LSCFG_ACTIVITY)])) D Q"
  unfolding misc_modify_def list.map rc_seq.simps split_conv lan867x_mmd_modify_def
  using assms(3) by (auto simp: assms(2) lsctrl_ops_def
      intro!: lspec_RC_GOTO lspec_RC_GOTO_RD lspec_misc_rd lspec_misc_wr lspec_return assms(1))

text \<open>
  Tuning a LAN867x newer than revision B on a working bus.  The trim values are the low
  five bits of two indirect registers, in two's complement; the words written to 0x84 and 0x8A
  have the sums of the trim values and their constants as fields, none of which overflows, and
  from revision D on the link status follows the activity.
\<close>

theorem lan867x_tune_trims:
  assumes "bus_at (devs w) p" "c = callout_ctx (devs w p)" "LAN867X_REVB < rv"
    and "run_state (lan867x_tune p rv) w = (rc, w')"
  shows "rc = MEPA_RC_OK \<and> (\<exists>r1 r2 c1 c2 v.
    lops w' = lops w @ trim_ops c r1 r2 c1 c2 @ (if LAN867X_REVD \<le> rv then lsctrl_ops c v else []) \<and>
    sint (ucast (drop_bit 10 c1) :: 6 word) = 9 + sint (ucast r1 :: 5 word) \<and>
    sint (ucast (drop_bit 4 c1) :: 6 word) = 14 + sint (ucast r1 :: 5 word) \<and>
    c1 AND 0xF = 3 \<and>
    c2 = word_of_int (1024 * (40 + sint (ucast r2 :: 5 word))))"
proof -
  let ?P = "\<lambda>ops. \<exists>r1 r2 v. ops = trim_ops c r1 r2 (cfgparam1 (sint (ucast r1 :: 5 word)))
    (cfgparam2 (sint (ucast r2 :: 5 word))) @ (if LAN867X_REVD \<le> rv then lsctrl_ops c v else [])"
  have "lspec (devs w) (tune_after_revb p rv) (priv w) (\<lambda>rc D' ops. rc = MEPA_RC_OK \<and> ?P ops)"
    unfolding tune_after_revb_def Let_def trim_offset_sint
    by (cases "LAN867X_REVD \<le> rv")
      (auto simp: assms(2) trim_ops_def intro!: lspec_RC_GOTO_RD lspec_indirect [OF assms(1) refl] lspec_misc_wrs
        lspec_misc_wrs [where ms = "[]", simplified] lspec_lsctrl [OF assms(1) refl] lspec_return assms(1) exI)
  then have "lspec (devs w) (lan867x_tune p rv) (priv w) (\<lambda>rc D' ops. rc = MEPA_RC_OK \<and> ?P ops)"
    using assms(3) by (auto simp: lan867x_tune_def)
  from lspec_run [OF this assms(4)] show ?thesis
    using cfgparams_fields by fast
qed

theorem lan867x_tune_trims_witness:
  "\<exists>r1 r2 c1 c2 v. lops (exec (lan867x_tune 1 6) (sim_world (\<lambda>_. 0) (\<lambda>_. lan867x_data_0))) =
    trim_ops 1 r1 r2 c1 c2 @ lsctrl_ops 1 v"
  using lan867x_tune_trims [where w = "sim_world (\<lambda>_. 0) (\<lambda>_. lan867x_data_0)" and p = 1
      and c = 1 and rv = 6, OF _ _ _ run_state_eq]
  by (simp add: sim_dev_def) blast

end
