(* ===== verification/Lan884x_Driver.thy ===== *)
theory Lan884x_Driver
  imports Lan8814_Data Mepa_Driver Mepa_Flow
begin

text \<open>
  The driver of the LAN884x (\<open>mepa/microchip/lan884x/src/lan884x.c\<close>, \<open>lan884x_private.h\<close>), a single-port
  PHY with GMII or RGMII on the MAC side, which shares the registers of the LAN8814.  The family
  is number 8 of \<open>MEPA_phy_lib\<close>.  The text dump \<open>pfe_debug_info_dump\<close> is left out.
\<close>

abbreviation (input) LAN884X_FAMILY :: nat where "LAN884X_FAMILY \<equiv> 8"
abbreviation (input) PFE_MMD_COMMON_CTRL_REG :: "16 word" where "PFE_MMD_COMMON_CTRL_REG \<equiv> 2"
abbreviation (input) PFE_RXC_DLL_CTRL :: "16 word" where "PFE_RXC_DLL_CTRL \<equiv> 76"
abbreviation (input) PFE_TXC_DLL_CTRL :: "16 word" where "PFE_TXC_DLL_CTRL \<equiv> 77"
abbreviation (input) PFE_DLL_ENABLE_DELAY :: "16 word" where "PFE_DLL_ENABLE_DELAY \<equiv> 0"
abbreviation (input) DISABLE_DLL_TX_BIT :: "16 word" where "DISABLE_DLL_TX_BIT \<equiv> 0x4000"
abbreviation (input) DISABLE_DLL_RX_BIT :: "16 word" where "DISABLE_DLL_RX_BIT \<equiv> 0x4000"
abbreviation (input) DISABLE_DLL_MASK :: "16 word" where "DISABLE_DLL_MASK \<equiv> 0x4000"
abbreviation (input) LAN8840_OPERATION_MODE_STRAP_LOW_REGISTER :: "16 word" where
  "LAN8840_OPERATION_MODE_STRAP_LOW_REGISTER \<equiv> 3"
abbreviation (input) LAN8840_STRAP_RGMII_EN :: "16 word" where "LAN8840_STRAP_RGMII_EN \<equiv> 1"

section \<open>Private data\<close>

record lan884x_dev_info =
  di84_model :: "8 word"
  di84_rev :: "8 word"

record lan884x_data =
  l84_port_no :: "32 word"
  l84_conf :: mepa_conf
  l84_events :: mepa_event
  l84_loopback :: mepa_loopback
  l84_dev :: lan884x_dev_info
  l84_link_status :: bool
  l84_speed_status :: mepa_port_speed
  l84_fdx_status :: bool

type_synonym ('h, 'a) pfe = "('h, lan884x_data, 'a) mepa"

definition lan884x_data_0 :: lan884x_data where
  "lan884x_data_0 = \<lparr>l84_port_no = 0, l84_conf = mepa_conf_0, l84_events = 0,
     l84_loopback = mepa_loopback_0, l84_dev = \<lparr>di84_model = 0, di84_rev = 0\<rparr>,
     l84_link_status = False, l84_speed_status = MEPA_SPEED_UNDEFINED, l84_fdx_status = False\<rparr>"

section \<open>Register access\<close>

text \<open>
  Errors of the bus are traced and dropped.  A write reads first, also without a mask, and is
  left out when that fails.
\<close>

definition pfe_direct_reg_rd :: "nat \<Rightarrow> 16 word \<Rightarrow> ('h, 'd, mepa_rc \<times> 16 word) mepa" where
  "pfe_direct_reg_rd dev addr = do {
     (_, v) \<leftarrow> dev_miim_read dev (ucast addr);
     State_Monad.return (MEPA_RC_OK, v) }"

definition pfe_direct_reg_wr ::
  "nat \<Rightarrow> 16 word \<Rightarrow> 16 word \<Rightarrow> 16 word \<Rightarrow> ('h, 'd, mepa_rc) mepa" where
  "pfe_direct_reg_wr dev addr v msk = do {
     (rc, reg_val) \<leftarrow> dev_miim_read dev (ucast addr);
     if rc = MEPA_RC_OK then do {
       let reg_val = (if msk \<noteq> LAN8814_DEF_MASK then (reg_val AND NOT msk) OR (v AND msk) else v);
       dev_miim_write dev (ucast addr) reg_val;
       State_Monad.return MEPA_RC_OK }
     else State_Monad.return MEPA_RC_OK }"

text \<open>\<open>v0\<close> is the content of the out-parameter before the call.\<close>

definition pfe_mmd_reg_rd ::
  "nat \<Rightarrow> 16 word \<Rightarrow> 16 word \<Rightarrow> 16 word \<Rightarrow> ('h, 'd, mepa_rc \<times> 16 word) mepa" where
  "pfe_mmd_reg_rd dev mmd addr v0 = do {
     rc \<leftarrow> pfe_direct_reg_wr dev LAN8814_MMD_ACCESS_CTRL mmd LAN8814_DEF_MASK;
     if rc < MEPA_RC_OK then State_Monad.return (rc, v0) else do {
     rc \<leftarrow> pfe_direct_reg_wr dev LAN8814_MMD_ACCESS_ADDR_DATA addr LAN8814_DEF_MASK;
     if rc < MEPA_RC_OK then State_Monad.return (rc, v0) else do {
     rc \<leftarrow> pfe_direct_reg_wr dev LAN8814_MMD_ACCESS_CTRL
       (LAN8814_F_MMD_ACCESS_CTRL_MMD_FUNC OR mmd) LAN8814_DEF_MASK;
     if rc < MEPA_RC_OK then State_Monad.return (rc, v0)
     else pfe_direct_reg_rd dev LAN8814_MMD_ACCESS_ADDR_DATA }}}"

definition pfe_mmd_reg_wr ::
  "nat \<Rightarrow> 16 word \<Rightarrow> 16 word \<Rightarrow> 16 word \<Rightarrow> 16 word \<Rightarrow> ('h, 'd, mepa_rc) mepa" where
  "pfe_mmd_reg_wr dev mmd addr v msk =
     MEPA_RC (pfe_direct_reg_wr dev LAN8814_MMD_ACCESS_CTRL mmd LAN8814_DEF_MASK) (
     MEPA_RC (pfe_direct_reg_wr dev LAN8814_MMD_ACCESS_ADDR_DATA addr LAN8814_DEF_MASK) (
     MEPA_RC (pfe_direct_reg_wr dev LAN8814_MMD_ACCESS_CTRL
       (LAN8814_F_MMD_ACCESS_CTRL_MMD_FUNC OR mmd) LAN8814_DEF_MASK) (
     MEPA_RC (pfe_direct_reg_wr dev LAN8814_MMD_ACCESS_ADDR_DATA v msk) (
     State_Monad.return MEPA_RC_OK))))"

section \<open>Creation, deletion, reset\<close>

definition pfe_delete :: "nat \<Rightarrow> ('h, mepa_rc) pfe" where
  "pfe_delete dev = mepa_delete_int dev"

definition pfe_get_device_info :: "nat \<Rightarrow> ('h, mepa_rc) pfe" where
  "pfe_get_device_info dev = do {
     (_, id) \<leftarrow> pfe_direct_reg_rd dev LAN8814_DEVICE_ID_2;
     upd_data dev (\<lambda>d. d\<lparr>l84_dev := \<lparr>di84_model = ucast (LAN8814_X_DEV_ID_MODEL id),
       di84_rev = ucast (LAN8814_X_DEV_ID_REV id)\<rparr>\<rparr>);
     State_Monad.return MEPA_RC_OK }"

definition pfe_probe ::
  "nat \<Rightarrow> nat \<Rightarrow> drv_ptr \<Rightarrow> 'h mepa_callout \<Rightarrow> nat \<Rightarrow> mepa_board_conf \<Rightarrow> ('h, nat option) pfe" where
  "pfe_probe dev_size priv_size drv0 co ctx board_conf = do {
     dev \<leftarrow> mepa_create_int dev_size drv0 co ctx board_conf priv_size lan884x_data_0;
     case dev of
       None \<Rightarrow> State_Monad.return None
     | Some p \<Rightarrow> do {
         upd_data p (\<lambda>d. d\<lparr>l84_port_no := board_numeric_handle board_conf\<rparr>);
         upd_data p (\<lambda>d. d\<lparr>l84_events := 0\<rparr>);
         State_Monad.return (Some p) }}"

definition pfe_reset :: "nat \<Rightarrow> mepa_reset_param \<Rightarrow> ('h, mepa_rc) pfe" where
  "pfe_reset dev rst_conf = do {
     only_if (rst_reset_point rst_conf = MEPA_RESET_POINT_DEFAULT) (do {
       pfe_direct_reg_wr dev LAN8814_BASIC_CONTROL LAN8814_F_BASIC_CTRL_SOFT_RESET
         LAN8814_F_BASIC_CTRL_SOFT_RESET;
       State_Monad.return () });
     MEPA_MSLEEP 1;
     pfe_get_device_info dev;
     State_Monad.return MEPA_RC_OK }"

section \<open>Configuration\<close>

definition pfe_conf_get :: "nat \<Rightarrow> ('h, mepa_rc \<times> mepa_conf) pfe" where
  "pfe_conf_get dev = locked dev (do {
     data \<leftarrow> data_of dev; State_Monad.return (MEPA_RC_OK, l84_conf data) })"

text \<open>The lock is released before the register is written.\<close>

definition pfe_conf_set :: "nat \<Rightarrow> mepa_conf \<Rightarrow> ('h, mepa_rc) pfe" where
  "pfe_conf_set dev config = do {
     locked dev (upd_data dev (\<lambda>d. d\<lparr>l84_conf := config\<rparr>));
     (if conf_admin_enable config
      then pfe_direct_reg_wr dev LAN8814_BASIC_CONTROL 0 LAN8814_F_BASIC_CTRL_SOFT_POW_DOWN
      else pfe_direct_reg_wr dev LAN8814_BASIC_CONTROL LAN8814_F_BASIC_CTRL_SOFT_POW_DOWN
             LAN8814_F_BASIC_CTRL_SOFT_POW_DOWN);
     State_Monad.return MEPA_RC_OK }"

section \<open>The MAC interface\<close>

definition rgmii_mode :: "16 word \<Rightarrow> 16 word \<Rightarrow> mepa_port_interface" where
  "rgmii_mode rxcdll_val txcdll_val =
    (if has_bits rxcdll_val DISABLE_DLL_MASK \<and> has_bits txcdll_val DISABLE_DLL_MASK
     then MESA_PORT_INTERFACE_RGMII
     else if \<not> has_bits rxcdll_val DISABLE_DLL_MASK \<and> has_bits txcdll_val DISABLE_DLL_MASK
     then MESA_PORT_INTERFACE_RGMII_RXID
     else if has_bits rxcdll_val DISABLE_DLL_MASK \<and> \<not> has_bits txcdll_val DISABLE_DLL_MASK
     then MESA_PORT_INTERFACE_RGMII_TXID
     else MESA_PORT_INTERFACE_RGMII_ID)"

definition pfe_if_get ::
  "nat \<Rightarrow> mepa_port_speed \<Rightarrow> mepa_port_interface \<Rightarrow> ('h, mepa_rc \<times> mepa_port_interface) pfe" where
  "pfe_if_get dev speed mac_if = do {
     (rc, v) \<leftarrow> pfe_mmd_reg_rd dev 2 LAN8840_OPERATION_MODE_STRAP_LOW_REGISTER 0;
     if has_bits v LAN8840_STRAP_RGMII_EN then do {
       (rc1, rxcdll_val) \<leftarrow> pfe_mmd_reg_rd dev PFE_MMD_COMMON_CTRL_REG PFE_RXC_DLL_CTRL 0;
       (rc2, txcdll_val) \<leftarrow> pfe_mmd_reg_rd dev PFE_MMD_COMMON_CTRL_REG PFE_TXC_DLL_CTRL 0;
       let rc = rc1 OR rc2;
       if rc \<noteq> MEPA_RC_OK then State_Monad.return (rc, mac_if)
       else State_Monad.return (MEPA_RC_OK, rgmii_mode rxcdll_val txcdll_val) }
     else State_Monad.return (MEPA_RC_OK, MESA_PORT_INTERFACE_GMII) }"

text \<open>The values for the receive and the transmit delay.\<close>

definition rgmii_dll :: "mepa_port_interface \<Rightarrow> (16 word \<times> 16 word) option" where
  "rgmii_dll interface = (case interface of
      MESA_PORT_INTERFACE_RGMII \<Rightarrow> Some (DISABLE_DLL_RX_BIT, DISABLE_DLL_TX_BIT)
    | MESA_PORT_INTERFACE_RGMII_ID \<Rightarrow> Some (PFE_DLL_ENABLE_DELAY, PFE_DLL_ENABLE_DELAY)
    | MESA_PORT_INTERFACE_RGMII_RXID \<Rightarrow> Some (PFE_DLL_ENABLE_DELAY, DISABLE_DLL_TX_BIT)
    | MESA_PORT_INTERFACE_RGMII_TXID \<Rightarrow> Some (DISABLE_DLL_RX_BIT, PFE_DLL_ENABLE_DELAY)
    | _ \<Rightarrow> None)"

definition pfe_config_rgmii_delay :: "nat \<Rightarrow> mepa_port_interface \<Rightarrow> ('h, mepa_rc) pfe" where
  "pfe_config_rgmii_delay dev interface = (case rgmii_dll interface of
      None \<Rightarrow> State_Monad.return 0
    | Some (rxcdll_val, txcdll_val) \<Rightarrow>
        RC_GOTO (pfe_mmd_reg_wr dev PFE_MMD_COMMON_CTRL_REG PFE_RXC_DLL_CTRL rxcdll_val DISABLE_DLL_MASK)
          (pfe_mmd_reg_wr dev PFE_MMD_COMMON_CTRL_REG PFE_TXC_DLL_CTRL txcdll_val DISABLE_DLL_MASK))"

definition pfe_if_set :: "nat \<Rightarrow> mepa_port_interface \<Rightarrow> ('h, mepa_rc) pfe" where
  "pfe_if_set dev mac_if =
    (if mac_if = MESA_PORT_INTERFACE_RGMII \<or> mac_if = MESA_PORT_INTERFACE_RGMII_ID \<or>
        mac_if = MESA_PORT_INTERFACE_RGMII_RXID \<or> mac_if = MESA_PORT_INTERFACE_RGMII_TXID
     then pfe_config_rgmii_delay dev mac_if
     else State_Monad.return MEPA_RC_OK)"

section \<open>Information\<close>

definition pfe_capability :: "nat \<Rightarrow> 32 word \<Rightarrow> ('h, 32 word) pfe" where
  "pfe_capability dev capability =
     State_Monad.return (if capability = MEPA_CAP_SPEED_1G then 1 else 0)"

definition pfe_info_get :: "nat \<Rightarrow> mepa_phy_info \<Rightarrow> ('h, mepa_rc \<times> mepa_phy_info) pfe" where
  "pfe_info_get dev phy_info = do {
     data \<leftarrow> data_of dev;
     c \<leftarrow> pfe_capability dev MEPA_CAP_SPEED_1G;
     State_Monad.return (MEPA_RC_OK, phy_info\<lparr>
       info_part_number := 8841, info_revision := ucast (di84_rev (l84_dev data)),
       info_cap := if c \<noteq> 0 then MEPA_CAP_SPEED_MASK_1G else info_cap phy_info,
       info_manufactor_name := ''Microchip'', info_model_name := ''LAN884X''\<rparr>) }"

section \<open>Polling\<close>

definition pfe_partner :: "mepa_aneg_adv \<Rightarrow> mepa_status \<Rightarrow> 16 word \<Rightarrow> 16 word \<Rightarrow> mepa_status" where
  "pfe_partner aneg status v val2 =
    (if has_bits val2 LAN8814_F_ANEG_MSTR_SLV_STATUS_1000_T_FULL_DUP \<and> adv_speed_1g_fdx aneg
     then status\<lparr>st_speed := MEPA_SPEED_1G, st_fdx := True\<rparr>
     else if has_bits v LAN8814_F_ANEG_LP_BASE_100_X_FULL_DUP \<and> adv_speed_100m_fdx aneg
     then status\<lparr>st_speed := MEPA_SPEED_100M, st_fdx := True\<rparr>
     else if has_bits v LAN8814_F_ANEG_LP_BASE_100_X_HALF_DUP \<and> adv_speed_100m_hdx aneg
     then status\<lparr>st_speed := MEPA_SPEED_100M, st_fdx := False\<rparr>
     else if has_bits v LAN8814_F_ANEG_LP_BASE_10_T_FULL_DUP \<and> adv_speed_10m_fdx aneg
     then status\<lparr>st_speed := MEPA_SPEED_10M, st_fdx := True\<rparr>
     else if has_bits v LAN8814_F_ANEG_LP_BASE_10_T_HALF_DUP \<and> adv_speed_10m_hdx aneg
     then status\<lparr>st_speed := MEPA_SPEED_10M, st_fdx := False\<rparr>
     else status)"

definition pfe_pause :: "bool \<Rightarrow> 16 word \<Rightarrow> mepa_status \<Rightarrow> mepa_status" where
  "pfe_pause flow_control v status =
    (let lp_sym_pause = has_bits v LAN8814_F_ANEG_LP_BASE_SYM_PAUSE;
         lp_asym_pause = has_bits v LAN8814_F_ANEG_LP_BASE_ASYM_PAUSE
     in status\<lparr>st_aneg :=
       \<lparr>aneg_obey_pause = flow_control \<and> (lp_sym_pause \<or> lp_asym_pause),
        aneg_generate_pause = flow_control \<and> lp_sym_pause\<rparr>\<rparr>)"

text \<open>\<open>v\<close> is the basic status register.\<close>

definition pfe_aneg_link :: "bool \<Rightarrow> 16 word \<Rightarrow> mepa_status \<Rightarrow> mepa_status" where
  "pfe_aneg_link near_end v status =
    (let status = status\<lparr>st_speed := MEPA_SPEED_UNDEFINED, st_fdx := True\<rparr>
     in if \<not> near_end \<and> st_link status \<and> \<not> has_bits v LAN8814_F_BASIC_STATUS_ANEG_COMPLETE
        then status\<lparr>st_link := False\<rparr>
        else if near_end then status\<lparr>st_speed := MEPA_SPEED_1G\<rparr> else status)"

definition pfe_poll_aneg :: "nat \<Rightarrow> mepa_status \<Rightarrow> 16 word \<Rightarrow> ('h, mepa_status) pfe" where
  "pfe_poll_aneg dev status v = do {
     data \<leftarrow> data_of dev;
     let near_end = lb_near_end_ena (l84_loopback data);
     let status = pfe_aneg_link near_end v status;
     if \<not> st_link status \<or> near_end then State_Monad.return status else do {
       (_, v) \<leftarrow> pfe_direct_reg_rd dev LAN8814_ANEG_LP_BASE;
       (_, val2) \<leftarrow> pfe_direct_reg_rd dev LAN8814_ANEG_MSTR_SLV_STATUS;
       State_Monad.return (pfe_pause (conf_flow_control (l84_conf data)) v
         (pfe_partner (conf_aneg (l84_conf data)) status v val2)) }}"

definition pfe_poll_forced :: "nat \<Rightarrow> mepa_status \<Rightarrow> ('h, mepa_status) pfe" where
  "pfe_poll_forced dev status = do {
     (_, val2) \<leftarrow> pfe_direct_reg_rd dev LAN8814_BASIC_CONTROL;
     let speed = ((if has_bits val2 LAN8814_F_BASIC_CTRL_SPEED_SEL_BIT_0 then 1 else 0) OR
       push_bit 1 (if has_bits val2 LAN8814_F_BASIC_CTRL_SPEED_SEL_BIT_1 then 1 else 0) :: 8 word);
     State_Monad.return (status\<lparr>
       st_speed := (if speed = 0 then MEPA_SPEED_10M else if speed = 1 then MEPA_SPEED_100M
         else if speed = 2 then MEPA_SPEED_1G else MEPA_SPEED_UNDEFINED),
       st_fdx := has_bits val2 LAN8814_F_BASIC_CTRL_DUP_MODE\<rparr>) }"

definition pfe_poll :: "nat \<Rightarrow> mepa_status \<Rightarrow> ('h, mepa_rc \<times> mepa_status) pfe" where
  "pfe_poll dev status = locked dev (do {
     (_, v) \<leftarrow> pfe_direct_reg_rd dev LAN8814_BASIC_STATUS;
     data \<leftarrow> data_of dev;
     let status = status\<lparr>st_link := has_bits v LAN8814_F_BASIC_STATUS_LINK_STATUS \<or>
       lb_near_end_ena (l84_loopback data)\<rparr>;
     status \<leftarrow> (if conf_speed (l84_conf data) = MEPA_SPEED_AUTO \<or>
                   conf_speed (l84_conf data) = MEPA_SPEED_1G
                then pfe_poll_aneg dev status v else pfe_poll_forced dev status);
     upd_data dev (\<lambda>d. d\<lparr>l84_link_status := st_link status, l84_speed_status := st_speed status,
       l84_fdx_status := st_fdx status\<rparr>);
     State_Monad.return (MEPA_RC_OK, status) })"

definition pfe_aneg_status_get :: "nat \<Rightarrow> ('h, mepa_rc \<times> mepa_aneg_status) pfe" where
  "pfe_aneg_status_get dev = locked dev (do {
     (_, v) \<leftarrow> pfe_direct_reg_rd dev LAN8814_ANEG_MSTR_SLV_STATUS;
     State_Monad.return (MEPA_RC_OK,
       \<lparr>as_master_cfg_fault = has_bits v LAN8814_F_ANEG_MSTR_SLV_STATUS_CFG_FAULT,
        as_master = has_bits v LAN8814_F_ANEG_MSTR_SLV_STATUS_CFG_RES\<rparr>) })"

section \<open>Registers\<close>

definition pfe_direct_reg_read :: "nat \<Rightarrow> 32 word \<Rightarrow> ('h, mepa_rc \<times> 16 word) pfe" where
  "pfe_direct_reg_read dev address =
     locked dev (pfe_direct_reg_rd dev (ucast (address AND 0x1f)))"

definition pfe_direct_reg_write :: "nat \<Rightarrow> 32 word \<Rightarrow> 16 word \<Rightarrow> ('h, mepa_rc) pfe" where
  "pfe_direct_reg_write dev address v =
     locked dev (pfe_direct_reg_wr dev (ucast (address AND 0x1f)) v 0xFFFF)"

definition pfe_ext_mmd_reg_read ::
  "nat \<Rightarrow> 32 word \<Rightarrow> 16 word \<Rightarrow> ('h, mepa_rc \<times> 16 word) pfe" where
  "pfe_ext_mmd_reg_read dev address v0 =
    (let mmd = ucast (drop_bit 16 address AND 0xffff); addr = ucast (address AND 0xffff)
     in locked dev (if mmd \<noteq> 0 then pfe_mmd_reg_rd dev mmd addr v0
                    else State_Monad.return (MEPA_RC_OK, v0)))"

definition pfe_ext_mmd_reg_write :: "nat \<Rightarrow> 32 word \<Rightarrow> 16 word \<Rightarrow> ('h, mepa_rc) pfe" where
  "pfe_ext_mmd_reg_write dev address v =
    (let mmd = ucast (drop_bit 16 address AND 0xffff); addr = ucast (address AND 0xffff)
     in locked dev (if mmd \<noteq> 0 then pfe_mmd_reg_wr dev mmd addr v 0xFFFF
                    else State_Monad.return MEPA_RC_OK))"

section \<open>The driver table\<close>

definition lan884x_driver :: "nat \<Rightarrow> nat \<Rightarrow> ('h, lan884x_data) mepa_driver" where
  "lan884x_driver dev_size priv_size = null_driver\<lparr>
     drv_id := 0x221650,
     drv_mask := 0xfffff0,
     mepa_driver_delete := Some pfe_delete,
     mepa_driver_reset := Some pfe_reset,
     mepa_driver_poll := Some pfe_poll,
     mepa_driver_conf_set := Some pfe_conf_set,
     mepa_driver_conf_get := Some (\<lambda>p _. pfe_conf_get p),
     mepa_driver_if_set := Some pfe_if_set,
     mepa_driver_if_get := Some pfe_if_get,
     mepa_driver_probe := Some (pfe_probe dev_size priv_size),
     mepa_driver_aneg_status_get := Some (\<lambda>p _. pfe_aneg_status_get p),
     mepa_driver_clause22_read := Some (\<lambda>p a1 _. pfe_direct_reg_read p a1),
     mepa_driver_clause22_write := Some pfe_direct_reg_write,
     mepa_driver_clause45_read := Some pfe_ext_mmd_reg_read,
     mepa_driver_clause45_write := Some pfe_ext_mmd_reg_write,
     mepa_driver_capability := Some pfe_capability,
     mepa_driver_phy_info_get := Some pfe_info_get\<rparr>"

definition mepa_lan884x_driver_init :: "nat \<Rightarrow> nat \<Rightarrow> ('h, lan884x_data) mepa_driver list" where
  "mepa_lan884x_driver_init dev_size priv_size = [lan884x_driver dev_size priv_size]"

end
