(* ===== verification/Lan884x_Spec.thy ===== *)
theory Lan884x_Spec
  imports Lan884x_Driver
begin

text \<open>
  What the LAN884x driver does: the accessors, the MAC interface, the configuration and its
  locking, polling.
\<close>

section \<open>The accessors\<close>

text \<open>They are the accessors of the LAN8814 driver under another name.\<close>

lemma pfe_direct_access:
  "pfe_direct_reg_rd = lan8814_direct_reg_rd" "pfe_direct_reg_wr = lan8814_direct_reg_wr"
  by (intro ext; simp add: pfe_direct_reg_rd_def lan8814_direct_reg_rd_def pfe_direct_reg_wr_def
      lan8814_direct_reg_wr_def)+

lemma pfe_mmd_access:
  "pfe_mmd_reg_rd = lan8814_mmd_reg_rd" "pfe_mmd_reg_wr = lan8814_mmd_reg_wr"
  by (intro ext; unfold pfe_mmd_reg_rd_def lan8814_mmd_reg_rd_def pfe_mmd_reg_wr_def
      lan8814_mmd_reg_wr_def pfe_direct_access; rule refl)+

lemmas pfe_access = pfe_direct_access pfe_mmd_access

interpretation pfe_dir: register_access
  "pfe_direct_reg_rd" "pfe_direct_reg_wr" "\<lambda>a. Dir (ucast a)" "\<lambda>a. plain (ucast a)"
  unfolding pfe_access by (rule dir.register_access_axioms)

interpretation pfe_mmd: register_access
  "\<lambda>p r. pfe_mmd_reg_rd p (fst r) (snd r) v0" "\<lambda>p r. pfe_mmd_reg_wr p (fst r) (snd r)"
  "\<lambda>r. Mmd (fst r) (snd r)" "\<lambda>r. five_bit (fst r)"
  for v0 :: "16 word"
  unfolding pfe_access by (rule mmd.register_access_axioms)

lemmas lspec_pfe = pfe_dir.rd_law pfe_dir.wrm_law pfe_mmd.rd_law [where r = "(m, a)" for m a, simplified]
  pfe_mmd.wrm_law [where r = "(m, a)" for m a, simplified]

lemmas bit_merge_pow = bit_merge_single [of 11, simplified] bit_merge_single [of 14, simplified]

section \<open>The MAC interface\<close>

lemma rgmii_mode_bits: "rgmii_mode y z =
    (if bit y 14 then if bit z 14 then MESA_PORT_INTERFACE_RGMII else MESA_PORT_INTERFACE_RGMII_TXID
     else if bit z 14 then MESA_PORT_INTERFACE_RGMII_RXID else MESA_PORT_INTERFACE_RGMII_ID)"
  by (simp add: rgmii_mode_def has_bits_pow)

lemma lspec_if_get:
  assumes "bus_at dv p" "c = callout_ctx (dv p)"
    "\<And>v y z. bit v 0 \<Longrightarrow> Q (MEPA_RC_OK, rgmii_mode y z) D
       [LRd c (Mmd 2 3) v, LRd c (Mmd 2 76) y, LRd c (Mmd 2 77) z]"
    "\<And>v. \<not> bit v 0 \<Longrightarrow> Q (MEPA_RC_OK, MESA_PORT_INTERFACE_GMII) D [LRd c (Mmd 2 3) v]"
  shows "lspec dv (pfe_if_get p sp i0) D Q"
  unfolding pfe_if_get_def
  by (intro lspec_bind lspec_pfe assms(1))
    (use assms(3,4) in \<open>auto simp: five_bit_def has_bits_pow Let_def assms(2)
      intro!: lspec_bind lspec_pfe lspec_return assms(1)\<close>)

lemma lspec_if_set:
  assumes "bus_at dv p" "c = callout_ctx (dv p)" "rgmii_dll i = Some (y, z)"
    "\<And>y0 z0. Q MEPA_RC_OK D [LRd c (Mmd 2 76) y0, LWr c (Mmd 2 76) (merge y0 y 0x4000),
       LRd c (Mmd 2 77) z0, LWr c (Mmd 2 77) (merge z0 z 0x4000)]"
  shows "lspec dv (pfe_if_set p i) D Q"
proof -
  have "lspec dv (pfe_config_rgmii_delay p i) D Q"
    unfolding pfe_config_rgmii_delay_def assms(3) option.case split_conv
    by (intro lspec_RC_GOTO lspec_pfe assms(1))
      (use assms(4) in \<open>auto simp: five_bit_def assms(2) intro!: lspec_pfe assms(1)\<close>)
  then show ?thesis
    using assms(3) by (auto simp: pfe_if_set_def rgmii_dll_def split: mepa_port_interface.splits)
qed

text \<open>
  C36: the MAC interface.  On hardware whose registers answer the value written last, the RGMII
  mode set with \<open>pfe_if_set\<close> is the one that \<open>pfe_if_get\<close> reports when the strap selects RGMII, and
  GMII is reported when it does not; setting writes bit 14 of the two registers and no other.
\<close>

theorem lan884x_if_roundtrip:
  assumes "bus_at (devs w) p" "c = callout_ctx (devs w p)" "rgmii_dll i = Some d"
    and "run_state (do { rc \<leftarrow> pfe_if_set p i; (rc', i') \<leftarrow> pfe_if_get p sp i0;
           State_Monad.return (rc, rc', i') }) w = ((rc, rc', i'), w')"
    and "lops w' = lops w @ ops" "reads_back m ops"
  shows "rc = MEPA_RC_OK \<and> rc' = MEPA_RC_OK \<and>
    i' = (if bit (m (c, Mmd 2 3)) 0 then i else MESA_PORT_INTERFACE_GMII) \<and>
    (\<exists>y z. writes ops = [(Mmd 2 76, y), (Mmd 2 77, z)] \<and>
      (\<forall>k. k \<noteq> 14 \<longrightarrow> bit y k = bit (m (c, Mmd 2 76)) k \<and> bit z k = bit (m (c, Mmd 2 77)) k))"
proof -
  obtain y z where d: "rgmii_dll i = Some (y, z)" using assms(3) by (cases d) auto
  have mode: "rgmii_mode (merge y0 y 0x4000) (merge z0 z 0x4000) = i" for y0 z0
    using d by (auto simp: rgmii_mode_bits bit_merge_pow rgmii_dll_def split: mepa_port_interface.splits)
  have "lspec (devs w) (do { rc \<leftarrow> pfe_if_set p i; (rc', i') \<leftarrow> pfe_if_get p sp i0;
           State_Monad.return (rc, rc', i') }) (priv w)
    (\<lambda>(rc, rc', i') D' ops. reads_back m ops \<longrightarrow> rc = MEPA_RC_OK \<and> rc' = MEPA_RC_OK \<and>
      i' = (if bit (m (c, Mmd 2 3)) 0 then i else MESA_PORT_INTERFACE_GMII) \<and>
      (\<exists>y z. writes ops = [(Mmd 2 76, y), (Mmd 2 77, z)] \<and>
        (\<forall>k. k \<noteq> 14 \<longrightarrow> bit y k = bit (m (c, Mmd 2 76)) k \<and> bit z k = bit (m (c, Mmd 2 77)) k)))"
    by (intro lspec_bind lspec_if_set [OF assms(1,2) d] lspec_if_get [OF assms(1,2)])
      (auto intro!: lspec_return simp: mode bit_merge_pow)
  from lspec_run [OF this assms(4)] assms(5,6) show ?thesis by auto
qed

theorem lan884x_if_roundtrip_witness:
  "let w = sim_world (\<lambda>_. 1) (\<lambda>_. lan884x_data_0);
       m = do { rc \<leftarrow> pfe_if_set 1 MESA_PORT_INTERFACE_RGMII_TXID;
                (rc', i') \<leftarrow> pfe_if_get 1 MEPA_SPEED_1G MESA_PORT_INTERFACE_GMII;
                State_Monad.return (rc, rc', i') }
   in val m w = (MEPA_RC_OK, MEPA_RC_OK, MESA_PORT_INTERFACE_RGMII_TXID)"
proof -
  let ?w = "sim_world (\<lambda>_. 1) (\<lambda>_. lan884x_data_0)"
  let ?m = "do { rc \<leftarrow> pfe_if_set 1 MESA_PORT_INTERFACE_RGMII_TXID;
                (rc', i') \<leftarrow> pfe_if_get 1 MEPA_SPEED_1G MESA_PORT_INTERFACE_GMII;
                State_Monad.return (rc, rc', i') }"
  obtain rc rc' i' where v: "val ?m ?w = (rc, rc', i')" by (metis prod_cases3)
  have rb: "reads_back (\<lambda>_. 1) (lops (exec ?m ?w))"
    by (simp add: pfe_if_set_def pfe_config_rgmii_delay_def rgmii_dll_def pfe_if_get_def pfe_mmd_reg_rd_def
        pfe_mmd_reg_wr_def pfe_direct_reg_rd_def pfe_direct_reg_wr_def RC_GOTO_def MEPA_RC_def has_bits_def
        sim_eval lops_def decode_def dec_init_def dec_write_def dec_read_def Let_def)
  have r: "run_state ?m ?w = ((rc, rc', i'), exec ?m ?w)"
    using v by (simp add: run_state_eq)
  show ?thesis
    using lan884x_if_roundtrip [OF _ _ _ r _ rb, of "callout_ctx (devs ?w 1)"] v
    by (simp add: rgmii_dll_def Let_def)
qed

section \<open>Configuration\<close>

lemma lspec_conf_set84:
  assumes "bus_at dv p" "c = callout_ctx (dv p)"
    "\<And>x. Q MEPA_RC_OK (D(p := (D p)\<lparr>l84_conf := cfg\<rparr>))
       [LRd c (Dir 0) x, LWr c (Dir 0) (merge x (if conf_admin_enable cfg then 0 else 0x800) 0x800)]"
  shows "lspec dv (pfe_conf_set p cfg) D Q"
  unfolding pfe_conf_set_def
  by (intro lspec_bind lspec_locked lspec_upd_data)
    (use assms(3) in \<open>auto simp: plain_def assms(2) intro!: lspec_bind lspec_pfe lspec_return assms(1)\<close>)

text \<open>
  \<open>pfe_conf_set\<close> on a bus that works.  The configuration is stored and is what \<open>pfe_conf_get\<close>
  answers, but of all its settings only the administrative state reaches the chip: one
  read and one write of register 0, which differ in the power-down bit alone.  A forced
  speed, the duplex mode and the advertised abilities are not programmed.
\<close>

theorem lan884x_conf_set_power_only:
  assumes "bus_at (devs w) p" "c = callout_ctx (devs w p)"
    and "run_state (do { rc \<leftarrow> pfe_conf_set p cfg; (_, cfg') \<leftarrow> pfe_conf_get p;
           State_Monad.return (rc, cfg') }) w = ((rc, cfg'), w')"
  shows "rc = MEPA_RC_OK \<and> cfg' = cfg \<and> priv w' = (priv w)(p := (priv w p)\<lparr>l84_conf := cfg\<rparr>) \<and>
    (\<exists>x y. lops w' = lops w @ [LRd c (Dir 0) x, LWr c (Dir 0) y] \<and>
      (\<forall>k. bit y k = (if k = 11 then \<not> conf_admin_enable cfg else bit x k)))"
proof -
  have "lspec (devs w) (do { rc \<leftarrow> pfe_conf_set p cfg; (_, cfg') \<leftarrow> pfe_conf_get p;
           State_Monad.return (rc, cfg') }) (priv w)
    (\<lambda>(rc, cfg') D' ops. rc = MEPA_RC_OK \<and> cfg' = cfg \<and>
      D' = (priv w)(p := (priv w p)\<lparr>l84_conf := cfg\<rparr>) \<and>
      (\<exists>x. ops = [LRd c (Dir 0) x,
         LWr c (Dir 0) (merge x (if conf_admin_enable cfg then 0 else 0x800) 0x800)]))"
    unfolding pfe_conf_get_def
    by (intro lspec_bind lspec_conf_set84 [OF assms(1,2)] lspec_locked lspec_data_of) (auto intro!: lspec_return)
  from lspec_run [OF this assms(3)] show ?thesis
    by (auto simp: bit_merge_pow)
qed

theorem lan884x_conf_set_power_only_witness:
  "let w = sim_world (\<lambda>_. 0xFFFF) (\<lambda>_. lan884x_data_0);
       cfg = mepa_conf_0\<lparr>conf_admin_enable := True, conf_speed := MEPA_SPEED_10M\<rparr>;
       w' = exec (pfe_conf_set 1 cfg) w
   in \<exists>x y. lops w' = [LRd 1 (Dir 0) x, LWr 1 (Dir 0) y] \<and> (bit x 13 \<longrightarrow> bit y 13)"
proof -
  let ?w = "sim_world (\<lambda>_. 0xFFFF) (\<lambda>_. lan884x_data_0)"
  let ?cfg = "mepa_conf_0\<lparr>conf_admin_enable := True, conf_speed := MEPA_SPEED_10M\<rparr>"
  have l: "lops (exec (pfe_conf_get p) w) = lops w" for p and w :: "(sim, lan884x_data) world"
    by (auto simp: pfe_conf_get_def locked_def MEPA_ENTER_def MEPA_EXIT_def prim_simps lops_def split: option.split)
  obtain rc cfg' where v: "val (do { rc \<leftarrow> pfe_conf_set 1 ?cfg; (_, cfg') \<leftarrow> pfe_conf_get 1;
           State_Monad.return (rc, cfg') }) ?w = (rc, cfg')" by fastforce
  show ?thesis
    using lan884x_conf_set_power_only [OF _ refl, where w = ?w and p = 1 and cfg = ?cfg and rc = rc and cfg' = cfg']
      v l by (auto simp: Let_def run_state_eq sim_dev_def split_beta)
qed

section \<open>Accesses outside the lock\<close>

definition at_violated :: "('h, 'd) world \<Rightarrow> bool" where
  "at_violated w = (lock_state (io w) = Lock_Violated)"

definition at_free :: "nat \<Rightarrow> ('h, 'd) world \<Rightarrow> bool" where
  "at_free p w = (lock_state (io w) = Lock_Free \<and> has_locks (devs w p) \<and> bus_present (devs w p))"

interpretation viol: world_invariant at_violated
  by unfold_locales
    (auto simp: moves_def at_violated_def prim_defs prim_simps split: option.splits prod.splits)

lemma free_read: "moves (at_free p) (dev_miim_read p a) at_violated"
  by (auto simp: moves_def at_free_def at_violated_def bus_present_def prim_defs prim_simps split: prod.split)

lemma free_sleep: "keeps (at_free p) (MEPA_MSLEEP n)"
  by (simp add: moves_def at_free_def prim_defs prim_simps)

lemma free_locked_upd: "keeps (at_free p) (locked p (upd_data p f))"
  by (auto simp: moves_def at_free_def locked_def MEPA_ENTER_def MEPA_EXIT_def prim_simps has_locks_def
      lock_state_def)

lemma free_pfe:
  "moves (at_free p) (pfe_direct_reg_rd p a) at_violated"
  "moves (at_free p) (pfe_direct_reg_wr p a v msk) at_violated"
  unfolding pfe_direct_reg_rd_def pfe_direct_reg_wr_def
  by (rule moves_bind [OF free_read]; intro keeps_rules viol.bus_keeps)+

lemmas viol_keeps = viol.reg_keeps [unfolded pfe_access [symmetric]] keeps_RC_GOTO

lemma free_pfe_mmd:
  "moves (at_free p) (pfe_mmd_reg_rd p mmd a v) at_violated"
  "moves (at_free p) (pfe_mmd_reg_wr p mmd a v msk) at_violated"
  unfolding pfe_mmd_reg_rd_def pfe_mmd_reg_wr_def MEPA_RC_def
  by (rule moves_bind [OF free_pfe(2)]; intro keeps_rules viol_keeps)+

text \<open>
  The configuration is set outside the lock.  Called with the lock free on a device with
  all callouts, \<open>pfe_conf_set\<close> violates the lock protocol, and so do \<open>pfe_reset\<close>, \<open>pfe_if_get\<close> and,
  for an RGMII mode, \<open>pfe_if_set\<close>: they access the bus without \<open>MEPA_ENTER\<close>.
\<close>

theorem lan884x_unlocked:
  assumes "has_locks (devs w p)" "bus_present (devs w p)" "lock_state (io w) = Lock_Free"
  shows "lock_state (io (exec (pfe_conf_set p cfg) w)) = Lock_Violated \<and>
    lock_state (io (exec (pfe_reset p rst) w)) = Lock_Violated \<and>
    lock_state (io (exec (pfe_if_get p sp i0) w)) = Lock_Violated \<and>
    (rgmii_dll i \<noteq> None \<longrightarrow> lock_state (io (exec (pfe_if_set p i) w)) = Lock_Violated)"
proof -
  have w: "at_free p w" using assms by (simp add: at_free_def)
  have info: "moves (at_free p) (pfe_get_device_info p) at_violated"
    unfolding pfe_get_device_info_def
    by (rule moves_bind [OF free_pfe(1)]) (intro keeps_rules viol_keeps)
  have "moves (at_free p) (pfe_conf_set p cfg) at_violated"
    unfolding pfe_conf_set_def
    by (rule moves_bind [OF free_locked_upd], rule moves_bind [where Q = at_violated])
      (auto intro!: free_pfe keeps_rules)
  moreover have "moves (at_free p) (pfe_reset p rst) at_violated"
  proof (cases "rst_reset_point rst = MEPA_RESET_POINT_DEFAULT")
    case True
    show ?thesis
      unfolding pfe_reset_def
      by (rule moves_bind [where Q = at_violated])
        (auto simp: True only_if_def pfe_get_device_info_def intro!: moves_bind [OF free_pfe(2)] keeps_rules viol_keeps)
  next
    case False
    show ?thesis
      unfolding pfe_reset_def
      by (rule moves_bind [where Q = "at_free p"])
        (auto simp: False only_if_def intro!: moves_bind [OF free_sleep] moves_bind [OF info] keeps_rules)
  qed
  moreover have "moves (at_free p) (pfe_if_get p sp i0) at_violated"
    unfolding pfe_if_get_def
    by (rule moves_bind [OF free_pfe_mmd(1)]) (intro keeps_rules viol_keeps)
  moreover have "moves (at_free p) (pfe_if_set p i) at_violated" if "rgmii_dll i \<noteq> None"
  proof -
    have "moves (at_free p) (pfe_config_rgmii_delay p i) at_violated"
      using that unfolding pfe_config_rgmii_delay_def RC_GOTO_def
      by (auto intro!: moves_bind [OF free_pfe_mmd(2)] keeps_rules viol_keeps)
    then show ?thesis
      using that by (auto simp: pfe_if_set_def rgmii_dll_def split: mepa_port_interface.splits)
  qed
  ultimately show ?thesis
    using w unfolding moves_def at_violated_def by blast
qed

theorem lan884x_unlocked_witness:
  "lock_state (io (exec (pfe_conf_set 1 mepa_conf_0) (sim_world (\<lambda>_. 0) (\<lambda>_. lan884x_data_0)))) = Lock_Violated"
  using lan884x_unlocked [where w = "sim_world (\<lambda>_. 0) (\<lambda>_. lan884x_data_0)" and p = 1]
  by (simp add: lock_state_def)

section \<open>Polling\<close>

text \<open>The modes that both sides advertise, the best first.\<close>

definition pfe_modes :: "mepa_aneg_adv \<Rightarrow> 16 word \<Rightarrow> 16 word \<Rightarrow> (mepa_port_speed \<times> bool) list" where
  "pfe_modes a v5 v10 = map fst (filter snd [
     ((MEPA_SPEED_1G, True), bit v10 11 \<and> adv_speed_1g_fdx a),
     ((MEPA_SPEED_100M, True), bit v5 8 \<and> adv_speed_100m_fdx a),
     ((MEPA_SPEED_100M, False), bit v5 7 \<and> adv_speed_100m_hdx a),
     ((MEPA_SPEED_10M, True), bit v5 6 \<and> adv_speed_10m_fdx a),
     ((MEPA_SPEED_10M, False), bit v5 5 \<and> adv_speed_10m_hdx a)])"

definition pfe_forced_speed :: "16 word \<Rightarrow> mepa_port_speed" where
  "pfe_forced_speed v0 = (if bit v0 6 then if bit v0 13 then MEPA_SPEED_UNDEFINED else MEPA_SPEED_1G
     else if bit v0 13 then MEPA_SPEED_100M else MEPA_SPEED_10M)"

lemma first_mode:
  "(if b1 then f m1 else if b2 then f m2 else if b3 then f m3 else if b4 then f m4
    else if b5 then f m5 else f m0) =
    f (hd (map fst (filter snd [(m1, b1), (m2, b2), (m3, b3), (m4, b4), (m5, b5)]) @ [m0]))"
  by (cases b1, simp, cases b2, simp, cases b3, simp, cases b4, simp, cases b5, simp_all)

lemma pfe_partner_modes:
  "pfe_partner a st v5 v10 = (case hd (pfe_modes a v5 v10 @ [(st_speed st, st_fdx st)]) of
     (sp, f) \<Rightarrow> st\<lparr>st_speed := sp, st_fdx := f\<rparr>)"
proof -
  have "st\<lparr>st_speed := st_speed st, st_fdx := st_fdx st\<rparr> = st" by simp
  then show ?thesis
    unfolding pfe_modes_def first_mode [where f = "\<lambda>m. case m of (sp, f) \<Rightarrow> st\<lparr>st_speed := sp, st_fdx := f\<rparr>",
        symmetric] pfe_partner_def has_bits_pow prod.case by (simp only:)
qed

lemma pfe_pause_sel [simp]:
  "st_link (pfe_pause fc v st) = st_link st" "st_speed (pfe_pause fc v st) = st_speed st"
  "st_fdx (pfe_pause fc v st) = st_fdx st"
  "aneg_obey_pause (st_aneg (pfe_pause fc v st)) = (fc \<and> (bit v 10 \<or> bit v 11))"
  "aneg_generate_pause (st_aneg (pfe_pause fc v st)) = (fc \<and> bit v 10)"
  by (simp_all add: pfe_pause_def Let_def has_bits_pow)

lemma pfe_aneg_link_cases:
  "pfe_aneg_link near v st = (if near then st\<lparr>st_speed := MEPA_SPEED_1G, st_fdx := True\<rparr>
     else st\<lparr>st_link := st_link st \<and> bit v 5, st_speed := MEPA_SPEED_UNDEFINED, st_fdx := True\<rparr>)"
  by (cases st) (auto simp: pfe_aneg_link_def Let_def has_bits_pow)

lemma lspec_poll_aneg84:
  assumes "bus_at dv p" "c = callout_ctx (dv p)" "d = D p"
    and "s = pfe_aneg_link (lb_near_end_ena (l84_loopback d)) v st"
    and "\<not> st_link s \<or> lb_near_end_ena (l84_loopback d) \<Longrightarrow> Q s D []"
    and "\<And>v5 v10. st_link s \<Longrightarrow> \<not> lb_near_end_ena (l84_loopback d) \<Longrightarrow>
      Q (pfe_pause (conf_flow_control (l84_conf d)) v5 (pfe_partner (conf_aneg (l84_conf d)) s v5 v10)) D
        [LRd c (Dir 5) v5, LRd c (Dir 10) v10]"
  shows "lspec dv (pfe_poll_aneg p st v) D Q"
  unfolding pfe_poll_aneg_def
  by (intro lspec_bind lspec_data_of lspec_let)
    (use assms(5,6) in \<open>auto simp: plain_def assms(2-4) intro!: lspec_if lspec_bind lspec_pfe lspec_return assms(1)\<close>)

text \<open>What a poll reports, with \<open>v1\<close> the basic status and \<open>ops\<close> the further accesses.\<close>

definition pfe_report :: "nat \<Rightarrow> lan884x_data \<Rightarrow> mepa_status \<Rightarrow> mepa_status \<Rightarrow> 16 word \<Rightarrow> lop list \<Rightarrow> bool" where
  "pfe_report c d st st' v1 ops =
    (if conf_speed (l84_conf d) \<in> {MEPA_SPEED_AUTO, MEPA_SPEED_1G} then
       if lb_near_end_ena (l84_loopback d) then
         st' = st\<lparr>st_link := True, st_speed := MEPA_SPEED_1G, st_fdx := True\<rparr> \<and> ops = []
       else if bit v1 2 \<and> bit v1 5 then \<exists>v5 v10.
         ops = [LRd c (Dir 5) v5, LRd c (Dir 10) v10] \<and> st_link st' \<and>
         (st_speed st', st_fdx st') = hd (pfe_modes (conf_aneg (l84_conf d)) v5 v10 @
           [(MEPA_SPEED_UNDEFINED, True)]) \<and>
         aneg_obey_pause (st_aneg st') = (conf_flow_control (l84_conf d) \<and> (bit v5 10 \<or> bit v5 11)) \<and>
         aneg_generate_pause (st_aneg st') = (conf_flow_control (l84_conf d) \<and> bit v5 10)
       else st' = st\<lparr>st_link := False, st_speed := MEPA_SPEED_UNDEFINED, st_fdx := True\<rparr> \<and> ops = []
     else \<exists>v0. ops = [LRd c (Dir 0) v0] \<and>
       st' = st\<lparr>st_link := bit v1 2 \<or> lb_near_end_ena (l84_loopback d),
         st_speed := pfe_forced_speed v0, st_fdx := bit v0 8\<rparr>)"

text \<open>
  C37: what a poll reports on a bus that works, and from which registers.  With
  auto-negotiation: 1G full duplex under a near-end loopback; no link while the link is down or the
  negotiation is incomplete; and else the best mode that both sides advertise, with the
  flow control of the partner.  With a forced speed: what the control register says.  Link, speed
  and duplex mode are stored as reported.
\<close>

theorem lan884x_poll_reports:
  assumes "bus_at (devs w) p" "c = callout_ctx (devs w p)" "d = priv w p"
    and "run_state (pfe_poll p st) w = ((rc, st'), w')"
  shows "rc = MEPA_RC_OK \<and>
    priv w' = (priv w)(p := d\<lparr>l84_link_status := st_link st', l84_speed_status := st_speed st',
      l84_fdx_status := st_fdx st'\<rparr>) \<and>
    (\<exists>v1 ops. lops w' = lops w @ LRd c (Dir 1) v1 # ops \<and> pfe_report c d st st' v1 ops)"
proof -
  let ?st = "\<lambda>v1. st\<lparr>st_link := bit v1 2 \<or> lb_near_end_ena (l84_loopback d)\<rparr>"
  let ?m = "\<lambda>v1. if conf_speed (l84_conf d) = MEPA_SPEED_AUTO \<or> conf_speed (l84_conf d) = MEPA_SPEED_1G
    then pfe_poll_aneg p (?st v1) v1 else pfe_poll_forced p (?st v1)"
  have m: "lspec (devs w) (?m v1) (priv w) (\<lambda>st' D' ops. D' = priv w \<and> pfe_report c d st st' v1 ops)" for v1
  proof (rule lspec_if)
    assume "conf_speed (l84_conf d) = MEPA_SPEED_AUTO \<or> conf_speed (l84_conf d) = MEPA_SPEED_1G"
    then have a: "conf_speed (l84_conf d) \<in> {MEPA_SPEED_AUTO, MEPA_SPEED_1G}" by simp
    show "lspec (devs w) (pfe_poll_aneg p (?st v1) v1) (priv w)
        (\<lambda>st' D' ops. D' = priv w \<and> pfe_report c d st st' v1 ops)"
    proof (rule lspec_poll_aneg84 [where D = "priv w", OF assms(1-3) refl])
      let ?s = "pfe_aneg_link (lb_near_end_ena (l84_loopback d)) v1 (?st v1)"
      assume "\<not> st_link ?s \<or> lb_near_end_ena (l84_loopback d)"
      then show "priv w = priv w \<and> pfe_report c d st ?s v1 []"
        using a by (cases "lb_near_end_ena (l84_loopback d)") (simp_all add: pfe_report_def pfe_aneg_link_cases)
    next
      let ?s = "pfe_aneg_link (lb_near_end_ena (l84_loopback d)) v1 (?st v1)"
      fix v5 v10 assume l: "st_link ?s" "\<not> lb_near_end_ena (l84_loopback d)"
      obtain sp f where m: "hd (pfe_modes (conf_aneg (l84_conf d)) v5 v10 @ [(MEPA_SPEED_UNDEFINED, True)]) = (sp, f)"
        by fastforce
      show "priv w = priv w \<and> pfe_report c d st
          (pfe_pause (conf_flow_control (l84_conf d)) v5 (pfe_partner (conf_aneg (l84_conf d)) ?s v5 v10)) v1
          [LRd c (Dir 5) v5, LRd c (Dir 10) v10]"
        using a l m by (simp add: pfe_report_def pfe_partner_modes pfe_aneg_link_cases)
    qed
  next
    assume "\<not> (conf_speed (l84_conf d) = MEPA_SPEED_AUTO \<or> conf_speed (l84_conf d) = MEPA_SPEED_1G)"
    then show "lspec (devs w) (pfe_poll_forced p (?st v1)) (priv w)
        (\<lambda>st' D' ops. D' = priv w \<and> pfe_report c d st st' v1 ops)"
      unfolding pfe_poll_forced_def
      by (auto simp: pfe_report_def has_bits_pow assms(2) plain_def pfe_forced_speed_def Let_def
          intro!: lspec_bind lspec_pfe lspec_return assms(1))
  qed
  have "lspec (devs w) (pfe_poll p st) (priv w) (\<lambda>(rc, st') D' ops. rc = MEPA_RC_OK \<and>
      D' = (priv w)(p := d\<lparr>l84_link_status := st_link st', l84_speed_status := st_speed st',
        l84_fdx_status := st_fdx st'\<rparr>) \<and>
      (\<exists>v1 ops'. ops = LRd c (Dir 1) v1 # ops' \<and> pfe_report c d st st' v1 ops'))"
    unfolding pfe_poll_def
    apply (intro lspec_locked lspec_bind lspec_pfe assms(1))
     apply (simp add: plain_def)
    apply (unfold split_conv)
    apply (rule lspec_bind, rule lspec_data_of, unfold assms(3) [symmetric])
    apply (rule lspec_let, rule lspec_bind, unfold has_bits_pow)
    apply (rule lspec_mono [OF m])
    apply (auto simp: assms(2,3) intro!: lspec_bind lspec_upd_data lspec_return)
    done
  from lspec_run [OF this assms(4)] show ?thesis by auto
qed

theorem lan884x_poll_reports_witness:
  "let d = lan884x_data_0\<lparr>l84_conf := mepa_conf_0\<lparr>conf_speed := MEPA_SPEED_100M\<rparr>\<rparr>;
       w = sim_world (\<lambda>_. 0x2004) (\<lambda>_. d); st' = snd (val (pfe_poll 1 mepa_status_0) w)
   in \<exists>v1 v0. lops (exec (pfe_poll 1 mepa_status_0) w) = [LRd 1 (Dir 1) v1, LRd 1 (Dir 0) v0] \<and>
      st_link st' = bit v1 2 \<and> st_speed st' = pfe_forced_speed v0 \<and> st_fdx st' = bit v0 8"
proof -
  let ?d = "lan884x_data_0\<lparr>l84_conf := mepa_conf_0\<lparr>conf_speed := MEPA_SPEED_100M\<rparr>\<rparr>"
  let ?w = "sim_world (\<lambda>_. 0x2004) (\<lambda>_. ?d)"
  obtain rc st' where v: "val (pfe_poll 1 mepa_status_0) ?w = (rc, st')" by fastforce
  show ?thesis
    using lan884x_poll_reports [OF _ refl refl, where w = ?w and p = 1 and st = mepa_status_0 and rc = rc and st' = st']
      v by (auto simp: Let_def run_state_eq sim_dev_def pfe_report_def lan884x_data_0_def mepa_loopback_0_def)
qed

end
