(* ===== verification/Lan8770_Regs.thy ===== *)
theory Lan8770_Regs
  imports Mepa_Driver Mepa_Flow Phy_Lib
begin

text \<open>
  The LAN8770, a 100BASE-T1 PHY (\<open>mepa/microchip/lan8770/src/\<close>): registers (\<open>lan8770_registers.h\<close>), private
  data (\<open>lan8770_private.h\<close>) and register access (\<open>lan8770_private.c\<close>).  Bank 0 is the registers of
  clause 22.  The other banks are reached through register 20, which holds the address and two control
  bits, and registers 21 and 22 for the data.
\<close>

section \<open>Constants\<close>

abbreviation (input) LAN8770_PHY_BANK_SMI :: "16 word" where
  "LAN8770_PHY_BANK_SMI \<equiv> 0"
abbreviation (input) LAN8770_PHY_BANK_MISC :: "16 word" where
  "LAN8770_PHY_BANK_MISC \<equiv> 1"
abbreviation (input) LAN8770_PHY_BANK_PCS :: "16 word" where
  "LAN8770_PHY_BANK_PCS \<equiv> 2"
abbreviation (input) LAN8770_PHY_BANK_AFE :: "16 word" where
  "LAN8770_PHY_BANK_AFE \<equiv> 3"
abbreviation (input) LAN8770_PHY_BANK_DSP :: "16 word" where
  "LAN8770_PHY_BANK_DSP \<equiv> 4"
abbreviation (input) LAN8770_PHY_BANK_INSTRUMENT :: "16 word" where
  "LAN8770_PHY_BANK_INSTRUMENT \<equiv> 5"
abbreviation (input) LAN8770_BASIC_CONTROL_OFFSET :: "16 word" where
  "LAN8770_BASIC_CONTROL_OFFSET \<equiv> 0"
abbreviation (input) LAN8770_BASIC_CTRL_DUPLEX_MODE :: "16 word" where
  "LAN8770_BASIC_CTRL_DUPLEX_MODE \<equiv> 0x100"
abbreviation (input) LAN8770_BASIC_CTRL_ISOLATE :: "16 word" where
  "LAN8770_BASIC_CTRL_ISOLATE \<equiv> 0x400"
abbreviation (input) LAN8770_BASIC_CTRL_POWER_DOWN :: "16 word" where
  "LAN8770_BASIC_CTRL_POWER_DOWN \<equiv> 0x800"
abbreviation (input) LAN8770_BASIC_CTRL_SPEED_SEL_LSB :: "16 word" where
  "LAN8770_BASIC_CTRL_SPEED_SEL_LSB \<equiv> 0x2000"
abbreviation (input) LAN8770_BASIC_CTRL_PCS_LOOPBACK :: "16 word" where
  "LAN8770_BASIC_CTRL_PCS_LOOPBACK \<equiv> 0x4000"
abbreviation (input) LAN8770_BASIC_CTRL_SW_RESET :: "16 word" where
  "LAN8770_BASIC_CTRL_SW_RESET \<equiv> 0x8000"
abbreviation (input) LAN8770_PHY_ID1_OFFSET :: "16 word" where
  "LAN8770_PHY_ID1_OFFSET \<equiv> 2"
abbreviation (input) LAN8770_PHY_ID2_OFFSET :: "16 word" where
  "LAN8770_PHY_ID2_OFFSET \<equiv> 3"
abbreviation (input) LAN8770_MASTER_SLAVE_CTRL_OFFSET :: "16 word" where
  "LAN8770_MASTER_SLAVE_CTRL_OFFSET \<equiv> 9"
abbreviation (input) LAN8770_MASTER_SLAVE_CTRL_MAN_CFG_VAL :: "16 word" where
  "LAN8770_MASTER_SLAVE_CTRL_MAN_CFG_VAL \<equiv> 0x800"
abbreviation (input) LAN8770_MASTER_SLAVE_CTRL_MAN_CFG_EN :: "16 word" where
  "LAN8770_MASTER_SLAVE_CTRL_MAN_CFG_EN \<equiv> 0x1000"
abbreviation (input) LAN8770_MASTER_SLAVE_STATUS_OFFSET :: "16 word" where
  "LAN8770_MASTER_SLAVE_STATUS_OFFSET \<equiv> 0xA"
abbreviation (input) LAN8770_MASTER_SLAVE_STATUS_CFG_RESOL :: "16 word" where
  "LAN8770_MASTER_SLAVE_STATUS_CFG_RESOL \<equiv> 0x4000"
abbreviation (input) LAN8770_MASTER_SLAVE_STATUS_CFG_FAULT :: "16 word" where
  "LAN8770_MASTER_SLAVE_STATUS_CFG_FAULT \<equiv> 0x8000"
abbreviation (input) LAN8770_MDIO_CTRL2_OFFSET :: "16 word" where
  "LAN8770_MDIO_CTRL2_OFFSET \<equiv> 0x10"
abbreviation (input) LAN8770_MDIO_CTRL2_EN_DET_MST_MODE :: "16 word" where
  "LAN8770_MDIO_CTRL2_EN_DET_MST_MODE \<equiv> 0x40"
abbreviation (input) LAN8770_MDIO_CTRL2_SLEEP_REQ :: "16 word" where
  "LAN8770_MDIO_CTRL2_SLEEP_REQ \<equiv> 0x1000"
abbreviation (input) LAN8770_MDIO_CTRL2_WAKE_REQ :: "16 word" where
  "LAN8770_MDIO_CTRL2_WAKE_REQ \<equiv> 0x2000"
abbreviation (input) LAN8770_MODE_STATUS_OFFSET :: "16 word" where
  "LAN8770_MODE_STATUS_OFFSET \<equiv> 0x11"
abbreviation (input) LAN8770_LOOPBACK_CTRL_OFFSET :: "16 word" where
  "LAN8770_LOOPBACK_CTRL_OFFSET \<equiv> 0x12"
abbreviation (input) LAN8770_LPBK_CTRL_PMA :: "16 word" where
  "LAN8770_LPBK_CTRL_PMA \<equiv> 1"
abbreviation (input) LAN8770_LPBK_CTRL_FAR :: "16 word" where
  "LAN8770_LPBK_CTRL_FAR \<equiv> 0x200"
abbreviation (input) LAN8770_EXT_REG_CTRL_OFFSET :: "16 word" where
  "LAN8770_EXT_REG_CTRL_OFFSET \<equiv> 0x14"
abbreviation (input) LAN8770_EXT_REG_CTRL_WRT_CTRL :: "16 word" where
  "LAN8770_EXT_REG_CTRL_WRT_CTRL \<equiv> 0x800"
abbreviation (input) LAN8770_EXT_REG_CTRL_READ_CTRL :: "16 word" where
  "LAN8770_EXT_REG_CTRL_READ_CTRL \<equiv> 0x1000"
abbreviation (input) LAN8770_EXT_REG_RD_DATA :: "16 word" where
  "LAN8770_EXT_REG_RD_DATA \<equiv> 0x15"
abbreviation (input) LAN8770_EXT_REG_WR_DATA :: "16 word" where
  "LAN8770_EXT_REG_WR_DATA \<equiv> 0x16"
abbreviation (input) LAN8770_PCS_CTRL_OFFSET :: "16 word" where
  "LAN8770_PCS_CTRL_OFFSET \<equiv> 0x17"
abbreviation (input) LAN8770_INTR_SRC_OFFSET :: "16 word" where
  "LAN8770_INTR_SRC_OFFSET \<equiv> 0x18"
abbreviation (input) LAN8770_INTR_MASK_OFFSET :: "16 word" where
  "LAN8770_INTR_MASK_OFFSET \<equiv> 0x19"
abbreviation (input) LAN8770_POWER_DOWN_CTRL_OFFSET :: "16 word" where
  "LAN8770_POWER_DOWN_CTRL_OFFSET \<equiv> 0x1A"
abbreviation (input) LAN8770_POWER_DOWN_CTRL_HW_INIT_EN :: "16 word" where
  "LAN8770_POWER_DOWN_CTRL_HW_INIT_EN \<equiv> 0x100"
abbreviation (input) LAN8770_POWER_DOWN_CTRL_FORCE_TX_EN :: "16 word" where
  "LAN8770_POWER_DOWN_CTRL_FORCE_TX_EN \<equiv> 0x200"
abbreviation (input) LAN8770_MISC_INT2_SRC_OFFSET :: "16 word" where
  "LAN8770_MISC_INT2_SRC_OFFSET \<equiv> 8"
abbreviation (input) LAN8770_MISC_INT2_MASK_OFFSET :: "16 word" where
  "LAN8770_MISC_INT2_MASK_OFFSET \<equiv> 9"
abbreviation (input) LAN8770_MISC_CTRL_0_OFFSET :: "16 word" where
  "LAN8770_MISC_CTRL_0_OFFSET \<equiv> 0x10"
abbreviation (input) LAN8770_MISC_CTRL_0_LED_DIS :: "16 word" where
  "LAN8770_MISC_CTRL_0_LED_DIS \<equiv> 8"
abbreviation (input) LAN8770_MISC_CTRL_0_LED_MODE_ACTIVITY :: "16 word" where
  "LAN8770_MISC_CTRL_0_LED_MODE_ACTIVITY \<equiv> 3"
abbreviation (input) LAN8770_MISC_CTRL_0_LED_MODE_RX_ACTIVITY :: "16 word" where
  "LAN8770_MISC_CTRL_0_LED_MODE_RX_ACTIVITY \<equiv> 4"
abbreviation (input) LAN8770_MISC_CTRL_0_LED_MODE_TX_ACTIVITY :: "16 word" where
  "LAN8770_MISC_CTRL_0_LED_MODE_TX_ACTIVITY \<equiv> 5"
abbreviation (input) LAN8770_MISC_CTRL_0_LED_MODE_SLAVE :: "16 word" where
  "LAN8770_MISC_CTRL_0_LED_MODE_SLAVE \<equiv> 6"
abbreviation (input) LAN8770_MISC_CTRL_0_LED_MODE_MASTER :: "16 word" where
  "LAN8770_MISC_CTRL_0_LED_MODE_MASTER \<equiv> 7"
abbreviation (input) LAN8770_MISC_WKP_COM_CTL0_OFFSET :: "16 word" where
  "LAN8770_MISC_WKP_COM_CTL0_OFFSET \<equiv> 0x20"
abbreviation (input) LAN8770_MISC_WKP_COM_CTL0_WK_IN_EN :: "16 word" where
  "LAN8770_MISC_WKP_COM_CTL0_WK_IN_EN \<equiv> 1"
abbreviation (input) LAN8770_MISC_WKP_COM_CTL0_WK_OUT_AUTO_FWD_EN :: "16 word" where
  "LAN8770_MISC_WKP_COM_CTL0_WK_OUT_AUTO_FWD_EN \<equiv> 0x80"
abbreviation (input) LAN8770_MISC_WKP_COM_CTL0_WK_IN_POL_ACTIVE_LOW :: "16 word" where
  "LAN8770_MISC_WKP_COM_CTL0_WK_IN_POL_ACTIVE_LOW \<equiv> 0x1000"
abbreviation (input) LAN8770_MISC_WKP_COM_CTL0_WK_OUT_POL_ACTIVE_LOW :: "16 word" where
  "LAN8770_MISC_WKP_COM_CTL0_WK_OUT_POL_ACTIVE_LOW \<equiv> 0x800"
abbreviation (input) LAN8770_MISC_WKP_COM_CTL0_WK_OUT_MODE_PUSH_PULL :: "16 word" where
  "LAN8770_MISC_WKP_COM_CTL0_WK_OUT_MODE_PUSH_PULL \<equiv> 0"
abbreviation (input) LAN8770_MISC_WKP_COM_CTL0_WK_OUT_MODE_OPEN_SOURCE :: "16 word" where
  "LAN8770_MISC_WKP_COM_CTL0_WK_OUT_MODE_OPEN_SOURCE \<equiv> 1"
abbreviation (input) LAN8770_MISC_WKP_COM_CTL0_WK_OUT_MODE_OPEN_DRAIN :: "16 word" where
  "LAN8770_MISC_WKP_COM_CTL0_WK_OUT_MODE_OPEN_DRAIN \<equiv> 2"
abbreviation (input) LAN8770_MISC_WKP_COM_CTL0_INH_MODE_OPEN_DRAIN :: "16 word" where
  "LAN8770_MISC_WKP_COM_CTL0_INH_MODE_OPEN_DRAIN \<equiv> 0x100"
abbreviation (input) LAN8770_MISC_WKP_COM_CTL0_VBAT_COMM_WR :: "16 word" where
  "LAN8770_MISC_WKP_COM_CTL0_VBAT_COMM_WR \<equiv> 0x8000"
abbreviation (input) LAN8770_MISC_WKP_COM_CTL1_OFFSET :: "16 word" where
  "LAN8770_MISC_WKP_COM_CTL1_OFFSET \<equiv> 0x21"
abbreviation (input) LAN8770_MISC_WKP_DBG_STS_OFFSET :: "16 word" where
  "LAN8770_MISC_WKP_DBG_STS_OFFSET \<equiv> 0x22"
abbreviation (input) LAN8770_MISC_WKP_DBG_STS_TC10_STATE_START :: "16 word" where
  "LAN8770_MISC_WKP_DBG_STS_TC10_STATE_START \<equiv> 0"
abbreviation (input) LAN8770_MISC_WKP_DBG_STS_TC10_STATE_NORMAL :: "16 word" where
  "LAN8770_MISC_WKP_DBG_STS_TC10_STATE_NORMAL \<equiv> 1"
abbreviation (input) LAN8770_MISC_WKP_DBG_STS_TC10_STATE_SLEEP_ACK :: "16 word" where
  "LAN8770_MISC_WKP_DBG_STS_TC10_STATE_SLEEP_ACK \<equiv> 2"
abbreviation (input) LAN8770_MISC_WKP_DBG_STS_TC10_STATE_SLEEP_REQ :: "16 word" where
  "LAN8770_MISC_WKP_DBG_STS_TC10_STATE_SLEEP_REQ \<equiv> 3"
abbreviation (input) LAN8770_MISC_WKP_DBG_STS_TC10_STATE_SLEEP_FAIL :: "16 word" where
  "LAN8770_MISC_WKP_DBG_STS_TC10_STATE_SLEEP_FAIL \<equiv> 4"
abbreviation (input) LAN8770_MISC_WKP_DBG_STS_TC10_STATE_SLEEP_SILENT :: "16 word" where
  "LAN8770_MISC_WKP_DBG_STS_TC10_STATE_SLEEP_SILENT \<equiv> 5"
abbreviation (input) LAN8770_MISC_WKP_DBG_STS_TC10_STATE_SLEEP :: "16 word" where
  "LAN8770_MISC_WKP_DBG_STS_TC10_STATE_SLEEP \<equiv> 6"
abbreviation (input) LAN8770_MISC_WKP_PRT_CTL1_OFFSET :: "16 word" where
  "LAN8770_MISC_WKP_PRT_CTL1_OFFSET \<equiv> 0x24"
abbreviation (input) LAN8770_MISC_WKP_PRT_CTL1_WK_MDI_EN :: "16 word" where
  "LAN8770_MISC_WKP_PRT_CTL1_WK_MDI_EN \<equiv> 0x100"
abbreviation (input) LAN8770_MISC_WKP_PTR_CTL1_WUP_AUTO_FWD_EN :: "16 word" where
  "LAN8770_MISC_WKP_PTR_CTL1_WUP_AUTO_FWD_EN \<equiv> 0x1000"
abbreviation (input) LAN8770_MISC_WKP_PRT_CTL1_VBAT_PORT_WR :: "16 word" where
  "LAN8770_MISC_WKP_PRT_CTL1_VBAT_PORT_WR \<equiv> 0x8000"
abbreviation (input) LAN8770_MISC_WKP_PRT_CTL2_OFFSET :: "16 word" where
  "LAN8770_MISC_WKP_PRT_CTL2_OFFSET \<equiv> 0x25"
abbreviation (input) LAN8770_PCS_DESCM_CONTROL0 :: "16 word" where
  "LAN8770_PCS_DESCM_CONTROL0 \<equiv> 0"
abbreviation (input) LAN8770_PCS_DEBUG_BUS_STS_OFFSET :: "16 word" where
  "LAN8770_PCS_DEBUG_BUS_STS_OFFSET \<equiv> 0x16"
abbreviation (input) LAN8770_PCS_SLEEP_WAKE_CTL_OFFSET :: "16 word" where
  "LAN8770_PCS_SLEEP_WAKE_CTL_OFFSET \<equiv> 0x1B"
abbreviation (input) LAN8770_PCS_SLEEP_WAKE_CTL_SLEEP_REJECT_EN :: "16 word" where
  "LAN8770_PCS_SLEEP_WAKE_CTL_SLEEP_REJECT_EN \<equiv> 0x10"
abbreviation (input) LAN8770_PCS_SLEEP_WAKE_DET_OFFSET :: "16 word" where
  "LAN8770_PCS_SLEEP_WAKE_DET_OFFSET \<equiv> 0x20"
abbreviation (input) LAN8770_AFE_PORT_CFG1_OFFSET :: "16 word" where
  "LAN8770_AFE_PORT_CFG1_OFFSET \<equiv> 0xB"
abbreviation (input) LAN8770_AFE_AFE_PORT_CFG4_OFFSET :: "16 word" where
  "LAN8770_AFE_AFE_PORT_CFG4_OFFSET \<equiv> 0xE"
abbreviation (input) LAN8770_TX_RX_FIFO_CFG :: "16 word" where
  "LAN8770_TX_RX_FIFO_CFG \<equiv> 2"
abbreviation (input) LAN8770_DSP_CDR_CFG_PRE_LOCK :: "16 word" where
  "LAN8770_DSP_CDR_CFG_PRE_LOCK \<equiv> 5"
abbreviation (input) LAN8770_DSP_CDR_CFG_POST_LOCK :: "16 word" where
  "LAN8770_DSP_CDR_CFG_POST_LOCK \<equiv> 6"
abbreviation (input) LAN8770_DSP_COEF_RW_CTL_CFG_OFFSET :: "16 word" where
  "LAN8770_DSP_COEF_RW_CTL_CFG_OFFSET \<equiv> 0xD"
abbreviation (input) LAN8770_DSP_COEF_RW_CTL_CFG_POKE_DIS :: "16 word" where
  "LAN8770_DSP_COEF_RW_CTL_CFG_POKE_DIS \<equiv> 1"
abbreviation (input) LAN8770_DSP_EQU_LOCK_STG1_THR :: "16 word" where
  "LAN8770_DSP_EQU_LOCK_STG1_THR \<equiv> 0x11"
abbreviation (input) LAN8770_DSP_SLV_HD_MULT_CFG :: "16 word" where
  "LAN8770_DSP_SLV_HD_MULT_CFG \<equiv> 0x17"
abbreviation (input) LAN8770_DSP_SLV_FD_MULT_CFG :: "16 word" where
  "LAN8770_DSP_SLV_FD_MULT_CFG \<equiv> 0x18"
abbreviation (input) LAN8770_DSP_LCK_STG2_MUFACT_CFG :: "16 word" where
  "LAN8770_DSP_LCK_STG2_MUFACT_CFG \<equiv> 0x1A"
abbreviation (input) LAN8770_DSP_LCK_STG3_MUFACT_CFG :: "16 word" where
  "LAN8770_DSP_LCK_STG3_MUFACT_CFG \<equiv> 0x1B"
abbreviation (input) LAN8770_DSP_POST_LCK_MUFACT_CFG :: "16 word" where
  "LAN8770_DSP_POST_LCK_MUFACT_CFG \<equiv> 0x1C"
abbreviation (input) LAN8770_DSP_COEF_PROT_DIS :: "16 word" where
  "LAN8770_DSP_COEF_PROT_DIS \<equiv> 0x25"
abbreviation (input) LAN8770_DSP_SQI_SQU_MEAN_MSB_OFFSET :: "16 word" where
  "LAN8770_DSP_SQI_SQU_MEAN_MSB_OFFSET \<equiv> 0x83"
abbreviation (input) LAN8770_DSP_DFE_TAP1_INIT_COEF :: "16 word" where
  "LAN8770_DSP_DFE_TAP1_INIT_COEF \<equiv> 0x22"
abbreviation (input) LAN8770_DSP_SQI_CONFIG :: "16 word" where
  "LAN8770_DSP_SQI_CONFIG \<equiv> 0x2E"
abbreviation (input) LAN8770_DSP_CALIB_CFG :: "16 word" where
  "LAN8770_DSP_CALIB_CFG \<equiv> 0x37"
abbreviation (input) LAN8770_DSP_MAX_PGA_GAIN :: "16 word" where
  "LAN8770_DSP_MAX_PGA_GAIN \<equiv> 0x4F"
abbreviation (input) LAN8770_DSP_KP_LOOP_SAT_CFG :: "16 word" where
  "LAN8770_DSP_KP_LOOP_SAT_CFG \<equiv> 0x54"
abbreviation (input) LAN8770_DSP_TX_LPF_FIR_CFG :: "16 word" where
  "LAN8770_DSP_TX_LPF_FIR_CFG \<equiv> 0x55"
abbreviation (input) LAN8770_DSP_CABLE_DIAG_STS_CTL :: "16 word" where
  "LAN8770_DSP_CABLE_DIAG_STS_CTL \<equiv> 0x5A"
abbreviation (input) LAN8770_DSP_CABLE_DIAG_PGA_THR :: "16 word" where
  "LAN8770_DSP_CABLE_DIAG_PGA_THR \<equiv> 0x5C"
abbreviation (input) LAN8770_DSP_CABLE_DIAG_MIN_WAIT_CFG :: "16 word" where
  "LAN8770_DSP_CABLE_DIAG_MIN_WAIT_CFG \<equiv> 0x5D"
abbreviation (input) LAN8770_DSP_CABLE_DIAG_MAX_WAIT_CFG :: "16 word" where
  "LAN8770_DSP_CABLE_DIAG_MAX_WAIT_CFG \<equiv> 0x5E"
abbreviation (input) LAN8770_DSP_CABLE_DIAG_CYC_WAIT_CFG :: "16 word" where
  "LAN8770_DSP_CABLE_DIAG_CYC_WAIT_CFG \<equiv> 0x5F"
abbreviation (input) LAN8770_DSP_EQ_FD_STG1_FRZ_CFG :: "16 word" where
  "LAN8770_DSP_EQ_FD_STG1_FRZ_CFG \<equiv> 0x69"
abbreviation (input) LAN8770_DSP_EQ_FD_STG2_FRZ_CFG :: "16 word" where
  "LAN8770_DSP_EQ_FD_STG2_FRZ_CFG \<equiv> 0x6A"
abbreviation (input) LAN8770_DSP_EQ_FD_STG3_FRZ_CFG :: "16 word" where
  "LAN8770_DSP_EQ_FD_STG3_FRZ_CFG \<equiv> 0x6B"
abbreviation (input) LAN8770_DSP_EQ_FD_STG4_FRZ_CFG :: "16 word" where
  "LAN8770_DSP_EQ_FD_STG4_FRZ_CFG \<equiv> 0x6C"
abbreviation (input) LAN8770_EQ_WT_FD_LCK_FRZ_CFG :: "16 word" where
  "LAN8770_EQ_WT_FD_LCK_FRZ_CFG \<equiv> 0x6D"
abbreviation (input) LAN8770_PST_EQ_LCK_STG1_FRZ_CFG :: "16 word" where
  "LAN8770_PST_EQ_LCK_STG1_FRZ_CFG \<equiv> 0x6E"
abbreviation (input) LAN8770_DSP_CABLE_DIAG_GAIN_IDX :: "16 word" where
  "LAN8770_DSP_CABLE_DIAG_GAIN_IDX \<equiv> 0x97"
abbreviation (input) LAN8770_DSP_CABLE_DIAG_PEAK :: "16 word" where
  "LAN8770_DSP_CABLE_DIAG_PEAK \<equiv> 0x99"
abbreviation (input) LAN8770_DSP_CABLE_DIAG_NEG_PEAK :: "16 word" where
  "LAN8770_DSP_CABLE_DIAG_NEG_PEAK \<equiv> 0x9A"
abbreviation (input) LAN8770_DSP_CABLE_DIAG_PEAK_TIME :: "16 word" where
  "LAN8770_DSP_CABLE_DIAG_PEAK_TIME \<equiv> 0x9C"
abbreviation (input) LAN8770_DSP_CABLE_DIAG_NEG_PEAK_TIME :: "16 word" where
  "LAN8770_DSP_CABLE_DIAG_NEG_PEAK_TIME \<equiv> 0x9D"
abbreviation (input) LAN8770_INTR_BIT_LEN :: nat where
  "LAN8770_INTR_BIT_LEN \<equiv> 8"
abbreviation (input) MAX_LAN8770_PHY :: nat where
  "MAX_LAN8770_PHY \<equiv> 9"
abbreviation (input) LAN8770_PHY_ID_MASK :: "32 word" where
  "LAN8770_PHY_ID_MASK \<equiv> 0xFFFFF0"
abbreviation (input) LAN8770_PHY_ID :: "32 word" where
  "LAN8770_PHY_ID \<equiv> 0x7C150"
abbreviation (input) LAN8770_PHY_ID_LAN938X :: "32 word" where
  "LAN8770_PHY_ID_LAN938X \<equiv> 0x7C1A0"
abbreviation (input) LAN8770_PHY_ID_LAN937X :: "32 word" where
  "LAN8770_PHY_ID_LAN937X \<equiv> 0x7C180"
abbreviation (input) LAN8770_PHY_ID_LAN937X_TC10 :: "32 word" where
  "LAN8770_PHY_ID_LAN937X_TC10 \<equiv> 0x74180"

section \<open>Private data\<close>

record lan8770_dev_info =
  di70_id :: "32 word"
  di70_model :: "8 word"
  di70_rev :: "8 word"
  di70_is_master :: bool
  di70_is_master_fault :: bool

record lan8770_tc10_data =
  t70_sleep_enable :: bool
  t70_wakeup_mode :: mepa_tc10_wakeup_mode
  t70_wakeup_fwd_mode :: mepa_tc10_wakeup_fwd_mode
  t70_wake_in_pol :: mepa_gpio_mode
  t70_wake_out_pol :: mepa_gpio_mode
  t70_wake_out_mode :: mepa_gpio_mode
  t70_inh_mode :: mepa_gpio_mode

record lan8770_data =
  l70_init_done :: bool
  l70_phy_aneg_dis :: bool
  l70_link_status :: bool
  l70_port_no :: "32 word"
  l70_mac_if :: mepa_port_interface
  l70_media_intf :: mepa_media_interface
  l70_conf :: mepa_conf
  l70_events :: mepa_event
  l70_loopback :: mepa_loopback
  l70_dev :: lan8770_dev_info
  l70_ctx_status :: bool
  l70_cdiags_start :: bool
  l70_tc10 :: lan8770_tc10_data

type_synonym ('h, 'a) l70 = "('h, lan8770_data, 'a) mepa"

text \<open>The data after \<open>memset\<close>, which is also the content of the static array at the start.\<close>

definition lan8770_data_0 :: lan8770_data where
  "lan8770_data_0 = \<lparr>l70_init_done = False, l70_phy_aneg_dis = False, l70_link_status = False,
     l70_port_no = 0, l70_mac_if = MESA_PORT_INTERFACE_NO_CONNECTION,
     l70_media_intf = MESA_PHY_MEDIA_IF_CU, l70_conf = mepa_conf_0, l70_events = 0,
     l70_loopback = mepa_loopback_0,
     l70_dev = \<lparr>di70_id = 0, di70_model = 0, di70_rev = 0, di70_is_master = False,
       di70_is_master_fault = False\<rparr>,
     l70_ctx_status = False, l70_cdiags_start = False,
     l70_tc10 = \<lparr>t70_sleep_enable = False, t70_wakeup_mode = MEPA_TC10_WAKEUP_DISABLE,
       t70_wakeup_fwd_mode = MEPA_TC10_WAKEUP_FWD_DISABLE, t70_wake_in_pol = MEPA_GPIO_MODE_NONE,
       t70_wake_out_pol = MEPA_GPIO_MODE_NONE, t70_wake_out_mode = MEPA_GPIO_MODE_NONE,
       t70_inh_mode = MEPA_GPIO_MODE_NONE\<rparr>\<rparr>"

definition upd_conf70 :: "nat \<Rightarrow> (mepa_conf \<Rightarrow> mepa_conf) \<Rightarrow> ('h, unit) l70" where
  "upd_conf70 dev f = upd_data dev (\<lambda>d. d\<lparr>l70_conf := f (l70_conf d)\<rparr>)"

definition upd_tc70 :: "nat \<Rightarrow> (lan8770_tc10_data \<Rightarrow> lan8770_tc10_data) \<Rightarrow> ('h, unit) l70" where
  "upd_tc70 dev f = upd_data dev (\<lambda>d. d\<lparr>l70_tc10 := f (l70_tc10 d)\<rparr>)"

definition upd_dev70 :: "nat \<Rightarrow> (lan8770_dev_info \<Rightarrow> lan8770_dev_info) \<Rightarrow> ('h, unit) l70" where
  "upd_dev70 dev f = upd_data dev (\<lambda>d. d\<lparr>l70_dev := f (l70_dev d)\<rparr>)"

section \<open>Direct registers\<close>

text \<open>\<open>v0\<close> is the content of the out-parameter before the call.\<close>

definition lan8770_phy_direct_reg_rd ::
  "nat \<Rightarrow> 16 word \<Rightarrow> 16 word \<Rightarrow> ('h, 'd, mepa_rc \<times> 16 word) mepa" where
  "lan8770_phy_direct_reg_rd dev offset v0 = do {
     d \<leftarrow> dev_of dev;
     if miim_read (callout d) \<noteq> None then dev_miim_read dev (ucast offset)
     else State_Monad.return (MEPA_RC_NOT_IMPLEMENTED, v0) }"

definition lan8770_phy_direct_reg_wr ::
  "nat \<Rightarrow> 16 word \<Rightarrow> 16 word \<Rightarrow> ('h, 'd, mepa_rc) mepa" where
  "lan8770_phy_direct_reg_wr dev offset v = do {
     d \<leftarrow> dev_of dev;
     if miim_write (callout d) \<noteq> None then dev_miim_write dev (ucast offset) v
     else State_Monad.return MEPA_RC_NOT_IMPLEMENTED }"

definition lan8770_phy_direct_read_mod_write_register ::
  "nat \<Rightarrow> 16 word \<Rightarrow> 16 word \<Rightarrow> 16 word \<Rightarrow> ('h, mepa_rc) l70" where
  "lan8770_phy_direct_read_mod_write_register dev offset v msk =
     RC_GOTO_RD (lan8770_phy_direct_reg_rd dev offset 0) (\<lambda>x.
       lan8770_phy_direct_reg_wr dev offset ((x AND (msk XOR 0xFFFF)) OR v))"

section \<open>Extended registers\<close>

text \<open>
  A wait for a bit to be cleared: \<open>v\<close> is the word read last, \<open>timeout\<close> the counter of 16 bits.
  The loop looks at the word only; the counter is decremented beyond 0, and it is compared with 0
  after the loop.  \<open>n\<close> bounds the rounds of the model, not those of the code.
\<close>

fun lan8770_wait :: "nat \<Rightarrow> nat \<Rightarrow> 16 word \<Rightarrow> 16 word \<Rightarrow> 16 word \<Rightarrow> 16 word \<Rightarrow>
    ('h, mepa_rc \<times> 16 word) l70" where
  "lan8770_wait 0 dev reg msk v timeout = stuck_loop (MEPA_RC_ERROR, timeout)"
| "lan8770_wait (Suc n) dev reg msk v timeout =
    (if v AND msk = 0 then State_Monad.return (MEPA_RC_OK, timeout) else do {
       (rc, v) \<leftarrow> lan8770_phy_direct_reg_rd dev reg v;
       if rc \<noteq> MEPA_RC_OK then State_Monad.return (rc, timeout) else do {
       let timeout = timeout - 1;
       only_if (timeout \<noteq> 0) (MEPA_NSLEEP 10);
       lan8770_wait n dev reg msk v timeout }})"

text \<open>The number of rounds is a constant that no proof looks into.\<close>

definition lan8770_rounds :: nat where
  "lan8770_rounds = 4000001"

definition lan8770_wait_clear :: "nat \<Rightarrow> 16 word \<Rightarrow> 16 word \<Rightarrow> ('h, mepa_rc) l70" where
  "lan8770_wait_clear dev reg msk =
     RC_GOTO_RD (lan8770_phy_direct_reg_rd dev reg 0) (\<lambda>v. do {
       (rc, timeout) \<leftarrow> lan8770_wait lan8770_rounds dev reg msk v 200;
       State_Monad.return (if rc \<noteq> MEPA_RC_OK then rc
         else if timeout = 0 then MEPA_RC_ERROR else MEPA_RC_OK) })"

definition LAN8770_EXT_REG_CTRL_REG_BANK_SET :: "16 word \<Rightarrow> 16 word" where
  "LAN8770_EXT_REG_CTRL_REG_BANK_SET x = push_bit 8 (x AND 7)"

definition lan8770_ext_regdata :: "16 word \<Rightarrow> 16 word \<Rightarrow> 16 word" where
  "lan8770_ext_regdata bank offset =
     offset OR LAN8770_EXT_REG_CTRL_REG_BANK_SET bank OR LAN8770_EXT_REG_CTRL_WRT_CTRL"

text \<open>A read sets the write control bit and waits for the read control bit.\<close>

definition lan8770_phy_ext_bank_reg_rd ::
  "nat \<Rightarrow> 16 word \<Rightarrow> 16 word \<Rightarrow> 16 word \<Rightarrow> ('h, mepa_rc \<times> 16 word) l70" where
  "lan8770_phy_ext_bank_reg_rd dev bank offset v0 =
    (if bank = LAN8770_PHY_BANK_SMI then lan8770_phy_direct_reg_rd dev offset v0
     else if bank \<le> LAN8770_PHY_BANK_INSTRUMENT then do {
       rc \<leftarrow> RC_GOTO (lan8770_phy_direct_reg_wr dev LAN8770_EXT_REG_CTRL_OFFSET
                (lan8770_ext_regdata bank offset))
              (lan8770_wait_clear dev LAN8770_EXT_REG_CTRL_OFFSET LAN8770_EXT_REG_CTRL_READ_CTRL);
       if rc \<noteq> MEPA_RC_OK then State_Monad.return (rc, v0)
       else lan8770_phy_direct_reg_rd dev LAN8770_EXT_REG_RD_DATA v0 }
     else State_Monad.return (MEPA_RC_ERR_PARM, v0))"

definition lan8770_phy_ext_bank_reg_wr ::
  "nat \<Rightarrow> 16 word \<Rightarrow> 16 word \<Rightarrow> 16 word \<Rightarrow> ('h, mepa_rc) l70" where
  "lan8770_phy_ext_bank_reg_wr dev bank offset v =
    (if bank = LAN8770_PHY_BANK_SMI then lan8770_phy_direct_reg_wr dev offset v
     else if bank \<le> LAN8770_PHY_BANK_INSTRUMENT then
       RC_GOTO (lan8770_phy_direct_reg_wr dev LAN8770_EXT_REG_WR_DATA v)
         (RC_GOTO (lan8770_phy_direct_reg_wr dev LAN8770_EXT_REG_CTRL_OFFSET
             (lan8770_ext_regdata bank offset))
           (lan8770_wait_clear dev LAN8770_EXT_REG_CTRL_OFFSET LAN8770_EXT_REG_CTRL_WRT_CTRL))
     else State_Monad.return MEPA_RC_ERR_PARM)"

definition lan8770_phy_read_mod_write_register ::
  "nat \<Rightarrow> 16 word \<Rightarrow> 16 word \<Rightarrow> 16 word \<Rightarrow> 16 word \<Rightarrow> ('h, mepa_rc) l70" where
  "lan8770_phy_read_mod_write_register dev phy_bank offset v msk =
     RC_GOTO_RD (lan8770_phy_ext_bank_reg_rd dev phy_bank offset 0) (\<lambda>x.
       lan8770_phy_ext_bank_reg_wr dev phy_bank offset ((x AND (msk XOR 0xFFFF)) OR v))"

text \<open>Writes of one bank after the other, and a sleep, as steps of a sequence.\<close>

definition bank_wr :: "nat \<Rightarrow> 16 word \<Rightarrow> (16 word \<times> 16 word) list \<Rightarrow> ('h, mepa_rc) l70 list" where
  "bank_wr dev bank xs = map (\<lambda>(offset, v). lan8770_phy_ext_bank_reg_wr dev bank offset v) xs"

definition rc_nsleep :: "nat \<Rightarrow> ('h, mepa_rc) l70" where
  "rc_nsleep n = do { MEPA_NSLEEP n; State_Monad.return MEPA_RC_OK }"

end
