(* ===== verification/Lan8770_Conf.thy ===== *)
theory Lan8770_Conf
  imports Lan8770_Regs
begin

text \<open>
  Initialisation, configuration, link status and TC10 of the LAN8770: the functions
  \<open>phy_init_conf\<close> to \<open>phy_get_link_status_enhanced\<close> of \<open>lan8770.c\<close> and the functions \<open>phy_tc10_*\<close>
  of \<open>lan8770_private.c\<close>, all of which run under the lock.
\<close>

section \<open>Initialisation\<close>

definition init_reset :: "nat \<Rightarrow> bool \<Rightarrow> ('h, mepa_rc) l70 list" where
  "init_reset dev master = [
     lan8770_phy_direct_reg_wr dev LAN8770_POWER_DOWN_CTRL_OFFSET LAN8770_POWER_DOWN_CTRL_FORCE_TX_EN,
     lan8770_phy_direct_read_mod_write_register dev LAN8770_BASIC_CONTROL_OFFSET
       LAN8770_BASIC_CTRL_SW_RESET LAN8770_BASIC_CTRL_SW_RESET,
     rc_nsleep 100,
     lan8770_phy_direct_reg_wr dev LAN8770_MASTER_SLAVE_CTRL_OFFSET
       (LAN8770_MASTER_SLAVE_CTRL_MAN_CFG_EN OR
        (if master then LAN8770_MASTER_SLAVE_CTRL_MAN_CFG_VAL else 0)),
     lan8770_phy_direct_read_mod_write_register dev LAN8770_BASIC_CONTROL_OFFSET
       LAN8770_BASIC_CTRL_SW_RESET LAN8770_BASIC_CTRL_SW_RESET,
     rc_nsleep 100,
     lan8770_phy_ext_bank_reg_wr dev LAN8770_PHY_BANK_AFE LAN8770_AFE_PORT_CFG1_OFFSET 0x002B,
     lan8770_phy_direct_reg_wr dev LAN8770_POWER_DOWN_CTRL_OFFSET 0x0308,
     lan8770_phy_direct_read_mod_write_register dev LAN8770_PCS_CTRL_OFFSET 0x0000 0x0380]"

definition slave_dsp :: "nat \<Rightarrow> ('h, mepa_rc) l70 list" where
  "slave_dsp dev = bank_wr dev LAN8770_PHY_BANK_DSP [
       (LAN8770_DSP_EQ_FD_STG1_FRZ_CFG, 0x0002),
       (LAN8770_DSP_EQ_FD_STG2_FRZ_CFG, 0x0002),
       (LAN8770_DSP_EQ_FD_STG3_FRZ_CFG, 0x0002),
       (LAN8770_DSP_EQ_FD_STG4_FRZ_CFG, 0x0002),
       (LAN8770_EQ_WT_FD_LCK_FRZ_CFG, 0x0002),
       (LAN8770_PST_EQ_LCK_STG1_FRZ_CFG, 0x0002),
       (LAN8770_DSP_DFE_TAP1_INIT_COEF, 0x0014)] @
     bank_wr dev LAN8770_PHY_BANK_PCS [(LAN8770_PCS_DESCM_CONTROL0, 0x6FFF)]"

definition dsp_config :: "(16 word \<times> 16 word) list" where
  "dsp_config = [
     (LAN8770_DSP_CDR_CFG_PRE_LOCK, 0x0AB1),
     (LAN8770_DSP_CDR_CFG_POST_LOCK, 0x0AB3),
     (LAN8770_DSP_EQU_LOCK_STG1_THR, 0x5274),
     (LAN8770_DSP_SLV_HD_MULT_CFG, 0x0D74),
     (LAN8770_DSP_SLV_FD_MULT_CFG, 0x0D53),
     (LAN8770_DSP_COEF_PROT_DIS, 0x0360),
     (LAN8770_DSP_KP_LOOP_SAT_CFG, 0x0C30),
     (LAN8770_DSP_LCK_STG2_MUFACT_CFG, 0x0AEA),
     (LAN8770_DSP_LCK_STG3_MUFACT_CFG, 0x0AEB),
     (LAN8770_DSP_POST_LCK_MUFACT_CFG, 0x0AEB),
     (LAN8770_TX_RX_FIFO_CFG, 0x1C00)]"

text \<open>The filter of the transmitter: every coefficient is written with the bit \<open>0x0800\<close> and without it.\<close>

definition tx_iir :: "(16 word \<times> 16 word) list" where
  "tx_iir = map (Pair LAN8770_DSP_TX_LPF_FIR_CFG) [0x1000,
     0x1821, 0x1021, 0x1842, 0x1042, 0x1863, 0x1063, 0x18a4, 0x10a4, 0x18c5, 0x10c5,
     0x18e6, 0x10e6, 0x18c7, 0x10c7, 0x18c8, 0x10c8, 0x1889, 0x1089, 0x184a, 0x104a,
     0x180b, 0x100b, 0x180c, 0x100c, 0x180d, 0x100d, 0x180e, 0x100e, 0x180f, 0x100f,
     0x1810, 0x1010, 0x1811, 0x1011, 0x1000]"

definition init_script :: "nat \<Rightarrow> 16 word \<Rightarrow> ('h, mepa_rc) l70 list" where
  "init_script dev v =
     (if v AND LAN8770_MASTER_SLAVE_STATUS_CFG_RESOL = 0 then slave_dsp dev else []) @
     bank_wr dev LAN8770_PHY_BANK_DSP (dsp_config @ tx_iir @ [(LAN8770_DSP_SQI_CONFIG, 0x9572)]) @ [
     lan8770_phy_direct_reg_wr dev LAN8770_MDIO_CTRL2_OFFSET 0x0014,
     lan8770_phy_direct_reg_wr dev LAN8770_POWER_DOWN_CTRL_OFFSET 0x0200,
     lan8770_phy_direct_reg_wr dev LAN8770_MDIO_CTRL2_OFFSET 0x0094,
     lan8770_wait_clear dev LAN8770_MDIO_CTRL2_OFFSET 0x0080,
     lan8770_phy_ext_bank_reg_wr dev LAN8770_PHY_BANK_AFE LAN8770_AFE_PORT_CFG1_OFFSET 0x000A,
     RC_GOTO_RD (lan8770_phy_direct_reg_rd dev LAN8770_INTR_SRC_OFFSET 0)
       (\<lambda>_. State_Monad.return MEPA_RC_OK),
     RC_GOTO_RD (lan8770_phy_ext_bank_reg_rd dev LAN8770_PHY_BANK_MISC LAN8770_MISC_INT2_SRC_OFFSET 0)
       (\<lambda>_. State_Monad.return MEPA_RC_OK)]"

definition init_tc10 :: "nat \<Rightarrow> ('h, mepa_rc) l70 list" where
  "init_tc10 dev = [
     lan8770_phy_read_mod_write_register dev LAN8770_PHY_BANK_MISC LAN8770_MISC_WKP_COM_CTL0_OFFSET 0x0020 0x0020,
     lan8770_phy_ext_bank_reg_wr dev LAN8770_PHY_BANK_PCS LAN8770_PCS_SLEEP_WAKE_DET_OFFSET 0x3C3C,
     lan8770_phy_read_mod_write_register dev LAN8770_PHY_BANK_SMI LAN8770_MDIO_CTRL2_OFFSET 0x0020 0x0020,
     lan8770_phy_read_mod_write_register dev LAN8770_PHY_BANK_MISC LAN8770_MISC_WKP_COM_CTL1_OFFSET 0x2700 0xFF00,
     lan8770_phy_read_mod_write_register dev LAN8770_PHY_BANK_MISC LAN8770_MISC_WKP_COM_CTL0_OFFSET 0x8006 0x800E,
     lan8770_phy_ext_bank_reg_wr dev LAN8770_PHY_BANK_MISC LAN8770_MISC_WKP_PRT_CTL1_OFFSET 0xD010,
     lan8770_phy_read_mod_write_register dev LAN8770_PHY_BANK_MISC LAN8770_MISC_WKP_PRT_CTL2_OFFSET 0x0020 0x0020,
     lan8770_phy_read_mod_write_register dev LAN8770_PHY_BANK_MISC LAN8770_MISC_WKP_PRT_CTL1_OFFSET 0x8100 0x8100,
     lan8770_phy_read_mod_write_register dev LAN8770_PHY_BANK_MISC LAN8770_MISC_WKP_COM_CTL1_OFFSET 0x0064 0x0064]"

text \<open>The two interrupt masks are written back when the script has changed them.\<close>

definition init_restore :: "nat \<Rightarrow> 16 word \<Rightarrow> 16 word \<Rightarrow> ('h, mepa_rc) l70 list" where
  "init_restore dev intr_val intr2_val = [
     RC_GOTO_RD (lan8770_phy_direct_reg_rd dev LAN8770_INTR_MASK_OFFSET 0) (\<lambda>v.
       if v \<noteq> intr_val then lan8770_phy_direct_reg_wr dev LAN8770_INTR_MASK_OFFSET intr_val
       else State_Monad.return MEPA_RC_OK),
     RC_GOTO_RD (lan8770_phy_ext_bank_reg_rd dev LAN8770_PHY_BANK_MISC LAN8770_MISC_INT2_MASK_OFFSET 0) (\<lambda>v.
       if v \<noteq> intr2_val then lan8770_phy_ext_bank_reg_wr dev LAN8770_PHY_BANK_MISC
         LAN8770_MISC_INT2_MASK_OFFSET intr2_val
       else State_Monad.return MEPA_RC_OK),
     lan8770_phy_direct_reg_wr dev LAN8770_POWER_DOWN_CTRL_OFFSET
       (LAN8770_POWER_DOWN_CTRL_FORCE_TX_EN OR LAN8770_POWER_DOWN_CTRL_HW_INIT_EN)]"

definition lan8770_phy_init_conf :: "nat \<Rightarrow> bool \<Rightarrow> ('h, mepa_rc) l70" where
  "lan8770_phy_init_conf dev master =
     RC_GOTO_RD (lan8770_phy_direct_reg_rd dev LAN8770_INTR_MASK_OFFSET 0) (\<lambda>intr_val.
     RC_GOTO_RD (lan8770_phy_ext_bank_reg_rd dev LAN8770_PHY_BANK_MISC LAN8770_MISC_INT2_MASK_OFFSET 0) (\<lambda>intr2_val.
     RC_GOTO (rc_seq (init_reset dev master))
     (RC_GOTO_RD (lan8770_phy_direct_reg_rd dev LAN8770_MASTER_SLAVE_STATUS_OFFSET 0) (\<lambda>v.
       rc_seq (init_script dev v @ init_tc10 dev @ init_restore dev intr_val intr2_val)))))"

section \<open>Identification and configuration\<close>

definition lan8770_phy_get_device_info :: "nat \<Rightarrow> ('h, mepa_rc) l70" where
  "lan8770_phy_get_device_info dev =
     RC_GOTO_RD (lan8770_phy_direct_reg_rd dev LAN8770_PHY_ID1_OFFSET 0) (\<lambda>v. do {
     upd_dev70 dev (\<lambda>i. i\<lparr>di70_id := push_bit 2 (ucast v) AND 0x03FFFC\<rparr>);
     RC_GOTO_RD (lan8770_phy_direct_reg_rd dev LAN8770_PHY_ID2_OFFSET v) (\<lambda>v. do {
     upd_dev70 dev (\<lambda>i. i\<lparr>di70_rev := ucast (v AND 0xF),
       di70_model := ucast (drop_bit 4 v AND 0x3F),
       di70_id := di70_id i OR push_bit 18 (ucast (drop_bit 10 v AND 0x3F))\<rparr>);
     RC_GOTO_RD (lan8770_phy_direct_reg_rd dev LAN8770_MASTER_SLAVE_STATUS_OFFSET v) (\<lambda>v. do {
     upd_dev70 dev (\<lambda>i. i\<lparr>
       di70_is_master := v AND LAN8770_MASTER_SLAVE_STATUS_CFG_RESOL \<noteq> 0,
       di70_is_master_fault := v AND LAN8770_MASTER_SLAVE_STATUS_CFG_FAULT \<noteq> 0\<rparr>);
     State_Monad.return MEPA_RC_OK }) }) })"

definition conf70_supported :: "mepa_conf \<Rightarrow> bool" where
  "conf70_supported config =
    ((conf_man_neg config = MEPA_MANUAL_NEG_REF \<or> conf_man_neg config = MEPA_MANUAL_NEG_CLIENT) \<and>
     conf_fdx config \<and> conf_speed config = MEPA_SPEED_100M \<and> \<not> conf_mac_if_aneg_ena config)"

definition power_set :: "nat \<Rightarrow> bool \<Rightarrow> ('h, mepa_rc) l70" where
  "power_set dev enable = lan8770_phy_read_mod_write_register dev LAN8770_PHY_BANK_SMI
     LAN8770_BASIC_CONTROL_OFFSET (if enable then 0 else LAN8770_BASIC_CTRL_POWER_DOWN)
     LAN8770_BASIC_CTRL_POWER_DOWN"

text \<open>
  \<open>if (b) { MEPA_RC(rc, m); }\<close> and the rest of the function, which gets the value of \<open>rc\<close>.
\<close>

definition rc_when :: "bool \<Rightarrow> ('h, mepa_rc) l70 \<Rightarrow> mepa_rc \<Rightarrow> (mepa_rc \<Rightarrow> ('h, mepa_rc) l70) \<Rightarrow> ('h, mepa_rc) l70" where
  "rc_when b m rc k = (if b then RC_GOTO m (k MEPA_RC_OK) else k rc)"

text \<open>
  \<open>config\<close> may point into the private data (from \<open>lan8770_reset\<close>); the stores then store what is there.
  The return code is \<open>MEPA_RC_ERROR\<close> at the start, and stays so when there is nothing to change.
\<close>

definition lan8770_phy_conf_set :: "nat \<Rightarrow> mepa_conf \<Rightarrow> ('h, mepa_rc) l70" where
  "lan8770_phy_conf_set dev config =
    (if \<not> conf70_supported config then State_Monad.return MEPA_RC_ERR_PARM else do {
     upd_conf70 dev (\<lambda>c. c\<lparr>conf_speed := MEPA_SPEED_100M, conf_fdx := True,
       conf_mac_if_aneg_ena := False, conf_flow_control := conf_flow_control config\<rparr>);
     data \<leftarrow> data_of dev;
     rc_when (\<not> l70_init_done data)
       (RC_GOTO (lan8770_phy_init_conf dev (conf_man_neg config = MEPA_MANUAL_NEG_REF)) (do {
         upd_data dev (\<lambda>d. d\<lparr>l70_init_done := True\<rparr>);
         RC_GOTO (power_set dev (conf_admin_enable config)) (do {
           upd_conf70 dev (\<lambda>c. c\<lparr>conf_man_neg := conf_man_neg config,
             conf_admin_enable := conf_admin_enable config\<rparr>);
           State_Monad.return MEPA_RC_OK }) })) MEPA_RC_ERROR (\<lambda>rc. do {
     data \<leftarrow> data_of dev;
     rc_when (conf_man_neg (l70_conf data) \<noteq> conf_man_neg config)
       (lan8770_phy_init_conf dev (conf_man_neg config = MEPA_MANUAL_NEG_REF)) rc (\<lambda>rc. do {
     data \<leftarrow> data_of dev;
     rc_when (conf_admin_enable (l70_conf data) \<noteq> conf_admin_enable config)
       (power_set dev (conf_admin_enable config)) rc (\<lambda>rc. do {
     upd_conf70 dev (\<lambda>c. c\<lparr>conf_admin_enable := conf_admin_enable config,
       conf_man_neg := if conf_man_neg config = MEPA_MANUAL_NEG_REF then MEPA_MANUAL_NEG_REF
         else MEPA_MANUAL_NEG_CLIENT\<rparr>);
     State_Monad.return rc }) }) }) })"

section \<open>Link status\<close>

definition lan8770_link_up :: "16 word \<Rightarrow> 16 word \<Rightarrow> bool" where
  "lan8770_link_up reg_0A reg_11 = (reg_0A AND 0x3000 = 0x3000 \<and> reg_11 AND 0x0D = 0x0D)"

definition lan8770_phy_get_link_status_enhanced ::
  "nat \<Rightarrow> mepa_status \<Rightarrow> ('h, mepa_rc \<times> mepa_status) l70" where
  "lan8770_phy_get_link_status_enhanced dev status = do {
     (rc, reg_0A) \<leftarrow> lan8770_phy_direct_reg_rd dev LAN8770_MASTER_SLAVE_STATUS_OFFSET 0;
     if rc \<noteq> MEPA_RC_OK then State_Monad.return (rc, status) else do {
     (rc, reg_11) \<leftarrow> lan8770_phy_direct_reg_rd dev LAN8770_MODE_STATUS_OFFSET 0;
     if rc \<noteq> MEPA_RC_OK then State_Monad.return (rc, status) else do {
     rc \<leftarrow> lan8770_phy_read_mod_write_register dev LAN8770_PHY_BANK_SMI LAN8770_LOOPBACK_CTRL_OFFSET
       0x0800 0x0800;
     if rc \<noteq> MEPA_RC_OK then State_Monad.return (rc, status) else do {
     (rc, _) \<leftarrow> lan8770_phy_ext_bank_reg_rd dev LAN8770_PHY_BANK_PCS LAN8770_PCS_DEBUG_BUS_STS_OFFSET 0;
     if rc \<noteq> MEPA_RC_OK then State_Monad.return (rc, status) else do {
     data \<leftarrow> data_of dev;
     let status = (if lan8770_link_up reg_0A reg_11
       then status\<lparr>st_link := True, st_speed := conf_speed (l70_conf data),
         st_fdx := conf_fdx (l70_conf data)\<rparr>
       else status\<lparr>st_link := False\<rparr>);
     upd_data dev (\<lambda>d. d\<lparr>l70_link_status := st_link status\<rparr>);
     State_Monad.return (MEPA_RC_OK, status) }}}}}"

section \<open>TC10\<close>

definition set70 :: "bool \<Rightarrow> 16 word \<Rightarrow> 16 word \<Rightarrow> 16 word" where
  "set70 b m v = (if b then v OR m else v AND NOT m)"

definition lan8770_phy_tc10_set_sleep_support :: "nat \<Rightarrow> bool \<Rightarrow> ('h, mepa_rc) l70" where
  "lan8770_phy_tc10_set_sleep_support dev enable =
     RC_GOTO_RD (lan8770_phy_ext_bank_reg_rd dev LAN8770_PHY_BANK_PCS LAN8770_PCS_SLEEP_WAKE_CTL_OFFSET 0)
       (\<lambda>reg_data.
     RC_GOTO (lan8770_phy_ext_bank_reg_wr dev LAN8770_PHY_BANK_PCS LAN8770_PCS_SLEEP_WAKE_CTL_OFFSET
       (set70 (\<not> enable) LAN8770_PCS_SLEEP_WAKE_CTL_SLEEP_REJECT_EN reg_data)) (do {
     upd_tc70 dev (\<lambda>c. c\<lparr>t70_sleep_enable := enable\<rparr>);
     State_Monad.return MEPA_RC_OK }))"

definition lan8770_phy_tc10_get_sleep_support :: "nat \<Rightarrow> ('h, mepa_rc \<times> bool) l70" where
  "lan8770_phy_tc10_get_sleep_support dev = do {
     data \<leftarrow> data_of dev; State_Monad.return (MEPA_RC_OK, t70_sleep_enable (l70_tc10 data)) }"

text \<open>Both setters of wake-up modes change a bit of the port register and one of the common register.\<close>

definition wkp_update :: "nat \<Rightarrow> bool \<Rightarrow> 16 word \<Rightarrow> bool \<Rightarrow> 16 word \<Rightarrow> (lan8770_tc10_data \<Rightarrow> lan8770_tc10_data) \<Rightarrow>
    ('h, mepa_rc) l70" where
  "wkp_update dev b1 m1 b2 m2 f =
     RC_GOTO_RD (lan8770_phy_ext_bank_reg_rd dev LAN8770_PHY_BANK_MISC LAN8770_MISC_WKP_PRT_CTL1_OFFSET 0)
       (\<lambda>reg_data1.
     RC_GOTO_RD (lan8770_phy_ext_bank_reg_rd dev LAN8770_PHY_BANK_MISC LAN8770_MISC_WKP_COM_CTL0_OFFSET 0)
       (\<lambda>reg_data2.
     RC_GOTO (lan8770_phy_ext_bank_reg_wr dev LAN8770_PHY_BANK_MISC LAN8770_MISC_WKP_PRT_CTL1_OFFSET
       (set70 b1 m1 reg_data1 OR LAN8770_MISC_WKP_PRT_CTL1_VBAT_PORT_WR))
     (RC_GOTO (lan8770_phy_ext_bank_reg_wr dev LAN8770_PHY_BANK_MISC LAN8770_MISC_WKP_COM_CTL0_OFFSET
       (set70 b2 m2 reg_data2 OR LAN8770_MISC_WKP_COM_CTL0_VBAT_COMM_WR)) (do {
     upd_tc70 dev f;
     State_Monad.return MEPA_RC_OK }))))"

definition lan8770_phy_tc10_set_wakeup_support :: "nat \<Rightarrow> mepa_tc10_wakeup_mode \<Rightarrow> ('h, mepa_rc) l70" where
  "lan8770_phy_tc10_set_wakeup_support dev mode =
     (let (mdi, wk_in) = (case mode of
          MEPA_TC10_WAKEUP_DISABLE \<Rightarrow> (False, False)
        | MEPA_TC10_WAKEUP_WUP_ENABLE \<Rightarrow> (True, False)
        | MEPA_TC10_WAKEUP_WAKEIN_ENABLE \<Rightarrow> (False, True)
        | MEPA_TC10_WAKEUP_WUP_WAKEIN_ENABLE \<Rightarrow> (True, True))
      in wkp_update dev mdi LAN8770_MISC_WKP_PRT_CTL1_WK_MDI_EN wk_in LAN8770_MISC_WKP_COM_CTL0_WK_IN_EN
        (\<lambda>c. c\<lparr>t70_wakeup_mode := mode\<rparr>))"

definition lan8770_phy_tc10_get_wakeup_support :: "nat \<Rightarrow> ('h, mepa_rc \<times> mepa_tc10_wakeup_mode) l70" where
  "lan8770_phy_tc10_get_wakeup_support dev = do {
     data \<leftarrow> data_of dev; State_Monad.return (MEPA_RC_OK, t70_wakeup_mode (l70_tc10 data)) }"

definition lan8770_phy_tc10_set_wakeup_fwd_support ::
  "nat \<Rightarrow> mepa_tc10_wakeup_fwd_mode \<Rightarrow> ('h, mepa_rc) l70" where
  "lan8770_phy_tc10_set_wakeup_fwd_support dev mode =
     (let (wup, wk_out) = (case mode of
          MEPA_TC10_WAKEUP_FWD_DISABLE \<Rightarrow> (False, False)
        | MEPA_TC10_WAKEUP_FWD_WUP_ENABLE \<Rightarrow> (True, False)
        | MEPA_TC10_WAKEUP_FWD_WAKEOUT_ENABLE \<Rightarrow> (False, True)
        | MEPA_TC10_WAKEUP_FWD_WUP_WAKEOUT_ENABLE \<Rightarrow> (True, True))
      in wkp_update dev wup LAN8770_MISC_WKP_PTR_CTL1_WUP_AUTO_FWD_EN
        wk_out LAN8770_MISC_WKP_COM_CTL0_WK_OUT_AUTO_FWD_EN (\<lambda>c. c\<lparr>t70_wakeup_fwd_mode := mode\<rparr>))"

definition lan8770_phy_tc10_get_wakeup_fwd_support ::
  "nat \<Rightarrow> ('h, mepa_rc \<times> mepa_tc10_wakeup_fwd_mode) l70" where
  "lan8770_phy_tc10_get_wakeup_fwd_support dev = do {
     data \<leftarrow> data_of dev; State_Monad.return (MEPA_RC_OK, t70_wakeup_fwd_mode (l70_tc10 data)) }"

text \<open>The new content of the register, \<open>None\<close> for a pin or an argument that is not supported.\<close>

definition polarity70 :: "mepa_tc10_pin \<Rightarrow> mepa_gpio_mode \<Rightarrow> 16 word \<Rightarrow> 16 word option" where
  "polarity70 pin polarity reg_data = (case pin of
      MEPA_TC10_WAKE_IN \<Rightarrow>
        (if polarity = MEPA_GPIO_MODE_ACTIVE_LOW
         then Some (reg_data OR LAN8770_MISC_WKP_COM_CTL0_WK_IN_POL_ACTIVE_LOW)
         else if polarity = MEPA_GPIO_MODE_ACTIVE_HIGH
         then Some (reg_data AND NOT LAN8770_MISC_WKP_COM_CTL0_WK_IN_POL_ACTIVE_LOW)
         else None)
    | MEPA_TC10_WAKE_OUT \<Rightarrow>
        (if polarity = MEPA_GPIO_MODE_ACTIVE_LOW
         then Some (reg_data OR LAN8770_MISC_WKP_COM_CTL0_WK_OUT_POL_ACTIVE_LOW)
         else if polarity = MEPA_GPIO_MODE_ACTIVE_HIGH
         then Some (reg_data AND NOT LAN8770_MISC_WKP_COM_CTL0_WK_OUT_POL_ACTIVE_LOW)
         else None)
    | MEPA_TC10_INH \<Rightarrow> None)"

text \<open>The mode of the WAKE_OUT pin is merged into its field without clearing it.\<close>

definition pin_mode70 :: "mepa_tc10_pin \<Rightarrow> mepa_gpio_mode \<Rightarrow> 16 word \<Rightarrow> 16 word option" where
  "pin_mode70 pin mode reg_data = (case pin of
      MEPA_TC10_WAKE_OUT \<Rightarrow>
        (if mode = MEPA_GPIO_MODE_PUSH_PULL
         then Some (reg_data OR push_bit 9 LAN8770_MISC_WKP_COM_CTL0_WK_OUT_MODE_PUSH_PULL)
         else if mode = MEPA_GPIO_MODE_OPEN_SOURCE
         then Some (reg_data OR push_bit 9 LAN8770_MISC_WKP_COM_CTL0_WK_OUT_MODE_OPEN_SOURCE)
         else if mode = MEPA_GPIO_MODE_OPEN_DRAIN
         then Some (reg_data OR push_bit 9 LAN8770_MISC_WKP_COM_CTL0_WK_OUT_MODE_OPEN_DRAIN)
         else None)
    | MEPA_TC10_INH \<Rightarrow>
        (if mode = MEPA_GPIO_MODE_OPEN_SOURCE
         then Some (reg_data AND NOT LAN8770_MISC_WKP_COM_CTL0_INH_MODE_OPEN_DRAIN)
         else if mode = MEPA_GPIO_MODE_OPEN_DRAIN
         then Some (reg_data OR LAN8770_MISC_WKP_COM_CTL0_INH_MODE_OPEN_DRAIN)
         else None)
    | MEPA_TC10_WAKE_IN \<Rightarrow> None)"

definition com_ctl0_update :: "nat \<Rightarrow> (16 word \<Rightarrow> 16 word option) \<Rightarrow> (lan8770_tc10_data \<Rightarrow> lan8770_tc10_data) \<Rightarrow>
    ('h, mepa_rc) l70" where
  "com_ctl0_update dev word f =
     RC_GOTO_RD (lan8770_phy_ext_bank_reg_rd dev LAN8770_PHY_BANK_MISC LAN8770_MISC_WKP_COM_CTL0_OFFSET 0)
       (\<lambda>reg_data. case word reg_data of
       None \<Rightarrow> State_Monad.return MEPA_RC_ERR_PARM
     | Some reg_data \<Rightarrow>
         RC_GOTO (lan8770_phy_ext_bank_reg_wr dev LAN8770_PHY_BANK_MISC LAN8770_MISC_WKP_COM_CTL0_OFFSET
           reg_data) (do { upd_tc70 dev f; State_Monad.return MEPA_RC_OK }))"

definition lan8770_phy_tc10_set_wake_pin_polarity ::
  "nat \<Rightarrow> mepa_tc10_pin \<Rightarrow> mepa_gpio_mode \<Rightarrow> ('h, mepa_rc) l70" where
  "lan8770_phy_tc10_set_wake_pin_polarity dev pin polarity =
     com_ctl0_update dev (polarity70 pin polarity)
       (\<lambda>c. if pin = MEPA_TC10_WAKE_IN then c\<lparr>t70_wake_in_pol := polarity\<rparr>
            else c\<lparr>t70_wake_out_pol := polarity\<rparr>)"

definition lan8770_phy_tc10_get_wake_pin_polarity ::
  "nat \<Rightarrow> mepa_tc10_pin \<Rightarrow> mepa_gpio_mode \<Rightarrow> ('h, mepa_rc \<times> mepa_gpio_mode) l70" where
  "lan8770_phy_tc10_get_wake_pin_polarity dev pin polarity = do {
     data \<leftarrow> data_of dev;
     State_Monad.return
       (if pin = MEPA_TC10_WAKE_IN then (MEPA_RC_OK, t70_wake_in_pol (l70_tc10 data))
        else if pin = MEPA_TC10_WAKE_OUT then (MEPA_RC_OK, t70_wake_out_pol (l70_tc10 data))
        else (MEPA_RC_ERR_PARM, polarity)) }"

definition lan8770_phy_tc10_set_pin_mode ::
  "nat \<Rightarrow> mepa_tc10_pin \<Rightarrow> mepa_gpio_mode \<Rightarrow> ('h, mepa_rc) l70" where
  "lan8770_phy_tc10_set_pin_mode dev pin mode =
     com_ctl0_update dev (pin_mode70 pin mode)
       (\<lambda>c. if pin = MEPA_TC10_INH then c\<lparr>t70_inh_mode := mode\<rparr>
            else c\<lparr>t70_wake_out_mode := mode\<rparr>)"

definition lan8770_phy_tc10_get_pin_mode ::
  "nat \<Rightarrow> mepa_tc10_pin \<Rightarrow> mepa_gpio_mode \<Rightarrow> ('h, mepa_rc \<times> mepa_gpio_mode) l70" where
  "lan8770_phy_tc10_get_pin_mode dev pin mode = do {
     data \<leftarrow> data_of dev;
     State_Monad.return
       (if pin = MEPA_TC10_INH then (MEPA_RC_OK, t70_inh_mode (l70_tc10 data))
        else if pin = MEPA_TC10_WAKE_OUT then (MEPA_RC_OK, t70_wake_out_mode (l70_tc10 data))
        else (MEPA_RC_ERR_PARM, mode)) }"

definition mdio_ctrl2_set :: "nat \<Rightarrow> 16 word \<Rightarrow> ('h, mepa_rc) l70" where
  "mdio_ctrl2_set dev m = RC_GOTO_RD (lan8770_phy_direct_reg_rd dev LAN8770_MDIO_CTRL2_OFFSET 0) (\<lambda>reg_data.
     lan8770_phy_direct_reg_wr dev LAN8770_MDIO_CTRL2_OFFSET (reg_data OR m))"

definition lan8770_phy_tc10_send_sleep_request :: "nat \<Rightarrow> mepa_tc10_sleep_request \<Rightarrow> ('h, mepa_rc) l70" where
  "lan8770_phy_tc10_send_sleep_request dev req =
    (if req = MEPA_TC10_LPS then mdio_ctrl2_set dev LAN8770_MDIO_CTRL2_SLEEP_REQ
     else State_Monad.return MEPA_RC_ERR_PARM)"

definition tc10_state70 :: "16 word \<Rightarrow> mepa_tc10_state option" where
  "tc10_state70 sts =
    (if sts = LAN8770_MISC_WKP_DBG_STS_TC10_STATE_START then Some MEPA_TC10_START
     else if sts = LAN8770_MISC_WKP_DBG_STS_TC10_STATE_NORMAL then Some MEPA_TC10_NORMAL
     else if sts = LAN8770_MISC_WKP_DBG_STS_TC10_STATE_SLEEP_ACK then Some MEPA_TC10_SLEEP_ACK
     else if sts = LAN8770_MISC_WKP_DBG_STS_TC10_STATE_SLEEP_REQ then Some MEPA_TC10_SLEEP_REQ
     else if sts = LAN8770_MISC_WKP_DBG_STS_TC10_STATE_SLEEP_FAIL then Some MEPA_TC10_SLEEP_FAIL
     else if sts = LAN8770_MISC_WKP_DBG_STS_TC10_STATE_SLEEP_SILENT then Some MEPA_TC10_SLEEP_SILENT
     else if sts = LAN8770_MISC_WKP_DBG_STS_TC10_STATE_SLEEP then Some MEPA_TC10_SLEEP
     else None)"

definition lan8770_phy_tc10_get_state :: "nat \<Rightarrow> mepa_tc10_state \<Rightarrow> ('h, mepa_rc \<times> mepa_tc10_state) l70" where
  "lan8770_phy_tc10_get_state dev st = do {
     (rc, reg_data) \<leftarrow> lan8770_phy_ext_bank_reg_rd dev LAN8770_PHY_BANK_MISC LAN8770_MISC_WKP_DBG_STS_OFFSET 0;
     State_Monad.return (if rc \<noteq> MEPA_RC_OK then (rc, st)
       else case tc10_state70 (reg_data AND 7) of
           None \<Rightarrow> (MEPA_RC_INV_STATE, st)
         | Some s \<Rightarrow> (MEPA_RC_OK, s)) }"

definition lan8770_phy_tc10_send_wake_request :: "nat \<Rightarrow> ('h, mepa_rc) l70" where
  "lan8770_phy_tc10_send_wake_request dev = mdio_ctrl2_set dev LAN8770_MDIO_CTRL2_WAKE_REQ"

text \<open>\<open>cfg\<close> points into the private data; each setter stores the member that it is given.\<close>

definition lan8770_phy_tc10_set_config :: "nat \<Rightarrow> lan8770_tc10_data \<Rightarrow> ('h, mepa_rc) l70" where
  "lan8770_phy_tc10_set_config dev cfg = rc_seq [
     lan8770_phy_tc10_set_sleep_support dev (t70_sleep_enable cfg),
     lan8770_phy_tc10_set_wakeup_support dev (t70_wakeup_mode cfg),
     lan8770_phy_tc10_set_wakeup_fwd_support dev (t70_wakeup_fwd_mode cfg),
     lan8770_phy_tc10_set_wake_pin_polarity dev MEPA_TC10_WAKE_IN (t70_wake_in_pol cfg),
     lan8770_phy_tc10_set_wake_pin_polarity dev MEPA_TC10_WAKE_OUT (t70_wake_out_pol cfg),
     lan8770_phy_tc10_set_pin_mode dev MEPA_TC10_WAKE_OUT (t70_wake_out_mode cfg),
     lan8770_phy_tc10_set_pin_mode dev MEPA_TC10_INH (t70_inh_mode cfg)]"

end
