(* ===== verification/Lan8770_Diag.thy ===== *)
theory Lan8770_Diag
  imports Lan8770_Conf
begin

text \<open>Cable diagnostics, LED and signal quality of the LAN8770 (\<open>lan8770.c\<close>).\<close>

section \<open>Cable diagnostics\<close>

definition diag70_setup :: "nat \<Rightarrow> 16 word \<Rightarrow> ('h, mepa_rc) l70 list" where
  "diag70_setup dev v =
     (if v AND LAN8770_MASTER_SLAVE_STATUS_CFG_RESOL \<noteq> LAN8770_MASTER_SLAVE_STATUS_CFG_RESOL
      then [lan8770_phy_read_mod_write_register dev LAN8770_PHY_BANK_AFE LAN8770_AFE_AFE_PORT_CFG4_OFFSET
              0x0005 0x0007,
            lan8770_phy_read_mod_write_register dev LAN8770_PHY_BANK_SMI LAN8770_POWER_DOWN_CTRL_OFFSET
              0x0008 0x0008]
      else [lan8770_phy_read_mod_write_register dev LAN8770_PHY_BANK_SMI LAN8770_MDIO_CTRL2_OFFSET
              0 LAN8770_MDIO_CTRL2_EN_DET_MST_MODE]) @
     bank_wr dev LAN8770_PHY_BANK_DSP [
       (LAN8770_DSP_CABLE_DIAG_MIN_WAIT_CFG, 0),
       (LAN8770_DSP_CABLE_DIAG_MAX_WAIT_CFG, 10),
       (LAN8770_DSP_CABLE_DIAG_CYC_WAIT_CFG, 90),
       (LAN8770_DSP_CABLE_DIAG_PGA_THR, 60),
       (LAN8770_DSP_MAX_PGA_GAIN, 31)] @
     [lan8770_phy_read_mod_write_register dev LAN8770_PHY_BANK_DSP LAN8770_DSP_CALIB_CFG 0x0000 0x0038,
      rc_nsleep 50000] @
     bank_wr dev LAN8770_PHY_BANK_DSP [
       (LAN8770_DSP_CABLE_DIAG_MAX_WAIT_CFG, 70),
       (LAN8770_DSP_CABLE_DIAG_STS_CTL, 0x01)]"

definition lan8770_phy_cable_diag_start :: "nat \<Rightarrow> int \<Rightarrow> ('h, mepa_rc) l70" where
  "lan8770_phy_cable_diag_start dev mode = do {
     data \<leftarrow> data_of dev;
     if \<not> l70_init_done data then State_Monad.return MEPA_RC_INV_STATE else
     RC_GOTO (rc_seq [
       lan8770_phy_direct_read_mod_write_register dev LAN8770_BASIC_CONTROL_OFFSET
         LAN8770_BASIC_CTRL_SW_RESET LAN8770_BASIC_CTRL_SW_RESET,
       rc_nsleep 100,
       lan8770_phy_read_mod_write_register dev LAN8770_PHY_BANK_SMI LAN8770_POWER_DOWN_CTRL_OFFSET
         LAN8770_POWER_DOWN_CTRL_HW_INIT_EN LAN8770_POWER_DOWN_CTRL_HW_INIT_EN])
     (RC_GOTO_RD (lan8770_phy_direct_reg_rd dev LAN8770_BASIC_CONTROL_OFFSET 0) (\<lambda>tempReg.
       if tempReg \<noteq> (LAN8770_BASIC_CTRL_DUPLEX_MODE OR LAN8770_BASIC_CTRL_SPEED_SEL_LSB)
       then State_Monad.return MEPA_RC_ERROR
       else RC_GOTO_RD (lan8770_phy_direct_reg_rd dev LAN8770_MASTER_SLAVE_STATUS_OFFSET 0) (\<lambda>tempReg.
         RC_GOTO (rc_seq (diag70_setup dev tempReg)) (do {
           upd_data dev (\<lambda>d. d\<lparr>l70_cdiags_start := True\<rparr>);
           State_Monad.return MEPA_RC_OK })))) }"

text \<open>The wait for the result: the first error, or whether the timer had run out.\<close>

fun diag70_wait :: "nat \<Rightarrow> nat \<Rightarrow> nat \<Rightarrow> ('h, mepa_rc \<times> bool) l70" where
  "diag70_wait 0 dev timer = stuck_loop (MEPA_RC_ERROR, True)"
| "diag70_wait (Suc n) dev timer = do {
     timeout \<leftarrow> MEPA_MTIMER_TIMEOUT timer;
     (rc, tmp) \<leftarrow> lan8770_phy_ext_bank_reg_rd dev LAN8770_PHY_BANK_DSP LAN8770_DSP_CABLE_DIAG_STS_CTL 0;
     if rc \<noteq> MEPA_RC_OK then State_Monad.return (rc, timeout)
     else if tmp AND 2 = 2 \<or> timeout then State_Monad.return (MEPA_RC_OK, timeout)
     else diag70_wait n dev timer }"

fun ext_bank_rds :: "nat \<Rightarrow> 16 word \<Rightarrow> 16 word list \<Rightarrow> ('h, mepa_rc \<times> 16 word list) l70" where
  "ext_bank_rds dev bank [] = State_Monad.return (MEPA_RC_OK, [])"
| "ext_bank_rds dev bank (a # as) = do {
     (rc, v) \<leftarrow> lan8770_phy_ext_bank_reg_rd dev bank a 0;
     if rc \<noteq> MEPA_RC_OK then State_Monad.return (rc, []) else do {
     (rc, vs) \<leftarrow> ext_bank_rds dev bank as;
     State_Monad.return (rc, v # vs) }}"

text \<open>A time of the hardware counts cycles of 96 phases.\<close>

definition in_phases70 :: "16 word \<Rightarrow> nat" where
  "in_phases70 t = unat (drop_bit 7 t AND 0x7F) * 96 + unat (t AND 0x7F)"

text \<open>
  The fault that the peaks show (2 a short, 1 an open line) and the time that gives its distance, where
  \<open>None\<close> is the distance -1 from before the tests.  The peak of the hybrid measurement is the
  constant 0, so the tests against it always hold.
\<close>

definition diag70_detect :: "nat \<Rightarrow> nat \<Rightarrow> nat \<times> nat option" where
  "diag70_detect pos neg =
    (if pos > neg \<and> pos - neg \<ge> 96 \<and> pos - neg < 96 + 89 then (2, Some neg)
     else if neg > pos \<and> neg - pos \<ge> 96 \<and> neg - pos < 96 + 89 then (1, Some pos)
     else (1, None))"

text \<open>
  The distance is \<open>n * 156.2499 * 0.0001 * v * 0.5\<close> with \<open>v\<close> the single-precision value of
  \<open>0.6811 * 2.9979\<close>, stored in single precision.  For every \<open>n\<close> up to 12319, the largest time,
  it is below 35 exactly when \<open>n * 15952 < 35000000\<close>, and then its truncation is the quotient by a million.
  The conversion of the distance -1 to 8 bits without sign is undefined.
\<close>

definition diag70_fault :: "16 word \<Rightarrow> 16 word \<Rightarrow> nat option \<Rightarrow> bool" where
  "diag70_fault pos_peak neg_peak distance =
    (pos_peak > 20 \<and> neg_peak > 20 \<and>
     (case distance of None \<Rightarrow> True | Some n \<Rightarrow> n * 15952 < 35000000))"

definition diag70_length :: "nat option \<Rightarrow> ('h, 8 word) l70" where
  "diag70_length distance = (case distance of
      None \<Rightarrow> null_call 0
    | Some n \<Rightarrow> State_Monad.return (of_nat (n * 15952 div 1000000)))"

definition diag70_set :: "8 word \<Rightarrow> mepa_cable_diag_status \<Rightarrow> mepa_cable_diag_result \<Rightarrow> mepa_cable_diag_result" where
  "diag70_set len sts res = res\<lparr>cd_length := (cd_length res)[0 := len], cd_status := (cd_status res)[0 := sts]\<rparr>"

definition diag70_report :: "mepa_cable_diag_result \<Rightarrow> 16 word list \<Rightarrow> ('h, mepa_cable_diag_result) l70" where
  "diag70_report res vs = (case diag70_detect (in_phases70 (vs ! 3)) (in_phases70 (vs ! 4)) of
     (detect, distance) \<Rightarrow>
       if diag70_fault (vs ! 1) (vs ! 2) distance then do {
         len \<leftarrow> diag70_length distance;
         State_Monad.return (diag70_set len (if detect = 1 then MEPA_CABLE_DIAG_STATUS_OPEN
           else MEPA_CABLE_DIAG_STATUS_SHORT) res) }
       else State_Monad.return (diag70_set 0 MEPA_CABLE_DIAG_STATUS_OK res))"

definition diag70_finish :: "nat \<Rightarrow> mepa_cable_diag_result \<Rightarrow> ('h, mepa_rc \<times> mepa_cable_diag_result) l70" where
  "diag70_finish dev res = do {
     rc \<leftarrow> lan8770_phy_ext_bank_reg_wr dev LAN8770_PHY_BANK_DSP LAN8770_DSP_CABLE_DIAG_STS_CTL 0;
     if rc \<noteq> MEPA_RC_OK then State_Monad.return (rc, res) else do {
     (rc, vs) \<leftarrow> ext_bank_rds dev LAN8770_PHY_BANK_DSP [LAN8770_DSP_CABLE_DIAG_GAIN_IDX,
       LAN8770_DSP_CABLE_DIAG_PEAK, LAN8770_DSP_CABLE_DIAG_NEG_PEAK,
       LAN8770_DSP_CABLE_DIAG_PEAK_TIME, LAN8770_DSP_CABLE_DIAG_NEG_PEAK_TIME];
     if rc \<noteq> MEPA_RC_OK then State_Monad.return (rc, res) else do {
     res \<leftarrow> diag70_report res vs;
     upd_data dev (\<lambda>d. d\<lparr>l70_cdiags_start := False\<rparr>);
     State_Monad.return (MEPA_RC_OK, res) }}}"

definition lan8770_phy_cable_diag_get ::
  "nat \<Rightarrow> mepa_cable_diag_result \<Rightarrow> ('h, mepa_rc \<times> mepa_cable_diag_result) l70" where
  "lan8770_phy_cable_diag_get dev res = do {
     data \<leftarrow> data_of dev;
     if \<not> l70_init_done data then State_Monad.return (MEPA_RC_INV_STATE, res) else do {
     let res = res\<lparr>cd_link := l70_link_status data\<rparr>;
     if l70_link_status data then do {
       rc \<leftarrow> lan8770_phy_read_mod_write_register dev LAN8770_PHY_BANK_DSP LAN8770_DSP_CABLE_DIAG_STS_CTL 0 0;
       State_Monad.return (rc, diag70_set 0 MEPA_CABLE_DIAG_STATUS_OK res) }
     else if l70_cdiags_start data then do {
       timer \<leftarrow> MEPA_MTIMER_START 4000;
       let res = res\<lparr>cd_status := (cd_status res)[0 := MEPA_CABLE_DIAG_STATUS_ABNORM]\<rparr>;
       (rc, timeout) \<leftarrow> diag70_wait lan8770_rounds dev timer;
       if rc \<noteq> MEPA_RC_OK then State_Monad.return (rc, res)
       else if timeout then State_Monad.return (MEPA_RC_INCOMPLETE, res)
       else diag70_finish dev res }
     else State_Monad.return (MEPA_RC_INV_STATE, res) }}"

section \<open>LED\<close>

definition lan8770_phy_convert_led_mode :: "mepa_gpio_mode \<Rightarrow> bool \<Rightarrow> 16 word" where
  "lan8770_phy_convert_led_mode mode master =
    (if mode \<in> {MEPA_GPIO_MODE_LED_ACTIVITY, MEPA_GPIO_MODE_LED_LINK100_ACTIVITY,
        MEPA_GPIO_MODE_LED_LINK100BASE_FX_ACTIVITY, MEPA_GPIO_MODE_LED_LINK_ACTIVITY}
     then LAN8770_MISC_CTRL_0_LED_MODE_ACTIVITY
     else if mode = MEPA_GPIO_MODE_LED_FORCE_LED_ON
     then (if master then LAN8770_MISC_CTRL_0_LED_MODE_MASTER else LAN8770_MISC_CTRL_0_LED_MODE_SLAVE)
     else if mode = MEPA_GPIO_MODE_LED_LINK_RX then LAN8770_MISC_CTRL_0_LED_MODE_RX_ACTIVITY
     else if mode = MEPA_GPIO_MODE_LED_LINK_TX then LAN8770_MISC_CTRL_0_LED_MODE_TX_ACTIVITY
     else LAN8770_MISC_CTRL_0_LED_DIS)"

definition lan8770_phy_led_mode_set :: "nat \<Rightarrow> mepa_gpio_mode \<Rightarrow> mepa_led_num \<Rightarrow> ('h, mepa_rc) l70" where
  "lan8770_phy_led_mode_set dev led_mode led_num = do {
     data \<leftarrow> data_of dev;
     lan8770_phy_ext_bank_reg_wr dev LAN8770_PHY_BANK_MISC LAN8770_MISC_CTRL_0_OFFSET
       (lan8770_phy_convert_led_mode led_mode (di70_is_master (l70_dev data))) }"

section \<open>Signal quality\<close>

text \<open>One raw reading and the link status after it, \<open>n\<close> times, up to the first error.\<close>

fun sqi70_samples :: "nat \<Rightarrow> nat \<Rightarrow> mepa_status \<Rightarrow> ('h, mepa_rc \<times> (16 word \<times> 16 word) list) l70" where
  "sqi70_samples dev 0 status = State_Monad.return (MEPA_RC_OK, [])"
| "sqi70_samples dev (Suc n) status = do {
     rc \<leftarrow> lan8770_phy_read_mod_write_register dev LAN8770_PHY_BANK_DSP LAN8770_DSP_COEF_RW_CTL_CFG_OFFSET
       LAN8770_DSP_COEF_RW_CTL_CFG_POKE_DIS LAN8770_DSP_COEF_RW_CTL_CFG_POKE_DIS;
     if rc \<noteq> MEPA_RC_OK then State_Monad.return (rc, []) else do {
     (rc, temp) \<leftarrow> lan8770_phy_ext_bank_reg_rd dev LAN8770_PHY_BANK_DSP LAN8770_DSP_SQI_SQU_MEAN_MSB_OFFSET 0;
     if rc \<noteq> MEPA_RC_OK then State_Monad.return (rc, []) else do {
     (rc, status) \<leftarrow> lan8770_phy_get_link_status_enhanced dev status;
     if rc \<noteq> MEPA_RC_OK then State_Monad.return (rc, []) else do {
     (rc, rest) \<leftarrow> sqi70_samples dev n status;
     State_Monad.return (rc, (temp, if st_link status then 1 else 0) # rest) }}}}"

definition sqi70_swap :: "nat \<Rightarrow> nat \<Rightarrow> 16 word list \<times> 16 word list \<Rightarrow> 16 word list \<times> 16 word list" where
  "sqi70_swap i j t = (case t of (raw, link) \<Rightarrow>
     if raw ! j > raw ! i
     then (raw[i := raw ! j, j := raw ! i], link[i := link ! j, j := link ! i])
     else (raw, link))"

definition sqi70_sort :: "nat \<Rightarrow> 16 word list \<times> 16 word list \<Rightarrow> 16 word list \<times> 16 word list" where
  "sqi70_sort n t = fold (\<lambda>i. fold (\<lambda>j. sqi70_swap i j) [0..<n]) [0..<n] t"

text \<open>
  The sums are kept in single precision, which is exact below \<open>2 ^ 24\<close>, and the largest is 120
  times 65535.  The quotient by 120 is at least an integer \<open>t\<close> exactly when the sum is at least \<open>120 * t\<close>.
\<close>

definition sqi70_sums :: "16 word list \<Rightarrow> 16 word list \<Rightarrow> nat \<times> nat" where
  "sqi70_sums raw link = fold (\<lambda>i (sqi_sum, link_sum).
     (if i \<ge> 40 \<and> i < 160 then sqi_sum + unat (raw ! i) else sqi_sum, link_sum + unat (link ! i)))
     [0..<200] (0, 0)"

definition sqi70_grade :: "nat \<Rightarrow> 32 word" where
  "sqi70_grade s =
    (if s \<ge> 120 * 299 then 0
     else if s \<ge> 120 * 237 then 1
     else if s \<ge> 120 * 189 then 2
     else if s \<ge> 120 * 150 then 3
     else if s \<ge> 120 * 119 then 4
     else if s \<ge> 120 * 94 then 5
     else if s \<ge> 120 * 75 then 6
     else 7)"

definition sqi70_num :: "16 word list \<times> 16 word list \<Rightarrow> 32 word" where
  "sqi70_num t = (case sqi70_sort 200 t of (raw, link) \<Rightarrow>
     case sqi70_sums raw link of (sqi_sum, link_sum) \<Rightarrow>
       if link_sum < 200 then 0 else sqi70_grade sqi_sum)"

text \<open>The measurement; the local \<open>sqiNum\<close> is 0 on every error.\<close>

definition sqi70_measure :: "nat \<Rightarrow> mepa_status \<Rightarrow> ('h, mepa_rc \<times> 32 word) l70" where
  "sqi70_measure dev status = do {
     rc \<leftarrow> rc_seq (bank_wr dev LAN8770_PHY_BANK_DSP [(0x04, 0x16D6), (0x2E, 0x9572)]);
     if rc \<noteq> MEPA_RC_OK then State_Monad.return (rc, 0) else do {
     (rc, temp) \<leftarrow> lan8770_phy_ext_bank_reg_rd dev LAN8770_PHY_BANK_DSP 0x2E 0;
     if rc \<noteq> MEPA_RC_OK then State_Monad.return (rc, 0)
     else if temp \<noteq> 0x9572 then State_Monad.return (MEPA_RC_INCOMPLETE, 0) else do {
     rc \<leftarrow> lan8770_phy_read_mod_write_register dev LAN8770_PHY_BANK_DSP LAN8770_DSP_COEF_RW_CTL_CFG_OFFSET
       LAN8770_DSP_COEF_RW_CTL_CFG_POKE_DIS LAN8770_DSP_COEF_RW_CTL_CFG_POKE_DIS;
     if rc \<noteq> MEPA_RC_OK then State_Monad.return (rc, 0) else do {
     MEPA_NSLEEP 50000;
     (rc, samples) \<leftarrow> sqi70_samples dev 200 status;
     State_Monad.return (if rc \<noteq> MEPA_RC_OK then (rc, 0)
       else (MEPA_RC_OK, sqi70_num (map fst samples, map snd samples))) }}}}"

definition lan8770_phy_sqi_read :: "nat \<Rightarrow> 32 word \<Rightarrow> ('h, mepa_rc \<times> 32 word) l70" where
  "lan8770_phy_sqi_read dev v0 = do {
     data \<leftarrow> data_of dev;
     if \<not> l70_init_done data then State_Monad.return (MEPA_RC_INV_STATE, v0) else do {
     (rc, status) \<leftarrow> lan8770_phy_get_link_status_enhanced dev mepa_status_0;
     if rc \<noteq> MEPA_RC_OK then State_Monad.return (rc, 0)
     else if st_link status then sqi70_measure dev status
     else State_Monad.return (MEPA_RC_OK, 0) }}"

end
