(* ===== verification/Lan8770_Driver.thy ===== *)
theory Lan8770_Driver
  imports Lan8770_Diag
begin

text \<open>
  The functions that the driver table of the LAN8770 names (\<open>lan8770.c\<close>, \<open>lan8770_tc10.c\<close>), and the
  tables.  The family is number 7 of \<open>MEPA_phy_lib\<close>.  The text dump \<open>lan8770_debug_info\<close> is left out.
\<close>

abbreviation (input) LAN8770_FAMILY :: nat where "LAN8770_FAMILY \<equiv> 7"

section \<open>Creation, deletion, reset\<close>

definition lan8770_delete :: "nat \<Rightarrow> ('h, mepa_rc) l70" where
  "lan8770_delete dev = locked dev (do {
     upd_data dev (\<lambda>d. d\<lparr>l70_ctx_status := False\<rparr>);
     upd_data dev (\<lambda>_. lan8770_data_0);
     State_Monad.return MEPA_RC_OK })"

text \<open>
  Devices and data are static arrays of nine; slot \<open>i\<close> has the address \<open>i\<close>.  The member
  \<open>numeric_handle\<close> of the device is not assigned.
\<close>

definition lan8770_free_slot :: "(nat \<Rightarrow> lan8770_data) \<Rightarrow> nat option" where
  "lan8770_free_slot D = find (\<lambda>i. \<not> l70_ctx_status (D i)) [0..<MAX_LAN8770_PHY]"

definition lan8770_probe_data :: "mepa_board_conf \<Rightarrow> lan8770_data \<Rightarrow> lan8770_data" where
  "lan8770_probe_data conf d = d\<lparr>
     l70_ctx_status := True,
     l70_port_no := board_numeric_handle conf,
     l70_init_done := False,
     l70_events := 0,
     l70_conf := (l70_conf d)\<lparr>conf_man_neg := MEPA_MANUAL_NEG_REF, conf_admin_enable := True,
       conf_speed := MEPA_SPEED_100M, conf_fdx := True, conf_mac_if_aneg_ena := False\<rparr>,
     l70_media_intf := MESA_PHY_MEDIA_IF_T1_100FX,
     l70_mac_if := MESA_PORT_INTERFACE_INTERNAL,
     l70_tc10 := \<lparr>t70_sleep_enable = True, t70_wakeup_mode = MEPA_TC10_WAKEUP_WUP_WAKEIN_ENABLE,
       t70_wakeup_fwd_mode = MEPA_TC10_WAKEUP_FWD_WUP_WAKEOUT_ENABLE,
       t70_wake_in_pol = MEPA_GPIO_MODE_ACTIVE_HIGH, t70_wake_out_pol = MEPA_GPIO_MODE_ACTIVE_HIGH,
       t70_wake_out_mode = MEPA_GPIO_MODE_PUSH_PULL, t70_inh_mode = MEPA_GPIO_MODE_OPEN_SOURCE\<rparr>\<rparr>"

definition lan8770_probe ::
  "drv_ptr \<Rightarrow> 'h mepa_callout \<Rightarrow> nat \<Rightarrow> mepa_board_conf \<Rightarrow> ('h, nat option) l70" where
  "lan8770_probe drv0 co ctx conf = do {
     D \<leftarrow> gets priv;
     case lan8770_free_slot D of
       None \<Rightarrow> State_Monad.return None
     | Some p \<Rightarrow> do {
         d \<leftarrow> dev_of p;
         set_dev p \<lparr>drv = drv0, numeric_handle = numeric_handle d, callout = co, callout_ctx = ctx\<rparr>;
         upd_data p (lan8770_probe_data conf);
         State_Monad.return (Some p) }}"

definition lan8770_reset :: "nat \<Rightarrow> mepa_reset_param \<Rightarrow> ('h, mepa_rc) l70" where
  "lan8770_reset dev rst_conf = locked dev (do {
     data \<leftarrow> data_of dev;
     RC_GOTO (lan8770_phy_init_conf dev (conf_man_neg (l70_conf data) = MEPA_MANUAL_NEG_REF)) (do {
     upd_data dev (\<lambda>d. d\<lparr>l70_init_done := True\<rparr>);
     RC_GOTO (lan8770_phy_get_device_info dev) (do {
     data \<leftarrow> data_of dev;
     RC_GOTO (lan8770_phy_conf_set dev (l70_conf data)) (do {
     data \<leftarrow> data_of dev;
     lan8770_phy_tc10_set_config dev (l70_tc10 data) }) }) }) })"

section \<open>Configuration and status\<close>

definition lan8770_poll :: "nat \<Rightarrow> mepa_status \<Rightarrow> ('h, mepa_rc \<times> mepa_status) l70" where
  "lan8770_poll dev status = locked dev (lan8770_phy_get_link_status_enhanced dev status)"

definition lan8770_conf_set :: "nat \<Rightarrow> mepa_conf \<Rightarrow> ('h, mepa_rc) l70" where
  "lan8770_conf_set dev config = locked dev (lan8770_phy_conf_set dev config)"

definition lan8770_conf_get :: "nat \<Rightarrow> ('h, mepa_rc \<times> mepa_conf) l70" where
  "lan8770_conf_get dev = locked dev (do {
     data \<leftarrow> data_of dev; State_Monad.return (MEPA_RC_OK, l70_conf data) })"

definition lan8770_media_get :: "nat \<Rightarrow> ('h, mepa_rc \<times> mepa_media_interface) l70" where
  "lan8770_media_get dev = locked dev (do {
     data \<leftarrow> data_of dev; State_Monad.return (MEPA_RC_OK, l70_media_intf data) })"

definition lan8770_cable_diag_start :: "nat \<Rightarrow> int \<Rightarrow> ('h, mepa_rc) l70" where
  "lan8770_cable_diag_start dev mode = locked dev (lan8770_phy_cable_diag_start dev mode)"

definition lan8770_cable_diag_get ::
  "nat \<Rightarrow> mepa_cable_diag_result \<Rightarrow> ('h, mepa_rc \<times> mepa_cable_diag_result) l70" where
  "lan8770_cable_diag_get dev res = locked dev (lan8770_phy_cable_diag_get dev res)"

section \<open>Registers\<close>

definition LAN8770_PHY_EXT_BANK :: "32 word \<Rightarrow> 16 word" where
  "LAN8770_PHY_EXT_BANK addr = ucast (drop_bit 16 addr AND 0x000F)"

definition LAN8770_PHY_REG_ADDR :: "32 word \<Rightarrow> 16 word" where
  "LAN8770_PHY_REG_ADDR addr = ucast (addr AND 0x00FF)"

definition lan8770_direct_reg_read :: "nat \<Rightarrow> 32 word \<Rightarrow> 16 word \<Rightarrow> ('h, mepa_rc \<times> 16 word) l70" where
  "lan8770_direct_reg_read dev addr v0 =
     locked dev (lan8770_phy_direct_reg_rd dev (LAN8770_PHY_REG_ADDR addr) v0)"

definition lan8770_direct_reg_write :: "nat \<Rightarrow> 32 word \<Rightarrow> 16 word \<Rightarrow> ('h, mepa_rc) l70" where
  "lan8770_direct_reg_write dev addr v =
     locked dev (lan8770_phy_direct_reg_wr dev (LAN8770_PHY_REG_ADDR addr) v)"

definition lan8770_ext_bank_reg_read :: "nat \<Rightarrow> 32 word \<Rightarrow> 16 word \<Rightarrow> ('h, mepa_rc \<times> 16 word) l70" where
  "lan8770_ext_bank_reg_read dev addr v0 = locked dev
     (lan8770_phy_ext_bank_reg_rd dev (LAN8770_PHY_EXT_BANK addr) (LAN8770_PHY_REG_ADDR addr) v0)"

definition lan8770_ext_bank_reg_write :: "nat \<Rightarrow> 32 word \<Rightarrow> 16 word \<Rightarrow> ('h, mepa_rc) l70" where
  "lan8770_ext_bank_reg_write dev addr v = locked dev
     (lan8770_phy_ext_bank_reg_wr dev (LAN8770_PHY_EXT_BANK addr) (LAN8770_PHY_REG_ADDR addr) v)"

section \<open>Events\<close>

definition lan8770_event_enable_set :: "nat \<Rightarrow> mepa_event \<Rightarrow> bool \<Rightarrow> ('h, mepa_rc) l70" where
  "lan8770_event_enable_set dev event enable = do {
     upd_data dev (\<lambda>d. d\<lparr>l70_events := if enable then l70_events d OR event
       else l70_events d AND NOT event\<rparr>);
     locked dev (do {
       let ev_mask = fold (\<lambda>i m. if bit event i then m OR push_bit i 1 else m) [0..<LAN8770_INTR_BIT_LEN] 0;
       lan8770_phy_direct_reg_wr dev LAN8770_INTR_MASK_OFFSET ev_mask }) }"

definition lan8770_event_enable_get :: "nat \<Rightarrow> ('h, mepa_rc \<times> mepa_event) l70" where
  "lan8770_event_enable_get dev = locked dev (do {
     data \<leftarrow> data_of dev; State_Monad.return (MEPA_RC_OK, l70_events data) })"

definition lan8770_event_status_poll :: "nat \<Rightarrow> ('h, mepa_rc \<times> mepa_event) l70" where
  "lan8770_event_status_poll dev = locked dev (do {
     (rc, v) \<leftarrow> lan8770_phy_direct_reg_rd dev LAN8770_INTR_SRC_OFFSET 0;
     State_Monad.return (rc, ucast v) })"

section \<open>Loopback\<close>

text \<open>
  One of the three parts of \<open>lan8770_loopback_set\<close>: \<open>want\<close> is the new setting, \<open>had\<close> the stored one.
  The word read, with the bit changed, is both the value and the mask of the update.
\<close>

definition lb70_update :: "nat \<Rightarrow> bool \<Rightarrow> bool \<Rightarrow> ('h, mepa_rc \<times> 16 word) l70 \<Rightarrow> 16 word \<Rightarrow> 16 word \<Rightarrow> ('h, mepa_rc) l70" where
  "lb70_update dev want had rd offset b =
    (if want then RC_GOTO_RD rd (\<lambda>v. let v = v OR b in
       lan8770_phy_read_mod_write_register dev LAN8770_PHY_BANK_SMI offset v v)
     else if had then RC_GOTO_RD rd (\<lambda>v. let v = v AND NOT b in
       lan8770_phy_read_mod_write_register dev LAN8770_PHY_BANK_SMI offset v v)
     else State_Monad.return MEPA_RC_OK)"

definition lan8770_loopback_set :: "nat \<Rightarrow> mepa_loopback \<Rightarrow> ('h, mepa_rc) l70" where
  "lan8770_loopback_set dev loopback = locked dev (do {
     data \<leftarrow> data_of dev;
     let lb = l70_loopback data;
     RC_GOTO (lb70_update dev (lb_near_end_ena loopback) (lb_near_end_ena lb)
         (lan8770_phy_direct_reg_rd dev LAN8770_BASIC_CONTROL_OFFSET 0)
         LAN8770_BASIC_CONTROL_OFFSET LAN8770_BASIC_CTRL_PCS_LOOPBACK)
     (RC_GOTO (lb70_update dev (lb_far_end_ena loopback) (lb_far_end_ena lb)
         (lan8770_phy_ext_bank_reg_rd dev LAN8770_PHY_BANK_SMI LAN8770_LOOPBACK_CTRL_OFFSET 0)
         LAN8770_LOOPBACK_CTRL_OFFSET LAN8770_LPBK_CTRL_FAR)
     (RC_GOTO (lb70_update dev (lb_connector_ena loopback) (lb_connector_ena lb)
         (lan8770_phy_ext_bank_reg_rd dev LAN8770_PHY_BANK_SMI LAN8770_LOOPBACK_CTRL_OFFSET 0)
         LAN8770_LOOPBACK_CTRL_OFFSET LAN8770_LPBK_CTRL_PMA) (do {
     upd_data dev (\<lambda>d. d\<lparr>l70_loopback := loopback\<rparr>);
     State_Monad.return MEPA_RC_OK }))) })"

definition lan8770_loopback_get :: "nat \<Rightarrow> ('h, mepa_rc \<times> mepa_loopback) l70" where
  "lan8770_loopback_get dev = locked dev (do {
     data \<leftarrow> data_of dev; State_Monad.return (MEPA_RC_OK, l70_loopback data) })"

section \<open>LED, information, isolation, signal quality\<close>

definition lan8770_gpio_mode_set :: "nat \<Rightarrow> mepa_gpio_conf \<Rightarrow> ('h, mepa_rc) l70" where
  "lan8770_gpio_mode_set dev gpio_conf = locked dev
    (if mepa_gpio_mode_num (gpio_mode gpio_conf) \<ge> mepa_gpio_mode_num MEPA_GPIO_MODE_LED_LINK_ACTIVITY \<and>
        mepa_gpio_mode_num (gpio_mode gpio_conf) \<le> mepa_gpio_mode_num MEPA_GPIO_MODE_LED_DISABLE_EXTENDED
     then lan8770_phy_led_mode_set dev (gpio_mode gpio_conf) (gpio_led_num gpio_conf)
     else State_Monad.return MEPA_RC_NOT_IMPLEMENTED)"

definition lan8770_capability_priv :: "lan8770_data \<Rightarrow> 32 word \<Rightarrow> 32 word" where
  "lan8770_capability_priv data capability =
    (if capability = MEPA_CAP_SPEED_1G then if conf_speed (l70_conf data) = MEPA_SPEED_100M then 1 else 0
     else if capability = MEPA_CAP_TS_NONE then if conf_speed (l70_conf data) \<noteq> MEPA_SPEED_100M then 1 else 0
     else 0)"

definition lan8770_info_get :: "nat \<Rightarrow> mepa_phy_info \<Rightarrow> ('h, mepa_rc \<times> mepa_phy_info) l70" where
  "lan8770_info_get dev phy_info = do {
     data \<leftarrow> data_of dev;
     if l70_init_done data then locked dev (do {
       data \<leftarrow> data_of dev;
       State_Monad.return (MEPA_RC_OK, phy_info\<lparr>
         info_part_number := ucast (di70_model (l70_dev data)),
         info_revision := ucast (di70_rev (l70_dev data)),
         info_cap := (if lan8770_capability_priv data MEPA_CAP_SPEED_1G \<noteq> 0
             then MEPA_CAP_SPEED_MASK_1G else 0) OR
           (if lan8770_capability_priv data MEPA_CAP_TS_NONE \<noteq> 0 then MEPA_CAP_TS_MASK_NONE else 0)\<rparr>) })
     else State_Monad.return (MEPA_RC_ERROR, phy_info) }"

definition lan8770_isolate_mode_set :: "nat \<Rightarrow> bool \<Rightarrow> ('h, mepa_rc) l70" where
  "lan8770_isolate_mode_set dev v = locked dev (
     RC_GOTO_RD (lan8770_phy_direct_reg_rd dev LAN8770_BASIC_CONTROL_OFFSET 0) (\<lambda>reg_val.
       lan8770_phy_direct_reg_wr dev LAN8770_BASIC_CONTROL_OFFSET
         (if v then reg_val OR LAN8770_BASIC_CTRL_ISOLATE
          else reg_val AND NOT LAN8770_BASIC_CTRL_ISOLATE)))"

definition lan8770_sqi_read :: "nat \<Rightarrow> 32 word \<Rightarrow> ('h, mepa_rc \<times> 32 word) l70" where
  "lan8770_sqi_read dev v0 = locked dev (lan8770_phy_sqi_read dev v0)"

definition lan8770_capability :: "nat \<Rightarrow> 32 word \<Rightarrow> ('h, 32 word) l70" where
  "lan8770_capability dev capability = locked dev (do {
     data \<leftarrow> data_of dev; State_Monad.return (lan8770_capability_priv data capability) })"

section \<open>TC10\<close>

definition lan8770_tc10_set_sleep_support :: "nat \<Rightarrow> bool \<Rightarrow> ('h, mepa_rc) l70" where
  "lan8770_tc10_set_sleep_support dev enable = locked dev (lan8770_phy_tc10_set_sleep_support dev enable)"

definition lan8770_tc10_get_sleep_support :: "nat \<Rightarrow> ('h, mepa_rc \<times> bool) l70" where
  "lan8770_tc10_get_sleep_support dev = locked dev (lan8770_phy_tc10_get_sleep_support dev)"

definition lan8770_tc10_set_wakeup_support :: "nat \<Rightarrow> mepa_tc10_wakeup_mode \<Rightarrow> ('h, mepa_rc) l70" where
  "lan8770_tc10_set_wakeup_support dev mode = locked dev (lan8770_phy_tc10_set_wakeup_support dev mode)"

definition lan8770_tc10_get_wakeup_support :: "nat \<Rightarrow> ('h, mepa_rc \<times> mepa_tc10_wakeup_mode) l70" where
  "lan8770_tc10_get_wakeup_support dev = locked dev (lan8770_phy_tc10_get_wakeup_support dev)"

definition lan8770_tc10_set_wakeup_fwd_support :: "nat \<Rightarrow> mepa_tc10_wakeup_fwd_mode \<Rightarrow> ('h, mepa_rc) l70" where
  "lan8770_tc10_set_wakeup_fwd_support dev mode = locked dev (lan8770_phy_tc10_set_wakeup_fwd_support dev mode)"

definition lan8770_tc10_get_wakeup_fwd_support :: "nat \<Rightarrow> ('h, mepa_rc \<times> mepa_tc10_wakeup_fwd_mode) l70" where
  "lan8770_tc10_get_wakeup_fwd_support dev = locked dev (lan8770_phy_tc10_get_wakeup_fwd_support dev)"

definition lan8770_tc10_set_wake_pin_polarity :: "nat \<Rightarrow> mepa_tc10_pin \<Rightarrow> mepa_gpio_mode \<Rightarrow> ('h, mepa_rc) l70" where
  "lan8770_tc10_set_wake_pin_polarity dev pin mode = locked dev (lan8770_phy_tc10_set_wake_pin_polarity dev pin mode)"

definition lan8770_tc10_get_wake_pin_polarity :: "nat \<Rightarrow> mepa_tc10_pin \<Rightarrow> mepa_gpio_mode \<Rightarrow> ('h, mepa_rc \<times> mepa_gpio_mode) l70" where
  "lan8770_tc10_get_wake_pin_polarity dev pin out = locked dev (lan8770_phy_tc10_get_wake_pin_polarity dev pin out)"

definition lan8770_tc10_set_pin_mode :: "nat \<Rightarrow> mepa_tc10_pin \<Rightarrow> mepa_gpio_mode \<Rightarrow> ('h, mepa_rc) l70" where
  "lan8770_tc10_set_pin_mode dev pin mode = locked dev (lan8770_phy_tc10_set_pin_mode dev pin mode)"

definition lan8770_tc10_get_pin_mode :: "nat \<Rightarrow> mepa_tc10_pin \<Rightarrow> mepa_gpio_mode \<Rightarrow> ('h, mepa_rc \<times> mepa_gpio_mode) l70" where
  "lan8770_tc10_get_pin_mode dev pin out = locked dev (lan8770_phy_tc10_get_pin_mode dev pin out)"

definition lan8770_tc10_send_sleep_request :: "nat \<Rightarrow> mepa_tc10_sleep_request \<Rightarrow> ('h, mepa_rc) l70" where
  "lan8770_tc10_send_sleep_request dev req = locked dev (lan8770_phy_tc10_send_sleep_request dev req)"

text \<open>The indication is always 0.\<close>

definition lan8770_tc10_get_state :: "nat \<Rightarrow> mepa_tc10_state \<times> 16 word \<Rightarrow> ('h, mepa_rc \<times> mepa_tc10_state \<times> 16 word) l70" where
  "lan8770_tc10_get_state dev out = locked dev (do {
     (rc, st) \<leftarrow> lan8770_phy_tc10_get_state dev (fst out);
     State_Monad.return (rc, st, 0) })"

definition lan8770_tc10_send_wake_request :: "nat \<Rightarrow> ('h, mepa_rc) l70" where
  "lan8770_tc10_send_wake_request dev = locked dev (lan8770_phy_tc10_send_wake_request dev)"

definition lan8770_tc10_drivers :: "('h, lan8770_data) mepa_tc10_driver" where
  "lan8770_tc10_drivers = \<lparr>
     tc10_drv_set_sleep_support = Some lan8770_tc10_set_sleep_support,
     tc10_drv_get_sleep_support = Some (\<lambda>p _. lan8770_tc10_get_sleep_support p),
     tc10_drv_set_wakeup_support = Some lan8770_tc10_set_wakeup_support,
     tc10_drv_get_wakeup_support = Some (\<lambda>p _. lan8770_tc10_get_wakeup_support p),
     tc10_drv_set_wakeup_fwd_support = Some lan8770_tc10_set_wakeup_fwd_support,
     tc10_drv_get_wakeup_fwd_support = Some (\<lambda>p _. lan8770_tc10_get_wakeup_fwd_support p),
     tc10_drv_set_wake_pin_polarity = Some lan8770_tc10_set_wake_pin_polarity,
     tc10_drv_get_wake_pin_polarity = Some lan8770_tc10_get_wake_pin_polarity,
     tc10_drv_set_pin_mode = Some lan8770_tc10_set_pin_mode,
     tc10_drv_get_pin_mode = Some lan8770_tc10_get_pin_mode,
     tc10_drv_send_sleep_request = Some lan8770_tc10_send_sleep_request,
     tc10_drv_get_state = Some lan8770_tc10_get_state,
     tc10_drv_send_wake_request = Some lan8770_tc10_send_wake_request\<rparr>"

section \<open>The driver tables\<close>

definition lan8770_driver :: "32 word \<Rightarrow> ('h, lan8770_data) mepa_driver" where
  "lan8770_driver phy_id = null_driver\<lparr>
     drv_id := phy_id,
     drv_mask := LAN8770_PHY_ID_MASK,
     mepa_driver_delete := Some lan8770_delete,
     mepa_driver_reset := Some lan8770_reset,
     mepa_driver_poll := Some lan8770_poll,
     mepa_driver_conf_set := Some lan8770_conf_set,
     mepa_driver_conf_get := Some (\<lambda>p _. lan8770_conf_get p),
     mepa_driver_media_get := Some (\<lambda>p _. lan8770_media_get p),
     mepa_driver_cable_diag_start := Some lan8770_cable_diag_start,
     mepa_driver_cable_diag_get := Some lan8770_cable_diag_get,
     mepa_driver_probe := Some lan8770_probe,
     mepa_driver_clause22_read := Some lan8770_direct_reg_read,
     mepa_driver_clause22_write := Some lan8770_direct_reg_write,
     mepa_driver_clause45_read := Some lan8770_ext_bank_reg_read,
     mepa_driver_clause45_write := Some lan8770_ext_bank_reg_write,
     mepa_driver_event_enable_set := Some lan8770_event_enable_set,
     mepa_driver_event_enable_get := Some (\<lambda>p _. lan8770_event_enable_get p),
     mepa_driver_event_poll := Some (\<lambda>p _. lan8770_event_status_poll p),
     mepa_driver_loopback_set := Some lan8770_loopback_set,
     mepa_driver_loopback_get := Some (\<lambda>p _. lan8770_loopback_get p),
     mepa_driver_gpio_mode_set := Some lan8770_gpio_mode_set,
     mepa_driver_phy_info_get := Some lan8770_info_get,
     mepa_driver_isolate_mode_conf := Some lan8770_isolate_mode_set,
     mepa_driver_sqi_read := Some lan8770_sqi_read,
     mepa_driver_capability := Some lan8770_capability,
     mepa_tc10 := Some lan8770_tc10_drivers\<rparr>"

definition mepa_lan8770_driver_init :: "('h, lan8770_data) mepa_driver list" where
  "mepa_lan8770_driver_init = [
     lan8770_driver LAN8770_PHY_ID,
     lan8770_driver LAN8770_PHY_ID_LAN938X,
     lan8770_driver LAN8770_PHY_ID_LAN937X,
     lan8770_driver LAN8770_PHY_ID_LAN937X_TC10]"

end
