(* ===== verification/Lan8770_Api.thy ===== *)
theory Lan8770_Api
  imports Lan8770_Driver Mepa_Steps
begin

text \<open>
  The operations of the LAN8770 driver keep what its two register accessors, its waits and its stores
  keep (the locales \<open>lan8770_acc\<close>, without the stores, and \<open>lan8770_bus\<close>), follow a lock protocol (\<open>lan8770_locking\<close>), and so does every API
  call that reaches them (\<open>lan8770_api\<close>).
\<close>

section \<open>What the operations keep under the lock\<close>

locale lan8770_acc =
  fixes I :: "('h, lan8770_data) world \<Rightarrow> bool"
  assumes keeps_rd: "keeps I (lan8770_phy_direct_reg_rd p a v)"
    and keeps_wr: "keeps I (lan8770_phy_direct_reg_wr p a v)"
    and keeps_nsleep: "keeps I (MEPA_NSLEEP n)"
    and keeps_clock: "keeps I clock_read"
    and keeps_stuck_flag: "keeps I (change (\<lambda>w. w\<lparr>stuck := True\<rparr>))"
    and keeps_crash_flag: "keeps I (change (\<lambda>w. w\<lparr>crashed := True\<rparr>))"
begin

lemma keeps_stuck: "keeps I (stuck_loop x)"
  unfolding stuck_loop_def by (intro keeps_rules keeps_stuck_flag)

lemma keeps_undefined: "keeps I (null_call x)"
  unfolding null_call_def by (intro keeps_rules keeps_crash_flag)

lemma keeps_data_of: "keeps I (data_of p)"
  by (simp add: moves_def)

lemmas acc_keeps = keeps_rd keeps_wr keeps_nsleep keeps_data_of keeps_RC_GOTO keeps_RC_GOTO_RD
  keeps_rc_seq_Nil keeps_rc_seq_Cons keeps_rc_seq_map keeps_rc_seq_append keeps_rc_seq_if keeps_rules

lemma keeps_wait70: "keeps I (lan8770_wait n p reg msk v t)"
  by (induction n arbitrary: v t) (auto intro!: acc_keeps keeps_stuck simp: Let_def)

lemma keeps_wait_clear70: "keeps I (lan8770_wait_clear p reg msk)"
  unfolding lan8770_wait_clear_def by (intro acc_keeps keeps_wait70)

lemma keeps_ext:
  "keeps I (lan8770_phy_ext_bank_reg_rd p b a v)" "keeps I (lan8770_phy_ext_bank_reg_wr p b a v)"
  unfolding lan8770_phy_ext_bank_reg_rd_def lan8770_phy_ext_bank_reg_wr_def
  by (intro acc_keeps keeps_wait_clear70)+

lemma keeps_modify:
  "keeps I (lan8770_phy_read_mod_write_register p b a v m)"
  "keeps I (lan8770_phy_direct_read_mod_write_register p a v m)"
  unfolding lan8770_phy_read_mod_write_register_def lan8770_phy_direct_read_mod_write_register_def
  by (intro acc_keeps keeps_ext)+

lemma keeps_rc_nsleep: "keeps I (rc_nsleep n)"
  unfolding rc_nsleep_def by (intro acc_keeps)

lemma keeps_bank_wr: "keeps I (rc_seq (bank_wr p b xs))"
  unfolding bank_wr_def by (rule keeps_rc_seq_map) (auto intro: keeps_ext)

lemmas reg_keeps = acc_keeps keeps_wait_clear70 keeps_ext keeps_modify keeps_rc_nsleep keeps_bank_wr

lemma keeps_init_conf: "keeps I (lan8770_phy_init_conf p b)"
  unfolding lan8770_phy_init_conf_def init_reset_def init_script_def slave_dsp_def init_tc10_def init_restore_def
  by (intro reg_keeps)

lemma keeps_timer: "keeps I (MEPA_MTIMER_START n)" "keeps I (MEPA_MTIMER_TIMEOUT t)"
  unfolding MEPA_MTIMER_START_def MEPA_MTIMER_TIMEOUT_def by (intro acc_keeps keeps_clock)+

lemma keeps_diag_wait: "keeps I (diag70_wait n p t)"
  by (induction n) (auto intro!: reg_keeps keeps_timer keeps_stuck)

lemma keeps_ext_rds: "keeps I (ext_bank_rds p b as)"
  by (induction as) (auto intro!: reg_keeps)

lemma keeps_led: "keeps I (lan8770_phy_led_mode_set p m n)"
  unfolding lan8770_phy_led_mode_set_def by (intro reg_keeps)

end

locale lan8770_bus = lan8770_acc I
  for I :: "('h, lan8770_data) world \<Rightarrow> bool" +
  assumes keeps_upd: "keeps I (upd_data p f)"
begin

lemmas bus_ops_keep = reg_keeps keeps_upd

lemma keeps_upd_part: "keeps I (upd_conf70 p f)" "keeps I (upd_tc70 p g)" "keeps I (upd_dev70 p h)"
  unfolding upd_conf70_def upd_tc70_def upd_dev70_def by (rule keeps_upd)+

lemma keeps_conf_set: "keeps I (lan8770_phy_conf_set p c)"
  unfolding lan8770_phy_conf_set_def power_set_def rc_when_def by (intro bus_ops_keep keeps_upd_part keeps_init_conf)

lemma keeps_device_info: "keeps I (lan8770_phy_get_device_info p)"
  unfolding lan8770_phy_get_device_info_def by (intro bus_ops_keep keeps_upd_part)

lemma keeps_link_status: "keeps I (lan8770_phy_get_link_status_enhanced p st)"
  unfolding lan8770_phy_get_link_status_enhanced_def by (intro bus_ops_keep)

lemma keeps_com_ctl0: "keeps I (com_ctl0_update p g f)" "keeps I (wkp_update p b1 m1 b2 m2 f)"
  unfolding com_ctl0_update_def wkp_update_def by (intro bus_ops_keep keeps_upd_part)+

lemma keeps_tc10:
  "keeps I (lan8770_phy_tc10_set_sleep_support p b)" "keeps I (lan8770_phy_tc10_get_sleep_support p)"
  "keeps I (lan8770_phy_tc10_set_wakeup_support p wm)" "keeps I (lan8770_phy_tc10_get_wakeup_support p)"
  "keeps I (lan8770_phy_tc10_set_wakeup_fwd_support p fm)" "keeps I (lan8770_phy_tc10_get_wakeup_fwd_support p)"
  "keeps I (lan8770_phy_tc10_set_wake_pin_polarity p pin m)"
  "keeps I (lan8770_phy_tc10_get_wake_pin_polarity p pin m)"
  "keeps I (lan8770_phy_tc10_set_pin_mode p pin m)" "keeps I (lan8770_phy_tc10_get_pin_mode p pin m)"
  "keeps I (lan8770_phy_tc10_send_sleep_request p rq)" "keeps I (lan8770_phy_tc10_get_state p st)"
  "keeps I (lan8770_phy_tc10_send_wake_request p)"
  unfolding lan8770_phy_tc10_set_sleep_support_def lan8770_phy_tc10_get_sleep_support_def
    lan8770_phy_tc10_set_wakeup_support_def lan8770_phy_tc10_get_wakeup_support_def
    lan8770_phy_tc10_set_wakeup_fwd_support_def lan8770_phy_tc10_get_wakeup_fwd_support_def
    lan8770_phy_tc10_set_wake_pin_polarity_def lan8770_phy_tc10_get_wake_pin_polarity_def
    lan8770_phy_tc10_set_pin_mode_def lan8770_phy_tc10_get_pin_mode_def
    lan8770_phy_tc10_send_sleep_request_def lan8770_phy_tc10_get_state_def
    lan8770_phy_tc10_send_wake_request_def mdio_ctrl2_set_def
  by (intro bus_ops_keep keeps_upd_part keeps_com_ctl0)+

lemma keeps_tc10_config: "keeps I (lan8770_phy_tc10_set_config p cfg)"
  unfolding lan8770_phy_tc10_set_config_def by (intro bus_ops_keep keeps_tc10)

lemma keeps_diag:
  "keeps I (lan8770_phy_cable_diag_start p n)" "keeps I (lan8770_phy_cable_diag_get p res)"
  unfolding lan8770_phy_cable_diag_start_def diag70_setup_def lan8770_phy_cable_diag_get_def diag70_finish_def
    diag70_report_def diag70_length_def
  by (intro bus_ops_keep keeps_timer keeps_diag_wait keeps_ext_rds keeps_undefined)+

lemma keeps_samples: "keeps I (sqi70_samples p n st)"
  by (induction n arbitrary: st) (auto intro!: bus_ops_keep keeps_link_status)

lemma keeps_sqi: "keeps I (lan8770_phy_sqi_read p v)"
  unfolding lan8770_phy_sqi_read_def sqi70_measure_def
  by (intro bus_ops_keep keeps_link_status keeps_samples)

lemmas internal_keeps = bus_ops_keep keeps_upd_part keeps_init_conf keeps_conf_set keeps_device_info
  keeps_link_status keeps_tc10 keeps_tc10_config keeps_diag keeps_led keeps_sqi

end

context world_invariant
begin

lemma lan8770_accessors_keep:
  "keeps I (lan8770_phy_direct_reg_rd p a v)" "keeps I (lan8770_phy_direct_reg_wr p a v)"
  unfolding lan8770_phy_direct_reg_rd_def lan8770_phy_direct_reg_wr_def
  by (intro keeps_rules bus_keeps)+

end

section \<open>Operations\<close>

locale lan8770_locking = lan8770_bus Held
  for Held :: "('h, lan8770_data) world \<Rightarrow> bool" +
  fixes Free :: "('h, lan8770_data) world \<Rightarrow> bool" and p0 :: nat
  assumes enter: "moves Free (MEPA_ENTER p0) Held"
    and exit: "moves Held (MEPA_EXIT p0) Free"
    and keeps_upd_free: "keeps Free (upd_data p f)"
begin

lemma keeps_locked: "keeps Held m \<Longrightarrow> keeps Free (locked p0 m)"
  using enter exit by (auto simp: locked_def moves_def)

lemma keeps_op_regs:
  "keeps Free (lan8770_direct_reg_read p0 a v)" "keeps Free (lan8770_direct_reg_write p0 a v)"
  "keeps Free (lan8770_ext_bank_reg_read p0 a v)" "keeps Free (lan8770_ext_bank_reg_write p0 a v)"
  unfolding lan8770_direct_reg_read_def lan8770_direct_reg_write_def lan8770_ext_bank_reg_read_def
    lan8770_ext_bank_reg_write_def
  by (intro keeps_locked internal_keeps)+

lemma keeps_op_get:
  "keeps Free (lan8770_conf_get p0)" "keeps Free (lan8770_media_get p0)"
  "keeps Free (lan8770_loopback_get p0)" "keeps Free (lan8770_poll p0 st)"
  "keeps Free (lan8770_event_enable_get p0)" "keeps Free (lan8770_event_status_poll p0)"
  "keeps Free (lan8770_capability p0 c)" "keeps Free (lan8770_sqi_read p0 w)"
  "keeps Free (lan8770_cable_diag_get p0 res)"
  unfolding lan8770_conf_get_def lan8770_media_get_def lan8770_loopback_get_def lan8770_poll_def
    lan8770_event_enable_get_def lan8770_event_status_poll_def lan8770_capability_def lan8770_sqi_read_def
    lan8770_cable_diag_get_def
  by (intro keeps_locked internal_keeps)+

lemma keeps_op_info: "keeps Free (lan8770_info_get p0 inf0)"
  unfolding lan8770_info_get_def
  by (intro moves_data_of keeps_if keeps_locked internal_keeps)

lemma keeps_op_set:
  "keeps Free (lan8770_conf_set p0 c)" "keeps Free (lan8770_reset p0 r)"
  "keeps Free (lan8770_loopback_set p0 lb)" "keeps Free (lan8770_gpio_mode_set p0 g)"
  "keeps Free (lan8770_isolate_mode_set p0 b)" "keeps Free (lan8770_cable_diag_start p0 n)"
  unfolding lan8770_conf_set_def lan8770_reset_def lan8770_loopback_set_def lb70_update_def
    lan8770_gpio_mode_set_def lan8770_isolate_mode_set_def lan8770_cable_diag_start_def
  by (intro keeps_locked internal_keeps)+

lemma keeps_op_event_set: "keeps Free (lan8770_event_enable_set p0 e b)"
  unfolding lan8770_event_enable_set_def
  by (intro keeps_rules keeps_upd_free keeps_locked internal_keeps)

lemma keeps_op_tc10:
  "keeps Free (lan8770_tc10_set_sleep_support p0 b)" "keeps Free (lan8770_tc10_get_sleep_support p0)"
  "keeps Free (lan8770_tc10_set_wakeup_support p0 wm)" "keeps Free (lan8770_tc10_get_wakeup_support p0)"
  "keeps Free (lan8770_tc10_set_wakeup_fwd_support p0 fm)"
  "keeps Free (lan8770_tc10_get_wakeup_fwd_support p0)"
  "keeps Free (lan8770_tc10_set_wake_pin_polarity p0 pin m)"
  "keeps Free (lan8770_tc10_get_wake_pin_polarity p0 pin m)"
  "keeps Free (lan8770_tc10_set_pin_mode p0 pin m)" "keeps Free (lan8770_tc10_get_pin_mode p0 pin m)"
  "keeps Free (lan8770_tc10_send_sleep_request p0 rq)" "keeps Free (lan8770_tc10_get_state p0 out)"
  "keeps Free (lan8770_tc10_send_wake_request p0)"
  unfolding lan8770_tc10_set_sleep_support_def lan8770_tc10_get_sleep_support_def
    lan8770_tc10_set_wakeup_support_def lan8770_tc10_get_wakeup_support_def
    lan8770_tc10_set_wakeup_fwd_support_def lan8770_tc10_get_wakeup_fwd_support_def
    lan8770_tc10_set_wake_pin_polarity_def lan8770_tc10_get_wake_pin_polarity_def
    lan8770_tc10_set_pin_mode_def lan8770_tc10_get_pin_mode_def
    lan8770_tc10_send_sleep_request_def lan8770_tc10_get_state_def
    lan8770_tc10_send_wake_request_def
  by (intro keeps_locked internal_keeps)+

lemmas ops_keep = keeps_op_regs keeps_op_get keeps_op_info keeps_op_set keeps_op_event_set keeps_op_tc10

end

section \<open>The operations over all devices\<close>

lemma lan8770_in_table: "d \<in> set mepa_lan8770_driver_init \<Longrightarrow> \<exists>i. d = lan8770_driver i"
  by (auto simp: mepa_lan8770_driver_init_def)

lemmas driver70_defs = lan8770_driver_def null_driver_def

locale lan8770_api = driver_table Free lib "set mepa_lan8770_driver_init"
  for Held Free :: "('h, lan8770_data) world \<Rightarrow> bool" and lib +
  assumes locking: "lan8770_locking Held Free p"
begin

lemmas api_ops = lan8770_locking.ops_keep [OF locking]

lemma step_keeps: "mepa_step lib w w' \<Longrightarrow> Free w \<Longrightarrow> Free w'"
  by (erule mepa_step.cases; hypsubst_thin; unfold mepa_api_defs; erule movesD [OF drv_keeps, rotated];
      drule lan8770_in_table; clarsimp simp: driver70_defs; rule api_ops)

lemma tc10_keeps:
  assumes "\<And>f p. sel lan8770_tc10_drivers = Some f \<Longrightarrow> keeps Free (k f p)"
  shows "keeps Free (tc10_call lib dev sel r k)"
  unfolding tc10_call_def by (rule drv_keeps) (use assms in \<open>auto simp: driver70_defs dest!: lan8770_in_table\<close>)

lemma t1_step_keeps: "mepa_t1_step lib w w' \<Longrightarrow> Free w \<Longrightarrow> Free w'"
  by (erule mepa_t1_step.cases; hypsubst_thin; unfold t1_api_defs;
      (erule movesD [OF tc10_keeps, rotated]; clarsimp simp: lan8770_tc10_drivers_def; rule api_ops |
       erule movesD [OF no_t1s_call, rotated]; auto simp: driver70_defs dest!: lan8770_in_table))

lemma no_ts: "d \<in> set mepa_lan8770_driver_init \<Longrightarrow> mepa_ts d = None"
  by (auto simp: driver70_defs dest!: lan8770_in_table)

lemma api_step_keeps: "api_step lib w w' \<Longrightarrow> Free w \<Longrightarrow> Free w'"
  using no_ts_step [of w w'] step_keeps [of w w'] t1_step_keeps [of w w']
  by (auto simp: api_step_iff no_ts)

lemma history_keeps: "(api_step lib)\<^sup>*\<^sup>* w w' \<Longrightarrow> Free w \<Longrightarrow> Free w'"
  by (induction rule: rtranclp_induct) (auto intro: api_step_keeps)

end

section \<open>LAN8770 systems\<close>

definition lan8770_system :: "('h, lan8770_data) phy_lib \<Rightarrow> (nat \<Rightarrow> 'h mepa_device) \<Rightarrow> bool" where
  "lan8770_system lib dv = (LAN8770_FAMILY < length lib \<and>
     lib ! LAN8770_FAMILY = mepa_lan8770_driver_init \<and>
     (\<forall>p. fst (drv (dv p)) = LAN8770_FAMILY \<and> snd (drv (dv p)) < 4))"

lemma lan8770_table:
  assumes "lan8770_system lib dv"
  shows "drv_at lib (drv (dv p)) \<in> set mepa_lan8770_driver_init"
proof -
  have n: "length (mepa_lan8770_driver_init :: ('a, lan8770_data) mepa_driver list) = 4"
    by (simp add: mepa_lan8770_driver_init_def)
  show ?thesis
    using assms n by (auto simp: lan8770_system_def drv_at_def intro!: nth_mem)
qed

lemma lan8770_locking_conj:
  "lan8770_locking Held Free p \<Longrightarrow> lan8770_locking (\<lambda>w. Held w \<and> C) (\<lambda>w. Free w \<and> C) p"
  by (simp add: lan8770_locking_def lan8770_locking_axioms_def lan8770_bus_def lan8770_bus_axioms_def lan8770_acc_def)
    (simp add: moves_def)

interpretation lan70_lock: lan8770_locking "all_held dv" "all_free dv" p
  for dv :: "nat \<Rightarrow> 'h mepa_device" and p
proof (unfold_locales; (rule all_held.lan8770_accessors_keep all_held.keeps_nsleep all_held.keeps_upd_data
    all_locks.enter all_locks.exit)?)
qed (simp_all add: moves_def all_held_def all_free_def prim_simps clock_read_def exec_def upd_data_def split: prod.split)

interpretation api70_lock: lan8770_api
  "\<lambda>w. all_held dv w \<and> lan8770_system lib dv" "\<lambda>w. all_free dv w \<and> lan8770_system lib dv" lib
  for dv :: "nat \<Rightarrow> 'h mepa_device" and lib
  by (intro lan8770_api.intro driver_table.intro lan8770_api_axioms.intro lan8770_locking_conj
      lan70_lock.lan8770_locking_axioms)
    (auto simp: all_free_def intro: lan8770_table)

end
