(* ===== verification/Lan8770_Spec.thy ===== *)
theory Lan8770_Spec
  imports Lan8770_Api Phy_Sim
begin

text \<open>
  What the operations of the LAN8770 do, as sequences of accesses of the raw bus, since the windows
  of this chip are not those of \<open>Mdio\<close>.
\<close>

section \<open>The bus accesses of an operation\<close>

fun bus_ev :: "io_event \<Rightarrow> bool" where
  "bus_ev (MiimRd _ _ _ _) = True"
| "bus_ev (MiimWr _ _ _ _) = True"
| "bus_ev (MmdRd _ _ _ _ _) = True"
| "bus_ev (MmdWr _ _ _ _ _) = True"
| "bus_ev (SpiRd _ _ _ _ _ _) = True"
| "bus_ev _ = False"

definition accesses :: "('h, 'd) world \<Rightarrow> io_event list" where
  "accesses w = filter bus_ev (io w)"

text \<open>
  \<open>tspec dv m D Q\<close>: run with device heap \<open>dv\<close> and private data \<open>D\<close>, \<open>m\<close> leaves the device heap
  alone and adds accesses to the trace; its result, the new private data, these accesses and
  whether it got stuck satisfy \<open>Q\<close>.
\<close>

definition tspec :: "(nat \<Rightarrow> 'h mepa_device) \<Rightarrow> ('h, 'd, 'a) mepa \<Rightarrow> (nat \<Rightarrow> 'd) \<Rightarrow>
    ('a \<Rightarrow> (nat \<Rightarrow> 'd) \<Rightarrow> io_event list \<Rightarrow> bool \<Rightarrow> bool) \<Rightarrow> bool" where
  "tspec dv m D Q = (\<forall>w. devs w = dv \<and> priv w = D \<longrightarrow> devs (exec m w) = dv \<and>
     (\<exists>evs s. accesses (exec m w) = accesses w @ evs \<and> stuck (exec m w) = (stuck w \<or> s) \<and>
       Q (val m w) (priv (exec m w)) evs s))"

lemma tspec_run:
  assumes "tspec (devs w) m (priv w) Q" "run_state m w = (x, w')"
  shows "devs w' = devs w \<and> (\<exists>evs s. accesses w' = accesses w @ evs \<and> stuck w' = (stuck w \<or> s) \<and>
    Q x (priv w') evs s)"
proof -
  from assms(2) have "x = val m w" "w' = exec m w" by (simp_all add: val_def exec_def)
  with assms(1) show ?thesis by (simp add: tspec_def)
qed

lemma tspec_mono: "tspec dv m D Q \<Longrightarrow> (\<And>x D' evs s. Q x D' evs s \<Longrightarrow> R x D' evs s) \<Longrightarrow> tspec dv m D R"
  unfolding tspec_def by (metis (no_types, lifting))

lemma tspec_quiet:
  assumes "\<And>w. priv w = D \<Longrightarrow> devs (exec m w) = devs w \<and> accesses (exec m w) = accesses w \<and>
      stuck (exec m w) = (stuck w \<or> s) \<and> val m w = x \<and> priv (exec m w) = D'"
    and "Q x D' [] s"
  shows "tspec dv m D Q"
  unfolding tspec_def using assms by (intro allI impI conjI exI [of _ "[]"] exI [of _ s]) auto

lemma tspec_return: "Q x D [] False \<Longrightarrow> tspec dv (State_Monad.return x) D Q"
  by (rule tspec_quiet [where s = False]) auto

lemma tspec_bind:
  assumes "tspec dv m D (\<lambda>x D' e1 s1. tspec dv (f x) D' (\<lambda>y D'' e2 s2. Q y D'' (e1 @ e2) (s1 \<or> s2)))"
  shows "tspec dv (State_Monad.bind m f) D Q"
  unfolding tspec_def exec_bind val_bind
proof (intro allI impI)
  fix w :: "('a, 'b) world" assume w: "devs w = dv \<and> priv w = D"
  let ?w1 = "exec m w"
  obtain e1 s1 where 1: "devs ?w1 = dv" "accesses ?w1 = accesses w @ e1" "stuck ?w1 = (stuck w \<or> s1)"
      "tspec dv (f (val m w)) (priv ?w1) (\<lambda>y D'' e2 s2. Q y D'' (e1 @ e2) (s1 \<or> s2))"
    using assms [unfolded tspec_def [of dv m], rule_format, OF w] by blast
  let ?w2 = "exec (f (val m w)) ?w1"
  obtain e2 s2 where "devs ?w2 = dv" "accesses ?w2 = accesses ?w1 @ e2" "stuck ?w2 = (stuck ?w1 \<or> s2)"
      "Q (val (f (val m w)) ?w1) (priv ?w2) (e1 @ e2) (s1 \<or> s2)"
    using 1(4) [unfolded tspec_def, rule_format, OF conjI [OF 1(1) refl]] by blast
  with 1 show "devs ?w2 = dv \<and> (\<exists>evs s. accesses ?w2 = accesses w @ evs \<and> stuck ?w2 = (stuck w \<or> s) \<and>
      Q (val (f (val m w)) ?w1) (priv ?w2) evs s)"
    by (intro conjI exI [of _ "e1 @ e2"] exI [of _ "s1 \<or> s2"]) simp_all
qed

lemma tspec_if: "(b \<Longrightarrow> tspec dv m D Q) \<Longrightarrow> (\<not> b \<Longrightarrow> tspec dv n D Q) \<Longrightarrow> tspec dv (if b then m else n) D Q"
  by simp

lemma tspec_let: "tspec dv (f v) D Q \<Longrightarrow> tspec dv (Let v f) D Q"
  by simp

lemma tspec_case_prod: "(\<And>x y. v = (x, y) \<Longrightarrow> tspec dv (f x y) D Q) \<Longrightarrow> tspec dv (case v of (x, y) \<Rightarrow> f x y) D Q"
  by (cases v) simp

lemma tspec_RC_GOTO:
  assumes "tspec dv m D (\<lambda>rc D' e1 s1. if rc \<noteq> MEPA_RC_OK then Q rc D' e1 s1
    else tspec dv k D' (\<lambda>rc D'' e2 s2. Q rc D'' (e1 @ e2) (s1 \<or> s2)))"
  shows "tspec dv (RC_GOTO m k) D Q"
  unfolding RC_GOTO_def
  by (rule tspec_bind, rule tspec_mono [OF assms]) (auto intro: tspec_return split: if_splits)

lemma tspec_RC_GOTO_RD:
  assumes "tspec dv m D (\<lambda>(rc, v) D' e1 s1. if rc \<noteq> MEPA_RC_OK then Q rc D' e1 s1
    else tspec dv (k v) D' (\<lambda>rc D'' e2 s2. Q rc D'' (e1 @ e2) (s1 \<or> s2)))"
  shows "tspec dv (RC_GOTO_RD m k) D Q"
  unfolding RC_GOTO_RD_def
  by (rule tspec_bind, rule tspec_mono [OF assms]) (auto intro: tspec_return split: if_splits prod.splits)

lemma tspec_data_of: "Q (D p) D [] False \<Longrightarrow> tspec dv (data_of p) D Q"
  by (rule tspec_quiet [where s = False]) auto

lemma tspec_upd_data: "Q () (D(p := f (D p))) [] False \<Longrightarrow> tspec dv (upd_data p f) D Q"
  by (rule tspec_quiet [where s = False]) (auto simp: accesses_def)

lemma tspec_nsleep: "Q () D [] False \<Longrightarrow> tspec dv (MEPA_NSLEEP n) D Q"
  by (rule tspec_quiet [where s = False]) (auto simp: accesses_def MEPA_NSLEEP_def prim_simps)

lemma tspec_lock: "Q () D [] False \<Longrightarrow> tspec dv (MEPA_ENTER p) D Q" "Q () D [] False \<Longrightarrow> tspec dv (MEPA_EXIT p) D Q"
  by (rule tspec_quiet [where s = False];
      auto simp: accesses_def MEPA_ENTER_def MEPA_EXIT_def prim_simps split: option.split)+

lemma tspec_locked: "tspec dv m D Q \<Longrightarrow> tspec dv (locked p m) D Q"
  unfolding locked_def
  by (intro tspec_bind tspec_lock) (auto elim!: tspec_mono intro!: tspec_bind tspec_lock tspec_return)

lemma tspec_stuck_loop: "Q x D [] True \<Longrightarrow> tspec dv (stuck_loop x) D Q"
  by (rule tspec_quiet [where s = True]) (auto simp: accesses_def prim_simps)

lemma tspec_rd:
  assumes "bus_at dv p" "\<And>v. Q (0, v) D [MiimRd (callout_ctx (dv p)) (ucast a) 0 v] False"
  shows "tspec dv (lan8770_phy_direct_reg_rd p a v0) D Q"
  unfolding tspec_def
proof (intro allI impI)
  fix w :: "('a, 'b) world" assume w: "devs w = dv \<and> priv w = D"
  then have b: "bus_at (devs w) p" using assms(1) by simp
  obtain v h where r: "run_state (dev_miim_read p (ucast a)) w =
      ((0, v), w\<lparr>hw := h, io := io w @ [MiimRd (callout_ctx (devs w p)) (ucast a) 0 v]\<rparr>)"
    by (rule miim_read_ok [OF b])
  have "miim_read (callout (dv p)) \<noteq> None" using bus_ok_present [OF assms(1)] by (simp add: bus_present_def)
  then show "devs (exec (lan8770_phy_direct_reg_rd p a v0) w) = dv \<and> (\<exists>evs s.
      accesses (exec (lan8770_phy_direct_reg_rd p a v0) w) = accesses w @ evs \<and>
      stuck (exec (lan8770_phy_direct_reg_rd p a v0) w) = (stuck w \<or> s) \<and>
      Q (val (lan8770_phy_direct_reg_rd p a v0) w) (priv (exec (lan8770_phy_direct_reg_rd p a v0) w)) evs s)"
    using assms(2) [of v] r w
    by (intro conjI exI [of _ "[MiimRd (callout_ctx (dv p)) (ucast a) 0 v]"] exI [of _ False])
      (simp_all add: lan8770_phy_direct_reg_rd_def run_state_eq accesses_def)
qed

lemma tspec_wr:
  assumes "bus_at dv p" "Q 0 D [MiimWr (callout_ctx (dv p)) (ucast a) v 0] False"
  shows "tspec dv (lan8770_phy_direct_reg_wr p a v) D Q"
  unfolding tspec_def
proof (intro allI impI)
  fix w :: "('a, 'b) world" assume w: "devs w = dv \<and> priv w = D"
  then have b: "bus_at (devs w) p" using assms(1) by simp
  obtain h where r: "run_state (dev_miim_write p (ucast a) v) w =
      (0, w\<lparr>hw := h, io := io w @ [MiimWr (callout_ctx (devs w p)) (ucast a) v 0]\<rparr>)"
    by (rule miim_write_ok [OF b])
  have "miim_write (callout (dv p)) \<noteq> None" using bus_ok_present [OF assms(1)] by (simp add: bus_present_def)
  then show "devs (exec (lan8770_phy_direct_reg_wr p a v) w) = dv \<and> (\<exists>evs s.
      accesses (exec (lan8770_phy_direct_reg_wr p a v) w) = accesses w @ evs \<and>
      stuck (exec (lan8770_phy_direct_reg_wr p a v) w) = (stuck w \<or> s) \<and>
      Q (val (lan8770_phy_direct_reg_wr p a v) w) (priv (exec (lan8770_phy_direct_reg_wr p a v) w)) evs s)"
    using assms(2) r w
    by (intro conjI exI [of _ "[MiimWr (callout_ctx (dv p)) (ucast a) v 0]"] exI [of _ False])
      (simp_all add: lan8770_phy_direct_reg_wr_def run_state_eq accesses_def)
qed

lemmas tspec_basic = tspec_bind tspec_if tspec_let tspec_case_prod tspec_return tspec_RC_GOTO tspec_RC_GOTO_RD
  tspec_data_of tspec_upd_data tspec_nsleep tspec_locked

section \<open>Waiting\<close>

text \<open>
  The reads of a wait: the bit is set in every word but the last, which has it cleared unless the
  wait got stuck.
\<close>

definition polled :: "16 word \<Rightarrow> 16 word list \<Rightarrow> bool \<Rightarrow> bool" where
  "polled msk vs s = (vs \<noteq> [] \<and> (\<forall>v \<in> set (butlast vs). v AND msk \<noteq> 0) \<and> (\<not> s \<longrightarrow> last vs AND msk = 0))"

lemma polled_one: "polled msk [v] s = (\<not> s \<longrightarrow> v AND msk = 0)"
  by (simp add: polled_def)

lemma polled_Cons: "polled msk (v # v' # vs) s = (v AND msk \<noteq> 0 \<and> polled msk (v' # vs) s)"
  by (auto simp: polled_def)

lemma tspec_only_if_nsleep: "Q () D [] False \<Longrightarrow> tspec dv (only_if b (MEPA_NSLEEP n)) D Q"
  unfolding only_if_def by (auto intro!: tspec_if tspec_return tspec_nsleep)

text \<open>What \<open>n\<close> rounds of a wait do that starts with the word \<open>v\<close> and the counter \<open>t\<close>.\<close>

definition waited :: "nat \<Rightarrow> nat \<Rightarrow> 16 word \<Rightarrow> 16 word \<Rightarrow> 16 word \<Rightarrow> 16 word \<Rightarrow>
    mepa_rc \<times> 16 word \<Rightarrow> io_event list \<Rightarrow> bool \<Rightarrow> bool" where
  "waited n c reg msk v t r evs s = (\<exists>vs. evs = map (MiimRd c (ucast reg) 0) vs \<and> polled msk (v # vs) s \<and>
     (if s then length vs = n else r = (MEPA_RC_OK, t - of_nat (length vs))))"

lemma waited_stop: "v AND msk = 0 \<Longrightarrow> waited n c reg msk v t (MEPA_RC_OK, t) [] False"
  by (simp add: waited_def polled_one)

lemma waited_out: "waited 0 c reg msk v t r [] True"
  by (simp add: waited_def polled_one)

lemma waited_step:
  assumes "waited n c reg msk v' (t - 1) r evs s" "v AND msk \<noteq> 0"
  shows "waited (Suc n) c reg msk v t r (MiimRd c (ucast reg) 0 v' # evs) s"
proof -
  from assms(1) obtain vs where "evs = map (MiimRd c (ucast reg) 0) vs" "polled msk (v' # vs) s"
      "if s then length vs = n else r = (MEPA_RC_OK, t - 1 - of_nat (length vs))"
    unfolding waited_def by blast
  with assms(2) show ?thesis
    unfolding waited_def by (intro exI [of _ "v' # vs"]) (auto simp: polled_Cons split: if_splits)
qed

lemma tspec_wait:
  assumes "bus_at dv p" "c = callout_ctx (dv p)"
  shows "tspec dv (lan8770_wait n p reg msk v t) D
    (\<lambda>r D' evs s. D' = D \<and> waited n c reg msk v t r evs s)"
proof (induction n arbitrary: v t)
  case 0
  show ?case
    by (auto intro: tspec_stuck_loop waited_out)
next
  case (Suc n)
  show ?case
    unfolding lan8770_wait.simps
    by (auto simp: Let_def assms(2) intro!: tspec_if tspec_return waited_stop tspec_bind tspec_rd [OF assms(1)]
      tspec_only_if_nsleep tspec_mono [OF Suc.IH] waited_step)
qed

text \<open>
  The whole wait: it makes the reads \<open>vs\<close>, one more than it waits, and reports a timeout exactly when
  the counter of 16 bits is 0 afterwards.
\<close>

definition wait_clear :: "16 word \<Rightarrow> 16 word list \<Rightarrow> mepa_rc \<Rightarrow> bool \<Rightarrow> bool" where
  "wait_clear msk vs rc s = (polled msk vs s \<and>
     (if s then length vs = Suc lan8770_rounds
      else rc = (if of_nat (length vs) = (201 :: 16 word) then MEPA_RC_ERROR else MEPA_RC_OK)))"

lemma waited_clear:
  assumes "waited lan8770_rounds c reg msk v 200 r evs s"
  obtains vs where "MiimRd c (ucast reg) 0 v # evs = map (MiimRd c (ucast reg) 0) vs"
    "wait_clear msk vs (if fst r \<noteq> MEPA_RC_OK then fst r else if snd r = 0 then MEPA_RC_ERROR else MEPA_RC_OK) s"
proof -
  from assms obtain vs where vs: "evs = map (MiimRd c (ucast reg) 0) vs" "polled msk (v # vs) s"
      "if s then length vs = lan8770_rounds else r = (MEPA_RC_OK, 200 - of_nat (length vs))"
    unfolding waited_def by blast
  have "((200 :: 16 word) - of_nat (length vs) = 0) = (of_nat (length (v # vs)) = (201 :: 16 word))"
    by (auto simp: algebra_simps)
  with vs show ?thesis
    by (intro that [of "v # vs"]) (auto simp: wait_clear_def split: if_splits)
qed

lemma tspec_wait_clear:
  assumes "bus_at dv p" "c = callout_ctx (dv p)"
    "\<And>rc vs s. wait_clear msk vs rc s \<Longrightarrow> Q rc D (map (MiimRd c (ucast reg) 0) vs) s"
  shows "tspec dv (lan8770_wait_clear p reg msk) D Q"
  unfolding lan8770_wait_clear_def
proof (intro tspec_RC_GOTO_RD tspec_rd [OF assms(1)] case_prodI2, simp, intro tspec_bind tspec_mono [OF tspec_wait [OF assms(1,2)]])
  fix v r D' evs s
  assume w: "D' = D \<and> waited lan8770_rounds c reg msk v 200 r evs s"
  then have "waited lan8770_rounds c reg msk v 200 r evs s" by simp
  then obtain vs where "MiimRd c (ucast reg) 0 v # evs = map (MiimRd c (ucast reg) 0) vs"
    "wait_clear msk vs (if fst r \<noteq> MEPA_RC_OK then fst r else if snd r = 0 then MEPA_RC_ERROR else MEPA_RC_OK) s"
    by (rule waited_clear)
  from assms(3) [OF this(2)] w this(1)
  show "tspec dv (case r of (rc, timeout) \<Rightarrow> State_Monad.return (if rc \<noteq> MEPA_RC_OK then rc
         else if timeout = 0 then MEPA_RC_ERROR else MEPA_RC_OK)) D'
        (\<lambda>y D'' e2 s2. Q y D'' (MiimRd (callout_ctx (dv p)) (ucast reg) 0 v # evs @ e2) (s \<or> s2))"
    by (cases r) (auto intro!: tspec_return simp: assms(2) split: if_splits)
qed

text \<open>
  C32: termination.  On a working bus a wait of the LAN8770 reads one register, and only that, until
  the bit reads as 0.  It returns, and then all reads but the last had the bit set, or the hardware
  has kept the bit set for all rounds of the model: the loop of the code has no other way out.  Its
  counter of 200 does not end it; it makes the result \<open>MEPA_RC_ERROR\<close> when the number of reads is 201
  modulo \<open>2 ^ 16\<close>, which is why a wait of 202 reads reports success.
\<close>

theorem lan8770_wait_clear_outcome:
  assumes "bus_at (devs w) p" "\<not> stuck w" "run_state (lan8770_wait_clear p reg msk) w = (rc, w')"
  shows "\<exists>vs. accesses w' = accesses w @ map (MiimRd (callout_ctx (devs w p)) (ucast reg) 0) vs \<and>
    polled msk vs (stuck w') \<and> priv w' = priv w \<and>
    (if stuck w' then length vs = Suc lan8770_rounds
     else rc = (if of_nat (length vs) = (201 :: 16 word) then MEPA_RC_ERROR else MEPA_RC_OK))"
proof -
  let ?c = "callout_ctx (devs w p)"
  have "tspec (devs w) (lan8770_wait_clear p reg msk) (priv w) (\<lambda>rc D evs s. \<exists>vs. D = priv w \<and>
      evs = map (MiimRd ?c (ucast reg) 0) vs \<and> wait_clear msk vs rc s)"
    by (rule tspec_wait_clear [OF assms(1) refl]) blast
  from tspec_run [OF this assms(3)] assms(2) obtain vs where
    "accesses w' = accesses w @ map (MiimRd ?c (ucast reg) 0) vs" "priv w' = priv w"
    "wait_clear msk vs rc (stuck w')"
    by auto
  then show ?thesis
    by (intro exI [of _ vs]) (simp add: wait_clear_def)
qed

section \<open>Extended registers\<close>

lemma tspec_ext_wr:
  assumes "bus_at dv p" "c = callout_ctx (dv p)" "bank \<noteq> LAN8770_PHY_BANK_SMI" "bank \<le> LAN8770_PHY_BANK_INSTRUMENT"
    "\<And>rc vs s. wait_clear LAN8770_EXT_REG_CTRL_WRT_CTRL vs rc s \<Longrightarrow> Q rc D
      (MiimWr c (ucast LAN8770_EXT_REG_WR_DATA) v 0 #
       MiimWr c (ucast LAN8770_EXT_REG_CTRL_OFFSET) (lan8770_ext_regdata bank offset) 0 #
       map (MiimRd c (ucast LAN8770_EXT_REG_CTRL_OFFSET) 0) vs) s"
  shows "tspec dv (lan8770_phy_ext_bank_reg_wr p bank offset v) D Q"
  using assms(2,5)
  by (auto simp: lan8770_phy_ext_bank_reg_wr_def assms(3,4)
    intro!: tspec_RC_GOTO tspec_wr [OF assms(1)] tspec_wait_clear [OF assms(1) refl])

lemma tspec_ext_rd:
  assumes "bus_at dv p" "c = callout_ctx (dv p)" "bank \<noteq> LAN8770_PHY_BANK_SMI" "bank \<le> LAN8770_PHY_BANK_INSTRUMENT"
    "\<And>rc vs s. wait_clear LAN8770_EXT_REG_CTRL_READ_CTRL vs rc s \<Longrightarrow> rc \<noteq> MEPA_RC_OK \<Longrightarrow> Q (rc, v0) D
      (MiimWr c (ucast LAN8770_EXT_REG_CTRL_OFFSET) (lan8770_ext_regdata bank offset) 0 #
       map (MiimRd c (ucast LAN8770_EXT_REG_CTRL_OFFSET) 0) vs) s"
    "\<And>vs s v. wait_clear LAN8770_EXT_REG_CTRL_READ_CTRL vs MEPA_RC_OK s \<Longrightarrow> Q (MEPA_RC_OK, v) D
      (MiimWr c (ucast LAN8770_EXT_REG_CTRL_OFFSET) (lan8770_ext_regdata bank offset) 0 #
       map (MiimRd c (ucast LAN8770_EXT_REG_CTRL_OFFSET) 0) vs @
       [MiimRd c (ucast LAN8770_EXT_REG_RD_DATA) 0 v]) s"
  shows "tspec dv (lan8770_phy_ext_bank_reg_rd p bank offset v0) D Q"
  using assms(2,5,6)
  by (auto simp: lan8770_phy_ext_bank_reg_rd_def assms(3,4)
    intro!: tspec_bind tspec_if tspec_return tspec_RC_GOTO tspec_wr [OF assms(1)] tspec_rd [OF assms(1)]
      tspec_wait_clear [OF assms(1) refl])

text \<open>
  The writes that the accesses start in the banks, according to the names of the bits in
  \<open>lan8770_private.h\<close>: bit \<open>LAN8770_EXT_REG_CTRL_WRT_CTRL\<close> of the control register starts a write of the
  word \<open>d\<close> that the data register holds.
\<close>

fun bank_writes :: "16 word \<Rightarrow> io_event list \<Rightarrow> (16 word \<times> 16 word \<times> 16 word) list" where
  "bank_writes d [] = []"
| "bank_writes d (MiimWr _ a v _ # es) =
    (if a = ucast LAN8770_EXT_REG_WR_DATA then bank_writes v es
     else if a = ucast LAN8770_EXT_REG_CTRL_OFFSET \<and> v AND LAN8770_EXT_REG_CTRL_WRT_CTRL \<noteq> 0
     then (drop_bit 8 v AND 7, v AND 0xFF, d) # bank_writes d es
     else bank_writes d es)"
| "bank_writes d (_ # es) = bank_writes d es"

lemma bank_writes_reads: "bank_writes d (map (MiimRd c a r) vs @ es) = bank_writes d es"
  by (induction vs) auto

lemma bank_writes_reads': "bank_writes d (map (MiimRd c a r) vs) = []"
  by (induction vs) auto

lemma ext_regdata_decode:
  assumes "bank \<le> LAN8770_PHY_BANK_INSTRUMENT" "offset \<le> 0xFF"
  shows "lan8770_ext_regdata bank offset AND LAN8770_EXT_REG_CTRL_WRT_CTRL \<noteq> 0"
    "lan8770_ext_regdata bank offset AND LAN8770_EXT_REG_CTRL_READ_CTRL = 0"
    "drop_bit 8 (lan8770_ext_regdata bank offset) AND 7 = bank"
    "lan8770_ext_regdata bank offset AND 0xFF = offset"
proof -
  have b: "bank = 0 \<or> bank = 1 \<or> bank = 2 \<or> bank = 3 \<or> bank = 4 \<or> bank = 5"
    using assms(1) by unat_arith
  have "offset < 2 ^ 8" using assms(2) by unat_arith
  then have "offset AND 0xFF = offset"
    using less_mask_eq [of offset 8] by (simp add: mask_numeral)
  then obtain x where o: "offset = x AND 0xFF" by metis
  show "lan8770_ext_regdata bank offset AND LAN8770_EXT_REG_CTRL_WRT_CTRL \<noteq> 0"
    "lan8770_ext_regdata bank offset AND LAN8770_EXT_REG_CTRL_READ_CTRL = 0"
    "drop_bit 8 (lan8770_ext_regdata bank offset) AND 7 = bank"
    "lan8770_ext_regdata bank offset AND 0xFF = offset"
    using b unfolding o lan8770_ext_regdata_def LAN8770_EXT_REG_CTRL_REG_BANK_SET_def
    by (auto simp: bit.conj_disj_distrib2 and.assoc drop_bit_or drop_bit_and)
qed

definition write_then_read ::
  "nat \<Rightarrow> 16 word \<Rightarrow> 16 word \<Rightarrow> 16 word \<Rightarrow> 16 word \<Rightarrow> 16 word \<Rightarrow> ('h, mepa_rc \<times> mepa_rc \<times> 16 word) l70" where
  "write_then_read p b1 o1 x b2 o2 = do {
     rc1 \<leftarrow> lan8770_phy_ext_bank_reg_wr p b1 o1 x;
     (rc2, v) \<leftarrow> lan8770_phy_ext_bank_reg_rd p b2 o2 0;
     State_Monad.return (rc1, rc2, v) }"

definition sets_read_ctrl :: "io_event \<Rightarrow> bool" where
  "sets_read_ctrl e = (case e of MiimWr _ a v _ \<Rightarrow>
     a = ucast LAN8770_EXT_REG_CTRL_OFFSET \<and> v AND LAN8770_EXT_REG_CTRL_READ_CTRL \<noteq> 0 | _ \<Rightarrow> False)"

lemma sets_read_ctrl_simps:
  "sets_read_ctrl (MiimRd c a r v) = False"
  "sets_read_ctrl (MiimWr c a v r) =
    (a = ucast LAN8770_EXT_REG_CTRL_OFFSET \<and> v AND LAN8770_EXT_REG_CTRL_READ_CTRL \<noteq> 0)"
  by (simp_all add: sets_read_ctrl_def)

text \<open>
  Functional behaviour.  A register of a bank is written and a register of a bank is read, on a
  working bus, and the read succeeds.  The write sends the word to the register.  The read, whose
  control word has the write control bit where the name of the bit asks for the read control bit,
  starts a write of that same word to the register that it reads, and never sets the read control
  bit, for whose reset it waits; its result is what the data register reads.
\<close>

theorem lan8770_read_writes_again:
  assumes "bus_at (devs w) p"
    and b1: "b1 \<noteq> LAN8770_PHY_BANK_SMI" "b1 \<le> LAN8770_PHY_BANK_INSTRUMENT" "o1 \<le> 0xFF"
    and b2: "b2 \<noteq> LAN8770_PHY_BANK_SMI" "b2 \<le> LAN8770_PHY_BANK_INSTRUMENT" "o2 \<le> 0xFF"
    and "run_state (write_then_read p b1 o1 x b2 o2) w = ((rc, MEPA_RC_OK, y), w')"
  shows "\<exists>evs. accesses w' = accesses w @ evs \<and> bank_writes d evs = [(b1, o1, x), (b2, o2, x)] \<and>
    \<not> list_ex sets_read_ctrl evs \<and>
    last evs = MiimRd (callout_ctx (devs w p)) (ucast LAN8770_EXT_REG_RD_DATA) 0 y"
proof -
  note ok = ext_regdata_decode [OF b1(2,3)] ext_regdata_decode [OF b2(2,3)]
  let ?c = "callout_ctx (devs w p)"
  have "tspec (devs w) (write_then_read p b1 o1 x b2 o2) (priv w) (\<lambda>(rc1, rc2, y) D evs s.
      rc2 = MEPA_RC_OK \<longrightarrow> bank_writes d evs = [(b1, o1, x), (b2, o2, x)] \<and> \<not> list_ex sets_read_ctrl evs \<and>
      last evs = MiimRd ?c (ucast LAN8770_EXT_REG_RD_DATA) 0 y)"
    unfolding write_then_read_def
    by (intro tspec_bind tspec_ext_wr [OF assms(1) refl b1(1,2)] tspec_ext_rd [OF assms(1) refl b2(1,2)])
      (simp_all add: tspec_return ok bank_writes_reads bank_writes_reads' list_ex_iff sets_read_ctrl_simps ball_Un)
  from tspec_run [OF this assms(8)] show ?thesis by auto
qed

text \<open>A bus whose registers all read as 0, so that every wait ends at once.\<close>

definition sim70_callout :: "sim mepa_callout" where
  "sim70_callout = sim_callout\<lparr>miim_read := Some (\<lambda>c a h. ((0, 0), h))\<rparr>"

definition sim70_dev :: "nat \<Rightarrow> sim mepa_device" where
  "sim70_dev p = (sim_dev p)\<lparr>drv := (LAN8770_FAMILY, 0), callout := sim70_callout\<rparr>"

definition sim70_world :: "(nat \<Rightarrow> lan8770_data) \<Rightarrow> (sim, lan8770_data) world" where
  "sim70_world D = (sim_world (\<lambda>_. 0) D)\<lparr>devs := sim70_dev\<rparr>"

lemma sim70_bus_ok: "bus_at sim70_dev p"
  by (simp add: bus_at_def bus_ok_def sim70_dev_def sim70_callout_def sim_dev_def sim_callout_def sim_miim_write_def)

lemma sim70_world_simps [simp]:
  "devs (sim70_world D) = sim70_dev" "priv (sim70_world D) = D" "io (sim70_world D) = []"
  "\<not> stuck (sim70_world D)" "accesses (sim70_world D) = []"
  by (simp_all add: sim70_world_def accesses_def)

lemma lan8770_wait_stop:
  assumes "v AND msk = 0"
  shows "lan8770_wait lan8770_rounds p reg msk v t = State_Monad.return (MEPA_RC_OK, t)"
proof -
  obtain n where n: "lan8770_rounds = Suc n"
    by (cases lan8770_rounds) (auto simp: lan8770_rounds_def)
  show ?thesis unfolding n lan8770_wait.simps using assms by simp
qed

lemmas sim70_eval = lan8770_phy_ext_bank_reg_wr_def lan8770_phy_ext_bank_reg_rd_def lan8770_phy_direct_reg_rd_def
  lan8770_phy_direct_reg_wr_def lan8770_wait_clear_def lan8770_wait_stop RC_GOTO_def RC_GOTO_RD_def
  sim70_world_def sim70_dev_def sim70_callout_def sim_eval

theorem lan8770_wait_clear_outcome_witness:
  "let w' = exec (lan8770_wait_clear 1 LAN8770_MDIO_CTRL2_OFFSET 0x80) (sim70_world (\<lambda>_. lan8770_data_0))
   in \<exists>vs. accesses w' = map (MiimRd 1 0x10 0) vs \<and> polled 0x80 vs (stuck w') \<and> \<not> stuck w'"
proof -
  let ?w = "sim70_world (\<lambda>_. lan8770_data_0)"
  let ?m = "lan8770_wait_clear 1 LAN8770_MDIO_CTRL2_OFFSET 0x80"
  have r: "run_state ?m ?w = (val ?m ?w, exec ?m ?w)"
    by (simp add: run_state_eq)
  have "\<not> stuck (exec ?m ?w)"
    by (simp add: sim70_eval)
  then show ?thesis
    using lan8770_wait_clear_outcome [OF _ _ r] sim70_bus_ok [of 1]
    by (auto simp: Let_def sim70_dev_def sim_dev_def)
qed

theorem lan8770_read_writes_again_witness:
  "bank_writes 0 (accesses (exec (write_then_read 1 LAN8770_PHY_BANK_DSP 0x2E 0x9572 LAN8770_PHY_BANK_MISC 0x16)
     (sim70_world (\<lambda>_. lan8770_data_0)))) =
   [(LAN8770_PHY_BANK_DSP, 0x2E, 0x9572), (LAN8770_PHY_BANK_MISC, 0x16, 0x9572)]"
proof -
  let ?w = "sim70_world (\<lambda>_. lan8770_data_0)"
  let ?m = "write_then_read 1 LAN8770_PHY_BANK_DSP 0x2E 0x9572 LAN8770_PHY_BANK_MISC 0x16"
  have "val ?m ?w = (MEPA_RC_OK, MEPA_RC_OK, 0)"
    by (simp add: write_then_read_def sim70_eval)
  then have r: "run_state ?m ?w = ((MEPA_RC_OK, MEPA_RC_OK, 0), exec ?m ?w)"
    by (simp add: run_state_eq)
  show ?thesis
    using lan8770_read_writes_again [OF _ _ _ _ _ _ _ r, of 0] sim70_bus_ok [of 1] by auto
qed

section \<open>Loopback\<close>

text \<open>
  Every write is to the register that the access before it has read, and keeps the bits that were set.
\<close>

fun only_sets :: "(8 word \<times> 16 word) option \<Rightarrow> io_event list \<Rightarrow> bool" where
  "only_sets r [] = True"
| "only_sets r (MiimRd _ a _ v # es) = only_sets (Some (a, v)) es"
| "only_sets r (MiimWr _ a v _ # es) = (case r of None \<Rightarrow> False
     | Some (a', u) \<Rightarrow> a = a' \<and> u AND NOT v = 0 \<and> only_sets None es)"
| "only_sets r (_ # es) = only_sets None es"

lemma only_sets_None: "only_sets None es \<Longrightarrow> only_sets r es"
  by (cases "(r, es)" rule: only_sets.cases) auto

lemma only_sets_append:
  "only_sets r es \<Longrightarrow> only_sets None fs \<Longrightarrow> only_sets r (es @ fs)"
  by (induction r es rule: only_sets.induct) (auto simp: only_sets_None split: option.splits)

lemma merge_itself: "(u AND (v XOR 0xFFFF)) OR v = u OR v" for u v :: "16 word"
proof -
  have "(0xFFFF :: 16 word) = - 1" by simp
  then have "v XOR 0xFFFF = NOT v" by (simp only: bit.xor_one_right)
  then show ?thesis
    by (auto intro!: bit_word_eqI simp: bit_simps)
qed

lemma tspec_lb70:
  assumes "bus_at dv p" "\<And>Q. (\<And>v. Q (0, v) D [MiimRd (callout_ctx (dv p)) (ucast a) 0 v] False) \<Longrightarrow> tspec dv rd D Q"
    "\<And>evs. only_sets None evs \<Longrightarrow> Q MEPA_RC_OK D evs False"
  shows "tspec dv (lb70_update p want had rd a b) D Q"
  unfolding lb70_update_def lan8770_phy_read_mod_write_register_def lan8770_phy_ext_bank_reg_rd_def
    lan8770_phy_ext_bank_reg_wr_def
  by (intro tspec_if tspec_return assms(3) tspec_RC_GOTO_RD assms(2))
    (auto simp: Let_def merge_itself and.assoc [symmetric] intro!: tspec_RC_GOTO_RD tspec_rd [OF assms(1)] tspec_wr [OF assms(1)] assms(3))

lemma tspec_ext_smi:
  assumes "bus_at dv p" "\<And>v. Q (0, v) D [MiimRd (callout_ctx (dv p)) (ucast a) 0 v] False"
  shows "tspec dv (lan8770_phy_ext_bank_reg_rd p LAN8770_PHY_BANK_SMI a 0) D Q"
  unfolding lan8770_phy_ext_bank_reg_rd_def by (auto intro: tspec_rd assms)

text \<open>
  C34: functional behaviour.  On a working bus \<open>lan8770_loopback_set\<close> succeeds and stores the loopbacks
  it is asked for, and every register it writes keeps all the bits that it had: the word it has read,
  with the bit of the loopback set or cleared, is both the value and the mask of the update, so a bit
  that should be cleared stays.  A loopback that has been enabled is on until the next reset, while
  \<open>lan8770_loopback_get\<close> reports it as off.
\<close>

theorem lan8770_loopback_only_sets:
  assumes "bus_at (devs w) p" "run_state (lan8770_loopback_set p lb) w = (rc, w')"
  shows "\<exists>evs. accesses w' = accesses w @ evs \<and> only_sets None evs \<and> rc = MEPA_RC_OK \<and>
    priv w' = (priv w)(p := (priv w p)\<lparr>l70_loopback := lb\<rparr>)"
proof -
  have "tspec (devs w) (lan8770_loopback_set p lb) (priv w) (\<lambda>rc D evs s.
      only_sets None evs \<and> rc = MEPA_RC_OK \<and> D = (priv w)(p := (priv w p)\<lparr>l70_loopback := lb\<rparr>))"
    unfolding lan8770_loopback_set_def Let_def
    by (intro tspec_locked tspec_bind tspec_data_of tspec_RC_GOTO)
      (auto intro!: tspec_lb70 [OF assms(1)] tspec_rd [OF assms(1)] tspec_ext_smi [OF assms(1)] tspec_bind
        tspec_RC_GOTO tspec_upd_data tspec_return only_sets_append)
  from tspec_run [OF this assms(2)] show ?thesis by auto
qed

theorem lan8770_loopback_only_sets_witness:
  "let w' = exec (lan8770_loopback_set 1 mepa_loopback_0)
     (sim_world (\<lambda>_. 0x4100) (\<lambda>_. lan8770_data_0\<lparr>l70_loopback := mepa_loopback_0\<lparr>lb_near_end_ena := True\<rparr>\<rparr>))
   in only_sets None (accesses w') \<and> l70_loopback (priv w' 1) = mepa_loopback_0"
proof -
  let ?w = "sim_world (\<lambda>_. 0x4100) (\<lambda>_. lan8770_data_0\<lparr>l70_loopback := mepa_loopback_0\<lparr>lb_near_end_ena := True\<rparr>\<rparr>)"
  let ?m = "lan8770_loopback_set 1 mepa_loopback_0 :: (sim, mepa_rc) l70"
  have "run_state ?m ?w = (val ?m ?w, exec ?m ?w)"
    by (simp add: run_state_eq)
  from lan8770_loopback_only_sets [OF _ this] show ?thesis
    by (auto simp: accesses_def Let_def)
qed

section \<open>Configuration and reset\<close>

interpretation lan70_priv: lan8770_acc "\<lambda>w. priv w = D" for D
proof unfold_locales
  show "keeps (\<lambda>w :: ('h, lan8770_data) world. priv w = D) clock_read"
    by (simp add: moves_def clock_read_def exec_def split: prod.split)
qed (auto simp: moves_def lan8770_phy_direct_reg_rd_def lan8770_phy_direct_reg_wr_def MEPA_NSLEEP_def
  prim_defs prim_simps split: option.splits prod.splits)

text \<open>The private data with the settings stored.\<close>

definition conf70_stored :: "mepa_conf \<Rightarrow> lan8770_data \<Rightarrow> lan8770_data" where
  "conf70_stored config d = d\<lparr>l70_conf := (l70_conf d)\<lparr>conf_speed := MEPA_SPEED_100M, conf_fdx := True,
     conf_mac_if_aneg_ena := False, conf_flow_control := conf_flow_control config,
     conf_admin_enable := conf_admin_enable config, conf_man_neg := conf_man_neg config\<rparr>\<rparr>"

definition conf70_same :: "mepa_conf \<Rightarrow> lan8770_data \<Rightarrow> bool" where
  "conf70_same config d = (l70_init_done d \<and> conf_man_neg (l70_conf d) = conf_man_neg config \<and>
     conf_admin_enable (l70_conf d) = conf_admin_enable config)"

lemma run_conf_set_same:
  assumes "conf70_supported config" "conf70_same config (priv w p)"
  shows "run_state (lan8770_phy_conf_set p config) w =
    (MEPA_RC_ERROR, w\<lparr>priv := (priv w)(p := conf70_stored config (priv w p))\<rparr>)"
  using assms
  by (auto simp: lan8770_phy_conf_set_def rc_when_def run_state_eq conf70_same_def conf70_stored_def conf70_supported_def
      upd_conf70_def)

text \<open>
  Error behaviour.  When the chip is initialised and neither the role nor the power state changes,
  \<open>lan8770_conf_set\<close> accesses no register, stores the settings, and reports \<open>MEPA_RC_ERROR\<close>: its return
  code still has the value it is initialised with.
\<close>

theorem lan8770_conf_set_unchanged:
  assumes "conf70_supported config" "conf70_same config (priv w p)"
    and "run_state (lan8770_conf_set p config) w = (rc, w')"
  shows "rc = MEPA_RC_ERROR \<and> accesses w' = accesses w \<and>
    priv w' = (priv w)(p := conf70_stored config (priv w p))"
proof -
  have "tspec (devs w) (lan8770_conf_set p config) (priv w) (\<lambda>rc D' evs s. rc = MEPA_RC_ERROR \<and> evs = [] \<and>
      D' = (priv w)(p := conf70_stored config (priv w p)))"
    unfolding lan8770_conf_set_def
  proof (rule tspec_locked, rule tspec_quiet [where s = False and x = MEPA_RC_ERROR])
    fix v :: "('a, lan8770_data) world" assume "priv v = priv w"
    then show "devs (exec (lan8770_phy_conf_set p config) v) = devs v \<and>
        accesses (exec (lan8770_phy_conf_set p config) v) = accesses v \<and>
        stuck (exec (lan8770_phy_conf_set p config) v) = (stuck v \<or> False) \<and>
        val (lan8770_phy_conf_set p config) v = MEPA_RC_ERROR \<and>
        priv (exec (lan8770_phy_conf_set p config) v) = (priv w)(p := conf70_stored config (priv w p))"
      using run_conf_set_same [of config v p] assms(1,2) by (simp add: run_state_eq accesses_def)
  qed simp
  from tspec_run [OF this assms(3)] show ?thesis by auto
qed

theorem lan8770_conf_set_unchanged_witness:
  "let c = mepa_conf_0\<lparr>conf_speed := MEPA_SPEED_100M, conf_fdx := True, conf_man_neg := MEPA_MANUAL_NEG_REF,
         conf_admin_enable := True\<rparr>;
       w = sim_world (\<lambda>_. 0) (\<lambda>_. lan8770_data_0\<lparr>l70_init_done := True, l70_conf := c\<rparr>)
   in val (lan8770_conf_set 1 c) w = MEPA_RC_ERROR \<and> accesses (exec (lan8770_conf_set 1 c) w) = []"
proof -
  let ?c = "mepa_conf_0\<lparr>conf_speed := MEPA_SPEED_100M, conf_fdx := True, conf_man_neg := MEPA_MANUAL_NEG_REF,
         conf_admin_enable := True\<rparr>"
  let ?w = "sim_world (\<lambda>_. 0) (\<lambda>_. lan8770_data_0\<lparr>l70_init_done := True, l70_conf := ?c\<rparr>)"
  have "run_state (lan8770_conf_set 1 ?c) ?w = (val (lan8770_conf_set 1 ?c) ?w, exec (lan8770_conf_set 1 ?c) ?w)"
    by (simp add: run_state_eq)
  from lan8770_conf_set_unchanged [OF _ _ this] show ?thesis
    by (simp add: conf70_supported_def conf70_same_def mepa_conf_0_def accesses_def Let_def)
qed

lemma pspec_device_info:
  "pspec (lan8770_phy_get_device_info p) D (\<lambda>rc D'. l70_init_done (D' p) = l70_init_done (D p))"
  unfolding lan8770_phy_get_device_info_def upd_dev70_def
  by (auto intro!: pspec_RC_GOTO_RD pspec_bind pspec_upd_data pspec_return pspec_keeps [OF lan70_priv.keeps_rd])

lemma pspec_conf_set_own:
  "l70_init_done (D p) \<Longrightarrow> pspec (lan8770_phy_conf_set p (l70_conf (D p))) D (\<lambda>rc D'. rc \<noteq> MEPA_RC_OK)"
proof (cases "conf70_supported (l70_conf (D p))")
  case True
  assume d: "l70_init_done (D p)"
  show ?thesis unfolding pspec_def
  proof (intro allI impI)
    fix w :: "('a, lan8770_data) world" assume "priv w = D"
    then show "val (lan8770_phy_conf_set p (l70_conf (D p))) w \<noteq> MEPA_RC_OK"
      using run_conf_set_same [OF True, of w p] d by (simp add: run_state_eq conf70_same_def)
  qed
next
  case False
  then show ?thesis by (simp add: pspec_def lan8770_phy_conf_set_def)
qed

text \<open>
  C33: error behaviour.  \<open>lan8770_reset\<close> never succeeds, whatever the hardware answers and whatever has been
  configured: it applies the stored settings after the initialisation, which leaves nothing to change,
  and the error that \<open>phy_conf_set\<close> then reports (or the rejection of the settings) ends it before the
  TC10 settings are written.
\<close>

theorem lan8770_reset_never_succeeds:
  assumes "run_state (lan8770_reset p r) w = (rc, w')"
  shows "rc \<noteq> MEPA_RC_OK"
proof -
  have "pspec (lan8770_reset p r) (priv w) (\<lambda>rc D'. rc \<noteq> MEPA_RC_OK)"
    unfolding lan8770_reset_def locked_def
    by (auto intro!: pspec_bind pspec_enter pspec_exit pspec_return pspec_data_of pspec_RC_GOTO pspec_upd_data
        pspec_keeps [OF lan70_priv.keeps_init_conf] pspec_mono [OF pspec_device_info]
        pspec_mono [OF pspec_conf_set_own])
  from pspec_run [OF this assms] show ?thesis .
qed

theorem lan8770_reset_never_succeeds_witness:
  "val (lan8770_reset 1 \<lparr>rst_media_intf = MESA_PHY_MEDIA_IF_T1_100FX,
     rst_reset_point = MEPA_RESET_POINT_DEFAULT, rst_framepreempt_en = False\<rparr>)
     (sim70_world (\<lambda>_. lan8770_data_0)) \<noteq> MEPA_RC_OK"
  by (rule lan8770_reset_never_succeeds) (rule run_state_eq)

section \<open>Slots\<close>

lemma free_slot_None: "lan8770_free_slot D = None \<longleftrightarrow> (\<forall>i < MAX_LAN8770_PHY. l70_ctx_status (D i))"
  by (auto simp: lan8770_free_slot_def find_None_iff)

lemma free_slot_Some: "lan8770_free_slot D = Some p \<longleftrightarrow>
    p < MAX_LAN8770_PHY \<and> \<not> l70_ctx_status (D p) \<and> (\<forall>i < p. l70_ctx_status (D i))"
  by (auto simp: lan8770_free_slot_def find_Some_iff)

lemma delete_priv: "priv (exec (lan8770_delete p) w) = (priv w)(p := lan8770_data_0)"
  by (auto simp: lan8770_delete_def locked_def MEPA_ENTER_def MEPA_EXIT_def prim_simps split: option.split)

text \<open>
  C35: bounds.  \<open>lan8770_probe\<close> takes the lowest of the nine slots that is not in use, and creates no device
  when all are; \<open>lan8770_delete\<close> frees the slot of its device again.
\<close>

theorem lan8770_probe_slots:
  assumes "run_state (lan8770_probe drv0 co ctx conf) w = (r, w')"
  shows "(case r of None \<Rightarrow> (\<forall>i < MAX_LAN8770_PHY. l70_ctx_status (priv w i)) \<and> w' = w
    | Some p \<Rightarrow> p < MAX_LAN8770_PHY \<and> \<not> l70_ctx_status (priv w p) \<and> (\<forall>i < p. l70_ctx_status (priv w i)) \<and>
        l70_ctx_status (priv w' p) \<and> (\<forall>i. i \<noteq> p \<longrightarrow> priv w' i = priv w i \<and> devs w' i = devs w i) \<and>
        drv (devs w' p) = drv0 \<and>
        lan8770_free_slot (priv (exec (lan8770_delete p) w')) = Some p)"
proof (cases "lan8770_free_slot (priv w)")
  case None
  with assms have "r = None" "w' = w"
    by (simp_all add: lan8770_probe_def run_state_eq)
  with None show ?thesis by (simp add: free_slot_None)
next
  case (Some p)
  note slot = iffD1 [OF free_slot_Some Some]
  from assms Some have w': "r = Some p" "priv w' = (priv w)(p := lan8770_probe_data conf (priv w p))"
      "\<And>i. i \<noteq> p \<Longrightarrow> devs w' i = devs w i" "drv (devs w' p) = drv0"
    by (auto simp: lan8770_probe_def run_state_eq set_dev_def)
  have "lan8770_free_slot (priv (exec (lan8770_delete p) w')) = Some p"
    using slot unfolding free_slot_Some delete_priv w'(2) by (simp add: lan8770_data_0_def)
  with w' slot show ?thesis
    by (simp add: lan8770_probe_data_def)
qed

theorem lan8770_probe_slots_witness:
  "let D = (\<lambda>i. lan8770_data_0\<lparr>l70_ctx_status := i < 3\<rparr>);
       b = \<lparr>board_numeric_handle = 7, board_dummy_phy_cap = 0\<rparr>;
       w' = exec (lan8770_probe (LAN8770_FAMILY, 0) sim70_callout 5 b) (sim70_world D)
   in l70_ctx_status (priv w' 3) \<and> lan8770_free_slot (priv (exec (lan8770_delete 3) w')) = Some 3"
proof -
  let ?D = "\<lambda>i. lan8770_data_0\<lparr>l70_ctx_status := i < 3\<rparr>"
  let ?m = "lan8770_probe (LAN8770_FAMILY, 0) sim70_callout 5 \<lparr>board_numeric_handle = 7, board_dummy_phy_cap = 0\<rparr>"
  have "lan8770_free_slot ?D = Some 3"
    by (simp add: free_slot_Some)
  then have "val ?m (sim70_world ?D) = Some 3"
    by (simp add: lan8770_probe_def)
  then have r: "run_state ?m (sim70_world ?D) = (Some 3, exec ?m (sim70_world ?D))"
    by (simp add: run_state_eq)
  show ?thesis
    using lan8770_probe_slots [OF r] by (simp add: Let_def)
qed

section \<open>Locking\<close>

text \<open>
  C31: locking of the LAN8770.  Every history of API calls on LAN8770 devices, TC10 included,
  that starts with the lock free ends with the lock free, with every bus access under the
  lock, for every content of the private data and any answers of the hardware.
\<close>

theorem lan8770_lock_discipline:
  assumes "lan8770_system lib (devs w)" "\<And>p. has_locks (devs w p)"
    and "lock_state (io w) = Lock_Free" "(api_step lib)\<^sup>*\<^sup>* w w'"
  shows "lock_state (io w') = Lock_Free \<and> devs w' = devs w"
  using api70_lock.history_keeps [OF assms(4), of "devs w"] assms(1-3)
  by (simp add: all_free_def)

definition lan8770_build :: "('h, lan8770_data) phy_lib" where
  "lan8770_build = replicate 7 [] @ [mepa_lan8770_driver_init]"

lemma sim70_history:
  "(api_step lib)\<^sup>*\<^sup>* w (exec (mepa_tc10_set_wakeup_support lib (Some 2) m)
    (exec (mepa_poll lib (Some 1) st) w))"
  by (rule rtranclp.rtrancl_into_rtrancl, rule r_into_rtranclp, rule api_base, rule step_poll,
      rule api_t1, rule step_tc10_set_wakeup_support)

theorem lan8770_lock_discipline_witness:
  "lock_state (io (exec (mepa_tc10_set_wakeup_support lan8770_build (Some 2) MEPA_TC10_WAKEUP_DISABLE)
     (exec (mepa_poll lan8770_build (Some 1) mepa_status_0) (sim70_world (\<lambda>_. lan8770_data_0)))))
   = Lock_Free"
proof -
  have "lan8770_system lan8770_build sim70_dev" "has_locks (sim70_dev p)" for p
    by (simp_all add: lan8770_system_def lan8770_build_def nth_append sim70_dev_def has_locks_def
        sim70_callout_def sim_callout_def)
  then show ?thesis
    using lan8770_lock_discipline [OF _ _ _ sim70_history [where w = "sim70_world (\<lambda>_. lan8770_data_0)"]]
    by (simp add: lock_state_def)
qed

end
