(* ===== verification/Ksz9031.thy ===== *)
theory Ksz9031
  imports Mepa_Driver Mepa_Flow Phy_Sim
begin

text \<open>
  The driver of the KSZ9031 (\<open>mepa/ksz9031/phy_driver.c\<close>), a gigabit PHY that is handled with the
  generic registers of clause 22, and what it does.  The family is number 6 of \<open>MEPA_phy_lib\<close>.
  Its functions take no lock, and they do not trust the bus: the theorems hold for callouts that
  may fail at any access, so they speak about the trace of raw accesses.
\<close>

abbreviation (input) KSZ9031_FAMILY :: nat where "KSZ9031_FAMILY \<equiv> 6"
abbreviation (input) KSZ_PHY_CHIPID :: "32 word" where "KSZ_PHY_CHIPID \<equiv> 0x00221622"
abbreviation (input) PHY_POLL :: int where "PHY_POLL \<equiv> -1"
abbreviation (input) DUPLEX_HALF :: int where "DUPLEX_HALF \<equiv> 0x00"
abbreviation (input) DUPLEX_FULL :: int where "DUPLEX_FULL \<equiv> 0x01"
abbreviation (input) DUPLEX_UNKNOWN :: int where "DUPLEX_UNKNOWN \<equiv> 0xff"
abbreviation (input) SPEED_10 :: int where "SPEED_10 \<equiv> 10"
abbreviation (input) SPEED_100 :: int where "SPEED_100 \<equiv> 100"
abbreviation (input) SPEED_1000 :: int where "SPEED_1000 \<equiv> 1000"
abbreviation (input) SPEED_UNKNOWN :: int where "SPEED_UNKNOWN \<equiv> -1"
abbreviation (input) AUTONEG_ENABLE :: "32 word" where "AUTONEG_ENABLE \<equiv> 1"
abbreviation (input) KSZ_MII_BMCR :: "32 word" where "KSZ_MII_BMCR \<equiv> 0x00"
abbreviation (input) MII_BMSR :: "32 word" where "MII_BMSR \<equiv> 0x01"
abbreviation (input) KSZ_BMCR_ISOLATE :: "16 word" where "KSZ_BMCR_ISOLATE \<equiv> 0x0400"
abbreviation (input) BMCR_ANENABLE :: "16 word" where "BMCR_ANENABLE \<equiv> 0x1000"
abbreviation (input) BMCR_ANRESTART :: "16 word" where "BMCR_ANRESTART \<equiv> 0x0200"
abbreviation (input) BMSR_LSTATUS :: int where "BMSR_LSTATUS \<equiv> 0x0004"
abbreviation (input) BMSR_ANEGCOMPLETE :: int where "BMSR_ANEGCOMPLETE \<equiv> 0x0020"
abbreviation (input) BMCR_FULLDPLX :: int where "BMCR_FULLDPLX \<equiv> 0x0100"
abbreviation (input) BMCR_SPEED1000 :: int where "BMCR_SPEED1000 \<equiv> 0x0040"
abbreviation (input) BMCR_SPEED100 :: int where "BMCR_SPEED100 \<equiv> 0x2000"
abbreviation (input) MII_KSZ9031RN_FLP_BURST_TX_LO :: "32 word" where "MII_KSZ9031RN_FLP_BURST_TX_LO \<equiv> 3"
abbreviation (input) MII_KSZ9031RN_FLP_BURST_TX_HI :: "32 word" where "MII_KSZ9031RN_FLP_BURST_TX_HI \<equiv> 4"

section \<open>Private data and register access\<close>

record ksz_data =
  kpd_autoneg :: "32 word"
  kpd_link :: "32 word"
  kpd_autoneg_complete :: "32 word"
  kpd_irq :: int
  kpd_speed :: int
  kpd_duplex :: int
  kpd_pause :: int
  kpd_asym_pause :: int

type_synonym ('h, 'a) ksz = "('h, ksz_data, 'a) mepa"

definition ksz_data_0 :: ksz_data where
  "ksz_data_0 = \<lparr>kpd_autoneg = 0, kpd_link = 0, kpd_autoneg_complete = 0, kpd_irq = 0,
     kpd_speed = 0, kpd_duplex = 0, kpd_pause = 0, kpd_asym_pause = 0\<rparr>"

definition phy_read :: "nat \<Rightarrow> 32 word \<Rightarrow> ('h, int) ksz" where
  "phy_read dev regnum = do {
     (rc, v) \<leftarrow> dev_miim_read dev (ucast regnum);
     State_Monad.return (if rc \<noteq> MEPA_RC_OK then -1 else uint v) }"

definition phy_write :: "nat \<Rightarrow> 32 word \<Rightarrow> 16 word \<Rightarrow> ('h, int) ksz" where
  "phy_write dev regnum v = do {
     rc \<leftarrow> dev_miim_write dev (ucast regnum) v;
     State_Monad.return (if rc \<noteq> MEPA_RC_OK then -1 else 0) }"

text \<open>The value -1 of a failed read becomes \<open>0xFFFF\<close>, and a failed write is ignored.\<close>

definition phy_modify :: "nat \<Rightarrow> 32 word \<Rightarrow> 16 word \<Rightarrow> 16 word \<Rightarrow> ('h, int) ksz" where
  "phy_modify dev regnum msk set_bits = do {
     r \<leftarrow> phy_read dev regnum;
     let v = (word_of_int r :: 16 word);
     let v = v AND NOT msk;
     let v = v OR (set_bits AND msk);
     phy_write dev regnum v;
     State_Monad.return 0 }"

definition phy_write_mmd :: "nat \<Rightarrow> 8 word \<Rightarrow> 32 word \<Rightarrow> 16 word \<Rightarrow> ('h, int) ksz" where
  "phy_write_mmd dev devad regnum v = do {
     d \<leftarrow> dev_of dev;
     rc \<leftarrow> co_mmd_write (callout d) (callout_ctx d) devad (ucast regnum) v;
     State_Monad.return (if rc \<noteq> MEPA_RC_OK then -1 else 0) }"

section \<open>Configuration\<close>

definition genphy_restart_aneg :: "nat \<Rightarrow> ('h, int) ksz" where
  "genphy_restart_aneg dev = phy_modify dev KSZ_MII_BMCR KSZ_BMCR_ISOLATE (BMCR_ANENABLE OR BMCR_ANRESTART)"

definition center_flp_timing :: "nat \<Rightarrow> ('h, int) ksz" where
  "center_flp_timing dev = do {
     result \<leftarrow> phy_write_mmd dev 0 MII_KSZ9031RN_FLP_BURST_TX_HI 0x0006;
     if result \<noteq> 0 then State_Monad.return result else do {
     result \<leftarrow> phy_write_mmd dev 0 MII_KSZ9031RN_FLP_BURST_TX_LO 0x1A80;
     if result \<noteq> 0 then State_Monad.return result
     else genphy_restart_aneg dev }}"

definition ksz_conf_set :: "nat \<Rightarrow> mepa_conf \<Rightarrow> ('h, mepa_rc) ksz" where
  "ksz_conf_set dev config = center_flp_timing dev"

section \<open>Polling\<close>

definition phy_polling_mode :: "nat \<Rightarrow> ('h, bool) ksz" where
  "phy_polling_mode dev = do { d \<leftarrow> data_of dev; State_Monad.return (kpd_irq d = PHY_POLL) }"

text \<open>The code at the label \<open>done\<close>.\<close>

definition update_link_done :: "int \<Rightarrow> ksz_data \<Rightarrow> ksz_data" where
  "update_link_done status d =
    (let d = d\<lparr>kpd_link := if status AND BMSR_LSTATUS \<noteq> 0 then 1 else 0,
               kpd_autoneg_complete := if status AND BMSR_ANEGCOMPLETE \<noteq> 0 then 1 else 0\<rparr>
     in if kpd_autoneg d = AUTONEG_ENABLE \<and> kpd_autoneg_complete d = 0 then d\<lparr>kpd_link := 0\<rparr> else d)"

definition genphy_update_link_done :: "nat \<Rightarrow> int \<Rightarrow> ('h, int) ksz" where
  "genphy_update_link_done dev status = do {
     upd_data dev (update_link_done status);
     State_Monad.return 0 }"

definition genphy_link_read :: "nat \<Rightarrow> ('h, int) ksz" where
  "genphy_link_read dev = do {
     status \<leftarrow> phy_read dev MII_BMSR;
     if status < 0 then State_Monad.return status else genphy_update_link_done dev status }"

definition genphy_update_link :: "nat \<Rightarrow> ('h, int) ksz" where
  "genphy_update_link dev = do {
     bmcr \<leftarrow> phy_read dev KSZ_MII_BMCR;
     if bmcr < 0 then State_Monad.return bmcr
     else if bmcr AND uint BMCR_ANRESTART \<noteq> 0 then genphy_update_link_done dev 0
     else do {
     polling \<leftarrow> phy_polling_mode dev;
     if polling then genphy_link_read dev else do {
       status \<leftarrow> phy_read dev MII_BMSR;
       if status < 0 then State_Monad.return status
       else if status AND BMSR_LSTATUS \<noteq> 0 then genphy_update_link_done dev status
       else genphy_link_read dev }}}"

definition bmcr_speed :: "int \<Rightarrow> int" where
  "bmcr_speed bmcr = (if bmcr AND BMCR_SPEED1000 \<noteq> 0 then SPEED_1000
     else if bmcr AND BMCR_SPEED100 \<noteq> 0 then SPEED_100 else SPEED_10)"

definition bmcr_duplex :: "int \<Rightarrow> int" where
  "bmcr_duplex bmcr = (if bmcr AND BMCR_FULLDPLX \<noteq> 0 then DUPLEX_FULL else DUPLEX_HALF)"

definition genphy_read_status :: "nat \<Rightarrow> ('h, int) ksz" where
  "genphy_read_status dev = do {
     d \<leftarrow> data_of dev;
     let old_link = kpd_link d;
     err \<leftarrow> genphy_update_link dev;
     if err \<noteq> 0 then State_Monad.return err else do {
     d \<leftarrow> data_of dev;
     if kpd_autoneg d = AUTONEG_ENABLE \<and> old_link \<noteq> 0 \<and> kpd_link d \<noteq> 0 then State_Monad.return 0
     else do {
     upd_data dev (\<lambda>d. d\<lparr>kpd_speed := SPEED_UNKNOWN, kpd_duplex := DUPLEX_UNKNOWN, kpd_pause := 0,
       kpd_asym_pause := 0\<rparr>);
     bmcr \<leftarrow> phy_read dev KSZ_MII_BMCR;
     if bmcr < 0 then State_Monad.return bmcr else do {
     upd_data dev (\<lambda>d. d\<lparr>kpd_duplex := bmcr_duplex bmcr\<rparr>);
     upd_data dev (\<lambda>d. d\<lparr>kpd_speed := bmcr_speed bmcr\<rparr>);
     State_Monad.return 0 }}}}"

definition ksz_poll :: "nat \<Rightarrow> mepa_status \<Rightarrow> ('h, mepa_rc \<times> mepa_status) ksz" where
  "ksz_poll dev status = do {
     err \<leftarrow> genphy_read_status dev;
     if err \<noteq> 0 then State_Monad.return (MEPA_RC_ERROR, status) else do {
     d \<leftarrow> data_of dev;
     State_Monad.return (MEPA_RC_OK, status\<lparr>
       st_link := kpd_link d \<noteq> 0,
       st_speed := (if kpd_speed d = SPEED_10 then MEPA_SPEED_10M
         else if kpd_speed d = SPEED_100 then MEPA_SPEED_100M else MEPA_SPEED_1G),
       st_fdx := kpd_duplex d = DUPLEX_FULL\<rparr>) }}"

section \<open>The driver table\<close>

definition ksz_probe ::
  "nat \<Rightarrow> nat \<Rightarrow> drv_ptr \<Rightarrow> 'h mepa_callout \<Rightarrow> nat \<Rightarrow> mepa_board_conf \<Rightarrow> ('h, nat option) ksz" where
  "ksz_probe dev_size priv_size drv0 co ctx board_conf = do {
     dev \<leftarrow> mepa_create_int dev_size drv0 co ctx board_conf priv_size ksz_data_0;
     case dev of
       None \<Rightarrow> State_Monad.return None
     | Some p \<Rightarrow> do {
         upd_data p (\<lambda>d. d\<lparr>kpd_irq := PHY_POLL\<rparr>);
         State_Monad.return (Some p) }}"

definition ksz_status_1g_get :: "nat \<Rightarrow> mepa_aneg_status \<Rightarrow> ('h, mepa_rc \<times> mepa_aneg_status) ksz" where
  "ksz_status_1g_get dev status = State_Monad.return (MEPA_RC_OK, status)"

definition ksz_1g_if_get ::
  "nat \<Rightarrow> mepa_port_speed \<Rightarrow> mepa_port_interface \<Rightarrow> ('h, mepa_rc \<times> mepa_port_interface) ksz" where
  "ksz_1g_if_get dev speed mac_if = State_Monad.return (MEPA_RC_OK, MESA_PORT_INTERFACE_GMII)"

definition ksz_delete :: "nat \<Rightarrow> ('h, mepa_rc) ksz" where
  "ksz_delete dev = mepa_delete_int dev"

definition ksz_capability :: "nat \<Rightarrow> 32 word \<Rightarrow> ('h, 32 word) ksz" where
  "ksz_capability dev capability = State_Monad.return 0"

definition ksz_driver :: "nat \<Rightarrow> nat \<Rightarrow> ('h, ksz_data) mepa_driver" where
  "ksz_driver dev_size priv_size = null_driver\<lparr>
     drv_id := KSZ_PHY_CHIPID,
     drv_mask := 0xffffffff,
     mepa_driver_delete := Some ksz_delete,
     mepa_driver_poll := Some ksz_poll,
     mepa_driver_conf_set := Some ksz_conf_set,
     mepa_driver_if_get := Some ksz_1g_if_get,
     mepa_driver_probe := Some (ksz_probe dev_size priv_size),
     mepa_driver_aneg_status_get := Some ksz_status_1g_get,
     mepa_driver_capability := Some ksz_capability\<rparr>"

definition mepa_ksz9031_driver_init :: "nat \<Rightarrow> nat \<Rightarrow> ('h, ksz_data) mepa_driver list" where
  "mepa_ksz9031_driver_init dev_size priv_size = [ksz_driver dev_size priv_size]"

section \<open>Outcomes on a bus that may fail\<close>

text \<open>The callouts that the driver calls without a test are there.\<close>

definition ksz_bus :: "'h mepa_device \<Rightarrow> bool" where
  "ksz_bus d = (bus_present d \<and> mmd_write (callout d) \<noteq> None)"

lemma wp_hw_call:
  "(\<And>x h. Q x (w\<lparr>hw := h, io := io w @ [ev x]\<rparr>)) \<Longrightarrow> wp (hw_call f ev) Q w"
  by (simp add: wp_def prim_simps)

lemma wp_dev_of [wp_simps]: "wp (dev_of p) Q w = Q (devs w p) w"
  by (simp add: wp_def)

lemma wp_data_of [wp_simps]: "wp (data_of p) Q w = Q (priv w p) w"
  by (simp add: wp_def)

lemma wp_upd_data [wp_simps]: "wp (upd_data p f) Q w = Q () (w\<lparr>priv := (priv w)(p := f (priv w p))\<rparr>)"
  by (simp add: wp_def)

lemma wp_phy_read:
  assumes "bus_present (devs w p)"
    and "\<And>rc v h. Q (if rc \<noteq> 0 then -1 else uint v)
      (w\<lparr>hw := h, io := io w @ [MiimRd (callout_ctx (devs w p)) (ucast a) rc v]\<rparr>)"
  shows "wp (phy_read p a) Q w"
proof -
  obtain f where f: "miim_read (callout (devs w p)) = Some f"
    using assms(1) by (auto simp: bus_present_def)
  show ?thesis
    unfolding phy_read_def dev_miim_read_def co_miim_read_def wp_simps f option.case
    by (rule wp_hw_call) (use assms(2) in \<open>simp add: split_beta wp_simps\<close>)
qed

lemma wp_phy_write:
  assumes "bus_present (devs w p)"
    and "\<And>rc h. Q (if rc \<noteq> 0 then -1 else 0)
      (w\<lparr>hw := h, io := io w @ [MiimWr (callout_ctx (devs w p)) (ucast a) v rc]\<rparr>)"
  shows "wp (phy_write p a v) Q w"
proof -
  obtain f where f: "miim_write (callout (devs w p)) = Some f"
    using assms(1) by (auto simp: bus_present_def)
  show ?thesis
    unfolding phy_write_def dev_miim_write_def co_miim_write_def wp_simps f option.case
    by (rule wp_hw_call) (use assms(2) in simp)
qed

lemma wp_phy_write_mmd:
  assumes "mmd_write (callout (devs w p)) \<noteq> None"
    and "\<And>rc h. Q (if rc \<noteq> 0 then -1 else 0)
      (w\<lparr>hw := h, io := io w @ [MmdWr (callout_ctx (devs w p)) m (ucast a) v rc]\<rparr>)"
  shows "wp (phy_write_mmd p m a v) Q w"
proof -
  obtain f where f: "mmd_write (callout (devs w p)) = Some f"
    using assms(1) by auto
  show ?thesis
    unfolding phy_write_mmd_def co_mmd_write_def wp_simps f option.case
    by (rule wp_hw_call) (use assms(2) in simp)
qed

lemmas wp_ksz = wp_phy_read wp_phy_write wp_phy_write_mmd

text \<open>The traces that \<open>ksz_conf_set\<close> can leave, with its result.\<close>

definition ksz_conf_trace :: "nat \<Rightarrow> mepa_rc \<Rightarrow> io_event list \<Rightarrow> bool" where
  "ksz_conf_trace c rc evs =
    ((\<exists>r1. r1 \<noteq> MEPA_RC_OK \<and> rc = -1 \<and> evs = [MmdWr c 0 4 6 r1]) \<or>
     (\<exists>r2. r2 \<noteq> MEPA_RC_OK \<and> rc = -1 \<and> evs = [MmdWr c 0 4 6 MEPA_RC_OK, MmdWr c 0 3 0x1A80 r2]) \<or>
     (\<exists>r3 v x r4. rc = 0 \<and>
       evs = [MmdWr c 0 4 6 MEPA_RC_OK, MmdWr c 0 3 0x1A80 MEPA_RC_OK, MiimRd c 0 r3 v, MiimWr c 0 x r4] \<and>
       (\<forall>k. bit x k = (k < 16 \<and> k \<noteq> 10 \<and> (r3 = MEPA_RC_OK \<longrightarrow> bit v k)))))"

lemma isolate_bits:
  "bit (v AND - 1025 :: 16 word) k = (k \<noteq> 10 \<and> bit v k)"
  "bit (- 1025 :: 16 word) k = (k < 16 \<and> k \<noteq> 10)"
proof -
  have "bit (x AND - 1025 :: 16 word) k = (k \<noteq> 10 \<and> bit x k)" for x
    using bit_merge_single [of 10 x 0 k] by (simp add: merge_def)
  from this [of v] this [of "- 1"] show "bit (v AND - 1025 :: 16 word) k = (k \<noteq> 10 \<and> bit v k)"
    "bit (- 1025 :: 16 word) k = (k < 16 \<and> k \<noteq> 10)"
    by (auto simp: bit_minus_1_iff)
qed

lemma int_bit_isolate: "bit (- 1025 :: int) k = (k \<noteq> 10)"
proof -
  have "(- 1025 :: int) = NOT (2 ^ 10)" by simp
  then show ?thesis by (simp only: bit_not_iff bit_exp_iff) simp
qed

lemma bit_word_16: "bit (v :: 16 word) k \<Longrightarrow> k < 16"
  by (drule bit_imp_le_length) simp

lemma ksz_conf_trace_words:
  assumes "ksz_conf_trace c rc evs" "MiimWr c a x r4 \<in> set evs" "MiimRd c b r3 v \<in> set evs"
  shows "\<not> bit x 10 \<and> (if r3 = MEPA_RC_OK then \<forall>k. k \<noteq> 10 \<longrightarrow> bit x k = bit v k else bit x 15)"
proof -
  from assms have "\<forall>k. bit x k = (k < 16 \<and> k \<noteq> 10 \<and> (r3 = MEPA_RC_OK \<longrightarrow> bit v k))"
    unfolding ksz_conf_trace_def by (elim disjE exE conjE) simp_all
  then show ?thesis using bit_word_16 [of v] by auto
qed

lemma ksz_conf_set_outcome:
  assumes "ksz_bus (devs w p)" "c = callout_ctx (devs w p)"
  shows "wp (ksz_conf_set p cfg) (\<lambda>rc w'. devs w' = devs w \<and> priv w' = priv w \<and>
    (\<exists>evs. io w' = io w @ evs \<and> ksz_conf_trace c rc evs)) w"
  using assms(1) unfolding ksz_conf_set_def center_flp_timing_def genphy_restart_aneg_def phy_modify_def ksz_bus_def
  by (auto simp: wp_simps assms(2) ksz_conf_trace_def isolate_bits int_bit_isolate Let_def intro!: wp_ksz)
    (erule bit_word_16)

text \<open>
  Configuring a KSZ9031.  Whatever the callouts answer, \<open>ksz_conf_set\<close> ignores the configuration, stores
  nothing and makes at most two writes of the link pulse timing and one read and write of the control register; it
  fails exactly when one of the first two writes fails.  The written control word never has
  the isolate bit, and has every other bit as it was read: auto-negotiation is neither enabled
  nor restarted.  When the read of the control register fails the word written is \<open>0xFBFF\<close>,
  which resets the PHY.
\<close>

theorem ksz_conf_set_never_negotiates:
  assumes "ksz_bus (devs w p)" "c = callout_ctx (devs w p)"
    and "run_state (ksz_conf_set p cfg) w = (rc, w')"
  shows "priv w' = priv w \<and> (\<exists>evs. io w' = io w @ evs \<and> ksz_conf_trace c rc evs \<and>
    (\<forall>r3 v x r4. MiimRd c 0 r3 v \<in> set evs \<and> MiimWr c 0 x r4 \<in> set evs \<longrightarrow>
      \<not> bit x 10 \<and> (if r3 = MEPA_RC_OK then \<forall>k. k \<noteq> 10 \<longrightarrow> bit x k = bit v k else bit x 15)))"
proof -
  have "wp (ksz_conf_set p cfg) (\<lambda>rc w'. devs w' = devs w \<and> priv w' = priv w \<and>
    (\<exists>evs. io w' = io w @ evs \<and> ksz_conf_trace c rc evs)) w"
    by (rule ksz_conf_set_outcome [OF assms(1,2)])
  then obtain evs where e: "io w' = io w @ evs" "ksz_conf_trace c rc evs" and "priv w' = priv w"
    using assms(3) by (auto simp: wp_def run_state_eq)
  then show ?thesis
    by (intro conjI exI [of _ evs]) (use ksz_conf_trace_words in blast)+
qed

theorem ksz_conf_set_never_negotiates_witness:
  "io (exec (ksz_conf_set 1 mepa_conf_0) (sim_world (\<lambda>_. 0) (\<lambda>_. ksz_data_0))) \<noteq> []"
proof -
  let ?w = "sim_world (\<lambda>_. 0) (\<lambda>_. ksz_data_0)"
  have b: "ksz_bus (devs ?w 1)" by (simp add: ksz_bus_def) (simp add: sim_dev_def sim_callout_def)
  show ?thesis
    using ksz_conf_set_never_negotiates [OF b refl run_state_eq, of mepa_conf_0]
    by (auto simp: ksz_conf_trace_def)
qed

text \<open>
  What a poll of a device with the private data \<open>d\<close> reads and reports.  \<open>ksz_status_reads\<close>: the words
  read from the status register, none while the control word \<open>b\<close> has a restart pending, one in
  polling mode, and otherwise a second one when the first shows the link down.  \<open>ksz_up\<close>: the
  link after these reads, with auto-negotiation only once it is complete.
\<close>

definition ksz_status_reads :: "ksz_data \<Rightarrow> 16 word \<Rightarrow> 16 word list \<Rightarrow> bool" where
  "ksz_status_reads d b ss = (if bit b 9 then ss = []
     else if kpd_irq d = -1 then \<exists>s. ss = [s]
     else (\<exists>s. bit s 2 \<and> ss = [s]) \<or> (\<exists>s1 s2. \<not> bit s1 2 \<and> ss = [s1, s2]))"

definition ksz_up :: "ksz_data \<Rightarrow> 16 word list \<Rightarrow> bool" where
  "ksz_up d ss = (ss \<noteq> [] \<and> bit (last ss) 2 \<and> (kpd_autoneg d = 1 \<longrightarrow> bit (last ss) 5))"

text \<open>
  The link was up and has stayed up with auto-negotiation: the stored mode is kept.  Otherwise the
  mode is that of the control word \<open>b\<close>, read again.
\<close>

definition ksz_keeps_mode :: "ksz_data \<Rightarrow> 16 word list \<Rightarrow> bool" where
  "ksz_keeps_mode d ss = (kpd_autoneg d = 1 \<and> kpd_link d \<noteq> 0 \<and> ksz_up d ss)"

definition ksz_mode :: "ksz_data \<Rightarrow> 16 word list \<Rightarrow> 16 word \<Rightarrow> int \<times> int" where
  "ksz_mode d ss b = (if ksz_keeps_mode d ss then (kpd_speed d, kpd_duplex d)
     else (if bit b 6 then 1000 else if bit b 13 then 100 else 10, if bit b 8 then 1 else 0))"

definition ksz_report :: "mepa_status \<Rightarrow> bool \<Rightarrow> int \<times> int \<Rightarrow> mepa_status" where
  "ksz_report st up m = st\<lparr>st_link := up,
     st_speed := (if fst m = 10 then MEPA_SPEED_10M else if fst m = 100 then MEPA_SPEED_100M else MEPA_SPEED_1G),
     st_fdx := (snd m = 1)\<rparr>"

definition ksz_poll_trace ::
  "nat \<Rightarrow> ksz_data \<Rightarrow> mepa_status \<Rightarrow> mepa_rc \<Rightarrow> mepa_status \<Rightarrow> ksz_data \<Rightarrow> io_event list \<Rightarrow> bool" where
  "ksz_poll_trace c d st rc st' d' evs =
    ((\<exists>b ss b'. rc = MEPA_RC_OK \<and> ksz_status_reads d b ss \<and>
       evs = MiimRd c 0 MEPA_RC_OK b # map (MiimRd c 1 MEPA_RC_OK) ss @
         (if ksz_keeps_mode d ss then [] else [MiimRd c 0 MEPA_RC_OK b']) \<and>
       st' = ksz_report st (ksz_up d ss) (ksz_mode d ss b') \<and>
       kpd_link d' = (if ksz_up d ss then 1 else 0) \<and> (kpd_speed d', kpd_duplex d') = ksz_mode d ss b') \<or>
     (\<exists>rds a r v. rc = MEPA_RC_ERROR \<and> st' = st \<and> r \<noteq> MEPA_RC_OK \<and> length rds \<le> 3 \<and>
       evs = map (\<lambda>(a, v). MiimRd c a MEPA_RC_OK v) rds @ [MiimRd c a r v]))"

lemmas ksz_report_defs = ksz_status_reads_def ksz_up_def ksz_keeps_mode_def ksz_mode_def ksz_report_def

lemma ksz_poll_reported:
  assumes "ksz_status_reads d b ss" "st' = ksz_report st (ksz_up d ss) (ksz_mode d ss b')"
    "kpd_link d' = (if ksz_up d ss then 1 else 0)" "(kpd_speed d', kpd_duplex d') = ksz_mode d ss b'"
    "evs = MiimRd c 0 0 b # map (MiimRd c 1 0) ss @ (if ksz_keeps_mode d ss then [] else [MiimRd c 0 0 b'])"
  shows "ksz_poll_trace c d st 0 st' d' evs"
  using assms unfolding ksz_poll_trace_def by blast

lemma ksz_no_status [simp]: "ksz_up d [] = False" "ksz_keeps_mode d [] = False"
  by (simp_all add: ksz_up_def ksz_keeps_mode_def)

lemma ksz_poll_restart:
  assumes "bit b 9" "st' = ksz_report st False (ksz_mode d [] b')" "kpd_link d' = 0"
    "(kpd_speed d', kpd_duplex d') = ksz_mode d [] b'"
  shows "ksz_poll_trace c d st 0 st' d' [MiimRd c 0 0 b, MiimRd c 0 0 b']"
  by (rule ksz_poll_reported [where ss = "[]"]) (use assms in \<open>simp_all add: ksz_status_reads_def\<close>)

lemma ksz_poll_mode:
  assumes "ksz_status_reads d b ss" "st' = ksz_report st (ksz_up d ss) (ksz_mode d ss b')"
    "kpd_link d' = (if ksz_up d ss then 1 else 0)" "(kpd_speed d', kpd_duplex d') = ksz_mode d ss b'"
    "\<not> ksz_keeps_mode d ss"
  shows "ss = [s] \<Longrightarrow> ksz_poll_trace c d st 0 st' d' [MiimRd c 0 0 b, MiimRd c 1 0 s, MiimRd c 0 0 b']"
    "ss = [s1, s] \<Longrightarrow>
      ksz_poll_trace c d st 0 st' d' [MiimRd c 0 0 b, MiimRd c 1 0 s1, MiimRd c 1 0 s, MiimRd c 0 0 b']"
  using ksz_poll_reported [OF assms(1-4) refl, of c] assms(5) by simp_all

lemma ksz_poll_kept:
  assumes "ksz_status_reads d b ss" "st' = ksz_report st True (kpd_speed d, kpd_duplex d)"
    "kpd_link d' = 1" "kpd_speed d' = kpd_speed d" "kpd_duplex d' = kpd_duplex d" "ksz_keeps_mode d ss"
  shows "ss = [s] \<Longrightarrow> ksz_poll_trace c d st 0 st' d' [MiimRd c 0 0 b, MiimRd c 1 0 s]"
    "ss = [s1, s] \<Longrightarrow> ksz_poll_trace c d st 0 st' d' [MiimRd c 0 0 b, MiimRd c 1 0 s1, MiimRd c 1 0 s]"
proof -
  have "ksz_up d ss" "ksz_mode d ss 0 = (kpd_speed d, kpd_duplex d)"
    using assms(6) by (simp_all add: ksz_keeps_mode_def ksz_mode_def)
  then show "ss = [s] \<Longrightarrow> ksz_poll_trace c d st 0 st' d' [MiimRd c 0 0 b, MiimRd c 1 0 s]"
    "ss = [s1, s] \<Longrightarrow> ksz_poll_trace c d st 0 st' d' [MiimRd c 0 0 b, MiimRd c 1 0 s1, MiimRd c 1 0 s]"
    using ksz_poll_reported [OF assms(1) _ _ _ refl, where st' = st' and st = st and b' = 0 and d' = d' and c = c] assms(2-6)
    by simp_all
qed

lemma ksz_poll_err:
  assumes "r \<noteq> 0"
  shows "ksz_poll_trace c d st (-1) st d' [MiimRd c a r v]"
    "ksz_poll_trace c d st (-1) st d' [MiimRd c a1 0 v1, MiimRd c a r v]"
    "ksz_poll_trace c d st (-1) st d' [MiimRd c a1 0 v1, MiimRd c a2 0 v2, MiimRd c a r v]"
    "ksz_poll_trace c d st (-1) st d' [MiimRd c a1 0 v1, MiimRd c a2 0 v2, MiimRd c a3 0 v3, MiimRd c a r v]"
proof -
  have "length rds \<le> 3 \<Longrightarrow> ksz_poll_trace c d st (-1) st d'
      (map (\<lambda>(a, v). MiimRd c a MEPA_RC_OK v) rds @ [MiimRd c a r v])" for rds
    using assms unfolding ksz_poll_trace_def by blast
  from this [of "[]"] this [of "[(a1, v1)]"] this [of "[(a1, v1), (a2, v2)]"]
    this [of "[(a1, v1), (a2, v2), (a3, v3)]"]
  show "ksz_poll_trace c d st (-1) st d' [MiimRd c a r v]"
    "ksz_poll_trace c d st (-1) st d' [MiimRd c a1 0 v1, MiimRd c a r v]"
    "ksz_poll_trace c d st (-1) st d' [MiimRd c a1 0 v1, MiimRd c a2 0 v2, MiimRd c a r v]"
    "ksz_poll_trace c d st (-1) st d' [MiimRd c a1 0 v1, MiimRd c a2 0 v2, MiimRd c a3 0 v3, MiimRd c a r v]"
    by simp_all
qed

lemma uint_bits:
  "(uint (v :: 16 word) AND 4 = 0) = (\<not> bit v 2)" "(uint v AND 32 = 0) = (\<not> bit v 5)"
  "(uint v AND 64 = 0) = (\<not> bit v 6)" "(uint v AND 256 = 0) = (\<not> bit v 8)"
  "(uint v AND 512 = 0) = (\<not> bit v 9)" "(uint v AND 8192 = 0) = (\<not> bit v 13)"
proof -
  have "(uint v AND 2 ^ n = 0) = (\<not> bit v n)" for n
    by (simp add: and_exp_eq_0_iff_not_bit bit_uint_iff) (auto dest: bit_imp_le_length)
  from this [of 2] this [of 5] this [of 6] this [of 8] this [of 9] this [of 13]
  show "(uint v AND 4 = 0) = (\<not> bit v 2)" "(uint v AND 32 = 0) = (\<not> bit v 5)"
    "(uint v AND 64 = 0) = (\<not> bit v 6)" "(uint v AND 256 = 0) = (\<not> bit v 8)"
    "(uint v AND 512 = 0) = (\<not> bit v 9)" "(uint v AND 8192 = 0) = (\<not> bit v 13)"
    by simp_all
qed

lemma ksz_mode_read: "ksz_mode d ss b = (if ksz_keeps_mode d ss then (kpd_speed d, kpd_duplex d)
    else (bmcr_speed (uint b), bmcr_duplex (uint b)))"
  by (simp add: ksz_mode_def bmcr_speed_def bmcr_duplex_def uint_bits)

lemma ksz_poll_outcome:
  assumes "bus_present (devs w p)" "d = priv w p" "c = callout_ctx (devs w p)"
  shows "wp (ksz_poll p st) (\<lambda>(rc, st') w'. kpd_irq (priv w' p) = kpd_irq d \<and>
    kpd_autoneg (priv w' p) = kpd_autoneg d \<and>
    (\<exists>evs. io w' = io w @ evs \<and> ksz_poll_trace c d st rc st' (priv w' p) evs)) w"
  using assms(1) unfolding ksz_poll_def genphy_read_status_def genphy_update_link_def phy_polling_mode_def
    genphy_link_read_def genphy_update_link_done_def assms(2)
  by (auto simp: wp_simps Let_def assms(3) update_link_done_def uint_bits
      intro!: wp_ksz ksz_poll_err ksz_poll_restart ksz_poll_mode [OF _ _ _ _ _ refl] ksz_poll_kept [OF _ _ _ _ _ _ refl] simp: ksz_status_reads_def ksz_up_def ksz_keeps_mode_def ksz_mode_read ksz_report_def)

text \<open>
  C38: polling a KSZ9031, in any state of the private data.  \<open>ksz_poll\<close> fails exactly when a read
  fails, and then leaves the status of the caller alone.  Otherwise it reads the control register
  and the status register: not at all while a restart of auto-negotiation is pending, once in polling
  mode, and else again when the first word shows the link down.  The link is that of the
  last status word, with auto-negotiation only once that is complete, and down during the restart.  With
  auto-negotiation and a link that was up before and still is, the stored mode is reported without
  another read; in every other case speed and duplex mode are what the control register, read
  again, is set to, so they are not resolved from what the partner offers.  Link and
  mode are stored; polling mode and auto-negotiation setting stay.  (The probe sets polling mode, and no
  function of the driver ever sets the auto-negotiation setting.)
\<close>

theorem ksz_poll_reports:
  assumes "bus_present (devs w p)" "d = priv w p" "c = callout_ctx (devs w p)"
    and "run_state (ksz_poll p st) w = ((rc, st'), w')"
  shows "kpd_irq (priv w' p) = kpd_irq d \<and> kpd_autoneg (priv w' p) = kpd_autoneg d \<and>
    (\<exists>evs. io w' = io w @ evs \<and> ksz_poll_trace c d st rc st' (priv w' p) evs)"
  using wp_run [OF ksz_poll_outcome [OF assms(1-3)] assms(4)] by simp

text \<open>An interrupt-driven device whose link stays up with auto-negotiation: two reads, the stored mode.\<close>

theorem ksz_poll_reports_witness:
  "let d = ksz_data_0\<lparr>kpd_autoneg := 1, kpd_link := 1, kpd_speed := 100, kpd_duplex := 1\<rparr>;
       w = sim_world (\<lambda>_. 0x64) (\<lambda>_. d)
   in val (ksz_poll 1 mepa_status_0) w = (MEPA_RC_OK,
        mepa_status_0\<lparr>st_link := True, st_speed := MEPA_SPEED_100M, st_fdx := True\<rparr>)"
proof -
  let ?d = "ksz_data_0\<lparr>kpd_autoneg := 1, kpd_link := 1, kpd_speed := 100, kpd_duplex := 1\<rparr>"
  let ?w = "sim_world (\<lambda>_. 0x64) (\<lambda>_. ?d)"
  let ?m = "ksz_poll 1 mepa_status_0"
  obtain rc st' where v: "val ?m ?w = (rc, st')" by fastforce
  have e: "io (exec ?m ?w) = io ?w @ [MiimRd 1 0 0 0x64, MiimRd 1 1 0 0x64]"
    by (simp add: ksz_poll_def genphy_read_status_def genphy_update_link_def phy_polling_mode_def
      genphy_link_read_def genphy_update_link_done_def update_link_done_def phy_read_def ksz_data_0_def sim_eval)
  obtain evs where t: "io (exec ?m ?w) = io ?w @ evs"
      "ksz_poll_trace (callout_ctx (devs ?w 1)) (priv ?w 1) mepa_status_0 rc st' (priv (exec ?m ?w) 1) evs"
    using ksz_poll_reports [OF _ refl refl, where w = ?w and p = 1 and st = mepa_status_0 and rc = rc and st' = st'
      and w' = "exec ?m ?w"] v by (auto simp: run_state_eq)
  then have "evs = [MiimRd 1 0 0 0x64, MiimRd 1 1 0 0x64]" using e by simp
  with t(2) v show ?thesis
    by (auto simp: ksz_poll_trace_def ksz_report_defs ksz_data_0_def sim_dev_def)
qed

end
