(* ===== verification/Dummy_Phy.thy ===== *)
theory Dummy_Phy
  imports Mepa_Driver Phy_Sim
begin

text \<open>
  The driver for ports without a PHY (\<open>mepa/dummy_phy/src/dummy_phy.c\<close>): it accesses no bus and reports
  the capability of the port as its link.  The family is number 12 of \<open>MEPA_phy_lib\<close>.
\<close>

abbreviation (input) DUMMY_FAMILY :: nat where "DUMMY_FAMILY \<equiv> 12"
abbreviation (input) MEBA_PORT_CAP_100M_FDX :: "32 word" where "MEBA_PORT_CAP_100M_FDX \<equiv> 0x10"
abbreviation (input) MEBA_PORT_CAP_1G_FDX :: "32 word" where "MEBA_PORT_CAP_1G_FDX \<equiv> 0x20"
abbreviation (input) MEBA_PORT_CAP_2_5G_FDX :: "32 word" where "MEBA_PORT_CAP_2_5G_FDX \<equiv> 0x40"
abbreviation (input) MEPA_CAP_SPEED_10G :: "32 word" where "MEPA_CAP_SPEED_10G \<equiv> 100000005"
abbreviation (input) MEPA_CAP_SPEED_MASK_10G :: "32 word" where "MEPA_CAP_SPEED_MASK_10G \<equiv> 0x4"

record dummy_data =
  dmy_cap :: "32 word"

type_synonym ('h, 'a) dmy = "('h, dummy_data, 'a) mepa"

definition dummy_speed :: "32 word \<Rightarrow> mepa_port_speed" where
  "dummy_speed cap = (if cap AND MEBA_PORT_CAP_2_5G_FDX \<noteq> 0 then MEPA_SPEED_2500M
     else if cap AND MEBA_PORT_CAP_1G_FDX \<noteq> 0 then MEPA_SPEED_1G
     else if cap AND MEBA_PORT_CAP_100M_FDX \<noteq> 0 then MEPA_SPEED_100M else MEPA_SPEED_10M)"

definition dummy_1g_poll :: "nat \<Rightarrow> mepa_status \<Rightarrow> ('h, mepa_rc \<times> mepa_status) dmy" where
  "dummy_1g_poll dev status = do {
     d \<leftarrow> data_of dev;
     State_Monad.return (MEPA_RC_OK, status\<lparr>st_link := True, st_speed := dummy_speed (dmy_cap d),
       st_fdx := True\<rparr>) }"

definition dummy_conf_set :: "nat \<Rightarrow> mepa_conf \<Rightarrow> ('h, mepa_rc) dmy" where
  "dummy_conf_set dev config = State_Monad.return MEPA_RC_OK"

definition dummy_capability :: "nat \<Rightarrow> 32 word \<Rightarrow> ('h, 32 word) dmy" where
  "dummy_capability dev capability =
     State_Monad.return (if capability = MEPA_CAP_SPEED_10G then 1 else 0)"

definition dummy_info_get :: "nat \<Rightarrow> mepa_phy_info \<Rightarrow> ('h, mepa_rc \<times> mepa_phy_info) dmy" where
  "dummy_info_get dev phy_info = do {
     let phy_info = phy_info\<lparr>info_cap := 0, info_part_number := 1234, info_revision := 5678\<rparr>;
     c \<leftarrow> dummy_capability dev MEPA_CAP_SPEED_10G;
     State_Monad.return (MEPA_RC_OK, if c \<noteq> 0
       then phy_info\<lparr>info_cap := info_cap phy_info OR MEPA_CAP_SPEED_MASK_10G\<rparr> else phy_info) }"

definition dummy_conf_get :: "nat \<Rightarrow> mepa_conf \<Rightarrow> ('h, mepa_rc \<times> mepa_conf) dmy" where
  "dummy_conf_get dev config = State_Monad.return (MEPA_RC_OK, config)"

definition dummy_reset :: "nat \<Rightarrow> mepa_reset_param \<Rightarrow> ('h, mepa_rc) dmy" where
  "dummy_reset dev rst_conf = State_Monad.return MEPA_RC_OK"

definition dummy_if_set :: "nat \<Rightarrow> mepa_port_interface \<Rightarrow> ('h, mepa_rc) dmy" where
  "dummy_if_set dev mac_if = State_Monad.return MEPA_RC_OK"

definition dummy_probe ::
  "nat \<Rightarrow> nat \<Rightarrow> drv_ptr \<Rightarrow> 'h mepa_callout \<Rightarrow> nat \<Rightarrow> mepa_board_conf \<Rightarrow> ('h, nat option) dmy" where
  "dummy_probe dev_size priv_size drv0 co ctx board_conf = do {
     dev \<leftarrow> mepa_create_int dev_size drv0 co ctx board_conf priv_size \<lparr>dmy_cap = 0\<rparr>;
     case dev of
       None \<Rightarrow> State_Monad.return None
     | Some p \<Rightarrow> do {
         upd_data p (\<lambda>d. d\<lparr>dmy_cap := board_dummy_phy_cap board_conf\<rparr>);
         State_Monad.return (Some p) }}"

definition dummy_driver :: "nat \<Rightarrow> nat \<Rightarrow> ('h, dummy_data) mepa_driver" where
  "dummy_driver dev_size priv_size = null_driver\<lparr>
     drv_id := 0xdeadbeef,
     drv_mask := 0xffffffff,
     mepa_driver_poll := Some dummy_1g_poll,
     mepa_driver_conf_set := Some dummy_conf_set,
     mepa_driver_probe := Some (dummy_probe dev_size priv_size),
     mepa_driver_capability := Some dummy_capability,
     mepa_driver_phy_info_get := Some dummy_info_get,
     mepa_driver_conf_get := Some dummy_conf_get,
     mepa_driver_reset := Some dummy_reset,
     mepa_driver_if_set := Some dummy_if_set\<rparr>"

definition mepa_dummy_driver_init :: "nat \<Rightarrow> nat \<Rightarrow> ('h, dummy_data) mepa_driver list" where
  "mepa_dummy_driver_init dev_size priv_size = [dummy_driver dev_size priv_size]"

section \<open>From creation to polling\<close>

text \<open>No driver of the table claims the identifier.\<close>

definition unclaimed :: "32 word \<Rightarrow> ('h, 'd) mepa_driver list \<Rightarrow> bool" where
  "unclaimed phy_id ds = list_all (\<lambda>d. drv_id d AND drv_mask d \<noteq> phy_id AND drv_mask d) ds"

lemma probe_drivers_unclaimed: "unclaimed phy_id ds \<Longrightarrow>
    probe_drivers co ctx conf phy_id i j ds = State_Monad.return None"
  by (induction ds arbitrary: j) (auto simp: unclaimed_def)

lemma probe_families_unclaimed: "list_all (unclaimed phy_id) fams \<Longrightarrow>
    run_state (probe_families co ctx conf phy_id i (fams @ rest)) w =
    run_state (probe_families co ctx conf phy_id (i + length fams) rest) w"
  by (induction fams arbitrary: i) (simp_all add: probe_drivers_unclaimed)

lemma dummy_probe_run:
  assumes "mem_alloc co = Some f" "f ctx (size_align (size_align ds + size_align ps)) (hw w) = (Some p, h)"
  shows "run_state (dummy_probe ds ps d co ctx conf) w = (Some p, w\<lparr>hw := h,
    devs := (devs w)(p := \<lparr>drv = d, numeric_handle = board_numeric_handle conf, callout = co, callout_ctx = ctx\<rparr>),
    priv := (priv w)(p := \<lparr>dmy_cap = board_dummy_phy_cap conf\<rparr>),
    io := io w @ [MemAlloc ctx (size_align (size_align ds + size_align ps)) (Some p)]\<rparr>)"
  using assms by (simp add: run_state_eq dummy_probe_def mepa_create_int_def mepa_mem_alloc_int_def
      co_mem_alloc_def set_dev_def prim_simps Let_def)

lemma dummy_cap_bits:
  "(cap AND 0x10 = 0) = (\<not> bit (cap :: 32 word) 4)" "(cap AND 0x20 = 0) = (\<not> bit cap 5)"
  "(cap AND 0x40 = 0) = (\<not> bit cap 6)"
proof -
  have "(cap AND 2 ^ n = 0) = (\<not> bit cap n)" if "n < 32" for n
    using that by (auto simp: and_exp_eq_0_iff_not_bit)
  from this [of 4] this [of 5] this [of 6]
  show "(cap AND 0x10 = 0) = (\<not> bit cap 4)" "(cap AND 0x20 = 0) = (\<not> bit cap 5)"
    "(cap AND 0x40 = 0) = (\<not> bit cap 6)" by simp_all
qed

lemma dummy_speed_bits:
  "(dummy_speed cap = MEPA_SPEED_2500M) = bit cap 6"
  "(dummy_speed cap = MEPA_SPEED_1G) = (bit cap 5 \<and> \<not> bit cap 6)"
  "(dummy_speed cap = MEPA_SPEED_100M) = (bit cap 4 \<and> \<not> bit cap 5 \<and> \<not> bit cap 6)"
  "(dummy_speed cap = MEPA_SPEED_10M) = (\<not> bit cap 4 \<and> \<not> bit cap 5 \<and> \<not> bit cap 6)"
  by (simp_all add: dummy_speed_def dummy_cap_bits)

text \<open>
  C39: a port without a PHY.  When the board gives a port a capability and no family before the dummy
  driver claims its identifier, \<open>mepa_create\<close> makes a device of the dummy driver with one allocation and without
  any access to the bus, and every poll of that device reports a link in full duplex, again
  without an access.  The speed is the fastest that the capability offers in full duplex: 2.5G when
  bit 6 is set, otherwise 1G when bit 5 is, otherwise 100M when bit 4 is, and 10M when none of the
  three is.
\<close>

theorem dummy_create_poll:
  assumes "length fams = DUMMY_FAMILY" "list_all (unclaimed 0xdeadbeef) fams"
    and "lib = fams @ mepa_dummy_driver_init ds ps # rest" "board_dummy_phy_cap conf > 0"
    and "mem_alloc co = Some f" "f ctx (size_align (size_align ds + size_align ps)) (hw w) = (Some p, h)"
    and "run_state (mepa_create lib co ctx conf) w = (r, w')"
    and "run_state (mepa_poll lib r st) w' = ((rc, st'), w'')"
    and "cap = board_dummy_phy_cap conf"
  shows "r = Some p \<and> drv (devs w' p) = (DUMMY_FAMILY, 0) \<and>
    io w' = io w @ [MemAlloc ctx (size_align (size_align ds + size_align ps)) (Some p)] \<and>
    w'' = w' \<and> rc = MEPA_RC_OK \<and> (\<exists>s. st' = st\<lparr>st_link := True, st_speed := s, st_fdx := True\<rparr> \<and>
      (s = MEPA_SPEED_2500M) = bit cap 6 \<and>
      (s = MEPA_SPEED_1G) = (bit cap 5 \<and> \<not> bit cap 6) \<and>
      (s = MEPA_SPEED_100M) = (bit cap 4 \<and> \<not> bit cap 5 \<and> \<not> bit cap 6) \<and>
      (s = MEPA_SPEED_10M) = (\<not> bit cap 4 \<and> \<not> bit cap 5 \<and> \<not> bit cap 6))"
proof -
  let ?d = "(DUMMY_FAMILY, 0 :: nat)"
  have tab: "drv_at lib ?d = dummy_driver ds ps"
    using assms(1,3) by (simp add: drv_at_def mepa_dummy_driver_init_def nth_append)
  note pr = dummy_probe_run [where d = ?d and conf = conf and ps = ps and ds = ds, OF assms(5,6)]
  have "run_state (mepa_create lib co ctx conf) w = run_state (dummy_probe ds ps ?d co ctx conf) w"
    unfolding mepa_create_def assms(3)
    using assms(1,2,4) pr by (simp add: run_state_eq probe_families_unclaimed [unfolded run_state_eq]
        mepa_dummy_driver_init_def dummy_driver_def null_driver_def)
  with pr assms(7) have c: "r = Some p" "drv (devs w' p) = ?d"
      "priv w' p = \<lparr>dmy_cap = board_dummy_phy_cap conf\<rparr>"
      "io w' = io w @ [MemAlloc ctx (size_align (size_align ds + size_align ps)) (Some p)]"
    by auto
  moreover have "run_state (mepa_poll lib r st) w' = ((MEPA_RC_OK, st\<lparr>st_link := True,
      st_speed := dummy_speed (board_dummy_phy_cap conf), st_fdx := True\<rparr>), w')"
    using c tab by (simp add: run_state_eq mepa_poll_def drv_call_def dummy_driver_def null_driver_def dummy_1g_poll_def)
  moreover note dummy_speed_bits [of "board_dummy_phy_cap conf"]
  ultimately show ?thesis using assms(8,9) by auto
qed

theorem dummy_create_poll_witness:
  "let lib = replicate 12 [] @ [mepa_dummy_driver_init 40 4];
       conf = \<lparr>board_numeric_handle = 3, board_dummy_phy_cap = 0x74\<rparr>;
       w = sim_world (\<lambda>_. 0) (\<lambda>_. \<lparr>dmy_cap = 0\<rparr>);
       m = do { r \<leftarrow> mepa_create lib sim_callout 7 conf; mepa_poll lib r mepa_status_0 }
   in st_link (snd (val m w)) \<and> st_speed (snd (val m w)) = MEPA_SPEED_2500M"
proof -
  let ?lib = "replicate 12 [] @ [mepa_dummy_driver_init 40 4]"
  let ?conf = "\<lparr>board_numeric_handle = 3, board_dummy_phy_cap = 0x74\<rparr>"
  let ?w = "sim_world (\<lambda>_. 0) (\<lambda>_. \<lparr>dmy_cap = 0\<rparr>)"
  let ?m = "mepa_create ?lib sim_callout 7 ?conf"
  obtain rc st' where v: "val (mepa_poll ?lib (val ?m ?w) mepa_status_0) (exec ?m ?w) = (rc, st')" by fastforce
  let ?f = "\<lambda>(c :: nat) n h. (Some (sim_next h), h\<lparr>sim_next := sim_next h + n\<rparr>)"
  have f: "mem_alloc sim_callout = Some ?f" by (simp add: sim_callout_def)
  have u: "list_all (unclaimed 0xdeadbeef) (replicate 12 ([] :: (sim, dummy_data) mepa_driver list))"
    by (simp add: list_all_iff unclaimed_def)
  have c: "run_state ?m ?w = (val ?m ?w, exec ?m ?w)" by (rule run_state_eq)
  have q: "run_state (mepa_poll ?lib (val ?m ?w) mepa_status_0) (exec ?m ?w) =
      ((rc, st'), exec (mepa_poll ?lib (val ?m ?w) mepa_status_0) (exec ?m ?w))"
    using v by (simp only: run_state_eq)
  have "st_link st' \<and> st_speed st' = MEPA_SPEED_2500M"
    using dummy_create_poll [OF _ u refl _ f refl c q refl] by auto
  then show ?thesis using v by (simp add: Let_def)
qed

end
