(* ===== verification/Mepa_Families.thy ===== *)
theory Mepa_Families
  imports Lan8814_Driver_Spec Lan887x_Driver Lan867x_Driver Lan884x_Driver Lan8770_Driver Ksz9031 Dummy_Phy
begin

text \<open>
  The PHY identifiers of the modelled families: \<open>mepa_create\<close> asks the families in the order of
  \<open>MEPA_phy_lib\<close> and takes the first driver that claims the identifier and whose probe succeeds, so the
  order matters only for an identifier that two families claim.
\<close>

definition drv_ids :: "('h, 'd) mepa_driver list \<Rightarrow> (32 word \<times> 32 word) list" where
  "drv_ids ds = map (\<lambda>d. (drv_id d, drv_mask d)) ds"

text \<open>The tables of \<open>MEPA_phy_lib\<close> that are modelled, by their index.\<close>

definition family_ids :: "nat \<Rightarrow> (32 word \<times> 32 word) list" where
  "family_ids f =
    (if f = 5 then drv_ids (mepa_lan8814_driver_init 0 0 :: (unit, phy_data) mepa_driver list)
     else if f = KSZ9031_FAMILY then drv_ids (mepa_ksz9031_driver_init 0 0 :: (unit, ksz_data) mepa_driver list)
     else if f = LAN8770_FAMILY then drv_ids (mepa_lan8770_driver_init :: (unit, lan8770_data) mepa_driver list)
     else if f = LAN884X_FAMILY then drv_ids (mepa_lan884x_driver_init 0 0 :: (unit, lan884x_data) mepa_driver list)
     else if f = LAN887X_FAMILY then drv_ids (mepa_lan887x_driver_init 0 0 0 :: (unit, lan887x_data) mepa_driver list)
     else if f = LAN867X_FAMILY then drv_ids (mepa_lan867x_driver_init 0 0 :: (unit, lan867x_data) mepa_driver list)
     else if f = DUMMY_FAMILY then drv_ids (mepa_dummy_driver_init 0 0 :: (unit, dummy_data) mepa_driver list)
     else [])"

definition claims :: "32 word \<Rightarrow> 32 word \<times> 32 word \<Rightarrow> bool" where
  "claims phy_id e = (case e of (i, m) \<Rightarrow> i AND m = phy_id AND m)"

text \<open>Two entries that differ in a bit of both masks claim no identifier together.\<close>

definition disjoint_ids :: "32 word \<times> 32 word \<Rightarrow> 32 word \<times> 32 word \<Rightarrow> bool" where
  "disjoint_ids e e' = (fst e AND (snd e AND snd e') \<noteq> fst e' AND (snd e AND snd e'))"

lemma claims_common:
  assumes "claims phy_id e" shows "fst e AND (snd e AND m) = phy_id AND (snd e AND m)"
proof -
  have "fst e AND snd e = phy_id AND snd e"
    using assms by (simp add: claims_def split: prod.splits)
  then have "(fst e AND snd e) AND m = (phy_id AND snd e) AND m" by (rule arg_cong)
  then show ?thesis by (simp only: and.assoc)
qed

lemma disjoint_ids_claims: "disjoint_ids e e' \<Longrightarrow> claims phy_id e \<Longrightarrow> \<not> claims phy_id e'"
  using claims_common [of phy_id e "snd e'"] claims_common [of phy_id e' "snd e"]
  unfolding disjoint_ids_def and.commute [of "snd e'"] by auto

lemma family_tables:
  "family_ids 5 = [(0x221660, 0xfffff0), (0x8804, 0xffff), (0x221670, 0xfffff0), (0x2216c0, 0xfffff0), (0x8832, 0xffff)]"
  "family_ids 6 = [(0x221622, 0xffffffff)]"
  "family_ids 7 = [(0x7C150, 0xFFFFF0), (0x7C1A0, 0xFFFFF0), (0x7C180, 0xFFFFF0), (0x74180, 0xFFFFF0)]"
  "family_ids 8 = [(0x221650, 0xfffff0)]"
  "family_ids 9 = [(0x7C1F2, 0xFFFF2)]"
  "family_ids 10 = [(0x7c160, 0xFFFFFFF0)]"
  "family_ids 12 = [(0xdeadbeef, 0xffffffff)]"
  by (simp_all add: family_ids_def drv_ids_def mepa_lan8814_driver_init_def driver_defs mepa_ksz9031_driver_init_def
      ksz_driver_def mepa_lan8770_driver_init_def lan8770_driver_def mepa_lan884x_driver_init_def lan884x_driver_def
      mepa_lan887x_driver_init_def lan887x_driver_def mepa_lan867x_driver_init_def lan867x_driver_def
      mepa_dummy_driver_init_def dummy_driver_def null_driver_def)

lemma family_ids_none: "f \<notin> {5, 6, 7, 8, 9, 10, 12} \<Longrightarrow> family_ids f = []"
  by (simp add: family_ids_def)

lemma families_disjoint:
  assumes "f \<in> {5, 6, 7, 8, 9, 10, 12}" "g \<in> {5, 6, 7, 8, 9, 10, 12}" "f \<noteq> g"
  shows "list_all (\<lambda>e. list_all (disjoint_ids e) (family_ids g)) (family_ids f)"
  using assms by (elim insertE emptyE; simp add: family_tables disjoint_ids_def)

text \<open>
  C40: safety.  No PHY identifier is claimed by the tables of two of the modelled families, so the family
  of the driver that \<open>mepa_create\<close> finds does not depend on the order of \<open>MEPA_phy_lib\<close>.
\<close>

theorem mepa_families_disjoint:
  assumes "list_ex (claims phy_id) (family_ids f)" "list_ex (claims phy_id) (family_ids g)"
  shows "f = g"
proof (rule ccontr)
  assume ne: "f \<noteq> g"
  from assms have "f \<in> {5, 6, 7, 8, 9, 10, 12}" "g \<in> {5, 6, 7, 8, 9, 10, 12}"
    using family_ids_none by fastforce+
  from families_disjoint [OF this ne] assms show False
    by (auto simp: list_ex_iff list_all_iff dest: disjoint_ids_claims)
qed

theorem mepa_families_disjoint_witness:
  "list_ex (claims 0x7C1A3) (family_ids LAN8770_FAMILY) \<and> \<not> list_ex (claims 0x7C1A3) (family_ids LAN887X_FAMILY)"
proof -
  have c: "list_ex (claims 0x7C1A3) (family_ids 7)"
    by (simp add: family_tables claims_def)
  then show ?thesis
    using mepa_families_disjoint [OF c, of 9] by auto
qed

end
