(* ===== verification/Spec2Isabelle.thy ===== *)
theory Spec2Isabelle
  imports Mepa_Api Phy_Lib Lan8814_Poll_Spec Lan8814_Ts_Class_Spec Lan887x_Spec Lan867x_Spec
    Lan884x_Spec Lan8770_Spec Mepa_Families
begin

text \<open>
  A model of MEPA, the Microchip Ethernet PHY API (\<open>mepa/\<close>), and of seven of
  its drivers: LAN8814, LAN887x, LAN867x, LAN8770, LAN884x, KSZ9031 and the dummy driver.

  \<^bold>\<open>The program.\<close>  An application creates a device per PHY port with \<open>mepa_create\<close>
  (\<open>mepa/common/src/phy.c\<close>), handing in its callouts: the MDIO accesses, the lock, the
  allocator.  \<open>mepa_create\<close> reads the PHY identifier, searches the driver tables of the PHY families
  and lets the driver found probe the port.  Every other function of the API dispatches
  through the device to the driver.  The LAN8814 driver
  (\<open>mepa/microchip/lan8814/src/lan8814.c\<close>) keeps the state of a port in \<open>phy_data_t\<close>, takes the lock,
  and works on the registers of the chip: the 32 direct ones of clause 22, the extended pages
  behind registers 22 and 23, the MMD registers behind registers 13 and 14.  Its timestamping unit
  (\<open>lan8814_ts.c\<close>) is reached through a second table, \<open>mepa_ts_driver_t\<close>: one clock per chip,
  owned by the base port, and per port a classifier, a clock configuration and a FIFO of egress
  timestamps.  The LAN887x driver (\<open>mepa/microchip/lan887x/src/lan887x.c\<close>, \<open>lan887x_tc10.c\<close>) is for a single-port
  100/1000BASE-T1 PHY with the wake and sleep functions of TC10, which are reached through a
  table of their own, \<open>mepa_tc10_driver_t\<close>.  It accesses registers through \<open>phy_lib.c\<close>, which drivers share.
  The LAN867x driver (\<open>mepa/microchip/lan867x/src/lan867x.c\<close>, \<open>lan867x_private.c\<close>, \<open>lan867x_t1s.c\<close>) is for a
  10BASE-T1S PHY, where the stations of a bus take turns (PLCA); the settings for that are
  reached through the table \<open>mepa_t1s_driver_t\<close>.
  The LAN8770 driver (\<open>mepa/microchip/lan8770/src\<close>) is for a 100BASE-T1 PHY with TC10; its devices and data are
  static arrays of nine slots, and its extended registers are behind the registers 20 to 22.  The LAN884x driver
  (\<open>mepa/microchip/lan884x/src/lan884x.c\<close>) and the KSZ9031 driver (\<open>mepa/ksz9031/phy_driver.c\<close>) are for
  gigabit PHYs with RGMII, the dummy driver (\<open>mepa/dummy_phy/src/dummy_phy.c\<close>) for ports without a PHY.

  \<^bold>\<open>The theories.\<close>
  \<^item> \<open>Mepa_Prelude\<close>: the state monad in which the C functions are written, weakest preconditions,
    \<open>keeps\<close> and \<open>moves\<close> (an operation keeps an invariant, or leads from one to another).
  \<^item> \<open>Mepa_Types\<close>, \<open>Mepa_Ts_Types\<close>: the enumerations, structures and return codes of the API headers.
  \<^item> \<open>Mepa_Callout\<close>: callouts, devices and the world; locks, sleep; the locales
    \<open>bus_invariant\<close>, \<open>world_invariant\<close> and \<open>lock_protocol\<close>, interpreted for the lock automaton over
    the trace and for the absence of calls through NULL.
  \<^item> \<open>Mdio\<close>: what the register windows of clause 22 mean: the trace of raw accesses is decoded into
    accesses of logical registers; the locale \<open>register_access\<close> is the contract of an accessor.
    \<open>Phy_Sim\<close> is a simulated chip that the witnesses use.
  \<^item> \<open>Phy_Lib\<close>: \<open>phy_lib.c\<close>, with arbitrary failing callouts.
  \<^item> \<open>Lan8814_Regs\<close>, \<open>Lan8814_Ts_Regs\<close>, \<open>Lan8814_Data\<close>: registers, bit fields, accessors and private data of the driver.
  \<^item> \<open>Lan8814_Conf\<close>, \<open>Lan8814_Poll\<close>, \<open>Lan8814_Misc\<close>, \<open>Lan8814_Line\<close>, \<open>Lan8814_Diag\<close>: the
    operations of \<open>lan8814.c\<close>, in the order of the source; \<open>Lan8814_Conf_Spec\<close> and
    \<open>Lan8814_Poll_Spec\<close> prove what they do.
  \<^item> \<open>Lan8814_Ts\<close>, \<open>Lan8814_Ts_Clock\<close>, \<open>Lan8814_Ts_Class\<close>: \<open>lan8814_ts.c\<close>: initialisation; the clock, latencies,
    pulse per second, events and FIFO; the classifiers, clock and test configurations.
    \<open>Lan8814_Ts_Spec\<close> and \<open>Lan8814_Ts_Class_Spec\<close> prove what they do.
  \<^item> \<open>Lan8814_Lock\<close>, \<open>Lan8814_Ts_Lock\<close>: every operation keeps every invariant of the bus and follows the lock
    protocol, but \<open>lan8814_eee_status_get\<close>, which takes no lock.  \<open>Lan8814_Ts_Safe\<close>: which timestamping operations
    reach no undefined behaviour, and where.
  \<^item> \<open>Mepa_Ts_Driver\<close>, \<open>Mepa_T1_Driver\<close>, \<open>Mepa_Driver\<close>, \<open>Mepa_Ts\<close>, \<open>Mepa_T1\<close>: the driver interfaces and
    \<open>phy.c\<close>, with the dispatch of timestamping, TC10 and T1S; \<open>Lan8814_Driver\<close>: probe, delete
    and the driver tables of \<open>lan8814.c\<close>; \<open>Lan8814_Driver_Spec\<close>: what the tables contain.
  \<^item> \<open>Mepa_Steps\<close>: histories of API calls, as the step relations \<open>mepa_step\<close>, \<open>mepa_ts_step\<close>, \<open>mepa_t1_step\<close>
    and their union \<open>api_step\<close>; the locale \<open>driver_table\<close> is what the functions of a driver's table
    have to keep for histories to keep it.  \<open>Mepa_Ts_Api\<close> and \<open>Mepa_Api\<close> interpret it for the LAN8814, for
    locking and for NULL-safety, with \<open>mepa_eee_status_get\<close> among the calls.
  \<^item> \<open>Mepa_Flow\<close>: \<open>MEPA_RC_GOTO\<close>, sequences with early exit, and operations under the lock, for the other drivers.
  \<^item> \<open>Lan887x_Regs\<close>, \<open>Lan887x_Data\<close>, \<open>Lan887x_Tc10\<close>, \<open>Lan887x_Conf\<close>, \<open>Lan887x_Diag\<close>, \<open>Lan887x_Ops\<close>,
    \<open>Lan887x_Driver\<close>: the LAN887x driver, in the order of the source.
  \<^item> \<open>Lan887x_Inv\<close>: the invariant of the private data and the locale \<open>lan887x_inv\<close>: what an invariant of the
    bus needs for every operation to keep it.  \<open>Lan887x_Api\<close> and \<open>Lan887x_Histories\<close> interpret it for the
    lock protocol, the private data and the absence of endless loops.
    \<open>Lan887x_Sqi\<close> and \<open>Lan887x_Spec\<close> prove what single operations do.
  \<^item> \<open>Lan867x_Regs\<close>, \<open>Lan867x_Conf\<close>, \<open>Lan867x_Driver\<close>: the LAN867x driver.  \<open>Lan867x_Api\<close>: the locales
    \<open>lan867x_acc\<close>, \<open>lan867x_bus\<close> and \<open>lan867x_locking\<close> for what its operations keep, and their interpretations;
    \<open>Lan867x_Spec\<close>: histories, the PLCA settings, the tuning.
  \<^item> \<open>Lan8770_Regs\<close>, \<open>Lan8770_Conf\<close>, \<open>Lan8770_Diag\<close>, \<open>Lan8770_Driver\<close>: the LAN8770 driver.  \<open>Lan8770_Api\<close>: the
    locales \<open>lan8770_acc\<close>, \<open>lan8770_bus\<close>, \<open>lan8770_locking\<close> and \<open>lan8770_api\<close>, interpreted for the lock protocol;
    \<open>Lan8770_Spec\<close>: waits, extended registers, loopback, configuration and reset, slots, histories.
  \<^item> \<open>Lan884x_Driver\<close>, \<open>Ksz9031\<close>, \<open>Dummy_Phy\<close>: the small drivers, the last two with what is proved of them;
    \<open>Lan884x_Spec\<close>: the MAC interface, configuration, locking and polling of the LAN884x.
  \<^item> \<open>Mepa_Families\<close>: the identifiers that the driver tables of the families claim.

  \<^bold>\<open>How state and operations correspond.\<close>  A C function is a value of the state monad over a
  record \<open>world\<close>: the devices, the private data per device, the content \<open>hw\<close> of everything behind
  the callouts (of an arbitrary type), and the trace \<open>io\<close> of what the code asked of its environment.
  Return codes are numbers, as in the source; an ignored return code is ignored in the
  model; \<open>MEPA_RC\<close> is the early return.  Out-parameters are results.  A NULL function pointer is \<open>None\<close>,
  and a call through one sets \<open>crashed\<close>, as does an index outside a latency table.  A call of the timestamp callback that the application
  installs is recorded in the trace.  Registers and counters are words of their width.

  \<^bold>\<open>Five kinds of statements.\<close>  On a bus that works, \<open>lspec\<close> gives the sequence of logical
  register accesses of an operation.  On any bus, \<open>pspec\<close> gives what becomes of the private data.
  \<open>tspec\<close> gives the raw accesses of the LAN8770, whose windows are not those of \<open>Mdio\<close>.
  \<open>keeps\<close> gives invariants.  \<open>wp\<close> gives outcomes with failing callouts.  The trace is
  only extended, and reads answer arbitrary values, so a theorem about the trace
  holds for every chip.

  \<^bold>\<open>Bounds.\<close>  All loops of the LAN8814 driver are bounded in the source and recurse over their
  bound.  The polling loops of \<open>phy_lib.c\<close> and the waits of the LAN887x driver run until a time-out; the
  model has fuel, and a run that uses it up sets \<open>stuck\<close>.  \<open>phy_mmd_reg_poll_returns\<close> shows that a clock
  that advances bounds the polling loops, and \<open>lan887x_never_stuck\<close> that fuel for 4,000,001 rounds (the
  microseconds of the time-out of 4 s, and one) is enough for every history of calls.
  The waits of the LAN8770 driver have no time-out that ends them; \<open>lan8770_rounds\<close> bounds the rounds of the model
  only, and \<open>lan8770_wait_clear_outcome\<close> shows that a wait gets stuck only when the hardware keeps
  the bit set for all of them.  \<open>lan8814_ts_tx_ts_get\<close>
  runs until the FIFO is empty; it has fuel too, and \<open>lan8814_ts_tx_ts_get_delivers\<close> shows that one round
  more than the valid entries the hardware shows is enough.

  \<^bold>\<open>Not modelled.\<close>  The text dumps of registers; MACsec and its dispatchers; the dispatcher of the debug dump; the variants of the LAN887x and
  LAN867x drivers with static memory, and the build switches of the LAN867x driver that are off by default; the drivers of other PHY families
  (LAN80xx and LAN8x8x of Microchip, VTSS, Aquantia, Intel), of which the VTSS library and the vendor APIs of
  Aquantia and Intel are separate programs; board descriptions, demo and documentation.
\<close>

end
